(* ===== verification/Prelude.thy ===== *)
theory Prelude
  imports Main "HOL-Library.Monad_Syntax"
begin

text \<open>
  What every component shares.  A TypeScript function that throws returns a value of
  \<open>'e + 'a\<close>: \<open>Inl\<close> is the thrown error, \<open>Inr\<close> the returned value.
  JavaScript strings are \<open>string\<close>; a character beyond ASCII is held as its UTF-8 bytes,
  so \<open>trim\<close> and \<open>toLowerCase\<close> below are the ASCII part of the JavaScript ones.
  The collection \<open>ok_iff\<close> turns "this handler succeeded" into the conjunction of the
  guards it passed.
\<close>

named_theorems ok_iff

section \<open>Results of handlers\<close>

definition bind_res :: "'e + 'a \<Rightarrow> ('a \<Rightarrow> 'e + 'b) \<Rightarrow> 'e + 'b" where
  "bind_res m f = (case m of Inl e \<Rightarrow> Inl e | Inr x \<Rightarrow> f x)"

definition guard_res :: "bool \<Rightarrow> 'e \<Rightarrow> 'e + unit" where
  "guard_res b e = (if b then Inr () else Inl e)"

definition of_option :: "'e \<Rightarrow> 'a option \<Rightarrow> 'e + 'a" where
  "of_option e m = (case m of None \<Rightarrow> Inl e | Some x \<Rightarrow> Inr x)"

lemma bind_res_simps [simp]:
  "bind_res (Inl e) f = Inl e"
  "bind_res (Inr x) f = f x"
  by (simp_all add: bind_res_def)

lemma bind_res_Inr [ok_iff]: "bind_res m f = Inr y \<longleftrightarrow> (\<exists>x. m = Inr x \<and> f x = Inr y)"
  by (cases m) auto

lemma guard_res_Inr [ok_iff]: "guard_res b e = Inr u \<longleftrightarrow> b"
  by (simp add: guard_res_def)

lemma guard_res_simps [simp]:
  "guard_res True e = Inr ()"
  "guard_res False e = Inl e"
  by (simp_all add: guard_res_def)

lemma of_option_Inr [ok_iff]: "of_option e m = Inr x \<longleftrightarrow> m = Some x"
  by (simp add: of_option_def split: option.splits)

lemma of_option_simps [simp]:
  "of_option e None = Inl e"
  "of_option e (Some x) = Inr x"
  by (simp_all add: of_option_def)

definition isOk :: "'e + 'a \<Rightarrow> bool" where
  "isOk m = (case m of Inl _ \<Rightarrow> False | Inr _ \<Rightarrow> True)"

lemma isOk_simps [simp]: "isOk (Inr x) = True" "isOk (Inl e) = False"
  by (simp_all add: isOk_def)

lemma isOk_iff: "isOk m \<longleftrightarrow> (\<exists>x. m = Inr x)"
  by (cases m) auto

section \<open>Lists used as tables\<close>

lemma find_SomeD: "find P xs = Some x \<Longrightarrow> x \<in> set xs \<and> P x"
  by (induction xs) (auto split: if_splits)

lemma find_Some_exists: "x \<in> set xs \<Longrightarrow> P x \<Longrightarrow> \<exists>y. find P xs = Some y"
  by (induction xs) auto

text \<open>The conditional pushes of the source: a list that holds a value exactly when a test holds.\<close>

definition whenl :: "bool \<Rightarrow> 'a \<Rightarrow> 'a list" where
  "whenl b x = (if b then [x] else [])"

lemma whenl_simps [simp]: "whenl True x = [x]" "whenl False x = []"
  by (simp_all add: whenl_def)

lemma set_whenl [simp]: "set (whenl b x) = (if b then {x} else {})"
  by (cases b) simp_all

lemma whenl_eq_Nil [simp]: "whenl b x = [] \<longleftrightarrow> \<not> b"
  by (cases b) simp_all

lemma length_whenl [simp]: "length (whenl b x) = (if b then 1 else 0)"
  by (cases b) simp_all

section \<open>Strings\<close>

text \<open>ASCII \<open>toLowerCase\<close> and \<open>trim\<close>.\<close>

definition lowerChar :: "char \<Rightarrow> char" where
  "lowerChar c = (if 65 \<le> (of_char c :: nat) \<and> of_char c \<le> (90 :: nat)
     then char_of ((of_char c :: nat) + 32) else c)"

definition toLowerCase :: "string \<Rightarrow> string" where
  "toLowerCase = map lowerChar"

definition isSpaceChar :: "char \<Rightarrow> bool" where
  "isSpaceChar c = (let n = (of_char c :: nat) in n = 32 \<or> (9 \<le> n \<and> n \<le> 13))"

definition trim :: "string \<Rightarrow> string" where
  "trim s = rev (dropWhile isSpaceChar (rev (dropWhile isSpaceChar s)))"

lemma lowerChar_idem [simp]: "lowerChar (lowerChar c) = lowerChar c"
  by (auto simp: lowerChar_def)

lemma toLowerCase_idem [simp]: "toLowerCase (toLowerCase s) = toLowerCase s"
  by (simp add: toLowerCase_def)

lemma trim_Nil_iff: "trim s = [] \<longleftrightarrow> (\<forall>c\<in>set s. isSpaceChar c)"
  by (auto simp: trim_def dropWhile_eq_Nil_conv dest: set_dropWhileD)
    (metis dropWhile_eq_Nil_conv hd_dropWhile list.set_sel(1))

definition upperChar :: "char \<Rightarrow> char" where
  "upperChar c = (if 97 \<le> (of_char c :: nat) \<and> of_char c \<le> (122 :: nat)
     then char_of ((of_char c :: nat) - 32) else c)"

definition toUpperCase :: "string \<Rightarrow> string" where
  "toUpperCase = map upperChar"

text \<open>\<open>startsWith\<close>, \<open>includes\<close>, \<open>join\<close>, and the truthiness of an optional string.\<close>

fun startsWith :: "string \<Rightarrow> string \<Rightarrow> bool" where
  "startsWith s [] = True"
| "startsWith [] (p # ps) = False"
| "startsWith (c # cs) (p # ps) = (c = p \<and> startsWith cs ps)"

fun includesStr :: "string \<Rightarrow> string \<Rightarrow> bool" where
  "includesStr [] sub = (sub = [])"
| "includesStr (c # cs) sub = (startsWith (c # cs) sub \<or> includesStr cs sub)"

fun joinWith :: "string \<Rightarrow> string list \<Rightarrow> string" where
  "joinWith sep [] = []"
| "joinWith sep [x] = x"
| "joinWith sep (x # y # ys) = x @ sep @ joinWith sep (y # ys)"

definition truthy :: "string option \<Rightarrow> bool" where
  "truthy x = (case x of None \<Rightarrow> False | Some s \<Rightarrow> s \<noteq> [])"

lemma truthy_simps [simp]: "truthy None = False" "truthy (Some s) \<longleftrightarrow> s \<noteq> []"
  by (simp_all add: truthy_def)

lemma truthy_iff: "truthy x \<longleftrightarrow> (\<exists>s. x = Some s \<and> s \<noteq> [])"
  by (cases x) auto

lemma startsWith_iff: "startsWith s p \<longleftrightarrow> (\<exists>r. s = p @ r)"
  by (induction s p rule: startsWith.induct) auto

lemma includesStr_iff: "includesStr s sub \<longleftrightarrow> (\<exists>a b. s = a @ sub @ b)"
proof (induction s)
  case (Cons c cs)
  have "(\<exists>a b. c # cs = a @ sub @ b) \<longleftrightarrow>
      (\<exists>b. c # cs = sub @ b) \<or> (\<exists>a b. cs = a @ sub @ b)"
    by (metis append_Cons append_Nil neq_Nil_conv list.inject)
  then show ?case using Cons.IH by (simp add: startsWith_iff)
qed auto

text \<open>A number in a template literal.\<close>

fun showNat :: "nat \<Rightarrow> string" where
  "showNat n = (if n < 10 then [char_of (48 + n)]
     else showNat (n div 10) @ [char_of (48 + n mod 10)])"

declare showNat.simps [simp del]

definition showInt :: "int \<Rightarrow> string" where
  "showInt i = (if i < 0 then ''-'' @ showNat (nat (- i)) else showNat (nat i))"

text \<open>\<open>a ?? b\<close>.\<close>

definition orText :: "string option \<Rightarrow> string \<Rightarrow> string" where
  "orText x other = (case x of None \<Rightarrow> other | Some y \<Rightarrow> y)"

definition orElse :: "'a option \<Rightarrow> 'a option \<Rightarrow> 'a option" where
  "orElse x y = (case x of None \<Rightarrow> y | Some v \<Rightarrow> Some v)"

text \<open>A table row update and an upsert: \<open>P\<close> is the \<open>where\<close> clause.\<close>

definition updateWhere :: "('a \<Rightarrow> bool) \<Rightarrow> ('a \<Rightarrow> 'a) \<Rightarrow> 'a list \<Rightarrow> 'a list" where
  "updateWhere P f = map (\<lambda>x. if P x then f x else x)"

definition upsertWhere :: "('a \<Rightarrow> bool) \<Rightarrow> ('a \<Rightarrow> 'a) \<Rightarrow> 'a \<Rightarrow> 'a list \<Rightarrow> 'a list" where
  "upsertWhere P f new xs = (if list_ex P xs then updateWhere P f xs else xs @ [new])"

lemma updateWhere_simps [simp]:
  "updateWhere P f [] = []"
  "updateWhere P f (x # xs) = (if P x then f x else x) # updateWhere P f xs"
  by (simp_all add: updateWhere_def)

lemma set_updateWhere: "y \<in> set (updateWhere P f xs) \<longleftrightarrow>
    (\<exists>x\<in>set xs. (P x \<and> y = f x) \<or> (\<not> P x \<and> y = x))"
  by (auto simp: updateWhere_def)

lemma updateWhere_mem: "x \<in> set xs \<Longrightarrow> (if P x then f x else x) \<in> set (updateWhere P f xs)"
  by (auto simp: updateWhere_def)

lemma updateWhere_elem:
  "y \<in> set (updateWhere P f xs) \<Longrightarrow> \<exists>x\<in>set xs. y = (if P x then f x else x)"
  by (auto simp: updateWhere_def)

lemma map_updateWhere: "(\<And>x. g (f x) = g x) \<Longrightarrow> map g (updateWhere P f xs) = map g xs"
  by (induction xs) auto

lemma filter_updateWhere:
  assumes "\<And>x. P x \<Longrightarrow> \<not> Q x" and "\<And>x. P x \<Longrightarrow> \<not> Q (f x)"
  shows "filter Q (updateWhere P f xs) = filter Q xs"
proof (induction xs)
  case (Cons x xs)
  then show ?case using assms[of x] by (cases "P x") simp_all
qed simp

lemma set_upsertWhere:
  assumes "y \<in> set (upsertWhere P f new xs)"
  shows "y = new \<or> (\<exists>x\<in>set xs. (P x \<and> y = f x) \<or> (\<not> P x \<and> y = x))"
proof (cases "list_ex P xs")
  case True
  then show ?thesis using assms by (simp add: upsertWhere_def set_updateWhere)
next
  case False
  then have "\<not> P y" if "y \<in> set xs" using that by (auto simp: list_ex_iff)
  then show ?thesis using assms False by (auto simp: upsertWhere_def)
qed

lemma all_updateWhere:
  assumes "\<forall>x\<in>set xs. Q x" and "\<And>x. x \<in> set xs \<Longrightarrow> P x \<Longrightarrow> Q x \<Longrightarrow> Q (f x)"
  shows "\<forall>y\<in>set (updateWhere P f xs). Q y"
  using assms by (auto simp: set_updateWhere)

lemma distinct_key_unique:
  "distinct (map k xs) \<Longrightarrow> x \<in> set xs \<Longrightarrow> y \<in> set xs \<Longrightarrow> k x = k y \<Longrightarrow> x = y"
  by (metis distinct_map inj_on_eq_iff)

end
