(* ===== verification/Authz.thy ===== *)
theory Authz
  imports Prelude
begin

text \<open>
  Roles, capabilities and their resolution (\<open>packages/authz/src\<close>).  The 146 capability
  names of \<open>capabilities.ts\<close> are constructors, \<open>c_\<close> followed by the name with its dots
  as underscores, in ten groups of consecutive names of the source list; \<open>capability_name\<close> gives the name back.  The constant tables of
  \<open>permissions.ts\<close> keep the source's order and its spreads (\<open>@\<close>); a
  \<open>ReadonlySet\<close> is a HOL set.
\<close>

section \<open>Roles\<close>

datatype tenant_role =
    TENANT_OWNER | TENANT_ADMIN | COMMERCIAL_MANAGER | CONTRACTS_MANAGER | PROJECT_MANAGER
    | REVIEWER | VIEWER

datatype project_role =
    P_PROJECT_ADMIN | P_COMMERCIAL_LEAD | P_CONTRACTS_LEAD | P_PROJECT_MANAGER | P_REVIEWER
    | P_CONTRIBUTOR | P_VIEWER

datatype project_status = P_DRAFT | P_ACTIVE | P_SUSPENDED | P_CLOSED | P_ARCHIVED

fun TENANT_ROLE_RANK :: "tenant_role \<Rightarrow> nat" where
  "TENANT_ROLE_RANK TENANT_OWNER = 100"
| "TENANT_ROLE_RANK TENANT_ADMIN = 90"
| "TENANT_ROLE_RANK COMMERCIAL_MANAGER = 50"
| "TENANT_ROLE_RANK CONTRACTS_MANAGER = 50"
| "TENANT_ROLE_RANK PROJECT_MANAGER = 40"
| "TENANT_ROLE_RANK REVIEWER = 20"
| "TENANT_ROLE_RANK VIEWER = 10"

fun PROJECT_ROLE_RANK :: "project_role \<Rightarrow> nat" where
  "PROJECT_ROLE_RANK P_PROJECT_ADMIN = 100"
| "PROJECT_ROLE_RANK P_COMMERCIAL_LEAD = 70"
| "PROJECT_ROLE_RANK P_CONTRACTS_LEAD = 70"
| "PROJECT_ROLE_RANK P_PROJECT_MANAGER = 60"
| "PROJECT_ROLE_RANK P_REVIEWER = 40"
| "PROJECT_ROLE_RANK P_CONTRIBUTOR = 30"
| "PROJECT_ROLE_RANK P_VIEWER = 10"

definition canAssignTenantRole :: "tenant_role \<Rightarrow> tenant_role \<Rightarrow> bool" where
  "canAssignTenantRole actorRole targetRole =
     (if actorRole \<noteq> TENANT_OWNER \<and> actorRole \<noteq> TENANT_ADMIN then False
      else if actorRole = TENANT_ADMIN \<and> targetRole = TENANT_OWNER then False
      else TENANT_ROLE_RANK targetRole \<le> TENANT_ROLE_RANK actorRole)"

definition canAssignProjectRole ::
  "tenant_role option \<Rightarrow> project_role option \<Rightarrow> project_role \<Rightarrow> bool" where
  "canAssignProjectRole actorTenantRole actorProjectRole targetRole =
     (let tenantCanManage =
        actorTenantRole = Some TENANT_OWNER \<or> actorTenantRole = Some TENANT_ADMIN
        \<or> actorTenantRole = Some PROJECT_MANAGER
      in if tenantCanManage then True
         else if actorProjectRole = Some P_PROJECT_ADMIN
              then PROJECT_ROLE_RANK targetRole \<le> PROJECT_ROLE_RANK P_PROJECT_ADMIN
         else False)"

section \<open>Capabilities\<close>

datatype tenant_cap =
    c_tenant_read | c_tenant_manage | c_tenant_members_read | c_tenant_members_manage
    | c_project_create | c_project_read | c_project_update | c_project_archive
    | c_project_members_read | c_project_members_manage | c_audit_read

datatype document_cap =
    c_document_create | c_document_read | c_document_download | c_document_update_metadata
    | c_document_add_version | c_document_archive | c_document_processing_retry
    | c_document_processing_view | c_document_quarantine_view
    | c_document_quarantine_manage | c_project_storage_manage

datatype contract_cap =
    c_contract_package_create | c_contract_package_read | c_contract_package_update
    | c_contract_document_attach | c_contract_structure_run | c_contract_structure_review
    | c_contract_configuration_submit | c_contract_configuration_approve
    | c_contract_configuration_supersede | c_contract_issue_manage

datatype event_cap =
    c_project_event_create | c_project_event_read | c_project_event_update
    | c_project_event_confirm | c_project_event_dispute | c_deadline_rule_assess
    | c_deadline_calculate | c_deadline_review | c_deadline_verify | c_deadline_track
    | c_deadline_assign | c_deadline_complete | c_deadline_recalculate
    | c_project_calendar_manage | c_project_calendar_approve | c_warning_policy_manage

datatype detection_cap =
    c_detection_run_create | c_detection_run_read | c_detection_run_cancel
    | c_event_suggestion_read | c_event_suggestion_review | c_event_suggestion_accept
    | c_event_suggestion_reject | c_event_suggestion_merge
    | c_event_suggestion_request_evidence | c_detection_rules_manage
    | c_detection_evaluation_read | c_reviewer_feedback_read

datatype notice_cap =
    c_notice_package_create | c_notice_package_read | c_notice_package_update
    | c_notice_package_withdraw | c_notice_evidence_assess | c_notice_evidence_link
    | c_notice_question_create | c_notice_question_answer | c_notice_fact_create
    | c_notice_fact_verify | c_notice_draft_generate | c_notice_draft_edit
    | c_notice_draft_review | c_notice_draft_submit | c_notice_draft_approve
    | c_notice_draft_reject | c_notice_exception_approve | c_notice_attachment_manage
    | c_notice_export_generate | c_notice_export_read | c_notice_template_manage
    | c_notice_template_approve

datatype delivery_cap =
    c_notice_dispatch_prepare | c_notice_dispatch_request_authorization
    | c_notice_dispatch_authorize | c_notice_dispatch_revoke | c_notice_dispatch_send
    | c_notice_dispatch_cancel | c_notice_dispatch_retry | c_notice_dispatch_record_manual
    | c_notice_dispatch_read | c_dispatch_evidence_upload | c_dispatch_evidence_verify
    | c_notice_receipt_assess | c_notice_receipt_confirm | c_notice_acknowledgment_record
    | c_notice_acknowledgment_verify | c_delivery_provider_manage | c_delivery_webhook_read
    | c_delivery_risk_read

datatype connector_cap =
    c_connector_account_create | c_connector_account_read | c_connector_account_update
    | c_connector_account_validate | c_connector_account_approve
    | c_connector_account_disable | c_connector_scope_create | c_connector_scope_approve
    | c_connector_sync_run | c_connector_sync_cancel | c_connector_sync_read

datatype operations_cap =
    c_operational_alert_read | c_operational_alert_acknowledge | c_operational_alert_assign
    | c_operational_alert_dismiss | c_operational_alert_resolve
    | c_escalation_policy_manage | c_escalation_policy_approve | c_operational_task_create
    | c_operational_task_assign | c_operational_task_complete | c_portfolio_read
    | c_operations_dashboard_read | c_internal_notification_read | c_saved_view_manage

datatype platform_cap =
    c_tenant_admin_read | c_tenant_admin_manage | c_tenant_invitation_manage
    | c_tenant_limits_manage | c_tenant_feature_flags_manage | c_support_access_request
    | c_support_access_approve | c_support_access_revoke | c_support_access_read
    | c_provider_enablement_manage | c_provider_enablement_approve
    | c_provider_kill_switch_manage | c_pilot_configuration_manage
    | c_pilot_readiness_manage | c_pilot_readiness_activate | c_backup_run_read
    | c_restore_test_read | c_platform_operations_read | c_incident_manage | c_audit_export
    | c_offboarding_manage

datatype capability =
    TenantCap tenant_cap
  | DocumentCap document_cap
  | ContractCap contract_cap
  | EventCap event_cap
  | DetectionCap detection_cap
  | NoticeCap notice_cap
  | DeliveryCap delivery_cap
  | ConnectorCap connector_cap
  | OperationsCap operations_cap
  | PlatformCap platform_cap

definition CAPABILITIES :: "capability list" where
  "CAPABILITIES =
    [TenantCap c_tenant_read, TenantCap c_tenant_manage, TenantCap c_tenant_members_read,
     TenantCap c_tenant_members_manage, TenantCap c_project_create,
     TenantCap c_project_read, TenantCap c_project_update, TenantCap c_project_archive,
     TenantCap c_project_members_read, TenantCap c_project_members_manage,
     TenantCap c_audit_read, DocumentCap c_document_create, DocumentCap c_document_read,
     DocumentCap c_document_download, DocumentCap c_document_update_metadata,
     DocumentCap c_document_add_version, DocumentCap c_document_archive,
     DocumentCap c_document_processing_retry, DocumentCap c_document_processing_view,
     DocumentCap c_document_quarantine_view, DocumentCap c_document_quarantine_manage,
     DocumentCap c_project_storage_manage, ContractCap c_contract_package_create,
     ContractCap c_contract_package_read, ContractCap c_contract_package_update,
     ContractCap c_contract_document_attach, ContractCap c_contract_structure_run,
     ContractCap c_contract_structure_review, ContractCap c_contract_configuration_submit,
     ContractCap c_contract_configuration_approve,
     ContractCap c_contract_configuration_supersede, ContractCap c_contract_issue_manage,
     EventCap c_project_event_create, EventCap c_project_event_read,
     EventCap c_project_event_update, EventCap c_project_event_confirm,
     EventCap c_project_event_dispute, EventCap c_deadline_rule_assess,
     EventCap c_deadline_calculate, EventCap c_deadline_review, EventCap c_deadline_verify,
     EventCap c_deadline_track, EventCap c_deadline_assign, EventCap c_deadline_complete,
     EventCap c_deadline_recalculate, EventCap c_project_calendar_manage,
     EventCap c_project_calendar_approve, EventCap c_warning_policy_manage,
     DetectionCap c_detection_run_create, DetectionCap c_detection_run_read,
     DetectionCap c_detection_run_cancel, DetectionCap c_event_suggestion_read,
     DetectionCap c_event_suggestion_review, DetectionCap c_event_suggestion_accept,
     DetectionCap c_event_suggestion_reject, DetectionCap c_event_suggestion_merge,
     DetectionCap c_event_suggestion_request_evidence,
     DetectionCap c_detection_rules_manage, DetectionCap c_detection_evaluation_read,
     DetectionCap c_reviewer_feedback_read, NoticeCap c_notice_package_create,
     NoticeCap c_notice_package_read, NoticeCap c_notice_package_update,
     NoticeCap c_notice_package_withdraw, NoticeCap c_notice_evidence_assess,
     NoticeCap c_notice_evidence_link, NoticeCap c_notice_question_create,
     NoticeCap c_notice_question_answer, NoticeCap c_notice_fact_create,
     NoticeCap c_notice_fact_verify, NoticeCap c_notice_draft_generate,
     NoticeCap c_notice_draft_edit, NoticeCap c_notice_draft_review,
     NoticeCap c_notice_draft_submit, NoticeCap c_notice_draft_approve,
     NoticeCap c_notice_draft_reject, NoticeCap c_notice_exception_approve,
     NoticeCap c_notice_attachment_manage, NoticeCap c_notice_export_generate,
     NoticeCap c_notice_export_read, NoticeCap c_notice_template_manage,
     NoticeCap c_notice_template_approve, DeliveryCap c_notice_dispatch_prepare,
     DeliveryCap c_notice_dispatch_request_authorization,
     DeliveryCap c_notice_dispatch_authorize, DeliveryCap c_notice_dispatch_revoke,
     DeliveryCap c_notice_dispatch_send, DeliveryCap c_notice_dispatch_cancel,
     DeliveryCap c_notice_dispatch_retry, DeliveryCap c_notice_dispatch_record_manual,
     DeliveryCap c_notice_dispatch_read, DeliveryCap c_dispatch_evidence_upload,
     DeliveryCap c_dispatch_evidence_verify, DeliveryCap c_notice_receipt_assess,
     DeliveryCap c_notice_receipt_confirm, DeliveryCap c_notice_acknowledgment_record,
     DeliveryCap c_notice_acknowledgment_verify, DeliveryCap c_delivery_provider_manage,
     DeliveryCap c_delivery_webhook_read, DeliveryCap c_delivery_risk_read,
     ConnectorCap c_connector_account_create, ConnectorCap c_connector_account_read,
     ConnectorCap c_connector_account_update, ConnectorCap c_connector_account_validate,
     ConnectorCap c_connector_account_approve, ConnectorCap c_connector_account_disable,
     ConnectorCap c_connector_scope_create, ConnectorCap c_connector_scope_approve,
     ConnectorCap c_connector_sync_run, ConnectorCap c_connector_sync_cancel,
     ConnectorCap c_connector_sync_read, OperationsCap c_operational_alert_read,
     OperationsCap c_operational_alert_acknowledge,
     OperationsCap c_operational_alert_assign, OperationsCap c_operational_alert_dismiss,
     OperationsCap c_operational_alert_resolve, OperationsCap c_escalation_policy_manage,
     OperationsCap c_escalation_policy_approve, OperationsCap c_operational_task_create,
     OperationsCap c_operational_task_assign, OperationsCap c_operational_task_complete,
     OperationsCap c_portfolio_read, OperationsCap c_operations_dashboard_read,
     OperationsCap c_internal_notification_read, OperationsCap c_saved_view_manage,
     PlatformCap c_tenant_admin_read, PlatformCap c_tenant_admin_manage,
     PlatformCap c_tenant_invitation_manage, PlatformCap c_tenant_limits_manage,
     PlatformCap c_tenant_feature_flags_manage, PlatformCap c_support_access_request,
     PlatformCap c_support_access_approve, PlatformCap c_support_access_revoke,
     PlatformCap c_support_access_read, PlatformCap c_provider_enablement_manage,
     PlatformCap c_provider_enablement_approve, PlatformCap c_provider_kill_switch_manage,
     PlatformCap c_pilot_configuration_manage, PlatformCap c_pilot_readiness_manage,
     PlatformCap c_pilot_readiness_activate, PlatformCap c_backup_run_read,
     PlatformCap c_restore_test_read, PlatformCap c_platform_operations_read,
     PlatformCap c_incident_manage, PlatformCap c_audit_export,
     PlatformCap c_offboarding_manage]"

fun tenant_cap_name :: "tenant_cap \<Rightarrow> string" where
  "tenant_cap_name c_tenant_read = ''tenant.read''"
| "tenant_cap_name c_tenant_manage = ''tenant.manage''"
| "tenant_cap_name c_tenant_members_read = ''tenant.members.read''"
| "tenant_cap_name c_tenant_members_manage = ''tenant.members.manage''"
| "tenant_cap_name c_project_create = ''project.create''"
| "tenant_cap_name c_project_read = ''project.read''"
| "tenant_cap_name c_project_update = ''project.update''"
| "tenant_cap_name c_project_archive = ''project.archive''"
| "tenant_cap_name c_project_members_read = ''project.members.read''"
| "tenant_cap_name c_project_members_manage = ''project.members.manage''"
| "tenant_cap_name c_audit_read = ''audit.read''"

fun document_cap_name :: "document_cap \<Rightarrow> string" where
  "document_cap_name c_document_create = ''document.create''"
| "document_cap_name c_document_read = ''document.read''"
| "document_cap_name c_document_download = ''document.download''"
| "document_cap_name c_document_update_metadata = ''document.update_metadata''"
| "document_cap_name c_document_add_version = ''document.add_version''"
| "document_cap_name c_document_archive = ''document.archive''"
| "document_cap_name c_document_processing_retry = ''document.processing.retry''"
| "document_cap_name c_document_processing_view = ''document.processing.view''"
| "document_cap_name c_document_quarantine_view = ''document.quarantine.view''"
| "document_cap_name c_document_quarantine_manage = ''document.quarantine.manage''"
| "document_cap_name c_project_storage_manage = ''project.storage.manage''"

fun contract_cap_name :: "contract_cap \<Rightarrow> string" where
  "contract_cap_name c_contract_package_create = ''contract_package.create''"
| "contract_cap_name c_contract_package_read = ''contract_package.read''"
| "contract_cap_name c_contract_package_update = ''contract_package.update''"
| "contract_cap_name c_contract_document_attach = ''contract_document.attach''"
| "contract_cap_name c_contract_structure_run = ''contract_structure.run''"
| "contract_cap_name c_contract_structure_review = ''contract_structure.review''"
| "contract_cap_name c_contract_configuration_submit = ''contract_configuration.submit''"
| "contract_cap_name c_contract_configuration_approve = ''contract_configuration.approve''"
| "contract_cap_name c_contract_configuration_supersede = ''contract_configuration.supersede''"
| "contract_cap_name c_contract_issue_manage = ''contract_issue.manage''"

fun event_cap_name :: "event_cap \<Rightarrow> string" where
  "event_cap_name c_project_event_create = ''project_event.create''"
| "event_cap_name c_project_event_read = ''project_event.read''"
| "event_cap_name c_project_event_update = ''project_event.update''"
| "event_cap_name c_project_event_confirm = ''project_event.confirm''"
| "event_cap_name c_project_event_dispute = ''project_event.dispute''"
| "event_cap_name c_deadline_rule_assess = ''deadline_rule.assess''"
| "event_cap_name c_deadline_calculate = ''deadline.calculate''"
| "event_cap_name c_deadline_review = ''deadline.review''"
| "event_cap_name c_deadline_verify = ''deadline.verify''"
| "event_cap_name c_deadline_track = ''deadline.track''"
| "event_cap_name c_deadline_assign = ''deadline.assign''"
| "event_cap_name c_deadline_complete = ''deadline.complete''"
| "event_cap_name c_deadline_recalculate = ''deadline.recalculate''"
| "event_cap_name c_project_calendar_manage = ''project_calendar.manage''"
| "event_cap_name c_project_calendar_approve = ''project_calendar.approve''"
| "event_cap_name c_warning_policy_manage = ''warning_policy.manage''"

fun detection_cap_name :: "detection_cap \<Rightarrow> string" where
  "detection_cap_name c_detection_run_create = ''detection_run.create''"
| "detection_cap_name c_detection_run_read = ''detection_run.read''"
| "detection_cap_name c_detection_run_cancel = ''detection_run.cancel''"
| "detection_cap_name c_event_suggestion_read = ''event_suggestion.read''"
| "detection_cap_name c_event_suggestion_review = ''event_suggestion.review''"
| "detection_cap_name c_event_suggestion_accept = ''event_suggestion.accept''"
| "detection_cap_name c_event_suggestion_reject = ''event_suggestion.reject''"
| "detection_cap_name c_event_suggestion_merge = ''event_suggestion.merge''"
| "detection_cap_name c_event_suggestion_request_evidence = ''event_suggestion.request_evidence''"
| "detection_cap_name c_detection_rules_manage = ''detection_rules.manage''"
| "detection_cap_name c_detection_evaluation_read = ''detection_evaluation.read''"
| "detection_cap_name c_reviewer_feedback_read = ''reviewer_feedback.read''"

fun notice_cap_name :: "notice_cap \<Rightarrow> string" where
  "notice_cap_name c_notice_package_create = ''notice_package.create''"
| "notice_cap_name c_notice_package_read = ''notice_package.read''"
| "notice_cap_name c_notice_package_update = ''notice_package.update''"
| "notice_cap_name c_notice_package_withdraw = ''notice_package.withdraw''"
| "notice_cap_name c_notice_evidence_assess = ''notice_evidence.assess''"
| "notice_cap_name c_notice_evidence_link = ''notice_evidence.link''"
| "notice_cap_name c_notice_question_create = ''notice_question.create''"
| "notice_cap_name c_notice_question_answer = ''notice_question.answer''"
| "notice_cap_name c_notice_fact_create = ''notice_fact.create''"
| "notice_cap_name c_notice_fact_verify = ''notice_fact.verify''"
| "notice_cap_name c_notice_draft_generate = ''notice_draft.generate''"
| "notice_cap_name c_notice_draft_edit = ''notice_draft.edit''"
| "notice_cap_name c_notice_draft_review = ''notice_draft.review''"
| "notice_cap_name c_notice_draft_submit = ''notice_draft.submit''"
| "notice_cap_name c_notice_draft_approve = ''notice_draft.approve''"
| "notice_cap_name c_notice_draft_reject = ''notice_draft.reject''"
| "notice_cap_name c_notice_exception_approve = ''notice_exception.approve''"
| "notice_cap_name c_notice_attachment_manage = ''notice_attachment.manage''"
| "notice_cap_name c_notice_export_generate = ''notice_export.generate''"
| "notice_cap_name c_notice_export_read = ''notice_export.read''"
| "notice_cap_name c_notice_template_manage = ''notice_template.manage''"
| "notice_cap_name c_notice_template_approve = ''notice_template.approve''"

fun delivery_cap_name :: "delivery_cap \<Rightarrow> string" where
  "delivery_cap_name c_notice_dispatch_prepare = ''notice_dispatch.prepare''"
| "delivery_cap_name c_notice_dispatch_request_authorization = ''notice_dispatch.request_authorization''"
| "delivery_cap_name c_notice_dispatch_authorize = ''notice_dispatch.authorize''"
| "delivery_cap_name c_notice_dispatch_revoke = ''notice_dispatch.revoke''"
| "delivery_cap_name c_notice_dispatch_send = ''notice_dispatch.send''"
| "delivery_cap_name c_notice_dispatch_cancel = ''notice_dispatch.cancel''"
| "delivery_cap_name c_notice_dispatch_retry = ''notice_dispatch.retry''"
| "delivery_cap_name c_notice_dispatch_record_manual = ''notice_dispatch.record_manual''"
| "delivery_cap_name c_notice_dispatch_read = ''notice_dispatch.read''"
| "delivery_cap_name c_dispatch_evidence_upload = ''dispatch_evidence.upload''"
| "delivery_cap_name c_dispatch_evidence_verify = ''dispatch_evidence.verify''"
| "delivery_cap_name c_notice_receipt_assess = ''notice_receipt.assess''"
| "delivery_cap_name c_notice_receipt_confirm = ''notice_receipt.confirm''"
| "delivery_cap_name c_notice_acknowledgment_record = ''notice_acknowledgment.record''"
| "delivery_cap_name c_notice_acknowledgment_verify = ''notice_acknowledgment.verify''"
| "delivery_cap_name c_delivery_provider_manage = ''delivery_provider.manage''"
| "delivery_cap_name c_delivery_webhook_read = ''delivery_webhook.read''"
| "delivery_cap_name c_delivery_risk_read = ''delivery_risk.read''"

fun connector_cap_name :: "connector_cap \<Rightarrow> string" where
  "connector_cap_name c_connector_account_create = ''connector_account.create''"
| "connector_cap_name c_connector_account_read = ''connector_account.read''"
| "connector_cap_name c_connector_account_update = ''connector_account.update''"
| "connector_cap_name c_connector_account_validate = ''connector_account.validate''"
| "connector_cap_name c_connector_account_approve = ''connector_account.approve''"
| "connector_cap_name c_connector_account_disable = ''connector_account.disable''"
| "connector_cap_name c_connector_scope_create = ''connector_scope.create''"
| "connector_cap_name c_connector_scope_approve = ''connector_scope.approve''"
| "connector_cap_name c_connector_sync_run = ''connector_sync.run''"
| "connector_cap_name c_connector_sync_cancel = ''connector_sync.cancel''"
| "connector_cap_name c_connector_sync_read = ''connector_sync.read''"

fun operations_cap_name :: "operations_cap \<Rightarrow> string" where
  "operations_cap_name c_operational_alert_read = ''operational_alert.read''"
| "operations_cap_name c_operational_alert_acknowledge = ''operational_alert.acknowledge''"
| "operations_cap_name c_operational_alert_assign = ''operational_alert.assign''"
| "operations_cap_name c_operational_alert_dismiss = ''operational_alert.dismiss''"
| "operations_cap_name c_operational_alert_resolve = ''operational_alert.resolve''"
| "operations_cap_name c_escalation_policy_manage = ''escalation_policy.manage''"
| "operations_cap_name c_escalation_policy_approve = ''escalation_policy.approve''"
| "operations_cap_name c_operational_task_create = ''operational_task.create''"
| "operations_cap_name c_operational_task_assign = ''operational_task.assign''"
| "operations_cap_name c_operational_task_complete = ''operational_task.complete''"
| "operations_cap_name c_portfolio_read = ''portfolio.read''"
| "operations_cap_name c_operations_dashboard_read = ''operations_dashboard.read''"
| "operations_cap_name c_internal_notification_read = ''internal_notification.read''"
| "operations_cap_name c_saved_view_manage = ''saved_view.manage''"

fun platform_cap_name :: "platform_cap \<Rightarrow> string" where
  "platform_cap_name c_tenant_admin_read = ''tenant_admin.read''"
| "platform_cap_name c_tenant_admin_manage = ''tenant_admin.manage''"
| "platform_cap_name c_tenant_invitation_manage = ''tenant_invitation.manage''"
| "platform_cap_name c_tenant_limits_manage = ''tenant_limits.manage''"
| "platform_cap_name c_tenant_feature_flags_manage = ''tenant_feature_flags.manage''"
| "platform_cap_name c_support_access_request = ''support_access.request''"
| "platform_cap_name c_support_access_approve = ''support_access.approve''"
| "platform_cap_name c_support_access_revoke = ''support_access.revoke''"
| "platform_cap_name c_support_access_read = ''support_access.read''"
| "platform_cap_name c_provider_enablement_manage = ''provider_enablement.manage''"
| "platform_cap_name c_provider_enablement_approve = ''provider_enablement.approve''"
| "platform_cap_name c_provider_kill_switch_manage = ''provider_kill_switch.manage''"
| "platform_cap_name c_pilot_configuration_manage = ''pilot_configuration.manage''"
| "platform_cap_name c_pilot_readiness_manage = ''pilot_readiness.manage''"
| "platform_cap_name c_pilot_readiness_activate = ''pilot_readiness.activate''"
| "platform_cap_name c_backup_run_read = ''backup.run.read''"
| "platform_cap_name c_restore_test_read = ''restore_test.read''"
| "platform_cap_name c_platform_operations_read = ''platform_operations.read''"
| "platform_cap_name c_incident_manage = ''incident.manage''"
| "platform_cap_name c_audit_export = ''audit.export''"
| "platform_cap_name c_offboarding_manage = ''offboarding.manage''"

fun capability_name :: "capability \<Rightarrow> string" where
  "capability_name (TenantCap c) = tenant_cap_name c"
| "capability_name (DocumentCap c) = document_cap_name c"
| "capability_name (ContractCap c) = contract_cap_name c"
| "capability_name (EventCap c) = event_cap_name c"
| "capability_name (DetectionCap c) = detection_cap_name c"
| "capability_name (NoticeCap c) = notice_cap_name c"
| "capability_name (DeliveryCap c) = delivery_cap_name c"
| "capability_name (ConnectorCap c) = connector_cap_name c"
| "capability_name (OperationsCap c) = operations_cap_name c"
| "capability_name (PlatformCap c) = platform_cap_name c"

section \<open>The role tables\<close>

definition EVENT_DEADLINE :: "capability list" where
  "EVENT_DEADLINE =
    [EventCap c_project_event_create, EventCap c_project_event_read,
     EventCap c_project_event_update, EventCap c_project_event_confirm,
     EventCap c_project_event_dispute, EventCap c_deadline_rule_assess,
     EventCap c_deadline_calculate, EventCap c_deadline_review, EventCap c_deadline_verify,
     EventCap c_deadline_track, EventCap c_deadline_assign, EventCap c_deadline_complete,
     EventCap c_deadline_recalculate, EventCap c_project_calendar_manage,
     EventCap c_project_calendar_approve, EventCap c_warning_policy_manage,
     DetectionCap c_detection_run_create, DetectionCap c_detection_run_read,
     DetectionCap c_detection_run_cancel, DetectionCap c_event_suggestion_read,
     DetectionCap c_event_suggestion_review, DetectionCap c_event_suggestion_accept,
     DetectionCap c_event_suggestion_reject, DetectionCap c_event_suggestion_merge,
     DetectionCap c_event_suggestion_request_evidence,
     DetectionCap c_detection_rules_manage, DetectionCap c_detection_evaluation_read,
     DetectionCap c_reviewer_feedback_read, NoticeCap c_notice_package_create,
     NoticeCap c_notice_package_read, NoticeCap c_notice_package_update,
     NoticeCap c_notice_package_withdraw, NoticeCap c_notice_evidence_assess,
     NoticeCap c_notice_evidence_link, NoticeCap c_notice_question_create,
     NoticeCap c_notice_question_answer, NoticeCap c_notice_fact_create,
     NoticeCap c_notice_fact_verify, NoticeCap c_notice_draft_generate,
     NoticeCap c_notice_draft_edit, NoticeCap c_notice_draft_review,
     NoticeCap c_notice_draft_submit, NoticeCap c_notice_draft_approve,
     NoticeCap c_notice_draft_reject, NoticeCap c_notice_exception_approve,
     NoticeCap c_notice_attachment_manage, NoticeCap c_notice_export_generate,
     NoticeCap c_notice_export_read, NoticeCap c_notice_template_manage,
     NoticeCap c_notice_template_approve, DeliveryCap c_notice_dispatch_prepare,
     DeliveryCap c_notice_dispatch_request_authorization,
     DeliveryCap c_notice_dispatch_authorize, DeliveryCap c_notice_dispatch_revoke,
     DeliveryCap c_notice_dispatch_send, DeliveryCap c_notice_dispatch_cancel,
     DeliveryCap c_notice_dispatch_retry, DeliveryCap c_notice_dispatch_record_manual,
     DeliveryCap c_notice_dispatch_read, DeliveryCap c_dispatch_evidence_upload,
     DeliveryCap c_dispatch_evidence_verify, DeliveryCap c_notice_receipt_assess,
     DeliveryCap c_notice_receipt_confirm, DeliveryCap c_notice_acknowledgment_record,
     DeliveryCap c_notice_acknowledgment_verify, DeliveryCap c_delivery_provider_manage,
     DeliveryCap c_delivery_webhook_read, DeliveryCap c_delivery_risk_read,
     ConnectorCap c_connector_account_create, ConnectorCap c_connector_account_read,
     ConnectorCap c_connector_account_update, ConnectorCap c_connector_account_validate,
     ConnectorCap c_connector_account_approve, ConnectorCap c_connector_account_disable,
     ConnectorCap c_connector_scope_create, ConnectorCap c_connector_scope_approve,
     ConnectorCap c_connector_sync_run, ConnectorCap c_connector_sync_cancel,
     ConnectorCap c_connector_sync_read, OperationsCap c_operational_alert_read,
     OperationsCap c_operational_alert_acknowledge,
     OperationsCap c_operational_alert_assign, OperationsCap c_operational_alert_dismiss,
     OperationsCap c_operational_alert_resolve, OperationsCap c_escalation_policy_manage,
     OperationsCap c_escalation_policy_approve, OperationsCap c_operational_task_create,
     OperationsCap c_operational_task_assign, OperationsCap c_operational_task_complete,
     OperationsCap c_portfolio_read, OperationsCap c_operations_dashboard_read,
     OperationsCap c_internal_notification_read, OperationsCap c_saved_view_manage]"

definition TENANT_PLATFORM_ADMIN :: "capability list" where
  "TENANT_PLATFORM_ADMIN =
    [PlatformCap c_tenant_admin_read, PlatformCap c_tenant_admin_manage,
     PlatformCap c_tenant_invitation_manage, PlatformCap c_tenant_limits_manage,
     PlatformCap c_tenant_feature_flags_manage, PlatformCap c_support_access_request,
     PlatformCap c_support_access_approve, PlatformCap c_support_access_revoke,
     PlatformCap c_support_access_read, PlatformCap c_provider_enablement_manage,
     PlatformCap c_provider_enablement_approve, PlatformCap c_provider_kill_switch_manage,
     PlatformCap c_pilot_configuration_manage, PlatformCap c_pilot_readiness_manage,
     PlatformCap c_pilot_readiness_activate, PlatformCap c_backup_run_read,
     PlatformCap c_restore_test_read, PlatformCap c_platform_operations_read,
     PlatformCap c_incident_manage, PlatformCap c_audit_export,
     PlatformCap c_offboarding_manage]"

definition DOCUMENT_READ :: "capability list" where
  "DOCUMENT_READ =
    [DocumentCap c_document_read, DocumentCap c_document_download,
     DocumentCap c_document_processing_view, ContractCap c_contract_package_read,
     EventCap c_project_event_read, DetectionCap c_detection_run_read,
     DetectionCap c_event_suggestion_read, NoticeCap c_notice_package_read,
     NoticeCap c_notice_export_read, DeliveryCap c_notice_dispatch_read,
     DeliveryCap c_delivery_risk_read, ConnectorCap c_connector_account_read,
     ConnectorCap c_connector_sync_read, OperationsCap c_operational_alert_read,
     OperationsCap c_operations_dashboard_read, OperationsCap c_internal_notification_read,
     OperationsCap c_portfolio_read]"

definition DOCUMENT_CONTRIBUTE :: "capability list" where
  "DOCUMENT_CONTRIBUTE =
    DOCUMENT_READ @
    [DocumentCap c_document_create, DocumentCap c_document_add_version,
     ContractCap c_contract_document_attach]"

definition CONTRACT_REVIEW :: "capability list" where
  "CONTRACT_REVIEW =
    [ContractCap c_contract_structure_review, ContractCap c_contract_issue_manage]"

definition CONTRACT_MANAGE :: "capability list" where
  "CONTRACT_MANAGE =
    [ContractCap c_contract_package_create, ContractCap c_contract_package_update,
     ContractCap c_contract_structure_run, ContractCap c_contract_configuration_submit] @
    CONTRACT_REVIEW"

definition CONTRACT_APPROVE :: "capability list" where
  "CONTRACT_APPROVE =
    [ContractCap c_contract_configuration_approve,
     ContractCap c_contract_configuration_supersede]"

definition DOCUMENT_MANAGE :: "capability list" where
  "DOCUMENT_MANAGE =
    DOCUMENT_CONTRIBUTE @
    [DocumentCap c_document_update_metadata, DocumentCap c_document_archive,
     DocumentCap c_document_processing_retry] @
    CONTRACT_MANAGE @
    EVENT_DEADLINE"

definition DOCUMENT_QUARANTINE :: "capability list" where
  "DOCUMENT_QUARANTINE =
    [DocumentCap c_document_quarantine_view, DocumentCap c_document_quarantine_manage,
     DocumentCap c_project_storage_manage]"

fun TENANT_ROLE_CAPABILITIES :: "tenant_role \<Rightarrow> capability list" where
  "TENANT_ROLE_CAPABILITIES TENANT_OWNER =
    [TenantCap c_tenant_read, TenantCap c_tenant_manage, TenantCap c_tenant_members_read,
     TenantCap c_tenant_members_manage, TenantCap c_project_create,
     TenantCap c_project_read, TenantCap c_project_update, TenantCap c_project_archive,
     TenantCap c_project_members_read, TenantCap c_project_members_manage,
     TenantCap c_audit_read] @
    DOCUMENT_MANAGE @
    DOCUMENT_QUARANTINE @
    CONTRACT_APPROVE @
    TENANT_PLATFORM_ADMIN"
| "TENANT_ROLE_CAPABILITIES TENANT_ADMIN =
    [TenantCap c_tenant_read, TenantCap c_tenant_manage, TenantCap c_tenant_members_read,
     TenantCap c_tenant_members_manage, TenantCap c_project_create,
     TenantCap c_project_read, TenantCap c_project_update, TenantCap c_project_archive,
     TenantCap c_project_members_read, TenantCap c_project_members_manage,
     TenantCap c_audit_read] @
    DOCUMENT_MANAGE @
    DOCUMENT_QUARANTINE @
    CONTRACT_APPROVE @
    TENANT_PLATFORM_ADMIN"
| "TENANT_ROLE_CAPABILITIES COMMERCIAL_MANAGER =
    [TenantCap c_tenant_read, TenantCap c_tenant_members_read, TenantCap c_project_create,
     TenantCap c_project_read, TenantCap c_project_update,
     TenantCap c_project_members_read, TenantCap c_audit_read] @
    DOCUMENT_MANAGE @
    CONTRACT_APPROVE"
| "TENANT_ROLE_CAPABILITIES CONTRACTS_MANAGER =
    [TenantCap c_tenant_read, TenantCap c_tenant_members_read, TenantCap c_project_create,
     TenantCap c_project_read, TenantCap c_project_update,
     TenantCap c_project_members_read, TenantCap c_audit_read] @
    DOCUMENT_MANAGE @
    CONTRACT_APPROVE"
| "TENANT_ROLE_CAPABILITIES PROJECT_MANAGER =
    [TenantCap c_tenant_read, TenantCap c_tenant_members_read, TenantCap c_project_create,
     TenantCap c_project_read, TenantCap c_project_update,
     TenantCap c_project_members_read, TenantCap c_project_members_manage] @
    DOCUMENT_MANAGE"
| "TENANT_ROLE_CAPABILITIES REVIEWER =
    [TenantCap c_tenant_read, TenantCap c_project_read, TenantCap c_project_members_read] @
    DOCUMENT_READ @
    CONTRACT_REVIEW"
| "TENANT_ROLE_CAPABILITIES VIEWER =
    [TenantCap c_tenant_read, TenantCap c_project_read, DocumentCap c_document_read,
     DocumentCap c_document_download, ContractCap c_contract_package_read,
     DetectionCap c_detection_run_read, DetectionCap c_event_suggestion_read,
     DetectionCap c_detection_evaluation_read, DetectionCap c_reviewer_feedback_read,
     NoticeCap c_notice_package_read, NoticeCap c_notice_export_read,
     DeliveryCap c_notice_dispatch_read, DeliveryCap c_delivery_risk_read,
     ConnectorCap c_connector_account_read, ConnectorCap c_connector_sync_read,
     OperationsCap c_operational_alert_read, OperationsCap c_operations_dashboard_read,
     OperationsCap c_internal_notification_read, OperationsCap c_portfolio_read]"

fun PROJECT_ROLE_CAPABILITIES :: "project_role \<Rightarrow> capability list" where
  "PROJECT_ROLE_CAPABILITIES P_PROJECT_ADMIN =
    [TenantCap c_project_read, TenantCap c_project_update, TenantCap c_project_archive,
     TenantCap c_project_members_read, TenantCap c_project_members_manage] @
    DOCUMENT_MANAGE @
    DOCUMENT_QUARANTINE @
    CONTRACT_APPROVE"
| "PROJECT_ROLE_CAPABILITIES P_COMMERCIAL_LEAD =
    [TenantCap c_project_read, TenantCap c_project_update, TenantCap c_project_members_read] @
    DOCUMENT_MANAGE @
    CONTRACT_APPROVE"
| "PROJECT_ROLE_CAPABILITIES P_CONTRACTS_LEAD =
    [TenantCap c_project_read, TenantCap c_project_update, TenantCap c_project_members_read] @
    DOCUMENT_MANAGE @
    CONTRACT_APPROVE"
| "PROJECT_ROLE_CAPABILITIES P_PROJECT_MANAGER =
    [TenantCap c_project_read, TenantCap c_project_update,
     TenantCap c_project_members_read, TenantCap c_project_members_manage] @
    DOCUMENT_MANAGE"
| "PROJECT_ROLE_CAPABILITIES P_REVIEWER =
    [TenantCap c_project_read, TenantCap c_project_members_read] @
    DOCUMENT_READ @
    CONTRACT_REVIEW"
| "PROJECT_ROLE_CAPABILITIES P_CONTRIBUTOR =
    [TenantCap c_project_read, TenantCap c_project_members_read] @
    DOCUMENT_CONTRIBUTE"
| "PROJECT_ROLE_CAPABILITIES P_VIEWER =
    [TenantCap c_project_read, DocumentCap c_document_read,
     DocumentCap c_document_download, ContractCap c_contract_package_read,
     DetectionCap c_detection_run_read, DetectionCap c_event_suggestion_read,
     DetectionCap c_detection_evaluation_read, DetectionCap c_reviewer_feedback_read,
     NoticeCap c_notice_package_read, NoticeCap c_notice_export_read,
     DeliveryCap c_notice_dispatch_read, DeliveryCap c_delivery_risk_read,
     ConnectorCap c_connector_account_read, ConnectorCap c_connector_sync_read,
     OperationsCap c_operational_alert_read, OperationsCap c_operations_dashboard_read,
     OperationsCap c_internal_notification_read]"

definition MUTATING_PROJECT_CAPABILITIES :: "capability list" where
  "MUTATING_PROJECT_CAPABILITIES =
    [TenantCap c_project_update, TenantCap c_project_archive,
     TenantCap c_project_members_manage, DocumentCap c_document_create,
     DocumentCap c_document_update_metadata, DocumentCap c_document_add_version,
     DocumentCap c_document_archive, DocumentCap c_document_processing_retry,
     DocumentCap c_document_quarantine_manage, DocumentCap c_project_storage_manage,
     ContractCap c_contract_package_create, ContractCap c_contract_package_update,
     ContractCap c_contract_document_attach, ContractCap c_contract_structure_run,
     ContractCap c_contract_structure_review, ContractCap c_contract_configuration_submit,
     ContractCap c_contract_configuration_approve,
     ContractCap c_contract_configuration_supersede, ContractCap c_contract_issue_manage,
     EventCap c_project_event_create, EventCap c_project_event_update,
     EventCap c_project_event_confirm, EventCap c_project_event_dispute,
     EventCap c_deadline_rule_assess, EventCap c_deadline_calculate,
     EventCap c_deadline_review, EventCap c_deadline_verify, EventCap c_deadline_track,
     EventCap c_deadline_assign, EventCap c_deadline_complete,
     EventCap c_deadline_recalculate, EventCap c_project_calendar_manage,
     EventCap c_project_calendar_approve, EventCap c_warning_policy_manage,
     DetectionCap c_detection_run_create, DetectionCap c_detection_run_cancel,
     DetectionCap c_event_suggestion_review, DetectionCap c_event_suggestion_accept,
     DetectionCap c_event_suggestion_reject, DetectionCap c_event_suggestion_merge,
     DetectionCap c_event_suggestion_request_evidence,
     DetectionCap c_detection_rules_manage, NoticeCap c_notice_package_create,
     NoticeCap c_notice_package_update, NoticeCap c_notice_package_withdraw,
     NoticeCap c_notice_evidence_assess, NoticeCap c_notice_evidence_link,
     NoticeCap c_notice_question_create, NoticeCap c_notice_question_answer,
     NoticeCap c_notice_fact_create, NoticeCap c_notice_fact_verify,
     NoticeCap c_notice_draft_generate, NoticeCap c_notice_draft_edit,
     NoticeCap c_notice_draft_review, NoticeCap c_notice_draft_submit,
     NoticeCap c_notice_draft_approve, NoticeCap c_notice_draft_reject,
     NoticeCap c_notice_exception_approve, NoticeCap c_notice_attachment_manage,
     NoticeCap c_notice_export_generate, NoticeCap c_notice_template_manage,
     NoticeCap c_notice_template_approve, DeliveryCap c_notice_dispatch_prepare,
     DeliveryCap c_notice_dispatch_request_authorization,
     DeliveryCap c_notice_dispatch_authorize, DeliveryCap c_notice_dispatch_revoke,
     DeliveryCap c_notice_dispatch_send, DeliveryCap c_notice_dispatch_cancel,
     DeliveryCap c_notice_dispatch_retry, DeliveryCap c_notice_dispatch_record_manual,
     DeliveryCap c_dispatch_evidence_upload, DeliveryCap c_dispatch_evidence_verify,
     DeliveryCap c_notice_receipt_assess, DeliveryCap c_notice_receipt_confirm,
     DeliveryCap c_notice_acknowledgment_record,
     DeliveryCap c_notice_acknowledgment_verify, DeliveryCap c_delivery_provider_manage,
     ConnectorCap c_connector_account_create, ConnectorCap c_connector_account_update,
     ConnectorCap c_connector_account_validate, ConnectorCap c_connector_account_approve,
     ConnectorCap c_connector_account_disable, ConnectorCap c_connector_scope_create,
     ConnectorCap c_connector_scope_approve, ConnectorCap c_connector_sync_run,
     ConnectorCap c_connector_sync_cancel, OperationsCap c_operational_alert_acknowledge,
     OperationsCap c_operational_alert_assign, OperationsCap c_operational_alert_dismiss,
     OperationsCap c_operational_alert_resolve, OperationsCap c_escalation_policy_manage,
     OperationsCap c_escalation_policy_approve, OperationsCap c_operational_task_create,
     OperationsCap c_operational_task_assign, OperationsCap c_operational_task_complete,
     OperationsCap c_saved_view_manage, PlatformCap c_tenant_admin_manage,
     PlatformCap c_tenant_invitation_manage, PlatformCap c_support_access_approve,
     PlatformCap c_provider_enablement_approve, PlatformCap c_provider_kill_switch_manage,
     PlatformCap c_pilot_readiness_activate, PlatformCap c_offboarding_manage]"

section \<open>Resolution\<close>

definition capabilitiesForTenantRole :: "tenant_role \<Rightarrow> capability set" where
  "capabilitiesForTenantRole role = set (TENANT_ROLE_CAPABILITIES role)"

definition capabilitiesForProjectRole :: "project_role \<Rightarrow> capability set" where
  "capabilitiesForProjectRole role = set (PROJECT_ROLE_CAPABILITIES role)"

fun mergeCapabilities :: "capability set option list \<Rightarrow> capability set" where
  "mergeCapabilities [] = {}"
| "mergeCapabilities (None # sets) = mergeCapabilities sets"
| "mergeCapabilities (Some s # sets) = s \<union> mergeCapabilities sets"

definition hasCapability :: "capability set \<Rightarrow> capability \<Rightarrow> bool" where
  "hasCapability capabilities cap \<longleftrightarrow> cap \<in> capabilities"

definition resolveCapabilities ::
  "tenant_role \<Rightarrow> project_role option \<Rightarrow> project_status option \<Rightarrow> capability set" where
  "resolveCapabilities tenantRole projectRole projectStatus =
     (let tenantCaps = capabilitiesForTenantRole tenantRole;
          projectCaps = map_option capabilitiesForProjectRole projectRole;
          merged = mergeCapabilities [Some tenantCaps, projectCaps]
      in if projectStatus = Some P_ARCHIVED
         then fold (\<lambda>c m. if c \<noteq> TenantCap c_project_archive
                              \<and> c \<noteq> DocumentCap c_document_archive then m - {c} else m)
                MUTATING_PROJECT_CAPABILITIES merged
         else merged)"

definition tenantRoleCanAccessAllTenantProjects :: "tenant_role \<Rightarrow> bool" where
  "tenantRoleCanAccessAllTenantProjects role \<longleftrightarrow>
     role = TENANT_OWNER \<or> role = TENANT_ADMIN \<or> role = COMMERCIAL_MANAGER
     \<or> role = CONTRACTS_MANAGER \<or> role = PROJECT_MANAGER"

section \<open>Lemmas on the resolution\<close>

lemmas cap_group_defs =
  EVENT_DEADLINE_def TENANT_PLATFORM_ADMIN_def DOCUMENT_READ_def DOCUMENT_CONTRIBUTE_def
  CONTRACT_REVIEW_def CONTRACT_MANAGE_def CONTRACT_APPROVE_def DOCUMENT_MANAGE_def
  DOCUMENT_QUARANTINE_def

lemma fold_remove:
  "fold (\<lambda>c m. if P c then m - {c} else m) cs (M :: 'a set) = M - {c \<in> set cs. P c}"
  by (induction cs arbitrary: M) auto

lemma mem_resolve:
  "c \<in> resolveCapabilities t p st \<longleftrightarrow>
     (c \<in> capabilitiesForTenantRole t \<or> (\<exists>r. p = Some r \<and> c \<in> capabilitiesForProjectRole r))
     \<and> (st = Some P_ARCHIVED \<longrightarrow> c \<in> set MUTATING_PROJECT_CAPABILITIES \<longrightarrow>
          c = TenantCap c_project_archive \<or> c = DocumentCap c_document_archive)"
  by (cases p) (auto simp: resolveCapabilities_def fold_remove Let_def)

lemma resolve_mono_project:
  "resolveCapabilities t None st \<subseteq> resolveCapabilities t p st"
  by (auto simp: mem_resolve)

lemma tenant_viewer_not_mutating:
  "capabilitiesForTenantRole VIEWER \<inter> set MUTATING_PROJECT_CAPABILITIES = {}"
  by (simp add: capabilitiesForTenantRole_def MUTATING_PROJECT_CAPABILITIES_def)

lemma project_viewer_not_mutating:
  "capabilitiesForProjectRole P_VIEWER \<inter> set MUTATING_PROJECT_CAPABILITIES = {}"
  by (simp add: capabilitiesForProjectRole_def MUTATING_PROJECT_CAPABILITIES_def)

section \<open>What the tables grant\<close>

text \<open>Archiving a project removes every mutating capability of every combination of tenant
role and project role, except \<open>project.archive\<close> and \<open>document.archive\<close>,
and removes nothing else.\<close>

lemma archived_capabilities:
  "resolveCapabilities t p (Some P_ARCHIVED) =
     resolveCapabilities t p None
       - (set MUTATING_PROJECT_CAPABILITIES
            - {TenantCap c_project_archive, DocumentCap c_document_archive})"
  by (auto simp: mem_resolve)

text \<open>A tenant VIEWER who is at most a VIEWER of the project holds no mutating capability,
whatever the status of the project.\<close>

lemma viewer_cannot_mutate:
  "resolveCapabilities VIEWER None st \<inter> set MUTATING_PROJECT_CAPABILITIES = {}
   \<and> resolveCapabilities VIEWER (Some P_VIEWER) st \<inter> set MUTATING_PROJECT_CAPABILITIES = {}"
  using tenant_viewer_not_mutating project_viewer_not_mutating by (auto simp: mem_resolve)

text \<open>A contract configuration is approved only on a project that is not archived, and only
by the tenant roles owner, administrator, commercial manager and contracts manager, or by the
project roles administrator, commercial lead and contracts lead.\<close>

lemma approve_holders:
  "ContractCap c_contract_configuration_approve \<in> resolveCapabilities t p st \<longleftrightarrow>
     st \<noteq> Some P_ARCHIVED
     \<and> (t \<in> {TENANT_OWNER, TENANT_ADMIN, COMMERCIAL_MANAGER, CONTRACTS_MANAGER}
        \<or> p \<in> {Some P_PROJECT_ADMIN, Some P_COMMERCIAL_LEAD, Some P_CONTRACTS_LEAD})"
  by (cases t; cases p; (cases "the p")?)
    (simp_all add: mem_resolve capabilitiesForTenantRole_def capabilitiesForProjectRole_def
      cap_group_defs MUTATING_PROJECT_CAPABILITIES_def CAPABILITIES_def)

subsection \<open>Chains of role assignments\<close>

text \<open>
  The policy \<open>canAssignTenantRole\<close> states, as steps on the roles of a tenant's members:
  an actor gives a member (or a newcomer) a role the policy lets them assign.
\<close>

inductive role_step :: "(string \<rightharpoonup> tenant_role) \<Rightarrow> (string \<rightharpoonup> tenant_role) \<Rightarrow> bool" where
  assign: "m actor = Some r \<Longrightarrow> canAssignTenantRole r r' \<Longrightarrow> role_step m (m(target \<mapsto> r'))"

inductive_cases role_stepE: "role_step m m'"

lemma canAssignTenantRole_iff:
  "canAssignTenantRole a t \<longleftrightarrow> a = TENANT_OWNER \<or> (a = TENANT_ADMIN \<and> t \<noteq> TENANT_OWNER)"
  by (cases a; cases t) (simp_all add: canAssignTenantRole_def)

lemma role_step_owner:
  "role_step m m' \<Longrightarrow> TENANT_OWNER \<notin> ran m \<Longrightarrow> TENANT_OWNER \<notin> ran m'"
  by (auto simp: canAssignTenantRole_iff ran_def elim!: role_stepE split: if_splits)

lemma role_step_admin:
  "role_step m m' \<Longrightarrow> ran m \<inter> {TENANT_OWNER, TENANT_ADMIN} \<noteq> {}"
  by (auto simp: canAssignTenantRole_iff ran_def elim!: role_stepE)

text \<open>Under the assignment policy of tenant roles, no chain of assignments makes an owner
where there was none, and members without an owner or administrator among them can assign nothing
at all.\<close>

lemma no_owner_from_below:
  assumes "role_step\<^sup>*\<^sup>* m m'" and "TENANT_OWNER \<notin> ran m"
  shows "TENANT_OWNER \<notin> ran m' \<and> (TENANT_ADMIN \<notin> ran m \<longrightarrow> m' = m)"
  using assms
proof (induction rule: rtranclp_induct)
  case (step y z)
  then show ?case
    using role_step_owner role_step_admin[OF step.hyps(2)] by auto
qed simp

lemma no_owner_from_below_witness:
  "role_step\<^sup>*\<^sup>* [''a'' \<mapsto> TENANT_ADMIN] [''a'' \<mapsto> TENANT_ADMIN, ''b'' \<mapsto> REVIEWER]
   \<and> TENANT_OWNER \<notin> ran [''a'' \<mapsto> TENANT_ADMIN, ''b'' \<mapsto> REVIEWER]"
proof -
  have run: "role_step\<^sup>*\<^sup>* [''a'' \<mapsto> TENANT_ADMIN] [''a'' \<mapsto> TENANT_ADMIN, ''b'' \<mapsto> REVIEWER]"
    by (rule r_into_rtranclp, rule role_step.assign[where actor = "''a''" and r = TENANT_ADMIN])
      (simp_all add: canAssignTenantRole_iff)
  then show ?thesis using no_owner_from_below[OF run] by simp
qed

end
