(* ===== verification/Handler.thy ===== *)
theory Handler
  imports Prelude
begin

text \<open>
  Handlers: a service function of \<open>apps/web/src/server\<close> reads and writes the database and
  may throw an \<open>AppError\<close> (\<open>errors.ts\<close>), so it is a function from the state to a
  result and the state it leaves.  \<open>transactionH\<close> is \<open>prisma.$transaction\<close>: a throw
  inside it undoes its writes.  The locale \<open>stable\<close> carries a reflexive and transitive
  relation between the states before and after (append-only logs, untouched rows of other tenants)
  through every way of composing handlers.
\<close>

section \<open>Application errors\<close>

datatype error_code =
    UNAUTHENTICATED | FORBIDDEN | NOT_FOUND | VALIDATION_ERROR | CONFLICT | RATE_LIMITED
    | INTERNAL_ERROR | SERVICE_UNAVAILABLE

record app_error =
  app_code :: error_code
  app_message :: string
  app_status :: nat
  app_details :: "string list option"

definition unauthorized :: "app_error" where
  "unauthorized = \<lparr>app_code = UNAUTHENTICATED, app_message = ''Authentication required'',
     app_status = 401, app_details = None\<rparr>"

definition forbidden :: "string \<Rightarrow> app_error" where
  "forbidden message = \<lparr>app_code = FORBIDDEN, app_message = message, app_status = 403,
     app_details = None\<rparr>"

definition forbidden_default :: app_error where
  "forbidden_default = forbidden ''You do not have permission to perform this action''"

definition notFound :: app_error where
  "notFound = \<lparr>app_code = NOT_FOUND, app_message = ''Resource not found'', app_status = 404,
     app_details = None\<rparr>"

definition validationError :: "string \<Rightarrow> string list option \<Rightarrow> app_error" where
  "validationError message details = \<lparr>app_code = VALIDATION_ERROR, app_message = message,
     app_status = 400, app_details = details\<rparr>"

definition conflict :: "string \<Rightarrow> app_error" where
  "conflict message = \<lparr>app_code = CONFLICT, app_message = message, app_status = 409,
     app_details = None\<rparr>"

definition tooManyRequests :: app_error where
  "tooManyRequests = \<lparr>app_code = RATE_LIMITED, app_message = ''Too many requests'',
     app_status = 429, app_details = None\<rparr>"

text \<open>
  An exception that is no \<open>AppError\<close> (a Prisma error, say) as its caller meets it: no
  handler catches one, and the route answers \<open>INTERNAL_ERROR\<close>.
\<close>

definition unexpectedError :: app_error where
  "unexpectedError = \<lparr>app_code = INTERNAL_ERROR, app_message = ''An unexpected error occurred'',
     app_status = 500, app_details = None\<rparr>"

text \<open>
  What a route answers: the body of \<open>structuredError\<close> and the HTTP status.  An exception
  that is no \<open>AppError\<close> is hidden behind \<open>INTERNAL_ERROR\<close>.
\<close>

record structured_error =
  se_code :: error_code
  se_message :: string
  se_details :: "string list option"
  se_correlationId :: "string option"

definition structuredError ::
  "error_code \<Rightarrow> string \<Rightarrow> string list option \<Rightarrow> string option \<Rightarrow> structured_error" where
  "structuredError code message details correlationId =
     \<lparr>se_code = code, se_message = message, se_details = details,
      se_correlationId = (if correlationId = Some [] then None else correlationId)\<rparr>"

datatype thrown = AppErr app_error | OtherError string

fun toErrorResponse :: "thrown \<Rightarrow> string option \<Rightarrow> structured_error \<times> nat" where
  "toErrorResponse (AppErr e) cid =
     (structuredError (app_code e) (app_message e) (app_details e) cid, app_status e)"
| "toErrorResponse (OtherError m) cid =
     (structuredError INTERNAL_ERROR ''An unexpected error occurred'' None cid, 500)"

section \<open>Composition\<close>

type_synonym ('s, 'a) handler = "'s \<Rightarrow> (app_error + 'a) \<times> 's"

definition returnH :: "'a \<Rightarrow> ('s, 'a) handler" where
  "returnH x s = (Inr x, s)"

definition throwH :: "app_error \<Rightarrow> ('s, 'a) handler" where
  "throwH e s = (Inl e, s)"

definition bindH :: "('s, 'a) handler \<Rightarrow> ('a \<Rightarrow> ('s, 'b) handler) \<Rightarrow> ('s, 'b) handler" where
  "bindH m f s = (case m s of (Inl e, t) \<Rightarrow> (Inl e, t) | (Inr x, t) \<Rightarrow> f x t)"

definition thenH :: "('s, 'a) handler \<Rightarrow> ('s, 'b) handler \<Rightarrow> ('s, 'b) handler" where
  "thenH m n = bindH m (\<lambda>_. n)"

definition readH :: "('s \<Rightarrow> 'a) \<Rightarrow> ('s, 'a) handler" where
  "readH f s = (Inr (f s), s)"

definition writeH :: "('s \<Rightarrow> 's) \<Rightarrow> ('s, unit) handler" where
  "writeH g s = (Inr (), g s)"

definition requireH :: "bool \<Rightarrow> app_error \<Rightarrow> ('s, unit) handler" where
  "requireH b e = (if b then returnH () else throwH e)"

definition liftH :: "app_error + 'a \<Rightarrow> ('s, 'a) handler" where
  "liftH m s = (m, s)"

definition transactionH :: "('s, 'a) handler \<Rightarrow> ('s, 'a) handler" where
  "transactionH m s = (case m s of (Inl e, _) \<Rightarrow> (Inl e, s) | r \<Rightarrow> r)"

text \<open>
  A handler on a part of the state, as an operation on the whole: \<open>get\<close> reads the part
  and \<open>put\<close> writes it back.
\<close>

definition zoomH :: "('s \<Rightarrow> 't) \<Rightarrow> ('t \<Rightarrow> 's \<Rightarrow> 's) \<Rightarrow> ('t, 'a) handler \<Rightarrow> ('s, 'a) handler" where
  "zoomH get put m s = (case m (get s) of (r, t) \<Rightarrow> (r, put t s))"

lemma zoomH_run [simp]: "m (get s) = (r, t) \<Longrightarrow> zoomH get put m s = (r, put t s)"
  by (simp add: zoomH_def)

lemma zoomH_Inr [ok_iff]:
  "zoomH get put m s = (Inr x, t) \<longleftrightarrow> (\<exists>u. m (get s) = (Inr x, u) \<and> t = put u s)"
  by (auto simp: zoomH_def split: prod.splits)

text \<open>\<open>forM\<close>: a handler run for each element in turn, stopping at the first throw.\<close>

fun forM :: "'a list \<Rightarrow> ('a \<Rightarrow> ('s, 'b) handler) \<Rightarrow> ('s, 'b list) handler" where
  "forM [] f = returnH []"
| "forM (x # xs) f = bindH (f x) (\<lambda>y. bindH (forM xs f) (\<lambda>ys. returnH (y # ys)))"

lemma handler_simps [simp]:
  "returnH x s = (Inr x, s)"
  "throwH e s = (Inl e, s)"
  "readH f s = (Inr (f s), s)"
  "writeH g s = (Inr (), g s)"
  "liftH r s = (r, s)"
  by (simp_all add: returnH_def throwH_def readH_def writeH_def liftH_def)

lemma bindH_run [simp]:
  "m s = (Inl e, t) \<Longrightarrow> bindH m f s = (Inl e, t)"
  "m s = (Inr x, t) \<Longrightarrow> bindH m f s = f x t"
  by (simp_all add: bindH_def)

lemma bindH_Inr [ok_iff]:
  "bindH m f s = (Inr y, t) \<longleftrightarrow> (\<exists>x u. m s = (Inr x, u) \<and> f x u = (Inr y, t))"
  by (auto simp: bindH_def split: prod.splits sum.splits)

lemma thenH_Inr [ok_iff]:
  "thenH m n s = (Inr y, t) \<longleftrightarrow> (\<exists>x u. m s = (Inr x, u) \<and> n u = (Inr y, t))"
  by (simp add: thenH_def bindH_Inr)

lemma requireH_Inr [ok_iff]: "requireH b e s = (Inr x, t) \<longleftrightarrow> b \<and> t = s"
  by (auto simp: requireH_def)

lemma requireH_run [simp]:
  "b \<Longrightarrow> requireH b e s = (Inr (), s)"
  "\<not> b \<Longrightarrow> requireH b e s = (Inl e, s)"
  by (simp_all add: requireH_def)

lemma thenH_run [simp]:
  "m s = (Inl e, t) \<Longrightarrow> thenH m n s = (Inl e, t)"
  "m s = (Inr x, t) \<Longrightarrow> thenH m n s = n t"
  by (simp_all add: thenH_def)

lemma transactionH_Inr [ok_iff]: "transactionH m s = (Inr y, t) \<longleftrightarrow> m s = (Inr y, t)"
  by (auto simp: transactionH_def split: prod.splits sum.splits)

lemma transactionH_Inl: "transactionH m s = (Inl e, t) \<longleftrightarrow> t = s \<and> (\<exists>u. m s = (Inl e, u))"
  by (auto simp: transactionH_def split: prod.splits sum.splits)

section \<open>Relations every step respects\<close>

locale stable =
  fixes R :: "'s \<Rightarrow> 's \<Rightarrow> bool"
  assumes stable_refl: "R s s"
    and stable_trans: "R s t \<Longrightarrow> R t u \<Longrightarrow> R s u"
begin

definition obeys :: "('s, 'a) handler \<Rightarrow> bool" where
  "obeys m \<longleftrightarrow> (\<forall>s. R s (snd (m s)))"

lemma obeysD: "obeys m \<Longrightarrow> m s = (r, t) \<Longrightarrow> R s t"
  by (metis obeys_def snd_conv)

lemma obeys_pure:
  "obeys (returnH x)" "obeys (throwH e)" "obeys (readH f)" "obeys (liftH r)"
  "obeys (requireH b e)"
  by (simp_all add: obeys_def requireH_def stable_refl)

lemma obeys_write: "(\<And>s. R s (g s)) \<Longrightarrow> obeys (writeH g)"
  by (simp add: obeys_def)

lemma obeys_bind:
  assumes "obeys m" and "\<And>x. obeys (f x)"
  shows "obeys (bindH m f)"
  unfolding obeys_def
proof
  fix s
  obtain r t where run: "m s = (r, t)" by force
  then have "R s t" using assms(1) by (rule obeysD[rotated])
  then show "R s (snd (bindH m f s))"
    using run assms(2) by (cases r) (auto simp: obeys_def intro: stable_trans)
qed

lemma obeys_then: "obeys m \<Longrightarrow> obeys n \<Longrightarrow> obeys (thenH m n)"
  by (simp add: thenH_def obeys_bind)

lemma obeys_transaction: "obeys m \<Longrightarrow> obeys (transactionH m)"
  unfolding obeys_def transactionH_def
  by (auto simp: stable_refl split: prod.splits sum.splits) (metis snd_conv)

lemma obeys_if: "obeys m \<Longrightarrow> obeys n \<Longrightarrow> obeys (if b then m else n)"
  by simp

lemma obeys_option:
  "obeys m \<Longrightarrow> (\<And>x. obeys (f x)) \<Longrightarrow> obeys (case z of None \<Rightarrow> m | Some x \<Rightarrow> f x)"
  by (cases z) auto

lemma obeys_sum:
  "(\<And>x. obeys (f x)) \<Longrightarrow> (\<And>y. obeys (g y)) \<Longrightarrow>
    obeys (case z of Inl x \<Rightarrow> f x | Inr y \<Rightarrow> g y)"
  by (cases z) auto

lemmas obeys_rules =
  obeys_pure obeys_bind obeys_then obeys_transaction obeys_if obeys_option obeys_sum

text \<open>A handler whose errors leave the state as far as \<open>R\<close> can tell.\<close>

definition failsafe :: "('s, 'a) handler \<Rightarrow> bool" where
  "failsafe m \<longleftrightarrow> (\<forall>s e t. m s = (Inl e, t) \<longrightarrow> R s t)"

lemma failsafeD: "failsafe m \<Longrightarrow> m s = (Inl e, t) \<Longrightarrow> R s t"
  by (auto simp: failsafe_def)

lemma failsafe_obeys: "obeys m \<Longrightarrow> failsafe m"
  by (auto simp: failsafe_def dest: obeysD)

lemma failsafe_transaction: "failsafe (transactionH m)"
  by (auto simp: failsafe_def transactionH_Inl stable_refl)

lemma failsafe_bind:
  assumes "obeys m" and "\<And>x. failsafe (f x)"
  shows "failsafe (bindH m f)"
  unfolding failsafe_def
proof (intro allI impI)
  fix s e t
  assume fail: "bindH m f s = (Inl e, t)"
  obtain r u where run: "m s = (r, u)" by force
  with assms(1) have "R s u" by (auto dest: obeysD)
  then show "R s t"
    using fail run failsafeD[OF assms(2)] by (cases r) (auto intro: stable_trans)
qed

lemma failsafe_sum:
  "(\<And>x. failsafe (f x)) \<Longrightarrow> (\<And>y. failsafe (g y)) \<Longrightarrow>
    failsafe (case z of Inl x \<Rightarrow> f x | Inr y \<Rightarrow> g y)"
  by (cases z) auto

lemma failsafe_if: "failsafe m \<Longrightarrow> failsafe n \<Longrightarrow> failsafe (if b then m else n)"
  by simp

lemma failsafe_then_throw: "obeys m \<Longrightarrow> failsafe (thenH m (throwH e))"
  by (rule failsafe_obeys) (intro obeys_rules)

end

end
