(* ===== verification/AccessControl.thy ===== *)
theory AccessControl
  imports Authz Handler
begin

text \<open>
  Request contexts (\<open>apps/web/src/server/authz/context.ts\<close>) and the project service
  (\<open>services/projects.ts\<close>, \<open>services/tenants.ts\<close>) over the rows of the
  database they touch.  \<open>session\<close> is what \<open>getSessionUser\<close> returns and
  \<open>active_tenant\<close> what \<open>readActiveTenantId\<close> finds in the signed cookie.  A zod
  schema of \<open>validation/project.ts\<close> is a parameter: a function from the raw body to
  the list of issues or the parsed input.  Generated row ids are arguments.  Columns no decision
  reads (timestamps) are left out.
\<close>

section \<open>Rows and state\<close>

datatype tenant_status = PROVISIONING | T_ACTIVE | T_SUSPENDED | PILOT_ENDING | OFFBOARDING | T_ARCHIVED

datatype membership_status = M_ACTIVE | M_INVITED | M_DISABLED

record session_user =
  su_id :: string
  su_email :: string
  su_name :: string
  su_status :: string

record tenant_row =
  tn_id :: string
  tn_name :: string
  tn_status :: tenant_status

record tenant_membership =
  tm_tenantId :: string
  tm_userId :: string
  tm_role :: tenant_role
  tm_status :: membership_status

record project =
  prj_id :: string
  prj_tenantId :: string
  prj_name :: string
  prj_code :: string
  prj_description :: "string option"
  prj_status :: project_status
  prj_countryCode :: string
  prj_defaultCurrency :: string
  prj_timezone :: string

record project_membership =
  pm_id :: string
  pm_tenantId :: string
  pm_projectId :: string
  pm_userId :: string
  pm_role :: project_role
  pm_status :: membership_status

record audit_entry =
  au_tenantId :: "string option"
  au_projectId :: "string option"
  au_actorUserId :: "string option"
  au_action :: string
  au_entityType :: string
  au_entityId :: "string option"

record web_state =
  session :: "session_user option"
  active_tenant :: "string option"
  tenants :: "tenant_row list"
  tenant_memberships :: "tenant_membership list"
  projects :: "project list"
  project_memberships :: "project_membership list"
  audit_log :: "audit_entry list"

type_synonym 'a web = "(web_state, 'a) handler"

record tenant_context =
  cx_user :: session_user
  cx_tenantId :: string
  cx_membership :: tenant_membership
  cx_tenantRole :: tenant_role
  cx_capabilities :: "capability set"

record project_context = tenant_context +
  cx_project :: project
  cx_projectRole :: "project_role option"

section \<open>Contexts\<close>

definition writeAuditLog :: "audit_entry \<Rightarrow> unit web" where
  "writeAuditLog entry = writeH (\<lambda>s. s\<lparr>audit_log := audit_log s @ [entry]\<rparr>)"

definition requireAuthenticatedUser :: "session_user web" where
  "requireAuthenticatedUser =
     bindH (readH session) (\<lambda>u. case u of
       None \<Rightarrow> throwH unauthorized
     | Some user \<Rightarrow>
         if su_status user \<noteq> ''ACTIVE'' then throwH (forbidden ''User account is not active'')
         else returnH user)"

definition findTenantMembership :: "string \<Rightarrow> string \<Rightarrow> web_state \<Rightarrow> tenant_membership option" where
  "findTenantMembership tenantId userId s =
     find (\<lambda>m. tm_tenantId m = tenantId \<and> tm_userId m = userId \<and> tm_status m = M_ACTIVE
            \<and> (\<exists>t\<in>set (tenants s). tn_id t = tenantId
                 \<and> tn_status t \<in> {T_ACTIVE, PROVISIONING, PILOT_ENDING}))
       (tenant_memberships s)"

text \<open>
  \<open>resolveMembership\<close> is the part of \<open>requireTenantMembership\<close> after the
  organization is known; only a selection that came from the cookie is cleared.
\<close>

definition resolveMembership :: "bool \<Rightarrow> session_user \<Rightarrow> string \<Rightarrow> tenant_context web" where
  "resolveMembership fromCookie user tid =
     bindH (transactionH (readH (findTenantMembership tid (su_id user)))) (\<lambda>found. case found of
       None \<Rightarrow>
         thenH (if fromCookie then writeH (\<lambda>s. s\<lparr>active_tenant := None\<rparr>) else returnH ())
           (throwH (forbidden ''You do not have access to this organization''))
     | Some membership \<Rightarrow>
         returnH \<lparr>cx_user = user, cx_tenantId = tm_tenantId membership,
           cx_membership = membership, cx_tenantRole = tm_role membership,
           cx_capabilities = resolveCapabilities (tm_role membership) None None\<rparr>)"

definition requireTenantMembership :: "string option \<Rightarrow> tenant_context web" where
  "requireTenantMembership tenantId =
     bindH requireAuthenticatedUser (\<lambda>user.
     bindH (case tenantId of Some t \<Rightarrow> returnH (Some t) | None \<Rightarrow> readH active_tenant)
       (\<lambda>resolved. case resolved of
         None \<Rightarrow> throwH (forbidden ''No organization selected'')
       | Some tid \<Rightarrow>
           if tid = [] then throwH (forbidden ''No organization selected'')
           else resolveMembership (tenantId = None) user tid))"

definition requireTenantRole :: "tenant_role list \<Rightarrow> string option \<Rightarrow> tenant_context web" where
  "requireTenantRole roles tenantId =
     bindH (requireTenantMembership tenantId) (\<lambda>ctx.
       if cx_tenantRole ctx \<notin> set roles then throwH forbidden_default else returnH ctx)"

definition deniedEntry :: "tenant_context \<Rightarrow> string option \<Rightarrow> string \<Rightarrow> string option \<Rightarrow> audit_entry" where
  "deniedEntry ctx projectId entityType entityId =
     \<lparr>au_tenantId = Some (cx_tenantId ctx), au_projectId = projectId,
      au_actorUserId = Some (su_id (cx_user ctx)), au_action = ''authz.denied'',
      au_entityType = entityType, au_entityId = entityId\<rparr>"

definition requireTenantCapability ::
  "capability \<Rightarrow> string option \<Rightarrow> tenant_context web" where
  "requireTenantCapability cap tenantId =
     bindH (requireTenantMembership tenantId) (\<lambda>ctx.
       if \<not> hasCapability (cx_capabilities ctx) cap
       then thenH (transactionH (writeAuditLog
                     (deniedEntry ctx None ''capability'' (Some (capability_name cap)))))
              (throwH forbidden_default)
       else returnH ctx)"

definition findProject :: "string \<Rightarrow> string \<Rightarrow> web_state \<Rightarrow> project option" where
  "findProject projectId tenantId s =
     find (\<lambda>p. prj_id p = projectId \<and> prj_tenantId p = tenantId) (projects s)"

definition findProjectMembership ::
  "string \<Rightarrow> string \<Rightarrow> string \<Rightarrow> web_state \<Rightarrow> project_membership option" where
  "findProjectMembership projectId tenantId userId s =
     find (\<lambda>m. pm_projectId m = projectId \<and> pm_tenantId m = tenantId \<and> pm_userId m = userId
            \<and> pm_status m = M_ACTIVE) (project_memberships s)"

definition loadAuthorizedProject :: "tenant_context \<Rightarrow> string \<Rightarrow> project_context web" where
  "loadAuthorizedProject ctx projectId = transactionH
     (bindH (readH (findProject projectId (cx_tenantId ctx))) (\<lambda>found. case found of
        None \<Rightarrow> throwH notFound
      | Some project \<Rightarrow>
          bindH (readH (findProjectMembership (prj_id project) (cx_tenantId ctx)
                          (su_id (cx_user ctx)))) (\<lambda>projectMembership.
          if projectMembership = None
             \<and> \<not> tenantRoleCanAccessAllTenantProjects (cx_tenantRole ctx)
          then throwH notFound
          else (let projectRole = map_option pm_role projectMembership in
            returnH \<lparr>cx_user = cx_user ctx, cx_tenantId = cx_tenantId ctx,
              cx_membership = cx_membership ctx, cx_tenantRole = cx_tenantRole ctx,
              cx_capabilities = resolveCapabilities (cx_tenantRole ctx) projectRole
                                  (Some (prj_status project)),
              cx_project = project, cx_projectRole = projectRole\<rparr>))))"

definition getAuthorizedProject :: "string \<Rightarrow> project_context web" where
  "getAuthorizedProject projectId =
     bindH (requireTenantMembership None) (\<lambda>ctx. loadAuthorizedProject ctx projectId)"

definition requireProjectAccess :: "string \<Rightarrow> project_context web" where
  "requireProjectAccess projectId =
     bindH (getAuthorizedProject projectId) (\<lambda>ctx.
       if \<not> hasCapability (cx_capabilities ctx) (TenantCap c_project_read)
       then throwH notFound else returnH ctx)"

definition requireProjectRole :: "string \<Rightarrow> project_role list \<Rightarrow> project_context web" where
  "requireProjectRole projectId roles =
     bindH (requireProjectAccess projectId) (\<lambda>ctx.
       if (case cx_projectRole ctx of None \<Rightarrow> True | Some r \<Rightarrow> r \<notin> set roles)
       then if cx_tenantRole ctx = TENANT_OWNER \<or> cx_tenantRole ctx = TENANT_ADMIN
               \<or> cx_tenantRole ctx = PROJECT_MANAGER
            then returnH ctx else throwH forbidden_default
       else returnH ctx)"

definition requireProjectCapability ::
  "string \<Rightarrow> capability \<Rightarrow> project_context web" where
  "requireProjectCapability projectId cap =
     bindH (requireProjectAccess projectId) (\<lambda>ctx.
       if \<not> hasCapability (cx_capabilities ctx) cap
       then thenH (transactionH (writeAuditLog
              (deniedEntry (tenant_context.truncate ctx) (Some (prj_id (cx_project ctx)))
                 ''capability'' (Some (capability_name cap)))))
              (throwH forbidden_default)
       else returnH ctx)"

section \<open>The project service\<close>

definition listProjectsForActiveTenant :: "project list web" where
  "listProjectsForActiveTenant =
     bindH (requireTenantCapability (TenantCap c_project_read) None) (\<lambda>ctx.
     transactionH (readH (\<lambda>s.
       filter (\<lambda>p. prj_tenantId p = cx_tenantId ctx
         \<and> (tenantRoleCanAccessAllTenantProjects (cx_tenantRole ctx)
            \<or> (\<exists>m\<in>set (project_memberships s). pm_projectId m = prj_id p
                 \<and> pm_userId m = su_id (cx_user ctx) \<and> pm_status m = M_ACTIVE)))
         (projects s))))"

record create_project_input =
  ci_name :: string
  ci_code :: string
  ci_description :: "string option"
  ci_countryCode :: string
  ci_defaultCurrency :: string
  ci_timezone :: string
  ci_status :: "project_status option"

text \<open>The code of a project is unique in its organization, \<open>@@unique([tenantId, code])\<close>.\<close>

definition projectCodeTaken :: "string \<Rightarrow> string \<Rightarrow> web_state \<Rightarrow> bool" where
  "projectCodeTaken tenantId code s \<longleftrightarrow>
     list_ex (\<lambda>p. prj_tenantId p = tenantId \<and> prj_code p = code) (projects s)"

definition createProject ::
  "('raw \<Rightarrow> string list + create_project_input) \<Rightarrow>
   string \<Rightarrow> string \<Rightarrow> 'raw \<Rightarrow> project web" where
  "createProject safeParse newId membershipId rawInput =
     bindH (requireTenantCapability (TenantCap c_project_create) None) (\<lambda>ctx.
     case safeParse rawInput of
       Inl issues \<Rightarrow> throwH (validationError ''Invalid project payload'' (Some issues))
     | Inr data \<Rightarrow>
         (let created = \<lparr>prj_id = newId, prj_tenantId = cx_tenantId ctx, prj_name = ci_name data,
                prj_code = ci_code data, prj_description = ci_description data,
                prj_status = (case ci_status data of None \<Rightarrow> P_DRAFT | Some st \<Rightarrow> st),
                prj_countryCode = ci_countryCode data,
                prj_defaultCurrency = ci_defaultCurrency data, prj_timezone = ci_timezone data\<rparr>
          in transactionH
            (bindH (readH (projectCodeTaken (cx_tenantId ctx) (ci_code data))) (\<lambda>taken.
             thenH (requireH (\<not> taken) unexpectedError)
            (thenH (writeH (\<lambda>s. s\<lparr>projects := projects s @ [created]\<rparr>))
            (thenH (writeH (\<lambda>s. s\<lparr>project_memberships := project_memberships s @
                 [\<lparr>pm_id = membershipId, pm_tenantId = cx_tenantId ctx, pm_projectId = newId,
                   pm_userId = su_id (cx_user ctx), pm_role = P_PROJECT_ADMIN,
                   pm_status = M_ACTIVE\<rparr>]\<rparr>))
            (thenH (writeAuditLog \<lparr>au_tenantId = Some (cx_tenantId ctx), au_projectId = Some newId,
                 au_actorUserId = Some (su_id (cx_user ctx)), au_action = ''project.created'',
                 au_entityType = ''project'', au_entityId = Some newId\<rparr>)
              (returnH created))))))))"

definition getProject :: "string \<Rightarrow> project web" where
  "getProject projectId =
     bindH (requireProjectCapability projectId (TenantCap c_project_read))
       (\<lambda>ctx. returnH (cx_project ctx))"

record update_project_input =
  ui_name :: "string option"
  ui_description :: "string option option"
  ui_countryCode :: "string option"
  ui_defaultCurrency :: "string option"
  ui_timezone :: "string option"
  ui_status :: "project_status option"

definition applyProjectUpdate :: "update_project_input \<Rightarrow> project \<Rightarrow> project" where
  "applyProjectUpdate data p =
     p\<lparr>prj_name := (case ui_name data of None \<Rightarrow> prj_name p | Some x \<Rightarrow> x),
       prj_description := (case ui_description data of None \<Rightarrow> prj_description p | Some x \<Rightarrow> x),
       prj_countryCode := (case ui_countryCode data of None \<Rightarrow> prj_countryCode p | Some x \<Rightarrow> x),
       prj_defaultCurrency := (case ui_defaultCurrency data of
                                 None \<Rightarrow> prj_defaultCurrency p | Some x \<Rightarrow> x),
       prj_timezone := (case ui_timezone data of None \<Rightarrow> prj_timezone p | Some x \<Rightarrow> x),
       prj_status := (case ui_status data of None \<Rightarrow> prj_status p | Some x \<Rightarrow> x)\<rparr>"

definition updateProject ::
  "('raw \<Rightarrow> string list + update_project_input) \<Rightarrow> string \<Rightarrow> 'raw \<Rightarrow>
   project web" where
  "updateProject safeParse projectId rawInput =
     (case safeParse rawInput of
        Inl issues \<Rightarrow> throwH (validationError ''Invalid project update'' (Some issues))
      | Inr data \<Rightarrow>
          bindH (requireProjectCapability projectId (TenantCap c_project_read))
            (\<lambda>access. let
               isRestore = (prj_status (cx_project access) = P_ARCHIVED
                            \<and> ui_status data \<noteq> None \<and> ui_status data \<noteq> Some P_ARCHIVED);
               isArchive = (ui_status data = Some P_ARCHIVED)
             in bindH (if isRestore
                  then requireProjectCapability projectId (TenantCap c_project_archive)
                  else requireProjectCapability projectId (TenantCap c_project_update))
               (\<lambda>ctx.
                 if isArchive
                    \<and> \<not> hasCapability (cx_capabilities ctx) (TenantCap c_project_archive)
                 then throwH (forbidden ''You cannot archive this project'')
                 else if prj_status (cx_project access) = P_ARCHIVED \<and> \<not> isRestore
                 then throwH (forbidden ''Archived projects are read-only'')
                 else transactionH
                   (bindH (readH (findProject (prj_id (cx_project ctx)) (cx_tenantId ctx)))
                     (\<lambda>row. case row of
                       None \<Rightarrow> throwH unexpectedError
                     | Some old \<Rightarrow>
                         thenH (writeH (\<lambda>s. s\<lparr>projects := map (\<lambda>p.
                             if prj_id p = prj_id (cx_project ctx)
                                \<and> prj_tenantId p = cx_tenantId ctx
                             then applyProjectUpdate data p else p) (projects s)\<rparr>))
                         (thenH (writeAuditLog \<lparr>au_tenantId = Some (cx_tenantId ctx),
                              au_projectId = Some (prj_id old),
                              au_actorUserId = Some (su_id (cx_user ctx)),
                              au_action = (if isArchive then ''project.archived''
                                else if isRestore then ''project.restored''
                                else ''project.updated''),
                              au_entityType = ''project'', au_entityId = Some (prj_id old)\<rparr>)
                           (returnH (applyProjectUpdate data old))))))))"

definition listProjectMembers :: "string \<Rightarrow> project_membership list web" where
  "listProjectMembers projectId =
     bindH (requireProjectCapability projectId (TenantCap c_project_members_read)) (\<lambda>ctx.
     transactionH (readH (\<lambda>s.
       filter (\<lambda>m. pm_projectId m = prj_id (cx_project ctx) \<and> pm_tenantId m = cx_tenantId ctx)
         (project_memberships s))))"

record add_member_input =
  ai_userId :: string
  ai_role :: project_role

text \<open>
  \<open>upsert\<close> on the unique key (project, user): the row of the key is updated, or a new
  one is inserted.
\<close>

definition memberKey :: "string \<Rightarrow> string \<Rightarrow> project_membership \<Rightarrow> bool" where
  "memberKey projectId userId m \<longleftrightarrow> pm_projectId m = projectId \<and> pm_userId m = userId"

definition upsertMembership ::
  "project_membership \<Rightarrow> project_membership list \<Rightarrow> project_membership list" where
  "upsertMembership new rows =
     (if \<exists>m\<in>set rows. memberKey (pm_projectId new) (pm_userId new) m
      then map (\<lambda>m. if memberKey (pm_projectId new) (pm_userId new) m
             then m\<lparr>pm_role := pm_role new, pm_status := M_ACTIVE,
                    pm_tenantId := pm_tenantId new\<rparr> else m) rows
      else rows @ [new])"

definition addProjectMember ::
  "('raw \<Rightarrow> string list + add_member_input) \<Rightarrow> string \<Rightarrow> string \<Rightarrow> 'raw \<Rightarrow>
   project_membership web" where
  "addProjectMember safeParse newId projectId rawInput =
     bindH (requireProjectCapability projectId (TenantCap c_project_members_manage)) (\<lambda>ctx.
     case safeParse rawInput of
       Inl issues \<Rightarrow> throwH (validationError ''Invalid membership payload'' (Some issues))
     | Inr data \<Rightarrow>
         if \<not> canAssignProjectRole (Some (cx_tenantRole ctx)) (cx_projectRole ctx) (ai_role data)
         then thenH (transactionH (writeAuditLog
                (deniedEntry (tenant_context.truncate ctx) (Some (prj_id (cx_project ctx)))
                   ''project_membership'' None)))
                (throwH (forbidden ''You cannot assign this project role''))
         else transactionH
           (bindH (readH (\<lambda>s. find (\<lambda>m. tm_tenantId m = cx_tenantId ctx
                    \<and> tm_userId m = ai_userId data \<and> tm_status m = M_ACTIVE)
                    (tenant_memberships s))) (\<lambda>tenantMembership.
            bindH (readH (findProject (prj_id (cx_project ctx)) (cx_tenantId ctx))) (\<lambda>prj.
            if tenantMembership = None then throwH notFound
            else case prj of None \<Rightarrow> throwH notFound | Some project \<Rightarrow>
              bindH (readH (\<lambda>s. find (memberKey (prj_id project) (ai_userId data))
                       (project_memberships s))) (\<lambda>existing.
              let new = \<lparr>pm_id = (case existing of None \<Rightarrow> newId | Some m \<Rightarrow> pm_id m),
                         pm_tenantId = cx_tenantId ctx, pm_projectId = prj_id project,
                         pm_userId = ai_userId data, pm_role = ai_role data,
                         pm_status = M_ACTIVE\<rparr>
              in thenH (writeH (\<lambda>s. s\<lparr>project_memberships :=
                          upsertMembership new (project_memberships s)\<rparr>))
                 (thenH (writeAuditLog \<lparr>au_tenantId = Some (cx_tenantId ctx),
                    au_projectId = Some (prj_id project),
                    au_actorUserId = Some (su_id (cx_user ctx)),
                    au_action = (if existing \<noteq> None then ''project.membership.role_changed''
                                 else ''project.membership.created''),
                    au_entityType = ''project_membership'', au_entityId = Some (pm_id new)\<rparr>)
                   (returnH new)))))))"

section \<open>The tenant service\<close>

definition listAuthorizedTenants :: "tenant_row list web" where
  "listAuthorizedTenants = bindH requireAuthenticatedUser (\<lambda>user.
     transactionH (readH (\<lambda>s. filter (\<lambda>t. tn_status t = T_ACTIVE
       \<and> (\<exists>m\<in>set (tenant_memberships s). tm_tenantId m = tn_id t
            \<and> tm_userId m = su_id user \<and> tm_status m = M_ACTIVE)) (tenants s))))"

definition selectActiveTenant :: "('raw \<Rightarrow> string list + string) \<Rightarrow> 'raw \<Rightarrow> string web" where
  "selectActiveTenant safeParse rawInput =
     (case safeParse rawInput of
        Inl issues \<Rightarrow> throwH (validationError ''Invalid organization selection'' (Some issues))
      | Inr tenantId \<Rightarrow>
          bindH (requireTenantMembership (Some tenantId)) (\<lambda>ctx.
          thenH (writeH (\<lambda>s. s\<lparr>active_tenant := Some (cx_tenantId ctx)\<rparr>))
          (thenH (transactionH (writeAuditLog \<lparr>au_tenantId = Some (cx_tenantId ctx),
              au_projectId = None, au_actorUserId = Some (su_id (cx_user ctx)),
              au_action = ''tenant.selected'', au_entityType = ''tenant'',
              au_entityId = Some (cx_tenantId ctx)\<rparr>))
            (returnH (cx_tenantId ctx)))))"

section \<open>What a granted context says\<close>

definition activeMember :: "web_state \<Rightarrow> session_user \<Rightarrow> tenant_membership \<Rightarrow> bool" where
  "activeMember s user m \<longleftrightarrow>
     m \<in> set (tenant_memberships s) \<and> tm_userId m = su_id user \<and> tm_status m = M_ACTIVE
     \<and> (\<exists>t\<in>set (tenants s). tn_id t = tm_tenantId m
          \<and> tn_status t \<in> {T_ACTIVE, PROVISIONING, PILOT_ENDING})"

lemma requireAuthenticatedUser_ok [ok_iff]:
  "requireAuthenticatedUser s = (Inr u, t) \<longleftrightarrow>
     session s = Some u \<and> su_status u = ''ACTIVE'' \<and> t = s"
  by (auto simp: requireAuthenticatedUser_def bindH_def split: option.splits)

lemma resolveMembership_ok:
  "resolveMembership fc user tid s = (Inr ctx, t) \<Longrightarrow>
     t = s \<and> cx_user ctx = user \<and> activeMember s user (cx_membership ctx)
     \<and> cx_tenantId ctx = tid \<and> tm_tenantId (cx_membership ctx) = tid
     \<and> cx_tenantRole ctx = tm_role (cx_membership ctx)
     \<and> cx_capabilities ctx = resolveCapabilities (cx_tenantRole ctx) None None"
  unfolding resolveMembership_def findTenantMembership_def
  by (auto simp: ok_iff activeMember_def split: option.splits if_splits dest!: find_SomeD)

lemma requireTenantMembership_run:
  "requireTenantMembership tid s = (Inr ctx, t) \<longleftrightarrow>
     (\<exists>u x. session s = Some u \<and> su_status u = ''ACTIVE''
        \<and> (case tid of None \<Rightarrow> active_tenant s | Some y \<Rightarrow> Some y) = Some x \<and> x \<noteq> []
        \<and> resolveMembership (tid = None) u x s = (Inr ctx, t))"
  unfolding requireTenantMembership_def
  by (cases tid) (auto simp: ok_iff split: option.splits if_splits)

lemma requireTenantMembership_ok:
  assumes "requireTenantMembership tid s = (Inr ctx, t)"
  shows "t = s \<and> session s = Some (cx_user ctx) \<and> activeMember s (cx_user ctx) (cx_membership ctx)
    \<and> cx_tenantId ctx = tm_tenantId (cx_membership ctx)
    \<and> Some (cx_tenantId ctx) = (case tid of None \<Rightarrow> active_tenant s | Some x \<Rightarrow> Some x)
    \<and> cx_tenantRole ctx = tm_role (cx_membership ctx)
    \<and> cx_capabilities ctx = resolveCapabilities (cx_tenantRole ctx) None None"
  using assms unfolding requireTenantMembership_run by (auto dest!: resolveMembership_ok)

lemma loadAuthorizedProject_ok:
  assumes "loadAuthorizedProject ctx pid s = (Inr pc, t)"
  shows "t = s \<and> cx_project pc \<in> set (projects s) \<and> prj_id (cx_project pc) = pid
    \<and> prj_tenantId (cx_project pc) = cx_tenantId ctx
    \<and> cx_user pc = cx_user ctx \<and> cx_tenantId pc = cx_tenantId ctx
    \<and> cx_membership pc = cx_membership ctx \<and> cx_tenantRole pc = cx_tenantRole ctx
    \<and> cx_capabilities pc = resolveCapabilities (cx_tenantRole ctx) (cx_projectRole pc)
         (Some (prj_status (cx_project pc)))
    \<and> findProject pid (cx_tenantId ctx) s = Some (cx_project pc)
    \<and> cx_projectRole pc = map_option pm_role
         (findProjectMembership pid (cx_tenantId ctx) (su_id (cx_user ctx)) s)
    \<and> (tenantRoleCanAccessAllTenantProjects (cx_tenantRole ctx) \<or> cx_projectRole pc \<noteq> None)"
  using assms unfolding loadAuthorizedProject_def
  by (auto simp: ok_iff Let_def findProject_def split: option.splits if_splits
      dest!: find_SomeD)

text \<open>What a successful \<open>requireProjectAccess\<close> establishes about the state.\<close>

definition projectAccess :: "web_state \<Rightarrow> string \<Rightarrow> project_context \<Rightarrow> bool" where
  "projectAccess s pid pc \<longleftrightarrow>
     session s = Some (cx_user pc) \<and> activeMember s (cx_user pc) (cx_membership pc)
     \<and> active_tenant s = Some (cx_tenantId pc)
     \<and> cx_tenantId pc = tm_tenantId (cx_membership pc)
     \<and> cx_tenantRole pc = tm_role (cx_membership pc)
     \<and> findProject pid (cx_tenantId pc) s = Some (cx_project pc)
     \<and> cx_project pc \<in> set (projects s) \<and> prj_id (cx_project pc) = pid
     \<and> prj_tenantId (cx_project pc) = cx_tenantId pc
     \<and> cx_projectRole pc = map_option pm_role
          (findProjectMembership pid (cx_tenantId pc) (su_id (cx_user pc)) s)
     \<and> (tenantRoleCanAccessAllTenantProjects (cx_tenantRole pc) \<or> cx_projectRole pc \<noteq> None)
     \<and> cx_capabilities pc = resolveCapabilities (cx_tenantRole pc) (cx_projectRole pc)
          (Some (prj_status (cx_project pc)))"

lemma getAuthorizedProject_ok:
  assumes "getAuthorizedProject pid s = (Inr pc, t)"
  shows "t = s \<and> projectAccess s pid pc"
proof -
  from assms obtain ctx u where run: "requireTenantMembership None s = (Inr ctx, u)"
      "loadAuthorizedProject ctx pid u = (Inr pc, t)"
    unfolding getAuthorizedProject_def by (auto simp: ok_iff)
  from requireTenantMembership_ok[OF run(1)] loadAuthorizedProject_ok[OF run(2)]
  show ?thesis by (auto simp: projectAccess_def)
qed

lemma requireProjectAccess_ok:
  "requireProjectAccess pid s = (Inr pc, t) \<Longrightarrow>
     t = s \<and> projectAccess s pid pc \<and> TenantCap c_project_read \<in> cx_capabilities pc"
  unfolding requireProjectAccess_def
  by (auto simp: ok_iff hasCapability_def split: if_splits dest!: getAuthorizedProject_ok)

lemma requireProjectCapability_ok:
  "requireProjectCapability pid cap s = (Inr pc, t) \<Longrightarrow>
     t = s \<and> projectAccess s pid pc \<and> cap \<in> cx_capabilities pc"
  unfolding requireProjectCapability_def
  by (auto simp: ok_iff hasCapability_def split: if_splits dest!: requireProjectAccess_ok)

lemma requireTenantCapability_ok:
  "requireTenantCapability cap tid s = (Inr ctx, t) \<Longrightarrow>
     t = s \<and> session s = Some (cx_user ctx) \<and> activeMember s (cx_user ctx) (cx_membership ctx)
     \<and> cx_tenantId ctx = tm_tenantId (cx_membership ctx)
     \<and> cx_tenantRole ctx = tm_role (cx_membership ctx)
     \<and> cap \<in> capabilitiesForTenantRole (cx_tenantRole ctx)"
  unfolding requireTenantCapability_def
  by (auto simp: ok_iff hasCapability_def mem_resolve split: if_splits
      dest!: requireTenantMembership_ok)

section \<open>What the contexts leave unchanged\<close>

text \<open>
  \<open>onlyLog\<close>: every row the handlers decide on is as before, and the audit log has at
  most grown at its end.
\<close>

definition onlyLog :: "web_state \<Rightarrow> web_state \<Rightarrow> bool" where
  "onlyLog s t \<longleftrightarrow>
     session t = session s \<and> tenants t = tenants s
     \<and> tenant_memberships t = tenant_memberships s \<and> projects t = projects s
     \<and> project_memberships t = project_memberships s
     \<and> (\<exists>es. audit_log t = audit_log s @ es)"

interpretation lg: stable onlyLog
  by unfold_locales (auto simp: onlyLog_def)

text \<open>\<open>appended\<close>: whatever else happens, audit entries are never removed or changed.\<close>

definition appended :: "web_state \<Rightarrow> web_state \<Rightarrow> bool" where
  "appended s t \<longleftrightarrow> session t = session s \<and> (\<exists>es. audit_log t = audit_log s @ es)"

interpretation ap: stable appended
  by unfold_locales (auto simp: appended_def)

lemma audit_obeys:
  "lg.obeys (writeAuditLog e)" "ap.obeys (writeAuditLog e)"
  unfolding writeAuditLog_def
  by (auto intro!: lg.obeys_write ap.obeys_write simp: onlyLog_def appended_def)

lemma cookie_obeys:
  "lg.obeys (writeH (\<lambda>s. s\<lparr>active_tenant := x\<rparr>))"
  by (auto intro!: lg.obeys_write simp: onlyLog_def)

lemma lg_requireAuthenticatedUser: "lg.obeys requireAuthenticatedUser"
  unfolding requireAuthenticatedUser_def by (intro lg.obeys_rules)

lemma lg_requireTenantMembership: "lg.obeys (requireTenantMembership tid)"
  unfolding requireTenantMembership_def resolveMembership_def
  by (intro lg.obeys_rules lg_requireAuthenticatedUser cookie_obeys)

lemma lg_requireTenantCapability: "lg.obeys (requireTenantCapability cap tid)"
  unfolding requireTenantCapability_def
  by (intro lg.obeys_rules lg_requireTenantMembership audit_obeys)

lemma lg_requireProjectAccess: "lg.obeys (requireProjectAccess pid)"
  unfolding requireProjectAccess_def getAuthorizedProject_def loadAuthorizedProject_def Let_def
  by (intro lg.obeys_rules lg_requireTenantMembership)

lemma lg_requireProjectCapability: "lg.obeys (requireProjectCapability pid cap)"
  unfolding requireProjectCapability_def
  by (intro lg.obeys_rules lg_requireProjectAccess audit_obeys)

lemmas lg_contexts =
  lg_requireAuthenticatedUser lg_requireTenantMembership lg_requireTenantCapability
  lg_requireProjectAccess lg_requireProjectCapability

lemma onlyLog_appended: "onlyLog s t \<Longrightarrow> appended s t"
  by (auto simp: onlyLog_def appended_def)

lemma ap_of_lg: "lg.obeys m \<Longrightarrow> ap.obeys m"
  by (simp add: lg.obeys_def ap.obeys_def onlyLog_appended)

lemma createProject_failsafe: "lg.failsafe (createProject sp i m raw)"
  unfolding createProject_def Let_def
  by (intro lg.failsafe_bind lg.failsafe_sum lg.failsafe_transaction lg_contexts
      lg.failsafe_obeys[OF lg.obeys_pure(2)])

lemma updateProject_failsafe: "lg.failsafe (updateProject sp pid raw)"
  unfolding updateProject_def Let_def
  by (intro lg.failsafe_bind lg.failsafe_sum lg.failsafe_if lg.failsafe_transaction lg_contexts
      lg.obeys_if lg.failsafe_obeys[OF lg.obeys_pure(2)])

lemma addProjectMember_failsafe: "lg.failsafe (addProjectMember sp i pid raw)"
  unfolding addProjectMember_def Let_def
  by (intro lg.failsafe_bind lg.failsafe_sum lg.failsafe_if lg.failsafe_transaction lg_contexts
      lg.failsafe_then_throw lg.obeys_transaction audit_obeys
      lg.failsafe_obeys[OF lg.obeys_pure(2)])

lemma selectActiveTenant_obeys: "lg.obeys (selectActiveTenant sp raw)"
  unfolding selectActiveTenant_def
  by (intro lg.obeys_rules lg_contexts audit_obeys cookie_obeys)

end
