(* ===== verification/ProjectService.thy ===== *)
theory ProjectService
  imports AccessControl
begin

text \<open>
  What the project service guarantees: another tenant's rows never show in its answers, failures
  leave the rows alone, an archived project only comes back through a restore, members are added
  under the assignment rules, and every reachable state keeps the keys of the tables.
\<close>

section \<open>Two runs\<close>

text \<open>
  What an organization sees of a state: the caller, the organization's own row, its memberships, its
  projects and its project memberships.  \<open>agreeOn\<close> says that two states look alike to it;
  \<open>gate\<close> is a check that cannot tell such states apart and, if it passes, leaves them.
\<close>

definition agreeOn :: "string \<Rightarrow> web_state \<Rightarrow> web_state \<Rightarrow> bool" where
  "agreeOn T s s' \<longleftrightarrow>
     session s = session s' \<and> active_tenant s = active_tenant s'
     \<and> filter (\<lambda>t. tn_id t = T) (tenants s) = filter (\<lambda>t. tn_id t = T) (tenants s')
     \<and> filter (\<lambda>m. tm_tenantId m = T) (tenant_memberships s)
         = filter (\<lambda>m. tm_tenantId m = T) (tenant_memberships s')
     \<and> filter (\<lambda>p. prj_tenantId p = T) (projects s) = filter (\<lambda>p. prj_tenantId p = T) (projects s')
     \<and> filter (\<lambda>m. pm_tenantId m = T) (project_memberships s)
         = filter (\<lambda>m. pm_tenantId m = T) (project_memberships s')"

text \<open>The rows of the other organizations stay as they are.\<close>

definition othersKept :: "string \<Rightarrow> web_state \<Rightarrow> web_state \<Rightarrow> bool" where
  "othersKept T s t \<longleftrightarrow> tenants t = tenants s \<and> tenant_memberships t = tenant_memberships s
     \<and> filter (\<lambda>p. prj_tenantId p \<noteq> T) (projects t) = filter (\<lambda>p. prj_tenantId p \<noteq> T) (projects s)
     \<and> filter (\<lambda>m. pm_tenantId m \<noteq> T) (project_memberships t)
         = filter (\<lambda>m. pm_tenantId m \<noteq> T) (project_memberships s)"

definition gate :: "string \<Rightarrow> ('a \<Rightarrow> bool) \<Rightarrow> 'a web \<Rightarrow> bool" where
  "gate T Q m \<longleftrightarrow> (\<forall>s s'. agreeOn T s s' \<and> active_tenant s = Some T \<longrightarrow>
     (\<exists>e t t'. m s = (Inl e, t) \<and> m s' = (Inl e, t') \<and> agreeOn T t t' \<and> othersKept T s t)
     \<or> (\<exists>c. m s = (Inr c, s) \<and> m s' = (Inr c, s') \<and> Q c))"

lemma others_refl [simp]: "othersKept T s s"
  by (simp add: othersKept_def)

lemma agree_log [simp]:
  "agreeOn T (s\<lparr>audit_log := l\<rparr>) (s'\<lparr>audit_log := l'\<rparr>) = agreeOn T s s'"
  "othersKept T s (t\<lparr>audit_log := l\<rparr>) = othersKept T s t"
  by (simp_all add: agreeOn_def othersKept_def)

lemma gate_pure: "Q x \<Longrightarrow> gate T Q (returnH x)" "gate T Q (throwH e)"
  by (auto simp: gate_def)

lemma gate_if: "(b \<Longrightarrow> gate T Q m) \<Longrightarrow> (\<not> b \<Longrightarrow> gate T Q m') \<Longrightarrow> gate T Q (if b then m else m')"
  by simp

lemma gate_read:
  assumes "\<And>s s'. agreeOn T s s' \<Longrightarrow> active_tenant s = Some T \<Longrightarrow> f s = f s' \<and> Q (f s)"
  shows "gate T Q (readH f)"
  using assms by (fastforce simp: gate_def)

lemma gate_bind:
  assumes "gate T Q m" and "\<And>c. Q c \<Longrightarrow> gate T R (f c)"
  shows "gate T R (bindH m f)"
  unfolding gate_def
proof (intro allI impI)
  fix s s' assume a: "agreeOn T s s' \<and> active_tenant s = Some T"
  then consider (no) e t t' where "m s = (Inl e, t)" "m s' = (Inl e, t')" "agreeOn T t t'" "othersKept T s t"
    | (yes) c where "m s = (Inr c, s)" "m s' = (Inr c, s')" "Q c"
    using assms(1) unfolding gate_def by blast
  then show "(\<exists>e t t'. bindH m f s = (Inl e, t) \<and> bindH m f s' = (Inl e, t') \<and> agreeOn T t t' \<and> othersKept T s t)
      \<or> (\<exists>c. bindH m f s = (Inr c, s) \<and> bindH m f s' = (Inr c, s') \<and> R c)"
  proof cases
    case no
    then show ?thesis by (simp add: bindH_def)
  next
    case yes
    then show ?thesis using assms(2)[OF yes(3)] a by (simp add: bindH_def gate_def)
  qed
qed

lemma gate_transaction: "gate T Q m \<Longrightarrow> gate T Q (transactionH m)"
  unfolding gate_def by (fastforce simp: transactionH_def)

lemma gate_denied: "gate T Q (thenH (transactionH (writeAuditLog e)) (throwH x))"
  by (auto simp: gate_def thenH_def bindH_def transactionH_def writeAuditLog_def)

lemma gate_cookie: "gate T Q (thenH (if b then writeH (\<lambda>s. s\<lparr>active_tenant := None\<rparr>) else returnH ()) (throwH x))"
  by (auto simp: gate_def thenH_def bindH_def agreeOn_def othersKept_def)

lemma find_filter: "(\<And>x. P x \<Longrightarrow> Q x) \<Longrightarrow> find P (filter Q xs) = find P xs"
  by (induction xs) auto

lemma findTenantMembership_agree:
  assumes "agreeOn T s s'"
  shows "findTenantMembership T u s = findTenantMembership T u s'"
proof -
  have rows: "filter (\<lambda>t. tn_id t = T) (tenants s) = filter (\<lambda>t. tn_id t = T) (tenants s')"
    using assms by (simp add: agreeOn_def)
  have "(\<exists>t\<in>set xs. tn_id t = T \<and> P t) \<longleftrightarrow> (\<exists>t\<in>set (filter (\<lambda>t. tn_id t = T) xs). P t)" for xs P
    by auto
  note own = this
  have same: "(\<exists>t\<in>set (tenants s). tn_id t = T \<and> P t) \<longleftrightarrow> (\<exists>t\<in>set (tenants s'). tn_id t = T \<and> P t)" for P
    unfolding own[of "tenants s"] own[of "tenants s'"] rows ..
  have "find (\<lambda>m. tm_tenantId m = T \<and> tm_userId m = u \<and> tm_status m = M_ACTIVE \<and> b) (tenant_memberships s)
      = find (\<lambda>m. tm_tenantId m = T \<and> tm_userId m = u \<and> tm_status m = M_ACTIVE \<and> b) (tenant_memberships s')" for b
    using assms find_filter[where Q = "\<lambda>m. tm_tenantId m = T"] unfolding agreeOn_def by (metis (mono_tags, lifting))
  then show ?thesis unfolding findTenantMembership_def same .
qed

lemma findProject_agree: "agreeOn T s s' \<Longrightarrow> findProject pid T s = findProject pid T s'"
  unfolding findProject_def agreeOn_def
  by (metis (mono_tags, lifting) find_filter[where Q = "\<lambda>p. prj_tenantId p = T"])

lemma findProjectMembership_agree:
  "agreeOn T s s' \<Longrightarrow> findProjectMembership pid T u s = findProjectMembership pid T u s'"
  unfolding findProjectMembership_def agreeOn_def
  by (metis (mono_tags, lifting) find_filter[where Q = "\<lambda>m. pm_tenantId m = T"])

lemma findTenantMembership_tenant: "findTenantMembership T u s = Some m \<Longrightarrow> tm_tenantId m = T"
  by (auto simp: findTenantMembership_def dest!: find_SomeD)

text \<open>The checks of the requests are gates, and what passes them is the selected organization's.\<close>

abbreviation (input) ofTenant :: "string \<Rightarrow> 'x tenant_context_scheme \<Rightarrow> bool" where
  "ofTenant T c \<equiv> cx_tenantId c = T"

lemma user_gate: "gate T (\<lambda>_. True) requireAuthenticatedUser"
  by (auto simp: gate_def requireAuthenticatedUser_def bindH_def agreeOn_def split: option.splits)

lemma resolve_gate: "gate T (ofTenant T) (resolveMembership True user T)"
  unfolding resolveMembership_def
  by (rule gate_bind[where Q = "\<lambda>m. \<forall>x. m = Some x \<longrightarrow> tm_tenantId x = T"])
    (auto intro!: gate_transaction gate_read gate_cookie[where b = True, simplified] gate_pure(1)
      simp: findTenantMembership_agree split: option.split dest: findTenantMembership_tenant)

lemma membership_gate: "gate T (ofTenant T) (requireTenantMembership None)"
  unfolding requireTenantMembership_def option.case
  by (rule gate_bind[OF user_gate], rule gate_bind[where Q = "\<lambda>x. x = Some T"])
    (auto intro!: gate_read gate_pure(2) simp: agreeOn_def resolve_gate split: option.split)

lemma load_gate:
  assumes "ofTenant T c"
  shows "gate T (ofTenant T) (loadAuthorizedProject c pid)"
  unfolding loadAuthorizedProject_def assms Let_def
  apply (rule gate_transaction, rule gate_bind[where Q = "\<lambda>_. True"])
   apply (rule gate_read, simp add: findProject_agree)
  apply (split option.split, intro conjI allI impI, rule gate_pure(2))
  apply (rule gate_bind[where Q = "\<lambda>_. True"])
   apply (rule gate_read, simp add: findProjectMembership_agree)
  apply (rule gate_if, rule gate_pure(2), rule gate_pure(1), simp)
  done

lemma access_gate: "gate T (ofTenant T) (requireProjectAccess pid)"
  unfolding requireProjectAccess_def getAuthorizedProject_def
  by (rule gate_bind[OF gate_bind[OF membership_gate load_gate]])
    (auto intro: gate_pure)

lemma capability_gate: "gate T (ofTenant T) (requireProjectCapability pid cap)"
  unfolding requireProjectCapability_def
  by (rule gate_bind[OF access_gate]) (auto intro: gate_pure gate_denied)

lemma tenant_capability_gate: "gate T (ofTenant T) (requireTenantCapability cap None)"
  unfolding requireTenantCapability_def
  by (rule gate_bind[OF membership_gate]) (auto intro: gate_pure gate_denied)

section \<open>The states successful calls leave\<close>

lemma writes_Inr [ok_iff]:
  "writeAuditLog e s = (Inr x, t) \<longleftrightarrow> t = s\<lparr>audit_log := audit_log s @ [e]\<rparr>"
  by (auto simp: writeAuditLog_def)

text \<open>The rows that only the organization's own services change.\<close>

definition keepsOrg :: "web_state \<Rightarrow> web_state \<Rightarrow> bool" where
  "keepsOrg s t \<longleftrightarrow> session t = session s \<and> active_tenant t = active_tenant s
     \<and> tenants t = tenants s \<and> tenant_memberships t = tenant_memberships s"

lemma createProject_ok:
  assumes "createProject sp newId memId raw s = (Inr p, t)"
  obtains ctx data es where
    "sp raw = Inr data" "requireTenantCapability (TenantCap c_project_create) None s = (Inr ctx, s)"
    "prj_id p = newId" "prj_tenantId p = cx_tenantId ctx"
    "\<not> projectCodeTaken (cx_tenantId ctx) (prj_code p) s"
    "t = s\<lparr>projects := projects s @ [p],
           project_memberships := project_memberships s @
             [\<lparr>pm_id = memId, pm_tenantId = cx_tenantId ctx, pm_projectId = newId,
               pm_userId = su_id (cx_user ctx), pm_role = P_PROJECT_ADMIN, pm_status = M_ACTIVE\<rparr>],
           audit_log := audit_log s @ es\<rparr>"
proof -
  obtain ctx u where run: "requireTenantCapability (TenantCap c_project_create) None s = (Inr ctx, u)"
    using assms unfolding createProject_def by (auto simp: ok_iff)
  then have "u = s" by (auto dest: requireTenantCapability_ok)
  then show ?thesis
    using assms run unfolding createProject_def
    by (auto simp: ok_iff Let_def split: sum.splits intro: that)
qed

definition replaceProject :: "project_context \<Rightarrow> update_project_input \<Rightarrow> project list \<Rightarrow> project list" where
  "replaceProject ctx data = map (\<lambda>p. if prj_id p = prj_id (cx_project ctx)
     \<and> prj_tenantId p = cx_tenantId ctx then applyProjectUpdate data p else p)"

lemma updateProject_ok:
  assumes "updateProject sp pid raw s = (Inr p, t)"
  obtains access data ctx where
    "sp raw = Inr data" "projectAccess s pid access" "projectAccess s pid ctx"
    "p = applyProjectUpdate data (cx_project ctx)"
    "projects t = replaceProject ctx data (projects s)" "keepsOrg s t"
    "project_memberships t = project_memberships s"
    "if prj_status (cx_project access) = P_ARCHIVED \<and> ui_status data \<noteq> None
        \<and> ui_status data \<noteq> Some P_ARCHIVED
     then TenantCap c_project_archive \<in> cx_capabilities ctx
     else TenantCap c_project_update \<in> cx_capabilities ctx
        \<and> prj_status (cx_project access) \<noteq> P_ARCHIVED"
    "ui_status data = Some P_ARCHIVED \<Longrightarrow> TenantCap c_project_archive \<in> cx_capabilities ctx"
proof -
  from assms obtain data where sp: "sp raw = Inr data"
    by (cases "sp raw") (auto simp: updateProject_def)
  then obtain access u where acc:
      "requireProjectCapability pid (TenantCap c_project_read) s = (Inr access, u)"
    using assms unfolding updateProject_def by (auto simp: ok_iff)
  have us: "u = s" and pa: "projectAccess s pid access"
    using requireProjectCapability_ok[OF acc] by auto
  let ?restore = "prj_status (cx_project access) = P_ARCHIVED \<and> ui_status data \<noteq> None
        \<and> ui_status data \<noteq> Some P_ARCHIVED"
  let ?cap = "if ?restore then TenantCap c_project_archive else TenantCap c_project_update"
  obtain ctx v where ctx: "requireProjectCapability pid ?cap s = (Inr ctx, v)"
    using assms sp acc us unfolding updateProject_def
    by (auto simp: ok_iff Let_def split: if_splits)
  have vs: "v = s" and pc: "projectAccess s pid ctx" and cap: "?cap \<in> cx_capabilities ctx"
    using requireProjectCapability_ok[OF ctx] by auto
  have found: "findProject (prj_id (cx_project ctx)) (cx_tenantId ctx) s = Some (cx_project ctx)"
    using pc by (auto simp: projectAccess_def)
  show ?thesis
    using assms sp acc us ctx vs pc pa cap found unfolding updateProject_def
    by (intro that[of data access ctx])
      (auto simp: ok_iff Let_def hasCapability_def replaceProject_def keepsOrg_def split: if_splits)
qed

lemma addProjectMember_ok:
  assumes "addProjectMember sp newId pid raw s = (Inr m, t)"
  obtains ctx data tm where
    "sp raw = Inr data" "projectAccess s pid ctx"
    "TenantCap c_project_members_manage \<in> cx_capabilities ctx"
    "canAssignProjectRole (Some (cx_tenantRole ctx)) (cx_projectRole ctx) (ai_role data)"
    "tm \<in> set (tenant_memberships s)" "tm_tenantId tm = cx_tenantId ctx"
    "tm_userId tm = ai_userId data" "tm_status tm = M_ACTIVE"
    "pm_tenantId m = cx_tenantId ctx" "pm_projectId m = pid" "pm_userId m = ai_userId data"
    "pm_role m = ai_role data" "pm_status m = M_ACTIVE"
    "project_memberships t = upsertMembership m (project_memberships s)" "keepsOrg s t"
    "projects t = projects s"
proof -
  obtain ctx u where
      ctx: "requireProjectCapability pid (TenantCap c_project_members_manage) s = (Inr ctx, u)"
    using assms unfolding addProjectMember_def by (auto simp: ok_iff)
  have us: "u = s" and pc: "projectAccess s pid ctx"
      and cap: "TenantCap c_project_members_manage \<in> cx_capabilities ctx"
    using requireProjectCapability_ok[OF ctx] by auto
  have pid: "prj_id (cx_project ctx) = pid"
    and found: "findProject pid (cx_tenantId ctx) s = Some (cx_project ctx)"
    using pc unfolding projectAccess_def by blast+
  obtain data where sp: "sp raw = Inr data"
    using assms ctx by (cases "sp raw") (auto simp: addProjectMember_def)
  show ?thesis
    using assms ctx us pid found sp pc cap unfolding addProjectMember_def
    by (auto simp: ok_iff Let_def keepsOrg_def split: if_splits option.splits dest!: find_SomeD intro!: that)
qed

section \<open>The rows of every reachable state\<close>

text \<open>
  What the schema's keys say: project ids are unique, a code is unique in its organization, a user
  has one membership per project, and a project membership belongs to a project of the same organization and to a member of
  that organization.
\<close>

definition wf_web :: "web_state \<Rightarrow> bool" where
  "wf_web s \<longleftrightarrow>
     distinct (map prj_id (projects s))
     \<and> distinct (map (\<lambda>p. (prj_tenantId p, prj_code p)) (projects s))
     \<and> distinct (map (\<lambda>m. (pm_projectId m, pm_userId m)) (project_memberships s))
     \<and> (\<forall>m\<in>set (project_memberships s).
          (\<exists>p\<in>set (projects s). prj_id p = pm_projectId m \<and> prj_tenantId p = pm_tenantId m)
          \<and> (\<exists>tm\<in>set (tenant_memberships s).
               tm_tenantId tm = pm_tenantId m \<and> tm_userId tm = pm_userId m))"

text \<open>
  One request of a browser, which brings its own session and cookie.  The database draws the id of
  a new project afresh; the result, an error or not, is left open.
\<close>

inductive project_step :: "web_state \<Rightarrow> web_state \<Rightarrow> bool" where
  browser: "project_step s (s\<lparr>session := u, active_tenant := c\<rparr>)"
| create: "newId \<notin> prj_id ` set (projects s) \<Longrightarrow>
    createProject sp newId memId (raw :: string) s = (r, t) \<Longrightarrow> project_step s t"
| update: "updateProject usp pid (raw :: string) s = (r, t) \<Longrightarrow> project_step s t"
| add: "addProjectMember asp newId pid (raw :: string) s = (r', t) \<Longrightarrow> project_step s t"
| select: "selectActiveTenant ssp (raw :: string) s = (r'', t) \<Longrightarrow> project_step s t"

inductive_cases project_stepE: "project_step s t"

lemma wf_web_onlyLog: "onlyLog s t \<Longrightarrow> wf_web s \<Longrightarrow> wf_web t"
  by (simp add: onlyLog_def wf_web_def)

lemma upsert_keys:
  "map (\<lambda>m. (pm_projectId m, pm_userId m)) (upsertMembership new rows) =
     (if (pm_projectId new, pm_userId new) \<in> (\<lambda>m. (pm_projectId m, pm_userId m)) ` set rows
      then map (\<lambda>m. (pm_projectId m, pm_userId m)) rows
      else map (\<lambda>m. (pm_projectId m, pm_userId m)) rows @ [(pm_projectId new, pm_userId new)])"
  by (auto simp: upsertMembership_def memberKey_def image_iff) metis+

lemma set_upsert:
  "m \<in> set (upsertMembership new rows) \<Longrightarrow>
     (m \<in> set rows \<and> \<not> memberKey (pm_projectId new) (pm_userId new) m)
     \<or> (memberKey (pm_projectId new) (pm_userId new) m \<and> pm_tenantId m = pm_tenantId new
        \<and> pm_role m = pm_role new)"
  by (auto simp: upsertMembership_def memberKey_def split: if_splits)

lemma replaceProject_keys:
  "map prj_id (replaceProject ctx data ps) = map prj_id ps"
  "map (\<lambda>p. (prj_tenantId p, prj_code p)) (replaceProject ctx data ps) = map (\<lambda>p. (prj_tenantId p, prj_code p)) ps"
  by (induction ps) (auto simp: replaceProject_def applyProjectUpdate_def)

lemma replaceProject_key_mem:
  "(\<exists>p\<in>set (replaceProject ctx data ps). prj_id p = i \<and> prj_tenantId p = T) \<longleftrightarrow>
     (\<exists>p\<in>set ps. prj_id p = i \<and> prj_tenantId p = T)"
  by (induction ps) (auto simp: replaceProject_def applyProjectUpdate_def)

lemma wf_create:
  assumes "wf_web s" and "newId \<notin> prj_id ` set (projects s)"
    and "createProject sp newId memId raw s = (Inr p, t)"
  shows "wf_web t"
proof -
  obtain ctx es where run: "requireTenantCapability (TenantCap c_project_create) None s = (Inr ctx, s)"
    and p: "prj_id p = newId" "prj_tenantId p = cx_tenantId ctx"
    and free: "\<not> projectCodeTaken (cx_tenantId ctx) (prj_code p) s"
    and t: "t = s\<lparr>projects := projects s @ [p],
           project_memberships := project_memberships s @
             [\<lparr>pm_id = memId, pm_tenantId = cx_tenantId ctx, pm_projectId = newId,
               pm_userId = su_id (cx_user ctx), pm_role = P_PROJECT_ADMIN, pm_status = M_ACTIVE\<rparr>],
           audit_log := audit_log s @ es\<rparr>"
    using createProject_ok[OF assms(3)] by metis
  have member: "\<exists>tm\<in>set (tenant_memberships s).
      tm_tenantId tm = cx_tenantId ctx \<and> tm_userId tm = su_id (cx_user ctx)"
    using requireTenantCapability_ok[OF run] by (auto simp: activeMember_def)
  have fresh: "pm_projectId m \<noteq> newId" if "m \<in> set (project_memberships s)" for m
    using assms(1,2) that by (force simp: wf_web_def)
  show ?thesis
    using assms(1,2) member p free unfolding t wf_web_def
    by (auto dest: fresh simp: projectCodeTaken_def list_ex_iff)
qed

lemma wf_update:
  assumes "wf_web s" and "updateProject sp pid raw s = (Inr p, t)"
  shows "wf_web t"
  using assms(2)
proof (rule updateProject_ok)
  fix ctx data
  assume "projects t = replaceProject ctx data (projects s)" "keepsOrg s t"
    "project_memberships t = project_memberships s"
  then show ?thesis
    using assms(1) by (simp add: wf_web_def replaceProject_keys replaceProject_key_mem keepsOrg_def)
qed

lemma wf_upsert:
  assumes "wf_web s" and "projectAccess s (pm_projectId m) ctx" and "pm_tenantId m = cx_tenantId ctx"
    and "tm \<in> set (tenant_memberships s)" "tm_tenantId tm = pm_tenantId m" "tm_userId tm = pm_userId m"
    and t: "project_memberships t = upsertMembership m (project_memberships s)" "keepsOrg s t"
      "projects t = projects s"
  shows "wf_web t"
proof -
  have prj: "cx_project ctx \<in> set (projects s)" "prj_id (cx_project ctx) = pm_projectId m"
      "prj_tenantId (cx_project ctx) = pm_tenantId m"
    using assms(2,3) by (auto simp: projectAccess_def)
  have "(\<exists>p\<in>set (projects s). prj_id p = pm_projectId x \<and> prj_tenantId p = pm_tenantId x)
      \<and> (\<exists>tm\<in>set (tenant_memberships s). tm_tenantId tm = pm_tenantId x \<and> tm_userId tm = pm_userId x)"
    if "x \<in> set (upsertMembership m (project_memberships s))" for x
    using set_upsert[OF that] assms(1,4-6) prj by (auto simp: wf_web_def memberKey_def)
  then show ?thesis
    using assms(1) t by (auto simp: wf_web_def upsert_keys keepsOrg_def)
qed

lemma wf_add:
  assumes "wf_web s" and "addProjectMember sp newId pid raw s = (Inr m, t)"
  shows "wf_web t"
  using assms(2) by (rule addProjectMember_ok) (rule wf_upsert[OF assms(1)]; simp)

lemma wf_result:
  assumes "lg.failsafe m" and "m s = (r, t)" and "wf_web s"
    and "\<And>x. m s = (Inr x, t) \<Longrightarrow> wf_web t"
  shows "wf_web t"
proof (cases r)
  case (Inl e)
  then have "onlyLog s t" using lg.failsafeD[OF assms(1)] assms(2) by simp
  then show ?thesis using assms(3) by (rule wf_web_onlyLog)
next
  case (Inr x)
  then show ?thesis using assms(2,4) by simp
qed

lemma wf_project_step:
  assumes "project_step s t" and "wf_web s"
  shows "wf_web t"
  using assms(1)
proof (rule project_stepE)
  fix u c
  assume "t = s\<lparr>session := u, active_tenant := c\<rparr>"
  then show ?thesis using assms(2) by (simp add: wf_web_def)
next
  fix newId sp memId raw r
  assume "newId \<notin> prj_id ` set (projects s)" "createProject sp newId memId raw s = (r, t)"
  then show ?thesis using assms(2) by (blast intro: wf_result[OF createProject_failsafe] wf_create)
next
  fix usp pid raw r
  assume "updateProject usp pid raw s = (r, t)"
  then show ?thesis using assms(2) by (blast intro: wf_result[OF updateProject_failsafe] wf_update)
next
  fix asp newId pid raw r'
  assume "addProjectMember asp newId pid raw s = (r', t)"
  then show ?thesis using assms(2) by (blast intro: wf_result[OF addProjectMember_failsafe] wf_add)
next
  fix ssp raw r''
  assume "selectActiveTenant ssp raw s = (r'', t)"
  then show ?thesis
    using assms(2) by (blast intro: wf_web_onlyLog dest: lg.obeysD[OF selectActiveTenant_obeys])
qed

section \<open>Properties of the service\<close>

text \<open>
  A state to run the handlers on: two organizations, the owner of the first signed in with it
  selected, projects in both, and a reviewer of the first who is in no project.
\<close>

definition demo_user :: session_user where
  "demo_user = \<lparr>su_id = ''u1'', su_email = ''o@a'', su_name = ''O'', su_status = ''ACTIVE''\<rparr>"

definition demo_member :: "string \<Rightarrow> string \<Rightarrow> tenant_role \<Rightarrow> tenant_membership" where
  "demo_member T u r = \<lparr>tm_tenantId = T, tm_userId = u, tm_role = r, tm_status = M_ACTIVE\<rparr>"

definition demo_project :: "string \<Rightarrow> string \<Rightarrow> project_status \<Rightarrow> project" where
  "demo_project p T st = \<lparr>prj_id = p, prj_tenantId = T, prj_name = ''N'', prj_code = ''C-'' @ p,
     prj_description = None, prj_status = st, prj_countryCode = ''SA'',
     prj_defaultCurrency = ''SAR'', prj_timezone = ''UTC''\<rparr>"

definition demo_state :: web_state where
  "demo_state = \<lparr>session = Some demo_user, active_tenant = Some ''A'',
     tenants = [\<lparr>tn_id = ''A'', tn_name = ''A'', tn_status = T_ACTIVE\<rparr>,
                \<lparr>tn_id = ''B'', tn_name = ''B'', tn_status = T_ACTIVE\<rparr>],
     tenant_memberships = [demo_member ''A'' ''u1'' TENANT_OWNER, demo_member ''A'' ''u2'' REVIEWER],
     projects = [demo_project ''p1'' ''A'' P_ACTIVE, demo_project ''p2'' ''B'' P_ACTIVE,
                 demo_project ''p3'' ''A'' P_ARCHIVED],
     project_memberships = [], audit_log = []\<rparr>"

lemmas demo_defs = demo_state_def demo_user_def demo_member_def demo_project_def

lemma demo_tables:
  "projects demo_state = [demo_project ''p1'' ''A'' P_ACTIVE, demo_project ''p2'' ''B'' P_ACTIVE,
     demo_project ''p3'' ''A'' P_ARCHIVED]"
  "project_memberships demo_state = []" "audit_log demo_state = []"
  "tenant_memberships demo_state =
     [demo_member ''A'' ''u1'' TENANT_OWNER, demo_member ''A'' ''u2'' REVIEWER]"
  by (simp_all add: demo_state_def)

definition demo_context :: "project \<Rightarrow> project_context" where
  "demo_context p = \<lparr>cx_user = demo_user, cx_tenantId = ''A'',
     cx_membership = demo_member ''A'' ''u1'' TENANT_OWNER, cx_tenantRole = TENANT_OWNER,
     cx_capabilities = resolveCapabilities TENANT_OWNER None (Some (prj_status p)),
     cx_project = p, cx_projectRole = None\<rparr>"

lemma demo_authorized:
  "getAuthorizedProject ''p1'' demo_state =
     (Inr (demo_context (demo_project ''p1'' ''A'' P_ACTIVE)), demo_state)"
  "getAuthorizedProject ''p3'' demo_state =
     (Inr (demo_context (demo_project ''p3'' ''A'' P_ARCHIVED)), demo_state)"
  by (simp_all add: getAuthorizedProject_def requireTenantMembership_def bindH_def transactionH_def
      requireAuthenticatedUser_def resolveMembership_def findTenantMembership_def Let_def
      loadAuthorizedProject_def findProject_def findProjectMembership_def demo_defs
      demo_context_def tenantRoleCanAccessAllTenantProjects_def)

lemma owner_capabilities:
  "TenantCap c_project_read \<in> resolveCapabilities TENANT_OWNER None st"
  "TenantCap c_project_archive \<in> resolveCapabilities TENANT_OWNER None st"
  "TenantCap c_project_update \<in> resolveCapabilities TENANT_OWNER None (Some P_ACTIVE)"
  "TenantCap c_project_members_manage \<in> resolveCapabilities TENANT_OWNER None (Some P_ACTIVE)"
  by (simp_all add: mem_resolve capabilitiesForTenantRole_def CAPABILITIES_def
      MUTATING_PROJECT_CAPABILITIES_def)

lemma demo_capability:
  "cap \<in> resolveCapabilities TENANT_OWNER None (Some P_ACTIVE) \<Longrightarrow>
     requireProjectCapability ''p1'' cap demo_state =
       (Inr (demo_context (demo_project ''p1'' ''A'' P_ACTIVE)), demo_state)"
  "cap \<in> resolveCapabilities TENANT_OWNER None (Some P_ARCHIVED) \<Longrightarrow>
     requireProjectCapability ''p3'' cap demo_state =
       (Inr (demo_context (demo_project ''p3'' ''A'' P_ARCHIVED)), demo_state)"
  by (simp_all add: requireProjectCapability_def requireProjectAccess_def demo_authorized bindH_def
      hasCapability_def demo_context_def demo_project_def owner_capabilities)

text \<open>C2: A project request that is answered belongs to the caller: the project's row carries the
organization of the caller's active membership, the organization is the selected one and admits
work, and the caller either holds a tenant role that covers every project or an active membership
of this one.  The granted capabilities are those of the two roles.\<close>

theorem project_access_isolated:
  assumes "requireProjectCapability pid cap s = (Inr pc, t)"
  shows "t = s \<and> projectAccess s pid pc \<and> cap \<in> cx_capabilities pc"
  by (rule requireProjectCapability_ok[OF assms])

lemma project_access_isolated_witness:
  "projectAccess demo_state ''p1'' (demo_context (demo_project ''p1'' ''A'' P_ACTIVE))"
  using project_access_isolated[OF demo_capability(1)[OF owner_capabilities(1)]] by simp

section \<open>Other organizations do not show\<close>

text \<open>The requests of the project service, and their answers, as one handler.\<close>

datatype project_request =
    RQ_LIST | RQ_GET string | RQ_MEMBERS string
  | RQ_CREATE string string "string list + create_project_input"
  | RQ_UPDATE string "string list + update_project_input"
  | RQ_ADD string string "string list + add_member_input"

datatype project_answer =
    PA_PROJECTS "project list" | PA_PROJECT project | PA_MEMBERS "project_membership list"
  | PA_MEMBER project_membership

fun projectRequest :: "project_request \<Rightarrow> project_answer web" where
  "projectRequest RQ_LIST = bindH listProjectsForActiveTenant (\<lambda>x. returnH (PA_PROJECTS x))"
| "projectRequest (RQ_GET pid) = bindH (getProject pid) (\<lambda>x. returnH (PA_PROJECT x))"
| "projectRequest (RQ_MEMBERS pid) = bindH (listProjectMembers pid) (\<lambda>x. returnH (PA_MEMBERS x))"
| "projectRequest (RQ_CREATE newId memberId parsed) =
     bindH (createProject (\<lambda>x. x) newId memberId parsed) (\<lambda>x. returnH (PA_PROJECT x))"
| "projectRequest (RQ_UPDATE pid parsed) = bindH (updateProject (\<lambda>x. x) pid parsed) (\<lambda>x. returnH (PA_PROJECT x))"
| "projectRequest (RQ_ADD newId pid parsed) =
     bindH (addProjectMember (\<lambda>x. x) newId pid parsed) (\<lambda>x. returnH (PA_MEMBER x))"

text \<open>A handler that answers alike, and keeps the states alike and the others' rows.\<close>

definition answersAlike :: "string \<Rightarrow> 'a web \<Rightarrow> bool" where
  "answersAlike T m \<longleftrightarrow> (\<forall>s s'. agreeOn T s s' \<and> active_tenant s = Some T \<and> wf_web s \<and> wf_web s' \<longrightarrow>
     fst (m s) = fst (m s') \<and> agreeOn T (snd (m s)) (snd (m s')) \<and> othersKept T s (snd (m s)))"

lemma alikeD:
  "answersAlike T m \<Longrightarrow> agreeOn T s s' \<and> active_tenant s = Some T \<and> wf_web s \<and> wf_web s' \<Longrightarrow>
     fst (m s) = fst (m s') \<and> agreeOn T (snd (m s)) (snd (m s')) \<and> othersKept T s (snd (m s))"
  unfolding answersAlike_def by blast

lemma alike_gate: "gate T Q m \<Longrightarrow> answersAlike T m"
  unfolding gate_def answersAlike_def by fastforce

lemma alike_bind:
  assumes "gate T Q m" and "\<And>c. Q c \<Longrightarrow> answersAlike T (f c)"
  shows "answersAlike T (bindH m f)"
  unfolding answersAlike_def
proof (intro allI impI)
  fix s s' assume a: "agreeOn T s s' \<and> active_tenant s = Some T \<and> wf_web s \<and> wf_web s'"
  then consider (no) e t t' where "m s = (Inl e, t)" "m s' = (Inl e, t')" "agreeOn T t t'" "othersKept T s t"
    | (yes) c where "m s = (Inr c, s)" "m s' = (Inr c, s')" "Q c"
    using assms(1) unfolding gate_def by blast
  then show "fst (bindH m f s) = fst (bindH m f s') \<and> agreeOn T (snd (bindH m f s)) (snd (bindH m f s'))
      \<and> othersKept T s (snd (bindH m f s))"
  proof cases
    case no
    then show ?thesis by (simp add: bindH_def)
  next
    case yes
    then show ?thesis using alikeD[OF assms(2)[OF yes(3)] a] by (simp add: bindH_def)
  qed
qed

lemma alike_map:
  assumes "answersAlike T m"
  shows "answersAlike T (bindH m (\<lambda>x. returnH (g x)))"
proof -
  have run: "bindH m (\<lambda>x. returnH (g x)) s = (map_sum id g (fst (m s)), snd (m s))" for s
    by (cases "m s"; cases "fst (m s)") (auto simp: bindH_def)
  show ?thesis
    unfolding answersAlike_def run
  proof (intro allI impI)
    fix s s' assume "agreeOn T s s' \<and> active_tenant s = Some T \<and> wf_web s \<and> wf_web s'"
    then show "fst (map_sum id g (fst (m s)), snd (m s)) = fst (map_sum id g (fst (m s')), snd (m s'))
        \<and> agreeOn T (snd (map_sum id g (fst (m s)), snd (m s))) (snd (map_sum id g (fst (m s')), snd (m s')))
        \<and> othersKept T s (snd (map_sum id g (fst (m s)), snd (m s)))"
      using alikeD[OF assms] by (metis fst_conv snd_conv)
  qed
qed

lemma alike_sum: "(\<And>e. answersAlike T (f e)) \<Longrightarrow> (\<And>x. answersAlike T (g x)) \<Longrightarrow> answersAlike T (case_sum f g y)"
  by (cases y) simp_all

lemma alike_throw: "answersAlike T (throwH e)"
  by (rule alike_gate[OF gate_pure(2)[where Q = "\<lambda>_. True"]])

lemma alike_transaction: "answersAlike T m \<Longrightarrow> answersAlike T (transactionH m)"
  unfolding answersAlike_def transactionH_def
  by (fastforce split: prod.splits sum.splits)

lemma alike_read:
  assumes "\<And>s s'. agreeOn T s s' \<Longrightarrow> wf_web s \<Longrightarrow> wf_web s' \<Longrightarrow> f s = f s'"
  shows "answersAlike T (readH f)"
  using assms by (simp add: answersAlike_def)

text \<open>Memberships of an organization's project are the organization's.\<close>

lemma membership_tenant:
  assumes "wf_web s" "m \<in> set (project_memberships s)" "p \<in> set (projects s)" "prj_id p = pm_projectId m"
  shows "pm_tenantId m = prj_tenantId p"
proof -
  obtain q where q: "q \<in> set (projects s)" "prj_id q = pm_projectId m" "prj_tenantId q = pm_tenantId m"
    using assms(1,2) unfolding wf_web_def by blast
  moreover have "distinct (map prj_id (projects s))" using assms(1) by (simp add: wf_web_def)
  ultimately have "q = p" using distinct_key_unique[of prj_id "projects s" q p] assms(3,4) by simp
  then show ?thesis using q(3) by simp
qed

lemma list_alike: "answersAlike T listProjectsForActiveTenant"
  unfolding listProjectsForActiveTenant_def
proof (rule alike_bind[OF tenant_capability_gate], rule alike_transaction, rule alike_read)
  fix ctx :: tenant_context and s s'
  assume T: "cx_tenantId ctx = T" and agree: "agreeOn T s s'" and wf: "wf_web s" "wf_web s'"
  let ?all = "tenantRoleCanAccessAllTenantProjects (cx_tenantRole ctx)"
  let ?mine = "\<lambda>p m. pm_projectId m = prj_id p \<and> pm_userId m = su_id (cx_user ctx) \<and> pm_status m = M_ACTIVE"
  let ?show = "\<lambda>ms p. ?all \<or> (\<exists>m\<in>set (filter (\<lambda>m. pm_tenantId m = T) ms). ?mine p m)"
  have own: "filter (\<lambda>p. prj_tenantId p = T \<and> (?all \<or> (\<exists>m\<in>set (project_memberships u). ?mine p m))) (projects u)
      = filter (?show (project_memberships u)) (filter (\<lambda>p. prj_tenantId p = T) (projects u))" if "wf_web u" for u
    unfolding filter_filter
    by (rule filter_cong[OF refl]) (use membership_tenant[OF that] in \<open>fastforce\<close>)
  show "filter (\<lambda>p. prj_tenantId p = cx_tenantId ctx \<and> (?all \<or> (\<exists>m\<in>set (project_memberships s). ?mine p m))) (projects s)
      = filter (\<lambda>p. prj_tenantId p = cx_tenantId ctx \<and> (?all \<or> (\<exists>m\<in>set (project_memberships s'). ?mine p m))) (projects s')"
    unfolding T own[OF wf(1)] own[OF wf(2)] using agree by (simp add: agreeOn_def)
qed

lemma get_alike: "answersAlike T (getProject pid)"
  unfolding getProject_def
  by (rule alike_gate, rule gate_bind[OF capability_gate], rule gate_pure(1)[where Q = "\<lambda>_. True"], simp)

lemma members_alike: "answersAlike T (listProjectMembers pid)"
  unfolding listProjectMembers_def
proof (rule alike_bind[OF capability_gate], rule alike_transaction, rule alike_read)
  fix ctx :: project_context and s s'
  assume T: "cx_tenantId ctx = T" and agree: "agreeOn T s s'"
  have "filter (\<lambda>m. pm_projectId m = i \<and> pm_tenantId m = T) xs
      = filter (\<lambda>m. pm_projectId m = i) (filter (\<lambda>m. pm_tenantId m = T) xs)" for i xs
    by (simp add: conj_commute)
  moreover have "filter (\<lambda>m. pm_tenantId m = T) (project_memberships s)
      = filter (\<lambda>m. pm_tenantId m = T) (project_memberships s')"
    using agree by (simp add: agreeOn_def)
  ultimately
  show "filter (\<lambda>m. pm_projectId m = prj_id (cx_project ctx) \<and> pm_tenantId m = cx_tenantId ctx) (project_memberships s)
      = filter (\<lambda>m. pm_projectId m = prj_id (cx_project ctx) \<and> pm_tenantId m = cx_tenantId ctx) (project_memberships s')"
    unfolding T by metis
qed

lemma code_agree:
  assumes "agreeOn T s s'"
  shows "projectCodeTaken T code s = projectCodeTaken T code s'"
proof -
  have own: "list_ex (\<lambda>p. prj_tenantId p = T \<and> prj_code p = code) xs
      \<longleftrightarrow> list_ex (\<lambda>p. prj_code p = code) (filter (\<lambda>p. prj_tenantId p = T) xs)" for xs
    by (auto simp: list_ex_iff)
  have rows: "filter (\<lambda>p. prj_tenantId p = T) (projects s) = filter (\<lambda>p. prj_tenantId p = T) (projects s')"
    using assms by (simp add: agreeOn_def)
  show ?thesis unfolding projectCodeTaken_def own[of "projects s"] own[of "projects s'"] rows ..
qed

lemma create_alike: "answersAlike T (createProject sp newId memberId raw)"
  unfolding createProject_def Let_def
proof (rule alike_bind[OF tenant_capability_gate], rule alike_sum, rule alike_throw, rule alike_transaction,
    rule alike_bind[where Q = "\<lambda>_. True"])
  fix ctx :: tenant_context and data
  assume T: "cx_tenantId ctx = T"
  show "gate T (\<lambda>_. True) (readH (projectCodeTaken (cx_tenantId ctx) (ci_code data)))"
    unfolding T by (rule gate_read, intro conjI TrueI, erule code_agree)
next
  fix ctx :: tenant_context and data :: create_project_input and taken
  assume T: "cx_tenantId ctx = T"
  let ?created = "\<lparr>prj_id = newId, prj_tenantId = cx_tenantId ctx, prj_name = ci_name data,
    prj_code = ci_code data, prj_description = ci_description data,
    prj_status = (case ci_status data of None \<Rightarrow> P_DRAFT | Some st \<Rightarrow> st),
    prj_countryCode = ci_countryCode data, prj_defaultCurrency = ci_defaultCurrency data,
    prj_timezone = ci_timezone data\<rparr>"
  have rows: "answersAlike T (thenH (writeH (\<lambda>s. s\<lparr>projects := projects s @ [p]\<rparr>))
      (thenH (writeH (\<lambda>s. s\<lparr>project_memberships := project_memberships s @ [m]\<rparr>))
      (thenH (writeAuditLog e) (returnH p))))" if "prj_tenantId p = T" "pm_tenantId m = T" for p m e
    using that by (simp add: answersAlike_def thenH_def bindH_def writeAuditLog_def agreeOn_def othersKept_def)
  show "answersAlike T (thenH (requireH (\<not> taken) unexpectedError)
      (thenH (writeH (\<lambda>s. s\<lparr>projects := projects s @ [?created]\<rparr>))
      (thenH (writeH (\<lambda>s. s\<lparr>project_memberships := project_memberships s @
           [\<lparr>pm_id = memberId, pm_tenantId = cx_tenantId ctx, pm_projectId = newId,
             pm_userId = su_id (cx_user ctx), pm_role = P_PROJECT_ADMIN, pm_status = M_ACTIVE\<rparr>]\<rparr>))
      (thenH (writeAuditLog \<lparr>au_tenantId = Some (cx_tenantId ctx), au_projectId = Some newId,
           au_actorUserId = Some (su_id (cx_user ctx)), au_action = ''project.created'',
           au_entityType = ''project'', au_entityId = Some newId\<rparr>)
        (returnH ?created)))))"
    unfolding thenH_def[of "requireH _ _"]
    by (rule alike_bind[where Q = "\<lambda>_. True"], cases taken)
      (auto simp: requireH_def T intro: gate_pure rows)
qed

lemma update_alike: "answersAlike T (updateProject sp pid raw)"
  unfolding updateProject_def Let_def
proof (rule alike_sum, rule alike_throw, rule alike_bind[OF capability_gate],
    rule alike_bind[where Q = "ofTenant T"])
  fix access ctx :: project_context and data :: update_project_input
  assume T: "cx_tenantId ctx = T"
  let ?upd = "\<lambda>p. if prj_id p = prj_id (cx_project ctx) \<and> prj_tenantId p = T then applyProjectUpdate data p else p"
  have own: "filter (\<lambda>p. prj_tenantId p = T) (map ?upd xs) = map ?upd (filter (\<lambda>p. prj_tenantId p = T) xs)"
    "filter (\<lambda>p. prj_tenantId p \<noteq> T) (map ?upd xs) = filter (\<lambda>p. prj_tenantId p \<noteq> T) xs" for xs
    by (induction xs) (auto simp: applyProjectUpdate_def)
  have rows: "answersAlike T (thenH (writeH (\<lambda>s. s\<lparr>projects := map ?upd (projects s)\<rparr>))
      (thenH (writeAuditLog e) (returnH x)))" for e x
    by (simp add: answersAlike_def thenH_def bindH_def writeAuditLog_def agreeOn_def othersKept_def own)
  have row: "gate T (\<lambda>_. True) (readH (findProject (prj_id (cx_project ctx)) T))"
    by (rule gate_read, intro conjI TrueI, erule findProject_agree)
  show "answersAlike T (if ui_status data = Some P_ARCHIVED
        \<and> \<not> hasCapability (cx_capabilities ctx) (TenantCap c_project_archive)
      then throwH (forbidden ''You cannot archive this project'')
      else if prj_status (cx_project access) = P_ARCHIVED
        \<and> \<not> (prj_status (cx_project access) = P_ARCHIVED \<and> ui_status data \<noteq> None
             \<and> ui_status data \<noteq> Some P_ARCHIVED)
      then throwH (forbidden ''Archived projects are read-only'')
      else transactionH (bindH (readH (findProject (prj_id (cx_project ctx)) (cx_tenantId ctx)))
        (\<lambda>row. case row of None \<Rightarrow> throwH unexpectedError | Some old \<Rightarrow>
           thenH (writeH (\<lambda>s. s\<lparr>projects := map (\<lambda>p. if prj_id p = prj_id (cx_project ctx)
                \<and> prj_tenantId p = cx_tenantId ctx then applyProjectUpdate data p else p) (projects s)\<rparr>))
             (thenH (writeAuditLog \<lparr>au_tenantId = Some (cx_tenantId ctx), au_projectId = Some (prj_id old),
                 au_actorUserId = Some (su_id (cx_user ctx)),
                 au_action = (if ui_status data = Some P_ARCHIVED then ''project.archived''
                   else if prj_status (cx_project access) = P_ARCHIVED \<and> ui_status data \<noteq> None
                      \<and> ui_status data \<noteq> Some P_ARCHIVED then ''project.restored''
                   else ''project.updated''),
                 au_entityType = ''project'', au_entityId = Some (prj_id old)\<rparr>)
               (returnH (applyProjectUpdate data old))))))"
    unfolding T
    by (simp add: alike_throw del: thenH_def)
      (intro conjI impI alike_transaction alike_bind[OF row]; simp add: alike_throw rows split: option.split)
qed (auto intro: gate_if capability_gate)

lemma upsert_own:
  assumes "\<forall>m\<in>set rows. memberKey (pm_projectId new) (pm_userId new) m \<longrightarrow> pm_tenantId m = T"
    and "pm_tenantId new = T"
  shows "filter (\<lambda>m. pm_tenantId m = T) (upsertMembership new rows)
      = upsertMembership new (filter (\<lambda>m. pm_tenantId m = T) rows)"
    "filter (\<lambda>m. pm_tenantId m \<noteq> T) (upsertMembership new rows) = filter (\<lambda>m. pm_tenantId m \<noteq> T) rows"
proof -
  let ?key = "memberKey (pm_projectId new) (pm_userId new)"
  let ?f = "\<lambda>m. if ?key m then m\<lparr>pm_role := pm_role new, pm_status := M_ACTIVE, pm_tenantId := pm_tenantId new\<rparr> else m"
  have ex: "(\<exists>m\<in>set (filter (\<lambda>m. pm_tenantId m = T) rows). ?key m) \<longleftrightarrow> (\<exists>m\<in>set rows. ?key m)"
    using assms(1) by auto
  have "filter (\<lambda>m. pm_tenantId m = T) (map ?f rows) = map ?f (filter (\<lambda>m. pm_tenantId m = T) rows)"
    "filter (\<lambda>m. pm_tenantId m \<noteq> T) (map ?f rows) = filter (\<lambda>m. pm_tenantId m \<noteq> T) rows"
    using assms by (induction rows) auto
  then show "filter (\<lambda>m. pm_tenantId m = T) (upsertMembership new rows)
      = upsertMembership new (filter (\<lambda>m. pm_tenantId m = T) rows)"
    "filter (\<lambda>m. pm_tenantId m \<noteq> T) (upsertMembership new rows) = filter (\<lambda>m. pm_tenantId m \<noteq> T) rows"
    using assms(2) unfolding upsertMembership_def ex by simp_all
qed

lemma member_agree:
  assumes "agreeOn T s s'" "\<forall>m\<in>set (project_memberships s). memberKey i u m \<longrightarrow> pm_tenantId m = T"
    "\<forall>m\<in>set (project_memberships s'). memberKey i u m \<longrightarrow> pm_tenantId m = T"
  shows "find (memberKey i u) (project_memberships s) = find (memberKey i u) (project_memberships s')"
proof -
  have own: "find (memberKey i u) xs = find (memberKey i u) (filter (\<lambda>m. pm_tenantId m = T) xs)"
    if "\<forall>m\<in>set xs. memberKey i u m \<longrightarrow> pm_tenantId m = T" for xs
    using that by (induction xs) auto
  have rows: "filter (\<lambda>m. pm_tenantId m = T) (project_memberships s) = filter (\<lambda>m. pm_tenantId m = T) (project_memberships s')"
    using assms(1) by (simp add: agreeOn_def)
  show ?thesis unfolding own[OF assms(2)] own[OF assms(3)] rows ..
qed

lemma alike_member:
  assumes new: "\<And>project existing. prj_id project = i \<Longrightarrow> pm_projectId (new project existing) = i
      \<and> pm_userId (new project existing) = u \<and> pm_tenantId (new project existing) = T"
  shows "answersAlike T (bindH (readH (findProject i T)) (\<lambda>prj. if b then throwH notFound else
    case prj of None \<Rightarrow> throwH notFound | Some project \<Rightarrow>
      bindH (readH (\<lambda>s. find (memberKey (prj_id project) u) (project_memberships s))) (\<lambda>existing.
        thenH (writeH (\<lambda>s. s\<lparr>project_memberships := upsertMembership (new project existing) (project_memberships s)\<rparr>))
          (thenH (writeAuditLog (e project existing)) (returnH (new project existing))))))"
  unfolding answersAlike_def
proof (intro allI impI, elim conjE)
  fix s s' assume agree: "agreeOn T s s'" and wf: "wf_web s" "wf_web s'"
  have same: "findProject i T s' = findProject i T s" using findProject_agree[OF agree] by simp
  let ?m = "bindH (readH (findProject i T)) (\<lambda>prj. if b then throwH notFound else
    case prj of None \<Rightarrow> throwH notFound | Some project \<Rightarrow>
      bindH (readH (\<lambda>s. find (memberKey (prj_id project) u) (project_memberships s))) (\<lambda>existing.
        thenH (writeH (\<lambda>s. s\<lparr>project_memberships := upsertMembership (new project existing) (project_memberships s)\<rparr>))
          (thenH (writeAuditLog (e project existing)) (returnH (new project existing)))))"
  show "fst (?m s) = fst (?m s') \<and> agreeOn T (snd (?m s)) (snd (?m s')) \<and> othersKept T s (snd (?m s))"
  proof (cases "b \<or> findProject i T s = None")
    case True
    then show ?thesis using agree same by (auto simp: bindH_def)
  next
    case False
    then obtain project where p: "findProject i T s = Some project" "findProject i T s' = Some project" using same by auto
    have row: "project \<in> set (projects s)" "project \<in> set (projects s')" "prj_id project = i" "prj_tenantId project = T"
      using p by (auto simp: findProject_def dest!: find_SomeD)
    have own: "\<forall>m\<in>set (project_memberships s). memberKey i u m \<longrightarrow> pm_tenantId m = T"
      "\<forall>m\<in>set (project_memberships s'). memberKey i u m \<longrightarrow> pm_tenantId m = T"
      using membership_tenant[OF wf(1) _ row(1)] membership_tenant[OF wf(2) _ row(2)] row(3,4)
      by (auto simp: memberKey_def)
    obtain x where x: "find (memberKey i u) (project_memberships s) = x"
        "find (memberKey i u) (project_memberships s') = x" using member_agree[OF agree own] by simp
    note n = new[OF row(3), of x]
    have upsert: "filter (\<lambda>m. pm_tenantId m = T) (upsertMembership (new project x) (project_memberships s))
        = filter (\<lambda>m. pm_tenantId m = T) (upsertMembership (new project x) (project_memberships s'))"
      "filter (\<lambda>m. pm_tenantId m \<noteq> T) (upsertMembership (new project x) (project_memberships s))
        = filter (\<lambda>m. pm_tenantId m \<noteq> T) (project_memberships s)"
      using upsert_own[of _ "new project x" T] own n agree by (simp_all add: agreeOn_def)
    have run: "?m t = (Inr (new project x), t\<lparr>project_memberships := upsertMembership (new project x) (project_memberships t),
        audit_log := audit_log t @ [e project x]\<rparr>)" if "t \<in> {s, s'}" for t
    proof -
      have "findProject i T t = Some project" "find (memberKey i u) (project_memberships t) = x" "\<not> b"
        using that False p x by auto
      then show ?thesis using row(3) by (simp add: bindH_def thenH_def writeAuditLog_def)
    qed
    have "agreeOn T (s\<lparr>project_memberships := upsertMembership (new project x) (project_memberships s)\<rparr>)
        (s'\<lparr>project_memberships := upsertMembership (new project x) (project_memberships s')\<rparr>)"
      using agree upsert(1) by (simp add: agreeOn_def)
    moreover have "othersKept T s (s\<lparr>project_memberships := upsertMembership (new project x) (project_memberships s)\<rparr>)"
      using upsert(2) by (simp add: othersKept_def)
    ultimately show ?thesis using run[of s] run[of s'] by simp
  qed
qed

lemma add_alike: "answersAlike T (addProjectMember sp newId pid raw)"
  unfolding addProjectMember_def
proof (rule alike_bind[OF capability_gate], rule alike_sum, rule alike_throw)
  fix ctx :: project_context and data :: add_member_input
  assume T: "cx_tenantId ctx = T"
  have find: "find (\<lambda>m. tm_tenantId m = T \<and> tm_userId m = ai_userId data \<and> tm_status m = M_ACTIVE) xs
      = find (\<lambda>m. tm_userId m = ai_userId data \<and> tm_status m = M_ACTIVE) (filter (\<lambda>m. tm_tenantId m = T) xs)" for xs
    by (induction xs) auto
  have member: "gate T (\<lambda>_. True) (readH (\<lambda>s. find (\<lambda>m. tm_tenantId m = T \<and> tm_userId m = ai_userId data
      \<and> tm_status m = M_ACTIVE) (tenant_memberships s)))"
    by (rule gate_read) (simp add: find agreeOn_def)
  show "answersAlike T (if \<not> canAssignProjectRole (Some (cx_tenantRole ctx)) (cx_projectRole ctx) (ai_role data)
    then thenH (transactionH (writeAuditLog (deniedEntry (tenant_context.truncate ctx)
           (Some (prj_id (cx_project ctx))) ''project_membership'' None)))
         (throwH (forbidden ''You cannot assign this project role''))
    else transactionH
      (bindH (readH (\<lambda>s. find (\<lambda>m. tm_tenantId m = cx_tenantId ctx \<and> tm_userId m = ai_userId data
             \<and> tm_status m = M_ACTIVE) (tenant_memberships s))) (\<lambda>tenantMembership.
       bindH (readH (findProject (prj_id (cx_project ctx)) (cx_tenantId ctx))) (\<lambda>prj.
       if tenantMembership = None then throwH notFound
       else case prj of None \<Rightarrow> throwH notFound | Some project \<Rightarrow>
         bindH (readH (\<lambda>s. find (memberKey (prj_id project) (ai_userId data)) (project_memberships s)))
          (\<lambda>existing. let new = \<lparr>pm_id = (case existing of None \<Rightarrow> newId | Some m \<Rightarrow> pm_id m),
                   pm_tenantId = cx_tenantId ctx, pm_projectId = prj_id project,
                   pm_userId = ai_userId data, pm_role = ai_role data, pm_status = M_ACTIVE\<rparr>
           in thenH (writeH (\<lambda>s. s\<lparr>project_memberships := upsertMembership new (project_memberships s)\<rparr>))
             (thenH (writeAuditLog \<lparr>au_tenantId = Some (cx_tenantId ctx), au_projectId = Some (prj_id project),
                au_actorUserId = Some (su_id (cx_user ctx)),
                au_action = (if existing \<noteq> None then ''project.membership.role_changed''
                             else ''project.membership.created''),
                au_entityType = ''project_membership'', au_entityId = Some (pm_id new)\<rparr>)
               (returnH new)))))))"
    unfolding T Let_def
    by (cases "canAssignProjectRole (Some (cx_tenantRole ctx)) (cx_projectRole ctx) (ai_role data)";
        simp only: if_True if_False not_True_eq_False not_False_eq_True simp_thms)
      (rule alike_transaction, rule alike_bind[OF member], rule alike_member, simp,
       rule alike_gate[OF gate_denied[where Q = "\<lambda>_. True"]])
qed

text \<open>C1: The rows of other organizations do not show, and are not touched.  Take two states that the
selected organization cannot tell apart: the same caller and selection, the same row, members, projects
and project memberships of the organization, and whatever rows of the others.  Then every project
request (list, read, create, update, list or add members) gives the same answer in both, error or
not, leaves states that again differ in other organizations' rows only, and changes no row of
another organization.  So a project of another organization and one that does not exist are
indistinguishable.\<close>

theorem other_tenants_invisible:
  assumes "agreeOn T s s'" and "active_tenant s = Some T" and "wf_web s" and "wf_web s'"
  shows "fst (projectRequest q s) = fst (projectRequest q s')
    \<and> agreeOn T (snd (projectRequest q s)) (snd (projectRequest q s'))
    \<and> othersKept T s (snd (projectRequest q s))"
proof -
  have "answersAlike T (projectRequest q)"
    by (cases q) (simp_all add: alike_map list_alike get_alike members_alike create_alike update_alike add_alike)
  then show ?thesis using alikeD assms by blast
qed

lemma other_tenants_invisible_witness:
  "fst (projectRequest (RQ_GET ''p2'') demo_state) = fst (projectRequest (RQ_GET ''p9'')
         (demo_state\<lparr>projects := [demo_project ''p1'' ''A'' P_ACTIVE, demo_project ''p3'' ''A'' P_ARCHIVED]\<rparr>))
   \<and> fst (projectRequest RQ_LIST demo_state) = fst (projectRequest RQ_LIST
         (demo_state\<lparr>projects := [demo_project ''p1'' ''A'' P_ACTIVE, demo_project ''p3'' ''A'' P_ARCHIVED]\<rparr>))"
proof -
  let ?t = "demo_state\<lparr>projects := [demo_project ''p1'' ''A'' P_ACTIVE, demo_project ''p3'' ''A'' P_ARCHIVED]\<rparr>"
  have a: "agreeOn ''A'' demo_state ?t" "active_tenant demo_state = Some ''A''" "wf_web demo_state" "wf_web ?t"
    by (simp_all add: agreeOn_def wf_web_def demo_defs)
  have missing: "projectRequest (RQ_GET pid) ?t = (Inl notFound, ?t)" if "pid \<noteq> ''p1''" "pid \<noteq> ''p3''" for pid
    using that by (simp add: getProject_def requireProjectCapability_def requireProjectAccess_def
      getAuthorizedProject_def requireTenantMembership_def bindH_def transactionH_def
      requireAuthenticatedUser_def resolveMembership_def findTenantMembership_def Let_def
      loadAuthorizedProject_def findProject_def demo_defs)
  show ?thesis
    using other_tenants_invisible[OF a, of "RQ_GET ''p2''"] other_tenants_invisible[OF a, of RQ_LIST]
      missing[of "''p2''"] missing[of "''p9''"] by simp
qed

text \<open>A create, update or add-member request that fails changes no row: whatever the error
and wherever it was thrown, only audit entries may have been added.\<close>

lemma failed_requests_change_nothing:
  assumes "createProject sp newId memId raw s = (Inl e, t)
    \<or> updateProject usp pid raw' s = (Inl e, t)
    \<or> addProjectMember asp newId pid raw'' s = (Inl e, t)"
  shows "projects t = projects s \<and> project_memberships t = project_memberships s
    \<and> tenant_memberships t = tenant_memberships s \<and> (\<exists>es. audit_log t = audit_log s @ es)"
proof -
  have "onlyLog s t"
    using assms by (auto dest: lg.failsafeD[OF createProject_failsafe]
      lg.failsafeD[OF updateProject_failsafe] lg.failsafeD[OF addProjectMember_failsafe])
  then show ?thesis by (simp add: onlyLog_def)
qed

definition no_update :: update_project_input where
  "no_update = \<lparr>ui_name = None, ui_description = None, ui_countryCode = None,
     ui_defaultCurrency = None, ui_timezone = None, ui_status = None\<rparr>"

lemma demo_read_only:
  "updateProject (\<lambda>_ :: string. Inr (no_update\<lparr>ui_status := Some P_ARCHIVED\<rparr>)) ''p2'' ''x'' demo_state
     = (Inl notFound, demo_state)"
  by (simp add: updateProject_def requireProjectCapability_def requireProjectAccess_def
      getAuthorizedProject_def requireTenantMembership_def bindH_def transactionH_def
      requireAuthenticatedUser_def resolveMembership_def findTenantMembership_def Let_def
      loadAuthorizedProject_def findProject_def demo_defs)

lemma failed_requests_change_nothing_witness:
  "\<exists>es. audit_log demo_state = audit_log demo_state @ es"
  using failed_requests_change_nothing[where s = demo_state and t = demo_state,
      OF disjI2[OF disjI1[OF demo_read_only]]] by blast

text \<open>An archived project is read-only but for its restore: an update that succeeds on it
sets a status other than archived and needs \<open>project.archive\<close>; an update that archives
needs \<open>project.archive\<close> too, and every other update needs \<open>project.update\<close>.
The update touches no other project.\<close>

lemma archived_update_is_restore:
  assumes "updateProject sp pid raw s = (Inr p, t)"
  shows "\<exists>data ctx. sp raw = Inr data \<and> projectAccess s pid ctx
    \<and> p = applyProjectUpdate data (cx_project ctx)
    \<and> (prj_status (cx_project ctx) = P_ARCHIVED \<longrightarrow>
         prj_status p \<noteq> P_ARCHIVED \<and> TenantCap c_project_archive \<in> cx_capabilities ctx)
    \<and> (prj_status (cx_project ctx) \<noteq> P_ARCHIVED \<longrightarrow> TenantCap c_project_update \<in> cx_capabilities ctx)
    \<and> (ui_status data = Some P_ARCHIVED \<longrightarrow> TenantCap c_project_archive \<in> cx_capabilities ctx)
    \<and> filter (\<lambda>q. prj_id q \<noteq> pid) (projects t) = filter (\<lambda>q. prj_id q \<noteq> pid) (projects s)"
  using assms
proof (rule updateProject_ok)
  fix access data ctx
  assume run: "sp raw = Inr data" "projectAccess s pid access" "projectAccess s pid ctx"
    "p = applyProjectUpdate data (cx_project ctx)"
    "projects t = replaceProject ctx data (projects s)"
    and cap: "if prj_status (cx_project access) = P_ARCHIVED \<and> ui_status data \<noteq> None
        \<and> ui_status data \<noteq> Some P_ARCHIVED
     then TenantCap c_project_archive \<in> cx_capabilities ctx
     else TenantCap c_project_update \<in> cx_capabilities ctx
        \<and> prj_status (cx_project access) \<noteq> P_ARCHIVED"
    and arch: "ui_status data = Some P_ARCHIVED \<Longrightarrow> TenantCap c_project_archive \<in> cx_capabilities ctx"
  have same: "cx_project access = cx_project ctx" and pid: "prj_id (cx_project ctx) = pid"
    using run(2,3) unfolding projectAccess_def by (metis option.inject)+
  have "filter (\<lambda>q. prj_id q \<noteq> pid) (replaceProject ctx data ps) = filter (\<lambda>q. prj_id q \<noteq> pid) ps" for ps
    using pid by (induction ps) (auto simp: replaceProject_def applyProjectUpdate_def)
  then have rest: "filter (\<lambda>q. prj_id q \<noteq> pid) (projects t) = filter (\<lambda>q. prj_id q \<noteq> pid) (projects s)"
    using run(5) by simp
  have st: "prj_status p = (case ui_status data of None \<Rightarrow> prj_status (cx_project ctx) | Some x \<Rightarrow> x)"
    unfolding run(4) by (simp add: applyProjectUpdate_def)
  have archived: "prj_status p \<noteq> P_ARCHIVED \<and> TenantCap c_project_archive \<in> cx_capabilities ctx"
    if "prj_status (cx_project ctx) = P_ARCHIVED"
    using cap st that unfolding same by (auto split: if_splits)
  have other: "TenantCap c_project_update \<in> cx_capabilities ctx"
    if "prj_status (cx_project ctx) \<noteq> P_ARCHIVED"
    using cap that unfolding same by simp
  show ?thesis
    using run(1,3,4) archived other arch rest by blast
qed

lemma demo_restore:
  "updateProject (\<lambda>_ :: string. Inr (no_update\<lparr>ui_status := Some P_ACTIVE\<rparr>)) ''p3'' ''x'' demo_state =
     (Inr (demo_project ''p3'' ''A'' P_ACTIVE),
      demo_state\<lparr>projects := [demo_project ''p1'' ''A'' P_ACTIVE, demo_project ''p2'' ''B'' P_ACTIVE,
        demo_project ''p3'' ''A'' P_ACTIVE],
        audit_log := [\<lparr>au_tenantId = Some ''A'', au_projectId = Some ''p3'', au_actorUserId = Some ''u1'',
          au_action = ''project.restored'', au_entityType = ''project'',
          au_entityId = Some ''p3''\<rparr>]\<rparr>)"
  by (simp add: updateProject_def demo_capability owner_capabilities bindH_def Let_def
      transactionH_def thenH_def findProject_def writeAuditLog_def applyProjectUpdate_def no_update_def
      demo_context_def demo_tables demo_user_def demo_project_def hasCapability_def)

lemma archived_update_is_restore_witness:
  "\<exists>data ctx. projectAccess demo_state ''p3'' ctx
     \<and> demo_project ''p3'' ''A'' P_ACTIVE = applyProjectUpdate data (cx_project ctx)"
  using archived_update_is_restore[OF demo_restore] by blast

text \<open>C5: Every state the project requests reach keeps the keys of the tables: project ids are
unique, codes are unique in an organization, a user has at most one membership per project, every project membership is one of a
project of the same organization, and its user is a member of that organization.\<close>

theorem reachable_states_well_formed:
  assumes "project_step\<^sup>*\<^sup>* s t" and "wf_web s"
  shows "wf_web t"
  using assms by (induction rule: rtranclp_induct) (auto intro: wf_project_step)

lemma demo_wf: "wf_web demo_state"
  by (simp add: wf_web_def demo_defs)

lemma reachable_states_well_formed_witness:
  "wf_web (demo_state\<lparr>projects := [demo_project ''p1'' ''A'' P_ACTIVE, demo_project ''p2'' ''B'' P_ACTIVE,
        demo_project ''p3'' ''A'' P_ACTIVE],
        audit_log := [\<lparr>au_tenantId = Some ''A'', au_projectId = Some ''p3'', au_actorUserId = Some ''u1'',
          au_action = ''project.restored'', au_entityType = ''project'',
          au_entityId = Some ''p3''\<rparr>]\<rparr>)"
  by (rule reachable_states_well_formed[OF _ demo_wf], rule r_into_rtranclp)
    (rule project_step.update[OF demo_restore])

text \<open>C37: A member is added only under the assignment rules: the caller is an owner, an
administrator or a project manager of the organization, or an active administrator of the project;
the new member already belongs to the organization; the row written is the one of that user in that
project, with the requested role, and all other memberships are as before.\<close>

theorem members_added_under_rules:
  assumes "addProjectMember sp newId pid raw s = (Inr m, t)"
  shows "\<exists>ctx. projectAccess s pid ctx
    \<and> (cx_tenantRole ctx \<in> {TENANT_OWNER, TENANT_ADMIN, PROJECT_MANAGER}
       \<or> cx_projectRole ctx = Some P_PROJECT_ADMIN)
    \<and> (\<exists>tm\<in>set (tenant_memberships s). tm_tenantId tm = cx_tenantId ctx
         \<and> tm_userId tm = pm_userId m \<and> tm_status tm = M_ACTIVE)
    \<and> sp raw = Inr \<lparr>ai_userId = pm_userId m, ai_role = pm_role m\<rparr>
    \<and> pm_projectId m = pid \<and> pm_tenantId m = cx_tenantId ctx \<and> pm_status m = M_ACTIVE
    \<and> filter (\<lambda>x. \<not> memberKey pid (pm_userId m) x) (project_memberships t)
        = filter (\<lambda>x. \<not> memberKey pid (pm_userId m) x) (project_memberships s)
    \<and> projects t = projects s \<and> tenant_memberships t = tenant_memberships s"
  using assms
proof (rule addProjectMember_ok)
  fix ctx data tm
  assume run: "sp raw = Inr data" "projectAccess s pid ctx"
    "canAssignProjectRole (Some (cx_tenantRole ctx)) (cx_projectRole ctx) (ai_role data)"
    and tm: "tm \<in> set (tenant_memberships s)" "tm_tenantId tm = cx_tenantId ctx"
      "tm_userId tm = ai_userId data" "tm_status tm = M_ACTIVE"
    and m: "pm_tenantId m = cx_tenantId ctx" "pm_projectId m = pid" "pm_userId m = ai_userId data"
      "pm_role m = ai_role data" "pm_status m = M_ACTIVE"
    and t: "project_memberships t = upsertMembership m (project_memberships s)" "keepsOrg s t"
      "projects t = projects s"
  have other: "filter (\<lambda>x. \<not> memberKey pid (pm_userId m) x) (upsertMembership m rows)
      = filter (\<lambda>x. \<not> memberKey pid (pm_userId m) x) rows" for rows
  proof -
    have "filter (\<lambda>x. \<not> memberKey pid (pm_userId m) x) (map (\<lambda>x. if memberKey pid (pm_userId m) x
        then x\<lparr>pm_role := r, pm_status := M_ACTIVE, pm_tenantId := T\<rparr> else x) rows)
      = filter (\<lambda>x. \<not> memberKey pid (pm_userId m) x) rows" for r T
      by (induction rows) (auto simp: memberKey_def)
    then show ?thesis using m(2) by (simp add: upsertMembership_def memberKey_def)
  qed
  show ?thesis
    using run tm m t other by (intro exI[of _ ctx])
      (auto simp: canAssignProjectRole_def Let_def keepsOrg_def split: if_splits)
qed

lemma demo_add:
  "\<exists>t. addProjectMember (\<lambda>_ :: string. Inr \<lparr>ai_userId = ''u2'', ai_role = P_REVIEWER\<rparr>) ''m1'' ''p1''
     ''x'' demo_state = (Inr \<lparr>pm_id = ''m1'', pm_tenantId = ''A'', pm_projectId = ''p1'',
       pm_userId = ''u2'', pm_role = P_REVIEWER, pm_status = M_ACTIVE\<rparr>, t)"
  by (simp add: addProjectMember_def demo_capability owner_capabilities bindH_def Let_def
      transactionH_def thenH_def findProject_def writeAuditLog_def demo_context_def demo_tables
      demo_user_def demo_project_def demo_member_def canAssignProjectRole_def)

lemma members_added_under_rules_witness:
  "\<exists>ctx. projectAccess demo_state ''p1'' ctx
     \<and> (\<exists>tm\<in>set (tenant_memberships demo_state). tm_tenantId tm = cx_tenantId ctx
          \<and> tm_userId tm = ''u2'')"
proof -
  obtain t where "addProjectMember (\<lambda>_ :: string. Inr \<lparr>ai_userId = ''u2'', ai_role = P_REVIEWER\<rparr>)
     ''m1'' ''p1'' ''x'' demo_state = (Inr \<lparr>pm_id = ''m1'', pm_tenantId = ''A'', pm_projectId = ''p1'',
       pm_userId = ''u2'', pm_role = P_REVIEWER, pm_status = M_ACTIVE\<rparr>, t)"
    using demo_add by blast
  from members_added_under_rules[OF this] show ?thesis by auto
qed

end
