(* ===== verification/PlatformDomain.thy ===== *)
theory PlatformDomain
  imports Prelude "HOL-Library.Char_ord" "HOL-Library.List_Lexorder" Complex_Main
begin

text \<open>
  The pure rules of \<open>packages/platform/src\<close>: environments and their provider policies, kill
  switches, tenant limits, pilot readiness, pilot defaults, deployment approvals, vulnerability
  burndown, secret references and the deduplicating alert pipeline.  \<open>Date.parse\<close> is a
  parameter \<open>dateParse\<close> whose \<open>None\<close> is \<open>NaN\<close>, and the clock is an argument;
  numbers are rationals or integers.  An optional field is an \<open>option\<close>.
\<close>

section \<open>Environments\<close>

datatype app_environment = LOCAL | TEST | CI | STAGING | PILOT | PRODUCTION

fun environment_name :: "app_environment \<Rightarrow> string" where
  "environment_name LOCAL = ''LOCAL''"
| "environment_name TEST = ''TEST''"
| "environment_name CI = ''CI''"
| "environment_name STAGING = ''STAGING''"
| "environment_name PILOT = ''PILOT''"
| "environment_name PRODUCTION = ''PRODUCTION''"

definition APP_ENVIRONMENTS :: "app_environment list" where
  "APP_ENVIRONMENTS = [LOCAL, TEST, CI, STAGING, PILOT, PRODUCTION]"

record provider_policy =
  allowFakeProviders :: bool
  allowLocalCaptureProviders :: bool
  allowTestPurgeGucs :: bool
  allowDebugRoutes :: bool
  allowDevAuthShortcuts :: bool
  requireStrongSecrets :: bool
  requireClamav :: bool
  requireMigrateRoleSeparation :: bool
  rejectDefaultCredentials :: bool

fun POLICIES :: "app_environment \<Rightarrow> provider_policy" where
  "POLICIES LOCAL =
     \<lparr>allowFakeProviders = True, allowLocalCaptureProviders = True, allowTestPurgeGucs = True,
      allowDebugRoutes = True, allowDevAuthShortcuts = True, requireStrongSecrets = False,
      requireClamav = False, requireMigrateRoleSeparation = False,
      rejectDefaultCredentials = False\<rparr>"
| "POLICIES TEST =
     \<lparr>allowFakeProviders = True, allowLocalCaptureProviders = True, allowTestPurgeGucs = True,
      allowDebugRoutes = True, allowDevAuthShortcuts = True, requireStrongSecrets = False,
      requireClamav = False, requireMigrateRoleSeparation = False,
      rejectDefaultCredentials = False\<rparr>"
| "POLICIES CI =
     \<lparr>allowFakeProviders = True, allowLocalCaptureProviders = True, allowTestPurgeGucs = True,
      allowDebugRoutes = False, allowDevAuthShortcuts = True, requireStrongSecrets = False,
      requireClamav = False, requireMigrateRoleSeparation = True,
      rejectDefaultCredentials = False\<rparr>"
| "POLICIES STAGING =
     \<lparr>allowFakeProviders = False, allowLocalCaptureProviders = True, allowTestPurgeGucs = False,
      allowDebugRoutes = False, allowDevAuthShortcuts = False, requireStrongSecrets = True,
      requireClamav = True, requireMigrateRoleSeparation = True,
      rejectDefaultCredentials = True\<rparr>"
| "POLICIES PILOT =
     \<lparr>allowFakeProviders = False, allowLocalCaptureProviders = False, allowTestPurgeGucs = False,
      allowDebugRoutes = False, allowDevAuthShortcuts = False, requireStrongSecrets = True,
      requireClamav = True, requireMigrateRoleSeparation = True,
      rejectDefaultCredentials = True\<rparr>"
| "POLICIES PRODUCTION =
     \<lparr>allowFakeProviders = False, allowLocalCaptureProviders = False, allowTestPurgeGucs = False,
      allowDebugRoutes = False, allowDevAuthShortcuts = False, requireStrongSecrets = True,
      requireClamav = True, requireMigrateRoleSeparation = True,
      rejectDefaultCredentials = True\<rparr>"

definition parseAppEnvironment :: "string option \<Rightarrow> string + app_environment" where
  "parseAppEnvironment raw =
     (case raw of
        None \<Rightarrow> Inr LOCAL
      | Some r \<Rightarrow>
          if r = [] \<or> trim r = [] then Inr LOCAL
          else (case find (\<lambda>e. environment_name e = toUpperCase (trim r)) APP_ENVIRONMENTS of
                  Some e \<Rightarrow> Inr e
                | None \<Rightarrow>
                    (let l = toLowerCase (trim r) in
                     if l = ''development'' \<or> l = ''dev'' \<or> l = ''local'' then Inr LOCAL
                     else if l = ''test'' then Inr TEST
                     else if l = ''ci'' then Inr CI
                     else if l = ''staging'' \<or> l = ''stage'' then Inr STAGING
                     else if l = ''pilot'' then Inr PILOT
                     else if l = ''production'' \<or> l = ''prod'' then Inr PRODUCTION
                     else Inl (''Invalid CONTRACTRADAR_ENV/APP_ENV '' @ [CHR 0x22] @ r @ [CHR 0x22]
                        @ ''. Allowed: '' @ joinWith '', '' (map environment_name APP_ENVIRONMENTS)))))"

record environment_input =
  contractradarEnv :: "string option"
  appEnv :: "string option"
  nodeEnv :: "string option"
  ciFlag :: "string option"

definition resolveAppEnvironment :: "environment_input \<Rightarrow> string + app_environment" where
  "resolveAppEnvironment input =
     (if truthy (contractradarEnv input) then parseAppEnvironment (contractradarEnv input)
      else if ciFlag input = Some ''true'' \<or> ciFlag input = Some ''1'' then
        if truthy (appEnv input) then parseAppEnvironment (appEnv input) else Inr CI
      else if truthy (appEnv input) then parseAppEnvironment (appEnv input)
      else if truthy (nodeEnv input) then parseAppEnvironment (nodeEnv input)
      else Inr LOCAL)"

definition policyForEnvironment :: "app_environment \<Rightarrow> provider_policy" where
  "policyForEnvironment env = POLICIES env"

definition isRestrictedEnvironment :: "app_environment \<Rightarrow> bool" where
  "isRestrictedEnvironment env \<longleftrightarrow> env = STAGING \<or> env = PILOT \<or> env = PRODUCTION"

definition isPilotOrProduction :: "app_environment \<Rightarrow> bool" where
  "isPilotOrProduction env \<longleftrightarrow> env = PILOT \<or> env = PRODUCTION"

section \<open>Kill switches and limits\<close>

datatype kill_switch_key =
    connector_ingestion | ai_calls | email_delivery | webhook_processing
    | scheduled_synchronization | background_detection | export_generation

datatype kill_scope = KS_global | KS_tenant

record kill_switch_state =
  ks_key :: kill_switch_key
  ks_enabled :: bool
  ks_scope :: kill_scope
  ks_tenantId :: "string option"
  ks_reason :: "string option"

definition isKillSwitchActive ::
  "kill_switch_state list \<Rightarrow> kill_switch_key \<Rightarrow> string option \<Rightarrow> bool" where
  "isKillSwitchActive switches key tenantId \<longleftrightarrow>
     (\<exists>s\<in>set switches. ks_key s = key \<and> ks_enabled s
        \<and> (ks_scope s = KS_global \<or> (ks_scope s = KS_tenant \<and> ks_tenantId s = tenantId)))"

record limit_snapshot =
  ls_limit :: rat
  ls_used :: rat
  ls_warningThresholdRatio :: "rat option"

record limit_decision =
  ld_allowed :: bool
  ld_nearLimit :: bool
  ld_code :: "string option"

text \<open>
  Below the limit, a division by a zero limit has a negative numerator: JavaScript's quotient is
  minus infinity, which no warning ratio reaches.
\<close>

definition evaluateTenantLimit :: "limit_snapshot \<Rightarrow> limit_decision" where
  "evaluateTenantLimit snap =
     (let warning = (case ls_warningThresholdRatio snap of None \<Rightarrow> 8 / 10 | Some w \<Rightarrow> w) in
      if ls_limit snap \<le> ls_used snap
      then \<lparr>ld_allowed = False, ld_nearLimit = True, ld_code = Some ''LIMIT_EXCEEDED''\<rparr>
      else \<lparr>ld_allowed = True,
            ld_nearLimit = (ls_limit snap \<noteq> 0 \<and> warning \<le> ls_used snap / ls_limit snap),
            ld_code = None\<rparr>)"

section \<open>Pilot readiness and defaults\<close>

datatype pilot_check_status =
    PC_NOT_STARTED | PC_IN_PROGRESS | PC_BLOCKED | PC_READY_WITH_EXCEPTIONS | PC_READY | PC_EXPIRED

record pilot_item =
  pi_requirement :: string
  pi_status :: pilot_check_status
  pi_nonWaivable :: bool
  pi_approvedException :: bool
  pi_evidence :: "string option"

definition NON_WAIVABLE_REQUIREMENTS :: "string list" where
  "NON_WAIVABLE_REQUIREMENTS =
     [''tenant_isolation_tests'', ''recent_successful_backup'', ''successful_restore_test'',
      ''production_secrets_configured'', ''fake_providers_disabled'',
      ''runtime_db_role_restricted'', ''rls_forced'', ''incident_contacts_configured'',
      ''support_access_policy_configured'', ''audit_logging_operational'',
      ''monitoring_operational'']"

record pilot_evaluation =
  pe_status :: pilot_check_status
  pe_blockers :: "string list"
  pe_canActivate :: bool

definition pilotBlocker :: "pilot_item \<Rightarrow> string list" where
  "pilotBlocker item =
     (if pi_status item = PC_READY \<or> pi_status item = PC_READY_WITH_EXCEPTIONS then []
      else if pi_nonWaivable item then
        (if pi_approvedException item
         then [pi_requirement item @ '': non-waivable item cannot be waived'']
         else [pi_requirement item])
      else whenl (\<not> pi_approvedException item) (pi_requirement item))"

definition evaluatePilotReadiness :: "pilot_item list \<Rightarrow> pilot_evaluation" where
  "evaluatePilotReadiness items =
     (let blockers = concat (map pilotBlocker items) in
      if length blockers = 0
      then \<lparr>pe_status = PC_READY, pe_blockers = blockers, pe_canActivate = True\<rparr>
      else
        (let hasNonWaivable = list_ex (\<lambda>i. pi_nonWaivable i \<and> pi_status i \<noteq> PC_READY
               \<and> pi_status i \<noteq> PC_READY_WITH_EXCEPTIONS) items
         in \<lparr>pe_status = (if hasNonWaivable then PC_BLOCKED else PC_READY_WITH_EXCEPTIONS),
             pe_blockers = blockers,
             pe_canActivate = (\<not> hasNonWaivable
               \<and> list_all (\<lambda>i. pi_approvedException i \<or> pi_status i = PC_READY) items)\<rparr>))"

definition defaultPilotChecklist :: "pilot_item list" where
  "defaultPilotChecklist = map (\<lambda>requirement.
     \<lparr>pi_requirement = requirement, pi_status = PC_NOT_STARTED, pi_nonWaivable = True,
      pi_approvedException = False, pi_evidence = None\<rparr>) NON_WAIVABLE_REQUIREMENTS"

record pilot_defaults =
  aiEnabled :: bool
  realConnectorsEnabled :: bool
  noticeDeliveryEnabled :: bool
  autonomousSyncEnabled :: bool
  pd_allowFakeProviders :: bool
  allowDevDefaults :: bool

definition PILOT_SAFE_DEFAULTS :: pilot_defaults where
  "PILOT_SAFE_DEFAULTS = \<lparr>aiEnabled = False, realConnectorsEnabled = False,
     noticeDeliveryEnabled = False, autonomousSyncEnabled = False,
     pd_allowFakeProviders = False, allowDevDefaults = False\<rparr>"

record pilot_overrides =
  ov_aiEnabled :: "bool option"
  ov_realConnectorsEnabled :: "bool option"
  ov_noticeDeliveryEnabled :: "bool option"
  ov_autonomousSyncEnabled :: "bool option"
  ov_allowFakeProviders :: "bool option"
  ov_allowDevDefaults :: "bool option"

definition overridden :: "bool \<Rightarrow> bool option \<Rightarrow> bool" where
  "overridden d o' = (case o' of None \<Rightarrow> d | Some b \<Rightarrow> b)"

definition resolvePilotCapabilityFlags :: "pilot_overrides \<Rightarrow> pilot_defaults" where
  "resolvePilotCapabilityFlags ov =
     \<lparr>aiEnabled = overridden (aiEnabled PILOT_SAFE_DEFAULTS) (ov_aiEnabled ov),
      realConnectorsEnabled =
        overridden (realConnectorsEnabled PILOT_SAFE_DEFAULTS) (ov_realConnectorsEnabled ov),
      noticeDeliveryEnabled =
        overridden (noticeDeliveryEnabled PILOT_SAFE_DEFAULTS) (ov_noticeDeliveryEnabled ov),
      autonomousSyncEnabled =
        overridden (autonomousSyncEnabled PILOT_SAFE_DEFAULTS) (ov_autonomousSyncEnabled ov),
      pd_allowFakeProviders = False,
      allowDevDefaults = overridden (allowDevDefaults PILOT_SAFE_DEFAULTS) (ov_allowDevDefaults ov)\<rparr>"

definition assertPilotSafeDefaults :: "pilot_defaults \<Rightarrow> string + unit" where
  "assertPilotSafeDefaults flags =
     bind_res (guard_res (\<not> aiEnabled flags) ''PILOT default violation: AI must be off'') (\<lambda>_.
     bind_res (guard_res (\<not> realConnectorsEnabled flags)
       ''PILOT default violation: real connectors must be off'') (\<lambda>_.
     bind_res (guard_res (\<not> noticeDeliveryEnabled flags)
       ''PILOT default violation: notice delivery must be off'') (\<lambda>_.
     bind_res (guard_res (\<not> autonomousSyncEnabled flags)
       ''PILOT default violation: autonomous sync must be off'') (\<lambda>_.
     guard_res (\<not> pd_allowFakeProviders flags)
       ''PILOT default violation: fake providers must be off''))))"

section \<open>When a pilot may start\<close>

lemma pilotBlocker_Nil: "pilotBlocker i = [] \<longleftrightarrow>
    pi_status i = PC_READY \<or> pi_status i = PC_READY_WITH_EXCEPTIONS
    \<or> (\<not> pi_nonWaivable i \<and> pi_approvedException i)"
  by (simp add: pilotBlocker_def)

lemma blockers_Nil: "concat (map pilotBlocker items) = [] \<longleftrightarrow>
    (\<forall>i\<in>set items. pi_status i = PC_READY \<or> pi_status i = PC_READY_WITH_EXCEPTIONS
       \<or> (\<not> pi_nonWaivable i \<and> pi_approvedException i))"
  by (simp add: pilotBlocker_Nil)

lemma canActivate_blockers:
  "pe_canActivate (evaluatePilotReadiness items) \<longleftrightarrow> concat (map pilotBlocker items) = []"
  using blockers_Nil[of items]
  by (auto simp: evaluatePilotReadiness_def Let_def list_ex_iff list_all_iff)

lemma pe_blockers_eq [simp]:
  "pe_blockers (evaluatePilotReadiness items) = concat (map pilotBlocker items)"
  by (simp add: evaluatePilotReadiness_def Let_def)

text \<open>A pilot is activated exactly when every item of the checklist is ready or is a waivable
item with an approved exception: an exception never lets a non-waivable item through, and the fresh
checklist cannot be activated.\<close>

lemma pilot_activation_rule:
  "(pe_canActivate (evaluatePilotReadiness items) \<longleftrightarrow>
     (\<forall>i\<in>set items. pi_status i = PC_READY \<or> pi_status i = PC_READY_WITH_EXCEPTIONS
        \<or> (\<not> pi_nonWaivable i \<and> pi_approvedException i)))
   \<and> (pe_canActivate (evaluatePilotReadiness items) \<longleftrightarrow> pe_blockers (evaluatePilotReadiness items) = [])
   \<and> \<not> pe_canActivate (evaluatePilotReadiness defaultPilotChecklist)"
proof -
  have "concat (map pilotBlocker defaultPilotChecklist) \<noteq> []"
    unfolding blockers_Nil by (simp add: defaultPilotChecklist_def NON_WAIVABLE_REQUIREMENTS_def)
  then show ?thesis
    unfolding canActivate_blockers pe_blockers_eq using blockers_Nil[of items] by fast
qed

lemma pilot_activation_rule_witness:
  "\<not> pe_canActivate (evaluatePilotReadiness defaultPilotChecklist)"
  using pilot_activation_rule[of "[]"] by simp

end
