(* ===== verification/PlatformAdmin.thy ===== *)
theory PlatformAdmin
  imports ProjectService PlatformDomain
begin

text \<open>
  The platform service (\<open>apps/web/src/server/services/platform.ts\<close>): invitations, support
  access, kill switches, limits, pilot readiness, provider enablement and backup runs.  The sha256
  of a token is a parameter \<open>hash\<close>, the random token, the generated ids and the clock (in
  milliseconds) are arguments, and a zod schema is a function from the raw body to the issues or
  the parsed input.
\<close>

section \<open>Rows and state\<close>

record invitation =
  iv_id :: string
  iv_tenantId :: string
  iv_email :: string
  iv_role :: tenant_role
  iv_status :: membership_status
  iv_tokenHash :: string
  iv_expiresAt :: int
  iv_createdByUserId :: string

datatype support_status = SR_REQUESTED | SR_ACTIVE | SR_REVOKED

record support_request =
  sr_id :: string
  sr_tenantId :: string
  sr_projectId :: "string option"
  sr_operatorId :: string
  sr_reason :: string
  sr_capabilities :: "string list"
  sr_durationMin :: int
  sr_status :: support_status
  sr_approvedBy :: "string option"
  sr_expiresAt :: "int option"

record support_session =
  ss_tenantId :: string
  ss_requestId :: string
  ss_operatorId :: string
  ss_endsAt :: int
  ss_active :: bool

record platform_alert =
  pa_tenantId :: string
  pa_type :: string
  pa_title :: string
  pa_sourceEntityId :: string
  pa_dedupeKey :: string

record kill_switch_row =
  kr_id :: string
  kr_tenantId :: "string option"
  kr_key :: kill_switch_key
  kr_scope :: kill_scope
  kr_enabled :: bool
  kr_reason :: string

record limit_row =
  lr_id :: string
  lr_tenantId :: string
  lr_limitKey :: string
  lr_limitValue :: int
  lr_usedValue :: int
  lr_warningThresholdRatio :: rat

record readiness_item = pilot_item +
  ri_id :: string

record readiness_assessment =
  ra_id :: string
  ra_tenantId :: string
  ra_status :: pilot_check_status
  ra_items :: "readiness_item list"

record pilot_configuration =
  pn_id :: string
  pn_tenantId :: string
  pn_createdBy :: string

datatype enablement_status =
    PE_NOT_CONFIGURED | PE_TECHNICAL_VALIDATION | PE_SECURITY_REVIEW | PE_APPROVED_FOR_STAGING
    | PE_APPROVED_FOR_PILOT | PE_ENABLED | PE_DISABLED | PE_REVOKED

record provider_enablement =
  en_id :: string
  en_tenantId :: string
  en_provider :: string
  en_environment :: string
  en_status :: enablement_status
  en_secretReference :: "string option"
  en_configuredBy :: string
  en_approvedBy :: "string option"
  en_enabledAt :: "int option"

record backup_run =
  bk_id :: string
  bk_tenantId :: string
  bk_status :: string
  bk_completedAt :: "int option"
  bk_initiatedBy :: string

record tenant_settings =
  ts_id :: string
  ts_tenantId :: string
  ts_values :: "(string \<times> string) list"

record feature_flag =
  ff_id :: string
  ff_tenantId :: string
  ff_flag :: string
  ff_enabled :: bool
  ff_rolloutMode :: string

record platform_state =
  pf_web :: web_state
  pf_invitations :: "invitation list"
  pf_support :: "support_request list"
  pf_sessions :: "support_session list"
  pf_alerts :: "platform_alert list"
  pf_switches :: "kill_switch_row list"
  pf_limits :: "limit_row list"
  pf_assessments :: "readiness_assessment list"
  pf_pilots :: "pilot_configuration list"
  pf_enablements :: "provider_enablement list"
  pf_backups :: "backup_run list"
  pf_settings :: "tenant_settings list"
  pf_flags :: "feature_flag list"

type_synonym 'a platform = "(platform_state, 'a) handler"

definition onWeb :: "'a web \<Rightarrow> 'a platform" where
  "onWeb m = zoomH pf_web (\<lambda>w s. s\<lparr>pf_web := w\<rparr>) m"

definition audit :: "tenant_context \<Rightarrow> string \<Rightarrow> string \<Rightarrow> string \<Rightarrow> unit platform" where
  "audit ctx action entityType entityId = onWeb (writeAuditLog
     \<lparr>au_tenantId = Some (cx_tenantId ctx), au_projectId = None,
      au_actorUserId = Some (su_id (cx_user ctx)), au_action = action,
      au_entityType = entityType, au_entityId = Some entityId\<rparr>)"

definition tenantCapability :: "platform_cap \<Rightarrow> tenant_context platform" where
  "tenantCapability cap = onWeb (requireTenantCapability (PlatformCap cap) None)"

text \<open>An upsert by a row's unique key: the row it leaves.\<close>

definition upsertRow :: "('a \<Rightarrow> bool) \<Rightarrow> ('a \<Rightarrow> 'a) \<Rightarrow> 'a \<Rightarrow> 'a list \<Rightarrow> 'a" where
  "upsertRow P f new xs = (case find P xs of None \<Rightarrow> new | Some x \<Rightarrow> f x)"

section \<open>Invitations\<close>

record invite_input =
  in_email :: string
  in_role :: tenant_role

definition inviteTenantUser ::
  "(string \<Rightarrow> string) \<Rightarrow> ('raw \<Rightarrow> string list + invite_input) \<Rightarrow> int \<Rightarrow> string \<Rightarrow> string \<Rightarrow>
   'raw \<Rightarrow> (invitation \<times> string) platform" where
  "inviteTenantUser hash safeParse now newId token rawInput =
     bindH (tenantCapability c_tenant_invitation_manage) (\<lambda>ctx.
     case safeParse rawInput of
       Inl issues \<Rightarrow> throwH (validationError ''Invalid invitation'' (Some issues))
     | Inr data \<Rightarrow>
         (let created = \<lparr>iv_id = newId, iv_tenantId = cx_tenantId ctx,
                iv_email = toLowerCase (in_email data), iv_role = in_role data,
                iv_status = M_INVITED, iv_tokenHash = hash token,
                iv_expiresAt = now + 7 * 24 * 60 * 60 * 1000,
                iv_createdByUserId = su_id (cx_user ctx)\<rparr>
          in transactionH
            (thenH (writeH (\<lambda>s. s\<lparr>pf_invitations := pf_invitations s @ [created]\<rparr>))
            (thenH (audit ctx ''tenant_invitation.created'' ''tenant_invitation'' newId)
              (returnH (created, token))))))"

definition revokeInvitation :: "string \<Rightarrow> invitation platform" where
  "revokeInvitation invitationId =
     bindH (tenantCapability c_tenant_invitation_manage) (\<lambda>ctx.
     transactionH
       (bindH (readH (\<lambda>s. find (\<lambda>i. iv_id i = invitationId \<and> iv_tenantId i = cx_tenantId ctx)
                (pf_invitations s))) (\<lambda>found. case found of
          None \<Rightarrow> throwH notFound
        | Some invite \<Rightarrow>
            if iv_status invite \<noteq> M_INVITED then throwH (conflict ''Invitation is not active'')
            else thenH (writeH (\<lambda>s. s\<lparr>pf_invitations := updateWhere (\<lambda>i. iv_id i = invitationId)
                          (\<lambda>i. i\<lparr>iv_status := M_DISABLED\<rparr>) (pf_invitations s)\<rparr>))
                 (thenH (audit ctx ''tenant_invitation.revoked'' ''tenant_invitation'' invitationId)
                   (returnH (invite\<lparr>iv_status := M_DISABLED\<rparr>))))))"

record accept_input =
  ac_token :: string
  ac_tenantId :: string

definition joinTenant :: "invitation \<Rightarrow> session_user \<Rightarrow> web_state \<Rightarrow> web_state" where
  "joinTenant invite user w = w\<lparr>tenant_memberships :=
     upsertWhere (\<lambda>m. tm_tenantId m = iv_tenantId invite \<and> tm_userId m = su_id user)
       (\<lambda>m. m\<lparr>tm_role := iv_role invite, tm_status := M_ACTIVE\<rparr>)
       \<lparr>tm_tenantId = iv_tenantId invite, tm_userId = su_id user, tm_role = iv_role invite,
        tm_status = M_ACTIVE\<rparr>
       (tenant_memberships w)\<rparr>"

definition acceptInvitation ::
  "(string \<Rightarrow> string) \<Rightarrow> ('raw \<Rightarrow> string list + accept_input) \<Rightarrow> int \<Rightarrow> 'raw \<Rightarrow>
   invitation platform" where
  "acceptInvitation hash safeParse now rawInput =
     bindH (onWeb requireAuthenticatedUser) (\<lambda>user.
     case safeParse rawInput of
       Inl issues \<Rightarrow> throwH (validationError ''Invalid accept payload'' (Some issues))
     | Inr data \<Rightarrow> transactionH
         (bindH (readH (\<lambda>s. find (\<lambda>i. iv_tenantId i = ac_tenantId data
                    \<and> iv_tokenHash i = hash (ac_token data) \<and> iv_status i = M_INVITED)
                  (pf_invitations s))) (\<lambda>found. case found of
            None \<Rightarrow> throwH notFound
          | Some invite \<Rightarrow>
              if iv_expiresAt invite < now then throwH (conflict ''Invitation expired'')
              else if toLowerCase (iv_email invite) \<noteq> toLowerCase (su_email user)
              then throwH (forbidden ''Invitation email does not match authenticated user'')
              else
                thenH (onWeb (writeH (joinTenant invite user)))
                (thenH (writeH (\<lambda>s. s\<lparr>pf_invitations := updateWhere (\<lambda>i. iv_id i = iv_id invite)
                          (\<lambda>i. i\<lparr>iv_status := M_ACTIVE\<rparr>) (pf_invitations s)\<rparr>))
                (thenH (onWeb (writeAuditLog \<lparr>au_tenantId = Some (iv_tenantId invite),
                          au_projectId = None, au_actorUserId = Some (su_id user),
                          au_action = ''tenant_invitation.accepted'',
                          au_entityType = ''tenant_invitation'', au_entityId = Some (iv_id invite)\<rparr>))
                  (returnH (invite\<lparr>iv_status := M_ACTIVE\<rparr>)))))))"

section \<open>Support access\<close>

record support_input =
  sp_reason :: string
  sp_capabilities :: "string list"
  sp_durationMin :: int
  sp_projectId :: "string option"

text \<open>The alternatives of the pattern that names contractual approval and dispatch.\<close>

definition CONTRACTUAL_CAPABILITIES :: "string list" where
  "CONTRACTUAL_CAPABILITIES = [''notice_draft.approve'', ''notice_dispatch.authorize'',
     ''notice_dispatch.send'', ''notice_receipt.confirm'']"

definition isContractual :: "string \<Rightarrow> bool" where
  "isContractual c = list_ex (includesStr c) CONTRACTUAL_CAPABILITIES"

definition requestSupportAccess ::
  "('raw \<Rightarrow> string list + support_input) \<Rightarrow> string \<Rightarrow> 'raw \<Rightarrow> support_request platform" where
  "requestSupportAccess safeParse newId rawInput =
     bindH (tenantCapability c_support_access_request) (\<lambda>ctx.
     case safeParse rawInput of
       Inl issues \<Rightarrow> throwH (validationError ''Invalid support request'' (Some issues))
     | Inr data \<Rightarrow>
         if length (filter isContractual (sp_capabilities data)) \<noteq> 0
         then throwH (forbidden
                ''Support access cannot include contractual approval/dispatch capabilities'')
         else (let req = \<lparr>sr_id = newId, sr_tenantId = cx_tenantId ctx,
                   sr_projectId = sp_projectId data, sr_operatorId = su_id (cx_user ctx),
                   sr_reason = sp_reason data, sr_capabilities = sp_capabilities data,
                   sr_durationMin = sp_durationMin data, sr_status = SR_REQUESTED,
                   sr_approvedBy = None, sr_expiresAt = None\<rparr>
           in transactionH
             (thenH (writeH (\<lambda>s. s\<lparr>pf_support := pf_support s @ [req]\<rparr>))
             (thenH (audit ctx ''support_access.requested'' ''support_access_request'' newId)
               (returnH req)))))"

definition findSupport :: "string \<Rightarrow> string \<Rightarrow> platform_state \<Rightarrow> support_request option" where
  "findSupport requestId tenantId s =
     find (\<lambda>r. sr_id r = requestId \<and> sr_tenantId r = tenantId) (pf_support s)"

definition approveSupportAccess ::
  "(string \<Rightarrow> string) \<Rightarrow> int \<Rightarrow> string \<Rightarrow> support_request platform" where
  "approveSupportAccess hash now requestId =
     bindH (tenantCapability c_support_access_approve) (\<lambda>ctx.
     transactionH
       (bindH (readH (findSupport requestId (cx_tenantId ctx))) (\<lambda>found. case found of
          None \<Rightarrow> throwH notFound
        | Some req \<Rightarrow>
            if sr_operatorId req = su_id (cx_user ctx)
            then throwH (forbidden
                   ''Segregation of duties: cannot approve own support access request'')
            else if sr_status req \<noteq> SR_REQUESTED
            then throwH (conflict ''Request is not awaiting approval'')
            else
              (let expiresAt = now + sr_durationMin req * 60000;
                   approve = (\<lambda>r. r\<lparr>sr_status := SR_ACTIVE,
                     sr_approvedBy := Some (su_id (cx_user ctx)), sr_expiresAt := Some expiresAt\<rparr>)
               in thenH (writeH (\<lambda>s. s\<lparr>pf_support :=
                      updateWhere (\<lambda>r. sr_id r = requestId) approve (pf_support s)\<rparr>))
                 (thenH (writeH (\<lambda>s. s\<lparr>pf_sessions := pf_sessions s @
                      [\<lparr>ss_tenantId = cx_tenantId ctx, ss_requestId = requestId,
                        ss_operatorId = sr_operatorId req, ss_endsAt = expiresAt,
                        ss_active = True\<rparr>]\<rparr>))
                 (thenH (writeH (\<lambda>s. s\<lparr>pf_alerts := pf_alerts s @
                      [\<lparr>pa_tenantId = cx_tenantId ctx, pa_type = ''SUPPORT_ACCESS_ACTIVE'',
                        pa_title = ''Support access session active'',
                        pa_sourceEntityId = requestId,
                        pa_dedupeKey = hash (''SUPPORT_ACCESS_ACTIVE|'' @ requestId)\<rparr>]\<rparr>))
                 (thenH (audit ctx ''support_access.approved'' ''support_access_request'' requestId)
                   (returnH (approve req)))))))))"

definition revokeSupportAccess :: "string \<Rightarrow> support_request platform" where
  "revokeSupportAccess requestId =
     bindH (tenantCapability c_support_access_revoke) (\<lambda>ctx.
     transactionH
       (bindH (readH (findSupport requestId (cx_tenantId ctx))) (\<lambda>found. case found of
          None \<Rightarrow> throwH notFound
        | Some req \<Rightarrow>
            thenH (writeH (\<lambda>s. s\<lparr>pf_support := updateWhere (\<lambda>r. sr_id r = requestId)
                      (\<lambda>r. r\<lparr>sr_status := SR_REVOKED\<rparr>) (pf_support s)\<rparr>))
            (thenH (writeH (\<lambda>s. s\<lparr>pf_sessions := updateWhere
                      (\<lambda>x. ss_requestId x = requestId \<and> ss_tenantId x = cx_tenantId ctx
                         \<and> ss_active x)
                      (\<lambda>x. x\<lparr>ss_active := False\<rparr>) (pf_sessions s)\<rparr>))
            (thenH (audit ctx ''support_access.revoked'' ''support_access_request'' requestId)
              (returnH (req\<lparr>sr_status := SR_REVOKED\<rparr>)))))))"

section \<open>Kill switches and limits\<close>

record kill_switch_input =
  ki_key :: kill_switch_key
  ki_enabled :: bool
  ki_reason :: string
  ki_scope :: kill_scope

definition setKillSwitch ::
  "('raw \<Rightarrow> string list + kill_switch_input) \<Rightarrow> string \<Rightarrow> 'raw \<Rightarrow> kill_switch_row platform" where
  "setKillSwitch safeParse newId rawInput =
     bindH (tenantCapability c_provider_kill_switch_manage) (\<lambda>ctx.
     case safeParse rawInput of
       Inl issues \<Rightarrow> throwH (validationError ''Invalid kill switch'' (Some issues))
     | Inr data \<Rightarrow> transactionH
         (let tenantId = (if ki_scope data = KS_tenant then Some (cx_tenantId ctx) else None) in
          bindH (readH (\<lambda>s. find (\<lambda>k. kr_tenantId k = tenantId \<and> kr_key k = ki_key data
                   \<and> kr_scope k = ki_scope data) (pf_switches s))) (\<lambda>existing.
          let row = (case existing of
                 Some k \<Rightarrow> k\<lparr>kr_enabled := ki_enabled data, kr_reason := ki_reason data\<rparr>
               | None \<Rightarrow> \<lparr>kr_id = newId, kr_tenantId = tenantId, kr_key = ki_key data,
                     kr_scope = ki_scope data, kr_enabled = ki_enabled data,
                     kr_reason = ki_reason data\<rparr>)
          in thenH (writeH (\<lambda>s. s\<lparr>pf_switches := (case existing of
                 Some k \<Rightarrow> updateWhere (\<lambda>x. kr_id x = kr_id k)
                    (\<lambda>x. x\<lparr>kr_enabled := ki_enabled data, kr_reason := ki_reason data\<rparr>)
                    (pf_switches s)
               | None \<Rightarrow> pf_switches s @ [row])\<rparr>))
            (thenH (audit ctx ''provider_kill_switch.set'' ''provider_kill_switch'' (kr_id row))
              (returnH row)))))"

definition isProviderKillSwitchActive :: "kill_switch_key \<Rightarrow> bool platform" where
  "isProviderKillSwitchActive key =
     bindH (tenantCapability c_platform_operations_read) (\<lambda>ctx.
     transactionH (bindH (readH (\<lambda>s. filter (\<lambda>k. kr_key k = key \<and> kr_enabled k
           \<and> ((kr_scope k = KS_global \<and> kr_tenantId k = None)
              \<or> (kr_scope k = KS_tenant \<and> kr_tenantId k = Some (cx_tenantId ctx))))
           (pf_switches s))) (\<lambda>rows.
       returnH (isKillSwitchActive
         (map (\<lambda>r. \<lparr>ks_key = kr_key r, ks_enabled = kr_enabled r, ks_scope = kr_scope r,
                    ks_tenantId = kr_tenantId r, ks_reason = None\<rparr>) rows)
         key (Some (cx_tenantId ctx))))))"

record limit_input =
  li_limitKey :: string
  li_limitValue :: int

definition setTenantLimit ::
  "('raw \<Rightarrow> string list + limit_input) \<Rightarrow> string \<Rightarrow> 'raw \<Rightarrow> limit_row platform" where
  "setTenantLimit safeParse newId rawInput =
     bindH (tenantCapability c_tenant_limits_manage) (\<lambda>ctx.
     case safeParse rawInput of
       Inl issues \<Rightarrow> throwH (validationError ''Invalid limit'' (Some issues))
     | Inr data \<Rightarrow>
         (let key = (\<lambda>l. lr_tenantId l = cx_tenantId ctx \<and> lr_limitKey l = li_limitKey data);
              upd = (\<lambda>l. l\<lparr>lr_limitValue := li_limitValue data\<rparr>);
              new = \<lparr>lr_id = newId, lr_tenantId = cx_tenantId ctx, lr_limitKey = li_limitKey data,
                     lr_limitValue = li_limitValue data, lr_usedValue = 0,
                     lr_warningThresholdRatio = 8 / 10\<rparr>
          in transactionH
            (bindH (readH (\<lambda>s. upsertRow key upd new (pf_limits s))) (\<lambda>row.
             thenH (writeH (\<lambda>s. s\<lparr>pf_limits := upsertWhere key upd new (pf_limits s)\<rparr>))
               (returnH row)))))"

definition assertTenantLimit ::
  "(string \<Rightarrow> string) \<Rightarrow> string \<Rightarrow> int \<Rightarrow> limit_decision platform" where
  "assertTenantLimit hash limitKey increment =
     bindH (tenantCapability c_tenant_admin_read) (\<lambda>ctx.
     transactionH
       (bindH (readH (\<lambda>s. find (\<lambda>l. lr_tenantId l = cx_tenantId ctx \<and> lr_limitKey l = limitKey)
                (pf_limits s))) (\<lambda>row. case row of
          None \<Rightarrow> returnH \<lparr>ld_allowed = True, ld_nearLimit = False, ld_code = None\<rparr>
        | Some l \<Rightarrow>
            (let decision = evaluateTenantLimit
                   \<lparr>ls_limit = of_int (lr_limitValue l),
                    ls_used = of_int (lr_usedValue l + increment),
                    ls_warningThresholdRatio = Some (lr_warningThresholdRatio l)\<rparr>
             in if \<not> ld_allowed decision then
                  thenH (writeH (\<lambda>s. s\<lparr>pf_alerts := pf_alerts s @
                      [\<lparr>pa_tenantId = cx_tenantId ctx, pa_type = ''TENANT_LIMIT_EXCEEDED'',
                        pa_title = ''Tenant limit exceeded: '' @ limitKey,
                        pa_sourceEntityId = lr_id l,
                        pa_dedupeKey = hash (''TENANT_LIMIT_EXCEEDED|'' @ limitKey @ ''|''
                          @ cx_tenantId ctx)\<rparr>]\<rparr>))
                    (throwH (conflict (''Tenant limit exceeded: '' @ limitKey)))
                else returnH decision))))"

section \<open>Pilot readiness and activation\<close>

text \<open>The second id list is for the items, one per requirement.\<close>

definition createPilotReadinessAssessment ::
  "string \<Rightarrow> string list \<Rightarrow> readiness_assessment platform" where
  "createPilotReadinessAssessment newId itemIds =
     bindH (tenantCapability c_pilot_readiness_manage) (\<lambda>ctx.
     (let a = \<lparr>ra_id = newId, ra_tenantId = cx_tenantId ctx, ra_status = PC_IN_PROGRESS,
            ra_items = map (\<lambda>(i, rid). \<lparr>pi_requirement = pi_requirement i,
                pi_status = PC_NOT_STARTED, pi_nonWaivable = pi_nonWaivable i,
                pi_approvedException = False, pi_evidence = None, ri_id = rid\<rparr>)
              (zip defaultPilotChecklist itemIds)\<rparr>
      in transactionH (thenH (writeH (\<lambda>s. s\<lparr>pf_assessments := pf_assessments s @ [a]\<rparr>))
           (returnH a))))"

definition findAssessment :: "string \<Rightarrow> string \<Rightarrow> platform_state \<Rightarrow> readiness_assessment option" where
  "findAssessment assessmentId tenantId s =
     find (\<lambda>a. ra_id a = assessmentId \<and> ra_tenantId a = tenantId) (pf_assessments s)"

definition evaluateItems :: "readiness_item list \<Rightarrow> pilot_evaluation" where
  "evaluateItems items = evaluatePilotReadiness (map pilot_item.truncate items)"

record readiness_input =
  rd_status :: pilot_check_status
  rd_evidence :: "string option"
  rd_approvedException :: "bool option"

definition applyReadiness :: "readiness_input \<Rightarrow> readiness_item \<Rightarrow> readiness_item" where
  "applyReadiness data i = i\<lparr>pi_status := rd_status data,
     pi_evidence := (case rd_evidence data of None \<Rightarrow> pi_evidence i | Some e \<Rightarrow> Some e),
     pi_approvedException := (rd_approvedException data = Some True)\<rparr>"

definition updatePilotReadinessItem ::
  "('raw \<Rightarrow> string list + readiness_input) \<Rightarrow> string \<Rightarrow> string \<Rightarrow> 'raw \<Rightarrow>
   readiness_assessment platform" where
  "updatePilotReadinessItem safeParse assessmentId requirement rawInput =
     bindH (tenantCapability c_pilot_readiness_manage) (\<lambda>ctx.
     case safeParse rawInput of
       Inl issues \<Rightarrow> throwH (validationError ''Invalid readiness item'' (Some issues))
     | Inr data \<Rightarrow> transactionH
         (bindH (readH (findAssessment assessmentId (cx_tenantId ctx))) (\<lambda>found. case found of
            None \<Rightarrow> throwH notFound
          | Some assessment \<Rightarrow>
              (case find (\<lambda>i. pi_requirement i = requirement) (ra_items assessment) of
                 None \<Rightarrow> throwH notFound
               | Some item \<Rightarrow>
                   if pi_nonWaivable item \<and> rd_approvedException data = Some True
                   then throwH (forbidden ''Non-waivable pilot readiness items cannot be waived'')
                   else
                     (let items = updateWhere (\<lambda>i. ri_id i = ri_id item) (applyReadiness data)
                            (ra_items assessment);
                          store = (\<lambda>a. a\<lparr>ra_items := items,
                            ra_status := pe_status (evaluateItems items)\<rparr>)
                      in thenH (writeH (\<lambda>s. s\<lparr>pf_assessments := updateWhere
                            (\<lambda>a. ra_id a = assessmentId) store (pf_assessments s)\<rparr>))
                          (returnH (store assessment)))))))"

definition activatePilot :: "string \<Rightarrow> string \<Rightarrow> pilot_configuration platform" where
  "activatePilot newId assessmentId =
     bindH (tenantCapability c_pilot_readiness_activate) (\<lambda>ctx.
     transactionH
       (bindH (readH (findAssessment assessmentId (cx_tenantId ctx))) (\<lambda>found. case found of
          None \<Rightarrow> throwH notFound
        | Some assessment \<Rightarrow>
            (let evaluation = evaluateItems (ra_items assessment);
                 pilot = \<lparr>pn_id = newId, pn_tenantId = cx_tenantId ctx,
                          pn_createdBy = su_id (cx_user ctx)\<rparr>
             in if \<not> pe_canActivate evaluation
                then throwH (conflict (''Pilot activation blocked: ''
                       @ joinWith '', '' (pe_blockers evaluation)))
                else
                  thenH (onWeb (writeH (\<lambda>w. w\<lparr>tenants := updateWhere
                     (\<lambda>t. tn_id t = cx_tenantId ctx) (\<lambda>t. t\<lparr>tn_status := T_ACTIVE\<rparr>) (tenants w)\<rparr>)))
                  (thenH (writeH (\<lambda>s. s\<lparr>pf_pilots := pf_pilots s @ [pilot]\<rparr>))
                  (thenH (audit ctx ''pilot.activated'' ''pilot_configuration'' newId)
                    (returnH pilot)))))))"

section \<open>Provider enablement\<close>

record enablement_input =
  ei_provider :: string
  ei_environment :: string
  ei_secretReference :: "string option"

definition createProviderEnablement ::
  "('raw \<Rightarrow> string list + enablement_input) \<Rightarrow> string \<Rightarrow> 'raw \<Rightarrow> provider_enablement platform" where
  "createProviderEnablement safeParse newId rawInput =
     bindH (tenantCapability c_provider_enablement_manage) (\<lambda>ctx.
     case safeParse rawInput of
       Inl issues \<Rightarrow> throwH (validationError ''Invalid provider enablement'' (Some issues))
     | Inr data \<Rightarrow>
         if truthy (ei_secretReference data) \<and> \<not> includesStr (the (ei_secretReference data)) ''://''
         then throwH (validationError ''secretReference must be a non-sensitive reference URI'' None)
         else (let row = \<lparr>en_id = newId, en_tenantId = cx_tenantId ctx,
                   en_provider = ei_provider data, en_environment = ei_environment data,
                   en_status = PE_TECHNICAL_VALIDATION,
                   en_secretReference = ei_secretReference data,
                   en_configuredBy = su_id (cx_user ctx), en_approvedBy = None,
                   en_enabledAt = None\<rparr>
           in transactionH
             (thenH (writeH (\<lambda>s. s\<lparr>pf_enablements := pf_enablements s @ [row]\<rparr>))
             (thenH (audit ctx ''provider_enablement.created'' ''provider_enablement'' newId)
               (returnH row)))))"

definition approveProviderEnablement ::
  "int \<Rightarrow> string \<Rightarrow> enablement_status \<Rightarrow> provider_enablement platform" where
  "approveProviderEnablement now rowId status =
     bindH (tenantCapability c_provider_enablement_approve) (\<lambda>ctx.
     transactionH
       (bindH (readH (\<lambda>s. find (\<lambda>e. en_id e = rowId \<and> en_tenantId e = cx_tenantId ctx)
                (pf_enablements s))) (\<lambda>found. case found of
          None \<Rightarrow> throwH notFound
        | Some row \<Rightarrow>
            if en_configuredBy row = su_id (cx_user ctx)
            then throwH (forbidden
                   ''Segregation of duties: approver cannot be the configurator'')
            else if en_status row \<noteq> PE_TECHNICAL_VALIDATION \<and> en_status row \<noteq> PE_SECURITY_REVIEW
                    \<and> en_status row \<noteq> PE_APPROVED_FOR_STAGING
                    \<and> en_status row \<noteq> PE_APPROVED_FOR_PILOT
            then throwH (conflict ''Provider is not in an approvable state'')
            else
              (let approve = (\<lambda>e. e\<lparr>en_status := status,
                     en_approvedBy := Some (su_id (cx_user ctx)),
                     en_enabledAt := (if status = PE_ENABLED then Some now else en_enabledAt row)\<rparr>)
               in thenH (writeH (\<lambda>s. s\<lparr>pf_enablements :=
                      updateWhere (\<lambda>e. en_id e = rowId) approve (pf_enablements s)\<rparr>))
                 (thenH (audit ctx ''provider_enablement.approved'' ''provider_enablement'' rowId)
                   (returnH (approve row)))))))"

section \<open>Settings, flags and backup runs\<close>

definition upsertTenantSettings ::
  "('raw \<Rightarrow> string list + (string \<times> string) list) \<Rightarrow> string \<Rightarrow> 'raw \<Rightarrow> tenant_settings platform" where
  "upsertTenantSettings safeParse newId rawInput =
     bindH (tenantCapability c_tenant_admin_manage) (\<lambda>ctx.
     case safeParse rawInput of
       Inl issues \<Rightarrow> throwH (validationError ''Invalid tenant settings'' (Some issues))
     | Inr data \<Rightarrow>
         (let key = (\<lambda>t. ts_tenantId t = cx_tenantId ctx);
              upd = (\<lambda>t. t\<lparr>ts_values := data @ filter (\<lambda>(k, _). k \<notin> fst ` set data) (ts_values t)\<rparr>);
              new = \<lparr>ts_id = newId, ts_tenantId = cx_tenantId ctx, ts_values = data\<rparr>
          in transactionH
            (bindH (readH (\<lambda>s. upsertRow key upd new (pf_settings s))) (\<lambda>settings.
             thenH (writeH (\<lambda>s. s\<lparr>pf_settings := upsertWhere key upd new (pf_settings s)\<rparr>))
             (thenH (audit ctx ''tenant_settings.updated'' ''tenant_settings'' (ts_id settings))
               (returnH settings))))))"

record flag_input =
  fi_flag :: string
  fi_enabled :: bool
  fi_rolloutMode :: string

definition setTenantFeatureFlag ::
  "('raw \<Rightarrow> string list + flag_input) \<Rightarrow> string \<Rightarrow> 'raw \<Rightarrow> feature_flag platform" where
  "setTenantFeatureFlag safeParse newId rawInput =
     bindH (tenantCapability c_tenant_feature_flags_manage) (\<lambda>ctx.
     case safeParse rawInput of
       Inl issues \<Rightarrow> throwH (validationError ''Invalid feature flag'' (Some issues))
     | Inr data \<Rightarrow>
         (let key = (\<lambda>f. ff_tenantId f = cx_tenantId ctx \<and> ff_flag f = fi_flag data);
              upd = (\<lambda>f. f\<lparr>ff_enabled := fi_enabled data, ff_rolloutMode := fi_rolloutMode data\<rparr>);
              new = \<lparr>ff_id = newId, ff_tenantId = cx_tenantId ctx, ff_flag = fi_flag data,
                     ff_enabled = fi_enabled data, ff_rolloutMode = fi_rolloutMode data\<rparr>
          in transactionH
            (bindH (readH (\<lambda>s. upsertRow key upd new (pf_flags s))) (\<lambda>row.
             thenH (writeH (\<lambda>s. s\<lparr>pf_flags := upsertWhere key upd new (pf_flags s)\<rparr>))
             (thenH (audit ctx ''tenant_feature_flag.set'' ''tenant_feature_flag'' (ff_id row))
               (returnH row))))))"

definition recordBackupRun ::
  "('raw \<Rightarrow> string list + string) \<Rightarrow> int \<Rightarrow> string \<Rightarrow> 'raw \<Rightarrow> backup_run platform" where
  "recordBackupRun safeParse now newId rawInput =
     bindH (tenantCapability c_backup_run_read) (\<lambda>ctx.
     case safeParse rawInput of
       Inl issues \<Rightarrow> throwH (validationError ''Invalid backup run'' (Some issues))
     | Inr status \<Rightarrow>
         (let row = \<lparr>bk_id = newId, bk_tenantId = cx_tenantId ctx, bk_status = status,
              bk_completedAt = (if status = ''SUCCEEDED'' then Some now else None),
              bk_initiatedBy = su_id (cx_user ctx)\<rparr>
          in transactionH (thenH (writeH (\<lambda>s. s\<lparr>pf_backups := pf_backups s @ [row]\<rparr>))
               (returnH row))))"

section \<open>What the service leaves alone\<close>

text \<open>\<open>sameGates\<close>: no support request, support session and provider enablement changed.\<close>

definition sameGates :: "platform_state \<Rightarrow> platform_state \<Rightarrow> bool" where
  "sameGates s t \<longleftrightarrow> pf_support t = pf_support s \<and> pf_sessions t = pf_sessions s
     \<and> pf_enablements t = pf_enablements s"

interpretation sg: stable sameGates
  by unfold_locales (auto simp: sameGates_def)

text \<open>\<open>sameAlerts\<close>: no alert was stored.\<close>

definition sameAlerts :: "platform_state \<Rightarrow> platform_state \<Rightarrow> bool" where
  "sameAlerts s t \<longleftrightarrow> pf_alerts t = pf_alerts s"

interpretation sa: stable sameAlerts
  by unfold_locales (auto simp: sameAlerts_def)

lemma onWeb_obeys: "sg.obeys (onWeb m)" "sa.obeys (onWeb m)"
  by (auto simp: sg.obeys_def sa.obeys_def sameGates_def sameAlerts_def onWeb_def zoomH_def
      split: prod.splits)

lemma context_obeys:
  "sg.obeys (audit ctx a b c)" "sa.obeys (audit ctx a b c)"
  "sg.obeys (tenantCapability cap)" "sa.obeys (tenantCapability cap)"
  by (simp_all add: audit_def tenantCapability_def onWeb_obeys)

lemma gates_writes:
  "sg.obeys (writeH (\<lambda>s. s\<lparr>pf_invitations := f1 s\<rparr>))"
  "sg.obeys (writeH (\<lambda>s. s\<lparr>pf_switches := f2 s\<rparr>))"
  "sg.obeys (writeH (\<lambda>s. s\<lparr>pf_limits := f3 s\<rparr>))"
  "sg.obeys (writeH (\<lambda>s. s\<lparr>pf_alerts := f4 s\<rparr>))"
  "sg.obeys (writeH (\<lambda>s. s\<lparr>pf_assessments := f5 s\<rparr>))"
  "sg.obeys (writeH (\<lambda>s. s\<lparr>pf_pilots := f6 s\<rparr>))"
  "sg.obeys (writeH (\<lambda>s. s\<lparr>pf_settings := f7 s\<rparr>))"
  "sg.obeys (writeH (\<lambda>s. s\<lparr>pf_flags := f8 s\<rparr>))"
  "sg.obeys (writeH (\<lambda>s. s\<lparr>pf_backups := f9 s\<rparr>))"
  by (auto intro!: sg.obeys_write simp: sameGates_def)

lemmas gates_rules = sg.obeys_rules onWeb_obeys(1) context_obeys(1,3) gates_writes

lemma gates_kept:
  "sg.obeys (inviteTenantUser h p1 now i tok raw)"
  "sg.obeys (revokeInvitation i)"
  "sg.obeys (acceptInvitation h p2 now raw)"
  "sg.obeys (setKillSwitch p3 i raw)"
  "sg.obeys (setTenantLimit p4 i raw)"
  "sg.obeys (assertTenantLimit h k n)"
  "sg.obeys (createPilotReadinessAssessment i is)"
  "sg.obeys (updatePilotReadinessItem p5 i k raw)"
  "sg.obeys (activatePilot i k)"
  "sg.obeys (upsertTenantSettings p6 i raw)"
  "sg.obeys (setTenantFeatureFlag p7 i raw)"
  "sg.obeys (recordBackupRun p8 now i raw)"
  unfolding inviteTenantUser_def revokeInvitation_def acceptInvitation_def setKillSwitch_def
    setTenantLimit_def assertTenantLimit_def createPilotReadinessAssessment_def
    updatePilotReadinessItem_def activatePilot_def upsertTenantSettings_def
    setTenantFeatureFlag_def recordBackupRun_def Let_def
  by (intro gates_rules)+

section \<open>Successful calls\<close>

lemma onWeb_Inr [ok_iff]:
  "onWeb m s = (Inr x, t) \<longleftrightarrow> (\<exists>w. m (pf_web s) = (Inr x, w) \<and> t = s\<lparr>pf_web := w\<rparr>)"
  by (simp add: onWeb_def zoomH_Inr)

lemma audit_Inr [ok_iff]:
  "audit ctx a b c s = (Inr x, t) \<longleftrightarrow> t = s\<lparr>pf_web := (pf_web s)\<lparr>audit_log := audit_log (pf_web s) @
     [\<lparr>au_tenantId = Some (cx_tenantId ctx), au_projectId = None,
       au_actorUserId = Some (su_id (cx_user ctx)), au_action = a, au_entityType = b,
       au_entityId = Some c\<rparr>]\<rparr>\<rparr>"
  by (auto simp: audit_def ok_iff)

lemma tenantCapability_ok:
  assumes "tenantCapability cap s = (Inr ctx, t)"
  shows "t = s \<and> session (pf_web s) = Some (cx_user ctx)
    \<and> activeMember (pf_web s) (cx_user ctx) (cx_membership ctx)
    \<and> cx_tenantId ctx = tm_tenantId (cx_membership ctx)
    \<and> cx_tenantRole ctx = tm_role (cx_membership ctx)
    \<and> PlatformCap cap \<in> capabilitiesForTenantRole (cx_tenantRole ctx)"
  using assms by (auto simp: tenantCapability_def ok_iff dest!: requireTenantCapability_ok)

text \<open>
  The requests of the service, with what the database supplies: a support request, an enablement and
  an invitation get ids no row of their table has.
\<close>

inductive platform_step :: "platform_state \<Rightarrow> platform_state \<Rightarrow> bool" where
  browser: "platform_step s (s\<lparr>pf_web := w\<rparr>)"
| requestSupport: "newId \<notin> sr_id ` set (pf_support s) \<Longrightarrow>
    requestSupportAccess p newId (raw :: string) s = (r1, t) \<Longrightarrow> platform_step s t"
| approveSupport: "approveSupportAccess h now i s = (r2, t) \<Longrightarrow> platform_step s t"
| revokeSupport: "revokeSupportAccess i s = (r3, t) \<Longrightarrow> platform_step s t"
| createEnablement: "newId \<notin> en_id ` set (pf_enablements s) \<Longrightarrow>
    createProviderEnablement q newId (raw :: string) s = (r4, t) \<Longrightarrow> platform_step s t"
| approveEnablement: "approveProviderEnablement now i st s = (r5, t) \<Longrightarrow> platform_step s t"
| invite: "newId \<notin> iv_id ` set (pf_invitations s) \<Longrightarrow>
    inviteTenantUser h ip now newId tok (raw :: string) s = (r6, t) \<Longrightarrow> platform_step s t"
| revokeInvite: "platform_step s (snd (revokeInvitation i s))"
| accept: "platform_step s (snd (acceptInvitation h ap now (raw :: string) s))"
| switch: "platform_step s (snd (setKillSwitch kp newId (raw :: string) s))"
| limit: "platform_step s (snd (setTenantLimit lp newId (raw :: string) s))"
| assertLimit: "platform_step s (snd (assertTenantLimit h k n s))"
| assessment: "platform_step s (snd (createPilotReadinessAssessment newId ids s))"
| readiness: "platform_step s (snd (updatePilotReadinessItem rp i k (raw :: string) s))"
| activate: "platform_step s (snd (activatePilot newId i s))"
| settings: "platform_step s (snd (upsertTenantSettings sp newId (raw :: string) s))"
| flag: "platform_step s (snd (setTenantFeatureFlag fp newId (raw :: string) s))"
| backup: "platform_step s (snd (recordBackupRun bp now newId (raw :: string) s))"

inductive_cases platform_stepE: "platform_step s t"

text \<open>Segregation of duties: who approved is not who asked.\<close>

definition supportOk :: "support_request \<Rightarrow> bool" where
  "supportOk r \<longleftrightarrow> (\<forall>c\<in>set (sr_capabilities r). \<not> isContractual c)
     \<and> (sr_status r = SR_ACTIVE \<longrightarrow> (\<exists>a. sr_approvedBy r = Some a \<and> a \<noteq> sr_operatorId r)
          \<and> sr_expiresAt r \<noteq> None)"

definition enablementOk :: "provider_enablement \<Rightarrow> bool" where
  "enablementOk e \<longleftrightarrow> en_status e = PE_TECHNICAL_VALIDATION
     \<or> (\<exists>a. en_approvedBy e = Some a \<and> a \<noteq> en_configuredBy e)"

text \<open>An open session is of an active request: of its organization and operator, until its expiry.\<close>

definition sessionOf :: "support_session \<Rightarrow> support_request \<Rightarrow> bool" where
  "sessionOf x r \<longleftrightarrow> sr_id r = ss_requestId x \<and> sr_tenantId r = ss_tenantId x
     \<and> sr_operatorId r = ss_operatorId x \<and> sr_expiresAt r = Some (ss_endsAt x)"

definition sessionsOk :: "support_request list \<Rightarrow> support_session list \<Rightarrow> bool" where
  "sessionsOk rs xs \<longleftrightarrow>
     (\<forall>x\<in>set xs. ss_active x \<longrightarrow> (\<exists>r\<in>set rs. sr_status r = SR_ACTIVE \<and> sessionOf x r))
     \<and> distinct (map ss_requestId (filter ss_active xs))"

definition gatesInv :: "platform_state \<Rightarrow> bool" where
  "gatesInv s \<longleftrightarrow> distinct (map sr_id (pf_support s)) \<and> distinct (map en_id (pf_enablements s))
     \<and> (\<forall>r\<in>set (pf_support s). supportOk r) \<and> (\<forall>e\<in>set (pf_enablements s). enablementOk e)
     \<and> sessionsOk (pf_support s) (pf_sessions s)"

lemma sessionsOk_more: "sessionsOk rs xs \<Longrightarrow> sessionsOk (rs @ qs) xs"
  by (auto simp: sessionsOk_def)

lemma gatesInv_same: "sameGates s t \<Longrightarrow> gatesInv s \<Longrightarrow> gatesInv t"
  by (simp add: sameGates_def gatesInv_def)

lemma gatesInv_obeys: "sg.obeys m \<Longrightarrow> gatesInv s \<Longrightarrow> gatesInv (snd (m s))"
  by (rule gatesInv_same) (auto simp: sg.obeys_def)

lemma gates_failsafe:
  "sg.failsafe (requestSupportAccess p i raw)"
  "sg.failsafe (approveSupportAccess h now i)"
  "sg.failsafe (revokeSupportAccess i)"
  "sg.failsafe (createProviderEnablement q i raw')"
  "sg.failsafe (approveProviderEnablement now i st)"
  unfolding requestSupportAccess_def approveSupportAccess_def revokeSupportAccess_def
    createProviderEnablement_def approveProviderEnablement_def Let_def
  by (intro sg.failsafe_bind sg.failsafe_sum sg.failsafe_if sg.failsafe_transaction context_obeys
      sg.failsafe_obeys[OF sg.obeys_pure(2)])+

lemma gatesInv_result:
  assumes "sg.failsafe m" and "m s = (r, t)" and "gatesInv s"
    and "\<And>x. m s = (Inr x, t) \<Longrightarrow> gatesInv t"
  shows "gatesInv t"
proof (cases r)
  case (Inl e)
  then have "sameGates s t" using sg.failsafeD[OF assms(1)] assms(2) by simp
  then show ?thesis using assms(3) by (rule gatesInv_same)
next
  case (Inr x)
  then show ?thesis using assms(2,4) by simp
qed

lemma requestSupport_inv:
  assumes "gatesInv s" and "newId \<notin> sr_id ` set (pf_support s)"
    and "requestSupportAccess p newId raw s = (Inr req, t)"
  shows "gatesInv t"
proof -
  obtain ctx u where ctx: "tenantCapability c_support_access_request s = (Inr ctx, u)"
    using assms(3) unfolding requestSupportAccess_def by (auto simp: ok_iff)
  then have us: "u = s" by (auto dest: tenantCapability_ok)
  have "pf_enablements t = pf_enablements s \<and> pf_support t = pf_support s @ [req]
      \<and> pf_sessions t = pf_sessions s \<and> sr_id req = newId \<and> supportOk req"
    using assms(3) ctx us unfolding requestSupportAccess_def
    by (auto simp: ok_iff Let_def supportOk_def filter_empty_conv split: sum.splits if_splits)
  then show ?thesis using assms(1,2) by (auto simp: gatesInv_def sessionsOk_more)
qed

text \<open>A request that was waiting has no open session, so one more may open for it.\<close>

lemma sessionsOk_opened:
  assumes "sessionsOk rs xs" "distinct (map sr_id rs)" and old: "old \<in> set rs" "sr_status old = SR_REQUESTED"
    and new: "sr_status (f old) = SR_ACTIVE" "sessionOf x (f old)" "sr_id (f old) = sr_id old"
  shows "sessionsOk (updateWhere (\<lambda>r. sr_id r = sr_id old) f rs) (xs @ [x])"
proof -
  have open_row: "\<exists>r\<in>set rs. sr_status r = SR_ACTIVE \<and> sessionOf y r \<and> sr_id r \<noteq> sr_id old"
    if y: "y \<in> set xs" "ss_active y" for y
  proof -
    obtain r where r: "r \<in> set rs" "sr_status r = SR_ACTIVE" "sessionOf y r"
      using assms(1) y unfolding sessionsOk_def by blast
    then have "sr_id r \<noteq> sr_id old" using distinct_key_unique[OF assms(2) r(1) old(1)] old(2) by auto
    then show ?thesis using r by blast
  qed
  have "\<exists>r\<in>set (updateWhere (\<lambda>r. sr_id r = sr_id old) f rs). sr_status r = SR_ACTIVE \<and> sessionOf y r"
    if "y \<in> set (xs @ [x])" "ss_active y" for y
  proof (cases "y = x")
    case True
    then show ?thesis
      using new updateWhere_mem[OF old(1), of "\<lambda>r. sr_id r = sr_id old" f] by (intro bexI[of _ "f old"]) simp_all
  next
    case False
    then have "y \<in> set xs" using that(1) by simp
    from open_row[OF this that(2)] obtain r where r: "r \<in> set rs" "sr_status r = SR_ACTIVE" "sessionOf y r"
      "sr_id r \<noteq> sr_id old" by blast
    then show ?thesis using updateWhere_mem[OF r(1), of "\<lambda>r. sr_id r = sr_id old" f] by (intro bexI[of _ r]) simp_all
  qed
  moreover have "ss_requestId x \<notin> ss_requestId ` set (filter ss_active xs)"
  proof
    assume "ss_requestId x \<in> ss_requestId ` set (filter ss_active xs)"
    then obtain y where "y \<in> set xs" "ss_active y" "ss_requestId y = ss_requestId x" by auto
    then show False using open_row[of y] new(2,3) by (auto simp: sessionOf_def)
  qed
  ultimately show ?thesis using assms(1) by (auto simp: sessionsOk_def)
qed

lemma sessionsOk_closed:
  assumes "sessionsOk rs xs" "distinct (map sr_id rs)" "old \<in> set rs"
  shows "sessionsOk (updateWhere (\<lambda>r. sr_id r = sr_id old) f rs)
    (updateWhere (\<lambda>x. ss_requestId x = sr_id old \<and> ss_tenantId x = sr_tenantId old \<and> ss_active x)
      (\<lambda>x. x\<lparr>ss_active := False\<rparr>) xs)"
proof -
  let ?ys = "updateWhere (\<lambda>x. ss_requestId x = sr_id old \<and> ss_tenantId x = sr_tenantId old \<and> ss_active x)
      (\<lambda>x. x\<lparr>ss_active := False\<rparr>) xs"
  have "\<exists>r\<in>set (updateWhere (\<lambda>r. sr_id r = sr_id old) f rs). sr_status r = SR_ACTIVE \<and> sessionOf y r"
    if y: "y \<in> set ?ys" "ss_active y" for y
  proof -
    have row: "y \<in> set xs" "\<not> (ss_requestId y = sr_id old \<and> ss_tenantId y = sr_tenantId old)"
      using y by (auto simp: set_updateWhere)
    then obtain r where r: "r \<in> set rs" "sr_status r = SR_ACTIVE" "sessionOf y r"
      using assms(1) y(2) unfolding sessionsOk_def by blast
    then have "sr_id r \<noteq> sr_id old"
      using distinct_key_unique[OF assms(2) r(1) assms(3)] row(2) by (auto simp: sessionOf_def)
    then show ?thesis
      using r updateWhere_mem[OF r(1), of "\<lambda>r. sr_id r = sr_id old" f] by (intro bexI[of _ r]) simp_all
  qed
  moreover have "distinct (map ss_requestId (filter ss_active ?ys))"
  proof -
    have kept: "set (map ss_requestId (filter ss_active (updateWhere P (\<lambda>x. x\<lparr>ss_active := False\<rparr>) xs)))
        \<subseteq> set (map ss_requestId (filter ss_active xs))" for P and xs :: "support_session list"
      by (auto simp: set_updateWhere)
    have "distinct (map ss_requestId (filter ss_active xs)) \<Longrightarrow>
        distinct (map ss_requestId (filter ss_active (updateWhere P (\<lambda>x. x\<lparr>ss_active := False\<rparr>) xs)))" for P
    proof (induction xs)
      case (Cons a xs)
      then show ?case using kept[of P xs] by (cases "ss_active a") auto
    qed simp
    then show ?thesis using assms(1) by (simp add: sessionsOk_def)
  qed
  ultimately show ?thesis by (simp add: sessionsOk_def)
qed

lemma approveSupport_inv:
  assumes inv: "gatesInv s" and "approveSupportAccess h now i s = (Inr req, t)"
  shows "gatesInv t"
proof -
  obtain ctx u where ctx: "tenantCapability c_support_access_approve s = (Inr ctx, u)"
    using assms(2) unfolding approveSupportAccess_def by (auto simp: ok_iff)
  then have us: "u = s" by (auto dest: tenantCapability_ok)
  obtain old e where old: "findSupport i (cx_tenantId ctx) s = Some old"
      "sr_operatorId old \<noteq> su_id (cx_user ctx)" "sr_status old = SR_REQUESTED"
    and t: "pf_enablements t = pf_enablements s"
      "pf_sessions t = pf_sessions s @ [\<lparr>ss_tenantId = cx_tenantId ctx, ss_requestId = i,
         ss_operatorId = sr_operatorId old, ss_endsAt = e, ss_active = True\<rparr>]"
      "pf_support t = updateWhere (\<lambda>r. sr_id r = i)
      (\<lambda>r. r\<lparr>sr_status := SR_ACTIVE, sr_approvedBy := Some (su_id (cx_user ctx)),
             sr_expiresAt := Some e\<rparr>) (pf_support s)"
    using assms(2) ctx us unfolding approveSupportAccess_def
    by (auto simp: ok_iff Let_def split: option.splits if_splits)
  have mem: "old \<in> set (pf_support s)" "sr_id old = i" "sr_tenantId old = cx_tenantId ctx"
    using old(1) unfolding findSupport_def by (auto dest!: find_SomeD)
  have keys: "distinct (map sr_id (pf_support s))" using inv by (simp add: gatesInv_def)
  have only: "r = old" if "r \<in> set (pf_support s)" "sr_id r = i" for r
    using that mem keys distinct_key_unique[of sr_id] by metis
  have "\<forall>r\<in>set (pf_support t). supportOk r"
    unfolding t(3)
  proof (rule all_updateWhere)
    show "\<forall>r\<in>set (pf_support s). supportOk r" using inv by (simp add: gatesInv_def)
  next
    fix r
    assume "r \<in> set (pf_support s)" "sr_id r = i" and ok: "supportOk r"
    then have "r = old" using only by blast
    then show "supportOk (r\<lparr>sr_status := SR_ACTIVE, sr_approvedBy := Some (su_id (cx_user ctx)),
        sr_expiresAt := Some e\<rparr>)"
      using ok old(2) by (simp add: supportOk_def)
  qed
  moreover have "sessionsOk (pf_support t) (pf_sessions t)"
    unfolding t(2,3) mem(2)[symmetric]
    by (rule sessionsOk_opened[OF _ keys mem(1) old(3)])
      (use inv mem in \<open>simp_all add: gatesInv_def sessionOf_def\<close>)
  ultimately show ?thesis
    using inv t by (simp add: gatesInv_def map_updateWhere)
qed

lemma revokeSupport_inv:
  assumes inv: "gatesInv s" and "revokeSupportAccess i s = (Inr req, t)"
  shows "gatesInv t"
proof -
  obtain ctx u where ctx: "tenantCapability c_support_access_revoke s = (Inr ctx, u)"
    using assms(2) unfolding revokeSupportAccess_def by (auto simp: ok_iff)
  then have us: "u = s" by (auto dest: tenantCapability_ok)
  obtain old where found: "findSupport i (cx_tenantId ctx) s = Some old"
    and t: "pf_enablements t = pf_enablements s"
      "pf_support t = updateWhere (\<lambda>r. sr_id r = i) (\<lambda>r. r\<lparr>sr_status := SR_REVOKED\<rparr>) (pf_support s)"
      "pf_sessions t = updateWhere (\<lambda>x. ss_requestId x = i \<and> ss_tenantId x = cx_tenantId ctx \<and> ss_active x)
         (\<lambda>x. x\<lparr>ss_active := False\<rparr>) (pf_sessions s)"
    using assms(2) ctx us unfolding revokeSupportAccess_def
    by (auto simp: ok_iff split: option.splits)
  have mem: "old \<in> set (pf_support s)" "sr_id old = i" "sr_tenantId old = cx_tenantId ctx"
    using found unfolding findSupport_def by (auto dest!: find_SomeD)
  have "\<forall>r\<in>set (pf_support t). supportOk r"
    unfolding t(2) using inv by (intro all_updateWhere) (simp_all add: gatesInv_def supportOk_def)
  moreover have "sessionsOk (pf_support t) (pf_sessions t)"
    using inv mem(1) sessionsOk_closed[of "pf_support s" "pf_sessions s" old]
    unfolding t(2,3) mem(2,3)[symmetric] by (simp add: gatesInv_def)
  ultimately show ?thesis
    using inv t by (simp add: gatesInv_def map_updateWhere)
qed

lemma createEnablement_inv:
  assumes "gatesInv s" and "newId \<notin> en_id ` set (pf_enablements s)"
    and "createProviderEnablement q newId raw s = (Inr row, t)"
  shows "gatesInv t"
proof -
  obtain ctx u where ctx: "tenantCapability c_provider_enablement_manage s = (Inr ctx, u)"
    using assms(3) unfolding createProviderEnablement_def by (auto simp: ok_iff)
  then have us: "u = s" by (auto dest: tenantCapability_ok)
  have "pf_support t = pf_support s \<and> pf_sessions t = pf_sessions s
      \<and> pf_enablements t = pf_enablements s @ [row]
      \<and> en_id row = newId \<and> enablementOk row"
    using assms(3) ctx us unfolding createProviderEnablement_def
    by (auto simp: ok_iff Let_def enablementOk_def split: sum.splits if_splits)
  then show ?thesis using assms(1,2) by (auto simp: gatesInv_def)
qed

lemma approveEnablement_inv:
  assumes inv: "gatesInv s" and "approveProviderEnablement now i st s = (Inr row, t)"
  shows "gatesInv t"
proof -
  obtain ctx u where ctx: "tenantCapability c_provider_enablement_approve s = (Inr ctx, u)"
    using assms(2) unfolding approveProviderEnablement_def by (auto simp: ok_iff)
  then have us: "u = s" by (auto dest: tenantCapability_ok)
  obtain old d where old: "find (\<lambda>e. en_id e = i \<and> en_tenantId e = cx_tenantId ctx)
        (pf_enablements s) = Some old" "en_configuredBy old \<noteq> su_id (cx_user ctx)"
    and t: "pf_support t = pf_support s" "pf_sessions t = pf_sessions s" "pf_enablements t = updateWhere (\<lambda>e. en_id e = i)
      (\<lambda>e. e\<lparr>en_status := st, en_approvedBy := Some (su_id (cx_user ctx)), en_enabledAt := d\<rparr>)
      (pf_enablements s)"
    using assms(2) ctx us unfolding approveProviderEnablement_def
    by (auto simp: ok_iff Let_def split: option.splits if_splits)
  have "old \<in> set (pf_enablements s)" "en_id old = i"
    using old(1) by (auto dest!: find_SomeD)
  moreover have "distinct (map en_id (pf_enablements s))" using inv by (simp add: gatesInv_def)
  ultimately have only: "e = old" if "e \<in> set (pf_enablements s)" "en_id e = i" for e
    using that distinct_key_unique[of en_id] by metis
  have "\<forall>e\<in>set (pf_enablements t). enablementOk e"
    unfolding t(3)
  proof (rule all_updateWhere)
    show "\<forall>e\<in>set (pf_enablements s). enablementOk e" using inv by (simp add: gatesInv_def)
  next
    fix e
    assume "e \<in> set (pf_enablements s)" "en_id e = i"
    then have "e = old" using only by blast
    then show "enablementOk (e\<lparr>en_status := st, en_approvedBy := Some (su_id (cx_user ctx)),
        en_enabledAt := d\<rparr>)"
      using old(2) by (simp add: enablementOk_def)
  qed
  then show ?thesis
    using inv t by (simp add: gatesInv_def map_updateWhere)
qed

lemma gatesInv_step:
  assumes "platform_step s t" and "gatesInv s"
  shows "gatesInv t"
  using assms(1)
proof (rule platform_stepE)
  fix w
  assume "t = s\<lparr>pf_web := w\<rparr>"
  then show ?thesis using assms(2) by (simp add: gatesInv_def)
next
  fix newId p raw r1
  assume "newId \<notin> sr_id ` set (pf_support s)" "requestSupportAccess p newId raw s = (r1, t)"
  then show ?thesis using assms(2) by (blast intro: gatesInv_result[OF gates_failsafe(1)] requestSupport_inv)
next
  fix h now i r2
  assume "approveSupportAccess h now i s = (r2, t)"
  then show ?thesis using assms(2) by (blast intro: gatesInv_result[OF gates_failsafe(2)] approveSupport_inv)
next
  fix i r3
  assume "revokeSupportAccess i s = (r3, t)"
  then show ?thesis using assms(2) by (blast intro: gatesInv_result[OF gates_failsafe(3)] revokeSupport_inv)
next
  fix newId q raw r4
  assume "newId \<notin> en_id ` set (pf_enablements s)" "createProviderEnablement q newId raw s = (r4, t)"
  then show ?thesis using assms(2)
    by (blast intro: gatesInv_result[OF gates_failsafe(4)] createEnablement_inv)
next
  fix now i st r5
  assume "approveProviderEnablement now i st s = (r5, t)"
  then show ?thesis using assms(2)
    by (blast intro: gatesInv_result[OF gates_failsafe(5)] approveEnablement_inv)
next
  fix newId h ip now tok raw r6
  assume "inviteTenantUser h ip now newId tok raw s = (r6, t)"
  then show ?thesis using gatesInv_obeys[OF gates_kept(1) assms(2), of h ip now newId tok raw] by simp
qed (simp_all add: gatesInv_obeys gates_kept assms(2))

lemma gatesInv_reachable: "platform_step\<^sup>*\<^sup>* s t \<Longrightarrow> gatesInv s \<Longrightarrow> gatesInv t"
  by (induction rule: rtranclp_induct) (auto intro: gatesInv_step)

text \<open>C34: Segregation of duties holds in every reachable state: an open support session is the only
open one of an active request of its organization and operator, which someone other than this operator
approved, it ends when the approval does, and the request covers no contractual approval or dispatch;
and a provider past its technical validation was approved by someone other than its configurator.\<close>

theorem segregation_of_duties:
  assumes "platform_step\<^sup>*\<^sup>* s t" and "gatesInv s"
  shows "(\<forall>x\<in>set (pf_sessions t). ss_active x \<longrightarrow>
      (\<exists>r\<in>set (pf_support t). \<exists>a. sr_id r = ss_requestId x \<and> sr_tenantId r = ss_tenantId x
        \<and> sr_operatorId r = ss_operatorId x \<and> sr_status r = SR_ACTIVE
        \<and> sr_approvedBy r = Some a \<and> a \<noteq> ss_operatorId x \<and> sr_expiresAt r = Some (ss_endsAt x)
        \<and> (\<forall>c\<in>set (sr_capabilities r). \<not> includesStr c ''notice_draft.approve''
            \<and> \<not> includesStr c ''notice_dispatch.authorize'' \<and> \<not> includesStr c ''notice_dispatch.send''
            \<and> \<not> includesStr c ''notice_receipt.confirm'')))
    \<and> distinct (map ss_requestId (filter ss_active (pf_sessions t)))
    \<and> (\<forall>e\<in>set (pf_enablements t). en_status e \<noteq> PE_TECHNICAL_VALIDATION \<longrightarrow>
        (\<exists>a. en_approvedBy e = Some a \<and> a \<noteq> en_configuredBy e))"
proof -
  have inv: "gatesInv t" by (rule gatesInv_reachable[OF assms])
  have covered: "isContractual c \<longleftrightarrow> includesStr c ''notice_draft.approve''
      \<or> includesStr c ''notice_dispatch.authorize'' \<or> includesStr c ''notice_dispatch.send''
      \<or> includesStr c ''notice_receipt.confirm''" for c
    by (simp add: isContractual_def CONTRACTUAL_CAPABILITIES_def)
  have "\<exists>r\<in>set (pf_support t). \<exists>a. sr_id r = ss_requestId x \<and> sr_tenantId r = ss_tenantId x
        \<and> sr_operatorId r = ss_operatorId x \<and> sr_status r = SR_ACTIVE
        \<and> sr_approvedBy r = Some a \<and> a \<noteq> ss_operatorId x \<and> sr_expiresAt r = Some (ss_endsAt x)
        \<and> (\<forall>c\<in>set (sr_capabilities r). \<not> isContractual c)"
    if x: "x \<in> set (pf_sessions t)" "ss_active x" for x
  proof -
    obtain r where "r \<in> set (pf_support t)" "sr_status r = SR_ACTIVE" "sessionOf x r"
      using inv x unfolding gatesInv_def sessionsOk_def by blast
    moreover from this have "supportOk r" using inv by (simp add: gatesInv_def)
    ultimately show ?thesis by (intro bexI[of _ r]) (auto simp: supportOk_def sessionOf_def)
  qed
  then show ?thesis
    unfolding covered using inv by (auto simp: gatesInv_def sessionsOk_def enablementOk_def)
qed

definition demo_platform :: platform_state where
  "demo_platform = \<lparr>pf_web = demo_state, pf_invitations = [], pf_support = [], pf_sessions = [],
     pf_alerts = [], pf_switches = [], pf_limits = [], pf_assessments = [], pf_pilots = [],
     pf_enablements = [], pf_backups = [], pf_settings = [], pf_flags = []\<rparr>"

lemma demo_platform_tables:
  "pf_web demo_platform = demo_state" "pf_support demo_platform = []"
  "pf_invitations demo_platform = []" "pf_limits demo_platform = []"
  "pf_assessments demo_platform = []"
  by (simp_all add: demo_platform_def)

definition demo_tenant_context :: tenant_context where
  "demo_tenant_context = \<lparr>cx_user = demo_user, cx_tenantId = ''A'',
     cx_membership = demo_member ''A'' ''u1'' TENANT_OWNER, cx_tenantRole = TENANT_OWNER,
     cx_capabilities = resolveCapabilities TENANT_OWNER None None\<rparr>"

lemma demo_tenant_capability:
  assumes "PlatformCap cap \<in> set TENANT_PLATFORM_ADMIN"
  shows "tenantCapability cap (demo_platform\<lparr>pf_alerts := x, pf_limits := y, pf_assessments := z\<rparr>)
     = (Inr demo_tenant_context,
        demo_platform\<lparr>pf_alerts := x, pf_limits := y, pf_assessments := z\<rparr>)"
proof -
  have "requireTenantMembership None demo_state = (Inr demo_tenant_context, demo_state)"
    by (simp add: requireTenantMembership_def bindH_def transactionH_def requireAuthenticatedUser_def
        resolveMembership_def findTenantMembership_def demo_defs demo_tenant_context_def)
  moreover have "PlatformCap cap \<in> cx_capabilities demo_tenant_context"
    using assms by (simp add: demo_tenant_context_def mem_resolve capabilitiesForTenantRole_def)
  ultimately have "requireTenantCapability (PlatformCap cap) None demo_state
      = (Inr demo_tenant_context, demo_state)"
    by (simp add: requireTenantCapability_def hasCapability_def)
  then show ?thesis
    by (simp add: tenantCapability_def onWeb_def zoomH_def demo_platform_def)
qed

lemma demo_tenant_capability_web:
  assumes "PlatformCap cap \<in> set TENANT_PLATFORM_ADMIN" "pf_web s = demo_state"
  shows "tenantCapability cap s = (Inr demo_tenant_context, s)"
  using demo_tenant_capability[OF assms(1), of "[]" "[]" "[]"] assms(2)
  by (simp add: tenantCapability_def onWeb_def zoomH_def demo_platform_def split: prod.splits)

text \<open>A request of another operator waits for the owner.\<close>

definition demo_support :: support_request where
  "demo_support = \<lparr>sr_id = ''q1'', sr_tenantId = ''A'', sr_projectId = None, sr_operatorId = ''u9'',
     sr_reason = ''Investigate an incident'', sr_capabilities = [''document.read''], sr_durationMin = 30,
     sr_status = SR_REQUESTED, sr_approvedBy = None, sr_expiresAt = None\<rparr>"

definition demo_waiting :: platform_state where
  "demo_waiting = demo_platform\<lparr>pf_support := [demo_support]\<rparr>"

lemma demo_approve:
  "\<exists>r t. approveSupportAccess id 0 ''q1'' demo_waiting = (Inr r, t)
     \<and> pf_sessions t = [\<lparr>ss_tenantId = ''A'', ss_requestId = ''q1'', ss_operatorId = ''u9'',
          ss_endsAt = 1800000, ss_active = True\<rparr>]"
proof -
  have "tenantCapability c_support_access_approve demo_waiting = (Inr demo_tenant_context, demo_waiting)"
    by (rule demo_tenant_capability_web) (simp_all add: TENANT_PLATFORM_ADMIN_def demo_waiting_def demo_platform_def)
  moreover have "su_id demo_user = ''u1''" by (simp add: demo_user_def)
  ultimately show ?thesis
    by (simp add: approveSupportAccess_def bindH_def transactionH_def thenH_def audit_def
        onWeb_def zoomH_def writeAuditLog_def demo_tenant_context_def findSupport_def demo_waiting_def
        demo_platform_def demo_support_def Let_def)
qed

lemma segregation_of_duties_witness:
  "\<exists>t x r. platform_step\<^sup>*\<^sup>* demo_waiting t \<and> pf_sessions t = [x] \<and> ss_active x
     \<and> r \<in> set (pf_support t) \<and> sr_status r = SR_ACTIVE \<and> sr_approvedBy r \<noteq> None
     \<and> sr_approvedBy r \<noteq> Some (ss_operatorId x) \<and> sr_expiresAt r = Some 1800000"
proof -
  have inv: "gatesInv demo_waiting"
    by (simp add: demo_waiting_def demo_platform_def gatesInv_def sessionsOk_def supportOk_def demo_support_def
        isContractual_def CONTRACTUAL_CAPABILITIES_def)
  obtain r t where run: "approveSupportAccess id 0 ''q1'' demo_waiting = (Inr r, t)"
    and x: "pf_sessions t = [\<lparr>ss_tenantId = ''A'', ss_requestId = ''q1'', ss_operatorId = ''u9'',
          ss_endsAt = 1800000, ss_active = True\<rparr>]" using demo_approve by blast
  have reach: "platform_step\<^sup>*\<^sup>* demo_waiting t"
    by (rule r_into_rtranclp, rule platform_step.approveSupport[OF run])
  from segregation_of_duties[OF this inv] x reach show ?thesis by fastforce
qed

section \<open>Invitations: what acceptance means\<close>

text \<open>An invitation that is no longer open stays so: \<open>spent\<close> holds of its id from then on.\<close>

definition spent :: "string \<Rightarrow> platform_state \<Rightarrow> bool" where
  "spent k s \<longleftrightarrow> k \<in> iv_id ` set (pf_invitations s)
     \<and> (\<forall>i\<in>set (pf_invitations s). iv_id i = k \<longrightarrow> iv_status i \<noteq> M_INVITED)"

definition spentKept :: "platform_state \<Rightarrow> platform_state \<Rightarrow> bool" where
  "spentKept s t \<longleftrightarrow> (\<forall>k. spent k s \<longrightarrow> spent k t)"

interpretation sk: stable spentKept
  by unfold_locales (auto simp: spentKept_def)

lemma spentKept_same: "pf_invitations t = pf_invitations s \<Longrightarrow> spentKept s t"
  by (simp add: spentKept_def spent_def)

lemma spentKept_closed:
  assumes "st \<noteq> M_INVITED"
  shows "spentKept s (s\<lparr>pf_invitations := updateWhere P (\<lambda>i. i\<lparr>iv_status := st\<rparr>) (pf_invitations s)\<rparr>)"
proof -
  have "map iv_id (updateWhere P (\<lambda>i. i\<lparr>iv_status := st\<rparr>) (pf_invitations s)) = map iv_id (pf_invitations s)"
    by (simp add: map_updateWhere)
  then have "iv_id ` set (updateWhere P (\<lambda>i. i\<lparr>iv_status := st\<rparr>) (pf_invitations s))
      = iv_id ` set (pf_invitations s)" by (metis set_map)
  then show ?thesis using assms by (auto simp: spentKept_def spent_def set_updateWhere)
qed

lemma onWeb_spent: "sk.obeys (onWeb m)"
  by (auto simp: sk.obeys_def onWeb_def zoomH_def spentKept_same split: prod.splits)

lemma context_spent: "sk.obeys (audit ctx a b c)" "sk.obeys (tenantCapability cap)"
  by (simp_all add: audit_def tenantCapability_def onWeb_spent)

lemma spent_closing:
  "st \<noteq> M_INVITED \<Longrightarrow> sk.obeys (writeH (\<lambda>s. s\<lparr>pf_invitations :=
     updateWhere P (\<lambda>i. i\<lparr>iv_status := st\<rparr>) (pf_invitations s)\<rparr>))"
  by (rule sk.obeys_write) (rule spentKept_closed)

lemma spent_writes:
  "sk.obeys (writeH (\<lambda>s. s\<lparr>pf_switches := f2 s\<rparr>))"
  "sk.obeys (writeH (\<lambda>s. s\<lparr>pf_limits := f3 s\<rparr>))"
  "sk.obeys (writeH (\<lambda>s. s\<lparr>pf_alerts := f4 s\<rparr>))"
  "sk.obeys (writeH (\<lambda>s. s\<lparr>pf_assessments := f5 s\<rparr>))"
  "sk.obeys (writeH (\<lambda>s. s\<lparr>pf_pilots := f6 s\<rparr>))"
  "sk.obeys (writeH (\<lambda>s. s\<lparr>pf_settings := f7 s\<rparr>))"
  "sk.obeys (writeH (\<lambda>s. s\<lparr>pf_flags := f8 s\<rparr>))"
  "sk.obeys (writeH (\<lambda>s. s\<lparr>pf_backups := f9 s\<rparr>))"
  "sk.obeys (writeH (\<lambda>s. s\<lparr>pf_support := f10 s\<rparr>))"
  "sk.obeys (writeH (\<lambda>s. s\<lparr>pf_sessions := f11 s\<rparr>))"
  "sk.obeys (writeH (\<lambda>s. s\<lparr>pf_enablements := f12 s\<rparr>))"
  by (auto intro!: sk.obeys_write spentKept_same)

lemmas spent_rules = sk.obeys_rules onWeb_spent context_spent spent_writes spent_closing

lemma spent_kept:
  "sk.obeys (revokeInvitation i)"
  "sk.obeys (acceptInvitation h p2 now raw)"
  "sk.obeys (setKillSwitch p3 i raw)"
  "sk.obeys (setTenantLimit p4 i raw)"
  "sk.obeys (assertTenantLimit h k n)"
  "sk.obeys (createPilotReadinessAssessment i is)"
  "sk.obeys (updatePilotReadinessItem p5 i k raw)"
  "sk.obeys (activatePilot i k)"
  "sk.obeys (upsertTenantSettings p6 i raw)"
  "sk.obeys (setTenantFeatureFlag p7 i raw)"
  "sk.obeys (recordBackupRun p8 now i raw)"
  "sk.obeys (requestSupportAccess p9 i raw)"
  "sk.obeys (approveSupportAccess h now i)"
  "sk.obeys (revokeSupportAccess i)"
  "sk.obeys (createProviderEnablement p10 i raw)"
  "sk.obeys (approveProviderEnablement now i st)"
  unfolding revokeInvitation_def acceptInvitation_def setKillSwitch_def
    setTenantLimit_def assertTenantLimit_def createPilotReadinessAssessment_def
    updatePilotReadinessItem_def activatePilot_def upsertTenantSettings_def
    setTenantFeatureFlag_def recordBackupRun_def requestSupportAccess_def approveSupportAccess_def
    revokeSupportAccess_def createProviderEnablement_def approveProviderEnablement_def Let_def
  by (intro spent_rules; simp)+

lemma invite_spent:
  assumes "newId \<notin> iv_id ` set (pf_invitations s)" "inviteTenantUser h ip now newId tok raw s = (r, t)"
  shows "spentKept s t"
proof (cases r)
  case (Inl e)
  have "sk.failsafe (inviteTenantUser h ip now newId tok raw)"
    unfolding inviteTenantUser_def Let_def
    by (intro sk.failsafe_bind sk.failsafe_sum sk.failsafe_transaction context_spent
        sk.failsafe_obeys[OF sk.obeys_pure(2)])
  then show ?thesis using sk.failsafeD assms(2) Inl by blast
next
  case (Inr x)
  obtain ctx u where ctx: "tenantCapability c_tenant_invitation_manage s = (Inr ctx, u)"
    using assms(2) Inr unfolding inviteTenantUser_def by (auto simp: ok_iff)
  then have "u = s" by (auto dest: tenantCapability_ok)
  then obtain n where "pf_invitations t = pf_invitations s @ [n]" "iv_id n = newId"
    using assms(2) Inr ctx unfolding inviteTenantUser_def by (auto simp: ok_iff Let_def split: sum.splits)
  then show ?thesis using assms(1) by (auto simp: spentKept_def spent_def)
qed

lemma spent_obeys: "sk.obeys m \<Longrightarrow> spentKept s (snd (m s))"
  by (simp add: sk.obeys_def)

lemma spent_step:
  assumes "platform_step s t"
  shows "spentKept s t"
  using assms
  by (rule platform_stepE)
    (simp_all add: spentKept_same spent_obeys spent_kept invite_spent sk.obeysD[OF spent_kept(12)]
      sk.obeysD[OF spent_kept(13)] sk.obeysD[OF spent_kept(14)] sk.obeysD[OF spent_kept(15)]
      sk.obeysD[OF spent_kept(16)])

lemma spent_reachable: "platform_step\<^sup>*\<^sup>* s t \<Longrightarrow> spent k s \<Longrightarrow> spent k t"
  by (induction rule: rtranclp_induct) (auto dest: spent_step simp: spentKept_def)

text \<open>The memberships after an acceptance.\<close>

definition ownRow :: "string \<Rightarrow> string \<Rightarrow> tenant_membership \<Rightarrow> bool" where
  "ownRow tenantId user m \<longleftrightarrow> tm_tenantId m = tenantId \<and> tm_userId m = user"

lemma joined_rows:
  "filter (\<lambda>m. \<not> ownRow (iv_tenantId invite) (su_id user) m) (tenant_memberships (joinTenant invite user w))
     = filter (\<lambda>m. \<not> ownRow (iv_tenantId invite) (su_id user) m) (tenant_memberships w)"
  "\<forall>m\<in>set (filter (ownRow (iv_tenantId invite) (su_id user)) (tenant_memberships (joinTenant invite user w))).
     tm_role m = iv_role invite \<and> tm_status m = M_ACTIVE"
  "filter (ownRow (iv_tenantId invite) (su_id user)) (tenant_memberships (joinTenant invite user w)) \<noteq> []"
proof -
  let ?own = "ownRow (iv_tenantId invite) (su_id user)"
  let ?f = "\<lambda>m. m\<lparr>tm_role := iv_role invite, tm_status := M_ACTIVE\<rparr>"
  let ?new = "\<lparr>tm_tenantId = iv_tenantId invite, tm_userId = su_id user, tm_role = iv_role invite, tm_status = M_ACTIVE\<rparr>"
  have rows: "tenant_memberships (joinTenant invite user w) = upsertWhere ?own ?f ?new (tenant_memberships w)"
    by (simp add: joinTenant_def ownRow_def[abs_def])
  have own: "?own (?f m) = ?own m" "?own ?new" for m by (simp_all add: ownRow_def)
  show "filter (\<lambda>m. \<not> ?own m) (tenant_memberships (joinTenant invite user w))
      = filter (\<lambda>m. \<not> ?own m) (tenant_memberships w)"
    unfolding rows upsertWhere_def using own by (auto intro!: filter_updateWhere)
  show "\<forall>m\<in>set (filter ?own (tenant_memberships (joinTenant invite user w))). tm_role m = iv_role invite \<and> tm_status m = M_ACTIVE"
    unfolding rows by (auto dest!: set_upsertWhere)
  show "filter ?own (tenant_memberships (joinTenant invite user w)) \<noteq> []"
  proof (cases "list_ex ?own (tenant_memberships w)")
    case True
    then obtain m where m: "m \<in> set (tenant_memberships w)" "?own m" by (auto simp: list_ex_iff)
    then have "?f m \<in> set (upsertWhere ?own ?f ?new (tenant_memberships w))"
      using updateWhere_mem[OF m(1), of ?own ?f] True by (simp add: upsertWhere_def)
    then show ?thesis unfolding rows using own(1)[of m] m(2) by (auto simp: filter_empty_conv)
  next
    case False
    then show ?thesis unfolding rows by (simp add: upsertWhere_def own)
  qed
qed

lemma acceptInvitation_run:
  assumes "acceptInvitation h sp now raw s = (Inr i, t)"
  obtains user data old where "session (pf_web s) = Some user" "su_status user = ''ACTIVE''" "sp raw = Inr data"
    "old \<in> set (pf_invitations s)" "iv_status old = M_INVITED" "i = old\<lparr>iv_status := M_ACTIVE\<rparr>"
    "iv_tenantId old = ac_tenantId data" "iv_tokenHash old = h (ac_token data)" "now \<le> iv_expiresAt old"
    "toLowerCase (iv_email old) = toLowerCase (su_email user)"
    "tenant_memberships (pf_web t) = tenant_memberships (joinTenant old user (pf_web s))"
    "pf_invitations t = updateWhere (\<lambda>i. iv_id i = iv_id old) (\<lambda>i. i\<lparr>iv_status := M_ACTIVE\<rparr>) (pf_invitations s)"
    "pf_support t = pf_support s" "pf_sessions t = pf_sessions s" "pf_enablements t = pf_enablements s"
proof -
  obtain user where user: "session (pf_web s) = Some user" "su_status user = ''ACTIVE''"
    using assms unfolding acceptInvitation_def by (auto simp: ok_iff)
  obtain data where data: "sp raw = Inr data"
    using assms user unfolding acceptInvitation_def by (cases "sp raw") (auto simp: ok_iff)
  let ?P = "\<lambda>i. iv_tenantId i = ac_tenantId data \<and> iv_tokenHash i = h (ac_token data)
      \<and> iv_status i = M_INVITED"
  obtain old where found: "find ?P (pf_invitations s) = Some old"
    and old: "i = old\<lparr>iv_status := M_ACTIVE\<rparr>" "now \<le> iv_expiresAt old"
      "toLowerCase (iv_email old) = toLowerCase (su_email user)"
    and t: "pf_invitations t = updateWhere (\<lambda>i. iv_id i = iv_id old)
        (\<lambda>i. i\<lparr>iv_status := M_ACTIVE\<rparr>) (pf_invitations s)"
      "tenant_memberships (pf_web t) = tenant_memberships (joinTenant old user (pf_web s))"
      "pf_support t = pf_support s" "pf_sessions t = pf_sessions s" "pf_enablements t = pf_enablements s"
    using assms user data unfolding acceptInvitation_def
    by (auto simp: ok_iff joinTenant_def split: option.splits if_splits)
  have "old \<in> set (pf_invitations s)" "?P old" using find_SomeD[OF found] by auto
  then show thesis using user data old t by (intro that[of user data old]) auto
qed

text \<open>
  C36: Accepting an invitation needs an open, unexpired one of the named organization whose token hash
  and email are the user's.  The user then has an active membership there with exactly the role of
  the invitation, and no other membership of anyone changes.  The invitation is used once: whatever
  requests follow, no acceptance is ever of the same invitation again.
\<close>

theorem invitation_single_use:
  assumes run: "acceptInvitation h sp now raw s = (Inr i, t)"
  shows "(\<exists>user data old. session (pf_web s) = Some user \<and> su_status user = ''ACTIVE'' \<and> sp raw = Inr data
      \<and> old \<in> set (pf_invitations s) \<and> iv_status old = M_INVITED \<and> i = old\<lparr>iv_status := M_ACTIVE\<rparr>
      \<and> iv_tenantId old = ac_tenantId data \<and> iv_tokenHash old = h (ac_token data)
      \<and> now \<le> iv_expiresAt old \<and> toLowerCase (iv_email old) = toLowerCase (su_email user)
      \<and> filter (ownRow (iv_tenantId old) (su_id user)) (tenant_memberships (pf_web t)) \<noteq> []
      \<and> (\<forall>m\<in>set (filter (ownRow (iv_tenantId old) (su_id user)) (tenant_memberships (pf_web t))).
           tm_role m = iv_role old \<and> tm_status m = M_ACTIVE)
      \<and> filter (\<lambda>m. \<not> ownRow (iv_tenantId old) (su_id user) m) (tenant_memberships (pf_web t))
          = filter (\<lambda>m. \<not> ownRow (iv_tenantId old) (su_id user) m) (tenant_memberships (pf_web s)))
    \<and> (\<forall>u later anyRaw j v. platform_step\<^sup>*\<^sup>* t u \<longrightarrow> acceptInvitation h sp later anyRaw u = (Inr j, v) \<longrightarrow>
         iv_id j \<noteq> iv_id i)"
proof (rule acceptInvitation_run[OF run])
  fix user data old
  assume user: "session (pf_web s) = Some user" "su_status user = ''ACTIVE''" "sp raw = Inr data"
    and old: "old \<in> set (pf_invitations s)" "iv_status old = M_INVITED" "i = old\<lparr>iv_status := M_ACTIVE\<rparr>"
      "iv_tenantId old = ac_tenantId data" "iv_tokenHash old = h (ac_token data)" "now \<le> iv_expiresAt old"
      "toLowerCase (iv_email old) = toLowerCase (su_email user)"
    and t: "tenant_memberships (pf_web t) = tenant_memberships (joinTenant old user (pf_web s))"
      "pf_invitations t = updateWhere (\<lambda>i. iv_id i = iv_id old) (\<lambda>i. i\<lparr>iv_status := M_ACTIVE\<rparr>) (pf_invitations s)"
  have "old\<lparr>iv_status := M_ACTIVE\<rparr> \<in> set (pf_invitations t)"
    using updateWhere_mem[OF old(1), of "\<lambda>i. iv_id i = iv_id old" "\<lambda>i. i\<lparr>iv_status := M_ACTIVE\<rparr>"]
    unfolding t(2) by simp
  from imageI[OF this, of iv_id] have "iv_id old \<in> iv_id ` set (pf_invitations t)" by simp
  moreover have "\<forall>x\<in>set (pf_invitations t). iv_id x = iv_id old \<longrightarrow> iv_status x \<noteq> M_INVITED"
    unfolding t(2) by (auto simp: set_updateWhere)
  ultimately have "spent (iv_id old) t" by (simp add: spent_def)
  then have never: "spent (iv_id i) u" if "platform_step\<^sup>*\<^sup>* t u" for u
    using spent_reachable[OF that] old(3) by simp
  have "iv_id j \<noteq> iv_id i" if later: "platform_step\<^sup>*\<^sup>* t u" "acceptInvitation h sp later anyRaw u = (Inr j, v)"
    for u later anyRaw j v
    using never[OF later(1)] by (rule_tac acceptInvitation_run[OF later(2)]) (auto simp: spent_def)
  then show ?thesis
    using user old joined_rows[of old user "pf_web s"] unfolding t(1)[symmetric] by blast
qed

lemma find_new: "find P xs = None \<Longrightarrow> find P (xs @ [x]) = (if P x then Some x else None)"
  by (induction xs) (auto split: if_splits)

text \<open>
  C35: Invitations are not bound by the role-assignment policy: any administrator of an organization,
  whom \<open>canAssignTenantRole\<close> forbids to make an owner, may invite their own email as owner, accept
  within seven days with the token the answer returns, and is then an owner there.  The bodies are any
  that the schemas read so; id and token are new.
\<close>

theorem admin_becomes_owner_by_invitation:
  assumes member: "requireTenantMembership None (pf_web s) = (Inr ctx, pf_web s)" "cx_tenantRole ctx = TENANT_ADMIN"
    and bodies: "inviteParse raw = Inr \<lparr>in_email = su_email (cx_user ctx), in_role = TENANT_OWNER\<rparr>"
      "acceptParse raw' = Inr \<lparr>ac_token = token, ac_tenantId = cx_tenantId ctx\<rparr>"
    and new: "newId \<notin> iv_id ` set (pf_invitations s)" "h token \<notin> iv_tokenHash ` set (pf_invitations s)"
    and soon: "later \<le> now + 7 * 24 * 60 * 60 * 1000"
  shows "\<not> canAssignTenantRole TENANT_ADMIN TENANT_OWNER
    \<and> (\<exists>i t j u. inviteTenantUser h inviteParse now newId token raw s = (Inr (i, token), t)
         \<and> acceptInvitation h acceptParse later raw' t = (Inr j, u)
         \<and> filter (ownRow (cx_tenantId ctx) (su_id (cx_user ctx))) (tenant_memberships (pf_web u)) \<noteq> []
         \<and> (\<forall>m\<in>set (filter (ownRow (cx_tenantId ctx) (su_id (cx_user ctx))) (tenant_memberships (pf_web u))).
              tm_role m = TENANT_OWNER \<and> tm_status m = M_ACTIVE))"
proof -
  note ok = requireTenantMembership_ok[OF member(1)]
  have "PlatformCap c_tenant_invitation_manage \<in> cx_capabilities ctx"
    using ok member(2) by (simp add: mem_resolve capabilitiesForTenantRole_def TENANT_PLATFORM_ADMIN_def)
  then have cap: "tenantCapability c_tenant_invitation_manage s = (Inr ctx, s)"
    using member(1) by (simp add: tenantCapability_def onWeb_def zoomH_def requireTenantCapability_def
        hasCapability_def bindH_def)
  define invite where "invite = \<lparr>iv_id = newId, iv_tenantId = cx_tenantId ctx,
      iv_email = toLowerCase (su_email (cx_user ctx)), iv_role = TENANT_OWNER, iv_status = M_INVITED,
      iv_tokenHash = h token, iv_expiresAt = now + 7 * 24 * 60 * 60 * 1000,
      iv_createdByUserId = su_id (cx_user ctx)\<rparr>"
  obtain t where t: "inviteTenantUser h inviteParse now newId token raw s = (Inr (invite, token), t)"
      "pf_invitations t = pf_invitations s @ [invite]" "session (pf_web t) = session (pf_web s)"
      "tenant_memberships (pf_web t) = tenant_memberships (pf_web s)"
    using cap bodies(1)
    by (simp add: inviteTenantUser_def bindH_def transactionH_def thenH_def audit_def onWeb_def zoomH_def
        writeAuditLog_def Let_def invite_def)
  have user: "onWeb requireAuthenticatedUser t = (Inr (cx_user ctx), t)"
    using ok t(3) member(1) unfolding requireTenantMembership_run
    by (auto simp: onWeb_Inr requireAuthenticatedUser_ok)
  have none: "find (\<lambda>i. iv_tenantId i = cx_tenantId ctx \<and> iv_tokenHash i = h token
      \<and> iv_status i = M_INVITED) (pf_invitations s) = None"
    using new(2) by (force simp: find_None_iff)
  have found: "find (\<lambda>i. iv_tenantId i = cx_tenantId ctx \<and> iv_tokenHash i = h token \<and> iv_status i = M_INVITED)
      (pf_invitations t) = Some invite"
    unfolding t(2) using none by (simp add: find_new invite_def)
  have email: "toLowerCase (iv_email invite) = toLowerCase (su_email (cx_user ctx))" "\<not> iv_expiresAt invite < later"
    using soon by (simp_all add: invite_def)
  obtain j u where u: "acceptInvitation h acceptParse later raw' t = (Inr j, u)"
      "tenant_memberships (pf_web u) = tenant_memberships (joinTenant invite (cx_user ctx) (pf_web t))"
    using user found email bodies(2)
    by (simp add: acceptInvitation_def bindH_def transactionH_def thenH_def onWeb_def zoomH_def
        writeAuditLog_def joinTenant_def)
  have "iv_tenantId invite = cx_tenantId ctx" "iv_role invite = TENANT_OWNER" by (simp_all add: invite_def)
  then show ?thesis
    using t(1) u(1) joined_rows(2,3)[of invite "cx_user ctx" "pf_web t"] canAssignTenantRole_iff
    unfolding u(2)[symmetric] by simp
qed

text \<open>An administrator of an organization, signed in, invites themselves and accepts.\<close>

definition admin_user :: session_user where
  "admin_user = \<lparr>su_id = ''7d444840-9dc0-11d1-b245-5ffdce74fad2'', su_email = ''admin@example.com'',
     su_name = ''N'', su_status = ''ACTIVE''\<rparr>"

definition admin_tenant :: string where
  "admin_tenant = ''f81d4fae-7dec-11d0-a765-00a0c91e6bf6''"

definition admin_state :: platform_state where
  "admin_state = demo_platform\<lparr>pf_web := demo_state\<lparr>session := Some admin_user,
     active_tenant := Some admin_tenant,
     tenants := [\<lparr>tn_id = admin_tenant, tn_name = ''A'', tn_status = T_ACTIVE\<rparr>],
     tenant_memberships := [demo_member admin_tenant (su_id admin_user) TENANT_ADMIN,
       demo_member admin_tenant ''u1'' TENANT_OWNER]\<rparr>\<rparr>"

definition admin_context :: tenant_context where
  "admin_context = \<lparr>cx_user = admin_user, cx_tenantId = admin_tenant,
     cx_membership = demo_member admin_tenant (su_id admin_user) TENANT_ADMIN, cx_tenantRole = TENANT_ADMIN,
     cx_capabilities = resolveCapabilities TENANT_ADMIN None None\<rparr>"

definition admin_token :: string where
  "admin_token = ''0123456789abcdef0123456789abcdef0123456789abcdef0123456789abcdef''"

text \<open>Schemas that read the two fields of a body.\<close>

definition readInvite :: "string \<times> tenant_role \<Rightarrow> string list + invite_input" where
  "readInvite body = Inr \<lparr>in_email = fst body, in_role = snd body\<rparr>"

definition readAccept :: "string \<times> string \<Rightarrow> string list + accept_input" where
  "readAccept body = Inr \<lparr>ac_token = fst body, ac_tenantId = snd body\<rparr>"

lemma admin_signed_in:
  "requireTenantMembership None (pf_web admin_state) = (Inr admin_context, pf_web admin_state)"
  by (simp add: requireTenantMembership_def bindH_def transactionH_def requireAuthenticatedUser_def
      resolveMembership_def findTenantMembership_def demo_member_def admin_state_def admin_user_def
      admin_context_def admin_tenant_def)

lemma admin_becomes_owner_by_invitation_witness:
  "\<exists>i t j u. inviteTenantUser id readInvite 0 ''i1'' admin_token (''admin@example.com'', TENANT_OWNER) admin_state
        = (Inr (i, admin_token), t)
     \<and> acceptInvitation id readAccept 1 (admin_token, admin_tenant) t = (Inr j, u)
     \<and> (\<exists>m\<in>set (tenant_memberships (pf_web u)). tm_userId m = su_id admin_user \<and> tm_role m = TENANT_OWNER)"
proof -
  have bodies: "readInvite (''admin@example.com'', TENANT_OWNER)
      = Inr \<lparr>in_email = su_email (cx_user admin_context), in_role = TENANT_OWNER\<rparr>"
    "readAccept (admin_token, admin_tenant)
      = Inr \<lparr>ac_token = admin_token, ac_tenantId = cx_tenantId admin_context\<rparr>"
    "cx_tenantRole admin_context = TENANT_ADMIN" "cx_user admin_context = admin_user" "pf_invitations admin_state = []"
    by (simp_all add: readInvite_def readAccept_def admin_context_def admin_user_def admin_state_def demo_platform_tables)
  obtain i t j u where run: "inviteTenantUser id readInvite 0 ''i1'' admin_token (''admin@example.com'', TENANT_OWNER)
      admin_state = (Inr (i, admin_token), t)"
    "acceptInvitation id readAccept 1 (admin_token, admin_tenant) t = (Inr j, u)"
    and rows: "filter (ownRow (cx_tenantId admin_context) (su_id admin_user)) (tenant_memberships (pf_web u)) \<noteq> []"
      "\<forall>m\<in>set (filter (ownRow (cx_tenantId admin_context) (su_id admin_user)) (tenant_memberships (pf_web u))).
         tm_role m = TENANT_OWNER \<and> tm_status m = M_ACTIVE"
    using admin_becomes_owner_by_invitation[where s = admin_state and ctx = admin_context
      and inviteParse = readInvite and acceptParse = readAccept and token = admin_token and h = id
      and newId = "''i1''" and now = 0 and later = 1, OF admin_signed_in bodies(3,1,2)]
    unfolding bodies(4,5) by auto
  obtain m where "m \<in> set (tenant_memberships (pf_web u))" "ownRow (cx_tenantId admin_context) (su_id admin_user) m"
    using rows(1) by (auto simp: filter_empty_conv)
  then have "\<exists>m\<in>set (tenant_memberships (pf_web u)). tm_userId m = su_id admin_user \<and> tm_role m = TENANT_OWNER"
    using rows(2) by (intro bexI[of _ m]) (auto simp: ownRow_def)
  then show ?thesis using run by blast
qed

text \<open>The owner of the first organization was invited with another token.\<close>

definition demo_invitation :: invitation where
  "demo_invitation = \<lparr>iv_id = ''i1'', iv_tenantId = admin_tenant, iv_email = ''admin@example.com'',
     iv_role = REVIEWER, iv_status = M_INVITED, iv_tokenHash = admin_token, iv_expiresAt = 604800000,
     iv_createdByUserId = ''u1''\<rparr>"

lemma demo_acceptance:
  "\<exists>t. acceptInvitation id readAccept 1 (admin_token, admin_tenant)
      (admin_state\<lparr>pf_invitations := [demo_invitation]\<rparr>) = (Inr (demo_invitation\<lparr>iv_status := M_ACTIVE\<rparr>), t)"
proof -
  let ?s = "admin_state\<lparr>pf_invitations := [demo_invitation]\<rparr>"
  have user: "onWeb requireAuthenticatedUser ?s = (Inr admin_user, ?s)"
    by (simp add: onWeb_Inr requireAuthenticatedUser_ok admin_state_def admin_user_def)
  have email: "toLowerCase (iv_email demo_invitation) = toLowerCase (su_email admin_user)"
    by (simp add: demo_invitation_def admin_user_def)
  have row: "iv_tenantId demo_invitation = admin_tenant" "iv_tokenHash demo_invitation = admin_token"
    "iv_status demo_invitation = M_INVITED" "iv_expiresAt demo_invitation = 604800000"
    by (simp_all add: demo_invitation_def)
  show ?thesis
    using user email row
    by (simp add: acceptInvitation_def readAccept_def bindH_def transactionH_def thenH_def onWeb_def zoomH_def
        writeAuditLog_def)
qed

lemma invitation_single_use_witness:
  "\<exists>t. acceptInvitation id readAccept 1 (admin_token, admin_tenant)
      (admin_state\<lparr>pf_invitations := [demo_invitation]\<rparr>) = (Inr (demo_invitation\<lparr>iv_status := M_ACTIVE\<rparr>), t)
     \<and> (\<forall>j v. acceptInvitation id readAccept 2 (admin_token, admin_tenant) t = (Inr j, v) \<longrightarrow> iv_id j \<noteq> ''i1'')"
proof -
  obtain t where run: "acceptInvitation id readAccept 1 (admin_token, admin_tenant)
      (admin_state\<lparr>pf_invitations := [demo_invitation]\<rparr>) = (Inr (demo_invitation\<lparr>iv_status := M_ACTIVE\<rparr>), t)"
    using demo_acceptance by blast
  moreover have "iv_id demo_invitation = ''i1''" by (simp add: demo_invitation_def)
  moreover have "\<forall>j v. acceptInvitation id readAccept 2 (admin_token, admin_tenant) t = (Inr j, v) \<longrightarrow>
      iv_id j \<noteq> iv_id (demo_invitation\<lparr>iv_status := M_ACTIVE\<rparr>)"
    using conjunct2[OF invitation_single_use[OF run]] by blast
  ultimately show ?thesis by (intro exI[of _ t]) simp
qed

section \<open>Limits and activation\<close>

lemma transaction_refused: "m s = (Inl e, t) \<Longrightarrow> transactionH m s = (Inl e, s)"
  by (simp add: transactionH_def)

lemma transaction_done: "m s = (Inr x, t) \<Longrightarrow> transactionH m s = (Inr x, t)"
  by (simp add: transactionH_def)

text \<open>A refused use of a tenant limit stores no alert, although the code creates one: the
throw that refuses undoes the write of the alert in the same transaction.  A use is accepted only
while what was used and the increment stay below the limit, so the last unit of a limit is never
granted.\<close>

lemma limit_alert_never_stored:
  "pf_alerts (snd (assertTenantLimit h k n s)) = pf_alerts s
   \<and> (\<forall>d t. assertTenantLimit h k n s = (Inr d, t) \<longrightarrow>
        (\<exists>ctx. tenantCapability c_tenant_admin_read s = (Inr ctx, s)
          \<and> (\<forall>l. find (\<lambda>l. lr_tenantId l = cx_tenantId ctx \<and> lr_limitKey l = k) (pf_limits s) = Some l
                \<longrightarrow> lr_usedValue l + n < lr_limitValue l)))"
proof -
  obtain r u where cap: "tenantCapability c_tenant_admin_read s = (r, u)" by force
  have same: "pf_alerts u = pf_alerts s"
    using sa.obeysD[OF context_obeys(4) cap] by (simp add: sameAlerts_def)
  show ?thesis
  proof (cases r)
    case (Inl e)
    then show ?thesis using cap same by (simp add: assertTenantLimit_def)
  next
    case (Inr ctx)
    then have us: "u = s" using cap tenantCapability_ok by blast
    let ?row = "find (\<lambda>l. lr_tenantId l = cx_tenantId ctx \<and> lr_limitKey l = k) (pf_limits s)"
    show ?thesis
      using cap Inr us by (cases ?row)
        (auto simp: assertTenantLimit_def evaluateTenantLimit_def bindH_def thenH_def transactionH_def
          Let_def)
  qed
qed

lemma limit_alert_never_stored_witness:
  "\<exists>e. fst (assertTenantLimit id ''users'' 1 (demo_platform\<lparr>pf_limits :=
      [\<lparr>lr_id = ''l'', lr_tenantId = ''A'', lr_limitKey = ''users'', lr_limitValue = 1,
        lr_usedValue = 0, lr_warningThresholdRatio = 8 / 10\<rparr>]\<rparr>)) = Inl e"
proof -
  let ?l = "\<lparr>lr_id = ''l'', lr_tenantId = ''A'', lr_limitKey = ''users'', lr_limitValue = 1,
        lr_usedValue = 0, lr_warningThresholdRatio = 8 / 10\<rparr>"
  let ?s = "demo_platform\<lparr>pf_limits := [?l]\<rparr>"
  have cap: "tenantCapability c_tenant_admin_read ?s = (Inr demo_tenant_context, ?s)"
    using demo_tenant_capability[of c_tenant_admin_read "[]" "[?l]" "[]"]
    by (simp add: TENANT_PLATFORM_ADMIN_def demo_platform_def)
  have no: "\<not> (\<exists>d t. assertTenantLimit id ''users'' 1 ?s = (Inr d, t))"
  proof
    assume "\<exists>d t. assertTenantLimit id ''users'' 1 ?s = (Inr d, t)"
    then obtain ctx where "tenantCapability c_tenant_admin_read ?s = (Inr ctx, ?s)"
      and "\<forall>l. find (\<lambda>l. lr_tenantId l = cx_tenantId ctx \<and> lr_limitKey l = ''users'') (pf_limits ?s)
          = Some l \<longrightarrow> lr_usedValue l + 1 < lr_limitValue l"
      using limit_alert_never_stored[of id "''users''" 1 ?s] by blast
    then show False using cap by (simp add: demo_tenant_context_def)
  qed
  then show ?thesis
    by (cases "fst (assertTenantLimit id ''users'' 1 ?s)") (auto simp: prod_eq_iff)
qed

text \<open>A pilot activation that succeeds rests on an assessment of the caller's own organization
whose items are all ready or waived where waivable; it makes that organization active and touches
no other.\<close>

lemma pilot_activation_guarded:
  assumes "activatePilot newId i s = (Inr p, t)"
  shows "\<exists>a\<in>set (pf_assessments s). ra_id a = i \<and> ra_tenantId a = pn_tenantId p
    \<and> (\<forall>x\<in>set (ra_items a). pi_status x = PC_READY \<or> pi_status x = PC_READY_WITH_EXCEPTIONS
         \<or> (\<not> pi_nonWaivable x \<and> pi_approvedException x))
    \<and> filter (\<lambda>y. tn_id y \<noteq> pn_tenantId p) (tenants (pf_web t))
        = filter (\<lambda>y. tn_id y \<noteq> pn_tenantId p) (tenants (pf_web s))
    \<and> (\<forall>y\<in>set (tenants (pf_web t)). tn_id y = pn_tenantId p \<longrightarrow> tn_status y = T_ACTIVE)
    \<and> pf_pilots t = pf_pilots s @ [p]"
proof -
  obtain ctx u where ctx: "tenantCapability c_pilot_readiness_activate s = (Inr ctx, u)"
    using assms unfolding activatePilot_def by (auto simp: ok_iff)
  then have us: "u = s" using tenantCapability_ok by blast
  obtain a where a: "findAssessment i (cx_tenantId ctx) s = Some a"
    and ok: "pe_canActivate (evaluateItems (ra_items a))" and p: "pn_tenantId p = cx_tenantId ctx"
    and t: "tenants (pf_web t) = updateWhere (\<lambda>t. tn_id t = cx_tenantId ctx)
        (\<lambda>t. t\<lparr>tn_status := T_ACTIVE\<rparr>) (tenants (pf_web s))" "pf_pilots t = pf_pilots s @ [p]"
    using assms ctx us unfolding activatePilot_def
    by (auto simp: ok_iff Let_def split: option.splits if_splits)
  have mem: "a \<in> set (pf_assessments s)" "ra_id a = i" "ra_tenantId a = cx_tenantId ctx"
    using a unfolding findAssessment_def by (auto dest!: find_SomeD)
  have "\<forall>x\<in>set (map pilot_item.truncate (ra_items a)). pi_status x = PC_READY
       \<or> pi_status x = PC_READY_WITH_EXCEPTIONS \<or> (\<not> pi_nonWaivable x \<and> pi_approvedException x)"
    using ok unfolding evaluateItems_def canActivate_blockers blockers_Nil .
  then have items: "\<forall>x\<in>set (ra_items a). pi_status x = PC_READY
       \<or> pi_status x = PC_READY_WITH_EXCEPTIONS \<or> (\<not> pi_nonWaivable x \<and> pi_approvedException x)"
    by (simp add: pilot_item.defs)
  have others: "filter (\<lambda>y. tn_id y \<noteq> pn_tenantId p) (tenants (pf_web t))
        = filter (\<lambda>y. tn_id y \<noteq> pn_tenantId p) (tenants (pf_web s))"
    unfolding t(1) p by (rule filter_updateWhere) simp_all
  have "\<forall>y\<in>set (tenants (pf_web t)). tn_id y = pn_tenantId p \<longrightarrow> tn_status y = T_ACTIVE"
    unfolding t(1) p by (auto simp: set_updateWhere)
  with mem p items others t(2) show ?thesis by (intro bexI[of _ a] conjI) simp_all
qed

definition demo_assessment :: readiness_assessment where
  "demo_assessment = \<lparr>ra_id = ''a1'', ra_tenantId = ''A'', ra_status = PC_READY, ra_items =
     [\<lparr>pi_requirement = ''rls_forced'', pi_status = PC_READY, pi_nonWaivable = True,
       pi_approvedException = False, pi_evidence = None, ri_id = ''x''\<rparr>]\<rparr>"

lemma demo_activation:
  "\<exists>p t. activatePilot ''n'' ''a1'' (demo_platform\<lparr>pf_assessments := [demo_assessment]\<rparr>) = (Inr p, t)"
proof -
  let ?s = "demo_platform\<lparr>pf_assessments := [demo_assessment]\<rparr>"
  have cap: "tenantCapability c_pilot_readiness_activate ?s = (Inr demo_tenant_context, ?s)"
    using demo_tenant_capability[of c_pilot_readiness_activate "[demo_assessment]" "[]" "[]"]
    by (simp add: TENANT_PLATFORM_ADMIN_def demo_platform_def)
  have "pe_canActivate (evaluateItems (ra_items demo_assessment))"
    by (simp add: evaluateItems_def canActivate_blockers pilotBlocker_def demo_assessment_def
        pilot_item.defs)
  moreover have "findAssessment ''a1'' ''A'' ?s = Some demo_assessment"
    by (simp add: findAssessment_def demo_assessment_def)
  ultimately show ?thesis
    using cap by (simp add: activatePilot_def demo_tenant_context_def bindH_def thenH_def Let_def
        transactionH_def onWeb_def zoomH_def audit_def writeAuditLog_def)
qed

lemma pilot_activation_guarded_witness:
  "\<exists>p t. activatePilot ''n'' ''a1'' (demo_platform\<lparr>pf_assessments := [demo_assessment]\<rparr>) = (Inr p, t)
     \<and> pf_pilots t = pf_pilots (demo_platform\<lparr>pf_assessments := [demo_assessment]\<rparr>) @ [p]"
proof -
  obtain p t where run: "activatePilot ''n'' ''a1'' (demo_platform\<lparr>pf_assessments := [demo_assessment]\<rparr>)
      = (Inr p, t)"
    using demo_activation by blast
  then show ?thesis using pilot_activation_guarded[OF run] by blast
qed

end
