(* ===== verification/JsText.thy ===== *)
theory JsText
  imports Prelude
begin

text \<open>
  Text as JavaScript sees it.  A \<open>string\<close> of the model holds UTF-8 bytes; \<open>units\<close> are
  the UTF-16 code units that \<open>length\<close>, \<open>slice\<close> and a regular expression count.
  Regular expressions are a datatype with a backtracking matcher \<open>ways\<close> that returns the
  remainders of all matches in the order JavaScript tries them, so that \<open>match\<close> takes the
  first; \<open>ways_iff\<close> says that they are the matches of a declarative semantics.
\<close>

section \<open>Code points, bytes and code units\<close>

type_synonym units = "nat list"

definition utf8Point :: "nat \<Rightarrow> nat list" where
  "utf8Point c =
     (if c < 128 then [c]
      else if c < 2048 then [192 + c div 64, 128 + c mod 64]
      else if c < 65536 then [224 + c div 4096, 128 + c div 64 mod 64, 128 + c mod 64]
      else [240 + c div 262144, 128 + c div 4096 mod 64, 128 + c div 64 mod 64, 128 + c mod 64])"

text \<open>A text given by its code points.\<close>

definition utf8 :: "nat list \<Rightarrow> string" where
  "utf8 points = map char_of (concat (map utf8Point points))"

definition utf16 :: "nat \<Rightarrow> units" where
  "utf16 c = (if c < 65536 then [c]
     else [55296 + (c - 65536) div 1024, 56320 + (c - 65536) mod 1024])"

text \<open>\<open>decodeFrom acc k\<close>: \<open>k\<close> continuation bytes of the code point \<open>acc\<close> are to come.\<close>

fun decodeFrom :: "nat \<Rightarrow> nat \<Rightarrow> nat list \<Rightarrow> units" where
  "decodeFrom acc k [] = []"
| "decodeFrom acc 0 (b # bs) =
     (if b < 128 then b # decodeFrom 0 0 bs
      else if b < 224 then decodeFrom (b mod 32) 1 bs
      else if b < 240 then decodeFrom (b mod 16) 2 bs
      else decodeFrom (b mod 8) 3 bs)"
| "decodeFrom acc (Suc k) (b # bs) =
     (let c = acc * 64 + b mod 64
      in if k = 0 then utf16 c @ decodeFrom 0 0 bs else decodeFrom c k bs)"

definition units :: "string \<Rightarrow> units" where
  "units s = decodeFrom 0 0 (map of_char s)"

lemma decodeFrom_ascii: "\<forall>b\<in>set bs. b < 128 \<Longrightarrow> decodeFrom acc 0 bs = bs"
  by (induction bs arbitrary: acc) auto

lemma units_ascii:
  "\<forall>c\<in>set s. (of_char c :: nat) < 128 \<Longrightarrow> units s = map of_char s"
  by (simp add: units_def decodeFrom_ascii)

lemma low_bits:
  "(128 + c) mod 64 = c mod (64::nat)" "(192 + c) mod 32 = c mod (32::nat)"
  "(224 + c) mod 16 = c mod (16::nat)" "(240 + c) mod 8 = c mod (8::nat)"
  using mod_add_left_eq[of 128 "64::nat" c] mod_add_left_eq[of 192 "32::nat" c]
    mod_add_left_eq[of 224 "16::nat" c] mod_add_left_eq[of 240 "8::nat" c] by simp_all

lemma base64:
  "(c div 4096 * 64 + c div 64 mod 64) * 64 + c mod 64 = (c::nat)"
  "((c div 262144 * 64 + c div 4096 mod 64) * 64 + c div 64 mod 64) * 64 + c mod 64 = (c::nat)"
proof -
  have d: "c div 4096 = c div 64 div 64" "c div 262144 = c div 4096 div 64"
    by (simp_all flip: div_mult2_eq)
  show "(c div 4096 * 64 + c div 64 mod 64) * 64 + c mod 64 = c"
    unfolding d(1) div_mult_mod_eq ..
  show "((c div 262144 * 64 + c div 4096 mod 64) * 64 + c div 64 mod 64) * 64 + c mod 64 = c"
    unfolding d(2) div_mult_mod_eq unfolding d(1) div_mult_mod_eq ..
qed

lemma decodeFrom_point:
  assumes "c < 1114112"
  shows "decodeFrom acc 0 (utf8Point c @ bs) = utf16 c @ decodeFrom 0 0 bs"
proof -
  consider "c < 128" | "128 \<le> c" "c < 2048" | "2048 \<le> c" "c < 65536" | "65536 \<le> c"
    by linarith
  then show ?thesis
  proof cases
    case 1
    then show ?thesis by (simp add: utf8Point_def utf16_def)
  next
    case 2
    then have "c div 64 < 32" by (simp add: less_mult_imp_div_less)
    then show ?thesis using 2 by (simp add: utf8Point_def utf16_def Let_def low_bits)
  next
    case 3
    have d: "c div 4096 < 16" using 3 by (simp add: less_mult_imp_div_less)
    show ?thesis using 3 d base64(1)[of c]
      by (simp add: utf8Point_def utf16_def Let_def low_bits numeral_2_eq_2 numeral_3_eq_3)
  next
    case 4
    have d: "c div 262144 < 8" using assms by (simp add: less_mult_imp_div_less)
    show ?thesis using 4 d base64(2)[of c]
      by (simp add: utf8Point_def utf16_def Let_def low_bits numeral_2_eq_2 numeral_3_eq_3)
  qed
qed

lemma utf8Point_byte: "c < 1114112 \<Longrightarrow> b \<in> set (utf8Point c) \<Longrightarrow> b < 256"
  by (auto simp: utf8Point_def less_mult_imp_div_less split: if_splits)

text \<open>The code units of a text given by its code points.\<close>

lemma units_utf8:
  assumes "\<forall>c\<in>set points. c < 1114112"
  shows "units (utf8 points) = concat (map utf16 points)"
proof -
  have "map (\<lambda>b. of_char (char_of b :: char)) (concat (map utf8Point points))
      = concat (map utf8Point points)"
    using assms by (intro map_idI) (auto dest!: utf8Point_byte)
  moreover have "decodeFrom 0 0 (concat (map utf8Point points)) = concat (map utf16 points)"
    using assms by (induction points) (simp_all add: decodeFrom_point)
  ultimately show ?thesis by (simp add: units_def utf8_def comp_def)
qed

section \<open>Regular expressions\<close>

datatype rx =
    Cls "nat \<Rightarrow> bool"
  | Eps
  | WordB
  | Seq rx rx
  | Alt rx rx
  | Star rx

definition wordUnit :: "nat \<Rightarrow> bool" where
  "wordUnit n \<longleftrightarrow> (48 \<le> n \<and> n \<le> 57) \<or> (65 \<le> n \<and> n \<le> 90) \<or> (97 \<le> n \<and> n \<le> 122) \<or> n = 95"

fun wordAt :: "nat option \<Rightarrow> bool" where
  "wordAt None = False"
| "wordAt (Some n) = wordUnit n"

fun firstUnit :: "units \<Rightarrow> nat option" where
  "firstUnit [] = None"
| "firstUnit (c # cs) = Some c"

text \<open>A place in the text: the unit before it and what follows.  The greedy alternative of a
  repetition comes first, and a repetition of an empty match is not taken.\<close>

type_synonym place = "nat option \<times> units"

function ways :: "rx \<Rightarrow> place \<Rightarrow> place list" where
  "ways Eps u = [u]"
| "ways (Cls P) u = (case snd u of [] \<Rightarrow> [] | c # cs \<Rightarrow> if P c then [(Some c, cs)] else [])"
| "ways WordB u = (if wordAt (fst u) \<noteq> wordAt (firstUnit (snd u)) then [u] else [])"
| "ways (Seq r s) u = concat (map (\<lambda>v. ways s v) (ways r u))"
| "ways (Alt r s) u = ways r u @ ways s u"
| "ways (Star r) u = concat (map (\<lambda>v. if length (snd v) < length (snd u) then ways (Star r) v
     else []) (ways r u)) @ [u]"
  by pat_completeness auto
termination
  by (relation "measures [\<lambda>(r, _). size r, \<lambda>(_, u). length (snd u)]") auto

declare ways.simps(6) [simp del]

lemma ways_Star: "v \<in> set (ways (Star r) u) \<longleftrightarrow>
    v = u \<or> (\<exists>w\<in>set (ways r u). length (snd w) < length (snd u) \<and> v \<in> set (ways (Star r) w))"
  by (subst ways.simps(6)) (auto split: if_splits)

definition unitIs :: "nat \<Rightarrow> rx" where
  "unitIs c = Cls (\<lambda>d. d = c)"

text \<open>The flag \<open>i\<close> on ASCII letters.\<close>

definition lowerUnit :: "nat \<Rightarrow> nat" where
  "lowerUnit n = (if 65 \<le> n \<and> n \<le> 90 then n + 32 else n)"

definition unitIsCi :: "nat \<Rightarrow> rx" where
  "unitIsCi c = Cls (\<lambda>d. lowerUnit d = lowerUnit c)"

fun seqOf :: "rx list \<Rightarrow> rx" where
  "seqOf [] = Eps"
| "seqOf [r] = r"
| "seqOf (r # s # rs) = Seq r (seqOf (s # rs))"

fun altOf :: "rx list \<Rightarrow> rx" where
  "altOf [] = Cls (\<lambda>c. False)"
| "altOf [r] = r"
| "altOf (r # s # rs) = Alt r (altOf (s # rs))"

definition textCi :: "string \<Rightarrow> rx" where
  "textCi s = seqOf (map unitIsCi (units s))"

definition textRx :: "string \<Rightarrow> rx" where
  "textRx s = seqOf (map unitIs (units s))"

definition optRx :: "rx \<Rightarrow> rx" where
  "optRx r = Alt r Eps"

text \<open>\<open>{0,n}\<close> and \<open>{n}\<close>.\<close>

fun upToRx :: "nat \<Rightarrow> rx \<Rightarrow> rx" where
  "upToRx 0 r = Eps"
| "upToRx (Suc n) r = Alt (Seq r (upToRx n r)) Eps"

definition timesRx :: "nat \<Rightarrow> rx \<Rightarrow> rx" where
  "timesRx n r = seqOf (replicate n r)"

definition plusRx :: "rx \<Rightarrow> rx" where
  "plusRx r = Seq r (Star r)"

definition digitUnit :: "nat \<Rightarrow> bool" where
  "digitUnit n \<longleftrightarrow> 48 \<le> n \<and> n \<le> 57"

definition spaceUnit :: "nat \<Rightarrow> bool" where
  "spaceUnit n \<longleftrightarrow> n \<in> {9, 10, 11, 12, 13, 32, 160, 5760, 8232, 8233, 8239, 8287, 12288, 65279}
     \<or> (8192 \<le> n \<and> n \<le> 8202)"

text \<open>The dot, which does not match the end of a line.\<close>

definition dotUnit :: "nat \<Rightarrow> bool" where
  "dotUnit n \<longleftrightarrow> n \<notin> {10, 13, 8232, 8233}"

section \<open>Matching in a text\<close>

text \<open>The text of the first match at a place.\<close>

definition matchAt :: "rx \<Rightarrow> nat option \<Rightarrow> units \<Rightarrow> units option" where
  "matchAt r p cs = (case ways r (p, cs) of
     [] \<Rightarrow> None
   | v # vs \<Rightarrow> Some (take (length cs - length (snd v)) cs))"

text \<open>\<open>text.match(re)\<close>: the index and the text of the first match.\<close>

fun matchFrom :: "rx \<Rightarrow> nat \<Rightarrow> nat option \<Rightarrow> units \<Rightarrow> (nat \<times> units) option" where
  "matchFrom r i p [] = map_option (\<lambda>m. (i, m)) (matchAt r p [])"
| "matchFrom r i p (c # cs) = (case matchAt r p (c # cs) of
     Some m \<Rightarrow> Some (i, m)
   | None \<Rightarrow> matchFrom r (Suc i) (Some c) cs)"

definition matchRx :: "rx \<Rightarrow> units \<Rightarrow> (nat \<times> units) option" where
  "matchRx r t = matchFrom r 0 None t"

definition testRx :: "rx \<Rightarrow> units \<Rightarrow> bool" where
  "testRx r t \<longleftrightarrow> matchRx r t \<noteq> None"

text \<open>\<open>text.match(/re/g)\<close>: the matches from the left, none overlapping.\<close>

fun matchesFrom :: "rx \<Rightarrow> nat option \<Rightarrow> units \<Rightarrow> units list" where
  "matchesFrom r p [] = (case matchAt r p [] of None \<Rightarrow> [] | Some m \<Rightarrow> [m])"
| "matchesFrom r p (c # cs) = (case matchAt r p (c # cs) of
     None \<Rightarrow> matchesFrom r (Some c) cs
   | Some [] \<Rightarrow> [] # matchesFrom r (Some c) cs
   | Some (x # xs) \<Rightarrow> (x # xs) # matchesFrom r (Some (last (x # xs))) (drop (length xs) cs))"

definition matchesRx :: "rx \<Rightarrow> units \<Rightarrow> units list" where
  "matchesRx r t = matchesFrom r None t"

section \<open>The matches as a relation\<close>

inductive rxMatch :: "rx \<Rightarrow> place \<Rightarrow> place \<Rightarrow> bool" where
  eps: "rxMatch Eps u u"
| cls: "P c \<Longrightarrow> rxMatch (Cls P) (p, c # cs) (Some c, cs)"
| wordB: "wordAt p \<noteq> wordAt (firstUnit cs) \<Longrightarrow> rxMatch WordB (p, cs) (p, cs)"
| seq: "rxMatch r u v \<Longrightarrow> rxMatch s v w \<Longrightarrow> rxMatch (Seq r s) u w"
| altL: "rxMatch r u v \<Longrightarrow> rxMatch (Alt r s) u v"
| altR: "rxMatch s u v \<Longrightarrow> rxMatch (Alt r s) u v"
| stop: "rxMatch (Star r) u u"
| more: "rxMatch r u v \<Longrightarrow> length (snd v) < length (snd u) \<Longrightarrow> rxMatch (Star r) v w \<Longrightarrow>
    rxMatch (Star r) u w"

inductive_cases rxMatch_casesE:
  "rxMatch Eps u v" "rxMatch (Cls P) u v" "rxMatch WordB u v" "rxMatch (Seq r s) u v"
  "rxMatch (Alt r s) u v"

inductive_cases rxMatch_StarE: "rxMatch (Star r) u v"

lemma ways_sound: "v \<in> set (ways r u) \<Longrightarrow> rxMatch r u v"
proof (induction r u arbitrary: v rule: ways.induct)
  case (2 P u)
  then show ?case by (cases u) (auto intro: rxMatch.cls split: list.splits if_splits)
next
  case (3 u)
  then show ?case by (cases u) (auto intro: rxMatch.wordB split: if_splits)
next
  case (4 r s u)
  from 4(3) obtain w where "w \<in> set (ways r u)" "v \<in> set (ways s w)" by auto
  then show ?case by (blast intro: rxMatch.seq 4(1) 4(2))
next
  case (6 r u)
  consider "v = u" | w where "w \<in> set (ways r u)" "length (snd w) < length (snd u)"
      "v \<in> set (ways (Star r) w)"
    using 6(3) by (subst (asm) ways_Star) blast
  then show ?case
  proof cases
    case 1
    then show ?thesis by (simp add: rxMatch.stop)
  next
    case 2
    then show ?thesis by (blast intro: rxMatch.more 6(1) 6(2))
  qed
qed (auto intro: rxMatch.intros)

lemma ways_complete: "rxMatch r u v \<Longrightarrow> v \<in> set (ways r u)"
proof (induction rule: rxMatch.induct)
  case (stop r u)
  then show ?case by (subst ways_Star) simp
next
  case (more r u v w)
  then show ?case by (subst ways_Star) blast
qed auto

lemma ways_iff: "v \<in> set (ways r u) \<longleftrightarrow> rxMatch r u v"
  by (blast intro: ways_sound ways_complete)

lemma matchAt_None: "matchAt r p cs = None \<longleftrightarrow> (\<forall>v. \<not> rxMatch r (p, cs) v)"
  by (auto simp: matchAt_def ways_iff[symmetric] split: list.splits)

text \<open>The unit before a place of the text that is split there.\<close>

definition lastUnit :: "nat option \<Rightarrow> units \<Rightarrow> nat option" where
  "lastUnit p a = (if a = [] then p else Some (last a))"

lemma matchFrom_None:
  "matchFrom r i p t = None \<longleftrightarrow> (\<forall>a b v. t = a @ b \<longrightarrow> \<not> rxMatch r (lastUnit p a, b) v)"
proof (induction r i p t rule: matchFrom.induct)
  case (1 r i p)
  then show ?case by (simp add: matchAt_None lastUnit_def)
next
  case (2 r i p c cs)
  have split: "(\<forall>a b v. c # cs = a @ b \<longrightarrow> \<not> rxMatch r (lastUnit p a, b) v) \<longleftrightarrow>
      (\<forall>v. \<not> rxMatch r (p, c # cs) v) \<and>
      (\<forall>a b v. cs = a @ b \<longrightarrow> \<not> rxMatch r (lastUnit (Some c) a, b) v)" (is "?l \<longleftrightarrow> ?m \<and> ?n")
  proof
    assume l: ?l
    have "\<not> rxMatch r (p, c # cs) v" for v using l[rule_format, of "[]"] by (simp add: lastUnit_def)
    moreover have "\<not> rxMatch r (lastUnit (Some c) a, b) v" if "cs = a @ b" for a b v
      using l[rule_format, of "c # a" b v] that by (cases a) (simp_all add: lastUnit_def)
    ultimately show "?m \<and> ?n" by blast
  next
    assume mn: "?m \<and> ?n"
    show ?l
    proof (intro allI impI)
      fix a b v assume "c # cs = a @ b"
      then consider "a = []" "b = c # cs" | a' where "a = c # a'" "cs = a' @ b"
        by (cases a) auto
      then show "\<not> rxMatch r (lastUnit p a, b) v"
      proof cases
        case 1
        then show ?thesis using mn by (cases v) (simp add: lastUnit_def)
      next
        case 2
        then have "lastUnit p a = lastUnit (Some c) a'" by (simp add: lastUnit_def)
        then show ?thesis using mn 2 by (cases v) simp
      qed
    qed
  qed
  show ?case
  proof (cases "matchAt r p (c # cs)")
    case None
    then have "\<forall>v. \<not> rxMatch r (p, c # cs) v" by (simp add: matchAt_None)
    then show ?thesis using 2[OF None] None unfolding split by simp
  next
    case (Some m)
    then have "\<not> (\<forall>v. \<not> rxMatch r (p, c # cs) v)"
      by (metis matchAt_None option.distinct(1))
    then show ?thesis using Some unfolding split by simp
  qed
qed

text \<open>A regular expression finds something exactly when it matches at some place.\<close>

lemma testRx_iff: "testRx r t \<longleftrightarrow> (\<exists>a b v. t = a @ b \<and> rxMatch r (lastUnit None a, b) v)"
  by (auto simp: testRx_def matchRx_def matchFrom_None)

end
