(* ===== verification/PlatformRelease.thy ===== *)
theory PlatformRelease
  imports PlatformDomain JsText
begin

text \<open>
  Release gates of \<open>packages/platform/src\<close>: deployment approvals, the vulnerability
  burndown, secret references and redaction, release manifests, the deduplicating alert pipeline,
  metric labels and the production configuration check.  Untyped JSON that a validator reads is a
  record of optional fields of the declared types, or \<open>None\<close> when it is no object.
\<close>

section \<open>Characters the patterns name\<close>

definition isHexChar :: "char \<Rightarrow> bool" where
  "isHexChar c = (let n = (of_char c :: nat) in
     (48 \<le> n \<and> n \<le> 57) \<or> (97 \<le> n \<and> n \<le> 102) \<or> (65 \<le> n \<and> n \<le> 70))"

definition isAlnum :: "char \<Rightarrow> bool" where
  "isAlnum c = (let n = (of_char c :: nat) in
     (48 \<le> n \<and> n \<le> 57) \<or> (97 \<le> n \<and> n \<le> 122) \<or> (65 \<le> n \<and> n \<le> 90))"

definition isGitSha :: "string \<Rightarrow> bool" where
  "isGitSha s \<longleftrightarrow> 7 \<le> length s \<and> length s \<le> 64 \<and> list_all isHexChar s"

definition isDigest :: "string \<Rightarrow> bool" where
  "isDigest s \<longleftrightarrow> toLowerCase (take 7 s) = ''sha256:'' \<and> length (drop 7 s) = 64
     \<and> list_all isHexChar (drop 7 s)"

section \<open>Deployment approvals\<close>

datatype approval_status =
    AP_DRAFT | AP_REQUESTED | AP_APPROVED | AP_REJECTED | AP_EXPIRED | AP_USED | AP_CANCELLED
    | AP_PENDING | AP_REVOKED

record deployment_approval =
  da_approvalId :: string
  da_releaseId :: string
  da_gitSha :: string
  da_imageDigests :: "string list"
  da_status :: approval_status
  da_requestedBy :: string
  da_approvedBy :: "string option"
  da_requestedAt :: string
  da_expiresAt :: string
  da_deploymentWindowStart :: "string option"
  da_deploymentWindowEnd :: "string option"
  da_environment :: app_environment

record partial_approval =
  qa_approvalId :: "string option"
  qa_releaseId :: "string option"
  qa_gitSha :: "string option"
  qa_imageDigests :: "string list option"
  qa_status :: "string option"
  qa_requestedBy :: "string option"
  qa_approvedBy :: "string option"
  qa_requestedAt :: "string option"
  qa_expiresAt :: "string option"
  qa_deploymentWindowStart :: "string option"
  qa_deploymentWindowEnd :: "string option"
  qa_environment :: "string option"

definition DEPLOYMENT_APPROVAL_STATUSES :: "(string \<times> approval_status) list" where
  "DEPLOYMENT_APPROVAL_STATUSES =
     [(''DRAFT'', AP_DRAFT), (''REQUESTED'', AP_REQUESTED), (''APPROVED'', AP_APPROVED),
      (''REJECTED'', AP_REJECTED), (''EXPIRED'', AP_EXPIRED), (''USED'', AP_USED),
      (''CANCELLED'', AP_CANCELLED), (''PENDING'', AP_PENDING), (''REVOKED'', AP_REVOKED)]"

text \<open>A comparison with \<open>NaN\<close> is false.\<close>

definition dateBefore :: "int option \<Rightarrow> int \<Rightarrow> bool" where
  "dateBefore d t = (case d of None \<Rightarrow> False | Some x \<Rightarrow> x < t)"

definition dateAfter :: "int option \<Rightarrow> int \<Rightarrow> bool" where
  "dateAfter d t = (case d of None \<Rightarrow> False | Some x \<Rightarrow> t < x)"

definition approvalErrors :: "(string \<Rightarrow> int option) \<Rightarrow> int \<Rightarrow> partial_approval \<Rightarrow> string list" where
  "approvalErrors dateParse now a =
     whenl (\<not> truthy (qa_approvalId a)) ''approvalId required'' @
     whenl (\<not> truthy (qa_releaseId a)) ''releaseId required'' @
     whenl (\<not> truthy (qa_gitSha a) \<or> \<not> isGitSha (the (qa_gitSha a))) ''gitSha required'' @
     (case qa_imageDigests a of
        None \<Rightarrow> [''imageDigests required'']
      | Some ds \<Rightarrow> if length ds = 0 then [''imageDigests required'']
          else whenl (list_ex (\<lambda>d. \<not> isDigest d) ds) ''imageDigests must be sha256 digests'') @
     whenl (\<not> truthy (qa_status a)
            \<or> map_of DEPLOYMENT_APPROVAL_STATUSES (the (qa_status a)) = None)
       (''status must be one of '' @ joinWith '', '' (map fst DEPLOYMENT_APPROVAL_STATUSES)) @
     whenl (\<not> truthy (qa_requestedBy a)) ''requestedBy required'' @
     whenl (\<not> truthy (qa_requestedAt a) \<or> dateParse (the (qa_requestedAt a)) = None)
       ''requestedAt must be ISO timestamp'' @
     whenl (\<not> truthy (qa_expiresAt a) \<or> dateParse (the (qa_expiresAt a)) = None)
       ''expiresAt must be ISO timestamp'' @
     whenl (qa_environment a \<noteq> Some ''STAGING'' \<and> qa_environment a \<noteq> Some ''PILOT'')
       ''environment must be STAGING or PILOT'' @
     whenl (qa_status a = Some ''APPROVED'' \<and> \<not> truthy (qa_approvedBy a))
       ''approvedBy required when status is APPROVED'' @
     whenl (qa_status a = Some ''APPROVED'' \<and> truthy (qa_expiresAt a)
            \<and> dateBefore (dateParse (the (qa_expiresAt a))) now)
       ''APPROVED approval is past expiresAt''"

text \<open>The cast \<open>a as DeploymentApproval\<close> after every field was checked.\<close>

definition castApproval :: "partial_approval \<Rightarrow> deployment_approval" where
  "castApproval a =
     \<lparr>da_approvalId = the (qa_approvalId a), da_releaseId = the (qa_releaseId a),
      da_gitSha = the (qa_gitSha a), da_imageDigests = the (qa_imageDigests a),
      da_status = the (map_of DEPLOYMENT_APPROVAL_STATUSES (the (qa_status a))),
      da_requestedBy = the (qa_requestedBy a), da_approvedBy = qa_approvedBy a,
      da_requestedAt = the (qa_requestedAt a), da_expiresAt = the (qa_expiresAt a),
      da_deploymentWindowStart = qa_deploymentWindowStart a,
      da_deploymentWindowEnd = qa_deploymentWindowEnd a,
      da_environment = (if qa_environment a = Some ''PILOT'' then PILOT else STAGING)\<rparr>"

definition validateDeploymentApproval ::
  "(string \<Rightarrow> int option) \<Rightarrow> int \<Rightarrow> partial_approval option \<Rightarrow>
   string list + deployment_approval" where
  "validateDeploymentApproval dateParse now input =
     (case input of
        None \<Rightarrow> Inl [''approval must be an object'']
      | Some a \<Rightarrow>
          (let errors = approvalErrors dateParse now a in
           if 0 < length errors then Inl errors else Inr (castApproval a)))"

record deploy_expectation =
  ex_releaseId :: string
  ex_gitSha :: string
  ex_imageDigests :: "string list"

definition isDeployAllowed ::
  "(string \<Rightarrow> int option) \<Rightarrow> int \<Rightarrow> deployment_approval \<Rightarrow> deploy_expectation \<Rightarrow> bool" where
  "isDeployAllowed dateParse now approval expected =
     (if da_releaseId approval \<noteq> ex_releaseId expected then False
      else if da_gitSha approval \<noteq> ex_gitSha expected then False
      else if da_status approval \<noteq> AP_APPROVED then False
      else if dateBefore (dateParse (da_expiresAt approval)) now then False
      else if \<not> truthy (da_approvedBy approval) then False
      else
        (let want = remdups (map toLowerCase (ex_imageDigests expected));
             have' = remdups (map toLowerCase (da_imageDigests approval)) in
         if length want \<noteq> length have' then False
         else if list_ex (\<lambda>d. \<not> List.member have' d) want then False
         else if truthy (da_deploymentWindowStart approval)
                 \<and> dateAfter (dateParse (the (da_deploymentWindowStart approval))) now then False
         else if truthy (da_deploymentWindowEnd approval)
                 \<and> dateBefore (dateParse (the (da_deploymentWindowEnd approval))) now then False
         else True))"

section \<open>Vulnerability burndown\<close>

record vulnerability_exception =
  ve_id :: string
  ve_severity :: string
  ve_classification :: string
  ve_status :: string
  ve_expiresAt :: string
  ve_burndownClass :: "string option"
  ve_pilotDecisionStatus :: "string option"

datatype burndown_status = BD_PASS | BD_BLOCKED | BD_PASS_WITH_APPROVED_EXCEPTIONS

record burndown_result =
  br_status :: burndown_status
  br_blockers :: "string list"
  br_notes :: "string list"
  br_activeExceptions :: "string list"

definition burndownClass :: "vulnerability_exception \<Rightarrow> string" where
  "burndownClass ex = (case ve_burndownClass ex of None \<Rightarrow> [] | Some s \<Rightarrow> s)"

definition approvedByPilot :: "vulnerability_exception \<Rightarrow> bool" where
  "approvedByPilot ex \<longleftrightarrow> (case ve_pilotDecisionStatus ex of None \<Rightarrow> ''PENDING'' | Some d \<Rightarrow> d)
     = ''PILOT_APPROVED_EXCEPTION''"

definition exceptionBlockers :: "string \<Rightarrow> bool \<Rightarrow> vulnerability_exception \<Rightarrow> string list" where
  "exceptionBlockers today synthetic ex =
     whenl (ve_expiresAt ex < today) (ve_id ex @ '': expired on '' @ ve_expiresAt ex) @
     whenl (burndownClass ex = ''FIX_NOW'' \<or> burndownClass ex = ''FIX_BEFORE_PILOT'')
       (ve_id ex @ '': burndownClass '' @ burndownClass ex @ '' blocks pilot'') @
     whenl (ve_severity ex = ''critical'' \<and> ve_classification ex = ''runtime'')
       (ve_id ex @ '': critical runtime exception is active'') @
     whenl (burndownClass ex = ''UPSTREAM_BLOCKED'' \<and> \<not> approvedByPilot ex \<and> \<not> synthetic)
       (ve_id ex @ '': UPSTREAM_BLOCKED requires pilotDecisionStatus=PILOT_APPROVED_EXCEPTION'')"

text \<open>The long dash of the second note is its three UTF-8 bytes.\<close>

definition exceptionNotes :: "bool \<Rightarrow> vulnerability_exception \<Rightarrow> string list" where
  "exceptionNotes synthetic ex =
     (if burndownClass ex = ''UPSTREAM_BLOCKED'' then
        if approvedByPilot ex
        then [ve_id ex @ '': UPSTREAM_BLOCKED with PILOT_APPROVED_EXCEPTION'']
        else whenl synthetic (ve_id ex @ '': UPSTREAM_BLOCKED pending decision ''
               @ [CHR 0xE2, CHR 0x80, CHR 0x94] @ '' accepted only in synthetic preflight'')
      else []) @
     whenl (burndownClass ex = ''DEV_ONLY_ACCEPT_TEMPORARILY'')
       (ve_id ex @ '': DEV_ONLY_ACCEPT_TEMPORARILY (not a pilot runtime path)'')"

definition evaluatePilotBurndown ::
  "string \<Rightarrow> bool \<Rightarrow> vulnerability_exception list \<Rightarrow> burndown_result" where
  "evaluatePilotBurndown today synthetic exceptions =
     (let active = filter (\<lambda>ex. ve_status ex = ''active'') exceptions;
          blockers = concat (map (exceptionBlockers today synthetic) active);
          notes = concat (map (exceptionNotes synthetic) active)
      in \<lparr>br_status = (if 0 < length blockers then BD_BLOCKED
            else if 0 < length notes \<or> 0 < length active then BD_PASS_WITH_APPROVED_EXCEPTIONS
            else BD_PASS),
          br_blockers = blockers, br_notes = notes, br_activeExceptions = map ve_id active\<rparr>)"

section \<open>Secret references\<close>

datatype secret_backend = SB_env | SB_file | SB_vault | SB_secrets_manager

definition isReferenceChar :: "char \<Rightarrow> bool" where
  "isReferenceChar c \<longleftrightarrow> isAlnum c \<or> c \<in> set ''_./:@-''"

definition REFERENCE_PREFIXES :: "(string \<times> secret_backend) list" where
  "REFERENCE_PREFIXES =
     [(''env://'', SB_env), (''file://'', SB_file), (''vault://'', SB_vault),
      (''sm://'', SB_secrets_manager)]"

definition referenceBackend :: "string \<Rightarrow> secret_backend option" where
  "referenceBackend s = map_option snd (find (\<lambda>(p, b). startsWith s p
     \<and> 1 \<le> length s - length p \<and> length s - length p \<le> 512
     \<and> list_all isReferenceChar (drop (length p) s)) REFERENCE_PREFIXES)"

definition parseSecretReference :: "string \<Rightarrow> string + string \<times> secret_backend" where
  "parseSecretReference raw =
     (let trimmed = trim raw in
      case referenceBackend trimmed of
        None \<Rightarrow> Inl ''Invalid secret reference format''
      | Some backend \<Rightarrow> Inr (trimmed, backend))"

definition isSecretReference :: "string \<Rightarrow> bool" where
  "isSecretReference raw = isOk (parseSecretReference raw)"

fun backend_name :: "secret_backend \<Rightarrow> string" where
  "backend_name SB_env = ''env''"
| "backend_name SB_file = ''file''"
| "backend_name SB_vault = ''vault''"
| "backend_name SB_secrets_manager = ''secrets_manager''"

definition resolveSecretReference :: "string \<Rightarrow> (string \<rightharpoonup> string) \<Rightarrow> string + string" where
  "resolveSecretReference ref env =
     bind_res (parseSecretReference ref) (\<lambda>(reference, backend).
       if backend = SB_env then
         (if truthy (env (drop 6 reference)) then Inr (the (env (drop 6 reference)))
          else Inl (''Secret reference '' @ reference @ '' could not be resolved''))
       else Inl (''Secret backend '' @ [CHR 0x22] @ backend_name backend @ [CHR 0x22]
              @ '' is not resolved in-process; mount or inject before startup''))"

fun indexOfChar :: "char \<Rightarrow> string \<Rightarrow> nat option" where
  "indexOfChar c [] = None"
| "indexOfChar c (x # xs) = (if x = c then Some 0 else map_option Suc (indexOfChar c xs))"

definition parseAwsSecretId :: "string \<Rightarrow> string + string option \<times> string" where
  "parseAwsSecretId reference =
     bind_res (parseSecretReference reference) (\<lambda>(_, backend).
       if backend \<noteq> SB_secrets_manager
       then Inl (''Expected sm:// reference, got '' @ backend_name backend)
       else (let path = drop 5 reference in
         if startsWith path ''aws/'' then
           (let rest = drop 4 path in
            case indexOfChar (CHR ''/'') rest of
              None \<Rightarrow> Inl ''sm://aws/{region}/{secretId} required''
            | Some 0 \<Rightarrow> Inl ''sm://aws/{region}/{secretId} required''
            | Some slash \<Rightarrow> Inr (Some (take slash rest), drop (slash + 1) rest))
         else Inr (None, path)))"

definition resolveAwsSecretReference ::
  "string \<Rightarrow> (string \<Rightarrow> string option) \<Rightarrow> string + string" where
  "resolveAwsSecretReference reference getSecretValue =
     bind_res (parseAwsSecretId reference) (\<lambda>(_, secretId).
       if truthy (getSecretValue secretId) then Inr (the (getSecretValue secretId))
       else Inl (''Secret reference '' @ reference @ '' resolved empty''))"

definition FAKE_MARKERS :: "string list" where
  "FAKE_MARKERS = [''minioadmin'', ''changeme'', ''password'', ''fake_test'', ''ci-test-secret'',
     ''dev-only'', ''replace-with'']"

definition assertPilotSecretValue :: "string \<Rightarrow> string \<Rightarrow> string + unit" where
  "assertPilotSecretValue name value =
     (if list_ex (includesStr (toLowerCase value)) FAKE_MARKERS
      then Inl (''PILOT rejects fake/test secret material for '' @ name)
      else if length (units (trim value)) < 16 then Inl (''PILOT secret '' @ name @ '' is too short'')
      else Inr ())"

section \<open>Redaction\<close>

datatype json =
    JUndefined | JNull | JBool bool | JNum rat | JStr string | JArr "json list"
    | JObj "(string \<times> json) list"

definition includesCI :: "string \<Rightarrow> string \<Rightarrow> bool" where
  "includesCI s lowerSub = includesStr (toLowerCase s) lowerSub"

text \<open>The patterns name ASCII words only, so they are looked for in the UTF-8 bytes; what may stand
  between \<open>signed\<close> and \<open>url\<close>, and the lengths, count UTF-16 units.\<close>

definition SIGNED_URL :: rx where
  "SIGNED_URL = seqOf [textCi ''signed'', optRx (Cls dotUnit), textCi ''url'']"

definition secretLikeKey :: "string \<Rightarrow> bool" where
  "secretLikeKey k \<longleftrightarrow>
     list_ex (includesCI k)
       [''password'', ''secret'', ''token'', ''authorization'', ''cookie'', ''credential'']
     \<or> testRx SIGNED_URL (units k)"

definition secretLikeString :: "string \<Rightarrow> bool" where
  "secretLikeString s \<longleftrightarrow> 16 \<le> length (units s) \<and>
     (list_ex (includesCI s) [''secret'', ''token'', ''password'', ''bearer'', ''sk-'', ''akia'']
      \<or> (32 \<le> length s \<and> list_all (\<lambda>c. isAlnum c \<or> c \<in> set ''+/=_-'') s))"

fun redactSecretLike :: "json \<Rightarrow> json" where
  "redactSecretLike (JStr s) = JStr (if secretLikeString s then ''[redacted]'' else s)"
| "redactSecretLike (JArr xs) = JArr (map redactSecretLike xs)"
| "redactSecretLike (JObj kvs) =
     JObj (map (\<lambda>(k, v). (k, if secretLikeKey k then JStr ''[redacted]'' else redactSecretLike v)) kvs)"
| "redactSecretLike v = v"

section \<open>Release manifests\<close>

definition RELEASE_STATES :: "string list" where
  "RELEASE_STATES = [''DEVELOPMENT'', ''RELEASE_CANDIDATE'', ''PILOT_APPROVED'', ''PILOT_ACTIVE'',
     ''PILOT_PAUSED'', ''SUPERSEDED'', ''ROLLED_BACK'', ''DRAFT'', ''CANDIDATE'', ''APPROVED'',
     ''DEPLOYING'', ''DEPLOYED'', ''REJECTED'']"

record image_ref =
  ir_name :: string
  ir_digest :: string
  ir_tag :: "string option"

record partial_manifest =
  mf_schemaVersion :: "int option"
  mf_releaseId :: "string option"
  mf_state :: "string option"
  mf_gitSha :: "string option"
  mf_createdAt :: "string option"
  mf_migrationVersion :: "string option"
  mf_images :: "image_ref list option"
  mf_sbomDigest :: "string option"
  mf_vulnerabilityPolicyDigest :: "string option"
  mf_notes :: "string option"
  mf_honesty :: "string option"

definition PLACEHOLDER_MARKERS :: "string list" where
  "PLACEHOLDER_MARKERS = [''placeholder:'', ''SYNTHETIC_'', ''0000000'', ''scaffolding'']"

definition isImmutableDigest :: "string \<Rightarrow> bool" where
  "isImmutableDigest digest = isDigest (trim digest)"

definition looksLikePlaceholderDigest :: "string \<Rightarrow> bool" where
  "looksLikePlaceholderDigest value =
     (let v = toLowerCase value in list_ex (\<lambda>m. includesStr v (toLowerCase m)) PLACEHOLDER_MARKERS)"

definition digestError :: "string \<Rightarrow> string" where
  "digestError d = ''Image digest must be sha256:<64 hex>, got '' @ [CHR 0x22] @ d @ [CHR 0x22]"

definition assertImmutableImageRef :: "image_ref \<Rightarrow> string + unit" where
  "assertImmutableImageRef ref =
     bind_res (guard_res (trim (ir_name ref) \<noteq> []) ''Image name required'') (\<lambda>_.
     bind_res (guard_res (isImmutableDigest (ir_digest ref)) (digestError (ir_digest ref))) (\<lambda>_.
     bind_res (guard_res (\<not> looksLikePlaceholderDigest (ir_digest ref))
       (''Image digest for '' @ ir_name ref @ '' looks like a placeholder'')) (\<lambda>_.
     guard_res (\<not> (truthy (ir_tag ref) \<and> toLowerCase (trim (the (ir_tag ref))) = ''latest''))
       (''Floating tag '' @ [CHR 0x22] @ ''latest'' @ [CHR 0x22]
          @ '' is rejected; pin an immutable digest''))))"

definition imageErrors :: "bool \<Rightarrow> image_ref \<Rightarrow> string list" where
  "imageErrors requireNonPlaceholder img =
     (if requireNonPlaceholder
      then (case assertImmutableImageRef img of Inl e \<Rightarrow> [e] | Inr _ \<Rightarrow> [])
      else whenl (\<not> isImmutableDigest (ir_digest img)) (digestError (ir_digest img)) @
           whenl (map_option toLowerCase (ir_tag img) = Some ''latest'') ''latest tag rejected'')"

text \<open>\<open>String(undefined)\<close> holds no placeholder marker.\<close>

definition manifestErrors ::
  "(string \<Rightarrow> int option) \<Rightarrow> bool \<Rightarrow> partial_manifest \<Rightarrow> string list" where
  "manifestErrors dateParse requireNonPlaceholder m =
     whenl (mf_schemaVersion m \<noteq> Some 1) ''schemaVersion must be 1'' @
     whenl (\<not> truthy (mf_releaseId m)) ''releaseId required'' @
     whenl (\<not> truthy (mf_state m) \<or> \<not> List.member RELEASE_STATES (the (mf_state m)))
       (''state must be one of '' @ joinWith '', '' RELEASE_STATES) @
     whenl (\<not> truthy (mf_gitSha m) \<or> \<not> isGitSha (the (mf_gitSha m)))
       ''gitSha must be a hex commit sha'' @
     whenl (mf_gitSha m = Some ''0000000'') ''gitSha placeholder rejected'' @
     whenl (\<not> truthy (mf_createdAt m) \<or> dateParse (the (mf_createdAt m)) = None)
       ''createdAt must be an ISO timestamp'' @
     whenl (\<not> truthy (mf_migrationVersion m)) ''migrationVersion required'' @
     whenl (requireNonPlaceholder \<and> mf_migrationVersion m \<noteq> None
            \<and> looksLikePlaceholderDigest (the (mf_migrationVersion m)))
       ''migrationVersion must not be a synthetic placeholder for cloud deploy'' @
     (case mf_images m of
        None \<Rightarrow> [''images must be a non-empty array'']
      | Some imgs \<Rightarrow> if length imgs = 0 then [''images must be a non-empty array'']
          else concat (map (imageErrors requireNonPlaceholder) imgs)) @
     (if \<not> truthy (mf_sbomDigest m) \<or> \<not> isImmutableDigest (the (mf_sbomDigest m))
      then [''sbomDigest must be sha256:<64 hex>'']
      else whenl (requireNonPlaceholder \<and> looksLikePlaceholderDigest (the (mf_sbomDigest m)))
             ''sbomDigest placeholder rejected'') @
     (if \<not> truthy (mf_vulnerabilityPolicyDigest m)
         \<or> \<not> isImmutableDigest (the (mf_vulnerabilityPolicyDigest m))
      then [''vulnerabilityPolicyDigest must be sha256:<64 hex>'']
      else whenl (requireNonPlaceholder
             \<and> looksLikePlaceholderDigest (the (mf_vulnerabilityPolicyDigest m))
             \<and> ((mf_notes m \<noteq> None \<and> includesStr (the (mf_notes m)) ''placeholders'')
                \<or> (mf_honesty m \<noteq> None \<and> includesStr (the (mf_honesty m)) ''Scaffolding'')))
             ''vulnerabilityPolicyDigest from scaffolding generator rejected for cloud deploy'')"

definition validateReleaseManifest ::
  "(string \<Rightarrow> int option) \<Rightarrow> bool option \<Rightarrow> partial_manifest option \<Rightarrow>
   string list + partial_manifest" where
  "validateReleaseManifest dateParse requireNonPlaceholder input =
     (case input of
        None \<Rightarrow> Inl [''manifest must be an object'']
      | Some m \<Rightarrow>
          (let errors = manifestErrors dateParse
                 (case requireNonPlaceholder of None \<Rightarrow> True | Some b \<Rightarrow> b) m
           in if 0 < length errors then Inl errors else Inr m))"

section \<open>The alert pipeline\<close>

datatype alert_severity = AS_info | AS_warning | AS_critical

record captured_alert =
  ca_definitionId :: string
  ca_dedupeKey :: string
  ca_severity :: alert_severity
  ca_message :: string
  ca_capturedAt :: int
  ca_fingerprint :: string

definition fingerprintAlert :: "string \<Rightarrow> string \<Rightarrow> string" where
  "fingerprintAlert definitionId dedupeKey = definitionId @ ''::'' @ dedupeKey"

text \<open>The sink's items, the router's and the map of the last emission of each fingerprint.\<close>

record alert_pipeline =
  captured :: "captured_alert list"
  routed :: "captured_alert list"
  lastSent :: "string \<rightharpoonup> int"

record alert_input =
  ain_definitionId :: string
  ain_dedupeKey :: string
  ain_severity :: alert_severity
  ain_message :: string
  ain_now :: int

definition emit ::
  "int \<Rightarrow> alert_input \<Rightarrow> alert_pipeline \<Rightarrow> captured_alert option \<times> alert_pipeline" where
  "emit windowMs input s =
     (let now = ain_now input;
          fingerprint = fingerprintAlert (ain_definitionId input) (ain_dedupeKey input)
      in if (case lastSent s fingerprint of None \<Rightarrow> False | Some prev \<Rightarrow> now - prev < windowMs)
         then (None, s)
         else (let alert = \<lparr>ca_definitionId = ain_definitionId input,
                     ca_dedupeKey = ain_dedupeKey input, ca_severity = ain_severity input,
                     ca_message = ain_message input, ca_capturedAt = now,
                     ca_fingerprint = fingerprint\<rparr>
               in (Some alert,
                   s\<lparr>captured := captured s @ [alert], routed := routed s @ [alert],
                     lastSent := (lastSent s)(fingerprint \<mapsto> now)\<rparr>)))"

definition emitAll :: "int \<Rightarrow> alert_input list \<Rightarrow> alert_pipeline \<Rightarrow> alert_pipeline" where
  "emitAll windowMs inputs s = fold (\<lambda>i t. snd (emit windowMs i t)) inputs s"

section \<open>Metrics\<close>

definition FORBIDDEN_LABEL_KEYS :: "string list" where
  "FORBIDDEN_LABEL_KEYS = [''email'', ''documentid'', ''userid'', ''noticebody'', ''token'',
     ''secret'', ''signedurl'']"

definition labelError :: "string \<times> string \<Rightarrow> string option" where
  "labelError kv = (case kv of (key, value) \<Rightarrow>
     if list_ex (includesCI key) FORBIDDEN_LABEL_KEYS
     then Some (''Metric label key '' @ [CHR 0x22] @ key @ [CHR 0x22] @ '' is forbidden'')
     else if 64 < length (units value)
     then Some (''Metric label value for '' @ [CHR 0x22] @ key @ [CHR 0x22] @ '' exceeds 64 characters'')
     else if includesStr value ''@'' \<or> includesStr value ''http''
     then Some (''Metric label value for '' @ [CHR 0x22] @ key @ [CHR 0x22] @ '' looks sensitive'')
     else None)"

fun assertSafeMetricLabels :: "(string \<times> string) list \<Rightarrow> string + unit" where
  "assertSafeMetricLabels [] = Inr ()"
| "assertSafeMetricLabels (kv # rest) =
     (case labelError kv of Some e \<Rightarrow> Inl e | None \<Rightarrow> assertSafeMetricLabels rest)"

type_synonym metrics_registry = "string \<rightharpoonup> int"

definition metricKey ::
  "((string \<times> string) list \<Rightarrow> string) \<Rightarrow> string \<Rightarrow> (string \<times> string) list option \<Rightarrow> string" where
  "metricKey stringify name labels =
     (case labels of None \<Rightarrow> name | Some ls \<Rightarrow> name @ ''|'' @ stringify ls)"

definition metricsIncrement ::
  "((string \<times> string) list \<Rightarrow> string) \<Rightarrow> string \<Rightarrow> (string \<times> string) list option \<Rightarrow> int \<Rightarrow>
   metrics_registry \<Rightarrow> string + metrics_registry" where
  "metricsIncrement stringify name labels amount counters =
     bind_res (case labels of None \<Rightarrow> Inr () | Some ls \<Rightarrow> assertSafeMetricLabels ls) (\<lambda>_.
       let key = metricKey stringify name labels
       in Inr (counters(key \<mapsto> (case counters key of None \<Rightarrow> 0 | Some n \<Rightarrow> n) + amount)))"

definition metricsGet ::
  "((string \<times> string) list \<Rightarrow> string) \<Rightarrow> string \<Rightarrow> (string \<times> string) list option \<Rightarrow>
   metrics_registry \<Rightarrow> int" where
  "metricsGet stringify name labels counters =
     (case counters (metricKey stringify name labels) of None \<Rightarrow> 0 | Some n \<Rightarrow> n)"

section \<open>The production configuration check\<close>

datatype finding_severity = F_info | F_warn | F_error




















section \<open>Properties\<close>


lemma list_ex_whenl [simp]: "list_ex P (whenl b x) \<longleftrightarrow> b \<and> P x"
  by (cases b) simp_all














lemma remdups_eq_iff:
  assumes "length (remdups xs) = length (remdups ys)" and "set xs \<subseteq> set ys"
  shows "set xs = set ys"
  using assms by (metis List.finite_set card_subset_eq length_remdups_card_conv)

lemma length_remdups_eq: "set xs = set ys \<Longrightarrow> length (remdups xs) = length (remdups ys)"
  by (simp add: length_remdups_card_conv)

lemma isDeployAllowed_iff:
  "isDeployAllowed dp now a x \<longleftrightarrow>
     da_releaseId a = ex_releaseId x \<and> da_gitSha a = ex_gitSha x \<and> da_status a = AP_APPROVED
     \<and> \<not> dateBefore (dp (da_expiresAt a)) now \<and> truthy (da_approvedBy a)
     \<and> toLowerCase ` set (da_imageDigests a) = toLowerCase ` set (ex_imageDigests x)
     \<and> \<not> (truthy (da_deploymentWindowStart a) \<and> dateAfter (dp (the (da_deploymentWindowStart a))) now)
     \<and> \<not> (truthy (da_deploymentWindowEnd a) \<and> dateBefore (dp (the (da_deploymentWindowEnd a))) now)"
proof -
  define want where "want = map toLowerCase (ex_imageDigests x)"
  define got where "got = map toLowerCase (da_imageDigests a)"
  have "(length (remdups want) = length (remdups got)
      \<and> \<not> list_ex (\<lambda>d. \<not> List.member (remdups got) d) (remdups want)) \<longleftrightarrow> set got = set want"
    using remdups_eq_iff[of want got] length_remdups_eq[of want got]
    by (auto simp: list_ex_iff)
  then show ?thesis
    unfolding isDeployAllowed_def Let_def want_def[symmetric] got_def[symmetric]
    by (auto simp: want_def got_def)
qed

text \<open>A deployment that a validated approval allows is the approved one: release, commit and
the set of image digests (up to letter case) are the approval's, every digest is a sha256 digest,
an approver is named, and the approval's expiry is a real instant that has not passed.\<close>

lemma allowed_deployment_is_approved:
  assumes "validateDeploymentApproval dp then' (Some input) = Inr a" and "isDeployAllowed dp now a x"
  shows "da_releaseId a = ex_releaseId x \<and> da_gitSha a = ex_gitSha x
    \<and> toLowerCase ` set (da_imageDigests a) = toLowerCase ` set (ex_imageDigests x)
    \<and> da_imageDigests a \<noteq> [] \<and> (\<forall>d\<in>set (da_imageDigests a). isDigest d)
    \<and> truthy (da_approvedBy a) \<and> (\<exists>e. dp (da_expiresAt a) = Some e \<and> now \<le> e)"
proof -
  have errors: "approvalErrors dp then' input = []" and a: "a = castApproval input"
    using assms(1) by (auto simp: validateDeploymentApproval_def Let_def split: if_splits)
  have digests: "\<exists>ds. qa_imageDigests input = Some ds \<and> ds \<noteq> [] \<and> (\<forall>d\<in>set ds. isDigest d)"
    using errors by (auto simp: approvalErrors_def list_ex_iff split: option.splits if_splits)
  have expiry: "dp (the (qa_expiresAt input)) \<noteq> None"
    using errors by (auto simp: approvalErrors_def)
  have allowed: "da_releaseId a = ex_releaseId x" "da_gitSha a = ex_gitSha x"
    "toLowerCase ` set (da_imageDigests a) = toLowerCase ` set (ex_imageDigests x)"
    "truthy (da_approvedBy a)" "\<not> dateBefore (dp (da_expiresAt a)) now"
    using assms(2) unfolding isDeployAllowed_iff by simp_all
  have "da_imageDigests a \<noteq> [] \<and> (\<forall>d\<in>set (da_imageDigests a). isDigest d)"
    using digests by (auto simp: a castApproval_def)
  moreover have "\<exists>e. dp (da_expiresAt a) = Some e \<and> now \<le> e"
    using expiry allowed(5) by (auto simp: a castApproval_def dateBefore_def)
  ultimately show ?thesis using allowed by blast
qed

definition demo_digest :: string where
  "demo_digest = ''sha256:'' @ replicate 64 (CHR ''a'')"

definition demo_approval :: partial_approval where
  "demo_approval = \<lparr>qa_approvalId = Some ''a'', qa_releaseId = Some ''r'', qa_gitSha = Some ''abcdef0'',
     qa_imageDigests = Some [demo_digest], qa_status = Some ''APPROVED'', qa_requestedBy = Some ''u'',
     qa_approvedBy = Some ''v'', qa_requestedAt = Some ''1'', qa_expiresAt = Some ''1'',
     qa_deploymentWindowStart = None, qa_deploymentWindowEnd = None,
     qa_environment = Some ''PILOT''\<rparr>"

lemma demo_digest_ok: "isDigest demo_digest"
proof -
  have "isHexChar (CHR ''a'')" "toLowerCase ''sha256:'' = ''sha256:''"
    by (simp_all add: isHexChar_def toLowerCase_def lowerChar_def)
  then show ?thesis by (simp add: isDigest_def demo_digest_def list_all_iff)
qed

lemma allowed_deployment_is_approved_witness:
  "isDigest demo_digest \<and> (\<exists>e. (\<lambda>_ :: string. Some (5::int)) (da_expiresAt (castApproval demo_approval))
     = Some e \<and> 5 \<le> e)"
proof -
  have sha: "isGitSha ''abcdef0''"
    by (simp add: isGitSha_def isHexChar_def)
  have "validateDeploymentApproval (\<lambda>_. Some 5) 5 (Some demo_approval) = Inr (castApproval demo_approval)"
    using demo_digest_ok sha
    by (simp add: validateDeploymentApproval_def approvalErrors_def demo_approval_def
        DEPLOYMENT_APPROVAL_STATUSES_def dateBefore_def)
  moreover have "isDeployAllowed (\<lambda>_. Some 5) 5 (castApproval demo_approval)
      \<lparr>ex_releaseId = ''r'', ex_gitSha = ''abcdef0'', ex_imageDigests = [demo_digest]\<rparr>"
    by (simp add: isDeployAllowed_iff castApproval_def demo_approval_def dateBefore_def
        DEPLOYMENT_APPROVAL_STATUSES_def)
  ultimately show ?thesis
    using allowed_deployment_is_approved[of "\<lambda>_. Some 5" 5 demo_approval "castApproval demo_approval" 5
        "\<lparr>ex_releaseId = ''r'', ex_gitSha = ''abcdef0'', ex_imageDigests = [demo_digest]\<rparr>"]
      demo_digest_ok by simp
qed

text \<open>An approval whose expiry does not parse never expires by \<open>isDeployAllowed\<close> alone.\<close>

lemma unparsed_expiry_never_expires:
  "isDeployAllowed (\<lambda>_. None) now
     (castApproval (demo_approval\<lparr>qa_expiresAt := Some ''soon''\<rparr>))
     \<lparr>ex_releaseId = ''r'', ex_gitSha = ''abcdef0'', ex_imageDigests = [demo_digest]\<rparr>"
  by (simp add: isDeployAllowed_iff castApproval_def demo_approval_def dateBefore_def
      DEPLOYMENT_APPROVAL_STATUSES_def)

text \<open>
  \<open>exposes v\<close>: somewhere in \<open>v\<close> a secret-like key has a value other than the redaction mark,
  or a string looks like a secret.
\<close>

fun exposes :: "json \<Rightarrow> bool" where
  "exposes (JStr s) = secretLikeString s"
| "exposes (JArr xs) = list_ex exposes xs"
| "exposes (JObj kvs) = list_ex (\<lambda>(k, v).
     (secretLikeKey k \<and> v \<noteq> JStr ''[redacted]'') \<or> exposes v) kvs"
| "exposes v = False"

lemma redacted_mark [simp]: "\<not> secretLikeString ''[redacted]''"
  by (simp add: secretLikeString_def units_ascii)

lemma redact_safe: "\<not> exposes (redactSecretLike v)"
  by (induction v rule: redactSecretLike.induct) (auto simp: list_ex_iff split: if_splits)

lemma redact_unexposed: "\<not> exposes v \<Longrightarrow> redactSecretLike v = v"
  by (induction v rule: redactSecretLike.induct)
    (auto simp: list_ex_iff intro!: map_idI split: prod.splits)

text \<open>Redaction does what its patterns say at any depth: in the redacted value no key that they match
keeps a value and no string value is one they match; a value without such is returned as it is, so
redacting twice is redacting once.  Keys are not redacted.\<close>

lemma redaction_complete:
  "\<not> exposes (redactSecretLike v) \<and> (exposes v \<or> redactSecretLike v = v)
   \<and> redactSecretLike (redactSecretLike v) = redactSecretLike v"
  using redact_safe redact_unexposed by blast

lemma redaction_complete_witness:
  "redactSecretLike (redactSecretLike (JStr ''x'')) = redactSecretLike (JStr ''x'')"
  using redaction_complete[of "JStr ''x''"] by simp

definition spaced :: "int \<Rightarrow> captured_alert list \<Rightarrow> bool" where
  "spaced windowMs = sorted_wrt (\<lambda>a b. ca_fingerprint a = ca_fingerprint b \<longrightarrow>
     ca_capturedAt a + windowMs \<le> ca_capturedAt b)"

definition emptyPipeline :: alert_pipeline where
  "emptyPipeline = \<lparr>captured = [], routed = [], lastSent = Map.empty\<rparr>"

definition pipelineInv :: "int \<Rightarrow> alert_pipeline \<Rightarrow> bool" where
  "pipelineInv windowMs s \<longleftrightarrow> routed s = captured s \<and> spaced windowMs (captured s)
     \<and> (\<forall>a\<in>set (captured s). \<exists>t. lastSent s (ca_fingerprint a) = Some t \<and> ca_capturedAt a \<le> t)"

lemma pipelineInv_emit:
  assumes "pipelineInv windowMs s" and "0 \<le> windowMs"
  shows "pipelineInv windowMs (snd (emit windowMs i s))"
proof (cases "fst (emit windowMs i s)")
  case None
  then have "snd (emit windowMs i s) = s"
    by (auto simp: emit_def Let_def split: if_splits)
  then show ?thesis using assms by simp
next
  case (Some alert)
  let ?fp = "fingerprintAlert (ain_definitionId i) (ain_dedupeKey i)"
  have late: "t + windowMs \<le> ain_now i" if "lastSent s ?fp = Some t" for t
    using Some that by (auto simp: emit_def Let_def split: if_splits)
  have a: "ca_fingerprint alert = ?fp" "ca_capturedAt alert = ain_now i"
    and s': "snd (emit windowMs i s) = s\<lparr>captured := captured s @ [alert],
       routed := routed s @ [alert], lastSent := (lastSent s)(?fp \<mapsto> ain_now i)\<rparr>"
    using Some by (auto simp: emit_def Let_def split: if_splits)
  have prior: "ca_capturedAt x + windowMs \<le> ain_now i"
    if "x \<in> set (captured s)" "ca_fingerprint x = ?fp" for x
    using assms(1) that late unfolding pipelineInv_def by fastforce
  show ?thesis
    unfolding s' pipelineInv_def
    using assms prior a by (auto simp: pipelineInv_def spaced_def sorted_wrt_append) force
qed

lemma pipelineInv_emitAll:
  "pipelineInv windowMs s \<Longrightarrow> 0 \<le> windowMs \<Longrightarrow> pipelineInv windowMs (emitAll windowMs inputs s)"
  unfolding emitAll_def by (induction inputs arbitrary: s) (auto intro: pipelineInv_emit)

text \<open>The alert pipeline never repeats an alert within its window: whatever is emitted in
whatever order, with any clock readings, two captured alerts with the same fingerprint are at
least the window apart in the order of their capture, and the router was sent exactly what the
sink captured.\<close>

lemma alerts_deduplicated:
  assumes "0 \<le> windowMs" and "i < j" and "j < length (captured (emitAll windowMs inputs emptyPipeline))"
    and "ca_fingerprint (captured (emitAll windowMs inputs emptyPipeline) ! i)
       = ca_fingerprint (captured (emitAll windowMs inputs emptyPipeline) ! j)"
  shows "ca_capturedAt (captured (emitAll windowMs inputs emptyPipeline) ! i) + windowMs
       \<le> ca_capturedAt (captured (emitAll windowMs inputs emptyPipeline) ! j)
    \<and> routed (emitAll windowMs inputs emptyPipeline) = captured (emitAll windowMs inputs emptyPipeline)"
proof -
  have "pipelineInv windowMs (emitAll windowMs inputs emptyPipeline)"
    using assms(1) by (intro pipelineInv_emitAll)
      (simp_all add: pipelineInv_def emptyPipeline_def spaced_def)
  then show ?thesis
    using assms(2-4) by (auto simp: pipelineInv_def spaced_def sorted_wrt_iff_nth_less)
qed

definition demo_alert :: "int \<Rightarrow> alert_input" where
  "demo_alert t = \<lparr>ain_definitionId = ''d'', ain_dedupeKey = ''k'', ain_severity = AS_critical,
     ain_message = ''m'', ain_now = t\<rparr>"

lemma alerts_deduplicated_witness:
  "map ca_capturedAt (captured (emitAll 60 [demo_alert 0, demo_alert 30, demo_alert 70] emptyPipeline))
     = [0, 70]
   \<and> ca_capturedAt (captured (emitAll 60 [demo_alert 0, demo_alert 30, demo_alert 70] emptyPipeline) ! 0) + 60
       \<le> ca_capturedAt (captured (emitAll 60 [demo_alert 0, demo_alert 30, demo_alert 70] emptyPipeline) ! 1)"
proof -
  have run: "captured (emitAll 60 [demo_alert 0, demo_alert 30, demo_alert 70] emptyPipeline) =
    [\<lparr>ca_definitionId = ''d'', ca_dedupeKey = ''k'', ca_severity = AS_critical, ca_message = ''m'',
      ca_capturedAt = 0, ca_fingerprint = ''d::k''\<rparr>,
     \<lparr>ca_definitionId = ''d'', ca_dedupeKey = ''k'', ca_severity = AS_critical, ca_message = ''m'',
      ca_capturedAt = 70, ca_fingerprint = ''d::k''\<rparr>]"
    by (simp add: emitAll_def emit_def demo_alert_def emptyPipeline_def fingerprintAlert_def Let_def)
  show ?thesis
    using alerts_deduplicated[of 60 0 1 "[demo_alert 0, demo_alert 30, demo_alert 70]"]
    unfolding run by simp
qed

end
