(* ===== verification/Services.thy ===== *)
theory Services
  imports ProjectService
begin

text \<open>
  What the project services share.  Each of them asks for a capability on a project, parses the
  body with its zod schema and runs one transaction over its own tables, so its state is that of
  the web application with a database \<open>'db\<close> beside it.  \<open>projectService\<close> is this
  frame; \<open>projectService_cases\<close> says that a request either leaves the tables as they
  were or is a run of its body by a caller who holds the capability.
\<close>

section \<open>State and steps\<close>

record 'db app_state =
  ap_web :: web_state
  ap_db :: 'db

type_synonym ('db, 'a) svc = "('db app_state, 'a) handler"

definition onApp :: "'a web \<Rightarrow> ('db, 'a) svc" where
  "onApp m = zoomH ap_web (\<lambda>w s. s\<lparr>ap_web := w\<rparr>) m"

definition accessP :: "string \<Rightarrow> capability \<Rightarrow> ('db, project_context) svc" where
  "accessP projectId cap = onApp (requireProjectCapability projectId cap)"

definition readDb :: "('db \<Rightarrow> 'a) \<Rightarrow> ('db, 'a) svc" where
  "readDb f = readH (\<lambda>s. f (ap_db s))"

definition writeDb :: "('db \<Rightarrow> 'db) \<Rightarrow> ('db, unit) svc" where
  "writeDb g = writeH (\<lambda>s. s\<lparr>ap_db := g (ap_db s)\<rparr>)"

text \<open>\<open>const row = await findFirst(...); if (!row) throw ...\<close>\<close>

definition findOr :: "app_error \<Rightarrow> ('db \<Rightarrow> 'a option) \<Rightarrow> ('db, 'a) svc" where
  "findOr e q = bindH (readDb q) (\<lambda>found. case found of None \<Rightarrow> throwH e | Some x \<Rightarrow> returnH x)"

definition someH :: "app_error \<Rightarrow> 'a option \<Rightarrow> ('s, 'a) handler" where
  "someH e x = (case x of None \<Rightarrow> throwH e | Some y \<Rightarrow> returnH y)"

definition parseH :: "string \<Rightarrow> ('raw \<Rightarrow> string list + 'in) \<Rightarrow> 'raw \<Rightarrow> ('s, 'in) handler" where
  "parseH message safeParse rawInput = (case safeParse rawInput of
     Inl issues \<Rightarrow> throwH (validationError message (Some issues))
   | Inr data \<Rightarrow> returnH data)"

definition auditP :: "project_context \<Rightarrow> string \<Rightarrow> string \<Rightarrow> string \<Rightarrow> string \<Rightarrow> ('db, unit) svc" where
  "auditP ctx projectId action entityType entityId = onApp (writeAuditLog
     \<lparr>au_tenantId = Some (cx_tenantId ctx), au_projectId = Some projectId,
      au_actorUserId = Some (su_id (cx_user ctx)), au_action = action,
      au_entityType = entityType, au_entityId = Some entityId\<rparr>)"

definition userId :: "project_context \<Rightarrow> string" where
  "userId ctx = su_id (cx_user ctx)"

text \<open>The frame of a service function with a body, and of one without.\<close>

definition projectService ::
  "string \<Rightarrow> capability \<Rightarrow> string \<Rightarrow> ('raw \<Rightarrow> string list + 'in) \<Rightarrow> 'raw \<Rightarrow>
   (project_context \<Rightarrow> 'in \<Rightarrow> ('db, 'a) svc) \<Rightarrow> ('db, 'a) svc" where
  "projectService projectId cap message safeParse rawInput body =
     bindH (accessP projectId cap) (\<lambda>ctx.
     bindH (parseH message safeParse rawInput) (\<lambda>data. transactionH (body ctx data)))"

definition projectAction ::
  "string \<Rightarrow> capability \<Rightarrow> (project_context \<Rightarrow> ('db, 'a) svc) \<Rightarrow> ('db, 'a) svc" where
  "projectAction projectId cap body =
     bindH (accessP projectId cap) (\<lambda>ctx. transactionH (body ctx))"

text \<open>\<open>(_max ?? 0) + 1\<close>\<close>

definition nextNumber :: "nat list \<Rightarrow> nat" where
  "nextNumber ns = foldr max ns 0 + 1"

section \<open>Runs of a step\<close>

lemma readDb_run [simp]: "readDb f s = (Inr (f (ap_db s)), s)"
  by (simp add: readDb_def)

lemma writeDb_run [simp]: "writeDb g s = (Inr (), s\<lparr>ap_db := g (ap_db s)\<rparr>)"
  by (simp add: writeDb_def)

lemma readDb_Inr [ok_iff]: "readDb f s = (Inr x, t) \<longleftrightarrow> t = s \<and> x = f (ap_db s)"
  by auto

lemma writeDb_Inr [ok_iff]: "writeDb g s = (Inr x, t) \<longleftrightarrow> t = s\<lparr>ap_db := g (ap_db s)\<rparr>"
  by auto

lemma findOr_run [simp]:
  "q (ap_db s) = None \<Longrightarrow> findOr e q s = (Inl e, s)"
  "q (ap_db s) = Some x \<Longrightarrow> findOr e q s = (Inr x, s)"
  by (simp_all add: findOr_def)

lemma findOr_Inr [ok_iff]: "findOr e q s = (Inr x, t) \<longleftrightarrow> t = s \<and> q (ap_db s) = Some x"
  by (cases "q (ap_db s)") auto

lemma someH_run [simp]: "someH e None s = (Inl e, s)" "someH e (Some y) s = (Inr y, s)"
  by (simp_all add: someH_def)

lemma someH_Inr [ok_iff]: "someH e x s = (Inr y, t) \<longleftrightarrow> t = s \<and> x = Some y"
  by (cases x) auto

lemma parseH_run [simp]:
  "sp raw = Inl i \<Longrightarrow> parseH m sp raw s = (Inl (validationError m (Some i)), s)"
  "sp raw = Inr d \<Longrightarrow> parseH m sp raw s = (Inr d, s)"
  by (simp_all add: parseH_def)

lemma parseH_Inr [ok_iff]: "parseH m sp raw s = (Inr d, t) \<longleftrightarrow> t = s \<and> sp raw = Inr d"
  by (cases "sp raw") auto

lemma auditP_run [simp]:
  "auditP ctx pid a b c s = (Inr (), s\<lparr>ap_web := (ap_web s)\<lparr>audit_log := audit_log (ap_web s) @
     [\<lparr>au_tenantId = Some (cx_tenantId ctx), au_projectId = Some pid,
       au_actorUserId = Some (su_id (cx_user ctx)), au_action = a, au_entityType = b,
       au_entityId = Some c\<rparr>]\<rparr>\<rparr>)"
  by (simp add: auditP_def onApp_def zoomH_def writeAuditLog_def)

lemma auditP_Inr [ok_iff]:
  "auditP ctx pid a b c s = (Inr x, t) \<longleftrightarrow>
     t = s\<lparr>ap_web := (ap_web s)\<lparr>audit_log := audit_log (ap_web s) @
     [\<lparr>au_tenantId = Some (cx_tenantId ctx), au_projectId = Some pid,
       au_actorUserId = Some (su_id (cx_user ctx)), au_action = a, au_entityType = b,
       au_entityId = Some c\<rparr>]\<rparr>\<rparr>"
  by auto

text \<open>A granted capability: nothing was written and the context is the caller's.\<close>

lemma accessP_ok:
  assumes "accessP pid cap s = (Inr ctx, t)"
  shows "t = s \<and> projectAccess (ap_web s) pid ctx \<and> cap \<in> cx_capabilities ctx"
  using assms requireProjectCapability_ok[of pid cap "ap_web s" ctx]
  by (auto simp: accessP_def onApp_def ok_iff)

lemma accessP_db: "accessP pid cap s = (r, t) \<Longrightarrow> ap_db t = ap_db s"
  by (auto simp: accessP_def onApp_def zoomH_def split: prod.splits)

section \<open>What a request does\<close>

text \<open>\<open>granted s pid cap ctx\<close>: the caller's context on the project, with the capability.\<close>

definition granted :: "'db app_state \<Rightarrow> string \<Rightarrow> capability \<Rightarrow> project_context \<Rightarrow> bool" where
  "granted s pid cap ctx \<longleftrightarrow> accessP pid cap s = (Inr ctx, s)"

lemma granted_access:
  "granted s pid cap ctx \<Longrightarrow> projectAccess (ap_web s) pid ctx \<and> cap \<in> cx_capabilities ctx"
  using accessP_ok[of pid cap s ctx s] by (simp add: granted_def)

lemma granted_project:
  "granted s pid cap ctx \<Longrightarrow> prj_id (cx_project ctx) = pid \<and> prj_tenantId (cx_project ctx) = cx_tenantId ctx"
  by (drule granted_access) (auto simp: projectAccess_def findProject_def dest!: find_SomeD)

lemma projectService_cases:
  assumes "projectService pid cap msg sp raw body s = (r, t)"
  obtains (refused) e where "r = Inl e" "ap_db t = ap_db s"
    | (ran) ctx data x where "granted s pid cap ctx" "sp raw = Inr data"
      "body ctx data s = (Inr x, t)" "r = Inr x"
proof (cases "accessP pid cap s")
  case (Pair a u)
  show ?thesis
  proof (cases a)
    case (Inl e)
    then show ?thesis
      using assms Pair accessP_db[OF Pair] by (intro refused[of e]) (auto simp: projectService_def)
  next
    case (Inr ctx)
    then have us: "u = s" using Pair accessP_ok[of pid cap s ctx u] by simp
    show ?thesis
    proof (cases "sp raw")
      case (Inl i)
      then show ?thesis using assms Pair Inr us
        by (intro refused[of "validationError msg (Some i)"]) (auto simp: projectService_def)
    next
      case sp: (Inr data)
      then have "transactionH (body ctx data) s = (r, t)"
        using assms Pair Inr us by (simp add: projectService_def)
      then show ?thesis
        using Pair Inr us sp
        by (cases r) (auto simp: granted_def transactionH_Inl transactionH_Inr intro: refused ran)
    qed
  qed
qed

lemma projectAction_cases:
  assumes "projectAction pid cap body s = (r, t)"
  obtains (refused) e where "r = Inl e" "ap_db t = ap_db s"
    | (ran) ctx x where "granted s pid cap ctx" "body ctx s = (Inr x, t)" "r = Inr x"
proof (cases "accessP pid cap s")
  case (Pair a u)
  show ?thesis
  proof (cases a)
    case (Inl e)
    then show ?thesis
      using assms Pair accessP_db[OF Pair] by (intro refused[of e]) (auto simp: projectAction_def)
  next
    case (Inr ctx)
    then have us: "u = s" using Pair accessP_ok[of pid cap s ctx u] by simp
    then have "transactionH (body ctx) s = (r, t)"
      using assms Pair Inr by (simp add: projectAction_def)
    then show ?thesis
      using Pair Inr us
      by (cases r) (auto simp: granted_def transactionH_Inl transactionH_Inr intro: refused ran)
  qed
qed

text \<open>A request of a caller who is granted the capability runs its body in a transaction.\<close>

lemma projectService_run:
  "granted s pid cap ctx \<Longrightarrow> sp raw = Inr data \<Longrightarrow>
    projectService pid cap msg sp raw body s = transactionH (body ctx data) s"
  by (simp add: projectService_def granted_def)

lemma projectAction_run:
  "granted s pid cap ctx \<Longrightarrow> projectAction pid cap body s = transactionH (body ctx) s"
  by (simp add: projectAction_def granted_def)

lemma transactionH_run [simp]:
  "m s = (Inr x, t) \<Longrightarrow> transactionH m s = (Inr x, t)"
  "m s = (Inl e, t) \<Longrightarrow> transactionH m s = (Inl e, s)"
  by (simp_all add: transactionH_def)

section \<open>Relations the tables keep\<close>

text \<open>
  A relation between the tables before and after that holds of every completed body holds of
  every request: refusals leave the tables alone.
\<close>

locale tables_relation =
  fixes R :: "'db \<Rightarrow> 'db \<Rightarrow> bool"
  assumes same: "R d d"
begin

lemma service_keeps:
  assumes "projectService pid cap msg sp raw body s = (r, t)"
    and "\<And>ctx data x u. granted s pid cap ctx \<Longrightarrow> sp raw = Inr data \<Longrightarrow>
      body ctx data s = (Inr x, u) \<Longrightarrow> R (ap_db s) (ap_db u)"
  shows "R (ap_db s) (ap_db t)"
  using assms(1)
proof (cases rule: projectService_cases)
  case refused
  then show ?thesis using same[of "ap_db s"] by simp
next
  case (ran ctx data x)
  then show ?thesis by (blast intro: assms(2))
qed

lemma action_keeps:
  assumes "projectAction pid cap body s = (r, t)"
    and "\<And>ctx x u. granted s pid cap ctx \<Longrightarrow> body ctx s = (Inr x, u) \<Longrightarrow> R (ap_db s) (ap_db u)"
  shows "R (ap_db s) (ap_db t)"
  using assms(1)
proof (cases rule: projectAction_cases)
  case refused
  then show ?thesis using same[of "ap_db s"] by simp
next
  case (ran ctx x)
  then show ?thesis by (blast intro: assms(2))
qed

end

section \<open>A caller for the examples\<close>

definition demo_app :: "'db \<Rightarrow> 'db app_state" where
  "demo_app d = \<lparr>ap_web = demo_state, ap_db = d\<rparr>"

abbreviation demo_ctx :: project_context where
  "demo_ctx \<equiv> demo_context (demo_project ''p1'' ''A'' P_ACTIVE)"

lemma demo_ctx_simps [simp]: "cx_tenantId demo_ctx = ''A''" "userId demo_ctx = ''u1''"
  by (simp_all add: demo_context_def demo_user_def userId_def)

text \<open>The owner of the first organization holds every capability on its active project.\<close>

lemma demo_granted:
  assumes "cap \<in> resolveCapabilities TENANT_OWNER None (Some P_ACTIVE)"
    and "ap_web s = demo_state\<lparr>audit_log := l\<rparr>"
  shows "granted s ''p1'' cap demo_ctx"
proof -
  have "getAuthorizedProject ''p1'' (demo_state\<lparr>audit_log := l\<rparr>)
      = (Inr demo_ctx, demo_state\<lparr>audit_log := l\<rparr>)"
    by (simp add: getAuthorizedProject_def requireTenantMembership_def bindH_def transactionH_def
      requireAuthenticatedUser_def resolveMembership_def findTenantMembership_def Let_def
      loadAuthorizedProject_def findProject_def findProjectMembership_def demo_defs
      demo_context_def tenantRoleCanAccessAllTenantProjects_def)
  then have "requireProjectCapability ''p1'' cap (demo_state\<lparr>audit_log := l\<rparr>)
      = (Inr demo_ctx, demo_state\<lparr>audit_log := l\<rparr>)"
    using assms(1) by (simp add: requireProjectCapability_def requireProjectAccess_def bindH_def
      hasCapability_def demo_context_def demo_project_def owner_capabilities)
  then show ?thesis
    using assms(2) by (simp add: granted_def accessP_def onApp_def zoomH_def)
qed

end
