(* ===== verification/NoticeDelivery.thy ===== *)
theory NoticeDelivery
  imports Prelude "HOL-Library.Multiset" "HOL-Library.List_Lexorder" "HOL-Library.Char_ord"
begin

text \<open>
  The rules of notice delivery (\<open>packages/notice-delivery/src\<close>: \<open>types.ts\<close>,
  \<open>domain.ts\<close> and \<open>providers.ts\<close>).  The digest \<open>sha256Hex\<close> and
  \<open>toISOString\<close> are the parameters \<open>sha\<close> and \<open>isoOf\<close>; a \<open>Date\<close> is
  its number of milliseconds since 1970.
\<close>

section \<open>Types\<close>

datatype dispatch_channel =
    MANUAL_COURIER | MANUAL_HAND_DELIVERY | MANUAL_REGISTERED_POST | MANUAL_EMAIL | MANUAL_EDMS
    | MANUAL_LETTER | CONTROLLED_EMAIL | FUTURE_ACONEX | FUTURE_ASITE | FUTURE_PROCORE | FUTURE_ACC
    | FUTURE_SHAREPOINT | FUTURE_EDMS | FUTURE_PORTAL

fun channel_name :: "dispatch_channel \<Rightarrow> string" where
  "channel_name MANUAL_COURIER = ''MANUAL_COURIER''"
| "channel_name MANUAL_HAND_DELIVERY = ''MANUAL_HAND_DELIVERY''"
| "channel_name MANUAL_REGISTERED_POST = ''MANUAL_REGISTERED_POST''"
| "channel_name MANUAL_EMAIL = ''MANUAL_EMAIL''"
| "channel_name MANUAL_EDMS = ''MANUAL_EDMS''"
| "channel_name MANUAL_LETTER = ''MANUAL_LETTER''"
| "channel_name CONTROLLED_EMAIL = ''CONTROLLED_EMAIL''"
| "channel_name FUTURE_ACONEX = ''FUTURE_ACONEX''"
| "channel_name FUTURE_ASITE = ''FUTURE_ASITE''"
| "channel_name FUTURE_PROCORE = ''FUTURE_PROCORE''"
| "channel_name FUTURE_ACC = ''FUTURE_ACC''"
| "channel_name FUTURE_SHAREPOINT = ''FUTURE_SHAREPOINT''"
| "channel_name FUTURE_EDMS = ''FUTURE_EDMS''"
| "channel_name FUTURE_PORTAL = ''FUTURE_PORTAL''"

definition OPERATIONAL_CHANNELS :: "dispatch_channel list" where
  "OPERATIONAL_CHANNELS = [MANUAL_COURIER, MANUAL_HAND_DELIVERY, MANUAL_REGISTERED_POST,
     MANUAL_EMAIL, MANUAL_EDMS, MANUAL_LETTER, CONTROLLED_EMAIL]"

datatype authorization_status =
    AU_DRAFT | AU_REQUESTED | AU_UNDER_REVIEW | AU_AUTHORIZED | AU_REJECTED | AU_EXPIRED
    | AU_REVOKED | AU_USED | AU_CANCELLED

fun authorization_status_name :: "authorization_status \<Rightarrow> string" where
  "authorization_status_name AU_DRAFT = ''DRAFT''"
| "authorization_status_name AU_REQUESTED = ''REQUESTED''"
| "authorization_status_name AU_UNDER_REVIEW = ''UNDER_REVIEW''"
| "authorization_status_name AU_AUTHORIZED = ''AUTHORIZED''"
| "authorization_status_name AU_REJECTED = ''REJECTED''"
| "authorization_status_name AU_EXPIRED = ''EXPIRED''"
| "authorization_status_name AU_REVOKED = ''REVOKED''"
| "authorization_status_name AU_USED = ''USED''"
| "authorization_status_name AU_CANCELLED = ''CANCELLED''"

datatype attempt_status =
    AT_PREPARED | AT_QUEUED | AT_SENDING | AT_SUBMITTED | AT_SENT | AT_DELIVERY_PENDING
    | AT_DELIVERED | AT_FAILED | AT_CANCELLED | AT_PARTIALLY_DELIVERED
    | AT_MANUAL_DISPATCH_RECORDED | AT_AWAITING_EVIDENCE | AT_UNCERTAIN_MANUAL_REVIEW

datatype recipient_status =
    RP_PENDING | RP_SUBMITTED | RP_SENT | RP_DELIVERED | RP_BOUNCED | RP_REJECTED | RP_FAILED
    | RP_ACKNOWLEDGED | RP_UNKNOWN | RP_MANUALLY_CONFIRMED

datatype receipt_status =
    RC_UNKNOWN | RC_PROVIDER_ACCEPTED | RC_SENT | RC_DELIVERED | RC_ACKNOWLEDGED | RC_BOUNCED
    | RC_REFUSED | RC_DISPUTED | RC_MANUALLY_CONFIRMED

datatype contractual_service_status =
    CS_NOT_ASSESSED | CS_EVIDENCE_INCOMPLETE | CS_POTENTIALLY_SATISFIED | CS_REVIEW_REQUIRED
    | CS_HUMAN_CONFIRMED | CS_DISPUTED

datatype risk_level = RL_LOW | RL_MEDIUM | RL_HIGH | RL_CRITICAL | RL_UNKNOWN

datatype retry_class = SAFE_AUTO_BEFORE_SUBMISSION | MANUAL_REVIEW_REQUIRED | TERMINAL

record recipient_snapshot =
  rs_preparationId :: string
  rs_displayName :: string
  rs_emailAddress :: "string option"
  rs_physicalAddress :: "string option"
  rs_platformAddress :: "string option"
  rs_attentionLine :: "string option"
  rs_method :: string
  rs_copiedRecipient :: bool
  rs_required :: bool

record attachment_snapshot =
  as_attachmentId :: string
  as_filename :: string
  as_checksumSha256 :: string
  as_sequence :: int
  as_mimeType :: "string option"

record cover_snapshot =
  cm_subject :: string
  cm_plainText :: string
  cm_htmlSafe :: "string option"
  cm_checksumSha256 :: string

section \<open>Channels and the status of an attempt\<close>

definition isOperationalChannel :: "string \<Rightarrow> bool" where
  "isOperationalChannel channel \<longleftrightarrow> channel \<in> set (map channel_name OPERATIONAL_CHANNELS)"

definition isFutureChannel :: "string \<Rightarrow> bool" where
  "isFutureChannel channel = startsWith channel ''FUTURE_''"

definition deliveredLike :: "recipient_status list" where
  "deliveredLike = [RP_DELIVERED, RP_ACKNOWLEDGED, RP_MANUALLY_CONFIRMED]"

definition sentLike :: "recipient_status list" where
  "sentLike = [RP_SENT, RP_DELIVERED, RP_ACKNOWLEDGED, RP_MANUALLY_CONFIRMED]"

definition failedLike :: "recipient_status list" where
  "failedLike = [RP_FAILED, RP_BOUNCED, RP_REJECTED]"

definition openOrFailed :: "recipient_status list" where
  "openOrFailed = [RP_FAILED, RP_BOUNCED, RP_REJECTED, RP_PENDING, RP_UNKNOWN]"

definition aggregateRecipientStatus :: "recipient_status list \<Rightarrow> attempt_status" where
  "aggregateRecipientStatus statuses =
     (if statuses = [] then AT_FAILED
      else if list_all (\<lambda>s. s \<in> set deliveredLike) statuses then AT_DELIVERED
      else if list_all (\<lambda>s. s \<in> set sentLike) statuses then AT_SENT
      else if list_all (\<lambda>s. s \<in> set failedLike) statuses then AT_FAILED
      else if list_ex (\<lambda>s. s \<in> set sentLike) statuses
              \<and> list_ex (\<lambda>s. s \<in> set openOrFailed) statuses then AT_PARTIALLY_DELIVERED
      else if list_all (\<lambda>s. s = RP_SUBMITTED) statuses then AT_SUBMITTED
      else if list_all (\<lambda>s. s = RP_PENDING) statuses then AT_PREPARED
      else AT_DELIVERY_PENDING)"

section \<open>Keys, retries and checksums\<close>

record idempotency_input =
  ik_authorizationId :: string
  ik_channel :: string
  ik_attemptNumber :: nat
  ik_recipientPreparationIds :: "string list"

definition idempotencyText :: "idempotency_input \<Rightarrow> string" where
  "idempotencyText i = ik_authorizationId i @ ''|'' @ ik_channel i @ ''|''
     @ showNat (ik_attemptNumber i) @ ''|'' @ joinWith '','' (sort (ik_recipientPreparationIds i))"

definition buildIdempotencyKey :: "(string \<Rightarrow> string) \<Rightarrow> idempotency_input \<Rightarrow> string" where
  "buildIdempotencyKey sha i = sha (idempotencyText i)"

record retry_input =
  ry_providerAccepted :: bool
  ry_providerMessageId :: "string option"
  ry_failureCode :: "string option"
  ry_timedOutAfterSubmit :: bool
  ry_checksumMismatch :: bool
  ry_authorizationValid :: bool
  ry_artifactPresent :: bool

definition TERMINAL_FAILURES :: "string list" where
  "TERMINAL_FAILURES = [''INVALID_RECIPIENT'', ''UNAUTHORIZED_PROVIDER'',
     ''UNSUPPORTED_ATTACHMENT'', ''PROVIDER_REJECTION'', ''REVOKED'']"

definition terminalFailure :: "string option \<Rightarrow> bool" where
  "terminalFailure code \<longleftrightarrow> truthy code \<and> the code \<in> set TERMINAL_FAILURES"

definition classifyRetry :: "retry_input \<Rightarrow> retry_class" where
  "classifyRetry i =
     (if \<not> ry_authorizationValid i \<or> \<not> ry_artifactPresent i \<or> ry_checksumMismatch i then TERMINAL
      else if ry_timedOutAfterSubmit i \<or> (ry_providerAccepted i \<and> truthy (ry_providerMessageId i))
      then MANUAL_REVIEW_REQUIRED
      else if terminalFailure (ry_failureCode i) then TERMINAL
      else if \<not> ry_providerAccepted i \<and> \<not> truthy (ry_providerMessageId i)
      then SAFE_AUTO_BEFORE_SUBMISSION
      else MANUAL_REVIEW_REQUIRED)"

record snapshot_parts =
  sp_noticeChecksum :: string
  sp_bundleChecksum :: string
  sp_attachmentManifestChecksum :: string
  sp_recipientSnapshotJson :: string
  sp_coverChecksum :: string
  sp_channel :: string

definition snapshotText :: "(string \<Rightarrow> string) \<Rightarrow> snapshot_parts \<Rightarrow> string" where
  "snapshotText sha p = joinWith ''|'' [sp_noticeChecksum p, sp_bundleChecksum p,
     sp_attachmentManifestChecksum p, sha (sp_recipientSnapshotJson p), sp_coverChecksum p,
     sp_channel p]"

definition buildDispatchSnapshotChecksum :: "(string \<Rightarrow> string) \<Rightarrow> snapshot_parts \<Rightarrow> string" where
  "buildDispatchSnapshotChecksum sha p = sha (snapshotText sha p)"

section \<open>The cover message\<close>

text \<open>
  The regular expressions of \<open>sanitizeDispatchHtml\<close>.  In each of them the next character
  decides how far a part runs, so a match is found without backtracking: \<open>afterFirst\<close> is a
  lazy \<open>[\s\S]*?\<close> up to the first occurrence of a text.
\<close>

definition startsWithCi :: "string \<Rightarrow> string \<Rightarrow> bool" where
  "startsWithCi s p = startsWith (toLowerCase s) p"

fun afterFirst :: "string \<Rightarrow> string \<Rightarrow> string option" where
  "afterFirst p [] = (if p = [] then Some [] else None)"
| "afterFirst p (c # cs) = (if startsWithCi (c # cs) p then Some (drop (length p) (c # cs))
     else afterFirst p cs)"

text \<open>What is left after a match of \<open><tag[\s\S]*?>[\s\S]*?</tag>\<close> at the start.\<close>

definition matchBlock :: "string \<Rightarrow> string \<Rightarrow> string \<Rightarrow> string option" where
  "matchBlock opening closing s =
     (if startsWithCi s opening
      then Option.bind (afterFirst ''>'' (drop (length opening) s)) (afterFirst closing)
      else None)"

definition isWordChar :: "char \<Rightarrow> bool" where
  "isWordChar c = (let n = (of_char c :: nat)
     in (48 \<le> n \<and> n \<le> 57) \<or> (65 \<le> n \<and> n \<le> 90) \<or> (97 \<le> n \<and> n \<le> 122) \<or> n = 95)"

text \<open>\<open>(['"]).*?\1\<close>: a quote, the characters of the line up to the same quote.\<close>

fun matchQuoted :: "string \<Rightarrow> string option" where
  "matchQuoted [] = None"
| "matchQuoted (q # cs) = (if q \<noteq> CHR 34 \<and> q \<noteq> CHR 39 then None
     else (case dropWhile (\<lambda>c. c \<noteq> q \<and> c \<noteq> CHR 10 \<and> c \<noteq> CHR 13) cs of
       [] \<Rightarrow> None
     | c # rest \<Rightarrow> if c = q then Some rest else None))"

text \<open>What is left after a match of \<open>\s on \w+ \s* = \s* (['"]) .*? \1\<close> at the start.\<close>

definition matchHandler :: "string \<Rightarrow> string option" where
  "matchHandler s = (case s of
       [] \<Rightarrow> None
     | c # cs \<Rightarrow>
         if \<not> isSpaceChar c \<or> \<not> startsWithCi cs ''on'' then None
         else (let afterOn = drop 2 cs; afterWord = dropWhile isWordChar afterOn;
                   eq = dropWhile isSpaceChar afterWord
               in if length afterWord = length afterOn then None
                  else (case eq of
                      [] \<Rightarrow> None
                    | e # rest \<Rightarrow> if e = CHR ''='' then matchQuoted (dropWhile isSpaceChar rest)
                                else None)))"

definition matchScheme :: "string \<Rightarrow> string option" where
  "matchScheme s = (if startsWithCi s ''javascript:'' then Some (drop 11 s) else None)"

text \<open>
  \<open>replace(/.../g, '')\<close>: the matches from the left, none overlapping, are left out.  Every
  match here takes at least one character, so the test on the length only serves termination.
\<close>

fun removeMatches :: "(string \<Rightarrow> string option) \<Rightarrow> string \<Rightarrow> string" where
  "removeMatches m [] = []"
| "removeMatches m (c # cs) = (case m (c # cs) of
     Some rest \<Rightarrow> if length rest < Suc (length cs) then removeMatches m rest
                 else c # removeMatches m cs
   | None \<Rightarrow> c # removeMatches m cs)"

definition sanitizeDispatchHtml :: "string \<Rightarrow> string" where
  "sanitizeDispatchHtml html =
     removeMatches (matchBlock ''<iframe'' ''</iframe>'')
       (removeMatches matchScheme
         (removeMatches matchHandler
           (removeMatches (matchBlock ''<script'' ''</script>'') html)))"

record cover_input =
  ci_subject :: string
  ci_plainText :: string
  ci_htmlSafe :: "string option"

definition validateCoverMessage ::
  "(string \<Rightarrow> string) \<Rightarrow> cover_input \<Rightarrow> string + cover_snapshot" where
  "validateCoverMessage sha input = (let subject = trim (ci_subject input);
       plainText = trim (ci_plainText input) in
     if subject = [] then Inl ''SUBJECT_REQUIRED''
     else if 500 < length subject then Inl ''SUBJECT_TOO_LONG''
     else if list_ex (\<lambda>c. c = CHR 13 \<or> c = CHR 10) subject then Inl ''SUBJECT_HEADER_INJECTION''
     else if plainText = [] then Inl ''BODY_REQUIRED''
     else if includesStr (toLowerCase plainText) ''[internal]''
             \<or> includesStr (toLowerCase plainText) ''confidence''
     then Inl ''INTERNAL_CONTENT_FORBIDDEN''
     else (let htmlSafe = (if truthy (ci_htmlSafe input)
                           then Some (sanitizeDispatchHtml (the (ci_htmlSafe input))) else None)
       in Inr \<lparr>cm_subject = subject, cm_plainText = plainText, cm_htmlSafe = htmlSafe,
               cm_checksumSha256 = sha (subject @ [CHR 10] @ plainText @ [CHR 10]
                 @ (case htmlSafe of None \<Rightarrow> [] | Some h \<Rightarrow> h))\<rparr>))"

section \<open>Recipients and attachments\<close>

definition recipientError :: "recipient_snapshot \<Rightarrow> string option" where
  "recipientError r =
     (if trim (rs_displayName r) = [] then Some ''MISSING_DISPLAY_NAME''
      else if \<not> truthy (rs_emailAddress r) \<and> \<not> truthy (rs_physicalAddress r)
              \<and> \<not> truthy (rs_platformAddress r) then Some ''MISSING_CONTACT''
      else if rs_method r = [] then Some ''MISSING_METHOD''
      else None)"

fun firstError :: "('a \<Rightarrow> string option) \<Rightarrow> 'a list \<Rightarrow> string + unit" where
  "firstError f [] = Inr ()"
| "firstError f (x # xs) = (case f x of Some e \<Rightarrow> Inl e | None \<Rightarrow> firstError f xs)"

definition validateRecipientsForDispatch :: "recipient_snapshot list \<Rightarrow> string + unit" where
  "validateRecipientsForDispatch recipients =
     (if recipients = [] then Inl ''NO_RECIPIENTS''
      else if filter rs_required recipients = [] then Inl ''NO_REQUIRED_RECIPIENT''
      else firstError recipientError (filter rs_required recipients))"

text \<open>\<open>new Map\<close> keeps the last attachment of an id.\<close>

definition attachmentById :: "attachment_snapshot list \<Rightarrow> string \<Rightarrow> attachment_snapshot option" where
  "attachmentById attachments i = find (\<lambda>a. as_attachmentId a = i) (rev attachments)"

definition attachmentError ::
  "attachment_snapshot list \<Rightarrow> attachment_snapshot \<Rightarrow> string option" where
  "attachmentError attachments e = (case attachmentById attachments (as_attachmentId e) of
       None \<Rightarrow> Some ''ATTACHMENT_MISSING''
     | Some a \<Rightarrow>
         if as_checksumSha256 a \<noteq> as_checksumSha256 e then Some ''ATTACHMENT_CHECKSUM_MISMATCH''
         else if as_filename a \<noteq> as_filename e then Some ''ATTACHMENT_FILENAME_MISMATCH''
         else None)"

definition validateAttachmentChecksums ::
  "attachment_snapshot list \<Rightarrow> attachment_snapshot list \<Rightarrow> string + unit" where
  "validateAttachmentChecksums attachments expected =
     (if length attachments \<noteq> length expected then Inl ''ATTACHMENT_COUNT_MISMATCH''
      else firstError (attachmentError attachments) expected)"

section \<open>Risk\<close>

record risk_input =
  rk_deadlineAt :: "int option"
  rk_missingVerifiedRecipient :: bool
  rk_providerConfigured :: bool
  rk_attachmentOverLimit :: bool
  rk_requiredRecipientFailed :: bool
  rk_receiptUnconfirmed :: bool
  rk_authorizationExpired :: bool
  rk_manualProofMissing :: bool
  rk_dispatchedAfterDeadline :: bool
  rk_methodNotPermitted :: bool

text \<open>The position in the \<open>order\<close> array of \<open>bump\<close>.\<close>

fun riskOrder :: "risk_level \<Rightarrow> nat" where
  "riskOrder RL_LOW = 0"
| "riskOrder RL_MEDIUM = 1"
| "riskOrder RL_HIGH = 2"
| "riskOrder RL_CRITICAL = 3"
| "riskOrder RL_UNKNOWN = 4"

definition bump :: "risk_level \<Rightarrow> string \<Rightarrow> risk_level \<times> string list \<Rightarrow> risk_level \<times> string list" where
  "bump next code s = (if riskOrder (fst s) < riskOrder next then next else fst s, snd s @ [code])"

definition bumpIf ::
  "bool \<Rightarrow> risk_level \<Rightarrow> string \<Rightarrow> risk_level \<times> string list \<Rightarrow> risk_level \<times> string list" where
  "bumpIf b next code s = (if b then bump next code s else s)"

definition computeDeliveryRisk :: "int \<Rightarrow> risk_input \<Rightarrow> risk_level \<times> string list" where
  "computeDeliveryRisk now i = (let
     s = (RL_LOW, []);
     s = bumpIf (rk_missingVerifiedRecipient i) RL_CRITICAL ''MISSING_VERIFIED_RECIPIENT'' s;
     s = bumpIf (rk_authorizationExpired i) RL_CRITICAL ''AUTHORIZATION_EXPIRED'' s;
     s = bumpIf (rk_methodNotPermitted i) RL_HIGH ''METHOD_NOT_PERMITTED'' s;
     s = bumpIf (rk_attachmentOverLimit i) RL_HIGH ''ATTACHMENT_OVER_LIMIT'' s;
     s = bumpIf (\<not> rk_providerConfigured i) RL_HIGH ''PROVIDER_UNAVAILABLE'' s;
     s = bumpIf (rk_requiredRecipientFailed i) RL_HIGH ''REQUIRED_RECIPIENT_FAILED'' s;
     s = bumpIf (rk_manualProofMissing i) RL_MEDIUM ''MANUAL_PROOF_MISSING'' s;
     s = bumpIf (rk_receiptUnconfirmed i) RL_MEDIUM ''RECEIPT_UNCONFIRMED'' s;
     s = bumpIf (rk_dispatchedAfterDeadline i) RL_CRITICAL ''DISPATCHED_AFTER_DEADLINE'' s
   in (case rk_deadlineAt i of
       None \<Rightarrow> s
     | Some d \<Rightarrow>
         if d - now < 0 then bump RL_CRITICAL ''DEADLINE_PASSED'' s
         else if d - now \<le> 24 * 3600000 then bump RL_HIGH ''DEADLINE_WITHIN_24H'' s
         else s))"

section \<open>Deemed receipt\<close>

datatype deemed_rule =
    ACTUAL_DELIVERY | ON_TRANSMISSION | NEXT_WORKING_DAY | POSTAL_PERIOD | PLATFORM_SUBMISSION
    | NO_RULE

fun deemed_rule_name :: "deemed_rule \<Rightarrow> string" where
  "deemed_rule_name ACTUAL_DELIVERY = ''ACTUAL_DELIVERY''"
| "deemed_rule_name ON_TRANSMISSION = ''ON_TRANSMISSION''"
| "deemed_rule_name NEXT_WORKING_DAY = ''NEXT_WORKING_DAY''"
| "deemed_rule_name POSTAL_PERIOD = ''POSTAL_PERIOD''"
| "deemed_rule_name PLATFORM_SUBMISSION = ''PLATFORM_SUBMISSION''"
| "deemed_rule_name NO_RULE = ''NONE''"

record deemed_input =
  di_rule :: deemed_rule
  di_sentAt :: "int option"
  di_deliveredAt :: "int option"
  di_postalDays :: "int option"
  di_isWorkingDay :: "(int \<Rightarrow> bool) option"

record deemed_result =
  dr_advisoryAt :: "int option"
  dr_ambiguity :: "string option"
  dr_trace :: "string list"

definition DAY_MS :: int where
  "DAY_MS = 24 * 3600 * 1000"

text \<open>\<open>getUTCDay\<close>: the first of January 1970 was a Thursday.\<close>

definition getUTCDay :: "int \<Rightarrow> int" where
  "getUTCDay t = (t div DAY_MS + 4) mod 7"

definition defaultIsWorking :: "int \<Rightarrow> bool" where
  "defaultIsWorking d \<longleftrightarrow> getUTCDay d \<noteq> 0 \<and> getUTCDay d \<noteq> 6"

text \<open>The loop with its counter: the cursor and the guard it ends with.\<close>

function workingLoop :: "(int \<Rightarrow> bool) \<Rightarrow> int \<Rightarrow> nat \<Rightarrow> int \<times> nat" where
  "workingLoop isWorking cursor guard =
     (if \<not> isWorking cursor \<and> guard < 14
      then workingLoop isWorking (cursor + DAY_MS) (Suc guard)
      else (cursor, guard))"
  by pat_completeness auto
termination by (relation "measure (\<lambda>(_, _, g). 14 - g)") auto

declare workingLoop.simps [simp del]

definition assessDeemedReceipt :: "(int \<Rightarrow> string) \<Rightarrow> deemed_input \<Rightarrow> deemed_result" where
  "assessDeemedReceipt isoOf i = (let trace = [''rule='' @ deemed_rule_name (di_rule i)];
       unknown = (\<lambda>a. \<lparr>dr_advisoryAt = None, dr_ambiguity = Some a, dr_trace = trace\<rparr>) in
     case di_rule i of
       NO_RULE \<Rightarrow> unknown ''NO_DEEMED_RULE''
     | ACTUAL_DELIVERY \<Rightarrow> (case di_deliveredAt i of
           None \<Rightarrow> unknown ''DELIVERY_TIME_UNKNOWN''
         | Some d \<Rightarrow> \<lparr>dr_advisoryAt = Some d, dr_ambiguity = None,
             dr_trace = trace @ [''deliveredAt='' @ isoOf d]\<rparr>)
     | NEXT_WORKING_DAY \<Rightarrow> (case di_sentAt i of
           None \<Rightarrow> unknown ''SENT_TIME_UNKNOWN''
         | Some sent \<Rightarrow>
             (let isWorking = (case di_isWorkingDay i of None \<Rightarrow> defaultIsWorking | Some f \<Rightarrow> f);
                  (cursor, guard) = workingLoop isWorking (sent + DAY_MS) 0
              in if 14 \<le> guard then unknown ''WORKING_DAY_LOOKUP_FAILED''
                 else \<lparr>dr_advisoryAt = Some cursor, dr_ambiguity = Some ''REQUIRES_HUMAN_REVIEW'',
                        dr_trace = trace @ [''nextWorkingDay='' @ isoOf cursor]\<rparr>))
     | POSTAL_PERIOD \<Rightarrow> (case di_sentAt i of
           None \<Rightarrow> unknown ''SENT_TIME_UNKNOWN''
         | Some sent \<Rightarrow>
             (let days = (case di_postalDays i of None \<Rightarrow> 3 | Some n \<Rightarrow> n);
                  advisoryAt = sent + days * 24 * 3600 * 1000
              in \<lparr>dr_advisoryAt = Some advisoryAt, dr_ambiguity = Some ''REQUIRES_HUMAN_REVIEW'',
                  dr_trace = trace @ [''postalDays='' @ showInt days,
                                      ''advisoryAt='' @ isoOf advisoryAt]\<rparr>))
     | _ \<Rightarrow> (case di_sentAt i of
           None \<Rightarrow> unknown ''SENT_TIME_UNKNOWN''
         | Some sent \<Rightarrow> \<lparr>dr_advisoryAt = Some sent, dr_ambiguity = None,
             dr_trace = trace @ [''sentAt='' @ isoOf sent]\<rparr>))"

definition assertAuthorizationDispatchable ::
  "int \<Rightarrow> authorization_status \<Rightarrow> int option \<Rightarrow> string + unit" where
  "assertAuthorizationDispatchable now status expiresAt =
     (if status \<noteq> AU_AUTHORIZED
      then Inl (''AUTHORIZATION_NOT_DISPATCHABLE:'' @ authorization_status_name status)
      else case expiresAt of
        Some t \<Rightarrow> if t < now then Inl ''AUTHORIZATION_EXPIRED'' else Inr ()
      | None \<Rightarrow> Inr ())"

section \<open>Providers\<close>

datatype provider_outcome =
    ACCEPTED | OUT_REJECTED | PARTIAL | CONNECTION_FAILURE | TIMEOUT_BEFORE_SUBMIT
    | TIMEOUT_AFTER_POSSIBLE_SUBMIT | OUT_UNKNOWN

fun outcome_name :: "provider_outcome \<Rightarrow> string" where
  "outcome_name ACCEPTED = ''ACCEPTED''"
| "outcome_name OUT_REJECTED = ''REJECTED''"
| "outcome_name PARTIAL = ''PARTIAL''"
| "outcome_name CONNECTION_FAILURE = ''CONNECTION_FAILURE''"
| "outcome_name TIMEOUT_BEFORE_SUBMIT = ''TIMEOUT_BEFORE_SUBMIT''"
| "outcome_name TIMEOUT_AFTER_POSSIBLE_SUBMIT = ''TIMEOUT_AFTER_POSSIBLE_SUBMIT''"
| "outcome_name OUT_UNKNOWN = ''UNKNOWN''"

record message_input =
  mi_snapshotId :: string
  mi_recipients :: "recipient_snapshot list"
  mi_cover :: cover_snapshot
  mi_artifactChecksum :: string
  mi_attachmentSnapshots :: "attachment_snapshot list"
  mi_idempotencyKey :: string
  mi_correlationId :: string

record recipient_result =
  rr_preparationId :: string
  rr_status :: string
  rr_providerRecipientId :: "string option"
  rr_failureReason :: "string option"

record send_result =
  sn_providerMessageId :: "string option"
  sn_providerSubmissionId :: "string option"
  sn_acceptedAt :: "int option"
  sn_sentAt :: "int option"
  sn_recipients :: "recipient_result list"
  sn_retryable :: bool
  sn_outcome :: provider_outcome

datatype fake_mode = MODE_SUCCESS | MODE_REJECT | MODE_PARTIAL | MODE_TIMEOUT_AFTER | MODE_CONNECTION

definition recipientResult ::
  "string \<Rightarrow> string option \<Rightarrow> recipient_snapshot \<Rightarrow> recipient_result" where
  "recipientResult status reason r = \<lparr>rr_preparationId = rs_preparationId r, rr_status = status,
     rr_providerRecipientId = None, rr_failureReason = reason\<rparr>"

text \<open>
  \<open>FakeNoticeDeliveryProvider.sendMessage\<close>, at the time \<open>now\<close>.  The metadata of a
  result, which nothing reads, is left out.
\<close>

fun fakeSendMessage :: "fake_mode \<Rightarrow> int \<Rightarrow> message_input \<Rightarrow> send_result" where
  "fakeSendMessage MODE_CONNECTION now i =
     \<lparr>sn_providerMessageId = None, sn_providerSubmissionId = None, sn_acceptedAt = None,
      sn_sentAt = None,
      sn_recipients = map (recipientResult ''FAILED'' (Some ''CONNECTION_FAILURE'')) (mi_recipients i),
      sn_retryable = True, sn_outcome = CONNECTION_FAILURE\<rparr>"
| "fakeSendMessage MODE_TIMEOUT_AFTER now i =
     \<lparr>sn_providerMessageId = Some (''fake-maybe-'' @ take 12 (mi_idempotencyKey i)),
      sn_providerSubmissionId = None, sn_acceptedAt = Some now, sn_sentAt = None,
      sn_recipients = map (recipientResult ''UNKNOWN'' None) (mi_recipients i),
      sn_retryable = False, sn_outcome = TIMEOUT_AFTER_POSSIBLE_SUBMIT\<rparr>"
| "fakeSendMessage MODE_REJECT now i =
     \<lparr>sn_providerMessageId = None, sn_providerSubmissionId = None, sn_acceptedAt = None,
      sn_sentAt = None,
      sn_recipients = map (recipientResult ''REJECTED'' (Some ''PROVIDER_REJECTION'')) (mi_recipients i),
      sn_retryable = False, sn_outcome = OUT_REJECTED\<rparr>"
| "fakeSendMessage MODE_PARTIAL now i =
     \<lparr>sn_providerMessageId = Some (''fake-partial-'' @ take 8 (mi_idempotencyKey i)),
      sn_providerSubmissionId = Some (''sub-'' @ take 8 (mi_correlationId i)),
      sn_acceptedAt = Some now, sn_sentAt = Some now,
      sn_recipients = (case mi_recipients i of
          [] \<Rightarrow> []
        | r # rs \<Rightarrow> recipientResult ''SENT'' None r
                    # map (recipientResult ''FAILED'' (Some ''RECIPIENT_REJECTED'')) rs),
      sn_retryable = False, sn_outcome = PARTIAL\<rparr>"
| "fakeSendMessage MODE_SUCCESS now i =
     \<lparr>sn_providerMessageId = Some (''fake-'' @ take 16 (mi_idempotencyKey i)),
      sn_providerSubmissionId = Some (''sub-'' @ take 12 (mi_correlationId i)),
      sn_acceptedAt = Some now, sn_sentAt = Some now,
      sn_recipients = map (\<lambda>r. (recipientResult ''SENT'' None r)
          \<lparr>rr_providerRecipientId := Some (''rcpt-'' @ take 8 (rs_preparationId r))\<rparr>)
        (mi_recipients i),
      sn_retryable = False, sn_outcome = ACCEPTED\<rparr>"

definition captureSendMessage :: "int \<Rightarrow> message_input \<Rightarrow> send_result" where
  "captureSendMessage now i =
     \<lparr>sn_providerMessageId = Some (''local-'' @ take 16 (mi_idempotencyKey i)),
      sn_providerSubmissionId = Some (''local-sub-'' @ take 8 (mi_correlationId i)),
      sn_acceptedAt = Some now, sn_sentAt = Some now,
      sn_recipients = map (recipientResult ''SENT'' None) (mi_recipients i),
      sn_retryable = False, sn_outcome = ACCEPTED\<rparr>"

text \<open>
  A provider of the interface: the fake one in a mode, or the local capture, whose captured
  messages no one reads: a new provider is made for each request.
\<close>

datatype provider = Fake fake_mode | LocalCapture

fun providerKind :: "provider \<Rightarrow> string" where
  "providerKind (Fake m) = ''fake''"
| "providerKind LocalCapture = ''local_capture''"

fun testOnly :: "provider \<Rightarrow> bool" where
  "testOnly (Fake m) = True"
| "testOnly LocalCapture = False"

fun sendMessage :: "provider \<Rightarrow> int \<Rightarrow> message_input \<Rightarrow> send_result" where
  "sendMessage (Fake m) now i = fakeSendMessage m now i"
| "sendMessage LocalCapture now i = captureSendMessage now i"

definition assertDeliveryProviderAllowed :: "provider \<Rightarrow> string option \<Rightarrow> string + unit" where
  "assertDeliveryProviderAllowed p appEnv =
     (if testOnly p \<and> (appEnv = Some ''production'' \<or> appEnv = Some ''staging'')
      then Inl ''Test-only delivery provider is not allowed in this environment'' else Inr ())"

definition createNoticeDeliveryProvider ::
  "string option \<Rightarrow> string option \<Rightarrow> string + provider option" where
  "createNoticeDeliveryProvider name appEnv = (let
       kind = toLowerCase (if truthy name then the name else ''deterministic'') in
     if kind = ''deterministic'' \<or> kind = ''none'' \<or> kind = [] then Inr None
     else if kind = ''fake'' then
       (case assertDeliveryProviderAllowed (Fake MODE_SUCCESS) appEnv of
          Inl e \<Rightarrow> Inl e | Inr _ \<Rightarrow> Inr (Some (Fake MODE_SUCCESS)))
     else if kind = ''local_capture'' \<or> kind = ''local'' then Inr (Some LocalCapture)
     else if kind = ''smtp'' \<or> kind = ''api'' then
       Inl (''Provider '' @ kind @ '' requires approved configuration and is not auto-enabled'')
     else Inl (''Unknown NOTICE_DELIVERY_PROVIDER: '' @ kind))"

text \<open>\<open>verifyWebhook\<close> of the fake provider; a header is looked up by its exact name.\<close>

definition headerValue :: "(string \<times> string) list \<Rightarrow> string \<Rightarrow> string option" where
  "headerValue headers name = map_of headers name"

definition verifyWebhook ::
  "(string \<Rightarrow> string) \<Rightarrow> (string \<times> string) list \<Rightarrow> string \<Rightarrow> string + unit" where
  "verifyWebhook sha headers rawBody = (let
       sig = (if truthy (headerValue headers ''x-cr-fake-signature'')
              then headerValue headers ''x-cr-fake-signature''
              else headerValue headers ''X-Cr-Fake-Signature'')
     in if sig = Some (''sha256:'' @ sha rawBody) then Inr () else Inl ''INVALID_SIGNATURE'')"

text \<open>
  \<open>parseWebhookEvent\<close>: what \<open>JSON.parse\<close> makes of the body is the argument; a body
  without \<open>recipients\<close> has no statuses.
\<close>

record raw_event =
  re_eventId :: string
  re_messageId :: string
  re_eventType :: string
  re_occurredAt :: string
  re_recipients :: "(string \<times> string) list option"

record webhook_event =
  wh_providerEventId :: string
  wh_providerMessageId :: string
  wh_eventType :: string
  wh_occurredAt :: string
  wh_recipientStatuses :: "(string \<times> string) list"

definition parseWebhookEvent :: "raw_event \<Rightarrow> webhook_event" where
  "parseWebhookEvent p = \<lparr>wh_providerEventId = re_eventId p, wh_providerMessageId = re_messageId p,
     wh_eventType = re_eventType p, wh_occurredAt = re_occurredAt p,
     wh_recipientStatuses = (case re_recipients p of None \<Rightarrow> [] | Some rs \<Rightarrow> rs)\<rparr>"


section \<open>Channels, status and retries\<close>

lemma operational_channel_not_future: "isOperationalChannel c \<Longrightarrow> \<not> isFutureChannel c"
  by (auto simp: isOperationalChannel_def OPERATIONAL_CHANNELS_def isFutureChannel_def)

lemma status_lists [simp]:
  "set failedLike \<inter> set sentLike = {}" "set failedLike \<subseteq> set openOrFailed"
  "set deliveredLike \<subseteq> set sentLike" "RP_SUBMITTED \<notin> set failedLike" "RP_PENDING \<notin> set failedLike"
  by (simp_all add: failedLike_def sentLike_def deliveredLike_def openOrFailed_def)

lemma success_status_iff:
  "aggregateRecipientStatus ss \<in> {AT_DELIVERED, AT_SENT} \<longleftrightarrow>
     ss \<noteq> [] \<and> list_all (\<lambda>s. s \<in> set sentLike) ss"
proof -
  have "list_all (\<lambda>s. s \<in> set sentLike) ss" if "list_all (\<lambda>s. s \<in> set deliveredLike) ss"
    using that status_lists(3) by (metis list_all_iff subsetD)
  then show ?thesis by (simp add: aggregateRecipientStatus_def)
qed

text \<open>An attempt with a failed recipient is never reported as sent or delivered: it is
  FAILED when all recipients failed, PARTIALLY_DELIVERED when one was served.  When no recipient
  was served and one is still open, the answer is DELIVERY_PENDING, which hides the failure.\<close>

lemma failed_recipient_in_aggregate:
  assumes "s \<in> set ss" and "s \<in> set failedLike"
  shows "aggregateRecipientStatus ss =
    (if list_all (\<lambda>x. x \<in> set failedLike) ss then AT_FAILED
     else if list_ex (\<lambda>x. x \<in> set sentLike) ss then AT_PARTIALLY_DELIVERED
     else AT_DELIVERY_PENDING)"
proof -
  have s: "s \<notin> set sentLike" "s \<notin> set deliveredLike" "s \<in> set openOrFailed"
    "s \<noteq> RP_SUBMITTED" "s \<noteq> RP_PENDING"
    using assms(2) status_lists by blast+
  have "ss \<noteq> []" "\<not> list_all (\<lambda>x. x \<in> set deliveredLike) ss"
    "\<not> list_all (\<lambda>x. x \<in> set sentLike) ss" "list_ex (\<lambda>x. x \<in> set openOrFailed) ss"
    "\<not> list_all (\<lambda>x. x = RP_SUBMITTED) ss" "\<not> list_all (\<lambda>x. x = RP_PENDING) ss"
    using assms(1) s by (auto simp: list_all_iff list_ex_iff)
  then show ?thesis by (simp add: aggregateRecipientStatus_def)
qed

lemma failed_recipient_in_aggregate_witness:
  "aggregateRecipientStatus [RP_SUBMITTED, RP_FAILED] = AT_DELIVERY_PENDING"
  using failed_recipient_in_aggregate[of RP_FAILED "[RP_SUBMITTED, RP_FAILED]"]
  by (simp add: failedLike_def sentLike_def)

text \<open>An attempt is classed as safe to repeat automatically exactly when its inputs are
  valid, nothing shows that the message reached the provider (no acceptance, no message id, no
  timeout after the submission) and the failure is not a terminal one.\<close>

lemma retry_only_before_submission:
  "classifyRetry i = SAFE_AUTO_BEFORE_SUBMISSION \<longleftrightarrow>
     ry_authorizationValid i \<and> ry_artifactPresent i \<and> \<not> ry_checksumMismatch i
     \<and> \<not> ry_timedOutAfterSubmit i \<and> \<not> ry_providerAccepted i
     \<and> \<not> truthy (ry_providerMessageId i)
     \<and> \<not> terminalFailure (ry_failureCode i)"
  by (simp add: classifyRetry_def)

section \<open>Keys and checksums\<close>

lemma sort_permutation: "mset xs = mset ys \<Longrightarrow> sort xs = sort (ys :: 'a::linorder list)"
  by (rule properties_for_sort) simp_all

lemma idempotency_key_order:
  assumes "mset (ik_recipientPreparationIds i) = mset (ik_recipientPreparationIds j)"
    and "ik_authorizationId i = ik_authorizationId j" and "ik_channel i = ik_channel j"
    and "ik_attemptNumber i = ik_attemptNumber j"
  shows "buildIdempotencyKey sha i = buildIdempotencyKey sha j"
  using sort_permutation[OF assms(1)] assms(2-)
  by (simp add: buildIdempotencyKey_def idempotencyText_def)

lemma append_sep_inj:
  assumes "a @ c # x = b @ c # y" and "c \<notin> set a" and "c \<notin> set b"
  shows "a = b \<and> x = y"
  using assms
proof (induction a arbitrary: b)
  case Nil
  then show ?case by (cases b) auto
next
  case (Cons d a)
  then show ?case by (cases b) auto
qed

text \<open>Two given texts that are different and have one digest.\<close>

definition collide :: "(string \<Rightarrow> string) \<Rightarrow> string \<Rightarrow> string \<Rightarrow> bool" where
  "collide sha x y \<longleftrightarrow> x \<noteq> y \<and> sha x = sha y"

text \<open>The fields of a snapshot that are digests, without the separator.\<close>

definition plainParts :: "snapshot_parts \<Rightarrow> bool" where
  "plainParts p \<longleftrightarrow> CHR ''|'' \<notin> set (sp_noticeChecksum p) \<and> CHR ''|'' \<notin> set (sp_bundleChecksum p)
     \<and> CHR ''|'' \<notin> set (sp_attachmentManifestChecksum p) \<and> CHR ''|'' \<notin> set (sp_coverChecksum p)"

text \<open>C40: The checksum of a dispatch snapshot binds every part of it: two snapshots with the
  same checksum have the same notice, bundle, attachments, recipients, cover message and channel,
  or their own two texts or their own two recipient lists are different with one SHA-256 digest.\<close>

theorem snapshot_checksum_binds:
  assumes same: "buildDispatchSnapshotChecksum sha p = buildDispatchSnapshotChecksum sha q"
    and plain: "plainParts p" "plainParts q" and hex: "\<And>x. CHR ''|'' \<notin> set (sha x)"
  shows "p = q \<or> collide sha (snapshotText sha p) (snapshotText sha q)
    \<or> collide sha (sp_recipientSnapshotJson p) (sp_recipientSnapshotJson q)"
proof (cases "snapshotText sha p = snapshotText sha q")
  case True
  then have parts: "sp_noticeChecksum p = sp_noticeChecksum q
      \<and> sp_bundleChecksum p = sp_bundleChecksum q
      \<and> sp_attachmentManifestChecksum p = sp_attachmentManifestChecksum q
      \<and> sha (sp_recipientSnapshotJson p) = sha (sp_recipientSnapshotJson q)
      \<and> sp_coverChecksum p = sp_coverChecksum q \<and> sp_channel p = sp_channel q"
    using plain hex unfolding plainParts_def snapshotText_def
    by (auto dest!: append_sep_inj)
  then show ?thesis by (cases p, cases q) (auto simp: collide_def)
next
  case False
  then show ?thesis using same by (simp add: buildDispatchSnapshotChecksum_def collide_def)
qed

definition demo_parts :: "string \<Rightarrow> snapshot_parts" where
  "demo_parts channel = \<lparr>sp_noticeChecksum = ''aa'', sp_bundleChecksum = ''bb'',
     sp_attachmentManifestChecksum = ''cc'', sp_recipientSnapshotJson = ''[]'',
     sp_coverChecksum = ''dd'', sp_channel = channel\<rparr>"

lemma snapshot_checksum_binds_witness:
  "collide (\<lambda>x. ''e3'') (snapshotText (\<lambda>x. ''e3'') (demo_parts ''MANUAL_EMAIL''))
     (snapshotText (\<lambda>x. ''e3'') (demo_parts ''COURIER''))"
proof -
  have "demo_parts ''MANUAL_EMAIL'' \<noteq> demo_parts ''COURIER''"
    "\<not> collide (\<lambda>x. ''e3'') (sp_recipientSnapshotJson (demo_parts ''MANUAL_EMAIL''))
       (sp_recipientSnapshotJson (demo_parts ''COURIER''))"
    by (simp_all add: demo_parts_def collide_def)
  then show ?thesis
    using snapshot_checksum_binds[of "\<lambda>x. ''e3''" "demo_parts ''MANUAL_EMAIL''" "demo_parts ''COURIER''"]
    by (simp add: plainParts_def demo_parts_def buildDispatchSnapshotChecksum_def)
qed

section \<open>The cover message and deemed receipt\<close>

lemma workingLoop_spec:
  assumes "workingLoop w c g = (c', g')" and "g \<le> 14"
  shows "\<exists>k. c' = c + int k * DAY_MS \<and> g' = g + k \<and> g' \<le> 14
    \<and> (\<forall>j<k. \<not> w (c + int j * DAY_MS)) \<and> (g' < 14 \<longrightarrow> w c')"
  using assms
proof (induction w c g rule: workingLoop.induct)
  case (1 w c g)
  show ?case
  proof (cases "\<not> w c \<and> g < 14")
    case True
    then have "workingLoop w (c + DAY_MS) (Suc g) = (c', g')"
      using 1(2) by (simp add: workingLoop.simps[of w c g])
    then obtain k where k: "c' = (c + DAY_MS) + int k * DAY_MS" "g' = Suc g + k" "g' \<le> 14"
      "\<forall>j<k. \<not> w ((c + DAY_MS) + int j * DAY_MS)" "g' < 14 \<longrightarrow> w c'"
      using 1(1)[OF True] True by auto
    have "\<not> w (c + int j * DAY_MS)" if "j < Suc k" for j
      using that True k(4) by (cases j) (auto simp: algebra_simps)
    then show ?thesis using k by (intro exI[of _ "Suc k"]) (auto simp: algebra_simps)
  next
    case False
    then have "c' = c \<and> g' = g" using 1(2) by (auto simp: workingLoop.simps[of w c g])
    then show ?thesis using False 1(3) by (intro exI[of _ 0]) auto
  qed
qed

text \<open>The sanitizer is not stable: taking out an inner script block or scheme puts the
  outer one together, and the text it returns still holds what its own patterns match.\<close>

lemma sanitizer_reassembles_script:
  "sanitizeDispatchHtml ''<p><scr<script></script>ipt>alert(1)</script>'' =
     ''<p><script>alert(1)</script>''
   \<and> sanitizeDispatchHtml ''javajavascript:script:alert(1)'' = ''javascript:alert(1)''
   \<and> sanitizeDispatchHtml ''<p><script>alert(1)</script>'' = ''<p>''"
  by (simp_all add: sanitizeDispatchHtml_def matchBlock_def matchHandler_def matchScheme_def
      startsWithCi_def toLowerCase_def lowerChar_def)

text \<open>Whether a day counts as a working day for the assessment.\<close>

definition workingDayOf :: "deemed_input \<Rightarrow> int \<Rightarrow> bool" where
  "workingDayOf i = (case di_isWorkingDay i of None \<Rightarrow> defaultIsWorking | Some f \<Rightarrow> f)"

text \<open>The days the assessment may answer: the first working day of the 14 after the sending.\<close>

definition firstWorkingDay :: "(int \<Rightarrow> bool) \<Rightarrow> int \<Rightarrow> int \<Rightarrow> bool" where
  "firstWorkingDay w sent t \<longleftrightarrow> (\<exists>k<14. t = sent + DAY_MS + int k * DAY_MS \<and> w t
     \<and> (\<forall>j<k. \<not> w (sent + DAY_MS + int j * DAY_MS)))"

lemma DAY_MS_pos [simp]: "0 < DAY_MS" "DAY_MS \<noteq> 0"
  by (simp_all add: DAY_MS_def)

lemma workingLoop_first:
  assumes run: "workingLoop w (sent + DAY_MS) 0 = (c, g)"
  shows "(g < 14 \<and> c = t) \<longleftrightarrow> firstWorkingDay w sent t"
proof -
  obtain k where k: "c = sent + DAY_MS + int k * DAY_MS" "g = k" "g \<le> 14"
    "\<forall>j<k. \<not> w (sent + DAY_MS + int j * DAY_MS)" "g < 14 \<longrightarrow> w c"
    using workingLoop_spec[OF run] by auto
  show ?thesis
  proof
    assume "g < 14 \<and> c = t"
    then show "firstWorkingDay w sent t" using k unfolding firstWorkingDay_def by auto
  next
    assume "firstWorkingDay w sent t"
    then obtain n where n: "n < 14" "t = sent + DAY_MS + int n * DAY_MS" "w t"
      "\<forall>j<n. \<not> w (sent + DAY_MS + int j * DAY_MS)"
      unfolding firstWorkingDay_def by auto
    have "\<not> n < k" using k(4) n(2,3) by metis
    moreover have "\<not> k < n"
    proof
      assume "k < n"
      then have "g < 14" using k(2) n(1) by simp
      then have "w (sent + DAY_MS + int k * DAY_MS)" using k(1,5) by simp
      then show False using n(4) \<open>k < n\<close> by blast
    qed
    ultimately have "n = k" by simp
    then show "g < 14 \<and> c = t" using k n by simp
  qed
qed

text \<open>The next-working-day rule advises the first working day among the 14 days after the
  sending, and always leaves the decision to a person; when there is none among them it advises
  nothing.\<close>

lemma next_working_day_first:
  assumes "di_rule i = NEXT_WORKING_DAY" and "di_sentAt i = Some sent"
  shows "(dr_advisoryAt (assessDeemedReceipt isoOf i) = Some t
      \<longleftrightarrow> firstWorkingDay (workingDayOf i) sent t)
    \<and> dr_ambiguity (assessDeemedReceipt isoOf i) =
      Some (if \<exists>t. firstWorkingDay (workingDayOf i) sent t then ''REQUIRES_HUMAN_REVIEW''
            else ''WORKING_DAY_LOOKUP_FAILED'')"
proof -
  obtain c g where run: "workingLoop (workingDayOf i) (sent + DAY_MS) 0 = (c, g)" by force
  note first = workingLoop_first[OF run]
  have "(\<exists>t. firstWorkingDay (workingDayOf i) sent t) \<longleftrightarrow> g < 14" using first by metis
  then show ?thesis
    using assms run first[of t] by (auto simp: assessDeemedReceipt_def workingDayOf_def Let_def)
qed

text \<open>A message sent on Friday the second of January 1970: the advice is the Monday.\<close>

definition demo_deemed :: deemed_input where
  "demo_deemed = \<lparr>di_rule = NEXT_WORKING_DAY, di_sentAt = Some DAY_MS, di_deliveredAt = None,
     di_postalDays = None, di_isWorkingDay = None\<rparr>"

lemma demo_monday: "firstWorkingDay defaultIsWorking DAY_MS (4 * DAY_MS)"
proof -
  have "\<not> defaultIsWorking (DAY_MS + DAY_MS + int j * DAY_MS)" if "j < 2" for j
    using that by (auto simp: defaultIsWorking_def getUTCDay_def DAY_MS_def numeral_2_eq_2 less_Suc_eq)
  moreover have "defaultIsWorking (4 * DAY_MS)"
    by (simp add: defaultIsWorking_def getUTCDay_def DAY_MS_def)
  ultimately show ?thesis
    unfolding firstWorkingDay_def by (intro exI[of _ 2]) simp
qed

lemma next_working_day_first_witness:
  "dr_advisoryAt (assessDeemedReceipt showInt demo_deemed) = Some (4 * DAY_MS)"
  using next_working_day_first[of demo_deemed DAY_MS showInt "4 * DAY_MS"] demo_monday
  by (simp add: demo_deemed_def workingDayOf_def)

text \<open>Weekends never exhaust the 14 days.\<close>

lemma weekend_advice_exists: "\<exists>t. firstWorkingDay defaultIsWorking sent t"
proof -
  let ?c = "\<lambda>k. sent + DAY_MS + int k * DAY_MS"
  obtain q r where q: "sent + DAY_MS = q * DAY_MS + r" "0 \<le> r" "r < DAY_MS"
    by (metis DAY_MS_pos(1) mult.commute mult_div_mod_eq pos_mod_bound pos_mod_sign)
  have day: "getUTCDay (?c k) = (q + int k + 4) mod 7" for k
  proof -
    have "?c k = (q + int k) * DAY_MS + r" using q(1) by (simp add: algebra_simps)
    then have "?c k div DAY_MS = q + int k" using q(2,3) by simp
    then show ?thesis by (simp only: getUTCDay_def)
  qed
  define m where "m = (q + 4) mod 7"
  have shift: "(q + int k + 4) mod 7 = (m + int k) mod 7" for k
    unfolding m_def mod_add_left_eq by (rule arg_cong[where f = "\<lambda>x. x mod 7"]) simp
  have "0 \<le> m" "m < 7" by (simp_all add: m_def)
  then have "m = 0 \<or> m = 1 \<or> m = 2 \<or> m = 3 \<or> m = 4 \<or> m = 5 \<or> m = 6" by linarith
  then have "defaultIsWorking (?c 0) \<or> defaultIsWorking (?c 1) \<or> defaultIsWorking (?c 2)"
    unfolding defaultIsWorking_def day shift by (elim disjE) simp_all
  then have "\<exists>k. defaultIsWorking (?c k) \<and> k < 3"
    by (elim disjE) (rule exI[of _ 0] exI[of _ 1] exI[of _ 2]; simp)+
  then obtain k where k: "defaultIsWorking (?c k) \<and> k < 3"
    "\<forall>j<k. \<not> (defaultIsWorking (?c j) \<and> j < 3)"
    using exists_least_iff[of "\<lambda>k. defaultIsWorking (?c k) \<and> k < 3"] by blast
  then show ?thesis unfolding firstWorkingDay_def by (intro exI[of _ "?c k"] exI[of _ k]) auto
qed

section \<open>What a provider promises\<close>

text \<open>
  The dispatch handler relies on a provider for three things: it answers for each recipient of
  the message in order, it names the message it has accepted, and what it calls retryable has not
  left it.
\<close>

locale delivery_provider =
  fixes send :: "int \<Rightarrow> message_input \<Rightarrow> send_result"
  assumes answers_all:
      "map rr_preparationId (sn_recipients (send now i)) = map rs_preparationId (mi_recipients i)"
    and accepted_named: "sn_outcome (send now i) \<in> {ACCEPTED, PARTIAL}
      \<Longrightarrow> truthy (sn_providerMessageId (send now i))"
    and retryable_unsent: "sn_retryable (send now i)
      \<Longrightarrow> sn_providerMessageId (send now i) = None \<and> sn_acceptedAt (send now i) = None"
begin

lemma answers_length: "length (sn_recipients (send now i)) = length (mi_recipients i)"
  by (metis answers_all length_map)

lemma answered_recipient:
  assumes "rr \<in> set (sn_recipients (send now i))"
  shows "\<exists>r\<in>set (mi_recipients i). rs_preparationId r = rr_preparationId rr"
  using assms answers_all[of now i] by (metis (no_types, lifting) image_eqI image_iff list.set_map)

lemma accepted_never_repeated:
  assumes "sn_outcome (send now i) \<in> {ACCEPTED, PARTIAL, TIMEOUT_AFTER_POSSIBLE_SUBMIT}"
    and "ry_providerAccepted y \<longleftrightarrow> sn_outcome (send now i) \<in> {ACCEPTED, PARTIAL}"
    and "ry_providerMessageId y = sn_providerMessageId (send now i)"
    and "ry_timedOutAfterSubmit y \<longleftrightarrow> sn_outcome (send now i) = TIMEOUT_AFTER_POSSIBLE_SUBMIT"
  shows "classifyRetry y \<noteq> SAFE_AUTO_BEFORE_SUBMISSION"
  using assms accepted_named[of now i] by (auto simp: classifyRetry_def)

end

lemma recipientResult_id [simp]:
  "rr_preparationId (recipientResult st re r) = rs_preparationId r"
  "rr_failureReason (recipientResult st re r) = re"
  "rr_status (recipientResult st re r) = st"
  by (simp_all add: recipientResult_def)

lemma sendMessage_ids:
  "map rr_preparationId (sn_recipients (sendMessage p now i)) = map rs_preparationId (mi_recipients i)"
proof (cases p)
  case (Fake m)
  then show ?thesis by (cases m) (auto simp: split: list.splits)
qed (simp add: captureSendMessage_def)

interpretation pv: delivery_provider "sendMessage p" for p
proof
  fix now i
  show "map rr_preparationId (sn_recipients (sendMessage p now i)) = map rs_preparationId (mi_recipients i)"
    by (rule sendMessage_ids)
  show "sn_outcome (sendMessage p now i) \<in> {ACCEPTED, PARTIAL}
      \<Longrightarrow> truthy (sn_providerMessageId (sendMessage p now i))"
  proof (cases p)
    case (Fake m)
    then show "sn_outcome (sendMessage p now i) \<in> {ACCEPTED, PARTIAL}
      \<Longrightarrow> truthy (sn_providerMessageId (sendMessage p now i))" by (cases m) auto
  qed (simp add: captureSendMessage_def)
  show "sn_retryable (sendMessage p now i)
      \<Longrightarrow> sn_providerMessageId (sendMessage p now i) = None \<and> sn_acceptedAt (sendMessage p now i) = None"
  proof (cases p)
    case (Fake m)
    then show "sn_retryable (sendMessage p now i)
      \<Longrightarrow> sn_providerMessageId (sendMessage p now i) = None \<and> sn_acceptedAt (sendMessage p now i) = None"
      by (cases m) auto
  qed (simp add: captureSendMessage_def)
qed

text \<open>A provider exists only for the names fake, local_capture and local; the fake one is
  refused in staging and production, but the capture provider, which sends nothing and reports
  SENT, is not guarded and is made in production too.\<close>

lemma provider_guard:
  "createNoticeDeliveryProvider name appEnv = Inr (Some p) \<longleftrightarrow>
     truthy name \<and>
     (case p of
        Fake m \<Rightarrow> m = MODE_SUCCESS \<and> toLowerCase (the name) = ''fake''
          \<and> appEnv \<notin> {Some ''production'', Some ''staging''}
      | LocalCapture \<Rightarrow> toLowerCase (the name) \<in> {''local_capture'', ''local''})"
proof (cases "truthy name")
  case True
  then show ?thesis
    by (cases p) (auto simp: createNoticeDeliveryProvider_def assertDeliveryProviderAllowed_def
      Let_def split: if_splits)
next
  case False
  have "toLowerCase ''deterministic'' = ''deterministic''"
    by (simp add: toLowerCase_def lowerChar_def)
  then show ?thesis using False by (simp add: createNoticeDeliveryProvider_def)
qed

end
