(* ===== verification/DeliveryService.thy ===== *)
theory DeliveryService
  imports Services NoticeDelivery
begin

text \<open>
  The dispatch of notices (\<open>apps/web/src/server/services/notice-delivery.ts\<close>): snapshots,
  authorizations, sending, manual dispatch, evidence, acknowledgments, receipts and provider
  webhooks.  The record \<open>delivery_env\<close> holds the environment variables, the clock and the
  parameters (digest, JSON, dates); generated ids are arguments.  A row keeps the columns the
  service writes; an \<open>update\<close> sees the rows of the transaction's organization only, as the
  policy \<open>tenant_isolation\<close> of every one of these tables says.
\<close>

section \<open>Rows and state\<close>

datatype package_status =
    NP_DRAFT | NP_EVIDENCE_INCOMPLETE | NP_READY_FOR_DRAFT | NP_DRAFTING | NP_IN_REVIEW
    | NP_CHANGES_REQUESTED | NP_APPROVED | NP_SUPERSEDED | NP_WITHDRAWN | NP_EXPORTED
    | NP_AUTHORIZATION_PENDING | NP_AUTHORIZED_FOR_DISPATCH | NP_DISPATCH_IN_PROGRESS
    | NP_DISPATCHED | NP_DELIVERY_PENDING | NP_DELIVERY_PARTIAL | NP_DELIVERY_CONFIRMED
    | NP_RECEIPT_UNCONFIRMED | NP_RECEIPT_CONFIRMED | NP_DELIVERY_FAILED | NP_ARCHIVED | NP_SENT

fun package_status_name :: "package_status \<Rightarrow> string" where
  "package_status_name NP_DRAFT = ''DRAFT''"
| "package_status_name NP_EVIDENCE_INCOMPLETE = ''EVIDENCE_INCOMPLETE''"
| "package_status_name NP_READY_FOR_DRAFT = ''READY_FOR_DRAFT''"
| "package_status_name NP_DRAFTING = ''DRAFTING''"
| "package_status_name NP_IN_REVIEW = ''IN_REVIEW''"
| "package_status_name NP_CHANGES_REQUESTED = ''CHANGES_REQUESTED''"
| "package_status_name NP_APPROVED = ''APPROVED''"
| "package_status_name NP_SUPERSEDED = ''SUPERSEDED''"
| "package_status_name NP_WITHDRAWN = ''WITHDRAWN''"
| "package_status_name NP_EXPORTED = ''EXPORTED''"
| "package_status_name NP_AUTHORIZATION_PENDING = ''AUTHORIZATION_PENDING''"
| "package_status_name NP_AUTHORIZED_FOR_DISPATCH = ''AUTHORIZED_FOR_DISPATCH''"
| "package_status_name NP_DISPATCH_IN_PROGRESS = ''DISPATCH_IN_PROGRESS''"
| "package_status_name NP_DISPATCHED = ''DISPATCHED''"
| "package_status_name NP_DELIVERY_PENDING = ''DELIVERY_PENDING''"
| "package_status_name NP_DELIVERY_PARTIAL = ''DELIVERY_PARTIAL''"
| "package_status_name NP_DELIVERY_CONFIRMED = ''DELIVERY_CONFIRMED''"
| "package_status_name NP_RECEIPT_UNCONFIRMED = ''RECEIPT_UNCONFIRMED''"
| "package_status_name NP_RECEIPT_CONFIRMED = ''RECEIPT_CONFIRMED''"
| "package_status_name NP_DELIVERY_FAILED = ''DELIVERY_FAILED''"
| "package_status_name NP_ARCHIVED = ''ARCHIVED''"
| "package_status_name NP_SENT = ''SENT''"

definition DISPATCH_PREP_STATUSES :: "package_status list" where
  "DISPATCH_PREP_STATUSES = [NP_APPROVED, NP_EXPORTED, NP_AUTHORIZATION_PENDING,
     NP_AUTHORIZED_FOR_DISPATCH, NP_DISPATCHED, NP_DELIVERY_PENDING, NP_DELIVERY_PARTIAL,
     NP_DELIVERY_CONFIRMED, NP_RECEIPT_UNCONFIRMED, NP_RECEIPT_CONFIRMED, NP_DELIVERY_FAILED]"

datatype evidence_status = EV_UNVERIFIED | EV_VERIFIED | EV_DISPUTED | EV_REJECTED | EV_SUPERSEDED

datatype preparation_status =
    PV_UNVERIFIED | PV_VERIFIED | PV_DISPUTED | PV_MISSING | PV_SUPERSEDED

datatype acknowledgment_status = AK_RECORDED | AK_VERIFIED | AK_DISPUTED | AK_REJECTED | AK_SUPERSEDED

record section_row =
  sc_body :: string
  sc_sequence :: int

record draft_revision =
  rv_id :: string
  rv_approved :: bool
  rv_templateVersion :: string
  rv_sections :: "section_row list"

record preparation =
  dp_id :: string
  dp_namedRecipient :: "string option"
  dp_recipientRole :: "string option"
  dp_emailAddress :: "string option"
  dp_physicalAddress :: "string option"
  dp_platformAddress :: "string option"
  dp_attentionLine :: "string option"
  dp_selectedMethod :: "string option"
  dp_permittedMethod :: "string option"
  dp_copiedRecipient :: bool
  dp_verificationStatus :: preparation_status

record package_attachment =
  ax_id :: string
  ax_externalFilename :: string
  ax_checksumSha256 :: "string option"
  ax_sequence :: int
  ax_included :: bool

record export_bundle =
  eb_id :: string
  eb_format :: string
  eb_artifactChecksum :: string
  eb_draftRevisionId :: string

text \<open>
  A notice package with the rows \<open>loadPackage\<close> includes: the export bundles stand in the
  order of \<open>generatedAt desc\<close>, the revision is the one \<open>activeApprovedRevisionId\<close>
  names.
\<close>

record notice_package =
  np_id :: string
  np_tenantId :: string
  np_projectId :: string
  np_status :: package_status
  np_language :: string
  np_sodEnforced :: bool
  np_activeApprovedRevisionId :: "string option"
  np_activeApprovedRevision :: "draft_revision option"
  np_deliveryPreparations :: "preparation list"
  np_attachments :: "package_attachment list"
  np_exportBundles :: "export_bundle list"
  np_calculatedDeadlineAt :: "int option"

record dispatch_snapshot =
  sx_id :: string
  sx_tenantId :: string
  sx_projectId :: string
  sx_noticePackageId :: string
  sx_approvedDraftRevisionId :: string
  sx_noticeExportId :: string
  sx_exportManifestChecksum :: string
  sx_bundleChecksum :: string
  sx_noticeChecksum :: string
  sx_attachmentManifestChecksum :: string
  sx_templateVersion :: string
  sx_language :: string
  sx_subject :: string
  sx_recipientSnapshot :: "recipient_snapshot list"
  sx_copiedRecipientSnapshot :: "recipient_snapshot list"
  sx_attachmentSnapshot :: "attachment_snapshot list"
  sx_coverMessageSnapshot :: cover_snapshot
  sx_channel :: string
  sx_createdByUserId :: string

record cover_message =
  cv_tenantId :: string
  cv_projectId :: string
  cv_noticePackageId :: string
  cv_snapshotId :: string
  cv_message :: cover_snapshot
  cv_createdByUserId :: string

record authorization =
  da_id :: string
  da_tenantId :: string
  da_projectId :: string
  da_noticePackageId :: string
  da_snapshotId :: string
  da_requestedByUserId :: string
  da_reviewedByUserId :: "string option"
  da_authorizedByUserId :: "string option"
  da_status :: authorization_status
  da_reviewedAt :: "int option"
  da_authorizedAt :: "int option"
  da_expiresAt :: "int option"
  da_selectedChannel :: string
  da_recipientCount :: nat
  da_copiedRecipientCount :: nat
  da_rationale :: "string option"
  da_recipientsReviewed :: bool
  da_methodReviewed :: bool
  da_attachmentsReviewed :: bool
  da_deadlineReviewed :: bool
  da_scopeReviewed :: bool
  da_deliveryRiskAcknowledged :: bool

record dispatch_attempt =
  dt_id :: string
  dt_tenantId :: string
  dt_projectId :: string
  dt_noticePackageId :: string
  dt_authorizationId :: string
  dt_snapshotId :: string
  dt_attemptNumber :: nat
  dt_channel :: string
  dt_provider :: string
  dt_status :: attempt_status
  dt_initiatedByUserId :: string
  dt_correlationId :: string
  dt_idempotencyKey :: string
  dt_startedAt :: "int option"
  dt_completedAt :: "int option"
  dt_providerMessageId :: "string option"
  dt_providerSubmissionId :: "string option"
  dt_retryClass :: "retry_class option"
  dt_failureCode :: "string option"

record dispatch_recipient =
  dx_id :: string
  dx_tenantId :: string
  dx_projectId :: string
  dx_attemptId :: string
  dx_recipientType :: string
  dx_preparationId :: string
  dx_displayName :: string
  dx_addressOrEmail :: "string option"
  dx_copiedRecipient :: bool
  dx_requiredRecipient :: bool
  dx_method :: string
  dx_status :: recipient_status
  dx_providerRecipientId :: "string option"
  dx_failureReason :: "string option"
  dx_sentAt :: "int option"
  dx_deliveredAt :: "int option"
  dx_acknowledgedAt :: "int option"

record manual_input =
  mn_method :: string
  mn_dispatchAt :: string
  mn_location :: "string option"
  mn_courierOrProviderName :: "string option"
  mn_trackingNumber :: "string option"
  mn_handDeliveredToName :: "string option"
  mn_externalSubmissionReference :: "string option"
  mn_physicalReceiptReference :: "string option"
  mn_notes :: "string option"

record manual_record =
  mr_tenantId :: string
  mr_projectId :: string
  mr_attemptId :: string
  mr_input :: manual_input
  mr_dispatchAt :: int
  mr_dispatchedByUserId :: string

record evidence_input =
  ei_attemptId :: string
  ei_recipientId :: "string option"
  ei_evidenceType :: string
  ei_filename :: "string option"
  ei_checksumSha256 :: string
  ei_storageKey :: "string option"
  ei_occurredAt :: "string option"

record dispatch_evidence =
  de_id :: string
  de_tenantId :: string
  de_projectId :: string
  de_attemptId :: string
  de_recipientId :: "string option"
  de_evidenceType :: string
  de_filename :: "string option"
  de_checksumSha256 :: string
  de_storageKey :: "string option"
  de_occurredAt :: "int option"
  de_recordedByUserId :: string
  de_verifiedByUserId :: "string option"
  de_verificationStatus :: evidence_status

record acknowledgment_input =
  ao_attemptId :: string
  ao_recipientId :: "string option"
  ao_acknowledgmentType :: string
  ao_acknowledgedAt :: string
  ao_summary :: "string option"
  ao_sourceEvidenceId :: "string option"

record notice_acknowledgment =
  ak_id :: string
  ak_tenantId :: string
  ak_projectId :: string
  ak_noticePackageId :: string
  ak_attemptId :: string
  ak_recipientId :: "string option"
  ak_acknowledgmentType :: string
  ak_acknowledgedAt :: int
  ak_summary :: "string option"
  ak_sourceEvidenceId :: "string option"
  ak_recordedByUserId :: string
  ak_verifiedByUserId :: "string option"
  ak_status :: acknowledgment_status

record receipt_input =
  ri_attemptId :: string
  ri_recipientId :: "string option"
  ri_receiptStatus :: receipt_status
  ri_receiptAt :: "string option"
  ri_source :: "string option"
  ri_evidenceId :: "string option"
  ri_deemedReceiptRule :: "deemed_rule option"
  ri_rationale :: "string option"

record receipt_assessment =
  rx_id :: string
  rx_tenantId :: string
  rx_projectId :: string
  rx_noticePackageId :: string
  rx_attemptId :: string
  rx_recipientId :: "string option"
  rx_receiptStatus :: receipt_status
  rx_receiptAt :: "int option"
  rx_source :: "string option"
  rx_evidenceId :: "string option"
  rx_deemedReceiptRule :: "deemed_rule option"
  rx_deemedReceiptResult :: "deemed_result option"
  rx_contractualServiceStatus :: contractual_service_status
  rx_reviewedByUserId :: string
  rx_reviewedAt :: int
  rx_rationale :: "string option"

record deemed_assessment =
  dm_tenantId :: string
  dm_projectId :: string
  dm_noticePackageId :: string
  dm_receiptAssessmentId :: string
  dm_ruleKind :: deemed_rule
  dm_attemptId :: string
  dm_calculationTrace :: "string list"
  dm_advisoryAt :: int
  dm_ambiguity :: "string option"

record provider_event =
  pe_id :: string
  pe_tenantId :: string
  pe_projectId :: string
  pe_provider :: string
  pe_providerEventId :: string
  pe_providerMessageId :: string
  pe_eventType :: string
  pe_occurredAt :: int
  pe_payloadChecksum :: string
  pe_attemptId :: string

record delivery_db =
  dl_packages :: "notice_package list"
  dl_snapshots :: "dispatch_snapshot list"
  dl_covers :: "cover_message list"
  dl_auths :: "authorization list"
  dl_attempts :: "dispatch_attempt list"
  dl_recipients :: "dispatch_recipient list"
  dl_manuals :: "manual_record list"
  dl_evidence :: "dispatch_evidence list"
  dl_acks :: "notice_acknowledgment list"
  dl_assessments :: "receipt_assessment list"
  dl_deemed :: "deemed_assessment list"
  dl_events :: "provider_event list"

type_synonym 'a delivery = "(delivery_db, 'a) svc"

record delivery_env =
  ev_provider :: "string option"
  ev_appEnv :: "string option"
  ev_sod :: "string option"
  ev_now :: int
  ev_sha :: "string \<Rightarrow> string"
  ev_recipientsJson :: "recipient_snapshot list \<Rightarrow> string"
  ev_attachmentsJson :: "attachment_snapshot list \<Rightarrow> string"
  ev_isoOf :: "int \<Rightarrow> string"
  ev_parseDate :: "string \<Rightarrow> int"
  ev_parseJson :: "string \<Rightarrow> raw_event option"

section \<open>Helpers\<close>

definition dispatchSodEnabled :: "delivery_env \<Rightarrow> bool" where
  "dispatchSodEnabled env \<longleftrightarrow> ev_sod env \<noteq> Some ''false''"

definition assertProjectMutable :: "project_status \<Rightarrow> ('s, unit) handler" where
  "assertProjectMutable status =
     requireH (status \<noteq> P_ARCHIVED) (conflict ''Archived projects are read-only'')"

text \<open>The part of a text before and after its first colon.\<close>

definition afterColon :: "string \<Rightarrow> string" where
  "afterColon s = takeWhile (\<lambda>c. c \<noteq> CHR '':'') (drop 1 (dropWhile (\<lambda>c. c \<noteq> CHR '':'') s))"

definition wrapDispatchError :: "string \<Rightarrow> app_error" where
  "wrapDispatchError message =
     (if startsWith message ''AUTHORIZATION_NOT_DISPATCHABLE''
      then validationError (''Authorization not dispatchable: '' @ afterColon message) None
      else if message = ''AUTHORIZATION_EXPIRED''
      then validationError ''Authorization has expired'' None
      else unexpectedError)"

definition dispatchable :: "delivery_env \<Rightarrow> authorization \<Rightarrow> ('s, unit) handler" where
  "dispatchable env auth =
     (case assertAuthorizationDispatchable (ev_now env) (da_status auth) (da_expiresAt auth) of
        Inl e \<Rightarrow> throwH (wrapDispatchError e) | Inr _ \<Rightarrow> returnH ())"

text \<open>
  \<open>loadPackage\<close>: the package and the status of its project.  A package without its project
  cannot exist (a foreign key); Prisma would fail on it.
\<close>

definition findPackage :: "string \<Rightarrow> string \<Rightarrow> string \<Rightarrow> delivery_db \<Rightarrow> notice_package option" where
  "findPackage tenantId projectId noticePackageId d =
     find (\<lambda>p. np_id p = noticePackageId \<and> np_tenantId p = tenantId \<and> np_projectId p = projectId)
       (dl_packages d)"

definition loadPackage ::
  "string \<Rightarrow> string \<Rightarrow> string \<Rightarrow> (notice_package \<times> project_status) delivery" where
  "loadPackage tenantId projectId noticePackageId =
     bindH (findOr notFound (findPackage tenantId projectId noticePackageId)) (\<lambda>pkg.
     bindH (readH (\<lambda>s. find (\<lambda>p. prj_id p = np_projectId pkg) (projects (ap_web s)))) (\<lambda>prj.
     case prj of None \<Rightarrow> throwH unexpectedError | Some p \<Rightarrow> returnH (pkg, prj_status p)))"

definition recipientOf :: "preparation \<Rightarrow> recipient_snapshot" where
  "recipientOf prep =
     \<lparr>rs_preparationId = dp_id prep,
      rs_displayName = (case dp_namedRecipient prep of Some n \<Rightarrow> n
        | None \<Rightarrow> case dp_recipientRole prep of Some r \<Rightarrow> r | None \<Rightarrow> ''Recipient''),
      rs_emailAddress = dp_emailAddress prep, rs_physicalAddress = dp_physicalAddress prep,
      rs_platformAddress = dp_platformAddress prep, rs_attentionLine = dp_attentionLine prep,
      rs_method = (case dp_selectedMethod prep of Some m \<Rightarrow> m
        | None \<Rightarrow> case dp_permittedMethod prep of Some m \<Rightarrow> m | None \<Rightarrow> []),
      rs_copiedRecipient = dp_copiedRecipient prep, rs_required = (\<not> dp_copiedRecipient prep)\<rparr>"

definition buildRecipientSnapshots ::
  "preparation list \<Rightarrow> recipient_snapshot list \<times> recipient_snapshot list" where
  "buildRecipientSnapshots preparations =
     (let verified = filter (\<lambda>p. dp_verificationStatus p = PV_VERIFIED) preparations
      in (map recipientOf (filter (\<lambda>p. \<not> dp_copiedRecipient p) verified),
          map recipientOf (filter dp_copiedRecipient verified)))"

definition buildAttachmentSnapshots ::
  "(string \<Rightarrow> string) \<Rightarrow> package_attachment list \<Rightarrow> attachment_snapshot list" where
  "buildAttachmentSnapshots sha = map (\<lambda>a.
     \<lparr>as_attachmentId = ax_id a, as_filename = ax_externalFilename a,
      as_checksumSha256 = (case ax_checksumSha256 a of Some c \<Rightarrow> c
        | None \<Rightarrow> sha (ax_externalFilename a)),
      as_sequence = ax_sequence a, as_mimeType = None\<rparr>)"

definition selectExportBundle :: "export_bundle list \<Rightarrow> string \<Rightarrow> export_bundle option" where
  "selectExportBundle bundles revisionId =
     (let forRevision = filter (\<lambda>b. eb_draftRevisionId b = revisionId) bundles in
      case find (\<lambda>b. eb_format b = ''ATTACHMENT_ZIP'') forRevision of Some b \<Rightarrow> Some b
      | None \<Rightarrow> case find (\<lambda>b. eb_format b = ''PDF'') forRevision of Some b \<Rightarrow> Some b
      | None \<Rightarrow> case forRevision of [] \<Rightarrow> None | b # _ \<Rightarrow> Some b)"

text \<open>JavaScript's \<open>sort\<close> is stable, as \<open>sort_key\<close> is.\<close>

definition revisionNoticeChecksum :: "(string \<Rightarrow> string) \<Rightarrow> draft_revision \<Rightarrow> string" where
  "revisionNoticeChecksum sha revision =
     (let body = joinWith [CHR 10] (map sc_body (sort_key sc_sequence (rv_sections revision)))
      in sha (if body = [] then rv_id revision else body))"

definition mapProviderRecipientStatus :: "string \<Rightarrow> recipient_status" where
  "mapProviderRecipientStatus status =
     (if status = ''PENDING'' then RP_PENDING
      else if status = ''SUBMITTED'' then RP_SUBMITTED
      else if status = ''SENT'' then RP_SENT
      else if status = ''DELIVERED'' then RP_DELIVERED
      else if status = ''BOUNCED'' then RP_BOUNCED
      else if status = ''REJECTED'' then RP_REJECTED
      else if status = ''FAILED'' then RP_FAILED
      else RP_UNKNOWN)"

fun mapAttemptToPackageStatus :: "attempt_status \<Rightarrow> package_status" where
  "mapAttemptToPackageStatus AT_DELIVERED = NP_DELIVERY_CONFIRMED"
| "mapAttemptToPackageStatus AT_PARTIALLY_DELIVERED = NP_DELIVERY_PARTIAL"
| "mapAttemptToPackageStatus AT_FAILED = NP_DELIVERY_FAILED"
| "mapAttemptToPackageStatus AT_UNCERTAIN_MANUAL_REVIEW = NP_DELIVERY_PENDING"
| "mapAttemptToPackageStatus _ = NP_DISPATCHED"

text \<open>\<open>notices/delivery-provider.ts\<close>: the web adapter.\<close>

definition getNoticeDeliveryProvider :: "delivery_env \<Rightarrow> string + provider option" where
  "getNoticeDeliveryProvider env =
     (case createNoticeDeliveryProvider (ev_provider env) (ev_appEnv env) of
        Inl e \<Rightarrow> Inl e
      | Inr None \<Rightarrow> Inr None
      | Inr (Some p) \<Rightarrow> (case assertDeliveryProviderAllowed p (ev_appEnv env) of
            Inl e \<Rightarrow> Inl e | Inr _ \<Rightarrow> Inr (Some p)))"

definition providerH :: "delivery_env \<Rightarrow> ('s, provider option) handler" where
  "providerH env = (case getNoticeDeliveryProvider env of
     Inl _ \<Rightarrow> throwH unexpectedError | Inr p \<Rightarrow> returnH p)"

definition requireAutomatedDeliveryProvider :: "delivery_env \<Rightarrow> ('s, provider) handler" where
  "requireAutomatedDeliveryProvider env = bindH (providerH env) (\<lambda>p. someH (validationError
     ''NOTICE_DELIVERY_PROVIDER must be fake or local_capture for automated send in this environment''
     None) p)"

definition setPackageStatus :: "string \<Rightarrow> package_status \<Rightarrow> unit delivery" where
  "setPackageStatus noticePackageId status = writeDb (\<lambda>d. d\<lparr>dl_packages :=
     updateWhere (\<lambda>p. np_id p = noticePackageId) (\<lambda>p. p\<lparr>np_status := status\<rparr>) (dl_packages d)\<rparr>)"

section \<open>Snapshots and authorizations\<close>

record snapshot_input =
  si_channel :: string
  si_cover :: cover_input

text \<open>The snapshot of a package, its checksum, or the first check that fails.\<close>

definition snapshotOf ::
  "delivery_env \<Rightarrow> notice_package \<Rightarrow> snapshot_input \<Rightarrow> string \<Rightarrow> string \<Rightarrow>
   app_error + (dispatch_snapshot \<times> string)" where
  "snapshotOf env pkg data newId creator =
     (if np_status pkg \<notin> set DISPATCH_PREP_STATUSES
      then Inl (validationError (''Package status '' @ package_status_name (np_status pkg)
             @ '' is not ready for dispatch preparation'') None)
      else case (np_activeApprovedRevisionId pkg, np_activeApprovedRevision pkg) of
        (Some revisionId, Some revision) \<Rightarrow>
          if \<not> rv_approved revision
          then Inl (validationError ''Active revision must be approved'' None)
          else if isFutureChannel (si_channel data)
          then Inl (validationError ''Future channels are not operational'' None)
          else if \<not> isOperationalChannel (si_channel data)
          then Inl (validationError (''Unsupported channel: '' @ si_channel data) None)
          else (case selectExportBundle (np_exportBundles pkg) revisionId of
            None \<Rightarrow> Inl (validationError
              ''At least one export bundle is required for the approved revision'' None)
          | Some bundle \<Rightarrow> (case validateCoverMessage (ev_sha env) (si_cover data) of
              Inl reason \<Rightarrow> Inl (validationError (''Cover message invalid: '' @ reason) None)
            | Inr cover \<Rightarrow>
                (let (required, copied) = buildRecipientSnapshots (np_deliveryPreparations pkg);
                     attachments = buildAttachmentSnapshots (ev_sha env)
                       (filter ax_included (np_attachments pkg))
                 in case validateRecipientsForDispatch (required @ copied) of
                   Inl reason \<Rightarrow> Inl (validationError (''Recipients invalid: '' @ reason) None)
                 | Inr _ \<Rightarrow>
                   (let manifest = ev_sha env (ev_attachmentsJson env attachments);
                        noticeChecksum = revisionNoticeChecksum (ev_sha env) revision;
                        snapshotChecksum = buildDispatchSnapshotChecksum (ev_sha env)
                          \<lparr>sp_noticeChecksum = noticeChecksum,
                           sp_bundleChecksum = eb_artifactChecksum bundle,
                           sp_attachmentManifestChecksum = manifest,
                           sp_recipientSnapshotJson = ev_recipientsJson env (required @ copied),
                           sp_coverChecksum = cm_checksumSha256 cover,
                           sp_channel = si_channel data\<rparr>
                    in Inr (\<lparr>sx_id = newId, sx_tenantId = np_tenantId pkg,
                         sx_projectId = np_projectId pkg, sx_noticePackageId = np_id pkg,
                         sx_approvedDraftRevisionId = revisionId, sx_noticeExportId = eb_id bundle,
                         sx_exportManifestChecksum = eb_artifactChecksum bundle,
                         sx_bundleChecksum = eb_artifactChecksum bundle,
                         sx_noticeChecksum = noticeChecksum,
                         sx_attachmentManifestChecksum = manifest,
                         sx_templateVersion = rv_templateVersion revision,
                         sx_language = np_language pkg, sx_subject = cm_subject cover,
                         sx_recipientSnapshot = required, sx_copiedRecipientSnapshot = copied,
                         sx_attachmentSnapshot = attachments, sx_coverMessageSnapshot = cover,
                         sx_channel = si_channel data, sx_createdByUserId = creator\<rparr>,
                       snapshotChecksum)))))
      | _ \<Rightarrow> Inl (validationError ''Active approved revision required'' None))"

definition createDispatchPackageSnapshot ::
  "delivery_env \<Rightarrow> ('raw \<Rightarrow> string list + snapshot_input) \<Rightarrow> string \<Rightarrow> string \<Rightarrow> string \<Rightarrow> 'raw \<Rightarrow>
   (dispatch_snapshot \<times> string) delivery" where
  "createDispatchPackageSnapshot env safeParse newId projectId noticePackageId rawInput =
     projectService projectId (DeliveryCap c_notice_dispatch_prepare) ''Invalid snapshot input''
       safeParse rawInput (\<lambda>ctx data.
     bindH (loadPackage (cx_tenantId ctx) projectId noticePackageId) (\<lambda>(pkg, projectStatus).
     thenH (assertProjectMutable projectStatus)
     (bindH (liftH (snapshotOf env pkg data newId (userId ctx))) (\<lambda>(snapshot, checksum).
     thenH (writeDb (\<lambda>d. d\<lparr>dl_snapshots := dl_snapshots d @ [snapshot]\<rparr>))
     (thenH (writeDb (\<lambda>d. d\<lparr>dl_covers := dl_covers d @
        [\<lparr>cv_tenantId = cx_tenantId ctx, cv_projectId = projectId,
          cv_noticePackageId = noticePackageId, cv_snapshotId = newId,
          cv_message = sx_coverMessageSnapshot snapshot, cv_createdByUserId = userId ctx\<rparr>]\<rparr>))
     (thenH (setPackageStatus noticePackageId NP_AUTHORIZATION_PENDING)
     (thenH (auditP ctx projectId ''notice_dispatch.snapshot_create''
        ''notice_dispatch_package_snapshot'' newId)
       (returnH (snapshot, checksum)))))))))"

definition findSnapshot ::
  "string \<Rightarrow> string \<Rightarrow> string \<Rightarrow> string \<Rightarrow> delivery_db \<Rightarrow> dispatch_snapshot option" where
  "findSnapshot tenantId projectId noticePackageId snapshotId d =
     find (\<lambda>x. sx_id x = snapshotId \<and> sx_noticePackageId x = noticePackageId
       \<and> sx_tenantId x = tenantId \<and> sx_projectId x = projectId) (dl_snapshots d)"

definition snapshotRecipients :: "dispatch_snapshot \<Rightarrow> recipient_snapshot list" where
  "snapshotRecipients snapshot = sx_recipientSnapshot snapshot @ sx_copiedRecipientSnapshot snapshot"

definition requestDispatchAuthorization ::
  "('raw \<Rightarrow> string list + string option) \<Rightarrow> string \<Rightarrow> string \<Rightarrow> string \<Rightarrow> string \<Rightarrow> 'raw \<Rightarrow>
   authorization delivery" where
  "requestDispatchAuthorization safeParse newId projectId noticePackageId snapshotId rawInput =
     projectService projectId (DeliveryCap c_notice_dispatch_request_authorization)
       ''Invalid authorization request'' safeParse rawInput (\<lambda>ctx rationale.
     bindH (loadPackage (cx_tenantId ctx) projectId noticePackageId) (\<lambda>(pkg, projectStatus).
     thenH (assertProjectMutable projectStatus)
     (bindH (findOr notFound (findSnapshot (cx_tenantId ctx) projectId noticePackageId snapshotId))
       (\<lambda>snapshot. let auth =
         \<lparr>da_id = newId, da_tenantId = cx_tenantId ctx, da_projectId = projectId,
          da_noticePackageId = noticePackageId, da_snapshotId = snapshotId,
          da_requestedByUserId = userId ctx, da_reviewedByUserId = None,
          da_authorizedByUserId = None, da_status = AU_REQUESTED, da_reviewedAt = None,
          da_authorizedAt = None, da_expiresAt = None, da_selectedChannel = sx_channel snapshot,
          da_recipientCount =
            length (filter (\<lambda>r. \<not> rs_copiedRecipient r) (snapshotRecipients snapshot)),
          da_copiedRecipientCount = length (filter rs_copiedRecipient (snapshotRecipients snapshot)),
          da_rationale = rationale, da_recipientsReviewed = False, da_methodReviewed = False,
          da_attachmentsReviewed = False, da_deadlineReviewed = False, da_scopeReviewed = False,
          da_deliveryRiskAcknowledged = False\<rparr>
       in thenH (writeDb (\<lambda>d. d\<lparr>dl_auths := dl_auths d @ [auth]\<rparr>))
          (thenH (auditP ctx projectId ''notice_dispatch.request_authorization''
             ''notice_dispatch_authorization'' newId)
            (returnH auth))))))"

definition findAuth ::
  "string \<Rightarrow> string \<Rightarrow> string \<Rightarrow> string \<Rightarrow> delivery_db \<Rightarrow> authorization option" where
  "findAuth tenantId projectId noticePackageId authorizationId d =
     find (\<lambda>a. da_id a = authorizationId \<and> da_noticePackageId a = noticePackageId
       \<and> da_tenantId a = tenantId \<and> da_projectId a = projectId) (dl_auths d)"

text \<open>The snapshot an authorization refers to, by its foreign key.\<close>

definition snapshotById :: "string \<Rightarrow> delivery_db \<Rightarrow> dispatch_snapshot option" where
  "snapshotById i d = find (\<lambda>x. sx_id x = i) (dl_snapshots d)"

definition updateAuth :: "string \<Rightarrow> (authorization \<Rightarrow> authorization) \<Rightarrow> unit delivery" where
  "updateAuth i f = writeDb (\<lambda>d. d\<lparr>dl_auths := updateWhere (\<lambda>a. da_id a = i) f (dl_auths d)\<rparr>)"

record authorize_input =
  az_recipientsReviewed :: bool
  az_methodReviewed :: bool
  az_attachmentsReviewed :: bool
  az_deadlineReviewed :: bool
  az_scopeReviewed :: bool
  az_deliveryRiskAcknowledged :: bool
  az_rationale :: "string option"
  az_expiresAt :: "string option"

definition allReviewed :: "authorize_input \<Rightarrow> bool" where
  "allReviewed c \<longleftrightarrow> az_recipientsReviewed c \<and> az_methodReviewed c \<and> az_attachmentsReviewed c
     \<and> az_deadlineReviewed c \<and> az_scopeReviewed c \<and> az_deliveryRiskAcknowledged c"

definition authorizeRow ::
  "delivery_env \<Rightarrow> project_context \<Rightarrow> authorize_input \<Rightarrow> authorization \<Rightarrow> authorization" where
  "authorizeRow env ctx checks auth =
     auth\<lparr>da_status := AU_AUTHORIZED, da_authorizedByUserId := Some (userId ctx),
       da_authorizedAt := Some (ev_now env), da_reviewedByUserId := Some (userId ctx),
       da_reviewedAt := Some (ev_now env), da_recipientsReviewed := True,
       da_methodReviewed := True, da_attachmentsReviewed := True, da_deadlineReviewed := True,
       da_scopeReviewed := True, da_deliveryRiskAcknowledged := True,
       da_rationale := (case az_rationale checks of None \<Rightarrow> da_rationale auth | Some r \<Rightarrow> Some r),
       da_expiresAt := (case az_expiresAt checks of
          Some e \<Rightarrow> if e = [] then da_expiresAt auth else Some (ev_parseDate env e)
        | None \<Rightarrow> da_expiresAt auth)\<rparr>"

definition awaitsReview :: "authorization \<Rightarrow> bool" where
  "awaitsReview auth \<longleftrightarrow> da_status auth = AU_REQUESTED \<or> da_status auth = AU_UNDER_REVIEW"

definition authorizeDispatch ::
  "delivery_env \<Rightarrow> ('raw \<Rightarrow> string list + authorize_input) \<Rightarrow> string \<Rightarrow> string \<Rightarrow> string \<Rightarrow> 'raw \<Rightarrow>
   authorization delivery" where
  "authorizeDispatch env safeParse projectId noticePackageId authorizationId rawInput =
     projectService projectId (DeliveryCap c_notice_dispatch_authorize) ''Invalid authorization''
       safeParse rawInput (\<lambda>ctx checks.
     bindH (loadPackage (cx_tenantId ctx) projectId noticePackageId) (\<lambda>(pkg, projectStatus).
     thenH (assertProjectMutable projectStatus)
     (bindH (findOr notFound (findAuth (cx_tenantId ctx) projectId noticePackageId authorizationId))
       (\<lambda>auth.
     bindH (findOr unexpectedError (snapshotById (da_snapshotId auth))) (\<lambda>snapshot.
     thenH (requireH (awaitsReview auth) (conflict (''Authorization status ''
        @ authorization_status_name (da_status auth) @ '' cannot be authorized'')))
     (thenH (requireH (\<not> (dispatchSodEnabled env \<and> np_sodEnforced pkg
          \<and> da_requestedByUserId auth = userId ctx))
        (forbidden ''Segregation of duties: authorizer cannot be the requester''))
     (thenH (requireH (\<not> (dispatchSodEnabled env \<and> np_sodEnforced pkg
          \<and> sx_createdByUserId snapshot = userId ctx))
        (forbidden ''Segregation of duties: authorizer cannot be the snapshot creator''))
     (thenH (requireH (allReviewed checks)
        (validationError ''All authorization review checkboxes must be confirmed'' None))
     (thenH (updateAuth (da_id auth) (authorizeRow env ctx checks))
     (thenH (setPackageStatus noticePackageId NP_AUTHORIZED_FOR_DISPATCH)
     (thenH (auditP ctx projectId ''notice_dispatch.authorize'' ''notice_dispatch_authorization''
        (da_id auth))
       (returnH (authorizeRow env ctx checks auth)))))))))))))"

definition rejectRow ::
  "delivery_env \<Rightarrow> project_context \<Rightarrow> string \<Rightarrow> authorization \<Rightarrow> authorization" where
  "rejectRow env ctx rationale auth = auth\<lparr>da_status := AU_REJECTED,
     da_reviewedByUserId := Some (userId ctx), da_reviewedAt := Some (ev_now env),
     da_rationale := Some rationale\<rparr>"

definition rejectDispatchAuthorization ::
  "delivery_env \<Rightarrow> ('raw \<Rightarrow> string list + string) \<Rightarrow> string \<Rightarrow> string \<Rightarrow> string \<Rightarrow> 'raw \<Rightarrow>
   authorization delivery" where
  "rejectDispatchAuthorization env safeParse projectId noticePackageId authorizationId rawInput =
     projectService projectId (DeliveryCap c_notice_dispatch_authorize) ''Invalid rejection''
       safeParse rawInput (\<lambda>ctx rationale.
     bindH (findOr notFound (findAuth (cx_tenantId ctx) projectId noticePackageId authorizationId))
       (\<lambda>auth.
     thenH (requireH (awaitsReview auth) (conflict (''Authorization status ''
        @ authorization_status_name (da_status auth) @ '' cannot be rejected'')))
     (thenH (updateAuth (da_id auth) (rejectRow env ctx rationale))
     (thenH (setPackageStatus noticePackageId NP_AUTHORIZATION_PENDING)
     (thenH (auditP ctx projectId ''notice_dispatch.reject'' ''notice_dispatch_authorization''
        (da_id auth))
       (returnH (rejectRow env ctx rationale auth)))))))"

definition revokeDispatchAuthorization ::
  "('raw \<Rightarrow> string list + string) \<Rightarrow> string \<Rightarrow> string \<Rightarrow> string \<Rightarrow> 'raw \<Rightarrow> authorization delivery" where
  "revokeDispatchAuthorization safeParse projectId noticePackageId authorizationId rawInput =
     projectService projectId (DeliveryCap c_notice_dispatch_revoke) ''Invalid revocation''
       safeParse rawInput (\<lambda>ctx rationale.
     bindH (findOr notFound (findAuth (cx_tenantId ctx) projectId noticePackageId authorizationId))
       (\<lambda>auth.
     thenH (requireH (da_status auth = AU_AUTHORIZED)
        (conflict ''Only authorized dispatch can be revoked''))
     (thenH (updateAuth (da_id auth)
        (\<lambda>a. a\<lparr>da_status := AU_REVOKED, da_rationale := Some rationale\<rparr>))
     (thenH (setPackageStatus noticePackageId NP_AUTHORIZATION_PENDING)
     (thenH (auditP ctx projectId ''notice_dispatch.revoke'' ''notice_dispatch_authorization''
        (da_id auth))
       (returnH (auth\<lparr>da_status := AU_REVOKED, da_rationale := Some rationale\<rparr>)))))))"

record readiness =
  rd_authorizationId :: string
  rd_authorizationStatus :: authorization_status
  rd_checksumValid :: bool
  rd_risk :: "risk_level \<times> string list"

text \<open>The deadline of a package the service reads is that of its calculation.\<close>

definition validateDispatchReadiness ::
  "delivery_env \<Rightarrow> string \<Rightarrow> string \<Rightarrow> string \<Rightarrow> readiness delivery" where
  "validateDispatchReadiness env projectId noticePackageId authorizationId =
     projectAction projectId (DeliveryCap c_delivery_risk_read) (\<lambda>ctx.
     bindH (findOr notFound (findAuth (cx_tenantId ctx) projectId noticePackageId authorizationId))
       (\<lambda>auth.
     bindH (findOr unexpectedError (snapshotById (da_snapshotId auth))) (\<lambda>snapshot.
     bindH (findOr unexpectedError (\<lambda>d. find (\<lambda>p. np_id p = noticePackageId) (dl_packages d))) (\<lambda>pkg.
     bindH (providerH env) (\<lambda>provider.
     let attachments = sx_attachmentSnapshot snapshot in
     returnH \<lparr>rd_authorizationId = da_id auth, rd_authorizationStatus = da_status auth,
       rd_checksumValid = isOk (validateAttachmentChecksums attachments attachments),
       rd_risk = computeDeliveryRisk (ev_now env)
         \<lparr>rk_deadlineAt = np_calculatedDeadlineAt pkg,
          rk_missingVerifiedRecipient = list_ex (\<lambda>p. \<not> dp_copiedRecipient p
            \<and> dp_verificationStatus p \<noteq> PV_VERIFIED) (np_deliveryPreparations pkg),
          rk_providerConfigured = (provider \<noteq> None), rk_attachmentOverLimit = False,
          rk_requiredRecipientFailed = False, rk_receiptUnconfirmed = False,
          rk_authorizationExpired = (case da_expiresAt auth of None \<Rightarrow> False | Some t \<Rightarrow> t < ev_now env),
          rk_manualProofMissing = startsWith (da_selectedChannel auth) ''MANUAL_'',
          rk_dispatchedAfterDeadline = False, rk_methodNotPermitted = False\<rparr>\<rparr>)))))"

section \<open>Dispatch\<close>

text \<open>
  The unique keys of an attempt: (authorization, attempt number) and the idempotency key.  Creating
  one that is taken fails in the database.
\<close>

definition attemptKeysFree :: "dispatch_attempt \<Rightarrow> delivery_db \<Rightarrow> bool" where
  "attemptKeysFree a d \<longleftrightarrow> \<not> list_ex (\<lambda>b. dt_idempotencyKey b = dt_idempotencyKey a
     \<or> (dt_authorizationId b = dt_authorizationId a \<and> dt_attemptNumber b = dt_attemptNumber a))
     (dl_attempts d)"

definition createAttempt :: "dispatch_attempt \<Rightarrow> unit delivery" where
  "createAttempt a = bindH (readDb (attemptKeysFree a)) (\<lambda>free.
     if free then writeDb (\<lambda>d. d\<lparr>dl_attempts := dl_attempts d @ [a]\<rparr>) else throwH unexpectedError)"

definition updateAttempt :: "string \<Rightarrow> (dispatch_attempt \<Rightarrow> dispatch_attempt) \<Rightarrow> unit delivery" where
  "updateAttempt i f = writeDb (\<lambda>d. d\<lparr>dl_attempts := updateWhere (\<lambda>a. dt_id a = i) f (dl_attempts d)\<rparr>)"

definition attemptCount :: "string \<Rightarrow> delivery_db \<Rightarrow> nat" where
  "attemptCount authorizationId d =
     length (filter (\<lambda>a. dt_authorizationId a = authorizationId) (dl_attempts d))"

definition attemptKey ::
  "delivery_env \<Rightarrow> authorization \<Rightarrow> nat \<Rightarrow> recipient_snapshot list \<Rightarrow> string" where
  "attemptKey env auth attemptNumber recipients = buildIdempotencyKey (ev_sha env)
     \<lparr>ik_authorizationId = da_id auth, ik_channel = da_selectedChannel auth,
      ik_attemptNumber = attemptNumber,
      ik_recipientPreparationIds = map rs_preparationId recipients\<rparr>"

definition addressOf :: "recipient_snapshot \<Rightarrow> string option" where
  "addressOf r = orElse (rs_emailAddress r) (orElse (rs_physicalAddress r) (rs_platformAddress r))"

text \<open>The row of a recipient the provider answered for.\<close>

definition sentRecipientRow ::
  "project_context \<Rightarrow> string \<Rightarrow> authorization \<Rightarrow> string \<Rightarrow> recipient_snapshot list \<Rightarrow> send_result \<Rightarrow>
   (string \<times> recipient_result) \<Rightarrow> dispatch_recipient" where
  "sentRecipientRow ctx projectId auth attemptId recipients result =
     (\<lambda>(rowId, r). let prep = find (\<lambda>p. rs_preparationId p = rr_preparationId r) recipients in
     \<lparr>dx_id = rowId, dx_tenantId = cx_tenantId ctx, dx_projectId = projectId,
      dx_attemptId = attemptId,
      dx_recipientType = (if (case prep of None \<Rightarrow> False | Some p \<Rightarrow> rs_copiedRecipient p)
        then ''COPIED'' else ''PRIMARY''),
      dx_preparationId = rr_preparationId r,
      dx_displayName = (case prep of None \<Rightarrow> ''Recipient'' | Some p \<Rightarrow> rs_displayName p),
      dx_addressOrEmail = (case prep of None \<Rightarrow> None | Some p \<Rightarrow> addressOf p),
      dx_copiedRecipient = (case prep of None \<Rightarrow> False | Some p \<Rightarrow> rs_copiedRecipient p),
      dx_requiredRecipient = (case prep of None \<Rightarrow> True | Some p \<Rightarrow> rs_required p),
      dx_method = (case prep of None \<Rightarrow> da_selectedChannel auth | Some p \<Rightarrow> rs_method p),
      dx_status = mapProviderRecipientStatus (rr_status r),
      dx_providerRecipientId = rr_providerRecipientId r, dx_failureReason = rr_failureReason r,
      dx_sentAt = sn_sentAt result, dx_deliveredAt = None, dx_acknowledgedAt = None\<rparr>)"

definition failureReasonOf :: "send_result \<Rightarrow> string option" where
  "failureReasonOf result = (case find (\<lambda>r. truthy (rr_failureReason r)) (sn_recipients result) of
     None \<Rightarrow> None | Some r \<Rightarrow> rr_failureReason r)"

definition retryInput :: "send_result \<Rightarrow> retry_input" where
  "retryInput result = \<lparr>ry_providerAccepted = (sn_outcome result = ACCEPTED \<or> sn_outcome result = PARTIAL),
     ry_providerMessageId = sn_providerMessageId result,
     ry_failureCode = failureReasonOf result,
     ry_timedOutAfterSubmit = (sn_outcome result = TIMEOUT_AFTER_POSSIBLE_SUBMIT),
     ry_checksumMismatch = False, ry_authorizationValid = True, ry_artifactPresent = True\<rparr>"

definition newAttempt ::
  "project_context \<Rightarrow> string \<Rightarrow> string \<Rightarrow> authorization \<Rightarrow> string \<Rightarrow> nat \<Rightarrow> string \<Rightarrow> attempt_status \<Rightarrow>
   string \<Rightarrow> string \<Rightarrow> int option \<Rightarrow> dispatch_attempt" where
  "newAttempt ctx projectId noticePackageId auth newId attemptNumber kind status correlationId key time =
     \<lparr>dt_id = newId, dt_tenantId = cx_tenantId ctx, dt_projectId = projectId,
      dt_noticePackageId = noticePackageId, dt_authorizationId = da_id auth,
      dt_snapshotId = da_snapshotId auth, dt_attemptNumber = attemptNumber,
      dt_channel = da_selectedChannel auth, dt_provider = kind, dt_status = status,
      dt_initiatedByUserId = userId ctx, dt_correlationId = correlationId,
      dt_idempotencyKey = key, dt_startedAt = time, dt_completedAt = time,
      dt_providerMessageId = None, dt_providerSubmissionId = None, dt_retryClass = None,
      dt_failureCode = None\<rparr>"

definition finishAttempt ::
  "delivery_env \<Rightarrow> attempt_status \<Rightarrow> send_result \<Rightarrow> dispatch_attempt \<Rightarrow> dispatch_attempt" where
  "finishAttempt env aggregated result a = a\<lparr>dt_status := aggregated,
     dt_providerMessageId := sn_providerMessageId result,
     dt_providerSubmissionId := sn_providerSubmissionId result,
     dt_startedAt := Some (ev_now env), dt_completedAt := Some (ev_now env),
     dt_retryClass := Some (classifyRetry (retryInput result)),
     dt_failureCode := (if sn_outcome result \<noteq> ACCEPTED then Some (outcome_name (sn_outcome result))
       else None)\<rparr>"

definition deliveryMessage ::
  "dispatch_snapshot \<Rightarrow> string \<Rightarrow> string \<Rightarrow> message_input" where
  "deliveryMessage snapshot key correlationId =
     \<lparr>mi_snapshotId = sx_id snapshot, mi_recipients = snapshotRecipients snapshot,
      mi_cover = sx_coverMessageSnapshot snapshot,
      mi_artifactChecksum = sx_bundleChecksum snapshot,
      mi_attachmentSnapshots = sx_attachmentSnapshot snapshot,
      mi_idempotencyKey = key, mi_correlationId = correlationId\<rparr>"

text \<open>What is stored of the provider's answer: the recipients, the attempt, the package.\<close>

definition recordOutcome ::
  "delivery_env \<Rightarrow> project_context \<Rightarrow> (nat \<Rightarrow> string) \<Rightarrow> string \<Rightarrow> string \<Rightarrow> authorization \<Rightarrow>
   recipient_snapshot list \<Rightarrow> dispatch_attempt \<Rightarrow> send_result \<Rightarrow> dispatch_attempt delivery" where
  "recordOutcome env ctx rowIds projectId noticePackageId auth recipients attempt result =
     (let rows = map (sentRecipientRow ctx projectId auth (dt_id attempt) recipients result)
            (zip (map rowIds [0..<length (sn_recipients result)]) (sn_recipients result));
          aggregated = aggregateRecipientStatus (map dx_status rows)
      in thenH (writeDb (\<lambda>d. d\<lparr>dl_recipients := dl_recipients d @ rows\<rparr>))
         (thenH (updateAttempt (dt_id attempt) (finishAttempt env aggregated result))
         (thenH (setPackageStatus noticePackageId (mapAttemptToPackageStatus aggregated))
         (thenH (auditP ctx projectId ''notice_dispatch.send'' ''notice_dispatch_attempt''
            (dt_id attempt))
           (returnH (finishAttempt env aggregated result attempt))))))"

text \<open>
  \<open>sendApprovedNoticeEmail\<close>; \<open>rowIds\<close> are the generated ids of the recipient rows.
  \<open>validateConfiguration\<close> and \<open>prepareMessage\<close> of both providers always succeed, and
  \<open>assertNoAutonomousResend\<close> finds none of the forbidden names in the module.
\<close>

definition sendApprovedNoticeEmail ::
  "delivery_env \<Rightarrow> string \<Rightarrow> string \<Rightarrow> (nat \<Rightarrow> string) \<Rightarrow> string \<Rightarrow> string \<Rightarrow> string \<Rightarrow>
   dispatch_attempt delivery" where
  "sendApprovedNoticeEmail env newId correlationId rowIds projectId noticePackageId authorizationId =
     projectAction projectId (DeliveryCap c_notice_dispatch_send) (\<lambda>ctx.
     bindH (loadPackage (cx_tenantId ctx) projectId noticePackageId) (\<lambda>(pkg, projectStatus).
     thenH (assertProjectMutable projectStatus)
     (bindH (findOr notFound (findAuth (cx_tenantId ctx) projectId noticePackageId authorizationId))
       (\<lambda>auth.
     bindH (findOr unexpectedError (snapshotById (da_snapshotId auth))) (\<lambda>snapshot.
     thenH (dispatchable env auth)
     (thenH (requireH (da_selectedChannel auth = ''CONTROLLED_EMAIL'') (validationError
        ''sendApprovedNoticeEmail requires CONTROLLED_EMAIL channel'' None))
     (bindH (requireAutomatedDeliveryProvider env) (\<lambda>provider.
     bindH (readDb (attemptCount (da_id auth))) (\<lambda>count.
     let recipients = snapshotRecipients snapshot;
         attemptNumber = count + 1;
         key = attemptKey env auth attemptNumber recipients;
         attempt = newAttempt ctx projectId noticePackageId auth newId attemptNumber
           (providerKind provider) AT_PREPARED correlationId key None
     in thenH (createAttempt attempt)
     (thenH (updateAuth (da_id auth) (\<lambda>a. a\<lparr>da_status := AU_USED\<rparr>))
     (thenH (setPackageStatus noticePackageId NP_DISPATCH_IN_PROGRESS)
       (recordOutcome env ctx rowIds projectId noticePackageId auth recipients attempt
         (sendMessage provider (ev_now env) (deliveryMessage snapshot key correlationId))))))))))))))"

definition manualRecipientRow ::
  "project_context \<Rightarrow> string \<Rightarrow> string \<Rightarrow> string \<Rightarrow> (string \<times> recipient_snapshot) \<Rightarrow>
   dispatch_recipient" where
  "manualRecipientRow ctx projectId attemptId method = (\<lambda>(rowId, prep).
     \<lparr>dx_id = rowId, dx_tenantId = cx_tenantId ctx, dx_projectId = projectId,
      dx_attemptId = attemptId,
      dx_recipientType = (if rs_copiedRecipient prep then ''COPIED'' else ''PRIMARY''),
      dx_preparationId = rs_preparationId prep, dx_displayName = rs_displayName prep,
      dx_addressOrEmail = addressOf prep, dx_copiedRecipient = rs_copiedRecipient prep,
      dx_requiredRecipient = rs_required prep, dx_method = method,
      dx_status = RP_MANUALLY_CONFIRMED, dx_providerRecipientId = None, dx_failureReason = None,
      dx_sentAt = None, dx_deliveredAt = None, dx_acknowledgedAt = None\<rparr>)"

definition recordManualDispatch ::
  "delivery_env \<Rightarrow> ('raw \<Rightarrow> string list + manual_input) \<Rightarrow> string \<Rightarrow> string \<Rightarrow> (nat \<Rightarrow> string) \<Rightarrow>
   string \<Rightarrow> string \<Rightarrow> string \<Rightarrow> 'raw \<Rightarrow> dispatch_attempt delivery" where
  "recordManualDispatch env safeParse newId correlationId rowIds projectId noticePackageId
       authorizationId rawInput =
     projectService projectId (DeliveryCap c_notice_dispatch_record_manual)
       ''Invalid manual dispatch'' safeParse rawInput (\<lambda>ctx data.
     bindH (loadPackage (cx_tenantId ctx) projectId noticePackageId) (\<lambda>(pkg, projectStatus).
     thenH (assertProjectMutable projectStatus)
     (bindH (findOr notFound (findAuth (cx_tenantId ctx) projectId noticePackageId authorizationId))
       (\<lambda>auth.
     bindH (findOr unexpectedError (snapshotById (da_snapshotId auth))) (\<lambda>snapshot.
     thenH (dispatchable env auth)
     (thenH (requireH (startsWith (da_selectedChannel auth) ''MANUAL_'')
        (validationError ''Authorization channel is not manual'' None))
     (bindH (readDb (attemptCount (da_id auth))) (\<lambda>count.
     let recipients = snapshotRecipients snapshot;
         attemptNumber = count + 1;
         key = attemptKey env auth attemptNumber recipients;
         attempt = newAttempt ctx projectId noticePackageId auth newId attemptNumber
           ''manual'' AT_MANUAL_DISPATCH_RECORDED correlationId key (Some (ev_now env));
         rows = map (manualRecipientRow ctx projectId newId (mn_method data))
           (zip (map rowIds [0..<length recipients]) recipients)
     in thenH (createAttempt attempt)
     (thenH (writeDb (\<lambda>d. d\<lparr>dl_recipients := dl_recipients d @ rows\<rparr>))
     (thenH (writeDb (\<lambda>d. d\<lparr>dl_manuals := dl_manuals d @
        [\<lparr>mr_tenantId = cx_tenantId ctx, mr_projectId = projectId, mr_attemptId = newId,
          mr_input = data, mr_dispatchAt = ev_parseDate env (mn_dispatchAt data),
          mr_dispatchedByUserId = userId ctx\<rparr>]\<rparr>))
     (thenH (updateAuth (da_id auth) (\<lambda>a. a\<lparr>da_status := AU_USED\<rparr>))
     (thenH (updateAttempt newId (\<lambda>a. a\<lparr>dt_status := AT_AWAITING_EVIDENCE\<rparr>))
     (thenH (setPackageStatus noticePackageId NP_DISPATCHED)
     (thenH (auditP ctx projectId ''notice_dispatch.record_manual'' ''notice_dispatch_attempt'' newId)
       (returnH (attempt\<lparr>dt_status := AT_AWAITING_EVIDENCE\<rparr>))))))))))))))))"

section \<open>Evidence and acknowledgments\<close>

definition findAttempt ::
  "string \<Rightarrow> string \<Rightarrow> string \<Rightarrow> string \<Rightarrow> delivery_db \<Rightarrow> dispatch_attempt option" where
  "findAttempt tenantId projectId noticePackageId attemptId d =
     find (\<lambda>a. dt_id a = attemptId \<and> dt_noticePackageId a = noticePackageId
       \<and> dt_tenantId a = tenantId \<and> dt_projectId a = projectId) (dl_attempts d)"

definition uploadDispatchEvidence ::
  "delivery_env \<Rightarrow> ('raw \<Rightarrow> string list + evidence_input) \<Rightarrow> string \<Rightarrow> string \<Rightarrow> string \<Rightarrow> 'raw \<Rightarrow>
   dispatch_evidence delivery" where
  "uploadDispatchEvidence env safeParse newId projectId noticePackageId rawInput =
     projectService projectId (DeliveryCap c_dispatch_evidence_upload) ''Invalid evidence''
       safeParse rawInput (\<lambda>ctx data.
     bindH (findOr notFound
       (findAttempt (cx_tenantId ctx) projectId noticePackageId (ei_attemptId data))) (\<lambda>attempt.
     let evidence = \<lparr>de_id = newId, de_tenantId = cx_tenantId ctx, de_projectId = projectId,
           de_attemptId = dt_id attempt, de_recipientId = ei_recipientId data,
           de_evidenceType = ei_evidenceType data, de_filename = ei_filename data,
           de_checksumSha256 = ei_checksumSha256 data, de_storageKey = ei_storageKey data,
           de_occurredAt = (if truthy (ei_occurredAt data)
              then Some (ev_parseDate env (the (ei_occurredAt data))) else None),
           de_recordedByUserId = userId ctx, de_verifiedByUserId = None,
           de_verificationStatus = EV_UNVERIFIED\<rparr>
     in thenH (writeDb (\<lambda>d. d\<lparr>dl_evidence := dl_evidence d @ [evidence]\<rparr>))
        (thenH (auditP ctx projectId ''dispatch_evidence.upload'' ''dispatch_evidence'' newId)
          (returnH evidence))))"

definition findEvidence ::
  "string \<Rightarrow> string \<Rightarrow> string \<Rightarrow> string \<Rightarrow> delivery_db \<Rightarrow> dispatch_evidence option" where
  "findEvidence tenantId projectId noticePackageId evidenceId d =
     find (\<lambda>e. de_id e = evidenceId \<and> de_tenantId e = tenantId \<and> de_projectId e = projectId
       \<and> list_ex (\<lambda>a. dt_id a = de_attemptId e \<and> dt_noticePackageId a = noticePackageId)
            (dl_attempts d)) (dl_evidence d)"

definition verifyDispatchEvidence ::
  "('raw \<Rightarrow> string list + (string \<times> evidence_status)) \<Rightarrow> string \<Rightarrow> string \<Rightarrow> 'raw \<Rightarrow>
   dispatch_evidence delivery" where
  "verifyDispatchEvidence safeParse projectId noticePackageId rawInput =
     projectService projectId (DeliveryCap c_dispatch_evidence_verify) ''Invalid verification''
       safeParse rawInput (\<lambda>ctx (evidenceId, status).
     bindH (findOr notFound (findEvidence (cx_tenantId ctx) projectId noticePackageId evidenceId))
       (\<lambda>evidence.
     let verify = (\<lambda>e. e\<lparr>de_verificationStatus := status, de_verifiedByUserId := Some (userId ctx)\<rparr>)
     in thenH (writeDb (\<lambda>d. d\<lparr>dl_evidence :=
          updateWhere (\<lambda>e. de_id e = de_id evidence) verify (dl_evidence d)\<rparr>))
        (thenH (auditP ctx projectId ''dispatch_evidence.verify'' ''dispatch_evidence''
           (de_id evidence))
          (returnH (verify evidence)))))"

text \<open>
  The recipient named in the body is looked up by its id alone: \<open>update\<close> finds any row of
  the caller's organization, and fails when there is none.
\<close>

definition acknowledgeRecipient :: "string \<Rightarrow> string \<Rightarrow> int \<Rightarrow> unit delivery" where
  "acknowledgeRecipient tenantId recipientId time =
     bindH (readDb (\<lambda>d. list_ex (\<lambda>r. dx_id r = recipientId \<and> dx_tenantId r = tenantId)
       (dl_recipients d))) (\<lambda>found.
     if found then writeDb (\<lambda>d. d\<lparr>dl_recipients :=
         updateWhere (\<lambda>r. dx_id r = recipientId \<and> dx_tenantId r = tenantId)
           (\<lambda>r. r\<lparr>dx_status := RP_ACKNOWLEDGED, dx_acknowledgedAt := Some time\<rparr>) (dl_recipients d)\<rparr>)
     else throwH unexpectedError)"

definition recordAcknowledgment ::
  "delivery_env \<Rightarrow> ('raw \<Rightarrow> string list + acknowledgment_input) \<Rightarrow> string \<Rightarrow> string \<Rightarrow> string \<Rightarrow> 'raw \<Rightarrow>
   notice_acknowledgment delivery" where
  "recordAcknowledgment env safeParse newId projectId noticePackageId rawInput =
     projectService projectId (DeliveryCap c_notice_acknowledgment_record)
       ''Invalid acknowledgment'' safeParse rawInput (\<lambda>ctx data.
     bindH (findOr notFound
       (findAttempt (cx_tenantId ctx) projectId noticePackageId (ao_attemptId data))) (\<lambda>attempt.
     let time = ev_parseDate env (ao_acknowledgedAt data);
         ack = \<lparr>ak_id = newId, ak_tenantId = cx_tenantId ctx, ak_projectId = projectId,
           ak_noticePackageId = noticePackageId, ak_attemptId = dt_id attempt,
           ak_recipientId = ao_recipientId data,
           ak_acknowledgmentType = ao_acknowledgmentType data, ak_acknowledgedAt = time,
           ak_summary = ao_summary data, ak_sourceEvidenceId = ao_sourceEvidenceId data,
           ak_recordedByUserId = userId ctx, ak_verifiedByUserId = None, ak_status = AK_RECORDED\<rparr>
     in thenH (writeDb (\<lambda>d. d\<lparr>dl_acks := dl_acks d @ [ack]\<rparr>))
        (thenH (if truthy (ao_recipientId data)
            then acknowledgeRecipient (cx_tenantId ctx) (the (ao_recipientId data)) time
            else returnH ())
        (thenH (auditP ctx projectId ''notice_acknowledgment.record'' ''notice_acknowledgment'' newId)
          (returnH ack)))))"

definition verifyAcknowledgment ::
  "('raw \<Rightarrow> string list + string) \<Rightarrow> string \<Rightarrow> string \<Rightarrow> 'raw \<Rightarrow> notice_acknowledgment delivery" where
  "verifyAcknowledgment safeParse projectId noticePackageId rawInput =
     projectService projectId (DeliveryCap c_notice_acknowledgment_verify) ''Invalid verification''
       safeParse rawInput (\<lambda>ctx ackId.
     bindH (findOr notFound (\<lambda>d. find (\<lambda>k. ak_id k = ackId \<and> ak_noticePackageId k = noticePackageId
        \<and> ak_tenantId k = cx_tenantId ctx \<and> ak_projectId k = projectId) (dl_acks d))) (\<lambda>ack.
     let verify = (\<lambda>k. k\<lparr>ak_status := AK_VERIFIED, ak_verifiedByUserId := Some (userId ctx)\<rparr>)
     in thenH (writeDb (\<lambda>d. d\<lparr>dl_acks := updateWhere (\<lambda>k. ak_id k = ak_id ack) verify (dl_acks d)\<rparr>))
        (thenH (auditP ctx projectId ''notice_acknowledgment.verify'' ''notice_acknowledgment''
           (ak_id ack))
          (returnH (verify ack)))))"

section \<open>Receipts\<close>

text \<open>
  \<open>assessReceipt\<close>: the recipient is the named one of the attempt, or its first; the advisory
  date of a deemed receipt is kept beside the assessment and never sets a contractual status.
\<close>

definition attemptRecipients :: "string \<Rightarrow> delivery_db \<Rightarrow> dispatch_recipient list" where
  "attemptRecipients attemptId d = filter (\<lambda>r. dx_attemptId r = attemptId) (dl_recipients d)"

definition chosenRecipient ::
  "string option \<Rightarrow> dispatch_recipient list \<Rightarrow> dispatch_recipient option" where
  "chosenRecipient recipientId rs =
     (if truthy recipientId then find (\<lambda>r. dx_id r = the recipientId) rs
      else case rs of [] \<Rightarrow> None | r # _ \<Rightarrow> Some r)"

definition deemedOf ::
  "delivery_env \<Rightarrow> receipt_input \<Rightarrow> dispatch_attempt \<Rightarrow> dispatch_recipient list \<Rightarrow>
   deemed_result option" where
  "deemedOf env data attempt rs = (case ri_deemedReceiptRule data of
     None \<Rightarrow> None
   | Some rule \<Rightarrow> Some (assessDeemedReceipt (ev_isoOf env)
       \<lparr>di_rule = rule, di_sentAt = dt_completedAt attempt,
        di_deliveredAt = (case chosenRecipient (ri_recipientId data) rs of
          None \<Rightarrow> None | Some r \<Rightarrow> dx_deliveredAt r),
        di_postalDays = None, di_isWorkingDay = None\<rparr>))"

definition deemedRow ::
  "project_context \<Rightarrow> string \<Rightarrow> string \<Rightarrow> string \<Rightarrow> dispatch_attempt \<Rightarrow> receipt_input \<Rightarrow>
   deemed_result option \<Rightarrow> deemed_assessment list" where
  "deemedRow ctx projectId noticePackageId assessmentId attempt data deemed = (case deemed of
     None \<Rightarrow> []
   | Some r \<Rightarrow> (case dr_advisoryAt r of
       None \<Rightarrow> []
     | Some t \<Rightarrow> [\<lparr>dm_tenantId = cx_tenantId ctx, dm_projectId = projectId,
         dm_noticePackageId = noticePackageId, dm_receiptAssessmentId = assessmentId,
         dm_ruleKind = (case ri_deemedReceiptRule data of None \<Rightarrow> NO_RULE | Some x \<Rightarrow> x),
         dm_attemptId = dt_id attempt, dm_calculationTrace = dr_trace r, dm_advisoryAt = t,
         dm_ambiguity = dr_ambiguity r\<rparr>]))"

definition assessReceipt ::
  "delivery_env \<Rightarrow> ('raw \<Rightarrow> string list + receipt_input) \<Rightarrow> string \<Rightarrow> string \<Rightarrow> string \<Rightarrow> 'raw \<Rightarrow>
   receipt_assessment delivery" where
  "assessReceipt env safeParse newId projectId noticePackageId rawInput =
     projectService projectId (DeliveryCap c_notice_receipt_assess) ''Invalid receipt assessment''
       safeParse rawInput (\<lambda>ctx data.
     bindH (findOr notFound
       (findAttempt (cx_tenantId ctx) projectId noticePackageId (ri_attemptId data))) (\<lambda>attempt.
     bindH (readDb (attemptRecipients (dt_id attempt))) (\<lambda>rs.
     let deemed = deemedOf env data attempt rs;
         assessment = \<lparr>rx_id = newId, rx_tenantId = cx_tenantId ctx, rx_projectId = projectId,
           rx_noticePackageId = noticePackageId, rx_attemptId = dt_id attempt,
           rx_recipientId = ri_recipientId data, rx_receiptStatus = ri_receiptStatus data,
           rx_receiptAt = (if truthy (ri_receiptAt data)
              then Some (ev_parseDate env (the (ri_receiptAt data))) else None),
           rx_source = ri_source data, rx_evidenceId = ri_evidenceId data,
           rx_deemedReceiptRule = ri_deemedReceiptRule data, rx_deemedReceiptResult = deemed,
           rx_contractualServiceStatus = CS_NOT_ASSESSED, rx_reviewedByUserId = userId ctx,
           rx_reviewedAt = ev_now env, rx_rationale = ri_rationale data\<rparr>
     in thenH (writeDb (\<lambda>d. d\<lparr>dl_assessments := dl_assessments d @ [assessment]\<rparr>))
        (thenH (writeDb (\<lambda>d. d\<lparr>dl_deemed := dl_deemed d
           @ deemedRow ctx projectId noticePackageId newId attempt data deemed\<rparr>))
        (thenH (auditP ctx projectId ''notice_receipt.assess'' ''notice_receipt_assessment'' newId)
          (returnH assessment))))))"

definition findAssessmentRow ::
  "string \<Rightarrow> string \<Rightarrow> string \<Rightarrow> string \<Rightarrow> delivery_db \<Rightarrow> receipt_assessment option" where
  "findAssessmentRow tenantId projectId noticePackageId assessmentId d =
     find (\<lambda>a. rx_id a = assessmentId \<and> rx_noticePackageId a = noticePackageId
       \<and> rx_tenantId a = tenantId \<and> rx_projectId a = projectId) (dl_assessments d)"

definition attemptById :: "string \<Rightarrow> delivery_db \<Rightarrow> dispatch_attempt option" where
  "attemptById i d = find (\<lambda>a. dt_id a = i) (dl_attempts d)"

definition confirmRow ::
  "delivery_env \<Rightarrow> project_context \<Rightarrow> string option \<Rightarrow> receipt_assessment \<Rightarrow> receipt_assessment" where
  "confirmRow env ctx rationale a = a\<lparr>rx_contractualServiceStatus := CS_HUMAN_CONFIRMED,
     rx_reviewedByUserId := userId ctx, rx_reviewedAt := ev_now env,
     rx_rationale := orElse rationale (rx_rationale a)\<rparr>"

definition confirmContractualService ::
  "delivery_env \<Rightarrow> ('raw \<Rightarrow> string list + (string \<times> string option)) \<Rightarrow> string \<Rightarrow> string \<Rightarrow> 'raw \<Rightarrow>
   receipt_assessment delivery" where
  "confirmContractualService env safeParse projectId noticePackageId rawInput =
     projectService projectId (DeliveryCap c_notice_receipt_confirm) ''Invalid confirmation''
       safeParse rawInput (\<lambda>ctx (assessmentId, rationale).
     bindH (loadPackage (cx_tenantId ctx) projectId noticePackageId) (\<lambda>(pkg, projectStatus).
     bindH (findOr notFound
       (findAssessmentRow (cx_tenantId ctx) projectId noticePackageId assessmentId)) (\<lambda>assessment.
     bindH (findOr unexpectedError (attemptById (rx_attemptId assessment))) (\<lambda>attempt.
     thenH (requireH (\<not> (dispatchSodEnabled env \<and> np_sodEnforced pkg
          \<and> dt_initiatedByUserId attempt = userId ctx))
        (forbidden ''Segregation of duties: confirmer cannot be dispatch initiator''))
     (thenH (writeDb (\<lambda>d. d\<lparr>dl_assessments := updateWhere (\<lambda>a. rx_id a = rx_id assessment)
        (confirmRow env ctx rationale) (dl_assessments d)\<rparr>))
     (thenH (setPackageStatus noticePackageId NP_RECEIPT_CONFIRMED)
     (thenH (auditP ctx projectId ''notice_receipt.confirm'' ''notice_receipt_assessment''
        (rx_id assessment))
       (returnH (confirmRow env ctx rationale assessment)))))))))"

section \<open>Queries\<close>

text \<open>The lists of the queries are in table order; the source sorts them by time.\<close>

definition listDispatchAttempts ::
  "string \<Rightarrow> string \<Rightarrow> (dispatch_attempt \<times> dispatch_recipient list) list delivery" where
  "listDispatchAttempts projectId noticePackageId =
     projectAction projectId (DeliveryCap c_notice_dispatch_read) (\<lambda>ctx.
     readDb (\<lambda>d. map (\<lambda>a. (a, attemptRecipients (dt_id a) d))
       (filter (\<lambda>a. dt_noticePackageId a = noticePackageId \<and> dt_tenantId a = cx_tenantId ctx
          \<and> dt_projectId a = projectId) (dl_attempts d))))"

definition getDispatchAttempt ::
  "string \<Rightarrow> string \<Rightarrow> string \<Rightarrow> (dispatch_attempt \<times> dispatch_recipient list) delivery" where
  "getDispatchAttempt projectId noticePackageId attemptId =
     projectAction projectId (DeliveryCap c_notice_dispatch_read) (\<lambda>ctx.
     bindH (findOr notFound (findAttempt (cx_tenantId ctx) projectId noticePackageId attemptId))
       (\<lambda>a. readDb (\<lambda>d. (a, attemptRecipients (dt_id a) d))))"

text \<open>
  \<open>getDeliveryRisk\<close> of the latest authorization, the last one created, when none is named.
\<close>

definition getDeliveryRisk ::
  "delivery_env \<Rightarrow> string \<Rightarrow> string \<Rightarrow> string option \<Rightarrow> readiness delivery" where
  "getDeliveryRisk env projectId noticePackageId authorizationId =
     thenH (accessP projectId (DeliveryCap c_delivery_risk_read))
     (if truthy authorizationId
      then validateDispatchReadiness env projectId noticePackageId (the authorizationId)
      else projectAction projectId (DeliveryCap c_delivery_risk_read) (\<lambda>ctx.
        bindH (findOr notFound (\<lambda>d. find (\<lambda>a. da_noticePackageId a = noticePackageId
            \<and> da_tenantId a = cx_tenantId ctx \<and> da_projectId a = projectId) (rev (dl_auths d))))
          (\<lambda>auth. validateDispatchReadiness env projectId noticePackageId (da_id auth))))"

section \<open>Provider webhooks\<close>

definition verifyProviderWebhook ::
  "delivery_env \<Rightarrow> provider \<Rightarrow> (string \<times> string) list \<Rightarrow> string \<Rightarrow> app_error + webhook_event" where
  "verifyProviderWebhook env p headers rawBody = (case p of
     LocalCapture \<Rightarrow> Inl (validationError ''Provider does not support webhooks'' None)
   | Fake m \<Rightarrow> (case verifyWebhook (ev_sha env) headers rawBody of
       Inl reason \<Rightarrow> Inl (validationError reason None)
     | Inr _ \<Rightarrow> (case ev_parseJson env rawBody of
         None \<Rightarrow> Inl unexpectedError
       | Some raw \<Rightarrow> Inr (parseWebhookEvent raw))))"

text \<open>
  The status of a recipient an event names, with the recipients as they were read before the loop:
  an event that does not say DELIVERED writes back the delivery time it found there.
\<close>

definition applyRecipientStatus ::
  "dispatch_recipient list \<Rightarrow> int \<Rightarrow> (string \<times> string) \<Rightarrow> dispatch_recipient list \<Rightarrow>
   dispatch_recipient list" where
  "applyRecipientStatus before occurredAt = (\<lambda>(preparationId, status) rows.
     case find (\<lambda>r. dx_preparationId r = preparationId) before of
       None \<Rightarrow> rows
     | Some recipient \<Rightarrow> updateWhere (\<lambda>r. dx_id r = dx_id recipient)
         (\<lambda>r. r\<lparr>dx_status := mapProviderRecipientStatus status,
           dx_deliveredAt := (if mapProviderRecipientStatus status = RP_DELIVERED
             then Some occurredAt else dx_deliveredAt recipient)\<rparr>) rows)"

datatype webhook_answer = Duplicate provider_event | Processed provider_event attempt_status

text \<open>The transaction of a verified event for the attempt its message id names.\<close>

definition applyWebhook ::
  "delivery_env \<Rightarrow> string \<Rightarrow> string \<Rightarrow> string \<Rightarrow> webhook_event \<Rightarrow> dispatch_attempt \<Rightarrow>
   webhook_answer delivery" where
  "applyWebhook env newId providerName rawBody event attempt =
     bindH (readDb (\<lambda>d. find (\<lambda>e. pe_provider e = providerName
          \<and> pe_providerEventId e = wh_providerEventId event) (dl_events d))) (\<lambda>existing.
      case existing of
        Some e \<Rightarrow> if pe_tenantId e = dt_tenantId attempt then returnH (Duplicate e)
                  else throwH unexpectedError
      | None \<Rightarrow>
        bindH (readDb (attemptRecipients (dt_id attempt))) (\<lambda>before.
        let occurredAt = ev_parseDate env (wh_occurredAt event);
            row = \<lparr>pe_id = newId, pe_tenantId = dt_tenantId attempt,
              pe_projectId = dt_projectId attempt, pe_provider = providerName,
              pe_providerEventId = wh_providerEventId event,
              pe_providerMessageId = wh_providerMessageId event,
              pe_eventType = wh_eventType event, pe_occurredAt = occurredAt,
              pe_payloadChecksum = ev_sha env rawBody, pe_attemptId = dt_id attempt\<rparr>
        in thenH (writeDb (\<lambda>d. d\<lparr>dl_events := dl_events d @ [row]\<rparr>))
        (thenH (writeDb (\<lambda>d. d\<lparr>dl_recipients :=
            fold (applyRecipientStatus before occurredAt) (wh_recipientStatuses event)
              (dl_recipients d)\<rparr>))
        (bindH (readDb (\<lambda>d. aggregateRecipientStatus
            (map dx_status (attemptRecipients (dt_id attempt) d)))) (\<lambda>aggregated.
        thenH (updateAttempt (dt_id attempt) (\<lambda>a. a\<lparr>dt_status := aggregated\<rparr>))
        (thenH (setPackageStatus (dt_noticePackageId attempt) (mapAttemptToPackageStatus aggregated))
          (returnH (Processed row aggregated))))))))"

definition configuredProvider :: "delivery_env \<Rightarrow> string \<Rightarrow> ('s, provider) handler" where
  "configuredProvider env providerName = bindH (providerH env) (\<lambda>configured.
     case configured of
       None \<Rightarrow> throwH (validationError ''Unknown or unconfigured delivery provider'' None)
     | Some p \<Rightarrow> if providerKind p \<noteq> providerName
         then throwH (validationError ''Unknown or unconfigured delivery provider'' None)
         else returnH p)"

definition processDeliveryWebhook ::
  "delivery_env \<Rightarrow> string \<Rightarrow> string \<Rightarrow> (string \<times> string) list \<Rightarrow> string \<Rightarrow> webhook_answer delivery" where
  "processDeliveryWebhook env newId providerName headers rawBody =
     bindH (configuredProvider env providerName) (\<lambda>p.
     bindH (liftH (verifyProviderWebhook env p headers rawBody)) (\<lambda>event.
     bindH (findOr notFound (\<lambda>d. find (\<lambda>a. dt_providerMessageId a = Some (wh_providerMessageId event))
        (dl_attempts d))) (\<lambda>attempt.
     transactionH (applyWebhook env newId providerName rawBody event attempt))))"

end
