(* ===== verification/DispatchProperties.thy ===== *)
theory DispatchProperties
  imports DeliveryService
begin

text \<open>
  What the dispatch service keeps.  Each operation has an effect lemma: a request leaves the tables
  as they were, or it passed its guards and wrote exactly the rows named.  \<open>delivery_step\<close>
  is any request, and the invariants and the life cycle of an authorization hold along all steps.
\<close>

section \<open>Effects\<close>

lemma loadPackage_Inr [ok_iff]:
  "loadPackage T pid nid s = (Inr y, t) \<longleftrightarrow> t = s \<and> findPackage T pid nid (ap_db s) = Some (fst y)
     \<and> (\<exists>p. find (\<lambda>p. prj_id p = np_projectId (fst y)) (projects (ap_web s)) = Some p
          \<and> snd y = prj_status p)"
  by (cases y) (auto simp: loadPackage_def ok_iff split: option.splits)

lemma assertProjectMutable_Inr [ok_iff]:
  "assertProjectMutable st s = (Inr x, t) \<longleftrightarrow> st \<noteq> P_ARCHIVED \<and> t = s"
  by (simp add: assertProjectMutable_def ok_iff)

lemma dispatchable_Inr [ok_iff]:
  "dispatchable env a s = (Inr x, t) \<longleftrightarrow> da_status a = AU_AUTHORIZED
     \<and> (\<forall>e. da_expiresAt a = Some e \<longrightarrow> ev_now env \<le> e) \<and> t = s"
  by (auto simp: dispatchable_def assertAuthorizationDispatchable_def split: option.splits)

lemma providerH_Inr [ok_iff]:
  "providerH env s = (Inr p, t) \<longleftrightarrow> getNoticeDeliveryProvider env = Inr p \<and> t = s"
  by (auto simp: providerH_def split: sum.splits)

lemma requireAutomated_Inr [ok_iff]:
  "requireAutomatedDeliveryProvider env s = (Inr p, t) \<longleftrightarrow>
     getNoticeDeliveryProvider env = Inr (Some p) \<and> t = s"
  by (auto simp: requireAutomatedDeliveryProvider_def ok_iff)

lemma updateAuth_Inr [ok_iff]:
  "updateAuth i f s = (Inr x, t) \<longleftrightarrow>
     t = s\<lparr>ap_db := (ap_db s)\<lparr>dl_auths := updateWhere (\<lambda>a. da_id a = i) f (dl_auths (ap_db s))\<rparr>\<rparr>"
  by (auto simp: updateAuth_def)

lemma updateAttempt_Inr [ok_iff]:
  "updateAttempt i f s = (Inr x, t) \<longleftrightarrow>
     t = s\<lparr>ap_db := (ap_db s)\<lparr>dl_attempts := updateWhere (\<lambda>a. dt_id a = i) f (dl_attempts (ap_db s))\<rparr>\<rparr>"
  by (auto simp: updateAttempt_def)

lemma setPackageStatus_Inr [ok_iff]:
  "setPackageStatus i st s = (Inr x, t) \<longleftrightarrow>
     t = s\<lparr>ap_db := (ap_db s)\<lparr>dl_packages :=
       updateWhere (\<lambda>p. np_id p = i) (\<lambda>p. p\<lparr>np_status := st\<rparr>) (dl_packages (ap_db s))\<rparr>\<rparr>"
  by (auto simp: setPackageStatus_def)

lemma createAttempt_Inr [ok_iff]:
  "createAttempt a s = (Inr x, t) \<longleftrightarrow> attemptKeysFree a (ap_db s)
     \<and> t = s\<lparr>ap_db := (ap_db s)\<lparr>dl_attempts := dl_attempts (ap_db s) @ [a]\<rparr>\<rparr>"
  by (auto simp: createAttempt_def ok_iff)

section \<open>The abstract machine of dispatch\<close>

text \<open>
  The tables that decide what may be sent: snapshots, authorizations, attempts and receipt
  assessments.  \<open>gate_step\<close> is the machine the operations implement on them; every other
  operation is a step that leaves these tables alone.  Its parameter says for which packages the
  segregation of duties applies.
\<close>

definition gateTables :: "delivery_db \<Rightarrow>
    dispatch_snapshot list \<times> authorization list \<times> dispatch_attempt list \<times> receipt_assessment list" where
  "gateTables d = (dl_snapshots d, dl_auths d, dl_attempts d, dl_assessments d)"

text \<open>An update of attempts that leaves what identifies an attempt.\<close>

definition keepsKeys :: "(dispatch_attempt \<Rightarrow> dispatch_attempt) \<Rightarrow> bool" where
  "keepsKeys f \<longleftrightarrow> (\<forall>a. dt_id (f a) = dt_id a \<and> dt_authorizationId (f a) = dt_authorizationId a
     \<and> dt_attemptNumber (f a) = dt_attemptNumber a \<and> dt_snapshotId (f a) = dt_snapshotId a
     \<and> dt_channel (f a) = dt_channel a \<and> dt_initiatedByUserId (f a) = dt_initiatedByUserId a)"

inductive gate_step :: "(string \<Rightarrow> bool) \<Rightarrow> delivery_db \<Rightarrow> delivery_db \<Rightarrow> bool" for sod where
  idle: "gateTables e = gateTables d \<Longrightarrow> gate_step sod d e"
| prepare: "sx_id x \<notin> sx_id ` set (dl_snapshots d) \<Longrightarrow> gateTables e =
    (dl_snapshots d @ [x], dl_auths d, dl_attempts d, dl_assessments d) \<Longrightarrow> gate_step sod d e"
| request: "da_id a \<notin> da_id ` set (dl_auths d) \<Longrightarrow> da_status a = AU_REQUESTED \<Longrightarrow>
    da_authorizedByUserId a = None \<Longrightarrow> da_snapshotId a \<in> sx_id ` set (dl_snapshots d) \<Longrightarrow> gateTables e =
    (dl_snapshots d, dl_auths d @ [a], dl_attempts d, dl_assessments d) \<Longrightarrow> gate_step sod d e"
| authorize: "a \<in> set (dl_auths d) \<Longrightarrow> awaitsReview a \<Longrightarrow> x \<in> set (dl_snapshots d) \<Longrightarrow>
    sx_id x = da_snapshotId a \<Longrightarrow> (sod (da_noticePackageId a) \<Longrightarrow> da_requestedByUserId a \<noteq> userId ctx) \<Longrightarrow>
    (sod (da_noticePackageId a) \<Longrightarrow> sx_createdByUserId x \<noteq> userId ctx) \<Longrightarrow> gateTables e =
    (dl_snapshots d, updateWhere (\<lambda>b. da_id b = da_id a) (authorizeRow env ctx checks) (dl_auths d),
     dl_attempts d, dl_assessments d) \<Longrightarrow> gate_step sod d e"
| reject: "a \<in> set (dl_auths d) \<Longrightarrow> awaitsReview a \<Longrightarrow> gateTables e =
    (dl_snapshots d, updateWhere (\<lambda>b. da_id b = da_id a) (rejectRow env ctx why) (dl_auths d),
     dl_attempts d, dl_assessments d) \<Longrightarrow> gate_step sod d e"
| revoke: "a \<in> set (dl_auths d) \<Longrightarrow> da_status a = AU_AUTHORIZED \<Longrightarrow> gateTables e =
    (dl_snapshots d, updateWhere (\<lambda>b. da_id b = da_id a)
       (\<lambda>b. b\<lparr>da_status := AU_REVOKED, da_rationale := Some why\<rparr>) (dl_auths d),
     dl_attempts d, dl_assessments d) \<Longrightarrow> gate_step sod d e"
| dispatch: "a \<in> set (dl_auths d) \<Longrightarrow> da_status a = AU_AUTHORIZED \<Longrightarrow>
    dt_id new \<notin> dt_id ` set (dl_attempts d) \<Longrightarrow> dt_authorizationId new = da_id a \<Longrightarrow>
    dt_attemptNumber new = attemptCount (da_id a) d + 1 \<Longrightarrow> dt_snapshotId new = da_snapshotId a \<Longrightarrow>
    dt_channel new = da_selectedChannel a \<Longrightarrow> keepsKeys f \<Longrightarrow> gateTables e =
    (dl_snapshots d, updateWhere (\<lambda>b. da_id b = da_id a) (\<lambda>b. b\<lparr>da_status := AU_USED\<rparr>) (dl_auths d),
     updateWhere (\<lambda>b. dt_id b = dt_id new) f (dl_attempts d @ [new]), dl_assessments d) \<Longrightarrow>
    gate_step sod d e"
| report: "keepsKeys f \<Longrightarrow> gateTables e =
    (dl_snapshots d, dl_auths d, updateWhere P f (dl_attempts d), dl_assessments d) \<Longrightarrow> gate_step sod d e"
| assess: "rx_id r \<notin> rx_id ` set (dl_assessments d) \<Longrightarrow> rx_attemptId r \<in> dt_id ` set (dl_attempts d) \<Longrightarrow>
    rx_contractualServiceStatus r = CS_NOT_ASSESSED \<Longrightarrow> gateTables e =
    (dl_snapshots d, dl_auths d, dl_attempts d, dl_assessments d @ [r]) \<Longrightarrow> gate_step sod d e"
| confirm: "r \<in> set (dl_assessments d) \<Longrightarrow> b \<in> set (dl_attempts d) \<Longrightarrow> dt_id b = rx_attemptId r \<Longrightarrow>
    (sod (rx_noticePackageId r) \<Longrightarrow> dt_initiatedByUserId b \<noteq> userId ctx) \<Longrightarrow> gateTables e =
    (dl_snapshots d, dl_auths d, dl_attempts d,
     updateWhere (\<lambda>x. rx_id x = rx_id r) (confirmRow env ctx why) (dl_assessments d)) \<Longrightarrow> gate_step sod d e"

inductive_cases gate_stepE: "gate_step sod d e"

section \<open>The operations implement it\<close>

text \<open>
  Segregation of duties applies to a package when the environment does not switch it off and the
  package enforces it.
\<close>

definition sodFor :: "bool \<Rightarrow> (string \<Rightarrow> bool) \<Rightarrow> delivery_db \<Rightarrow> bool" where
  "sodFor on sod d \<longleftrightarrow> (\<forall>i. sod i \<longrightarrow> on \<and> (\<forall>p\<in>set (dl_packages d). np_id p = i \<longrightarrow> np_sodEnforced p))"

lemma find_rows:
  "findPackage T pid nid d = Some p \<Longrightarrow> p \<in> set (dl_packages d) \<and> np_id p = nid"
  "findAuth T pid nid aid d = Some a \<Longrightarrow> a \<in> set (dl_auths d) \<and> da_noticePackageId a = nid"
  "snapshotById i d = Some x \<Longrightarrow> x \<in> set (dl_snapshots d) \<and> sx_id x = i"
  "findSnapshot T pid nid sid d = Some x \<Longrightarrow> x \<in> set (dl_snapshots d) \<and> sx_id x = sid"
  "findAttempt T pid nid i d = Some b \<Longrightarrow> b \<in> set (dl_attempts d) \<and> dt_id b = i"
  "attemptById i d = Some b \<Longrightarrow> b \<in> set (dl_attempts d) \<and> dt_id b = i"
  "findAssessmentRow T pid nid i d = Some r \<Longrightarrow> r \<in> set (dl_assessments d) \<and> rx_noticePackageId r = nid"
  by (auto simp: findPackage_def findAuth_def snapshotById_def findSnapshot_def findAttempt_def
      attemptById_def findAssessmentRow_def dest!: find_SomeD)

lemma sodFor_package:
  "sodFor (dispatchSodEnabled env) sod d \<Longrightarrow> findPackage T pid nid d = Some p \<Longrightarrow> sod nid \<Longrightarrow>
     dispatchSodEnabled env \<and> np_sodEnforced p"
  by (auto simp: sodFor_def dest: find_rows(1))

lemma idle_of_same: "ap_db t = ap_db s \<Longrightarrow> gate_step sod (ap_db s) (ap_db t)"
  by (rule gate_step.idle) simp

lemma snapshotOf_id: "snapshotOf env pkg data newId u = Inr y \<Longrightarrow> sx_id (fst y) = newId"
  by (auto simp: snapshotOf_def Let_def split: if_splits option.splits sum.splits prod.splits)

lemma prepare_refines:
  assumes "createDispatchPackageSnapshot env sp newId pid nid raw s = (r, t)"
    and "newId \<notin> sx_id ` set (dl_snapshots (ap_db s))"
  shows "gate_step sod (ap_db s) (ap_db t)"
  using assms(1) unfolding createDispatchPackageSnapshot_def
proof (cases rule: projectService_cases)
  case (ran ctx data x)
  then obtain pkg y where y: "snapshotOf env pkg data newId (userId ctx) = Inr y"
    "gateTables (ap_db t) = (dl_snapshots (ap_db s) @ [fst y], dl_auths (ap_db s),
        dl_attempts (ap_db s), dl_assessments (ap_db s))"
    by (auto simp: ok_iff gateTables_def split: prod.splits)
  show ?thesis by (rule gate_step.prepare[OF _ y(2)]) (simp add: snapshotOf_id[OF y(1)] assms(2))
qed (rule idle_of_same)

lemma request_refines:
  assumes "requestDispatchAuthorization sp newId pid nid sid raw s = (r, t)"
    and "newId \<notin> da_id ` set (dl_auths (ap_db s))"
  shows "gate_step sod (ap_db s) (ap_db t)"
  using assms(1) unfolding requestDispatchAuthorization_def
proof (cases rule: projectService_cases)
  case (ran ctx data x)
  then show ?thesis
    using assms(2)
    by (intro gate_step.request[of x]) (auto simp: ok_iff Let_def gateTables_def dest: find_rows(4))
qed (rule idle_of_same)

lemma authorize_refines:
  assumes "authorizeDispatch env sp pid nid aid raw s = (r, t)"
    and "sodFor (dispatchSodEnabled env) sod (ap_db s)"
  shows "gate_step sod (ap_db s) (ap_db t)"
  using assms(1) unfolding authorizeDispatch_def
proof (cases rule: projectService_cases)
  case (ran ctx checks x)
  then obtain pkg auth snap where f: "findPackage (cx_tenantId ctx) pid nid (ap_db s) = Some pkg"
    "findAuth (cx_tenantId ctx) pid nid aid (ap_db s) = Some auth"
    "snapshotById (da_snapshotId auth) (ap_db s) = Some snap" "awaitsReview auth"
    "\<not> (dispatchSodEnabled env \<and> np_sodEnforced pkg \<and> da_requestedByUserId auth = userId ctx)"
    "\<not> (dispatchSodEnabled env \<and> np_sodEnforced pkg \<and> sx_createdByUserId snap = userId ctx)"
    "gateTables (ap_db t) = (dl_snapshots (ap_db s), updateWhere (\<lambda>a. da_id a = da_id auth)
       (authorizeRow env ctx checks) (dl_auths (ap_db s)), dl_attempts (ap_db s),
       dl_assessments (ap_db s))"
    by (auto simp: ok_iff gateTables_def split: prod.splits)
  then show ?thesis
    using sodFor_package[OF assms(2) f(1)] find_rows(2)[OF f(2)] find_rows(3)[OF f(3)]
    by (intro gate_step.authorize[OF _ _ _ _ _ _ f(7)]) auto
qed (rule idle_of_same)

lemma reject_refines:
  assumes "rejectDispatchAuthorization env sp pid nid aid raw s = (r, t)"
  shows "gate_step sod (ap_db s) (ap_db t)"
  using assms unfolding rejectDispatchAuthorization_def
proof (cases rule: projectService_cases)
  case (ran ctx why x)
  then obtain auth where f: "findAuth (cx_tenantId ctx) pid nid aid (ap_db s) = Some auth"
    "awaitsReview auth"
    "gateTables (ap_db t) = (dl_snapshots (ap_db s), updateWhere (\<lambda>a. da_id a = da_id auth)
       (rejectRow env ctx why) (dl_auths (ap_db s)), dl_attempts (ap_db s), dl_assessments (ap_db s))"
    by (auto simp: ok_iff gateTables_def)
  then show ?thesis using find_rows(2)[OF f(1)] by (intro gate_step.reject[OF _ _ f(3)]) blast+
qed (rule idle_of_same)

lemma revoke_refines:
  assumes "revokeDispatchAuthorization sp pid nid aid raw s = (r, t)"
  shows "gate_step sod (ap_db s) (ap_db t)"
  using assms unfolding revokeDispatchAuthorization_def
proof (cases rule: projectService_cases)
  case (ran ctx why x)
  then obtain auth where f: "findAuth (cx_tenantId ctx) pid nid aid (ap_db s) = Some auth"
    "da_status auth = AU_AUTHORIZED"
    "gateTables (ap_db t) = (dl_snapshots (ap_db s), updateWhere (\<lambda>a. da_id a = da_id auth)
       (\<lambda>b. b\<lparr>da_status := AU_REVOKED, da_rationale := Some why\<rparr>) (dl_auths (ap_db s)),
       dl_attempts (ap_db s), dl_assessments (ap_db s))"
    by (auto simp: ok_iff gateTables_def)
  then show ?thesis using find_rows(2)[OF f(1)] by (intro gate_step.revoke[OF _ _ f(3)]) blast+
qed (rule idle_of_same)

lemma keepsKeys_simps:
  "keepsKeys (finishAttempt env agg res)" "keepsKeys (\<lambda>a. a\<lparr>dt_status := st\<rparr>)"
  by (simp_all add: keepsKeys_def finishAttempt_def)

text \<open>What a successful sending did: the authorization it used and the attempt it made.\<close>

lemma recordOutcome_ok:
  assumes "recordOutcome env ctx rowIds pid nid auth recipients a res s = (Inr x, t)"
  shows "\<exists>agg. x = finishAttempt env agg res a \<and> agg = aggregateRecipientStatus (map dx_status (map
      (sentRecipientRow ctx pid auth (dt_id a) recipients res)
      (zip (map rowIds [0..<length (sn_recipients res)]) (sn_recipients res))))
    \<and> gateTables (ap_db t) = (dl_snapshots (ap_db s), dl_auths (ap_db s),
      updateWhere (\<lambda>b. dt_id b = dt_id a) (finishAttempt env agg res) (dl_attempts (ap_db s)),
      dl_assessments (ap_db s))"
  using assms by (auto simp: recordOutcome_def Let_def ok_iff gateTables_def)

lemma send_ok:
  assumes "sendApprovedNoticeEmail env newId cid rowIds pid nid aid s = (Inr x, t)"
  obtains ctx auth snap provider agg key res new where
    "granted s pid (DeliveryCap c_notice_dispatch_send) ctx"
    "findAuth (cx_tenantId ctx) pid nid aid (ap_db s) = Some auth"
    "da_status auth = AU_AUTHORIZED" "\<forall>e. da_expiresAt auth = Some e \<longrightarrow> ev_now env \<le> e"
    "da_selectedChannel auth = ''CONTROLLED_EMAIL''"
    "snapshotById (da_snapshotId auth) (ap_db s) = Some snap"
    "getNoticeDeliveryProvider env = Inr (Some provider)"
    "res = sendMessage provider (ev_now env) (deliveryMessage snap key cid)"
    "new = newAttempt ctx pid nid auth newId (attemptCount (da_id auth) (ap_db s) + 1)
       (providerKind provider) AT_PREPARED cid key None"
    "x = finishAttempt env agg res new"
    "gateTables (ap_db t) = (dl_snapshots (ap_db s), updateWhere (\<lambda>b. da_id b = da_id auth)
       (\<lambda>b. b\<lparr>da_status := AU_USED\<rparr>) (dl_auths (ap_db s)),
       updateWhere (\<lambda>b. dt_id b = newId) (finishAttempt env agg res) (dl_attempts (ap_db s) @ [new]),
       dl_assessments (ap_db s))"
  using assms unfolding sendApprovedNoticeEmail_def
proof (cases rule: projectAction_cases)
  case (ran ctx x')
  then obtain auth snap provider u where f: "findAuth (cx_tenantId ctx) pid nid aid (ap_db s) = Some auth"
    "da_status auth = AU_AUTHORIZED" "\<forall>e. da_expiresAt auth = Some e \<longrightarrow> ev_now env \<le> e"
    "da_selectedChannel auth = ''CONTROLLED_EMAIL''"
    "snapshotById (da_snapshotId auth) (ap_db s) = Some snap"
    "getNoticeDeliveryProvider env = Inr (Some provider)"
    and run: "recordOutcome env ctx rowIds pid nid auth (snapshotRecipients snap)
      (newAttempt ctx pid nid auth newId (attemptCount (da_id auth) (ap_db s) + 1) (providerKind provider)
         AT_PREPARED cid (attemptKey env auth (attemptCount (da_id auth) (ap_db s) + 1)
           (snapshotRecipients snap)) None)
      (sendMessage provider (ev_now env) (deliveryMessage snap
         (attemptKey env auth (attemptCount (da_id auth) (ap_db s) + 1) (snapshotRecipients snap)) cid))
      u = (Inr x', t)"
    and u: "gateTables (ap_db u) = (dl_snapshots (ap_db s), updateWhere (\<lambda>b. da_id b = da_id auth)
       (\<lambda>b. b\<lparr>da_status := AU_USED\<rparr>) (dl_auths (ap_db s)), dl_attempts (ap_db s) @
        [newAttempt ctx pid nid auth newId (attemptCount (da_id auth) (ap_db s) + 1) (providerKind provider)
         AT_PREPARED cid (attemptKey env auth (attemptCount (da_id auth) (ap_db s) + 1)
           (snapshotRecipients snap)) None], dl_assessments (ap_db s))"
    by (auto simp: ok_iff gateTables_def Let_def split: prod.splits)
  have "dt_id (newAttempt ctx pid nid auth newId n k st cid key tm) = newId" for n k st key tm
    by (simp add: newAttempt_def)
  then show ?thesis
    using that[OF ran(1) f refl refl] recordOutcome_ok[OF run] u ran(3)
    by (auto simp: gateTables_def)
qed simp

lemma newAttempt_simps [simp]:
  "dt_id (newAttempt ctx pid nid auth i n k st cid key tm) = i"
  "dt_authorizationId (newAttempt ctx pid nid auth i n k st cid key tm) = da_id auth"
  "dt_attemptNumber (newAttempt ctx pid nid auth i n k st cid key tm) = n"
  "dt_snapshotId (newAttempt ctx pid nid auth i n k st cid key tm) = da_snapshotId auth"
  "dt_channel (newAttempt ctx pid nid auth i n k st cid key tm) = da_selectedChannel auth"
  by (simp_all add: newAttempt_def)

lemma send_refines:
  assumes "sendApprovedNoticeEmail env newId cid rowIds pid nid aid s = (r, t)"
    and fresh: "newId \<notin> dt_id ` set (dl_attempts (ap_db s))"
  shows "gate_step sod (ap_db s) (ap_db t)"
proof (cases r)
  case (Inl e)
  then have "ap_db t = ap_db s"
    using assms(1) unfolding sendApprovedNoticeEmail_def by (auto elim: projectAction_cases)
  then show ?thesis by (rule idle_of_same)
next
  case (Inr x)
  then have run: "sendApprovedNoticeEmail env newId cid rowIds pid nid aid s = (Inr x, t)"
    using assms(1) by simp
  show ?thesis
  proof (rule send_ok[OF run])
    fix ctx auth snap provider agg key res new
    assume "findAuth (cx_tenantId ctx) pid nid aid (ap_db s) = Some auth"
      and f: "da_status auth = AU_AUTHORIZED"
      "new = newAttempt ctx pid nid auth newId (attemptCount (da_id auth) (ap_db s) + 1)
         (providerKind provider) AT_PREPARED cid key None"
      "gateTables (ap_db t) = (dl_snapshots (ap_db s), updateWhere (\<lambda>b. da_id b = da_id auth)
       (\<lambda>b. b\<lparr>da_status := AU_USED\<rparr>) (dl_auths (ap_db s)),
       updateWhere (\<lambda>b. dt_id b = newId) (finishAttempt env agg res) (dl_attempts (ap_db s) @ [new]),
       dl_assessments (ap_db s))"
    then show ?thesis
      using fresh find_rows(2) keepsKeys_simps(1)
      by (intro gate_step.dispatch[of auth _ new "finishAttempt env agg res"]) simp_all
  qed
qed

lemma manual_refines:
  assumes "recordManualDispatch env sp newId cid rowIds pid nid aid raw s = (r, t)"
    and fresh: "newId \<notin> dt_id ` set (dl_attempts (ap_db s))"
  shows "gate_step sod (ap_db s) (ap_db t)"
  using assms(1) unfolding recordManualDispatch_def
proof (cases rule: projectService_cases)
  case (ran ctx data x)
  then obtain auth key where f: "findAuth (cx_tenantId ctx) pid nid aid (ap_db s) = Some auth"
    "da_status auth = AU_AUTHORIZED"
    and t: "gateTables (ap_db t) = (dl_snapshots (ap_db s), updateWhere (\<lambda>b. da_id b = da_id auth)
       (\<lambda>b. b\<lparr>da_status := AU_USED\<rparr>) (dl_auths (ap_db s)),
       updateWhere (\<lambda>b. dt_id b = newId) (\<lambda>a. a\<lparr>dt_status := AT_AWAITING_EVIDENCE\<rparr>)
         (dl_attempts (ap_db s) @ [newAttempt ctx pid nid auth newId
           (attemptCount (da_id auth) (ap_db s) + 1) ''manual'' AT_MANUAL_DISPATCH_RECORDED cid key
           (Some (ev_now env))]), dl_assessments (ap_db s))"
    by (auto simp: ok_iff gateTables_def Let_def simp del: newAttempt_simps updateWhere_simps
        split: prod.splits)
  show ?thesis
    using f(2) fresh find_rows(2)[OF f(1)] t keepsKeys_simps(2)
    by (intro gate_step.dispatch[of auth _ "newAttempt ctx pid nid auth newId
           (attemptCount (da_id auth) (ap_db s) + 1) ''manual'' AT_MANUAL_DISPATCH_RECORDED cid key
           (Some (ev_now env))" "\<lambda>a. a\<lparr>dt_status := AT_AWAITING_EVIDENCE\<rparr>"]) simp_all
qed (rule idle_of_same)

lemma assess_refines:
  assumes "assessReceipt env sp newId pid nid raw s = (r, t)"
    and fresh: "newId \<notin> rx_id ` set (dl_assessments (ap_db s))"
  shows "gate_step sod (ap_db s) (ap_db t)"
  using assms(1) unfolding assessReceipt_def
proof (cases rule: projectService_cases)
  case (ran ctx data x)
  then obtain b where b: "findAttempt (cx_tenantId ctx) pid nid (ri_attemptId data) (ap_db s) = Some b"
    and x: "rx_id x = newId" "rx_attemptId x = dt_id b" "rx_contractualServiceStatus x = CS_NOT_ASSESSED"
    and t: "gateTables (ap_db t) = (dl_snapshots (ap_db s), dl_auths (ap_db s), dl_attempts (ap_db s),
       dl_assessments (ap_db s) @ [x])"
    by (auto simp: ok_iff gateTables_def Let_def)
  show ?thesis
    using fresh x find_rows(5)[OF b] by (intro gate_step.assess[OF _ _ _ t]) (auto intro: rev_image_eqI)
qed (rule idle_of_same)

lemma confirm_refines:
  assumes "confirmContractualService env sp pid nid raw s = (r, t)"
    and sod: "sodFor (dispatchSodEnabled env) sod (ap_db s)"
  shows "gate_step sod (ap_db s) (ap_db t)"
  using assms(1) unfolding confirmContractualService_def
proof (cases rule: projectService_cases)
  case (ran ctx data x)
  then obtain pkg rx b where f: "findPackage (cx_tenantId ctx) pid nid (ap_db s) = Some pkg"
    "findAssessmentRow (cx_tenantId ctx) pid nid (fst data) (ap_db s) = Some rx"
    "attemptById (rx_attemptId rx) (ap_db s) = Some b"
    "\<not> (dispatchSodEnabled env \<and> np_sodEnforced pkg \<and> dt_initiatedByUserId b = userId ctx)"
    and t: "gateTables (ap_db t) = (dl_snapshots (ap_db s), dl_auths (ap_db s), dl_attempts (ap_db s),
       updateWhere (\<lambda>a. rx_id a = rx_id rx) (confirmRow env ctx (snd data)) (dl_assessments (ap_db s)))"
    by (auto simp: ok_iff gateTables_def split: prod.splits)
  show ?thesis
    using f(4) sodFor_package[OF sod f(1)] find_rows(7)[OF f(2)] find_rows(6)[OF f(3)]
    by (intro gate_step.confirm[OF _ _ _ _ t]) auto
qed (rule idle_of_same)

lemma configuredProvider_Inr [ok_iff]:
  "configuredProvider env name s = (Inr p, t) \<longleftrightarrow>
     getNoticeDeliveryProvider env = Inr (Some p) \<and> providerKind p = name \<and> t = s"
  by (auto simp: configuredProvider_def ok_iff split: option.splits if_splits)

text \<open>The attempt a provider's message id names.\<close>

definition attemptOfMessage :: "string \<Rightarrow> delivery_db \<Rightarrow> dispatch_attempt option" where
  "attemptOfMessage m d = find (\<lambda>a. dt_providerMessageId a = Some m) (dl_attempts d)"

definition webhookEvent ::
  "delivery_env \<Rightarrow> string \<Rightarrow> (string \<times> string) list \<Rightarrow> string \<Rightarrow> webhook_event \<Rightarrow> bool" where
  "webhookEvent env name headers body event \<longleftrightarrow> (\<exists>p. getNoticeDeliveryProvider env = Inr (Some p)
     \<and> providerKind p = name \<and> verifyProviderWebhook env p headers body = Inr event)"

lemma processDeliveryWebhook_Inr:
  "processDeliveryWebhook env i name headers body s = (Inr x, t) \<longleftrightarrow>
     (\<exists>event attempt. webhookEvent env name headers body event
        \<and> attemptOfMessage (wh_providerMessageId event) (ap_db s) = Some attempt
        \<and> applyWebhook env i name body event attempt s = (Inr x, t))"
  by (auto simp: processDeliveryWebhook_def ok_iff webhookEvent_def attemptOfMessage_def)

lemma processDeliveryWebhook_Inl:
  assumes "processDeliveryWebhook env i name headers body s = (Inl e, t)"
  shows "t = s"
proof (cases "configuredProvider env name s")
  case (Pair a u)
  have u: "u = s" using Pair
    by (auto simp: configuredProvider_def bindH_def providerH_def split: sum.splits option.splits if_splits)
  show ?thesis
    using assms Pair u
    by (cases a) (auto simp: processDeliveryWebhook_def bindH_def findOr_def transactionH_def
        split: option.splits sum.splits prod.splits)
qed

lemma applyWebhook_gate:
  assumes "applyWebhook env i name body event attempt s = (Inr x, t)"
  shows "ap_db t = ap_db s \<or> (\<exists>st. gateTables (ap_db t) = (dl_snapshots (ap_db s), dl_auths (ap_db s),
      updateWhere (\<lambda>a. dt_id a = dt_id attempt) (\<lambda>a. a\<lparr>dt_status := st\<rparr>) (dl_attempts (ap_db s)),
      dl_assessments (ap_db s)))"
  using assms unfolding applyWebhook_def
  by (auto simp: ok_iff Let_def gateTables_def split: option.splits if_splits)

lemma webhook_refines:
  assumes "processDeliveryWebhook env newId prov headers body s = (r, t)"
  shows "gate_step sod (ap_db s) (ap_db t)"
proof (cases r)
  case (Inl e)
  then show ?thesis using assms processDeliveryWebhook_Inl idle_of_same by blast
next
  case (Inr x)
  then obtain event attempt where "applyWebhook env newId prov body event attempt s = (Inr x, t)"
    using assms processDeliveryWebhook_Inr by blast
  from applyWebhook_gate[OF this] show ?thesis
    by (blast intro: idle_of_same gate_step.report keepsKeys_simps(2))
qed

lemma other_refines:
  "uploadDispatchEvidence env sp1 i pid nid raw1 s = (r1, t) \<Longrightarrow> gate_step sod (ap_db s) (ap_db t)"
  "verifyDispatchEvidence sp2 pid nid raw2 s = (r2, t) \<Longrightarrow> gate_step sod (ap_db s) (ap_db t)"
  "recordAcknowledgment env sp3 i pid nid raw3 s = (r3, t) \<Longrightarrow> gate_step sod (ap_db s) (ap_db t)"
  "verifyAcknowledgment sp4 pid nid raw4 s = (r4, t) \<Longrightarrow> gate_step sod (ap_db s) (ap_db t)"
proof -
  assume "uploadDispatchEvidence env sp1 i pid nid raw1 s = (r1, t)"
  then show "gate_step sod (ap_db s) (ap_db t)" unfolding uploadDispatchEvidence_def
    by (cases rule: projectService_cases) (auto simp: ok_iff Let_def gateTables_def intro!: gate_step.idle)
next
  assume "verifyDispatchEvidence sp2 pid nid raw2 s = (r2, t)"
  then show "gate_step sod (ap_db s) (ap_db t)" unfolding verifyDispatchEvidence_def
    by (cases rule: projectService_cases)
      (auto simp: ok_iff Let_def gateTables_def intro!: gate_step.idle split: prod.splits)
next
  assume "recordAcknowledgment env sp3 i pid nid raw3 s = (r3, t)"
  then show "gate_step sod (ap_db s) (ap_db t)" unfolding recordAcknowledgment_def
    by (cases rule: projectService_cases)
      (auto simp: ok_iff Let_def gateTables_def acknowledgeRecipient_def intro!: gate_step.idle
        split: if_splits)
next
  assume "verifyAcknowledgment sp4 pid nid raw4 s = (r4, t)"
  then show "gate_step sod (ap_db s) (ap_db t)" unfolding verifyAcknowledgment_def
    by (cases rule: projectService_cases) (auto simp: ok_iff Let_def gateTables_def intro!: gate_step.idle)
qed

lemma queries_refine:
  "listDispatchAttempts pid nid s = (r1, t) \<Longrightarrow> ap_db t = ap_db s"
  "getDispatchAttempt pid nid i s = (r2, t) \<Longrightarrow> ap_db t = ap_db s"
  "validateDispatchReadiness env pid nid i s = (r3, t) \<Longrightarrow> ap_db t = ap_db s"
proof -
  assume "listDispatchAttempts pid nid s = (r1, t)"
  then show "ap_db t = ap_db s" unfolding listDispatchAttempts_def
    by (cases rule: projectAction_cases) (auto simp: ok_iff)
next
  assume "getDispatchAttempt pid nid i s = (r2, t)"
  then show "ap_db t = ap_db s" unfolding getDispatchAttempt_def
    by (cases rule: projectAction_cases) (auto simp: ok_iff)
next
  assume "validateDispatchReadiness env pid nid i s = (r3, t)"
  then show "ap_db t = ap_db s" unfolding validateDispatchReadiness_def
    by (cases rule: projectAction_cases) (auto simp: ok_iff Let_def)
qed

section \<open>Steps of the service\<close>

text \<open>
  A request, with the ids it generates new, or a step of the rest of the application: it may change
  its own state and the notice packages.  Every request has an environment of its own: its clock, its
  provider and its functions may differ from the last one's, and only the switch of the segregation
  of duties, \<open>on\<close>, is that of the process.  The column \<open>sodEnforced\<close> of a package is
  set when the package is created and never changed (\<open>notices.ts\<close>): \<open>enforced\<close> is
  its value for each package id.
\<close>

inductive delivery_step ::
  "bool \<Rightarrow> (string \<Rightarrow> bool) \<Rightarrow> delivery_db app_state \<Rightarrow> delivery_db app_state \<Rightarrow> bool" for on enforced where
  "delivery_step on enforced s (s\<lparr>ap_web := w\<rparr>)"
| "\<forall>p\<in>set ps. np_sodEnforced p = enforced (np_id p) \<Longrightarrow>
     delivery_step on enforced s (s\<lparr>ap_db := (ap_db s)\<lparr>dl_packages := ps\<rparr>\<rparr>)"
| "createDispatchPackageSnapshot env (sp1 :: string \<Rightarrow> _) i pid nid raw s = (r1, t) \<Longrightarrow>
     dispatchSodEnabled env = on \<Longrightarrow> i \<notin> sx_id ` set (dl_snapshots (ap_db s)) \<Longrightarrow> delivery_step on enforced s t"
| "requestDispatchAuthorization (sp2 :: string \<Rightarrow> _) i pid nid sid raw s = (r2, t) \<Longrightarrow>
     i \<notin> da_id ` set (dl_auths (ap_db s)) \<Longrightarrow> delivery_step on enforced s t"
| "authorizeDispatch env (sp3 :: string \<Rightarrow> _) pid nid aid raw s = (r3, t) \<Longrightarrow>
     dispatchSodEnabled env = on \<Longrightarrow> delivery_step on enforced s t"
| "rejectDispatchAuthorization env (sp4 :: string \<Rightarrow> _) pid nid aid raw s = (r4, t) \<Longrightarrow>
     dispatchSodEnabled env = on \<Longrightarrow> delivery_step on enforced s t"
| "revokeDispatchAuthorization (sp5 :: string \<Rightarrow> _) pid nid aid raw s = (r5, t) \<Longrightarrow> delivery_step on enforced s t"
| "sendApprovedNoticeEmail env i cid rowIds pid nid aid s = (r6, t) \<Longrightarrow>
     dispatchSodEnabled env = on \<Longrightarrow> i \<notin> dt_id ` set (dl_attempts (ap_db s)) \<Longrightarrow> delivery_step on enforced s t"
| "recordManualDispatch env (sp7 :: string \<Rightarrow> _) i cid rowIds pid nid aid raw s = (r7, t) \<Longrightarrow>
     dispatchSodEnabled env = on \<Longrightarrow> i \<notin> dt_id ` set (dl_attempts (ap_db s)) \<Longrightarrow> delivery_step on enforced s t"
| "uploadDispatchEvidence env (sp8 :: string \<Rightarrow> _) i pid nid raw s = (r8, t) \<Longrightarrow>
     dispatchSodEnabled env = on \<Longrightarrow> delivery_step on enforced s t"
| "verifyDispatchEvidence (sp9 :: string \<Rightarrow> _) pid nid raw s = (r9, t) \<Longrightarrow> delivery_step on enforced s t"
| "recordAcknowledgment env (sp10 :: string \<Rightarrow> _) i pid nid raw s = (r10, t) \<Longrightarrow>
     dispatchSodEnabled env = on \<Longrightarrow> delivery_step on enforced s t"
| "verifyAcknowledgment (sp11 :: string \<Rightarrow> _) pid nid raw s = (r11, t) \<Longrightarrow> delivery_step on enforced s t"
| "assessReceipt env (sp12 :: string \<Rightarrow> _) i pid nid raw s = (r12, t) \<Longrightarrow>
     dispatchSodEnabled env = on \<Longrightarrow> i \<notin> rx_id ` set (dl_assessments (ap_db s)) \<Longrightarrow> delivery_step on enforced s t"
| "confirmContractualService env (sp13 :: string \<Rightarrow> _) pid nid raw s = (r13, t) \<Longrightarrow>
     dispatchSodEnabled env = on \<Longrightarrow> delivery_step on enforced s t"
| "processDeliveryWebhook env i prov headers body s = (r14, t) \<Longrightarrow>
     dispatchSodEnabled env = on \<Longrightarrow> delivery_step on enforced s t"

lemma gate_refinement:
  assumes "delivery_step on enforced s t" and "sodFor on sod (ap_db s)"
  shows "gate_step sod (ap_db s) (ap_db t)"
  using assms
proof (induction rule: delivery_step.induct)
  case (2 ps s)
  then show ?case by (intro gate_step.idle) (simp add: gateTables_def)
next
  case (5 env sp3 pid nid aid raw s r3 t)
  then show ?case using authorize_refines[OF 5(1), of sod] by simp
next
  case (15 env sp13 pid nid raw s r13 t)
  then show ?case using confirm_refines[OF 15(1), of sod] by simp
qed (erule (1) prepare_refines request_refines send_refines manual_refines assess_refines
  | erule reject_refines revoke_refines other_refines webhook_refines
  | simp add: gate_step.idle)+

section \<open>What every reachable state keeps\<close>

definition reviewedAll :: "authorization \<Rightarrow> bool" where
  "reviewedAll a \<longleftrightarrow> da_recipientsReviewed a \<and> da_methodReviewed a \<and> da_attachmentsReviewed a
     \<and> da_deadlineReviewed a \<and> da_scopeReviewed a \<and> da_deliveryRiskAcknowledged a"

text \<open>
  An authorization that was ever granted was fully reviewed and granted by a person, and where
  segregation of duties applies by a third one.
\<close>

definition authOk :: "(string \<Rightarrow> bool) \<Rightarrow> dispatch_snapshot list \<Rightarrow> authorization \<Rightarrow> bool" where
  "authOk sod xs a \<longleftrightarrow> da_snapshotId a \<in> sx_id ` set xs
     \<and> (da_status a \<in> {AU_AUTHORIZED, AU_USED, AU_REVOKED} \<longrightarrow>
         reviewedAll a \<and> (\<exists>u. da_authorizedByUserId a = Some u
           \<and> (sod (da_noticePackageId a) \<longrightarrow> u \<noteq> da_requestedByUserId a
                \<and> (\<forall>x\<in>set xs. sx_id x = da_snapshotId a \<longrightarrow> sx_createdByUserId x \<noteq> u))))"

text \<open>An attempt is the only one of its authorization, which it has used up.\<close>

definition attemptOk :: "authorization list \<Rightarrow> dispatch_attempt \<Rightarrow> bool" where
  "attemptOk as b \<longleftrightarrow> dt_attemptNumber b = 1 \<and> (\<exists>a\<in>set as. da_id a = dt_authorizationId b
     \<and> da_status a = AU_USED \<and> dt_snapshotId b = da_snapshotId a
     \<and> dt_channel b = da_selectedChannel a)"

text \<open>Where segregation of duties applies, service is confirmed by a person who did not send.\<close>

definition receiptOk :: "(string \<Rightarrow> bool) \<Rightarrow> dispatch_attempt list \<Rightarrow> receipt_assessment \<Rightarrow> bool" where
  "receiptOk sod bs r \<longleftrightarrow> rx_attemptId r \<in> dt_id ` set bs
     \<and> (sod (rx_noticePackageId r) \<and> rx_contractualServiceStatus r = CS_HUMAN_CONFIRMED \<longrightarrow>
         (\<forall>b\<in>set bs. dt_id b = rx_attemptId r \<longrightarrow> dt_initiatedByUserId b \<noteq> rx_reviewedByUserId r))"

fun gateI :: "(string \<Rightarrow> bool) \<Rightarrow> dispatch_snapshot list \<times> authorization list \<times> dispatch_attempt list
    \<times> receipt_assessment list \<Rightarrow> bool" where
  "gateI sod (xs, as, bs, rs) \<longleftrightarrow> distinct (map sx_id xs) \<and> distinct (map da_id as)
     \<and> distinct (map dt_id bs) \<and> distinct (map rx_id rs) \<and> distinct (map dt_authorizationId bs)
     \<and> (\<forall>a\<in>set as. authOk sod xs a) \<and> (\<forall>b\<in>set bs. attemptOk as b) \<and> (\<forall>r\<in>set rs. receiptOk sod bs r)"

definition gateInv :: "(string \<Rightarrow> bool) \<Rightarrow> delivery_db \<Rightarrow> bool" where
  "gateInv sod d = gateI sod (gateTables d)"

lemmas gateInv_simps = gateInv_def gateTables_def gateI.simps

lemma updateWhere_key:
  assumes "distinct (map k xs)" and "a \<in> set xs"
  shows "y \<in> set (updateWhere (\<lambda>b. k b = k a) f xs) \<longleftrightarrow> y = f a \<or> (y \<in> set xs \<and> y \<noteq> a)"
proof -
  have "k b = k a \<longleftrightarrow> b = a" if "b \<in> set xs" for b
    using distinct_key_unique[OF assms(1) that assms(2)] by blast
  then have "(\<exists>b\<in>set xs. (k b = k a \<and> y = f b) \<or> (k b \<noteq> k a \<and> y = b))
      \<longleftrightarrow> (\<exists>b\<in>set xs. (b = a \<and> y = f a) \<or> (b \<noteq> a \<and> y = b))"
    by (intro bex_cong) auto
  also have "\<dots> \<longleftrightarrow> y = f a \<or> (y \<in> set xs \<and> y \<noteq> a)" using assms(2) by blast
  finally show ?thesis by (simp only: set_updateWhere)
qed

lemma all_updateWhere_key:
  assumes "distinct (map k xs)" and "a \<in> set xs" and "\<forall>x\<in>set xs. Q x" and "Q (f a)"
  shows "\<forall>x\<in>set (updateWhere (\<lambda>b. k b = k a) f xs). Q x"
proof
  fix c assume "c \<in> set (updateWhere (\<lambda>b. k b = k a) f xs)"
  then have "c = f a \<or> (c \<in> set xs \<and> c \<noteq> a)" by (simp only: updateWhere_key[OF assms(1,2)])
  then show "Q c" using assms(3,4) by (elim disjE) simp_all
qed

lemma authOk_more: "authOk sod xs a \<Longrightarrow> sx_id x \<notin> sx_id ` set xs \<Longrightarrow> authOk sod (xs @ [x]) a"
  by (auto simp: authOk_def)

text \<open>Changing one authorization that was not used leaves the attempts right.\<close>

lemma attempts_after_update:
  assumes "distinct (map da_id as)" and "a \<in> set as" and "da_status a \<noteq> AU_USED"
    and "\<forall>b\<in>set bs. attemptOk as b"
  shows "\<forall>b\<in>set bs. attemptOk (updateWhere (\<lambda>c. da_id c = da_id a) f as) b"
proof
  fix b assume "b \<in> set bs"
  then obtain c where c: "c \<in> set as" "da_id c = dt_authorizationId b" "da_status c = AU_USED"
    "dt_snapshotId b = da_snapshotId c" "dt_channel b = da_selectedChannel c" "dt_attemptNumber b = 1"
    using assms(4) by (auto simp: attemptOk_def)
  then have "c \<in> set (updateWhere (\<lambda>c. da_id c = da_id a) f as)"
    using assms(3) updateWhere_key[OF assms(1,2), of c f] by auto
  then show "attemptOk (updateWhere (\<lambda>c. da_id c = da_id a) f as) b"
    using c unfolding attemptOk_def by blast
qed

lemma gateI_auth_update:
  assumes inv: "gateI sod (xs, as, bs, rs)" and a: "a \<in> set as" "da_status a \<noteq> AU_USED"
    and f: "authOk sod xs (f a)" "\<And>c. da_id (f c) = da_id c"
  shows "gateI sod (xs, updateWhere (\<lambda>c. da_id c = da_id a) f as, bs, rs)"
  using inv attempts_after_update[OF _ a, of bs f]
    all_updateWhere_key[of da_id as a "authOk sod xs" f] a(1) f
  by (simp add: map_updateWhere)

lemma keepsKeys_maps:
  assumes "keepsKeys f"
  shows "map dt_id (updateWhere P f bs) = map dt_id bs"
    "map dt_authorizationId (updateWhere P f bs) = map dt_authorizationId bs"
  using assms by (auto simp: keepsKeys_def intro!: map_updateWhere)

lemma attemptOk_keys: "keepsKeys f \<Longrightarrow> attemptOk as (f b) = attemptOk as b"
  by (simp add: attemptOk_def keepsKeys_def)

lemma receiptOk_keys:
  assumes "keepsKeys f" and "receiptOk sod bs r"
  shows "receiptOk sod (updateWhere P f bs) r"
proof -
  have "dt_id ` set (updateWhere P f bs) = dt_id ` set bs"
    using keepsKeys_maps(1)[OF assms(1), of P bs] by (metis list.set_map)
  moreover have "\<exists>c\<in>set bs. dt_id c = dt_id b \<and> dt_initiatedByUserId c = dt_initiatedByUserId b"
    if "b \<in> set (updateWhere P f bs)" for b
    using that assms(1) by (auto simp: set_updateWhere keepsKeys_def)
  ultimately show ?thesis using assms(2) unfolding receiptOk_def by metis
qed

lemma gateI_report:
  assumes "gateI sod (xs, as, bs, rs)" and "keepsKeys f"
  shows "gateI sod (xs, as, updateWhere P f bs, rs)"
proof -
  have "\<forall>b\<in>set (updateWhere P f bs). attemptOk as b"
    using assms attemptOk_keys[OF assms(2)] by (auto simp: set_updateWhere)
  then show ?thesis using assms receiptOk_keys[OF assms(2)] by (simp add: keepsKeys_maps)
qed

lemma gateI_dispatch:
  assumes inv: "gateI sod (xs, as, bs, rs)" and a: "a \<in> set as" "da_status a = AU_AUTHORIZED"
    and new: "dt_id new \<notin> dt_id ` set bs" "dt_authorizationId new = da_id a"
      "dt_attemptNumber new = length (filter (\<lambda>b. dt_authorizationId b = da_id a) bs) + 1"
      "dt_snapshotId new = da_snapshotId a" "dt_channel new = da_selectedChannel a"
  shows "gateI sod (xs, updateWhere (\<lambda>c. da_id c = da_id a) (\<lambda>c. c\<lparr>da_status := AU_USED\<rparr>) as, bs @ [new], rs)"
proof -
  let ?as = "updateWhere (\<lambda>c. da_id c = da_id a) (\<lambda>c. c\<lparr>da_status := AU_USED\<rparr>) as"
  have keys: "distinct (map da_id as)" using inv by simp
  have unused: "\<forall>b\<in>set bs. dt_authorizationId b \<noteq> da_id a"
  proof (intro ballI notI)
    fix b assume b: "b \<in> set bs" and "dt_authorizationId b = da_id a"
    moreover have "attemptOk as b" using inv b by simp
    ultimately obtain c where "c \<in> set as" "da_id c = da_id a" "da_status c = AU_USED"
      unfolding attemptOk_def by auto
    then show False using distinct_key_unique[OF keys, of c a] a by simp
  qed
  then have "filter (\<lambda>b. dt_authorizationId b = da_id a) bs = []" by (simp add: filter_empty_conv)
  moreover have "a\<lparr>da_status := AU_USED\<rparr> \<in> set ?as" using updateWhere_key[OF keys a(1)] by blast
  ultimately have "attemptOk ?as new"
    using new unfolding attemptOk_def by (intro conjI bexI[of _ "a\<lparr>da_status := AU_USED\<rparr>"]) simp_all
  moreover have "gateI sod (xs, ?as, bs, rs)"
    using inv a by (intro gateI_auth_update) (auto simp: authOk_def reviewedAll_def)
  moreover have "\<forall>r\<in>set rs. receiptOk sod (bs @ [new]) r"
    using inv new(1) by (auto simp: receiptOk_def)
  ultimately show ?thesis using new(1,2) unused by (auto simp: image_iff)
qed

lemma gate_step_inv:
  assumes "gate_step sod d e" and "gateInv sod d"
  shows "gateInv sod e"
  using assms
proof (cases rule: gate_step.cases)
  case idle
  then show ?thesis using assms(2) by (simp add: gateInv_def)
next
  case (prepare x)
  then show ?thesis using assms(2) authOk_more by (auto simp: gateInv_simps)
next
  case (request a)
  then show ?thesis
    using assms(2) by (auto simp: gateInv_simps authOk_def attemptOk_def)
next
  case (authorize a x ctx env checks)
  have "distinct (map sx_id (dl_snapshots d))" using assms(2) by (simp add: gateInv_simps)
  then have "sx_createdByUserId y \<noteq> userId ctx"
    if "sod (da_noticePackageId a)" "y \<in> set (dl_snapshots d)" "sx_id y = da_snapshotId a" for y
    using that authorize distinct_key_unique[of sx_id "dl_snapshots d" y x] by auto
  moreover have "da_snapshotId a \<in> sx_id ` set (dl_snapshots d)"
    using authorize(3,4) by (metis imageI)
  ultimately have "authOk sod (dl_snapshots d) (authorizeRow env ctx checks a)"
    using authorize(5) by (auto simp: authOk_def authorizeRow_def reviewedAll_def)
  then show ?thesis
    using authorize assms(2) unfolding gateInv_def
    by (auto simp: gateTables_def awaitsReview_def authorizeRow_def simp del: gateI.simps
        intro!: gateI_auth_update)
next
  case (reject a env ctx why)
  then show ?thesis
    using assms(2) unfolding gateInv_def
    by (auto simp: gateTables_def awaitsReview_def simp del: gateI.simps intro!: gateI_auth_update)
      (auto simp: authOk_def rejectRow_def)
next
  case (revoke a why)
  then show ?thesis
    using assms(2) unfolding gateInv_def
    by (auto simp: gateTables_def simp del: gateI.simps intro!: gateI_auth_update)
      (auto simp: authOk_def reviewedAll_def)
next
  case (dispatch a new f)
  then show ?thesis
    using assms(2) gateI_dispatch[of sod "dl_snapshots d" "dl_auths d" "dl_attempts d" "dl_assessments d" a new]
    unfolding gateInv_def
    by (auto simp: gateTables_def attemptCount_def simp del: gateI.simps updateWhere_simps intro!: gateI_report)
next
  case (report f P)
  then show ?thesis
    using assms(2) unfolding gateInv_def by (auto simp: gateTables_def simp del: gateI.simps intro!: gateI_report)
next
  case (assess r)
  then show ?thesis using assms(2) by (auto simp: gateInv_simps receiptOk_def)
next
  case (confirm r b ctx env why)
  have keys: "distinct (map rx_id (dl_assessments d))" "distinct (map dt_id (dl_attempts d))"
    and all: "\<forall>r\<in>set (dl_assessments d). receiptOk sod (dl_attempts d) r"
    using assms(2) by (simp_all add: gateInv_simps)
  have "dt_initiatedByUserId c \<noteq> userId ctx"
    if "sod (rx_noticePackageId r)" "c \<in> set (dl_attempts d)" "dt_id c = rx_attemptId r" for c
    using that confirm distinct_key_unique[OF keys(2), of c b] by auto
  then have "receiptOk sod (dl_attempts d) (confirmRow env ctx why r)"
    using all confirm(1) by (auto simp: receiptOk_def confirmRow_def)
  then have "\<forall>x\<in>set (updateWhere (\<lambda>x. rx_id x = rx_id r) (confirmRow env ctx why) (dl_assessments d)).
      receiptOk sod (dl_attempts d) x"
    using all confirm(1) keys(1) by (intro all_updateWhere_key) auto
  moreover have "map rx_id (updateWhere P (confirmRow env ctx why) rs) = map rx_id rs" for P rs
    by (rule map_updateWhere) (simp add: confirmRow_def)
  ultimately show ?thesis
    using confirm assms(2) by (simp add: gateInv_simps)
qed

text \<open>No operation of the service changes the switch of a package.\<close>

definition sodKept :: "delivery_db \<Rightarrow> delivery_db \<Rightarrow> bool" where
  "sodKept d e \<longleftrightarrow> map (\<lambda>p. (np_id p, np_sodEnforced p)) (dl_packages e)
     = map (\<lambda>p. (np_id p, np_sodEnforced p)) (dl_packages d)"

interpretation sk: tables_relation sodKept
  by unfold_locales (simp add: sodKept_def)

lemma sodKept_status:
  "dl_packages e = updateWhere P (\<lambda>p. p\<lparr>np_status := st\<rparr>) (dl_packages d) \<Longrightarrow> sodKept d e"
  "dl_packages e = updateWhere P (\<lambda>p. p\<lparr>np_status := st\<rparr>)
     (updateWhere Q (\<lambda>p. p\<lparr>np_status := st'\<rparr>) (dl_packages d)) \<Longrightarrow> sodKept d e"
  "dl_packages e = dl_packages d \<Longrightarrow> sodKept d e"
  by (simp_all add: sodKept_def map_updateWhere)

lemmas sodKept_simps = ok_iff Let_def recordOutcome_def acknowledgeRecipient_def

lemma sod_kept:
  "createDispatchPackageSnapshot env sp1 i pid nid raw1 s = (r1, t) \<Longrightarrow> sodKept (ap_db s) (ap_db t)"
  "requestDispatchAuthorization sp2 i pid nid sid raw2 s = (r2, t) \<Longrightarrow> sodKept (ap_db s) (ap_db t)"
  "authorizeDispatch env sp3 pid nid aid raw3 s = (r3, t) \<Longrightarrow> sodKept (ap_db s) (ap_db t)"
  "rejectDispatchAuthorization env sp4 pid nid aid raw4 s = (r4, t) \<Longrightarrow> sodKept (ap_db s) (ap_db t)"
  "revokeDispatchAuthorization sp5 pid nid aid raw5 s = (r5, t) \<Longrightarrow> sodKept (ap_db s) (ap_db t)"
  "sendApprovedNoticeEmail env i cid rowIds pid nid aid s = (r6, t) \<Longrightarrow> sodKept (ap_db s) (ap_db t)"
  "recordManualDispatch env sp7 i cid rowIds pid nid aid raw7 s = (r7, t) \<Longrightarrow> sodKept (ap_db s) (ap_db t)"
  "uploadDispatchEvidence env sp8 i pid nid raw8 s = (r8, t) \<Longrightarrow> sodKept (ap_db s) (ap_db t)"
  "verifyDispatchEvidence sp9 pid nid raw9 s = (r9, t) \<Longrightarrow> sodKept (ap_db s) (ap_db t)"
  "recordAcknowledgment env sp10 i pid nid raw10 s = (r10, t) \<Longrightarrow> sodKept (ap_db s) (ap_db t)"
  "verifyAcknowledgment sp11 pid nid raw11 s = (r11, t) \<Longrightarrow> sodKept (ap_db s) (ap_db t)"
  "assessReceipt env sp12 i pid nid raw12 s = (r12, t) \<Longrightarrow> sodKept (ap_db s) (ap_db t)"
  "confirmContractualService env sp13 pid nid raw13 s = (r13, t) \<Longrightarrow> sodKept (ap_db s) (ap_db t)"
  subgoal unfolding createDispatchPackageSnapshot_def
    by (erule sk.service_keeps) (auto simp: sodKept_simps intro: sodKept_status split: prod.splits)
  subgoal unfolding requestDispatchAuthorization_def
    by (erule sk.service_keeps) (auto simp: sodKept_simps intro: sodKept_status)
  subgoal unfolding authorizeDispatch_def
    by (erule sk.service_keeps) (auto simp: sodKept_simps intro: sodKept_status)
  subgoal unfolding rejectDispatchAuthorization_def
    by (erule sk.service_keeps) (auto simp: sodKept_simps intro: sodKept_status)
  subgoal unfolding revokeDispatchAuthorization_def
    by (erule sk.service_keeps) (auto simp: sodKept_simps intro: sodKept_status)
  subgoal unfolding sendApprovedNoticeEmail_def
    by (erule sk.action_keeps) (auto simp: sodKept_simps intro: sodKept_status)
  subgoal unfolding recordManualDispatch_def
    by (erule sk.service_keeps) (auto simp: sodKept_simps intro: sodKept_status)
  subgoal unfolding uploadDispatchEvidence_def
    by (erule sk.service_keeps) (auto simp: sodKept_simps intro: sodKept_status)
  subgoal unfolding verifyDispatchEvidence_def
    by (erule sk.service_keeps) (auto simp: sodKept_simps intro: sodKept_status split: prod.splits)
  subgoal unfolding recordAcknowledgment_def
    by (erule sk.service_keeps) (auto simp: sodKept_simps intro: sodKept_status split: if_splits)
  subgoal unfolding verifyAcknowledgment_def
    by (erule sk.service_keeps) (auto simp: sodKept_simps intro: sodKept_status)
  subgoal unfolding assessReceipt_def
    by (erule sk.service_keeps) (auto simp: sodKept_simps intro: sodKept_status)
  subgoal unfolding confirmContractualService_def
    by (erule sk.service_keeps) (auto simp: sodKept_simps intro: sodKept_status split: prod.splits)
  done

lemma webhook_sod:
  assumes "processDeliveryWebhook env i prov headers body s = (r, t)"
  shows "sodKept (ap_db s) (ap_db t)"
proof (cases r)
  case (Inl e)
  then show ?thesis using assms processDeliveryWebhook_Inl sk.same by blast
next
  case (Inr x)
  then obtain event attempt where "applyWebhook env i prov body event attempt s = (Inr x, t)"
    using assms processDeliveryWebhook_Inr by blast
  then show ?thesis unfolding applyWebhook_def
    by (auto simp: ok_iff Let_def intro: sodKept_status split: option.splits if_splits)
qed

text \<open>Every package has the switch it was created with.\<close>

definition switches :: "(string \<Rightarrow> bool) \<Rightarrow> delivery_db \<Rightarrow> bool" where
  "switches enforced d \<longleftrightarrow> (\<forall>p\<in>set (dl_packages d). np_sodEnforced p = enforced (np_id p))"

lemma switches_kept:
  assumes "sodKept d e"
  shows "switches enforced e = switches enforced d"
proof -
  have "switches enforced c \<longleftrightarrow> (\<forall>(i, b)\<in>set (map (\<lambda>p. (np_id p, np_sodEnforced p)) (dl_packages c)). b = enforced i)"
    for c by (auto simp: switches_def)
  then show ?thesis using assms unfolding sodKept_def by presburger
qed

lemma delivery_step_switches:
  assumes "delivery_step on enforced s t" and "switches enforced (ap_db s)"
  shows "switches enforced (ap_db t)"
  using assms
proof (induction rule: delivery_step.induct)
  case (2 ps s)
  then show ?case by (simp add: switches_def)
qed (simp, (drule sod_kept webhook_sod, simp add: switches_kept)+)

lemma switches_sodFor: "switches enforced d \<Longrightarrow> sodFor on (\<lambda>i. on \<and> enforced i) d"
  by (auto simp: switches_def sodFor_def)

lemma dispatch_reachable:
  assumes "(delivery_step on enforced)\<^sup>*\<^sup>* s t" and "switches enforced (ap_db s)"
    and "gateInv (\<lambda>i. on \<and> enforced i) (ap_db s)"
  shows "gateInv (\<lambda>i. on \<and> enforced i) (ap_db t) \<and> switches enforced (ap_db t)"
  using assms
proof (induction rule: rtranclp_induct)
  case (step u v)
  then show ?case using gate_step_inv[OF gate_refinement[OF _ switches_sodFor]] delivery_step_switches by blast
qed simp

section \<open>The properties\<close>

text \<open>C6: In every reachable state an attempt is the only one of its authorization, numbered 1;
  that authorization is used up, is for the attempt's channel and was fully reviewed and granted by a
  person.  Where segregation of duties applies, that is switched on and enforced by the notice
  package, that person neither asked for the authorization nor made its snapshot, and a contractual
  service that is confirmed was confirmed by someone other than the sender.\<close>

theorem dispatch_only_authorized:
  assumes "(delivery_step on enforced)\<^sup>*\<^sup>* s t" and "switches enforced (ap_db s)"
    and "gateInv (\<lambda>i. on \<and> enforced i) (ap_db s)"
    and b: "b \<in> set (dl_attempts (ap_db t))"
  shows "dt_attemptNumber b = 1
    \<and> (\<forall>c\<in>set (dl_attempts (ap_db t)). dt_authorizationId c = dt_authorizationId b \<longrightarrow> c = b)
    \<and> (\<exists>a\<in>set (dl_auths (ap_db t)). da_id a = dt_authorizationId b \<and> da_status a = AU_USED
         \<and> dt_channel b = da_selectedChannel a \<and> reviewedAll a
         \<and> (\<exists>u. da_authorizedByUserId a = Some u
              \<and> (on \<and> enforced (da_noticePackageId a) \<longrightarrow> u \<noteq> da_requestedByUserId a
                   \<and> (\<forall>x\<in>set (dl_snapshots (ap_db t)). sx_id x = dt_snapshotId b \<longrightarrow> sx_createdByUserId x \<noteq> u))))
    \<and> (\<forall>r\<in>set (dl_assessments (ap_db t)). rx_attemptId r = dt_id b
         \<and> rx_contractualServiceStatus r = CS_HUMAN_CONFIRMED \<and> on \<and> enforced (rx_noticePackageId r) \<longrightarrow>
           rx_reviewedByUserId r \<noteq> dt_initiatedByUserId b)"
proof -
  let ?sod = "\<lambda>i. on \<and> enforced i"
  have inv: "gateI ?sod (dl_snapshots (ap_db t), dl_auths (ap_db t), dl_attempts (ap_db t), dl_assessments (ap_db t))"
    using dispatch_reachable[OF assms(1-3)] by (simp add: gateInv_def gateTables_def)
  then have "attemptOk (dl_auths (ap_db t)) b" using b by simp
  then obtain a where a: "dt_attemptNumber b = 1" "a \<in> set (dl_auths (ap_db t))"
    "da_id a = dt_authorizationId b" "da_status a = AU_USED" "dt_snapshotId b = da_snapshotId a"
    "dt_channel b = da_selectedChannel a"
    by (auto simp: attemptOk_def)
  moreover have "authOk ?sod (dl_snapshots (ap_db t)) a" using inv a(2) by simp
  moreover have "c = b" if "c \<in> set (dl_attempts (ap_db t))" "dt_authorizationId c = dt_authorizationId b" for c
    using inv distinct_key_unique[of dt_authorizationId "dl_attempts (ap_db t)" c b] that b by simp
  moreover have "rx_reviewedByUserId r \<noteq> dt_initiatedByUserId b"
    if "r \<in> set (dl_assessments (ap_db t))" "rx_attemptId r = dt_id b"
      "rx_contractualServiceStatus r = CS_HUMAN_CONFIRMED" "on" "enforced (rx_noticePackageId r)" for r
  proof -
    have "receiptOk ?sod (dl_attempts (ap_db t)) r" using inv that(1) by simp
    then show ?thesis using that b unfolding receiptOk_def by metis
  qed
  ultimately show ?thesis unfolding authOk_def by auto
qed

text \<open>The life of an authorization.\<close>

inductive auth_next :: "authorization_status \<Rightarrow> authorization_status \<Rightarrow> bool" where
  "auth_next AU_REQUESTED AU_AUTHORIZED"
| "auth_next AU_REQUESTED AU_REJECTED"
| "auth_next AU_UNDER_REVIEW AU_AUTHORIZED"
| "auth_next AU_UNDER_REVIEW AU_REJECTED"
| "auth_next AU_AUTHORIZED AU_REVOKED"
| "auth_next AU_AUTHORIZED AU_USED"

inductive_simps auth_next_simps:
  "auth_next AU_USED x" "auth_next AU_REVOKED x" "auth_next AU_REJECTED x"
  "auth_next AU_AUTHORIZED x" "auth_next x AU_REQUESTED"

lemma update_lifecycle:
  assumes "distinct (map da_id as)" and "a \<in> set as" and "\<And>c. da_id (f c) = da_id c"
    and "auth_next (da_status a) (da_status (f a))" and c: "c \<in> set as"
  shows "\<exists>c'\<in>set (updateWhere (\<lambda>b. da_id b = da_id a) f as). da_id c' = da_id c
    \<and> (da_status c' = da_status c \<or> auth_next (da_status c) (da_status c'))"
proof (cases "c = a")
  case True
  then show ?thesis
    using assms(3,4) updateWhere_key[OF assms(1,2), of "f a" f] by (intro bexI[of _ "f a"]) auto
next
  case False
  then show ?thesis
    using c updateWhere_key[OF assms(1,2), of c f] by (intro bexI[of _ c]) auto
qed

text \<open>C7: Every request, with the segregation of duties on or off, moves an authorization along its
  life cycle only: requested or under review to authorized or rejected, authorized to revoked or
  used, and no way back; a new one starts as requested.  The only condition is that the ids of the
  authorizations are a key.\<close>

theorem authorization_lifecycle:
  assumes step: "delivery_step on enforced s t" and keys: "distinct (map da_id (dl_auths (ap_db s)))"
  shows "(\<forall>a\<in>set (dl_auths (ap_db s)). \<exists>a'\<in>set (dl_auths (ap_db t)). da_id a' = da_id a
      \<and> (da_status a' = da_status a \<or> auth_next (da_status a) (da_status a')))
    \<and> (\<forall>a'\<in>set (dl_auths (ap_db t)). da_id a' \<in> da_id ` set (dl_auths (ap_db s))
         \<or> da_status a' = AU_REQUESTED)"
proof -
  obtain sod where gate: "gate_step sod (ap_db s) (ap_db t)"
    using gate_refinement[OF step, of "\<lambda>_. False"] by (auto simp: sodFor_def)
  have ids: "da_id ` set (updateWhere P f as) = da_id ` set as" if "\<And>c. da_id (f c) = da_id c" for P f as
    using map_updateWhere[of da_id f P as] that by (metis list.set_map)
  have upd: ?thesis if "dl_auths (ap_db t) = updateWhere (\<lambda>b. da_id b = da_id a) f (dl_auths (ap_db s))"
    "a \<in> set (dl_auths (ap_db s))" "\<And>c. da_id (f c) = da_id c"
    "auth_next (da_status a) (da_status (f a))" for a f
    using update_lifecycle[OF keys that(2-4)] ids[of f] that(1,3) by (metis imageI)
  show ?thesis
    using gate
  proof (cases rule: gate_step.cases)
    case (authorize a x ctx env checks)
    then show ?thesis
      by (intro upd[of a "authorizeRow env ctx checks"])
        (auto simp: gateTables_def authorizeRow_def awaitsReview_def intro: auth_next.intros)
  next
    case (reject a env ctx why)
    then show ?thesis
      by (intro upd[of a "rejectRow env ctx why"])
        (auto simp: gateTables_def rejectRow_def awaitsReview_def intro: auth_next.intros)
  next
    case (revoke a why)
    then show ?thesis
      by (intro upd[of a "\<lambda>b. b\<lparr>da_status := AU_REVOKED, da_rationale := Some why\<rparr>"])
        (auto simp: gateTables_def intro: auth_next.intros)
  next
    case (dispatch a new f)
    then show ?thesis
      by (intro upd[of a "\<lambda>b. b\<lparr>da_status := AU_USED\<rparr>"])
        (auto simp: gateTables_def intro: auth_next.intros)
  qed (auto simp: gateTables_def)
qed

section \<open>Sending\<close>

lemma zip_statuses: "length ids = length rs \<Longrightarrow>
    map (dx_status \<circ> sentRecipientRow ctx pid auth i recipients res) (zip ids rs)
      = map (\<lambda>r. mapProviderRecipientStatus (rr_status r)) rs"
  by (induction ids rs rule: list_induct2) (simp_all add: sentRecipientRow_def Let_def)

text \<open>C8: An authorized e-mail dispatch that is not expired, on a project that is not archived and
  with a configured provider, is sent: the attempt carries the aggregate of the provider's answers,
  the authorization is used, and no retry is suggested once the provider has accepted it.\<close>

theorem authorized_email_is_sent:
  assumes "granted s pid (DeliveryCap c_notice_dispatch_send) ctx"
    and "findPackage (cx_tenantId ctx) pid nid (ap_db s) = Some pkg"
    and "find (\<lambda>p. prj_id p = np_projectId pkg) (projects (ap_web s)) = Some prj"
    and "prj_status prj \<noteq> P_ARCHIVED"
    and auth: "findAuth (cx_tenantId ctx) pid nid aid (ap_db s) = Some auth" "da_status auth = AU_AUTHORIZED"
      "\<forall>e. da_expiresAt auth = Some e \<longrightarrow> ev_now env \<le> e"
      "da_selectedChannel auth = ''CONTROLLED_EMAIL''"
    and "snapshotById (da_snapshotId auth) (ap_db s) = Some snap"
    and provider: "getNoticeDeliveryProvider env = Inr (Some p)"
    and free: "\<not> list_ex (\<lambda>b. dt_authorizationId b = da_id auth
        \<or> dt_idempotencyKey b = attemptKey env auth 1 (snapshotRecipients snap)) (dl_attempts (ap_db s))"
  shows "\<exists>x t. sendApprovedNoticeEmail env i cid rowIds pid nid aid s = (Inr x, t)
    \<and> dt_status x = aggregateRecipientStatus (map (\<lambda>r. mapProviderRecipientStatus (rr_status r))
        (sn_recipients (sendMessage p (ev_now env)
          (deliveryMessage snap (attemptKey env auth 1 (snapshotRecipients snap)) cid))))
    \<and> dt_authorizationId x = da_id auth \<and> dt_attemptNumber x = 1
    \<and> (\<forall>a\<in>set (dl_auths (ap_db t)). da_id a = da_id auth \<longrightarrow> da_status a = AU_USED)
    \<and> (dt_failureCode x = None \<longrightarrow> dt_retryClass x \<noteq> Some SAFE_AUTO_BEFORE_SUBMISSION)"
proof -
  let ?key = "attemptKey env auth 1 (snapshotRecipients snap)"
  let ?res = "sendMessage p (ev_now env) (deliveryMessage snap ?key cid)"
  have count: "attemptCount (da_id auth) (ap_db s) = 0"
    using free by (auto simp: attemptCount_def list_ex_iff)
  let ?new = "newAttempt ctx pid nid auth i 1 (providerKind p) AT_PREPARED cid ?key None"
  let ?agg = "aggregateRecipientStatus (map (\<lambda>r. mapProviderRecipientStatus (rr_status r)) (sn_recipients ?res))"
  have "attemptKeysFree ?new (ap_db s)"
    using free by (auto simp: attemptKeysFree_def list_ex_iff newAttempt_def)
  moreover have "(\<exists>x t. sendApprovedNoticeEmail env i cid rowIds pid nid aid s = (Inr x, t)
      \<and> x = finishAttempt env ?agg ?res ?new
      \<and> dl_auths (ap_db t) = updateWhere (\<lambda>b. da_id b = da_id auth) (\<lambda>b. b\<lparr>da_status := AU_USED\<rparr>)
          (dl_auths (ap_db s)))"
    if "attemptKeysFree ?new (ap_db s)"
    using that assms count
    by (simp add: sendApprovedNoticeEmail_def projectAction_run transactionH_def bindH_def thenH_def
        loadPackage_def assertProjectMutable_def requireH_def dispatchable_def
        assertAuthorizationDispatchable_def requireAutomatedDeliveryProvider_def providerH_def
        createAttempt_def updateAuth_def setPackageStatus_def recordOutcome_def updateAttempt_def Let_def
        zip_statuses split: option.splits) (meson linorder_not_less)
  ultimately obtain x t where run: "sendApprovedNoticeEmail env i cid rowIds pid nid aid s = (Inr x, t)"
    "x = finishAttempt env ?agg ?res ?new" "dl_auths (ap_db t) = updateWhere (\<lambda>b. da_id b = da_id auth)
       (\<lambda>b. b\<lparr>da_status := AU_USED\<rparr>) (dl_auths (ap_db s))"
    by blast
  have "classifyRetry (retryInput ?res) \<noteq> SAFE_AUTO_BEFORE_SUBMISSION" if "sn_outcome ?res = ACCEPTED"
    using that by (intro pv.accepted_never_repeated[where now = "ev_now env" and p = p
        and i = "deliveryMessage snap ?key cid"]) (auto simp: retryInput_def)
  then show ?thesis
    using run by (intro exI[of _ x] exI[of _ t]) (auto simp: finishAttempt_def set_updateWhere)
qed

section \<open>Webhooks\<close>

lemma attemptOfMessage_update:
  "(\<And>a. dt_providerMessageId (f a) = dt_providerMessageId a) \<Longrightarrow>
    find (\<lambda>a. dt_providerMessageId a = Some m) (updateWhere P f xs) =
      map_option (\<lambda>a. if P a then f a else a) (find (\<lambda>a. dt_providerMessageId a = Some m) xs)"
  by (induction xs) auto

text \<open>What a processed event left: its row, the aggregate and the status of the package.\<close>

lemma applyWebhook_processed:
  assumes "applyWebhook env i name body event attempt s = (Inr (Processed row st), t)"
  shows "find (\<lambda>e. pe_provider e = name \<and> pe_providerEventId e = wh_providerEventId event)
      (dl_events (ap_db s)) = None
    \<and> dl_events (ap_db t) = dl_events (ap_db s) @ [row] \<and> pe_provider row = name
    \<and> pe_providerEventId row = wh_providerEventId event \<and> pe_tenantId row = dt_tenantId attempt
    \<and> dl_attempts (ap_db t) = updateWhere (\<lambda>a. dt_id a = dt_id attempt) (\<lambda>a. a\<lparr>dt_status := st\<rparr>)
        (dl_attempts (ap_db s))
    \<and> dl_packages (ap_db t) = updateWhere (\<lambda>p. np_id p = dt_noticePackageId attempt)
        (\<lambda>p. p\<lparr>np_status := mapAttemptToPackageStatus st\<rparr>) (dl_packages (ap_db s))
    \<and> dl_assessments (ap_db t) = dl_assessments (ap_db s)
    \<and> st = aggregateRecipientStatus (map dx_status (attemptRecipients (dt_id attempt) (ap_db t)))"
  using assms unfolding applyWebhook_def
  by (auto simp: ok_iff Let_def attemptRecipients_def split: option.splits if_splits)

lemma find_append_None: "find P xs = None \<Longrightarrow> P y \<Longrightarrow> find P (xs @ [y]) = Some y"
  by (induction xs) (auto split: if_splits)

text \<open>A provider event counts once: delivering the same webhook again after it was processed
  answers that it is a duplicate and changes nothing.\<close>

lemma webhook_counts_once:
  assumes run: "processDeliveryWebhook env i name headers body s = (Inr (Processed row st), t)"
  shows "processDeliveryWebhook env j name headers body t = (Inr (Duplicate row), t)"
proof -
  obtain event attempt where w: "webhookEvent env name headers body event"
    "attemptOfMessage (wh_providerMessageId event) (ap_db s) = Some attempt"
    "applyWebhook env i name body event attempt s = (Inr (Processed row st), t)"
    using run unfolding processDeliveryWebhook_Inr by blast
  note fin = applyWebhook_processed[OF w(3)]
  obtain attempt' where a': "attemptOfMessage (wh_providerMessageId event) (ap_db t) = Some attempt'"
    "dt_tenantId attempt' = dt_tenantId attempt"
    using w(2) conjunct1[OF conjunct2[OF conjunct2[OF conjunct2[OF conjunct2[OF conjunct2[OF fin]]]]]]
    by (simp add: attemptOfMessage_def attemptOfMessage_update split: if_splits)
  have "find (\<lambda>e. pe_provider e = name \<and> pe_providerEventId e = wh_providerEventId event)
      (dl_events (ap_db t)) = Some row"
    using fin by (simp add: find_append_None)
  then have "applyWebhook env j name body event attempt' t = (Inr (Duplicate row), t)"
    using a'(2) fin by (simp add: applyWebhook_def)
  then show ?thesis unfolding processDeliveryWebhook_Inr using w(1) a'(1) by blast
qed

text \<open>C33: A processed webhook overwrites the status of the package whatever it was: a package whose
  receipt a person has confirmed becomes dispatched, failed or delivered again, although its
  confirmed assessment stays.\<close>

theorem webhook_overwrites_confirmation:
  assumes run: "processDeliveryWebhook env i name headers body s = (Inr (Processed row st), t)"
  shows "\<exists>attempt. attempt \<in> set (dl_attempts (ap_db s))
    \<and> (\<forall>p\<in>set (dl_packages (ap_db t)). np_id p = dt_noticePackageId attempt \<longrightarrow>
         np_status p = mapAttemptToPackageStatus st \<and> np_status p \<noteq> NP_RECEIPT_CONFIRMED)
    \<and> dl_assessments (ap_db t) = dl_assessments (ap_db s)"
proof -
  obtain event attempt where w: "attemptOfMessage (wh_providerMessageId event) (ap_db s) = Some attempt"
    "applyWebhook env i name body event attempt s = (Inr (Processed row st), t)"
    using run unfolding processDeliveryWebhook_Inr by blast
  have "attempt \<in> set (dl_attempts (ap_db s))"
    using w(1) by (auto simp: attemptOfMessage_def dest!: find_SomeD)
  moreover have "mapAttemptToPackageStatus st \<noteq> NP_RECEIPT_CONFIRMED" by (cases st) simp_all
  ultimately show ?thesis
    using applyWebhook_processed[OF w(2)] by (intro exI[of _ attempt]) (auto simp: set_updateWhere)
qed

section \<open>Recipients and checks\<close>

text \<open>Recording an acknowledgment changes the recipient its body names by id, in whatever
  project of the organization it stands: neither the project nor the attempt of the recipient is
  compared with those of the request.\<close>

lemma acknowledgment_reaches_any_project:
  assumes "granted s pid (DeliveryCap c_notice_acknowledgment_record) ctx" and "sp raw = Inr data"
    and "findAttempt (cx_tenantId ctx) pid nid (ao_attemptId data) (ap_db s) = Some attempt"
    and rid: "ao_recipientId data = Some rid" "rid \<noteq> []"
    and r: "r \<in> set (dl_recipients (ap_db s))" "dx_id r = rid" "dx_tenantId r = cx_tenantId ctx"
  shows "\<exists>ack t. recordAcknowledgment env sp i pid nid raw s = (Inr ack, t)
    \<and> r\<lparr>dx_status := RP_ACKNOWLEDGED,
         dx_acknowledgedAt := Some (ev_parseDate env (ao_acknowledgedAt data))\<rparr>
       \<in> set (dl_recipients (ap_db t))"
proof -
  have "list_ex (\<lambda>r. dx_id r = rid \<and> dx_tenantId r = cx_tenantId ctx) (dl_recipients (ap_db s))"
    using r by (auto simp: list_ex_iff)
  then have "\<exists>ack t. recordAcknowledgment env sp i pid nid raw s = (Inr ack, t)
      \<and> dl_recipients (ap_db t) = updateWhere (\<lambda>r. dx_id r = rid \<and> dx_tenantId r = cx_tenantId ctx)
          (\<lambda>r. r\<lparr>dx_status := RP_ACKNOWLEDGED,
            dx_acknowledgedAt := Some (ev_parseDate env (ao_acknowledgedAt data))\<rparr>)
          (dl_recipients (ap_db s))"
    using assms by (simp add: recordAcknowledgment_def projectService_run transactionH_def bindH_def
        thenH_def Let_def acknowledgeRecipient_def)
  then show ?thesis using r by (auto simp: set_updateWhere)
qed

lemma firstError_ok: "firstError f xs = Inr () \<longleftrightarrow> (\<forall>x\<in>set xs. f x = None)"
  by (induction xs) (auto split: option.splits)

lemma attachmentById_self:
  assumes "distinct (map as_attachmentId as)" and "a \<in> set as"
  shows "attachmentById as (as_attachmentId a) = Some a"
proof -
  obtain b where b: "find (\<lambda>b. as_attachmentId b = as_attachmentId a) (rev as) = Some b"
    using find_Some_exists[of a "rev as" "\<lambda>b. as_attachmentId b = as_attachmentId a"] assms(2) by auto
  then have "b \<in> set as" "as_attachmentId b = as_attachmentId a" by (auto dest!: find_SomeD)
  then have "b = a" using distinct_key_unique[OF assms(1)] assms(2) by metis
  then show ?thesis using b by (simp add: attachmentById_def)
qed

text \<open>The readiness check compares the attachments of a snapshot with themselves, so for
  distinct attachment ids it always reports valid checksums.\<close>

lemma readiness_checksum_vacuous:
  assumes "validateDispatchReadiness env pid nid aid s = (Inr r, t)"
    and "\<forall>x\<in>set (dl_snapshots (ap_db s)). distinct (map as_attachmentId (sx_attachmentSnapshot x))"
  shows "rd_checksumValid r"
  using assms(1) unfolding validateDispatchReadiness_def
proof (cases rule: projectAction_cases)
  case (ran ctx x)
  then have "\<exists>i snap. snapshotById i (ap_db s) = Some snap \<and> rd_checksumValid x =
      isOk (validateAttachmentChecksums (sx_attachmentSnapshot snap) (sx_attachmentSnapshot snap))"
    by (clarsimp simp: ok_iff Let_def) (intro exI conjI, assumption, rule refl)
  then obtain i snap where snap: "snapshotById i (ap_db s) = Some snap"
    and x: "rd_checksumValid x = isOk (validateAttachmentChecksums (sx_attachmentSnapshot snap)
      (sx_attachmentSnapshot snap))"
    by blast
  have "distinct (map as_attachmentId (sx_attachmentSnapshot snap))"
    using find_rows(3)[OF snap] assms(2) by simp
  then have "firstError (attachmentError (sx_attachmentSnapshot snap)) (sx_attachmentSnapshot snap) = Inr ()"
    unfolding firstError_ok by (simp add: attachmentError_def attachmentById_self)
  then show ?thesis using x ran(3) by (simp add: validateAttachmentChecksums_def)
qed simp

section \<open>A dispatch, step by step\<close>

text \<open>
  An authorized e-mail notice of the first organization: \<open>u8\<close> asked for the
  authorization, \<open>u7\<close> gave it, \<open>u1\<close> may send.
\<close>

definition demo_env :: delivery_env where
  "demo_env = \<lparr>ev_provider = Some ''fake'', ev_appEnv = Some ''test'', ev_sod = None, ev_now = 1000,
     ev_sha = (\<lambda>x. ''d''), ev_recipientsJson = (\<lambda>x. []), ev_attachmentsJson = (\<lambda>x. []),
     ev_isoOf = showInt, ev_parseDate = (\<lambda>x. 2000),
     ev_parseJson = (\<lambda>x. Some \<lparr>re_eventId = ''e1'', re_messageId = ''m1'',
       re_eventType = ''sent'', re_occurredAt = ''now'', re_recipients = Some [(''d1'', ''SENT'')]\<rparr>)\<rparr>"

definition demo_recipient :: recipient_snapshot where
  "demo_recipient = \<lparr>rs_preparationId = ''d1'', rs_displayName = ''Employer'',
     rs_emailAddress = Some ''e@x'', rs_physicalAddress = None, rs_platformAddress = None,
     rs_attentionLine = None, rs_method = ''EMAIL'', rs_copiedRecipient = False, rs_required = True\<rparr>"

definition demo_snapshot :: dispatch_snapshot where
  "demo_snapshot = \<lparr>sx_id = ''x1'', sx_tenantId = ''A'', sx_projectId = ''p1'',
     sx_noticePackageId = ''n1'', sx_approvedDraftRevisionId = ''v1'', sx_noticeExportId = ''b1'',
     sx_exportManifestChecksum = ''d'', sx_bundleChecksum = ''d'', sx_noticeChecksum = ''d'',
     sx_attachmentManifestChecksum = ''d'', sx_templateVersion = ''t1'', sx_language = ''en'',
     sx_subject = ''Notice'', sx_recipientSnapshot = [demo_recipient],
     sx_copiedRecipientSnapshot = [], sx_attachmentSnapshot = [],
     sx_coverMessageSnapshot = \<lparr>cm_subject = ''Notice'', cm_plainText = ''Text'', cm_htmlSafe = None,
       cm_checksumSha256 = ''d''\<rparr>,
     sx_channel = ''CONTROLLED_EMAIL'', sx_createdByUserId = ''u9''\<rparr>"

definition demo_auth :: authorization where
  "demo_auth = \<lparr>da_id = ''a1'', da_tenantId = ''A'', da_projectId = ''p1'',
     da_noticePackageId = ''n1'', da_snapshotId = ''x1'', da_requestedByUserId = ''u8'',
     da_reviewedByUserId = Some ''u7'', da_authorizedByUserId = Some ''u7'',
     da_status = AU_AUTHORIZED, da_reviewedAt = Some 1, da_authorizedAt = Some 1,
     da_expiresAt = Some 5000, da_selectedChannel = ''CONTROLLED_EMAIL'', da_recipientCount = 1,
     da_copiedRecipientCount = 0, da_rationale = None, da_recipientsReviewed = True,
     da_methodReviewed = True, da_attachmentsReviewed = True, da_deadlineReviewed = True,
     da_scopeReviewed = True, da_deliveryRiskAcknowledged = True\<rparr>"

definition demo_package :: "package_status \<Rightarrow> notice_package" where
  "demo_package st = \<lparr>np_id = ''n1'', np_tenantId = ''A'', np_projectId = ''p1'', np_status = st,
     np_language = ''en'', np_sodEnforced = True, np_activeApprovedRevisionId = None,
     np_activeApprovedRevision = None, np_deliveryPreparations = [], np_attachments = [],
     np_exportBundles = [], np_calculatedDeadlineAt = None\<rparr>"

definition demo_delivery :: delivery_db where
  "demo_delivery = \<lparr>dl_packages = [demo_package NP_AUTHORIZED_FOR_DISPATCH],
     dl_snapshots = [demo_snapshot], dl_covers = [], dl_auths = [demo_auth], dl_attempts = [],
     dl_recipients = [], dl_manuals = [], dl_evidence = [], dl_acks = [], dl_assessments = [],
     dl_deemed = [], dl_events = []\<rparr>"

lemmas demo_delivery_defs = demo_delivery_def demo_package_def demo_auth_def demo_snapshot_def

lemma owner_delivery: "DeliveryCap c \<in> resolveCapabilities TENANT_OWNER None (Some P_ACTIVE)"
  by (cases c) (simp_all add: mem_resolve capabilitiesForTenantRole_def DOCUMENT_MANAGE_def
      EVENT_DEADLINE_def)

lemma demo_delivery_granted: "granted (demo_app d) ''p1'' (DeliveryCap c) demo_ctx"
  by (rule demo_granted[OF owner_delivery, of _ "[]"]) (simp add: demo_app_def demo_state_def)

lemma demo_delivery_inv:
  "gateInv sod demo_delivery" "switches (\<lambda>_. True) demo_delivery" "dispatchSodEnabled demo_env"
  by (simp_all add: gateInv_simps authOk_def reviewedAll_def demo_delivery_defs switches_def
      dispatchSodEnabled_def demo_env_def)

lemma demo_provider: "getNoticeDeliveryProvider demo_env = Inr (Some (Fake MODE_SUCCESS))"
  by (simp add: getNoticeDeliveryProvider_def createNoticeDeliveryProvider_def demo_env_def Let_def
      assertDeliveryProviderAllowed_def toLowerCase_def lowerChar_def)

lemma demo_rows:
  "findPackage (cx_tenantId demo_ctx) ''p1'' ''n1'' (ap_db (demo_app demo_delivery))
      = Some (demo_package NP_AUTHORIZED_FOR_DISPATCH)"
  "find (\<lambda>p. prj_id p = np_projectId (demo_package NP_AUTHORIZED_FOR_DISPATCH))
      (projects (ap_web (demo_app demo_delivery))) = Some (demo_project ''p1'' ''A'' P_ACTIVE)"
  "findAuth (cx_tenantId demo_ctx) ''p1'' ''n1'' ''a1'' (ap_db (demo_app demo_delivery)) = Some demo_auth"
  "snapshotById (da_snapshotId demo_auth) (ap_db (demo_app demo_delivery)) = Some demo_snapshot"
  subgoal by (simp add: findPackage_def demo_app_def demo_delivery_defs)
  subgoal by (simp add: demo_app_def demo_package_def demo_tables demo_project_def)
  subgoal by (simp add: findAuth_def demo_app_def demo_delivery_defs)
  subgoal by (simp add: snapshotById_def demo_app_def demo_delivery_defs)
  done

lemma authorized_email_is_sent_witness:
  "\<exists>x t. sendApprovedNoticeEmail demo_env ''t1'' ''c1'' (\<lambda>n. ''r1'') ''p1'' ''n1'' ''a1''
       (demo_app demo_delivery) = (Inr x, t)
     \<and> dt_authorizationId x = ''a1'' \<and> dt_attemptNumber x = 1"
proof -
  have "\<exists>x t. sendApprovedNoticeEmail demo_env ''t1'' ''c1'' (\<lambda>n. ''r1'') ''p1'' ''n1'' ''a1''
       (demo_app demo_delivery) = (Inr x, t) \<and> dt_authorizationId x = da_id demo_auth
     \<and> dt_attemptNumber x = 1"
    using authorized_email_is_sent[OF demo_delivery_granted demo_rows(1,2) _ demo_rows(3) _ _ _
        demo_rows(4) demo_provider, where i = "''t1''" and cid = "''c1''" and rowIds = "\<lambda>n. ''r1''"]
    by (auto simp: demo_project_def demo_auth_def demo_env_def demo_app_def demo_delivery_def)
  then show ?thesis by (simp add: demo_auth_def)
qed

lemma demo_sending:
  "\<exists>x t. sendApprovedNoticeEmail demo_env ''t1'' ''c1'' (\<lambda>n. ''r1'') ''p1'' ''n1'' ''a1''
       (demo_app demo_delivery) = (Inr x, t)"
  using demo_rows demo_provider demo_delivery_granted[of demo_delivery c_notice_dispatch_send]
  by (simp add: sendApprovedNoticeEmail_def projectAction_run transactionH_def bindH_def thenH_def
      loadPackage_def assertProjectMutable_def requireH_def dispatchable_def
      assertAuthorizationDispatchable_def requireAutomatedDeliveryProvider_def providerH_def
      createAttempt_def updateAuth_def setPackageStatus_def recordOutcome_def updateAttempt_def Let_def
      split: option.splits)
    (simp add: demo_project_def demo_auth_def demo_env_def demo_app_def demo_delivery_def
      attemptKeysFree_def)

text \<open>The state after that sending, and the ones around the other examples.\<close>

definition sent_attempt :: dispatch_attempt where
  "sent_attempt = \<lparr>dt_id = ''t1'', dt_tenantId = ''A'', dt_projectId = ''p1'',
     dt_noticePackageId = ''n1'', dt_authorizationId = ''a1'', dt_snapshotId = ''x1'',
     dt_attemptNumber = 1, dt_channel = ''CONTROLLED_EMAIL'', dt_provider = ''fake'',
     dt_status = AT_SENT, dt_initiatedByUserId = ''u1'', dt_correlationId = ''c1'',
     dt_idempotencyKey = ''d'', dt_startedAt = Some 1000, dt_completedAt = Some 1000,
     dt_providerMessageId = Some ''m1'', dt_providerSubmissionId = None, dt_retryClass = None,
     dt_failureCode = None\<rparr>"

definition demo_row :: "string \<Rightarrow> string \<Rightarrow> dispatch_recipient" where
  "demo_row i projectId = \<lparr>dx_id = i, dx_tenantId = ''A'', dx_projectId = projectId,
     dx_attemptId = ''t1'', dx_recipientType = ''PRIMARY'', dx_preparationId = ''d1'',
     dx_displayName = ''Employer'', dx_addressOrEmail = None, dx_copiedRecipient = False,
     dx_requiredRecipient = True, dx_method = ''EMAIL'', dx_status = RP_DELIVERED,
     dx_providerRecipientId = None, dx_failureReason = None, dx_sentAt = None,
     dx_deliveredAt = Some 1, dx_acknowledgedAt = None\<rparr>"

definition demo_sent :: delivery_db where
  "demo_sent = demo_delivery\<lparr>dl_auths := [demo_auth\<lparr>da_status := AU_USED\<rparr>],
     dl_attempts := [sent_attempt], dl_packages := [demo_package NP_RECEIPT_CONFIRMED],
     dl_recipients := [demo_row ''r1'' ''p1'', (demo_row ''r2'' ''p3'')\<lparr>dx_attemptId := ''t2''\<rparr>]\<rparr>"

lemma demo_step:
  obtains x t where "sendApprovedNoticeEmail demo_env ''t1'' ''c1'' (\<lambda>n. ''r1'') ''p1'' ''n1'' ''a1''
       (demo_app demo_delivery) = (Inr x, t)" "delivery_step True (\<lambda>_. True) (demo_app demo_delivery) t"
proof -
  obtain x t where run: "sendApprovedNoticeEmail demo_env ''t1'' ''c1'' (\<lambda>n. ''r1'') ''p1'' ''n1'' ''a1''
       (demo_app demo_delivery) = (Inr x, t)"
    using demo_sending by blast
  have "delivery_step True (\<lambda>_. True) (demo_app demo_delivery) t"
    by (rule delivery_step.intros(8)[OF run]) (simp_all add: demo_delivery_inv, simp add: demo_app_def demo_delivery_def)
  then show thesis using that run by blast
qed

lemma dispatch_only_authorized_witness:
  "\<exists>x t. (delivery_step True (\<lambda>_. True))\<^sup>*\<^sup>* (demo_app demo_delivery) t \<and> x \<in> set (dl_attempts (ap_db t))
     \<and> dt_attemptNumber x = 1 \<and> (\<exists>a\<in>set (dl_auths (ap_db t)). da_status a = AU_USED
         \<and> (\<exists>u. da_authorizedByUserId a = Some u \<and> u \<noteq> da_requestedByUserId a))"
proof -
  have sod: "switches (\<lambda>_. True) (ap_db (demo_app demo_delivery))"
    and inv: "gateInv (\<lambda>i. True \<and> True) (ap_db (demo_app demo_delivery))"
    using demo_delivery_inv by (simp_all add: demo_app_def)
  obtain x t where run: "sendApprovedNoticeEmail demo_env ''t1'' ''c1'' (\<lambda>n. ''r1'') ''p1'' ''n1'' ''a1''
       (demo_app demo_delivery) = (Inr x, t)" and step: "delivery_step True (\<lambda>_. True) (demo_app demo_delivery) t"
    by (rule demo_step)
  have reach: "(delivery_step True (\<lambda>_. True))\<^sup>*\<^sup>* (demo_app demo_delivery) t" using step by blast
  have "dl_attempts (ap_db t) \<noteq> []"
    by (rule send_ok[OF run]) (simp add: gateTables_def updateWhere_def)
  then have b: "hd (dl_attempts (ap_db t)) \<in> set (dl_attempts (ap_db t))" by simp
  show ?thesis using dispatch_only_authorized[OF reach sod inv b] reach b by blast
qed

lemma authorization_lifecycle_witness:
  "\<exists>t. delivery_step True (\<lambda>_. True) (demo_app demo_delivery) t
     \<and> (\<exists>a'\<in>set (dl_auths (ap_db t)). da_id a' = ''a1'' \<and> da_status a' \<noteq> AU_REJECTED)"
proof -
  obtain t where step: "delivery_step True (\<lambda>_. True) (demo_app demo_delivery) t"
    by (rule demo_step)
  have keys: "distinct (map da_id (dl_auths (ap_db (demo_app demo_delivery))))"
    and "demo_auth \<in> set (dl_auths (ap_db (demo_app demo_delivery)))"
    by (simp_all add: demo_app_def demo_delivery_def)
  then have "\<exists>a'\<in>set (dl_auths (ap_db t)). da_id a' = da_id demo_auth
      \<and> (da_status a' = da_status demo_auth \<or> auth_next (da_status demo_auth) (da_status a'))"
    using authorization_lifecycle[OF step keys] by blast
  then have "\<exists>a'\<in>set (dl_auths (ap_db t)). da_id a' = ''a1'' \<and> da_status a' \<noteq> AU_REJECTED"
    by (auto simp: demo_auth_def auth_next_simps)
  then show ?thesis using step by blast
qed

lemma demo_webhook:
  "\<exists>row t. processDeliveryWebhook demo_env ''w1'' ''fake'' [(''x-cr-fake-signature'', ''sha256:d'')] ''{}''
     (demo_app demo_sent) = (Inr (Processed row AT_SENT), t)"
proof -
  have event: "verifyProviderWebhook demo_env (Fake MODE_SUCCESS) [(''x-cr-fake-signature'', ''sha256:d'')] ''{}''
      = Inr \<lparr>wh_providerEventId = ''e1'', wh_providerMessageId = ''m1'', wh_eventType = ''sent'',
          wh_occurredAt = ''now'', wh_recipientStatuses = [(''d1'', ''SENT'')]\<rparr>"
    by (simp add: verifyProviderWebhook_def verifyWebhook_def headerValue_def demo_env_def
        parseWebhookEvent_def)
  have "\<exists>row t. applyWebhook demo_env ''w1'' ''fake'' ''{}'' \<lparr>wh_providerEventId = ''e1'',
      wh_providerMessageId = ''m1'', wh_eventType = ''sent'', wh_occurredAt = ''now'',
      wh_recipientStatuses = [(''d1'', ''SENT'')]\<rparr> sent_attempt (demo_app demo_sent)
      = (Inr (Processed row AT_SENT), t)"
    by (simp add: applyWebhook_def bindH_def thenH_def demo_app_def demo_sent_def demo_delivery_def
        attemptRecipients_def Let_def updateAttempt_def setPackageStatus_def applyRecipientStatus_def
        demo_row_def sent_attempt_def mapProviderRecipientStatus_def aggregateRecipientStatus_def
        deliveredLike_def sentLike_def)
  moreover have "attemptOfMessage ''m1'' (ap_db (demo_app demo_sent)) = Some sent_attempt"
    by (simp add: attemptOfMessage_def demo_app_def demo_sent_def sent_attempt_def)
  ultimately show ?thesis
    unfolding processDeliveryWebhook_Inr webhookEvent_def using demo_provider event by fastforce
qed

lemma webhook_counts_once_witness:
  "\<exists>row t. processDeliveryWebhook demo_env ''w2'' ''fake'' [(''x-cr-fake-signature'', ''sha256:d'')] ''{}'' t
     = (Inr (Duplicate row), t)"
  using demo_webhook webhook_counts_once by blast

lemma webhook_overwrites_confirmation_witness:
  "\<exists>row t. processDeliveryWebhook demo_env ''w1'' ''fake'' [(''x-cr-fake-signature'', ''sha256:d'')] ''{}''
       (demo_app demo_sent) = (Inr (Processed row AT_SENT), t)
     \<and> (\<forall>p\<in>set (dl_packages (ap_db (demo_app demo_sent))). np_status p = NP_RECEIPT_CONFIRMED)
     \<and> dl_assessments (ap_db t) = dl_assessments (ap_db (demo_app demo_sent))"
proof -
  obtain row t where run: "processDeliveryWebhook demo_env ''w1'' ''fake''
      [(''x-cr-fake-signature'', ''sha256:d'')] ''{}'' (demo_app demo_sent) = (Inr (Processed row AT_SENT), t)"
    using demo_webhook by blast
  from webhook_overwrites_confirmation[OF this]
  have "dl_assessments (ap_db t) = dl_assessments (ap_db (demo_app demo_sent))" by blast
  moreover have "\<forall>p\<in>set (dl_packages (ap_db (demo_app demo_sent))). np_status p = NP_RECEIPT_CONFIRMED"
    by (simp add: demo_app_def demo_sent_def demo_package_def)
  ultimately show ?thesis using run by blast
qed

definition demo_ack :: "string \<Rightarrow> string list + acknowledgment_input" where
  "demo_ack raw = Inr \<lparr>ao_attemptId = ''t1'', ao_recipientId = Some ''r2'',
     ao_acknowledgmentType = ''EMAIL'', ao_acknowledgedAt = ''now'', ao_summary = None,
     ao_sourceEvidenceId = None\<rparr>"

lemma acknowledgment_reaches_any_project_witness:
  "\<exists>ack t r. recordAcknowledgment demo_env demo_ack ''k1'' ''p1'' ''n1'' ''{}'' (demo_app demo_sent)
       = (Inr ack, t)
     \<and> r \<in> set (dl_recipients (ap_db t)) \<and> dx_projectId r = ''p3'' \<and> dx_status r = RP_ACKNOWLEDGED"
proof -
  let ?r = "(demo_row ''r2'' ''p3'')\<lparr>dx_attemptId := ''t2''\<rparr>"
  have a: "findAttempt (cx_tenantId demo_ctx) ''p1'' ''n1'' ''t1'' (ap_db (demo_app demo_sent))
      = Some sent_attempt"
    by (simp add: findAttempt_def demo_app_def demo_sent_def sent_attempt_def)
  have "\<exists>ack t. recordAcknowledgment demo_env demo_ack ''k1'' ''p1'' ''n1'' ''{}'' (demo_app demo_sent)
       = (Inr ack, t) \<and> ?r\<lparr>dx_status := RP_ACKNOWLEDGED, dx_acknowledgedAt := Some 2000\<rparr>
       \<in> set (dl_recipients (ap_db t))"
    using acknowledgment_reaches_any_project[OF demo_delivery_granted, of demo_ack "''{}''" _ "''n1''"
        "demo_sent" sent_attempt "''r2''" ?r demo_env "''k1''"] a
    by (simp add: demo_ack_def demo_env_def demo_app_def demo_sent_def demo_row_def)
  moreover have "dx_projectId (?r\<lparr>dx_status := RP_ACKNOWLEDGED, dx_acknowledgedAt := Some 2000\<rparr>) = ''p3''"
    by (simp add: demo_row_def)
  ultimately show ?thesis by fastforce
qed

lemma readiness_checksum_vacuous_witness:
  "\<exists>r t. validateDispatchReadiness demo_env ''p1'' ''n1'' ''a1'' (demo_app demo_delivery) = (Inr r, t)
     \<and> rd_checksumValid r"
proof -
  have "\<exists>r. validateDispatchReadiness demo_env ''p1'' ''n1'' ''a1'' (demo_app demo_delivery)
      = (Inr r, demo_app demo_delivery)"
    using demo_provider
    by (simp add: validateDispatchReadiness_def projectAction_run[OF demo_delivery_granted]
        transactionH_def bindH_def providerH_def Let_def)
      (simp add: demo_app_def demo_delivery_def findAuth_def demo_auth_def snapshotById_def
        demo_snapshot_def demo_package_def)
  then obtain r where run: "validateDispatchReadiness demo_env ''p1'' ''n1'' ''a1'' (demo_app demo_delivery)
      = (Inr r, demo_app demo_delivery)" by blast
  from readiness_checksum_vacuous[OF this] show ?thesis
    using run by (auto simp: demo_app_def demo_delivery_def demo_snapshot_def)
qed

end
