(* ===== verification/DeadlineEngine.thy ===== *)
theory DeadlineEngine
  imports Prelude Complex_Main
begin

text \<open>
  The deadline engine (\<open>packages/contract-rules/src/deadline-engine.ts\<close>).  Luxon is a
  parameter: a record of the functions of its \<open>DateTime\<close> the engine calls, over any type
  \<open>'dt\<close> of valid or invalid date-times; \<open>toISO\<close> and \<open>toISODate\<close> give \<open>None\<close>
  for the null of an invalid one, \<open>lx_ms\<close> is the value \<open><=\<close> compares, and
  \<open>lx_show\<close> is JavaScript's number to text.  The zod schemas are functions from the raw
  value to the messages of the issues or the parsed value; numbers are rationals.  No law of
  either is assumed unless a theorem says so.
\<close>

section \<open>Types\<close>

datatype duration_unit =
    CALENDAR_DAY | BUSINESS_DAY | WEEK | MONTH | IMMEDIATE | PROMPT | REASONABLE_TIME | CUSTOM

datatype counting_convention = INCLUSIVE | EXCLUSIVE | UNSPECIFIED

datatype time_bar =
    EXPRESS_CONDITION_PRECEDENT | EXPRESS_TIME_BAR | PROCEDURAL_DEADLINE
    | RECOMMENDED_INTERNAL_DEADLINE | UNCERTAIN | NOT_A_TIME_BAR

datatype trace_operation =
    SELECT_TRIGGER_DATE | NORMALIZE_TIMEZONE | APPLY_START_DAY_RULE | ADD_CALENDAR_DAYS
    | ADD_BUSINESS_DAYS | ADD_WEEKS | ADD_MONTHS | APPLY_END_DAY_RULE
    | APPLY_WEEKEND_ADJUSTMENT | APPLY_HOLIDAY_ADJUSTMENT | APPLY_INTERNAL_BUFFER
    | BLOCK_AMBIGUOUS_RULE | HANDLE_IMMEDIATE

datatype start_convention = EXCLUDE_TRIGGER_DAY | INCLUDE_TRIGGER_DAY

datatype end_convention = END_OF_DAY | START_OF_DAY | EXACT_TIMESTAMP

datatype non_working_adjustment = FORWARD | BACKWARD | NO_ADJUSTMENT

datatype trigger_precision = EXACT_DATETIME | EXACT_DATE

datatype month_roll = SAME_DAY_OR_LAST | BLOCK_IF_AMBIGUOUS

record executable_rule =
  durationUnit :: duration_unit
  durationValue :: "rat option"
  counting :: counting_convention
  startDateConvention :: start_convention
  endDateConvention :: end_convention
  nonWorkingAdjustment :: non_working_adjustment
  timeBarClassification :: time_bar
  ambiguityNotes :: "string list"
  humanApproved :: bool
  requiredRecipientsApproved :: bool
  monthRollBehavior :: month_roll

record calendar_revision =
  timezone :: string
  weekendDays :: "nat list"
  holidays :: "string list"
  specialWorkingDays :: "string list"

record calculate_input =
  rule :: executable_rule
  triggerDateIso :: string
  triggerPrecision :: trigger_precision
  calendar :: calendar_revision
  internalWarningOffsetsDays :: "nat list"

text \<open>What a trace step records under a key.\<close>

datatype trace_value =
    TText "string option" | TNumber "rat option" | TFlag bool | TTexts "string list"
    | TNumbers "nat list" | TUnit | TPrecision trigger_precision | TStart start_convention
    | TCounting counting_convention | TAdjustment non_working_adjustment
    | TEnd end_convention | TRoll month_roll

record trace_step =
  sequence :: nat
  operation :: trace_operation
  step_input :: "(string \<times> trace_value) list"
  step_output :: "(string \<times> trace_value) list"
  explanation :: string
  assumption :: bool
  warning :: bool

record internal_milestone =
  ms_label :: string
  ms_dueAtIso :: string
  ms_offsetDaysBeforeDeadline :: nat

datatype calculation_status = CALCULATED | BLOCKED

record calculate_result =
  status :: calculation_status
  blockedReasons :: "string list"
  contractualDeadlineAt :: "string option"
  contractualDeadlineDate :: "string option"
  deadlineTimezone :: string
  trace :: "trace_step list"
  internalMilestones :: "internal_milestone list"
  immediate :: bool

record 'dt luxon =
  lx_fromISO :: "string \<Rightarrow> string + 'dt"
  lx_setZone :: "'dt \<Rightarrow> string \<Rightarrow> 'dt option"
  lx_now :: 'dt
  lx_plusDays :: "'dt \<Rightarrow> rat \<Rightarrow> 'dt"
  lx_minusDays :: "'dt \<Rightarrow> rat \<Rightarrow> 'dt"
  lx_plusWeeks :: "'dt \<Rightarrow> rat \<Rightarrow> 'dt"
  lx_plusMonths :: "'dt \<Rightarrow> rat \<Rightarrow> 'dt"
  lx_endOfDay :: "'dt \<Rightarrow> 'dt"
  lx_startOfDay :: "'dt \<Rightarrow> 'dt"
  lx_toISO :: "'dt \<Rightarrow> string option"
  lx_toISODate :: "'dt \<Rightarrow> string option"
  lx_weekday :: "'dt \<Rightarrow> nat"
  lx_hasSameDay :: "'dt \<Rightarrow> 'dt \<Rightarrow> bool"
  lx_ms :: "'dt \<Rightarrow> int"
  lx_zoneName :: "'dt \<Rightarrow> string option"
  lx_show :: "rat \<Rightarrow> string"

section \<open>Steps and days\<close>

definition pushStep ::
  "trace_operation \<Rightarrow> (string \<times> trace_value) list \<Rightarrow> (string \<times> trace_value) list \<Rightarrow> string \<Rightarrow>
   bool \<Rightarrow> bool \<Rightarrow> trace_step list \<Rightarrow> trace_step list" where
  "pushStep oper inp out text isAssumption isWarning tr = tr @
     [\<lparr>sequence = length tr + 1, operation = oper, step_input = inp, step_output = out,
       explanation = text, assumption = isAssumption, warning = isWarning\<rparr>]"

definition dateKey :: "'dt luxon \<Rightarrow> 'dt \<Rightarrow> string" where
  "dateKey lx dt = (case lx_toISODate lx dt of None \<Rightarrow> [] | Some d \<Rightarrow> d)"

definition isBusinessDay :: "'dt luxon \<Rightarrow> calendar_revision \<Rightarrow> 'dt \<Rightarrow> bool" where
  "isBusinessDay lx cal dt =
     (let key = dateKey lx dt in
      if key \<in> set (specialWorkingDays cal) then True
      else if lx_weekday lx dt \<in> set (weekendDays cal) then False
      else if key \<in> set (holidays cal) then False
      else True)"

text \<open>The loop of \<open>adjustNonWorking\<close>; the first argument is what is left of its guard.\<close>

fun adjustLoop ::
  "nat \<Rightarrow> 'dt luxon \<Rightarrow> calendar_revision \<Rightarrow> ('dt \<Rightarrow> 'dt) \<Rightarrow> 'dt \<Rightarrow> 'dt" where
  "adjustLoop 0 lx cal move cursor = cursor"
| "adjustLoop (Suc g) lx cal move cursor =
     (if \<not> isBusinessDay lx cal cursor then adjustLoop g lx cal move (move cursor) else cursor)"

definition adjustNonWorking ::
  "'dt luxon \<Rightarrow> calendar_revision \<Rightarrow> non_working_adjustment \<Rightarrow> 'dt \<Rightarrow> 'dt" where
  "adjustNonWorking lx cal adjustment dt =
     (case adjustment of
        NO_ADJUSTMENT \<Rightarrow> dt
      | FORWARD \<Rightarrow> adjustLoop 370 lx cal (\<lambda>d. lx_plusDays lx d 1) dt
      | BACKWARD \<Rightarrow> adjustLoop 370 lx cal (\<lambda>d. lx_minusDays lx d 1) dt)"

fun businessLoop :: "nat \<Rightarrow> 'dt luxon \<Rightarrow> calendar_revision \<Rightarrow> rat \<Rightarrow> 'dt \<Rightarrow> 'dt" where
  "businessLoop 0 lx cal remaining cursor = cursor"
| "businessLoop (Suc g) lx cal remaining cursor =
     (if 0 < remaining then
        (let next = lx_plusDays lx cursor 1 in
         businessLoop g lx cal (if isBusinessDay lx cal next then remaining - 1 else remaining) next)
      else cursor)"

definition addBusinessDays :: "'dt luxon \<Rightarrow> 'dt \<Rightarrow> rat \<Rightarrow> calendar_revision \<Rightarrow> 'dt" where
  "addBusinessDays lx start days cal = businessLoop 5000 lx cal days start"

section \<open>Validation\<close>

definition isNonNumeric :: "duration_unit \<Rightarrow> bool" where
  "isNonNumeric u \<longleftrightarrow> u = IMMEDIATE \<or> u = PROMPT \<or> u = REASONABLE_TIME"

fun unit_name :: "duration_unit \<Rightarrow> string" where
  "unit_name CALENDAR_DAY = ''CALENDAR_DAY''"
| "unit_name BUSINESS_DAY = ''BUSINESS_DAY''"
| "unit_name WEEK = ''WEEK''"
| "unit_name MONTH = ''MONTH''"
| "unit_name IMMEDIATE = ''IMMEDIATE''"
| "unit_name PROMPT = ''PROMPT''"
| "unit_name REASONABLE_TIME = ''REASONABLE_TIME''"
| "unit_name CUSTOM = ''CUSTOM''"

definition ruleReasons :: "executable_rule \<Rightarrow> string list" where
  "ruleReasons value =
     whenl (\<not> humanApproved value) ''Rule is not human-approved in an active configuration snapshot'' @
     whenl (0 < length (ambiguityNotes value)) ''Ambiguity notes remain unresolved'' @
     whenl (timeBarClassification value = UNCERTAIN) ''Time-bar classification is UNCERTAIN'' @
     whenl (\<not> requiredRecipientsApproved value) ''Required recipients are not approved'' @
     whenl (durationUnit value = PROMPT \<or> durationUnit value = REASONABLE_TIME)
       (unit_name (durationUnit value) @ '' cannot produce a definitive contractual deadline'') @
     whenl (durationUnit value = CUSTOM) ''CUSTOM duration units are not executable'' @
     whenl (counting value = UNSPECIFIED) ''Counting convention is UNSPECIFIED'' @
     (if \<not> isNonNumeric (durationUnit value) then
        (case durationValue value of
           None \<Rightarrow> [''Numeric duration requires a value'']
         | Some v \<Rightarrow> whenl (v < 0) ''Duration value must not be negative'')
      else whenl (durationUnit value = IMMEDIATE \<and> durationValue value \<noteq> None)
             ''IMMEDIATE must remain non-numeric'')"

text \<open>The reasons, and the parsed value when there is one; \<open>ok\<close> is "no reason".\<close>

definition validateExecutableRule ::
  "('raw \<Rightarrow> string list + executable_rule) \<Rightarrow> 'raw \<Rightarrow> bool \<times> string list \<times> executable_rule option" where
  "validateExecutableRule safeParse raw =
     (case safeParse raw of
        Inl issues \<Rightarrow> (False, issues, None)
      | Inr value \<Rightarrow> (length (ruleReasons value) = 0, ruleReasons value, Some value))"

definition validateTriggerDate ::
  "'dt luxon \<Rightarrow> string \<Rightarrow> trigger_precision \<Rightarrow> string \<Rightarrow> string list + 'dt" where
  "validateTriggerDate lx triggerIso precision tz =
     (case lx_fromISO lx triggerIso of
        Inl reason \<Rightarrow> Inl [''Invalid trigger date: '' @ reason]
      | Inr zone \<Rightarrow>
          (case lx_setZone lx zone tz of
             None \<Rightarrow> Inl [''Invalid timezone: '' @ tz]
           | Some trigAt \<Rightarrow> Inr trigAt))"

definition validateCalendarRevision ::
  "'dt luxon \<Rightarrow> ('raw \<Rightarrow> string list + calendar_revision) \<Rightarrow> 'raw \<Rightarrow> string list + calendar_revision" where
  "validateCalendarRevision lx safeParse raw =
     (case safeParse raw of
        Inl issues \<Rightarrow> Inl issues
      | Inr cal \<Rightarrow>
          (case lx_setZone lx (lx_now lx) (timezone cal) of
             None \<Rightarrow> Inl [''Invalid calendar timezone: '' @ timezone cal]
           | Some _ \<Rightarrow> Inr cal))"

section \<open>The calculation\<close>

text \<open>\<open>calculateDeadline\<close> part by part, each with the trace it leaves.\<close>

definition blockedResult :: "string list \<Rightarrow> string \<Rightarrow> trace_step list \<Rightarrow> calculate_result" where
  "blockedResult reasons tz tr =
     \<lparr>status = BLOCKED, blockedReasons = reasons, contractualDeadlineAt = None,
      contractualDeadlineDate = None, deadlineTimezone = tz, trace = tr,
      internalMilestones = [], immediate = False\<rparr>"

fun start_name :: "start_convention \<Rightarrow> string" where
  "start_name EXCLUDE_TRIGGER_DAY = ''EXCLUDE_TRIGGER_DAY''"
| "start_name INCLUDE_TRIGGER_DAY = ''INCLUDE_TRIGGER_DAY''"

fun counting_name :: "counting_convention \<Rightarrow> string" where
  "counting_name INCLUSIVE = ''INCLUSIVE''"
| "counting_name EXCLUSIVE = ''EXCLUSIVE''"
| "counting_name UNSPECIFIED = ''UNSPECIFIED''"

fun adjustment_name :: "non_working_adjustment \<Rightarrow> string" where
  "adjustment_name FORWARD = ''FORWARD''"
| "adjustment_name BACKWARD = ''BACKWARD''"
| "adjustment_name NO_ADJUSTMENT = ''NONE''"

definition rawDays :: "executable_rule \<Rightarrow> rat" where
  "rawDays r = (case durationValue r of None \<Rightarrow> 0 | Some v \<Rightarrow> v)"

definition daysToAdd :: "executable_rule \<Rightarrow> rat" where
  "daysToAdd r =
     (if counting r = INCLUSIVE \<and> startDateConvention r = EXCLUDE_TRIGGER_DAY \<and> 1 \<le> rawDays r
      then rawDays r - 1
      else if startDateConvention r = INCLUDE_TRIGGER_DAY \<and> 1 \<le> rawDays r
      then rawDays r - 1 else rawDays r)"

definition showValue :: "'dt luxon \<Rightarrow> rat option \<Rightarrow> string" where
  "showValue lx v = (case v of None \<Rightarrow> ''null'' | Some x \<Rightarrow> lx_show lx x)"

definition addDuration ::
  "'dt luxon \<Rightarrow> executable_rule \<Rightarrow> calendar_revision \<Rightarrow> 'dt \<Rightarrow> trace_step list \<Rightarrow>
   calculate_result + 'dt \<times> trace_step list" where
  "addDuration lx r cal cursor tr =
     (if durationUnit r = CALENDAR_DAY then
        (let c = lx_plusDays lx cursor (daysToAdd r) in
         Inr (c, pushStep ADD_CALENDAR_DAYS
           [(''daysToAdd'', TNumber (Some (daysToAdd r))), (''rawDays'', TNumber (Some (rawDays r)))]
           [(''at'', TText (lx_toISO lx c))]
           (''Added '' @ lx_show lx (daysToAdd r) @ '' calendar day(s)'') False False tr))
      else if durationUnit r = BUSINESS_DAY then
        (let c = addBusinessDays lx cursor (daysToAdd r) cal in
         Inr (c, pushStep ADD_BUSINESS_DAYS
           [(''daysToAdd'', TNumber (Some (daysToAdd r))), (''rawDays'', TNumber (Some (rawDays r))),
            (''weekendDays'', TNumbers (weekendDays cal))]
           [(''at'', TText (lx_toISO lx c))]
           (''Added '' @ lx_show lx (daysToAdd r) @ '' business day(s)'') False False tr))
      else if durationUnit r = WEEK then
        (let c = lx_plusWeeks lx cursor (rawDays r) in
         Inr (c, pushStep ADD_WEEKS [(''weeks'', TNumber (durationValue r))]
           [(''at'', TText (lx_toISO lx c))]
           (''Added '' @ showValue lx (durationValue r) @ '' week(s)'') False False tr))
      else if durationUnit r = MONTH then
        if monthRollBehavior r \<noteq> SAME_DAY_OR_LAST then
          Inl (blockedResult [''Month-end semantics are not approved''] (timezone cal)
            (pushStep BLOCK_AMBIGUOUS_RULE [(''monthRollBehavior'', TRoll (monthRollBehavior r))] []
               ''Month-end semantics are not approved'' False True tr))
        else
          (let c = lx_plusMonths lx cursor (rawDays r) in
           Inr (c, pushStep ADD_MONTHS
             [(''months'', TNumber (durationValue r)), (''behavior'', TRoll (monthRollBehavior r))]
             [(''at'', TText (lx_toISO lx c))]
             (''Added '' @ showValue lx (durationValue r) @ '' month(s) with SAME_DAY_OR_LAST'')
             False False tr))
      else Inr (cursor, tr))"

definition adjustDay ::
  "'dt luxon \<Rightarrow> executable_rule \<Rightarrow> calendar_revision \<Rightarrow> 'dt \<Rightarrow> trace_step list \<Rightarrow>
   'dt \<times> trace_step list" where
  "adjustDay lx r cal cursor tr =
     (if durationUnit r = CALENDAR_DAY \<or> durationUnit r = WEEK \<or> durationUnit r = MONTH then
        (let c = adjustNonWorking lx cal (nonWorkingAdjustment r) cursor in
         if \<not> lx_hasSameDay lx cursor c
         then (c, pushStep APPLY_WEEKEND_ADJUSTMENT
                [(''from'', TText (lx_toISO lx cursor)),
                 (''adjustment'', TAdjustment (nonWorkingAdjustment r))]
                [(''to'', TText (lx_toISO lx c))]
                (''Applied non-working day adjustment ('' @ adjustment_name (nonWorkingAdjustment r)
                   @ '')'') False False tr)
         else (c, tr))
      else (cursor, tr))"

definition applyEndDay ::
  "'dt luxon \<Rightarrow> executable_rule \<Rightarrow> 'dt \<Rightarrow> trace_step list \<Rightarrow> 'dt \<times> trace_step list" where
  "applyEndDay lx r cursor tr =
     (if endDateConvention r = END_OF_DAY then
        (let c = lx_endOfDay lx cursor in
         (c, pushStep APPLY_END_DAY_RULE [(''convention'', TEnd END_OF_DAY)]
            [(''at'', TText (lx_toISO lx c))] ''Deadline expires at end of final day'' False False tr))
      else if endDateConvention r = START_OF_DAY then
        (let c = lx_startOfDay lx cursor in
         (c, pushStep APPLY_END_DAY_RULE [(''convention'', TEnd START_OF_DAY)]
            [(''at'', TText (lx_toISO lx c))] ''Deadline expires at start of final day'' False False tr))
      else
        (cursor, pushStep APPLY_END_DAY_RULE [(''convention'', TEnd EXACT_TIMESTAMP)]
            [(''at'', TText (lx_toISO lx cursor))] ''Deadline keeps exact timestamp from arithmetic''
            False False tr))"

text \<open>The loop over the warning offsets, with the milestones and the trace so far.\<close>

fun addMilestones ::
  "'dt luxon \<Rightarrow> 'dt \<Rightarrow> 'dt \<Rightarrow> nat list \<Rightarrow> internal_milestone list \<Rightarrow> trace_step list \<Rightarrow>
   internal_milestone list \<times> trace_step list" where
  "addMilestones lx trigger deadline [] ms tr = (ms, tr)"
| "addMilestones lx trigger deadline (offset # rest) ms tr =
     (let warnAt = lx_minusDays lx deadline (of_nat offset) in
      if lx_ms lx warnAt \<le> lx_ms lx trigger then addMilestones lx trigger deadline rest ms tr
      else (case lx_toISO lx warnAt of
          None \<Rightarrow> addMilestones lx trigger deadline rest ms tr
        | Some due \<Rightarrow>
            if due = [] then addMilestones lx trigger deadline rest ms tr
            else addMilestones lx trigger deadline rest
              (ms @ [\<lparr>ms_label = lx_show lx (of_nat offset) @ '' days remaining (internal)'',
                      ms_dueAtIso = due, ms_offsetDaysBeforeDeadline = offset\<rparr>])
              (pushStep APPLY_INTERNAL_BUFFER
                 [(''offsetDays'', TNumber (Some (of_nat offset)))] [(''dueAt'', TText (Some due))]
                 (''Internal warning '' @ lx_show lx (of_nat offset)
                    @ '' days before contractual deadline'') True False tr)))"

definition startTrace ::
  "'dt luxon \<Rightarrow> calculate_input \<Rightarrow> calendar_revision \<Rightarrow> 'dt \<Rightarrow> trace_step list" where
  "startTrace lx input cal trigAt =
     pushStep NORMALIZE_TIMEZONE [(''from'', TText (lx_zoneName lx trigAt))]
       [(''to'', TText (Some (timezone cal))), (''at'', TText (lx_toISO lx trigAt))]
       (''Normalized to calendar timezone '' @ timezone cal) False False
     (pushStep SELECT_TRIGGER_DATE
       [(''triggerDateIso'', TText (Some (triggerDateIso input))),
        (''precision'', TPrecision (triggerPrecision input))]
       [(''selected'', TText (lx_toISO lx trigAt))] ''Selected verified trigger date'' False False [])"

text \<open>After the checks: the deadline of an executable rule from a valid trigger.\<close>

definition computeDeadline ::
  "'dt luxon \<Rightarrow> calculate_input \<Rightarrow> executable_rule \<Rightarrow> calendar_revision \<Rightarrow> 'dt \<Rightarrow>
   calculate_result" where
  "computeDeadline lx input r cal trigAt =
     (let tr = startTrace lx input cal trigAt in
      if durationUnit r = IMMEDIATE then
        \<lparr>status = CALCULATED, blockedReasons = [], contractualDeadlineAt = lx_toISO lx trigAt,
         contractualDeadlineDate = Some (dateKey lx trigAt), deadlineTimezone = timezone cal,
         trace = pushStep HANDLE_IMMEDIATE [(''trigger'', TText (lx_toISO lx trigAt))]
           [(''contractualDeadlineAt'', TText (lx_toISO lx trigAt))]
           ''Immediate requirement: contractual deadline equals trigger time; no numeric grace period''
           False False tr,
         internalMilestones = [], immediate = True\<rparr>
      else
        (let tr = pushStep APPLY_START_DAY_RULE
               [(''convention'', TStart (startDateConvention r)), (''counting'', TCounting (counting r))]
               [] (''Applied '' @ start_name (startDateConvention r) @ '' with counting ''
                     @ counting_name (counting r)) False False tr
         in case addDuration lx r cal trigAt tr of
              Inl blocked \<Rightarrow> blocked
            | Inr (c1, tr1) \<Rightarrow>
                (let (c2, tr2) = adjustDay lx r cal c1 tr1;
                     (c3, tr3) = applyEndDay lx r c2 tr2;
                     (ms, tr4) = addMilestones lx trigAt c3 (internalWarningOffsetsDays input) [] tr3
                 in \<lparr>status = CALCULATED, blockedReasons = [],
                     contractualDeadlineAt = lx_toISO lx c3,
                     contractualDeadlineDate = Some (dateKey lx c3),
                     deadlineTimezone = timezone cal, trace = tr4, internalMilestones = ms,
                     immediate = False\<rparr>)))"

record ('raw) schemas =
  sc_input :: "'raw \<Rightarrow> string list + calculate_input"
  sc_rule :: "executable_rule \<Rightarrow> string list + executable_rule"
  sc_calendar :: "calendar_revision \<Rightarrow> string list + calendar_revision"

definition calculateDeadline ::
  "'dt luxon \<Rightarrow> 'raw schemas \<Rightarrow> 'raw \<Rightarrow> calculate_result" where
  "calculateDeadline lx sc rawInput =
     (case sc_input sc rawInput of
        Inl issues \<Rightarrow> blockedResult issues ''UTC''
          [\<lparr>sequence = 1, operation = BLOCK_AMBIGUOUS_RULE, step_input = [], step_output = [],
            explanation = ''Input schema validation failed'', assumption = False, warning = True\<rparr>]
      | Inr input \<Rightarrow>
          (let calCheck = validateCalendarRevision lx (sc_calendar sc) (calendar input) in
           case validateExecutableRule (sc_rule sc) (rule input) of (ruleOk, why, value) \<Rightarrow>
             (case (ruleOk, value, calCheck) of
                (True, Some r, Inr cal) \<Rightarrow>
                  (case validateTriggerDate lx (triggerDateIso input) (triggerPrecision input)
                          (timezone (calendar input)) of
                     Inl reasons \<Rightarrow> blockedResult reasons (timezone (calendar input))
                       (pushStep BLOCK_AMBIGUOUS_RULE
                          [(''triggerDateIso'', TText (Some (triggerDateIso input)))]
                          [(''reasons'', TTexts reasons)]
                          ''Trigger date is invalid or insufficiently precise'' False True [])
                   | Inr trigAt \<Rightarrow> computeDeadline lx input r cal trigAt)
              | _ \<Rightarrow>
                  (let reasons = why @ (case calCheck of Inl calWhy \<Rightarrow> calWhy | Inr _ \<Rightarrow> [])
                   in blockedResult reasons (timezone (calendar input))
                        (pushStep BLOCK_AMBIGUOUS_RULE
                           [(''ruleOk'', TFlag ruleOk), (''calendarOk'', TFlag (isOk calCheck))]
                           [(''blockedReasons'', TTexts reasons)]
                           ''Rule or calendar is not executable'' False True [])))))"

fun status_name :: "calculation_status \<Rightarrow> string" where
  "status_name CALCULATED = ''CALCULATED''"
| "status_name BLOCKED = ''BLOCKED''"

definition isoText :: "string option \<Rightarrow> string" where
  "isoText x = (case x of None \<Rightarrow> ''null'' | Some s \<Rightarrow> s)"

definition compareCalculationResults ::
  "'dt luxon \<Rightarrow> calculate_result \<Rightarrow> calculate_result \<Rightarrow> bool \<times> string list" where
  "compareCalculationResults lx a b =
     (let differences =
        whenl (status a \<noteq> status b)
          (''status: '' @ status_name (status a) @ '' vs '' @ status_name (status b)) @
        whenl (contractualDeadlineAt a \<noteq> contractualDeadlineAt b)
          (''deadlineAt: '' @ isoText (contractualDeadlineAt a) @ '' vs ''
             @ isoText (contractualDeadlineAt b)) @
        whenl (length (trace a) \<noteq> length (trace b))
          (''trace length: '' @ lx_show lx (of_nat (length (trace a))) @ '' vs ''
             @ lx_show lx (of_nat (length (trace b))))
      in (length differences = 0, differences))"

end
