(* ===== verification/DeadlineService.thy ===== *)
theory DeadlineService
  imports Services DeadlineEngine
begin

text \<open>
  The deadline service (\<open>apps/web/src/server/services/deadlines.ts\<close>): project events and
  their dates, the confirmation of events and of the rules that apply to them, project calendars,
  the calculation of a deadline by the deadline engine, its verification, tracking and
  recalculation.  A row has the columns the service reads or writes; tables are in the order of
  creation, so \<open>orderBy createdAt desc\<close> is the reverse of a table.  The clock, the parsing and
  printing of dates, the keys of a JSON value and the engine's date library and schemas are
  parameters.
\<close>

section \<open>Rows and state\<close>

datatype event_status =
    EVS_DRAFT | EVS_UNDER_REVIEW | EVS_CONFIRMED | EVS_DISPUTED | EVS_WITHDRAWN | EVS_CLOSED

datatype confirmation_status =
    UNCONFIRMED | CONFIRMED_FACT | CONFIRMED_FOR_DEADLINE_ANALYSIS | EVC_DISPUTED
    | INSUFFICIENT_EVIDENCE

text \<open>The names as the database has them.\<close>

fun confirmation_name :: "confirmation_status \<Rightarrow> string" where
  "confirmation_name UNCONFIRMED = ''UNCONFIRMED''"
| "confirmation_name CONFIRMED_FACT = ''CONFIRMED_FACT''"
| "confirmation_name CONFIRMED_FOR_DEADLINE_ANALYSIS = ''CONFIRMED_FOR_DEADLINE_ANALYSIS''"
| "confirmation_name EVC_DISPUTED = ''DISPUTED''"
| "confirmation_name INSUFFICIENT_EVIDENCE = ''INSUFFICIENT_EVIDENCE''"

datatype date_precision =
    PR_EXACT_DATETIME | PR_EXACT_DATE | PR_APPROXIMATE_DATE | PR_DATE_RANGE | PR_UNKNOWN

datatype date_verification =
    DV_UNVERIFIED | DV_VERIFIED | DV_DISPUTED | DV_REJECTED | DV_SUPERSEDED

datatype applicability_status =
    AP_CANDIDATE | AP_SELECTED_FOR_ANALYSIS | AP_APPLICABLE | AP_NOT_APPLICABLE | AP_UNCERTAIN
    | AP_SUPERSEDED

datatype assessment_source =
    AS_DETERMINISTIC_MATCH | AS_HUMAN_SELECTED | AS_HUMAN_CONFIRMED | AS_IMPORTED
    | AS_FUTURE_AI_SUGGESTION

datatype calendar_status = CA_DRAFT | CA_IN_REVIEW | CA_APPROVED | CA_SUPERSEDED | CA_ARCHIVED

datatype calendar_revision_status = CR_DRAFT | CR_IN_REVIEW | CR_APPROVED | CR_SUPERSEDED

fun calendar_revision_status_name :: "calendar_revision_status \<Rightarrow> string" where
  "calendar_revision_status_name CR_DRAFT = ''DRAFT''"
| "calendar_revision_status_name CR_IN_REVIEW = ''IN_REVIEW''"
| "calendar_revision_status_name CR_APPROVED = ''APPROVED''"
| "calendar_revision_status_name CR_SUPERSEDED = ''SUPERSEDED''"

datatype stored_status =
    DC_DRAFT | DC_BLOCKED | DC_CALCULATED | DC_REVIEW_REQUIRED | DC_VERIFIED | DC_SUPERSEDED
    | DC_CANCELLED

fun stored_status_name :: "stored_status \<Rightarrow> string" where
  "stored_status_name DC_DRAFT = ''DRAFT''"
| "stored_status_name DC_BLOCKED = ''BLOCKED''"
| "stored_status_name DC_CALCULATED = ''CALCULATED''"
| "stored_status_name DC_REVIEW_REQUIRED = ''REVIEW_REQUIRED''"
| "stored_status_name DC_VERIFIED = ''VERIFIED''"
| "stored_status_name DC_SUPERSEDED = ''SUPERSEDED''"
| "stored_status_name DC_CANCELLED = ''CANCELLED''"

datatype milestone_kind = INITIAL_NOTICE | INTERNAL_REVIEW_TARGET

datatype milestone_class = CONTRACTUAL | INTERNAL

datatype deadline_status =
    DS_UPCOMING | DS_DUE_SOON | DS_DUE_TODAY | DS_OVERDUE | DS_COMPLETED | DS_CANCELLED
    | DS_SUPERSEDED | DS_BLOCKED

record event_input =
  vi_title :: string
  vi_description :: "string option"
  vi_eventCategory :: string
  vi_eventSubcategory :: "string option"
  vi_contractPackageId :: "string option"
  vi_timezone :: string
  vi_eventReference :: "string option"

record event_row =
  ve_id :: string
  ve_tenantId :: string
  ve_projectId :: string
  ve_input :: event_input
  ve_eventStatus :: event_status
  ve_confirmationStatus :: confirmation_status
  ve_reportedByUserId :: string
  ve_confirmedByUserId :: "string option"
  ve_confirmedAt :: "int option"

record date_input =
  di_dateType :: string
  di_dateValue :: string
  di_timezone :: string
  di_precision :: date_precision
  di_notes :: "string option"

record event_date =
  vd_id :: string
  vd_tenantId :: string
  vd_projectId :: string
  vd_eventId :: string
  vd_dateType :: string
  vd_dateValue :: int
  vd_timezone :: string
  vd_precision :: date_precision
  vd_notes :: "string option"
  vd_assertedByUserId :: string
  vd_verificationStatus :: date_verification
  vd_verifiedByUserId :: "string option"
  vd_verifiedAt :: "int option"

text \<open>A row another service owns and this one only looks up: its key and its parent.\<close>

record owned_row =
  ow_id :: string
  ow_tenantId :: string
  ow_projectId :: string
  ow_parentId :: string

record evidence_link_input =
  vk_sourceDocumentId :: string
  vk_documentVersionId :: string
  vk_evidenceSegmentId :: "string option"
  vk_purpose :: string
  vk_factualNote :: "string option"

record event_evidence =
  vv_id :: string
  vv_tenantId :: string
  vv_projectId :: string
  vv_eventId :: string
  vv_link :: evidence_link_input
  vv_linkedByUserId :: string

record configuration_row =
  cg_id :: string
  cg_isActiveApproved :: bool
  cg_approved :: bool

text \<open>The terms of a rule that a calculation copies for the record.\<close>

record rule_terms =
  rt_durationValue :: "rat option"
  rt_durationUnit :: "string option"
  rt_countingConvention :: string
  rt_startDateRule :: "string option"
  rt_endDateRule :: "string option"
  rt_businessDayAdjustment :: "string option"

text \<open>An approved notice rule, copied from its configuration; \<open>'j\<close> is a JSON value.\<close>

record 'j rule_snapshot =
  nr_id :: string
  nr_tenantId :: string
  nr_projectId :: string
  nr_contractPackageId :: string
  nr_configurationRevisionId :: string
  nr_noticeCategory :: "string option"
  nr_terms :: rule_terms
  nr_structuredRule :: 'j

record assessment_row =
  va_id :: string
  va_tenantId :: string
  va_projectId :: string
  va_eventId :: string
  va_contractPackageId :: string
  va_configurationRevisionId :: string
  va_snapshotId :: string
  va_applicabilityStatus :: applicability_status
  va_assessmentSource :: assessment_source
  va_reviewerUserId :: "string option"
  va_reviewedAt :: "int option"
  va_rationale :: "string option"

record calendar_input =
  ci_name :: string
  ci_timezone :: string
  ci_weekendDays :: "nat list"
  ci_source :: "string option"

record calendar_row =
  pc_id :: string
  pc_tenantId :: string
  pc_projectId :: string
  pc_name :: string
  pc_timezone :: string
  pc_weekendDays :: "nat list option"
  pc_source :: string
  pc_status :: calendar_status
  pc_currentRevisionId :: "string option"
  pc_createdByUserId :: string
  pc_approvedByUserId :: "string option"

record revision_input =
  pi_timezone :: "string option"
  pi_weekendDays :: "nat list"
  pi_holidays :: "string list"
  pi_specialWorkingDays :: "string list"
  pi_effectiveFrom :: "string option"
  pi_effectiveTo :: "string option"

text \<open>The JSON columns of a revision: \<open>None\<close> is a value that is no array.\<close>

record revision_row =
  pr_id :: string
  pr_tenantId :: string
  pr_projectId :: string
  pr_calendarId :: string
  pr_revisionNumber :: nat
  pr_timezone :: string
  pr_weekendDays :: "nat list option"
  pr_holidayDates :: "string list option"
  pr_specialWorkingDays :: "string list option"
  pr_effectiveFrom :: "int option"
  pr_effectiveTo :: "int option"
  pr_status :: calendar_revision_status
  pr_approvedByUserId :: "string option"
  pr_approvedAt :: "int option"

record calculation_row =
  dc_id :: string
  dc_tenantId :: string
  dc_projectId :: string
  dc_eventId :: string
  dc_assessmentId :: string
  dc_contractPackageId :: string
  dc_configurationRevisionId :: string
  dc_snapshotId :: string
  dc_calendarRevisionId :: string
  dc_projectCalendarId :: string
  dc_status :: stored_status
  dc_version :: nat
  dc_triggerDateType :: string
  dc_triggerDateValue :: int
  dc_triggerTimezone :: string
  dc_triggerDateId :: "string option"
  dc_triggerPrecision :: date_precision
  dc_terms :: rule_terms
  dc_calculatedDeadlineAt :: "int option"
  dc_calculatedDeadlineDate :: "string option"
  dc_deadlineTimezone :: string
  dc_blockedReason :: "string option"
  dc_trace :: "trace_step list"
  dc_calculatedByUserId :: string
  dc_reviewedByUserId :: "string option"
  dc_reviewedAt :: "int option"
  dc_supersedesId :: "string option"
  dc_recalculationReason :: "string option"

record milestone_row =
  ml_id :: string
  ml_tenantId :: string
  ml_projectId :: string
  ml_calculationId :: string
  ml_kind :: milestone_kind
  ml_classification :: milestone_class
  ml_label :: string
  ml_dueAt :: int
  ml_dueDate :: "string option"
  ml_timezone :: string
  ml_offsetDays :: "nat option"
  ml_sequence :: nat

record deadline_row =
  pd_id :: string
  pd_tenantId :: string
  pd_projectId :: string
  pd_eventId :: string
  pd_contractPackageId :: string
  pd_calculationId :: string
  pd_milestoneId :: "string option"
  pd_title :: string
  pd_deadlineType :: string
  pd_dueAt :: "int option"
  pd_timezone :: string
  pd_status :: deadline_status
  pd_supersededById :: "string option"

record history_row =
  dh_tenantId :: string
  dh_projectId :: string
  dh_deadlineId :: string
  dh_fromStatus :: "deadline_status option"
  dh_toStatus :: deadline_status
  dh_changedByUserId :: string
  dh_reason :: string

record 'j deadlines_db =
  dd_packages :: "owned_row list"
  dd_documents :: "owned_row list"
  dd_versions :: "owned_row list"
  dd_segments :: "owned_row list"
  dd_configurations :: "configuration_row list"
  dd_snapshots :: "'j rule_snapshot list"
  dd_events :: "event_row list"
  dd_dates :: "event_date list"
  dd_evidence :: "event_evidence list"
  dd_assessments :: "assessment_row list"
  dd_calendars :: "calendar_row list"
  dd_revisions :: "revision_row list"
  dd_calculations :: "calculation_row list"
  dd_milestones :: "milestone_row list"
  dd_deadlines :: "deadline_row list"
  dd_history :: "history_row list"

type_synonym ('j, 'a) deadlines = "('j deadlines_db, 'a) svc"

text \<open>What the service passes to the engine, with the stored JSON rule in place.\<close>

record 'j engine_input =
  gi_rule :: 'j
  gi_triggerDateIso :: string
  gi_triggerPrecision :: trigger_precision
  gi_calendar :: calendar_revision

record ('dt, 'j) deadlines_env =
  en_luxon :: "'dt luxon"
  en_schemas :: "'j engine_input schemas"
  en_keysOf :: "'j \<Rightarrow> string list option"
  en_now :: int
  en_parseDate :: "string \<Rightarrow> int option"
  en_isoOf :: "int \<Rightarrow> string"
  en_calculationSod :: "string option"
  en_calendarSod :: "string option"

section \<open>Helpers\<close>

definition deadlineCalcSegregationEnabled :: "('dt, 'j) deadlines_env \<Rightarrow> bool" where
  "deadlineCalcSegregationEnabled env \<longleftrightarrow> en_calculationSod env \<noteq> Some ''false''"

definition calendarRevisionToEngineInput :: "revision_row \<Rightarrow> calendar_revision" where
  "calendarRevisionToEngineInput revision =
     \<lparr>timezone = pr_timezone revision,
      weekendDays = (case pr_weekendDays revision of Some ds \<Rightarrow> ds | None \<Rightarrow> [6, 7]),
      holidays = (case pr_holidayDates revision of Some ds \<Rightarrow> ds | None \<Rightarrow> []),
      specialWorkingDays = (case pr_specialWorkingDays revision of Some ds \<Rightarrow> ds | None \<Rightarrow> [])\<rparr>"

text \<open>An object with the keys of a rule; anything else is refused.\<close>

definition snapshotStructuredRule :: "('dt, 'j) deadlines_env \<Rightarrow> 'j \<Rightarrow> ('s, 'j) handler" where
  "snapshotStructuredRule env structuredRule =
     (if (case en_keysOf env structuredRule of None \<Rightarrow> False
       | Some ks \<Rightarrow> ''durationUnit'' \<in> set ks \<and> ''counting'' \<in> set ks)
      then returnH structuredRule
      else throwH (validationError ''Approved rule snapshot has no executable structured rule'' None))"

definition parseDateValue :: "('dt, 'j) deadlines_env \<Rightarrow> string \<Rightarrow> ('s, int) handler" where
  "parseDateValue env value = someH (validationError ''Invalid date value'' None)
     (en_parseDate env value)"

text \<open>
  \<open>x ? new Date(x) : null\<close> written to a column: Prisma refuses an invalid date.
\<close>

definition dateColumn :: "('dt, 'j) deadlines_env \<Rightarrow> string option \<Rightarrow> ('s, int option) handler" where
  "dateColumn env x = (if truthy x then
     (case x of None \<Rightarrow> returnH None
      | Some text \<Rightarrow> (case en_parseDate env text of
          None \<Rightarrow> throwH unexpectedError | Some t \<Rightarrow> returnH (Some t)))
     else returnH None)"

definition ownedRow :: "string \<Rightarrow> string \<Rightarrow> string \<Rightarrow> owned_row list \<Rightarrow> owned_row option" where
  "ownedRow tenantId projectId i rows =
     find (\<lambda>r. ow_id r = i \<and> ow_tenantId r = tenantId \<and> ow_projectId r = projectId) rows"

definition childRow ::
  "string \<Rightarrow> string \<Rightarrow> string \<Rightarrow> string \<Rightarrow> owned_row list \<Rightarrow> owned_row option" where
  "childRow tenantId projectId parentId i rows =
     find (\<lambda>r. ow_id r = i \<and> ow_tenantId r = tenantId \<and> ow_projectId r = projectId
       \<and> ow_parentId r = parentId) rows"

definition loadProjectEvent ::
  "string \<Rightarrow> string \<Rightarrow> string \<Rightarrow> ('j, event_row) deadlines" where
  "loadProjectEvent tenantId projectId eventId = findOr notFound (\<lambda>d.
     find (\<lambda>e. ve_id e = eventId \<and> ve_tenantId e = tenantId \<and> ve_projectId e = projectId)
       (dd_events d))"

section \<open>Events\<close>

definition newEvent ::
  "project_context \<Rightarrow> string \<Rightarrow> string \<Rightarrow> event_input \<Rightarrow> event_row" where
  "newEvent ctx projectId newId data =
     \<lparr>ve_id = newId, ve_tenantId = cx_tenantId ctx, ve_projectId = projectId, ve_input = data,
      ve_eventStatus = EVS_DRAFT, ve_confirmationStatus = UNCONFIRMED,
      ve_reportedByUserId = userId ctx, ve_confirmedByUserId = None, ve_confirmedAt = None\<rparr>"

definition createProjectEvent ::
  "('raw \<Rightarrow> string list + event_input) \<Rightarrow> string \<Rightarrow> string \<Rightarrow> 'raw \<Rightarrow> ('j, event_row) deadlines" where
  "createProjectEvent safeParse newId projectId rawInput =
     projectService projectId (EventCap c_project_event_create) ''Invalid project event''
       safeParse rawInput (\<lambda>ctx data.
     thenH (if truthy (vi_contractPackageId data) then
          thenH (findOr notFound (\<lambda>d. ownedRow (cx_tenantId ctx) projectId
            (the (vi_contractPackageId data)) (dd_packages d))) (returnH ())
        else returnH ())
     (let created = newEvent ctx projectId newId data in
      thenH (writeDb (\<lambda>d. d\<lparr>dd_events := dd_events d @ [created]\<rparr>))
      (thenH (auditP ctx projectId ''project_event.created'' ''project_event'' newId)
        (returnH created))))"

definition listProjectEvents :: "string \<Rightarrow> ('j, event_row list) deadlines" where
  "listProjectEvents projectId = projectAction projectId (EventCap c_project_event_read) (\<lambda>ctx.
     readDb (\<lambda>d. rev (filter (\<lambda>e. ve_tenantId e = cx_tenantId ctx \<and> ve_projectId e = projectId)
       (dd_events d))))"

definition getProjectEvent :: "string \<Rightarrow> string \<Rightarrow> ('j, event_row) deadlines" where
  "getProjectEvent projectId eventId = projectAction projectId (EventCap c_project_event_read)
     (\<lambda>ctx. loadProjectEvent (cx_tenantId ctx) projectId eventId)"

definition newEventDate ::
  "project_context \<Rightarrow> string \<Rightarrow> string \<Rightarrow> string \<Rightarrow> date_input \<Rightarrow> int \<Rightarrow> event_date" where
  "newEventDate ctx projectId eventId newId data value =
     \<lparr>vd_id = newId, vd_tenantId = cx_tenantId ctx, vd_projectId = projectId, vd_eventId = eventId,
      vd_dateType = di_dateType data, vd_dateValue = value, vd_timezone = di_timezone data,
      vd_precision = di_precision data, vd_notes = di_notes data,
      vd_assertedByUserId = userId ctx, vd_verificationStatus = DV_UNVERIFIED,
      vd_verifiedByUserId = None, vd_verifiedAt = None\<rparr>"

definition addProjectEventDate ::
  "('dt, 'j) deadlines_env \<Rightarrow> ('raw \<Rightarrow> string list + date_input) \<Rightarrow> string \<Rightarrow> string \<Rightarrow> string \<Rightarrow> 'raw \<Rightarrow>
   ('j, event_date) deadlines" where
  "addProjectEventDate env safeParse newId projectId eventId rawInput =
     projectService projectId (EventCap c_project_event_update) ''Invalid event date''
       safeParse rawInput (\<lambda>ctx data.
     thenH (loadProjectEvent (cx_tenantId ctx) projectId eventId)
     (bindH (parseDateValue env (di_dateValue data)) (\<lambda>value.
      let created = newEventDate ctx projectId eventId newId data value in
      thenH (writeDb (\<lambda>d. d\<lparr>dd_dates := dd_dates d @ [created]\<rparr>))
      (thenH (auditP ctx projectId ''project_event_date.added'' ''project_event_date'' newId)
        (returnH created)))))"

definition findDate ::
  "string \<Rightarrow> string \<Rightarrow> string \<Rightarrow> string \<Rightarrow> 'j deadlines_db \<Rightarrow> event_date option" where
  "findDate tenantId projectId eventId dateId d =
     find (\<lambda>x. vd_id x = dateId \<and> vd_tenantId x = tenantId \<and> vd_projectId x = projectId
       \<and> vd_eventId x = eventId) (dd_dates d)"

definition isExact :: "date_precision \<Rightarrow> bool" where
  "isExact p \<longleftrightarrow> p = PR_EXACT_DATE \<or> p = PR_EXACT_DATETIME"

definition verifiedDate ::
  "('dt, 'j) deadlines_env \<Rightarrow> project_context \<Rightarrow> event_date \<Rightarrow> event_date" where
  "verifiedDate env ctx x = x\<lparr>vd_verificationStatus := DV_VERIFIED,
     vd_verifiedByUserId := Some (userId ctx), vd_verifiedAt := Some (en_now env)\<rparr>"

definition verifyProjectEventDate ::
  "('dt, 'j) deadlines_env \<Rightarrow> string \<Rightarrow> string \<Rightarrow> string \<Rightarrow> ('j, event_date) deadlines" where
  "verifyProjectEventDate env projectId eventId dateId =
     projectAction projectId (EventCap c_project_event_confirm) (\<lambda>ctx.
     bindH (findOr notFound (findDate (cx_tenantId ctx) projectId eventId dateId)) (\<lambda>date.
     thenH (requireH (vd_verificationStatus date \<noteq> DV_VERIFIED)
       (conflict ''Event date is already verified''))
     (thenH (requireH (isExact (vd_precision date)) (validationError
        ''Only EXACT_DATE or EXACT_DATETIME dates can be verified for deadlines'' None))
     (thenH (writeDb (\<lambda>d. d\<lparr>dd_dates := updateWhere (\<lambda>x. vd_id x = vd_id date)
        (verifiedDate env ctx) (dd_dates d)\<rparr>))
     (thenH (auditP ctx projectId ''project_event_date.verified'' ''project_event_date'' (vd_id date))
       (returnH (verifiedDate env ctx date)))))))"

definition linkProjectEventEvidence ::
  "('raw \<Rightarrow> string list + evidence_link_input) \<Rightarrow> string \<Rightarrow> string \<Rightarrow> string \<Rightarrow> 'raw \<Rightarrow>
   ('j, event_evidence) deadlines" where
  "linkProjectEventEvidence safeParse newId projectId eventId rawInput =
     projectService projectId (EventCap c_project_event_update) ''Invalid evidence link''
       safeParse rawInput (\<lambda>ctx data.
     thenH (loadProjectEvent (cx_tenantId ctx) projectId eventId)
     (bindH (findOr notFound (\<lambda>d. ownedRow (cx_tenantId ctx) projectId (vk_sourceDocumentId data)
        (dd_documents d))) (\<lambda>source.
     bindH (findOr notFound (\<lambda>d. childRow (cx_tenantId ctx) projectId (ow_id source)
        (vk_documentVersionId data) (dd_versions d))) (\<lambda>version.
     thenH (if truthy (vk_evidenceSegmentId data) then
          thenH (findOr notFound (\<lambda>d. childRow (cx_tenantId ctx) projectId (ow_id version)
            (the (vk_evidenceSegmentId data)) (dd_segments d))) (returnH ())
        else returnH ())
     (let linked = \<lparr>vv_id = newId, vv_tenantId = cx_tenantId ctx, vv_projectId = projectId,
        vv_eventId = eventId, vv_link = data, vv_linkedByUserId = userId ctx\<rparr>
      in thenH (writeDb (\<lambda>d. d\<lparr>dd_evidence := dd_evidence d @ [linked]\<rparr>))
      (thenH (auditP ctx projectId ''project_event_evidence.linked'' ''project_event_evidence'' newId)
        (returnH linked)))))))"

definition confirmedEvent ::
  "('dt, 'j) deadlines_env \<Rightarrow> project_context \<Rightarrow> confirmation_status \<Rightarrow> event_row \<Rightarrow> event_row" where
  "confirmedEvent env ctx st e = e\<lparr>ve_confirmationStatus := st, ve_eventStatus := EVS_CONFIRMED,
     ve_confirmedByUserId := Some (userId ctx), ve_confirmedAt := Some (en_now env)\<rparr>"

text \<open>The two statuses the schema lets a confirmation ask for.\<close>

datatype confirmation_input = ConfirmForAnalysis | ConfirmFact

fun confirmationOf :: "confirmation_input \<Rightarrow> confirmation_status" where
  "confirmationOf ConfirmForAnalysis = CONFIRMED_FOR_DEADLINE_ANALYSIS"
| "confirmationOf ConfirmFact = CONFIRMED_FACT"

definition confirmProjectEvent ::
  "('dt, 'j) deadlines_env \<Rightarrow> ('raw \<Rightarrow> string list + confirmation_input) \<Rightarrow> string \<Rightarrow> string \<Rightarrow> 'raw \<Rightarrow>
   ('j, event_row) deadlines" where
  "confirmProjectEvent env safeParse projectId eventId rawInput =
     projectService projectId (EventCap c_project_event_confirm) ''Invalid confirmation''
       safeParse rawInput (\<lambda>ctx data.
     bindH (loadProjectEvent (cx_tenantId ctx) projectId eventId) (\<lambda>event.
     thenH (requireH (ve_confirmationStatus event = UNCONFIRMED
          \<or> ve_confirmationStatus event = INSUFFICIENT_EVIDENCE)
        (conflict (''Event cannot be confirmed from status ''
          @ confirmation_name (ve_confirmationStatus event))))
     (thenH (writeDb (\<lambda>d. d\<lparr>dd_events := updateWhere (\<lambda>e. ve_id e = ve_id event)
        (confirmedEvent env ctx (confirmationOf data)) (dd_events d)\<rparr>))
     (thenH (auditP ctx projectId ''project_event.confirmed'' ''project_event'' (ve_id event))
       (returnH (confirmedEvent env ctx (confirmationOf data) event))))))"

section \<open>Rules\<close>

definition configurationActive :: "string \<Rightarrow> 'j deadlines_db \<Rightarrow> bool" where
  "configurationActive i d = list_ex (\<lambda>c. cg_id c = i \<and> cg_isActiveApproved c \<and> cg_approved c)
     (dd_configurations d)"

definition listCandidateRuleSnapshots ::
  "string \<Rightarrow> string \<Rightarrow> ('j, 'j rule_snapshot list) deadlines" where
  "listCandidateRuleSnapshots projectId eventId =
     projectAction projectId (EventCap c_deadline_rule_assess) (\<lambda>ctx.
     thenH (loadProjectEvent (cx_tenantId ctx) projectId eventId)
     (readDb (\<lambda>d.
        let packageIds = map ow_id (filter (\<lambda>p. ow_tenantId p = cx_tenantId ctx
              \<and> ow_projectId p = projectId) (dd_packages d))
        in if packageIds = [] then []
           else rev (filter (\<lambda>x. nr_tenantId x = cx_tenantId ctx \<and> nr_projectId x = projectId
             \<and> nr_contractPackageId x \<in> set packageIds
             \<and> configurationActive (nr_configurationRevisionId x) d) (dd_snapshots d)))))"

record applicability_input =
  ap_approvedRuleSnapshotId :: string
  ap_rationale :: string

definition findActiveSnapshot ::
  "string \<Rightarrow> string \<Rightarrow> string \<Rightarrow> 'j deadlines_db \<Rightarrow> 'j rule_snapshot option" where
  "findActiveSnapshot tenantId projectId i d =
     find (\<lambda>x. nr_id x = i \<and> nr_tenantId x = tenantId \<and> nr_projectId x = projectId
       \<and> configurationActive (nr_configurationRevisionId x) d) (dd_snapshots d)"

definition alreadyConfirmed :: "string \<Rightarrow> string \<Rightarrow> 'j deadlines_db \<Rightarrow> bool" where
  "alreadyConfirmed eventId snapshotId d = list_ex (\<lambda>a. va_eventId a = eventId
     \<and> va_snapshotId a = snapshotId \<and> va_applicabilityStatus a = AP_APPLICABLE
     \<and> va_assessmentSource a = AS_HUMAN_CONFIRMED) (dd_assessments d)"

definition confirmRuleApplicability ::
  "('dt, 'j) deadlines_env \<Rightarrow> ('raw \<Rightarrow> string list + applicability_input) \<Rightarrow> string \<Rightarrow> string \<Rightarrow> string \<Rightarrow>
   'raw \<Rightarrow> ('j, assessment_row) deadlines" where
  "confirmRuleApplicability env safeParse newId projectId eventId rawInput =
     projectService projectId (EventCap c_deadline_rule_assess) ''Invalid rule applicability''
       safeParse rawInput (\<lambda>ctx data.
     bindH (loadProjectEvent (cx_tenantId ctx) projectId eventId) (\<lambda>event.
     thenH (requireH (ve_confirmationStatus event = CONFIRMED_FOR_DEADLINE_ANALYSIS)
       (validationError
         ''Event must be CONFIRMED_FOR_DEADLINE_ANALYSIS before rule assessment'' None))
     (bindH (findOr notFound (findActiveSnapshot (cx_tenantId ctx) projectId
        (ap_approvedRuleSnapshotId data))) (\<lambda>snapshot.
     bindH (readDb (alreadyConfirmed eventId (nr_id snapshot))) (\<lambda>existing.
     thenH (requireH (\<not> existing)
       (conflict ''Rule applicability already confirmed for this snapshot''))
     (let assessment = \<lparr>va_id = newId, va_tenantId = cx_tenantId ctx, va_projectId = projectId,
        va_eventId = eventId, va_contractPackageId = nr_contractPackageId snapshot,
        va_configurationRevisionId = nr_configurationRevisionId snapshot,
        va_snapshotId = nr_id snapshot, va_applicabilityStatus = AP_APPLICABLE,
        va_assessmentSource = AS_HUMAN_CONFIRMED, va_reviewerUserId = Some (userId ctx),
        va_reviewedAt = Some (en_now env), va_rationale = Some (ap_rationale data)\<rparr>
      in thenH (writeDb (\<lambda>d. d\<lparr>dd_assessments := dd_assessments d @ [assessment]\<rparr>))
      (thenH (auditP ctx projectId ''event_rule_assessment.confirmed'' ''event_rule_assessment'' newId)
        (returnH assessment))))))))"

section \<open>Calendars\<close>

definition listProjectCalendars :: "string \<Rightarrow> ('j, calendar_row list) deadlines" where
  "listProjectCalendars projectId = projectAction projectId (EventCap c_project_event_read) (\<lambda>ctx.
     readDb (\<lambda>d. rev (filter (\<lambda>c. pc_tenantId c = cx_tenantId ctx \<and> pc_projectId c = projectId)
       (dd_calendars d))))"

definition createProjectCalendar ::
  "('raw \<Rightarrow> string list + calendar_input) \<Rightarrow> string \<Rightarrow> string \<Rightarrow> 'raw \<Rightarrow> ('j, calendar_row) deadlines" where
  "createProjectCalendar safeParse newId projectId rawInput =
     projectService projectId (EventCap c_project_calendar_manage) ''Invalid calendar''
       safeParse rawInput (\<lambda>ctx data.
     let created = \<lparr>pc_id = newId, pc_tenantId = cx_tenantId ctx, pc_projectId = projectId,
       pc_name = ci_name data, pc_timezone = ci_timezone data,
       pc_weekendDays = Some (ci_weekendDays data),
       pc_source = (case ci_source data of None \<Rightarrow> ''PROJECT_POLICY'' | Some x \<Rightarrow> x),
       pc_status = CA_DRAFT, pc_currentRevisionId = None, pc_createdByUserId = userId ctx,
       pc_approvedByUserId = None\<rparr>
     in thenH (writeDb (\<lambda>d. d\<lparr>dd_calendars := dd_calendars d @ [created]\<rparr>))
     (thenH (auditP ctx projectId ''project_calendar.created'' ''project_calendar'' newId)
       (returnH created)))"

definition findCalendar ::
  "string \<Rightarrow> string \<Rightarrow> string \<Rightarrow> 'j deadlines_db \<Rightarrow> calendar_row option" where
  "findCalendar tenantId projectId i d =
     find (\<lambda>c. pc_id c = i \<and> pc_tenantId c = tenantId \<and> pc_projectId c = projectId) (dd_calendars d)"

definition revisionNumbers :: "string \<Rightarrow> 'j deadlines_db \<Rightarrow> nat list" where
  "revisionNumbers calendarId d =
     map pr_revisionNumber (filter (\<lambda>r. pr_calendarId r = calendarId) (dd_revisions d))"

definition createCalendarRevision ::
  "('dt, 'j) deadlines_env \<Rightarrow> ('raw \<Rightarrow> string list + revision_input) \<Rightarrow> string \<Rightarrow> string \<Rightarrow> string \<Rightarrow>
   'raw \<Rightarrow> ('j, revision_row) deadlines" where
  "createCalendarRevision env safeParse newId projectId calendarId rawInput =
     projectService projectId (EventCap c_project_calendar_manage) ''Invalid calendar revision''
       safeParse rawInput (\<lambda>ctx data.
     bindH (findOr notFound (findCalendar (cx_tenantId ctx) projectId calendarId)) (\<lambda>cal.
     bindH (readDb (\<lambda>d. nextNumber (revisionNumbers calendarId d))) (\<lambda>revisionNumber.
     bindH (dateColumn env (pi_effectiveFrom data)) (\<lambda>effectiveFrom.
     bindH (dateColumn env (pi_effectiveTo data)) (\<lambda>effectiveTo.
     let revision = \<lparr>pr_id = newId, pr_tenantId = cx_tenantId ctx, pr_projectId = projectId,
       pr_calendarId = calendarId, pr_revisionNumber = revisionNumber,
       pr_timezone = (case pi_timezone data of None \<Rightarrow> pc_timezone cal | Some z \<Rightarrow> z),
       pr_weekendDays = Some (pi_weekendDays data), pr_holidayDates = Some (pi_holidays data),
       pr_specialWorkingDays = Some (pi_specialWorkingDays data),
       pr_effectiveFrom = effectiveFrom, pr_effectiveTo = effectiveTo, pr_status = CR_DRAFT,
       pr_approvedByUserId = None, pr_approvedAt = None\<rparr>
     in thenH (writeDb (\<lambda>d. d\<lparr>dd_revisions := dd_revisions d @ [revision]\<rparr>))
     (thenH (auditP ctx projectId ''project_calendar_revision.created''
        ''project_calendar_revision'' newId)
       (returnH revision)))))))"

definition updateRevision ::
  "string \<Rightarrow> (revision_row \<Rightarrow> revision_row) \<Rightarrow> ('j, unit) deadlines" where
  "updateRevision i f = writeDb (\<lambda>d. d\<lparr>dd_revisions :=
     updateWhere (\<lambda>r. pr_id r = i) f (dd_revisions d)\<rparr>)"

definition approvedRevision ::
  "('dt, 'j) deadlines_env \<Rightarrow> project_context \<Rightarrow> revision_row \<Rightarrow> revision_row" where
  "approvedRevision env ctx r = r\<lparr>pr_status := CR_APPROVED,
     pr_approvedByUserId := Some (userId ctx), pr_approvedAt := Some (en_now env)\<rparr>"

definition approveCalendarRevision ::
  "('dt, 'j) deadlines_env \<Rightarrow> string \<Rightarrow> string \<Rightarrow> string \<Rightarrow> ('j, revision_row) deadlines" where
  "approveCalendarRevision env projectId calendarId revisionId =
     projectAction projectId (EventCap c_project_calendar_approve) (\<lambda>ctx.
     bindH (findOr notFound (\<lambda>d. find (\<lambda>r. pr_id r = revisionId \<and> pr_calendarId r = calendarId
        \<and> pr_tenantId r = cx_tenantId ctx \<and> pr_projectId r = projectId) (dd_revisions d)))
       (\<lambda>revision.
     thenH (requireH (pr_status revision = CR_DRAFT \<or> pr_status revision = CR_IN_REVIEW)
       (conflict (''Calendar revision cannot be approved from status ''
         @ calendar_revision_status_name (pr_status revision))))
     (bindH (findOr unexpectedError (findCalendar (cx_tenantId ctx) projectId calendarId)) (\<lambda>cal.
     thenH (requireH (\<not> (en_calendarSod env = Some ''true'' \<and> pc_createdByUserId cal = userId ctx))
       (forbidden ''Segregation of duties: calendar approver must differ from creator''))
     (thenH (if truthy (pc_currentRevisionId cal)
        then updateRevision (the (pc_currentRevisionId cal)) (\<lambda>r. r\<lparr>pr_status := CR_SUPERSEDED\<rparr>)
        else returnH ())
     (thenH (updateRevision (pr_id revision) (approvedRevision env ctx))
     (thenH (writeDb (\<lambda>d. d\<lparr>dd_calendars := updateWhere (\<lambda>c. pc_id c = calendarId)
        (\<lambda>c. c\<lparr>pc_status := CA_APPROVED, pc_currentRevisionId := Some (pr_id revision),
          pc_approvedByUserId := Some (userId ctx),
          pc_weekendDays := pr_weekendDays revision\<rparr>) (dd_calendars d)\<rparr>))
     (thenH (auditP ctx projectId ''project_calendar_revision.approved''
        ''project_calendar_revision'' (pr_id revision))
       (returnH (approvedRevision env ctx revision))))))))))"

section \<open>Calculations\<close>

record calculation_input =
  cn_assessmentId :: string
  cn_calendarRevisionId :: string
  cn_triggerDateId :: string

text \<open>The row of one calculation and the milestones of its result.\<close>

definition findApplicable ::
  "string \<Rightarrow> string \<Rightarrow> string \<Rightarrow> string \<Rightarrow> 'j deadlines_db \<Rightarrow> assessment_row option" where
  "findApplicable tenantId projectId eventId i d =
     find (\<lambda>a. va_id a = i \<and> va_tenantId a = tenantId \<and> va_projectId a = projectId
       \<and> va_eventId a = eventId \<and> va_applicabilityStatus a = AP_APPLICABLE
       \<and> va_assessmentSource a = AS_HUMAN_CONFIRMED) (dd_assessments d)"

definition findTrigger ::
  "string \<Rightarrow> string \<Rightarrow> string \<Rightarrow> string \<Rightarrow> 'j deadlines_db \<Rightarrow> event_date option" where
  "findTrigger tenantId projectId eventId i d =
     find (\<lambda>x. vd_id x = i \<and> vd_tenantId x = tenantId \<and> vd_projectId x = projectId
       \<and> vd_eventId x = eventId \<and> vd_verificationStatus x = DV_VERIFIED
       \<and> isExact (vd_precision x)) (dd_dates d)"

definition findApprovedRevision ::
  "string \<Rightarrow> string \<Rightarrow> string \<Rightarrow> 'j deadlines_db \<Rightarrow> revision_row option" where
  "findApprovedRevision tenantId projectId i d =
     find (\<lambda>r. pr_id r = i \<and> pr_tenantId r = tenantId \<and> pr_projectId r = projectId
       \<and> pr_status r = CR_APPROVED) (dd_revisions d)"

definition snapshotOfAssessment :: "assessment_row \<Rightarrow> 'j deadlines_db \<Rightarrow> 'j rule_snapshot option" where
  "snapshotOfAssessment a d = find (\<lambda>x. nr_id x = va_snapshotId a) (dd_snapshots d)"

definition engineInput ::
  "('dt, 'j) deadlines_env \<Rightarrow> 'j \<Rightarrow> event_date \<Rightarrow> revision_row \<Rightarrow> 'j engine_input" where
  "engineInput env structuredRule trigDate revision =
     \<lparr>gi_rule = structuredRule, gi_triggerDateIso = en_isoOf env (vd_dateValue trigDate),
      gi_triggerPrecision = (if vd_precision trigDate = PR_EXACT_DATETIME then EXACT_DATETIME
        else EXACT_DATE),
      gi_calendar = calendarRevisionToEngineInput revision\<rparr>"

definition engineResult ::
  "('dt, 'j) deadlines_env \<Rightarrow> 'j \<Rightarrow> event_date \<Rightarrow> revision_row \<Rightarrow> calculate_result" where
  "engineResult env structuredRule trigDate revision = calculateDeadline (en_luxon env)
     (en_schemas env) (engineInput env structuredRule trigDate revision)"

definition calculationVersions :: "string \<Rightarrow> string \<Rightarrow> 'j deadlines_db \<Rightarrow> nat list" where
  "calculationVersions eventId assessmentId d = map dc_version (filter (\<lambda>c. dc_eventId c = eventId
     \<and> dc_assessmentId c = assessmentId) (dd_calculations d))"

definition newCalculation ::
  "project_context \<Rightarrow> string \<Rightarrow> string \<Rightarrow> string \<Rightarrow> assessment_row \<Rightarrow> 'j rule_snapshot \<Rightarrow>
   event_date \<Rightarrow> revision_row \<Rightarrow> nat \<Rightarrow> calculate_result \<Rightarrow> int option \<Rightarrow> string option \<Rightarrow>
   string option \<Rightarrow> calculation_row" where
  "newCalculation ctx projectId eventId newId assessment snapshot trigDate revision version result
     deadlineAt supersedes reason =
     \<lparr>dc_id = newId, dc_tenantId = cx_tenantId ctx, dc_projectId = projectId, dc_eventId = eventId,
      dc_assessmentId = va_id assessment, dc_contractPackageId = nr_contractPackageId snapshot,
      dc_configurationRevisionId = nr_configurationRevisionId snapshot,
      dc_snapshotId = nr_id snapshot, dc_calendarRevisionId = pr_id revision,
      dc_projectCalendarId = pr_calendarId revision,
      dc_status = (if status result = BLOCKED then DC_BLOCKED else DC_REVIEW_REQUIRED),
      dc_version = version, dc_triggerDateType = vd_dateType trigDate,
      dc_triggerDateValue = vd_dateValue trigDate, dc_triggerTimezone = vd_timezone trigDate,
      dc_triggerDateId = Some (vd_id trigDate), dc_triggerPrecision = vd_precision trigDate,
      dc_terms = nr_terms snapshot, dc_calculatedDeadlineAt = deadlineAt,
      dc_calculatedDeadlineDate = contractualDeadlineDate result,
      dc_deadlineTimezone = deadlineTimezone result,
      dc_blockedReason = (if 0 < length (blockedReasons result)
        then Some (joinWith ''; '' (blockedReasons result)) else None),
      dc_trace = trace result, dc_calculatedByUserId = userId ctx, dc_reviewedByUserId = None,
      dc_reviewedAt = None, dc_supersedesId = supersedes, dc_recalculationReason = reason\<rparr>"

definition contractualMilestone ::
  "project_context \<Rightarrow> string \<Rightarrow> string \<Rightarrow> string \<Rightarrow> calculate_result \<Rightarrow> int \<Rightarrow> milestone_row" where
  "contractualMilestone ctx projectId calculationId newId result dueAt =
     \<lparr>ml_id = newId, ml_tenantId = cx_tenantId ctx, ml_projectId = projectId,
      ml_calculationId = calculationId, ml_kind = INITIAL_NOTICE, ml_classification = CONTRACTUAL,
      ml_label = ''Contractual notice deadline'', ml_dueAt = dueAt,
      ml_dueDate = contractualDeadlineDate result, ml_timezone = deadlineTimezone result,
      ml_offsetDays = None, ml_sequence = 0\<rparr>"

definition internalMilestone ::
  "('dt, 'j) deadlines_env \<Rightarrow> project_context \<Rightarrow> string \<Rightarrow> string \<Rightarrow> (nat \<Rightarrow> string) \<Rightarrow>
   calculate_result \<Rightarrow> nat \<times> internal_milestone \<Rightarrow> ('s, milestone_row) handler" where
  "internalMilestone env ctx projectId calculationId rowIds result = (\<lambda>(index, m).
     bindH (dateColumn env (Some (ms_dueAtIso m))) (\<lambda>due.
     bindH (someH unexpectedError due) (\<lambda>dueAt. returnH
     \<lparr>ml_id = rowIds (index + 1), ml_tenantId = cx_tenantId ctx, ml_projectId = projectId,
      ml_calculationId = calculationId, ml_kind = INTERNAL_REVIEW_TARGET,
      ml_classification = INTERNAL, ml_label = ms_label m, ml_dueAt = dueAt,
      ml_dueDate = Some (take 10 (ms_dueAtIso m)), ml_timezone = deadlineTimezone result,
      ml_offsetDays = Some (ms_offsetDaysBeforeDeadline m), ml_sequence = index + 1\<rparr>)))"

definition storeMilestones ::
  "('dt, 'j) deadlines_env \<Rightarrow> project_context \<Rightarrow> string \<Rightarrow> string \<Rightarrow> (nat \<Rightarrow> string) \<Rightarrow>
   calculate_result \<Rightarrow> int option \<Rightarrow> ('j, unit) deadlines" where
  "storeMilestones env ctx projectId calculationId rowIds result deadlineAt =
     (case deadlineAt of
        None \<Rightarrow> returnH ()
      | Some dueAt \<Rightarrow>
          if status result = CALCULATED then
            bindH (forM (zip [0..<length (internalMilestones result)] (internalMilestones result))
              (internalMilestone env ctx projectId calculationId rowIds result)) (\<lambda>internals.
            writeDb (\<lambda>d. d\<lparr>dd_milestones := dd_milestones d @
              contractualMilestone ctx projectId calculationId (rowIds 0) result dueAt # internals\<rparr>))
          else returnH ())"

text \<open>
  \<open>calculateEventDeadlineInternal\<close>; a row that a \<open>findFirstOrThrow\<close> misses is an
  unexpected error.
\<close>

definition calculateEventDeadlineInternal ::
  "('dt, 'j) deadlines_env \<Rightarrow> project_context \<Rightarrow> string \<Rightarrow> (nat \<Rightarrow> string) \<Rightarrow> string \<Rightarrow> string \<Rightarrow>
   calculation_input \<Rightarrow> string option \<Rightarrow> string option \<Rightarrow> ('j, calculation_row) deadlines" where
  "calculateEventDeadlineInternal env ctx newId rowIds projectId eventId input supersedes reason =
     bindH (findOr unexpectedError (findApplicable (cx_tenantId ctx) projectId eventId
        (cn_assessmentId input))) (\<lambda>assessment.
     bindH (findOr unexpectedError (snapshotOfAssessment assessment)) (\<lambda>snapshot.
     bindH (findOr unexpectedError (findTrigger (cx_tenantId ctx) projectId eventId
        (cn_triggerDateId input))) (\<lambda>trigDate.
     bindH (findOr unexpectedError (findApprovedRevision (cx_tenantId ctx) projectId
        (cn_calendarRevisionId input))) (\<lambda>revision.
     bindH (readDb (configurationActive (nr_configurationRevisionId snapshot))) (\<lambda>active.
     thenH (requireH active (validationError
        ''Rule snapshot must come from active approved configuration'' None))
     (bindH (snapshotStructuredRule env (nr_structuredRule snapshot)) (\<lambda>structuredRule.
     let result = engineResult env structuredRule trigDate revision in
     bindH (readDb (\<lambda>d. nextNumber (calculationVersions eventId (va_id assessment) d))) (\<lambda>version.
     bindH (dateColumn env (contractualDeadlineAt result)) (\<lambda>deadlineAt.
     let calculation = newCalculation ctx projectId eventId newId assessment snapshot trigDate
       revision version result deadlineAt supersedes reason
     in thenH (writeDb (\<lambda>d. d\<lparr>dd_calculations := dd_calculations d @ [calculation]\<rparr>))
     (thenH (storeMilestones env ctx projectId newId rowIds result deadlineAt)
       (returnH calculation)))))))))))"

definition calculateEventDeadline ::
  "('dt, 'j) deadlines_env \<Rightarrow> ('raw \<Rightarrow> string list + calculation_input) \<Rightarrow> string \<Rightarrow> (nat \<Rightarrow> string) \<Rightarrow>
   string \<Rightarrow> string \<Rightarrow> 'raw \<Rightarrow> ('j, calculation_row) deadlines" where
  "calculateEventDeadline env safeParse newId rowIds projectId eventId rawInput =
     projectService projectId (EventCap c_deadline_calculate) ''Invalid calculation input''
       safeParse rawInput (\<lambda>ctx data.
     bindH (loadProjectEvent (cx_tenantId ctx) projectId eventId) (\<lambda>event.
     thenH (requireH (ve_confirmationStatus event = CONFIRMED_FOR_DEADLINE_ANALYSIS)
       (validationError ''Event must be CONFIRMED_FOR_DEADLINE_ANALYSIS'' None))
     (bindH (calculateEventDeadlineInternal env ctx newId rowIds projectId eventId data None None)
       (\<lambda>result.
     thenH (auditP ctx projectId ''deadline_calculation.created'' ''deadline_calculation''
        (dc_id result))
       (returnH result)))))"

definition findCalculation ::
  "string \<Rightarrow> string \<Rightarrow> string \<Rightarrow> 'j deadlines_db \<Rightarrow> calculation_row option" where
  "findCalculation tenantId projectId i d =
     find (\<lambda>c. dc_id c = i \<and> dc_tenantId c = tenantId \<and> dc_projectId c = projectId)
       (dd_calculations d)"

definition updateCalculation ::
  "string \<Rightarrow> (calculation_row \<Rightarrow> calculation_row) \<Rightarrow> ('j, unit) deadlines" where
  "updateCalculation i f = writeDb (\<lambda>d. d\<lparr>dd_calculations :=
     updateWhere (\<lambda>c. dc_id c = i) f (dd_calculations d)\<rparr>)"

definition verifiedCalculation ::
  "('dt, 'j) deadlines_env \<Rightarrow> project_context \<Rightarrow> calculation_row \<Rightarrow> calculation_row" where
  "verifiedCalculation env ctx c = c\<lparr>dc_status := DC_VERIFIED,
     dc_reviewedByUserId := Some (userId ctx), dc_reviewedAt := Some (en_now env)\<rparr>"

definition verifyDeadlineCalculation ::
  "('dt, 'j) deadlines_env \<Rightarrow> string \<Rightarrow> string \<Rightarrow> ('j, calculation_row) deadlines" where
  "verifyDeadlineCalculation env projectId calculationId =
     projectAction projectId (EventCap c_deadline_verify) (\<lambda>ctx.
     bindH (findOr notFound (findCalculation (cx_tenantId ctx) projectId calculationId))
       (\<lambda>calculation.
     thenH (requireH (dc_status calculation \<noteq> DC_VERIFIED)
       (conflict ''Calculation is already verified''))
     (thenH (requireH (dc_status calculation \<noteq> DC_BLOCKED)
       (validationError ''Blocked calculations cannot be verified'' None))
     (thenH (requireH (dc_status calculation = DC_REVIEW_REQUIRED
          \<or> dc_status calculation = DC_CALCULATED)
       (conflict (''Calculation cannot be verified from status ''
         @ stored_status_name (dc_status calculation))))
     (thenH (requireH (\<not> (deadlineCalcSegregationEnabled env
          \<and> dc_calculatedByUserId calculation = userId ctx))
       (forbidden ''Segregation of duties: verifier must differ from calculator''))
     (thenH (updateCalculation (dc_id calculation) (verifiedCalculation env ctx))
     (thenH (auditP ctx projectId ''deadline_calculation.verified'' ''deadline_calculation''
        (dc_id calculation))
       (returnH (verifiedCalculation env ctx calculation)))))))))"


section \<open>Tracked deadlines\<close>

definition isLive :: "deadline_row \<Rightarrow> bool" where
  "isLive d \<longleftrightarrow> pd_status d \<noteq> DS_SUPERSEDED \<and> pd_status d \<noteq> DS_CANCELLED"

definition liveDeadlines :: "string \<Rightarrow> 'j deadlines_db \<Rightarrow> deadline_row list" where
  "liveDeadlines calculationId d =
     filter (\<lambda>x. pd_calculationId x = calculationId \<and> isLive x) (dd_deadlines d)"

definition contractualMilestones :: "string \<Rightarrow> 'j deadlines_db \<Rightarrow> milestone_row list" where
  "contractualMilestones calculationId d = sort_key ml_sequence
     (filter (\<lambda>m. ml_calculationId m = calculationId \<and> ml_classification m = CONTRACTUAL)
       (dd_milestones d))"

definition snapshotOfCalculation :: "calculation_row \<Rightarrow> 'j deadlines_db \<Rightarrow> 'j rule_snapshot option" where
  "snapshotOfCalculation c d = find (\<lambda>x. nr_id x = dc_snapshotId c) (dd_snapshots d)"

text \<open>The title, with an em dash between its parts.\<close>

definition deadlineTitle :: "string option \<Rightarrow> string" where
  "deadlineTitle category = ''Notice deadline '' @ [CHR 0xE2, CHR 0x80, CHR 0x94] @ '' ''
     @ (case category of None \<Rightarrow> ''GENERAL'' | Some x \<Rightarrow> x)"

definition historyRow ::
  "project_context \<Rightarrow> string \<Rightarrow> string \<Rightarrow> deadline_status option \<Rightarrow> deadline_status \<Rightarrow> string \<Rightarrow>
   history_row" where
  "historyRow ctx projectId deadlineId fromStatus toStatus reason =
     \<lparr>dh_tenantId = cx_tenantId ctx, dh_projectId = projectId, dh_deadlineId = deadlineId,
      dh_fromStatus = fromStatus, dh_toStatus = toStatus, dh_changedByUserId = userId ctx,
      dh_reason = reason\<rparr>"

definition trackedDeadline ::
  "project_context \<Rightarrow> string \<Rightarrow> string \<Rightarrow> calculation_row \<Rightarrow> 'j rule_snapshot \<Rightarrow>
   milestone_row list \<Rightarrow> deadline_row" where
  "trackedDeadline ctx projectId newId calculation snapshot milestones =
     \<lparr>pd_id = newId, pd_tenantId = cx_tenantId ctx, pd_projectId = projectId,
      pd_eventId = dc_eventId calculation, pd_contractPackageId = dc_contractPackageId calculation,
      pd_calculationId = dc_id calculation,
      pd_milestoneId = (case milestones of [] \<Rightarrow> None | m # _ \<Rightarrow> Some (ml_id m)),
      pd_title = deadlineTitle (nr_noticeCategory snapshot),
      pd_deadlineType = (case nr_noticeCategory snapshot of None \<Rightarrow> ''NOTICE'' | Some x \<Rightarrow> x),
      pd_dueAt = dc_calculatedDeadlineAt calculation,
      pd_timezone = dc_deadlineTimezone calculation, pd_status = DS_UPCOMING,
      pd_supersededById = None\<rparr>"

definition createTrackedDeadline ::
  "string \<Rightarrow> string \<Rightarrow> string \<Rightarrow> ('j, deadline_row) deadlines" where
  "createTrackedDeadline newId projectId calculationId =
     projectAction projectId (EventCap c_deadline_track) (\<lambda>ctx.
     bindH (findOr notFound (findCalculation (cx_tenantId ctx) projectId calculationId))
       (\<lambda>calculation.
     bindH (findOr unexpectedError (snapshotOfCalculation calculation)) (\<lambda>snapshot.
     thenH (requireH (dc_status calculation = DC_VERIFIED)
       (validationError ''Calculation must be VERIFIED before tracking'' None))
     (bindH (readDb (liveDeadlines (dc_id calculation))) (\<lambda>existing.
     thenH (requireH (existing = [])
       (conflict ''A tracked deadline already exists for this calculation''))
     (bindH (readDb (contractualMilestones (dc_id calculation))) (\<lambda>milestones.
     let deadline = trackedDeadline ctx projectId newId calculation snapshot milestones
     in thenH (writeDb (\<lambda>d. d\<lparr>dd_deadlines := dd_deadlines d @ [deadline]\<rparr>))
     (thenH (writeDb (\<lambda>d. d\<lparr>dd_history := dd_history d @
        [historyRow ctx projectId newId None DS_UPCOMING ''Tracked from verified calculation'']\<rparr>))
     (thenH (auditP ctx projectId ''project_deadline.tracked'' ''project_deadline'' newId)
       (returnH deadline))))))))))"

record recalculation_input =
  cl_triggerDateId :: "string option"
  cl_calendarRevisionId :: "string option"
  cl_reason :: string

definition supersedingDeadline ::
  "project_context \<Rightarrow> string \<Rightarrow> string \<Rightarrow> calculation_row \<Rightarrow> calculation_row \<Rightarrow> deadline_row \<Rightarrow>
   deadline_row" where
  "supersedingDeadline ctx projectId newId prior calculation old =
     \<lparr>pd_id = newId, pd_tenantId = cx_tenantId ctx, pd_projectId = projectId,
      pd_eventId = dc_eventId prior, pd_contractPackageId = dc_contractPackageId prior,
      pd_calculationId = dc_id calculation, pd_milestoneId = None, pd_title = pd_title old,
      pd_deadlineType = pd_deadlineType old, pd_dueAt = dc_calculatedDeadlineAt calculation,
      pd_timezone = dc_deadlineTimezone calculation, pd_status = DS_UPCOMING,
      pd_supersededById = None\<rparr>"

definition supersedeDeadline ::
  "project_context \<Rightarrow> string \<Rightarrow> calculation_row \<Rightarrow> calculation_row \<Rightarrow> string \<Rightarrow>
   string \<times> deadline_row \<Rightarrow> ('j, unit) deadlines" where
  "supersedeDeadline ctx projectId prior calculation reason = (\<lambda>(newId, old).
     thenH (writeDb (\<lambda>d. d\<lparr>dd_deadlines := dd_deadlines d @
        [supersedingDeadline ctx projectId newId prior calculation old]\<rparr>))
     (thenH (writeDb (\<lambda>d. d\<lparr>dd_deadlines := updateWhere (\<lambda>x. pd_id x = pd_id old)
        (\<lambda>x. x\<lparr>pd_status := DS_SUPERSEDED, pd_supersededById := Some newId\<rparr>) (dd_deadlines d)\<rparr>))
     (writeDb (\<lambda>d. d\<lparr>dd_history := dd_history d @
        [historyRow ctx projectId (pd_id old) (Some (pd_status old)) DS_SUPERSEDED reason]\<rparr>))))"

definition recalculateDeadline ::
  "('dt, 'j) deadlines_env \<Rightarrow> ('raw \<Rightarrow> string list + recalculation_input) \<Rightarrow> string \<Rightarrow>
   (nat \<Rightarrow> string) \<Rightarrow> (nat \<Rightarrow> string) \<Rightarrow> string \<Rightarrow> string \<Rightarrow> 'raw \<Rightarrow> ('j, calculation_row) deadlines" where
  "recalculateDeadline env safeParse newId rowIds deadlineIds projectId calculationId rawInput =
     projectService projectId (EventCap c_deadline_recalculate) ''Invalid recalculation input''
       safeParse rawInput (\<lambda>ctx data.
     bindH (findOr notFound (findCalculation (cx_tenantId ctx) projectId calculationId)) (\<lambda>prior.
     thenH (requireH (dc_status prior = DC_VERIFIED \<or> dc_status prior = DC_REVIEW_REQUIRED)
       (conflict (''Cannot recalculate from status '' @ stored_status_name (dc_status prior))))
     (let resolvedTriggerId = (case cl_triggerDateId data of Some i \<Rightarrow> Some i
            | None \<Rightarrow> dc_triggerDateId prior) in
     thenH (requireH (truthy resolvedTriggerId)
       (validationError ''triggerDateId is required for recalculation'' None))
     (bindH (calculateEventDeadlineInternal env ctx newId rowIds projectId (dc_eventId prior)
        \<lparr>cn_assessmentId = dc_assessmentId prior,
         cn_calendarRevisionId = (case cl_calendarRevisionId data of Some i \<Rightarrow> i
           | None \<Rightarrow> dc_calendarRevisionId prior),
         cn_triggerDateId = the resolvedTriggerId\<rparr> (Some (dc_id prior)) (Some (cl_reason data)))
       (\<lambda>calculation.
     thenH (updateCalculation (dc_id prior) (\<lambda>c. c\<lparr>dc_status := DC_SUPERSEDED\<rparr>))
     (bindH (readDb (liveDeadlines (dc_id prior))) (\<lambda>tracked.
     thenH (forM (zip (map deadlineIds [0..<length tracked]) tracked)
        (supersedeDeadline ctx projectId prior calculation (cl_reason data)))
     (thenH (auditP ctx projectId ''deadline_calculation.recalculated'' ''deadline_calculation''
        (dc_id calculation))
       (returnH calculation)))))))))"

section \<open>Lists\<close>

definition listEventCalculations :: "string \<Rightarrow> string \<Rightarrow> ('j, calculation_row list) deadlines" where
  "listEventCalculations projectId eventId =
     projectAction projectId (EventCap c_project_event_read) (\<lambda>ctx.
     thenH (loadProjectEvent (cx_tenantId ctx) projectId eventId)
     (readDb (\<lambda>d. rev (filter (\<lambda>c. dc_tenantId c = cx_tenantId ctx \<and> dc_projectId c = projectId
       \<and> dc_eventId c = eventId) (dd_calculations d)))))"

definition getLatestEventCalculation ::
  "string \<Rightarrow> string \<Rightarrow> ('j, calculation_row option) deadlines" where
  "getLatestEventCalculation projectId eventId =
     bindH (listEventCalculations projectId eventId) (\<lambda>items.
       returnH (case items of [] \<Rightarrow> None | c # _ \<Rightarrow> Some c))"

text \<open>Ascending by status, in the order of the enum, then by due time, the missing ones last.\<close>

fun statusRank :: "deadline_status \<Rightarrow> nat" where
  "statusRank DS_UPCOMING = 0"
| "statusRank DS_DUE_SOON = 1"
| "statusRank DS_DUE_TODAY = 2"
| "statusRank DS_OVERDUE = 3"
| "statusRank DS_COMPLETED = 4"
| "statusRank DS_CANCELLED = 5"
| "statusRank DS_SUPERSEDED = 6"
| "statusRank DS_BLOCKED = 7"

definition byStatusAndDue :: "deadline_row list \<Rightarrow> deadline_row list" where
  "byStatusAndDue ds = sort_key (\<lambda>d. statusRank (pd_status d))
     (sort_key (\<lambda>d. the (pd_dueAt d)) (filter (\<lambda>d. pd_dueAt d \<noteq> None) ds)
       @ filter (\<lambda>d. pd_dueAt d = None) ds)"

definition listProjectDeadlines :: "string \<Rightarrow> ('j, deadline_row list) deadlines" where
  "listProjectDeadlines projectId = projectAction projectId (EventCap c_project_event_read)
     (\<lambda>ctx. readDb (\<lambda>d. byStatusAndDue (filter (\<lambda>x. pd_tenantId x = cx_tenantId ctx
       \<and> pd_projectId x = projectId) (dd_deadlines d))))"

definition getDeadlineCalculation :: "string \<Rightarrow> string \<Rightarrow> ('j, calculation_row) deadlines" where
  "getDeadlineCalculation projectId calculationId =
     projectAction projectId (EventCap c_project_event_read) (\<lambda>ctx.
       findOr notFound (findCalculation (cx_tenantId ctx) projectId calculationId))"

end
