(* ===== verification/NoticeRules.thy ===== *)
theory NoticeRules
  imports JsText NoticeDelivery
begin

text \<open>
  The package \<open>notice-drafting\<close>: assessment of the evidence, the deterministic draft with its
  sections, the validation of a draft and the check of a draft written by a language model.  The
  Arabic texts stand as code points, in the order of the source.
\<close>

section \<open>Data\<close>

datatype section_type =
    S_SENDER | S_RECIPIENT | S_PROJECT_CONTRACT_REFERENCE | S_NOTICE_TITLE | S_CONTRACTUAL_BASIS
    | S_FACTUAL_BACKGROUND | S_EVENT_DESCRIPTION | S_TRIGGER_DATE | S_DEADLINE_STATEMENT
    | S_IMPACT_STATEMENT | S_RESERVATION_OF_RIGHTS | S_REQUESTED_ACTION | S_RECORDS_EVIDENCE
    | S_CONTINUING_EVENT | S_ATTACHMENTS | S_CLOSING

fun section_name :: "section_type \<Rightarrow> string" where
  "section_name S_SENDER = ''SENDER''"
| "section_name S_RECIPIENT = ''RECIPIENT''"
| "section_name S_PROJECT_CONTRACT_REFERENCE = ''PROJECT_CONTRACT_REFERENCE''"
| "section_name S_NOTICE_TITLE = ''NOTICE_TITLE''"
| "section_name S_CONTRACTUAL_BASIS = ''CONTRACTUAL_BASIS''"
| "section_name S_FACTUAL_BACKGROUND = ''FACTUAL_BACKGROUND''"
| "section_name S_EVENT_DESCRIPTION = ''EVENT_DESCRIPTION''"
| "section_name S_TRIGGER_DATE = ''TRIGGER_DATE''"
| "section_name S_DEADLINE_STATEMENT = ''DEADLINE_STATEMENT''"
| "section_name S_IMPACT_STATEMENT = ''IMPACT_STATEMENT''"
| "section_name S_RESERVATION_OF_RIGHTS = ''RESERVATION_OF_RIGHTS''"
| "section_name S_REQUESTED_ACTION = ''REQUESTED_ACTION''"
| "section_name S_RECORDS_EVIDENCE = ''RECORDS_EVIDENCE''"
| "section_name S_CONTINUING_EVENT = ''CONTINUING_EVENT''"
| "section_name S_ATTACHMENTS = ''ATTACHMENTS''"
| "section_name S_CLOSING = ''CLOSING''"

record fact_entry =
  nf_id :: string
  nf_factType :: string
  nf_label :: string
  nf_value :: string
  nf_approvedForDrafting :: bool
  nf_verificationStatus :: string

record requirement_entry =
  rq_id :: string
  rq_sourceClauseId :: "string option"
  rq_sourceClauseReference :: "string option"
  rq_contentRequirements :: "string option"
  rq_consequenceText :: "string option"
  rq_reservationLanguage :: "string option"
  rq_requiredDeliveryMethods :: "string option"
  rq_requiredRecipients :: "string option"
  rq_verifiedDeadlineAt :: "string option"
  rq_verifiedDeadlineTimezone :: "string option"
  rq_timeBarClassification :: "string option"
  rq_continuingEventRequirements :: "string option"
  rq_interimParticularsRequirements :: "string option"
  rq_finalParticularsRequirements :: "string option"

record recipient_entry =
  re_id :: string
  re_recipientLabel :: string
  re_selectedMethod :: "string option"
  re_permittedMethod :: "string option"
  re_emailAddress :: "string option"
  re_physicalAddress :: "string option"
  re_verificationStatus :: string
  re_copiedRecipient :: bool

record attachment_entry =
  ae_id :: string
  ae_externalFilename :: string
  ae_description :: "string option"
  ae_inclusionStatus :: string
  ae_checksum :: "string option"

record draft_context =
  dk_language :: string
  dk_noticeType :: string
  dk_title :: string
  dk_projectName :: string
  dk_projectCode :: string
  dk_contractReference :: string
  dk_eventTitle :: string
  dk_eventDescription :: "string option"
  dk_facts :: "fact_entry list"
  dk_requirement :: requirement_entry
  dk_recipients :: "recipient_entry list"
  dk_attachments :: "attachment_entry list"
  dk_templateVersion :: string

record assembled_section =
  sn_sectionType :: section_type
  sn_sequence :: nat
  sn_heading :: string
  sn_body :: string
  sn_language :: string
  sn_sourceFactIds :: "string list"
  sn_sourceEvidenceIds :: "string list"
  sn_sourceClauseIds :: "string list"
  sn_machineGenerated :: bool
  sn_humanEdited :: bool
  sn_internalOnly :: bool
  sn_warnings :: "string list"

definition NOTICE_DRAFTING_RULESET_VERSION :: string where
  "NOTICE_DRAFTING_RULESET_VERSION = ''notice-drafting-ruleset-v1''"

definition NOTICE_VALIDATION_RULESET_VERSION :: string where
  "NOTICE_VALIDATION_RULESET_VERSION = ''notice-validation-ruleset-v1''"

definition NOTICE_TEMPLATE_VERSION :: string where
  "NOTICE_TEMPLATE_VERSION = ''synthetic-notice-template-v1''"

definition NOTICE_GENERATOR_VERSION :: string where
  "NOTICE_GENERATOR_VERSION = ''deterministic-assembler-v1''"

section \<open>Completeness of the evidence\<close>

datatype mandatory_status = CONTRACTUALLY_REQUIRED | INTERNALLY_REQUIRED | RECOMMENDED | OPTIONAL

datatype satisfaction_status =
    SF_MISSING | SF_PARTIAL | SF_SATISFIED | SF_NOT_APPLICABLE | SF_WAIVED_BY_REVIEWER | SF_DISPUTED

datatype completeness_status =
    CM_NOT_ASSESSED | CM_INCOMPLETE | CM_CONDITIONALLY_READY | CM_READY | CM_BLOCKED

fun satisfaction_name :: "satisfaction_status \<Rightarrow> string" where
  "satisfaction_name SF_MISSING = ''MISSING''"
| "satisfaction_name SF_PARTIAL = ''PARTIAL''"
| "satisfaction_name SF_SATISFIED = ''SATISFIED''"
| "satisfaction_name SF_NOT_APPLICABLE = ''NOT_APPLICABLE''"
| "satisfaction_name SF_WAIVED_BY_REVIEWER = ''WAIVED_BY_REVIEWER''"
| "satisfaction_name SF_DISPUTED = ''DISPUTED''"

record evidence_state =
  es_category :: string
  es_mandatoryStatus :: mandatory_status
  es_satisfactionStatus :: satisfaction_status
  es_waiverReason :: "string option"

record completeness_result =
  cr_status :: completeness_status
  cr_blockingIssues :: "string list"
  cr_warnings :: "string list"

definition mandatoryEvidence :: "evidence_state \<Rightarrow> bool" where
  "mandatoryEvidence r \<longleftrightarrow> es_mandatoryStatus r = CONTRACTUALLY_REQUIRED
     \<or> es_mandatoryStatus r = INTERNALLY_REQUIRED"

text \<open>\<open>req.waiverReason?.trim()\<close>.\<close>

definition hasReason :: "evidence_state \<Rightarrow> bool" where
  "hasReason r = (case es_waiverReason r of None \<Rightarrow> False | Some w \<Rightarrow> trim w \<noteq> [])"

text \<open>One round of the loop: the blocking issues, the warnings and the waivers so far.\<close>

type_synonym evidence_counts = "string list \<times> string list \<times> nat"

fun assessRequirement :: "evidence_counts \<Rightarrow> evidence_state \<Rightarrow> evidence_counts" where
  "assessRequirement (blocking, warnings, waived) r =
     (if es_satisfactionStatus r = SF_SATISFIED \<or> es_satisfactionStatus r = SF_NOT_APPLICABLE
      then (blocking, warnings, waived)
      else if es_satisfactionStatus r = SF_WAIVED_BY_REVIEWER
      then (if \<not> hasReason r then (blocking @ [es_category r @ '':WAIVER_WITHOUT_REASON''], warnings, waived)
            else if mandatoryEvidence r
            then (blocking, warnings @ [es_category r @ '':WAIVED_STILL_CONTRACTUAL''], waived + 1)
            else (blocking, warnings, waived))
      else if es_satisfactionStatus r = SF_DISPUTED \<and> mandatoryEvidence r
      then (blocking @ [es_category r @ '':DISPUTED''], warnings, waived)
      else if mandatoryEvidence r
              \<and> (es_satisfactionStatus r = SF_MISSING \<or> es_satisfactionStatus r = SF_PARTIAL)
      then (blocking @ [es_category r @ '':'' @ satisfaction_name (es_satisfactionStatus r)],
            warnings, waived)
      else if es_mandatoryStatus r = RECOMMENDED \<and> es_satisfactionStatus r = SF_MISSING
      then (blocking, warnings @ [es_category r @ '':RECOMMENDED_MISSING''], waived)
      else (blocking, warnings, waived))"

definition assessEvidenceCompleteness :: "evidence_state list \<Rightarrow> bool \<Rightarrow> completeness_result" where
  "assessEvidenceCompleteness requirements assessed =
     (if \<not> assessed \<and> requirements = []
      then \<lparr>cr_status = CM_NOT_ASSESSED, cr_blockingIssues = [''NOT_ASSESSED''], cr_warnings = []\<rparr>
      else (case foldl assessRequirement ([], [], 0) requirements of (blocking, warnings, waived) \<Rightarrow>
        if blocking \<noteq> []
        then \<lparr>cr_status = CM_BLOCKED, cr_blockingIssues = blocking, cr_warnings = warnings\<rparr>
        else if 0 < waived \<or> warnings \<noteq> []
        then \<lparr>cr_status = CM_CONDITIONALLY_READY, cr_blockingIssues = [], cr_warnings = warnings\<rparr>
        else \<lparr>cr_status = CM_READY, cr_blockingIssues = [], cr_warnings = warnings\<rparr>))"

definition DEFAULT_EVIDENCE_CATEGORIES :: "string list" where
  "DEFAULT_EVIDENCE_CATEGORIES = [''EVENT_OCCURRENCE'', ''TRIGGER_DATE'', ''CONTRACTUAL_BASIS'',
     ''RECIPIENT'', ''DELIVERY_METHOD'', ''CONTEMPORARY_RECORDS'']"

section \<open>The deterministic draft\<close>

definition usableFact :: "fact_entry \<Rightarrow> bool" where
  "usableFact f \<longleftrightarrow> nf_approvedForDrafting f
     \<and> (nf_verificationStatus f = ''EVIDENCE_BACKED'' \<or> nf_verificationStatus f = ''HUMAN_CONFIRMED'')"

definition approvedFacts :: "fact_entry list \<Rightarrow> fact_entry list" where
  "approvedFacts facts = filter usableFact facts"

definition factValue :: "fact_entry list \<Rightarrow> string \<Rightarrow> fact_entry option" where
  "factValue facts t = find (\<lambda>f. nf_factType f = t) facts"

fun headingEn :: "section_type \<Rightarrow> string" where
  "headingEn S_SENDER = ''From''"
| "headingEn S_RECIPIENT = ''To''"
| "headingEn S_PROJECT_CONTRACT_REFERENCE = ''Project and contract''"
| "headingEn S_NOTICE_TITLE = ''Notice''"
| "headingEn S_CONTRACTUAL_BASIS = ''Contractual basis''"
| "headingEn S_FACTUAL_BACKGROUND = ''Background''"
| "headingEn S_EVENT_DESCRIPTION = ''Description of event''"
| "headingEn S_TRIGGER_DATE = ''Relevant dates''"
| "headingEn S_DEADLINE_STATEMENT = ''Contractual notice deadline''"
| "headingEn S_IMPACT_STATEMENT = ''Effect''"
| "headingEn S_RESERVATION_OF_RIGHTS = ''Reservation of rights''"
| "headingEn S_REQUESTED_ACTION = ''Requested action''"
| "headingEn S_RECORDS_EVIDENCE = ''Supporting records''"
| "headingEn S_CONTINUING_EVENT = ''Continuing event''"
| "headingEn S_ATTACHMENTS = ''Attachments''"
| "headingEn S_CLOSING = ''Closing''"

fun headingAr :: "section_type \<Rightarrow> string" where
  "headingAr S_SENDER = (utf8 [1605, 1606])"
| "headingAr S_RECIPIENT = (utf8 [1573, 1604, 1609])"
| "headingAr S_PROJECT_CONTRACT_REFERENCE = (utf8 [1575, 1604, 1605, 1588, 1585, 1608, 1593, 32, 1608, 1575, 1604, 1593, 1602, 1583])"
| "headingAr S_NOTICE_TITLE = (utf8 [1573, 1588, 1593, 1575, 1585])"
| "headingAr S_CONTRACTUAL_BASIS = (utf8 [1575, 1604, 1571, 1587, 1575, 1587, 32, 1575, 1604, 1578, 1593, 1575, 1602, 1583,
       1610])"
| "headingAr S_FACTUAL_BACKGROUND = (utf8 [1575, 1604, 1582, 1604, 1601, 1610, 1577])"
| "headingAr S_EVENT_DESCRIPTION = (utf8 [1608, 1589, 1601, 32, 1575, 1604, 1581, 1583, 1579])"
| "headingAr S_TRIGGER_DATE = (utf8 [1575, 1604, 1578, 1608, 1575, 1585, 1610, 1582, 32, 1584, 1575, 1578, 32, 1575,
       1604, 1589, 1604, 1577])"
| "headingAr S_DEADLINE_STATEMENT = (utf8 [1575, 1604, 1605, 1608, 1593, 1583, 32, 1575, 1604, 1606, 1607, 1575, 1574, 1610,
       32, 1575, 1604, 1578, 1593, 1575, 1602, 1583, 1610, 32, 1604, 1604, 1573, 1588, 1593,
       1575, 1585])"
| "headingAr S_IMPACT_STATEMENT = (utf8 [1575, 1604, 1571, 1579, 1585])"
| "headingAr S_RESERVATION_OF_RIGHTS = (utf8 [1575, 1604, 1578, 1581, 1601, 1592, 32, 1593, 1604, 1609, 32, 1575, 1604, 1581,
       1602, 1608, 1602])"
| "headingAr S_REQUESTED_ACTION = (utf8 [1575, 1604, 1573, 1580, 1585, 1575, 1569, 32, 1575, 1604, 1605, 1591, 1604, 1608,
       1576])"
| "headingAr S_RECORDS_EVIDENCE = (utf8 [1575, 1604, 1587, 1580, 1604, 1575, 1578, 32, 1575, 1604, 1583, 1575, 1593, 1605,
       1577])"
| "headingAr S_CONTINUING_EVENT = (utf8 [1581, 1583, 1579, 32, 1605, 1587, 1578, 1605, 1585])"
| "headingAr S_ATTACHMENTS = (utf8 [1575, 1604, 1605, 1585, 1601, 1602, 1575, 1578])"
| "headingAr S_CLOSING = (utf8 [1575, 1604, 1582, 1575, 1578, 1605, 1577])"

definition headingFor :: "section_type \<Rightarrow> string \<Rightarrow> string" where
  "headingFor t language = (if language = ''ar'' then headingAr t else headingEn t)"

text \<open>A section without its number, which the push gives it.\<close>

record section_draft =
  sd_type :: section_type
  sd_body :: string
  sd_factIds :: "string list"
  sd_clauseIds :: "string list"
  sd_warnings :: "string list"
  sd_internalOnly :: bool

definition sectionOf :: "string \<Rightarrow> nat \<Rightarrow> section_draft \<Rightarrow> assembled_section" where
  "sectionOf language n d =
     \<lparr>sn_sectionType = sd_type d, sn_sequence = n, sn_heading = headingFor (sd_type d) language,
      sn_body = trim (sd_body d), sn_language = language, sn_sourceFactIds = sd_factIds d,
      sn_sourceEvidenceIds = [], sn_sourceClauseIds = sd_clauseIds d, sn_machineGenerated = True,
      sn_humanEdited = False, sn_internalOnly = sd_internalOnly d, sn_warnings = sd_warnings d\<rparr>"

definition plainSection ::
  "section_type \<Rightarrow> string \<Rightarrow> string list \<Rightarrow> string list \<Rightarrow> string list \<Rightarrow> section_draft" where
  "plainSection t body factIds clauseIds warnings =
     \<lparr>sd_type = t, sd_body = body, sd_factIds = factIds, sd_clauseIds = clauseIds,
      sd_warnings = warnings, sd_internalOnly = False\<rparr>"

definition factIdOf :: "fact_entry option \<Rightarrow> string list" where
  "factIdOf f = (case f of None \<Rightarrow> [] | Some x \<Rightarrow> [nf_id x])"

text \<open>\<open>fact?.value ?? other\<close>.\<close>

definition valueOr :: "fact_entry option \<Rightarrow> string \<Rightarrow> string" where
  "valueOr f other = (case f of None \<Rightarrow> other | Some x \<Rightarrow> nf_value x)"

text \<open>\<open>a || b\<close> on a text that may be missing or empty.\<close>

definition orTruthy :: "string option \<Rightarrow> string \<Rightarrow> string" where
  "orTruthy x other = (case x of None \<Rightarrow> other | Some y \<Rightarrow> if y = [] then other else y)"

definition inLanguage :: "draft_context \<Rightarrow> string \<Rightarrow> string \<Rightarrow> string" where
  "inLanguage ctx ar en = (if dk_language ctx = ''ar'' then ar else en)"

definition clauseIds :: "draft_context \<Rightarrow> string list" where
  "clauseIds ctx = (case rq_sourceClauseId (dk_requirement ctx) of None \<Rightarrow> []
     | Some c \<Rightarrow> if c = [] then [] else [c])"

definition clauseRef :: "draft_context \<Rightarrow> string" where
  "clauseRef ctx = orText (rq_sourceClauseReference (dk_requirement ctx))
     ''clause reference on approved snapshot''"

definition senderSection :: "draft_context \<Rightarrow> fact_entry list \<Rightarrow> section_draft" where
  "senderSection ctx facts = (let party = factValue facts ''PARTY_NAME'' in
     plainSection S_SENDER
       (inLanguage ctx
         ((utf8 [1575, 1604, 1605, 1585, 1587, 1604, 58, 32]) @ valueOr party (utf8 [1575, 1604, 1591, 1585, 1601, 32, 1575, 1604, 1605, 1578, 1593, 1575, 1602, 1583,
       32, 40, 1610, 1615, 1587, 1578, 1603, 1605, 1604, 41]))
         (''Sender: '' @ valueOr party ''Contracting party (to be completed)''))
       (factIdOf party) [] (whenl (party = None) ''MISSING_SENDER_FACT''))"

definition recipientLine :: "recipient_entry \<Rightarrow> string" where
  "recipientLine r = re_recipientLabel r @ '' via ''
     @ orText (re_selectedMethod r) (orText (re_permittedMethod r) ''method pending'') @ '' (''
     @ orTruthy (re_emailAddress r)
         (orTruthy (re_physicalAddress r) ''address pending verification'')
     @ '') ['' @ re_verificationStatus r @ '']''"

definition recipientSection :: "draft_context \<Rightarrow> section_draft" where
  "recipientSection ctx = (let primary = filter (\<lambda>r. \<not> re_copiedRecipient r) (dk_recipients ctx);
       rows = map recipientLine primary in
     plainSection S_RECIPIENT
       (if rows \<noteq> [] then joinWith [CHR 10] rows
        else inLanguage ctx (utf8 [1575, 1604, 1605, 1587, 1578, 1604, 1605, 58, 32, 1594, 1610, 1585, 32, 1605, 1615,
       1578, 1581, 1602, 1602, 32, 1576, 1593, 1583])
          ''Recipient: not yet verified'')
       [] []
       (whenl (list_ex (\<lambda>r. re_verificationStatus r \<noteq> ''VERIFIED'') primary) ''UNVERIFIED_RECIPIENT''))"

definition projectSection :: "draft_context \<Rightarrow> fact_entry list \<Rightarrow> section_draft" where
  "projectSection ctx facts = (let contractRef = factValue facts ''CONTRACT_REFERENCE'';
       ref = valueOr contractRef (dk_contractReference ctx);
       name = dk_projectName ctx @ '' ('' @ dk_projectCode ctx @ '')'' @ [CHR 10] in
     plainSection S_PROJECT_CONTRACT_REFERENCE
       (inLanguage ctx
         ((utf8 [1575, 1604, 1605, 1588, 1585, 1608, 1593, 58, 32]) @ name @ (utf8 [1605, 1585, 1580, 1593, 32, 1575, 1604, 1593, 1602, 1583, 58, 32]) @ ref)
         (''Project: '' @ name @ ''Contract reference: '' @ ref))
       (factIdOf contractRef) [] [])"

definition titleSection :: "draft_context \<Rightarrow> fact_entry list \<Rightarrow> section_draft" where
  "titleSection ctx facts = (let noticeRef = factValue facts ''NOTICE_REFERENCE'' in
     plainSection S_NOTICE_TITLE
       (dk_title ctx
        @ (case noticeRef of None \<Rightarrow> [] | Some f \<Rightarrow> (utf8 [32, 8212, 32]) @ nf_value f)
        @ [CHR 10] @ ''Type: '' @ dk_noticeType ctx)
       (factIdOf noticeRef) [] [])"

definition basisSection :: "draft_context \<Rightarrow> section_draft" where
  "basisSection ctx = plainSection S_CONTRACTUAL_BASIS
     (inLanguage ctx
       ((utf8 [1610, 1615, 1602, 1583, 1614, 1617, 1605, 32, 1607, 1584, 1575, 32, 1575, 1604,
       1573, 1588, 1593, 1575, 1585, 32, 1575, 1587, 1578, 1606, 1575, 1583, 1575, 1611, 32,
       1573, 1604, 1609, 32]) @ clauseRef ctx
        @ (utf8 [32, 1608, 1601, 1602, 1575, 1611, 32, 1604, 1604, 1578, 1603, 1608, 1610, 1606, 32,
       1575, 1604, 1605, 1593, 1578, 1605, 1583, 32, 1608, 1604, 1602, 1591, 1577, 32, 1575,
       1604, 1602, 1575, 1593, 1583, 1577, 32, 1575, 1604, 1605, 1593, 1578, 1605, 1583, 1577,
       46]))
       (''This notice is given under '' @ clauseRef ctx
        @ '' pursuant to the approved configuration and approved notice-rule snapshot.''))
     [] (clauseIds ctx) []"

definition backgroundSection :: "draft_context \<Rightarrow> fact_entry list \<Rightarrow> section_draft" where
  "backgroundSection ctx facts = (let description = factValue facts ''DESCRIPTION_OF_EVENT'' in
     plainSection S_FACTUAL_BACKGROUND
       (valueOr description (orText (dk_eventDescription ctx) (dk_eventTitle ctx)))
       (factIdOf description) []
       (whenl (description = None) ''EVENT_DESCRIPTION_FROM_TITLE_ONLY''))"

definition eventSection :: "draft_context \<Rightarrow> fact_entry list \<Rightarrow> section_draft" where
  "eventSection ctx facts = (let description = factValue facts ''DESCRIPTION_OF_EVENT'' in
     plainSection S_EVENT_DESCRIPTION (valueOr description (dk_eventTitle ctx))
       (factIdOf description) [] [])"

definition dateLine :: "string \<Rightarrow> fact_entry option \<Rightarrow> string list" where
  "dateLine label f = (case f of None \<Rightarrow> [] | Some x \<Rightarrow> [label @ nf_value x])"

definition triggerSection :: "draft_context \<Rightarrow> fact_entry list \<Rightarrow> section_draft" where
  "triggerSection ctx facts = (let eventDate = factValue facts ''EVENT_DATE'';
       awareness = factValue facts ''AWARENESS_DATE'';
       dateLines =
         dateLine (inLanguage ctx (utf8 [1578, 1575, 1585, 1610, 1582, 32, 1575, 1604, 1581, 1583, 1579, 58, 32]) ''Event date: '') eventDate
         @ dateLine (inLanguage ctx (utf8 [1578, 1575, 1585, 1610, 1582, 32, 1575, 1604, 1593, 1604, 1605, 58, 32]) ''Awareness date: '') awareness
     in plainSection S_TRIGGER_DATE
       (orTruthy (Some (joinWith [CHR 10] dateLines))
         (inLanguage ctx (utf8 [1575, 1604, 1578, 1608, 1575, 1585, 1610, 1582, 32, 1602, 1610, 1583, 32, 1575,
       1604, 1578, 1581, 1602, 1602]) ''Dates pending verification''))
       (filter (\<lambda>i. i \<noteq> []) (factIdOf eventDate @ factIdOf awareness)) []
       (whenl (eventDate = None) ''MISSING_EVENT_DATE_FACT''))"

definition deadlineText :: "draft_context \<Rightarrow> string option" where
  "deadlineText ctx = (case rq_verifiedDeadlineAt (dk_requirement ctx) of
     None \<Rightarrow> None
   | Some t \<Rightarrow> Some (t @ (case rq_verifiedDeadlineTimezone (dk_requirement ctx) of
         None \<Rightarrow> [] | Some z \<Rightarrow> if z = [] then [] else '' ('' @ z @ '')'')))"

definition deadlineSection :: "draft_context \<Rightarrow> section_draft" where
  "deadlineSection ctx =
     plainSection S_DEADLINE_STATEMENT
       (if truthy (deadlineText ctx)
        then inLanguage ctx
          ((utf8 [1575, 1604, 1605, 1608, 1593, 1583, 32, 1575, 1604, 1606, 1607, 1575, 1574, 1610,
       32, 1575, 1604, 1578, 1593, 1575, 1602, 1583, 1610, 32, 1575, 1604, 1605, 1581, 1587,
       1608, 1576, 32, 1608, 1575, 1604, 1605, 1578, 1581, 1602, 1602, 58, 32]) @ the (deadlineText ctx)
           @ (utf8 [46, 32, 1578, 1581, 1584, 1610, 1585, 1575, 1578, 32, 1583, 1575, 1582, 1604, 1610,
       1577, 32, 1604, 1610, 1587, 1578, 32, 1605, 1608, 1575, 1593, 1610, 1583, 32, 1578,
       1593, 1575, 1602, 1583, 1610, 1577, 46]))
          (''Verified contractual notice deadline: '' @ the (deadlineText ctx)
           @ ''. Internal warning dates are not contractual deadlines.'')
        else inLanguage ctx (utf8 [1604, 1575, 32, 1610, 1608, 1580, 1583, 32, 1605, 1608, 1593, 1583, 32, 1606, 1607,
       1575, 1574, 1610, 32, 1605, 1578, 1581, 1602, 1602, 32, 1605, 1585, 1578, 1576, 1591, 46])
          ''No verified contractual deadline is bound to this package.'')
       [] (clauseIds ctx)
       (whenl (\<not> truthy (deadlineText ctx)) ''MISSING_VERIFIED_DEADLINE'')"

definition impactSection :: "fact_entry list \<Rightarrow> section_draft list" where
  "impactSection facts = (case factValue facts ''DESCRIPTION_OF_EFFECT'' of
     None \<Rightarrow> []
   | Some effect \<Rightarrow> [plainSection S_IMPACT_STATEMENT (nf_value effect) [nf_id effect] [] []])"

definition reservationSection :: "draft_context \<Rightarrow> section_draft" where
  "reservationSection ctx =
     plainSection S_RESERVATION_OF_RIGHTS
       (orTruthy (map_option trim (rq_reservationLanguage (dk_requirement ctx)))
         (inLanguage ctx (utf8 [1606, 1581, 1578, 1601, 1592, 32, 1576, 1580, 1605, 1610, 1593, 32, 1575, 1604,
       1581, 1602, 1608, 1602, 32, 1608, 1575, 1604, 1578, 1593, 1608, 1610, 1590, 1575, 1578,
       32, 1576, 1605, 1608, 1580, 1576, 32, 1575, 1604, 1593, 1602, 1583, 32, 1608, 1575,
       1604, 1602, 1575, 1606, 1608, 1606, 32, 1575, 1604, 1605, 1593, 1605, 1608, 1604, 32,
       1576, 1607, 46])
           ''All rights and remedies under the contract and applicable law are reserved.''))
       [] (clauseIds ctx) []"

definition actionSection :: "draft_context \<Rightarrow> fact_entry list \<Rightarrow> section_draft" where
  "actionSection ctx facts = (let action = factValue facts ''REQUESTED_ACTION'' in
     plainSection S_REQUESTED_ACTION
       (valueOr action (inLanguage ctx
         (utf8 [1610, 1585, 1580, 1609, 32, 1575, 1604, 1573, 1602, 1585, 1575, 1585, 32, 1576,
       1575, 1587, 1578, 1604, 1575, 1605, 32, 1607, 1584, 1575, 32, 1575, 1604, 1573, 1588,
       1593, 1575, 1585, 32, 1608, 1575, 1604, 1578, 1593, 1575, 1605, 1604, 32, 1605, 1593,
       1607, 32, 1608, 1601, 1602, 1575, 1611, 32, 1604, 1604, 1593, 1602, 1583, 46])
         (''Please acknowledge receipt of this notice and deal with it in accordance with ''
          @ ''the contract.'')))
       (factIdOf action) [] [])"

definition recordsSection :: "draft_context \<Rightarrow> section_draft" where
  "recordsSection ctx =
     plainSection S_RECORDS_EVIDENCE
       (if truthy (rq_contentRequirements (dk_requirement ctx))
        then inLanguage ctx (utf8 [1605, 1578, 1591, 1604, 1576, 1575, 1578, 32, 1575, 1604, 1605, 1581, 1578, 1608,
       1609, 32, 1605, 1606, 32, 1575, 1604, 1604, 1602, 1591, 1577, 32, 1575, 1604, 1605,
       1593, 1578, 1605, 1583, 1577, 58, 32])
            ''Content requirements from approved snapshot: ''
          @ the (rq_contentRequirements (dk_requirement ctx))
        else inLanguage ctx
          (utf8 [1575, 1604, 1587, 1580, 1604, 1575, 1578, 32, 1575, 1604, 1605, 1593, 1575, 1589,
       1585, 1577, 32, 1575, 1604, 1605, 1588, 1575, 1585, 32, 1573, 1604, 1610, 1607, 1575,
       32, 1601, 1610, 32, 1575, 1604, 1605, 1585, 1601, 1602, 1575, 1578, 32, 1578, 1583,
       1593, 1605, 32, 1607, 1584, 1575, 32, 1575, 1604, 1573, 1588, 1593, 1575, 1585, 46])
          ''Contemporary records referenced in the attachments support this notice.'')
       [] (clauseIds ctx) []"

definition continuingSection :: "draft_context \<Rightarrow> section_draft list" where
  "continuingSection ctx = (case rq_continuingEventRequirements (dk_requirement ctx) of
     None \<Rightarrow> []
   | Some t \<Rightarrow> if t = [] then [] else [plainSection S_CONTINUING_EVENT t [] (clauseIds ctx) []])"

fun attachmentLines :: "nat \<Rightarrow> attachment_entry list \<Rightarrow> string list" where
  "attachmentLines n [] = []"
| "attachmentLines n (a # as) =
     (showNat n @ ''. '' @ ae_externalFilename a
      @ (if truthy (ae_description a) then (utf8 [32, 8212, 32]) @ the (ae_description a) else []))
     # attachmentLines (Suc n) as"

definition attachmentsSection :: "draft_context \<Rightarrow> section_draft" where
  "attachmentsSection ctx = (let included = filter (\<lambda>a. ae_inclusionStatus a = ''INCLUDED'')
       (dk_attachments ctx) in
     plainSection S_ATTACHMENTS
       (if included \<noteq> [] then joinWith [CHR 10] (attachmentLines 1 included)
        else inLanguage ctx (utf8 [1604, 1575, 32, 1605, 1585, 1601, 1602, 1575, 1578, 32, 1605, 1590, 1605, 1617,
       1606, 1577, 32, 1576, 1593, 1583, 46]) ''No attachments included yet.'')
       [] [] [])"

definition closingSection :: "draft_context \<Rightarrow> section_draft" where
  "closingSection ctx = plainSection S_CLOSING
     (inLanguage ctx
       ((utf8 [1608, 1578, 1601, 1590, 1604, 1608, 1575, 32, 1576, 1602, 1576, 1608, 1604, 32,
       1601, 1575, 1574, 1602, 32, 1575, 1604, 1575, 1581, 1578, 1585, 1575, 1605, 46, 10, 91,
       1605, 1608, 1590, 1593, 32, 1575, 1604, 1578, 1608, 1602, 1610, 1593, 32, 47, 32, 1575,
       1604, 1587, 1604, 1591, 1577, 32, 8212, 32, 1604, 1604, 1605, 1585, 1575, 1580, 1593,
       1577, 32, 1575, 1604, 1576, 1588, 1585, 1610, 1577, 93]))
       (''Yours faithfully,'' @ [CHR 10]
        @ (utf8 [91, 83, 105, 103, 110, 97, 116, 117, 114, 101, 32, 47, 32, 97, 117, 116, 104, 111,
       114, 105, 116, 121, 32, 112, 108, 97, 99, 101, 104, 111, 108, 100, 101, 114, 32, 8212,
       32, 104, 117, 109, 97, 110, 32, 99, 111, 109, 112, 108, 101, 116, 105, 111, 110, 32,
       114, 101, 113, 117, 105, 114, 101, 100, 93])))
     [] [] [''SIGNATURE_PLACEHOLDER'']"

definition guidanceSection :: section_draft where
  "guidanceSection = \<lparr>sd_type = S_FACTUAL_BACKGROUND,
     sd_body = ''[INTERNAL] Draft assembled deterministically. Do not present internal warning ''
       @ ''dates as contractual deadlines.'',
     sd_factIds = [], sd_clauseIds = [], sd_warnings = [], sd_internalOnly = True\<rparr>"

text \<open>The pushes in their order.\<close>

definition sectionDrafts :: "draft_context \<Rightarrow> section_draft list" where
  "sectionDrafts ctx = (let facts = approvedFacts (dk_facts ctx) in
     [senderSection ctx facts, recipientSection ctx, projectSection ctx facts,
      titleSection ctx facts, basisSection ctx, backgroundSection ctx facts,
      eventSection ctx facts, triggerSection ctx facts, deadlineSection ctx]
     @ impactSection facts
     @ [reservationSection ctx, actionSection ctx facts, recordsSection ctx]
     @ continuingSection ctx
     @ [attachmentsSection ctx, closingSection ctx, guidanceSection])"

record assembled_draft =
  ad_generatorVersion :: string
  ad_templateVersion :: string
  ad_sections :: "assembled_section list"

definition assembleDeterministicDraft :: "draft_context \<Rightarrow> assembled_draft" where
  "assembleDeterministicDraft ctx =
     \<lparr>ad_generatorVersion = NOTICE_GENERATOR_VERSION,
      ad_templateVersion = (if dk_templateVersion ctx = [] then NOTICE_TEMPLATE_VERSION
        else dk_templateVersion ctx),
      ad_sections = filter (\<lambda>s. sn_body s \<noteq> [])
        (map (\<lambda>(n, d). sectionOf (dk_language ctx) n d) (enumerate 1 (sectionDrafts ctx)))\<rparr>"

definition renderPlainText :: "assembled_section list \<Rightarrow> bool \<Rightarrow> string" where
  "renderPlainText sections includeInternal =
     joinWith [CHR 10, CHR 10]
       (map (\<lambda>s. sn_heading s @ [CHR 10] @ sn_body s)
         (sort_key sn_sequence (filter (\<lambda>s. includeInternal \<or> \<not> sn_internalOnly s) sections)))"


section \<open>Validation of a draft\<close>

datatype severity = SV_BLOCKING | SV_WARNING | SV_INFO

record validation_issue =
  iu_severity :: severity
  iu_code :: string
  iu_message :: string
  iu_field :: "string option"

record draft_recipient =
  vr_verificationStatus :: string
  vr_copiedRecipient :: bool
  vr_hasContact :: bool
  vr_selectedMethod :: "string option"
  vr_permittedMethod :: "string option"

record draft_bindings =
  vb_contractPackageId :: string
  vb_expectedContractPackageId :: string
  vb_configurationRevisionId :: string
  vb_expectedConfigurationRevisionId :: string
  vb_approvedRuleSnapshotId :: string
  vb_expectedApprovedRuleSnapshotId :: string
  vb_projectEventId :: string
  vb_expectedProjectEventId :: string
  vb_calculationId :: string
  vb_expectedCalculationId :: string

record validation_input =
  vt_bindings :: draft_bindings
  vt_calculationStatus :: string
  vt_hasVerifiedTriggerDate :: bool
  vt_hasVerifiedDeadline :: bool
  vt_clauseReferencePresent :: bool
  vt_language :: string
  vt_requiredLanguage :: "string option"
  vt_recipients :: "draft_recipient list"
  vt_openBlockingQuestions :: nat
  vt_completenessStatus :: completeness_status
  vt_unapprovedFactsInDraft :: nat
  vt_hasInternalOnlyInExportCandidate :: bool
  vt_controlledExceptionsForBlockers :: nat
  vt_nonWaivableBlockers :: "string list"
  vt_staleEvidenceAssessment :: bool
  vt_supersededCalculation :: bool
  vt_reservationPresent :: bool
  vt_reservationRequired :: bool
  vt_attachmentMissingRequired :: bool

record validation_result =
  vs_rulesetVersion :: string
  vs_ok :: bool
  vs_blocking :: "validation_issue list"
  vs_warnings :: "validation_issue list"
  vs_notes :: "validation_issue list"

definition issue :: "severity \<Rightarrow> string \<Rightarrow> string \<Rightarrow> validation_issue" where
  "issue sev code message =
     \<lparr>iu_severity = sev, iu_code = code, iu_message = message, iu_field = None\<rparr>"

definition fieldIssue :: "severity \<Rightarrow> string \<Rightarrow> string \<Rightarrow> string \<Rightarrow> validation_issue" where
  "fieldIssue sev code message field =
     \<lparr>iu_severity = sev, iu_code = code, iu_message = message, iu_field = Some field\<rparr>"

definition blockingIf :: "bool \<Rightarrow> string \<Rightarrow> string \<Rightarrow> validation_issue list" where
  "blockingIf b code message = whenl b (issue SV_BLOCKING code message)"

definition bindingIssues :: "draft_bindings \<Rightarrow> bool \<Rightarrow> validation_issue list" where
  "bindingIssues b superseded =
     blockingIf (vb_contractPackageId b \<noteq> vb_expectedContractPackageId b)
       ''WRONG_CONTRACT_PACKAGE'' ''Draft is bound to a different contract package''
     @ blockingIf (vb_configurationRevisionId b \<noteq> vb_expectedConfigurationRevisionId b)
       ''STALE_CONFIGURATION'' ''Configuration revision does not match package binding''
     @ blockingIf (vb_approvedRuleSnapshotId b \<noteq> vb_expectedApprovedRuleSnapshotId b)
       ''WRONG_RULE_SNAPSHOT'' ''Approved rule snapshot mismatch''
     @ blockingIf (vb_projectEventId b \<noteq> vb_expectedProjectEventId b)
       ''WRONG_PROJECT_EVENT'' ''Project event mismatch''
     @ blockingIf (vb_calculationId b \<noteq> vb_expectedCalculationId b \<or> superseded)
       ''STALE_CALCULATION'' ''Deadline calculation is stale or superseded''"

definition groundIssues :: "validation_input \<Rightarrow> validation_issue list" where
  "groundIssues i =
     blockingIf (vt_calculationStatus i \<noteq> ''VERIFIED'')
       ''CALCULATION_NOT_VERIFIED'' ''Deadline calculation is not verified''
     @ blockingIf (\<not> vt_hasVerifiedTriggerDate i)
       ''MISSING_TRIGGER_DATE'' ''Verified trigger date is required''
     @ blockingIf (\<not> vt_hasVerifiedDeadline i)
       ''MISSING_VERIFIED_DEADLINE'' ''Verified contractual deadline is required''
     @ blockingIf (\<not> vt_clauseReferencePresent i)
       ''MISSING_CLAUSE_REFERENCE'' ''Exact clause reference from approved snapshot is required''"

definition languageWarnings :: "validation_input \<Rightarrow> validation_issue list" where
  "languageWarnings i =
     whenl (truthy (vt_requiredLanguage i) \<and> Some (vt_language i) \<noteq> vt_requiredLanguage i)
       (issue SV_WARNING ''LANGUAGE_MISMATCH''
         ''Draft language differs from governing-language requirement'')"

definition requiredRecipients :: "validation_input \<Rightarrow> draft_recipient list" where
  "requiredRecipients i = filter (\<lambda>r. \<not> vr_copiedRecipient r) (vt_recipients i)"

definition recipientIssues :: "draft_recipient \<Rightarrow> validation_issue list" where
  "recipientIssues r =
     whenl (vr_verificationStatus r \<noteq> ''VERIFIED'')
       (fieldIssue SV_BLOCKING ''UNVERIFIED_RECIPIENT'' ''Required recipient is not verified''
         ''recipient'')
     @ whenl (\<not> vr_hasContact r)
       (fieldIssue SV_BLOCKING ''MISSING_CONTACT_POINT''
         ''Recipient lacks verified contact point'' ''recipient'')"

definition methodWarnings :: "draft_recipient \<Rightarrow> validation_issue list" where
  "methodWarnings r =
     whenl (truthy (vr_permittedMethod r) \<and> truthy (vr_selectedMethod r)
            \<and> vr_selectedMethod r \<noteq> vr_permittedMethod r)
       (issue SV_WARNING ''DELIVERY_METHOD_DEVIATION''
         ''Selected delivery method differs from permitted method'')"

definition evidenceOpen :: "validation_input \<Rightarrow> bool" where
  "evidenceOpen i \<longleftrightarrow> vt_completenessStatus i = CM_INCOMPLETE \<or> vt_completenessStatus i = CM_BLOCKED"

definition contentIssues :: "validation_input \<Rightarrow> validation_issue list" where
  "contentIssues i =
     blockingIf (0 < vt_openBlockingQuestions i)
       ''OPEN_QUESTIONS'' (showNat (vt_openBlockingQuestions i) @ '' required questions remain open'')
     @ blockingIf (evidenceOpen i \<and> vt_controlledExceptionsForBlockers i = 0)
       ''EVIDENCE_INCOMPLETE''
       ''Evidence completeness is incomplete without controlled exception''
     @ blockingIf (vt_completenessStatus i = CM_NOT_ASSESSED)
       ''EVIDENCE_NOT_ASSESSED'' ''Evidence completeness has not been assessed''
     @ blockingIf (0 < vt_unapprovedFactsInDraft i)
       ''UNAPPROVED_FACTS'' ''Draft references facts not approved for drafting''
     @ blockingIf (vt_hasInternalOnlyInExportCandidate i)
       ''INTERNAL_CONTENT_IN_EXPORT'' ''Internal-only content cannot be exported''
     @ blockingIf (vt_staleEvidenceAssessment i)
       ''STALE_EVIDENCE_ASSESSMENT'' ''Evidence assessment revision is stale''
     @ blockingIf (vt_reservationRequired i \<and> \<not> vt_reservationPresent i)
       ''MISSING_RESERVATION'' ''Required reservation language is missing''"

definition draftBlocking :: "validation_input \<Rightarrow> validation_issue list" where
  "draftBlocking i =
     bindingIssues (vt_bindings i) (vt_supersededCalculation i) @ groundIssues i
     @ blockingIf (requiredRecipients i = [])
         ''MISSING_RECIPIENT'' ''At least one required recipient is needed''
     @ concat (map recipientIssues (requiredRecipients i)) @ contentIssues i
     @ map (\<lambda>code. issue SV_BLOCKING code (''Non-waivable blocker: '' @ code))
         (vt_nonWaivableBlockers i)"

definition draftWarnings :: "validation_input \<Rightarrow> validation_issue list" where
  "draftWarnings i = languageWarnings i @ concat (map methodWarnings (requiredRecipients i))
     @ whenl (evidenceOpen i \<and> 0 < vt_controlledExceptionsForBlockers i)
         (issue SV_WARNING ''EVIDENCE_EXCEPTION''
           ''Proceeding with controlled exception for evidence gaps'')
     @ whenl (vt_attachmentMissingRequired i)
         (issue SV_WARNING ''MISSING_ATTACHMENTS'' ''Some recommended attachments are missing'')"

definition validateNoticeDraft :: "validation_input \<Rightarrow> validation_result" where
  "validateNoticeDraft i =
     \<lparr>vs_rulesetVersion = NOTICE_VALIDATION_RULESET_VERSION, vs_ok = (draftBlocking i = []),
      vs_blocking = draftBlocking i, vs_warnings = draftWarnings i,
      vs_notes = [issue SV_INFO ''NO_DELIVERY''
        ''Validation does not authorize sending; export-only in this slice'']\<rparr>"

definition NON_WAIVABLE_EXCEPTION_CODES :: "string list" where
  "NON_WAIVABLE_EXCEPTION_CODES = [''NO_VERIFIED_EVENT'', ''NO_APPROVED_RULE_SNAPSHOT'',
     ''NO_VERIFIED_DEADLINE'', ''CROSS_PROJECT_EVIDENCE'', ''INVENTED_RECIPIENT'',
     ''UNSUPPORTED_CLAUSE'', ''UNAUTHORIZED_APPROVER'']"

definition isNonWaivableException :: "string \<Rightarrow> bool" where
  "isNonWaivableException code \<longleftrightarrow> code \<in> set NON_WAIVABLE_EXCEPTION_CODES"

section \<open>Drafts of a language model\<close>

record ai_section =
  ai_sectionType :: section_type
  ai_draftedText :: string
  ai_sourceFactIds :: "string list"
  ai_sourceEvidenceIds :: "string list"
  ai_sourceClauseIds :: "string list"
  ai_warnings :: "string list"
  ai_unsupportedContentFlags :: "string list"

record ai_response =
  ar_language :: string
  ar_sections :: "ai_section list"
  ar_overallWarnings :: "string list"

text \<open>\<open>approvedFactValuesByType\<close> is a \<open>Map\<close>, here its entries.\<close>

record 'raw ai_input =
  aq_response :: 'raw
  aq_allowedFactIds :: "string set"
  aq_allowedEvidenceIds :: "string set"
  aq_allowedClauseIds :: "string set"
  aq_approvedDeadlineIso :: "string option"
  aq_approvedFactValuesByType :: "(string \<times> string) list"
  aq_maxSectionChars :: "nat option"

definition spacesRx :: rx where "spacesRx = plusRx (Cls spaceUnit)"

definition LEGAL_CONCLUSION_RX :: rx where
  "LEGAL_CONCLUSION_RX = seqOf [WordB,
     altOf [seqOf [textCi ''you'', spacesRx, textCi ''will'', spacesRx, textCi ''win''],
            seqOf [textCi ''guaranteed'', spacesRx, textCi ''entitlement''],
            seqOf [textCi ''certain'', spacesRx, textCi ''to'', spacesRx, textCi ''succeed'']],
     WordB]"

definition INTERNAL_COMMENT_RX :: rx where
  "INTERNAL_COMMENT_RX = altOf [textCi ''[INTERNAL]'',
     seqOf [textCi ''INTERNAL'', spacesRx, textCi ''ONLY''],
     seqOf [textCi ''DO'', spacesRx, textCi ''NOT'', spacesRx, textCi ''EXPORT'']]"

definition dashOrSpace :: rx where "dashOrSpace = Cls (\<lambda>c. c = 45 \<or> c = 32)"

definition CHAIN_OF_THOUGHT_RX :: rx where
  "CHAIN_OF_THOUGHT_RX = seqOf [WordB,
     altOf [seqOf [textCi ''chain'', dashOrSpace, textCi ''of'', dashOrSpace, textCi ''thought''],
            seqOf [textCi ''let'', spacesRx, textCi ''me'', spacesRx, textCi ''think'', spacesRx,
              textCi ''step'', spacesRx, textCi ''by'', spacesRx, textCi ''step'']],
     WordB]"

definition FORBIDDEN_PATTERNS :: "(string \<times> rx) list" where
  "FORBIDDEN_PATTERNS = [(''LEGAL_CONCLUSION'', LEGAL_CONCLUSION_RX),
     (''INTERNAL_COMMENT'', INTERNAL_COMMENT_RX), (''CHAIN_OF_THOUGHT'', CHAIN_OF_THOUGHT_RX)]"

definition ISO_DAY_RX :: rx where
  "ISO_DAY_RX = seqOf [WordB, timesRx 4 (Cls digitUnit), unitIs 45, timesRx 2 (Cls digitUnit),
     unitIs 45, timesRx 2 (Cls digitUnit), WordB]"

text \<open>The ISO days in a text; they are ASCII.\<close>

definition isoDays :: "string \<Rightarrow> string list" where
  "isoDays s = map (map char_of) (matchesRx ISO_DAY_RX (units s))"

text \<open>\<open>new Set\<close> in the order of the first insertion.\<close>

fun firstSeen :: "string list \<Rightarrow> string list" where
  "firstSeen [] = []"
| "firstSeen (x # xs) = x # filter (\<lambda>y. y \<noteq> x) (firstSeen xs)"

definition mapValue :: "(string \<times> string) list \<Rightarrow> string \<Rightarrow> string option" where
  "mapValue m k = map_of (rev m) k"

text \<open>The days an approved fact or the deadline names.\<close>

definition knownDays :: "'raw ai_input \<Rightarrow> string list" where
  "knownDays i = map (\<lambda>k. take 10 (the (mapValue (aq_approvedFactValuesByType i) k)))
       (map fst (aq_approvedFactValuesByType i))
     @ (case aq_approvedDeadlineIso i of None \<Rightarrow> [] | Some d \<Rightarrow> if d = [] then [] else [take 10 d])"

definition inventedDays :: "'raw ai_input \<Rightarrow> string \<Rightarrow> string list" where
  "inventedDays i text = (case mapValue (aq_approvedFactValuesByType i) ''EVENT_DATE'' of
     None \<Rightarrow> []
   | Some eventDate \<Rightarrow> if eventDate = [] then []
       else filter (\<lambda>d. d \<noteq> take 10 eventDate \<and> truthy (aq_approvedDeadlineIso i)
           \<and> d \<noteq> take 10 (the (aq_approvedDeadlineIso i)) \<and> d \<notin> set (knownDays i))
         (isoDays text))"

definition mismatchedDays :: "'raw ai_input \<Rightarrow> section_type \<Rightarrow> string \<Rightarrow> string list" where
  "mismatchedDays i t text = (case aq_approvedDeadlineIso i of
     None \<Rightarrow> []
   | Some deadline \<Rightarrow>
       if (deadline \<noteq> [] \<and> includesStr (toLowerCase (section_name t)) ''deadline''
           \<or> t = S_DEADLINE_STATEMENT) \<and> take 10 deadline \<noteq> []
       then filter (\<lambda>d. d \<noteq> take 10 deadline) (isoDays text) else [])"

definition orElseNat :: "nat option \<Rightarrow> nat \<Rightarrow> nat" where
  "orElseNat x d = (case x of None \<Rightarrow> d | Some n \<Rightarrow> n)"

definition sectionErrors :: "'raw ai_input \<Rightarrow> ai_section \<Rightarrow> string list" where
  "sectionErrors i s =
     whenl (orElseNat (aq_maxSectionChars i) 8000 < length (units (ai_draftedText s)))
       ''SECTION_TOO_LONG''
     @ map (\<lambda>x. ''UNKNOWN_FACT:'' @ x)
         (filter (\<lambda>x. x \<notin> aq_allowedFactIds i) (ai_sourceFactIds s))
     @ map (\<lambda>x. ''UNKNOWN_EVIDENCE:'' @ x)
         (filter (\<lambda>x. x \<notin> aq_allowedEvidenceIds i) (ai_sourceEvidenceIds s))
     @ map (\<lambda>x. ''UNKNOWN_CLAUSE:'' @ x)
         (filter (\<lambda>x. x \<notin> aq_allowedClauseIds i) (ai_sourceClauseIds s))
     @ whenl (ai_unsupportedContentFlags s \<noteq> [])
         (''UNSUPPORTED_CONTENT:'' @ joinWith '','' (ai_unsupportedContentFlags s))
     @ map fst (filter (\<lambda>p. testRx (snd p) (units (ai_draftedText s))) FORBIDDEN_PATTERNS)
     @ map (\<lambda>d. ''INVENTED_DATE:'' @ d) (inventedDays i (ai_draftedText s))
     @ map (\<lambda>d. ''DEADLINE_MISMATCH:'' @ d)
         (mismatchedDays i (ai_sectionType s) (ai_draftedText s))"

text \<open>\<open>safeParse\<close> is \<open>AiDraftResponseSchema.safeParse\<close>.\<close>

definition validateAiDraftOutput ::
  "('raw \<Rightarrow> string list + ai_response) \<Rightarrow> 'raw ai_input \<Rightarrow> string list + (ai_response \<times> string list)" where
  "validateAiDraftOutput safeParse i = (case safeParse (aq_response i) of
     Inl issues \<Rightarrow> Inl (''MALFORMED_AI_OUTPUT'' # issues)
   | Inr data \<Rightarrow> (let errors = concat (map (sectionErrors i) (ar_sections data)) in
       if errors \<noteq> [] then Inl (firstSeen errors)
       else Inr (data, firstSeen (ar_overallWarnings data
         @ concat (map ai_warnings (ar_sections data))))))"

end
