(* ===== verification/NoticeExport.thy ===== *)
theory NoticeExport
  imports NoticeRules "HOL-Library.Word"
begin

unbundle bit_operations_syntax

text \<open>
  The export of an approved notice (\<open>packages/notice-drafting/src/export.ts\<close>): the manifest, the
  PDF and DOCX writers and the ZIP archive, byte for byte.  A \<open>Buffer\<close> is a \<open>string\<close>
  of bytes; \<open>writeUInt16LE\<close> and \<open>writeUInt32LE\<close> throw on a number that does not fit.
  SHA-256, the JSON text of a manifest and the clock are parameters.
\<close>

section \<open>The ZIP archive\<close>

text \<open>The CRC-32 of the archive, on 32-bit words.\<close>

definition crcBit :: "32 word \<Rightarrow> 32 word" where
  "crcBit c = (if c AND 1 \<noteq> 0 then drop_bit 1 c XOR 0xedb88320 else drop_bit 1 c)"

definition crcByte :: "32 word \<Rightarrow> char \<Rightarrow> 32 word" where
  "crcByte c b = (crcBit ^^ 8) (c XOR word_of_nat (of_char b))"

definition crc32 :: "string \<Rightarrow> 32 word" where
  "crc32 buf = NOT (foldl crcByte (NOT 0) buf)"

definition byteOf :: "nat \<Rightarrow> char" where
  "byteOf n = char_of n"

definition le16 :: "nat \<Rightarrow> string" where
  "le16 n = [byteOf n, byteOf (n div 256)]"

definition le32 :: "nat \<Rightarrow> string" where
  "le32 n = [byteOf n, byteOf (n div 256), byteOf (n div 65536), byteOf (n div 16777216)]"

definition writeUInt16LE :: "nat \<Rightarrow> string + string" where
  "writeUInt16LE n = (if n < 65536 then Inr (le16 n) else Inl ''ERR_OUT_OF_RANGE'')"

definition writeUInt32LE :: "nat \<Rightarrow> string + string" where
  "writeUInt32LE n = (if n < 4294967296 then Inr (le32 n) else Inl ''ERR_OUT_OF_RANGE'')"

text \<open>The fields of a header, written one after the other.\<close>

fun writeAll :: "(string + string) list \<Rightarrow> string + string" where
  "writeAll [] = Inr []"
| "writeAll (w # ws) = bind_res w (\<lambda>a. bind_res (writeAll ws) (\<lambda>b. Inr (a @ b)))"

record zip_entry =
  ze_name :: string
  ze_data :: string

definition localHeader :: "zip_entry \<Rightarrow> string + string" where
  "localHeader e = writeAll
     [writeUInt32LE 0x04034b50, writeUInt16LE 20, writeUInt16LE 0, writeUInt16LE 0,
      writeUInt16LE 0, writeUInt16LE 0, writeUInt32LE (unat (crc32 (ze_data e))),
      writeUInt32LE (length (ze_data e)), writeUInt32LE (length (ze_data e)),
      writeUInt16LE (length (ze_name e)), writeUInt16LE 0, Inr (ze_name e)]"

definition centralHeader :: "nat \<Rightarrow> zip_entry \<Rightarrow> string + string" where
  "centralHeader offset e = writeAll
     [writeUInt32LE 0x02014b50, writeUInt16LE 20, writeUInt16LE 20, writeUInt16LE 0,
      writeUInt16LE 0, writeUInt16LE 0, writeUInt16LE 0,
      writeUInt32LE (unat (crc32 (ze_data e))), writeUInt32LE (length (ze_data e)),
      writeUInt32LE (length (ze_data e)), writeUInt16LE (length (ze_name e)), writeUInt16LE 0,
      writeUInt16LE 0, writeUInt16LE 0, writeUInt16LE 0, writeUInt32LE 0, writeUInt32LE offset,
      Inr (ze_name e)]"

text \<open>The loop over the entries: the local parts and the central parts.\<close>

fun zipParts :: "nat \<Rightarrow> zip_entry list \<Rightarrow> string + (string \<times> string)" where
  "zipParts offset [] = Inr ([], [])"
| "zipParts offset (e # es) =
     bind_res (localHeader e) (\<lambda>l.
     bind_res (centralHeader offset e) (\<lambda>c.
     bind_res (zipParts (offset + length l + length (ze_data e)) es) (\<lambda>(ls, cs).
     Inr (l @ ze_data e @ ls, c @ cs))))"

definition endRecord :: "nat \<Rightarrow> nat \<Rightarrow> nat \<Rightarrow> string + string" where
  "endRecord entryCount centralSize centralOffset = writeAll
     [writeUInt32LE 0x06054b50, writeUInt16LE 0, writeUInt16LE 0, writeUInt16LE entryCount,
      writeUInt16LE entryCount, writeUInt32LE centralSize, writeUInt32LE centralOffset,
      writeUInt16LE 0]"

definition zipStore :: "zip_entry list \<Rightarrow> string + string" where
  "zipStore entries =
     bind_res (zipParts 0 entries) (\<lambda>(localBlob, centralBlob).
     bind_res (endRecord (length entries) (length centralBlob) (length localBlob)) (\<lambda>e.
     Inr (localBlob @ centralBlob @ e)))"

definition unsafeFilename :: "string \<Rightarrow> bool" where
  "unsafeFilename f \<longleftrightarrow> includesStr f ''..'' \<or> startsWith f ''/'' \<or> includesStr f [CHR 92]"

definition buildAttachmentZip :: "zip_entry list \<Rightarrow> string + string" where
  "buildAttachmentZip files =
     (if list_ex (\<lambda>f. unsafeFilename (ze_name f)) files then Inl ''PATH_TRAVERSAL_REJECTED''
      else zipStore files)"

section \<open>The PDF\<close>

text \<open>\<open>text.split('\n')\<close>.\<close>

fun splitLines :: "units \<Rightarrow> units list" where
  "splitLines [] = [[]]"
| "splitLines (c # cs) = (if c = 10 then [] # splitLines cs
     else (case splitLines cs of [] \<Rightarrow> [[c]] | l # ls \<Rightarrow> (c # l) # ls))"

text \<open>
  The replacements of \<open>safe\<close>: a backslash is doubled first, so that the backslashes before
  the parentheses stay single; a unit that is not printable ASCII becomes a question mark.
\<close>

definition safeUnit :: "nat \<Rightarrow> string" where
  "safeUnit c =
     (if c = 92 then [CHR 92, CHR 92]
      else if c = 40 then [CHR 92, CHR 40]
      else if c = 41 then [CHR 92, CHR 41]
      else if c \<in> {9, 10, 13} \<or> (32 \<le> c \<and> c \<le> 126) then [char_of c]
      else ''?'')"

definition safeText :: "units \<Rightarrow> string" where
  "safeText line = concat (map safeUnit line)"

definition contentLine :: "nat \<Rightarrow> units \<Rightarrow> string" where
  "contentLine i line = ''BT /F1 11 Tf 50 '' @ showInt (750 - int i * 14) @ '' Td ('' @
     safeText (take 90 line) @ '') Tj ET''"

definition pdfLines :: "string \<Rightarrow> string \<Rightarrow> units list" where
  "pdfLines title body = take 40 (splitLines (units (title @ [CHR 10, CHR 10] @ body)))"

definition pdfStream :: "string \<Rightarrow> string \<Rightarrow> string" where
  "pdfStream title body = joinWith [CHR 10]
     (map (\<lambda>(i, line). contentLine i line) (enumerate 0 (pdfLines title body)))"

definition nl :: string where "nl = [CHR 10]"

definition pdfObjects :: "string \<Rightarrow> string list" where
  "pdfObjects stream =
     [''1 0 obj<< /Type /Catalog /Pages 2 0 R >>endobj'' @ nl,
      ''2 0 obj<< /Type /Pages /Kids [3 0 R] /Count 1 >>endobj'' @ nl,
      ''3 0 obj<< /Type /Page /Parent 2 0 R /MediaBox [0 0 612 792] /Contents 4 0 R ''
        @ ''/Resources << /Font << /F1 5 0 R >> >> >>endobj'' @ nl,
      ''4 0 obj<< /Length '' @ showNat (length stream) @ '' >>stream'' @ nl @ stream @ nl
        @ ''endstream'' @ nl @ ''endobj'' @ nl,
      ''5 0 obj<< /Type /Font /Subtype /Type1 /BaseFont /Helvetica >>endobj'' @ nl]"

text \<open>The loop that appends the objects and keeps their offsets.\<close>

fun appendObjects :: "string \<Rightarrow> nat list \<Rightarrow> string list \<Rightarrow> string \<times> nat list" where
  "appendObjects pdf offsets [] = (pdf, offsets)"
| "appendObjects pdf offsets (obj # objs) =
     appendObjects (pdf @ obj) (offsets @ [length pdf]) objs"

definition padStart10 :: "string \<Rightarrow> string" where
  "padStart10 s = replicate (10 - length s) CHR ''0'' @ s"

definition xrefLine :: "nat \<Rightarrow> string" where
  "xrefLine offset = padStart10 (showNat offset) @ '' 00000 n '' @ nl"

definition buildSimplePdf :: "string \<Rightarrow> string \<Rightarrow> string" where
  "buildSimplePdf title body = (let objs = pdfObjects (pdfStream title body);
       (pdf, offsets) = appendObjects (''%PDF-1.4'' @ nl) [0] objs in
     pdf @ ''xref'' @ nl @ ''0 '' @ showNat (length objs + 1) @ nl
     @ ''0000000000 65535 f '' @ nl @ concat (map xrefLine (tl offsets))
     @ ''trailer<< /Size '' @ showNat (length objs + 1) @ '' /Root 1 0 R >>'' @ nl
     @ ''startxref'' @ nl @ showNat (length pdf) @ nl @ ''%%EOF'')"

section \<open>The DOCX\<close>

definition escapeXmlChar :: "char \<Rightarrow> string" where
  "escapeXmlChar c = (if c = CHR 38 then CHR 38 # ''amp;'' else if c = CHR 60 then CHR 38 # ''lt;''
     else if c = CHR 62 then CHR 38 # ''gt;'' else [c])"

definition escapeXml :: "string \<Rightarrow> string" where
  "escapeXml s = concat (map escapeXmlChar s)"

text \<open>\<open>split('\n')\<close> on bytes.\<close>

fun splitText :: "string \<Rightarrow> string list" where
  "splitText [] = [[]]"
| "splitText (c # cs) = (if c = CHR 10 then [] # splitText cs
     else (case splitText cs of [] \<Rightarrow> [[c]] | l # ls \<Rightarrow> (c # l) # ls))"

definition dq :: string where "dq = [CHR 34]"

definition docxParagraph :: "string \<Rightarrow> string" where
  "docxParagraph line = ''<w:p><w:r><w:t xml:space='' @ dq @ ''preserve'' @ dq @ ''>''
     @ escapeXml line @ ''</w:t></w:r></w:p>''"

definition xmlDeclaration :: string where
  "xmlDeclaration = ''<?xml version='' @ dq @ ''1.0'' @ dq @ '' encoding='' @ dq @ ''UTF-8'' @ dq
     @ '' standalone='' @ dq @ ''yes'' @ dq @ ''?>'' @ nl"

definition documentXml :: "string \<Rightarrow> string \<Rightarrow> string" where
  "documentXml title body = xmlDeclaration
     @ ''<w:document xmlns:w='' @ dq
     @ ''http://schemas.openxmlformats.org/wordprocessingml/2006/main'' @ dq @ ''>'' @ nl
     @ ''  <w:body>'' @ concat (map docxParagraph (splitText (title @ nl @ body)))
     @ ''<w:sectPr/></w:body>'' @ nl @ ''</w:document>''"

definition contentTypes :: string where
  "contentTypes = xmlDeclaration
     @ ''<Types xmlns='' @ dq @ ''http://schemas.openxmlformats.org/package/2006/content-types''
     @ dq @ ''>'' @ nl
     @ ''  <Default Extension='' @ dq @ ''rels'' @ dq @ '' ContentType='' @ dq
     @ ''application/vnd.openxmlformats-package.relationships+xml'' @ dq @ ''/>'' @ nl
     @ ''  <Default Extension='' @ dq @ ''xml'' @ dq @ '' ContentType='' @ dq @ ''application/xml''
     @ dq @ ''/>'' @ nl
     @ ''  <Override PartName='' @ dq @ ''/word/document.xml'' @ dq @ '' ContentType='' @ dq
     @ ''application/vnd.openxmlformats-officedocument.wordprocessingml.document.main+xml'' @ dq
     @ ''/>'' @ nl @ ''</Types>''"

definition relsXml :: string where
  "relsXml = xmlDeclaration
     @ ''<Relationships xmlns='' @ dq
     @ ''http://schemas.openxmlformats.org/package/2006/relationships'' @ dq @ ''>'' @ nl
     @ ''  <Relationship Id='' @ dq @ ''rId1'' @ dq @ '' Type='' @ dq
     @ ''http://schemas.openxmlformats.org/officeDocument/2006/relationships/officeDocument'' @ dq
     @ '' Target='' @ dq @ ''word/document.xml'' @ dq @ ''/>'' @ nl @ ''</Relationships>''"

definition buildSimpleDocx :: "string \<Rightarrow> string \<Rightarrow> string + string" where
  "buildSimpleDocx title body = zipStore
     [\<lparr>ze_name = ''[Content_Types].xml'', ze_data = contentTypes\<rparr>,
      \<lparr>ze_name = ''_rels/.rels'', ze_data = relsXml\<rparr>,
      \<lparr>ze_name = ''word/document.xml'', ze_data = documentXml title body\<rparr>]"

section \<open>The manifest and the export\<close>

record manifest_attachment =
  ma_id :: string
  ma_filename :: string
  ma_checksumSha256 :: "string option"
  ma_sequence :: int

record export_manifest =
  em_format :: string
  em_noticePackageId :: string
  em_draftRevisionId :: string
  em_revisionNumber :: nat
  em_language :: string
  em_secondaryLanguage :: "string option"
  em_governingLanguage :: string
  em_translationStatus :: string
  em_templateVersion :: string
  em_generatorVersion :: string
  em_generatedAt :: string
  em_approvedAt :: "string option"
  em_checksumSha256 :: string
  em_attachments :: "manifest_attachment list"
  em_recipientPreparationIds :: "string list"
  em_approvalDecisionId :: "string option"
  em_excludesInternalComments :: bool
  em_excludesProviderMetadata :: bool
  em_deliveryAuthorized :: bool

record manifest_input =
  mi_noticePackageId :: string
  mi_draftRevisionId :: string
  mi_revisionNumber :: nat
  mi_language :: string
  mi_secondaryLanguage :: "string option"
  mi_governingLanguage :: "string option"
  mi_translationStatus :: "string option"
  mi_templateVersion :: "string option"
  mi_generatorVersion :: string
  mi_approvedAt :: "string option"
  mi_plainTextBody :: string
  mi_attachments :: "manifest_attachment list"
  mi_recipientPreparationIds :: "string list"
  mi_approvalDecisionId :: "string option"

definition buildExportManifest ::
  "(string \<Rightarrow> string) \<Rightarrow> string \<Rightarrow> manifest_input \<Rightarrow> export_manifest" where
  "buildExportManifest sha256Hex now i =
     \<lparr>em_format = ''json_manifest'', em_noticePackageId = mi_noticePackageId i,
      em_draftRevisionId = mi_draftRevisionId i, em_revisionNumber = mi_revisionNumber i,
      em_language = mi_language i, em_secondaryLanguage = mi_secondaryLanguage i,
      em_governingLanguage = orText (mi_governingLanguage i) (mi_language i),
      em_translationStatus = orText (mi_translationStatus i) ''SOURCE'',
      em_templateVersion = orText (mi_templateVersion i) NOTICE_TEMPLATE_VERSION,
      em_generatorVersion = mi_generatorVersion i, em_generatedAt = now,
      em_approvedAt = mi_approvedAt i, em_checksumSha256 = sha256Hex (mi_plainTextBody i),
      em_attachments = mi_attachments i,
      em_recipientPreparationIds = mi_recipientPreparationIds i,
      em_approvalDecisionId = mi_approvalDecisionId i, em_excludesInternalComments = True,
      em_excludesProviderMetadata = True, em_deliveryAuthorized = False\<rparr>"

record export_attachment = manifest_attachment +
  xa_content :: string

record export_input =
  xi_title :: string
  xi_sections :: "assembled_section list"
  xi_noticePackageId :: string
  xi_draftRevisionId :: string
  xi_revisionNumber :: nat
  xi_language :: string
  xi_generatorVersion :: string
  xi_attachments :: "export_attachment list"
  xi_recipientPreparationIds :: "string list"
  xi_approvalDecisionId :: "string option"
  xi_approvedAt :: "string option"

record exported_notice =
  xo_plainText :: string
  xo_manifest :: export_manifest
  xo_pdf :: string
  xo_docx :: string
  xo_zip :: string
  xo_pdfChecksum :: string
  xo_docxChecksum :: string
  xo_zipChecksum :: string

text \<open>\<open>/\[INTERNAL\]|INTERNAL ONLY/i.test(text)\<close>.\<close>

definition INTERNAL_RX :: rx where
  "INTERNAL_RX = altOf [textCi ''[INTERNAL]'', textCi ''INTERNAL ONLY'']"

definition internalMark :: "string \<Rightarrow> bool" where
  "internalMark s \<longleftrightarrow> testRx INTERNAL_RX (units s)"

definition exportText :: "export_input \<Rightarrow> string" where
  "exportText i = renderPlainText (filter (\<lambda>s. \<not> sn_internalOnly s) (xi_sections i)) False"

definition exportManifest ::
  "(string \<Rightarrow> string) \<Rightarrow> string \<Rightarrow> export_input \<Rightarrow> export_manifest" where
  "exportManifest sha256Hex now i = buildExportManifest sha256Hex now
     \<lparr>mi_noticePackageId = xi_noticePackageId i, mi_draftRevisionId = xi_draftRevisionId i,
      mi_revisionNumber = xi_revisionNumber i, mi_language = xi_language i,
      mi_secondaryLanguage = None, mi_governingLanguage = None, mi_translationStatus = None,
      mi_templateVersion = None, mi_generatorVersion = xi_generatorVersion i,
      mi_approvedAt = xi_approvedAt i, mi_plainTextBody = exportText i,
      mi_attachments = map manifest_attachment.truncate (xi_attachments i),
      mi_recipientPreparationIds = xi_recipientPreparationIds i,
      mi_approvalDecisionId = xi_approvalDecisionId i\<rparr>"

definition archiveFiles ::
  "(export_manifest \<Rightarrow> string) \<Rightarrow> export_manifest \<Rightarrow> export_input \<Rightarrow> zip_entry list" where
  "archiveFiles stringify manifest i =
     [\<lparr>ze_name = ''notice.txt'', ze_data = exportText i\<rparr>,
      \<lparr>ze_name = ''manifest.json'', ze_data = stringify manifest\<rparr>]
     @ map (\<lambda>a. \<lparr>ze_name = ma_filename a, ze_data = xa_content a\<rparr>) (xi_attachments i)"

definition exportApprovedNotice ::
  "(string \<Rightarrow> string) \<Rightarrow> (export_manifest \<Rightarrow> string) \<Rightarrow> string \<Rightarrow> export_input
    \<Rightarrow> string + exported_notice" where
  "exportApprovedNotice sha256Hex stringify now i = (let plainText = exportText i in
     if internalMark plainText then Inl ''INTERNAL_COMMENT_LEAK''
     else (let manifest = exportManifest sha256Hex now i;
               pdf = buildSimplePdf (xi_title i) plainText in
       bind_res (buildSimpleDocx (xi_title i) plainText) (\<lambda>docx.
       bind_res (buildAttachmentZip (archiveFiles stringify manifest i)) (\<lambda>zipped.
       Inr \<lparr>xo_plainText = plainText, xo_manifest = manifest, xo_pdf = pdf, xo_docx = docx,
            xo_zip = zipped, xo_pdfChecksum = sha256Hex pdf, xo_docxChecksum = sha256Hex docx,
            xo_zipChecksum = sha256Hex zipped\<rparr>))))"

end
