(* ===== verification/NoticeTables.thy ===== *)
theory NoticeTables
  imports DeliveryService DeadlineService NoticeExport
begin

text \<open>
  The rows of notice packages, with the columns \<open>apps/web/src/server/services/notices.ts\<close> reads
  or writes.  The tables extend those of the deadline service, whose calculations, events and dates
  the service reads.
\<close>

section \<open>Rows and state\<close>

datatype draft_status =
    DF_DRAFT | DF_IN_REVIEW | DF_CHANGES_REQUESTED | DF_APPROVED | DF_SUPERSEDED | DF_WITHDRAWN

datatype question_status =
    QS_OPEN | QS_ANSWERED | QS_RESOLVED | QS_DISPUTED | QS_NOT_APPLICABLE | QS_WITHDRAWN

datatype question_priority = QP_LOW | QP_NORMAL | QP_HIGH | QP_CRITICAL

datatype fact_status =
    FV_UNVERIFIED | FV_EVIDENCE_BACKED | FV_HUMAN_CONFIRMED | FV_DISPUTED | FV_SUPERSEDED

fun fact_status_name :: "fact_status \<Rightarrow> string" where
  "fact_status_name FV_UNVERIFIED = ''UNVERIFIED''"
| "fact_status_name FV_EVIDENCE_BACKED = ''EVIDENCE_BACKED''"
| "fact_status_name FV_HUMAN_CONFIRMED = ''HUMAN_CONFIRMED''"
| "fact_status_name FV_DISPUTED = ''DISPUTED''"
| "fact_status_name FV_SUPERSEDED = ''SUPERSEDED''"

datatype inclusion_status = IC_PROPOSED | IC_INCLUDED | IC_EXCLUDED | IC_MISSING | IC_SUPERSEDED

datatype decision_type =
    AD_SUBMITTED | AD_CHANGES_REQUESTED | AD_RECOMMENDED_FOR_APPROVAL | AD_APPROVED | AD_REJECTED
    | AD_WITHDRAWN | AD_SUPERSEDED

datatype comment_status = CS_OPEN | CS_RESOLVED | CS_WITHDRAWN

datatype export_format = XF_PDF | XF_DOCX | XF_JSON_MANIFEST | XF_ATTACHMENT_ZIP | XF_PLAIN_TEXT

fun export_format_name :: "export_format \<Rightarrow> string" where
  "export_format_name XF_PDF = ''PDF''"
| "export_format_name XF_DOCX = ''DOCX''"
| "export_format_name XF_JSON_MANIFEST = ''JSON_MANIFEST''"
| "export_format_name XF_ATTACHMENT_ZIP = ''ATTACHMENT_ZIP''"
| "export_format_name XF_PLAIN_TEXT = ''PLAIN_TEXT''"

fun preparation_status_name :: "preparation_status \<Rightarrow> string" where
  "preparation_status_name PV_UNVERIFIED = ''UNVERIFIED''"
| "preparation_status_name PV_VERIFIED = ''VERIFIED''"
| "preparation_status_name PV_DISPUTED = ''DISPUTED''"
| "preparation_status_name PV_MISSING = ''MISSING''"
| "preparation_status_name PV_SUPERSEDED = ''SUPERSEDED''"

text \<open>What a package is bound to when it is made.\<close>

record package_binding =
  bi_contractPackageId :: string
  bi_configurationRevisionId :: string
  bi_approvedNoticeRuleSnapshotId :: string
  bi_projectEventId :: string
  bi_eventRuleAssessmentId :: string
  bi_deadlineCalculationId :: string
  bi_projectDeadlineId :: "string option"
  bi_deadlineAt :: "int option"
  bi_deadlineTimezone :: string

record package_row =
  nk_id :: string
  nk_tenantId :: string
  nk_projectId :: string
  nk_binding :: package_binding
  nk_noticeType :: string
  nk_title :: string
  nk_reference :: "string option"
  nk_status :: package_status
  nk_language :: string
  nk_secondaryLanguage :: "string option"
  nk_createdByUserId :: string
  nk_approverUserId :: "string option"
  nk_activeApprovedRevisionId :: "string option"
  nk_sodEnforced :: bool

text \<open>The columns of an approved rule the notice copies, with the number of its clause.\<close>

record rule_text =
  nt_id :: string
  nt_sourceObligationId :: string
  nt_sourceClauseId :: "string option"
  nt_clauseNumber :: "string option"
  nt_contentRequirements :: "string option"
  nt_consequenceText :: "string option"
  nt_recipientRequirements :: "string option"
  nt_deliveryMethodRequirements :: "string option"
  nt_timeBarClassification :: string

record requirement_row =
  ny_id :: string
  ny_tenantId :: string
  ny_projectId :: string
  ny_noticePackageId :: string
  ny_approvedNoticeRuleSnapshotId :: string
  ny_sourceObligationId :: string
  ny_sourceClauseId :: "string option"
  ny_sourceClauseReference :: "string option"
  ny_requiredRecipients :: "string option"
  ny_requiredDeliveryMethods :: "string option"
  ny_requiredContentItems :: "string option"
  ny_requiredReservationLanguage :: "string option"
  ny_consequenceText :: "string option"
  ny_verifiedDeadlineAt :: "int option"
  ny_verifiedDeadlineTimezone :: string
  ny_timeBarClassification :: string

record evidence_requirement =
  ne_id :: string
  ne_tenantId :: string
  ne_projectId :: string
  ne_noticePackageId :: string
  ne_category :: string
  ne_description :: string
  ne_mandatoryStatus :: mandatory_status
  ne_satisfactionStatus :: satisfaction_status
  ne_approvedRuleSnapshotId :: string
  ne_waiverRationale :: "string option"

record link_input =
  nl_evidenceRequirementId :: string
  nl_role :: string
  nl_sourceDocumentId :: "string option"
  nl_documentVersionId :: "string option"
  nl_evidenceSegmentId :: "string option"
  nl_projectEventEvidenceId :: "string option"
  nl_reviewerAuthoredStatement :: "string option"
  nl_satisfactionStatus :: "satisfaction_status option"

record evidence_link =
  nh_id :: string
  nh_tenantId :: string
  nh_projectId :: string
  nh_noticePackageId :: string
  nh_evidenceRequirementId :: string
  nh_link :: link_input

record completeness_row =
  nz_id :: string
  nz_tenantId :: string
  nz_projectId :: string
  nz_noticePackageId :: string
  nz_assessmentRevision :: nat
  nz_completenessStatus :: completeness_status
  nz_blockingIssues :: "string list"
  nz_nonBlockingWarnings :: "string list"
  nz_assessedByUserId :: string
  nz_assessedAt :: int
  nz_rulesetVersion :: string

record question_input =
  qi_category :: string
  qi_questionText :: string
  qi_reason :: "string option"
  qi_relatedEvidenceRequirementId :: "string option"
  qi_answerType :: string
  qi_priority :: question_priority

record question_row =
  nu_id :: string
  nu_tenantId :: string
  nu_projectId :: string
  nu_noticePackageId :: string
  nu_input :: question_input
  nu_status :: question_status
  nu_responseText :: "string option"
  nu_responseVerified :: bool
  nu_raisedByUserId :: string
  nu_answeredByUserId :: "string option"
  nu_answeredAt :: "int option"
  nu_reviewedByUserId :: "string option"
  nu_resolvedAt :: "int option"

record fact_row =
  nc_id :: string
  nc_tenantId :: string
  nc_projectId :: string
  nc_noticePackageId :: string
  nc_factType :: string
  nc_label :: string
  nc_value :: string
  nc_sourceType :: string
  nc_projectEventId :: "string option"
  nc_reviewerEntered :: bool
  nc_verificationStatus :: fact_status
  nc_approvedForDrafting :: bool
  nc_approvedByUserId :: "string option"
  nc_approvedAt :: "int option"

record preparation_row =
  nb_id :: string
  nb_tenantId :: string
  nb_projectId :: string
  nb_noticePackageId :: string
  nb_recipientRole :: "string option"
  nb_namedRecipient :: "string option"
  nb_physicalAddress :: "string option"
  nb_emailAddress :: "string option"
  nb_platformAddress :: "string option"
  nb_permittedMethod :: "string option"
  nb_selectedMethod :: "string option"
  nb_copiedRecipient :: bool
  nb_verificationStatus :: preparation_status
  nb_reviewerApproved :: bool
  nb_contactPointId :: "string option"
  nb_obligationRecipientId :: "string option"

record draft_row =
  nv_id :: string
  nv_tenantId :: string
  nv_projectId :: string
  nv_noticePackageId :: string
  nv_revisionNumber :: nat
  nv_status :: draft_status
  nv_language :: string
  nv_templateVersion :: string
  nv_generatedBy :: string
  nv_generatorVersion :: string
  nv_basedOnAssessmentRevision :: "nat option"
  nv_basedOnRequirementSnapshotId :: "string option"
  nv_createdByUserId :: string
  nv_submittedAt :: "int option"
  nv_approvedAt :: "int option"
  nv_validationSnapshot :: "validation_result option"

record section_line =
  nw_id :: string
  nw_tenantId :: string
  nw_projectId :: string
  nw_draftRevisionId :: string
  nw_content :: assembled_section

record decision_row =
  nd_id :: string
  nd_tenantId :: string
  nd_projectId :: string
  nd_noticePackageId :: string
  nd_draftRevisionId :: string
  nd_decision :: decision_type
  nd_actorUserId :: string
  nd_rationale :: "string option"
  nd_validationSnapshot :: "validation_result option"

record exception_input =
  xe_issueCategory :: string
  xe_description :: string
  xe_rationale :: string
  xe_risk :: "string option"

record exception_row =
  nj_id :: string
  nj_tenantId :: string
  nj_projectId :: string
  nj_noticePackageId :: string
  nj_input :: exception_input
  nj_approvedByUserId :: string

record attachment_input =
  xt_externalFilename :: string
  xt_category :: string
  xt_description :: "string option"
  xt_sourceDocumentId :: "string option"
  xt_documentVersionId :: "string option"

record attachment_row =
  ng_id :: string
  ng_tenantId :: string
  ng_projectId :: string
  ng_noticePackageId :: string
  ng_input :: attachment_input
  ng_inclusionStatus :: inclusion_status
  ng_sequence :: nat
  ng_checksumSha256 :: "string option"
  ng_addedByUserId :: string
  ng_reviewedByUserId :: "string option"

record bundle_row =
  nm_id :: string
  nm_tenantId :: string
  nm_projectId :: string
  nm_noticePackageId :: string
  nm_draftRevisionId :: string
  nm_format :: export_format
  nm_artifactChecksum :: string
  nm_artifactBytes :: nat
  nm_templateVersion :: string
  nm_language :: string
  nm_generatedByUserId :: string

record comment_input =
  xc_draftRevisionId :: string
  xc_sectionId :: "string option"
  xc_commentType :: string
  xc_commentText :: string
  xc_internalOnly :: bool

record comment_row =
  ni_id :: string
  ni_tenantId :: string
  ni_projectId :: string
  ni_noticePackageId :: string
  ni_input :: comment_input
  ni_status :: comment_status
  ni_raisedByUserId :: string
  ni_resolvedByUserId :: "string option"
  ni_resolvedAt :: "int option"

record contact_point =
  cpt_id :: string
  cpt_namedPerson :: "string option"
  cpt_organization :: "string option"
  cpt_physicalAddress :: "string option"
  cpt_emailAddress :: "string option"
  cpt_platformAddress :: "string option"
  cpt_permittedDeliveryMethod :: "string option"

record obligation_recipient =
  oc_id :: string
  oc_tenantId :: string
  oc_projectId :: string
  oc_obligationId :: string
  oc_recipientKind :: string
  oc_roleName :: "string option"
  oc_contactPoint :: "contact_point option"

text \<open>The tables, beside those of the deadline service.\<close>

record 'j notices_db = "'j deadlines_db" +
  nt_ruleTexts :: "rule_text list"
  nt_obligationRecipients :: "obligation_recipient list"
  nt_packages :: "package_row list"
  nt_requirements :: "requirement_row list"
  nt_evidence :: "evidence_requirement list"
  nt_links :: "evidence_link list"
  nt_assessments :: "completeness_row list"
  nt_questions :: "question_row list"
  nt_facts :: "fact_row list"
  nt_preparations :: "preparation_row list"
  nt_drafts :: "draft_row list"
  nt_sections :: "section_line list"
  nt_decisions :: "decision_row list"
  nt_exceptions :: "exception_row list"
  nt_attachments :: "attachment_row list"
  nt_bundles :: "bundle_row list"
  nt_comments :: "comment_row list"

type_synonym ('j, 'a) notices = "('j notices_db, 'a) svc"

record notices_env =
  nn_sod :: "string option"
  nn_appEnv :: "string option"
  nn_nodeEnv :: "string option"
  nn_aiProvider :: "string option"
  nn_now :: int
  nn_isoOf :: "int \<Rightarrow> string"
  nn_sha :: "string \<Rightarrow> string"
  nn_stringify :: "export_manifest \<Rightarrow> string"
  nn_stringifyPretty :: "export_manifest \<Rightarrow> string"
  nn_aiSchema :: "ai_response \<Rightarrow> string list + ai_response"

end
