(* ===== verification/NoticeService.thy ===== *)
theory NoticeService
  imports NoticeTables
begin

text \<open>
  The operations on notice packages (\<open>apps/web/src/server/services/notices.ts\<close>) and the adapter
  of the drafting model (\<open>server/notices/ai-provider.ts\<close>): a package is made from a verified
  deadline, its evidence assessed, drafts generated, edited, validated, approved and exported.
  A query without an organization sees the organization's rows only (the policy
  \<open>tenant_isolation\<close>).  The triggers that keep an approved revision and its sections as they
  are make the update fail.  The check \<open>assertNoSendOperations\<close> passes: the module exports
  none of the names.
\<close>

section \<open>Helpers\<close>

definition noticeSodEnabled :: "notices_env \<Rightarrow> bool" where
  "noticeSodEnabled env \<longleftrightarrow> nn_sod env \<noteq> Some ''false''"

text \<open>\<open><[^>]*>\<close> at the start of a text.\<close>

definition matchTag :: "string \<Rightarrow> string option" where
  "matchTag s = (case s of
       [] \<Rightarrow> None
     | c # cs \<Rightarrow> if c \<noteq> CHR 60 then None
         else (case dropWhile (\<lambda>x. x \<noteq> CHR 62) cs of [] \<Rightarrow> None | d # rest \<Rightarrow> Some rest))"

text \<open>\<open>replace(/.../gi, new)\<close> for a text without special characters, given in lower case.\<close>

fun replaceCi :: "string \<Rightarrow> string \<Rightarrow> string \<Rightarrow> string" where
  "replaceCi old new [] = []"
| "replaceCi old new (c # cs) =
     (if old \<noteq> [] \<and> startsWithCi (c # cs) old
      then new @ replaceCi old new (drop (length old - 1) cs)
      else c # replaceCi old new cs)"

definition stripHtml :: "string \<Rightarrow> string" where
  "stripHtml input = trim
     (replaceCi (CHR 38 # ''gt;'') [CHR 62]
       (replaceCi (CHR 38 # ''lt;'') [CHR 60]
         (replaceCi (CHR 38 # ''amp;'') [CHR 38]
           (replaceCi (CHR 38 # ''nbsp;'') '' '' (removeMatches matchTag input)))))"

text \<open>The row with the largest number, as \<open>orderBy ... desc\<close> and \<open>take 1\<close> give it.\<close>

fun latestBy :: "('a \<Rightarrow> nat) \<Rightarrow> 'a list \<Rightarrow> 'a option" where
  "latestBy k [] = None"
| "latestBy k (x # xs) = (case latestBy k xs of
     None \<Rightarrow> Some x | Some y \<Rightarrow> if k y \<le> k x then Some x else Some y)"

definition lastOf :: "'a list \<Rightarrow> 'a option" where
  "lastOf xs = (if xs = [] then None else Some (last xs))"

definition findNotice :: "string \<Rightarrow> string \<Rightarrow> string \<Rightarrow> 'j notices_db \<Rightarrow> package_row option" where
  "findNotice tenantId projectId noticePackageId d =
     find (\<lambda>p. nk_id p = noticePackageId \<and> nk_tenantId p = tenantId \<and> nk_projectId p = projectId)
       (nt_packages d)"

text \<open>A package with the rows \<open>PACKAGE_INCLUDE\<close> adds and the service uses.\<close>

record loaded_package =
  lp_package :: package_row
  lp_requirement :: "requirement_row option"
  lp_evidence :: "evidence_requirement list"
  lp_preparations :: "preparation_row list"
  lp_facts :: "fact_row list"
  lp_assessment :: "completeness_row option"

definition includeRows :: "package_row \<Rightarrow> 'j notices_db \<Rightarrow> loaded_package" where
  "includeRows p d =
     \<lparr>lp_package = p,
      lp_requirement = lastOf (filter (\<lambda>r. ny_noticePackageId r = nk_id p) (nt_requirements d)),
      lp_evidence = filter (\<lambda>r. ne_noticePackageId r = nk_id p) (nt_evidence d),
      lp_preparations = filter (\<lambda>r. nb_noticePackageId r = nk_id p) (nt_preparations d),
      lp_facts = filter (\<lambda>r. nc_noticePackageId r = nk_id p) (nt_facts d),
      lp_assessment = latestBy nz_assessmentRevision
        (filter (\<lambda>r. nz_noticePackageId r = nk_id p) (nt_assessments d))\<rparr>"

definition loadNotice :: "string \<Rightarrow> string \<Rightarrow> string \<Rightarrow> ('j, loaded_package) notices" where
  "loadNotice tenantId projectId noticePackageId =
     bindH (findOr notFound (findNotice tenantId projectId noticePackageId)) (\<lambda>p.
     readDb (includeRows p))"

text \<open>The revisions of a package that a transaction of the organization sees.\<close>

definition draftsOf :: "string \<Rightarrow> string \<Rightarrow> 'j notices_db \<Rightarrow> draft_row list" where
  "draftsOf tenantId noticePackageId d =
     filter (\<lambda>r. nv_tenantId r = tenantId \<and> nv_noticePackageId r = noticePackageId) (nt_drafts d)"

definition loadLatestDraft ::
  "string \<Rightarrow> string \<Rightarrow> 'j notices_db \<Rightarrow> draft_row option" where
  "loadLatestDraft tenantId noticePackageId d =
     latestBy nv_revisionNumber (draftsOf tenantId noticePackageId d)"

definition sectionsOf :: "string \<Rightarrow> 'j notices_db \<Rightarrow> section_line list" where
  "sectionsOf draftRevisionId d = filter (\<lambda>s. nw_draftRevisionId s = draftRevisionId) (nt_sections d)"

fun mapCompletenessToPackageStatus :: "completeness_status \<Rightarrow> package_status" where
  "mapCompletenessToPackageStatus CM_READY = NP_READY_FOR_DRAFT"
| "mapCompletenessToPackageStatus CM_CONDITIONALLY_READY = NP_READY_FOR_DRAFT"
| "mapCompletenessToPackageStatus _ = NP_EVIDENCE_INCOMPLETE"

definition EVIDENCE_DESCRIPTIONS :: "(string \<times> string) list" where
  "EVIDENCE_DESCRIPTIONS =
     [(''EVENT_OCCURRENCE'', ''Evidence that the triggering event occurred''),
      (''TRIGGER_DATE'', ''Verified trigger date for notice timing''),
      (''CONTRACTUAL_BASIS'', ''Approved notice rule snapshot and clause reference''),
      (''RECIPIENT'', ''Verified notice recipient''),
      (''DELIVERY_METHOD'', ''Permitted delivery method and contact point''),
      (''CONTEMPORARY_RECORDS'', ''Contemporary records supporting the notice'')]"

definition setNoticeStatus :: "string \<Rightarrow> string \<Rightarrow> package_status \<Rightarrow> ('j, unit) notices" where
  "setNoticeStatus tenantId noticePackageId st =
     bindH (readDb (\<lambda>d. list_ex (\<lambda>p. nk_id p = noticePackageId \<and> nk_tenantId p = tenantId)
       (nt_packages d))) (\<lambda>there.
     thenH (requireH there unexpectedError)
     (writeDb (\<lambda>d. d\<lparr>nt_packages :=
        updateWhere (\<lambda>p. nk_id p = noticePackageId \<and> nk_tenantId p = tenantId)
          (\<lambda>p. p\<lparr>nk_status := st\<rparr>) (nt_packages d)\<rparr>)))"

section \<open>Making a package\<close>

definition seedRequirementSnapshot ::
  "project_context \<Rightarrow> string \<Rightarrow> string \<Rightarrow> string \<Rightarrow> rule_text \<Rightarrow> calculation_row \<Rightarrow>
   ('j, requirement_row) notices" where
  "seedRequirementSnapshot ctx projectId noticePackageId newId snapshot calculation =
     bindH (readDb (\<lambda>d. find (\<lambda>r. ny_noticePackageId r = noticePackageId
       \<and> ny_tenantId r = cx_tenantId ctx) (nt_requirements d))) (\<lambda>existing.
     case existing of
       Some r \<Rightarrow> returnH r
     | None \<Rightarrow>
        (let created = \<lparr>ny_id = newId, ny_tenantId = cx_tenantId ctx, ny_projectId = projectId,
           ny_noticePackageId = noticePackageId, ny_approvedNoticeRuleSnapshotId = nt_id snapshot,
           ny_sourceObligationId = nt_sourceObligationId snapshot,
           ny_sourceClauseId = nt_sourceClauseId snapshot,
           ny_sourceClauseReference = nt_clauseNumber snapshot,
           ny_requiredRecipients = nt_recipientRequirements snapshot,
           ny_requiredDeliveryMethods = nt_deliveryMethodRequirements snapshot,
           ny_requiredContentItems = nt_contentRequirements snapshot,
           ny_requiredReservationLanguage = None,
           ny_consequenceText = nt_consequenceText snapshot,
           ny_verifiedDeadlineAt = dc_calculatedDeadlineAt calculation,
           ny_verifiedDeadlineTimezone = dc_deadlineTimezone calculation,
           ny_timeBarClassification = nt_timeBarClassification snapshot\<rparr>
         in thenH (writeDb (\<lambda>d. d\<lparr>nt_requirements := nt_requirements d @ [created]\<rparr>))
              (returnH created)))"

definition newEvidence ::
  "project_context \<Rightarrow> string \<Rightarrow> string \<Rightarrow> string \<Rightarrow> nat \<times> string \<Rightarrow> (nat \<Rightarrow> string) \<Rightarrow> evidence_requirement" where
  "newEvidence ctx projectId noticePackageId approvedRuleSnapshotId entry ids =
     \<lparr>ne_id = ids (fst entry), ne_tenantId = cx_tenantId ctx, ne_projectId = projectId,
      ne_noticePackageId = noticePackageId, ne_category = snd entry,
      ne_description = orText (map_of EVIDENCE_DESCRIPTIONS (snd entry)) (snd entry),
      ne_mandatoryStatus = CONTRACTUALLY_REQUIRED,
      ne_satisfactionStatus = (if snd entry = ''CONTRACTUAL_BASIS'' then SF_SATISFIED else SF_MISSING),
      ne_approvedRuleSnapshotId = approvedRuleSnapshotId, ne_waiverRationale = None\<rparr>"

definition seedEvidenceRequirements ::
  "project_context \<Rightarrow> string \<Rightarrow> string \<Rightarrow> string \<Rightarrow> (nat \<Rightarrow> string) \<Rightarrow> ('j, unit) notices" where
  "seedEvidenceRequirements ctx projectId noticePackageId approvedRuleSnapshotId ids =
     bindH (readDb (\<lambda>d. list_ex (\<lambda>r. ne_noticePackageId r = noticePackageId
       \<and> ne_tenantId r = cx_tenantId ctx) (nt_evidence d))) (\<lambda>existing.
     if existing then returnH ()
     else writeDb (\<lambda>d. d\<lparr>nt_evidence := nt_evidence d
       @ map (\<lambda>e. newEvidence ctx projectId noticePackageId approvedRuleSnapshotId e ids)
           (enumerate 0 DEFAULT_EVIDENCE_CATEGORIES)\<rparr>))"

text \<open>\<open>cp?.namedPerson ?? cp?.organization ?? r.contractRole?.roleName ?? r.recipientKind\<close>.\<close>

definition recipientLabel :: "obligation_recipient \<Rightarrow> string" where
  "recipientLabel r =
     orText (Option.bind (oc_contactPoint r) cpt_namedPerson)
       (orText (Option.bind (oc_contactPoint r) cpt_organization)
         (orText (oc_roleName r) (oc_recipientKind r)))"

definition newPreparation ::
  "project_context \<Rightarrow> string \<Rightarrow> string \<Rightarrow> (nat \<Rightarrow> string) \<Rightarrow> nat \<times> obligation_recipient \<Rightarrow> preparation_row" where
  "newPreparation ctx projectId noticePackageId ids entry = (let r = snd entry; cp = oc_contactPoint r in
     \<lparr>nb_id = ids (fst entry), nb_tenantId = cx_tenantId ctx, nb_projectId = projectId,
      nb_noticePackageId = noticePackageId,
      nb_recipientRole = Some (orText (oc_roleName r) (oc_recipientKind r)),
      nb_namedRecipient = Some (recipientLabel r),
      nb_physicalAddress = Option.bind cp cpt_physicalAddress,
      nb_emailAddress = Option.bind cp cpt_emailAddress,
      nb_platformAddress = Option.bind cp cpt_platformAddress,
      nb_permittedMethod = Option.bind cp cpt_permittedDeliveryMethod,
      nb_selectedMethod = Option.bind cp cpt_permittedDeliveryMethod,
      nb_copiedRecipient = False, nb_verificationStatus = PV_MISSING, nb_reviewerApproved = False,
      nb_contactPointId = map_option cpt_id cp, nb_obligationRecipientId = Some (oc_id r)\<rparr>)"

definition placeholderPreparation ::
  "project_context \<Rightarrow> string \<Rightarrow> string \<Rightarrow> string \<Rightarrow> string option \<Rightarrow> preparation_row" where
  "placeholderPreparation ctx projectId noticePackageId newId requiredNames =
     \<lparr>nb_id = newId, nb_tenantId = cx_tenantId ctx, nb_projectId = projectId,
      nb_noticePackageId = noticePackageId, nb_recipientRole = None,
      nb_namedRecipient =
        Some (orText requiredNames ''Recipient per approved snapshot (unverified)''),
      nb_physicalAddress = None, nb_emailAddress = None, nb_platformAddress = None,
      nb_permittedMethod = None, nb_selectedMethod = None, nb_copiedRecipient = False,
      nb_verificationStatus = PV_MISSING, nb_reviewerApproved = False, nb_contactPointId = None,
      nb_obligationRecipientId = None\<rparr>"

definition seedDeliveryPreparations ::
  "project_context \<Rightarrow> string \<Rightarrow> string \<Rightarrow> string \<Rightarrow> string option \<Rightarrow> (nat \<Rightarrow> string) \<Rightarrow> ('j, unit) notices" where
  "seedDeliveryPreparations ctx projectId noticePackageId obligationId requiredNames ids =
     bindH (readDb (\<lambda>d. list_ex (\<lambda>r. nb_noticePackageId r = noticePackageId
       \<and> nb_tenantId r = cx_tenantId ctx) (nt_preparations d))) (\<lambda>existing.
     if existing then returnH ()
     else bindH (readDb (\<lambda>d. filter (\<lambda>r. oc_obligationId r = obligationId
       \<and> oc_tenantId r = cx_tenantId ctx \<and> oc_projectId r = projectId)
       (nt_obligationRecipients d))) (\<lambda>recipients.
     writeDb (\<lambda>d. d\<lparr>nt_preparations := nt_preparations d
       @ (if recipients \<noteq> []
          then map (newPreparation ctx projectId noticePackageId ids) (enumerate 0 recipients)
          else [placeholderPreparation ctx projectId noticePackageId (ids 0) requiredNames])\<rparr>)))"

definition dateFactType :: "string \<Rightarrow> string" where
  "dateFactType dateType =
     (if dateType = ''AWARENESS_DATE'' then ''AWARENESS_DATE''
      else if dateType = ''INSTRUCTION_DATE'' then ''INSTRUCTION_DATE'' else ''EVENT_DATE'')"

definition seededFact ::
  "project_context \<Rightarrow> string \<Rightarrow> string \<Rightarrow> string \<Rightarrow> string \<Rightarrow> string \<Rightarrow> string \<Rightarrow> string \<Rightarrow> string option \<Rightarrow>
   fact_status \<Rightarrow> fact_row" where
  "seededFact ctx projectId noticePackageId newId factType label txt source eventId st =
     \<lparr>nc_id = newId, nc_tenantId = cx_tenantId ctx, nc_projectId = projectId,
      nc_noticePackageId = noticePackageId, nc_factType = factType, nc_label = label,
      nc_value = txt, nc_sourceType = source, nc_projectEventId = eventId,
      nc_reviewerEntered = False, nc_verificationStatus = st, nc_approvedForDrafting = False,
      nc_approvedByUserId = None, nc_approvedAt = None\<rparr>"

definition spacesForUnderscores :: "string \<Rightarrow> string" where
  "spacesForUnderscores = map (\<lambda>c. if c = CHR ''_'' then CHR '' '' else c)"

definition dateFact ::
  "notices_env \<Rightarrow> project_context \<Rightarrow> string \<Rightarrow> string \<Rightarrow> string \<Rightarrow> (nat \<Rightarrow> string) \<Rightarrow> nat \<times> event_date \<Rightarrow> fact_row" where
  "dateFact env ctx projectId noticePackageId eventId ids entry =
     (let x = snd entry; factType = dateFactType (vd_dateType x) in
      seededFact ctx projectId noticePackageId (ids (fst entry)) factType
        (spacesForUnderscores factType) (nn_isoOf env (vd_dateValue x)) ''PROJECT_EVENT_DATE''
        (Some eventId)
        (if vd_verificationStatus x = DV_VERIFIED then FV_EVIDENCE_BACKED else FV_UNVERIFIED))"

definition seedFactsFromEvent ::
  "notices_env \<Rightarrow> project_context \<Rightarrow> string \<Rightarrow> string \<Rightarrow> event_row \<Rightarrow> project \<Rightarrow> event_date list \<Rightarrow>
   (nat \<Rightarrow> string) \<Rightarrow> ('j, unit) notices" where
  "seedFactsFromEvent env ctx projectId noticePackageId event prj dates ids =
     bindH (readDb (\<lambda>d. list_ex (\<lambda>r. nc_noticePackageId r = noticePackageId
       \<and> nc_tenantId r = cx_tenantId ctx) (nt_facts d))) (\<lambda>existing.
     if existing then returnH ()
     else writeDb (\<lambda>d. d\<lparr>nt_facts := nt_facts d
       @ [seededFact ctx projectId noticePackageId (ids 0) ''PROJECT_NAME'' ''Project name''
            (prj_name prj @ '' ('' @ prj_code prj @ '')'') ''PROJECT_EVENT'' None FV_HUMAN_CONFIRMED,
          seededFact ctx projectId noticePackageId (ids 1) ''DESCRIPTION_OF_EVENT''
            ''Event description''
            (orText (vi_description (ve_input event)) (vi_title (ve_input event)))
            ''PROJECT_EVENT'' (Some (ve_id event)) FV_UNVERIFIED]
       @ map (dateFact env ctx projectId noticePackageId (ve_id event) ids) (enumerate 2 dates)\<rparr>))"

record create_notice_input =
  cni_deadlineCalculationId :: string
  cni_noticeType :: string
  cni_title :: string
  cni_language :: string
  cni_secondaryLanguage :: "string option"
  cni_projectDeadlineId :: "string option"
  cni_reference :: "string option"

definition newPackage ::
  "notices_env \<Rightarrow> project_context \<Rightarrow> string \<Rightarrow> string \<Rightarrow> create_notice_input \<Rightarrow> calculation_row \<Rightarrow> package_row" where
  "newPackage env ctx newId projectId data calculation =
     \<lparr>nk_id = newId, nk_tenantId = cx_tenantId ctx, nk_projectId = projectId,
      nk_binding = \<lparr>bi_contractPackageId = dc_contractPackageId calculation,
        bi_configurationRevisionId = dc_configurationRevisionId calculation,
        bi_approvedNoticeRuleSnapshotId = dc_snapshotId calculation,
        bi_projectEventId = dc_eventId calculation,
        bi_eventRuleAssessmentId = dc_assessmentId calculation,
        bi_deadlineCalculationId = dc_id calculation,
        bi_projectDeadlineId = cni_projectDeadlineId data,
        bi_deadlineAt = dc_calculatedDeadlineAt calculation,
        bi_deadlineTimezone = dc_deadlineTimezone calculation\<rparr>,
      nk_noticeType = cni_noticeType data, nk_title = cni_title data,
      nk_reference = cni_reference data, nk_status = NP_DRAFT, nk_language = cni_language data,
      nk_secondaryLanguage = cni_secondaryLanguage data, nk_createdByUserId = userId ctx,
      nk_approverUserId = None, nk_activeApprovedRevisionId = None,
      nk_sodEnforced = noticeSodEnabled env\<rparr>"

definition eventConfirmed :: "event_row \<Rightarrow> bool" where
  "eventConfirmed e \<longleftrightarrow> ve_eventStatus e = EVS_CONFIRMED
     \<or> ve_confirmationStatus e = CONFIRMED_FOR_DEADLINE_ANALYSIS
     \<or> ve_confirmationStatus e = CONFIRMED_FACT"

definition projectRow :: "string \<Rightarrow> string \<Rightarrow> ('j, project option) notices" where
  "projectRow tenantId projectId = readH (\<lambda>s. findProject projectId tenantId (ap_web s))"

definition createNoticePackageFromDeadline ::
  "notices_env \<Rightarrow> ('raw \<Rightarrow> string list + create_notice_input) \<Rightarrow> string \<Rightarrow> string \<Rightarrow> (nat \<Rightarrow> string) \<Rightarrow>
   string \<Rightarrow> 'raw \<Rightarrow> ('j, loaded_package) notices" where
  "createNoticePackageFromDeadline env safeParse newId requirementId ids projectId rawInput =
     projectService projectId (NoticeCap c_notice_package_create) ''Invalid notice package input''
       safeParse rawInput (\<lambda>ctx data.
     bindH (projectRow (cx_tenantId ctx) projectId) (\<lambda>found.
     bindH (someH notFound found) (\<lambda>prj.
     thenH (assertProjectMutable (prj_status prj))
     (bindH (findOr notFound (\<lambda>d. find (\<lambda>c. dc_id c = cni_deadlineCalculationId data
        \<and> dc_tenantId c = cx_tenantId ctx \<and> dc_projectId c = projectId) (dd_calculations d)))
        (\<lambda>calculation.
     bindH (findOr unexpectedError (\<lambda>d. find (\<lambda>x. nt_id x = dc_snapshotId calculation)
        (nt_ruleTexts d))) (\<lambda>ruleSnap.
     bindH (findOr unexpectedError (\<lambda>d. find (\<lambda>e. ve_id e = dc_eventId calculation)
        (dd_events d))) (\<lambda>event.
     bindH (findOr unexpectedError (\<lambda>d. find (\<lambda>a. va_id a = dc_assessmentId calculation)
        (dd_assessments d))) (\<lambda>assessment.
     thenH (requireH (dc_status calculation = DC_VERIFIED)
        (validationError ''Deadline calculation must be VERIFIED'' None))
     (thenH (requireH (eventConfirmed event)
        (validationError ''Project event must be confirmed'' None))
     (thenH (requireH (va_applicabilityStatus assessment = AP_APPLICABLE)
        (validationError ''Event rule assessment must be APPLICABLE'' None))
     (bindH (readDb (\<lambda>d. filter (\<lambda>x. vd_eventId x = ve_id event
        \<and> vd_tenantId x = cx_tenantId ctx \<and> vd_projectId x = projectId) (dd_dates d))) (\<lambda>dates.
     thenH (writeDb (\<lambda>d. d\<lparr>nt_packages := nt_packages d
        @ [newPackage env ctx newId projectId data calculation]\<rparr>))
     (thenH (seedRequirementSnapshot ctx projectId newId requirementId ruleSnap calculation)
     (thenH (seedEvidenceRequirements ctx projectId newId (nt_id ruleSnap) ids)
     (thenH (seedDeliveryPreparations ctx projectId newId (nt_sourceObligationId ruleSnap)
        (nt_recipientRequirements ruleSnap) ids)
     (thenH (seedFactsFromEvent env ctx projectId newId event prj dates ids)
     (thenH (auditP ctx projectId ''notice_package.create'' ''notice_package'' newId)
       (loadNotice (cx_tenantId ctx) projectId newId))))))))))))))))))"

definition listNoticePackages :: "string \<Rightarrow> ('j, package_row list) notices" where
  "listNoticePackages projectId = projectAction projectId (NoticeCap c_notice_package_read) (\<lambda>ctx.
     readDb (\<lambda>d. rev (filter (\<lambda>p. nk_tenantId p = cx_tenantId ctx \<and> nk_projectId p = projectId)
       (nt_packages d))))"

definition getNoticePackage :: "string \<Rightarrow> string \<Rightarrow> ('j, loaded_package) notices" where
  "getNoticePackage projectId noticePackageId =
     projectAction projectId (NoticeCap c_notice_package_read) (\<lambda>ctx.
       loadNotice (cx_tenantId ctx) projectId noticePackageId)"

definition snapshotRequirements ::
  "string \<Rightarrow> string \<Rightarrow> string \<Rightarrow> ('j, requirement_row) notices" where
  "snapshotRequirements newId projectId noticePackageId =
     projectAction projectId (NoticeCap c_notice_package_read) (\<lambda>ctx.
     bindH (loadNotice (cx_tenantId ctx) projectId noticePackageId) (\<lambda>pkg.
     case lp_requirement pkg of
       Some r \<Rightarrow> returnH r
     | None \<Rightarrow>
        bindH (findOr unexpectedError (\<lambda>d. find (\<lambda>c.
          dc_id c = bi_deadlineCalculationId (nk_binding (lp_package pkg))
          \<and> dc_tenantId c = cx_tenantId ctx) (dd_calculations d))) (\<lambda>calc.
        bindH (findOr unexpectedError (\<lambda>d. find (\<lambda>x. nt_id x = dc_snapshotId calc)
          (nt_ruleTexts d))) (\<lambda>ruleSnap.
        seedRequirementSnapshot ctx projectId noticePackageId newId ruleSnap calc))))"

section \<open>Evidence\<close>

definition evidenceStateOf :: "evidence_requirement \<Rightarrow> evidence_state" where
  "evidenceStateOf r = \<lparr>es_category = ne_category r, es_mandatoryStatus = ne_mandatoryStatus r,
     es_satisfactionStatus = ne_satisfactionStatus r, es_waiverReason = ne_waiverRationale r\<rparr>"

definition newAssessment ::
  "notices_env \<Rightarrow> project_context \<Rightarrow> string \<Rightarrow> string \<Rightarrow> string \<Rightarrow> nat \<Rightarrow> completeness_result \<Rightarrow> completeness_row" where
  "newAssessment env ctx newId projectId noticePackageId lastRev result =
     \<lparr>nz_id = newId, nz_tenantId = cx_tenantId ctx, nz_projectId = projectId,
      nz_noticePackageId = noticePackageId, nz_assessmentRevision = lastRev + 1,
      nz_completenessStatus = cr_status result, nz_blockingIssues = cr_blockingIssues result,
      nz_nonBlockingWarnings = cr_warnings result, nz_assessedByUserId = userId ctx,
      nz_assessedAt = nn_now env, nz_rulesetVersion = NOTICE_DRAFTING_RULESET_VERSION\<rparr>"

definition assessEvidenceCompletenessForPackage ::
  "notices_env \<Rightarrow> string \<Rightarrow> string \<Rightarrow> string \<Rightarrow> ('j, completeness_row \<times> completeness_result) notices" where
  "assessEvidenceCompletenessForPackage env newId projectId noticePackageId =
     projectAction projectId (NoticeCap c_notice_evidence_assess) (\<lambda>ctx.
     bindH (loadNotice (cx_tenantId ctx) projectId noticePackageId) (\<lambda>pkg.
     bindH (projectRow (cx_tenantId ctx) projectId) (\<lambda>found.
     bindH (someH unexpectedError found) (\<lambda>prj.
     thenH (assertProjectMutable (prj_status prj))
     (let result = assessEvidenceCompleteness (map evidenceStateOf (lp_evidence pkg)) True;
          lastRev = (case lp_assessment pkg of None \<Rightarrow> 0 | Some a \<Rightarrow> nz_assessmentRevision a);
          created = newAssessment env ctx newId projectId noticePackageId lastRev result
      in thenH (writeDb (\<lambda>d. d\<lparr>nt_assessments := nt_assessments d @ [created]\<rparr>))
         (thenH (setNoticeStatus (cx_tenantId ctx) noticePackageId
            (mapCompletenessToPackageStatus (cr_status result)))
         (thenH (auditP ctx projectId ''notice_evidence.assess'' ''evidence_completeness_assessment''
            newId)
           (returnH (created, result)))))))))"

text \<open>Set the satisfaction of the requirements a condition picks.\<close>

definition satisfy :: "(evidence_requirement \<Rightarrow> bool) \<Rightarrow> satisfaction_status \<Rightarrow> ('j, unit) notices" where
  "satisfy P st = writeDb (\<lambda>d. d\<lparr>nt_evidence :=
     updateWhere P (\<lambda>r. r\<lparr>ne_satisfactionStatus := st\<rparr>) (nt_evidence d)\<rparr>)"

text \<open>The version of an attachment or of a piece of evidence must be of the project.\<close>

definition requireVersion ::
  "string \<Rightarrow> string \<Rightarrow> string option \<Rightarrow> ('j, owned_row option) notices" where
  "requireVersion tenantId projectId documentVersionId =
     (if truthy documentVersionId
      then bindH (findOr (validationError ''Document version not in project'' None)
         (\<lambda>d. ownedRow tenantId projectId (the documentVersionId) (dd_versions d))) (\<lambda>v. returnH (Some v))
      else returnH None)"

definition linkEvidence ::
  "('raw \<Rightarrow> string list + link_input) \<Rightarrow> string \<Rightarrow> string \<Rightarrow> string \<Rightarrow> 'raw \<Rightarrow> ('j, evidence_link) notices" where
  "linkEvidence safeParse newId projectId noticePackageId rawInput =
     projectService projectId (NoticeCap c_notice_evidence_link) ''Invalid evidence link''
       safeParse rawInput (\<lambda>ctx data.
     thenH (loadNotice (cx_tenantId ctx) projectId noticePackageId)
     (bindH (findOr notFound (\<lambda>d. find (\<lambda>r. ne_id r = nl_evidenceRequirementId data
        \<and> ne_noticePackageId r = noticePackageId \<and> ne_tenantId r = cx_tenantId ctx
        \<and> ne_projectId r = projectId) (nt_evidence d))) (\<lambda>requirement.
     bindH (requireVersion (cx_tenantId ctx) projectId (nl_documentVersionId data)) (\<lambda>version.
     thenH (requireH (\<not> (version \<noteq> None \<and> truthy (nl_sourceDocumentId data)
          \<and> Some (ow_parentId (the version)) \<noteq> nl_sourceDocumentId data))
        (validationError ''Document version does not match source document'' None))
     (let created = \<lparr>nh_id = newId, nh_tenantId = cx_tenantId ctx, nh_projectId = projectId,
        nh_noticePackageId = noticePackageId, nh_evidenceRequirementId = ne_id requirement,
        nh_link = data\<rparr>
      in thenH (writeDb (\<lambda>d. d\<lparr>nt_links := nt_links d @ [created]\<rparr>))
      (thenH (case nl_satisfactionStatus data of None \<Rightarrow> returnH ()
          | Some st \<Rightarrow> satisfy (\<lambda>r. ne_id r = ne_id requirement) st)
      (thenH (auditP ctx projectId ''notice_evidence.link'' ''notice_evidence_link'' newId)
        (returnH created))))))))"

definition verifiedPreparation ::
  "string option \<Rightarrow> string option \<Rightarrow> string option \<Rightarrow> preparation_row \<Rightarrow> preparation_row" where
  "verifiedPreparation selectedMethod emailAddress physicalAddress p =
     p\<lparr>nb_verificationStatus := PV_VERIFIED, nb_reviewerApproved := True,
       nb_selectedMethod := (case selectedMethod of Some m \<Rightarrow> Some m
         | None \<Rightarrow> (case nb_selectedMethod p of Some m \<Rightarrow> Some m | None \<Rightarrow> nb_permittedMethod p)),
       nb_emailAddress := (case emailAddress of Some m \<Rightarrow> Some m | None \<Rightarrow> nb_emailAddress p),
       nb_physicalAddress := (case physicalAddress of Some m \<Rightarrow> Some m | None \<Rightarrow> nb_physicalAddress p)\<rparr>"

definition verifyDeliveryPreparation ::
  "string \<Rightarrow> string \<Rightarrow> string \<Rightarrow> string option \<Rightarrow> string option \<Rightarrow> string option \<Rightarrow>
   ('j, preparation_row) notices" where
  "verifyDeliveryPreparation projectId noticePackageId preparationId selectedMethod emailAddress
       physicalAddress =
     projectAction projectId (NoticeCap c_notice_package_update) (\<lambda>ctx.
     bindH (findOr notFound (\<lambda>d. find (\<lambda>p. nb_id p = preparationId
        \<and> nb_noticePackageId p = noticePackageId \<and> nb_tenantId p = cx_tenantId ctx
        \<and> nb_projectId p = projectId) (nt_preparations d))) (\<lambda>prep.
     let f = verifiedPreparation selectedMethod emailAddress physicalAddress in
     thenH (writeDb (\<lambda>d. d\<lparr>nt_preparations :=
        updateWhere (\<lambda>p. nb_id p = nb_id prep) f (nt_preparations d)\<rparr>))
     (thenH (satisfy (\<lambda>r. ne_noticePackageId r = noticePackageId \<and> ne_tenantId r = cx_tenantId ctx
        \<and> ne_category r \<in> {''RECIPIENT'', ''DELIVERY_METHOD''}) SF_SATISFIED)
       (returnH (f prep)))))"

section \<open>Questions and facts\<close>

definition createReviewQuestion ::
  "('raw \<Rightarrow> string list + question_input) \<Rightarrow> string \<Rightarrow> string \<Rightarrow> string \<Rightarrow> 'raw \<Rightarrow> ('j, question_row) notices" where
  "createReviewQuestion safeParse newId projectId noticePackageId rawInput =
     projectService projectId (NoticeCap c_notice_question_create) ''Invalid question''
       safeParse rawInput (\<lambda>ctx data.
     thenH (loadNotice (cx_tenantId ctx) projectId noticePackageId)
     (let created = \<lparr>nu_id = newId, nu_tenantId = cx_tenantId ctx, nu_projectId = projectId,
        nu_noticePackageId = noticePackageId, nu_input = data, nu_status = QS_OPEN,
        nu_responseText = None, nu_responseVerified = False, nu_raisedByUserId = userId ctx,
        nu_answeredByUserId = None, nu_answeredAt = None, nu_reviewedByUserId = None,
        nu_resolvedAt = None\<rparr>
      in thenH (writeDb (\<lambda>d. d\<lparr>nt_questions := nt_questions d @ [created]\<rparr>)) (returnH created)))"

definition findQuestion ::
  "string \<Rightarrow> string \<Rightarrow> string \<Rightarrow> string \<Rightarrow> 'j notices_db \<Rightarrow> question_row option" where
  "findQuestion tenantId projectId noticePackageId questionId d =
     find (\<lambda>q. nu_id q = questionId \<and> nu_noticePackageId q = noticePackageId
       \<and> nu_tenantId q = tenantId \<and> nu_projectId q = projectId) (nt_questions d)"

definition updateQuestion ::
  "question_row \<Rightarrow> (question_row \<Rightarrow> question_row) \<Rightarrow> ('j, question_row) notices" where
  "updateQuestion q f = thenH (writeDb (\<lambda>d. d\<lparr>nt_questions :=
     updateWhere (\<lambda>x. nu_id x = nu_id q) f (nt_questions d)\<rparr>)) (returnH (f q))"

definition answerReviewQuestion ::
  "notices_env \<Rightarrow> ('raw \<Rightarrow> string list + string) \<Rightarrow> string \<Rightarrow> string \<Rightarrow> string \<Rightarrow> 'raw \<Rightarrow>
   ('j, question_row) notices" where
  "answerReviewQuestion env safeParse projectId noticePackageId questionId rawInput =
     projectService projectId (NoticeCap c_notice_question_answer) ''Invalid answer''
       safeParse rawInput (\<lambda>ctx responseText.
     bindH (findOr notFound (findQuestion (cx_tenantId ctx) projectId noticePackageId questionId))
       (\<lambda>question.
     thenH (requireH (nu_status question = QS_OPEN) (conflict ''Question is not open''))
     (updateQuestion question (\<lambda>q. q\<lparr>nu_responseText := Some responseText, nu_status := QS_ANSWERED,
        nu_answeredByUserId := Some (userId ctx), nu_answeredAt := Some (nn_now env)\<rparr>))))"

definition verifyQuestionAnswer ::
  "notices_env \<Rightarrow> string \<Rightarrow> string \<Rightarrow> string \<Rightarrow> ('j, question_row) notices" where
  "verifyQuestionAnswer env projectId noticePackageId questionId =
     projectAction projectId (NoticeCap c_notice_draft_review) (\<lambda>ctx.
     bindH (findOr notFound (findQuestion (cx_tenantId ctx) projectId noticePackageId questionId))
       (\<lambda>question.
     thenH (requireH (truthy (nu_responseText question))
        (validationError ''Question has no answer to verify'' None))
     (updateQuestion question (\<lambda>q. q\<lparr>nu_responseVerified := True,
        nu_reviewedByUserId := Some (userId ctx), nu_status := QS_RESOLVED,
        nu_resolvedAt := Some (nn_now env)\<rparr>))))"

record fact_input =
  fx_factType :: string
  fx_label :: string
  fx_value :: string
  fx_sourceType :: string

definition createNoticeFact ::
  "('raw \<Rightarrow> string list + fact_input) \<Rightarrow> string \<Rightarrow> string \<Rightarrow> string \<Rightarrow> 'raw \<Rightarrow> ('j, fact_row) notices" where
  "createNoticeFact safeParse newId projectId noticePackageId rawInput =
     projectService projectId (NoticeCap c_notice_fact_create) ''Invalid fact''
       safeParse rawInput (\<lambda>ctx data.
     thenH (loadNotice (cx_tenantId ctx) projectId noticePackageId)
     (let created = \<lparr>nc_id = newId, nc_tenantId = cx_tenantId ctx, nc_projectId = projectId,
        nc_noticePackageId = noticePackageId, nc_factType = fx_factType data,
        nc_label = fx_label data, nc_value = fx_value data, nc_sourceType = fx_sourceType data,
        nc_projectEventId = None, nc_reviewerEntered = (fx_sourceType data = ''REVIEWER_ENTERED''),
        nc_verificationStatus = FV_UNVERIFIED, nc_approvedForDrafting = False,
        nc_approvedByUserId = None, nc_approvedAt = None\<rparr>
      in thenH (writeDb (\<lambda>d. d\<lparr>nt_facts := nt_facts d @ [created]\<rparr>)) (returnH created)))"

record verify_fact_input =
  vx_verificationStatus :: fact_status
  vx_approvedForDrafting :: bool

definition categoryOfFact :: "string \<Rightarrow> string option" where
  "categoryOfFact factType =
     (if factType = ''EVENT_DATE'' \<or> factType = ''AWARENESS_DATE'' then Some ''TRIGGER_DATE''
      else if factType = ''DESCRIPTION_OF_EVENT'' then Some ''EVENT_OCCURRENCE'' else None)"

definition verifiedFact ::
  "notices_env \<Rightarrow> project_context \<Rightarrow> verify_fact_input \<Rightarrow> fact_row \<Rightarrow> fact_row" where
  "verifiedFact env ctx data f = f\<lparr>nc_verificationStatus := vx_verificationStatus data,
     nc_approvedForDrafting := vx_approvedForDrafting data,
     nc_approvedByUserId := Some (userId ctx), nc_approvedAt := Some (nn_now env)\<rparr>"

definition verifyNoticeFact ::
  "notices_env \<Rightarrow> ('raw \<Rightarrow> string list + verify_fact_input) \<Rightarrow> string \<Rightarrow> string \<Rightarrow> string \<Rightarrow> 'raw \<Rightarrow>
   ('j, fact_row) notices" where
  "verifyNoticeFact env safeParse projectId noticePackageId factId rawInput =
     projectService projectId (NoticeCap c_notice_fact_verify) ''Invalid verification''
       safeParse rawInput (\<lambda>ctx data.
     bindH (findOr notFound (\<lambda>d. find (\<lambda>f. nc_id f = factId \<and> nc_noticePackageId f = noticePackageId
        \<and> nc_tenantId f = cx_tenantId ctx \<and> nc_projectId f = projectId) (nt_facts d))) (\<lambda>fact.
     thenH (writeDb (\<lambda>d. d\<lparr>nt_facts := updateWhere (\<lambda>f. nc_id f = nc_id fact)
        (verifiedFact env ctx data) (nt_facts d)\<rparr>))
     (thenH (if vx_approvedForDrafting data
        then (case categoryOfFact (nc_factType fact) of None \<Rightarrow> returnH ()
          | Some cat \<Rightarrow> satisfy (\<lambda>r. ne_noticePackageId r = noticePackageId
              \<and> ne_tenantId r = cx_tenantId ctx \<and> ne_category r = cat) SF_SATISFIED)
        else returnH ())
       (returnH (verifiedFact env ctx data fact)))))"

section \<open>Drafts\<close>

definition factEntry :: "fact_row \<Rightarrow> fact_entry" where
  "factEntry f = \<lparr>nf_id = nc_id f, nf_factType = nc_factType f, nf_label = nc_label f,
     nf_value = nc_value f, nf_approvedForDrafting = nc_approvedForDrafting f,
     nf_verificationStatus = fact_status_name (nc_verificationStatus f)\<rparr>"

definition requirementEntry :: "notices_env \<Rightarrow> requirement_row \<Rightarrow> requirement_entry" where
  "requirementEntry env r = \<lparr>rq_id = ny_id r, rq_sourceClauseId = ny_sourceClauseId r,
     rq_sourceClauseReference = ny_sourceClauseReference r,
     rq_contentRequirements = ny_requiredContentItems r, rq_consequenceText = ny_consequenceText r,
     rq_reservationLanguage = ny_requiredReservationLanguage r,
     rq_requiredDeliveryMethods = ny_requiredDeliveryMethods r,
     rq_requiredRecipients = ny_requiredRecipients r,
     rq_verifiedDeadlineAt = map_option (nn_isoOf env) (ny_verifiedDeadlineAt r),
     rq_verifiedDeadlineTimezone = Some (ny_verifiedDeadlineTimezone r),
     rq_timeBarClassification = Some (ny_timeBarClassification r),
     rq_continuingEventRequirements = None, rq_interimParticularsRequirements = None,
     rq_finalParticularsRequirements = None\<rparr>"

definition recipientEntry :: "preparation_row \<Rightarrow> recipient_entry" where
  "recipientEntry r = \<lparr>re_id = nb_id r,
     re_recipientLabel = orText (nb_namedRecipient r) (orText (nb_recipientRole r) ''Recipient''),
     re_selectedMethod = nb_selectedMethod r, re_permittedMethod = nb_permittedMethod r,
     re_emailAddress = nb_emailAddress r, re_physicalAddress = nb_physicalAddress r,
     re_verificationStatus = preparation_status_name (nb_verificationStatus r),
     re_copiedRecipient = nb_copiedRecipient r\<rparr>"

definition draftContextOf ::
  "notices_env \<Rightarrow> loaded_package \<Rightarrow> requirement_row \<Rightarrow> project \<Rightarrow> event_row \<Rightarrow> draft_context" where
  "draftContextOf env pkg reqSnap prj event = (let p = lp_package pkg in
     \<lparr>dk_language = nk_language p, dk_noticeType = nk_noticeType p, dk_title = nk_title p,
      dk_projectName = prj_name prj, dk_projectCode = prj_code prj,
      dk_contractReference = orText (nk_reference p) (prj_code prj),
      dk_eventTitle = vi_title (ve_input event),
      dk_eventDescription = vi_description (ve_input event),
      dk_facts = map factEntry (lp_facts pkg), dk_requirement = requirementEntry env reqSnap,
      dk_recipients = map recipientEntry (lp_preparations pkg), dk_attachments = [],
      dk_templateVersion = ''synthetic-notice-template-v1''\<rparr>)"

definition buildDraftContext ::
  "notices_env \<Rightarrow> string \<Rightarrow> loaded_package \<Rightarrow> ('j, draft_context) notices" where
  "buildDraftContext env tenantId pkg =
     bindH (someH (validationError ''Requirement snapshot missing'' None) (lp_requirement pkg))
       (\<lambda>reqSnap.
     bindH (projectRow tenantId (nk_projectId (lp_package pkg))) (\<lambda>found.
     bindH (someH unexpectedError found) (\<lambda>prj.
     bindH (findOr unexpectedError (\<lambda>d. find (\<lambda>e.
       ve_id e = bi_projectEventId (nk_binding (lp_package pkg)) \<and> ve_tenantId e = tenantId)
       (dd_events d))) (\<lambda>event.
     returnH (draftContextOf env pkg reqSnap prj event)))))"

definition nextRevisionNumber :: "string \<Rightarrow> string \<Rightarrow> 'j notices_db \<Rightarrow> nat" where
  "nextRevisionNumber tenantId noticePackageId d =
     Max (insert 0 (set (map nv_revisionNumber (draftsOf tenantId noticePackageId d)))) + 1"

definition newDraft ::
  "project_context \<Rightarrow> string \<Rightarrow> string \<Rightarrow> string \<Rightarrow> nat \<Rightarrow> string \<Rightarrow> string \<Rightarrow> string \<Rightarrow> string \<Rightarrow>
   nat option \<Rightarrow> string option \<Rightarrow> draft_row" where
  "newDraft ctx newId projectId noticePackageId revisionNumber language templateVersion generatedBy
       generatorVersion basedOnAssessment basedOnRequirement =
     \<lparr>nv_id = newId, nv_tenantId = cx_tenantId ctx, nv_projectId = projectId,
      nv_noticePackageId = noticePackageId, nv_revisionNumber = revisionNumber,
      nv_status = DF_DRAFT, nv_language = language, nv_templateVersion = templateVersion,
      nv_generatedBy = generatedBy, nv_generatorVersion = generatorVersion,
      nv_basedOnAssessmentRevision = basedOnAssessment,
      nv_basedOnRequirementSnapshotId = basedOnRequirement, nv_createdByUserId = userId ctx,
      nv_submittedAt = None, nv_approvedAt = None, nv_validationSnapshot = None\<rparr>"

definition sectionsToDb ::
  "project_context \<Rightarrow> string \<Rightarrow> string \<Rightarrow> (nat \<Rightarrow> string) \<Rightarrow> assembled_section list \<Rightarrow> section_line list" where
  "sectionsToDb ctx projectId draftRevisionId ids sections =
     map (\<lambda>(n, s). \<lparr>nw_id = ids n, nw_tenantId = cx_tenantId ctx, nw_projectId = projectId,
       nw_draftRevisionId = draftRevisionId, nw_content = s\<rparr>) (enumerate 0 sections)"

text \<open>A revision with its sections is stored and the package goes to drafting.\<close>

definition storeDraft ::
  "project_context \<Rightarrow> string \<Rightarrow> draft_row \<Rightarrow> section_line list \<Rightarrow> ('j, unit) notices" where
  "storeDraft ctx noticePackageId revision rows =
     thenH (writeDb (\<lambda>d. d\<lparr>nt_drafts := nt_drafts d @ [revision]\<rparr>))
     (thenH (writeDb (\<lambda>d. d\<lparr>nt_sections := nt_sections d @ rows\<rparr>))
       (setNoticeStatus (cx_tenantId ctx) noticePackageId NP_DRAFTING))"

definition generateDeterministicDraft ::
  "notices_env \<Rightarrow> string \<Rightarrow> (nat \<Rightarrow> string) \<Rightarrow> string \<Rightarrow> string \<Rightarrow> ('j, draft_row \<times> section_line list) notices" where
  "generateDeterministicDraft env newId ids projectId noticePackageId =
     projectAction projectId (NoticeCap c_notice_draft_generate) (\<lambda>ctx.
     bindH (loadNotice (cx_tenantId ctx) projectId noticePackageId) (\<lambda>pkg.
     bindH (buildDraftContext env (cx_tenantId ctx) pkg) (\<lambda>draftCtx.
     bindH (readDb (nextRevisionNumber (cx_tenantId ctx) noticePackageId)) (\<lambda>revisionNumber.
     let assembled = assembleDeterministicDraft draftCtx;
         revision = newDraft ctx newId projectId noticePackageId revisionNumber
           (nk_language (lp_package pkg)) (ad_templateVersion assembled) ''deterministic''
           (ad_generatorVersion assembled) (map_option nz_assessmentRevision (lp_assessment pkg))
           (map_option ny_id (lp_requirement pkg))
     in thenH (storeDraft ctx noticePackageId revision
          (sectionsToDb ctx projectId newId ids (ad_sections assembled)))
        (thenH (auditP ctx projectId ''notice_draft.generate'' ''notice_draft_revision'' newId)
          (bindH (readDb (sectionsOf newId)) (\<lambda>rows.
            returnH (revision, sort_key (\<lambda>s. sn_sequence (nw_content s)) rows))))))))"

section \<open>The drafting model\<close>

record ai_provider =
  apv_name :: string
  apv_testOnly :: bool

record ai_draft_input =
  adi_language :: string
  adi_noticeType :: string
  adi_title :: string
  adi_approvedFacts :: "fact_entry list"
  adi_approvedDeadlineIso :: "string option"

definition fakeProvider :: ai_provider where
  "fakeProvider = \<lparr>apv_name = ''fake'', apv_testOnly = True\<rparr>"

definition NOTICE_SECTION_TYPES :: "section_type list" where
  "NOTICE_SECTION_TYPES = [S_SENDER, S_RECIPIENT, S_PROJECT_CONTRACT_REFERENCE, S_NOTICE_TITLE,
     S_CONTRACTUAL_BASIS, S_FACTUAL_BACKGROUND, S_EVENT_DESCRIPTION, S_TRIGGER_DATE,
     S_DEADLINE_STATEMENT, S_IMPACT_STATEMENT, S_RESERVATION_OF_RIGHTS, S_REQUESTED_ACTION,
     S_RECORDS_EVIDENCE, S_CONTINUING_EVENT, S_ATTACHMENTS, S_CLOSING]"

text \<open>The fact a section is written from: the last of its type in the map, the first related one
  otherwise.\<close>

definition factOfType :: "fact_entry list \<Rightarrow> string \<Rightarrow> fact_entry option" where
  "factOfType facts t = find (\<lambda>f. nf_factType f = t) (rev facts)"

definition relatedFact :: "section_type \<Rightarrow> fact_entry list \<Rightarrow> fact_entry option" where
  "relatedFact t facts = find (\<lambda>f. includesStr (section_name t) ''FACT''
     \<and> startsWith (nf_factType f) ''DESCRIPTION'') facts"

definition fakeSectionText :: "ai_draft_input \<Rightarrow> section_type \<Rightarrow> string \<times> string list" where
  "fakeSectionText i t = (let facts = adi_approvedFacts i;
       fromFact = (\<lambda>f. (nf_value f, [nf_id f])) in
     if t = S_EVENT_DESCRIPTION \<and> factOfType facts ''DESCRIPTION_OF_EVENT'' \<noteq> None
     then fromFact (the (factOfType facts ''DESCRIPTION_OF_EVENT''))
     else if t = S_TRIGGER_DATE \<and> factOfType facts ''EVENT_DATE'' \<noteq> None
     then fromFact (the (factOfType facts ''EVENT_DATE''))
     else if t = S_DEADLINE_STATEMENT \<and> truthy (adi_approvedDeadlineIso i)
     then (the (adi_approvedDeadlineIso i), [])
     else if t = S_PROJECT_CONTRACT_REFERENCE \<and> factOfType facts ''PROJECT_NAME'' \<noteq> None
     then fromFact (the (factOfType facts ''PROJECT_NAME''))
     else if t = S_NOTICE_TITLE then (adi_title i, [])
     else (case relatedFact t facts of None \<Rightarrow> ([], []) | Some f \<Rightarrow> fromFact f))"

definition fakeSection :: "ai_draft_input \<Rightarrow> section_type \<Rightarrow> ai_section" where
  "fakeSection i t = (let (drafted, factIds) = fakeSectionText i t in
     \<lparr>ai_sectionType = t,
      ai_draftedText = (if trim drafted = []
        then ''['' @ section_name t @ (utf8 [93, 32, 8212, 32, 110, 111, 32, 97, 112, 112, 114, 111, 118, 101, 100, 32, 102, 97,
       99, 116, 32, 97, 118, 97, 105, 108, 97, 98, 108, 101, 32, 40, 116, 101, 115, 116, 45,
       111, 110, 108, 121, 32, 115, 116, 117, 98, 41])
        else drafted),
      ai_sourceFactIds = factIds, ai_sourceEvidenceIds = [], ai_sourceClauseIds = [],
      ai_warnings = whenl (adi_approvedFacts i = []) ''NO_APPROVED_FACTS'',
      ai_unsupportedContentFlags = []\<rparr>)"

definition fakeDraftNotice :: "ai_draft_input \<Rightarrow> ai_response" where
  "fakeDraftNotice i =
     \<lparr>ar_language = adi_language i,
      ar_sections = filter (\<lambda>s. ai_draftedText s \<noteq> [])
        (map (fakeSection i) (filter (\<lambda>t. t \<noteq> S_CLOSING) NOTICE_SECTION_TYPES)),
      ar_overallWarnings = [(utf8 [84, 101, 115, 116, 45, 111, 110, 108, 121, 32, 65, 73, 32, 100, 114, 97, 102, 116,
       32, 8212, 32, 104, 117, 109, 97, 110, 32, 114, 101, 118, 105, 101, 119, 32, 114, 101,
       113, 117, 105, 114, 101, 100])]\<rparr>"

definition noticeAppEnv :: "notices_env \<Rightarrow> string" where
  "noticeAppEnv env = orText (nn_appEnv env) (orText (nn_nodeEnv env) ''development'')"

definition assertNoticeAiProviderAllowed :: "notices_env \<Rightarrow> ai_provider \<Rightarrow> string + unit" where
  "assertNoticeAiProviderAllowed env provider =
     (if (noticeAppEnv env = ''production'' \<or> noticeAppEnv env = ''staging'') \<and> apv_testOnly provider
      then Inl (''Notice draft AI provider '' @ dq @ apv_name provider @ dq
        @ '' is test-only and cannot run in '' @ noticeAppEnv env)
      else Inr ())"

definition createNoticeDraftAiProvider :: "notices_env \<Rightarrow> string + ai_provider option" where
  "createNoticeDraftAiProvider env = (let configured = map_option trim (nn_aiProvider env) in
     if \<not> truthy configured \<or> configured = Some ''none'' \<or> configured = Some ''deterministic''
     then Inr None
     else if configured = Some ''fake''
     then (if noticeAppEnv env \<noteq> ''test'' \<and> nn_nodeEnv env \<noteq> Some ''test''
           then Inl (''Notice draft AI provider '' @ dq @ ''fake'' @ dq
             @ '' is only available when APP_ENV=test or NODE_ENV=test (current: ''
             @ noticeAppEnv env @ '')'')
           else bind_res (assertNoticeAiProviderAllowed env fakeProvider)
             (\<lambda>_. Inr (Some fakeProvider)))
     else Inl (''Unknown NOTICE_DRAFT_AI_PROVIDER '' @ dq @ the configured @ dq
       @ (utf8 [32, 8212, 32, 110, 111, 32, 104, 97, 114, 100, 99, 111, 100, 101, 100, 32, 99, 111,
       109, 109, 101, 114, 99, 105, 97, 108, 32, 112, 114, 111, 118, 105, 100, 101, 114])))"

definition aiSectionRow :: "string \<Rightarrow> nat \<times> ai_section \<Rightarrow> assembled_section" where
  "aiSectionRow language entry = (let s = snd entry in
     \<lparr>sn_sectionType = ai_sectionType s, sn_sequence = fst entry + 1,
      sn_heading = spacesForUnderscores (section_name (ai_sectionType s)),
      sn_body = ai_draftedText s, sn_language = language,
      sn_sourceFactIds = ai_sourceFactIds s, sn_sourceEvidenceIds = ai_sourceEvidenceIds s,
      sn_sourceClauseIds = ai_sourceClauseIds s, sn_machineGenerated = True,
      sn_humanEdited = False, sn_internalOnly = False, sn_warnings = ai_warnings s\<rparr>)"

definition approvedDeadline :: "notices_env \<Rightarrow> loaded_package \<Rightarrow> string option" where
  "approvedDeadline env pkg = (case lp_requirement pkg of None \<Rightarrow> None
     | Some r \<Rightarrow> map_option (nn_isoOf env) (ny_verifiedDeadlineAt r))"

definition aiInputOf ::
  "notices_env \<Rightarrow> loaded_package \<Rightarrow> evidence_link list \<Rightarrow> fact_entry list \<Rightarrow> ai_response \<Rightarrow>
   ai_response ai_input" where
  "aiInputOf env pkg links approved response =
     \<lparr>aq_response = response, aq_allowedFactIds = set (map nc_id (lp_facts pkg)),
      aq_allowedEvidenceIds = set (map nh_id links),
      aq_allowedClauseIds = (case Option.bind (lp_requirement pkg) ny_sourceClauseId of
         None \<Rightarrow> {} | Some c \<Rightarrow> if c = [] then {} else {c}),
      aq_approvedDeadlineIso = approvedDeadline env pkg,
      aq_approvedFactValuesByType = map (\<lambda>f. (nf_factType f, nf_value f)) approved,
      aq_maxSectionChars = None\<rparr>"

definition generateAiAssistedDraft ::
  "notices_env \<Rightarrow> string \<Rightarrow> (nat \<Rightarrow> string) \<Rightarrow> string \<Rightarrow> string \<Rightarrow> ('j, draft_row \<times> section_line list) notices" where
  "generateAiAssistedDraft env newId ids projectId noticePackageId =
     bindH (accessP projectId (NoticeCap c_notice_draft_generate)) (\<lambda>ctx.
     bindH (case createNoticeDraftAiProvider env of
         Inl _ \<Rightarrow> throwH unexpectedError | Inr p \<Rightarrow> returnH p) (\<lambda>configured.
     bindH (someH (validationError ''AI provider not configured'' None) configured) (\<lambda>provider.
     transactionH (
     bindH (loadNotice (cx_tenantId ctx) projectId noticePackageId) (\<lambda>pkg.
     let approved = approvedFacts (map factEntry (lp_facts pkg)) in
     thenH (requireH (approved \<noteq> []) (validationError ''No facts approved for drafting'' None))
     (bindH (readDb (\<lambda>d. filter (\<lambda>l. nh_noticePackageId l = noticePackageId
        \<and> nh_tenantId l = cx_tenantId ctx) (nt_links d))) (\<lambda>links.
     let response = fakeDraftNotice \<lparr>adi_language = nk_language (lp_package pkg),
           adi_noticeType = nk_noticeType (lp_package pkg), adi_title = nk_title (lp_package pkg),
           adi_approvedFacts = approved, adi_approvedDeadlineIso = approvedDeadline env pkg\<rparr> in
     case validateAiDraftOutput (nn_aiSchema env) (aiInputOf env pkg links approved response) of
       Inl errors \<Rightarrow> throwH (validationError ''AI draft rejected'' (Some errors))
     | Inr (data, warnings) \<Rightarrow>
        bindH (readDb (nextRevisionNumber (cx_tenantId ctx) noticePackageId)) (\<lambda>revisionNumber.
        let revision = newDraft ctx newId projectId noticePackageId revisionNumber
              (nk_language (lp_package pkg)) ''ai-assisted-v1'' ''ai-assisted'' (apv_name provider)
              None None
        in thenH (storeDraft ctx noticePackageId revision
             (sectionsToDb ctx projectId newId ids
               (map (aiSectionRow (ar_language data)) (enumerate 0 (ar_sections data)))))
           (bindH (readDb (sectionsOf newId)) (\<lambda>rows.
             returnH (revision, sort_key (\<lambda>s. sn_sequence (nw_content s)) rows)))))))))))"

section \<open>Editing and validation\<close>

definition editSection :: "string \<Rightarrow> section_line \<Rightarrow> section_line" where
  "editSection body s = s\<lparr>nw_content := (nw_content s)\<lparr>sn_body := stripHtml body,
     sn_humanEdited := True, sn_machineGenerated := False\<rparr>\<rparr>"

definition editDraftSection ::
  "('raw \<Rightarrow> string list + string) \<Rightarrow> string \<Rightarrow> string \<Rightarrow> string \<Rightarrow> string \<Rightarrow> 'raw \<Rightarrow>
   ('j, section_line) notices" where
  "editDraftSection safeParse projectId noticePackageId revisionId sectionId rawInput =
     projectService projectId (NoticeCap c_notice_draft_edit) ''Invalid section edit''
       safeParse rawInput (\<lambda>ctx body.
     bindH (findOr notFound (\<lambda>d. find (\<lambda>r. nv_id r = revisionId
        \<and> nv_noticePackageId r = noticePackageId \<and> nv_tenantId r = cx_tenantId ctx
        \<and> nv_projectId r = projectId) (nt_drafts d))) (\<lambda>revision.
     thenH (requireH (nv_status revision \<noteq> DF_APPROVED)
        (conflict ''Approved revisions are immutable''))
     (bindH (findOr notFound (\<lambda>d. find (\<lambda>s. nw_id s = sectionId \<and> nw_draftRevisionId s = revisionId
        \<and> nw_tenantId s = cx_tenantId ctx) (nt_sections d))) (\<lambda>sec.
     thenH (writeDb (\<lambda>d. d\<lparr>nt_sections := updateWhere (\<lambda>s. nw_id s = nw_id sec) (editSection body)
        (nt_sections d)\<rparr>))
       (returnH (editSection body sec))))))"

definition recipientCheck :: "preparation_row \<Rightarrow> draft_recipient" where
  "recipientCheck r = \<lparr>vr_verificationStatus = preparation_status_name (nb_verificationStatus r),
     vr_copiedRecipient = nb_copiedRecipient r,
     vr_hasContact = (truthy (nb_emailAddress r) \<or> truthy (nb_physicalAddress r)
       \<or> truthy (nb_platformAddress r)),
     vr_selectedMethod = nb_selectedMethod r, vr_permittedMethod = nb_permittedMethod r\<rparr>"

definition selfBinding :: "package_row \<Rightarrow> string \<Rightarrow> draft_bindings" where
  "selfBinding p calculationId =
     \<lparr>vb_contractPackageId = bi_contractPackageId (nk_binding p),
      vb_expectedContractPackageId = bi_contractPackageId (nk_binding p),
      vb_configurationRevisionId = bi_configurationRevisionId (nk_binding p),
      vb_expectedConfigurationRevisionId = bi_configurationRevisionId (nk_binding p),
      vb_approvedRuleSnapshotId = bi_approvedNoticeRuleSnapshotId (nk_binding p),
      vb_expectedApprovedRuleSnapshotId = bi_approvedNoticeRuleSnapshotId (nk_binding p),
      vb_projectEventId = bi_projectEventId (nk_binding p),
      vb_expectedProjectEventId = bi_projectEventId (nk_binding p),
      vb_calculationId = calculationId, vb_expectedCalculationId = calculationId\<rparr>"

definition openQuestions :: "string \<Rightarrow> string \<Rightarrow> 'j notices_db \<Rightarrow> nat" where
  "openQuestions tenantId noticePackageId d =
     length (filter (\<lambda>q. nu_noticePackageId q = noticePackageId \<and> nu_tenantId q = tenantId
       \<and> nu_status q = QS_OPEN \<and> qi_priority (nu_input q) \<in> {QP_HIGH, QP_CRITICAL}) (nt_questions d))"

definition exceptionCount :: "string \<Rightarrow> string \<Rightarrow> 'j notices_db \<Rightarrow> nat" where
  "exceptionCount tenantId noticePackageId d =
     length (filter (\<lambda>x. nj_noticePackageId x = noticePackageId \<and> nj_tenantId x = tenantId)
       (nt_exceptions d))"

text \<open>\<open>factMap\<close> keeps the last fact of an id.\<close>

definition unapprovedCount :: "fact_row list \<Rightarrow> assembled_section list \<Rightarrow> nat" where
  "unapprovedCount facts sections =
     length (filter (\<lambda>i. case find (\<lambda>f. nc_id f = i) (rev facts) of
         None \<Rightarrow> False | Some f \<Rightarrow> \<not> nc_approvedForDrafting f)
       (concat (map sn_sourceFactIds sections)))"

definition TRIGGER_FACT_TYPES :: "string list" where
  "TRIGGER_FACT_TYPES = [''EVENT_DATE'', ''INSTRUCTION_DATE'', ''AWARENESS_DATE'']"

definition validationInputOf ::
  "loaded_package \<Rightarrow> draft_row \<Rightarrow> assembled_section list \<Rightarrow> calculation_row \<Rightarrow> nat \<Rightarrow> nat \<Rightarrow> validation_input" where
  "validationInputOf pkg revision sections calc questions exceptions =
     \<lparr>vt_bindings = selfBinding (lp_package pkg) (dc_id calc),
      vt_calculationStatus = stored_status_name (dc_status calc),
      vt_hasVerifiedTriggerDate = list_ex (\<lambda>f. nc_approvedForDrafting f
        \<and> nc_factType f \<in> set TRIGGER_FACT_TYPES) (lp_facts pkg),
      vt_hasVerifiedDeadline = (case lp_requirement pkg of None \<Rightarrow> False
        | Some r \<Rightarrow> ny_verifiedDeadlineAt r \<noteq> None),
      vt_clauseReferencePresent = (case lp_requirement pkg of None \<Rightarrow> False
        | Some r \<Rightarrow> truthy (ny_sourceClauseReference r)),
      vt_language = nv_language revision, vt_requiredLanguage = Some (nk_language (lp_package pkg)),
      vt_recipients = map recipientCheck (lp_preparations pkg),
      vt_openBlockingQuestions = questions,
      vt_completenessStatus = (case lp_assessment pkg of None \<Rightarrow> CM_NOT_ASSESSED
        | Some a \<Rightarrow> nz_completenessStatus a),
      vt_unapprovedFactsInDraft = unapprovedCount (lp_facts pkg) sections,
      vt_hasInternalOnlyInExportCandidate =
        list_ex (\<lambda>s. \<not> sn_internalOnly s \<and> internalMark (sn_body s)) sections,
      vt_controlledExceptionsForBlockers = exceptions, vt_nonWaivableBlockers = [],
      vt_staleEvidenceAssessment = False,
      vt_supersededCalculation = (dc_status calc = DC_SUPERSEDED),
      vt_reservationPresent = list_ex (\<lambda>s. sn_sectionType s = S_RESERVATION_OF_RIGHTS) sections,
      vt_reservationRequired = True, vt_attachmentMissingRequired = False\<rparr>"

definition buildValidationInput ::
  "string \<Rightarrow> loaded_package \<Rightarrow> string \<Rightarrow> ('j, validation_result) notices" where
  "buildValidationInput tenantId pkg revisionId =
     bindH (findOr unexpectedError (\<lambda>d. find (\<lambda>r. nv_id r = revisionId \<and> nv_tenantId r = tenantId)
       (nt_drafts d))) (\<lambda>revision.
     bindH (findOr unexpectedError (\<lambda>d. find (\<lambda>c.
       dc_id c = bi_deadlineCalculationId (nk_binding (lp_package pkg)) \<and> dc_tenantId c = tenantId)
       (dd_calculations d))) (\<lambda>calc.
     bindH (readDb (\<lambda>d. (map nw_content (sectionsOf revisionId d),
       openQuestions tenantId (nk_id (lp_package pkg)) d,
       exceptionCount tenantId (nk_id (lp_package pkg)) d))) (\<lambda>(sections, questions, exceptions).
     returnH (validateNoticeDraft
       (validationInputOf pkg revision sections calc questions exceptions)))))"

text \<open>
  An update of one revision.  The trigger \<open>notice_draft_revision_immutable_update\<close> refuses every
  update of an approved revision but its supersession.
\<close>

definition draftTrigger :: "draft_row \<Rightarrow> draft_row \<Rightarrow> bool" where
  "draftTrigger old new \<longleftrightarrow> nv_status old \<noteq> DF_APPROVED
     \<or> nv_status new = DF_SUPERSEDED \<and> nv_revisionNumber new = nv_revisionNumber old
       \<and> nv_noticePackageId new = nv_noticePackageId old
       \<and> nv_generatorVersion new = nv_generatorVersion old
       \<and> nv_templateVersion new = nv_templateVersion old \<and> nv_language new = nv_language old
       \<and> nv_createdByUserId new = nv_createdByUserId old"

definition updateDraft ::
  "string \<Rightarrow> string \<Rightarrow> (draft_row \<Rightarrow> draft_row) \<Rightarrow> ('j, draft_row) notices" where
  "updateDraft tenantId revisionId f =
     bindH (findOr unexpectedError (\<lambda>d. find (\<lambda>r. nv_id r = revisionId \<and> nv_tenantId r = tenantId)
       (nt_drafts d))) (\<lambda>old.
     thenH (requireH (draftTrigger old (f old)) unexpectedError)
     (thenH (writeDb (\<lambda>d. d\<lparr>nt_drafts :=
        updateWhere (\<lambda>r. nv_id r = revisionId \<and> nv_tenantId r = tenantId) f (nt_drafts d)\<rparr>))
       (returnH (f old))))"

text \<open>The revision a request names, or the latest of the package.\<close>

definition draftById :: "string \<Rightarrow> string \<Rightarrow> string \<Rightarrow> 'j notices_db \<Rightarrow> draft_row option" where
  "draftById tenantId noticePackageId revisionId d =
     find (\<lambda>r. nv_id r = revisionId) (draftsOf tenantId noticePackageId d)"

definition pickDraft :: "string \<Rightarrow> string \<Rightarrow> string option \<Rightarrow> ('j, draft_row) notices" where
  "pickDraft tenantId noticePackageId draftRevisionId =
     (if truthy draftRevisionId
      then findOr unexpectedError (draftById tenantId noticePackageId (the draftRevisionId))
      else findOr notFound (loadLatestDraft tenantId noticePackageId))"

definition runDraftValidation ::
  "string \<Rightarrow> string \<Rightarrow> string option \<Rightarrow> ('j, validation_result) notices" where
  "runDraftValidation projectId noticePackageId revisionId =
     projectAction projectId (NoticeCap c_notice_draft_review) (\<lambda>ctx.
     bindH (loadNotice (cx_tenantId ctx) projectId noticePackageId) (\<lambda>pkg.
     bindH (case revisionId of
         Some i \<Rightarrow> findOr unexpectedError (draftById (cx_tenantId ctx) noticePackageId i)
       | None \<Rightarrow> findOr notFound (loadLatestDraft (cx_tenantId ctx) noticePackageId)) (\<lambda>revision.
     bindH (buildValidationInput (cx_tenantId ctx) pkg (nv_id revision)) (\<lambda>validation.
     thenH (updateDraft (cx_tenantId ctx) (nv_id revision)
        (\<lambda>r. r\<lparr>nv_validationSnapshot := Some validation\<rparr>))
       (returnH validation)))))"

section \<open>Review and approval\<close>

record approval_input =
  api_rationale :: "string option"
  api_draftRevisionId :: "string option"

definition newDecision ::
  "project_context \<Rightarrow> string \<Rightarrow> string \<Rightarrow> string \<Rightarrow> string \<Rightarrow> decision_type \<Rightarrow> string option \<Rightarrow>
   validation_result option \<Rightarrow> decision_row" where
  "newDecision ctx newId projectId noticePackageId draftRevisionId decision rationale validation =
     \<lparr>nd_id = newId, nd_tenantId = cx_tenantId ctx, nd_projectId = projectId,
      nd_noticePackageId = noticePackageId, nd_draftRevisionId = draftRevisionId,
      nd_decision = decision, nd_actorUserId = userId ctx, nd_rationale = rationale,
      nd_validationSnapshot = validation\<rparr>"

definition storeDecision :: "decision_row \<Rightarrow> ('j, unit) notices" where
  "storeDecision x = writeDb (\<lambda>d. d\<lparr>nt_decisions := nt_decisions d @ [x]\<rparr>)"

definition submitDraftForReview ::
  "notices_env \<Rightarrow> ('raw \<Rightarrow> string list + approval_input) \<Rightarrow> string \<Rightarrow> string \<Rightarrow> string \<Rightarrow> 'raw \<Rightarrow>
   ('j, draft_row) notices" where
  "submitDraftForReview env safeParse newId projectId noticePackageId rawInput =
     projectService projectId (NoticeCap c_notice_draft_submit) ''Invalid submit input''
       safeParse rawInput (\<lambda>ctx data.
     bindH (loadNotice (cx_tenantId ctx) projectId noticePackageId) (\<lambda>pkg.
     bindH (pickDraft (cx_tenantId ctx) noticePackageId (api_draftRevisionId data)) (\<lambda>revision.
     thenH (requireH (nv_status revision \<noteq> DF_APPROVED) (conflict ''Revision already approved''))
     (bindH (buildValidationInput (cx_tenantId ctx) pkg (nv_id revision)) (\<lambda>validation.
     thenH (requireH (vs_ok validation) (validationError ''Draft validation has blocking issues''
        (Some (map iu_code (vs_blocking validation)))))
     (thenH (updateDraft (cx_tenantId ctx) (nv_id revision) (\<lambda>r. r\<lparr>nv_status := DF_IN_REVIEW,
        nv_submittedAt := Some (nn_now env), nv_validationSnapshot := Some validation\<rparr>))
     (thenH (storeDecision (newDecision ctx newId projectId noticePackageId (nv_id revision)
        AD_SUBMITTED (api_rationale data) (Some validation)))
     (thenH (setNoticeStatus (cx_tenantId ctx) noticePackageId NP_IN_REVIEW)
     (thenH (auditP ctx projectId ''notice_draft.submit'' ''notice_draft_revision'' (nv_id revision))
       (returnH revision))))))))))"

definition requestDraftChanges ::
  "('raw \<Rightarrow> string list + approval_input) \<Rightarrow> string \<Rightarrow> string \<Rightarrow> string \<Rightarrow> 'raw \<Rightarrow> ('j, draft_row) notices" where
  "requestDraftChanges safeParse newId projectId noticePackageId rawInput =
     projectService projectId (NoticeCap c_notice_draft_review) ''Invalid input''
       safeParse rawInput (\<lambda>ctx data.
     bindH (pickDraft (cx_tenantId ctx) noticePackageId (api_draftRevisionId data)) (\<lambda>revision.
     thenH (updateDraft (cx_tenantId ctx) (nv_id revision)
        (\<lambda>r. r\<lparr>nv_status := DF_CHANGES_REQUESTED\<rparr>))
     (thenH (storeDecision (newDecision ctx newId projectId noticePackageId (nv_id revision)
        AD_CHANGES_REQUESTED (api_rationale data) None))
     (thenH (setNoticeStatus (cx_tenantId ctx) noticePackageId NP_CHANGES_REQUESTED)
       (returnH revision)))))"

definition recommendApproval ::
  "('raw \<Rightarrow> string list + approval_input) \<Rightarrow> string \<Rightarrow> string \<Rightarrow> string \<Rightarrow> 'raw \<Rightarrow> ('j, draft_row) notices" where
  "recommendApproval safeParse newId projectId noticePackageId rawInput =
     projectService projectId (NoticeCap c_notice_draft_review) ''Invalid input''
       safeParse rawInput (\<lambda>ctx data.
     bindH (pickDraft (cx_tenantId ctx) noticePackageId (api_draftRevisionId data)) (\<lambda>revision.
     thenH (storeDecision (newDecision ctx newId projectId noticePackageId (nv_id revision)
        AD_RECOMMENDED_FOR_APPROVAL (api_rationale data) None))
       (returnH revision)))"

definition requireOtherApprover :: "project_context \<Rightarrow> package_row \<Rightarrow> draft_row \<Rightarrow> ('s, unit) handler" where
  "requireOtherApprover ctx pkg revision =
     (if nk_sodEnforced pkg
      then thenH (requireH (nk_createdByUserId pkg \<noteq> userId ctx)
             (forbidden ''Segregation of duties: approver must differ from package creator''))
           (requireH (nv_createdByUserId revision \<noteq> userId ctx)
             (forbidden ''Segregation of duties: approver must differ from draft author''))
      else returnH ())"

text \<open>The revision that was active is superseded.\<close>

definition supersedeActive :: "string \<Rightarrow> package_row \<Rightarrow> ('j, unit) notices" where
  "supersedeActive tenantId pkg =
     (if truthy (nk_activeApprovedRevisionId pkg)
      then thenH (updateDraft tenantId (the (nk_activeApprovedRevisionId pkg))
        (\<lambda>r. r\<lparr>nv_status := DF_SUPERSEDED\<rparr>)) (returnH ())
      else returnH ())"

definition activateRevision ::
  "project_context \<Rightarrow> string \<Rightarrow> string \<Rightarrow> ('j, unit) notices" where
  "activateRevision ctx noticePackageId revisionId = writeDb (\<lambda>d. d\<lparr>nt_packages :=
     updateWhere (\<lambda>p. nk_id p = noticePackageId \<and> nk_tenantId p = cx_tenantId ctx)
       (\<lambda>p. p\<lparr>nk_status := NP_APPROVED, nk_activeApprovedRevisionId := Some revisionId,
          nk_approverUserId := Some (userId ctx)\<rparr>) (nt_packages d)\<rparr>)"

definition approveDraft ::
  "notices_env \<Rightarrow> ('raw \<Rightarrow> string list + approval_input) \<Rightarrow> string \<Rightarrow> string \<Rightarrow> string \<Rightarrow> 'raw \<Rightarrow>
   ('j, draft_row \<times> decision_row) notices" where
  "approveDraft env safeParse newId projectId noticePackageId rawInput =
     projectService projectId (NoticeCap c_notice_draft_approve) ''Invalid approval''
       safeParse rawInput (\<lambda>ctx data.
     bindH (findOr unexpectedError (findNotice (cx_tenantId ctx) projectId noticePackageId)) (\<lambda>pkg.
     bindH (pickDraft (cx_tenantId ctx) noticePackageId (api_draftRevisionId data)) (\<lambda>revision.
     thenH (requireH (nv_status revision \<noteq> DF_APPROVED) (conflict ''Already approved''))
     (thenH (requireOtherApprover ctx pkg revision)
     (bindH (loadNotice (cx_tenantId ctx) projectId noticePackageId) (\<lambda>loaded.
     bindH (buildValidationInput (cx_tenantId ctx) loaded (nv_id revision)) (\<lambda>validation.
     thenH (requireH (vs_ok validation)
        (validationError ''Cannot approve draft with blocking validation issues'' None))
     (thenH (supersedeActive (cx_tenantId ctx) pkg)
     (bindH (updateDraft (cx_tenantId ctx) (nv_id revision) (\<lambda>r. r\<lparr>nv_status := DF_APPROVED,
        nv_approvedAt := Some (nn_now env)\<rparr>)) (\<lambda>approved.
     let decision = newDecision ctx newId projectId noticePackageId (nv_id revision) AD_APPROVED
           (api_rationale data) (Some validation) in
     thenH (storeDecision decision)
     (thenH (activateRevision ctx noticePackageId (nv_id revision))
     (thenH (auditP ctx projectId ''notice_draft.approve'' ''notice_draft_revision'' (nv_id approved))
       (returnH (approved, decision))))))))))))))"

definition rejectDraft ::
  "('raw \<Rightarrow> string list + approval_input) \<Rightarrow> string \<Rightarrow> string \<Rightarrow> string \<Rightarrow> 'raw \<Rightarrow> ('j, draft_row) notices" where
  "rejectDraft safeParse newId projectId noticePackageId rawInput =
     projectService projectId (NoticeCap c_notice_draft_reject) ''Invalid rejection''
       safeParse rawInput (\<lambda>ctx data.
     bindH (pickDraft (cx_tenantId ctx) noticePackageId (api_draftRevisionId data)) (\<lambda>revision.
     thenH (updateDraft (cx_tenantId ctx) (nv_id revision) (\<lambda>r. r\<lparr>nv_status := DF_WITHDRAWN\<rparr>))
     (thenH (storeDecision (newDecision ctx newId projectId noticePackageId (nv_id revision)
        AD_REJECTED (api_rationale data) None))
     (thenH (setNoticeStatus (cx_tenantId ctx) noticePackageId NP_DRAFTING)
       (returnH revision)))))"

definition withdrawNoticePackage ::
  "('raw \<Rightarrow> string list + approval_input) \<Rightarrow> string \<Rightarrow> string \<Rightarrow> 'raw \<Rightarrow> ('j, package_row) notices" where
  "withdrawNoticePackage safeParse projectId noticePackageId rawInput =
     projectService projectId (NoticeCap c_notice_package_withdraw) ''Invalid withdraw input''
       safeParse rawInput (\<lambda>ctx data.
     bindH (loadNotice (cx_tenantId ctx) projectId noticePackageId) (\<lambda>pkg.
     thenH (requireH (nk_status (lp_package pkg) \<noteq> NP_WITHDRAWN) (conflict ''Already withdrawn''))
     (thenH (requireH (nk_status (lp_package pkg) \<noteq> NP_SENT)
        (validationError ''Cannot withdraw sent notices in this slice'' None))
     (thenH (setNoticeStatus (cx_tenantId ctx) noticePackageId NP_WITHDRAWN)
     (thenH (auditP ctx projectId ''notice_package.withdraw'' ''notice_package'' noticePackageId)
       (returnH ((lp_package pkg)\<lparr>nk_status := NP_WITHDRAWN\<rparr>)))))))"

text \<open>The check for exceptions that cannot be waived stands before the transaction.\<close>

definition createControlledException ::
  "('raw \<Rightarrow> string list + exception_input) \<Rightarrow> string \<Rightarrow> string \<Rightarrow> string \<Rightarrow> 'raw \<Rightarrow>
   ('j, exception_row) notices" where
  "createControlledException safeParse newId projectId noticePackageId rawInput =
     projectService projectId (NoticeCap c_notice_exception_approve) ''Invalid exception''
       safeParse rawInput (\<lambda>ctx data.
     thenH (requireH (\<not> isNonWaivableException (xe_issueCategory data))
        (validationError (''Non-waivable exception: '' @ xe_issueCategory data) None))
     (thenH (loadNotice (cx_tenantId ctx) projectId noticePackageId)
     (let created = \<lparr>nj_id = newId, nj_tenantId = cx_tenantId ctx, nj_projectId = projectId,
        nj_noticePackageId = noticePackageId, nj_input = data, nj_approvedByUserId = userId ctx\<rparr>
      in thenH (writeDb (\<lambda>d. d\<lparr>nt_exceptions := nt_exceptions d @ [created]\<rparr>)) (returnH created))))"

section \<open>Attachments, exports and comments\<close>

definition nextAttachmentSequence :: "string \<Rightarrow> string \<Rightarrow> 'j notices_db \<Rightarrow> nat" where
  "nextAttachmentSequence tenantId noticePackageId d =
     Max (insert 0 (set (map ng_sequence (filter (\<lambda>a. ng_noticePackageId a = noticePackageId
       \<and> ng_tenantId a = tenantId) (nt_attachments d))))) + 1"

definition addAttachment ::
  "('raw \<Rightarrow> string list + attachment_input) \<Rightarrow> string \<Rightarrow> string \<Rightarrow> string \<Rightarrow> 'raw \<Rightarrow>
   ('j, attachment_row) notices" where
  "addAttachment safeParse newId projectId noticePackageId rawInput =
     projectService projectId (NoticeCap c_notice_attachment_manage) ''Invalid attachment''
       safeParse rawInput (\<lambda>ctx data.
     thenH (loadNotice (cx_tenantId ctx) projectId noticePackageId)
     (thenH (requireVersion (cx_tenantId ctx) projectId (xt_documentVersionId data))
     (bindH (readDb (nextAttachmentSequence (cx_tenantId ctx) noticePackageId)) (\<lambda>seqNo.
      let created = \<lparr>ng_id = newId, ng_tenantId = cx_tenantId ctx, ng_projectId = projectId,
        ng_noticePackageId = noticePackageId, ng_input = data, ng_inclusionStatus = IC_PROPOSED,
        ng_sequence = seqNo, ng_checksumSha256 = None, ng_addedByUserId = userId ctx,
        ng_reviewedByUserId = None\<rparr>
      in thenH (writeDb (\<lambda>d. d\<lparr>nt_attachments := nt_attachments d @ [created]\<rparr>))
           (returnH created)))))"

definition setAttachmentInclusion ::
  "string \<Rightarrow> string \<Rightarrow> string \<Rightarrow> inclusion_status \<Rightarrow> ('j, attachment_row) notices" where
  "setAttachmentInclusion projectId noticePackageId attachmentId inclusionStatus =
     projectAction projectId (NoticeCap c_notice_attachment_manage) (\<lambda>ctx.
     bindH (findOr notFound (\<lambda>d. find (\<lambda>a. ng_id a = attachmentId
        \<and> ng_noticePackageId a = noticePackageId \<and> ng_tenantId a = cx_tenantId ctx
        \<and> ng_projectId a = projectId) (nt_attachments d))) (\<lambda>attachment.
     let f = (\<lambda>a. a\<lparr>ng_inclusionStatus := inclusionStatus,
           ng_reviewedByUserId := Some (userId ctx)\<rparr>) in
     thenH (writeDb (\<lambda>d. d\<lparr>nt_attachments :=
        updateWhere (\<lambda>a. ng_id a = ng_id attachment) f (nt_attachments d)\<rparr>))
       (returnH (f attachment))))"

definition exportAttachment :: "attachment_row \<Rightarrow> export_attachment" where
  "exportAttachment a = \<lparr>ma_id = ng_id a, ma_filename = xt_externalFilename (ng_input a),
     ma_checksumSha256 = ng_checksumSha256 a, ma_sequence = int (ng_sequence a),
     xa_content = ''Attachment placeholder: '' @ xt_externalFilename (ng_input a)\<rparr>"

definition exportInputOf ::
  "notices_env \<Rightarrow> package_row \<Rightarrow> draft_row \<Rightarrow> 'j notices_db \<Rightarrow> export_input" where
  "exportInputOf env pkg revision d =
     \<lparr>xi_title = nk_title pkg,
      xi_sections = sort_key sn_sequence (map nw_content (sectionsOf (nv_id revision) d)),
      xi_noticePackageId = nk_id pkg, xi_draftRevisionId = nv_id revision,
      xi_revisionNumber = nv_revisionNumber revision, xi_language = nv_language revision,
      xi_generatorVersion = nv_generatorVersion revision,
      xi_attachments = map exportAttachment (filter (\<lambda>a. ng_noticePackageId a = nk_id pkg
        \<and> ng_inclusionStatus a = IC_INCLUDED) (nt_attachments d)),
      xi_recipientPreparationIds = map nb_id (filter (\<lambda>r. nb_noticePackageId r = nk_id pkg)
        (nt_preparations d)),
      xi_approvalDecisionId = map_option nd_id (lastOf (filter (\<lambda>x. nd_noticePackageId x = nk_id pkg
        \<and> nd_decision x = AD_APPROVED) (nt_decisions d))),
      xi_approvedAt = map_option (nn_isoOf env) (nv_approvedAt revision)\<rparr>"

text \<open>Format, size and checksum of the files of an export.\<close>

definition bundlesOf ::
  "notices_env \<Rightarrow> exported_notice \<Rightarrow> (export_format \<times> nat \<times> string) list" where
  "bundlesOf env x =
     [(XF_PDF, length (xo_pdf x), xo_pdfChecksum x),
      (XF_DOCX, length (xo_docx x), xo_docxChecksum x),
      (XF_JSON_MANIFEST, length (nn_stringify env (xo_manifest x)),
        em_checksumSha256 (xo_manifest x)),
      (XF_PLAIN_TEXT, length (xo_plainText x), em_checksumSha256 (xo_manifest x)),
      (XF_ATTACHMENT_ZIP, length (xo_zip x), xo_zipChecksum x)]"

definition bundleRow ::
  "project_context \<Rightarrow> string \<Rightarrow> string \<Rightarrow> draft_row \<Rightarrow> (nat \<Rightarrow> string) \<Rightarrow>
   nat \<times> export_format \<times> nat \<times> string \<Rightarrow> bundle_row" where
  "bundleRow ctx projectId noticePackageId revision ids entry =
     (case entry of (n, fmt, bytes, checksum) \<Rightarrow>
     \<lparr>nm_id = ids n, nm_tenantId = cx_tenantId ctx, nm_projectId = projectId,
      nm_noticePackageId = noticePackageId, nm_draftRevisionId = nv_id revision,
      nm_format = fmt, nm_artifactChecksum = checksum, nm_artifactBytes = bytes,
      nm_templateVersion = nv_templateVersion revision, nm_language = nv_language revision,
      nm_generatedByUserId = userId ctx\<rparr>)"

definition generateExport ::
  "notices_env \<Rightarrow> (nat \<Rightarrow> string) \<Rightarrow> string \<Rightarrow> string \<Rightarrow> string option \<Rightarrow>
   ('j, bundle_row list \<times> string \<times> export_manifest) notices" where
  "generateExport env ids projectId noticePackageId format =
     projectAction projectId (NoticeCap c_notice_export_generate) (\<lambda>ctx.
     bindH (findOr notFound (findNotice (cx_tenantId ctx) projectId noticePackageId)) (\<lambda>pkg.
     bindH (findOr (validationError
        (utf8 [78, 111, 32, 97, 99, 116, 105, 118, 101, 32, 97, 112, 112, 114, 111, 118, 101, 100,
       32, 114, 101, 118, 105, 115, 105, 111, 110, 32, 8212, 32, 101, 120, 112, 111, 114, 116,
       32, 114, 101, 113, 117, 105, 114, 101, 115, 32, 97, 112, 112, 114, 111, 118, 97, 108]) None)
        (\<lambda>d. Option.bind (nk_activeApprovedRevisionId pkg) (\<lambda>i. find (\<lambda>r. nv_id r = i
          \<and> nv_tenantId r = cx_tenantId ctx) (nt_drafts d)))) (\<lambda>revision.
     thenH (requireH (nk_status pkg = NP_APPROVED \<or> nk_status pkg = NP_EXPORTED)
        (validationError ''Package must be approved before export'' None))
     (bindH (readDb (exportInputOf env pkg revision)) (\<lambda>input.
     case exportApprovedNotice (nn_sha env) (nn_stringifyPretty env) (nn_isoOf env (nn_now env)) input of
       Inl _ \<Rightarrow> throwH unexpectedError
     | Inr exported \<Rightarrow>
        (let chosen = filter (\<lambda>b. \<not> truthy format \<or> format = Some (export_format_name (fst b)))
               (bundlesOf env exported);
             rows = map (bundleRow ctx projectId noticePackageId revision ids) (enumerate 0 chosen)
         in thenH (writeDb (\<lambda>d. d\<lparr>nt_bundles := nt_bundles d @ rows\<rparr>))
            (thenH (setNoticeStatus (cx_tenantId ctx) noticePackageId NP_EXPORTED)
            (thenH (auditP ctx projectId ''notice_export.generate'' ''notice_package'' noticePackageId)
              (returnH (rows, xo_plainText exported, xo_manifest exported))))))))))"

definition addReviewComment ::
  "('raw \<Rightarrow> string list + comment_input) \<Rightarrow> string \<Rightarrow> string \<Rightarrow> string \<Rightarrow> 'raw \<Rightarrow> ('j, comment_row) notices" where
  "addReviewComment safeParse newId projectId noticePackageId rawInput =
     projectService projectId (NoticeCap c_notice_draft_review) ''Invalid comment''
       safeParse rawInput (\<lambda>ctx data.
     thenH (loadNotice (cx_tenantId ctx) projectId noticePackageId)
     (let created = \<lparr>ni_id = newId, ni_tenantId = cx_tenantId ctx, ni_projectId = projectId,
        ni_noticePackageId = noticePackageId, ni_input = data, ni_status = CS_OPEN,
        ni_raisedByUserId = userId ctx, ni_resolvedByUserId = None, ni_resolvedAt = None\<rparr>
      in thenH (writeDb (\<lambda>d. d\<lparr>nt_comments := nt_comments d @ [created]\<rparr>)) (returnH created)))"

definition resolveReviewComment ::
  "notices_env \<Rightarrow> string \<Rightarrow> string \<Rightarrow> string \<Rightarrow> ('j, comment_row) notices" where
  "resolveReviewComment env projectId noticePackageId commentId =
     projectAction projectId (NoticeCap c_notice_draft_review) (\<lambda>ctx.
     bindH (findOr notFound (\<lambda>d. find (\<lambda>c. ni_id c = commentId
        \<and> ni_noticePackageId c = noticePackageId \<and> ni_tenantId c = cx_tenantId ctx
        \<and> ni_projectId c = projectId) (nt_comments d))) (\<lambda>comment.
     let f = (\<lambda>c. c\<lparr>ni_status := CS_RESOLVED, ni_resolvedByUserId := Some (userId ctx),
           ni_resolvedAt := Some (nn_now env)\<rparr>) in
     thenH (writeDb (\<lambda>d. d\<lparr>nt_comments :=
        updateWhere (\<lambda>c. ni_id c = ni_id comment) f (nt_comments d)\<rparr>))
       (returnH (f comment))))"

end
