(* ===== verification/NoticeTracking.thy ===== *)
theory NoticeTracking
  imports NoticeService
begin

text \<open>
  What the notice package service keeps.  \<open>package_step\<close> is the abstract machine of the tables
  of packages, revisions, sections and decisions; each request of the service is one of its steps
  (the \<open>_refines\<close> lemmas).  \<open>noticeInv\<close> holds along it: a package has one approved
  revision, its active one; every approval passed the validation and, with segregation of duties, was
  given by neither the creator of the package nor the author of the revision.
\<close>

section \<open>Effects\<close>

lemma loadNotice_Inr [ok_iff]:
  "loadNotice T pid nid s = (Inr x, t) \<longleftrightarrow> t = s
     \<and> (\<exists>p. findNotice T pid nid (ap_db s) = Some p \<and> x = includeRows p (ap_db s))"
  by (auto simp: loadNotice_def ok_iff)

lemma setNoticeStatus_Inr [ok_iff]:
  "setNoticeStatus T nid st s = (Inr x, t) \<longleftrightarrow>
     list_ex (\<lambda>p. nk_id p = nid \<and> nk_tenantId p = T) (nt_packages (ap_db s))
     \<and> t = s\<lparr>ap_db := (ap_db s)\<lparr>nt_packages :=
        updateWhere (\<lambda>p. nk_id p = nid \<and> nk_tenantId p = T) (\<lambda>p. p\<lparr>nk_status := st\<rparr>)
          (nt_packages (ap_db s))\<rparr>\<rparr>"
  by (auto simp: setNoticeStatus_def ok_iff)

lemma storeDecision_Inr [ok_iff]:
  "storeDecision y s = (Inr x, t) \<longleftrightarrow>
     t = s\<lparr>ap_db := (ap_db s)\<lparr>nt_decisions := nt_decisions (ap_db s) @ [y]\<rparr>\<rparr>"
  by (auto simp: storeDecision_def ok_iff)

lemma satisfy_Inr [ok_iff]:
  "satisfy P st s = (Inr x, t) \<longleftrightarrow> t = s\<lparr>ap_db := (ap_db s)\<lparr>nt_evidence :=
     updateWhere P (\<lambda>r. r\<lparr>ne_satisfactionStatus := st\<rparr>) (nt_evidence (ap_db s))\<rparr>\<rparr>"
  by (auto simp: satisfy_def ok_iff)

lemma updateQuestion_Inr [ok_iff]:
  "updateQuestion q f s = (Inr x, t) \<longleftrightarrow> x = f q \<and> t = s\<lparr>ap_db := (ap_db s)\<lparr>nt_questions :=
     updateWhere (\<lambda>y. nu_id y = nu_id q) f (nt_questions (ap_db s))\<rparr>\<rparr>"
  by (auto simp: updateQuestion_def ok_iff)

lemma projectRow_Inr [ok_iff]:
  "projectRow T pid s = (Inr x, t) \<longleftrightarrow> t = s \<and> x = findProject pid T (ap_web s)"
  by (auto simp: projectRow_def)

lemma mutable_project_Inr [ok_iff]:
  "assertProjectMutable st s = (Inr x, t) \<longleftrightarrow> t = s \<and> st \<noteq> P_ARCHIVED"
  by (auto simp: assertProjectMutable_def ok_iff)

lemma requireVersion_state:
  "requireVersion T pid v s = (Inr x, t) \<Longrightarrow> t = s"
  by (auto simp: requireVersion_def ok_iff split: if_splits)

lemma pickDraft_row:
  assumes "pickDraft T nid i s = (Inr r, t)"
  shows "t = s \<and> r \<in> set (nt_drafts (ap_db s)) \<and> nv_tenantId r = T \<and> nv_noticePackageId r = nid"
proof -
  have latest: "latestBy k xs = Some x \<Longrightarrow> x \<in> set xs" for k :: "draft_row \<Rightarrow> nat" and xs x
    by (induction xs arbitrary: x) (auto split: option.splits if_splits)
  show ?thesis
    using assms by (auto simp: pickDraft_def ok_iff draftById_def loadLatestDraft_def draftsOf_def
        split: if_splits dest!: find_SomeD latest)
qed

lemma buildValidationInput_Inr [ok_iff]:
  "buildValidationInput T pkg i s = (Inr x, t) \<longleftrightarrow> t = s \<and> (\<exists>r c.
     find (\<lambda>r. nv_id r = i \<and> nv_tenantId r = T) (nt_drafts (ap_db s)) = Some r
     \<and> find (\<lambda>c. dc_id c = bi_deadlineCalculationId (nk_binding (lp_package pkg))
         \<and> dc_tenantId c = T) (dd_calculations (ap_db s)) = Some c
     \<and> x = validateNoticeDraft (validationInputOf pkg r (map nw_content (sectionsOf i (ap_db s))) c
         (openQuestions T (nk_id (lp_package pkg)) (ap_db s))
         (exceptionCount T (nk_id (lp_package pkg)) (ap_db s))))"
  by (auto simp: buildValidationInput_def ok_iff)

lemma validation_state: "buildValidationInput T pkg i s = (Inr x, t) \<Longrightarrow> t = s"
  by (simp add: ok_iff)

lemma updateDraft_Inr [ok_iff]:
  "updateDraft T i f s = (Inr x, t) \<longleftrightarrow> (\<exists>old.
     find (\<lambda>r. nv_id r = i \<and> nv_tenantId r = T) (nt_drafts (ap_db s)) = Some old
     \<and> draftTrigger old (f old) \<and> x = f old
     \<and> t = s\<lparr>ap_db := (ap_db s)\<lparr>nt_drafts :=
        updateWhere (\<lambda>r. nv_id r = i \<and> nv_tenantId r = T) f (nt_drafts (ap_db s))\<rparr>\<rparr>)"
  by (auto simp: updateDraft_def ok_iff)

lemma storeDraft_Inr [ok_iff]:
  "storeDraft ctx nid r rows s = (Inr x, t) \<longleftrightarrow>
     list_ex (\<lambda>p. nk_id p = nid \<and> nk_tenantId p = cx_tenantId ctx) (nt_packages (ap_db s))
     \<and> t = s\<lparr>ap_db := (ap_db s)\<lparr>nt_drafts := nt_drafts (ap_db s) @ [r],
         nt_sections := nt_sections (ap_db s) @ rows,
         nt_packages := updateWhere (\<lambda>p. nk_id p = nid \<and> nk_tenantId p = cx_tenantId ctx)
           (\<lambda>p. p\<lparr>nk_status := NP_DRAFTING\<rparr>) (nt_packages (ap_db s))\<rparr>\<rparr>"
  by (auto simp: storeDraft_def ok_iff)

lemma findNotice_row:
  "findNotice T pid nid d = Some p \<Longrightarrow>
     p \<in> set (nt_packages d) \<and> nk_id p = nid \<and> nk_tenantId p = T \<and> nk_projectId p = pid"
  by (auto simp: findNotice_def dest!: find_SomeD)

section \<open>The abstract machine of the tables\<close>

definition packageTables ::
  "'j notices_db \<Rightarrow> package_row list \<times> draft_row list \<times> section_line list \<times> decision_row list" where
  "packageTables d = (nt_packages d, nt_drafts d, nt_sections d, nt_decisions d)"

text \<open>The packages but for their status.\<close>

definition unstatused :: "package_row list \<Rightarrow> package_row list" where
  "unstatused ps = map (\<lambda>p. p\<lparr>nk_status := NP_DRAFT\<rparr>) ps"

definition atDraft :: "string \<Rightarrow> string \<Rightarrow> draft_row \<Rightarrow> bool" where
  "atDraft i T r \<longleftrightarrow> nv_id r = i \<and> nv_tenantId r = T"

text \<open>A change of a revision that leaves who it belongs to and does not approve it.\<close>

definition reviewChange :: "(draft_row \<Rightarrow> draft_row) \<Rightarrow> bool" where
  "reviewChange f \<longleftrightarrow> (\<forall>r. nv_id (f r) = nv_id r \<and> nv_tenantId (f r) = nv_tenantId r
     \<and> nv_noticePackageId (f r) = nv_noticePackageId r
     \<and> nv_revisionNumber (f r) = nv_revisionNumber r
     \<and> nv_createdByUserId (f r) = nv_createdByUserId r
     \<and> (nv_status (f r) = DF_APPROVED \<longrightarrow> nv_status r = DF_APPROVED))"

definition supersedeIn :: "string option \<Rightarrow> string \<Rightarrow> draft_row list \<Rightarrow> draft_row list" where
  "supersedeIn active T rs = (if truthy active
     then updateWhere (atDraft (the active) T) (\<lambda>r. r\<lparr>nv_status := DF_SUPERSEDED\<rparr>) rs else rs)"

inductive package_step :: "'j notices_db \<Rightarrow> 'j notices_db \<Rightarrow> bool" for d where
  others: "unstatused (nt_packages e) = unstatused (nt_packages d) \<Longrightarrow>
    packageTables e = (nt_packages e, nt_drafts d, nt_sections d, nt_decisions d) \<Longrightarrow>
    package_step d e"
| create: "nk_id p \<notin> nk_id ` set (nt_packages d) \<Longrightarrow> nk_activeApprovedRevisionId p = None \<Longrightarrow>
    packageTables e = (nt_packages d @ [p], nt_drafts d, nt_sections d, nt_decisions d) \<Longrightarrow>
    package_step d e"
| draft: "p \<in> set (nt_packages d) \<Longrightarrow> nv_noticePackageId r = nk_id p \<Longrightarrow>
    nv_tenantId r = nk_tenantId p \<Longrightarrow> nv_id r \<notin> nv_id ` set (nt_drafts d) \<Longrightarrow> nv_id r \<noteq> [] \<Longrightarrow>
    nv_status r = DF_DRAFT \<Longrightarrow>
    nv_revisionNumber r = nextRevisionNumber (nk_tenantId p) (nk_id p) d \<Longrightarrow>
    set (map nw_draftRevisionId rows) \<subseteq> {nv_id r} \<Longrightarrow>
    distinct (map nw_id rows) \<Longrightarrow> nw_id ` set rows \<inter> nw_id ` set (nt_sections d) = {} \<Longrightarrow>
    unstatused (nt_packages e) = unstatused (nt_packages d) \<Longrightarrow>
    packageTables e = (nt_packages e, nt_drafts d @ [r], nt_sections d @ rows, nt_decisions d) \<Longrightarrow>
    package_step d e"
| edit: "x \<in> set (nt_sections d) \<Longrightarrow> r \<in> set (nt_drafts d) \<Longrightarrow> nw_draftRevisionId x = nv_id r \<Longrightarrow>
    nv_status r \<noteq> DF_APPROVED \<Longrightarrow>
    packageTables e = (nt_packages d, nt_drafts d,
      updateWhere (\<lambda>s. nw_id s = nw_id x) (editSection body) (nt_sections d), nt_decisions d) \<Longrightarrow>
    package_step d e"
| review: "r \<in> set (nt_drafts d) \<Longrightarrow> nv_tenantId r = T \<Longrightarrow> nv_status r \<noteq> DF_APPROVED \<Longrightarrow>
    reviewChange f \<Longrightarrow> AD_APPROVED \<notin> nd_decision ` set xs \<Longrightarrow>
    unstatused (nt_packages e) = unstatused (nt_packages d) \<Longrightarrow>
    packageTables e = (nt_packages e, updateWhere (atDraft (nv_id r) T) f (nt_drafts d),
      nt_sections d, nt_decisions d @ xs) \<Longrightarrow> package_step d e"
| decide: "nd_decision x \<noteq> AD_APPROVED \<Longrightarrow>
    packageTables e = (nt_packages d, nt_drafts d, nt_sections d, nt_decisions d @ [x]) \<Longrightarrow>
    package_step d e"
| approve: "p \<in> set (nt_packages d) \<Longrightarrow> r \<in> set (nt_drafts d) \<Longrightarrow>
    nv_noticePackageId r = nk_id p \<Longrightarrow> nv_tenantId r = nk_tenantId p \<Longrightarrow>
    nv_status r \<noteq> DF_APPROVED \<Longrightarrow>
    nk_sodEnforced p \<longrightarrow> nk_createdByUserId p \<noteq> userId ctx \<and> nv_createdByUserId r \<noteq> userId ctx \<Longrightarrow>
    vs_ok v \<Longrightarrow> cx_tenantId ctx = nk_tenantId p \<Longrightarrow>
    packageTables e = (updateWhere (\<lambda>q. nk_id q = nk_id p \<and> nk_tenantId q = cx_tenantId ctx)
        (\<lambda>q. q\<lparr>nk_status := NP_APPROVED, nk_activeApprovedRevisionId := Some (nv_id r),
          nk_approverUserId := Some (userId ctx)\<rparr>) (nt_packages d),
      updateWhere (atDraft (nv_id r) (nk_tenantId p))
        (\<lambda>r. r\<lparr>nv_status := DF_APPROVED, nv_approvedAt := Some n\<rparr>)
        (supersedeIn (nk_activeApprovedRevisionId p) (nk_tenantId p) (nt_drafts d)),
      nt_sections d,
      nt_decisions d @ [newDecision ctx i pid (nk_id p) (nv_id r) AD_APPROVED w (Some v)]) \<Longrightarrow>
    package_step d e"

inductive_cases package_stepE: "package_step d e"

lemma idle_packages: "ap_db t = ap_db s \<Longrightarrow> package_step (ap_db s) (ap_db t)"
  by (rule package_step.others) (simp_all add: packageTables_def)

lemma unstatused_update [simp]:
  "unstatused (updateWhere P (\<lambda>p. p\<lparr>nk_status := st\<rparr>) ps) = unstatused ps"
  by (simp add: unstatused_def map_updateWhere)

section \<open>Each request is a step\<close>

text \<open>A request that leaves the four tables, but for the status of packages.\<close>

lemma others_step:
  "nt_drafts e = nt_drafts d \<Longrightarrow> nt_sections e = nt_sections d \<Longrightarrow> nt_decisions e = nt_decisions d \<Longrightarrow>
   unstatused (nt_packages e) = unstatused (nt_packages d) \<Longrightarrow> package_step d e"
  by (rule package_step.others) (simp_all add: packageTables_def)

lemma seeding_tables:
  "seedRequirementSnapshot ctx pid nid i snap calc s = (Inr x, t) \<Longrightarrow>
     packageTables (ap_db t) = packageTables (ap_db s)"
  "seedEvidenceRequirements ctx pid nid rid ids s = (Inr y, t) \<Longrightarrow>
     packageTables (ap_db t) = packageTables (ap_db s)"
  "seedDeliveryPreparations ctx pid nid oid names ids s = (Inr z, t) \<Longrightarrow>
     packageTables (ap_db t) = packageTables (ap_db s)"
  "seedFactsFromEvent env ctx pid nid ev prj dates ids s = (Inr w, t) \<Longrightarrow>
     packageTables (ap_db t) = packageTables (ap_db s)"
  by (auto simp: seedRequirementSnapshot_def seedEvidenceRequirements_def Let_def packageTables_def
      seedDeliveryPreparations_def seedFactsFromEvent_def ok_iff split: option.splits if_splits)

text \<open>The rows that seed a package leave the four tables, and so do the audit log and the answer.\<close>

lemma seeded_tables:
  assumes "thenH (seedRequirementSnapshot ctx pid nid i snap calc)
     (thenH (seedEvidenceRequirements ctx pid nid rid ids)
     (thenH (seedDeliveryPreparations ctx pid nid oid names ids)
     (thenH (seedFactsFromEvent env ctx pid nid ev prj dates ids)
     (thenH (auditP ctx pid a b c) (loadNotice T pid nid))))) s = (Inr x, t)"
  shows "packageTables (ap_db t) = packageTables (ap_db s)"
proof -
  obtain s1 s2 s3 s4 y1 y2 y3 y4 y5 s5 where
    "seedRequirementSnapshot ctx pid nid i snap calc s = (Inr y1, s1)"
    "seedEvidenceRequirements ctx pid nid rid ids s1 = (Inr y2, s2)"
    "seedDeliveryPreparations ctx pid nid oid names ids s2 = (Inr y3, s3)"
    "seedFactsFromEvent env ctx pid nid ev prj dates ids s3 = (Inr y4, s4)"
    "auditP ctx pid a b c s4 = (Inr y5, s5)" "loadNotice T pid nid s5 = (Inr x, t)"
    using assms unfolding thenH_Inr by blast
  then show ?thesis
    using seeding_tables(1)[of ctx pid nid i snap calc s y1 s1]
      seeding_tables(2)[of ctx pid nid rid ids s1 y2 s2]
      seeding_tables(3)[of ctx pid nid oid names ids s2 y3 s3]
      seeding_tables(4)[of env ctx pid nid ev prj dates ids s3 y4 s4]
    by (auto simp: ok_iff)
qed

lemma createNotice_refines:
  assumes "createNoticePackageFromDeadline env sp newId reqId ids pid raw s = (r, t)"
    and "newId \<notin> nk_id ` set (nt_packages (ap_db s))"
  shows "package_step (ap_db s) (ap_db t)"
  using assms(1) unfolding createNoticePackageFromDeadline_def
proof (cases rule: projectService_cases)
  case (ran ctx data x)
  obtain calc u where u: "u = s\<lparr>ap_db := (ap_db s)\<lparr>nt_packages := nt_packages (ap_db s)
      @ [newPackage env ctx newId pid data calc]\<rparr>\<rparr>" "packageTables (ap_db t) = packageTables (ap_db u)"
    using ran(3) unfolding bindH_Inr thenH_Inr[of "requireH _ _"] thenH_Inr[of "assertProjectMutable _"]
      thenH_Inr[of "writeDb _"] findOr_Inr requireH_Inr readDb_Inr writeDb_Inr mutable_project_Inr
      someH_Inr projectRow_Inr
    by (elim exE conjE) (drule seeded_tables, blast)
  then show ?thesis
    using assms(2) by (intro package_step.create[of "newPackage env ctx newId pid data calc"])
      (simp_all add: packageTables_def newPackage_def)
qed (rule idle_packages)

lemma snapshotRequirements_refines:
  assumes "snapshotRequirements newId pid nid s = (r, t)"
  shows "package_step (ap_db s) (ap_db t)"
  using assms unfolding snapshotRequirements_def
proof (cases rule: projectAction_cases)
  case (ran ctx x)
  then show ?thesis
    by (intro others_step) (auto simp: ok_iff packageTables_def split: option.splits dest!: seeding_tables)
qed (rule idle_packages)

lemma assessEvidence_refines:
  assumes "assessEvidenceCompletenessForPackage env newId pid nid s = (r, t)"
  shows "package_step (ap_db s) (ap_db t)"
  using assms unfolding assessEvidenceCompletenessForPackage_def
proof (cases rule: projectAction_cases)
  case (ran ctx x)
  then show ?thesis by (intro others_step) (auto simp: ok_iff Let_def)
qed (rule idle_packages)

lemma link_refines:
  assumes "linkEvidence sp newId pid nid raw s = (r, t)"
  shows "package_step (ap_db s) (ap_db t)"
  using assms unfolding linkEvidence_def
proof (cases rule: projectService_cases)
  case (ran ctx data x)
  then show ?thesis
    by (intro others_step)
      (auto simp: ok_iff Let_def split: option.splits dest!: requireVersion_state)
qed (rule idle_packages)

lemma preparation_refines:
  assumes "verifyDeliveryPreparation pid nid i a b c s = (r, t)"
  shows "package_step (ap_db s) (ap_db t)"
  using assms unfolding verifyDeliveryPreparation_def
proof (cases rule: projectAction_cases)
  case (ran ctx x)
  then show ?thesis by (intro others_step) (auto simp: ok_iff Let_def)
qed (rule idle_packages)

lemma question_refines:
  "createReviewQuestion sp newId pid nid raw s = (r1, t) \<Longrightarrow> package_step (ap_db s) (ap_db t)"
  "answerReviewQuestion env sp' pid nid i raw s = (r2, t) \<Longrightarrow> package_step (ap_db s) (ap_db t)"
  "verifyQuestionAnswer env pid nid i s = (r3, t) \<Longrightarrow> package_step (ap_db s) (ap_db t)"
  unfolding createReviewQuestion_def answerReviewQuestion_def verifyQuestionAnswer_def
  by (erule projectService_cases projectAction_cases, erule idle_packages,
      intro others_step; auto simp: ok_iff Let_def)+

lemma createFact_refines:
  assumes "createNoticeFact sp newId pid nid raw s = (r, t)"
  shows "package_step (ap_db s) (ap_db t)"
  using assms unfolding createNoticeFact_def
proof (cases rule: projectService_cases)
  case (ran ctx data x)
  then show ?thesis by (intro others_step) (auto simp: ok_iff Let_def)
qed (rule idle_packages)

lemma satisfyFact_tables:
  "(if b then (case c of None \<Rightarrow> returnH () | Some k \<Rightarrow> satisfy (P k) st) else returnH ()) s = (Inr x, t) \<Longrightarrow>
     packageTables (ap_db t) = packageTables (ap_db s)"
  by (auto simp: ok_iff packageTables_def split: if_splits option.splits)

lemma verifyFact_refines:
  assumes "verifyNoticeFact env sp pid nid i raw s = (r, t)"
  shows "package_step (ap_db s) (ap_db t)"
  using assms unfolding verifyNoticeFact_def
proof (cases rule: projectService_cases)
  case (ran ctx data x)
  then have "packageTables (ap_db t) = packageTables (ap_db s)"
    unfolding bindH_Inr thenH_Inr findOr_Inr writeDb_Inr
    by (elim exE conjE) (drule satisfyFact_tables, simp add: packageTables_def)
  then show ?thesis by (intro others_step) (simp_all add: packageTables_def)
qed (rule idle_packages)

lemma nw_sectionsToDb [simp]:
  "map nw_id (sectionsToDb ctx pid i ids xs) = map ids [0..<length xs]"
  "set (map nw_draftRevisionId (sectionsToDb ctx pid i ids xs)) \<subseteq> {i}"
  by (auto simp: sectionsToDb_def enumerate_eq_zip split_def intro!: nth_equalityI)

lemma draft_step:
  assumes "findNotice T pid nid d = Some p" and "i \<notin> nv_id ` set (nt_drafts d)" and "i \<noteq> []"
    and "inj ids" and "range ids \<inter> nw_id ` set (nt_sections d) = {}" and "cx_tenantId ctx = T"
    and "packageTables e = (updateWhere P (\<lambda>p. p\<lparr>nk_status := st\<rparr>) (nt_packages d),
      nt_drafts d @ [newDraft ctx i pid nid (nextRevisionNumber T nid d) l tv g gv b q],
      nt_sections d @ sectionsToDb ctx pid i ids xs, nt_decisions d)"
  shows "package_step d e"
proof (rule package_step.draft)
  show "p \<in> set (nt_packages d)" using findNotice_row[OF assms(1)] by simp
  show "nw_id ` set (sectionsToDb ctx pid i ids xs) \<inter> nw_id ` set (nt_sections d) = {}"
    using assms(5) unfolding set_map[symmetric] nw_sectionsToDb by auto
  show "distinct (map nw_id (sectionsToDb ctx pid i ids xs))"
    using inj_on_subset[OF assms(4), of "{0..<length xs}"] by (simp add: distinct_map)
  show "packageTables e = (nt_packages e, nt_drafts d @ [newDraft ctx i pid nid
      (nextRevisionNumber T nid d) l tv g gv b q], nt_sections d @ sectionsToDb ctx pid i ids xs,
      nt_decisions d)"
    using assms(7) by (simp add: packageTables_def)
  show "unstatused (nt_packages e) = unstatused (nt_packages d)"
    using assms(7) by (simp add: packageTables_def)
  show "set (map nw_draftRevisionId (sectionsToDb ctx pid i ids xs))
      \<subseteq> {nv_id (newDraft ctx i pid nid (nextRevisionNumber T nid d) l tv g gv b q)}"
    using nw_sectionsToDb(2)[of ctx pid i ids xs] by (simp add: newDraft_def)
qed (use assms findNotice_row[OF assms(1)] in \<open>simp_all add: newDraft_def\<close>)

lemma generate_refines:
  assumes "generateDeterministicDraft env i ids pid nid s = (r, t)"
    and "i \<notin> nv_id ` set (nt_drafts (ap_db s))" "i \<noteq> []"
    and "inj ids" "range ids \<inter> nw_id ` set (nt_sections (ap_db s)) = {}"
  shows "package_step (ap_db s) (ap_db t)"
  using assms(1) unfolding generateDeterministicDraft_def
proof (cases rule: projectAction_cases)
  case (ran ctx x)
  have built: "buildDraftContext env T pkg s = (Inr y, u) \<Longrightarrow> u = s" for T pkg y u
    by (auto simp: buildDraftContext_def ok_iff)
  show ?thesis
    using ran(2) by (auto simp: ok_iff Let_def packageTables_def dest!: built
      intro!: draft_step[OF _ assms(2-5) refl])
qed (rule idle_packages)

lemma checked_Inr [ok_iff]:
  "(case v of Inl e \<Rightarrow> throwH (f e) | Inr (a, b) \<Rightarrow> m a b) s = (Inr x, t) \<longleftrightarrow>
     (\<exists>a b. v = Inr (a, b) \<and> m a b s = (Inr x, t))"
  "(case w of Inl e \<Rightarrow> throwH (g e) | Inr y \<Rightarrow> n y) s = (Inr z, t) \<longleftrightarrow>
     (\<exists>y. w = Inr y \<and> n y s = (Inr z, t))"
  by (auto split: sum.splits)

lemma aiDraft_refines:
  assumes "generateAiAssistedDraft env i ids pid nid s = (r, t)"
    and "i \<notin> nv_id ` set (nt_drafts (ap_db s))" "i \<noteq> []"
    and "inj ids" "range ids \<inter> nw_id ` set (nt_sections (ap_db s)) = {}"
  shows "package_step (ap_db s) (ap_db t)"
proof (cases "accessP pid (NoticeCap c_notice_draft_generate) s")
  case (Pair a u)
  show ?thesis
  proof (cases r)
    case (Inl e)
    have "ap_db t = ap_db s"
    proof (cases a)
      case (Inr ctx)
      have us: "u = s" using Pair accessP_ok[of pid _ s ctx u] unfolding Inr by blast
      show ?thesis
        using assms(1) Pair unfolding Inr Inl generateAiAssistedDraft_def us
        by (simp add: bindH_def transactionH_def someH_def split: prod.splits sum.splits option.splits)
    qed (use assms(1) Pair accessP_db[OF Pair] in \<open>auto simp: generateAiAssistedDraft_def\<close>)
    then show ?thesis by (rule idle_packages)
  next
    case (Inr x)
    then show ?thesis
      using assms(1) Pair unfolding generateAiAssistedDraft_def
      by (auto simp: ok_iff Let_def packageTables_def dest!: accessP_ok intro!: draft_step[OF _ assms(2-5) refl])
  qed
qed

lemma edit_refines:
  assumes "editDraftSection sp pid nid rid sid raw s = (r, t)"
  shows "package_step (ap_db s) (ap_db t)"
  using assms unfolding editDraftSection_def
proof (cases rule: projectService_cases)
  case (ran ctx body x)
  then obtain rev sec where "find (\<lambda>r. nv_id r = rid \<and> nv_noticePackageId r = nid
       \<and> nv_tenantId r = cx_tenantId ctx \<and> nv_projectId r = pid) (nt_drafts (ap_db s)) = Some rev"
    "nv_status rev \<noteq> DF_APPROVED"
    "find (\<lambda>s. nw_id s = sid \<and> nw_draftRevisionId s = rid \<and> nw_tenantId s = cx_tenantId ctx)
       (nt_sections (ap_db s)) = Some sec"
    "packageTables (ap_db t) = (nt_packages (ap_db s), nt_drafts (ap_db s),
      updateWhere (\<lambda>s. nw_id s = nw_id sec) (editSection body) (nt_sections (ap_db s)),
      nt_decisions (ap_db s))"
    by (auto simp: ok_iff packageTables_def)
  then show ?thesis
    by (intro package_step.edit[of sec _ rev]) (auto dest!: find_SomeD)
qed (rule idle_packages)

text \<open>A review step that passes the trigger.\<close>

lemma review_step:
  assumes upd: "updateDraft T i f s = (Inr y, u)" and f: "reviewChange f"
    and same: "\<And>r. nv_status (f r) = DF_SUPERSEDED \<Longrightarrow> nv_status r = DF_SUPERSEDED"
    and "AD_APPROVED \<notin> nd_decision ` set xs"
    and e: "packageTables e = (qs, nt_drafts (ap_db u), nt_sections (ap_db s), nt_decisions (ap_db s) @ xs)"
    and "unstatused qs = unstatused (nt_packages (ap_db s))"
  shows "package_step (ap_db s) e"
proof -
  obtain old where old: "find (\<lambda>r. nv_id r = i \<and> nv_tenantId r = T) (nt_drafts (ap_db s)) = Some old"
    "draftTrigger old (f old)" and u: "nt_drafts (ap_db u) = updateWhere (atDraft i T) f (nt_drafts (ap_db s))"
    using upd by (auto simp: ok_iff atDraft_def[abs_def])
  have "nv_status old \<noteq> DF_APPROVED"
    using old(2) same[of old] by (auto simp: draftTrigger_def)
  then show ?thesis
    using find_SomeD[OF old(1)] assms(4-6) f u
    by (intro package_step.review[of old _ T f xs]) (auto simp: packageTables_def)
qed

lemma validate_refines:
  assumes "runDraftValidation pid nid i s = (r, t)"
  shows "package_step (ap_db s) (ap_db t)"
  using assms unfolding runDraftValidation_def
proof (cases rule: projectAction_cases)
  case (ran ctx x)
  have picked: "(case i of Some i \<Rightarrow> findOr unexpectedError (draftById T nid i)
       | None \<Rightarrow> findOr notFound (loadLatestDraft T nid)) s = (Inr y, u) \<Longrightarrow> u = s"
    for T y u by (auto simp: ok_iff split: option.splits)
  obtain rev :: draft_row and v y where upd: "updateDraft (cx_tenantId ctx) (nv_id rev)
      (\<lambda>r. r\<lparr>nv_validationSnapshot := Some v\<rparr>) s = (Inr y, t)"
    using ran(2) by (auto simp: ok_iff simp del: updateDraft_Inr buildValidationInput_Inr
      dest!: picked validation_state)
  then have "packageTables (ap_db t) = (nt_packages (ap_db s), nt_drafts (ap_db t),
      nt_sections (ap_db s), nt_decisions (ap_db s) @ [])"
    by (auto simp: ok_iff packageTables_def)
  then show ?thesis by (intro review_step[OF upd]) (auto simp: reviewChange_def)
qed (rule idle_packages)

lemma submit_refines:
  assumes "submitDraftForReview env sp i pid nid raw s = (r, t)"
  shows "package_step (ap_db s) (ap_db t)"
  using assms unfolding submitDraftForReview_def
proof (cases rule: projectService_cases)
  case (ran ctx data x)
  obtain rev v y u where upd: "updateDraft (cx_tenantId ctx) (nv_id rev) (\<lambda>r. r\<lparr>nv_status := DF_IN_REVIEW,
        nv_submittedAt := Some (nn_now env), nv_validationSnapshot := Some v\<rparr>) s = (Inr y, u)"
    and t: "thenH (storeDecision (newDecision ctx i pid nid (nv_id rev) AD_SUBMITTED
        (api_rationale data) (Some v)))
     (thenH (setNoticeStatus (cx_tenantId ctx) nid NP_IN_REVIEW)
     (thenH (auditP ctx pid ''notice_draft.submit'' ''notice_draft_revision'' (nv_id rev))
       (returnH rev))) u = (Inr x, t)"
    using ran(3) unfolding bindH_Inr thenH_Inr[of "requireH _ _"] thenH_Inr[of "updateDraft _ _ _"]
    by (auto simp: loadNotice_Inr requireH_Inr dest!: pickDraft_row validation_state)
  have e: "packageTables (ap_db t) = (nt_packages (ap_db t), nt_drafts (ap_db u), nt_sections (ap_db s),
      nt_decisions (ap_db s) @ [newDecision ctx i pid nid (nv_id rev) AD_SUBMITTED
        (api_rationale data) (Some v)])"
    "unstatused (nt_packages (ap_db t)) = unstatused (nt_packages (ap_db s))"
    using t upd by (auto simp: ok_iff packageTables_def)
  show ?thesis
    by (rule review_step[OF upd _ _ _ e]) (auto simp: reviewChange_def newDecision_def)
qed (rule idle_packages)

lemma changes_refines:
  assumes "requestDraftChanges sp i pid nid raw s = (r, t)"
  shows "package_step (ap_db s) (ap_db t)"
  using assms unfolding requestDraftChanges_def
proof (cases rule: projectService_cases)
  case (ran ctx data x)
  obtain rev y u where upd: "updateDraft (cx_tenantId ctx) (nv_id rev)
        (\<lambda>r. r\<lparr>nv_status := DF_CHANGES_REQUESTED\<rparr>) s = (Inr y, u)"
    and t: "thenH (storeDecision (newDecision ctx i pid nid (nv_id rev)
        AD_CHANGES_REQUESTED (api_rationale data) None))
     (thenH (setNoticeStatus (cx_tenantId ctx) nid NP_CHANGES_REQUESTED)
       (returnH rev)) u = (Inr x, t)"
    using ran(3) unfolding bindH_Inr thenH_Inr[of "updateDraft _ _ _"]
    by (auto dest!: pickDraft_row)
  have e: "packageTables (ap_db t) = (nt_packages (ap_db t), nt_drafts (ap_db u), nt_sections (ap_db s),
      nt_decisions (ap_db s) @ [newDecision ctx i pid nid (nv_id rev)
        AD_CHANGES_REQUESTED (api_rationale data) None])"
    "unstatused (nt_packages (ap_db t)) = unstatused (nt_packages (ap_db s))"
    using t upd by (auto simp: ok_iff packageTables_def)
  show ?thesis
    by (rule review_step[OF upd _ _ _ e]) (auto simp: reviewChange_def newDecision_def)
qed (rule idle_packages)

lemma rejectDraft_refines:
  assumes "rejectDraft sp i pid nid raw s = (r, t)"
  shows "package_step (ap_db s) (ap_db t)"
  using assms unfolding rejectDraft_def
proof (cases rule: projectService_cases)
  case (ran ctx data x)
  obtain rev y u where upd: "updateDraft (cx_tenantId ctx) (nv_id rev)
        (\<lambda>r. r\<lparr>nv_status := DF_WITHDRAWN\<rparr>) s = (Inr y, u)"
    and t: "thenH (storeDecision (newDecision ctx i pid nid (nv_id rev)
        AD_REJECTED (api_rationale data) None))
     (thenH (setNoticeStatus (cx_tenantId ctx) nid NP_DRAFTING)
       (returnH rev)) u = (Inr x, t)"
    using ran(3) unfolding bindH_Inr thenH_Inr[of "updateDraft _ _ _"]
    by (auto dest!: pickDraft_row)
  have e: "packageTables (ap_db t) = (nt_packages (ap_db t), nt_drafts (ap_db u), nt_sections (ap_db s),
      nt_decisions (ap_db s) @ [newDecision ctx i pid nid (nv_id rev)
        AD_REJECTED (api_rationale data) None])"
    "unstatused (nt_packages (ap_db t)) = unstatused (nt_packages (ap_db s))"
    using t upd by (auto simp: ok_iff packageTables_def)
  show ?thesis
    by (rule review_step[OF upd _ _ _ e]) (auto simp: reviewChange_def newDecision_def)
qed (rule idle_packages)

lemma recommend_refines:
  assumes "recommendApproval sp i pid nid raw s = (r, t)"
  shows "package_step (ap_db s) (ap_db t)"
  using assms unfolding recommendApproval_def
proof (cases rule: projectService_cases)
  case (ran ctx data x)
  then show ?thesis
    by (auto simp: ok_iff packageTables_def newDecision_def dest!: pickDraft_row
        intro!: package_step.decide)
qed (rule idle_packages)

lemma withdraw_refines:
  assumes "withdrawNoticePackage sp pid nid raw s = (r, t)"
  shows "package_step (ap_db s) (ap_db t)"
  using assms unfolding withdrawNoticePackage_def
proof (cases rule: projectService_cases)
  case (ran ctx data x)
  then show ?thesis by (intro others_step) (auto simp: ok_iff)
qed (rule idle_packages)

lemma supersedeActive_tables:
  assumes "supersedeActive T p s = (Inr x, u)"
  shows "packageTables (ap_db u) = (nt_packages (ap_db s),
    supersedeIn (nk_activeApprovedRevisionId p) T (nt_drafts (ap_db s)), nt_sections (ap_db s),
    nt_decisions (ap_db s))"
  using assms by (auto simp: supersedeActive_def ok_iff packageTables_def supersedeIn_def
      atDraft_def[abs_def] split: if_splits)

lemma approve_refines:
  assumes "approveDraft env sp i pid nid raw s = (r, t)"
  shows "package_step (ap_db s) (ap_db t)"
  using assms unfolding approveDraft_def
proof (cases rule: projectService_cases)
  case (ran ctx data x)
  obtain pkg rev v u1 u2 y where pkg: "findNotice (cx_tenantId ctx) pid nid (ap_db s) = Some pkg"
    and rev: "pickDraft (cx_tenantId ctx) nid (api_draftRevisionId data) s = (Inr rev, s)"
    and fresh: "nv_status rev \<noteq> DF_APPROVED" and sod: "requireOtherApprover ctx pkg rev s = (Inr (), s)"
    and v: "vs_ok v" and u1: "supersedeActive (cx_tenantId ctx) pkg s = (Inr (), u1)"
    and u2: "updateDraft (cx_tenantId ctx) (nv_id rev) (\<lambda>r. r\<lparr>nv_status := DF_APPROVED,
        nv_approvedAt := Some (nn_now env)\<rparr>) u1 = (Inr y, u2)"
    and t: "(let decision = newDecision ctx i pid nid (nv_id rev) AD_APPROVED
           (api_rationale data) (Some v) in
     thenH (storeDecision decision)
     (thenH (activateRevision ctx nid (nv_id rev))
     (thenH (auditP ctx pid ''notice_draft.approve'' ''notice_draft_revision'' (nv_id y))
       (returnH (y, decision))))) u2 = (Inr x, t)"
  proof -
    have other: "requireOtherApprover ctx p q s1 = (Inr z, s2) \<Longrightarrow> s2 = s1" for p q z
      and s1 s2 :: "'a notices_db app_state"
      by (auto simp: requireOtherApprover_def ok_iff split: if_splits)
    show thesis
      using ran(3) unfolding bindH_Inr thenH_Inr[of "requireH _ _"] thenH_Inr[of "requireOtherApprover _ _ _"]
        thenH_Inr[of "supersedeActive _ _"]
      by (auto simp: findOr_Inr loadNotice_Inr requireH_Inr simp del: Let_def
          dest!: validation_state dest: pickDraft_row other intro: that)
  qed
  note row = findNotice_row[OF pkg] and picked = pickDraft_row[OF rev]
  have "packageTables (ap_db t) = (updateWhere (\<lambda>q. nk_id q = nk_id pkg \<and> nk_tenantId q = cx_tenantId ctx)
        (\<lambda>q. q\<lparr>nk_status := NP_APPROVED, nk_activeApprovedRevisionId := Some (nv_id rev),
          nk_approverUserId := Some (userId ctx)\<rparr>) (nt_packages (ap_db s)),
      updateWhere (atDraft (nv_id rev) (nk_tenantId pkg))
        (\<lambda>r. r\<lparr>nv_status := DF_APPROVED, nv_approvedAt := Some (nn_now env)\<rparr>)
        (supersedeIn (nk_activeApprovedRevisionId pkg) (nk_tenantId pkg) (nt_drafts (ap_db s))),
      nt_sections (ap_db s),
      nt_decisions (ap_db s) @ [newDecision ctx i pid (nk_id pkg) (nv_id rev) AD_APPROVED
        (api_rationale data) (Some v)])"
    using t u2 supersedeActive_tables[OF u1] row
    by (auto simp: ok_iff Let_def packageTables_def activateRevision_def atDraft_def[abs_def])
  then show ?thesis
    using row picked fresh sod v
    by (intro package_step.approve[where p = pkg and r = rev and ctx = ctx and v = v])
      (auto simp: requireOtherApprover_def ok_iff split: if_splits)
qed (rule idle_packages)

lemma exception_refines:
  assumes "createControlledException sp i pid nid raw s = (r, t)"
  shows "package_step (ap_db s) (ap_db t)"
  using assms unfolding createControlledException_def
proof (cases rule: projectService_cases)
  case (ran ctx data x)
  then show ?thesis by (intro others_step) (auto simp: ok_iff Let_def)
qed (rule idle_packages)

lemma attachment_refines:
  assumes "addAttachment sp i pid nid raw s = (r, t)"
  shows "package_step (ap_db s) (ap_db t)"
  using assms unfolding addAttachment_def
proof (cases rule: projectService_cases)
  case (ran ctx data x)
  then show ?thesis
    by (intro others_step) (auto simp: ok_iff Let_def dest!: requireVersion_state)
qed (rule idle_packages)

lemma inclusion_refines:
  assumes "setAttachmentInclusion pid nid i st s = (r, t)"
  shows "package_step (ap_db s) (ap_db t)"
  using assms unfolding setAttachmentInclusion_def
proof (cases rule: projectAction_cases)
  case (ran ctx x)
  then show ?thesis by (intro others_step) (auto simp: ok_iff Let_def)
qed (rule idle_packages)

lemma export_refines:
  assumes "generateExport env ids pid nid fmt s = (r, t)"
  shows "package_step (ap_db s) (ap_db t)"
  using assms unfolding generateExport_def
proof (cases rule: projectAction_cases)
  case (ran ctx x)
  then show ?thesis by (intro others_step) (auto simp: ok_iff Let_def)
qed (rule idle_packages)

lemma comment_refines:
  assumes "addReviewComment sp i pid nid raw s = (r, t)"
  shows "package_step (ap_db s) (ap_db t)"
  using assms unfolding addReviewComment_def
proof (cases rule: projectService_cases)
  case (ran ctx data x)
  then show ?thesis by (intro others_step) (auto simp: ok_iff Let_def)
qed (rule idle_packages)

lemma resolve_refines:
  assumes "resolveReviewComment env pid nid i s = (r, t)"
  shows "package_step (ap_db s) (ap_db t)"
  using assms unfolding resolveReviewComment_def
proof (cases rule: projectAction_cases)
  case (ran ctx x)
  then show ?thesis by (intro others_step) (auto simp: ok_iff Let_def)
qed (rule idle_packages)

section \<open>Any request\<close>

text \<open>
  A request of the service, at any time and with fresh ids, or a change another service makes, which
  leaves the four tables.
\<close>

inductive notice_request ::
  "notices_env \<Rightarrow> 'j notices_db app_state \<Rightarrow> 'j notices_db app_state \<Rightarrow> bool" for env s where
  "createNoticePackageFromDeadline (env\<lparr>nn_now := n\<rparr>) sp newId i ids pid (raw :: string) s = (r1, t) \<Longrightarrow>
    newId \<notin> nk_id ` set (nt_packages (ap_db s)) \<Longrightarrow> notice_request env s t"
| "snapshotRequirements newId pid nid s = (r2, t) \<Longrightarrow> notice_request env s t"
| "assessEvidenceCompletenessForPackage (env\<lparr>nn_now := n\<rparr>) newId pid nid s = (r3, t) \<Longrightarrow> notice_request env s t"
| "linkEvidence sp newId pid nid (raw :: string) s = (r4, t) \<Longrightarrow> notice_request env s t"
| "verifyDeliveryPreparation pid nid i m e a s = (r5, t) \<Longrightarrow> notice_request env s t"
| "createReviewQuestion sp newId pid nid (raw :: string) s = (r6, t) \<Longrightarrow> notice_request env s t"
| "answerReviewQuestion (env\<lparr>nn_now := n\<rparr>) sp pid nid i (raw :: string) s = (r7, t) \<Longrightarrow> notice_request env s t"
| "verifyQuestionAnswer (env\<lparr>nn_now := n\<rparr>) pid nid i s = (r8, t) \<Longrightarrow> notice_request env s t"
| "createNoticeFact sp newId pid nid (raw :: string) s = (r9, t) \<Longrightarrow> notice_request env s t"
| "verifyNoticeFact (env\<lparr>nn_now := n\<rparr>) sp pid nid i (raw :: string) s = (r10, t) \<Longrightarrow> notice_request env s t"
| "generateDeterministicDraft env newId ids pid nid s = (r11, t) \<Longrightarrow>
    newId \<notin> nv_id ` set (nt_drafts (ap_db s)) \<Longrightarrow> newId \<noteq> [] \<Longrightarrow> inj ids \<Longrightarrow>
    range ids \<inter> nw_id ` set (nt_sections (ap_db s)) = {} \<Longrightarrow> notice_request env s t"
| "generateAiAssistedDraft env newId ids pid nid s = (r12, t) \<Longrightarrow>
    newId \<notin> nv_id ` set (nt_drafts (ap_db s)) \<Longrightarrow> newId \<noteq> [] \<Longrightarrow> inj ids \<Longrightarrow>
    range ids \<inter> nw_id ` set (nt_sections (ap_db s)) = {} \<Longrightarrow> notice_request env s t"
| "editDraftSection sp pid nid rid sid (raw :: string) s = (r13, t) \<Longrightarrow> notice_request env s t"
| "runDraftValidation pid nid rid' s = (r14, t) \<Longrightarrow> notice_request env s t"
| "submitDraftForReview (env\<lparr>nn_now := n\<rparr>) sp newId pid nid (raw :: string) s = (r15, t) \<Longrightarrow> notice_request env s t"
| "requestDraftChanges sp newId pid nid (raw :: string) s = (r16, t) \<Longrightarrow> notice_request env s t"
| "recommendApproval sp newId pid nid (raw :: string) s = (r17, t) \<Longrightarrow> notice_request env s t"
| "approveDraft (env\<lparr>nn_now := n\<rparr>) sp newId pid nid (raw :: string) s = (r18, t) \<Longrightarrow> notice_request env s t"
| "rejectDraft sp newId pid nid (raw :: string) s = (r19, t) \<Longrightarrow> notice_request env s t"
| "withdrawNoticePackage sp pid nid (raw :: string) s = (r20, t) \<Longrightarrow> notice_request env s t"
| "createControlledException sp newId pid nid (raw :: string) s = (r21, t) \<Longrightarrow> notice_request env s t"
| "addAttachment sp newId pid nid (raw :: string) s = (r22, t) \<Longrightarrow> notice_request env s t"
| "setAttachmentInclusion pid nid i st s = (r23, t) \<Longrightarrow> notice_request env s t"
| "generateExport (env\<lparr>nn_now := n\<rparr>) ids pid nid fmt s = (r24, t) \<Longrightarrow> notice_request env s t"
| "addReviewComment sp newId pid nid (raw :: string) s = (r25, t) \<Longrightarrow> notice_request env s t"
| "resolveReviewComment (env\<lparr>nn_now := n\<rparr>) pid nid i s = (r26, t) \<Longrightarrow> notice_request env s t"
| "packageTables (ap_db t) = packageTables (ap_db s) \<Longrightarrow> notice_request env s t"

lemma notice_request_refines: "notice_request env s t \<Longrightarrow> package_step (ap_db s) (ap_db t)"
proof (induction rule: notice_request.induct)
qed (erule createNotice_refines snapshotRequirements_refines assessEvidence_refines link_refines
    preparation_refines question_refines createFact_refines verifyFact_refines generate_refines
    aiDraft_refines edit_refines validate_refines submit_refines changes_refines recommend_refines
    approve_refines rejectDraft_refines withdraw_refines exception_refines attachment_refines
    inclusion_refines export_refines comment_refines resolve_refines; assumption
  | rule others_step, simp_all add: packageTables_def)+

section \<open>What every reachable state keeps\<close>

definition packageKey :: "package_row \<Rightarrow> string \<times> string \<times> bool \<times> string" where
  "packageKey p = (nk_id p, nk_tenantId p, nk_sodEnforced p, nk_createdByUserId p)"

definition draftKey :: "draft_row \<Rightarrow> string \<times> string \<times> string \<times> nat \<times> string" where
  "draftKey r = (nv_id r, nv_tenantId r, nv_noticePackageId r, nv_revisionNumber r, nv_createdByUserId r)"

text \<open>Ids are unique, a revision is of a package and has its own number in it, a section is of a
  revision.\<close>

definition rowsOk :: "package_row list \<Rightarrow> draft_row list \<Rightarrow> section_line list \<Rightarrow> bool" where
  "rowsOk ps rs ss \<longleftrightarrow> distinct (map nk_id ps) \<and> distinct (map nv_id rs) \<and> distinct (map nw_id ss)
     \<and> [] \<notin> nv_id ` set rs
     \<and> (\<lambda>r. (nv_noticePackageId r, nv_tenantId r)) ` set rs \<subseteq> (\<lambda>p. (nk_id p, nk_tenantId p)) ` set ps
     \<and> distinct (map (\<lambda>r. (nv_noticePackageId r, nv_revisionNumber r)) rs)
     \<and> nw_draftRevisionId ` set ss \<subseteq> nv_id ` set rs"

text \<open>The approved revisions are the active ones of the packages.\<close>

definition activeOk :: "package_row list \<Rightarrow> draft_row list \<Rightarrow> bool" where
  "activeOk ps rs \<longleftrightarrow>
     (\<forall>p\<in>set ps. \<forall>i. nk_activeApprovedRevisionId p = Some i \<longrightarrow>
        (\<exists>r\<in>set rs. nv_id r = i \<and> nv_noticePackageId r = nk_id p \<and> nv_status r = DF_APPROVED))
     \<and> (\<forall>r\<in>set rs. nv_status r = DF_APPROVED \<longrightarrow>
        (\<exists>p\<in>set ps. nk_id p = nv_noticePackageId r \<and> nk_activeApprovedRevisionId p = Some (nv_id r)))"

text \<open>An approval passed the validation and kept the duties apart.\<close>

definition approvalOk :: "package_row list \<Rightarrow> draft_row list \<Rightarrow> decision_row \<Rightarrow> bool" where
  "approvalOk ps rs x \<longleftrightarrow> (\<exists>p\<in>set ps. \<exists>r\<in>set rs. nk_id p = nd_noticePackageId x
     \<and> nv_id r = nd_draftRevisionId x \<and> nv_noticePackageId r = nk_id p
     \<and> (\<exists>v. nd_validationSnapshot x = Some v \<and> vs_ok v)
     \<and> (nk_sodEnforced p \<longrightarrow>
         nk_createdByUserId p \<noteq> nd_actorUserId x \<and> nv_createdByUserId r \<noteq> nd_actorUserId x))"

definition approvalsOk :: "package_row list \<Rightarrow> draft_row list \<Rightarrow> decision_row list \<Rightarrow> bool" where
  "approvalsOk ps rs xs \<longleftrightarrow>
     (\<forall>x\<in>set xs. nd_decision x = AD_APPROVED \<longrightarrow> approvalOk ps rs x)
     \<and> (\<forall>r\<in>set rs. nv_status r = DF_APPROVED \<longrightarrow>
         (\<exists>x\<in>set xs. nd_decision x = AD_APPROVED \<and> nd_draftRevisionId x = nv_id r))"

definition noticeInv :: "'j notices_db \<Rightarrow> bool" where
  "noticeInv d \<longleftrightarrow> rowsOk (nt_packages d) (nt_drafts d) (nt_sections d)
     \<and> activeOk (nt_packages d) (nt_drafts d)
     \<and> approvalsOk (nt_packages d) (nt_drafts d) (nt_decisions d)"

end
