(* ===== verification/NoticeDrafting.thy ===== *)
theory NoticeDrafting
  imports NoticeExport
begin

text \<open>
  What the rules of notice drafting guarantee: drafts that rest on approved facts, the conditions
  under which a draft passes validation, the assessment of the evidence against a declarative
  reference, the checks on a model's draft, and archives that can be read back.
\<close>

section \<open>Reading an archive\<close>

text \<open>
  A reader after the ZIP format: the end record at the end of the archive leads to the central
  directory, whose records lead to the local ones; a file whose CRC-32 differs is refused.
\<close>

fun numLE :: "string \<Rightarrow> nat" where
  "numLE [] = 0"
| "numLE (c # cs) = of_char c + 256 * numLE cs"

definition fieldAt :: "string \<Rightarrow> nat \<Rightarrow> nat \<Rightarrow> nat" where
  "fieldAt z p n = numLE (take n (drop p z))"

definition readLocal :: "string \<Rightarrow> nat \<Rightarrow> zip_entry option" where
  "readLocal z p = (let n = fieldAt z (p + 26) 2; x = fieldAt z (p + 28) 2;
       data = take (fieldAt z (p + 18) 4) (drop (p + 30 + n + x) z) in
     if fieldAt z p 4 = 0x04034b50 \<and> fieldAt z (p + 14) 4 = unat (crc32 data)
     then Some \<lparr>ze_name = take n (drop (p + 30) z), ze_data = data\<rparr> else None)"

fun readEntries :: "string \<Rightarrow> nat \<Rightarrow> nat \<Rightarrow> zip_entry list option" where
  "readEntries z 0 p = Some []"
| "readEntries z (Suc k) p =
     (if fieldAt z p 4 \<noteq> 0x02014b50 then None
      else (case readLocal z (fieldAt z (p + 42) 4) of
         None \<Rightarrow> None
       | Some e \<Rightarrow> map_option ((#) e)
           (readEntries z k (p + 46 + fieldAt z (p + 28) 2 + fieldAt z (p + 30) 2
             + fieldAt z (p + 32) 2))))"

definition unzip :: "string \<Rightarrow> zip_entry list option" where
  "unzip z = (let e = length z - 22 in
     if fieldAt z e 4 = 0x06054b50 then readEntries z (fieldAt z (e + 10) 2) (fieldAt z (e + 16) 4)
     else None)"

lemma of_byteOf [simp]: "of_char (byteOf n) = n mod 256"
  by (simp add: byteOf_def)

lemma numLE_le16: "n < 65536 \<Longrightarrow> numLE (le16 n) = n"
proof -
  assume "n < 65536"
  then have "n div 256 < 256" by (simp add: less_mult_imp_div_less)
  then show ?thesis by (simp add: le16_def)
qed

lemma numLE_le32: "n < 4294967296 \<Longrightarrow> numLE (le32 n) = n"
proof -
  assume "n < 4294967296"
  then have top: "n div 16777216 < 256" by (simp add: less_mult_imp_div_less)
  have d: "n div 65536 = n div 256 div 256" "n div 16777216 = n div 256 div 256 div 256"
    by (simp_all flip: div_mult2_eq)
  show ?thesis using top unfolding d le32_def by (simp add: mult.commute)
qed

lemma length_le [simp]: "length (le16 n) = 2" "length (le32 n) = 4"
  by (simp_all add: le16_def le32_def)

lemma write_Inr [ok_iff]:
  "writeUInt16LE n = Inr s \<longleftrightarrow> n < 65536 \<and> s = le16 n"
  "writeUInt32LE n = Inr s \<longleftrightarrow> n < 4294967296 \<and> s = le32 n"
  by (auto simp: writeUInt16LE_def writeUInt32LE_def)

lemma localHeader_Inr:
  "localHeader e = Inr l \<longleftrightarrow> length (ze_data e) < 4294967296 \<and> length (ze_name e) < 65536 \<and>
     l = le32 0x04034b50 @ le16 20 @ le16 0 @ le16 0 @ le16 0 @ le16 0
       @ le32 (unat (crc32 (ze_data e))) @ le32 (length (ze_data e)) @ le32 (length (ze_data e))
       @ le16 (length (ze_name e)) @ le16 0 @ ze_name e"
  using unsigned_less[of "crc32 (ze_data e)"] by (auto simp: localHeader_def ok_iff)

lemma centralHeader_Inr:
  "centralHeader off e = Inr l \<longleftrightarrow>
     length (ze_data e) < 4294967296 \<and> length (ze_name e) < 65536 \<and> off < 4294967296 \<and>
     l = le32 0x02014b50 @ le16 20 @ le16 20 @ le16 0 @ le16 0 @ le16 0 @ le16 0
       @ le32 (unat (crc32 (ze_data e))) @ le32 (length (ze_data e)) @ le32 (length (ze_data e))
       @ le16 (length (ze_name e)) @ le16 0 @ le16 0 @ le16 0 @ le16 0 @ le32 0 @ le32 off
       @ ze_name e"
  using unsigned_less[of "crc32 (ze_data e)"] by (auto simp: centralHeader_def ok_iff)

lemma fieldAt_shift [simp]: "fieldAt (a @ s) (length a + p) n = fieldAt s p n"
  by (simp add: fieldAt_def)

lemma readLocal_header:
  assumes "localHeader e = Inr l"
  shows "readLocal (a @ l @ ze_data e @ b) (length a) = Some e"
proof -
  note l = assms[unfolded localHeader_Inr]
  have sh: "fieldAt (a @ s) (length a) n = fieldAt s 0 n" for s n
    using fieldAt_shift[of a s 0 n] by simp
  have "unat (crc32 (ze_data e)) < 4294967296" using unsigned_less[of "crc32 (ze_data e)"] by simp
  then show ?thesis using l
    by (simp add: readLocal_def Let_def sh add.assoc fieldAt_def numLE_le16 numLE_le32)
qed

lemma centralHeader_fields:
  assumes "centralHeader off e = Inr l"
  shows "fieldAt (l @ b) 0 4 = 0x02014b50" "fieldAt (l @ b) 42 4 = off"
    "length l = 46 + fieldAt (l @ b) 28 2 + fieldAt (l @ b) 30 2 + fieldAt (l @ b) 32 2"
  using assms[unfolded centralHeader_Inr] by (auto simp: fieldAt_def numLE_le16 numLE_le32)

lemma readEntries_parts:
  assumes "zipParts off es = Inr (ls, cs)"
    and "z = a @ ls @ b" "length a = off" "z = c @ cs @ d"
  shows "readEntries z (length es) (length c) = Some es"
  using assms
proof (induction es arbitrary: off ls cs a c)
  case Nil
  then show ?case by simp
next
  case (Cons e es)
  from Cons.prems(1) obtain l h ls' cs' where l: "localHeader e = Inr l"
    and h: "centralHeader off e = Inr h"
    and rest: "zipParts (off + length l + length (ze_data e)) es = Inr (ls', cs')"
    and ls: "ls = l @ ze_data e @ ls'" and cs: "cs = h @ cs'"
    by (auto simp: ok_iff split: prod.splits)
  have here: "readLocal z off = Some e"
    using readLocal_header[OF l, of a "ls' @ b"] Cons.prems(2,3) ls by simp
  have tail: "readEntries z (length es) (length (c @ h)) = Some es"
    using Cons.prems(2-4) ls cs
    by (intro Cons.IH[OF rest, where a="a @ l @ ze_data e"]) simp_all
  have f: "fieldAt z (length c + p) n = fieldAt (h @ cs' @ d) p n" for p n
    using Cons.prems(4) cs by simp
  have "fieldAt z (length c) 4 = 0x02014b50"
    using f[of 0 4] centralHeader_fields(1)[OF h] by simp
  moreover have "fieldAt z (length c + 42) 4 = off"
    using centralHeader_fields(2)[OF h] by (simp only: f)
  moreover have "length (c @ h) = length c + 46 + fieldAt z (length c + 28) 2
      + fieldAt z (length c + 30) 2 + fieldAt z (length c + 32) 2"
    using centralHeader_fields(3)[OF h, of "cs' @ d"] by (simp only: f) simp
  ultimately show ?case using here tail by (simp add: add.assoc)
qed

lemma endRecord_Inr:
  "endRecord n m k = Inr r \<longleftrightarrow> n < 65536 \<and> m < 4294967296 \<and> k < 4294967296 \<and>
     r = le32 0x06054b50 @ le16 0 @ le16 0 @ le16 n @ le16 n @ le32 m @ le32 k @ le16 0"
  by (auto simp: endRecord_def ok_iff)

text \<open>What the writer stores the reader gives back, names and bytes, in order.\<close>

lemma unzip_zipStore:
  assumes "zipStore es = Inr z"
  shows "unzip z = Some es"
proof -
  from assms obtain ls cs r where parts: "zipParts 0 es = Inr (ls, cs)"
    and r: "endRecord (length es) (length cs) (length ls) = Inr r" and z: "z = ls @ cs @ r"
    by (auto simp: zipStore_def ok_iff split: prod.splits)
  note r' = r[unfolded endRecord_Inr]
  have "readEntries z (length es) (length ls) = Some es"
    using readEntries_parts[OF parts, of z "[]" "cs @ r" ls r] z by simp
  moreover have f: "fieldAt z (length z - 22 + p) n = fieldAt r p n" for p n
    using fieldAt_shift[of "ls @ cs" r p n] z r' by simp
  have "fieldAt z (length z - 22) 4 = 0x06054b50"
    using f[of 0 4] r' by (simp add: fieldAt_def numLE_le16 numLE_le32)
  moreover have "fieldAt z (length z - 22 + 10) 2 = length es"
    "fieldAt z (length z - 22 + 16) 4 = length ls"
    using r' by (simp_all only: f) (simp_all add: fieldAt_def numLE_le16 numLE_le32)
  ultimately show ?thesis by (simp add: unzip_def Let_def)
qed

text \<open>The writer fails only on sizes that a header cannot hold.\<close>

fun zipSizes :: "nat \<Rightarrow> zip_entry list \<Rightarrow> bool" where
  "zipSizes off [] = True"
| "zipSizes off (e # es) \<longleftrightarrow> length (ze_data e) < 4294967296 \<and> length (ze_name e) < 65536
     \<and> off < 4294967296 \<and> zipSizes (off + 30 + length (ze_name e) + length (ze_data e)) es"

definition localSize :: "zip_entry list \<Rightarrow> nat" where
  "localSize es = sum_list (map (\<lambda>e. 30 + length (ze_name e) + length (ze_data e)) es)"

definition centralSize :: "zip_entry list \<Rightarrow> nat" where
  "centralSize es = sum_list (map (\<lambda>e. 46 + length (ze_name e)) es)"

lemma zipParts_ok:
  "zipSizes off es \<longleftrightarrow> (\<exists>ls cs. zipParts off es = Inr (ls, cs))" (is ?size)
  "zipParts off es = Inr (ls, cs) \<Longrightarrow> length ls = localSize es \<and> length cs = centralSize es" (is "_ \<Longrightarrow> ?len ls cs")
proof -
  show ?size
  proof (induction es arbitrary: off)
    case (Cons e es)
    have "localHeader e = Inr l \<Longrightarrow> length l = 30 + length (ze_name e)" for l
      by (auto simp: localHeader_Inr)
    then show ?case
      by (auto simp: ok_iff localHeader_Inr centralHeader_Inr Cons.IH add.assoc)
  qed simp
  show "zipParts off es = Inr (ls, cs) \<Longrightarrow> ?len ls cs"
  proof (induction es arbitrary: off ls cs)
    case (Cons e es)
    then show ?case
      by (fastforce simp: ok_iff localHeader_Inr centralHeader_Inr localSize_def centralSize_def)
  qed (simp add: localSize_def centralSize_def)
qed

lemma zipStore_ok:
  "isOk (zipStore es) \<longleftrightarrow> zipSizes 0 es \<and> length es < 65536 \<and> centralSize es < 4294967296
     \<and> localSize es < 4294967296"
proof (cases "zipParts 0 es")
  case (Inl x)
  then show ?thesis by (simp add: zipParts_ok(1) isOk_iff zipStore_def)
next
  case (Inr p)
  then obtain ls cs where p: "zipParts 0 es = Inr (ls, cs)" by (cases p) auto
  then show ?thesis
    using zipParts_ok(2)[OF p]
    by (auto simp: zipParts_ok(1) isOk_iff zipStore_def ok_iff endRecord_Inr)
qed

section \<open>The PDF and the DOCX\<close>

lemma appendObjects_spec:
  "appendObjects pdf offs objs = (pdf @ concat objs,
     offs @ map (\<lambda>k. length pdf + length (concat (take k objs))) [0..<length objs])"
proof (induction objs arbitrary: pdf offs)
  case (Cons x xs)
  have "[0..<length (x # xs)] = 0 # map Suc [0..<length xs]"
    unfolding length_Cons upt_conv_Cons[OF zero_less_Suc] map_Suc_upt ..
  then show ?case by (simp add: Cons.IH comp_def add.assoc del: upt_Suc)
qed simp

text \<open>The offsets of the cross-reference table are where the objects begin.\<close>

lemma offset_of_object:
  assumes "k < length objs"
  shows "\<exists>post. drop (length pdf + length (concat (take k objs))) (pdf @ concat objs @ rest)
    = objs ! k @ post"
proof -
  have "concat objs = concat (take k objs) @ objs ! k @ concat (drop (Suc k) objs)"
    using id_take_nth_drop[OF assms] by (metis concat.simps(2) concat_append)
  then show ?thesis by simp
qed

text \<open>
  A reader of PDF literal strings, which stops at the first bare parenthesis that closes.  The text
  of a line cannot leave its string.
\<close>

fun pdfString :: "string \<Rightarrow> (string \<times> string) option" where
  "pdfString [] = None"
| "pdfString (c # cs) =
     (if c = CHR 41 then Some ([], cs)
      else if c = CHR 40 then None
      else if c = CHR 92 then (case cs of
          [] \<Rightarrow> None
        | d # ds \<Rightarrow> map_option (\<lambda>(t, rest). (d # t, rest)) (pdfString ds))
      else map_option (\<lambda>(t, rest). (c # t, rest)) (pdfString cs))"

definition shownUnit :: "nat \<Rightarrow> char" where
  "shownUnit c = (if c \<in> {9, 10, 13} \<or> (32 \<le> c \<and> c \<le> 126) then char_of c else CHR ''?'')"

lemma char_codes: "(char_of (41::nat) :: char) = CHR 41" "(char_of (40::nat) :: char) = CHR 40"
  "(char_of (92::nat) :: char) = CHR 92" "(char_of (10::nat) :: char) = CHR 10"
  by code_simp+

lemma char_of_eq:
  assumes "n < 256" "m < 256"
  shows "(char_of n :: char) = char_of m \<longleftrightarrow> n = (m :: nat)"
proof
  assume "(char_of n :: char) = char_of m"
  then have "of_char (char_of n :: char) = (of_char (char_of m :: char) :: nat)" by simp
  then show "n = m" using assms by simp
qed simp

lemma safeUnit_read:
  "pdfString (safeUnit c @ s) = map_option (\<lambda>(t, rest). (shownUnit c # t, rest)) (pdfString s)"
proof -
  consider "c = 92" | "c = 40" | "c = 41"
    | "c \<notin> {40, 41, 92}" "c \<in> {9, 10, 13} \<or> (32 \<le> c \<and> c \<le> 126)"
    | "\<not> (c \<in> {9, 10, 13} \<or> (32 \<le> c \<and> c \<le> 126))"
    by blast
  then show ?thesis
  proof cases
    case 4
    then have "c < 256" by auto
    then have "char_of c \<noteq> CHR 41" "char_of c \<noteq> CHR 40" "char_of c \<noteq> CHR 92"
      using 4(1) by (simp_all add: char_codes[symmetric] char_of_eq)
    then show ?thesis using 4 by (auto simp: safeUnit_def shownUnit_def)
  next
    case 5
    then have "c \<notin> {40, 41, 92}" by auto
    then have "safeUnit c = ''?''" using 5 by (auto simp: safeUnit_def)
    moreover have "shownUnit c = CHR ''?''" using 5 by (auto simp: shownUnit_def)
    ultimately show ?thesis by simp
  qed (simp_all add: safeUnit_def shownUnit_def char_codes)
qed

lemma safeText_read: "pdfString (safeText line @ CHR 41 # s) = Some (map shownUnit line, s)"
  by (induction line) (simp_all add: safeText_def safeUnit_read)

text \<open>The text of the document can be read back from its escaped form.\<close>

fun unescapeXml :: "string \<Rightarrow> string" where
  "unescapeXml [] = []"
| "unescapeXml (c # cs) =
     (if startsWith (c # cs) (CHR 38 # ''amp;'') then CHR 38 # unescapeXml (drop 4 cs)
      else if startsWith (c # cs) (CHR 38 # ''lt;'') then CHR 60 # unescapeXml (drop 3 cs)
      else if startsWith (c # cs) (CHR 38 # ''gt;'') then CHR 62 # unescapeXml (drop 3 cs)
      else c # unescapeXml cs)"

lemma escapeXml_Cons: "escapeXml (c # cs) = escapeXmlChar c @ escapeXml cs"
  by (simp add: escapeXml_def)

lemma escapeXml_read: "unescapeXml (escapeXml s) = s"
proof (induction s)
  case (Cons c cs)
  then show ?case by (simp add: escapeXml_Cons escapeXmlChar_def)
qed (simp add: escapeXml_def)

lemma escapeXml_plain: "CHR 60 \<notin> set (escapeXml s)" "CHR 62 \<notin> set (escapeXml s)"
  by (induction s) (auto simp: escapeXml_def escapeXmlChar_def)

lemma splitLines_append:
  "splitLines (a @ 10 # b) = splitLines a @ splitLines b"
proof (induction a)
  case (Cons c cs)
  have "splitLines cs \<noteq> []" by (cases cs) (auto split: list.splits)
  then show ?case using Cons by (auto split: list.splits)
qed simp

lemma utf8_append: "utf8 (a @ b) = utf8 a @ utf8 b"
  by (simp add: utf8_def)

lemma utf8_newline: "utf8 [10] = nl"
  by (simp add: utf8_def utf8Point_def nl_def char_codes)

definition codePoints :: "nat list \<Rightarrow> bool" where
  "codePoints ps \<longleftrightarrow> (\<forall>c\<in>set ps. c < 1114112)"

lemma units_lines:
  assumes "codePoints a" "codePoints b"
  shows "units (utf8 a @ nl @ utf8 b) = units (utf8 a) @ 10 # units (utf8 b)"
proof -
  have "units (utf8 (a @ [10] @ b)) = concat (map utf16 (a @ [10] @ b))"
    using assms by (intro units_utf8) (auto simp: codePoints_def)
  moreover have "units (utf8 a) = concat (map utf16 a)" "units (utf8 b) = concat (map utf16 b)"
    using assms by (simp_all add: units_utf8 codePoints_def)
  ultimately show ?thesis
    unfolding utf8_append utf8_newline by (simp add: utf16_def)
qed

text \<open>The lines of the page: what stands after the fortieth is not shown.\<close>

lemma pdfLines_cut:
  assumes "codePoints t" "codePoints b" "codePoints r"
    and "40 \<le> length (splitLines (units (utf8 t @ nl @ nl @ utf8 b)))"
  shows "pdfLines (utf8 t) (utf8 b @ nl @ utf8 r) = pdfLines (utf8 t) (utf8 b)"
proof -
  define h where "h = t @ [10, 10] @ b"
  have h: "utf8 h = utf8 t @ nl @ nl @ utf8 b"
    unfolding h_def utf8_append using utf8_append[of "[10]" "[10]"] by (simp add: utf8_newline)
  have "codePoints h" using assms by (auto simp: h_def codePoints_def)
  then have "units (utf8 h @ nl @ utf8 r) = units (utf8 h) @ 10 # units (utf8 r)"
    using assms(3) by (rule units_lines)
  then have "splitLines (units (utf8 t @ nl @ nl @ utf8 b @ nl @ utf8 r))
      = splitLines (units (utf8 t @ nl @ nl @ utf8 b)) @ splitLines (units (utf8 r))"
    unfolding h by (simp add: splitLines_append)
  then show ?thesis using assms(4) by (simp add: pdfLines_def nl_def)
qed

section \<open>Validation and evidence\<close>

text \<open>What a draft needs to pass, as conditions on the package.\<close>

definition boundTo :: "draft_bindings \<Rightarrow> bool" where
  "boundTo b \<longleftrightarrow> vb_contractPackageId b = vb_expectedContractPackageId b
     \<and> vb_configurationRevisionId b = vb_expectedConfigurationRevisionId b
     \<and> vb_approvedRuleSnapshotId b = vb_expectedApprovedRuleSnapshotId b
     \<and> vb_projectEventId b = vb_expectedProjectEventId b
     \<and> vb_calculationId b = vb_expectedCalculationId b"

definition recipientReady :: "draft_recipient \<Rightarrow> bool" where
  "recipientReady r \<longleftrightarrow> vr_verificationStatus r = ''VERIFIED'' \<and> vr_hasContact r"

lemma bindingIssues_Nil: "bindingIssues b p = [] \<longleftrightarrow> boundTo b \<and> \<not> p"
  by (auto simp: bindingIssues_def blockingIf_def boundTo_def)

lemma groundIssues_Nil: "groundIssues i = [] \<longleftrightarrow> vt_calculationStatus i = ''VERIFIED''
    \<and> vt_hasVerifiedTriggerDate i \<and> vt_hasVerifiedDeadline i \<and> vt_clauseReferencePresent i"
  by (simp add: groundIssues_def blockingIf_def)

lemma contentIssues_Nil: "contentIssues i = [] \<longleftrightarrow> vt_openBlockingQuestions i = 0
    \<and> (evidenceOpen i \<longrightarrow> 0 < vt_controlledExceptionsForBlockers i)
    \<and> vt_completenessStatus i \<noteq> CM_NOT_ASSESSED \<and> vt_unapprovedFactsInDraft i = 0
    \<and> \<not> vt_hasInternalOnlyInExportCandidate i \<and> \<not> vt_staleEvidenceAssessment i
    \<and> (vt_reservationRequired i \<longrightarrow> vt_reservationPresent i)"
  by (auto simp: contentIssues_def blockingIf_def)

lemma recipientIssues_Nil: "recipientIssues r = [] \<longleftrightarrow> recipientReady r"
  by (simp add: recipientIssues_def recipientReady_def)

lemma draftBlocking_Nil: "draftBlocking i = [] \<longleftrightarrow>
    bindingIssues (vt_bindings i) (vt_supersededCalculation i) = [] \<and> groundIssues i = []
    \<and> requiredRecipients i \<noteq> [] \<and> (\<forall>r\<in>set (requiredRecipients i). recipientReady r)
    \<and> contentIssues i = [] \<and> vt_nonWaivableBlockers i = []"
  by (auto simp: draftBlocking_def blockingIf_def recipientIssues_Nil)

text \<open>
  The assessment of the evidence, one requirement at a time and without the order of its tests:
  the issue, the warning and the waiver of a requirement.
\<close>

definition evidenceIssue :: "evidence_state \<Rightarrow> string option" where
  "evidenceIssue r = (case es_satisfactionStatus r of
       SF_WAIVED_BY_REVIEWER \<Rightarrow>
         if hasReason r then None else Some (es_category r @ '':WAIVER_WITHOUT_REASON'')
     | SF_SATISFIED \<Rightarrow> None
     | SF_NOT_APPLICABLE \<Rightarrow> None
     | st \<Rightarrow> if mandatoryEvidence r then Some (es_category r @ '':'' @ satisfaction_name st) else None)"

definition waivedEvidence :: "evidence_state \<Rightarrow> bool" where
  "waivedEvidence r \<longleftrightarrow> es_satisfactionStatus r = SF_WAIVED_BY_REVIEWER \<and> hasReason r
     \<and> mandatoryEvidence r"

definition evidenceWarning :: "evidence_state \<Rightarrow> string option" where
  "evidenceWarning r =
     (if waivedEvidence r then Some (es_category r @ '':WAIVED_STILL_CONTRACTUAL'')
      else if es_mandatoryStatus r = RECOMMENDED \<and> es_satisfactionStatus r = SF_MISSING
      then Some (es_category r @ '':RECOMMENDED_MISSING'') else None)"

lemma assessRequirement_spec:
  "assessRequirement (b, w, n) r = (b @ (case evidenceIssue r of None \<Rightarrow> [] | Some x \<Rightarrow> [x]),
     w @ (case evidenceWarning r of None \<Rightarrow> [] | Some x \<Rightarrow> [x]), n + (if waivedEvidence r then 1 else 0))"
  by (cases "es_satisfactionStatus r"; cases "es_mandatoryStatus r"; cases "hasReason r")
    (simp_all add: evidenceIssue_def evidenceWarning_def waivedEvidence_def mandatoryEvidence_def)

lemma assess_loop:
  "foldl assessRequirement (b, w, n) rs =
     (b @ List.map_filter evidenceIssue rs, w @ List.map_filter evidenceWarning rs,
      n + length (filter waivedEvidence rs))"
proof (induction rs arbitrary: b w n)
  case (Cons r rs)
  show ?case unfolding foldl_Cons assessRequirement_spec Cons.IH
    by (simp add: map_filter_simps split: option.splits)
qed (simp add: map_filter_simps)

lemma waived_warns: "waivedEvidence r \<Longrightarrow> \<exists>x. evidenceWarning r = Some x"
  by (simp add: evidenceWarning_def)

section \<open>Sources of a draft\<close>

lemma factValue_mem:
  "factValue (approvedFacts F) t = Some f \<Longrightarrow> f \<in> set F \<and> usableFact f"
  by (auto simp: factValue_def approvedFacts_def dest!: find_SomeD)

definition usableIds :: "fact_entry list \<Rightarrow> string set" where
  "usableIds F = nf_id ` {f \<in> set F. usableFact f}"

lemma factIdOf_usable:
  "x \<in> set (factIdOf (factValue (approvedFacts F) t)) \<Longrightarrow> x \<in> usableIds F"
  using factValue_mem[of F t] by (auto simp: factIdOf_def usableIds_def split: option.splits)

lemma section_factIds [simp]:
  "sd_factIds (plainSection t b f c w) = f"
  "sd_factIds (senderSection ctx facts) = factIdOf (factValue facts ''PARTY_NAME'')"
  "sd_factIds (recipientSection ctx) = []"
  "sd_factIds (projectSection ctx facts) = factIdOf (factValue facts ''CONTRACT_REFERENCE'')"
  "sd_factIds (titleSection ctx facts) = factIdOf (factValue facts ''NOTICE_REFERENCE'')"
  "sd_factIds (basisSection ctx) = []"
  "sd_factIds (backgroundSection ctx facts) = factIdOf (factValue facts ''DESCRIPTION_OF_EVENT'')"
  "sd_factIds (eventSection ctx facts) = factIdOf (factValue facts ''DESCRIPTION_OF_EVENT'')"
  "sd_factIds (deadlineSection ctx) = []"
  "sd_factIds (reservationSection ctx) = []"
  "sd_factIds (actionSection ctx facts) = factIdOf (factValue facts ''REQUESTED_ACTION'')"
  "sd_factIds (recordsSection ctx) = []"
  "sd_factIds (attachmentsSection ctx) = []"
  "sd_factIds (closingSection ctx) = []"
  "sd_factIds guidanceSection = []"
  by (simp_all only: plainSection_def senderSection_def recipientSection_def projectSection_def
    titleSection_def basisSection_def backgroundSection_def eventSection_def deadlineSection_def
    reservationSection_def actionSection_def recordsSection_def attachmentsSection_def
    closingSection_def guidanceSection_def Let_def section_draft.select_convs)

lemma triggerSection_factIds [simp]: "sd_factIds (triggerSection ctx facts) = filter (\<lambda>i. i \<noteq> [])
    (factIdOf (factValue facts ''EVENT_DATE'') @ factIdOf (factValue facts ''AWARENESS_DATE''))"
  by (simp only: triggerSection_def Let_def section_factIds)

lemma impactSection_factIds:
  "d \<in> set (impactSection facts) \<Longrightarrow> sd_factIds d = factIdOf (factValue facts ''DESCRIPTION_OF_EFFECT'')"
  by (auto simp: impactSection_def factIdOf_def split: option.splits)

lemma continuingSection_factIds: "d \<in> set (continuingSection ctx) \<Longrightarrow> sd_factIds d = []"
  by (auto simp: continuingSection_def split: option.splits if_splits)

lemma sectionDrafts_sources:
  "d \<in> set (sectionDrafts ctx) \<Longrightarrow> set (sd_factIds d) \<subseteq> usableIds (dk_facts ctx)"
  using factIdOf_usable[of _ "dk_facts ctx"] unfolding sectionDrafts_def Let_def
  by (auto dest: impactSection_factIds continuingSection_factIds)

lemma texts_without_facts:
  "inLanguage (ctx\<lparr>dk_facts := F\<rparr>) = inLanguage ctx"
  "deadlineText (ctx\<lparr>dk_facts := F\<rparr>) = deadlineText ctx"
  "clauseIds (ctx\<lparr>dk_facts := F\<rparr>) = clauseIds ctx"
  "clauseRef (ctx\<lparr>dk_facts := F\<rparr>) = clauseRef ctx"
  by (simp_all add: fun_eq_iff inLanguage_def deadlineText_def clauseIds_def clauseRef_def
    cong: option.case_cong)

lemma sections_without_facts:
  "senderSection (ctx\<lparr>dk_facts := F\<rparr>) = senderSection ctx"
  "recipientSection (ctx\<lparr>dk_facts := F\<rparr>) = recipientSection ctx"
  "projectSection (ctx\<lparr>dk_facts := F\<rparr>) = projectSection ctx"
  "titleSection (ctx\<lparr>dk_facts := F\<rparr>) = titleSection ctx"
  "basisSection (ctx\<lparr>dk_facts := F\<rparr>) = basisSection ctx"
  "backgroundSection (ctx\<lparr>dk_facts := F\<rparr>) = backgroundSection ctx"
  "eventSection (ctx\<lparr>dk_facts := F\<rparr>) = eventSection ctx"
  "triggerSection (ctx\<lparr>dk_facts := F\<rparr>) = triggerSection ctx"
  "deadlineSection (ctx\<lparr>dk_facts := F\<rparr>) = deadlineSection ctx"
  "reservationSection (ctx\<lparr>dk_facts := F\<rparr>) = reservationSection ctx"
  "actionSection (ctx\<lparr>dk_facts := F\<rparr>) = actionSection ctx"
  "recordsSection (ctx\<lparr>dk_facts := F\<rparr>) = recordsSection ctx"
  "continuingSection (ctx\<lparr>dk_facts := F\<rparr>) = continuingSection ctx"
  "attachmentsSection (ctx\<lparr>dk_facts := F\<rparr>) = attachmentsSection ctx"
  "closingSection (ctx\<lparr>dk_facts := F\<rparr>) = closingSection ctx"
  by (simp_all add: fun_eq_iff texts_without_facts senderSection_def recipientSection_def
    projectSection_def titleSection_def basisSection_def backgroundSection_def eventSection_def
    triggerSection_def deadlineSection_def reservationSection_def actionSection_def recordsSection_def continuingSection_def
    attachmentsSection_def closingSection_def cong: if_cong option.case_cong)

lemma sectionDrafts_approved:
  "approvedFacts F = approvedFacts (dk_facts ctx) \<Longrightarrow>
    sectionDrafts (ctx\<lparr>dk_facts := F\<rparr>) = sectionDrafts ctx"
  by (simp add: sectionDrafts_def sections_without_facts)

section \<open>Properties\<close>

lemma sequences_increase:
  "sorted_wrt (<) (map sn_sequence (map (\<lambda>(n, d). sectionOf l n d) (enumerate k ds)))"
proof -
  have "map sn_sequence (map (\<lambda>(n, d). sectionOf l n d) (enumerate k ds))
      = map fst (enumerate k ds)"
    unfolding map_map by (rule map_cong) (auto simp: sectionOf_def)
  then show ?thesis by (simp only: map_fst_enumerate sorted_wrt_upt)
qed

text \<open>C14: The deterministic draft rests on approved facts only.  Facts that are not approved for
  drafting, or neither backed by evidence nor confirmed, can be added, changed or removed without a
  change in the draft; every fact a section cites is approved; and the sections are numbered in
  their order.\<close>

theorem draft_from_approved_facts:
  assumes "approvedFacts F = approvedFacts (dk_facts ctx)"
  shows "assembleDeterministicDraft (ctx\<lparr>dk_facts := F\<rparr>) = assembleDeterministicDraft ctx
    \<and> \<Union> (set ` sn_sourceFactIds ` set (ad_sections (assembleDeterministicDraft ctx)))
        \<subseteq> usableIds (dk_facts ctx)
    \<and> sorted_wrt (<) (map sn_sequence (ad_sections (assembleDeterministicDraft ctx)))"
proof (intro conjI)
  show "assembleDeterministicDraft (ctx\<lparr>dk_facts := F\<rparr>) = assembleDeterministicDraft ctx"
    by (simp add: assembleDeterministicDraft_def sectionDrafts_approved[OF assms])
  show "\<Union> (set ` sn_sourceFactIds ` set (ad_sections (assembleDeterministicDraft ctx)))
      \<subseteq> usableIds (dk_facts ctx)"
  proof
    fix x
    assume "x \<in> \<Union> (set ` sn_sourceFactIds ` set (ad_sections (assembleDeterministicDraft ctx)))"
    then obtain n d where "(n, d) \<in> set (enumerate 1 (sectionDrafts ctx))"
      and "x \<in> set (sn_sourceFactIds (sectionOf (dk_language ctx) n d))"
      by (auto simp: assembleDeterministicDraft_def)
    then show "x \<in> usableIds (dk_facts ctx)"
      using sectionDrafts_sources[of d ctx] by (auto simp: sectionOf_def in_set_enumerate_eq)
  qed
  have "sorted_wrt (<) (map sn_sequence (map (\<lambda>(n, d). sectionOf (dk_language ctx) n d)
      (enumerate 1 (sectionDrafts ctx))))"
    by (rule sequences_increase)
  then show "sorted_wrt (<) (map sn_sequence (ad_sections (assembleDeterministicDraft ctx)))"
    by (simp add: assembleDeterministicDraft_def sorted_wrt_map sorted_wrt_filter)
qed

definition demo_fact :: "string \<Rightarrow> string \<Rightarrow> string \<Rightarrow> bool \<Rightarrow> fact_entry" where
  "demo_fact i t v ok = \<lparr>nf_id = i, nf_factType = t, nf_label = t, nf_value = v,
     nf_approvedForDrafting = ok, nf_verificationStatus = ''HUMAN_CONFIRMED''\<rparr>"

definition demo_requirement :: requirement_entry where
  "demo_requirement = \<lparr>rq_id = ''r1'', rq_sourceClauseId = Some ''c1'',
     rq_sourceClauseReference = Some ''20.1'', rq_contentRequirements = None,
     rq_consequenceText = None, rq_reservationLanguage = None, rq_requiredDeliveryMethods = None,
     rq_requiredRecipients = None, rq_verifiedDeadlineAt = Some ''2026-08-01T00:00:00.000Z'',
     rq_verifiedDeadlineTimezone = Some ''UTC'', rq_timeBarClassification = None,
     rq_continuingEventRequirements = None, rq_interimParticularsRequirements = None,
     rq_finalParticularsRequirements = None\<rparr>"

definition demo_draft_context :: draft_context where
  "demo_draft_context = \<lparr>dk_language = ''en'', dk_noticeType = ''INITIAL_NOTICE'',
     dk_title = ''Late drawings'', dk_projectName = ''Tower'', dk_projectCode = ''T1'',
     dk_contractReference = ''C-1'', dk_eventTitle = ''Drawings late'', dk_eventDescription = None,
     dk_facts = [demo_fact ''f1'' ''EVENT_DATE'' ''2026-07-01'' True], dk_requirement = demo_requirement,
     dk_recipients = [], dk_attachments = [], dk_templateVersion = ''v1''\<rparr>"

lemma draft_from_approved_facts_witness:
  "assembleDeterministicDraft (demo_draft_context\<lparr>dk_facts :=
      [demo_fact ''f0'' ''EVENT_DATE'' ''2026-06-01'' False,
       demo_fact ''f1'' ''EVENT_DATE'' ''2026-07-01'' True]\<rparr>)
    = assembleDeterministicDraft demo_draft_context"
  by (rule draft_from_approved_facts[THEN conjunct1])
    (simp add: demo_draft_context_def approvedFacts_def usableFact_def demo_fact_def)

text \<open>C15: A draft passes validation exactly when it is bound to the package's contract,
  configuration, rule, event and current calculation, the calculation is verified, a trigger date,
  a deadline and a clause are there, there is a required recipient and all of them are verified with
  a contact, no question of high priority is open, the evidence is complete or excused by a
  controlled exception, no unapproved fact, internal text or stale assessment is in the way, and the
  reservation of rights is present when required.\<close>

theorem validation_passes_iff:
  "vs_ok (validateNoticeDraft i) \<longleftrightarrow>
     boundTo (vt_bindings i) \<and> \<not> vt_supersededCalculation i
     \<and> vt_calculationStatus i = ''VERIFIED'' \<and> vt_hasVerifiedTriggerDate i
     \<and> vt_hasVerifiedDeadline i \<and> vt_clauseReferencePresent i
     \<and> requiredRecipients i \<noteq> [] \<and> list_all recipientReady (requiredRecipients i)
     \<and> vt_openBlockingQuestions i = 0
     \<and> (vt_completenessStatus i \<in> {CM_READY, CM_CONDITIONALLY_READY}
        \<or> vt_completenessStatus i \<in> {CM_INCOMPLETE, CM_BLOCKED}
          \<and> 0 < vt_controlledExceptionsForBlockers i)
     \<and> vt_unapprovedFactsInDraft i = 0 \<and> \<not> vt_hasInternalOnlyInExportCandidate i
     \<and> \<not> vt_staleEvidenceAssessment i
     \<and> (if vt_reservationRequired i then vt_reservationPresent i else True)
     \<and> vt_nonWaivableBlockers i = []"
  by (cases "vt_completenessStatus i")
    (auto simp: validateNoticeDraft_def draftBlocking_Nil bindingIssues_Nil groundIssues_Nil
      contentIssues_Nil evidenceOpen_def list_all_iff)

definition evidenceReport :: "evidence_state list \<Rightarrow> completeness_result" where
  "evidenceReport rs =
     \<lparr>cr_status = (if List.map_filter evidenceIssue rs \<noteq> [] then CM_BLOCKED
        else if List.map_filter evidenceWarning rs \<noteq> [] then CM_CONDITIONALLY_READY else CM_READY),
      cr_blockingIssues = List.map_filter evidenceIssue rs,
      cr_warnings = List.map_filter evidenceWarning rs\<rparr>"

text \<open>C16: The loop that assesses the evidence is the declarative report: the issues and the
  warnings of the requirements in their order, blocked when there is an issue, conditional when there
  is a warning, ready otherwise.  Its count of waivers decides nothing a warning does not.\<close>

theorem evidence_assessment_reference:
  "assessEvidenceCompleteness rs True = evidenceReport rs"
proof -
  have "List.map_filter evidenceWarning rs \<noteq> []" if w: "filter waivedEvidence rs \<noteq> []"
  proof -
    from w obtain r where "r \<in> set rs" "waivedEvidence r" by (auto simp: filter_empty_conv)
    then show ?thesis
      using waived_warns[of r] by (fastforce simp: List.map_filter_def filter_empty_conv)
  qed
  then show ?thesis
    by (auto simp: assessEvidenceCompleteness_def evidenceReport_def assess_loop)
qed

text \<open>What the escapes of the DOCX and of the PDF write can be read back.  A line of the notice
  does not leave its PDF string, whatever parentheses and backslashes it has, and what is no printable
  ASCII is shown as a question mark; a text of the document has no tag of its own.\<close>

lemma escapes_read_back:
  "pdfString (safeText line @ '')'' @ rest) = Some (map shownUnit line, rest)
    \<and> unescapeXml (escapeXml s) = s \<and> set (escapeXml s) \<inter> {CHR 60, CHR 62} = {}"
  using safeText_read[of line rest] escapeXml_read[of s] escapeXml_plain[of s] by simp

text \<open>C17: An archive of attachments can be read back: a reader of the ZIP format finds the files the
  writer was given, with their names and bytes and in their order, and none of the names leaves the
  directory.\<close>

theorem zip_roundtrip:
  assumes "buildAttachmentZip files = Inr z"
  shows "unzip z = Some files \<and> filter (\<lambda>f. unsafeFilename (ze_name f)) files = []"
  using assms unzip_zipStore[of files z]
  by (auto simp: buildAttachmentZip_def list_ex_iff filter_empty_conv split: if_splits)

definition demo_files :: "zip_entry list" where
  "demo_files = [\<lparr>ze_name = ''a.txt'', ze_data = ''hello''\<rparr>, \<lparr>ze_name = ''b'', ze_data = []\<rparr>]"

lemma demo_archive: "\<exists>z. buildAttachmentZip demo_files = Inr z"
proof -
  have "isOk (zipStore demo_files)"
    by (simp add: zipStore_ok demo_files_def localSize_def centralSize_def)
  then show ?thesis
    by (auto simp: isOk_iff buildAttachmentZip_def unsafeFilename_def demo_files_def)
qed

lemma zip_roundtrip_witness: "\<exists>z. buildAttachmentZip demo_files = Inr z \<and> unzip z = Some demo_files"
  using demo_archive zip_roundtrip by blast

text \<open>C20: The PDF of a notice shows forty lines.  Whatever follows the fortieth line of the approved
  text is not in the file, although the manifest carries the checksum of the whole text.\<close>

theorem pdf_shows_forty_lines:
  assumes "codePoints t" "codePoints b" "codePoints r"
    and "40 \<le> length (splitLines (units (utf8 t @ nl @ nl @ utf8 b)))"
  shows "buildSimplePdf (utf8 t) (utf8 b @ nl @ utf8 r) = buildSimplePdf (utf8 t) (utf8 b)"
  unfolding buildSimplePdf_def pdfStream_def pdfLines_cut[OF assms] ..

lemma pdf_shows_forty_lines_witness:
  "buildSimplePdf (utf8 [78]) (utf8 (replicate 38 10) @ nl @ utf8 [66, 121, 101])
    = buildSimplePdf (utf8 [78]) (utf8 (replicate 38 10))"
proof (rule pdf_shows_forty_lines)
  show "40 \<le> length (splitLines (units (utf8 [78] @ nl @ nl @ utf8 (replicate 38 10))))"
    by code_simp
qed (simp_all add: codePoints_def)

section \<open>A model's draft\<close>

lemma inventedDays_known:
  assumes "mapValue (aq_approvedFactValuesByType i) ''EVENT_DATE'' = Some e"
    and "aq_approvedDeadlineIso i = Some d" "e \<noteq> []" "d \<noteq> []" "inventedDays i text = []"
  shows "set (isoDays text) \<subseteq> set (knownDays i)"
proof
  fix x assume x: "x \<in> set (isoDays text)"
  have "''EVENT_DATE'' \<in> fst ` set (aq_approvedFactValuesByType i)"
    using assms(1) unfolding mapValue_def
    by (metis dom_map_of_conv_image_fst set_rev domI)
  then have "take 10 e \<in> set (knownDays i)"
    using assms(1) by (force simp: knownDays_def)
  moreover have "take 10 d \<in> set (knownDays i)" using assms(2,4) by (simp add: knownDays_def)
  ultimately show "x \<in> set (knownDays i)"
    using x assms by (fastforce simp: inventedDays_def filter_empty_conv)
qed

lemma mismatchedDays_deadline:
  assumes "aq_approvedDeadlineIso i = Some d" "d \<noteq> []" "mismatchedDays i S_DEADLINE_STATEMENT text = []"
  shows "set (isoDays text) \<subseteq> {take 10 d}"
  using assms by (auto simp: mismatchedDays_def filter_empty_conv split: if_splits)

lemma validateAi_Inr [ok_iff]:
  "validateAiDraftOutput sp i = Inr (data, w) \<longleftrightarrow> sp (aq_response i) = Inr data
     \<and> (\<forall>s\<in>set (ar_sections data). sectionErrors i s = [])
     \<and> w = firstSeen (ar_overallWarnings data @ concat (map ai_warnings (ar_sections data)))"
  by (auto simp: validateAiDraftOutput_def Let_def split: sum.splits)

text \<open>C18: A draft of a language model is accepted only when every section cites allowed facts,
  evidence and clauses, flags no unsupported content and matches no forbidden pattern.  Its days are
  checked as far as there is something to check them with: with a verified deadline, a deadline
  statement names no other day than the deadline's; with a verified deadline and an approved event
  date, every section names no day but those of the approved facts and the deadline.  (Without one
  of the two a model may invent a day, see \<open>ai_dates_unchecked_without_deadline\<close>.)\<close>

theorem ai_draft_within_sources:
  assumes "validateAiDraftOutput sp i = Inr (data, w)" "s \<in> set (ar_sections data)"
  shows "set (ai_sourceFactIds s) \<subseteq> aq_allowedFactIds i
    \<and> set (ai_sourceEvidenceIds s) \<subseteq> aq_allowedEvidenceIds i
    \<and> set (ai_sourceClauseIds s) \<subseteq> aq_allowedClauseIds i
    \<and> ai_unsupportedContentFlags s = []
    \<and> list_all (\<lambda>p. \<not> testRx (snd p) (units (ai_draftedText s))) FORBIDDEN_PATTERNS
    \<and> (\<forall>d. aq_approvedDeadlineIso i = Some d \<and> d \<noteq> [] \<longrightarrow>
         (ai_sectionType s = S_DEADLINE_STATEMENT \<longrightarrow> set (isoDays (ai_draftedText s)) \<subseteq> {take 10 d})
         \<and> (\<forall>e. mapValue (aq_approvedFactValuesByType i) ''EVENT_DATE'' = Some e \<and> e \<noteq> [] \<longrightarrow>
              set (isoDays (ai_draftedText s)) \<subseteq> set (knownDays i)))"
proof -
  have none: "sectionErrors i s = []" using assms(1,2) by (simp add: ok_iff)
  then have days: "inventedDays i (ai_draftedText s) = []"
    "mismatchedDays i (ai_sectionType s) (ai_draftedText s) = []"
    by (simp_all add: sectionErrors_def)
  have "set (isoDays (ai_draftedText s)) \<subseteq> {take 10 d}"
    if "aq_approvedDeadlineIso i = Some d" "d \<noteq> []" "ai_sectionType s = S_DEADLINE_STATEMENT" for d
    using mismatchedDays_deadline[OF that(1,2)] days(2) that(3) by simp
  moreover have "set (isoDays (ai_draftedText s)) \<subseteq> set (knownDays i)"
    if "aq_approvedDeadlineIso i = Some d" "d \<noteq> []"
      "mapValue (aq_approvedFactValuesByType i) ''EVENT_DATE'' = Some e" "e \<noteq> []" for d e
    using inventedDays_known[OF that(3,1,4,2) days(1)] .
  ultimately show ?thesis
    using none by (simp add: sectionErrors_def filter_empty_conv list_all_iff subset_iff)
qed

definition demo_ai_section :: "section_type \<Rightarrow> string \<Rightarrow> ai_section" where
  "demo_ai_section t text = \<lparr>ai_sectionType = t, ai_draftedText = text, ai_sourceFactIds = [''f1''],
     ai_sourceEvidenceIds = [], ai_sourceClauseIds = [], ai_warnings = [],
     ai_unsupportedContentFlags = []\<rparr>"

definition demo_ai_input :: "string option \<Rightarrow> string \<Rightarrow> string ai_input" where
  "demo_ai_input deadline text = \<lparr>aq_response = text, aq_allowedFactIds = {''f1''},
     aq_allowedEvidenceIds = {}, aq_allowedClauseIds = {}, aq_approvedDeadlineIso = deadline,
     aq_approvedFactValuesByType = [(''EVENT_DATE'', ''2026-07-01'')], aq_maxSectionChars = None\<rparr>"

definition demo_ai_schema :: "string \<Rightarrow> string list + ai_response" where
  "demo_ai_schema text = Inr \<lparr>ar_language = ''en'',
     ar_sections = [demo_ai_section S_TRIGGER_DATE text], ar_overallWarnings = []\<rparr>"

lemma demo_days: "isoDays ''on 2026-07-01.'' = [''2026-07-01'']" "isoDays ''on 1999-01-01.'' = [''1999-01-01'']"
  by code_simp+

lemma demo_patterns:
  "testRx LEGAL_CONCLUSION_RX (units ''on 2026-07-01.'') = False"
  "testRx INTERNAL_COMMENT_RX (units ''on 2026-07-01.'') = False"
  "testRx CHAIN_OF_THOUGHT_RX (units ''on 2026-07-01.'') = False"
  "testRx LEGAL_CONCLUSION_RX (units ''on 1999-01-01.'') = False"
  "testRx INTERNAL_COMMENT_RX (units ''on 1999-01-01.'') = False"
  "testRx CHAIN_OF_THOUGHT_RX (units ''on 1999-01-01.'') = False"
  by code_simp+

lemma demo_ai_facts:
  "length (units ''on 2026-07-01.'') = 14" "length (units ''on 1999-01-01.'') = 14"
  "includesStr (toLowerCase ''TRIGGER_DATE'') ''deadline'' = False"
  by code_simp+

lemma demo_ai_accepted:
  "validateAiDraftOutput demo_ai_schema (demo_ai_input (Some ''2026-08-01T00'') ''on 2026-07-01.'')
    = Inr (\<lparr>ar_language = ''en'',
        ar_sections = [demo_ai_section S_TRIGGER_DATE ''on 2026-07-01.''],
        ar_overallWarnings = []\<rparr>, [])"
  by (simp add: ok_iff demo_ai_schema_def demo_ai_input_def sectionErrors_def demo_ai_section_def
    inventedDays_def mismatchedDays_def demo_days mapValue_def FORBIDDEN_PATTERNS_def demo_patterns
    orElseNat_def demo_ai_facts)

lemma ai_draft_within_sources_witness:
  "set (isoDays ''on 2026-07-01.'') \<subseteq>
     set (knownDays (demo_ai_input (Some ''2026-08-01T00'') ''on 2026-07-01.''))"
proof -
  let ?i = "demo_ai_input (Some ''2026-08-01T00'') ''on 2026-07-01.''"
  have "mapValue (aq_approvedFactValuesByType ?i) ''EVENT_DATE'' = Some ''2026-07-01''"
    and "aq_approvedDeadlineIso ?i = Some ''2026-08-01T00''"
    by (simp_all add: demo_ai_input_def mapValue_def)
  then show ?thesis
    using ai_draft_within_sources[OF demo_ai_accepted,
      of "demo_ai_section S_TRIGGER_DATE ''on 2026-07-01.''"]
    by (simp add: demo_ai_section_def)
qed

text \<open>Without a verified deadline no day is checked, and a model may invent one.\<close>

lemma ai_dates_unchecked_without_deadline:
  "inventedDays (demo_ai_input None text) text = []"
  "isOk (validateAiDraftOutput demo_ai_schema (demo_ai_input None ''on 1999-01-01.''))"
proof -
  show "inventedDays (demo_ai_input None text) text = []"
    by (simp add: inventedDays_def demo_ai_input_def mapValue_def)
  have "validateAiDraftOutput demo_ai_schema (demo_ai_input None ''on 1999-01-01.'')
    = Inr (\<lparr>ar_language = ''en'',
        ar_sections = [demo_ai_section S_TRIGGER_DATE ''on 1999-01-01.''],
        ar_overallWarnings = []\<rparr>, [])"
    by (simp add: ok_iff demo_ai_schema_def demo_ai_input_def sectionErrors_def demo_ai_section_def
      inventedDays_def mismatchedDays_def mapValue_def FORBIDDEN_PATTERNS_def demo_patterns
      orElseNat_def demo_ai_facts)
  then show "isOk (validateAiDraftOutput demo_ai_schema (demo_ai_input None ''on 1999-01-01.''))"
    by simp
qed

section \<open>The export\<close>

lemma buildAttachmentZip_Inr: "buildAttachmentZip fs = Inr z \<Longrightarrow> unzip z = Some fs"
  by (auto simp: buildAttachmentZip_def split: if_splits intro: unzip_zipStore)

text \<open>An export is made of the external sections only, in the order of their numbers, and never
  of a text with an internal mark.  The manifest carries the digest of the text that is exported and
  no authorization to deliver; the archive holds the text, the manifest and the attachments, and the
  DOCX the text; internal sections can change without a change in the export.\<close>

lemma export_is_faithful:
  assumes "exportApprovedNotice sha stringify now i = Inr x"
  shows "xo_plainText x = exportText i \<and> \<not> internalMark (exportText i)
    \<and> em_checksumSha256 (xo_manifest x) = sha (exportText i)
    \<and> \<not> em_deliveryAuthorized (xo_manifest x)
    \<and> unzip (xo_zip x) = Some (archiveFiles stringify (xo_manifest x) i)
    \<and> unzip (xo_docx x) = Some
        [\<lparr>ze_name = ''[Content_Types].xml'', ze_data = contentTypes\<rparr>,
         \<lparr>ze_name = ''_rels/.rels'', ze_data = relsXml\<rparr>,
         \<lparr>ze_name = ''word/document.xml'', ze_data = documentXml (xi_title i) (exportText i)\<rparr>]
    \<and> exportApprovedNotice sha stringify now
        (i\<lparr>xi_sections := filter (\<lambda>s. \<not> sn_internalOnly s) (xi_sections i)\<rparr>) = Inr x"
proof -
  let ?j = "i\<lparr>xi_sections := filter (\<lambda>s. \<not> sn_internalOnly s) (xi_sections i)\<rparr>"
  from assms obtain docx zipped where leak: "\<not> internalMark (exportText i)"
    and docx: "buildSimpleDocx (xi_title i) (exportText i) = Inr docx"
    and zipped: "buildAttachmentZip (archiveFiles stringify (exportManifest sha now i) i) = Inr zipped"
    and x: "xo_plainText x = exportText i" "xo_manifest x = exportManifest sha now i"
      "xo_docx x = docx" "xo_zip x = zipped"
    by (auto simp: exportApprovedNotice_def Let_def ok_iff split: if_splits)
  have same: "exportText ?j = exportText i" by (simp add: exportText_def)
  have "exportManifest sha now ?j = exportManifest sha now i"
    by (simp add: exportManifest_def same)
  moreover have "archiveFiles stringify m ?j = archiveFiles stringify m i" for m
    by (simp add: archiveFiles_def same)
  ultimately have "exportApprovedNotice sha stringify now ?j = exportApprovedNotice sha stringify now i"
    by (simp add: exportApprovedNotice_def same Let_def cong: if_cong)
  then show ?thesis
    using assms leak x buildAttachmentZip_Inr[OF zipped] docx
    by (auto simp: buildSimpleDocx_def exportManifest_def buildExportManifest_def
      dest: unzip_zipStore)
qed


definition demo_export :: "export_attachment list \<Rightarrow> export_input" where
  "demo_export attachments = \<lparr>xi_title = ''N'',
     xi_sections = map (\<lambda>(n, d). sectionOf ''en'' n d) (enumerate 1
       [plainSection S_NOTICE_TITLE ''Late'' [] [] [], guidanceSection]),
     xi_noticePackageId = ''np'', xi_draftRevisionId = ''rv'', xi_revisionNumber = 1,
     xi_language = ''en'', xi_generatorVersion = ''g'', xi_attachments = attachments,
     xi_recipientPreparationIds = [], xi_approvalDecisionId = None, xi_approvedAt = None\<rparr>"

definition demo_text :: string where
  "demo_text = ''Notice'' @ nl @ ''Late''"

lemma demo_export_text: "exportText (demo_export as) = demo_text"
proof -
  have "trim ''Late'' = ''Late''" by code_simp
  then show ?thesis
    by (simp add: exportText_def demo_export_def renderPlainText_def sectionOf_def plainSection_def
      guidanceSection_def headingFor_def nl_def demo_text_def)
qed

lemma demo_export_fields: "xi_attachments (demo_export as) = as" "xi_title (demo_export as) = ''N''"
  by (simp_all add: demo_export_def)

lemma demo_export_unmarked: "internalMark demo_text = False"
  by code_simp

lemma docx_sizes:
  "length contentTypes < 1000" "length relsXml < 1000"
  "length (documentXml ''N'' demo_text) < 1000" "length demo_text < 1000"
  by code_simp+

lemma demo_export_succeeds:
  assumes "as \<in> {[], [\<lparr>ma_id = ''a1'', ma_filename = ''manifest.json'', ma_checksumSha256 = None,
      ma_sequence = 1, xa_content = ''{}''\<rparr>]}"
  shows "\<exists>x. exportApprovedNotice (\<lambda>t. t) (\<lambda>m. ''{1}'') ''now'' (demo_export as) = Inr x"
proof -
  have "isOk (buildSimpleDocx ''N'' demo_text)"
    using docx_sizes
    by (simp add: buildSimpleDocx_def zipStore_ok localSize_def centralSize_def)
  moreover have "isOk (buildAttachmentZip (archiveFiles (\<lambda>m. ''{1}'') m (demo_export as)))" for m
    using assms docx_sizes(4)
    by (auto simp: buildAttachmentZip_def archiveFiles_def demo_export_text zipStore_ok localSize_def
      centralSize_def demo_export_fields unsafeFilename_def)
  ultimately obtain d z where "buildSimpleDocx ''N'' demo_text = Inr d"
    "buildAttachmentZip (archiveFiles (\<lambda>m. ''{1}'')
      (exportManifest (\<lambda>t. t) ''now'' (demo_export as)) (demo_export as)) = Inr z"
    unfolding isOk_iff by meson
  then show ?thesis
    by (auto simp: exportApprovedNotice_def demo_export_text demo_export_unmarked Let_def isOk_iff
      demo_export_fields)
qed

lemma export_is_faithful_witness:
  "\<exists>x. exportApprovedNotice (\<lambda>t. t) (\<lambda>m. ''{1}'') ''now'' (demo_export []) = Inr x
    \<and> xo_plainText x = demo_text"
  using demo_export_succeeds[of "[]"] export_is_faithful demo_export_text by force

text \<open>An attachment may take the name of the manifest: the archive then holds two files of that name.\<close>

lemma manifest_can_be_shadowed:
  "\<exists>as x. exportApprovedNotice (\<lambda>t. t) (\<lambda>m. ''{1}'') ''now'' (demo_export as) = Inr x
    \<and> map_option (map ze_name) (unzip (xo_zip x))
        = Some [''notice.txt'', ''manifest.json'', ''manifest.json'']"
proof -
  let ?as = "[\<lparr>ma_id = ''a1'', ma_filename = ''manifest.json'', ma_checksumSha256 = None,
      ma_sequence = 1, xa_content = ''{}''\<rparr>]"
  obtain x where x: "exportApprovedNotice (\<lambda>t. t) (\<lambda>m. ''{1}'') ''now'' (demo_export ?as) = Inr x"
    using demo_export_succeeds[of ?as] by blast
  then have "unzip (xo_zip x) = Some (archiveFiles (\<lambda>m. ''{1}'') (xo_manifest x) (demo_export ?as))"
    using buildAttachmentZip_Inr
    by (auto simp: exportApprovedNotice_def Let_def ok_iff split: if_splits)
  then show ?thesis
    using x by (intro exI[of _ ?as] exI[of _ x]) (simp add: archiveFiles_def demo_export_def)
qed

end
