(* ===== verification/DeadlineProperties.thy ===== *)
theory DeadlineProperties
  imports DeadlineEngine
begin

text \<open>
  What the deadline engine guarantees, for every behaviour of the date library: which rules it
  computes at all, which day the two loops stop on, the deadline as a function without traces, the
  milestones and the numbering of the trace.
\<close>

section \<open>The loops over days\<close>

definition dayAfter :: "('dt \<Rightarrow> 'dt) \<Rightarrow> 'dt \<Rightarrow> nat \<Rightarrow> 'dt" where
  "dayAfter move start k = (move ^^ k) start"

definition nextDay :: "'dt luxon \<Rightarrow> 'dt \<Rightarrow> 'dt" where
  "nextDay lx d = lx_plusDays lx d 1"

text \<open>How many of the days 1 to k after the start are business days.\<close>

definition businessCount :: "'dt luxon \<Rightarrow> calendar_revision \<Rightarrow> 'dt \<Rightarrow> nat \<Rightarrow> nat" where
  "businessCount lx cal start k =
     length (filter (\<lambda>i. isBusinessDay lx cal (dayAfter (nextDay lx) start i)) [1..<Suc k])"

lemma dayAfter_0 [simp]: "dayAfter move start 0 = start"
  by (simp add: dayAfter_def)

lemma dayAfter_Suc: "dayAfter move start (Suc k) = dayAfter move (move start) k"
  by (simp add: dayAfter_def funpow_swap1)

lemma businessCount_0 [simp]: "businessCount lx cal start 0 = 0"
  by (simp add: businessCount_def)

lemma businessCount_step:
  "businessCount lx cal start (Suc k) = businessCount lx cal start k
     + (if isBusinessDay lx cal (dayAfter (nextDay lx) start (Suc k)) then 1 else 0)"
  by (simp add: businessCount_def)

lemma businessCount_shift:
  "businessCount lx cal start (Suc k) =
     (if isBusinessDay lx cal (nextDay lx start) then 1 else 0)
     + businessCount lx cal (nextDay lx start) k"
  by (induction k) (simp_all add: businessCount_step[of lx cal start] businessCount_step[of lx cal "nextDay lx start"]
      dayAfter_Suc)

lemma businessLoop_spec:
  "\<exists>k\<le>g. businessLoop g lx cal remaining start = dayAfter (nextDay lx) start k
     \<and> (\<forall>j<k. of_nat (businessCount lx cal start j) < remaining)
     \<and> (k < g \<longrightarrow> remaining \<le> of_nat (businessCount lx cal start k))"
proof (induction g arbitrary: remaining start)
  case 0
  then show ?case by simp
next
  case (Suc g)
  show ?case
  proof (cases "0 < remaining")
    case False
    then show ?thesis by (intro exI[of _ 0]) simp
  next
    case True
    let ?n = "nextDay lx start"
    let ?b = "isBusinessDay lx cal ?n"
    let ?rest = "if ?b then remaining - 1 else remaining"
    obtain k where k: "k \<le> g" "businessLoop g lx cal ?rest ?n = dayAfter (nextDay lx) ?n k"
      and before: "\<forall>j<k. of_nat (businessCount lx cal ?n j) < ?rest"
      and reached: "k < g \<longrightarrow> ?rest \<le> of_nat (businessCount lx cal ?n k)"
      using Suc.IH by blast
    have run: "businessLoop (Suc g) lx cal remaining start = dayAfter (nextDay lx) start (Suc k)"
      using True k(2) by (simp add: Let_def nextDay_def dayAfter_Suc)
    have "of_nat (businessCount lx cal start j) < remaining" if "j < Suc k" for j
    proof (cases j)
      case 0
      then show ?thesis using True by simp
    next
      case (Suc i)
      then have "of_nat (businessCount lx cal ?n i) < ?rest" using before that by simp
      then show ?thesis using Suc by (simp add: businessCount_shift split: if_splits)
    qed
    moreover have "Suc k < Suc g \<longrightarrow> remaining \<le> of_nat (businessCount lx cal start (Suc k))"
      using reached by (auto simp: businessCount_shift split: if_splits)
    ultimately show ?thesis using run k(1) by (intro exI[of _ "Suc k"]) simp
  qed
qed

lemma adjustLoop_spec:
  "\<exists>k\<le>g. adjustLoop g lx cal move start = dayAfter move start k
     \<and> (\<forall>j<k. \<not> isBusinessDay lx cal (dayAfter move start j))
     \<and> (k < g \<longrightarrow> isBusinessDay lx cal (dayAfter move start k))"
proof (induction g arbitrary: start)
  case 0
  then show ?case by simp
next
  case (Suc g)
  show ?case
  proof (cases "isBusinessDay lx cal start")
    case True
    then show ?thesis by (intro exI[of _ 0]) simp
  next
    case False
    obtain k where k: "k \<le> g" "adjustLoop g lx cal move (move start) = dayAfter move (move start) k"
      and before: "\<forall>j<k. \<not> isBusinessDay lx cal (dayAfter move (move start) j)"
      and reached: "k < g \<longrightarrow> isBusinessDay lx cal (dayAfter move (move start) k)"
      using Suc.IH by blast
    have "\<not> isBusinessDay lx cal (dayAfter move start j)" if "j < Suc k" for j
      using that before False by (cases j) (simp_all add: dayAfter_Suc)
    then show ?thesis
      using False k reached by (intro exI[of _ "Suc k"]) (simp add: dayAfter_Suc)
  qed
qed

section \<open>A concrete date library\<close>

text \<open>
  Date-times as whole days in UTC, written in unary, to run the engine on: an instance of the
  parameter, not a model of Luxon.
\<close>

definition dayText :: "int \<Rightarrow> string option" where
  "dayText d = (if d < 0 then None else Some (replicate (nat d) (CHR ''I'')))"

definition dayLuxon :: "int luxon" where
  "dayLuxon = \<lparr>lx_fromISO = (\<lambda>s. if s = [] then Inl ''empty'' else Inr (int (length s))),
     lx_setZone = (\<lambda>d z. if z = ''UTC'' then Some d else None), lx_now = 0,
     lx_plusDays = (\<lambda>d n. d + \<lfloor>n\<rfloor>), lx_minusDays = (\<lambda>d n. d - \<lfloor>n\<rfloor>),
     lx_plusWeeks = (\<lambda>d n. d + 7 * \<lfloor>n\<rfloor>), lx_plusMonths = (\<lambda>d n. d + 30 * \<lfloor>n\<rfloor>),
     lx_endOfDay = id, lx_startOfDay = id, lx_toISO = dayText, lx_toISODate = dayText,
     lx_weekday = (\<lambda>d. nat (d mod 7) + 1), lx_hasSameDay = (=),
     lx_ms = (\<lambda>d. d * 86400000), lx_zoneName = (\<lambda>_. Some ''UTC''), lx_show = (\<lambda>_. ''n'')\<rparr>"

definition utcCalendar :: calendar_revision where
  "utcCalendar = \<lparr>timezone = ''UTC'', weekendDays = [6, 7], holidays = [], specialWorkingDays = []\<rparr>"

definition demoRule :: executable_rule where
  "demoRule = \<lparr>durationUnit = CALENDAR_DAY, durationValue = Some 5, counting = EXCLUSIVE,
     startDateConvention = EXCLUDE_TRIGGER_DAY, endDateConvention = EXACT_TIMESTAMP,
     nonWorkingAdjustment = FORWARD, timeBarClassification = PROCEDURAL_DEADLINE,
     ambiguityNotes = [], humanApproved = True, requiredRecipientsApproved = True,
     monthRollBehavior = BLOCK_IF_AMBIGUOUS\<rparr>"

definition demoInput :: calculate_input where
  "demoInput = \<lparr>rule = demoRule, triggerDateIso = ''III'', triggerPrecision = EXACT_DATE,
     calendar = utcCalendar, internalWarningOffsetsDays = [3, 1, 9]\<rparr>"

definition demoSchemas :: "calculate_input schemas" where
  "demoSchemas = \<lparr>sc_input = Inr, sc_rule = Inr, sc_calendar = Inr\<rparr>"

lemma demo_business [simp]:
  "isBusinessDay dayLuxon utcCalendar d \<longleftrightarrow> d mod 7 \<noteq> 5 \<and> d mod 7 \<noteq> 6"
proof -
  have "0 \<le> d mod 7" by simp
  then have "nat (d mod 7) + 1 = 6 \<longleftrightarrow> d mod 7 = 5" "nat (d mod 7) + 1 = 7 \<longleftrightarrow> d mod 7 = 6"
    by linarith+
  then show ?thesis by (simp add: isBusinessDay_def dayLuxon_def utcCalendar_def)
qed

section \<open>Days\<close>

text \<open>C4: Business-day counting stops on the right day: the result is the k-th day after the start,
for the least k by which as many business days have passed as were asked for; no earlier day would
do, whatever the calendar and the library's arithmetic, and only a search of 5000 days ends
without it.\<close>

theorem business_days_least:
  "\<exists>k\<le>5000. addBusinessDays lx start days cal = dayAfter (nextDay lx) start k
     \<and> (\<forall>j<k. of_nat (businessCount lx cal start j) < days)
     \<and> (k < 5000 \<longrightarrow> days \<le> of_nat (businessCount lx cal start k))"
  unfolding addBusinessDays_def by (rule businessLoop_spec)

lemma business_days_least_witness:
  "\<exists>k\<le>5000. (addBusinessDays dayLuxon 3 2 utcCalendar :: int) = dayAfter (nextDay dayLuxon) 3 k"
  using business_days_least[of dayLuxon 3 2 utcCalendar] by blast

text \<open>A calendar without business days does not block the calculation: after 5000 days the search
gives up and returns the 5000th day, although not one business day was counted.\<close>

lemma business_days_give_up:
  assumes "\<And>d. \<not> isBusinessDay lx cal d" and "0 < days"
  shows "addBusinessDays lx start days cal = dayAfter (nextDay lx) start 5000
    \<and> businessCount lx cal start 5000 = 0"
proof -
  have none: "businessCount lx cal start k = 0" for k
    using assms(1) by (simp add: businessCount_def)
  obtain k where "k \<le> 5000" "addBusinessDays lx start days cal = dayAfter (nextDay lx) start k"
    "k < 5000 \<longrightarrow> days \<le> of_nat (businessCount lx cal start k)"
    using businessLoop_spec[of 5000 lx cal days start] unfolding addBusinessDays_def by blast
  then show ?thesis using none assms(2) by (cases "k = 5000") auto
qed

lemma business_days_give_up_witness:
  "addBusinessDays dayLuxon 0 1 (utcCalendar\<lparr>weekendDays := [1, 2, 3, 4, 5, 6, 7]\<rparr>)
     = dayAfter (nextDay dayLuxon) 0 5000"
proof -
  have "\<not> isBusinessDay dayLuxon (utcCalendar\<lparr>weekendDays := [1, 2, 3, 4, 5, 6, 7]\<rparr>) d" for d
  proof -
    have "0 \<le> d mod 7" "d mod 7 < 7" by simp_all
    then have "d mod 7 = 0 \<or> d mod 7 = 1 \<or> d mod 7 = 2 \<or> d mod 7 = 3 \<or> d mod 7 = 4
        \<or> d mod 7 = 5 \<or> d mod 7 = 6" by linarith
    then show ?thesis by (auto simp: isBusinessDay_def dayLuxon_def utcCalendar_def)
  qed
  then show ?thesis using business_days_give_up[of dayLuxon
      "utcCalendar\<lparr>weekendDays := [1, 2, 3, 4, 5, 6, 7]\<rparr>" 1 0] by simp
qed

text \<open>The adjustment of a non-working day moves to the nearest business day in its direction: every
day it passes is a non-business day, and the day it stops on is a business day unless 370 days in a
row were not; without an adjustment the day stays.\<close>

lemma adjustment_nearest:
  "adjustNonWorking lx cal NO_ADJUSTMENT d = d
   \<and> (\<exists>k\<le>370. adjustNonWorking lx cal FORWARD d = dayAfter (\<lambda>x. lx_plusDays lx x 1) d k
        \<and> (\<forall>j<k. \<not> isBusinessDay lx cal (dayAfter (\<lambda>x. lx_plusDays lx x 1) d j))
        \<and> (k < 370 \<longrightarrow> isBusinessDay lx cal (dayAfter (\<lambda>x. lx_plusDays lx x 1) d k)))
   \<and> (\<exists>k\<le>370. adjustNonWorking lx cal BACKWARD d = dayAfter (\<lambda>x. lx_minusDays lx x 1) d k
        \<and> (\<forall>j<k. \<not> isBusinessDay lx cal (dayAfter (\<lambda>x. lx_minusDays lx x 1) d j))
        \<and> (k < 370 \<longrightarrow> isBusinessDay lx cal (dayAfter (\<lambda>x. lx_minusDays lx x 1) d k)))"
  unfolding adjustNonWorking_def non_working_adjustment.case
  by (intro conjI refl adjustLoop_spec)

lemma adjustment_nearest_witness:
  "adjustNonWorking dayLuxon utcCalendar NO_ADJUSTMENT 5 = 5
   \<and> (\<exists>k\<le>370. adjustNonWorking dayLuxon utcCalendar FORWARD 5
        = dayAfter (\<lambda>x. lx_plusDays dayLuxon x 1) 5 k)"
  using adjustment_nearest[of dayLuxon utcCalendar 5] by blast

section \<open>The calculation without its trace\<close>

text \<open>The day arithmetic, the adjustment and the end-day rule of an executable rule.\<close>

definition deadlineDay ::
  "'dt luxon \<Rightarrow> executable_rule \<Rightarrow> calendar_revision \<Rightarrow> 'dt \<Rightarrow> 'dt" where
  "deadlineDay lx r cal start =
     (let moved = (case durationUnit r of
             CALENDAR_DAY \<Rightarrow> adjustNonWorking lx cal (nonWorkingAdjustment r)
                               (lx_plusDays lx start (daysToAdd r))
           | BUSINESS_DAY \<Rightarrow> addBusinessDays lx start (daysToAdd r) cal
           | WEEK \<Rightarrow> adjustNonWorking lx cal (nonWorkingAdjustment r)
                       (lx_plusWeeks lx start (rawDays r))
           | MONTH \<Rightarrow> adjustNonWorking lx cal (nonWorkingAdjustment r)
                       (lx_plusMonths lx start (rawDays r))
           | _ \<Rightarrow> start)
      in case endDateConvention r of
           END_OF_DAY \<Rightarrow> lx_endOfDay lx moved
         | START_OF_DAY \<Rightarrow> lx_startOfDay lx moved
         | EXACT_TIMESTAMP \<Rightarrow> moved)"

definition milestonesOf :: "'dt luxon \<Rightarrow> 'dt \<Rightarrow> 'dt \<Rightarrow> nat list \<Rightarrow> internal_milestone list" where
  "milestonesOf lx trigger deadline offsets =
     concat (map (\<lambda>n. case lx_toISO lx (lx_minusDays lx deadline (of_nat n)) of
         None \<Rightarrow> []
       | Some due \<Rightarrow> whenl (due \<noteq> []
            \<and> lx_ms lx trigger < lx_ms lx (lx_minusDays lx deadline (of_nat n)))
           \<lparr>ms_label = lx_show lx (of_nat n) @ '' days remaining (internal)'',
            ms_dueAtIso = due, ms_offsetDaysBeforeDeadline = n\<rparr>) offsets)"

lemma addMilestones_fst:
  "fst (addMilestones lx trigger deadline offsets ms tr) = ms @ milestonesOf lx trigger deadline offsets"
proof (induction offsets arbitrary: ms tr)
  case (Cons n rest)
  then show ?case
    by (cases "lx_toISO lx (lx_minusDays lx deadline (of_nat n))")
      (auto simp: milestonesOf_def Let_def)
qed (simp add: milestonesOf_def)

lemma applyEndDay_fst:
  "fst (applyEndDay lx r c tr) = (case endDateConvention r of
     END_OF_DAY \<Rightarrow> lx_endOfDay lx c | START_OF_DAY \<Rightarrow> lx_startOfDay lx c | EXACT_TIMESTAMP \<Rightarrow> c)"
  by (cases "endDateConvention r") (simp_all add: applyEndDay_def Let_def)

lemma adjustDay_fst:
  "fst (adjustDay lx r cal c tr) =
     (if durationUnit r = CALENDAR_DAY \<or> durationUnit r = WEEK \<or> durationUnit r = MONTH
      then adjustNonWorking lx cal (nonWorkingAdjustment r) c else c)"
  by (simp add: adjustDay_def Let_def)

text \<open>Rules whose unit the engine computes; months only with the approved roll behaviour.\<close>

definition computable :: "executable_rule \<Rightarrow> bool" where
  "computable r \<longleftrightarrow> durationUnit r \<in> {CALENDAR_DAY, BUSINESS_DAY, WEEK}
     \<or> (durationUnit r = MONTH \<and> monthRollBehavior r = SAME_DAY_OR_LAST)"

lemma computeDeadline_spec:
  assumes "computable r"
  shows "status (computeDeadline lx input r cal start) = CALCULATED
    \<and> contractualDeadlineAt (computeDeadline lx input r cal start) = lx_toISO lx (deadlineDay lx r cal start)
    \<and> contractualDeadlineDate (computeDeadline lx input r cal start) = Some (dateKey lx (deadlineDay lx r cal start))
    \<and> internalMilestones (computeDeadline lx input r cal start)
        = milestonesOf lx start (deadlineDay lx r cal start) (internalWarningOffsetsDays input)
    \<and> \<not> immediate (computeDeadline lx input r cal start)"
proof -
  let ?tr = "pushStep APPLY_START_DAY_RULE
       [(''convention'', TStart (startDateConvention r)), (''counting'', TCounting (counting r))]
       [] (''Applied '' @ start_name (startDateConvention r) @ '' with counting ''
             @ counting_name (counting r)) False False (startTrace lx input cal start)"
  have unit: "durationUnit r \<noteq> IMMEDIATE" using assms by (auto simp: computable_def)
  obtain c1 tr1 where add: "addDuration lx r cal start ?tr = Inr (c1, tr1)"
    and c1: "(if durationUnit r = CALENDAR_DAY \<or> durationUnit r = WEEK \<or> durationUnit r = MONTH
       then adjustNonWorking lx cal (nonWorkingAdjustment r) c1 else c1) = (case durationUnit r of
             CALENDAR_DAY \<Rightarrow> adjustNonWorking lx cal (nonWorkingAdjustment r)
                               (lx_plusDays lx start (daysToAdd r))
           | BUSINESS_DAY \<Rightarrow> addBusinessDays lx start (daysToAdd r) cal
           | WEEK \<Rightarrow> adjustNonWorking lx cal (nonWorkingAdjustment r)
                       (lx_plusWeeks lx start (rawDays r))
           | MONTH \<Rightarrow> adjustNonWorking lx cal (nonWorkingAdjustment r)
                       (lx_plusMonths lx start (rawDays r))
           | _ \<Rightarrow> start)"
    using assms by (auto simp: computable_def addDuration_def Let_def)
  obtain c2 tr2 where c2: "adjustDay lx r cal c1 tr1 = (c2, tr2)" by force
  obtain c3 tr3 where c3: "applyEndDay lx r c2 tr2 = (c3, tr3)" by force
  obtain ms tr4 where ms: "addMilestones lx start c3 (internalWarningOffsetsDays input) [] tr3 = (ms, tr4)"
    by force
  have moved: "c2 = (if durationUnit r = CALENDAR_DAY \<or> durationUnit r = WEEK \<or> durationUnit r = MONTH
       then adjustNonWorking lx cal (nonWorkingAdjustment r) c1 else c1)"
    using adjustDay_fst[of lx r cal c1 tr1] c2 by simp
  have "c3 = deadlineDay lx r cal start"
    unfolding deadlineDay_def Let_def c1[symmetric] moved[symmetric]
    using applyEndDay_fst[of lx r c2 tr2] c3 by simp
  moreover have "ms = milestonesOf lx start c3 (internalWarningOffsetsDays input)"
    using addMilestones_fst[of lx start c3 "internalWarningOffsetsDays input" "[]" tr3] ms by simp
  ultimately show ?thesis
    using unit add c2 c3 ms by (simp add: computeDeadline_def Let_def)
qed

lemma validateExecutableRule_ok:
  assumes "validateExecutableRule p raw = (True, why, value)"
  shows "\<exists>r. p raw = Inr r \<and> value = Some r \<and> ruleReasons r = [] \<and> why = []"
  using assms by (auto simp: validateExecutableRule_def split: sum.splits)

text \<open>The trace of a calculation that was blocked before it started: one warning step.\<close>

definition blockTrace :: "trace_step list \<Rightarrow> bool" where
  "blockTrace tr \<longleftrightarrow> length tr = 1 \<and> sequence (hd tr) = 1
     \<and> operation (hd tr) = BLOCK_AMBIGUOUS_RULE \<and> warning (hd tr)"

text \<open>The cases of the calculation: blocked before it starts, or computed.\<close>

lemma calculateDeadline_cases:
  obtains (blocked) reasons tz tr where
    "calculateDeadline lx sc raw = blockedResult reasons tz tr"
    "blockTrace tr"
  | (computed) input r cal start where
    "sc_input sc raw = Inr input" "sc_rule sc (rule input) = Inr r" "ruleReasons r = []"
    "sc_calendar sc (calendar input) = Inr cal" "lx_setZone lx (lx_now lx) (timezone cal) \<noteq> None"
    "validateTriggerDate lx (triggerDateIso input) (triggerPrecision input) (timezone (calendar input)) = Inr start"
    "calculateDeadline lx sc raw = computeDeadline lx input r cal start"
proof (cases "sc_input sc raw")
  case (Inl issues)
  show ?thesis
    by (rule blocked, simp add: calculateDeadline_def Inl, simp add: blockTrace_def)
next
  case input: (Inr input)
  let ?cal = "validateCalendarRevision lx (sc_calendar sc) (calendar input)"
  obtain ok why value' where rc: "validateExecutableRule (sc_rule sc) (rule input) = (ok, why, value')"
    by (cases "validateExecutableRule (sc_rule sc) (rule input)")
  show ?thesis
  proof (cases "ok \<and> isOk ?cal")
    case False
    then show ?thesis
      using input rc by (cases ?cal; cases ok; cases value')
        (auto simp: calculateDeadline_def pushStep_def Let_def blockTrace_def intro!: blocked
          dest: validateExecutableRule_ok)
  next
    case True
    then obtain cal where cal: "?cal = Inr cal" by (auto simp: isOk_iff)
    then have pc: "sc_calendar sc (calendar input) = Inr cal" "lx_setZone lx (lx_now lx) (timezone cal) \<noteq> None"
      by (auto simp: validateCalendarRevision_def split: sum.splits option.splits)
    obtain r where r: "sc_rule sc (rule input) = Inr r" "value' = Some r" "ruleReasons r = []"
      using validateExecutableRule_ok[of "sc_rule sc" "rule input" why value'] rc True by auto
    show ?thesis
    proof (cases "validateTriggerDate lx (triggerDateIso input) (triggerPrecision input)
        (timezone (calendar input))")
      case (Inl reasons)
      show ?thesis
        by (rule blocked, simp add: calculateDeadline_def Let_def pushStep_def Inl input rc r cal True[THEN conjunct1],
            simp add: blockTrace_def)
    next
      case (Inr start)
      then show ?thesis
        using input rc r cal pc True
        by (intro computed[of input r cal start]) (simp_all add: calculateDeadline_def Let_def)
    qed
  qed
qed

section \<open>What is calculated\<close>

lemma blockedResult_simps [simp]:
  "status (blockedResult reasons tz tr) = BLOCKED"
  "contractualDeadlineAt (blockedResult reasons tz tr) = None"
  "internalMilestones (blockedResult reasons tz tr) = []"
  "trace (blockedResult reasons tz tr) = tr"
  "blockedReasons (blockedResult reasons tz tr) = reasons"
  by (simp_all add: blockedResult_def)

lemma ruleReasons_Nil:
  "ruleReasons r = [] \<longleftrightarrow> humanApproved r \<and> ambiguityNotes r = [] \<and> timeBarClassification r \<noteq> UNCERTAIN
     \<and> requiredRecipientsApproved r \<and> durationUnit r \<notin> {PROMPT, REASONABLE_TIME, CUSTOM}
     \<and> counting r \<noteq> UNSPECIFIED
     \<and> (if durationUnit r = IMMEDIATE then durationValue r = None
        else \<exists>v. durationValue r = Some v \<and> 0 \<le> v)"
  by (cases "durationValue r"; cases "durationUnit r")
    (auto simp: ruleReasons_def isNonNumeric_def)

lemma computeDeadline_uncomputable:
  assumes "ruleReasons r = []" and "\<not> computable r" and "durationUnit r \<noteq> IMMEDIATE"
  shows "\<exists>tr. computeDeadline lx input r cal start
    = blockedResult [''Month-end semantics are not approved''] (timezone cal) tr"
proof -
  have "durationUnit r = MONTH" "monthRollBehavior r \<noteq> SAME_DAY_OR_LAST"
    using assms by (cases "durationUnit r"; auto simp: ruleReasons_Nil computable_def)+
  then show ?thesis by (simp add: computeDeadline_def addDuration_def Let_def) (rule exI, rule refl)
qed

lemma computeDeadline_immediate:
  assumes "durationUnit r = IMMEDIATE"
  shows "status (computeDeadline lx input r cal start) = CALCULATED
    \<and> contractualDeadlineAt (computeDeadline lx input r cal start) = lx_toISO lx start
    \<and> internalMilestones (computeDeadline lx input r cal start) = []
    \<and> immediate (computeDeadline lx input r cal start)"
  using assms by (simp add: computeDeadline_def Let_def)

text \<open>
  What a deadline is, without the engine's functions.  An adjustment moves a day to the nearest
  business day in its direction, of 370; business days are counted to the first day by which as many
  have passed, of 5000.  The trigger day counts when the convention includes it.
\<close>

definition nearestWorking ::
  "'dt luxon \<Rightarrow> calendar_revision \<Rightarrow> non_working_adjustment \<Rightarrow> 'dt \<Rightarrow> 'dt \<Rightarrow> bool" where
  "nearestWorking lx cal adjustment d e \<longleftrightarrow> (if adjustment = NO_ADJUSTMENT then e = d else
     (\<exists>k\<le>370. let move = (\<lambda>x. if adjustment = FORWARD then lx_plusDays lx x 1 else lx_minusDays lx x 1) in
        e = dayAfter move d k \<and> (\<forall>j<k. \<not> isBusinessDay lx cal (dayAfter move d j))
        \<and> (k < 370 \<longrightarrow> isBusinessDay lx cal (dayAfter move d k))))"

definition businessDaysLater ::
  "'dt luxon \<Rightarrow> calendar_revision \<Rightarrow> rat \<Rightarrow> 'dt \<Rightarrow> 'dt \<Rightarrow> bool" where
  "businessDaysLater lx cal n d e \<longleftrightarrow> (\<exists>k\<le>5000. e = dayAfter (nextDay lx) d k
     \<and> (\<forall>j<k. of_nat (businessCount lx cal d j) < n)
     \<and> (k < 5000 \<longrightarrow> n \<le> of_nat (businessCount lx cal d k)))"

definition countedDays :: "executable_rule \<Rightarrow> rat \<Rightarrow> rat" where
  "countedDays r v = (if 1 \<le> v \<and> (startDateConvention r = INCLUDE_TRIGGER_DAY \<or> counting r = INCLUSIVE)
     then v - 1 else v)"

definition finalDay ::
  "'dt luxon \<Rightarrow> executable_rule \<Rightarrow> calendar_revision \<Rightarrow> rat \<Rightarrow> 'dt \<Rightarrow> 'dt \<Rightarrow> bool" where
  "finalDay lx r cal v trigger d \<longleftrightarrow>
     (durationUnit r = CALENDAR_DAY \<and>
        nearestWorking lx cal (nonWorkingAdjustment r) (lx_plusDays lx trigger (countedDays r v)) d)
   \<or> (durationUnit r = WEEK \<and> nearestWorking lx cal (nonWorkingAdjustment r) (lx_plusWeeks lx trigger v) d)
   \<or> (durationUnit r = MONTH \<and> monthRollBehavior r = SAME_DAY_OR_LAST \<and>
        nearestWorking lx cal (nonWorkingAdjustment r) (lx_plusMonths lx trigger v) d)
   \<or> (durationUnit r = BUSINESS_DAY \<and> businessDaysLater lx cal (countedDays r v) trigger d)"

definition endOfDay :: "'dt luxon \<Rightarrow> executable_rule \<Rightarrow> 'dt \<Rightarrow> 'dt" where
  "endOfDay lx r d = (case endDateConvention r of END_OF_DAY \<Rightarrow> lx_endOfDay lx d
     | START_OF_DAY \<Rightarrow> lx_startOfDay lx d | EXACT_TIMESTAMP \<Rightarrow> d)"

text \<open>What a calculation needs: parsed values, an approved and certain rule, a zone, a trigger.\<close>

definition executable :: "executable_rule \<Rightarrow> bool" where
  "executable r \<longleftrightarrow> humanApproved r \<and> ambiguityNotes r = [] \<and> timeBarClassification r \<noteq> UNCERTAIN
     \<and> requiredRecipientsApproved r \<and> counting r \<noteq> UNSPECIFIED
     \<and> (durationUnit r = IMMEDIATE \<and> durationValue r = None
        \<or> (durationUnit r \<in> {CALENDAR_DAY, BUSINESS_DAY, WEEK}
             \<or> durationUnit r = MONTH \<and> monthRollBehavior r = SAME_DAY_OR_LAST)
           \<and> (\<exists>v. durationValue r = Some v \<and> 0 \<le> v))"

definition calculable ::
  "'dt luxon \<Rightarrow> 'raw schemas \<Rightarrow> 'raw \<Rightarrow> calculate_input \<Rightarrow> executable_rule \<Rightarrow> calendar_revision \<Rightarrow> 'dt \<Rightarrow> bool" where
  "calculable lx sc raw input r cal trigger \<longleftrightarrow> sc_input sc raw = Inr input
     \<and> sc_rule sc (rule input) = Inr r \<and> executable r
     \<and> sc_calendar sc (calendar input) = Inr cal \<and> lx_setZone lx (lx_now lx) (timezone cal) \<noteq> None
     \<and> (\<exists>zone. lx_fromISO lx (triggerDateIso input) = Inr zone
          \<and> lx_setZone lx zone (timezone (calendar input)) = Some trigger)"

lemma adjusted_nearest: "nearestWorking lx cal adjustment d (adjustNonWorking lx cal adjustment d)"
proof (cases adjustment)
  case FORWARD
  then show ?thesis
    using adjustLoop_spec[of 370 lx cal "\<lambda>x. lx_plusDays lx x 1" d]
    by (simp add: nearestWorking_def adjustNonWorking_def Let_def)
next
  case BACKWARD
  then show ?thesis
    using adjustLoop_spec[of 370 lx cal "\<lambda>x. lx_minusDays lx x 1" d]
    by (simp add: nearestWorking_def adjustNonWorking_def Let_def)
qed (simp add: nearestWorking_def adjustNonWorking_def)

lemma added_later: "businessDaysLater lx cal n d (addBusinessDays lx d n cal)"
  unfolding businessDaysLater_def addBusinessDays_def by (rule businessLoop_spec)

lemma daysToAdd_counted: "durationValue r = Some v \<Longrightarrow> daysToAdd r = countedDays r v \<and> rawDays r = v"
  by (cases "startDateConvention r") (simp_all add: daysToAdd_def countedDays_def rawDays_def)

lemma deadline_final:
  assumes "computable r" "durationValue r = Some v"
  shows "\<exists>d. finalDay lx r cal v trigger d \<and> deadlineDay lx r cal trigger = endOfDay lx r d"
proof -
  define d where "d = (if durationUnit r = BUSINESS_DAY then addBusinessDays lx trigger (daysToAdd r) cal
    else adjustNonWorking lx cal (nonWorkingAdjustment r) (if durationUnit r = CALENDAR_DAY
      then lx_plusDays lx trigger (daysToAdd r) else if durationUnit r = WEEK
      then lx_plusWeeks lx trigger (rawDays r) else lx_plusMonths lx trigger (rawDays r)))"
  have "deadlineDay lx r cal trigger = endOfDay lx r d"
    using assms(1)
    by (cases "durationUnit r") (simp_all add: computable_def deadlineDay_def endOfDay_def d_def Let_def)
  moreover have "finalDay lx r cal v trigger d"
    using assms(1) daysToAdd_counted[OF assms(2)] adjusted_nearest added_later
    by (auto simp: computable_def finalDay_def d_def)
  ultimately show ?thesis by blast
qed

lemma executable_reasons: "executable r \<longleftrightarrow> ruleReasons r = [] \<and> (computable r \<or> durationUnit r = IMMEDIATE)"
  unfolding executable_def ruleReasons_Nil computable_def by (cases "durationUnit r") auto

lemma trigger_valid:
  "validateTriggerDate lx triggerText precision tz = Inr trigger \<longleftrightarrow>
     (\<exists>zone. lx_fromISO lx triggerText = Inr zone \<and> lx_setZone lx zone tz = Some trigger)"
  by (auto simp: validateTriggerDate_def split: sum.splits option.splits)

text \<open>The calculation of what is calculable is the calculation part; nothing else is calculated.\<close>

lemma calculable_runs:
  assumes "calculable lx sc raw input r cal trigger"
  shows "calculateDeadline lx sc raw = computeDeadline lx input r cal trigger"
proof -
  have "ruleReasons r = []" using assms by (simp add: calculable_def executable_reasons)
  then show ?thesis
    using assms by (auto simp: calculable_def calculateDeadline_def validateExecutableRule_def
      validateCalendarRevision_def validateTriggerDate_def)
qed

lemma calculated_calculable:
  assumes "status (calculateDeadline lx sc raw) = CALCULATED"
  shows "\<exists>input r cal trigger. calculable lx sc raw input r cal trigger"
proof (cases rule: calculateDeadline_cases[of lx sc raw])
  case (blocked reasons tz tr)
  then show ?thesis using assms by simp
next
  case (computed input r cal start)
  have "computable r \<or> durationUnit r = IMMEDIATE"
  proof (rule ccontr)
    assume "\<not> (computable r \<or> durationUnit r = IMMEDIATE)"
    then obtain tr where "computeDeadline lx input r cal start
        = blockedResult [''Month-end semantics are not approved''] (timezone cal) tr"
      using computeDeadline_uncomputable[OF computed(3), of lx input cal start] by blast
    then show False using assms computed(7) by simp
  qed
  then have "calculable lx sc raw input r cal start"
    using computed(1-6) by (simp add: calculable_def executable_reasons trigger_valid)
  then show ?thesis by blast
qed

lemma blocked_is_empty:
  "status (calculateDeadline lx sc raw) = BLOCKED \<Longrightarrow>
     contractualDeadlineAt (calculateDeadline lx sc raw) = None
     \<and> internalMilestones (calculateDeadline lx sc raw) = []"
proof (cases rule: calculateDeadline_cases[of lx sc raw])
  case (computed input r cal start)
  assume blocked: "status (calculateDeadline lx sc raw) = BLOCKED"
  have "\<not> computable r" "durationUnit r \<noteq> IMMEDIATE"
    using blocked computed(7) computeDeadline_immediate[of r lx input cal start]
      computeDeadline_spec[of r lx input cal start] by auto
  then obtain tr where "computeDeadline lx input r cal start
      = blockedResult [''Month-end semantics are not approved''] (timezone cal) tr"
    using computeDeadline_uncomputable[OF computed(3), of lx input cal start] by blast
  then show ?thesis using computed(7) by simp
qed simp

text \<open>C3: A deadline is calculated exactly when the input is calculable: it, the rule and the calendar
  have their form, the calendar's zone is known, the trigger's text is a date in it, and the rule is
  executable, that is human-approved, without ambiguity notes, of a certain time-bar class, with
  approved recipients, a counting convention, and either immediate or with a non-negative duration in
  days, business days, weeks, or months with the approved roll behaviour.  Then an immediate deadline
  is the trigger itself, without milestones; any other is the final day of the rule's arithmetic from
  that trigger, at the end the rule says, with the milestones of that day.  Every other calculation is
  blocked, without a deadline and without milestones.\<close>

theorem calculated_only_when_executable:
  "(status (calculateDeadline lx sc raw) = CALCULATED
      \<longleftrightarrow> (\<exists>input r cal trigger. calculable lx sc raw input r cal trigger))
   \<and> (\<forall>input r cal trigger. calculable lx sc raw input r cal trigger \<longrightarrow>
        (if durationUnit r = IMMEDIATE
         then contractualDeadlineAt (calculateDeadline lx sc raw) = lx_toISO lx trigger
           \<and> internalMilestones (calculateDeadline lx sc raw) = []
         else (\<exists>v d. durationValue r = Some v \<and> finalDay lx r cal v trigger d
           \<and> contractualDeadlineAt (calculateDeadline lx sc raw) = lx_toISO lx (endOfDay lx r d)
           \<and> internalMilestones (calculateDeadline lx sc raw)
               = milestonesOf lx trigger (endOfDay lx r d) (internalWarningOffsetsDays input))))
   \<and> (status (calculateDeadline lx sc raw) = BLOCKED \<longrightarrow>
        contractualDeadlineAt (calculateDeadline lx sc raw) = None
        \<and> internalMilestones (calculateDeadline lx sc raw) = [])"
proof -
  have ran: "status (calculateDeadline lx sc raw) = CALCULATED
      \<and> (if durationUnit r = IMMEDIATE
         then contractualDeadlineAt (calculateDeadline lx sc raw) = lx_toISO lx trigger
           \<and> internalMilestones (calculateDeadline lx sc raw) = []
         else (\<exists>v d. durationValue r = Some v \<and> finalDay lx r cal v trigger d
           \<and> contractualDeadlineAt (calculateDeadline lx sc raw) = lx_toISO lx (endOfDay lx r d)
           \<and> internalMilestones (calculateDeadline lx sc raw)
               = milestonesOf lx trigger (endOfDay lx r d) (internalWarningOffsetsDays input)))"
    if c: "calculable lx sc raw input r cal trigger" for input r cal trigger
  proof (cases "durationUnit r = IMMEDIATE")
    case True
    then show ?thesis using computeDeadline_immediate[OF True, of lx input cal trigger] calculable_runs[OF c] by simp
  next
    case False
    then have rule: "computable r" "executable r" using c by (auto simp: calculable_def executable_reasons)
    then obtain v where v: "durationValue r = Some v" using False by (auto simp: executable_def)
    obtain d where "finalDay lx r cal v trigger d" "deadlineDay lx r cal trigger = endOfDay lx r d"
      using deadline_final[OF rule(1) v, of lx cal trigger] by blast
    then show ?thesis
      using computeDeadline_spec[OF rule(1), of lx input cal trigger] calculable_runs[OF c] v False by auto
  qed
  have "status (calculateDeadline lx sc raw) = CALCULATED
      \<longleftrightarrow> (\<exists>input r cal trigger. calculable lx sc raw input r cal trigger)"
    using calculated_calculable[of lx sc raw] ran[THEN conjunct1] by (intro iffI) auto
  then show ?thesis using ran[THEN conjunct2] blocked_is_empty[of lx sc raw]
    by (intro conjI allI impI) (assumption | simp)+
qed

lemma demo_calculated:
  "status (calculateDeadline dayLuxon demoSchemas demoInput) = CALCULATED"
proof -
  have reasons: "ruleReasons demoRule = []"
    by (simp add: ruleReasons_Nil demoRule_def)
  have checks: "validateExecutableRule (sc_rule demoSchemas) (rule demoInput) = (True, [], Some demoRule)"
    "validateCalendarRevision dayLuxon (sc_calendar demoSchemas) (calendar demoInput) = Inr utcCalendar"
    "validateTriggerDate dayLuxon (triggerDateIso demoInput) (triggerPrecision demoInput)
       (timezone (calendar demoInput)) = Inr 3"
    using reasons by (simp_all add: validateExecutableRule_def validateCalendarRevision_def
        validateTriggerDate_def demoSchemas_def demoInput_def dayLuxon_def utcCalendar_def)
  have "computable demoRule" by (simp add: computable_def demoRule_def)
  then show ?thesis
    using checks computeDeadline_spec[of demoRule dayLuxon demoInput utcCalendar 3]
    by (simp add: calculateDeadline_def demoSchemas_def)
qed

lemma calculated_only_when_executable_witness:
  "contractualDeadlineAt (calculateDeadline dayLuxon demoSchemas demoInput) \<noteq> None
   \<and> (\<exists>d. finalDay dayLuxon demoRule utcCalendar 5 3 d
        \<and> contractualDeadlineAt (calculateDeadline dayLuxon demoSchemas demoInput) = dayText d)"
proof -
  have c: "calculable dayLuxon demoSchemas demoInput demoInput demoRule utcCalendar 3"
    by (simp add: calculable_def executable_def demoSchemas_def demoInput_def demoRule_def dayLuxon_def utcCalendar_def)
  have rule: "durationUnit demoRule = CALENDAR_DAY" "durationValue demoRule = Some 5"
      "endOfDay dayLuxon demoRule d = d" "lx_toISO dayLuxon = dayText" for d
    by (simp_all add: demoRule_def endOfDay_def dayLuxon_def)
  obtain v d where d: "durationValue demoRule = Some v" "finalDay dayLuxon demoRule utcCalendar v 3 d"
      "contractualDeadlineAt (calculateDeadline dayLuxon demoSchemas demoInput) = dayText d"
    using calculated_only_when_executable[THEN conjunct2, THEN conjunct1, rule_format, OF c] rule by auto
  have "deadlineDay dayLuxon demoRule utcCalendar 3 = 8"
  proof -
    have "adjustNonWorking dayLuxon utcCalendar FORWARD 8 = 8" by (simp add: adjustNonWorking_def numeral_eq_Suc)
    then show ?thesis by (simp add: deadlineDay_def daysToAdd_def rawDays_def demoRule_def dayLuxon_def)
  qed
  then have "contractualDeadlineAt (calculateDeadline dayLuxon demoSchemas demoInput) = dayText 8"
    using computeDeadline_spec[of demoRule dayLuxon demoInput utcCalendar 3] calculable_runs[OF c]
    by (simp add: computable_def rule)
  moreover have "v = 5" using d(1) rule(2) by simp
  ultimately show ?thesis using d(2,3) by (intro conjI exI[of _ d]) (simp_all add: dayText_def)
qed

section \<open>The trace\<close>

definition numbered :: "trace_step list \<Rightarrow> bool" where
  "numbered tr \<longleftrightarrow> map sequence tr = [1..<Suc (length tr)] \<and> tr \<noteq> []"

lemma numbered_push [simp]: "numbered tr \<Longrightarrow> numbered (pushStep oper inp out text a w tr)"
  by (simp add: numbered_def pushStep_def)

lemma numbered_milestones:
  "numbered tr \<Longrightarrow> numbered (snd (addMilestones lx trigger deadline offsets ms tr))"
  by (induction offsets arbitrary: ms tr) (auto simp: Let_def split: option.splits)

lemma numbered_adjust: "numbered tr \<Longrightarrow> numbered (snd (adjustDay lx r cal c tr))"
  by (simp add: adjustDay_def Let_def)

lemma numbered_end: "numbered tr \<Longrightarrow> numbered (snd (applyEndDay lx r c tr))"
  by (simp add: applyEndDay_def Let_def)

lemma numbered_add:
  assumes "numbered tr"
  shows "case addDuration lx r cal c tr of Inl res \<Rightarrow> numbered (trace res) | Inr (_, tr') \<Rightarrow> numbered tr'"
  using assms by (simp add: addDuration_def Let_def blockedResult_def)

lemma numbered_compute: "numbered (trace (computeDeadline lx input r cal start))"
proof -
  have start: "numbered (startTrace lx input cal start)" by (simp add: startTrace_def numbered_def pushStep_def)
  show ?thesis
    using numbered_add[of "pushStep APPLY_START_DAY_RULE
       [(''convention'', TStart (startDateConvention r)), (''counting'', TCounting (counting r))]
       [] (''Applied '' @ start_name (startDateConvention r) @ '' with counting ''
             @ counting_name (counting r)) False False (startTrace lx input cal start)" lx r cal start]
    by (auto simp: computeDeadline_def Let_def start split: sum.splits prod.splits)
      (metis numbered_adjust numbered_end numbered_milestones snd_conv)
qed

text \<open>The steps of every trace, of a calculated and of a blocked result, are numbered 1, 2, 3 and
so on without gaps, and there is at least one.\<close>

lemma trace_numbered:
  "map sequence (trace (calculateDeadline lx sc raw))
     = [1..<Suc (length (trace (calculateDeadline lx sc raw)))]
   \<and> trace (calculateDeadline lx sc raw) \<noteq> []"
proof (cases rule: calculateDeadline_cases[of lx sc raw])
  case (blocked reasons tz tr)
  then show ?thesis by (cases tr) (auto simp: blockTrace_def)
next
  case (computed input r cal start)
  have "numbered (trace (computeDeadline lx input r cal start))" by (rule numbered_compute)
  then show ?thesis using computed(7) by (simp add: numbered_def)
qed

section \<open>Milestones and conventions\<close>

text \<open>The internal milestones are exactly the warning offsets that fall after the trigger: a
milestone is so many days before the deadline, its instant is strictly later than the trigger and
has a text form, and every such offset has one.\<close>

lemma milestones_after_trigger:
  "m \<in> set (fst (addMilestones lx trigger deadline offsets [] tr)) \<longleftrightarrow>
     ms_offsetDaysBeforeDeadline m \<in> set offsets
     \<and> ms_label m = lx_show lx (of_nat (ms_offsetDaysBeforeDeadline m)) @ '' days remaining (internal)''
     \<and> ms_dueAtIso m \<noteq> []
     \<and> lx_toISO lx (lx_minusDays lx deadline (of_nat (ms_offsetDaysBeforeDeadline m))) = Some (ms_dueAtIso m)
     \<and> lx_ms lx trigger < lx_ms lx (lx_minusDays lx deadline (of_nat (ms_offsetDaysBeforeDeadline m)))"
proof -
  let ?at = "\<lambda>n. lx_minusDays lx deadline (of_nat n)"
  let ?one = "\<lambda>n. case lx_toISO lx (?at n) of None \<Rightarrow> []
       | Some due \<Rightarrow> whenl (due \<noteq> [] \<and> lx_ms lx trigger < lx_ms lx (?at n))
           \<lparr>ms_label = lx_show lx (of_nat n) @ '' days remaining (internal)'',
            ms_dueAtIso = due, ms_offsetDaysBeforeDeadline = n\<rparr>"
  have one: "m \<in> set (?one n) \<longleftrightarrow> ms_offsetDaysBeforeDeadline m = n
      \<and> ms_label m = lx_show lx (of_nat n) @ '' days remaining (internal)'' \<and> ms_dueAtIso m \<noteq> []
      \<and> lx_toISO lx (?at n) = Some (ms_dueAtIso m) \<and> lx_ms lx trigger < lx_ms lx (?at n)" for n
    by (cases m; cases "lx_toISO lx (?at n)") auto
  have "m \<in> set (fst (addMilestones lx trigger deadline offsets [] tr))
      \<longleftrightarrow> (\<exists>n\<in>set offsets. m \<in> set (?one n))"
    unfolding addMilestones_fst milestonesOf_def by simp
  then show ?thesis unfolding one by blast
qed

text \<open>The conventions count once and only in days: including the trigger day and counting
inclusively together still take off a single day, while in weeks and months neither convention
changes the deadline.\<close>

lemma conventions_only_in_days:
  "daysToAdd r = rawDays r - (if 1 \<le> rawDays r
        \<and> (startDateConvention r = INCLUDE_TRIGGER_DAY \<or> counting r = INCLUSIVE) then 1 else 0)
   \<and> (durationUnit r = WEEK \<or> (durationUnit r = MONTH \<and> monthRollBehavior r = SAME_DAY_OR_LAST) \<longrightarrow>
        contractualDeadlineAt (computeDeadline lx input (r\<lparr>startDateConvention := c, counting := k\<rparr>) cal start)
          = contractualDeadlineAt (computeDeadline lx input r cal start))"
proof -
  have "contractualDeadlineAt (computeDeadline lx input (r\<lparr>startDateConvention := c, counting := k\<rparr>) cal start)
          = contractualDeadlineAt (computeDeadline lx input r cal start)"
    if "durationUnit r = WEEK \<or> (durationUnit r = MONTH \<and> monthRollBehavior r = SAME_DAY_OR_LAST)"
  proof -
    have "computable r" "computable (r\<lparr>startDateConvention := c, counting := k\<rparr>)"
      using that by (auto simp: computable_def)
    moreover have "deadlineDay lx (r\<lparr>startDateConvention := c, counting := k\<rparr>) cal start
        = deadlineDay lx r cal start"
      using that by (auto simp: deadlineDay_def rawDays_def)
    ultimately show ?thesis by (simp add: computeDeadline_spec)
  qed
  moreover have "daysToAdd r = rawDays r - (if 1 \<le> rawDays r
        \<and> (startDateConvention r = INCLUDE_TRIGGER_DAY \<or> counting r = INCLUSIVE) then 1 else 0)"
    by (cases "startDateConvention r"; cases "counting r") (simp_all add: daysToAdd_def)
  ultimately show ?thesis by blast
qed

lemma conventions_only_in_days_witness:
  "contractualDeadlineAt (computeDeadline dayLuxon demoInput
       (demoRule\<lparr>durationUnit := WEEK, startDateConvention := INCLUDE_TRIGGER_DAY, counting := INCLUSIVE\<rparr>)
       utcCalendar 3)
     = contractualDeadlineAt (computeDeadline dayLuxon demoInput (demoRule\<lparr>durationUnit := WEEK\<rparr>)
         utcCalendar 3)"
  using conventions_only_in_days[of "demoRule\<lparr>durationUnit := WEEK\<rparr>" dayLuxon demoInput
      INCLUSIVE INCLUDE_TRIGGER_DAY utcCalendar 3] by simp

end
