(* ===== verification/DeadlineTracking.thy ===== *)
theory DeadlineTracking
  imports DeadlineService DeadlineProperties
begin

text \<open>
  What the deadline service keeps.  \<open>table_step\<close> is the abstract machine of its tables:
  each request is one of its steps (the \<open>_refines\<close> lemmas), and so is a change another
  service makes to the configurations.  The invariants hold along the machine: every stored
  calculation can be repeated from the rows it cites, a verified one was verified by someone other
  than who asked for it, a calendar has one approved revision, a calculation one live deadline.
\<close>

section \<open>Effects\<close>

lemma loadProjectEvent_Inr [ok_iff]:
  "loadProjectEvent T pid eid s = (Inr e, t) \<longleftrightarrow> t = s
     \<and> find (\<lambda>e. ve_id e = eid \<and> ve_tenantId e = T \<and> ve_projectId e = pid) (dd_events (ap_db s)) = Some e"
  by (auto simp: loadProjectEvent_def ok_iff)

lemma parseDateValue_Inr [ok_iff]:
  "parseDateValue env v s = (Inr x, t) \<longleftrightarrow> t = s \<and> en_parseDate env v = Some x"
  by (auto simp: parseDateValue_def ok_iff)

lemma dateColumn_Inr [ok_iff]:
  "dateColumn env x s = (Inr y, t) \<longleftrightarrow> t = s
     \<and> y = (if truthy x then en_parseDate env (the x) else None) \<and> (truthy x \<longrightarrow> y \<noteq> None)"
  by (auto simp: dateColumn_def split: option.splits)

lemma snapshotStructuredRule_Inr [ok_iff]:
  "snapshotStructuredRule env j s = (Inr x, t) \<longleftrightarrow> t = s \<and> x = j
     \<and> (\<exists>ks. en_keysOf env j = Some ks \<and> ''durationUnit'' \<in> set ks \<and> ''counting'' \<in> set ks)"
  by (auto simp: snapshotStructuredRule_def split: option.splits)

lemma updateRevision_Inr [ok_iff]:
  "updateRevision i f s = (Inr x, t) \<longleftrightarrow> t = s\<lparr>ap_db := (ap_db s)\<lparr>dd_revisions :=
     updateWhere (\<lambda>r. pr_id r = i) f (dd_revisions (ap_db s))\<rparr>\<rparr>"
  by (auto simp: updateRevision_def)

lemma updateCalculation_Inr [ok_iff]:
  "updateCalculation i f s = (Inr x, t) \<longleftrightarrow> t = s\<lparr>ap_db := (ap_db s)\<lparr>dd_calculations :=
     updateWhere (\<lambda>c. dc_id c = i) f (dd_calculations (ap_db s))\<rparr>\<rparr>"
  by (auto simp: updateCalculation_def)

lemma supersedeCurrent_Inr [ok_iff]:
  "(if b then updateRevision i f else returnH ()) s = (Inr x, t) \<longleftrightarrow> t = s\<lparr>ap_db := (ap_db s)\<lparr>dd_revisions :=
     (if b then updateWhere (\<lambda>r. pr_id r = i) f (dd_revisions (ap_db s)) else dd_revisions (ap_db s))\<rparr>\<rparr>"
  by (cases b) (auto simp: ok_iff)

lemma engineResult_now [simp]: "engineResult (env\<lparr>en_now := n\<rparr>) = engineResult env"
  by (intro ext) (simp add: engineResult_def engineInput_def)

section \<open>The abstract machine of the tables\<close>

definition coreTables :: "'j deadlines_db \<Rightarrow> 'j rule_snapshot list \<times> event_date list
    \<times> assessment_row list \<times> calendar_row list \<times> revision_row list \<times> calculation_row list
    \<times> deadline_row list" where
  "coreTables d = (dd_snapshots d, dd_dates d, dd_assessments d, dd_calendars d, dd_revisions d,
     dd_calculations d, dd_deadlines d)"

text \<open>The time a column gets for the text of the engine's deadline.\<close>

definition deadlineTime :: "('dt, 'j) deadlines_env \<Rightarrow> calculate_result \<Rightarrow> int option" where
  "deadlineTime env res = (if truthy (contractualDeadlineAt res)
     then en_parseDate env (the (contractualDeadlineAt res)) else None)"

text \<open>What a new calculation rests on: the rows it cites are there and the engine answered.\<close>

definition citedRows ::
  "'j deadlines_db \<Rightarrow> calculation_row \<Rightarrow> 'j rule_snapshot \<Rightarrow> event_date \<Rightarrow> revision_row \<Rightarrow>
   assessment_row \<Rightarrow> bool" where
  "citedRows d c x tr r a \<longleftrightarrow> x \<in> set (dd_snapshots d) \<and> tr \<in> set (dd_dates d)
     \<and> r \<in> set (dd_revisions d) \<and> a \<in> set (dd_assessments d)
     \<and> nr_id x = dc_snapshotId c \<and> dc_triggerDateId c = Some (vd_id tr)
     \<and> pr_id r = dc_calendarRevisionId c \<and> va_id a = dc_assessmentId c
     \<and> va_snapshotId a = nr_id x \<and> va_applicabilityStatus a = AP_APPLICABLE
     \<and> va_assessmentSource a = AS_HUMAN_CONFIRMED \<and> vd_verificationStatus tr = DV_VERIFIED
     \<and> isExact (vd_precision tr) \<and> (pr_status r = CR_APPROVED \<or> pr_status r = CR_SUPERSEDED)"

definition engineAnswer ::
  "('dt, 'j) deadlines_env \<Rightarrow> calculation_row \<Rightarrow> 'j rule_snapshot \<Rightarrow> event_date \<Rightarrow> revision_row \<Rightarrow>
   bool" where
  "engineAnswer env c x tr r \<longleftrightarrow>
     (let res = engineResult env (nr_structuredRule x) tr r in
      dc_trace c = trace res \<and> dc_calculatedDeadlineAt c = deadlineTime env res
      \<and> dc_calculatedDeadlineDate c = contractualDeadlineDate res
      \<and> dc_deadlineTimezone c = deadlineTimezone res \<and> dc_triggerDateValue c = vd_dateValue tr
      \<and> dc_terms c = nr_terms x \<and> (dc_status c = DC_BLOCKED \<longleftrightarrow> status res = BLOCKED))"

definition reproducible :: "('dt, 'j) deadlines_env \<Rightarrow> 'j deadlines_db \<Rightarrow> calculation_row \<Rightarrow> bool" where
  "reproducible env d c \<longleftrightarrow> (\<exists>x tr r a. citedRows d c x tr r a \<and> engineAnswer env c x tr r)"

definition approveIn ::
  "revision_row \<Rightarrow> calendar_row \<Rightarrow> (revision_row \<Rightarrow> revision_row) \<Rightarrow> revision_row list \<Rightarrow>
   revision_row list" where
  "approveIn r c f rs = updateWhere (\<lambda>x. pr_id x = pr_id r) f
     (if truthy (pc_currentRevisionId c)
      then updateWhere (\<lambda>x. pr_id x = the (pc_currentRevisionId c)) (\<lambda>x. x\<lparr>pr_status := CR_SUPERSEDED\<rparr>) rs
      else rs)"

definition supersedeAll ::
  "(string \<Rightarrow> deadline_row \<Rightarrow> deadline_row) \<Rightarrow> (string \<times> deadline_row) list \<Rightarrow> deadline_row list \<Rightarrow>
   deadline_row list" where
  "supersedeAll new ps ds = fold (\<lambda>(i, old) ds. updateWhere (\<lambda>x. pd_id x = pd_id old)
     (\<lambda>x. x\<lparr>pd_status := DS_SUPERSEDED, pd_supersededById := Some i\<rparr>) (ds @ [new i old])) ps ds"

inductive table_step :: "('dt, 'j) deadlines_env \<Rightarrow> 'j deadlines_db \<Rightarrow> 'j deadlines_db \<Rightarrow> bool"
  for env d where
  idle: "coreTables e = coreTables d \<Longrightarrow> table_step env d e"
| snapshots: "coreTables e = (dd_snapshots d @ xs, dd_dates d, dd_assessments d, dd_calendars d,
      dd_revisions d, dd_calculations d, dd_deadlines d) \<Longrightarrow> table_step env d e"
| date: "vd_verificationStatus x = DV_UNVERIFIED \<Longrightarrow>
    coreTables e = (dd_snapshots d, dd_dates d @ [x], dd_assessments d, dd_calendars d,
      dd_revisions d, dd_calculations d, dd_deadlines d) \<Longrightarrow> table_step env d e"
| verify_date: "coreTables e = (dd_snapshots d, updateWhere (\<lambda>x. vd_id x = i)
      (verifiedDate (env\<lparr>en_now := n\<rparr>) ctx) (dd_dates d), dd_assessments d, dd_calendars d,
      dd_revisions d, dd_calculations d, dd_deadlines d) \<Longrightarrow> table_step env d e"
| assess: "coreTables e = (dd_snapshots d, dd_dates d, dd_assessments d @ [a], dd_calendars d,
      dd_revisions d, dd_calculations d, dd_deadlines d) \<Longrightarrow> table_step env d e"
| calendar: "pc_id c \<notin> pc_id ` set (dd_calendars d) \<Longrightarrow> pc_currentRevisionId c = None \<Longrightarrow>
    coreTables e = (dd_snapshots d, dd_dates d, dd_assessments d, dd_calendars d @ [c],
      dd_revisions d, dd_calculations d, dd_deadlines d) \<Longrightarrow> table_step env d e"
| revision: "pr_id r \<notin> pr_id ` set (dd_revisions d) \<Longrightarrow> pr_id r \<noteq> [] \<Longrightarrow> pr_status r = CR_DRAFT \<Longrightarrow>
    coreTables e = (dd_snapshots d, dd_dates d, dd_assessments d, dd_calendars d,
      dd_revisions d @ [r], dd_calculations d, dd_deadlines d) \<Longrightarrow> table_step env d e"
| approve: "c \<in> set (dd_calendars d) \<Longrightarrow> r \<in> set (dd_revisions d) \<Longrightarrow> pr_calendarId r = pc_id c \<Longrightarrow>
    pr_status r = CR_DRAFT \<or> pr_status r = CR_IN_REVIEW \<Longrightarrow>
    coreTables e = (dd_snapshots d, dd_dates d, dd_assessments d,
      updateWhere (\<lambda>x. pc_id x = pc_id c) (\<lambda>x. x\<lparr>pc_status := CA_APPROVED,
        pc_currentRevisionId := Some (pr_id r), pc_approvedByUserId := Some u,
        pc_weekendDays := pr_weekendDays r\<rparr>) (dd_calendars d),
      approveIn r c (approvedRevision (env\<lparr>en_now := n\<rparr>) ctx) (dd_revisions d), dd_calculations d,
      dd_deadlines d) \<Longrightarrow> table_step env d e"
| calculate: "dc_id c \<notin> dc_id ` set (dd_calculations d) \<Longrightarrow> reproducible env d c \<Longrightarrow>
    dc_status c = DC_BLOCKED \<or> dc_status c = DC_REVIEW_REQUIRED \<Longrightarrow>
    coreTables e = (dd_snapshots d, dd_dates d, dd_assessments d, dd_calendars d, dd_revisions d,
      dd_calculations d @ [c], dd_deadlines d) \<Longrightarrow> table_step env d e"
| verify: "c \<in> set (dd_calculations d) \<Longrightarrow> dc_status c = DC_REVIEW_REQUIRED \<or> dc_status c = DC_CALCULATED \<Longrightarrow>
    deadlineCalcSegregationEnabled env \<longrightarrow> userId ctx \<noteq> dc_calculatedByUserId c \<Longrightarrow>
    coreTables e = (dd_snapshots d, dd_dates d, dd_assessments d, dd_calendars d, dd_revisions d,
      updateWhere (\<lambda>x. dc_id x = dc_id c) (verifiedCalculation (env\<lparr>en_now := n\<rparr>) ctx) (dd_calculations d),
      dd_deadlines d) \<Longrightarrow> table_step env d e"
| track: "c \<in> set (dd_calculations d) \<Longrightarrow> dc_status c = DC_VERIFIED \<Longrightarrow>
    liveDeadlines (dc_id c) d = [] \<Longrightarrow> pd_calculationId x = dc_id c \<Longrightarrow>
    pd_id x \<notin> pd_id ` set (dd_deadlines d) \<Longrightarrow>
    coreTables e = (dd_snapshots d, dd_dates d, dd_assessments d, dd_calendars d, dd_revisions d,
      dd_calculations d, dd_deadlines d @ [x]) \<Longrightarrow> table_step env d e"
| recalculate: "prior \<in> set (dd_calculations d) \<Longrightarrow>
    dc_status prior = DC_VERIFIED \<or> dc_status prior = DC_REVIEW_REQUIRED \<Longrightarrow>
    dc_id c \<notin> dc_id ` set (dd_calculations d) \<Longrightarrow> reproducible env d c \<Longrightarrow>
    dc_status c = DC_BLOCKED \<or> dc_status c = DC_REVIEW_REQUIRED \<Longrightarrow>
    inj ids \<Longrightarrow> range ids \<inter> pd_id ` set (dd_deadlines d) = {} \<Longrightarrow>
    coreTables e = (dd_snapshots d, dd_dates d, dd_assessments d, dd_calendars d, dd_revisions d,
      updateWhere (\<lambda>x. dc_id x = dc_id prior) (\<lambda>x. x\<lparr>dc_status := DC_SUPERSEDED\<rparr>)
        (dd_calculations d @ [c]),
      supersedeAll (\<lambda>i old. supersedingDeadline ctx pid i prior c old)
        (zip (map ids [0..<length (liveDeadlines (dc_id prior) d)]) (liveDeadlines (dc_id prior) d))
        (dd_deadlines d)) \<Longrightarrow> table_step env d e"

inductive_cases table_stepE: "table_step env d e"

lemma idle_tables: "ap_db t = ap_db s \<Longrightarrow> table_step env (ap_db s) (ap_db t)"
  by (rule table_step.idle) simp

section \<open>Each request is a step\<close>

lemma createEvent_refines:
  assumes "createProjectEvent sp newId pid raw s = (r, t)"
  shows "table_step env (ap_db s) (ap_db t)"
  using assms unfolding createProjectEvent_def
proof (cases rule: projectService_cases)
  case (ran ctx data x)
  then show ?thesis
    by (intro table_step.idle) (auto simp: ok_iff coreTables_def Let_def split: if_splits)
qed (rule idle_tables)

lemma addDate_refines:
  assumes "addProjectEventDate (env\<lparr>en_now := n\<rparr>) sp newId pid eid raw s = (r, t)"
  shows "table_step env (ap_db s) (ap_db t)"
  using assms unfolding addProjectEventDate_def
proof (cases rule: projectService_cases)
  case (ran ctx data x)
  then show ?thesis
    by (intro table_step.date[of x]) (auto simp: ok_iff coreTables_def Let_def newEventDate_def)
qed (rule idle_tables)

lemma verifyDate_refines:
  assumes "verifyProjectEventDate (env\<lparr>en_now := n\<rparr>) pid eid i s = (r, t)"
  shows "table_step env (ap_db s) (ap_db t)"
  using assms unfolding verifyProjectEventDate_def
proof (cases rule: projectAction_cases)
  case (ran ctx x)
  then have "\<exists>dt. findDate (cx_tenantId ctx) pid eid i (ap_db s) = Some dt \<and> coreTables (ap_db t) = (dd_snapshots (ap_db s), updateWhere (\<lambda>x. vd_id x = vd_id dt)
      (verifiedDate (env\<lparr>en_now := n\<rparr>) ctx) (dd_dates (ap_db s)), dd_assessments (ap_db s), dd_calendars (ap_db s),
      dd_revisions (ap_db s), dd_calculations (ap_db s), dd_deadlines (ap_db s))"
    by (auto simp: ok_iff coreTables_def)
  then show ?thesis by (blast intro: table_step.verify_date)
qed (rule idle_tables)

lemma linkEvidence_refines:
  assumes "linkProjectEventEvidence sp newId pid eid raw s = (r, t)"
  shows "table_step env (ap_db s) (ap_db t)"
  using assms unfolding linkProjectEventEvidence_def
proof (cases rule: projectService_cases)
  case (ran ctx data x)
  then show ?thesis
    by (intro table_step.idle) (auto simp: ok_iff coreTables_def Let_def split: if_splits)
qed (rule idle_tables)

lemma confirmEvent_refines:
  assumes "confirmProjectEvent (env\<lparr>en_now := n\<rparr>) sp pid eid raw s = (r, t)"
  shows "table_step env (ap_db s) (ap_db t)"
  using assms unfolding confirmProjectEvent_def
proof (cases rule: projectService_cases)
  case (ran ctx data x)
  then show ?thesis by (intro table_step.idle) (auto simp: ok_iff coreTables_def)
qed (rule idle_tables)

lemma confirmRule_refines:
  assumes "confirmRuleApplicability (env\<lparr>en_now := n\<rparr>) sp newId pid eid raw s = (r, t)"
  shows "table_step env (ap_db s) (ap_db t)"
  using assms unfolding confirmRuleApplicability_def
proof (cases rule: projectService_cases)
  case (ran ctx data x)
  then show ?thesis
    by (intro table_step.assess[of _ _ x]) (auto simp: ok_iff coreTables_def Let_def)
qed (rule idle_tables)

lemma createCalendar_refines:
  assumes "createProjectCalendar sp newId pid raw s = (r, t)"
    and "newId \<notin> pc_id ` set (dd_calendars (ap_db s))"
  shows "table_step env (ap_db s) (ap_db t)"
  using assms(1) unfolding createProjectCalendar_def
proof (cases rule: projectService_cases)
  case (ran ctx data x)
  then show ?thesis
    using assms(2) by (intro table_step.calendar[of x]) (auto simp: ok_iff coreTables_def Let_def)
qed (rule idle_tables)

lemma createRevision_refines:
  assumes "createCalendarRevision (env\<lparr>en_now := n\<rparr>) sp newId pid cid raw s = (r, t)"
    and "newId \<notin> pr_id ` set (dd_revisions (ap_db s))" "newId \<noteq> []"
  shows "table_step env (ap_db s) (ap_db t)"
  using assms(1) unfolding createCalendarRevision_def
proof (cases rule: projectService_cases)
  case (ran ctx data x)
  then show ?thesis
    using assms(2,3) by (intro table_step.revision[of x]) (auto simp: ok_iff coreTables_def Let_def)
qed (rule idle_tables)

lemma calendar_rows:
  "findCalendar T pid i d = Some c \<Longrightarrow> c \<in> set (dd_calendars d) \<and> pc_id c = i"
  by (auto simp: findCalendar_def dest!: find_SomeD)

lemma approveRevision_refines:
  assumes "approveCalendarRevision (env\<lparr>en_now := n\<rparr>) pid cid rid s = (res, t)"
  shows "table_step env (ap_db s) (ap_db t)"
  using assms unfolding approveCalendarRevision_def
proof (cases rule: projectAction_cases)
  case (ran ctx x)
  then obtain r c where f: "find (\<lambda>r. pr_id r = rid \<and> pr_calendarId r = cid
      \<and> pr_tenantId r = cx_tenantId ctx \<and> pr_projectId r = pid) (dd_revisions (ap_db s)) = Some r"
    "findCalendar (cx_tenantId ctx) pid cid (ap_db s) = Some c"
    "pr_status r = CR_DRAFT \<or> pr_status r = CR_IN_REVIEW"
    and e: "coreTables (ap_db t) = (dd_snapshots (ap_db s), dd_dates (ap_db s),
      dd_assessments (ap_db s), updateWhere (\<lambda>x. pc_id x = cid) (\<lambda>x. x\<lparr>pc_status := CA_APPROVED,
        pc_currentRevisionId := Some (pr_id r), pc_approvedByUserId := Some (userId ctx),
        pc_weekendDays := pr_weekendDays r\<rparr>) (dd_calendars (ap_db s)),
      approveIn r c (approvedRevision (env\<lparr>en_now := n\<rparr>) ctx) (dd_revisions (ap_db s)),
      dd_calculations (ap_db s), dd_deadlines (ap_db s))"
    by (auto simp: ok_iff coreTables_def approveIn_def)
  show ?thesis
    using find_SomeD[OF f(1)] calendar_rows[OF f(2)] f(3) e
    by (intro table_step.approve[of c _ r]) auto
qed (rule idle_tables)

text \<open>The internal calculation: its row, and what of the tables it wrote.\<close>

lemma forM_reads:
  assumes "\<And>x s y t. f x s = (Inr y, t) \<Longrightarrow> t = s"
  shows "forM xs f s = (Inr ys, t) \<Longrightarrow> t = s"
  by (induction xs arbitrary: s ys) (auto simp: ok_iff dest!: assms)

lemma internalMilestone_reads:
  "internalMilestone env ctx pid cid rowIds res p s = (Inr m, t) \<Longrightarrow> t = s"
  by (cases p) (auto simp: internalMilestone_def ok_iff split: if_splits)

lemma storeMilestones_core:
  assumes "storeMilestones env ctx pid cid rowIds res due s = (Inr x, t)"
  shows "\<exists>ms. ap_db t = (ap_db s)\<lparr>dd_milestones := ms\<rparr>"
proof (cases "due = None \<or> status res \<noteq> CALCULATED")
  case True
  then have "t = s" using assms by (auto simp: storeMilestones_def split: option.splits)
  then show ?thesis by (intro exI[of _ "dd_milestones (ap_db s)"]) simp
next
  case False
  then obtain d u ms where "due = Some d" and "forM (zip [0..<length (internalMilestones res)] (internalMilestones res))
      (internalMilestone env ctx pid cid rowIds res) s = (Inr ms, u)"
    and t: "t = u\<lparr>ap_db := (ap_db u)\<lparr>dd_milestones := dd_milestones (ap_db u)
      @ contractualMilestone ctx pid cid (rowIds 0) res d # ms\<rparr>\<rparr>"
    using assms by (auto simp: storeMilestones_def ok_iff)
  then have "u = s" by (blast intro: forM_reads internalMilestone_reads)
  then show ?thesis using t by auto
qed

lemma dateColumn_deadline:
  "dateColumn (env\<lparr>en_now := n\<rparr>) (contractualDeadlineAt res) s = (Inr y, t) \<longleftrightarrow>
     t = s \<and> y = deadlineTime env res \<and> (truthy (contractualDeadlineAt res) \<longrightarrow> y \<noteq> None)"
  by (auto simp: dateColumn_Inr deadlineTime_def)

lemma internal_ok:
  assumes "calculateEventDeadlineInternal (env\<lparr>en_now := n\<rparr>) ctx newId rowIds pid eid inp supersedes why s = (Inr c, t)"
  shows "dc_id c = newId \<and> reproducible env (ap_db s) c \<and> (dc_status c = DC_BLOCKED \<or> dc_status c = DC_REVIEW_REQUIRED)
    \<and> (\<exists>ms. ap_db t = (ap_db s)\<lparr>dd_calculations := dd_calculations (ap_db s) @ [c], dd_milestones := ms\<rparr>)"
proof -
  let ?res = "\<lambda>x tr r. engineResult env (nr_structuredRule x) tr r"
  have "\<exists>a x tr r. findApplicable (cx_tenantId ctx) pid eid (cn_assessmentId inp) (ap_db s) = Some a
    \<and> snapshotOfAssessment a (ap_db s) = Some x
    \<and> findTrigger (cx_tenantId ctx) pid eid (cn_triggerDateId inp) (ap_db s) = Some tr
    \<and> findApprovedRevision (cx_tenantId ctx) pid (cn_calendarRevisionId inp) (ap_db s) = Some r
    \<and> c = newCalculation ctx pid eid newId a x tr r
        (nextNumber (calculationVersions eid (va_id a) (ap_db s))) (?res x tr r)
        (deadlineTime env (?res x tr r)) supersedes why
    \<and> storeMilestones (env\<lparr>en_now := n\<rparr>) ctx pid newId rowIds (?res x tr r) (deadlineTime env (?res x tr r))
        (s\<lparr>ap_db := (ap_db s)\<lparr>dd_calculations := dd_calculations (ap_db s) @ [c]\<rparr>\<rparr>) = (Inr (), t)"
    using assms unfolding calculateEventDeadlineInternal_def
    by (clarsimp simp add: ok_iff Let_def simp del: dateColumn_Inr simp add: dateColumn_deadline)
  then obtain a x tr r where f: "findApplicable (cx_tenantId ctx) pid eid (cn_assessmentId inp) (ap_db s) = Some a"
    "snapshotOfAssessment a (ap_db s) = Some x"
    "findTrigger (cx_tenantId ctx) pid eid (cn_triggerDateId inp) (ap_db s) = Some tr"
    "findApprovedRevision (cx_tenantId ctx) pid (cn_calendarRevisionId inp) (ap_db s) = Some r"
    and c: "c = newCalculation ctx pid eid newId a x tr r
        (nextNumber (calculationVersions eid (va_id a) (ap_db s))) (?res x tr r)
        (deadlineTime env (?res x tr r)) supersedes why"
    and st: "storeMilestones (env\<lparr>en_now := n\<rparr>) ctx pid newId rowIds (?res x tr r) (deadlineTime env (?res x tr r))
        (s\<lparr>ap_db := (ap_db s)\<lparr>dd_calculations := dd_calculations (ap_db s) @ [c]\<rparr>\<rparr>) = (Inr (), t)"
    by blast
  from storeMilestones_core[OF st]
  have t: "\<exists>ms. ap_db t = (ap_db s)\<lparr>dd_calculations := dd_calculations (ap_db s) @ [c], dd_milestones := ms\<rparr>"
    by simp
  have "citedRows (ap_db s) c x tr r a"
    using f by (auto simp: citedRows_def c newCalculation_def findApplicable_def snapshotOfAssessment_def
        findTrigger_def findApprovedRevision_def dest!: find_SomeD)
  moreover have "engineAnswer env c x tr r" by (simp add: engineAnswer_def c newCalculation_def Let_def)
  ultimately have "reproducible env (ap_db s) c" unfolding reproducible_def by blast
  moreover have "dc_id c = newId" "dc_status c = DC_BLOCKED \<or> dc_status c = DC_REVIEW_REQUIRED"
    by (simp_all add: c newCalculation_def)
  ultimately show ?thesis using t by blast
qed

lemma calculate_refines:
  assumes "calculateEventDeadline (env\<lparr>en_now := n\<rparr>) sp newId rowIds pid eid raw s = (r, t)"
    and "newId \<notin> dc_id ` set (dd_calculations (ap_db s))"
  shows "table_step env (ap_db s) (ap_db t)"
  using assms(1) unfolding calculateEventDeadline_def
proof (cases rule: projectService_cases)
  case (ran ctx data x)
  then obtain u where "calculateEventDeadlineInternal (env\<lparr>en_now := n\<rparr>) ctx newId rowIds pid eid data None None s
      = (Inr x, u)" and t: "ap_db t = ap_db u"
    by (auto simp: ok_iff)
  from internal_ok[OF this(1)] show ?thesis
    using assms(2) by (intro table_step.calculate[of x]) (auto simp: coreTables_def t)
qed (rule idle_tables)

lemma findCalculation_row:
  "findCalculation T pid i d = Some c \<Longrightarrow> c \<in> set (dd_calculations d) \<and> dc_id c = i"
  by (auto simp: findCalculation_def dest!: find_SomeD)

lemma verify_refines:
  assumes "verifyDeadlineCalculation (env\<lparr>en_now := n\<rparr>) pid i s = (r, t)"
  shows "table_step env (ap_db s) (ap_db t)"
  using assms unfolding verifyDeadlineCalculation_def
proof (cases rule: projectAction_cases)
  case (ran ctx x)
  then obtain c where f: "findCalculation (cx_tenantId ctx) pid i (ap_db s) = Some c"
    "dc_status c = DC_REVIEW_REQUIRED \<or> dc_status c = DC_CALCULATED"
    "\<not> (deadlineCalcSegregationEnabled env \<and> dc_calculatedByUserId c = userId ctx)"
    "coreTables (ap_db t) = (dd_snapshots (ap_db s), dd_dates (ap_db s), dd_assessments (ap_db s),
       dd_calendars (ap_db s), dd_revisions (ap_db s), updateWhere (\<lambda>x. dc_id x = dc_id c)
       (verifiedCalculation (env\<lparr>en_now := n\<rparr>) ctx) (dd_calculations (ap_db s)), dd_deadlines (ap_db s))"
    by (auto simp: ok_iff coreTables_def deadlineCalcSegregationEnabled_def)
  then show ?thesis
    using findCalculation_row[OF f(1)] by (intro table_step.verify[of c]) auto
qed (rule idle_tables)

lemma track_refines:
  assumes "createTrackedDeadline newId pid i s = (r, t)"
    and "newId \<notin> pd_id ` set (dd_deadlines (ap_db s))"
  shows "table_step env (ap_db s) (ap_db t)"
  using assms(1) unfolding createTrackedDeadline_def
proof (cases rule: projectAction_cases)
  case (ran ctx x)
  then obtain c where f: "findCalculation (cx_tenantId ctx) pid i (ap_db s) = Some c"
    "dc_status c = DC_VERIFIED" "liveDeadlines (dc_id c) (ap_db s) = []" "pd_calculationId x = dc_id c"
    "pd_id x = newId"
    "coreTables (ap_db t) = (dd_snapshots (ap_db s), dd_dates (ap_db s), dd_assessments (ap_db s),
       dd_calendars (ap_db s), dd_revisions (ap_db s), dd_calculations (ap_db s),
       dd_deadlines (ap_db s) @ [x])"
    by (auto simp: ok_iff coreTables_def Let_def trackedDeadline_def)
  then show ?thesis
    using findCalculation_row[OF f(1)] assms(2) by (intro table_step.track[of c _ x]) auto
qed (rule idle_tables)

lemma supersedeDeadlines_ok:
  "forM ps (supersedeDeadline ctx pid prior c why) s = (Inr us, t) \<Longrightarrow>
    \<exists>h. ap_db t = (ap_db s)\<lparr>dd_deadlines := supersedeAll (\<lambda>i old. supersedingDeadline ctx pid i prior c old)
      ps (dd_deadlines (ap_db s)), dd_history := h\<rparr>"
proof (induction ps arbitrary: s us)
  case Nil
  then show ?case by (auto simp: supersedeAll_def intro: exI[of _ "dd_history (ap_db s)"])
next
  case (Cons p ps)
  obtain i old where p: "p = (i, old)" by (cases p)
  from Cons.prems obtain u vs where u: "supersedeDeadline ctx pid prior c why p s = (Inr (), u)"
    and rest: "forM ps (supersedeDeadline ctx pid prior c why) u = (Inr vs, t)"
    by (auto simp: ok_iff)
  from u obtain h where "ap_db u = (ap_db s)\<lparr>dd_deadlines := updateWhere (\<lambda>x. pd_id x = pd_id old)
      (\<lambda>x. x\<lparr>pd_status := DS_SUPERSEDED, pd_supersededById := Some i\<rparr>)
      (dd_deadlines (ap_db s) @ [supersedingDeadline ctx pid i prior c old]), dd_history := h\<rparr>"
    by (auto simp: supersedeDeadline_def p ok_iff)
  then show ?case using Cons.IH[OF rest] by (auto simp: supersedeAll_def p)
qed

lemma recalculate_ok:
  assumes "recalculateDeadline (env\<lparr>en_now := n\<rparr>) sp newId rowIds ids pid i raw s = (Inr c, t)"
  obtains ctx prior where "findCalculation (cx_tenantId ctx) pid i (ap_db s) = Some prior"
    "dc_status prior = DC_VERIFIED \<or> dc_status prior = DC_REVIEW_REQUIRED"
    "dc_id c = newId" "reproducible env (ap_db s) c" "dc_status c = DC_BLOCKED \<or> dc_status c = DC_REVIEW_REQUIRED"
    "coreTables (ap_db t) = (dd_snapshots (ap_db s), dd_dates (ap_db s), dd_assessments (ap_db s),
      dd_calendars (ap_db s), dd_revisions (ap_db s),
      updateWhere (\<lambda>x. dc_id x = dc_id prior) (\<lambda>x. x\<lparr>dc_status := DC_SUPERSEDED\<rparr>)
        (dd_calculations (ap_db s) @ [c]),
      supersedeAll (\<lambda>i old. supersedingDeadline ctx pid i prior c old)
        (zip (map ids [0..<length (liveDeadlines (dc_id prior) (ap_db s))])
          (liveDeadlines (dc_id prior) (ap_db s))) (dd_deadlines (ap_db s)))"
  using assms unfolding recalculateDeadline_def
proof (cases rule: projectService_cases)
  case (ran ctx data x)
  then obtain prior u v us inp where f: "findCalculation (cx_tenantId ctx) pid i (ap_db s) = Some prior"
    "dc_status prior = DC_VERIFIED \<or> dc_status prior = DC_REVIEW_REQUIRED"
    and calc: "calculateEventDeadlineInternal (env\<lparr>en_now := n\<rparr>) ctx newId rowIds pid (dc_eventId prior) inp
      (Some (dc_id prior)) (Some (cl_reason data)) s = (Inr c, u)"
    and loop: "forM (zip (map ids [0..<length (liveDeadlines (dc_id prior) (ap_db u))])
        (liveDeadlines (dc_id prior) (ap_db u))) (supersedeDeadline ctx pid prior c (cl_reason data))
      (u\<lparr>ap_db := (ap_db u)\<lparr>dd_calculations := updateWhere (\<lambda>x. dc_id x = dc_id prior)
        (\<lambda>x. x\<lparr>dc_status := DC_SUPERSEDED\<rparr>) (dd_calculations (ap_db u))\<rparr>\<rparr>) = (Inr us, v)"
    and t: "ap_db t = ap_db v"
    by (auto simp: ok_iff Let_def liveDeadlines_def)
  note made = internal_ok[OF calc]
  then have live: "liveDeadlines (dc_id prior) (ap_db u) = liveDeadlines (dc_id prior) (ap_db s)"
    by (auto simp: liveDeadlines_def)
  show ?thesis
    using f made supersedeDeadlines_ok[OF loop] t
    by (intro that[of ctx prior]) (auto simp: coreTables_def live)
qed simp

lemma recalculate_refines:
  assumes "recalculateDeadline (env\<lparr>en_now := n\<rparr>) sp newId rowIds ids pid i raw s = (r, t)"
    and "newId \<notin> dc_id ` set (dd_calculations (ap_db s))" "inj ids"
    and "range ids \<inter> pd_id ` set (dd_deadlines (ap_db s)) = {}"
  shows "table_step env (ap_db s) (ap_db t)"
proof (cases r)
  case (Inl e)
  have "ap_db t = ap_db s"
    using assms(1) unfolding recalculateDeadline_def Inl
    by (cases rule: projectService_cases) auto
  then show ?thesis by (rule idle_tables)
next
  case (Inr c)
  show ?thesis
    using assms(1)[unfolded Inr]
  proof (rule recalculate_ok)
    fix ctx prior
    assume a: "findCalculation (cx_tenantId ctx) pid i (ap_db s) = Some prior"
      "dc_status prior = DC_VERIFIED \<or> dc_status prior = DC_REVIEW_REQUIRED"
      "dc_id c = newId" "reproducible env (ap_db s) c"
      "dc_status c = DC_BLOCKED \<or> dc_status c = DC_REVIEW_REQUIRED"
      "coreTables (ap_db t) = (dd_snapshots (ap_db s), dd_dates (ap_db s), dd_assessments (ap_db s),
        dd_calendars (ap_db s), dd_revisions (ap_db s),
        updateWhere (\<lambda>x. dc_id x = dc_id prior) (\<lambda>x. x\<lparr>dc_status := DC_SUPERSEDED\<rparr>)
          (dd_calculations (ap_db s) @ [c]),
        supersedeAll (\<lambda>i old. supersedingDeadline ctx pid i prior c old)
          (zip (map ids [0..<length (liveDeadlines (dc_id prior) (ap_db s))])
            (liveDeadlines (dc_id prior) (ap_db s))) (dd_deadlines (ap_db s)))"
    show ?thesis
      using findCalculation_row[OF a(1)] a(2-5) assms(2-4)
      by (intro table_step.recalculate[OF _ _ _ _ _ _ _ a(6)]) auto
  qed
qed

section \<open>Any request\<close>

text \<open>
  A request of the service, at any time and with fresh ids, or a change another service makes:
  new rule snapshots and configurations, and rows this service only looks up.
\<close>

inductive deadline_request ::
  "('dt, 'j) deadlines_env \<Rightarrow> 'j deadlines_db app_state \<Rightarrow> 'j deadlines_db app_state \<Rightarrow> bool"
  for env s where
  "createProjectEvent sp newId pid (raw :: string) s = (r1, t) \<Longrightarrow>
    newId \<notin> ve_id ` set (dd_events (ap_db s)) \<Longrightarrow> deadline_request env s t"
| "addProjectEventDate (env\<lparr>en_now := n\<rparr>) sp newId pid eid (raw :: string) s = (r2, t) \<Longrightarrow> deadline_request env s t"
| "verifyProjectEventDate (env\<lparr>en_now := n\<rparr>) pid eid i s = (r3, t) \<Longrightarrow> deadline_request env s t"
| "linkProjectEventEvidence sp newId pid eid (raw :: string) s = (r4, t) \<Longrightarrow> deadline_request env s t"
| "confirmProjectEvent (env\<lparr>en_now := n\<rparr>) sp pid eid (raw :: string) s = (r5, t) \<Longrightarrow> deadline_request env s t"
| "confirmRuleApplicability (env\<lparr>en_now := n\<rparr>) sp newId pid eid (raw :: string) s = (r6, t) \<Longrightarrow> deadline_request env s t"
| "createProjectCalendar sp newId pid (raw :: string) s = (r7, t) \<Longrightarrow>
    newId \<notin> pc_id ` set (dd_calendars (ap_db s)) \<Longrightarrow> deadline_request env s t"
| "createCalendarRevision (env\<lparr>en_now := n\<rparr>) sp newId pid cid (raw :: string) s = (r8, t) \<Longrightarrow>
    newId \<notin> pr_id ` set (dd_revisions (ap_db s)) \<Longrightarrow> newId \<noteq> [] \<Longrightarrow> deadline_request env s t"
| "approveCalendarRevision (env\<lparr>en_now := n\<rparr>) pid cid i s = (r9, t) \<Longrightarrow> deadline_request env s t"
| "calculateEventDeadline (env\<lparr>en_now := n\<rparr>) sp newId rowIds pid eid (raw :: string) s = (r10, t) \<Longrightarrow>
    newId \<notin> dc_id ` set (dd_calculations (ap_db s)) \<Longrightarrow> deadline_request env s t"
| "verifyDeadlineCalculation (env\<lparr>en_now := n\<rparr>) pid i s = (r11, t) \<Longrightarrow> deadline_request env s t"
| "createTrackedDeadline newId pid i s = (r12, t) \<Longrightarrow>
    newId \<notin> pd_id ` set (dd_deadlines (ap_db s)) \<Longrightarrow> deadline_request env s t"
| "recalculateDeadline (env\<lparr>en_now := n\<rparr>) sp newId rowIds ids pid i (raw :: string) s = (r13, t) \<Longrightarrow>
    newId \<notin> dc_id ` set (dd_calculations (ap_db s)) \<Longrightarrow> inj ids \<Longrightarrow>
    range ids \<inter> pd_id ` set (dd_deadlines (ap_db s)) = {} \<Longrightarrow> deadline_request env s t"
| "ap_db t = (ap_db s)\<lparr>dd_snapshots := dd_snapshots (ap_db s) @ xs, dd_configurations := cs,
      dd_packages := ps, dd_documents := ds, dd_versions := vs, dd_segments := gs\<rparr> \<Longrightarrow>
    deadline_request env s t"

lemma deadline_request_refines: "deadline_request env s t \<Longrightarrow> table_step env (ap_db s) (ap_db t)"
proof (induction rule: deadline_request.induct)
qed (erule createEvent_refines addDate_refines verifyDate_refines linkEvidence_refines
    confirmEvent_refines confirmRule_refines createCalendar_refines createRevision_refines
    approveRevision_refines calculate_refines verify_refines track_refines recalculate_refines;
    assumption | rule table_step.snapshots, simp add: coreTables_def)+

section \<open>Stored calculations can be repeated\<close>

text \<open>What no step changes of the rows a calculation cites.\<close>

definition rowsKept :: "'j deadlines_db \<Rightarrow> 'j deadlines_db \<Rightarrow> bool" where
  "rowsKept d e \<longleftrightarrow> set (dd_snapshots d) \<subseteq> set (dd_snapshots e)
     \<and> set (dd_assessments d) \<subseteq> set (dd_assessments e)
     \<and> (\<forall>x\<in>set (dd_dates d). vd_verificationStatus x = DV_VERIFIED \<longrightarrow>
         (\<exists>y\<in>set (dd_dates e). vd_id y = vd_id x \<and> vd_dateValue y = vd_dateValue x
           \<and> vd_precision y = vd_precision x \<and> vd_verificationStatus y = DV_VERIFIED))
     \<and> (\<forall>r\<in>set (dd_revisions d). pr_status r = CR_APPROVED \<or> pr_status r = CR_SUPERSEDED \<longrightarrow>
         (\<exists>q\<in>set (dd_revisions e). pr_id q = pr_id r
           \<and> calendarRevisionToEngineInput q = calendarRevisionToEngineInput r
           \<and> (pr_status q = CR_APPROVED \<or> pr_status q = CR_SUPERSEDED)))"

text \<open>Two rows of one calculation with the same result.\<close>

definition sameResult :: "calculation_row \<Rightarrow> calculation_row \<Rightarrow> bool" where
  "sameResult c b \<longleftrightarrow> dc_snapshotId b = dc_snapshotId c \<and> dc_triggerDateId b = dc_triggerDateId c
     \<and> dc_calendarRevisionId b = dc_calendarRevisionId c \<and> dc_assessmentId b = dc_assessmentId c
     \<and> dc_trace b = dc_trace c \<and> dc_calculatedDeadlineAt b = dc_calculatedDeadlineAt c
     \<and> dc_calculatedDeadlineDate b = dc_calculatedDeadlineDate c
     \<and> dc_deadlineTimezone b = dc_deadlineTimezone c
     \<and> dc_triggerDateValue b = dc_triggerDateValue c \<and> dc_terms b = dc_terms c
     \<and> (dc_status b = DC_BLOCKED \<longleftrightarrow> dc_status c = DC_BLOCKED)"

lemma reproducible_kept:
  assumes "reproducible env d c" and kept: "rowsKept d e" and same: "sameResult c b"
  shows "reproducible env e b"
proof -
  obtain x tr r a where c: "citedRows d c x tr r a" and ans: "engineAnswer env c x tr r"
    using assms(1) by (auto simp: reproducible_def)
  obtain y where y: "y \<in> set (dd_dates e)" "vd_id y = vd_id tr" "vd_dateValue y = vd_dateValue tr"
    "vd_precision y = vd_precision tr" "vd_verificationStatus y = DV_VERIFIED"
    using kept c unfolding rowsKept_def citedRows_def by blast
  obtain q where q: "q \<in> set (dd_revisions e)" "pr_id q = pr_id r"
    "calendarRevisionToEngineInput q = calendarRevisionToEngineInput r"
    "pr_status q = CR_APPROVED \<or> pr_status q = CR_SUPERSEDED"
    using kept c unfolding rowsKept_def citedRows_def by blast
  have "engineResult env (nr_structuredRule x) y q = engineResult env (nr_structuredRule x) tr r"
    using y q by (simp add: engineResult_def engineInput_def)
  then have "engineAnswer env b x y q"
    using ans same y by (simp add: engineAnswer_def sameResult_def Let_def)
  moreover have "citedRows e b x y q a"
    using c same y q kept unfolding citedRows_def sameResult_def rowsKept_def
    by (simp add: subset_iff)
  ultimately show ?thesis by (auto simp: reproducible_def)
qed

lemma rowsKept_core:
  "coreTables e = (dd_snapshots d @ xs, dd_dates d @ ts, dd_assessments d @ as, cs, dd_revisions d @ rs,
     cc, ds) \<Longrightarrow> rowsKept d e"
  by (auto simp: rowsKept_def coreTables_def)

lemma approveIn_row:
  assumes "x \<in> set rs"
    and y_def: "y = (if truthy (pc_currentRevisionId c) \<and> pr_id x = the (pc_currentRevisionId c)
      then x\<lparr>pr_status := CR_SUPERSEDED\<rparr> else x)"
  shows "(if pr_id x = pr_id r then f y else y) \<in> set (approveIn r c f rs)"
proof -
  have "y \<in> set (if truthy (pc_currentRevisionId c)
      then updateWhere (\<lambda>x. pr_id x = the (pc_currentRevisionId c)) (\<lambda>x. x\<lparr>pr_status := CR_SUPERSEDED\<rparr>) rs
      else rs)"
    using assms(1) updateWhere_mem[OF assms(1), of "\<lambda>x. pr_id x = the (pc_currentRevisionId c)"
        "\<lambda>x. x\<lparr>pr_status := CR_SUPERSEDED\<rparr>"] by (auto simp: y_def)
  moreover have "pr_id y = pr_id x" by (simp add: y_def)
  ultimately show ?thesis
    unfolding approveIn_def using updateWhere_mem[of y _ "\<lambda>x. pr_id x = pr_id r" f] by metis
qed

lemma approveIn_keeps:
  assumes "x \<in> set rs" and "pr_status x = CR_APPROVED \<or> pr_status x = CR_SUPERSEDED"
  shows "\<exists>q\<in>set (approveIn r c (approvedRevision env' ctx) rs). pr_id q = pr_id x
      \<and> calendarRevisionToEngineInput q = calendarRevisionToEngineInput x
      \<and> (pr_status q = CR_APPROVED \<or> pr_status q = CR_SUPERSEDED)"
  by (rule bexI[OF _ approveIn_row[OF assms(1) refl]])
    (use assms(2) in \<open>auto simp: Let_def approvedRevision_def calendarRevisionToEngineInput_def\<close>)

lemma table_step_rows: "table_step env d e \<Longrightarrow> rowsKept d e"
proof (induction rule: table_step.induct)
  case (verify_date e i n ctx)
  have "\<exists>y\<in>set (dd_dates e). vd_id y = vd_id x \<and> vd_dateValue y = vd_dateValue x
      \<and> vd_precision y = vd_precision x \<and> vd_verificationStatus y = DV_VERIFIED"
    if "x \<in> set (dd_dates d)" "vd_verificationStatus x = DV_VERIFIED" for x
    using verify_date updateWhere_mem[OF that(1), of "\<lambda>x. vd_id x = i" "verifiedDate (env\<lparr>en_now := n\<rparr>) ctx"]
      that(2) by (intro bexI) (auto simp: coreTables_def verifiedDate_def split: if_splits)
  then show ?case using verify_date by (auto simp: rowsKept_def coreTables_def)
next
  case (approve c r e u n ctx)
  then have t: "dd_snapshots e = dd_snapshots d" "dd_dates e = dd_dates d" "dd_assessments e = dd_assessments d"
    "dd_revisions e = approveIn r c (approvedRevision (env\<lparr>en_now := n\<rparr>) ctx) (dd_revisions d)"
    by (auto simp: coreTables_def)
  show ?case unfolding rowsKept_def t using approveIn_keeps by blast
qed (rule rowsKept_core[where xs = "[]" and ts = "[]" and as = "[]" and rs = "[]"]
  rowsKept_core[where ts = "[]" and as = "[]" and rs = "[]"]
  rowsKept_core[where xs = "[]" and as = "[]" and rs = "[]"]
  rowsKept_core[where xs = "[]" and ts = "[]" and rs = "[]"]
  rowsKept_core[where xs = "[]" and ts = "[]" and as = "[]"], simp add: coreTables_def)+

definition calculationOk :: "('dt, 'j) deadlines_env \<Rightarrow> 'j deadlines_db \<Rightarrow> calculation_row \<Rightarrow> bool" where
  "calculationOk env d c \<longleftrightarrow> reproducible env d c
     \<and> (deadlineCalcSegregationEnabled env \<and> dc_status c = DC_VERIFIED \<longrightarrow>
         (\<exists>u. dc_reviewedByUserId c = Some u \<and> u \<noteq> dc_calculatedByUserId c))"

definition calculationsOk :: "('dt, 'j) deadlines_env \<Rightarrow> 'j deadlines_db \<Rightarrow> bool" where
  "calculationsOk env d \<longleftrightarrow> distinct (map dc_id (dd_calculations d))
     \<and> (\<forall>c\<in>set (dd_calculations d). calculationOk env d c)"

lemma calculationOk_kept:
  "calculationOk env d c \<Longrightarrow> rowsKept d e \<Longrightarrow> calculationOk env e c"
  unfolding calculationOk_def by (auto intro: reproducible_kept simp: sameResult_def)

lemma calculationsOk_same:
  assumes "calculationsOk env d" and "rowsKept d e" and "dd_calculations e = dd_calculations d"
  shows "calculationsOk env e"
  using assms calculationOk_kept[OF _ assms(2)] by (auto simp: calculationsOk_def)

lemma calculationOk_verified:
  assumes "calculationOk env d c" and "dc_status c = DC_REVIEW_REQUIRED \<or> dc_status c = DC_CALCULATED"
    and "deadlineCalcSegregationEnabled env \<longrightarrow> userId ctx \<noteq> dc_calculatedByUserId c"
    and "rowsKept d e"
  shows "calculationOk env e (verifiedCalculation (env\<lparr>en_now := n\<rparr>) ctx c)"
  using assms reproducible_kept[OF _ assms(4), of env c "verifiedCalculation (env\<lparr>en_now := n\<rparr>) ctx c"]
  by (auto simp: calculationOk_def sameResult_def verifiedCalculation_def)

lemma calculationOk_superseded:
  assumes "calculationOk env d c" and "dc_status c = DC_VERIFIED \<or> dc_status c = DC_REVIEW_REQUIRED"
    and "rowsKept d e"
  shows "calculationOk env e (c\<lparr>dc_status := DC_SUPERSEDED\<rparr>)"
  using assms reproducible_kept[OF _ assms(3), of env c "c\<lparr>dc_status := DC_SUPERSEDED\<rparr>"]
  by (auto simp: calculationOk_def sameResult_def)

lemma calculationsOk_step:
  assumes "table_step env d e" and inv: "calculationsOk env d"
  shows "calculationsOk env e"
proof -
  note kept = table_step_rows[OF assms(1)]
  from assms(1) show ?thesis
  proof (cases rule: table_step.cases)
    case (calculate c)
    then have "calculationOk env e c"
      using kept by (auto simp: calculationOk_def sameResult_def intro: reproducible_kept)
    then show ?thesis
      using calculate(1,4) inv calculationOk_kept[OF _ kept] by (auto simp: calculationsOk_def coreTables_def)
  next
    case (verify c ctx n)
    then have e: "dd_calculations e = updateWhere (\<lambda>x. dc_id x = dc_id c)
        (verifiedCalculation (env\<lparr>en_now := n\<rparr>) ctx) (dd_calculations d)" by (simp add: coreTables_def)
    have "distinct (map dc_id (dd_calculations e))"
      using inv by (simp add: e map_updateWhere verifiedCalculation_def calculationsOk_def)
    moreover have "calculationOk env e b" if b: "b \<in> set (dd_calculations e)" for b
    proof -
      obtain x where x: "x \<in> set (dd_calculations d)" "b = (if dc_id x = dc_id c
          then verifiedCalculation (env\<lparr>en_now := n\<rparr>) ctx x else x)"
        using updateWhere_elem[OF b[unfolded e]] by blast
      have ok: "calculationOk env d x" using x inv by (simp add: calculationsOk_def)
      show ?thesis
      proof (cases "dc_id x = dc_id c")
        case True
        then have "x = c"
          using inv x verify(1) distinct_key_unique[of dc_id "dd_calculations d" x c]
          by (simp add: calculationsOk_def)
        then show ?thesis
          using True x ok calculationOk_verified[OF _ verify(2,3) kept, of n] by simp
      next
        case False
        then show ?thesis using x calculationOk_kept[OF ok kept] by simp
      qed
    qed
    ultimately show ?thesis by (simp add: calculationsOk_def)
  next
    case (recalculate prior c ids ctx pid)
    then have e: "dd_calculations e = updateWhere (\<lambda>x. dc_id x = dc_id prior)
        (\<lambda>x. x\<lparr>dc_status := DC_SUPERSEDED\<rparr>) (dd_calculations d @ [c])" by (simp add: coreTables_def)
    have new: "calculationOk env d c"
      using recalculate by (auto simp: calculationOk_def)
    have "distinct (map dc_id (dd_calculations e))"
      using inv recalculate(3) by (simp add: e map_updateWhere calculationsOk_def)
    moreover have "calculationOk env e b" if b: "b \<in> set (dd_calculations e)" for b
    proof -
      obtain x where x: "x \<in> set (dd_calculations d @ [c])" "b = (if dc_id x = dc_id prior
          then x\<lparr>dc_status := DC_SUPERSEDED\<rparr> else x)"
        using updateWhere_elem[OF b[unfolded e]] by blast
      have ok: "calculationOk env d x" using x(1) inv new by (auto simp: calculationsOk_def)
      show ?thesis
      proof (cases "dc_id x = dc_id prior")
        case True
        then have "x = prior"
          using inv x(1) recalculate(1,3) distinct_key_unique[of dc_id "dd_calculations d" x prior]
          by (auto simp: calculationsOk_def)
        then show ?thesis
          using True x ok calculationOk_superseded[OF _ recalculate(2) kept] by simp
      next
        case False
        then show ?thesis using x calculationOk_kept[OF ok kept] by simp
      qed
    qed
    ultimately show ?thesis by (simp add: calculationsOk_def)
  qed (rule calculationsOk_same[OF inv kept], simp add: coreTables_def)+
qed

section \<open>One approved revision, one live deadline\<close>

definition calendarsOk :: "calendar_row list \<Rightarrow> revision_row list \<Rightarrow> bool" where
  "calendarsOk cs rs \<longleftrightarrow> distinct (map pc_id cs) \<and> distinct (map pr_id rs)
     \<and> (\<forall>r\<in>set rs. pr_id r \<noteq> [])
     \<and> (\<forall>c\<in>set cs. \<forall>i. pc_currentRevisionId c = Some i \<longrightarrow>
         (\<exists>r\<in>set rs. pr_id r = i \<and> pr_calendarId r = pc_id c \<and> pr_status r = CR_APPROVED))
     \<and> (\<forall>r\<in>set rs. pr_status r = CR_APPROVED \<longrightarrow>
         (\<exists>c\<in>set cs. pc_id c = pr_calendarId r \<and> pc_currentRevisionId c = Some (pr_id r)))"

lemma calendarsOk_create:
  assumes "calendarsOk cs rs" and "pc_id c \<notin> pc_id ` set cs" and "pc_currentRevisionId c = None"
  shows "calendarsOk (cs @ [c]) rs"
  using assms by (auto simp: calendarsOk_def)

lemma calendarsOk_revise:
  assumes "calendarsOk cs rs" and "pr_id r \<notin> pr_id ` set rs" and "pr_id r \<noteq> []" and "pr_status r = CR_DRAFT"
  shows "calendarsOk cs (rs @ [r])"
  using assms by (auto simp: calendarsOk_def)

lemma map_approveIn: "(\<And>x. pr_id (f x) = pr_id x) \<Longrightarrow> map pr_id (approveIn r c f rs) = map pr_id rs"
  by (simp add: approveIn_def map_updateWhere)

lemma approveIn_elem:
  assumes "q \<in> set (approveIn r c f rs)"
  obtains x y where "x \<in> set rs" "y = (if truthy (pc_currentRevisionId c) \<and> pr_id x = the (pc_currentRevisionId c)
      then x\<lparr>pr_status := CR_SUPERSEDED\<rparr> else x)" "q = (if pr_id x = pr_id r then f y else y)"
proof -
  obtain y where y: "y \<in> set (if truthy (pc_currentRevisionId c)
      then updateWhere (\<lambda>x. pr_id x = the (pc_currentRevisionId c)) (\<lambda>x. x\<lparr>pr_status := CR_SUPERSEDED\<rparr>) rs
      else rs)" "q = (if pr_id y = pr_id r then f y else y)"
    using updateWhere_elem[OF assms[unfolded approveIn_def]] by blast
  show ?thesis
  proof (cases "truthy (pc_currentRevisionId c)")
    case True
    then obtain x where "x \<in> set rs" "y = (if pr_id x = the (pc_currentRevisionId c)
        then x\<lparr>pr_status := CR_SUPERSEDED\<rparr> else x)"
      using updateWhere_elem[of y _ _ rs] y(1) by fastforce
    then show ?thesis using True y(2) by (intro that[of x y]) (auto split: if_splits)
  next
    case False
    then show ?thesis using y by (intro that[of y y]) auto
  qed
qed

lemma calendarsOk_approve:
  fixes env' :: "('dt, 'j) deadlines_env" and ctx :: project_context and r :: revision_row and u :: string
  assumes ok: "calendarsOk cs rs" and c: "c \<in> set cs" and r: "r \<in> set rs" "pr_calendarId r = pc_id c"
    "pr_status r = CR_DRAFT \<or> pr_status r = CR_IN_REVIEW"
  defines "f \<equiv> approvedRevision env' ctx"
    and "g \<equiv> \<lambda>x. x\<lparr>pc_status := CA_APPROVED, pc_currentRevisionId := Some (pr_id r),
      pc_approvedByUserId := Some u, pc_weekendDays := pr_weekendDays r\<rparr>"
  shows "calendarsOk (updateWhere (\<lambda>x. pc_id x = pc_id c) g cs) (approveIn r c f rs)"
proof -
  have f: "pr_id (f x) = pr_id x" "pr_calendarId (f x) = pr_calendarId x" "pr_status (f x) = CR_APPROVED" for x
    by (simp_all add: f_def approvedRevision_def)
  have uniqR: "x = y" if "x \<in> set rs" "y \<in> set rs" "pr_id x = pr_id y" for x y
    using ok that distinct_key_unique[of pr_id rs x y] by (simp add: calendarsOk_def)
  have uniqC: "x = y" if "x \<in> set cs" "y \<in> set cs" "pc_id x = pc_id y" for x y
    using ok that distinct_key_unique[of pc_id cs x y] by (simp add: calendarsOk_def)
  have cur: "\<exists>q\<in>set rs. pr_id q = i \<and> pr_calendarId q = pc_id x \<and> pr_status q = CR_APPROVED"
    if "x \<in> set cs" "pc_currentRevisionId x = Some i" for x i
    using ok that by (auto simp: calendarsOk_def)
  have "distinct (map pc_id (updateWhere (\<lambda>x. pc_id x = pc_id c) g cs))"
    "distinct (map pr_id (approveIn r c f rs))"
    using ok f(1) by (simp_all add: calendarsOk_def map_approveIn map_updateWhere g_def)
  moreover have "pr_id ` set (approveIn r c f rs) = pr_id ` set rs"
    using map_approveIn[of f r c rs, OF f(1)] by (metis list.set_map)
  then have "\<forall>q\<in>set (approveIn r c f rs). pr_id q \<noteq> []"
    using ok unfolding calendarsOk_def by (metis image_iff)
  moreover have "\<exists>q\<in>set (approveIn r c f rs). pr_id q = i \<and> pr_calendarId q = pc_id k \<and> pr_status q = CR_APPROVED"
    if k: "k \<in> set (updateWhere (\<lambda>x. pc_id x = pc_id c) g cs)" "pc_currentRevisionId k = Some i" for k i
  proof -
    obtain x where x: "x \<in> set cs" "k = (if pc_id x = pc_id c then g x else x)"
      using updateWhere_elem[OF k(1)] by blast
    show ?thesis
    proof (cases "pc_id x = pc_id c")
      case True
      then have "i = pr_id r" "pc_id k = pc_id c" using x k by (auto simp: g_def)
      then show ?thesis
        using approveIn_row[OF r(1) refl, where r = r and c = c and f = f] r f
        by (intro bexI[of _ "f _"]) (auto split: if_splits)
    next
      case False
      then obtain q where q: "q \<in> set rs" "pr_id q = i" "pr_calendarId q = pc_id k" "pr_status q = CR_APPROVED"
        using cur[of k i] x k(2) by auto
      have "pr_status q \<noteq> pr_status r" using q(4) r(3) by auto
      then have qr: "pr_id q \<noteq> pr_id r" using uniqR[OF q(1) r(1)] by blast
      have kx: "k = x" using x(2) False by simp
      have "pr_id q \<noteq> j" if "pc_currentRevisionId c = Some j" for j
        using cur[OF c that] uniqR[OF q(1)] q(3) False kx by metis
      then have "\<not> (truthy (pc_currentRevisionId c) \<and> pr_id q = the (pc_currentRevisionId c))"
        by (auto simp: truthy_iff)
      then have "q \<in> set (approveIn r c f rs)"
        using approveIn_row[OF q(1) refl, where r = r and c = c and f = f] qr
        by (simp split: if_splits)
      then show ?thesis using q by blast
    qed
  qed
  moreover have "\<exists>k\<in>set (updateWhere (\<lambda>x. pc_id x = pc_id c) g cs).
      pc_id k = pr_calendarId q \<and> pc_currentRevisionId k = Some (pr_id q)"
    if q: "q \<in> set (approveIn r c f rs)" "pr_status q = CR_APPROVED" for q
  proof -
    obtain x y where x: "x \<in> set rs"
      "y = (if truthy (pc_currentRevisionId c) \<and> pr_id x = the (pc_currentRevisionId c)
        then x\<lparr>pr_status := CR_SUPERSEDED\<rparr> else x)" "q = (if pr_id x = pr_id r then f y else y)"
      using approveIn_elem[OF q(1)] by blast
    show ?thesis
    proof (cases "pr_id x = pr_id r")
      case True
      then have "x = r" using uniqR x(1) r(1) by blast
      then have "pr_calendarId q = pc_id c" "pr_id q = pr_id r" using x r f by auto
      then show ?thesis
        using updateWhere_mem[OF c, of "\<lambda>x. pc_id x = pc_id c" g] by (intro bexI[of _ "g c"]) (auto simp: g_def)
    next
      case False
      then have qx: "q = x" "pr_status x = CR_APPROVED"
        "\<not> (truthy (pc_currentRevisionId c) \<and> pr_id x = the (pc_currentRevisionId c))"
        using x q(2) by (auto split: if_splits)
      obtain k where k: "k \<in> set cs" "pc_id k = pr_calendarId x" "pc_currentRevisionId k = Some (pr_id x)"
        using ok x(1) qx(2) by (auto simp: calendarsOk_def)
      have "pr_id x \<noteq> []" using ok x(1) by (simp add: calendarsOk_def)
      then have "k \<noteq> c" using k qx(3) by auto
      then have "pc_id k \<noteq> pc_id c" using uniqC k(1) c by blast
      then show ?thesis using k qx(1) updateWhere_mem[OF k(1), of "\<lambda>x. pc_id x = pc_id c" g] by auto
    qed
  qed
  ultimately show ?thesis unfolding calendarsOk_def by blast
qed

definition deadlinesOk :: "calculation_row list \<Rightarrow> deadline_row list \<Rightarrow> bool" where
  "deadlinesOk cs ds \<longleftrightarrow> distinct (map pd_id ds) \<and> distinct (map dc_id cs)
     \<and> (\<forall>x\<in>set ds. pd_calculationId x \<in> dc_id ` set cs)
     \<and> (\<forall>x\<in>set ds. isLive x \<longrightarrow> (\<forall>c\<in>set cs. dc_id c = pd_calculationId x \<longrightarrow> dc_status c \<noteq> DC_SUPERSEDED))
     \<and> (\<forall>x\<in>set ds. \<forall>y\<in>set ds. isLive x \<and> isLive y \<and> pd_calculationId x = pd_calculationId y \<longrightarrow> x = y)"

lemma deadlinesOk_calculate:
  assumes "deadlinesOk cs ds" and "dc_id c \<notin> dc_id ` set cs"
  shows "deadlinesOk (cs @ [c]) ds"
  using assms by (auto simp: deadlinesOk_def)

lemma deadlinesOk_verify:
  assumes ok: "deadlinesOk cs ds" and f: "\<And>x. dc_id (f x) = dc_id x" "\<And>x. dc_status (f x) \<noteq> DC_SUPERSEDED"
  shows "deadlinesOk (updateWhere P f cs) ds"
proof -
  have "dc_id ` set (updateWhere P f cs) = dc_id ` set cs"
    using f(1) by (metis list.set_map map_updateWhere)
  moreover have "dc_status c \<noteq> DC_SUPERSEDED"
    if c: "c \<in> set (updateWhere P f cs)" and "x \<in> set ds" "isLive x" "dc_id c = pd_calculationId x" for c x
  proof -
    obtain b where "b \<in> set cs" "c = (if P b then f b else b)" using updateWhere_elem[OF c] by blast
    then show ?thesis using that ok f by (auto simp: deadlinesOk_def split: if_splits)
  qed
  ultimately show ?thesis using ok f(1) by (auto simp: deadlinesOk_def map_updateWhere)
qed

lemma deadlinesOk_track:
  assumes ok: "deadlinesOk cs ds" and c: "c \<in> set cs" "dc_status c = DC_VERIFIED"
    and none: "filter (\<lambda>x. pd_calculationId x = dc_id c \<and> isLive x) ds = []"
    and x: "pd_calculationId x = dc_id c" "pd_id x \<notin> pd_id ` set ds"
  shows "deadlinesOk cs (ds @ [x])"
proof -
  have dead: "\<not> isLive y" if "y \<in> set ds" "pd_calculationId y = dc_id c" for y
    using none that by (auto simp: filter_empty_conv)
  have "b = c" if "b \<in> set cs" "dc_id b = dc_id c" for b
    using ok that c(1) distinct_key_unique[of dc_id cs b c] by (simp add: deadlinesOk_def)
  then have "\<forall>b\<in>set cs. dc_id b = pd_calculationId x \<longrightarrow> dc_status b \<noteq> DC_SUPERSEDED"
    using c x(1) by fastforce
  moreover have "\<forall>y\<in>set ds. isLive y \<longrightarrow> pd_calculationId y \<noteq> pd_calculationId x" using dead x(1) by auto
  ultimately show ?thesis
    using ok x c(1) unfolding deadlinesOk_def by (simp add: ball_Un) metis
qed

lemma all_same_distinct:
  "distinct xs \<Longrightarrow> \<forall>x\<in>set xs. \<forall>y\<in>set xs. x = y \<Longrightarrow> xs = [] \<or> (\<exists>x. xs = [x])"
proof (cases xs)
  case (Cons x ys)
  assume "distinct xs" "\<forall>x\<in>set xs. \<forall>y\<in>set xs. x = y"
  then have "hd ys = x" "x \<notin> set ys" if "ys \<noteq> []" using that Cons by (auto simp: hd_in_set)
  then have "ys = []" using hd_in_set by metis
  then show ?thesis using Cons by simp
qed simp

lemma few_live:
  assumes "deadlinesOk cs ds"
  shows "filter (\<lambda>x. pd_calculationId x = i \<and> isLive x) ds = []
    \<or> (\<exists>x. filter (\<lambda>x. pd_calculationId x = i \<and> isLive x) ds = [x])"
proof -
  let ?l = "filter (\<lambda>x. pd_calculationId x = i \<and> isLive x) ds"
  have "distinct ?l" using assms by (simp add: deadlinesOk_def distinct_map)
  moreover have "\<forall>x\<in>set ?l. \<forall>y\<in>set ?l. x = y" using assms unfolding deadlinesOk_def by simp
  ultimately show ?thesis by (rule all_same_distinct)
qed

lemma superseded_status:
  assumes ok: "deadlinesOk cs ds" and fresh: "dc_id c \<notin> dc_id ` set cs" and p: "prior \<in> set cs"
    and st: "dc_status c \<noteq> DC_SUPERSEDED"
    and b: "b \<in> set (updateWhere (\<lambda>x. dc_id x = dc_id prior) (\<lambda>x. x\<lparr>dc_status := DC_SUPERSEDED\<rparr>) (cs @ [c]))"
    and i: "dc_id b = i" "i \<noteq> dc_id prior"
      "i = dc_id c \<or> (\<exists>x\<in>set ds. isLive x \<and> pd_calculationId x = i)"
  shows "dc_status b \<noteq> DC_SUPERSEDED"
proof -
  obtain a where a: "a \<in> set (cs @ [c])"
    "b = (if dc_id a = dc_id prior then a\<lparr>dc_status := DC_SUPERSEDED\<rparr> else a)"
    using updateWhere_elem[OF b] by blast
  then have ba: "b = a" "dc_id a = i" using i by (auto split: if_splits)
  show ?thesis
  proof (cases "a = c")
    case True
    then show ?thesis using ba st by simp
  next
    case False
    then have "a \<in> set cs" using a(1) by simp
    moreover from this have "i \<noteq> dc_id c" using ba fresh by (metis imageI)
    ultimately show ?thesis using ok i(3) ba unfolding deadlinesOk_def by blast
  qed
qed

lemma deadlinesOk_supersede:
  assumes ok: "deadlinesOk cs ds" and fresh: "dc_id c \<notin> dc_id ` set cs" and p: "prior \<in> set cs"
    and st: "dc_status c \<noteq> DC_SUPERSEDED"
    and new: "\<And>i old. pd_id (new i old) = i" "\<And>i old. pd_calculationId (new i old) = dc_id c"
    and ids: "range ids \<inter> pd_id ` set ds = {}"
    and L: "L = filter (\<lambda>x. pd_calculationId x = dc_id prior \<and> isLive x) ds"
  shows "deadlinesOk (updateWhere (\<lambda>x. dc_id x = dc_id prior) (\<lambda>x. x\<lparr>dc_status := DC_SUPERSEDED\<rparr>) (cs @ [c]))
    (supersedeAll new (zip (map ids [0..<length L]) L) ds)" (is "deadlinesOk ?cs ?ds")
proof -
  have keys: "dc_id ` set ?cs = insert (dc_id c) (dc_id ` set cs)"
  proof -
    have "map dc_id ?cs = map dc_id (cs @ [c])" by (rule map_updateWhere) simp
    then show ?thesis using list.set_map[of dc_id ?cs] by simp
  qed
  have dist: "distinct (map dc_id ?cs)"
    using ok fresh by (simp add: map_updateWhere deadlinesOk_def)
  note status = superseded_status[OF ok fresh p st]
  have other: "dc_id c \<noteq> dc_id prior" using fresh p by auto
  show ?thesis
  proof (cases "L = []")
    case True
    then have "pd_calculationId x \<noteq> dc_id prior" if "x \<in> set ds" "isLive x" for x
      using that L by (auto simp: filter_empty_conv)
    then show ?thesis
      using True ok dist keys status unfolding deadlinesOk_def by (simp add: supersedeAll_def) blast
  next
    case False
    then obtain old where old: "L = [old]" using few_live[OF ok] L by metis
    then have om: "old \<in> set ds" "pd_calculationId old = dc_id prior" using L by (auto simp: filter_eq_Cons_iff)
    let ?n = "new (ids 0) old" and ?f = "\<lambda>x. x\<lparr>pd_status := DS_SUPERSEDED, pd_supersededById := Some (ids 0)\<rparr>"
    have ds: "?ds = updateWhere (\<lambda>x. pd_id x = pd_id old) ?f (ds @ [?n])"
      by (simp add: supersedeAll_def old)
    have n: "pd_id ?n \<notin> pd_id ` set ds" using ids new(1) by auto
    have elem: "(y = ?n) \<or> (y \<in> set ds \<and> pd_calculationId y \<noteq> dc_id prior)"
      if y: "y \<in> set ?ds" "isLive y" for y
    proof -
      obtain x where x: "x \<in> set (ds @ [?n])" "y = (if pd_id x = pd_id old then ?f x else x)"
        using updateWhere_elem[OF y(1)[unfolded ds]] by blast
      have "\<not> isLive (?f x)" by (simp add: isLive_def)
      then have yx: "y = x" "pd_id x \<noteq> pd_id old" using x(2) y(2) by metis+
      show ?thesis
      proof (cases "x = ?n")
        case False
        then have xd: "x \<in> set ds" using x(1) by simp
        have "x \<notin> set L" using old yx(2) by auto
        then have "pd_calculationId x \<noteq> dc_id prior" using xd y(2) yx(1) by (simp add: L)
        then show ?thesis using xd yx by simp
      qed (use yx in simp)
    qed
    have "distinct (map pd_id ?ds)" using ok n by (simp add: ds map_updateWhere deadlinesOk_def)
    moreover have "pd_calculationId y \<in> dc_id ` set ?cs" if y: "y \<in> set ?ds" for y
    proof -
      obtain x where x: "x \<in> set (ds @ [?n])" "y = (if pd_id x = pd_id old then ?f x else x)"
        using updateWhere_elem[OF y[unfolded ds]] by blast
      then have "pd_calculationId y = pd_calculationId x" by simp
      then show ?thesis using x(1) ok new(2) unfolding keys deadlinesOk_def by auto
    qed
    moreover have "\<forall>y\<in>set ?ds. isLive y \<longrightarrow> (\<forall>b\<in>set ?cs. dc_id b = pd_calculationId y \<longrightarrow> dc_status b \<noteq> DC_SUPERSEDED)"
      using elem status new(2) other by metis
    moreover have "\<forall>x\<in>set ?ds. \<forall>y\<in>set ?ds. isLive x \<and> isLive y \<and> pd_calculationId x = pd_calculationId y \<longrightarrow> x = y"
    proof -
      have "pd_calculationId x \<noteq> dc_id c" if "x \<in> set ds" for x
        using ok that fresh unfolding deadlinesOk_def by metis
      then show ?thesis using elem new(2) ok unfolding deadlinesOk_def by metis
    qed
    ultimately show ?thesis using dist unfolding deadlinesOk_def by blast
  qed
qed

section \<open>What every reachable state keeps\<close>

definition deadlineInv :: "('dt, 'j) deadlines_env \<Rightarrow> 'j deadlines_db \<Rightarrow> bool" where
  "deadlineInv env d \<longleftrightarrow> calculationsOk env d \<and> calendarsOk (dd_calendars d) (dd_revisions d)
     \<and> deadlinesOk (dd_calculations d) (dd_deadlines d)"

lemma calendarsOk_step:
  assumes "table_step env d e" and "calendarsOk (dd_calendars d) (dd_revisions d)"
  shows "calendarsOk (dd_calendars e) (dd_revisions e)"
  using assms(1)
proof (cases rule: table_step.cases)
  case (calendar c)
  then show ?thesis using calendarsOk_create[OF assms(2)] by (simp add: coreTables_def)
next
  case (revision r)
  then show ?thesis using calendarsOk_revise[OF assms(2)] by (simp add: coreTables_def)
next
  case (approve c r u n ctx)
  then show ?thesis using calendarsOk_approve[OF assms(2) approve(1-4)] by (simp add: coreTables_def)
qed (use assms(2) in \<open>simp add: coreTables_def\<close>)+

lemma deadlinesOk_step:
  assumes "table_step env d e" and "deadlinesOk (dd_calculations d) (dd_deadlines d)"
  shows "deadlinesOk (dd_calculations e) (dd_deadlines e)"
  using assms(1)
proof (cases rule: table_step.cases)
  case (calculate c)
  then show ?thesis using deadlinesOk_calculate[OF assms(2)] by (simp add: coreTables_def)
next
  case (verify c ctx n)
  then show ?thesis
    using deadlinesOk_verify[OF assms(2), of "verifiedCalculation (env\<lparr>en_now := n\<rparr>) ctx"]
    by (simp add: coreTables_def verifiedCalculation_def)
next
  case (track c x)
  then show ?thesis using deadlinesOk_track[OF assms(2)] by (simp add: coreTables_def liveDeadlines_def)
next
  case (recalculate prior c ids ctx pid)
  have st: "dc_status c \<noteq> DC_SUPERSEDED" using recalculate(5) by auto
  have new: "pd_id (supersedingDeadline ctx pid i prior c old) = i"
    "pd_calculationId (supersedingDeadline ctx pid i prior c old) = dc_id c" for i old
    by (simp_all add: supersedingDeadline_def)
  show ?thesis
    using deadlinesOk_supersede[OF assms(2) recalculate(3,1) st new recalculate(7) refl] recalculate(8)
    by (simp add: coreTables_def liveDeadlines_def)
qed (use assms(2) in \<open>simp add: coreTables_def\<close>)+

lemma deadlineInv_request:
  "deadline_request env s t \<Longrightarrow> deadlineInv env (ap_db s) \<Longrightarrow> deadlineInv env (ap_db t)"
  using deadline_request_refines calculationsOk_step calendarsOk_step deadlinesOk_step
  unfolding deadlineInv_def by metis

lemma deadline_reachable:
  "(deadline_request env)\<^sup>*\<^sup>* s t \<Longrightarrow> deadlineInv env (ap_db s) \<Longrightarrow> deadlineInv env (ap_db t)"
  by (induction rule: rtranclp_induct) (auto dest: deadlineInv_request)

lemma engine_executable:
  assumes "status (calculateDeadline lx sc raw) = CALCULATED"
  shows "\<exists>input k. sc_input sc raw = Inr input \<and> sc_rule sc (rule input) = Inr k \<and> ruleReasons k = []"
  using assms by (cases rule: calculateDeadline_cases[of lx sc raw]) (auto simp: blockedResult_def)

text \<open>C27: In every reachable state a stored calculation is what the engine answers for the rows it
  cites: the approved rule, the verified exact date and the once approved calendar revision are still
  there with the content it was made from, and a human confirmed that the rule applies.  One that is
  not blocked rests on a rule the engine may execute.\<close>

theorem calculations_reproducible:
  assumes "(deadline_request env)\<^sup>*\<^sup>* s t" and "deadlineInv env (ap_db s)"
    and "c \<in> set (dd_calculations (ap_db t))"
  shows "\<exists>x tr r a. citedRows (ap_db t) c x tr r a \<and> engineAnswer env c x tr r
    \<and> (dc_status c \<noteq> DC_BLOCKED \<longrightarrow> (\<exists>input k.
        sc_input (en_schemas env) (engineInput env (nr_structuredRule x) tr r) = Inr input
        \<and> sc_rule (en_schemas env) (rule input) = Inr k \<and> humanApproved k \<and> ambiguityNotes k = []
        \<and> timeBarClassification k \<noteq> UNCERTAIN \<and> requiredRecipientsApproved k
        \<and> counting k \<noteq> UNSPECIFIED))"
proof -
  have "reproducible env (ap_db t) c"
    using deadline_reachable[OF assms(1,2)] assms(3)
    by (simp add: deadlineInv_def calculationsOk_def calculationOk_def)
  then obtain x tr r a where rows: "citedRows (ap_db t) c x tr r a" and ans: "engineAnswer env c x tr r"
    by (auto simp: reproducible_def)
  have "\<exists>input k. sc_input (en_schemas env) (engineInput env (nr_structuredRule x) tr r) = Inr input
      \<and> sc_rule (en_schemas env) (rule input) = Inr k \<and> ruleReasons k = []" if "dc_status c \<noteq> DC_BLOCKED"
  proof (rule engine_executable)
    show "status (calculateDeadline (en_luxon env) (en_schemas env)
        (engineInput env (nr_structuredRule x) tr r)) = CALCULATED"
      using that ans by (cases "status (engineResult env (nr_structuredRule x) tr r)")
        (simp_all add: engineAnswer_def Let_def engineResult_def)
  qed
  then show ?thesis using rows ans unfolding ruleReasons_Nil by blast
qed

text \<open>C28: With segregation of duties a verified calculation was verified by someone other than who
  calculated it, and it is no blocked one.\<close>

theorem verified_by_another:
  assumes "(deadline_request env)\<^sup>*\<^sup>* s t" and "deadlineInv env (ap_db s)"
    and "c \<in> set (dd_calculations (ap_db t))" and "dc_status c = DC_VERIFIED"
    and "en_calculationSod env \<noteq> Some ''false''"
  shows "\<exists>u x tr r a. dc_reviewedByUserId c = Some u \<and> u \<noteq> dc_calculatedByUserId c
    \<and> citedRows (ap_db t) c x tr r a \<and> status (engineResult env (nr_structuredRule x) tr r) = CALCULATED
    \<and> dc_calculatedDeadlineAt c = deadlineTime env (engineResult env (nr_structuredRule x) tr r)"
proof -
  have "calculationOk env (ap_db t) c"
    using deadline_reachable[OF assms(1,2)] assms(3) by (simp add: deadlineInv_def calculationsOk_def)
  then obtain u x tr r a where "dc_reviewedByUserId c = Some u" "u \<noteq> dc_calculatedByUserId c"
    "citedRows (ap_db t) c x tr r a" and ans: "engineAnswer env c x tr r"
    using assms(4,5) by (auto simp: calculationOk_def reproducible_def deadlineCalcSegregationEnabled_def)
  moreover have "status (engineResult env (nr_structuredRule x) tr r) = CALCULATED"
    using ans assms(4) by (cases "status (engineResult env (nr_structuredRule x) tr r)")
      (simp_all add: engineAnswer_def Let_def)
  ultimately show ?thesis unfolding engineAnswer_def Let_def by blast
qed

text \<open>C29: A calendar has at most one approved revision, and it is the current one.\<close>

theorem one_approved_revision:
  assumes "(deadline_request env)\<^sup>*\<^sup>* s t" and "deadlineInv env (ap_db s)"
    and r: "r \<in> set (dd_revisions (ap_db t))" "pr_status r = CR_APPROVED"
  shows "(\<exists>c\<in>set (dd_calendars (ap_db t)). pc_id c = pr_calendarId r
        \<and> pc_currentRevisionId c = Some (pr_id r))
    \<and> (\<forall>q\<in>set (dd_revisions (ap_db t)). pr_status q = CR_APPROVED
        \<and> pr_calendarId q = pr_calendarId r \<longrightarrow> q = r)"
proof -
  have ok: "calendarsOk (dd_calendars (ap_db t)) (dd_revisions (ap_db t))"
    using deadline_reachable[OF assms(1,2)] by (simp add: deadlineInv_def)
  then obtain c where c: "c \<in> set (dd_calendars (ap_db t))" "pc_id c = pr_calendarId r"
    "pc_currentRevisionId c = Some (pr_id r)"
    using r unfolding calendarsOk_def by blast
  have "q = r" if q: "q \<in> set (dd_revisions (ap_db t))" "pr_status q = CR_APPROVED"
    "pr_calendarId q = pr_calendarId r" for q
  proof -
    obtain k where k: "k \<in> set (dd_calendars (ap_db t))" "pc_id k = pr_calendarId q"
      "pc_currentRevisionId k = Some (pr_id q)"
      using ok q unfolding calendarsOk_def by blast
    have keys: "distinct (map pc_id (dd_calendars (ap_db t)))" "distinct (map pr_id (dd_revisions (ap_db t)))"
      using ok by (simp_all add: calendarsOk_def)
    have "k = c" by (rule distinct_key_unique[OF keys(1) k(1) c(1)]) (simp add: k(2) c(2) q(3))
    then show ?thesis using k(3) c(3) by (intro distinct_key_unique[OF keys(2) q(1) r(1)]) simp
  qed
  then show ?thesis using c by blast
qed

text \<open>C30: A calculation has at most one deadline that is neither superseded nor cancelled, and a
  calculation that has one is not superseded itself.\<close>

theorem one_live_deadline:
  assumes "(deadline_request env)\<^sup>*\<^sup>* s t" and "deadlineInv env (ap_db s)"
    and x: "x \<in> set (dd_deadlines (ap_db t))" "isLive x"
  shows "liveDeadlines (pd_calculationId x) (ap_db t) = [x]
    \<and> (\<exists>c\<in>set (dd_calculations (ap_db t)). dc_id c = pd_calculationId x \<and> dc_status c \<noteq> DC_SUPERSEDED)"
proof -
  have ok: "deadlinesOk (dd_calculations (ap_db t)) (dd_deadlines (ap_db t))"
    using deadline_reachable[OF assms(1,2)] by (simp add: deadlineInv_def)
  have "x \<in> set (liveDeadlines (pd_calculationId x) (ap_db t))" using x by (simp add: liveDeadlines_def)
  moreover have "liveDeadlines (pd_calculationId x) (ap_db t) = []
      \<or> (\<exists>y. liveDeadlines (pd_calculationId x) (ap_db t) = [y])"
    unfolding liveDeadlines_def by (rule few_live[OF ok])
  ultimately have "liveDeadlines (pd_calculationId x) (ap_db t) = [x]"
    by (metis empty_iff list.set(1) list.set(2) singletonD)
  moreover have "pd_calculationId x \<in> dc_id ` set (dd_calculations (ap_db t))"
    using ok x(1) by (simp add: deadlinesOk_def)
  then obtain c where c: "c \<in> set (dd_calculations (ap_db t))" "dc_id c = pd_calculationId x" by force
  then have "dc_status c \<noteq> DC_SUPERSEDED" using ok x by (simp add: deadlinesOk_def)
  ultimately show ?thesis using c by blast
qed

text \<open>C31: A recalculation replaces the live deadline of the calculation, also a completed one, by an
  upcoming deadline of the new calculation, which nobody has verified and which may be blocked.\<close>

theorem recalculation_tracks_unverified:
  assumes run: "recalculateDeadline env sp newId rowIds ids pid i raw s = (Inr c, t)"
    and inv: "deadlineInv env (ap_db s)"
    and fresh: "range ids \<inter> pd_id ` set (dd_deadlines (ap_db s)) = {}"
    and old: "old \<in> set (liveDeadlines i (ap_db s))"
  shows "(\<exists>x\<in>set (dd_deadlines (ap_db t)). isLive x \<and> pd_status x = DS_UPCOMING
        \<and> pd_calculationId x = dc_id c \<and> pd_dueAt x = dc_calculatedDeadlineAt c)
    \<and> dc_status c \<noteq> DC_VERIFIED
    \<and> (\<forall>x\<in>set (dd_deadlines (ap_db t)). pd_id x = pd_id old \<longrightarrow> pd_status x = DS_SUPERSEDED)"
proof -
  have "recalculateDeadline (env\<lparr>en_now := en_now env\<rparr>) sp newId rowIds ids pid i raw s = (Inr c, t)"
    using run by simp
  then show ?thesis
  proof (rule recalculate_ok)
    fix ctx prior
    assume a: "findCalculation (cx_tenantId ctx) pid i (ap_db s) = Some prior"
      "dc_status c = DC_BLOCKED \<or> dc_status c = DC_REVIEW_REQUIRED"
      and core: "coreTables (ap_db t) = (dd_snapshots (ap_db s), dd_dates (ap_db s), dd_assessments (ap_db s),
        dd_calendars (ap_db s), dd_revisions (ap_db s),
        updateWhere (\<lambda>x. dc_id x = dc_id prior) (\<lambda>x. x\<lparr>dc_status := DC_SUPERSEDED\<rparr>)
          (dd_calculations (ap_db s) @ [c]),
        supersedeAll (\<lambda>i old. supersedingDeadline ctx pid i prior c old)
          (zip (map ids [0..<length (liveDeadlines (dc_id prior) (ap_db s))])
            (liveDeadlines (dc_id prior) (ap_db s))) (dd_deadlines (ap_db s)))"
    let ?n = "supersedingDeadline ctx pid (ids 0) prior c old"
      and ?f = "\<lambda>x. x\<lparr>pd_status := DS_SUPERSEDED, pd_supersededById := Some (ids 0)\<rparr>"
    have id: "dc_id prior = i" using findCalculation_row[OF a(1)] by simp
    have "deadlinesOk (dd_calculations (ap_db s)) (dd_deadlines (ap_db s))"
      using inv by (simp add: deadlineInv_def)
    from few_live[OF this, of i, folded liveDeadlines_def] old have "liveDeadlines i (ap_db s) = [old]"
      by auto
    then have ds: "dd_deadlines (ap_db t) = updateWhere (\<lambda>x. pd_id x = pd_id old) ?f (dd_deadlines (ap_db s) @ [?n])"
      using core by (simp add: coreTables_def id supersedeAll_def)
    have "pd_id ?n \<noteq> pd_id old"
      using fresh old by (auto simp: supersedingDeadline_def liveDeadlines_def)
    then have "?n \<in> set (dd_deadlines (ap_db t))"
      using updateWhere_mem[of ?n "dd_deadlines (ap_db s) @ [?n]" "\<lambda>x. pd_id x = pd_id old" ?f] by (simp add: ds)
    moreover have "isLive ?n" "pd_status ?n = DS_UPCOMING" "pd_calculationId ?n = dc_id c"
      "pd_dueAt ?n = dc_calculatedDeadlineAt c"
      by (simp_all add: supersedingDeadline_def isLive_def)
    moreover have "pd_status x = DS_SUPERSEDED" if x: "x \<in> set (dd_deadlines (ap_db t))" "pd_id x = pd_id old" for x
    proof -
      obtain y where y: "x = (if pd_id y = pd_id old then ?f y else y)"
        using updateWhere_elem[OF x(1)[unfolded ds]] by blast
      then have "pd_id y = pd_id old" using x(2) by (simp split: if_splits)
      then show ?thesis using y by simp
    qed
    ultimately show ?thesis using a(2) by auto
  qed
qed

section \<open>A fact is no basis for a deadline\<close>

text \<open>Events are only added and confirmed; a confirmed fact stays one.\<close>

definition eventsOk :: "event_row list \<Rightarrow> bool" where
  "eventsOk es \<longleftrightarrow> distinct (map ve_id es)"

definition factIn :: "string \<Rightarrow> event_row list \<Rightarrow> bool" where
  "factIn i es \<longleftrightarrow> eventsOk es \<and> (\<exists>e\<in>set es. ve_id e = i \<and> ve_confirmationStatus e = CONFIRMED_FACT)"

lemma factIn_confirm:
  assumes "factIn i es" and "find (\<lambda>e. ve_id e = eid \<and> ve_tenantId e = T \<and> ve_projectId e = pid) es = Some e"
    and "ve_confirmationStatus e = UNCONFIRMED \<or> ve_confirmationStatus e = INSUFFICIENT_EVIDENCE"
  shows "factIn i (updateWhere (\<lambda>x. ve_id x = ve_id e) (confirmedEvent env ctx st) es)"
proof -
  obtain f where f: "f \<in> set es" "ve_id f = i" "ve_confirmationStatus f = CONFIRMED_FACT"
    and d: "distinct (map ve_id es)"
    using assms(1) by (auto simp: factIn_def eventsOk_def)
  have e: "e \<in> set es" using find_SomeD[OF assms(2)] by simp
  have "f \<noteq> e" using f(3) assms(3) by auto
  then have "ve_id f \<noteq> ve_id e" using distinct_key_unique[OF d f(1) e] by blast
  then have "f \<in> set (updateWhere (\<lambda>x. ve_id x = ve_id e) (confirmedEvent env ctx st) es)"
    using updateWhere_mem[OF f(1), of "\<lambda>x. ve_id x = ve_id e"] by auto
  moreover have "distinct (map ve_id (updateWhere (\<lambda>x. ve_id x = ve_id e) (confirmedEvent env ctx st) es))"
    using d by (simp add: map_updateWhere confirmedEvent_def)
  ultimately show ?thesis using f by (auto simp: factIn_def eventsOk_def)
qed

lemma internal_events:
  "calculateEventDeadlineInternal (env\<lparr>en_now := n\<rparr>) ctx newId rowIds pid eid inp sup' why s = (Inr c, t) \<Longrightarrow>
    dd_events (ap_db t) = dd_events (ap_db s)"
  using internal_ok by fastforce

interpretation eventsKept: tables_relation "\<lambda>d e. dd_events e = dd_events d"
  by unfold_locales simp

lemma supersede_events:
  "forM ps (supersedeDeadline ctx pid prior c why) s = (Inr us, t) \<Longrightarrow> dd_events (ap_db t) = dd_events (ap_db s)"
  using supersedeDeadlines_ok by fastforce

lemma factIn_step:
  assumes "deadline_request env s t" and fact: "factIn i (dd_events (ap_db s))"
  shows "factIn i (dd_events (ap_db t))"
  using assms(1)
proof (cases rule: deadline_request.cases)
  case (1 sp newId pid raw r1)
  from 1(1) show ?thesis unfolding createProjectEvent_def
  proof (cases rule: projectService_cases)
    case (ran ctx data x)
    then have "dd_events (ap_db t) = dd_events (ap_db s) @ [x]" "ve_id x = newId"
      by (auto simp: ok_iff Let_def newEvent_def split: if_splits)
    then show ?thesis using fact 1(2) by (auto simp: factIn_def eventsOk_def)
  qed (use fact in simp)
next
  case (5 n sp pid eid raw r5)
  from 5 show ?thesis unfolding confirmProjectEvent_def
  proof (cases rule: projectService_cases)
    case (ran ctx data x)
    then obtain e where "find (\<lambda>e. ve_id e = eid \<and> ve_tenantId e = cx_tenantId ctx \<and> ve_projectId e = pid)
        (dd_events (ap_db s)) = Some e"
      "ve_confirmationStatus e = UNCONFIRMED \<or> ve_confirmationStatus e = INSUFFICIENT_EVIDENCE"
      "dd_events (ap_db t) = updateWhere (\<lambda>x. ve_id x = ve_id e)
        (confirmedEvent (env\<lparr>en_now := n\<rparr>) ctx (confirmationOf data)) (dd_events (ap_db s))"
      by (auto simp: ok_iff)
    then show ?thesis using factIn_confirm[OF fact] by simp
  qed (use fact in simp)
next
  case (14 xs cs ps ds vs gs)
  then show ?thesis using fact by simp
next
  case (13 n sp newId rowIds ids pid ix raw r13)
  from 13(1)[unfolded recalculateDeadline_def] have "dd_events (ap_db t) = dd_events (ap_db s)"
    by (rule eventsKept.service_keeps) (auto simp: ok_iff Let_def dest!: internal_events supersede_events)
  then show ?thesis using fact by simp
next
  case 2
  from 2(1)[unfolded addProjectEventDate_def] have "dd_events (ap_db t) = dd_events (ap_db s)"
    by (rule eventsKept.service_keeps) (auto simp: ok_iff Let_def)
  then show ?thesis using fact by simp
next
  case 3
  from 3(1)[unfolded verifyProjectEventDate_def] have "dd_events (ap_db t) = dd_events (ap_db s)"
    by (rule eventsKept.action_keeps) (auto simp: ok_iff Let_def)
  then show ?thesis using fact by simp
next
  case 4
  from 4(1)[unfolded linkProjectEventEvidence_def] have "dd_events (ap_db t) = dd_events (ap_db s)"
    by (rule eventsKept.service_keeps) (auto simp: ok_iff Let_def split: if_splits)
  then show ?thesis using fact by simp
next
  case 6
  from 6(1)[unfolded confirmRuleApplicability_def] have "dd_events (ap_db t) = dd_events (ap_db s)"
    by (rule eventsKept.service_keeps) (auto simp: ok_iff Let_def)
  then show ?thesis using fact by simp
next
  case 7
  from 7(1)[unfolded createProjectCalendar_def] have "dd_events (ap_db t) = dd_events (ap_db s)"
    by (rule eventsKept.service_keeps) (auto simp: ok_iff Let_def)
  then show ?thesis using fact by simp
next
  case 8
  from 8(1)[unfolded createCalendarRevision_def] have "dd_events (ap_db t) = dd_events (ap_db s)"
    by (rule eventsKept.service_keeps) (auto simp: ok_iff Let_def)
  then show ?thesis using fact by simp
next
  case 9
  from 9(1)[unfolded approveCalendarRevision_def] have "dd_events (ap_db t) = dd_events (ap_db s)"
    by (rule eventsKept.action_keeps) (auto simp: ok_iff Let_def)
  then show ?thesis using fact by simp
next
  case 10
  from 10(1)[unfolded calculateEventDeadline_def] have "dd_events (ap_db t) = dd_events (ap_db s)"
    by (rule eventsKept.service_keeps) (auto simp: ok_iff Let_def dest!: internal_events)
  then show ?thesis using fact by simp
next
  case 11
  from 11(1)[unfolded verifyDeadlineCalculation_def] have "dd_events (ap_db t) = dd_events (ap_db s)"
    by (rule eventsKept.action_keeps) (auto simp: ok_iff Let_def)
  then show ?thesis using fact by simp
next
  case 12
  from 12(1)[unfolded createTrackedDeadline_def] have "dd_events (ap_db t) = dd_events (ap_db s)"
    by (rule eventsKept.action_keeps) (auto simp: ok_iff Let_def)
  then show ?thesis using fact by simp
qed

lemma factIn_unique:
  "factIn i es \<Longrightarrow> e \<in> set es \<Longrightarrow> ve_id e = i \<Longrightarrow> ve_confirmationStatus e = CONFIRMED_FACT"
  unfolding factIn_def eventsOk_def by (auto dest: distinct_key_unique[of ve_id es e])

text \<open>An event confirmed as a fact keeps this status along all requests, and \<open>calculateEventDeadline\<close>
  and \<open>confirmRuleApplicability\<close> refuse it: both want the other confirmation.  (A deadline that
  was calculated before may still be recalculated.)\<close>

lemma fact_confirmation_is_final:
  assumes "(deadline_request env)\<^sup>*\<^sup>* s t" and "factIn eid (dd_events (ap_db s))"
  shows "(\<exists>e\<in>set (dd_events (ap_db t)). ve_id e = eid \<and> ve_confirmationStatus e = CONFIRMED_FACT)
    \<and> fst (calculateEventDeadline env sp newId rowIds pid eid raw t) \<noteq> Inr c
    \<and> fst (confirmRuleApplicability env sp' newId pid eid raw' t) \<noteq> Inr a"
proof -
  have fact: "factIn eid (dd_events (ap_db t))"
    using assms(1) by (induction rule: rtranclp_induct) (auto intro: assms(2) factIn_step)
  have other: False if "find (\<lambda>e. ve_id e = eid \<and> ve_tenantId e = T \<and> ve_projectId e = pid) (dd_events (ap_db t))
      = Some e" "ve_confirmationStatus e = CONFIRMED_FOR_DEADLINE_ANALYSIS" for T e
    using factIn_unique[OF fact] find_SomeD[OF that(1)] that(2) by auto
  have "fst (calculateEventDeadline env sp newId rowIds pid eid raw t) \<noteq> Inr c"
  proof
    assume "fst (calculateEventDeadline env sp newId rowIds pid eid raw t) = Inr c"
    then obtain u where "calculateEventDeadline env sp newId rowIds pid eid raw t = (Inr c, u)"
      by (cases "calculateEventDeadline env sp newId rowIds pid eid raw t") simp
    then show False unfolding calculateEventDeadline_def
      by (cases rule: projectService_cases) (auto simp: ok_iff dest: other)
  qed
  moreover have "fst (confirmRuleApplicability env sp' newId pid eid raw' t) \<noteq> Inr a"
  proof
    assume "fst (confirmRuleApplicability env sp' newId pid eid raw' t) = Inr a"
    then obtain u where "confirmRuleApplicability env sp' newId pid eid raw' t = (Inr a, u)"
      by (cases "confirmRuleApplicability env sp' newId pid eid raw' t") simp
    then show False unfolding confirmRuleApplicability_def
      by (cases rule: projectService_cases) (auto simp: ok_iff dest: other)
  qed
  ultimately show ?thesis using fact unfolding factIn_def by blast
qed

section \<open>An organization with a tracked deadline\<close>

text \<open>
  The calendar of days above as date library, the rule of five days as stored rule, and one
  calculation that \<open>u7\<close> made and \<open>u8\<close> verified; its deadline is completed.
\<close>

definition storedSchemas :: "executable_rule engine_input schemas" where
  "storedSchemas = \<lparr>sc_input = (\<lambda>g. Inr \<lparr>rule = gi_rule g, triggerDateIso = gi_triggerDateIso g,
       triggerPrecision = gi_triggerPrecision g, calendar = gi_calendar g,
       internalWarningOffsetsDays = []\<rparr>), sc_rule = Inr, sc_calendar = Inr\<rparr>"

definition day_env :: "(int, executable_rule) deadlines_env" where
  "day_env = \<lparr>en_luxon = dayLuxon, en_schemas = storedSchemas,
     en_keysOf = (\<lambda>_. Some [''durationUnit'', ''counting'']), en_now = 50,
     en_parseDate = (\<lambda>x. Some (int (length x))), en_isoOf = (\<lambda>n. replicate (nat n) (CHR ''I'')),
     en_calculationSod = None, en_calendarSod = None\<rparr>"

definition demo_terms :: rule_terms where
  "demo_terms = \<lparr>rt_durationValue = Some 5, rt_durationUnit = Some ''CALENDAR_DAY'',
     rt_countingConvention = ''EXCLUSIVE'', rt_startDateRule = None, rt_endDateRule = None,
     rt_businessDayAdjustment = None\<rparr>"

definition demo_rule_snapshot :: "executable_rule rule_snapshot" where
  "demo_rule_snapshot = \<lparr>nr_id = ''x1'', nr_tenantId = ''A'', nr_projectId = ''p1'',
     nr_contractPackageId = ''k1'', nr_configurationRevisionId = ''g1'', nr_noticeCategory = None,
     nr_terms = demo_terms, nr_structuredRule = demoRule\<rparr>"

definition demo_date :: event_date where
  "demo_date = \<lparr>vd_id = ''d1'', vd_tenantId = ''A'', vd_projectId = ''p1'', vd_eventId = ''e1'',
     vd_dateType = ''OCCURRENCE_DATE'', vd_dateValue = 3, vd_timezone = ''UTC'',
     vd_precision = PR_EXACT_DATE, vd_notes = None, vd_assertedByUserId = ''u7'',
     vd_verificationStatus = DV_VERIFIED, vd_verifiedByUserId = Some ''u8'', vd_verifiedAt = Some 1\<rparr>"

definition demo_assessment_row :: assessment_row where
  "demo_assessment_row = \<lparr>va_id = ''a1'', va_tenantId = ''A'', va_projectId = ''p1'',
     va_eventId = ''e1'', va_contractPackageId = ''k1'', va_configurationRevisionId = ''g1'',
     va_snapshotId = ''x1'', va_applicabilityStatus = AP_APPLICABLE,
     va_assessmentSource = AS_HUMAN_CONFIRMED, va_reviewerUserId = Some ''u8'',
     va_reviewedAt = Some 1, va_rationale = Some ''applies''\<rparr>"

definition demo_calendar :: calendar_row where
  "demo_calendar = \<lparr>pc_id = ''c1'', pc_tenantId = ''A'', pc_projectId = ''p1'', pc_name = ''N'',
     pc_timezone = ''UTC'', pc_weekendDays = Some [6, 7], pc_source = ''PROJECT_POLICY'',
     pc_status = CA_APPROVED, pc_currentRevisionId = Some ''r1'', pc_createdByUserId = ''u7'',
     pc_approvedByUserId = Some ''u8''\<rparr>"

definition demo_revision :: revision_row where
  "demo_revision = \<lparr>pr_id = ''r1'', pr_tenantId = ''A'', pr_projectId = ''p1'',
     pr_calendarId = ''c1'', pr_revisionNumber = 1, pr_timezone = ''UTC'',
     pr_weekendDays = Some [6, 7], pr_holidayDates = None, pr_specialWorkingDays = None,
     pr_effectiveFrom = None, pr_effectiveTo = None, pr_status = CR_APPROVED,
     pr_approvedByUserId = Some ''u8'', pr_approvedAt = Some 1\<rparr>"

definition demo_answer :: calculate_result where
  "demo_answer = engineResult day_env demoRule demo_date demo_revision"

definition demo_calculation :: calculation_row where
  "demo_calculation = (newCalculation demo_ctx ''p1'' ''e1'' ''q1'' demo_assessment_row
     demo_rule_snapshot demo_date demo_revision 1 demo_answer (deadlineTime day_env demo_answer)
     None None)\<lparr>dc_status := DC_VERIFIED, dc_calculatedByUserId := ''u7'',
       dc_reviewedByUserId := Some ''u8'', dc_reviewedAt := Some 2\<rparr>"

definition demo_deadline :: deadline_row where
  "demo_deadline = (trackedDeadline demo_ctx ''p1'' ''w1'' demo_calculation demo_rule_snapshot [])
     \<lparr>pd_status := DS_COMPLETED\<rparr>"

definition demo_event :: "string \<Rightarrow> confirmation_status \<Rightarrow> event_row" where
  "demo_event i st = \<lparr>ve_id = i, ve_tenantId = ''A'', ve_projectId = ''p1'',
     ve_input = \<lparr>vi_title = ''T'', vi_description = None, vi_eventCategory = ''OTHER'',
       vi_eventSubcategory = None, vi_contractPackageId = None, vi_timezone = ''UTC'',
       vi_eventReference = None\<rparr>,
     ve_eventStatus = EVS_CONFIRMED, ve_confirmationStatus = st, ve_reportedByUserId = ''u7'',
     ve_confirmedByUserId = Some ''u8'', ve_confirmedAt = Some 1\<rparr>"

definition demo_deadlines :: "executable_rule deadlines_db" where
  "demo_deadlines = \<lparr>dd_packages = [], dd_documents = [], dd_versions = [], dd_segments = [],
     dd_configurations = [\<lparr>cg_id = ''g1'', cg_isActiveApproved = True, cg_approved = True\<rparr>],
     dd_snapshots = [demo_rule_snapshot],
     dd_events = [demo_event ''e1'' CONFIRMED_FOR_DEADLINE_ANALYSIS, demo_event ''e2'' CONFIRMED_FACT],
     dd_dates = [demo_date], dd_evidence = [], dd_assessments = [demo_assessment_row],
     dd_calendars = [demo_calendar], dd_revisions = [demo_revision],
     dd_calculations = [demo_calculation], dd_milestones = [], dd_deadlines = [demo_deadline],
     dd_history = []\<rparr>"

lemma adjustLoop_business: "isBusinessDay lx cal c \<Longrightarrow> adjustLoop g lx cal move c = c"
  by (cases g) simp_all

lemma demo_answer_spec:
  "status demo_answer = CALCULATED \<and> contractualDeadlineAt demo_answer = Some (replicate 8 (CHR ''I''))
   \<and> internalMilestones demo_answer = []"
proof -
  let ?g = "engineInput day_env demoRule demo_date demo_revision"
  let ?i = "\<lparr>rule = demoRule, triggerDateIso = replicate 3 (CHR ''I''), triggerPrecision = EXACT_DATE,
    calendar = utcCalendar, internalWarningOffsetsDays = []\<rparr>"
  have input: "sc_input storedSchemas ?g = Inr ?i"
    by (simp add: storedSchemas_def engineInput_def day_env_def demo_date_def demo_revision_def
        calendarRevisionToEngineInput_def utcCalendar_def)
  have reasons: "ruleReasons demoRule = []" by (simp add: ruleReasons_Nil demoRule_def)
  have checks: "validateExecutableRule (sc_rule storedSchemas) (rule ?i) = (True, [], Some demoRule)"
    "validateCalendarRevision dayLuxon (sc_calendar storedSchemas) (calendar ?i) = Inr utcCalendar"
    "validateTriggerDate dayLuxon (triggerDateIso ?i) (triggerPrecision ?i) (timezone (calendar ?i)) = Inr 3"
    using reasons by (simp_all add: validateExecutableRule_def validateCalendarRevision_def
        validateTriggerDate_def storedSchemas_def dayLuxon_def utcCalendar_def)
  have day: "deadlineDay dayLuxon demoRule utcCalendar 3 = 8"
  proof -
    have "lx_plusDays dayLuxon 3 (daysToAdd demoRule) = 8"
      by (simp add: dayLuxon_def daysToAdd_def demoRule_def rawDays_def)
    moreover have "adjustNonWorking dayLuxon utcCalendar FORWARD 8 = 8"
      by (simp add: adjustNonWorking_def adjustLoop_business)
    ultimately show ?thesis by (simp add: deadlineDay_def demoRule_def)
  qed
  have "demo_answer = computeDeadline dayLuxon ?i demoRule utcCalendar 3"
    using input checks by (simp add: demo_answer_def engineResult_def calculateDeadline_def day_env_def)
  moreover have "computable demoRule" by (simp add: computable_def demoRule_def)
  ultimately show ?thesis
    using computeDeadline_spec[of demoRule dayLuxon ?i utcCalendar 3] day
    by (simp add: milestonesOf_def dayLuxon_def dayText_def)
qed

lemmas demo_rows_defs = demo_rule_snapshot_def demo_date_def demo_assessment_row_def
  demo_revision_def demo_calendar_def demo_event_def

lemma demo_reproducible: "reproducible day_env demo_deadlines demo_calculation"
proof -
  have "citedRows demo_deadlines demo_calculation demo_rule_snapshot demo_date demo_revision demo_assessment_row"
    by (simp add: citedRows_def demo_deadlines_def demo_calculation_def newCalculation_def
        demo_rows_defs isExact_def)
  moreover have "engineResult day_env (nr_structuredRule demo_rule_snapshot) demo_date demo_revision = demo_answer"
    by (simp add: demo_answer_def demo_rule_snapshot_def)
  then have "engineAnswer day_env demo_calculation demo_rule_snapshot demo_date demo_revision"
    using demo_answer_spec by (simp add: engineAnswer_def demo_calculation_def newCalculation_def Let_def)
  ultimately show ?thesis unfolding reproducible_def by blast
qed

lemma demo_inv: "deadlineInv day_env demo_deadlines"
proof -
  have "calculationsOk day_env demo_deadlines"
    using demo_reproducible by (simp add: calculationsOk_def calculationOk_def demo_deadlines_def)
      (simp add: demo_calculation_def newCalculation_def)
  moreover have "calendarsOk (dd_calendars demo_deadlines) (dd_revisions demo_deadlines)"
    by (simp add: calendarsOk_def demo_deadlines_def demo_rows_defs)
  moreover have "deadlinesOk (dd_calculations demo_deadlines) (dd_deadlines demo_deadlines)"
    by (simp add: deadlinesOk_def demo_deadlines_def demo_deadline_def trackedDeadline_def
        demo_calculation_def newCalculation_def)
  ultimately show ?thesis by (simp add: deadlineInv_def)
qed

lemma owner_events: "EventCap c \<in> resolveCapabilities TENANT_OWNER None (Some P_ACTIVE)"
  by (cases c) (simp_all add: mem_resolve capabilitiesForTenantRole_def DOCUMENT_MANAGE_def
      EVENT_DEADLINE_def)

lemma demo_events_granted: "granted (demo_app d) ''p1'' (EventCap c) demo_ctx"
  by (rule demo_granted[OF owner_events, of _ "[]"]) (simp add: demo_app_def demo_state_def)

lemma demo_app_db [simp]: "ap_db (demo_app d) = d"
  by (simp add: demo_app_def)

definition day_recalculation :: "string \<Rightarrow> string list + recalculation_input" where
  "day_recalculation raw = Inr \<lparr>cl_triggerDateId = None, cl_calendarRevisionId = None,
     cl_reason = ''again''\<rparr>"

lemma demo_lookups:
  "findCalculation ''A'' ''p1'' ''q1'' demo_deadlines = Some demo_calculation"
  "findApplicable ''A'' ''p1'' ''e1'' ''a1'' demo_deadlines = Some demo_assessment_row"
  "snapshotOfAssessment demo_assessment_row demo_deadlines = Some demo_rule_snapshot"
  "findTrigger ''A'' ''p1'' ''e1'' ''d1'' demo_deadlines = Some demo_date"
  "findApprovedRevision ''A'' ''p1'' ''r1'' demo_deadlines = Some demo_revision"
  "configurationActive (nr_configurationRevisionId demo_rule_snapshot) demo_deadlines"
  "liveDeadlines ''q1'' demo_deadlines = [demo_deadline]"
  subgoal by (simp add: findCalculation_def demo_deadlines_def demo_calculation_def newCalculation_def)
  subgoal by (simp add: findApplicable_def demo_deadlines_def demo_assessment_row_def)
  subgoal by (simp add: snapshotOfAssessment_def demo_deadlines_def demo_assessment_row_def demo_rule_snapshot_def)
  subgoal by (simp add: findTrigger_def demo_deadlines_def demo_date_def isExact_def)
  subgoal by (simp add: findApprovedRevision_def demo_deadlines_def demo_revision_def)
  subgoal by (simp add: configurationActive_def demo_deadlines_def demo_rule_snapshot_def)
  subgoal by (simp add: liveDeadlines_def demo_deadlines_def demo_deadline_def trackedDeadline_def
        isLive_def demo_calculation_def newCalculation_def)
  done

lemma demo_calculation_columns:
  "dc_status demo_calculation = DC_VERIFIED" "dc_id demo_calculation = ''q1''"
  "dc_triggerDateId demo_calculation = Some ''d1''" "dc_eventId demo_calculation = ''e1''"
  "dc_assessmentId demo_calculation = ''a1''" "dc_calendarRevisionId demo_calculation = ''r1''"
  by (simp_all add: demo_calculation_def newCalculation_def demo_rows_defs)

lemma demo_internal:
  "\<exists>c u. calculateEventDeadlineInternal day_env demo_ctx ''q2'' (\<lambda>n. ''m'') ''p1'' ''e1''
     \<lparr>cn_assessmentId = ''a1'', cn_calendarRevisionId = ''r1'', cn_triggerDateId = ''d1''\<rparr>
     (Some ''q1'') (Some ''again'') (demo_app demo_deadlines) = (Inr c, u)
     \<and> dd_deadlines (ap_db u) = dd_deadlines demo_deadlines"
proof -
  have answer: "engineResult day_env (nr_structuredRule demo_rule_snapshot) demo_date demo_revision = demo_answer"
    by (simp add: demo_answer_def demo_rule_snapshot_def)
  have rule: "snapshotStructuredRule day_env j s = (Inr j, s)" for j and s :: "executable_rule deadlines_db app_state"
    by (simp add: snapshotStructuredRule_def day_env_def)
  have due: "dateColumn day_env (Some (replicate 8 (CHR ''I''))) s = (Inr (Some 8), s)"
    for s :: "executable_rule deadlines_db app_state"
    by (simp add: dateColumn_def day_env_def)
  show ?thesis
    using demo_answer_spec
    by (simp add: calculateEventDeadlineInternal_def bindH_def thenH_def demo_lookups answer rule due
        Let_def storeMilestones_def)
qed

lemma demo_recalculation:
  "\<exists>c t. recalculateDeadline day_env day_recalculation ''q2'' (\<lambda>n. ''m'') (\<lambda>n. ''w2'') ''p1'' ''q1'' ''{}''
     (demo_app demo_deadlines) = (Inr c, t)"
proof -
  obtain c u where calc: "calculateEventDeadlineInternal day_env demo_ctx ''q2'' (\<lambda>n. ''m'') ''p1'' ''e1''
     \<lparr>cn_assessmentId = ''a1'', cn_calendarRevisionId = ''r1'', cn_triggerDateId = ''d1''\<rparr>
     (Some ''q1'') (Some ''again'') (demo_app demo_deadlines) = (Inr c, u)"
    and ds: "dd_deadlines (ap_db u) = dd_deadlines demo_deadlines"
    using demo_internal by blast
  have "liveDeadlines ''q1'' (ap_db u) = [demo_deadline]"
    using demo_lookups(7) ds by (simp add: liveDeadlines_def)
  then have live: "liveDeadlines ''q1'' ((ap_db u)\<lparr>dd_calculations := cs\<rparr>) = [demo_deadline]" for cs
    by (simp add: liveDeadlines_def)
  have parse: "day_recalculation ''{}'' = Inr \<lparr>cl_triggerDateId = None, cl_calendarRevisionId = None,
      cl_reason = ''again''\<rparr>" by (simp add: day_recalculation_def)
  show ?thesis
    by (simp add: recalculateDeadline_def projectService_run[where sp = day_recalculation and raw = "''{}''", OF demo_events_granted parse]
        transactionH_def bindH_def thenH_def demo_lookups demo_calculation_columns calc live
        updateCalculation_def supersedeDeadline_def Let_def)
qed

lemma calculations_reproducible_witness:
  "\<exists>x tr r a. citedRows demo_deadlines demo_calculation x tr r a \<and> engineAnswer day_env demo_calculation x tr r"
  using calculations_reproducible[OF rtranclp.rtrancl_refl, of day_env "demo_app demo_deadlines" demo_calculation]
    demo_inv by (simp add: demo_deadlines_def) blast

lemma verified_by_another_witness:
  "\<exists>u. dc_reviewedByUserId demo_calculation = Some u \<and> u \<noteq> dc_calculatedByUserId demo_calculation"
proof -
  have "demo_calculation \<in> set (dd_calculations demo_deadlines)" "dc_status demo_calculation = DC_VERIFIED"
    "en_calculationSod day_env \<noteq> Some ''false''"
    by (simp_all add: demo_deadlines_def demo_calculation_def newCalculation_def day_env_def)
  then show ?thesis
    using verified_by_another[OF rtranclp.rtrancl_refl, of day_env "demo_app demo_deadlines" demo_calculation]
      demo_inv unfolding demo_app_db by blast
qed

lemma one_approved_revision_witness:
  "\<exists>c\<in>set (dd_calendars demo_deadlines). pc_id c = pr_calendarId demo_revision
     \<and> pc_currentRevisionId c = Some (pr_id demo_revision)"
proof -
  have "demo_revision \<in> set (dd_revisions demo_deadlines)" "pr_status demo_revision = CR_APPROVED"
    by (simp_all add: demo_deadlines_def demo_revision_def)
  then show ?thesis
    using one_approved_revision[OF rtranclp.rtrancl_refl, of day_env "demo_app demo_deadlines" demo_revision]
      demo_inv unfolding demo_app_db by blast
qed

lemma one_live_deadline_witness:
  "liveDeadlines (pd_calculationId demo_deadline) demo_deadlines = [demo_deadline]"
proof -
  have "demo_deadline \<in> set (dd_deadlines demo_deadlines)" "isLive demo_deadline"
    by (simp_all add: demo_deadlines_def demo_deadline_def isLive_def)
  then show ?thesis
    using one_live_deadline[OF rtranclp.rtrancl_refl, of day_env "demo_app demo_deadlines" demo_deadline]
      demo_inv unfolding demo_app_db by blast
qed

lemma fact_confirmation_is_final_witness:
  "\<exists>e\<in>set (dd_events demo_deadlines). ve_id e = ''e2'' \<and> ve_confirmationStatus e = CONFIRMED_FACT"
proof -
  have "factIn ''e2'' (dd_events demo_deadlines)"
    by (simp add: factIn_def eventsOk_def demo_deadlines_def demo_event_def)
  then show ?thesis
    using fact_confirmation_is_final[OF rtranclp.rtrancl_refl, of "''e2''" "demo_app demo_deadlines"
        day_env "\<lambda>_ :: string. Inl []" "[]" "\<lambda>_. []" "[]" "[]" _ "\<lambda>_ :: string. Inl []" "[]"]
    unfolding demo_app_db by blast
qed

lemma recalculation_tracks_unverified_witness:
  "\<exists>c t. recalculateDeadline day_env day_recalculation ''q2'' (\<lambda>n. ''m'') (\<lambda>n. ''w2'') ''p1'' ''q1'' ''{}''
       (demo_app demo_deadlines) = (Inr c, t)
     \<and> pd_status demo_deadline = DS_COMPLETED
     \<and> (\<exists>x\<in>set (dd_deadlines (ap_db t)). isLive x \<and> pd_status x = DS_UPCOMING \<and> pd_calculationId x = dc_id c)
     \<and> dc_status c \<noteq> DC_VERIFIED"
proof -
  obtain c t where run: "recalculateDeadline day_env day_recalculation ''q2'' (\<lambda>n. ''m'') (\<lambda>n. ''w2'')
      ''p1'' ''q1'' ''{}'' (demo_app demo_deadlines) = (Inr c, t)"
    using demo_recalculation by blast
  have fresh: "range (\<lambda>n :: nat. ''w2'') \<inter> pd_id ` set (dd_deadlines (ap_db (demo_app demo_deadlines))) = {}"
    by (simp add: demo_deadlines_def demo_deadline_def trackedDeadline_def)
  have old: "demo_deadline \<in> set (liveDeadlines ''q1'' (ap_db (demo_app demo_deadlines)))"
    by (simp add: demo_lookups)
  have inv: "deadlineInv day_env (ap_db (demo_app demo_deadlines))" by (simp add: demo_inv)
  note tracked = recalculation_tracks_unverified[OF run inv fresh old]
  have "pd_status demo_deadline = DS_COMPLETED" by (simp add: demo_deadline_def)
  then show ?thesis using run tracked by (intro exI[of _ c] exI[of _ t]) auto
qed

end
