(* ===== verification/NoticeProperties.thy ===== *)
theory NoticeProperties
  imports NoticeTracking NoticeDrafting DeadlineTracking
begin

text \<open>
  The invariants of the notice packages along every step, and what the operations promise: one
  active approved revision per package, approvals apart from the authors, approved texts that no
  request changes, exports of approved revisions only.
\<close>

section \<open>The rows\<close>

lemma unstatused_rows:
  assumes "unstatused qs = unstatused ps"
  shows "map packageKey qs = map packageKey ps"
    "map (\<lambda>p. (nk_id p, nk_tenantId p)) qs = map (\<lambda>p. (nk_id p, nk_tenantId p)) ps"
    "(\<lambda>p. (nk_id p, nk_activeApprovedRevisionId p)) ` set qs
      = (\<lambda>p. (nk_id p, nk_activeApprovedRevisionId p)) ` set ps"
proof -
  have keys: "map (\<lambda>p. g (p\<lparr>nk_status := NP_DRAFT\<rparr>)) qs = map (\<lambda>p. g (p\<lparr>nk_status := NP_DRAFT\<rparr>)) ps" for g :: "package_row \<Rightarrow> 'b"
    using arg_cong[OF assms, of "map g"] by (simp add: unstatused_def comp_def)
  show "map packageKey qs = map packageKey ps"
    using keys[of packageKey] by (simp add: packageKey_def[abs_def])
  show "map (\<lambda>p. (nk_id p, nk_tenantId p)) qs = map (\<lambda>p. (nk_id p, nk_tenantId p)) ps"
    using keys[of "\<lambda>p. (nk_id p, nk_tenantId p)"] by simp
  show "(\<lambda>p. (nk_id p, nk_activeApprovedRevisionId p)) ` set qs
      = (\<lambda>p. (nk_id p, nk_activeApprovedRevisionId p)) ` set ps"
    using arg_cong[OF keys[of "\<lambda>p. (nk_id p, nk_activeApprovedRevisionId p)"], of set] by simp
qed

lemma packageKey_maps:
  assumes "map packageKey qs = map packageKey ps"
  shows "map nk_id qs = map nk_id ps"
    "map (\<lambda>p. (nk_id p, nk_tenantId p)) qs = map (\<lambda>p. (nk_id p, nk_tenantId p)) ps"
  using arg_cong[OF assms, of "map fst"] arg_cong[OF assms, of "map (\<lambda>k. (fst k, fst (snd k)))"]
  by (simp_all add: packageKey_def comp_def)

lemma draftKey_maps:
  assumes "map draftKey qs = map draftKey rs"
  shows "map nv_id qs = map nv_id rs"
    "map (\<lambda>r. (nv_noticePackageId r, nv_tenantId r)) qs = map (\<lambda>r. (nv_noticePackageId r, nv_tenantId r)) rs"
    "map (\<lambda>r. (nv_noticePackageId r, nv_revisionNumber r)) qs
      = map (\<lambda>r. (nv_noticePackageId r, nv_revisionNumber r)) rs"
  using arg_cong[OF assms, of "map fst"]
    arg_cong[OF assms, of "map (\<lambda>k. (fst (snd (snd k)), fst (snd k)))"]
    arg_cong[OF assms, of "map (\<lambda>k. (fst (snd (snd k)), fst (snd (snd (snd k)))))"]
  by (simp_all add: draftKey_def comp_def)

lemma rowsOk_keys:
  assumes "rowsOk ps rs ss" and "map packageKey qs = map packageKey ps"
    and "map draftKey ts = map draftKey rs" and "map nw_id us = map nw_id ss"
    and "map nw_draftRevisionId us = map nw_draftRevisionId ss"
  shows "rowsOk qs ts us"
proof -
  note p = packageKey_maps[OF assms(2)] and r = draftKey_maps[OF assms(3)]
  show ?thesis
    using assms(1) unfolding rowsOk_def set_map[symmetric] p r assms(4,5) .
qed

lemma draftKey_review: "reviewChange f \<Longrightarrow> draftKey (f r) = draftKey r"
  by (simp add: reviewChange_def draftKey_def)

lemma draftKey_status [simp]:
  "draftKey (r\<lparr>nv_status := a\<rparr>) = draftKey r"
  "draftKey (r\<lparr>nv_status := a, nv_approvedAt := b\<rparr>) = draftKey r"
  by (simp_all add: draftKey_def)

lemma draftKey_supersede: "map draftKey (supersedeIn a T rs) = map draftKey rs"
  by (simp add: supersedeIn_def map_updateWhere)

text \<open>The number of a new revision is greater than those of the package.\<close>

lemma nextRevisionNumber_fresh:
  assumes "r \<in> set (nt_drafts d)" and "nv_tenantId r = T" and "nv_noticePackageId r = nid"
  shows "nv_revisionNumber r < nextRevisionNumber T nid d"
proof -
  have "nv_revisionNumber r \<in> insert 0 (set (map nv_revisionNumber (draftsOf T nid d)))"
    using assms by (simp add: draftsOf_def)
  then have "nv_revisionNumber r \<le> Max (insert 0 (set (map nv_revisionNumber (draftsOf T nid d))))"
    by (intro Max_ge) auto
  then show ?thesis by (simp add: nextRevisionNumber_def)
qed

lemma tenant_of_package:
  assumes ok: "rowsOk ps rs ss" and "x \<in> set rs" and p: "p \<in> set ps" "nv_noticePackageId x = nk_id p"
  shows "nv_tenantId x = nk_tenantId p"
proof -
  have "(nv_noticePackageId x, nv_tenantId x) \<in> (\<lambda>p. (nk_id p, nk_tenantId p)) ` set ps"
    using ok assms(2) unfolding rowsOk_def by blast
  then obtain q where "q \<in> set ps" "nk_id q = nv_noticePackageId x" "nk_tenantId q = nv_tenantId x"
    by auto
  then show ?thesis
    using ok p distinct_key_unique[of nk_id ps q p] by (simp add: rowsOk_def)
qed

lemma rowsOk_draft:
  assumes ok: "rowsOk (nt_packages d) (nt_drafts d) (nt_sections d)" and p: "p \<in> set (nt_packages d)"
    and r: "nv_noticePackageId r = nk_id p" "nv_tenantId r = nk_tenantId p"
      "nv_id r \<notin> nv_id ` set (nt_drafts d)" "nv_id r \<noteq> []"
      "nv_revisionNumber r = nextRevisionNumber (nk_tenantId p) (nk_id p) d"
    and xs: "set (map nw_draftRevisionId xs) \<subseteq> {nv_id r}" "distinct (map nw_id xs)"
      "nw_id ` set xs \<inter> nw_id ` set (nt_sections d) = {}"
  shows "rowsOk (nt_packages d) (nt_drafts d @ [r]) (nt_sections d @ xs)"
proof -
  have number: "nv_revisionNumber q \<noteq> nv_revisionNumber r"
    if q: "q \<in> set (nt_drafts d)" "nv_noticePackageId q = nk_id p" for q
  proof -
    have "nv_tenantId q = nk_tenantId p" by (rule tenant_of_package[OF ok q(1) p q(2)])
    then show ?thesis using nextRevisionNumber_fresh[OF q(1) _ q(2)] r(5) by fastforce
  qed
  have "(nv_noticePackageId r, nv_revisionNumber r)
      \<notin> set (map (\<lambda>r. (nv_noticePackageId r, nv_revisionNumber r)) (nt_drafts d))"
  proof
    assume "(nv_noticePackageId r, nv_revisionNumber r)
      \<in> set (map (\<lambda>r. (nv_noticePackageId r, nv_revisionNumber r)) (nt_drafts d))"
    then obtain q where "q \<in> set (nt_drafts d)" "nv_noticePackageId q = nv_noticePackageId r"
      "nv_revisionNumber q = nv_revisionNumber r" by auto
    then show False using number[of q] r(1) by simp
  qed
  moreover have "(\<lambda>r. (nv_noticePackageId r, nv_tenantId r)) ` set (nt_drafts d @ [r])
      \<subseteq> (\<lambda>p. (nk_id p, nk_tenantId p)) ` set (nt_packages d)"
    using ok p r(1,2) by (auto simp: rowsOk_def)
  moreover have "nw_draftRevisionId ` set (nt_sections d @ xs) \<subseteq> nv_id ` set (nt_drafts d @ [r])"
    using ok xs(1) by (auto simp: rowsOk_def)
  moreover have "distinct (map nw_id (nt_sections d @ xs))"
    using ok xs by (simp add: rowsOk_def Int_commute)
  ultimately show ?thesis
    using ok r unfolding rowsOk_def by simp
qed

lemma rowsOk_step:
  assumes "package_step d e" and ok: "rowsOk (nt_packages d) (nt_drafts d) (nt_sections d)"
  shows "rowsOk (nt_packages e) (nt_drafts e) (nt_sections e)"
  using assms(1)
proof (cases rule: package_step.cases)
  case others
  then show ?thesis
    using rowsOk_keys[OF ok unstatused_rows(1)] by (simp add: packageTables_def)
next
  case (create p)
  then show ?thesis using ok by (auto simp: packageTables_def rowsOk_def)
next
  case (draft p r xs)
  have "rowsOk (nt_packages d) (nt_drafts d @ [r]) (nt_sections d @ xs)"
    using rowsOk_draft[OF ok draft(1-5,7-10)] .
  then show ?thesis
    using rowsOk_keys[OF _ unstatused_rows(1)[OF draft(11)]] draft(12) by (simp add: packageTables_def)
next
  case (edit x r body)
  then show ?thesis
    using rowsOk_keys[OF ok refl refl, of "nt_sections e"]
    by (simp add: packageTables_def map_updateWhere editSection_def)
next
  case (review r T f xs)
  then show ?thesis
    using rowsOk_keys[OF ok unstatused_rows(1)[OF review(6)], of "nt_drafts e" "nt_sections e"]
    by (simp add: packageTables_def map_updateWhere draftKey_review)
next
  case (decide x)
  then show ?thesis using ok by (simp add: packageTables_def)
next
  case (approve p r ctx v n i pid w)
  have "map packageKey (nt_packages e) = map packageKey (nt_packages d)"
    "map draftKey (nt_drafts e) = map draftKey (nt_drafts d)"
    using approve(9) by (simp_all add: packageTables_def map_updateWhere packageKey_def draftKey_supersede)
  then show ?thesis
    using rowsOk_keys[OF ok, of "nt_packages e" "nt_drafts e" "nt_sections e"] approve(9)
    by (simp add: packageTables_def)
qed

section \<open>One active revision\<close>

lemma activeOk_packages:
  assumes "activeOk ps rs" and "(\<lambda>p. (nk_id p, nk_activeApprovedRevisionId p)) ` set qs
      = (\<lambda>p. (nk_id p, nk_activeApprovedRevisionId p)) ` set ps"
  shows "activeOk qs rs"
proof -
  have fwd: "\<exists>p\<in>set ps. nk_id p = nk_id q \<and> nk_activeApprovedRevisionId p = nk_activeApprovedRevisionId q"
    if "q \<in> set qs" for q
  proof -
    have "(nk_id q, nk_activeApprovedRevisionId q) \<in> (\<lambda>p. (nk_id p, nk_activeApprovedRevisionId p)) ` set ps"
      using that assms(2) by blast
    then show ?thesis by auto
  qed
  have bwd: "\<exists>q\<in>set qs. nk_id q = nk_id p \<and> nk_activeApprovedRevisionId q = nk_activeApprovedRevisionId p"
    if "p \<in> set ps" for p
  proof -
    have "(nk_id p, nk_activeApprovedRevisionId p) \<in> (\<lambda>p. (nk_id p, nk_activeApprovedRevisionId p)) ` set qs"
      using that assms(2) by blast
    then show ?thesis by auto
  qed
  show ?thesis
    unfolding activeOk_def
  proof (intro conjI ballI allI impI)
    fix q i assume "q \<in> set qs" "nk_activeApprovedRevisionId q = Some i"
    then show "\<exists>r\<in>set rs. nv_id r = i \<and> nv_noticePackageId r = nk_id q \<and> nv_status r = DF_APPROVED"
      using fwd[of q] assms(1) unfolding activeOk_def by metis
  next
    fix r assume "r \<in> set rs" "nv_status r = DF_APPROVED"
    then show "\<exists>q\<in>set qs. nk_id q = nv_noticePackageId r \<and> nk_activeApprovedRevisionId q = Some (nv_id r)"
      using bwd assms(1) unfolding activeOk_def by metis
  qed
qed

lemma activeOk_draft: "activeOk ps rs \<Longrightarrow> nv_status r = DF_DRAFT \<Longrightarrow> activeOk ps (rs @ [r])"
  unfolding activeOk_def by auto

text \<open>A change of a revision that is not approved, and stays so.\<close>

lemma activeOk_review:
  assumes ok: "activeOk ps rs" and dist: "distinct (map nv_id rs)" and r: "r \<in> set rs" "nv_tenantId r = T"
    "nv_status r \<noteq> DF_APPROVED" and f: "reviewChange f"
  shows "activeOk ps (updateWhere (atDraft (nv_id r) T) f rs)"
proof -
  have same: "x = r" if "x \<in> set rs" "atDraft (nv_id r) T x" for x
    using that distinct_key_unique[OF dist that(1) r(1)] by (simp add: atDraft_def)
  have kept: "x \<in> set (updateWhere (atDraft (nv_id r) T) f rs)"
    if "x \<in> set rs" "nv_status x = DF_APPROVED" for x
    using that same[of x] r(3) updateWhere_mem[OF that(1), of "atDraft (nv_id r) T" f] by metis
  have old: "x \<in> set rs" if x: "x \<in> set (updateWhere (atDraft (nv_id r) T) f rs)" "nv_status x = DF_APPROVED" for x
  proof -
    obtain y where y: "y \<in> set rs" "x = (if atDraft (nv_id r) T y then f y else y)"
      using updateWhere_elem[OF x(1)] by blast
    then show ?thesis using same[of y] f x(2) r(3) by (auto simp: reviewChange_def split: if_splits)
  qed
  show ?thesis using ok kept old unfolding activeOk_def by metis
qed

text \<open>What an approval makes of the rows.\<close>

definition approvedPackage :: "package_row \<Rightarrow> draft_row \<Rightarrow> string \<Rightarrow> package_row \<Rightarrow> package_row" where
  "approvedPackage p r u q = (if nk_id q = nk_id p
     then q\<lparr>nk_status := NP_APPROVED, nk_activeApprovedRevisionId := Some (nv_id r),
       nk_approverUserId := Some u\<rparr> else q)"

definition approvedDraft :: "package_row \<Rightarrow> draft_row \<Rightarrow> int \<Rightarrow> draft_row \<Rightarrow> draft_row" where
  "approvedDraft p r n x =
     (if nv_id x = nv_id r then x\<lparr>nv_status := DF_APPROVED, nv_approvedAt := Some n\<rparr>
      else if nk_activeApprovedRevisionId p = Some (nv_id x) then x\<lparr>nv_status := DF_SUPERSEDED\<rparr>
      else x)"

lemma approved_rows:
  assumes ok: "activeOk ps rs" and rows: "rowsOk ps rs ss" and p: "p \<in> set ps" and r: "r \<in> set rs"
    "nv_noticePackageId r = nk_id p" "nv_status r \<noteq> DF_APPROVED"
  shows "updateWhere (\<lambda>q. nk_id q = nk_id p \<and> nk_tenantId q = nk_tenantId p)
      (\<lambda>q. q\<lparr>nk_status := NP_APPROVED, nk_activeApprovedRevisionId := Some (nv_id r),
        nk_approverUserId := Some u\<rparr>) ps = map (approvedPackage p r u) ps" (is ?packages)
    "updateWhere (atDraft (nv_id r) (nk_tenantId p))
      (\<lambda>r. r\<lparr>nv_status := DF_APPROVED, nv_approvedAt := Some n\<rparr>)
      (supersedeIn (nk_activeApprovedRevisionId p) (nk_tenantId p) rs) = map (approvedDraft p r n) rs"
      (is ?drafts)
proof -
  have dp: "distinct (map nk_id ps)" and dr: "distinct (map nv_id rs)" using rows by (simp_all add: rowsOk_def)
  show ?packages
    using distinct_key_unique[OF dp _ p] by (auto simp: updateWhere_def approvedPackage_def)
  have active: "nv_tenantId x = nk_tenantId p" "nv_status x = DF_APPROVED" "nv_id x \<noteq> []"
    if x: "x \<in> set rs" "nk_activeApprovedRevisionId p = Some (nv_id x)" for x
  proof -
    obtain q where "q \<in> set rs" "nv_id q = nv_id x" "nv_noticePackageId q = nk_id p" "nv_status q = DF_APPROVED"
      using ok p x(2) unfolding activeOk_def by metis
    then have "nv_noticePackageId x = nk_id p" "nv_status x = DF_APPROVED"
      using distinct_key_unique[OF dr _ x(1), of q] by auto
    then show "nv_tenantId x = nk_tenantId p" "nv_status x = DF_APPROVED" "nv_id x \<noteq> []"
      using tenant_of_package[OF rows x(1) p] rows imageI[OF x(1), of nv_id]
      unfolding rowsOk_def by metis+
  qed
  have mid: "supersedeIn (nk_activeApprovedRevisionId p) (nk_tenantId p) rs
      = map (\<lambda>x. if nk_activeApprovedRevisionId p = Some (nv_id x) then x\<lparr>nv_status := DF_SUPERSEDED\<rparr> else x) rs"
  proof (cases "nk_activeApprovedRevisionId p")
    case None
    then show ?thesis by (simp add: supersedeIn_def)
  next
    case (Some i)
    then have "atDraft i (nk_tenantId p) x \<longleftrightarrow> i = nv_id x" if "x \<in> set rs" for x
      using active(1)[OF that] by (auto simp: atDraft_def)
    moreover have "i \<noteq> []" using ok p Some active(3) unfolding activeOk_def by metis
    ultimately show ?thesis by (simp add: Some supersedeIn_def updateWhere_def)
  qed
  show ?drafts
    using tenant_of_package[OF rows r(1) p r(2)] distinct_key_unique[OF dr _ r(1)] active r(3)
    unfolding mid updateWhere_def by (auto simp: approvedDraft_def atDraft_def)
qed

lemma activeOk_approve:
  assumes ok: "activeOk ps rs" and rows: "rowsOk ps rs ss" and p: "p \<in> set ps" and r: "r \<in> set rs"
    "nv_noticePackageId r = nk_id p" "nv_status r \<noteq> DF_APPROVED"
  shows "activeOk (map (approvedPackage p r u) ps) (map (approvedDraft p r n) rs)"
  unfolding activeOk_def
proof (intro conjI ballI allI impI)
  have dp: "distinct (map nk_id ps)" and dr: "distinct (map nv_id rs)" using rows by (simp_all add: rowsOk_def)
  fix q i assume q: "q \<in> set (map (approvedPackage p r u) ps)" "nk_activeApprovedRevisionId q = Some i"
  then obtain p0 where p0: "p0 \<in> set ps" "q = approvedPackage p r u p0" by auto
  show "\<exists>x\<in>set (map (approvedDraft p r n) rs). nv_id x = i \<and> nv_noticePackageId x = nk_id q
      \<and> nv_status x = DF_APPROVED"
  proof (cases "nk_id p0 = nk_id p")
    case True
    have "approvedDraft p r n r \<in> set (map (approvedDraft p r n) rs)" using r(1) by simp
    then show ?thesis
      using True q p0 r(2) by (intro bexI[of _ "approvedDraft p r n r"])
        (auto simp: approvedDraft_def approvedPackage_def)
  next
    case False
    then obtain x where x: "x \<in> set rs" "nv_id x = i" "nv_noticePackageId x = nk_id p0" "nv_status x = DF_APPROVED"
      using ok q(2) p0 unfolding activeOk_def approvedPackage_def by auto
    have "nv_id x \<noteq> nv_id r" using distinct_key_unique[OF dr x(1) r(1)] x(4) r(3) by auto
    moreover have "nk_activeApprovedRevisionId p \<noteq> Some (nv_id x)"
    proof
      assume "nk_activeApprovedRevisionId p = Some (nv_id x)"
      then obtain z where "z \<in> set rs" "nv_id z = nv_id x" "nv_noticePackageId z = nk_id p"
        using ok p unfolding activeOk_def by metis
      then show False using distinct_key_unique[OF dr _ x(1), of z] x(3) False by simp
    qed
    ultimately have "approvedDraft p r n x = x" by (simp add: approvedDraft_def)
    then show ?thesis
      using x False p0 by (intro bexI[of _ x]) (auto simp: approvedPackage_def intro: rev_image_eqI)
  qed
next
  have dp: "distinct (map nk_id ps)" and dr: "distinct (map nv_id rs)" using rows by (simp_all add: rowsOk_def)
  fix x assume x: "x \<in> set (map (approvedDraft p r n) rs)" "nv_status x = DF_APPROVED"
  then obtain y where y: "y \<in> set rs" "x = approvedDraft p r n y" by auto
  show "\<exists>q\<in>set (map (approvedPackage p r u) ps). nk_id q = nv_noticePackageId x
      \<and> nk_activeApprovedRevisionId q = Some (nv_id x)"
  proof (cases "nv_id y = nv_id r")
    case True
    then have "y = r" using distinct_key_unique[OF dr y(1) r(1)] by simp
    then show ?thesis
      using y p r(2) by (intro bexI[of _ "approvedPackage p r u p"])
        (auto simp: approvedDraft_def approvedPackage_def)
  next
    case False
    then have same: "x = y" "nk_activeApprovedRevisionId p \<noteq> Some (nv_id y)"
      using x(2) y(2) by (auto simp: approvedDraft_def split: if_splits)
    then obtain p0 where p0: "p0 \<in> set ps" "nk_id p0 = nv_noticePackageId y"
      "nk_activeApprovedRevisionId p0 = Some (nv_id y)"
      using ok y(1) x(2) unfolding activeOk_def by metis
    then have "nk_id p0 \<noteq> nk_id p" using distinct_key_unique[OF dp p0(1) p] same(2) by auto
    then have "approvedPackage p r u p0 = p0" by (simp add: approvedPackage_def)
    then show ?thesis using p0 same(1) by (intro bexI[of _ p0]) (auto intro: rev_image_eqI)
  qed
qed

lemma activeOk_step:
  assumes "package_step d e" and rows: "rowsOk (nt_packages d) (nt_drafts d) (nt_sections d)"
    and ok: "activeOk (nt_packages d) (nt_drafts d)"
  shows "activeOk (nt_packages e) (nt_drafts e)"
  using assms(1)
proof (cases rule: package_step.cases)
  case others
  then show ?thesis
    using activeOk_packages[OF ok unstatused_rows(3)] by (simp add: packageTables_def)
next
  case (create p)
  have "p \<in> set (nt_packages d @ [p])" by simp
  then show ?thesis
    using ok create(2,3) unfolding activeOk_def by (auto simp: packageTables_def)
next
  case (draft p r xs)
  then show ?thesis
    using activeOk_packages[OF activeOk_draft[OF ok draft(6)] unstatused_rows(3)[OF draft(11)]]
    by (simp add: packageTables_def)
next
  case (review r T f xs)
  have "distinct (map nv_id (nt_drafts d))" using rows by (simp add: rowsOk_def)
  then show ?thesis
    using activeOk_packages[OF activeOk_review[OF ok _ review(1-4)] unstatused_rows(3)[OF review(6)]] review(7)
    by (simp add: packageTables_def)
next
  case (approve p r ctx v n i pid w)
  then show ?thesis
    using activeOk_approve[OF ok rows approve(1-3,5), of "userId ctx" n]
      approved_rows[OF ok rows approve(1-3,5)]
    by (simp add: packageTables_def)
qed (use ok in \<open>simp_all add: packageTables_def\<close>)

section \<open>Approvals\<close>

lemma approvalOk_kept:
  assumes "approvalOk ps rs x" and "packageKey ` set ps \<subseteq> packageKey ` set qs"
    and "draftKey ` set rs \<subseteq> draftKey ` set ts"
  shows "approvalOk qs ts x"
proof -
  obtain p r where p: "p \<in> set ps" "r \<in> set rs" "nk_id p = nd_noticePackageId x"
    "nv_id r = nd_draftRevisionId x" "nv_noticePackageId r = nk_id p"
    "\<exists>v. nd_validationSnapshot x = Some v \<and> vs_ok v"
    "nk_sodEnforced p \<longrightarrow>
         nk_createdByUserId p \<noteq> nd_actorUserId x \<and> nv_createdByUserId r \<noteq> nd_actorUserId x"
    using assms(1) unfolding approvalOk_def by blast
  obtain q where q: "q \<in> set qs" "packageKey q = packageKey p" using p(1) assms(2) by fastforce
  obtain t where t: "t \<in> set ts" "draftKey t = draftKey r" using p(2) assms(3) by fastforce
  show ?thesis
    unfolding approvalOk_def
    by (rule bexI[OF _ q(1)], rule bexI[OF _ t(1)])
      (use p q(2) t(2) in \<open>simp add: packageKey_def draftKey_def\<close>)
qed

text \<open>The keys of the rows stay, and rows are only added.\<close>

lemma keys_step:
  assumes "package_step d e"
  shows "packageKey ` set (nt_packages d) \<subseteq> packageKey ` set (nt_packages e)"
    "draftKey ` set (nt_drafts d) \<subseteq> draftKey ` set (nt_drafts e)"
proof -
  have "(\<exists>ps. map packageKey (nt_packages e) = map packageKey (nt_packages d) @ ps)
      \<and> (\<exists>rs. map draftKey (nt_drafts e) = map draftKey (nt_drafts d) @ rs)"
    using assms
  proof (cases rule: package_step.cases)
    case (review r T f xs)
    then show ?thesis using unstatused_rows(1)[OF review(6)]
      by (simp add: packageTables_def map_updateWhere draftKey_review)
  next
    case (approve p r ctx v n i pid w)
    then show ?thesis
      by (simp add: packageTables_def map_updateWhere packageKey_def draftKey_supersede)
  next
    case others
    then show ?thesis using unstatused_rows(1)[OF others(1)] by (simp add: packageTables_def)
  next
    case (draft p r xs)
    then show ?thesis using unstatused_rows(1)[OF draft(11)] by (simp add: packageTables_def)
  qed (simp_all add: packageTables_def)
  then obtain ps rs where k: "map packageKey (nt_packages e) = map packageKey (nt_packages d) @ ps"
    "map draftKey (nt_drafts e) = map draftKey (nt_drafts d) @ rs" by blast
  show "packageKey ` set (nt_packages d) \<subseteq> packageKey ` set (nt_packages e)"
    "draftKey ` set (nt_drafts d) \<subseteq> draftKey ` set (nt_drafts e)"
    using arg_cong[OF k(1), of set] arg_cong[OF k(2), of set] by auto
qed

text \<open>Every approved revision has its decision.\<close>

definition decided :: "draft_row list \<Rightarrow> decision_row list \<Rightarrow> bool" where
  "decided rs xs \<longleftrightarrow> (\<forall>r\<in>set rs. nv_status r = DF_APPROVED \<longrightarrow>
     nv_id r \<in> nd_draftRevisionId ` {x \<in> set xs. nd_decision x = AD_APPROVED})"

lemma approvalsOk_parts: "approvalsOk ps rs xs \<longleftrightarrow>
   (\<forall>x\<in>set xs. nd_decision x = AD_APPROVED \<longrightarrow> approvalOk ps rs x) \<and> decided rs xs"
proof -
  have "k \<in> nd_draftRevisionId ` {x \<in> set xs. nd_decision x = AD_APPROVED} \<longleftrightarrow>
      (\<exists>x\<in>set xs. nd_decision x = AD_APPROVED \<and> nd_draftRevisionId x = k)" for k by force
  then show ?thesis unfolding approvalsOk_def decided_def by simp
qed

lemma decided_step:
  assumes "package_step d e" and rows: "rowsOk (nt_packages d) (nt_drafts d) (nt_sections d)"
    and active: "activeOk (nt_packages d) (nt_drafts d)" and ok: "decided (nt_drafts d) (nt_decisions d)"
  shows "decided (nt_drafts e) (nt_decisions e)"
  using assms(1)
proof (cases rule: package_step.cases)
  case (draft p r xs)
  then show ?thesis using ok by (simp add: packageTables_def decided_def)
next
  case (review r T f xs)
  then have e: "nt_drafts e = updateWhere (atDraft (nv_id r) T) f (nt_drafts d)"
    "nt_decisions e = nt_decisions d @ xs" by (simp_all add: packageTables_def)
  show ?thesis
    unfolding decided_def e
  proof (intro ballI impI)
    fix y assume y: "y \<in> set (updateWhere (atDraft (nv_id r) T) f (nt_drafts d))" "nv_status y = DF_APPROVED"
    then obtain z where z: "z \<in> set (nt_drafts d)" "y = (if atDraft (nv_id r) T z then f z else z)"
      using updateWhere_elem[OF y(1)] by blast
    then have "nv_status z = DF_APPROVED" "nv_id y = nv_id z"
      using y(2) review(4) by (auto simp: reviewChange_def split: if_splits)
    then show "nv_id y \<in> nd_draftRevisionId ` {x \<in> set (nt_decisions d @ xs). nd_decision x = AD_APPROVED}"
      using ok z(1) unfolding decided_def by auto
  qed
next
  case (approve p r ctx v n i pid w)
  have e: "nt_drafts e = map (approvedDraft p r n) (nt_drafts d)"
    "nt_decisions e = nt_decisions d @ [newDecision ctx i pid (nk_id p) (nv_id r) AD_APPROVED w (Some v)]"
    using approve(9) approved_rows(2)[OF active rows approve(1-3,5)] by (simp_all add: packageTables_def)
  have "nd_draftRevisionId ` {x \<in> set (nt_decisions e). nd_decision x = AD_APPROVED}
      = insert (nv_id r) (nd_draftRevisionId ` {x \<in> set (nt_decisions d). nd_decision x = AD_APPROVED})"
    unfolding e by (force simp: newDecision_def)
  then show ?thesis
    using ok by (auto simp: e(1) decided_def approvedDraft_def split: if_splits)
qed (use ok in \<open>auto simp: packageTables_def decided_def\<close>)

lemma approvalsOk_step:
  assumes step: "package_step d e" and rows: "rowsOk (nt_packages d) (nt_drafts d) (nt_sections d)"
    and active: "activeOk (nt_packages d) (nt_drafts d)"
    and ok: "approvalsOk (nt_packages d) (nt_drafts d) (nt_decisions d)"
  shows "approvalsOk (nt_packages e) (nt_drafts e) (nt_decisions e)"
proof -
  have kept: "approvalOk (nt_packages d) (nt_drafts d) x \<Longrightarrow> approvalOk (nt_packages e) (nt_drafts e) x" for x
    by (rule approvalOk_kept[OF _ keys_step[OF step]])
  have "approvalOk (nt_packages e) (nt_drafts e) x"
    if x: "x \<in> set (nt_decisions e)" "nd_decision x = AD_APPROVED" for x
    using step
  proof (cases rule: package_step.cases)
    case (approve p r ctx v n i pid w)
    then have "x \<in> set (nt_decisions d) \<or> x = newDecision ctx i pid (nk_id p) (nv_id r) AD_APPROVED w (Some v)"
      using x(1) by (auto simp: packageTables_def)
    moreover have "approvalOk (nt_packages d) (nt_drafts d)
        (newDecision ctx i pid (nk_id p) (nv_id r) AD_APPROVED w (Some v))"
      unfolding approvalOk_def
      by (rule bexI[OF _ approve(1)], rule bexI[OF _ approve(2)]) (use approve in \<open>simp add: newDecision_def\<close>)
    ultimately show ?thesis using ok x(2) kept unfolding approvalsOk_def by blast
  next
    case (review r T f xs)
    then have "x \<in> set (nt_decisions d)" using x by (auto simp: packageTables_def image_iff)
    then show ?thesis using ok x(2) kept unfolding approvalsOk_def by blast
  qed (use ok x kept in \<open>auto simp: packageTables_def approvalsOk_def\<close>)
  then show ?thesis
    using decided_step[OF step rows active] ok unfolding approvalsOk_parts by blast
qed

lemma noticeInv_request:
  assumes "notice_request env s t" and "noticeInv (ap_db s)"
  shows "noticeInv (ap_db t)"
  using notice_request_refines[OF assms(1)] assms(2) rowsOk_step activeOk_step approvalsOk_step
  unfolding noticeInv_def by metis

lemma notice_reachable:
  "(notice_request env)\<^sup>*\<^sup>* s t \<Longrightarrow> noticeInv (ap_db s) \<Longrightarrow> noticeInv (ap_db t)"
  by (induction rule: rtranclp_induct) (auto dest: noticeInv_request)

lemma distinct_filter_one: "distinct xs \<Longrightarrow> x \<in> set xs \<Longrightarrow> filter (\<lambda>y. y = x) xs = [x]"
  by (induction xs) (auto simp: filter_empty_conv)


section \<open>What the service promises\<close>

text \<open>C10: In every reachable state an approved revision is the active one of its package, and the
  only approved one of it.\<close>

theorem one_active_approval:
  assumes "(notice_request env)\<^sup>*\<^sup>* s t" and "noticeInv (ap_db s)"
    and r: "r \<in> set (nt_drafts (ap_db t))" "nv_status r = DF_APPROVED"
  shows "nv_id r \<in> (\<lambda>p. the (nk_activeApprovedRevisionId p)) `
      {p \<in> set (nt_packages (ap_db t)). nk_id p = nv_noticePackageId r
        \<and> nk_activeApprovedRevisionId p \<noteq> None}
    \<and> filter (\<lambda>q. nv_status q = DF_APPROVED \<and> nv_noticePackageId q = nv_noticePackageId r)
        (nt_drafts (ap_db t)) = [r]"
proof -
  have rows: "rowsOk (nt_packages (ap_db t)) (nt_drafts (ap_db t)) (nt_sections (ap_db t))"
    and active: "activeOk (nt_packages (ap_db t)) (nt_drafts (ap_db t))"
    using notice_reachable[OF assms(1,2)] by (simp_all add: noticeInv_def)
  obtain p where p: "p \<in> set (nt_packages (ap_db t))" "nk_id p = nv_noticePackageId r"
    "nk_activeApprovedRevisionId p = Some (nv_id r)"
    using active r unfolding activeOk_def by metis
  have "q = r" if q: "q \<in> set (nt_drafts (ap_db t))" "nv_status q = DF_APPROVED"
    "nv_noticePackageId q = nv_noticePackageId r" for q
  proof -
    obtain p' where p': "p' \<in> set (nt_packages (ap_db t))" "nk_id p' = nv_noticePackageId q"
      "nk_activeApprovedRevisionId p' = Some (nv_id q)"
      using active q(1,2) unfolding activeOk_def by metis
    then have "p' = p"
      using rows p q(3) distinct_key_unique[of nk_id "nt_packages (ap_db t)" p' p] by (simp add: rowsOk_def)
    then show ?thesis
      using p'(3) p(3) rows distinct_key_unique[of nv_id "nt_drafts (ap_db t)", OF _ q(1) r(1)]
      by (simp add: rowsOk_def)
  qed
  then have "filter (\<lambda>q. nv_status q = DF_APPROVED \<and> nv_noticePackageId q = nv_noticePackageId r)
      (nt_drafts (ap_db t)) = filter (\<lambda>q. q = r) (nt_drafts (ap_db t))"
    using r by (intro filter_cong) auto
  moreover have "filter (\<lambda>q. q = r) (nt_drafts (ap_db t)) = [r]"
    using rows r(1) distinct_filter_one[of "nt_drafts (ap_db t)" r]
    by (simp add: rowsOk_def distinct_map)
  ultimately show ?thesis using p by force
qed

text \<open>C9: In every reachable state an approval is on record with the result of a validation that
  passed, and where the package separates the duties its actor neither created the package nor
  wrote the revision; every approved revision has one.\<close>

theorem approvals_kept_apart:
  assumes "(notice_request env)\<^sup>*\<^sup>* s t" and "noticeInv (ap_db s)"
    and r: "r \<in> set (nt_drafts (ap_db t))" "nv_status r = DF_APPROVED"
  shows "\<exists>x p v. x \<in> set (nt_decisions (ap_db t)) \<and> p \<in> set (nt_packages (ap_db t))
    \<and> nd_decision x = AD_APPROVED \<and> nd_draftRevisionId x = nv_id r
    \<and> nk_id p = nv_noticePackageId r \<and> nd_noticePackageId x = nk_id p
    \<and> nd_validationSnapshot x = Some v \<and> vs_ok v
    \<and> (if nk_sodEnforced p
       then nd_actorUserId x \<noteq> nk_createdByUserId p \<and> nd_actorUserId x \<noteq> nv_createdByUserId r
       else True)"
proof -
  have rows: "distinct (map nv_id (nt_drafts (ap_db t)))"
    and ok: "approvalsOk (nt_packages (ap_db t)) (nt_drafts (ap_db t)) (nt_decisions (ap_db t))"
    using notice_reachable[OF assms(1,2)] by (simp_all add: noticeInv_def rowsOk_def)
  obtain x where x: "x \<in> set (nt_decisions (ap_db t))" "nd_decision x = AD_APPROVED"
    "nd_draftRevisionId x = nv_id r" using ok r unfolding approvalsOk_def by blast
  then obtain p q v where p: "p \<in> set (nt_packages (ap_db t))" "q \<in> set (nt_drafts (ap_db t))"
    "nk_id p = nd_noticePackageId x" "nv_id q = nd_draftRevisionId x" "nv_noticePackageId q = nk_id p"
    "nd_validationSnapshot x = Some v" "vs_ok v"
    "nk_sodEnforced p \<longrightarrow>
         nk_createdByUserId p \<noteq> nd_actorUserId x \<and> nv_createdByUserId q \<noteq> nd_actorUserId x"
    using ok unfolding approvalsOk_def approvalOk_def by metis
  have "q = r" using distinct_key_unique[OF rows p(2) r(1)] p(4) x(3) by simp
  then show ?thesis using x p by (intro exI[of _ x] exI[of _ p] exI[of _ v]) auto
qed


text \<open>C19: The rows stay well-formed: ids are unique, a revision belongs to a package of its
  organization and has a number of its own in it, and every section belongs to a revision.\<close>

theorem notice_rows_wellformed:
  assumes "(notice_request env)\<^sup>*\<^sup>* s t" and "noticeInv (ap_db s)"
  shows "distinct (map nk_id (nt_packages (ap_db t))) \<and> distinct (map nv_id (nt_drafts (ap_db t)))
    \<and> distinct (map (\<lambda>r. (nv_noticePackageId r, nv_revisionNumber r)) (nt_drafts (ap_db t)))
    \<and> (\<lambda>r. (nv_noticePackageId r, nv_tenantId r)) ` set (nt_drafts (ap_db t))
        \<subseteq> (\<lambda>p. (nk_id p, nk_tenantId p)) ` set (nt_packages (ap_db t))
    \<and> nw_draftRevisionId ` set (nt_sections (ap_db t)) \<subseteq> nv_id ` set (nt_drafts (ap_db t))"
  using notice_reachable[OF assms] by (simp add: noticeInv_def rowsOk_def)

text \<open>C12: An export is made of the active approved revision of the package and of no other: its
  sections that are for the outside in their order are the text, the manifest names it and carries the
  digest of the text, every stored file is of it, and its approval is on record.  The revisions and
  their sections stay as they are.\<close>

theorem export_of_active_approval:
  assumes "generateExport env ids pid nid fmt s = (Inr (rows, txt, m), t)" and inv: "noticeInv (ap_db s)"
  shows "\<exists>p r. findNotice (nk_tenantId p) pid nid (ap_db s) = Some p \<and> r \<in> set (nt_drafts (ap_db s))
    \<and> nk_activeApprovedRevisionId p = Some (nv_id r) \<and> nv_noticePackageId r = nid
    \<and> nv_status r = DF_APPROVED \<and> nk_status p \<in> {NP_APPROVED, NP_EXPORTED}
    \<and> nv_id r \<in> nd_draftRevisionId ` {x \<in> set (nt_decisions (ap_db s)). nd_decision x = AD_APPROVED
        \<and> approvalOk (nt_packages (ap_db s)) (nt_drafts (ap_db s)) x}
    \<and> txt = renderPlainText (filter (\<lambda>x. \<not> sn_internalOnly x)
        (sort_key sn_sequence (map nw_content (sectionsOf (nv_id r) (ap_db s))))) False
    \<and> em_draftRevisionId m = nv_id r \<and> em_checksumSha256 m = nn_sha env txt
    \<and> set (map nm_draftRevisionId rows) \<subseteq> {nv_id r}
    \<and> nt_drafts (ap_db t) = nt_drafts (ap_db s) \<and> nt_sections (ap_db t) = nt_sections (ap_db s)"
  using assms(1) unfolding generateExport_def
proof (cases rule: projectAction_cases)
  case (ran ctx y)
  obtain p q x where p: "findNotice (cx_tenantId ctx) pid nid (ap_db s) = Some p"
    and q: "Option.bind (nk_activeApprovedRevisionId p) (\<lambda>i. find (\<lambda>r. nv_id r = i
          \<and> nv_tenantId r = cx_tenantId ctx) (nt_drafts (ap_db s))) = Some q"
    and st: "nk_status p = NP_APPROVED \<or> nk_status p = NP_EXPORTED"
    and x: "exportApprovedNotice (nn_sha env) (nn_stringifyPretty env) (nn_isoOf env (nn_now env))
      (exportInputOf env p q (ap_db s)) = Inr x"
    and out: "rows = map (bundleRow ctx pid nid q ids) (enumerate 0
        (filter (\<lambda>b. \<not> truthy fmt \<or> fmt = Some (export_format_name (fst b))) (bundlesOf env x)))"
      "txt = xo_plainText x" "m = xo_manifest x"
    and t: "nt_drafts (ap_db t) = nt_drafts (ap_db s)" "nt_sections (ap_db t) = nt_sections (ap_db s)"
    using ran by (auto simp: ok_iff Let_def)
  obtain i where i: "nk_activeApprovedRevisionId p = Some i"
    "find (\<lambda>r. nv_id r = i \<and> nv_tenantId r = cx_tenantId ctx) (nt_drafts (ap_db s)) = Some q"
    using q by (auto simp: bind_eq_Some_conv)
  have rows: "rowsOk (nt_packages (ap_db s)) (nt_drafts (ap_db s)) (nt_sections (ap_db s))"
    and active: "activeOk (nt_packages (ap_db s)) (nt_drafts (ap_db s))"
    and approvals: "approvalsOk (nt_packages (ap_db s)) (nt_drafts (ap_db s)) (nt_decisions (ap_db s))"
    using inv by (simp_all add: noticeInv_def)
  note row = findNotice_row[OF p] and found = find_SomeD[OF i(2)]
  obtain r where "r \<in> set (nt_drafts (ap_db s))" "nv_id r = i" "nv_noticePackageId r = nk_id p"
    "nv_status r = DF_APPROVED" using active row i(1) unfolding activeOk_def by metis
  then have r: "q \<in> set (nt_drafts (ap_db s))" "nv_id q = i" "nv_noticePackageId q = nid" "nv_status q = DF_APPROVED"
    using found row rows distinct_key_unique[of nv_id "nt_drafts (ap_db s)" r q] by (auto simp: rowsOk_def)
  have "nv_id q \<in> nd_draftRevisionId ` {x \<in> set (nt_decisions (ap_db s)). nd_decision x = AD_APPROVED
        \<and> approvalOk (nt_packages (ap_db s)) (nt_drafts (ap_db s)) x}"
    using approvals r(1,4) unfolding approvalsOk_def by force
  moreover have "txt = exportText (exportInputOf env p q (ap_db s))"
    "m = exportManifest (nn_sha env) (nn_isoOf env (nn_now env)) (exportInputOf env p q (ap_db s))"
    using x out(2,3) by (auto simp: exportApprovedNotice_def Let_def ok_iff split: if_splits)
  then have "txt = renderPlainText (filter (\<lambda>x. \<not> sn_internalOnly x)
        (sort_key sn_sequence (map nw_content (sectionsOf (nv_id q) (ap_db s))))) False"
    "em_draftRevisionId m = nv_id q" "em_checksumSha256 m = nn_sha env txt"
    by (simp_all add: exportManifest_def buildExportManifest_def exportText_def exportInputOf_def)
  moreover have "set (map nm_draftRevisionId rows) \<subseteq> {nv_id q}"
    unfolding out(1) by (auto simp: bundleRow_def)
  ultimately show ?thesis
    using p row r i(1) st t by (intro exI[of _ p] exI[of _ q]) simp
qed simp

text \<open>C13: A notice package rests on a deadline that was checked: in a state the deadline service
  leaves, the calculation a new package is bound to is verified and follows from the rows it cites;
  its event is confirmed and its rule applies.  Unless segregation of duties is switched off in the
  deadline service, it was someone other than who calculated it that verified it.  The package starts
  as a draft without an approval and takes the deadline from the calculation.\<close>

theorem package_rests_on_checked_deadline:
  assumes "createNoticePackageFromDeadline env sp newId reqId ids pid raw s = (Inr x, t)"
    and "deadlineInv denv (deadlines_db.truncate (ap_db s))"
  shows "\<exists>c e a. c \<in> set (dd_calculations (ap_db s)) \<and> dc_status c = DC_VERIFIED
    \<and> (en_calculationSod denv \<noteq> Some ''false'' \<longrightarrow>
         (\<exists>u. dc_reviewedByUserId c = Some u \<and> u \<noteq> dc_calculatedByUserId c))
    \<and> reproducible denv (deadlines_db.truncate (ap_db s)) c
    \<and> e \<in> set (dd_events (ap_db s)) \<and> ve_id e = dc_eventId c \<and> eventConfirmed e
    \<and> a \<in> set (dd_assessments (ap_db s)) \<and> va_id a = dc_assessmentId c
    \<and> va_applicabilityStatus a = AP_APPLICABLE
    \<and> (\<exists>p\<in>set (nt_packages (ap_db t)). nk_id p = newId \<and> nk_status p = NP_DRAFT
        \<and> nk_activeApprovedRevisionId p = None \<and> nk_sodEnforced p = noticeSodEnabled env
        \<and> bi_deadlineCalculationId (nk_binding p) = dc_id c
        \<and> bi_deadlineAt (nk_binding p) = dc_calculatedDeadlineAt c)"
  using assms(1) unfolding createNoticePackageFromDeadline_def
proof (cases rule: projectService_cases)
  case (ran ctx data y)
  obtain c e a u where c: "find (\<lambda>c. dc_id c = cni_deadlineCalculationId data
        \<and> dc_tenantId c = cx_tenantId ctx \<and> dc_projectId c = pid) (dd_calculations (ap_db s)) = Some c"
      "dc_status c = DC_VERIFIED"
    and e: "find (\<lambda>e. ve_id e = dc_eventId c) (dd_events (ap_db s)) = Some e" "eventConfirmed e"
    and a: "find (\<lambda>a. va_id a = dc_assessmentId c) (dd_assessments (ap_db s)) = Some a"
      "va_applicabilityStatus a = AP_APPLICABLE"
    and u: "u = s\<lparr>ap_db := (ap_db s)\<lparr>nt_packages := nt_packages (ap_db s)
      @ [newPackage env ctx newId pid data c]\<rparr>\<rparr>" "packageTables (ap_db t) = packageTables (ap_db u)"
    using ran(3) unfolding bindH_Inr thenH_Inr[of "requireH _ _"] thenH_Inr[of "assertProjectMutable _"]
      thenH_Inr[of "writeDb _"] findOr_Inr requireH_Inr readDb_Inr writeDb_Inr mutable_project_Inr
      someH_Inr projectRow_Inr
    by (elim exE conjE) (drule seeded_tables, blast)
  have "newPackage env ctx newId pid data c \<in> set (nt_packages (ap_db t))"
    using u by (simp add: packageTables_def)
  moreover have "c \<in> set (dd_calculations (deadlines_db.truncate (ap_db s)))"
    using find_SomeD[OF c(1)] by (simp add: deadlines_db.defs)
  then have "reproducible denv (deadlines_db.truncate (ap_db s)) c"
    "en_calculationSod denv \<noteq> Some ''false'' \<longrightarrow>
      (\<exists>u. dc_reviewedByUserId c = Some u \<and> u \<noteq> dc_calculatedByUserId c)"
    using assms(2) c(2) unfolding deadlineInv_def calculationsOk_def calculationOk_def
      deadlineCalcSegregationEnabled_def by blast+
  ultimately show ?thesis
    using c(2) e(2) a(2) find_SomeD[OF c(1)] find_SomeD[OF e(1)] find_SomeD[OF a(1)]
    by (intro exI[of _ c] exI[of _ e] exI[of _ a])
      (auto intro!: bexI[of _ "newPackage env ctx newId pid data c"] simp: newPackage_def)
qed simp

text \<open>A draft is written by a model in a test environment only, never in staging or production:
  the only provider is the test one.  It needs a fact approved for drafting, cites facts and
  evidence of the package only, and starts as a draft of its own revision number.\<close>

lemma ai_drafts_in_tests_only:
  assumes "generateAiAssistedDraft env newId ids pid nid s = (Inr (r, rows), t)"
  shows "(noticeAppEnv env = ''test'' \<or> nn_nodeEnv env = Some ''test'')
    \<and> noticeAppEnv env \<notin> {''production'', ''staging''}
    \<and> nv_status r = DF_DRAFT \<and> nv_generatorVersion r = ''fake''
    \<and> (\<exists>T xs. nt_sections (ap_db t) = nt_sections (ap_db s) @ xs
        \<and> nv_revisionNumber r = nextRevisionNumber T nid (ap_db s)
        \<and> {f \<in> set (nt_facts (ap_db s)). nc_noticePackageId f = nid \<and> nc_approvedForDrafting f} \<noteq> {}
        \<and> \<Union> (set ` sn_sourceFactIds ` nw_content ` set xs)
            \<subseteq> nc_id ` {f \<in> set (nt_facts (ap_db s)). nc_noticePackageId f = nid}
        \<and> \<Union> (set ` sn_sourceEvidenceIds ` nw_content ` set xs)
            \<subseteq> nh_id ` {l \<in> set (nt_links (ap_db s)). nh_noticePackageId l = nid})"
proof -
  obtain ctx where ctx: "accessP pid (NoticeCap c_notice_draft_generate) s = (Inr ctx, s)"
  proof -
    obtain a u where access: "accessP pid (NoticeCap c_notice_draft_generate) s = (a, u)" by force
    then obtain c where "a = Inr c"
      using assms by (cases a) (auto simp: generateAiAssistedDraft_def)
    then show thesis using access accessP_ok[of pid _ s c u] that by blast
  qed
  obtain provider p xs data w where
    provider: "createNoticeDraftAiProvider env = Inr (Some provider)"
    and p: "findNotice (cx_tenantId ctx) pid nid (ap_db s) = Some p"
    and approved: "approvedFacts (map factEntry (lp_facts (includeRows p (ap_db s)))) \<noteq> []"
    and valid: "validateAiDraftOutput (nn_aiSchema env) (aiInputOf env (includeRows p (ap_db s))
      (filter (\<lambda>l. nh_noticePackageId l = nid \<and> nh_tenantId l = cx_tenantId ctx) (nt_links (ap_db s)))
      (approvedFacts (map factEntry (lp_facts (includeRows p (ap_db s))))) w) = Inr (data, xs)"
    and r: "r = newDraft ctx newId pid nid (nextRevisionNumber (cx_tenantId ctx) nid (ap_db s))
      (nk_language (lp_package (includeRows p (ap_db s)))) ''ai-assisted-v1'' ''ai-assisted''
      (apv_name provider) None None"
    and t: "nt_sections (ap_db t) = nt_sections (ap_db s) @ sectionsToDb ctx pid newId ids
      (map (aiSectionRow (ar_language data)) (enumerate 0 (ar_sections data)))"
    using assms ctx unfolding generateAiAssistedDraft_def
    by (auto simp: ok_iff Let_def simp del: validateAi_Inr)
  have pid: "nk_id p = nid" using findNotice_row[OF p] by simp
  have fake: "noticeAppEnv env = ''test'' \<or> nn_nodeEnv env = Some ''test''" "provider = fakeProvider"
    "noticeAppEnv env \<notin> {''production'', ''staging''}"
    using provider by (auto simp: createNoticeDraftAiProvider_def assertNoticeAiProviderAllowed_def
        fakeProvider_def Let_def ok_iff split: if_splits)
  have cites: "set (ai_sourceFactIds x) \<subseteq> nc_id ` {f \<in> set (nt_facts (ap_db s)). nc_noticePackageId f = nid}"
    "set (ai_sourceEvidenceIds x) \<subseteq> nh_id ` {l \<in> set (nt_links (ap_db s)). nh_noticePackageId l = nid}"
    if "x \<in> set (ar_sections data)" for x
  proof -
    have "sectionErrors (aiInputOf env (includeRows p (ap_db s))
      (filter (\<lambda>l. nh_noticePackageId l = nid \<and> nh_tenantId l = cx_tenantId ctx) (nt_links (ap_db s)))
      (approvedFacts (map factEntry (lp_facts (includeRows p (ap_db s))))) w) x = []"
      using valid that unfolding validateAi_Inr by blast
    then show "set (ai_sourceFactIds x) \<subseteq> nc_id ` {f \<in> set (nt_facts (ap_db s)). nc_noticePackageId f = nid}"
      "set (ai_sourceEvidenceIds x) \<subseteq> nh_id ` {l \<in> set (nt_links (ap_db s)). nh_noticePackageId l = nid}"
      by (auto simp: sectionErrors_def aiInputOf_def includeRows_def pid filter_empty_conv)
  qed
  have entries: "nw_content ` set (sectionsToDb ctx pid newId ids (map (aiSectionRow l) (enumerate 0 ys)))
      = aiSectionRow l ` set (enumerate 0 ys)" for l ys
    by (simp add: sectionsToDb_def image_image split_def) (metis image_image map_snd_enumerate set_map)
  have row: "sn_sourceFactIds (aiSectionRow l e) = ai_sourceFactIds (snd e)"
    "sn_sourceEvidenceIds (aiSectionRow l e) = ai_sourceEvidenceIds (snd e)" for l e
    by (simp_all add: aiSectionRow_def Let_def)
  have mem: "snd e \<in> set ys" if "e \<in> set (enumerate 0 ys)" for e and ys :: "ai_section list"
    using that by (auto simp: in_set_enumerate_eq dest: nth_mem)
  have "\<Union> (set ` sn_sourceFactIds ` nw_content ` set (sectionsToDb ctx pid newId ids
        (map (aiSectionRow (ar_language data)) (enumerate 0 (ar_sections data)))))
      \<subseteq> nc_id ` {f \<in> set (nt_facts (ap_db s)). nc_noticePackageId f = nid}"
    "\<Union> (set ` sn_sourceEvidenceIds ` nw_content ` set (sectionsToDb ctx pid newId ids
        (map (aiSectionRow (ar_language data)) (enumerate 0 (ar_sections data)))))
      \<subseteq> nh_id ` {l \<in> set (nt_links (ap_db s)). nh_noticePackageId l = nid}"
    unfolding entries image_image row using cites mem by (intro UN_least; blast)+
  moreover have "{f \<in> set (nt_facts (ap_db s)). nc_noticePackageId f = nid \<and> nc_approvedForDrafting f} \<noteq> {}"
  proof -
    obtain f where "f \<in> set (lp_facts (includeRows p (ap_db s)))" "usableFact (factEntry f)"
      using approved by (auto simp: approvedFacts_def filter_empty_conv)
    then show ?thesis by (auto simp: includeRows_def pid usableFact_def factEntry_def)
  qed
  ultimately show ?thesis
    using fake t by (auto simp: r newDraft_def fakeProvider_def)
qed

end
