(* ===== verification/NoticeWitnesses.thy ===== *)
theory NoticeWitnesses
  imports NoticeProperties
begin

text \<open>
  An organization with an approved notice package: the properties of the notice package service at
  concrete requests, and what some requests do that their callers may not expect.
\<close>

section \<open>The rows\<close>

definition demo_binding :: package_binding where
  "demo_binding = \<lparr>bi_contractPackageId = ''k1'', bi_configurationRevisionId = ''g1'',
     bi_approvedNoticeRuleSnapshotId = ''x1'', bi_projectEventId = ''e1'',
     bi_eventRuleAssessmentId = ''a1'', bi_deadlineCalculationId = ''q1'',
     bi_projectDeadlineId = None, bi_deadlineAt = Some 8, bi_deadlineTimezone = ''UTC''\<rparr>"

definition demo_notice :: "string \<Rightarrow> string \<Rightarrow> package_status \<Rightarrow> string option \<Rightarrow> package_row" where
  "demo_notice i pid st active = \<lparr>nk_id = i, nk_tenantId = ''A'', nk_projectId = pid,
     nk_binding = demo_binding, nk_noticeType = ''DELAY'', nk_title = ''N'', nk_reference = None,
     nk_status = st, nk_language = ''en'', nk_secondaryLanguage = None, nk_createdByUserId = ''u7'',
     nk_approverUserId = None, nk_activeApprovedRevisionId = active, nk_sodEnforced = True\<rparr>"

definition demo_draft :: "string \<Rightarrow> string \<Rightarrow> nat \<Rightarrow> draft_status \<Rightarrow> draft_row" where
  "demo_draft i nid n st = \<lparr>nv_id = i, nv_tenantId = ''A'', nv_projectId = ''p1'',
     nv_noticePackageId = nid, nv_revisionNumber = n, nv_status = st, nv_language = ''en'',
     nv_templateVersion = ''t'', nv_generatedBy = ''deterministic'', nv_generatorVersion = ''g'',
     nv_basedOnAssessmentRevision = None, nv_basedOnRequirementSnapshotId = None,
     nv_createdByUserId = ''u7'', nv_submittedAt = None, nv_approvedAt = None,
     nv_validationSnapshot = None\<rparr>"

definition demo_section :: "string \<Rightarrow> string \<Rightarrow> assembled_section \<Rightarrow> section_line" where
  "demo_section i rid x = \<lparr>nw_id = i, nw_tenantId = ''A'', nw_projectId = ''p1'',
     nw_draftRevisionId = rid, nw_content = x\<rparr>"

definition demo_passed :: validation_result where
  "demo_passed = \<lparr>vs_rulesetVersion = [], vs_ok = True, vs_blocking = [], vs_warnings = [], vs_notes = []\<rparr>"

definition demo_decision :: decision_row where
  "demo_decision = \<lparr>nd_id = ''dc1'', nd_tenantId = ''A'', nd_projectId = ''p1'',
     nd_noticePackageId = ''n1'', nd_draftRevisionId = ''v1'', nd_decision = AD_APPROVED,
     nd_actorUserId = ''u8'', nd_rationale = None, nd_validationSnapshot = Some demo_passed\<rparr>"

definition demo_rule_text :: rule_text where
  "demo_rule_text = \<lparr>nt_id = ''x1'', nt_sourceObligationId = ''o1'', nt_sourceClauseId = Some ''cl1'',
     nt_clauseNumber = Some ''20.1'', nt_contentRequirements = None, nt_consequenceText = None,
     nt_recipientRequirements = None, nt_deliveryMethodRequirements = None,
     nt_timeBarClassification = ''TIME_BAR''\<rparr>"

definition demo_fact_row :: fact_row where
  "demo_fact_row = \<lparr>nc_id = ''f1'', nc_tenantId = ''A'', nc_projectId = ''p1'', nc_noticePackageId = ''n1'',
     nc_factType = ''EVENT_DATE'', nc_label = ''Date'', nc_value = ''on 2026-07-01.'',
     nc_sourceType = ''PROJECT_EVENT_DATE'', nc_projectEventId = None, nc_reviewerEntered = False,
     nc_verificationStatus = FV_HUMAN_CONFIRMED, nc_approvedForDrafting = True,
     nc_approvedByUserId = Some ''u8'', nc_approvedAt = Some 1\<rparr>"

text \<open>The approved package of the project, and one of another project of the organization.\<close>

definition demo_notices :: "executable_rule notices_db" where
  "demo_notices = \<lparr>dd_packages = [], dd_documents = [], dd_versions = [], dd_segments = [],
     dd_configurations = [\<lparr>cg_id = ''g1'', cg_isActiveApproved = True, cg_approved = True\<rparr>],
     dd_snapshots = [demo_rule_snapshot],
     dd_events = [demo_event ''e1'' CONFIRMED_FOR_DEADLINE_ANALYSIS, demo_event ''e2'' CONFIRMED_FACT],
     dd_dates = [demo_date], dd_evidence = [], dd_assessments = [demo_assessment_row],
     dd_calendars = [demo_calendar], dd_revisions = [demo_revision],
     dd_calculations = [demo_calculation], dd_milestones = [], dd_deadlines = [demo_deadline],
     dd_history = [], nt_ruleTexts = [demo_rule_text], nt_obligationRecipients = [],
     nt_packages = [demo_notice ''n1'' ''p1'' NP_APPROVED (Some ''v1''),
       demo_notice ''n2'' ''p3'' NP_WITHDRAWN None],
     nt_requirements = [], nt_evidence = [], nt_links = [], nt_assessments = [], nt_questions = [],
     nt_facts = [demo_fact_row], nt_preparations = [],
     nt_drafts = [demo_draft ''v1'' ''n1'' 1 DF_APPROVED, demo_draft ''v2'' ''n2'' 1 DF_IN_REVIEW],
     nt_sections = [demo_section ''s1'' ''v1'' (sectionOf ''en'' 1 (plainSection S_NOTICE_TITLE ''Late'' [] [] [])),
       demo_section ''s2'' ''v1'' (sectionOf ''en'' 2 guidanceSection)],
     nt_decisions = [demo_decision], nt_exceptions = [], nt_attachments = [], nt_bundles = [],
     nt_comments = []\<rparr>"

definition demo_nenv :: notices_env where
  "demo_nenv = \<lparr>nn_sod = None, nn_appEnv = Some ''test'', nn_nodeEnv = None,
     nn_aiProvider = Some ''fake'', nn_now = 9, nn_isoOf = (\<lambda>n. ''now''), nn_sha = (\<lambda>t. t),
     nn_stringify = (\<lambda>m. ''{1}''), nn_stringifyPretty = (\<lambda>m. ''{1}''),
     nn_aiSchema = (\<lambda>r. Inr (r\<lparr>ar_sections := filter (\<lambda>x. ai_sectionType x = S_TRIGGER_DATE)
       (ar_sections r)\<rparr>))\<rparr>"

lemma demo_notice_tables:
  "nt_packages demo_notices = [demo_notice ''n1'' ''p1'' NP_APPROVED (Some ''v1''),
     demo_notice ''n2'' ''p3'' NP_WITHDRAWN None]"
  "nt_drafts demo_notices = [demo_draft ''v1'' ''n1'' 1 DF_APPROVED, demo_draft ''v2'' ''n2'' 1 DF_IN_REVIEW]"
  "nt_decisions demo_notices = [demo_decision]" "nt_attachments demo_notices = []"
  "nt_sections demo_notices = [demo_section ''s1'' ''v1'' (sectionOf ''en'' 1 (plainSection S_NOTICE_TITLE ''Late'' [] [] [])),
       demo_section ''s2'' ''v1'' (sectionOf ''en'' 2 guidanceSection)]"
  "nt_preparations demo_notices = []" "nt_facts demo_notices = [demo_fact_row]" "nt_links demo_notices = []"
  "nt_requirements demo_notices = []" "nt_evidence demo_notices = []" "nt_assessments demo_notices = []"
  by (simp_all add: demo_notices_def)

lemma demo_draft_simps [simp]:
  "nv_id (demo_draft i nid n st) = i" "nv_tenantId (demo_draft i nid n st) = ''A''"
  "nv_noticePackageId (demo_draft i nid n st) = nid" "nv_status (demo_draft i nid n st) = st"
  "nv_revisionNumber (demo_draft i nid n st) = n" "nv_createdByUserId (demo_draft i nid n st) = ''u7''"
  "demo_draft i nid n st\<lparr>nv_status := st'\<rparr> = demo_draft i nid n st'"
  by (simp_all add: demo_draft_def)

lemma demo_notice_simps [simp]:
  "nk_id (demo_notice i pid st a) = i" "nk_tenantId (demo_notice i pid st a) = ''A''"
  "nk_projectId (demo_notice i pid st a) = pid" "nk_status (demo_notice i pid st a) = st"
  "nk_activeApprovedRevisionId (demo_notice i pid st a) = a" "nk_sodEnforced (demo_notice i pid st a)"
  "nk_createdByUserId (demo_notice i pid st a) = ''u7''" "nk_binding (demo_notice i pid st a) = demo_binding"
  "nk_title (demo_notice i pid st a) = ''N''" "nk_language (demo_notice i pid st a) = ''en''"
  "demo_notice i pid st a\<lparr>nk_status := st'\<rparr> = demo_notice i pid st' a"
  by (simp_all add: demo_notice_def)

lemma demo_noticeInv: "noticeInv demo_notices"
proof -
  have "rowsOk (nt_packages demo_notices) (nt_drafts demo_notices) (nt_sections demo_notices)"
    by (simp add: rowsOk_def demo_notice_tables demo_section_def)
  moreover have "activeOk (nt_packages demo_notices) (nt_drafts demo_notices)"
    by (simp add: activeOk_def demo_notice_tables)
  moreover have "approvalsOk (nt_packages demo_notices) (nt_drafts demo_notices) (nt_decisions demo_notices)"
    by (simp add: approvalsOk_def approvalOk_def demo_notice_tables demo_decision_def demo_passed_def)
  ultimately show ?thesis by (simp add: noticeInv_def)
qed

lemma owner_notices:
  "NoticeCap c \<in> resolveCapabilities TENANT_OWNER None (Some P_ACTIVE)"
  by (cases c) (simp_all add: mem_resolve capabilitiesForTenantRole_def DOCUMENT_MANAGE_def
      EVENT_DEADLINE_def)

lemma demo_notices_granted: "granted (demo_app d) ''p1'' (NoticeCap c) demo_ctx"
  by (rule demo_granted[OF owner_notices, of _ "[]"]) (simp add: demo_app_def demo_state_def)

section \<open>Reachable states\<close>

lemma one_active_approval_witness:
  "filter (\<lambda>q. nv_status q = DF_APPROVED \<and> nv_noticePackageId q = ''n1'') (nt_drafts demo_notices)
     = [demo_draft ''v1'' ''n1'' 1 DF_APPROVED]"
  using one_active_approval[where env = demo_nenv and s = "demo_app demo_notices" and r = "demo_draft ''v1'' ''n1'' 1 DF_APPROVED",
      OF rtranclp.rtrancl_refl] demo_noticeInv
  by (simp add: demo_notice_tables)

lemma approvals_kept_apart_witness:
  "\<exists>x v. x \<in> set (nt_decisions demo_notices) \<and> nd_decision x = AD_APPROVED
     \<and> nd_draftRevisionId x = ''v1'' \<and> nd_actorUserId x \<noteq> ''u7''
     \<and> nd_validationSnapshot x = Some v \<and> vs_ok v"
proof -
  have r: "demo_draft ''v1'' ''n1'' 1 DF_APPROVED \<in> set (nt_drafts demo_notices)"
    "nv_status (demo_draft ''v1'' ''n1'' 1 DF_APPROVED) = DF_APPROVED"
    "nv_id (demo_draft ''v1'' ''n1'' 1 DF_APPROVED) = ''v1''"
    "nv_createdByUserId (demo_draft ''v1'' ''n1'' 1 DF_APPROVED) = ''u7''"
    by (simp_all add: demo_notice_tables)
  have sod: "p \<in> set (nt_packages demo_notices) \<Longrightarrow> nk_sodEnforced p" for p
    by (auto simp: demo_notice_tables)
  show ?thesis
    using approvals_kept_apart[where env = demo_nenv and s = "demo_app demo_notices" and r = "demo_draft ''v1'' ''n1'' 1 DF_APPROVED",
      OF rtranclp.rtrancl_refl] demo_noticeInv r sod
    unfolding demo_app_db by metis
qed

lemma notice_rows_wellformed_witness:
  "distinct (map (\<lambda>r. (nv_noticePackageId r, nv_revisionNumber r)) (nt_drafts demo_notices))"
  using notice_rows_wellformed[where env = demo_nenv and s = "demo_app demo_notices", OF rtranclp.rtrancl_refl] demo_noticeInv
  by simp




section \<open>Requests\<close>

lemma demo_export_input:
  "exportInputOf demo_nenv (demo_notice ''n1'' ''p1'' NP_APPROVED (Some ''v1''))
     (demo_draft ''v1'' ''n1'' 1 DF_APPROVED) demo_notices
   = (demo_export [])\<lparr>xi_noticePackageId := ''n1'', xi_draftRevisionId := ''v1'',
       xi_approvalDecisionId := Some ''dc1''\<rparr>"
  by (simp add: exportInputOf_def demo_notice_tables sectionsOf_def demo_section_def demo_export_def
      lastOf_def demo_decision_def sectionOf_def) (simp add: demo_draft_def)

lemma demo_export_exports:
  "\<exists>x. exportApprovedNotice (\<lambda>t. t) (\<lambda>m. ''{1}'') ''now'' ((demo_export [])\<lparr>xi_noticePackageId := a,
     xi_draftRevisionId := b, xi_approvalDecisionId := c\<rparr>) = Inr x \<and> xo_plainText x = demo_text"
proof -
  let ?i = "(demo_export [])\<lparr>xi_noticePackageId := a, xi_draftRevisionId := b, xi_approvalDecisionId := c\<rparr>"
  have plain: "exportText ?i = demo_text" using demo_export_text[of "[]"] by (simp add: exportText_def)
  have fields: "xi_attachments ?i = []" "xi_title ?i = ''N''" by (simp_all add: demo_export_fields)
  have "isOk (buildSimpleDocx ''N'' demo_text)"
    using docx_sizes by (simp add: buildSimpleDocx_def zipStore_ok localSize_def centralSize_def)
  moreover have "isOk (buildAttachmentZip (archiveFiles (\<lambda>m. ''{1}'') m ?i))" for m
    using docx_sizes(4) by (simp add: buildAttachmentZip_def archiveFiles_def plain fields zipStore_ok
        localSize_def centralSize_def unsafeFilename_def)
  ultimately obtain d z where "buildSimpleDocx ''N'' demo_text = Inr d"
    "buildAttachmentZip (archiveFiles (\<lambda>m. ''{1}'') (exportManifest (\<lambda>t. t) ''now'' ?i) ?i) = Inr z"
    unfolding isOk_iff by meson
  then show ?thesis
    by (simp add: exportApprovedNotice_def plain demo_export_unmarked Let_def fields)
qed

lemma demo_export_run:
  "\<exists>rows m t. generateExport demo_nenv (\<lambda>n. ''b'') ''p1'' ''n1'' (Some ''PLAIN_TEXT'') (demo_app demo_notices)
     = (Inr (rows, demo_text, m), t)"
proof -
  obtain x where x: "exportApprovedNotice (\<lambda>t. t) (\<lambda>m. ''{1}'') ''now''
      (exportInputOf demo_nenv (demo_notice ''n1'' ''p1'' NP_APPROVED (Some ''v1''))
        (demo_draft ''v1'' ''n1'' 1 DF_APPROVED) demo_notices) = Inr x" "xo_plainText x = demo_text"
    unfolding demo_export_input using demo_export_exports by blast
  have env: "nn_sha demo_nenv = (\<lambda>t. t)" "nn_stringifyPretty demo_nenv = (\<lambda>m. ''{1}'')"
    "nn_isoOf demo_nenv n = ''now''" for n by (simp_all add: demo_nenv_def)
  show ?thesis
    by (simp add: generateExport_def projectAction_run[OF demo_notices_granted] transactionH_def
        bindH_def thenH_def findNotice_def demo_notice_tables env x setNoticeStatus_def Let_def del: One_nat_def)
qed

lemma export_of_active_approval_witness:
  "\<exists>rows m t. generateExport demo_nenv (\<lambda>n. ''b'') ''p1'' ''n1'' (Some ''PLAIN_TEXT'') (demo_app demo_notices)
     = (Inr (rows, demo_text, m), t) \<and> em_draftRevisionId m = ''v1'' \<and> em_checksumSha256 m = demo_text"
proof -
  obtain rows m t where run: "generateExport demo_nenv (\<lambda>n. ''b'') ''p1'' ''n1'' (Some ''PLAIN_TEXT'')
      (demo_app demo_notices) = (Inr (rows, demo_text, m), t)" using demo_export_run by blast
  obtain p :: package_row and r :: draft_row where "findNotice (nk_tenantId p) ''p1'' ''n1'' demo_notices = Some p"
    "nk_activeApprovedRevisionId p = Some (nv_id r)" "em_draftRevisionId m = nv_id r"
    "em_checksumSha256 m = nn_sha demo_nenv demo_text"
    using export_of_active_approval[OF run] demo_noticeInv unfolding demo_app_db by blast
  then have "em_draftRevisionId m = ''v1''" "em_checksumSha256 m = demo_text"
    by (auto simp: findNotice_def demo_notice_tables demo_nenv_def split: if_splits)
  then show ?thesis using run by blast
qed

definition demo_new_notice :: "string \<Rightarrow> string list + create_notice_input" where
  "demo_new_notice raw = Inr \<lparr>cni_deadlineCalculationId = ''q1'', cni_noticeType = ''DELAY'',
     cni_title = ''N'', cni_language = ''en'', cni_secondaryLanguage = None,
     cni_projectDeadlineId = None, cni_reference = None\<rparr>"

lemma demo_notice_lookups:
  "dd_calculations demo_notices = [demo_calculation]" "nt_ruleTexts demo_notices = [demo_rule_text]"
  "dd_assessments demo_notices = [demo_assessment_row]" "nt_obligationRecipients demo_notices = []"
  "dd_events demo_notices = [demo_event ''e1'' CONFIRMED_FOR_DEADLINE_ANALYSIS, demo_event ''e2'' CONFIRMED_FACT]"
  "dd_dates demo_notices = [demo_date]"
  by (simp_all add: demo_notices_def)

lemma demo_create_run:
  "\<exists>x t. createNoticePackageFromDeadline demo_nenv demo_new_notice ''n9'' ''rq'' (\<lambda>n. replicate n (CHR ''i''))
     ''p1'' ''{}'' (demo_app demo_notices) = (Inr x, t)"
proof -
  have parse: "demo_new_notice ''{}'' = Inr \<lparr>cni_deadlineCalculationId = ''q1'', cni_noticeType = ''DELAY'',
     cni_title = ''N'', cni_language = ''en'', cni_secondaryLanguage = None,
     cni_projectDeadlineId = None, cni_reference = None\<rparr>" by (simp add: demo_new_notice_def)
  have cols: "dc_id demo_calculation = ''q1''" "dc_tenantId demo_calculation = ''A''"
    "dc_projectId demo_calculation = ''p1''" "dc_snapshotId demo_calculation = ''x1''"
    "dc_eventId demo_calculation = ''e1''" "dc_assessmentId demo_calculation = ''a1''"
    "dc_status demo_calculation = DC_VERIFIED"
    by (simp_all add: demo_calculation_def newCalculation_def demo_rows_defs)
  have rows: "nt_id demo_rule_text = ''x1''" "ve_id (demo_event i st) = i"
    "va_id demo_assessment_row = ''a1''" "va_applicabilityStatus demo_assessment_row = AP_APPLICABLE"
    "eventConfirmed (demo_event i st)" "findProject ''p1'' ''A'' demo_state = Some (demo_project ''p1'' ''A'' P_ACTIVE)"
    "prj_status (demo_project ''p1'' ''A'' P_ACTIVE) = P_ACTIVE" for i st
    by (simp_all add: demo_rule_text_def demo_event_def demo_assessment_row_def eventConfirmed_def
        findProject_def demo_state_def demo_project_def)
  have web: "ap_web (demo_app d) = demo_state" for d by (simp add: demo_app_def)
  show ?thesis
    by (simp add: createNoticePackageFromDeadline_def projectService_run[where sp = demo_new_notice
          and raw = "''{}''", OF demo_notices_granted parse] transactionH_def bindH_def thenH_def
        projectRow_def web demo_notice_lookups cols rows assertProjectMutable_def
        seedRequirementSnapshot_def seedEvidenceRequirements_def seedDeliveryPreparations_def
        seedFactsFromEvent_def loadNotice_def findNotice_def demo_notice_tables newPackage_def Let_def)
qed

lemma package_rests_on_checked_deadline_witness:
  "\<exists>x t. createNoticePackageFromDeadline demo_nenv demo_new_notice ''n9'' ''rq'' (\<lambda>n. replicate n (CHR ''i''))
     ''p1'' ''{}'' (demo_app demo_notices) = (Inr x, t)
     \<and> (\<exists>p\<in>set (nt_packages (ap_db t)). nk_id p = ''n9'' \<and> nk_status p = NP_DRAFT)
     \<and> (\<exists>(c :: calculation_row) u. dc_status c = DC_VERIFIED \<and> dc_reviewedByUserId c = Some u \<and> u \<noteq> dc_calculatedByUserId c)"
proof -
  obtain x t where run: "createNoticePackageFromDeadline demo_nenv demo_new_notice ''n9'' ''rq''
      (\<lambda>n. replicate n (CHR ''i'')) ''p1'' ''{}'' (demo_app demo_notices) = (Inr x, t)"
    using demo_create_run by blast
  have "deadlines_db.truncate demo_notices = demo_deadlines"
    by (simp add: deadlines_db.defs demo_notices_def demo_deadlines_def)
  then have inv: "deadlineInv day_env (deadlines_db.truncate (ap_db (demo_app demo_notices)))"
    using demo_inv by simp
  have sod: "en_calculationSod day_env \<noteq> Some ''false''" by (simp add: day_env_def)
  obtain c :: calculation_row where c: "dc_status c = DC_VERIFIED" "en_calculationSod day_env \<noteq> Some ''false'' \<longrightarrow>
        (\<exists>u. dc_reviewedByUserId c = Some u \<and> u \<noteq> dc_calculatedByUserId c)"
      "\<exists>p\<in>set (nt_packages (ap_db t)). nk_id p = ''n9'' \<and> nk_status p = NP_DRAFT
        \<and> nk_activeApprovedRevisionId p = None \<and> nk_sodEnforced p = noticeSodEnabled demo_nenv
        \<and> bi_deadlineCalculationId (nk_binding p) = dc_id c
        \<and> bi_deadlineAt (nk_binding p) = dc_calculatedDeadlineAt c"
    using package_rests_on_checked_deadline[OF run inv]
    by - (elim exE conjE, rule that, assumption+)
  obtain u where "dc_reviewedByUserId c = Some u" "u \<noteq> dc_calculatedByUserId c" using c(2) sod by blast
  with c(1,3)
  show ?thesis using run by (intro exI[of _ x] exI[of _ t]) blast
qed

section \<open>A model's draft\<close>

definition demo_loaded :: loaded_package where
  "demo_loaded = \<lparr>lp_package = demo_notice ''n1'' ''p1'' NP_APPROVED (Some ''v1''), lp_requirement = None,
     lp_evidence = [], lp_preparations = [], lp_facts = [demo_fact_row], lp_assessment = None\<rparr>"

lemma demo_loaded_rows:
  "includeRows (demo_notice ''n1'' ''p1'' NP_APPROVED (Some ''v1'')) demo_notices = demo_loaded"
  by (simp add: includeRows_def demo_loaded_def demo_notice_tables lastOf_def) (simp add: demo_fact_row_def)

lemma demo_loaded_fields:
  "lp_package demo_loaded = demo_notice ''n1'' ''p1'' NP_APPROVED (Some ''v1'')"
  "lp_requirement demo_loaded = None" "lp_facts demo_loaded = [demo_fact_row]"
  by (simp_all add: demo_loaded_def)

lemma demo_usable: "approvedFacts [factEntry demo_fact_row] = [factEntry demo_fact_row]"
  by (simp add: approvedFacts_def usableFact_def factEntry_def demo_fact_row_def)

definition demo_model_input :: ai_draft_input where
  "demo_model_input = \<lparr>adi_language = ''en'', adi_noticeType = ''DELAY'', adi_title = ''N'',
     adi_approvedFacts = [factEntry demo_fact_row], adi_approvedDeadlineIso = None\<rparr>"

lemma demo_model_section:
  "fakeSection demo_model_input S_TRIGGER_DATE = demo_ai_section S_TRIGGER_DATE ''on 2026-07-01.''"
proof -
  have "trim ''on 2026-07-01.'' = ''on 2026-07-01.''" by code_simp
  then show ?thesis
    by (simp add: fakeSection_def fakeSectionText_def demo_model_input_def factOfType_def
        factEntry_def demo_fact_row_def demo_ai_section_def Let_def)
qed

lemma demo_model_sections:
  "filter (\<lambda>x. ai_sectionType x = S_TRIGGER_DATE) (ar_sections (fakeDraftNotice demo_model_input))
     = [demo_ai_section S_TRIGGER_DATE ''on 2026-07-01.'']"
proof -
  have kind: "ai_sectionType (fakeSection i t) = t" for i t by (simp add: fakeSection_def split: prod.split)
  have "filter (\<lambda>x. ai_sectionType x = S_TRIGGER_DATE) (ar_sections (fakeDraftNotice demo_model_input))
     = filter (\<lambda>x. ai_draftedText x \<noteq> []) (map (fakeSection demo_model_input)
         (filter (\<lambda>t. t = S_TRIGGER_DATE) (filter (\<lambda>t. t \<noteq> S_CLOSING) NOTICE_SECTION_TYPES)))"
    by (simp add: fakeDraftNotice_def filter_map comp_def kind conj_ac)
  also have "filter (\<lambda>t. t = S_TRIGGER_DATE) (filter (\<lambda>t. t \<noteq> S_CLOSING) NOTICE_SECTION_TYPES) = [S_TRIGGER_DATE]"
    by (simp add: NOTICE_SECTION_TYPES_def)
  finally show ?thesis by (simp add: demo_model_section) (simp add: demo_ai_section_def)
qed

lemma demo_model_valid:
  "\<exists>data w. validateAiDraftOutput (nn_aiSchema demo_nenv) (aiInputOf demo_nenv demo_loaded []
     [factEntry demo_fact_row] (fakeDraftNotice demo_model_input)) = Inr (data, w)"
proof -
  have "sectionErrors (aiInputOf demo_nenv demo_loaded [] [factEntry demo_fact_row] r)
      (demo_ai_section S_TRIGGER_DATE ''on 2026-07-01.'') = []" for r :: ai_response
    by (simp add: sectionErrors_def aiInputOf_def demo_ai_section_def demo_loaded_fields
        inventedDays_def mismatchedDays_def mapValue_def FORBIDDEN_PATTERNS_def demo_patterns
        orElseNat_def demo_ai_facts approvedDeadline_def)
      (simp add: demo_fact_row_def)
  moreover have "nn_aiSchema demo_nenv r = Inr (r\<lparr>ar_sections :=
      filter (\<lambda>x. ai_sectionType x = S_TRIGGER_DATE) (ar_sections r)\<rparr>)" for r
    by (simp add: demo_nenv_def)
  moreover have "aq_response (aiInputOf demo_nenv demo_loaded [] [factEntry demo_fact_row] r) = r" for r
    by (simp add: aiInputOf_def)
  ultimately show ?thesis by (simp add: ok_iff demo_model_sections del: One_nat_def)
qed

lemma demo_fake: "createNoticeDraftAiProvider demo_nenv = Inr (Some fakeProvider)"
  by code_simp

lemma ai_drafts_in_tests_only_witness:
  "\<exists>r rows t. generateAiAssistedDraft demo_nenv ''v9'' (\<lambda>n. replicate n (CHR ''i'')) ''p1'' ''n1''
       (demo_app demo_notices) = (Inr (r, rows), t)
     \<and> nv_status r = DF_DRAFT \<and> noticeAppEnv demo_nenv \<notin> {''production'', ''staging''}"
proof -
  have input: "\<lparr>adi_language = ''en'', adi_noticeType = ''DELAY'', adi_title = ''N'',
     adi_approvedFacts = [factEntry demo_fact_row],
     adi_approvedDeadlineIso = approvedDeadline demo_nenv demo_loaded\<rparr> = demo_model_input"
    by (simp add: demo_model_input_def approvedDeadline_def demo_loaded_fields)
  have kind: "nk_noticeType (demo_notice i pid st a) = ''DELAY''" for i pid st a
    by (simp add: demo_notice_def)
  have access: "accessP ''p1'' (NoticeCap c) (demo_app d) = (Inr demo_ctx, demo_app d)" for c d
    using demo_notices_granted[of d c] by (simp add: granted_def)
  obtain data w where valid: "validateAiDraftOutput (nn_aiSchema demo_nenv)
      (aiInputOf demo_nenv demo_loaded [] [factEntry demo_fact_row] (fakeDraftNotice demo_model_input)) = Inr (data, w)"
    using demo_model_valid by blast
  have "\<exists>x t. generateAiAssistedDraft demo_nenv ''v9'' (\<lambda>n. replicate n (CHR ''i'')) ''p1'' ''n1''
       (demo_app demo_notices) = (Inr x, t)"
    by (simp add: generateAiAssistedDraft_def access demo_fake bindH_def thenH_def transactionH_def
        loadNotice_def findNotice_def demo_notice_tables demo_loaded_rows demo_loaded_fields
        demo_usable kind input valid Let_def storeDraft_def setNoticeStatus_def)
  then obtain r rows t where "generateAiAssistedDraft demo_nenv ''v9'' (\<lambda>n. replicate n (CHR ''i''))
       ''p1'' ''n1'' (demo_app demo_notices) = (Inr (r, rows), t)" by (metis surj_pair)
  then show ?thesis using ai_drafts_in_tests_only by blast
qed

section \<open>What callers may not expect\<close>

text \<open>The validation compares the rows of a package with themselves: the bindings always match.\<close>

lemma bindings_always_match: "boundTo (selfBinding p c)"
  by (simp add: boundTo_def selfBinding_def)

text \<open>An approved revision cannot be validated: storing the result trips the trigger, and the request
  fails with an error that is not an application error.\<close>

lemma approved_revision_not_validated:
  assumes "noticeInv (ap_db s)" and r: "r \<in> set (nt_drafts (ap_db s))" "nv_status r = DF_APPROVED"
  shows "runDraftValidation pid nid (Some (nv_id r)) s \<noteq> (Inr v, t)"
proof
  assume "runDraftValidation pid nid (Some (nv_id r)) s = (Inr v, t)"
  then show False unfolding runDraftValidation_def
  proof (cases rule: projectAction_cases)
    case (ran ctx x)
    obtain q w y where q: "draftById (cx_tenantId ctx) nid (nv_id r) (ap_db s) = Some q"
      "updateDraft (cx_tenantId ctx) (nv_id q) (\<lambda>r. r\<lparr>nv_validationSnapshot := Some w\<rparr>) s = (Inr y, t)"
      using ran(2) by (auto simp: ok_iff simp del: updateDraft_Inr buildValidationInput_Inr
          dest!: validation_state)
    then obtain old where old: "find (\<lambda>x. nv_id x = nv_id q \<and> nv_tenantId x = cx_tenantId ctx)
        (nt_drafts (ap_db s)) = Some old" "draftTrigger old (old\<lparr>nv_validationSnapshot := Some w\<rparr>)"
      by (auto simp: ok_iff)
    have "nv_id q = nv_id r" using q(1) by (auto simp: draftById_def dest!: find_SomeD)
    then have "old = r"
      using find_SomeD[OF old(1)] r(1) assms(1) distinct_key_unique[of nv_id "nt_drafts (ap_db s)" old r]
      by (simp add: noticeInv_def rowsOk_def)
    then show False using old(2) r(2) by (simp add: draftTrigger_def)
  qed simp
qed

text \<open>A text that was approved once and then superseded can be edited.\<close>

lemma superseded_text_is_edited:
  "\<exists>x t. editDraftSection (\<lambda>raw. Inr raw) ''p1'' ''n1'' ''v1'' ''s1'' ''New''
      (demo_app (demo_notices\<lparr>nt_drafts := [demo_draft ''v1'' ''n1'' 1 DF_SUPERSEDED]\<rparr>)) = (Inr x, t)
    \<and> sn_body (nw_content x) = ''New'' \<and> x \<in> set (sectionsOf ''v1'' (ap_db t))"
proof -
  have "stripHtml ''New'' = ''New''" by code_simp
  moreover have "nv_projectId (demo_draft i nid n st) = ''p1''" for i nid n st by (simp add: demo_draft_def)
  ultimately show ?thesis
    by (simp add: editDraftSection_def projectService_run[where sp = "\<lambda>raw. Inr raw" and raw = "''New''",
          OF demo_notices_granted refl] transactionH_def bindH_def thenH_def demo_notice_tables
        demo_section_def editSection_def sectionsOf_def)
qed

text \<open>Assessing the evidence sets the status of any package: a withdrawn one is ready for a draft.\<close>

lemma assessment_revives_withdrawn:
  "\<exists>x t. assessEvidenceCompletenessForPackage demo_nenv ''z1'' ''p1'' ''n1''
      (demo_app (demo_notices\<lparr>nt_packages := [demo_notice ''n1'' ''p1'' NP_WITHDRAWN None]\<rparr>)) = (Inr x, t)
    \<and> nt_packages (ap_db t) = [demo_notice ''n1'' ''p1'' NP_READY_FOR_DRAFT None]"
proof -
  have ready: "cr_status (assessEvidenceCompleteness [] True) = CM_READY" by code_simp
  have web: "ap_web (demo_app d) = demo_state" for d by (simp add: demo_app_def)
  have prj: "findProject ''p1'' ''A'' demo_state = Some (demo_project ''p1'' ''A'' P_ACTIVE)"
    "prj_status (demo_project ''p1'' ''A'' P_ACTIVE) = P_ACTIVE"
    by (simp_all add: findProject_def demo_state_def demo_project_def)
  show ?thesis
    by (simp add: assessEvidenceCompletenessForPackage_def projectAction_run[OF demo_notices_granted]
        transactionH_def bindH_def thenH_def loadNotice_def findNotice_def includeRows_def
        demo_notice_tables projectRow_def web prj assertProjectMutable_def ready setNoticeStatus_def Let_def)
qed

end
