(* ===== verification/ContractText.thy ===== *)
theory ContractText
  imports JsText DeadlineEngine
begin

text \<open>
  Reading a contract: the duration, clause-number and cross-reference rules of
  \<open>packages/contract-rules/src/index.ts\<close> and the extraction of clauses, timing expressions,
  defined terms, parties and cross-references from the text of a document
  (\<open>apps/web/src/server/contracts/structure-extract.ts\<close>).  Texts are UTF-16 code units; the
  checksum of a text is a parameter.
\<close>

section \<open>Durations and rules\<close>

datatype calendar_basis = CALENDAR_DAYS | BUSINESS_DAYS | CONTRACT_DEFINED

datatype trigger_date_basis =
    EVENT_OCCURRENCE | BECAME_AWARE | INSTRUCTION_RECEIVED | NOTICE_RECEIVED | CUSTOM_BASIS

record duration_expression =
  du_unit :: duration_unit
  du_value :: "rat option"
  du_rawText :: units
  du_calendarBasis :: "calendar_basis option"
  du_counting :: counting_convention

record notice_rule_draft =
  rd_duration :: duration_expression
  rd_triggerDateBasis :: trigger_date_basis
  rd_timeBarClassification :: time_bar
  rd_requiredRecipients :: "units list"
  rd_deliveryMethods :: "units list"
  rd_ambiguityNotes :: "units list"
  rd_humanApproved :: bool

definition isNumericDurationUnit :: "duration_unit \<Rightarrow> bool" where
  "isNumericDurationUnit u \<longleftrightarrow> u \<notin> {IMMEDIATE, PROMPT, REASONABLE_TIME}"

definition durationErrors :: "duration_expression \<Rightarrow> string list" where
  "durationErrors d =
     (if isNumericDurationUnit (du_unit d)
      then (case du_value d of None \<Rightarrow> [''Numeric duration units require a value'']
        | Some v \<Rightarrow> whenl (v < 0) ''Duration value must not be negative'')
      else whenl (du_value d \<noteq> None)
        (unit_name (du_unit d) @ '' must remain non-numeric (value must be null)''))"

text \<open>The schema of a duration is a parameter: what it makes of an input, or its issues.\<close>

definition validateDurationExpression ::
  "('raw \<Rightarrow> string list + duration_expression) \<Rightarrow> 'raw \<Rightarrow> string list + duration_expression" where
  "validateDurationExpression safeParse raw = (case safeParse raw of
     Inl issues \<Rightarrow> Inl issues
   | Inr value \<Rightarrow> (if length (durationErrors value) \<noteq> 0 then Inl (durationErrors value) else Inr value))"

definition isRuleExecutable ::
  "(duration_expression \<Rightarrow> string list + duration_expression) \<Rightarrow> notice_rule_draft \<Rightarrow>
   bool \<times> string list" where
  "isRuleExecutable safeParse r =
     (let reasons = whenl (\<not> rd_humanApproved r) ''Rule is not human-approved''
        @ (case validateDurationExpression safeParse (rd_duration r) of
             Inl errors \<Rightarrow> errors
           | Inr d \<Rightarrow> whenl (\<not> isNumericDurationUnit (du_unit d))
               (''Duration unit '' @ unit_name (du_unit d) @ '' is not deterministically executable''))
        @ whenl (rd_timeBarClassification r = UNCERTAIN) ''Time-bar classification is UNCERTAIN''
        @ whenl (length (rd_requiredRecipients r) = 0)
            ''At least one required recipient must be approved''
        @ whenl (0 < length (rd_ambiguityNotes r)) ''Ambiguity notes remain unresolved''
      in (length reasons = 0, reasons))"

section \<open>Matches with their parts\<close>

text \<open>
  A regular expression that is a sequence of parts, with the text each part takes: the capturing
  groups of the source are parts.  The list has the matches in the order JavaScript tries them;
  \<open>fin\<close> is a closing \<open>$\<close>.
\<close>

definition takenText :: "place \<Rightarrow> place \<Rightarrow> units" where
  "takenText u v = take (length (snd u) - length (snd v)) (snd u)"

fun partsOf :: "bool \<Rightarrow> rx list \<Rightarrow> place \<Rightarrow> units list list" where
  "partsOf fin [] u = (if fin \<and> snd u \<noteq> [] then [] else [[]])"
| "partsOf fin (r # rs) u =
     concat (map (\<lambda>v. map ((#) (takenText u v)) (partsOf fin rs v)) (ways r u))"

fun firstOf :: "'a list \<Rightarrow> 'a option" where
  "firstOf [] = None"
| "firstOf (x # xs) = Some x"

text \<open>A match at the start of the text, and the first match anywhere in it.\<close>

definition partsAtStart :: "bool \<Rightarrow> rx list \<Rightarrow> units \<Rightarrow> units list option" where
  "partsAtStart fin rs t = firstOf (partsOf fin rs (None, t))"

fun partsFrom :: "rx list \<Rightarrow> nat option \<Rightarrow> units \<Rightarrow> units list option" where
  "partsFrom rs p [] = firstOf (partsOf False rs (p, []))"
| "partsFrom rs p (c # cs) = (case firstOf (partsOf False rs (p, c # cs)) of
     Some ps \<Rightarrow> Some ps
   | None \<Rightarrow> partsFrom rs (Some c) cs)"

definition spacesRx0 :: rx where
  "spacesRx0 = Star (Cls spaceUnit)"

definition spacesRx1 :: rx where
  "spacesRx1 = plusRx (Cls spaceUnit)"

definition oneOf :: "nat list \<Rightarrow> rx" where
  "oneOf cs = Cls (\<lambda>c. c \<in> set cs)"

section \<open>Texts\<close>

definition trimUnits :: "units \<Rightarrow> units" where
  "trimUnits t = rev (dropWhile spaceUnit (rev (dropWhile spaceUnit t)))"

text \<open>\<open>split(/\r?\n/)\<close>.\<close>

fun dropReturns :: "units \<Rightarrow> units" where
  "dropReturns [] = []"
| "dropReturns [c] = [c]"
| "dropReturns (c # d # cs) = (if c = 13 \<and> d = 10 then dropReturns (d # cs)
     else c # dropReturns (d # cs))"

fun splitOn :: "(nat \<Rightarrow> bool) \<Rightarrow> units \<Rightarrow> units list" where
  "splitOn P [] = [[]]"
| "splitOn P (c # cs) = (if P c then [] # splitOn P cs
     else (case splitOn P cs of [] \<Rightarrow> [[c]] | l # ls \<Rightarrow> (c # l) # ls))"

definition textLines :: "units \<Rightarrow> units list" where
  "textLines t = splitOn (\<lambda>c. c = 10) (dropReturns t)"

fun joinLines :: "units list \<Rightarrow> units" where
  "joinLines [] = []"
| "joinLines [l] = l"
| "joinLines (l # m # ls) = l @ 10 # joinLines (m # ls)"

text \<open>\<open>x || null\<close> on a text.\<close>

definition nonEmpty :: "units \<Rightarrow> units option" where
  "nonEmpty t = (if t = [] then None else Some t)"

definition asciiDigit :: "nat \<Rightarrow> nat" where
  "asciiDigit c =
     (if 1632 \<le> c \<and> c \<le> 1641 then c - 1632 + 48
      else if 1776 \<le> c \<and> c \<le> 1785 then c - 1776 + 48 else c)"

definition normalizeArabicIndicDigits :: "units \<Rightarrow> units" where
  "normalizeArabicIndicDigits t = map asciiDigit t"

text \<open>\<open>replace(/\s+/g, ' ')\<close>.\<close>

fun squeezeSpaces :: "bool \<Rightarrow> units \<Rightarrow> units" where
  "squeezeSpaces after [] = []"
| "squeezeSpaces after (c # cs) =
     (if spaceUnit c then (if after then squeezeSpaces True cs else 32 # squeezeSpaces True cs)
      else c # squeezeSpaces False cs)"

definition normalizeClauseNumber :: "units option \<Rightarrow> units option" where
  "normalizeClauseNumber raw = (case raw of None \<Rightarrow> None
   | Some t \<Rightarrow> (let trimmed = trimUnits (normalizeArabicIndicDigits t)
       in if trimmed = [] then None else Some (squeezeSpaces False trimmed)))"

section \<open>Cross-references\<close>

definition alnumUnit :: "nat \<Rightarrow> bool" where
  "alnumUnit c \<longleftrightarrow> digitUnit c \<or> (65 \<le> c \<and> c \<le> 90) \<or> (97 \<le> c \<and> c \<le> 122)"

text \<open>\<open>[0-9]+(?:\.[0-9]+)*(?:\([a-z0-9]+\))*\<close>, in either case.\<close>

definition clauseNumberRx :: rx where
  "clauseNumberRx = seqOf [plusRx (Cls digitUnit),
     Star (Seq (unitIs 46) (plusRx (Cls digitUnit))),
     Star (seqOf [unitIs 40, plusRx (Cls alnumUnit), unitIs 41])]"

definition subClauseRx :: rx where
  "subClauseRx = seqOf [textCi ''Sub'', optRx (unitIs 45), textCi ''Clause'']"

definition REFERENCE_PARTS :: "rx list" where
  "REFERENCE_PARTS = [altOf [subClauseRx, textCi ''Clause'', textCi ''Article'', textCi ''Appendix'',
     textCi ''Schedule''], spacesRx1, clauseNumberRx]"

record cross_reference =
  xr_rawReferenceText :: units
  xr_normalizedTargetIdentifier :: "units option"
  xr_ambiguous :: bool

definition parseCrossReferenceCandidate :: "units \<Rightarrow> cross_reference" where
  "parseCrossReferenceCandidate raw =
     (let t = trimUnits (normalizeArabicIndicDigits raw) in
      case partsFrom REFERENCE_PARTS None t of
        None \<Rightarrow> \<lparr>xr_rawReferenceText = t, xr_normalizedTargetIdentifier = None, xr_ambiguous = True\<rparr>
      | Some parts \<Rightarrow> \<lparr>xr_rawReferenceText = t, xr_normalizedTargetIdentifier = Some (parts ! 2),
          xr_ambiguous = False\<rparr>)"

text \<open>The matches of the whole text, each text once.\<close>

definition REFERENCE_RX :: rx where
  "REFERENCE_RX = seqOf REFERENCE_PARTS"

fun firstOnes :: "'a list \<Rightarrow> 'a list \<Rightarrow> 'a list" where
  "firstOnes seen [] = []"
| "firstOnes seen (x # xs) =
     (if x \<in> set seen then firstOnes seen xs else x # firstOnes (x # seen) xs)"

definition extractCrossReferenceCandidates :: "units \<Rightarrow> (cross_reference \<times> rat) list" where
  "extractCrossReferenceCandidates t =
     map (\<lambda>raw. let parsed = parseCrossReferenceCandidate raw
        in (parsed, if xr_ambiguous parsed then 3/10 else 6/10))
       (firstOnes [] (matchesRx REFERENCE_RX t))"

section \<open>Clauses\<close>

record clause_candidate =
  cc_clauseNumber :: "units option"
  cc_normalizedClauseNumber :: "units option"
  cc_heading :: "units option"
  cc_sourceText :: units
  cc_textChecksum :: string
  cc_level :: nat
  cc_sequence :: nat
  cc_extractionConfidence :: rat

text \<open>\<open>CLAUSE_LINE\<close>: the number is the third part and the heading the last.\<close>

definition CLAUSE_LINE :: "rx list" where
  "CLAUSE_LINE = [optRx (altOf [textCi ''Clause'', subClauseRx, textCi ''Article'']), spacesRx0,
     clauseNumberRx, spacesRx0, Alt (Seq (oneOf [8211, 8212, 58, 45]) spacesRx0) spacesRx1,
     plusRx (Cls dotUnit)]"

record clause_buffer =
  bf_number :: "units option"
  bf_heading :: "units option"
  bf_body :: "units list"

record clause_scan =
  scn_buffer :: "clause_buffer option"
  scn_candidates :: "clause_candidate list"
  scn_sequence :: nat

fun headLine :: "units option \<Rightarrow> units list" where
  "headLine None = []"
| "headLine (Some t) = [t]"

definition bufferText :: "clause_buffer \<Rightarrow> units" where
  "bufferText b = trimUnits (joinLines (filter (\<lambda>l. l \<noteq> []) (headLine (bf_heading b) @ bf_body b)))"

definition clauseLevel :: "units option \<Rightarrow> nat" where
  "clauseLevel n = (case n of None \<Rightarrow> 1
   | Some t \<Rightarrow> length (filter (\<lambda>l. l \<noteq> []) (splitOn (\<lambda>c. c = 46 \<or> c = 40) t)))"

definition flushClause :: "(units \<Rightarrow> string) \<Rightarrow> clause_scan \<Rightarrow> clause_scan" where
  "flushClause sha s = (case scn_buffer s of None \<Rightarrow> s
   | Some b \<Rightarrow> (let sourceText = bufferText b in
       if sourceText = [] then s\<lparr>scn_buffer := None\<rparr>
       else \<lparr>scn_buffer = None,
         scn_candidates = scn_candidates s @
           [\<lparr>cc_clauseNumber = bf_number b,
             cc_normalizedClauseNumber = normalizeClauseNumber (bf_number b),
             cc_heading = bf_heading b, cc_sourceText = sourceText,
             cc_textChecksum = sha sourceText, cc_level = clauseLevel (bf_number b),
             cc_sequence = scn_sequence s + 1,
             cc_extractionConfidence = (if bf_number b = None then 4/10 else 7/10)\<rparr>],
         scn_sequence = scn_sequence s + 1\<rparr>))"

definition clauseLine :: "(units \<Rightarrow> string) \<Rightarrow> units \<Rightarrow> clause_scan \<Rightarrow> clause_scan" where
  "clauseLine sha rawLine s =
     (let line = trimUnits rawLine in
      if line = [] then s
      else case partsAtStart True CLAUSE_LINE line of
        Some parts \<Rightarrow> (flushClause sha s)\<lparr>scn_buffer := Some \<lparr>bf_number = Some (parts ! 2),
          bf_heading = nonEmpty (trimUnits (parts ! 5)), bf_body = []\<rparr>\<rparr>
      | None \<Rightarrow> (case scn_buffer s of
          None \<Rightarrow> s\<lparr>scn_buffer := Some \<lparr>bf_number = None, bf_heading = None, bf_body = [line]\<rparr>\<rparr>
        | Some b \<Rightarrow> s\<lparr>scn_buffer := Some (b\<lparr>bf_body := bf_body b @ [line]\<rparr>)\<rparr>))"

definition extractClauseCandidatesFromText ::
  "(units \<Rightarrow> string) \<Rightarrow> units \<Rightarrow> clause_candidate list" where
  "extractClauseCandidatesFromText sha t = scn_candidates (flushClause sha
     (fold (clauseLine sha) (textLines t) \<lparr>scn_buffer = None, scn_candidates = [], scn_sequence = 0\<rparr>))"

section \<open>Timing\<close>

record notice_timing =
  tm_durationUnit :: "duration_unit option"
  tm_durationValue :: "nat option"
  tm_vague :: bool

text \<open>
  \<open>toLowerCase\<close>, exact for ASCII and for the two other letters whose lower case begins with
  an ASCII letter; what it makes of other letters no pattern of the probe can tell apart.
\<close>

definition lowerText :: "units \<Rightarrow> units" where
  "lowerText t = concat (map (\<lambda>c. if c = 304 then [105, 775] else if c = 8490 then [107]
     else [lowerUnit c]) t)"

definition wordRx :: "rx list \<Rightarrow> rx" where
  "wordRx rs = seqOf (WordB # rs @ [WordB])"

definition PROMPT_RX :: rx where
  "PROMPT_RX = altOf [wordRx [textRx ''promptly''],
     wordRx [textRx ''immediate'', optRx (textRx ''ly'')]]"

definition REASONABLE_RX :: rx where
  "REASONABLE_RX = wordRx [textRx ''reasonable'']"

definition DAYS_PARTS :: "rx list" where
  "DAYS_PARTS = [WordB, textRx ''within'', spacesRx1, plusRx (Cls digitUnit), spacesRx1,
     optRx (Seq (textRx ''calendar'') spacesRx1), textRx ''day'', optRx (textRx ''s''), WordB]"

definition numberOf :: "units \<Rightarrow> nat" where
  "numberOf ds = fold (\<lambda>c n. n * 10 + (c - 48)) ds 0"

definition probeNoticeTimingExpression :: "units \<Rightarrow> notice_timing" where
  "probeNoticeTimingExpression rawText =
     (let t = lowerText rawText in
      if testRx PROMPT_RX t
      then \<lparr>tm_durationUnit = Some PROMPT, tm_durationValue = None, tm_vague = True\<rparr>
      else if testRx REASONABLE_RX t
      then \<lparr>tm_durationUnit = Some REASONABLE_TIME, tm_durationValue = None, tm_vague = True\<rparr>
      else case partsFrom DAYS_PARTS None t of
        Some parts \<Rightarrow> \<lparr>tm_durationUnit = Some CALENDAR_DAY,
          tm_durationValue = Some (numberOf (parts ! 3)), tm_vague = False\<rparr>
      | None \<Rightarrow> \<lparr>tm_durationUnit = None, tm_durationValue = None, tm_vague = True\<rparr>)"

section \<open>Defined terms and parties\<close>

text \<open>
  \<open>[^\s]\<close> under the flag \<open>u\<close> takes a whole code point, a surrogate pair included; the
  text of a database column has no lone surrogate.
\<close>

definition surrogateUnit :: "nat \<Rightarrow> bool" where
  "surrogateUnit c \<longleftrightarrow> 55296 \<le> c \<and> c \<le> 57343"

definition nonSpacePoint :: rx where
  "nonSpacePoint = Alt (Seq (Cls (\<lambda>c. 55296 \<le> c \<and> c \<le> 56319)) (Cls (\<lambda>c. 56320 \<le> c \<and> c \<le> 57343)))
     (Cls (\<lambda>c. \<not> spaceUnit c \<and> \<not> surrogateUnit c))"

definition letterUnit :: "nat \<Rightarrow> bool" where
  "letterUnit c \<longleftrightarrow> (65 \<le> c \<and> c \<le> 90) \<or> (97 \<le> c \<and> c \<le> 122)"

definition MEANS_PARTS :: "rx list" where
  "MEANS_PARTS = [optRx (oneOf [34, 8220]),
     seqOf [Cls (\<lambda>c. 65 \<le> c \<and> c \<le> 90), Cls letterUnit, Cls (\<lambda>c. letterUnit c \<or> c = 32),
       upToRx 59 (Cls (\<lambda>c. letterUnit c \<or> c = 32))],
     optRx (oneOf [34, 8221]), spacesRx1, textRx ''means'', WordB]"

definition ARABIC_MEANS_PARTS :: "rx list" where
  "ARABIC_MEANS_PARTS = [optRx (oneOf [34, 8220]),
     seqOf [nonSpacePoint, nonSpacePoint, upToRx 38 nonSpacePoint],
     optRx (oneOf [34, 8221]), spacesRx1, seqOf (map unitIs [1610, 1593, 1606, 1610]), WordB]"

text \<open>\<open>DEFINED_TERM_LINE\<close>: \<open>match[1] ?? match[2]\<close> of its two alternatives.\<close>

definition definedTerm :: "units \<Rightarrow> units option" where
  "definedTerm line = (case partsAtStart False MEANS_PARTS line of
     Some parts \<Rightarrow> Some (trimUnits (parts ! 1))
   | None \<Rightarrow> map_option (\<lambda>parts. trimUnits (parts ! 1)) (partsAtStart False ARABIC_MEANS_PARTS line))"

record term_candidate =
  tc_term :: units
  tc_definitionText :: units

definition extractDefinedTermCandidates :: "units \<Rightarrow> term_candidate list" where
  "extractDefinedTermCandidates t = concat (map (\<lambda>rawLine.
     (let line = trimUnits rawLine in
      case definedTerm line of None \<Rightarrow> []
      | Some x \<Rightarrow> whenl (x \<noteq> []) \<lparr>tc_term = x, tc_definitionText = line\<rparr>)) (textLines t))"

datatype party_kind = PARTY | ROLE

record party_candidate =
  py_kind :: party_kind
  py_label :: units
  py_partyTypeHint :: string

definition employerArabic :: units where
  "employerArabic = [1589, 1575, 1581, 1576, 32, 1575, 1604, 1593, 1605, 1604]"

definition contractorArabic :: units where
  "contractorArabic = [1575, 1604, 1605, 1602, 1575, 1608, 1604]"

definition partyPatterns :: "(rx \<times> party_candidate) list" where
  "partyPatterns =
     [(wordRx [textCi ''the Employer''],
        \<lparr>py_kind = PARTY, py_label = units ''Employer'', py_partyTypeHint = ''EMPLOYER''\<rparr>),
      (wordRx [textCi ''the Contractor''],
        \<lparr>py_kind = PARTY, py_label = units ''Contractor'', py_partyTypeHint = ''CONTRACTOR''\<rparr>),
      (wordRx [textCi ''the Engineer''],
        \<lparr>py_kind = ROLE, py_label = units ''Engineer'', py_partyTypeHint = ''ENGINEER''\<rparr>),
      (seqOf (map unitIs employerArabic),
        \<lparr>py_kind = PARTY, py_label = employerArabic, py_partyTypeHint = ''EMPLOYER''\<rparr>),
      (seqOf (map unitIs contractorArabic),
        \<lparr>py_kind = PARTY, py_label = contractorArabic, py_partyTypeHint = ''CONTRACTOR''\<rparr>)]"

fun partyScan :: "units \<Rightarrow> units list \<Rightarrow> (rx \<times> party_candidate) list \<Rightarrow> party_candidate list" where
  "partyScan t seen [] = []"
| "partyScan t seen ((re, p) # ps) =
     (if \<not> testRx re t \<or> py_label p \<in> set seen then partyScan t seen ps
      else p # partyScan t (py_label p # seen) ps)"

definition extractPartyRoleCandidates :: "units \<Rightarrow> party_candidate list" where
  "extractPartyRoleCandidates t = partyScan t [] partyPatterns"

section \<open>What a match takes\<close>

lemma rxMatch_suffix:
  "rxMatch r u v \<Longrightarrow> \<exists>m. snd u = m @ snd v \<and> fst v = lastUnit (fst u) m"
proof (induction rule: rxMatch.induct)
  case (seq r u v s w)
  then obtain m n where "snd u = m @ snd v" "fst v = lastUnit (fst u) m"
    "snd v = n @ snd w" "fst w = lastUnit (fst v) n" by blast
  then show ?case by (intro exI[of _ "m @ n"]) (simp add: lastUnit_def)
next
  case (more r u v w)
  then obtain m n where "snd u = m @ snd v" "fst v = lastUnit (fst u) m"
    "snd v = n @ snd w" "fst w = lastUnit (fst v) n" by blast
  then show ?case by (intro exI[of _ "m @ n"]) (simp add: lastUnit_def)
qed (auto simp: lastUnit_def)

lemma takenText_append: "snd u = m @ snd v \<Longrightarrow> takenText u v = m"
  by (simp add: takenText_def)

lemma takenText_match: "rxMatch r u v \<Longrightarrow> snd u = takenText u v @ snd v"
  using rxMatch_suffix[of r u v] by (auto simp: takenText_def)

lemma partsOf_Cons: "ps \<in> set (partsOf fin (r # rs) u) \<longleftrightarrow>
    (\<exists>v qs. rxMatch r u v \<and> qs \<in> set (partsOf fin rs v) \<and> ps = takenText u v # qs)"
  by (auto simp flip: ways_iff)

declare partsOf.simps(2) [simp del]

text \<open>The parts of a match are its text, one for each part of the expression.\<close>

lemma partsOf_text:
  "ps \<in> set (partsOf fin rs u) \<Longrightarrow>
     length ps = length rs \<and> (\<exists>rest. snd u = concat ps @ rest \<and> (fin \<longrightarrow> rest = []))"
proof (induction rs arbitrary: u ps)
  case Nil
  then show ?case by (cases fin) (auto split: if_splits)
next
  case (Cons r rs)
  then obtain v qs where v: "rxMatch r u v" "qs \<in> set (partsOf fin rs v)" "ps = takenText u v # qs"
    by (auto simp: partsOf_Cons)
  then show ?case using Cons.IH[OF v(2)] takenText_match[OF v(1)] by auto
qed

lemma partsOf_nth:
  "ps \<in> set (partsOf fin rs u) \<Longrightarrow> i < length rs \<Longrightarrow>
     \<exists>v w. rxMatch (rs ! i) v w \<and> ps ! i = takenText v w"
proof (induction rs arbitrary: u ps i)
  case (Cons r rs)
  then obtain v qs where v: "rxMatch r u v" "qs \<in> set (partsOf fin rs v)" "ps = takenText u v # qs"
    by (auto simp: partsOf_Cons)
  show ?case
  proof (cases i)
    case 0
    then show ?thesis using v(1,3) by (metis nth_Cons_0)
  next
    case (Suc j)
    then show ?thesis using v(2,3) Cons.IH[OF v(2), of j] Cons.prems(2) by (metis Suc_less_eq length_Cons nth_Cons_Suc)
  qed
qed simp

lemma firstOf_Some: "firstOf xs = Some x \<Longrightarrow> x \<in> set xs"
  by (cases xs) auto

lemma firstOf_None: "firstOf xs = None \<longleftrightarrow> xs = []"
  by (cases xs) auto

lemma plus_class_text:
  assumes "rxMatch (plusRx (Cls P)) u v"
  shows "\<exists>c m. takenText u v = c # m \<and> P c"
proof -
  obtain w where w: "rxMatch (Cls P) u w" "rxMatch (Star (Cls P)) w v"
    using assms by (auto simp: plusRx_def elim: rxMatch_casesE)
  then obtain c cs where c: "snd u = c # cs" "P c" "snd w = cs" by (auto elim: rxMatch_casesE)
  obtain m where "snd w = m @ snd v" using rxMatch_suffix[OF w(2)] by blast
  then show ?thesis using c by (auto simp: takenText_def)
qed

section \<open>Trimmed texts\<close>

definition trimmed :: "units \<Rightarrow> bool" where
  "trimmed t \<longleftrightarrow> t \<noteq> [] \<and> \<not> spaceUnit (hd t) \<and> \<not> spaceUnit (last t)"

lemma trimUnits_id: "trimmed t \<Longrightarrow> trimUnits t = t"
proof -
  assume t: "trimmed t"
  have "dropWhile spaceUnit t = t" using t by (cases t) (simp_all add: trimmed_def)
  moreover have "dropWhile spaceUnit (rev t) = rev t"
    using t by (cases t rule: rev_cases) (simp_all add: trimmed_def)
  ultimately show ?thesis by (simp add: trimUnits_def)
qed

lemma dropWhile_hd: "dropWhile P t \<noteq> [] \<Longrightarrow> \<not> P (hd (dropWhile P t))"
  by (induction t) auto

lemma trimUnits_trimmed: "trimUnits t \<noteq> [] \<Longrightarrow> trimmed (trimUnits t)"
proof -
  assume ne: "trimUnits t \<noteq> []"
  define a where "a = dropWhile spaceUnit t"
  define b where "b = dropWhile spaceUnit (rev a)"
  have t: "trimUnits t = rev b" by (simp add: trimUnits_def a_def b_def)
  then have b: "b \<noteq> []" "\<not> spaceUnit (hd b)" using ne dropWhile_hd[of spaceUnit "rev a"] by (auto simp: b_def)
  obtain c where c: "rev a = c @ b" unfolding b_def by (metis takeWhile_dropWhile_id)
  then have "a = rev b @ rev c" by (metis rev_append rev_rev_ident)
  then have "a \<noteq> []" "hd a = hd (rev b)" using b(1) by auto
  then show ?thesis
    using b dropWhile_hd[of spaceUnit t] by (simp add: trimmed_def t a_def last_rev)
qed

lemma trimUnits_Nil: "trimUnits t = [] \<longleftrightarrow> (\<forall>c\<in>set t. spaceUnit c)"
  by (auto simp: trimUnits_def dropWhile_eq_Nil_conv dest: set_dropWhileD)
    (metis dropWhile_eq_Nil_conv hd_dropWhile list.set_sel(1))

lemma trimmed_joinLines:
  assumes "ls \<noteq> []" and "list_all trimmed ls"
  shows "trimmed (joinLines ls)"
proof -
  have "joinLines ls \<noteq> [] \<and> hd (joinLines ls) = hd (hd ls) \<and> last (joinLines ls) = last (last ls)"
    using assms by (induction ls rule: joinLines.induct) (auto simp: trimmed_def)
  moreover have "trimmed (hd ls)" "trimmed (last ls)"
    using assms by (simp_all add: list_all_iff)
  ultimately show ?thesis by (simp add: trimmed_def)
qed

lemma joinLines_append:
  "joinLines (xs @ ys) = (if xs = [] then joinLines ys else if ys = [] then joinLines xs
     else joinLines xs @ 10 # joinLines ys)"
  by (induction xs rule: joinLines.induct) (auto simp: neq_Nil_conv)

lemma joinLines_concat:
  assumes "[] \<notin> set xss"
  shows "joinLines (map joinLines xss) = joinLines (concat xss)"
  using assms
proof (induction xss)
  case (Cons xs xss)
  have "concat xss \<noteq> [] \<longleftrightarrow> xss \<noteq> []" and ne: "xs \<noteq> []" using Cons.prems by (cases xss; auto)+
  then show ?case
    using Cons by (cases xss) (auto simp: joinLines_append)
qed simp

section \<open>The clauses of a text\<close>

text \<open>What a line is in the clauses: its heading, or the line itself.\<close>

definition shownLine :: "units \<Rightarrow> units" where
  "shownLine l = (case partsAtStart True CLAUSE_LINE l of None \<Rightarrow> l | Some ps \<Rightarrow> trimUnits (ps ! 5))"

definition filledLines :: "units \<Rightarrow> units list" where
  "filledLines t = filter (\<lambda>l. l \<noteq> []) (map trimUnits (textLines t))"

text \<open>A clause number: digits first, and part of a line of the text.\<close>

definition numberIn :: "units \<Rightarrow> units \<Rightarrow> bool" where
  "numberIn t n \<longleftrightarrow> n \<noteq> [] \<and> digitUnit (hd n) \<and> (\<exists>l\<in>set (filledLines t). \<exists>a b. l = a @ n @ b)"

lemma CLAUSE_LINE_length: "length CLAUSE_LINE = 6"
  by (simp add: CLAUSE_LINE_def)

lemma clause_line_parts:
  assumes "partsAtStart True CLAUSE_LINE l = Some ps" and "trimmed l"
  shows "trimmed (trimUnits (ps ! 5))"
    and "ps ! 2 \<noteq> []" "digitUnit (hd (ps ! 2))" "\<exists>a b. l = a @ ps ! 2 @ b"
proof -
  have ps: "ps \<in> set (partsOf True CLAUSE_LINE (None, l))"
    using assms(1) firstOf_Some by (simp add: partsAtStart_def)
  have len: "length ps = 6" and whole: "l = concat ps"
    using partsOf_text[OF ps] by (auto simp: CLAUSE_LINE_length)
  have split: "ps = take 2 ps @ ps ! 2 # drop 3 ps" "ps = take 5 ps @ [ps ! 5]"
    using len id_take_nth_drop[of 2 ps] id_take_nth_drop[of 5 ps] by simp_all
  obtain v w where "rxMatch (plusRx (Cls dotUnit)) v w" "ps ! 5 = takenText v w"
    using partsOf_nth[OF ps, of 5] by (auto simp: CLAUSE_LINE_def)
  then have head: "ps ! 5 \<noteq> []" using plus_class_text[of dotUnit v w] by auto
  have "l = concat (take 5 ps) @ ps ! 5"
    using arg_cong[OF split(2), of concat] whole by simp
  then have "last l = last (ps ! 5)" using head by simp
  then have "trimUnits (ps ! 5) \<noteq> []"
    using assms(2) head unfolding trimUnits_Nil trimmed_def by (metis last_in_set)
  then show "trimmed (trimUnits (ps ! 5))" by (rule trimUnits_trimmed)
  obtain v w where m: "rxMatch clauseNumberRx v w" and n: "ps ! 2 = takenText v w"
    using partsOf_nth[OF ps, of 2] by (auto simp: CLAUSE_LINE_def)
  obtain x where x: "rxMatch (plusRx (Cls digitUnit)) v x" "\<exists>m. snd x = m @ snd w"
    using m rxMatch_suffix unfolding clauseNumberRx_def seqOf.simps by (blast elim: rxMatch_casesE(4))
  then obtain c k where "takenText v x = c # k" "digitUnit c" using plus_class_text by blast
  then have "snd v = c # k @ snd x" using takenText_match[OF x(1)] by simp
  then have "ps ! 2 = c # k @ take (length (snd x) - length (snd w)) (snd x)"
    using x(2) n by (auto simp: takenText_def)
  then show "ps ! 2 \<noteq> []" "digitUnit (hd (ps ! 2))" using \<open>digitUnit c\<close> by simp_all
  show "\<exists>a b. l = a @ ps ! 2 @ b"
    using arg_cong[OF split(1), of concat] whole
    by (intro exI[of _ "concat (take 2 ps)"] exI[of _ "concat (drop 3 ps)"]) simp
qed

text \<open>What the scan has after the filled lines \<open>ls\<close>: each candidate holds a group of them.\<close>

definition bufferLines :: "clause_buffer option \<Rightarrow> units list" where
  "bufferLines b = (case b of None \<Rightarrow> [] | Some x \<Rightarrow> headLine (bf_heading x) @ bf_body x)"

definition bufferNumber :: "clause_buffer option \<Rightarrow> units option" where
  "bufferNumber b = (case b of None \<Rightarrow> None | Some x \<Rightarrow> bf_number x)"

definition numberOfLine :: "units \<Rightarrow> units \<Rightarrow> bool" where
  "numberOfLine l n \<longleftrightarrow> n \<noteq> [] \<and> digitUnit (hd n) \<and> (\<exists>a b. l = a @ n @ b)"

definition scanOk :: "units list \<Rightarrow> clause_scan \<Rightarrow> bool" where
  "scanOk ls s \<longleftrightarrow>
     (\<exists>gs. [] \<notin> set gs \<and> map cc_sourceText (scn_candidates s) = map joinLines gs
       \<and> map shownLine ls = concat gs @ bufferLines (scn_buffer s))
     \<and> list_all trimmed (bufferLines (scn_buffer s))
     \<and> (scn_buffer s \<noteq> None \<longrightarrow> bufferLines (scn_buffer s) \<noteq> [])
     \<and> scn_sequence s = length (scn_candidates s)
     \<and> map cc_sequence (scn_candidates s) = [1..<Suc (scn_sequence s)]
     \<and> (\<forall>n. Some n \<in> insert (bufferNumber (scn_buffer s)) (cc_clauseNumber ` set (scn_candidates s)) \<longrightarrow>
         (\<exists>l\<in>set ls. numberOfLine l n))"

lemma bufferText_lines:
  assumes "list_all trimmed (bufferLines (Some b))" and "bufferLines (Some b) \<noteq> []"
  shows "bufferText b = joinLines (bufferLines (Some b)) \<and> bufferText b \<noteq> []"
proof -
  have "filter (\<lambda>l. l \<noteq> []) (bufferLines (Some b)) = bufferLines (Some b)"
    using assms(1) by (auto simp: filter_id_conv list_all_iff trimmed_def)
  then show ?thesis
    using trimUnits_id[OF trimmed_joinLines[OF assms(2,1)]] trimmed_joinLines[OF assms(2,1)]
    by (simp add: bufferText_def bufferLines_def trimmed_def)
qed

lemma scanOk_flush:
  assumes "scanOk ls s"
  shows "scanOk ls (flushClause sha s) \<and> scn_buffer (flushClause sha s) = None"
proof (cases "scn_buffer s")
  case None
  then show ?thesis using assms by (simp add: flushClause_def)
next
  case (Some b)
  have filled: "bufferText b = joinLines (bufferLines (Some b)) \<and> bufferText b \<noteq> []"
    by (rule bufferText_lines) (use assms Some in \<open>simp_all add: scanOk_def\<close>)
  note t = filled[THEN conjunct1] filled[THEN conjunct2]
  obtain gs where "[] \<notin> set gs" "map cc_sourceText (scn_candidates s) = map joinLines gs"
    "map shownLine ls = concat gs @ bufferLines (Some b)"
    using assms Some by (auto simp: scanOk_def)
  then have "\<exists>hs. [] \<notin> set hs \<and> map cc_sourceText (scn_candidates (flushClause sha s)) = map joinLines hs
      \<and> map shownLine ls = concat hs"
    using assms Some t
    by (intro exI[of _ "gs @ [bufferLines (Some b)]"]) (auto simp: flushClause_def Let_def scanOk_def)
  then show ?thesis
    using assms Some t(2) by (auto simp: flushClause_def Let_def scanOk_def bufferLines_def bufferNumber_def)
qed

lemma scanOk_line:
  assumes "scanOk ls s"
  shows "scanOk (ls @ filter (\<lambda>l. l \<noteq> []) [trimUnits raw]) (clauseLine sha raw s)"
proof (cases "trimUnits raw = []")
  case True
  then show ?thesis using assms by (simp add: clauseLine_def)
next
  case ne: False
  define l where "l = trimUnits raw"
  have l: "trimmed l" "l \<noteq> []" using trimUnits_trimmed[OF ne] ne by (simp_all add: l_def)
  show ?thesis
  proof (cases "partsAtStart True CLAUSE_LINE l")
    case None
    then have shown: "shownLine l = l" by (simp add: shownLine_def)
    then show ?thesis
      using assms None l
      by (cases "scn_buffer s") (auto simp: clauseLine_def l_def[symmetric] Let_def scanOk_def
          bufferLines_def bufferNumber_def)
  next
    case (Some ps)
    have flushed: "scanOk ls (flushClause sha s)" "scn_buffer (flushClause sha s) = None"
      using scanOk_flush[OF assms] by simp_all
    have head: "trimmed (trimUnits (ps ! 5))" "numberOfLine l (ps ! 2)"
      using clause_line_parts[OF Some l(1)] by (simp_all add: numberOfLine_def)
    have "shownLine l = trimUnits (ps ! 5)" using Some by (simp add: shownLine_def)
    moreover have "nonEmpty (trimUnits (ps ! 5)) = Some (trimUnits (ps ! 5))"
      using head(1) by (simp add: nonEmpty_def trimmed_def)
    ultimately show ?thesis
      using flushed head l Some
      by (auto simp: clauseLine_def l_def[symmetric] Let_def scanOk_def bufferLines_def bufferNumber_def)
  qed
qed

lemma scanOk_fold:
  "scanOk ls s \<Longrightarrow> scanOk (ls @ filter (\<lambda>l. l \<noteq> []) (map trimUnits raws)) (fold (clauseLine sha) raws s)"
proof (induction raws arbitrary: ls s)
  case (Cons raw raws)
  show ?case using Cons.IH[OF scanOk_line[OF Cons.prems], of raw sha] by (auto split: if_splits)
qed simp

text \<open>C26: The clauses of a contract text hold all of it and nothing else: joined line by line, their
  texts are the filled lines of the document in order, where the heading stands for a numbered line;
  they are numbered from one, and a clause number is never invented, but is digits that stand in a
  line of the text.\<close>

theorem clauses_hold_the_text:
  "joinLines (map cc_sourceText (extractClauseCandidatesFromText sha t))
     = joinLines (map shownLine (filledLines t))
   \<and> map cc_sequence (extractClauseCandidatesFromText sha t)
     = [1..<Suc (length (extractClauseCandidatesFromText sha t))]
   \<and> cc_clauseNumber ` set (extractClauseCandidatesFromText sha t) \<subseteq> insert None (Some ` {n. numberIn t n})"
proof -
  define s where "s = fold (clauseLine sha) (textLines t)
    \<lparr>scn_buffer = None, scn_candidates = [], scn_sequence = 0\<rparr>"
  have "scanOk [] \<lparr>scn_buffer = None, scn_candidates = [], scn_sequence = 0\<rparr>"
    by (simp add: scanOk_def bufferLines_def bufferNumber_def)
  from scanOk_fold[OF this, of "textLines t" sha]
  have ok: "scanOk (filledLines t) (flushClause sha s)" "scn_buffer (flushClause sha s) = None"
    using scanOk_flush[of "filledLines t" s sha] by (simp_all add: s_def filledLines_def)
  have e: "extractClauseCandidatesFromText sha t = scn_candidates (flushClause sha s)"
    by (simp add: extractClauseCandidatesFromText_def s_def)
  obtain gs where gs: "[] \<notin> set gs" "map cc_sourceText (scn_candidates (flushClause sha s)) = map joinLines gs"
    "map shownLine (filledLines t) = concat gs"
    using ok by (auto simp: scanOk_def bufferLines_def)
  have "cc_clauseNumber c \<in> insert None (Some ` {n. numberIn t n})"
    if "c \<in> set (scn_candidates (flushClause sha s))" for c
  proof (cases "cc_clauseNumber c")
    case (Some n)
    then have "Some n \<in> cc_clauseNumber ` set (scn_candidates (flushClause sha s))" using that by force
    then obtain l where "l \<in> set (filledLines t)" "numberOfLine l n" using ok by (auto simp: scanOk_def)
    then show ?thesis using Some by (auto simp: numberIn_def numberOfLine_def)
  qed simp
  then show ?thesis
    using ok gs joinLines_concat[OF gs(1)] unfolding e by (auto simp: scanOk_def)
qed

section \<open>The cross-references of a text\<close>

text \<open>An expression without word boundaries matches wherever its text stands.\<close>

fun boundaryFree :: "rx \<Rightarrow> bool" where
  "boundaryFree WordB = False"
| "boundaryFree (Seq r s) = (boundaryFree r \<and> boundaryFree s)"
| "boundaryFree (Alt r s) = (boundaryFree r \<and> boundaryFree s)"
| "boundaryFree (Star r) = boundaryFree r"
| "boundaryFree r = True"

lemma rxMatch_anywhere:
  "rxMatch r u v \<Longrightarrow> boundaryFree r \<Longrightarrow> snd u = m @ snd v \<Longrightarrow>
     rxMatch r (p, m @ rest) (lastUnit p m, rest)"
proof (induction arbitrary: m p rest rule: rxMatch.induct)
  case (seq r u v s w)
  obtain a b where ab: "snd u = a @ snd v" "snd v = b @ snd w"
    using rxMatch_suffix[OF seq.hyps(1)] rxMatch_suffix[OF seq.hyps(2)] by blast
  then have m: "m = a @ b" using seq.prems(2) by simp
  have "rxMatch r (p, a @ b @ rest) (lastUnit p a, b @ rest)"
    "rxMatch s (lastUnit p a, b @ rest) (lastUnit (lastUnit p a) b, rest)"
    using seq ab by simp_all
  then show ?case using rxMatch.seq m by (simp add: lastUnit_def split: if_splits)
next
  case (altL r u v s)
  then show ?case by (simp add: rxMatch.altL)
next
  case (altR s u v r)
  then show ?case by (simp add: rxMatch.altR)
next
  case (more r u v w)
  obtain a b where ab: "snd u = a @ snd v" "snd v = b @ snd w"
    using rxMatch_suffix[OF more.hyps(1)] rxMatch_suffix[OF more.hyps(3)] by blast
  then have m: "m = a @ b" and a: "a \<noteq> []" using more.prems(2) more.hyps(2) by auto
  have "rxMatch r (p, a @ b @ rest) (lastUnit p a, b @ rest)"
    "rxMatch (Star r) (lastUnit p a, b @ rest) (lastUnit (lastUnit p a) b, rest)"
    using more ab by simp_all
  moreover have "lastUnit (lastUnit p a) b = lastUnit p m" using m by (simp add: lastUnit_def)
  ultimately show ?case using rxMatch.more[of r "(p, a @ b @ rest)" "(lastUnit p a, b @ rest)"] m a by simp
qed (auto simp: lastUnit_def intro: rxMatch.intros)

text \<open>The units an expression can take.\<close>

fun takesOnly :: "(nat \<Rightarrow> bool) \<Rightarrow> rx \<Rightarrow> bool" where
  "takesOnly Q (Cls P) = (\<forall>c. P c \<longrightarrow> Q c)"
| "takesOnly Q (Seq r s) = (takesOnly Q r \<and> takesOnly Q s)"
| "takesOnly Q (Alt r s) = (takesOnly Q r \<and> takesOnly Q s)"
| "takesOnly Q (Star r) = takesOnly Q r"
| "takesOnly Q r = True"

lemma takenText_trans:
  assumes "rxMatch r u v" and "rxMatch s v w"
  shows "takenText u w = takenText u v @ takenText v w"
proof -
  have "snd u = takenText u v @ takenText v w @ snd w"
    using takenText_match[OF assms(1)] takenText_match[OF assms(2)] by simp
  then show ?thesis using takenText_append[of u "takenText u v @ takenText v w" w] by simp
qed

lemma takesOnly_match: "rxMatch r u v \<Longrightarrow> takesOnly Q r \<Longrightarrow> c \<in> set (takenText u v) \<Longrightarrow> Q c"
proof (induction rule: rxMatch.induct)
  case (seq r u v s w)
  then show ?case using takenText_trans[OF seq.hyps(1,2)] by auto
next
  case (more r u v w)
  then show ?case using takenText_trans[OF more.hyps(1,3)] by auto
qed (auto simp: takenText_def split: if_splits)

lemma seqOf_parts:
  "rxMatch (seqOf rs) u v \<Longrightarrow> \<exists>ps\<in>set (partsOf False rs u). takenText u v = concat ps"
proof (induction rs arbitrary: u rule: seqOf.induct)
  case 1
  then show ?case by (auto simp: takenText_def elim: rxMatch_casesE)
next
  case (2 r)
  then have "[takenText u v] \<in> set (partsOf False [r] u)"
    unfolding partsOf_Cons by (intro exI[of _ v] exI[of _ "[]"]) simp
  then show ?case by (rule bexI[rotated]) simp
next
  case (3 r s rs)
  obtain w where w: "rxMatch r u w" "rxMatch (seqOf (s # rs)) w v"
    using 3(2) by (auto elim: rxMatch_casesE)
  then obtain ps where ps: "ps \<in> set (partsOf False (s # rs) w)" "takenText w v = concat ps"
    using 3(1) by blast
  then have "takenText u w # ps \<in> set (partsOf False (r # s # rs) u)"
    "takenText u v = concat (takenText u w # ps)"
    using w ps takenText_trans[OF w] unfolding partsOf_Cons by (blast, simp)
  then show ?case by blast
qed

lemma matchAt_match:
  "matchAt r p cs = Some m \<Longrightarrow> \<exists>v. rxMatch r (p, cs) v \<and> m = takenText (p, cs) v"
  unfolding matchAt_def takenText_def ways_iff[symmetric]
  by (auto split: list.splits) (metis list.set_intros(1) snd_conv)

lemma matchesFrom_match:
  "m \<in> set (matchesFrom r p cs) \<Longrightarrow> \<exists>q ds v. rxMatch r (q, ds) v \<and> m = takenText (q, ds) v"
proof (induction r p cs rule: matchesFrom.induct)
  case (1 r p)
  then show ?case using matchAt_match[of r p "[]" m] by (auto split: option.splits)
next
  case (2 r p c cs)
  then show ?case
    using matchAt_match[of r p "c # cs" m] by (fastforce split: option.splits list.splits)
qed

lemma set_firstOnes: "set (firstOnes seen xs) \<subseteq> set xs"
  by (induction xs arbitrary: seen) (auto split: if_splits)

lemma takesOnly_seqOf [simp]: "takesOnly Q (seqOf rs) \<longleftrightarrow> list_all (takesOnly Q) rs"
  by (induction rs rule: seqOf.induct) auto

lemma takesOnly_classes [simp]:
  "takesOnly Q (unitIs c) \<longleftrightarrow> Q c" "takesOnly Q (plusRx r) \<longleftrightarrow> takesOnly Q r"
  "takesOnly Q (optRx r) \<longleftrightarrow> takesOnly Q r"
  by (auto simp: unitIs_def plusRx_def optRx_def)

text \<open>An expression that takes something.\<close>

fun takesSome :: "rx \<Rightarrow> bool" where
  "takesSome (Cls P) = True"
| "takesSome (Seq r s) = (takesSome r \<or> takesSome s)"
| "takesSome (Alt r s) = (takesSome r \<and> takesSome s)"
| "takesSome r = False"

lemma takesSome_match: "rxMatch r u v \<Longrightarrow> takesSome r \<Longrightarrow> takenText u v \<noteq> []"
proof (induction rule: rxMatch.induct)
  case (seq r u v s w)
  then show ?case using takenText_trans[OF seq.hyps(1,2)] by auto
qed (auto simp: takenText_def)

lemma lowerUnit_ascii: "lowerUnit d = lowerUnit c \<Longrightarrow> 33 \<le> c \<Longrightarrow> c < 128 \<Longrightarrow> 33 \<le> d \<and> d < 128"
  by (auto simp: lowerUnit_def split: if_splits)

lemma takesOnly_textCi:
  assumes "\<And>c. 33 \<le> c \<Longrightarrow> c < 128 \<Longrightarrow> Q c"
    and "list_all (\<lambda>c. 33 \<le> (of_char c :: nat) \<and> of_char c < (128 :: nat)) s"
  shows "takesOnly Q (textCi s)"
proof -
  have "\<forall>c\<in>set (units s). 33 \<le> c \<and> c < 128"
    using assms(2) units_ascii[of s] by (auto simp: list_all_iff)
  then show ?thesis
    using assms(1) lowerUnit_ascii by (fastforce simp: textCi_def list_all_iff unitIsCi_def)
qed

definition printUnit :: "nat \<Rightarrow> bool" where
  "printUnit c \<longleftrightarrow> 33 \<le> c \<and> c < 128"

lemma printUnit_kept: "printUnit c \<Longrightarrow> asciiDigit c = c \<and> \<not> spaceUnit c"
  by (auto simp: printUnit_def asciiDigit_def spaceUnit_def)

lemma spaceUnit_kept: "spaceUnit c \<Longrightarrow> asciiDigit c = c"
  by (auto simp: spaceUnit_def asciiDigit_def)

lemma clauseNumberRx_units: "takesOnly printUnit clauseNumberRx"
  by (simp add: clauseNumberRx_def alnumUnit_def digitUnit_def printUnit_def)

lemma referenceWord_units:
  "takesOnly printUnit (altOf [subClauseRx, textCi ''Clause'', textCi ''Article'', textCi ''Appendix'',
     textCi ''Schedule''])"
  by (simp add: subClauseRx_def printUnit_def takesOnly_textCi)

lemma boundaryFree_seqOf [simp]: "boundaryFree (seqOf rs) \<longleftrightarrow> list_all boundaryFree rs"
  by (induction rs rule: seqOf.induct) auto

lemma boundaryFree_classes [simp]:
  "boundaryFree (unitIs c)" "boundaryFree (textCi t)" "boundaryFree (plusRx r) \<longleftrightarrow> boundaryFree r"
  "boundaryFree (optRx r) \<longleftrightarrow> boundaryFree r"
  by (auto simp: unitIs_def unitIsCi_def textCi_def plusRx_def optRx_def list_all_iff)

lemma reference_free: "boundaryFree REFERENCE_RX"
  by (simp add: REFERENCE_RX_def REFERENCE_PARTS_def subClauseRx_def spacesRx1_def clauseNumberRx_def)

text \<open>The text of a reference: a word, spaces and a number.\<close>

lemma reference_text:
  assumes "rxMatch REFERENCE_RX u v"
  shows "trimUnits (takenText u v) = takenText u v
    \<and> normalizeArabicIndicDigits (takenText u v) = takenText u v \<and> takenText u v \<noteq> []"
proof -
  obtain ps where ps: "ps \<in> set (partsOf False REFERENCE_PARTS u)" and t: "takenText u v = concat ps"
    using seqOf_parts assms unfolding REFERENCE_RX_def by blast
  obtain a s n where p: "ps = [a, s, n]"
    using partsOf_text[OF ps] by (auto simp: REFERENCE_PARTS_def length_Suc_conv)
  have word: "\<exists>v w. rxMatch (REFERENCE_PARTS ! i) v w \<and> ps ! i = takenText v w" if "i < 3" for i
    using partsOf_nth[OF ps, of i] that by (simp add: REFERENCE_PARTS_def)
  have "\<forall>c\<in>set a. printUnit c" "\<forall>c\<in>set n. printUnit c"
    using word[of 0] word[of 2] takesOnly_match[OF _ referenceWord_units]
      takesOnly_match[OF _ clauseNumberRx_units] by (auto simp: p REFERENCE_PARTS_def)
  moreover have "\<forall>c\<in>set s. spaceUnit c"
    using word[of 1] takesOnly_match[of "REFERENCE_PARTS ! 1" _ _ spaceUnit]
    by (auto simp: p REFERENCE_PARTS_def spacesRx1_def)
  moreover have "a \<noteq> []" "n \<noteq> []"
    using word[of 0] word[of 2] takesSome_match
    by (auto simp: p REFERENCE_PARTS_def clauseNumberRx_def subClauseRx_def plusRx_def textCi_def
        unitIs_def unitIsCi_def units_def)
  moreover have "hd (a @ s @ n) = hd a" "last (a @ s @ n) = last n"
    using calculation by simp_all
  ultimately have "trimmed (a @ s @ n)" "map asciiDigit (a @ s @ n) = a @ s @ n"
    using printUnit_kept spaceUnit_kept by (auto simp: trimmed_def map_idI)
  then show ?thesis
    by (simp add: t p trimUnits_id normalizeArabicIndicDigits_def trimmed_def)
qed

text \<open>A cross-reference found in a text is always resolved: the candidate that is parsed again
  from its text is never ambiguous, so the analysis never raises the issue of an unresolved
  reference.\<close>

lemma references_never_ambiguous:
  "list_all (\<lambda>(x, q). \<not> xr_ambiguous x \<and> xr_normalizedTargetIdentifier x \<noteq> None \<and> q = 6/10)
     (extractCrossReferenceCandidates t)"
proof -
  have "\<not> xr_ambiguous (parseCrossReferenceCandidate m)
      \<and> xr_normalizedTargetIdentifier (parseCrossReferenceCandidate m) \<noteq> None"
    if m: "m \<in> set (matchesRx REFERENCE_RX t)" for m
  proof -
    obtain u v where uv: "rxMatch REFERENCE_RX u v" "m = takenText u v"
      using matchesFrom_match m unfolding matchesRx_def by blast
    have kept: "trimUnits (normalizeArabicIndicDigits m) = m" "m \<noteq> []"
      using reference_text[OF uv(1)] uv(2) by simp_all
    have "rxMatch REFERENCE_RX (None, m @ []) (lastUnit None m, [])"
      using rxMatch_anywhere[OF uv(1), of m None "[]"] takenText_match[OF uv(1)] uv(2)
      by (simp add: reference_free)
    then obtain ps where "ps \<in> set (partsOf False REFERENCE_PARTS (None, m))"
      using seqOf_parts unfolding REFERENCE_RX_def append_Nil2 by blast
    then obtain qs where "firstOf (partsOf False REFERENCE_PARTS (None, m)) = Some qs"
      by (cases "partsOf False REFERENCE_PARTS (None, m)") auto
    then have "partsFrom REFERENCE_PARTS None m = Some qs" using kept(2) by (cases m) simp_all
    then show ?thesis using kept(1) by (simp add: parseCrossReferenceCandidate_def)
  qed
  then show ?thesis
    using set_firstOnes[of "[]" "matchesRx REFERENCE_RX t"]
    by (fastforce simp: extractCrossReferenceCandidates_def list_all_iff Let_def)
qed

section \<open>Definitions in Arabic\<close>

text \<open>Where no unit of a text is an ASCII word unit there is no word boundary.\<close>

definition wordless :: "units \<Rightarrow> bool" where
  "wordless t \<longleftrightarrow> list_all (\<lambda>c. \<not> wordUnit c) t"

lemma wordless_match:
  assumes "rxMatch r u v" and "wordless (snd u)" and "\<not> wordAt (fst u)"
  shows "wordless (snd v) \<and> \<not> wordAt (fst v)"
proof -
  obtain m where "snd u = m @ snd v" "fst v = lastUnit (fst u) m" using rxMatch_suffix[OF assms(1)] by blast
  then show ?thesis using assms(2,3) by (auto simp: wordless_def list_all_iff lastUnit_def)
qed

lemma wordless_boundary:
  assumes "WordB \<in> set rs" and "wordless (snd u)" and "\<not> wordAt (fst u)"
  shows "partsOf fin rs u = []"
  using assms
proof (induction rs arbitrary: u)
  case (Cons r rs)
  have "ps \<notin> set (partsOf fin (r # rs) u)" for ps
  proof
    assume "ps \<in> set (partsOf fin (r # rs) u)"
    then obtain v qs where v: "rxMatch r u v" "qs \<in> set (partsOf fin rs v)" by (auto simp: partsOf_Cons)
    have "r \<noteq> WordB"
      using v(1) Cons.prems(2,3)
      by (cases u; cases "snd u") (auto simp: wordless_def elim: rxMatch_casesE)
    then show False using v Cons.IH[of v] Cons.prems wordless_match[OF v(1)] by auto
  qed
  then show ?case by (cases "partsOf fin (r # rs) u") auto
qed simp

lemma wordless_term: "wordless l \<Longrightarrow> definedTerm l = None"
  using wordless_boundary[of MEANS_PARTS "(None, l)" False]
    wordless_boundary[of ARABIC_MEANS_PARTS "(None, l)" False]
  by (simp add: definedTerm_def partsAtStart_def MEANS_PARTS_def ARABIC_MEANS_PARTS_def)

lemma set_dropReturns: "set (dropReturns t) \<subseteq> set t"
  by (induction t rule: dropReturns.induct) auto

lemma set_splitOn: "l \<in> set (splitOn P t) \<Longrightarrow> set l \<subseteq> set t"
  by (induction t arbitrary: l) (fastforce split: if_splits list.splits)+

lemma set_trimUnits: "set (trimUnits t) \<subseteq> set t"
  by (auto simp: trimUnits_def dest!: set_dropWhileD)

text \<open>
  The second alternative of \<open>DEFINED_TERM_LINE\<close> ends in \<open>\b\<close> after an Arabic letter, which
  asks for an ASCII letter or digit to follow: a definition in an Arabic text is never found.
\<close>

lemma arabic_definitions_missed: "wordless t \<Longrightarrow> extractDefinedTermCandidates t = []"
proof -
  assume t: "wordless t"
  have "definedTerm (trimUnits l) = None" if "l \<in> set (textLines t)" for l
  proof -
    have "set (trimUnits l) \<subseteq> set t"
      using that set_trimUnits[of l] set_splitOn set_dropReturns[of t] unfolding textLines_def by blast
    then show ?thesis using t by (intro wordless_term) (auto simp: wordless_def list_all_iff)
  qed
  then show ?thesis by (simp add: extractDefinedTermCandidates_def Let_def)
qed

section \<open>Timing and executability\<close>

text \<open>A timing is vague, with no number, or a number of calendar days.\<close>

lemma timing_shape:
  "(tm_vague (probeNoticeTimingExpression t) \<longleftrightarrow> tm_durationValue (probeNoticeTimingExpression t) = None)
   \<and> (tm_durationUnit (probeNoticeTimingExpression t) = Some CALENDAR_DAY
      \<longleftrightarrow> tm_durationValue (probeNoticeTimingExpression t) \<noteq> None)"
  by (simp add: probeNoticeTimingExpression_def Let_def split: option.splits)

lemma probe_units:
  "tm_durationUnit (probeNoticeTimingExpression t) \<in> {None, Some PROMPT, Some REASONABLE_TIME, Some CALENDAR_DAY}"
  by (simp add: probeNoticeTimingExpression_def Let_def split: option.splits)

lemma durationErrors_Nil: "durationErrors d = [] \<longleftrightarrow>
   (if isNumericDurationUnit (du_unit d) then (case du_value d of None \<Rightarrow> False | Some v \<Rightarrow> 0 \<le> v)
    else du_value d = None)"
  by (auto simp: durationErrors_def not_less split: option.splits)

text \<open>What makes a drafted rule executable.\<close>

lemma isRuleExecutable_iff:
  assumes "safeParse (rd_duration r) = Inr (rd_duration r)"
  shows "fst (isRuleExecutable safeParse r) \<longleftrightarrow>
    rd_humanApproved r \<and> isNumericDurationUnit (du_unit (rd_duration r))
    \<and> (case du_value (rd_duration r) of None \<Rightarrow> False | Some v \<Rightarrow> 0 \<le> v)
    \<and> rd_timeBarClassification r \<noteq> UNCERTAIN \<and> rd_requiredRecipients r \<noteq> [] \<and> rd_ambiguityNotes r = []"
proof -
  have e: "validateDurationExpression safeParse (rd_duration r) =
      (if durationErrors (rd_duration r) \<noteq> [] then Inl (durationErrors (rd_duration r)) else Inr (rd_duration r))"
    using assms by (simp add: validateDurationExpression_def)
  show ?thesis
    by (cases "durationErrors (rd_duration r) = []")
      (auto simp: isRuleExecutable_def e Let_def durationErrors_Nil split: if_splits)
qed

end
