(* ===== verification/ContractTables.thy ===== *)
theory ContractTables
  imports Services ContractText
begin

text \<open>
  The rows of contract packages, with the columns \<open>apps/web/src/server/services/contracts.ts\<close>
  reads or writes, and the rules of the database on them.  Texts read from a document are UTF-16 code
  units; tables are in the order of creation.
\<close>

section \<open>Rows\<close>

datatype contract_status =
    CP_DRAFT | CP_INGESTING | CP_STRUCTURING | CP_REVIEW_REQUIRED | CP_PARTIALLY_APPROVED
    | CP_APPROVED | CP_SUPERSEDED | CP_ARCHIVED

datatype clause_review =
    CL_MACHINE_SUGGESTED | CL_REVIEW_REQUIRED | CL_VERIFIED | CL_CORRECTED | CL_REJECTED
    | CL_SUPERSEDED

fun clause_review_name :: "clause_review \<Rightarrow> string" where
  "clause_review_name CL_MACHINE_SUGGESTED = ''MACHINE_SUGGESTED''"
| "clause_review_name CL_REVIEW_REQUIRED = ''REVIEW_REQUIRED''"
| "clause_review_name CL_VERIFIED = ''VERIFIED''"
| "clause_review_name CL_CORRECTED = ''CORRECTED''"
| "clause_review_name CL_REJECTED = ''REJECTED''"
| "clause_review_name CL_SUPERSEDED = ''SUPERSEDED''"

text \<open>The review of an obligation and of a notice rule.\<close>

datatype rule_review =
    RV_MACHINE_SUGGESTED | RV_REVIEW_REQUIRED | RV_VERIFIED | RV_APPROVED | RV_REJECTED
    | RV_SUPERSEDED

fun rule_review_name :: "rule_review \<Rightarrow> string" where
  "rule_review_name RV_MACHINE_SUGGESTED = ''MACHINE_SUGGESTED''"
| "rule_review_name RV_REVIEW_REQUIRED = ''REVIEW_REQUIRED''"
| "rule_review_name RV_VERIFIED = ''VERIFIED''"
| "rule_review_name RV_APPROVED = ''APPROVED''"
| "rule_review_name RV_REJECTED = ''REJECTED''"
| "rule_review_name RV_SUPERSEDED = ''SUPERSEDED''"

datatype ambiguity = AM_CLEAR | AM_PARTIALLY_AMBIGUOUS | AM_AMBIGUOUS | AM_UNRESOLVED

datatype issue_severity = SV_LOW | SV_MEDIUM | SV_HIGH | SV_BLOCKING

text \<open>The categories of issues the service raises.\<close>

datatype issue_category = IS_UNREADABLE_CLAUSE | IS_UNCLEAR_DEADLINE | IS_UNRESOLVED_CROSS_REFERENCE

datatype issue_status = IU_OPEN | IU_IN_PROGRESS | IU_RESOLVED | IU_WAIVED | IU_DEFERRED

datatype revision_status =
    RS_DRAFT | RS_IN_REVIEW | RS_CHANGES_REQUESTED | RS_APPROVED | RS_SUPERSEDED | RS_WITHDRAWN

fun revision_status_name :: "revision_status \<Rightarrow> string" where
  "revision_status_name RS_DRAFT = ''DRAFT''"
| "revision_status_name RS_IN_REVIEW = ''IN_REVIEW''"
| "revision_status_name RS_CHANGES_REQUESTED = ''CHANGES_REQUESTED''"
| "revision_status_name RS_APPROVED = ''APPROVED''"
| "revision_status_name RS_SUPERSEDED = ''SUPERSEDED''"
| "revision_status_name RS_WITHDRAWN = ''WITHDRAWN''"

datatype review_decision_type =
    RD_ACCEPTED_SUGGESTION | RD_CORRECTED_EXTRACTION | RD_REJECTED_INTERPRETATION
    | RD_APPROVED_RULE | RD_CHANGED_ROLE | RD_RESOLVED_AMBIGUITY | RD_MARKED_NON_APPLICABLE
    | RD_REQUESTED_CHANGES | RD_OTHER

datatype run_status =
    RN_QUEUED | RN_RUNNING | RN_PARTIALLY_SUCCEEDED | RN_SUCCEEDED | RN_FAILED | RN_CANCELLED
    | RN_DEAD_LETTERED

datatype extraction_method = EM_DETERMINISTIC | EM_AI_ASSISTED

datatype suggestion_type =
    SG_CLAUSE | SG_DEFINED_TERM | SG_PARTY | SG_ROLE | SG_CROSS_REFERENCE | SG_OBLIGATION
    | SG_NOTICE_RULE | SG_PRECEDENCE | SG_AMENDMENT_RELATIONSHIP | SG_ISSUE | SG_OTHER

datatype suggestion_status =
    SU_PENDING_REVIEW | SU_ACCEPTED | SU_ACCEPTED_WITH_CHANGES | SU_REJECTED | SU_DUPLICATE
    | SU_SUPERSEDED

record package_input =
  ppi_name :: string
  ppi_description :: "string option"
  ppi_contractReference :: "string option"
  ppi_contractFormFamily :: "string option"
  ppi_contractFormEdition :: "string option"
  ppi_governingLaw :: "string option"
  ppi_jurisdiction :: "string option"

record contract_package =
  cpk_id :: string
  cpk_tenantId :: string
  cpk_projectId :: string
  cpk_input :: package_input
  cpk_status :: contract_status
  cpk_currentRevisionId :: "string option"
  cpk_createdByUserId :: string

record source_document =
  sdo_id :: string
  sdo_tenantId :: string
  sdo_projectId :: string
  sdo_language :: string
  sdo_currentVersionId :: "string option"

record document_version =
  dve_id :: string
  dve_tenantId :: string
  dve_projectId :: string
  dve_sourceDocumentId :: string
  dve_malwareScanStatus :: string
  dve_uploadStatus :: string

record evidence_segment =
  seg_id :: string
  seg_tenantId :: string
  seg_projectId :: string
  seg_documentVersionId :: string
  seg_ordinal :: nat
  seg_textContent :: "units option"
  seg_locator :: string

record contract_document =
  cdc_id :: string
  cdc_tenantId :: string
  cdc_projectId :: string
  cdc_contractPackageId :: string
  cdc_sourceDocumentId :: string
  cdc_documentVersionId :: string
  cdc_contractDocumentType :: string
  cdc_title :: string
  cdc_reference :: "string option"
  cdc_language :: string
  cdc_precedenceRank :: "nat option"
  cdc_status :: string
  cdc_isExecuted :: bool
  cdc_isCurrent :: bool

record analysis_run =
  crn_id :: string
  crn_tenantId :: string
  crn_projectId :: string
  crn_contractPackageId :: string
  crn_status :: run_status
  crn_sourceDocumentVersions :: "string list"
  crn_correlationId :: string
  crn_startedAt :: int
  crn_completedAt :: "int option"
  crn_suggestionCount :: nat

text \<open>What a suggestion proposes.\<close>

datatype proposal =
    P_CLAUSE clause_candidate
  | P_NOTICE_RULE string notice_timing units
  | P_TERM term_candidate
  | P_PARTY party_candidate
  | P_REFERENCE cross_reference rat
  | P_MODEL "(string \<times> string) list" "string option"

text \<open>Where the text of a row stands.\<close>

record evidence_place =
  epl_segmentId :: "string option"
  epl_locator :: "string option"

record extraction_suggestion =
  csg_id :: string
  csg_tenantId :: string
  csg_projectId :: string
  csg_contractPackageId :: string
  csg_analysisRunId :: string
  csg_suggestionType :: suggestion_type
  csg_proposedData :: proposal
  csg_place :: evidence_place
  csg_confidence :: "rat option"
  csg_extractionMethod :: extraction_method
  csg_modelProvider :: string
  csg_modelName :: "string option"
  csg_status :: suggestion_status

record contract_clause =
  ccl_id :: string
  ccl_tenantId :: string
  ccl_projectId :: string
  ccl_contractPackageId :: string
  ccl_contractDocumentId :: string
  ccl_documentVersionId :: string
  ccl_candidate :: clause_candidate
  ccl_language :: string
  ccl_normalizedText :: "units option"
  ccl_place :: evidence_place
  ccl_reviewStatus :: clause_review

record text_revision =
  ctr_id :: string
  ctr_tenantId :: string
  ctr_projectId :: string
  ctr_contractClauseId :: string
  ctr_revisionNumber :: nat
  ctr_revisedText :: units
  ctr_revisionReason :: string
  ctr_createdByUserId :: string

record contract_obligation =
  cob_id :: string
  cob_tenantId :: string
  cob_projectId :: string
  cob_contractPackageId :: string
  cob_sourceClauseId :: string
  cob_actionDescription :: units
  cob_timingExpression :: "units option"
  cob_isTimeBarredCandidate :: bool
  cob_isConditionPrecedentCandidate :: bool
  cob_vague :: bool
  cob_confidence :: rat
  cob_humanApprovedInterpretation :: "units option"
  cob_reviewStatus :: rule_review
  cob_place :: evidence_place

record notice_rule =
  cnr_id :: string
  cnr_tenantId :: string
  cnr_projectId :: string
  cnr_contractPackageId :: string
  cnr_obligationId :: string
  cnr_noticeCategory :: "string option"
  cnr_triggerBasis :: "string option"
  cnr_durationValue :: "rat option"
  cnr_durationUnit :: "duration_unit option"
  cnr_calendarBasis :: "calendar_basis option"
  cnr_countingConvention :: counting_convention
  cnr_startDateRule :: "string option"
  cnr_endDateRule :: "string option"
  cnr_businessDayAdjustment :: "string option"
  cnr_recipientRequirements :: "string option"
  cnr_deliveryMethodRequirements :: "string option"
  cnr_contentRequirements :: "string option"
  cnr_consequenceText :: "string option"
  cnr_timeBarClassification :: time_bar
  cnr_ambiguityStatus :: ambiguity
  cnr_reviewStatus :: rule_review
  cnr_place :: evidence_place

record configuration_issue =
  cis_id :: string
  cis_tenantId :: string
  cis_projectId :: string
  cis_contractPackageId :: string
  cis_severity :: issue_severity
  cis_category :: issue_category
  cis_sourceEntityType :: string
  cis_sourceEntityId :: string
  cis_description :: units
  cis_status :: issue_status
  cis_resolution :: "string option"
  cis_resolvedByUserId :: "string option"
  cis_resolvedAt :: "int option"

record configuration_revision =
  crv_id :: string
  crv_tenantId :: string
  crv_projectId :: string
  crv_contractPackageId :: string
  crv_revisionNumber :: nat
  crv_status :: revision_status
  crv_summary :: string
  crv_basedOnDocumentVersions :: "string list"
  crv_isActiveApproved :: bool
  crv_createdByUserId :: string
  crv_submittedByUserId :: "string option"
  crv_submittedAt :: "int option"
  crv_approvedByUserId :: "string option"
  crv_approvedAt :: "int option"
  crv_supersedesRevisionId :: "string option"

text \<open>The JSON of the rule the deadline engine reads: \<open>buildStructuredRuleForSnapshot\<close>.\<close>

record structured_rule =
  sru_durationUnit :: "duration_unit option"
  sru_durationValue :: "rat option"
  sru_counting :: counting_convention
  sru_startDateConvention :: start_convention
  sru_endDateConvention :: end_convention
  sru_nonWorkingAdjustment :: non_working_adjustment
  sru_timeBarClassification :: time_bar
  sru_ambiguityNotes :: "string list"
  sru_humanApproved :: bool
  sru_requiredRecipientsApproved :: bool
  sru_executable :: bool

text \<open>A snapshot copies its rule; the columns it shares with the rule are the rule itself.\<close>

record approved_snapshot =
  csn_id :: string
  csn_tenantId :: string
  csn_projectId :: string
  csn_contractPackageId :: string
  csn_configurationRevisionId :: string
  csn_rule :: notice_rule
  csn_sourceClauseId :: string
  csn_structuredRule :: structured_rule
  csn_reviewDecisionId :: "string option"

datatype state_note = NT_TEXT "string option" | NT_UNITS "units option" | NT_NUMBER nat

record review_decision =
  crd_id :: string
  crd_tenantId :: string
  crd_projectId :: string
  crd_contractPackageId :: string
  crd_configurationRevisionId :: "string option"
  crd_decisionType :: review_decision_type
  crd_actorUserId :: string
  crd_entityType :: string
  crd_entityId :: string
  crd_beforeState :: "(string \<times> state_note) list"
  crd_afterState :: "(string \<times> state_note) list"
  crd_rationale :: "string option"

record contracts_db =
  ct_packages :: "contract_package list"
  ct_sources :: "source_document list"
  ct_versions :: "document_version list"
  ct_segments :: "evidence_segment list"
  ct_documents :: "contract_document list"
  ct_runs :: "analysis_run list"
  ct_suggestions :: "extraction_suggestion list"
  ct_clauses :: "contract_clause list"
  ct_textRevisions :: "text_revision list"
  ct_obligations :: "contract_obligation list"
  ct_rules :: "notice_rule list"
  ct_issues :: "configuration_issue list"
  ct_revisions :: "configuration_revision list"
  ct_snapshots :: "approved_snapshot list"
  ct_decisions :: "review_decision list"

type_synonym 'a contracts = "(contracts_db, 'a) svc"

record contracts_env =
  cev_sod :: "string option"
  cev_aiProvider :: "string option"
  cev_appEnv :: "string option"
  cev_nodeEnv :: "string option"
  cev_now :: int
  cev_sha :: "units \<Rightarrow> string"
  cev_isUuid :: "string \<Rightarrow> bool"

text \<open>The generated ids: the one of the \<open>n\<close>-th row of a table.\<close>

datatype table_name =
    T_PACKAGE | T_DOCUMENT | T_RUN | T_SUGGESTION | T_CLAUSE | T_TEXT | T_OBLIGATION | T_RULE
    | T_ISSUE | T_REVISION | T_SNAPSHOT | T_DECISION

type_synonym id_source = "table_name \<Rightarrow> nat \<Rightarrow> string"

section \<open>Creation and the rules of the database\<close>

text \<open>\<open>tx.t.create\<close>: a row is built with its id and appended.\<close>

definition createRow ::
  "('db \<Rightarrow> 'r list) \<Rightarrow> ('r list \<Rightarrow> 'db \<Rightarrow> 'db) \<Rightarrow> (nat \<Rightarrow> string) \<Rightarrow> (string \<Rightarrow> 'r) \<Rightarrow> ('db, 'r) svc" where
  "createRow get put ids mk =
     bindH (readDb (\<lambda>d. mk (ids (length (get d))))) (\<lambda>row.
     thenH (writeDb (\<lambda>d. put (get d @ [row]) d)) (returnH row))"

lemma createRow_Inr [ok_iff]:
  "createRow get put ids mk s = (Inr x, t) \<longleftrightarrow> x = mk (ids (length (get (ap_db s))))
     \<and> t = s\<lparr>ap_db := put (get (ap_db s) @ [x]) (ap_db s)\<rparr>"
  by (auto simp: createRow_def ok_iff)

definition findContractPackage :: "string \<Rightarrow> string \<Rightarrow> string \<Rightarrow> contracts_db \<Rightarrow> contract_package option" where
  "findContractPackage tenantId projectId packageId d =
     find (\<lambda>p. cpk_id p = packageId \<and> cpk_tenantId p = tenantId \<and> cpk_projectId p = projectId)
       (ct_packages d)"

text \<open>
  The trigger \<open>enforce_contract_child_package\<close>: a row of a package is of the package's tenant
  and project.
\<close>

definition packageGuard :: "string \<Rightarrow> string \<Rightarrow> string \<Rightarrow> unit contracts" where
  "packageGuard tenantId projectId packageId =
     bindH (findOr unexpectedError (\<lambda>d. find (\<lambda>p. cpk_id p = packageId) (ct_packages d))) (\<lambda>pkg.
     requireH (cpk_tenantId pkg = tenantId \<and> cpk_projectId pkg = projectId) unexpectedError)"

lemma packageGuard_Inr [ok_iff]:
  "packageGuard T pid i s = (Inr x, t) \<longleftrightarrow> t = s \<and> (\<exists>p.
     find (\<lambda>p. cpk_id p = i) (ct_packages (ap_db s)) = Some p \<and> cpk_tenantId p = T \<and> cpk_projectId p = pid)"
  by (auto simp: packageGuard_def ok_iff)

text \<open>
  A \<open>numeric(12,4)\<close> column holds less than \<open>10^8\<close>; a greater number is an error of the
  database.
\<close>

definition numericColumn :: "nat option \<Rightarrow> rat option contracts" where
  "numericColumn v = (case v of None \<Rightarrow> returnH None
     | Some n \<Rightarrow> thenH (requireH (n < 10 ^ 8) unexpectedError) (returnH (Some (of_nat n))))"

lemma numericColumn_Inr [ok_iff]:
  "numericColumn v s = (Inr x, t) \<longleftrightarrow> t = s \<and> x = map_option of_nat v
     \<and> (case v of None \<Rightarrow> True | Some n \<Rightarrow> n < 10 ^ 8)"
  by (cases v) (auto simp: numericColumn_def ok_iff)

text \<open>
  The triggers on an update of a revision: the active one is approved, and an approved one only
  changes to a superseded one that is not active (\<open>prevent_approved_configuration_revision_mutation\<close>).
\<close>

definition revisionTrigger :: "configuration_revision \<Rightarrow> configuration_revision \<Rightarrow> bool" where
  "revisionTrigger old new \<longleftrightarrow>
     (crv_isActiveApproved new \<longrightarrow> crv_status new = RS_APPROVED)
     \<and> (crv_status old = RS_APPROVED \<longrightarrow> new = old\<lparr>crv_status := RS_SUPERSEDED, crv_isActiveApproved := False\<rparr>)"

definition updateRevisions ::
  "(configuration_revision \<Rightarrow> bool) \<Rightarrow> (configuration_revision \<Rightarrow> configuration_revision) \<Rightarrow> unit contracts" where
  "updateRevisions P f =
     bindH (readDb (\<lambda>d. list_all (\<lambda>r. P r \<longrightarrow> revisionTrigger r (f r)) (ct_revisions d))) (\<lambda>allowed.
     thenH (requireH allowed unexpectedError)
       (writeDb (\<lambda>d. d\<lparr>ct_revisions := updateWhere P f (ct_revisions d)\<rparr>)))"

lemma updateRevisions_Inr [ok_iff]:
  "updateRevisions P f s = (Inr x, t) \<longleftrightarrow>
     list_all (\<lambda>r. P r \<longrightarrow> revisionTrigger r (f r)) (ct_revisions (ap_db s))
     \<and> t = s\<lparr>ap_db := (ap_db s)\<lparr>ct_revisions := updateWhere P f (ct_revisions (ap_db s))\<rparr>\<rparr>"
  by (auto simp: updateRevisions_def ok_iff)

end
