(* ===== verification/ContractService.thy ===== *)
theory ContractService
  imports ContractTables
begin

text \<open>
  The contract service (\<open>apps/web/src/server/services/contracts.ts\<close>): packages and their
  documents, the review of clauses, obligations and notice rules, the issues, and the revisions of a
  package's configuration with the snapshots of its notice rules.  The structure analysis is in
  \<open>ContractAnalysis\<close>.
\<close>

section \<open>Packages and documents\<close>

text \<open>What a page shows of a package: its row, five counts and its current revision.\<close>

record package_view =
  pvw_package :: contract_package
  pvw_counts :: "nat list"
  pvw_current :: "configuration_revision option"

definition countOf :: "('r \<Rightarrow> string) \<Rightarrow> string \<Rightarrow> 'r list \<Rightarrow> nat" where
  "countOf parent i rows = length (filter (\<lambda>r. parent r = i) rows)"

definition currentRevision :: "contract_package \<Rightarrow> contracts_db \<Rightarrow> configuration_revision option" where
  "currentRevision p d = (case cpk_currentRevisionId p of None \<Rightarrow> None
   | Some i \<Rightarrow> find (\<lambda>r. crv_id r = i) (ct_revisions d))"

definition listedPackage :: "contracts_db \<Rightarrow> contract_package \<Rightarrow> package_view" where
  "listedPackage d p = \<lparr>pvw_package = p,
     pvw_counts = [countOf cdc_contractPackageId (cpk_id p) (ct_documents d),
       countOf ccl_contractPackageId (cpk_id p) (ct_clauses d),
       countOf cob_contractPackageId (cpk_id p) (ct_obligations d),
       countOf cnr_contractPackageId (cpk_id p) (ct_rules d),
       countOf cis_contractPackageId (cpk_id p) (ct_issues d)],
     pvw_current = currentRevision p d\<rparr>"

definition listContractPackages :: "string \<Rightarrow> package_view list contracts" where
  "listContractPackages projectId =
     projectAction projectId (ContractCap c_contract_package_read) (\<lambda>ctx.
     readDb (\<lambda>d. map (listedPackage d)
       (filter (\<lambda>p. cpk_tenantId p = cx_tenantId ctx \<and> cpk_projectId p = projectId)
         (rev (ct_packages d)))))"

definition createContractPackage ::
  "('raw \<Rightarrow> string list + package_input) \<Rightarrow> id_source \<Rightarrow> string \<Rightarrow> 'raw \<Rightarrow> contract_package contracts" where
  "createContractPackage safeParse ids projectId rawInput =
     projectService projectId (ContractCap c_contract_package_create) ''Invalid contract package''
       safeParse rawInput (\<lambda>ctx data.
     bindH (createRow ct_packages (\<lambda>ps d. d\<lparr>ct_packages := ps\<rparr>) (ids T_PACKAGE) (\<lambda>newId.
       \<lparr>cpk_id = newId, cpk_tenantId = cx_tenantId ctx, cpk_projectId = projectId, cpk_input = data,
        cpk_status = CP_DRAFT, cpk_currentRevisionId = None,
        cpk_createdByUserId = userId ctx\<rparr>)) (\<lambda>created.
     thenH (auditP ctx projectId ''contract_package.created'' ''contract_package'' (cpk_id created))
       (returnH created)))"

text \<open>\<open>orderBy precedenceRank asc, createdAt asc\<close>, with the rows without a rank last.\<close>

definition byPrecedence :: "contract_document list \<Rightarrow> contract_document list" where
  "byPrecedence ds =
     sort_key (\<lambda>x. the (cdc_precedenceRank x)) (filter (\<lambda>x. cdc_precedenceRank x \<noteq> None) ds)
     @ filter (\<lambda>x. cdc_precedenceRank x = None) ds"

definition getContractPackage ::
  "string \<Rightarrow> string \<Rightarrow> (package_view \<times> contract_document list) contracts" where
  "getContractPackage projectId packageId =
     projectAction projectId (ContractCap c_contract_package_read) (\<lambda>ctx.
     bindH (findOr notFound (findContractPackage (cx_tenantId ctx) projectId packageId)) (\<lambda>pkg.
     readDb (\<lambda>d.
       (\<lparr>pvw_package = pkg,
         pvw_counts = [countOf ccl_contractPackageId packageId (ct_clauses d),
           countOf cob_contractPackageId packageId (ct_obligations d),
           countOf cnr_contractPackageId packageId (ct_rules d),
           countOf cis_contractPackageId packageId (ct_issues d),
           countOf crn_contractPackageId packageId (ct_runs d)],
         pvw_current = currentRevision pkg d\<rparr>,
        byPrecedence (filter (\<lambda>x. cdc_contractPackageId x = packageId) (ct_documents d))))))"

record attach_input =
  att_sourceDocumentId :: string
  att_documentVersionId :: "string option"
  att_contractDocumentType :: string
  att_title :: string
  att_reference :: "string option"
  att_language :: "string option"
  att_precedenceRank :: "nat option"

definition findSource :: "string \<Rightarrow> string \<Rightarrow> string \<Rightarrow> contracts_db \<Rightarrow> source_document option" where
  "findSource tenantId projectId i d =
     find (\<lambda>x. sdo_id x = i \<and> sdo_tenantId x = tenantId \<and> sdo_projectId x = projectId) (ct_sources d)"

definition findCleanVersion ::
  "string \<Rightarrow> string \<Rightarrow> string \<Rightarrow> string \<Rightarrow> contracts_db \<Rightarrow> document_version option" where
  "findCleanVersion tenantId projectId sourceId versionId d =
     find (\<lambda>x. dve_id x = versionId \<and> dve_sourceDocumentId x = sourceId \<and> dve_tenantId x = tenantId
       \<and> dve_projectId x = projectId \<and> dve_malwareScanStatus x = ''CLEAN''
       \<and> dve_uploadStatus x = ''ACCEPTED'') (ct_versions d)"

text \<open>A unique index on package, document and version refuses a second attachment.\<close>

definition attachContractDocument ::
  "('raw \<Rightarrow> string list + attach_input) \<Rightarrow> id_source \<Rightarrow> string \<Rightarrow> string \<Rightarrow> 'raw \<Rightarrow>
   contract_document contracts" where
  "attachContractDocument safeParse ids projectId packageId rawInput =
     projectService projectId (ContractCap c_contract_document_attach) ''Invalid attachment''
       safeParse rawInput (\<lambda>ctx data.
     bindH (findOr notFound (findContractPackage (cx_tenantId ctx) projectId packageId)) (\<lambda>pkg.
     bindH (findOr notFound (findSource (cx_tenantId ctx) projectId (att_sourceDocumentId data))) (\<lambda>source.
     let versionId = orElse (att_documentVersionId data) (sdo_currentVersionId source) in
     thenH (requireH (truthy versionId)
       (validationError ''Source document has no current version'' None))
     (bindH (findOr (validationError
          ''Document version must be CLEAN and ACCEPTED before attachment'' None)
        (findCleanVersion (cx_tenantId ctx) projectId (sdo_id source) (the versionId))) (\<lambda>version.
     bindH (readDb (\<lambda>d. list_ex (\<lambda>x. cdc_contractPackageId x = packageId
        \<and> cdc_sourceDocumentId x = sdo_id source \<and> cdc_documentVersionId x = dve_id version)
        (ct_documents d))) (\<lambda>known.
     thenH (requireH (\<not> known) unexpectedError)
     (bindH (createRow ct_documents (\<lambda>xs d. d\<lparr>ct_documents := xs\<rparr>) (ids T_DOCUMENT) (\<lambda>newId.
       \<lparr>cdc_id = newId, cdc_tenantId = cx_tenantId ctx, cdc_projectId = projectId,
        cdc_contractPackageId = packageId, cdc_sourceDocumentId = sdo_id source,
        cdc_documentVersionId = dve_id version,
        cdc_contractDocumentType = att_contractDocumentType data, cdc_title = att_title data,
        cdc_reference = att_reference data,
        cdc_language = (case att_language data of None \<Rightarrow> sdo_language source | Some l \<Rightarrow> l),
        cdc_precedenceRank = att_precedenceRank data, cdc_status = ''REVIEW_REQUIRED'',
        cdc_isExecuted = False, cdc_isCurrent = True\<rparr>)) (\<lambda>attached.
     thenH (auditP ctx projectId ''contract_document.attached'' ''contract_document'' (cdc_id attached))
       (returnH attached)))))))))"

section \<open>Reviews\<close>

definition createDecision ::
  "id_source \<Rightarrow> project_context \<Rightarrow> string \<Rightarrow> string \<Rightarrow> string option \<Rightarrow> review_decision_type \<Rightarrow> string \<Rightarrow>
   string \<Rightarrow> (string \<times> state_note) list \<Rightarrow> (string \<times> state_note) list \<Rightarrow> string option \<Rightarrow>
   review_decision contracts" where
  "createDecision ids ctx projectId packageId revisionId decisionType entityType entityId before after
     rationale =
     createRow ct_decisions (\<lambda>xs d. d\<lparr>ct_decisions := xs\<rparr>) (ids T_DECISION) (\<lambda>newId.
       \<lparr>crd_id = newId, crd_tenantId = cx_tenantId ctx, crd_projectId = projectId,
        crd_contractPackageId = packageId, crd_configurationRevisionId = revisionId,
        crd_decisionType = decisionType, crd_actorUserId = userId ctx, crd_entityType = entityType,
        crd_entityId = entityId, crd_beforeState = before, crd_afterState = after,
        crd_rationale = rationale\<rparr>)"

datatype clause_decision = CD_VERIFIED | CD_CORRECTED | CD_REJECTED

fun clauseReviewOf :: "clause_decision \<Rightarrow> clause_review" where
  "clauseReviewOf CD_VERIFIED = CL_VERIFIED"
| "clauseReviewOf CD_CORRECTED = CL_CORRECTED"
| "clauseReviewOf CD_REJECTED = CL_REJECTED"

fun clauseDecisionType :: "clause_decision \<Rightarrow> review_decision_type" where
  "clauseDecisionType CD_VERIFIED = RD_ACCEPTED_SUGGESTION"
| "clauseDecisionType CD_CORRECTED = RD_CORRECTED_EXTRACTION"
| "clauseDecisionType CD_REJECTED = RD_REJECTED_INTERPRETATION"

record clause_review_input =
  cri_decision :: clause_decision
  cri_correctedText :: "units option"
  cri_rationale :: "string option"

definition findClause :: "string \<Rightarrow> string \<Rightarrow> string \<Rightarrow> string \<Rightarrow> contracts_db \<Rightarrow> contract_clause option" where
  "findClause tenantId projectId packageId i d =
     find (\<lambda>x. ccl_id x = i \<and> ccl_tenantId x = tenantId \<and> ccl_projectId x = projectId
       \<and> ccl_contractPackageId x = packageId) (ct_clauses d)"

definition updateClause :: "string \<Rightarrow> (contract_clause \<Rightarrow> contract_clause) \<Rightarrow> unit contracts" where
  "updateClause i f = writeDb (\<lambda>d. d\<lparr>ct_clauses := updateWhere (\<lambda>x. ccl_id x = i) f (ct_clauses d)\<rparr>)"

definition hasText :: "units option \<Rightarrow> bool" where
  "hasText t \<longleftrightarrow> t \<noteq> None \<and> t \<noteq> Some []"

definition correctClause ::
  "id_source \<Rightarrow> project_context \<Rightarrow> string \<Rightarrow> contract_clause \<Rightarrow> units \<Rightarrow> string option \<Rightarrow> unit contracts" where
  "correctClause ids ctx projectId clause correctedText rationale =
     bindH (readDb (\<lambda>d. nextNumber (map ctr_revisionNumber
        (filter (\<lambda>r. ctr_contractClauseId r = ccl_id clause) (ct_textRevisions d))))) (\<lambda>revisionNumber.
     bindH (createRow ct_textRevisions (\<lambda>xs d. d\<lparr>ct_textRevisions := xs\<rparr>) (ids T_TEXT) (\<lambda>newId.
       \<lparr>ctr_id = newId, ctr_tenantId = cx_tenantId ctx, ctr_projectId = projectId,
        ctr_contractClauseId = ccl_id clause, ctr_revisionNumber = revisionNumber,
        ctr_revisedText = correctedText,
        ctr_revisionReason = (case rationale of None \<Rightarrow> ''Human correction'' | Some r \<Rightarrow> r),
        ctr_createdByUserId = userId ctx\<rparr>)) (\<lambda>row.
     updateClause (ccl_id clause) (\<lambda>x. x\<lparr>ccl_normalizedText := Some correctedText,
       ccl_reviewStatus := CL_CORRECTED\<rparr>)))"

text \<open>The body is checked before the transaction starts.\<close>

definition clauseReviewParse ::
  "('raw \<Rightarrow> string list + clause_review_input) \<Rightarrow> 'raw \<Rightarrow> (contracts_db, clause_review_input) svc" where
  "clauseReviewParse safeParse rawInput =
     bindH (parseH ''Invalid clause review'' safeParse rawInput) (\<lambda>data.
     thenH (requireH (\<not> (cri_decision data = CD_CORRECTED \<and> \<not> hasText (cri_correctedText data)))
       (validationError ''correctedText is required for CORRECTED decisions'' None))
       (returnH data))"

definition reviewClause ::
  "('raw \<Rightarrow> string list + clause_review_input) \<Rightarrow> id_source \<Rightarrow> string \<Rightarrow> string \<Rightarrow> string \<Rightarrow> 'raw \<Rightarrow>
   contract_clause contracts" where
  "reviewClause safeParse ids projectId packageId clauseId rawInput =
     bindH (accessP projectId (ContractCap c_contract_structure_review)) (\<lambda>ctx.
     bindH (clauseReviewParse safeParse rawInput) (\<lambda>data. transactionH
     (bindH (findOr notFound (findClause (cx_tenantId ctx) projectId packageId clauseId)) (\<lambda>clause.
     thenH (if cri_decision data = CD_CORRECTED \<and> hasText (cri_correctedText data)
       then correctClause ids ctx projectId clause (the (cri_correctedText data)) (cri_rationale data)
       else updateClause (ccl_id clause)
         (\<lambda>x. x\<lparr>ccl_reviewStatus := clauseReviewOf (cri_decision data)\<rparr>))
     (thenH (createDecision ids ctx projectId packageId None (clauseDecisionType (cri_decision data))
        ''contract_clause'' (ccl_id clause)
        [(''reviewStatus'', NT_TEXT (Some (clause_review_name (ccl_reviewStatus clause)))),
         (''normalizedText'', NT_UNITS (ccl_normalizedText clause))]
        [(''reviewStatus'', NT_TEXT (Some (clause_review_name (clauseReviewOf (cri_decision data)))))]
        (cri_rationale data))
     (thenH (auditP ctx projectId ''contract_clause.reviewed'' ''contract_clause'' (ccl_id clause))
       (findOr unexpectedError (\<lambda>d. find (\<lambda>x. ccl_id x = ccl_id clause) (ct_clauses d)))))))))"

record obligation_review_input =
  ori_decision :: rule_review
  ori_humanApprovedInterpretation :: "units option"
  ori_rationale :: "string option"

text \<open>The schema allows \<open>VERIFIED\<close>, \<open>APPROVED\<close> and \<open>REJECTED\<close>.\<close>

fun ruleDecisionType :: "rule_review \<Rightarrow> review_decision_type" where
  "ruleDecisionType RV_REJECTED = RD_REJECTED_INTERPRETATION"
| "ruleDecisionType _ = RD_APPROVED_RULE"

definition reviewedObligation :: "obligation_review_input \<Rightarrow> contract_obligation \<Rightarrow> contract_obligation" where
  "reviewedObligation data o1 = o1\<lparr>cob_reviewStatus := ori_decision data,
     cob_humanApprovedInterpretation :=
       orElse (ori_humanApprovedInterpretation data) (cob_humanApprovedInterpretation o1)\<rparr>"

definition reviewObligation ::
  "('raw \<Rightarrow> string list + obligation_review_input) \<Rightarrow> id_source \<Rightarrow> string \<Rightarrow> string \<Rightarrow> string \<Rightarrow> 'raw \<Rightarrow>
   contract_obligation contracts" where
  "reviewObligation safeParse ids projectId packageId obligationId rawInput =
     projectService projectId (ContractCap c_contract_structure_review) ''Invalid obligation review''
       safeParse rawInput (\<lambda>ctx data.
     bindH (findOr notFound (\<lambda>d. find (\<lambda>x. cob_id x = obligationId \<and> cob_tenantId x = cx_tenantId ctx
        \<and> cob_projectId x = projectId \<and> cob_contractPackageId x = packageId) (ct_obligations d)))
        (\<lambda>obligation.
     thenH (writeDb (\<lambda>d. d\<lparr>ct_obligations := updateWhere (\<lambda>x. cob_id x = cob_id obligation)
        (reviewedObligation data) (ct_obligations d)\<rparr>))
     (thenH (createDecision ids ctx projectId packageId None (ruleDecisionType (ori_decision data))
        ''contract_obligation'' (cob_id obligation)
        [(''reviewStatus'', NT_TEXT (Some (rule_review_name (cob_reviewStatus obligation))))]
        [(''reviewStatus'', NT_TEXT (Some (rule_review_name (ori_decision data))))]
        (ori_rationale data))
     (thenH (auditP ctx projectId ''contract_obligation.reviewed'' ''contract_obligation''
        (cob_id obligation))
       (returnH (reviewedObligation data obligation))))))"

record rule_review_input =
  rri_decision :: rule_review
  rri_timeBarClassification :: "time_bar option"
  rri_rationale :: "string option"

fun time_bar_name :: "time_bar \<Rightarrow> string" where
  "time_bar_name EXPRESS_CONDITION_PRECEDENT = ''EXPRESS_CONDITION_PRECEDENT''"
| "time_bar_name EXPRESS_TIME_BAR = ''EXPRESS_TIME_BAR''"
| "time_bar_name PROCEDURAL_DEADLINE = ''PROCEDURAL_DEADLINE''"
| "time_bar_name RECOMMENDED_INTERNAL_DEADLINE = ''RECOMMENDED_INTERNAL_DEADLINE''"
| "time_bar_name UNCERTAIN = ''UNCERTAIN''"
| "time_bar_name NOT_A_TIME_BAR = ''NOT_A_TIME_BAR''"

definition ruleClassification :: "rule_review_input \<Rightarrow> notice_rule \<Rightarrow> time_bar" where
  "ruleClassification data r = (case rri_timeBarClassification data of
     None \<Rightarrow> cnr_timeBarClassification r | Some c \<Rightarrow> c)"

definition reviewedRule :: "rule_review_input \<Rightarrow> notice_rule \<Rightarrow> notice_rule" where
  "reviewedRule data r = r\<lparr>cnr_reviewStatus := rri_decision data,
     cnr_timeBarClassification := ruleClassification data r,
     cnr_ambiguityStatus := (if ruleClassification data r = UNCERTAIN
       \<or> cnr_durationUnit r = Some PROMPT \<or> cnr_durationUnit r = Some REASONABLE_TIME
       then AM_AMBIGUOUS else AM_CLEAR)\<rparr>"

definition reviewNoticeRule ::
  "('raw \<Rightarrow> string list + rule_review_input) \<Rightarrow> id_source \<Rightarrow> string \<Rightarrow> string \<Rightarrow> string \<Rightarrow> 'raw \<Rightarrow>
   notice_rule contracts" where
  "reviewNoticeRule safeParse ids projectId packageId noticeRuleId rawInput =
     projectService projectId (ContractCap c_contract_structure_review) ''Invalid notice-rule review''
       safeParse rawInput (\<lambda>ctx data.
     bindH (findOr notFound (\<lambda>d. find (\<lambda>x. cnr_id x = noticeRuleId \<and> cnr_tenantId x = cx_tenantId ctx
        \<and> cnr_projectId x = projectId \<and> cnr_contractPackageId x = packageId) (ct_rules d))) (\<lambda>r.
     thenH (writeDb (\<lambda>d. d\<lparr>ct_rules := updateWhere (\<lambda>x. cnr_id x = cnr_id r) (reviewedRule data)
        (ct_rules d)\<rparr>))
     (thenH (createDecision ids ctx projectId packageId None (ruleDecisionType (rri_decision data))
        ''notice_rule'' (cnr_id r)
        [(''reviewStatus'', NT_TEXT (Some (rule_review_name (cnr_reviewStatus r)))),
         (''timeBarClassification'', NT_TEXT (Some (time_bar_name (cnr_timeBarClassification r))))]
        [(''reviewStatus'', NT_TEXT (Some (rule_review_name (rri_decision data)))),
         (''timeBarClassification'', NT_TEXT (Some (time_bar_name (ruleClassification data r))))]
        (rri_rationale data))
     (thenH (auditP ctx projectId ''notice_rule.reviewed'' ''notice_rule'' (cnr_id r))
       (returnH (reviewedRule data r))))))"

record issue_input =
  iin_resolution :: string
  iin_status :: issue_status

definition resolvedIssue ::
  "contracts_env \<Rightarrow> project_context \<Rightarrow> issue_input \<Rightarrow> configuration_issue \<Rightarrow> configuration_issue" where
  "resolvedIssue env ctx data x = x\<lparr>cis_status := iin_status data,
     cis_resolution := Some (iin_resolution data), cis_resolvedByUserId := Some (userId ctx),
     cis_resolvedAt := Some (cev_now env)\<rparr>"

definition resolveConfigurationIssue ::
  "contracts_env \<Rightarrow> ('raw \<Rightarrow> string list + issue_input) \<Rightarrow> string \<Rightarrow> string \<Rightarrow> string \<Rightarrow> 'raw \<Rightarrow>
   configuration_issue contracts" where
  "resolveConfigurationIssue env safeParse projectId packageId issueId rawInput =
     projectService projectId (ContractCap c_contract_issue_manage) ''Invalid issue resolution''
       safeParse rawInput (\<lambda>ctx data.
     bindH (findOr notFound (\<lambda>d. find (\<lambda>x. cis_id x = issueId \<and> cis_tenantId x = cx_tenantId ctx
        \<and> cis_projectId x = projectId \<and> cis_contractPackageId x = packageId) (ct_issues d))) (\<lambda>issue.
     thenH (writeDb (\<lambda>d. d\<lparr>ct_issues := updateWhere (\<lambda>x. cis_id x = cis_id issue)
        (resolvedIssue env ctx data) (ct_issues d)\<rparr>))
     (thenH (auditP ctx projectId ''contract_issue.resolved'' ''contract_configuration_issue''
        (cis_id issue))
       (returnH (resolvedIssue env ctx data issue)))))"

section \<open>Queries\<close>

definition listPackageClauses :: "string \<Rightarrow> string \<Rightarrow> contract_clause list contracts" where
  "listPackageClauses projectId packageId =
     projectAction projectId (ContractCap c_contract_package_read) (\<lambda>ctx.
     readDb (\<lambda>d. take 500 (sort_key (\<lambda>x. cc_sequence (ccl_candidate x))
       (filter (\<lambda>x. ccl_tenantId x = cx_tenantId ctx \<and> ccl_projectId x = projectId
         \<and> ccl_contractPackageId x = packageId) (ct_clauses d)))))"

definition listPackageObligations ::
  "string \<Rightarrow> string \<Rightarrow> (contract_obligation \<times> notice_rule list \<times> contract_clause option) list contracts" where
  "listPackageObligations projectId packageId =
     projectAction projectId (ContractCap c_contract_package_read) (\<lambda>ctx.
     readDb (\<lambda>d. map (\<lambda>x. (x, filter (\<lambda>r. cnr_obligationId r = cob_id x) (ct_rules d),
         find (\<lambda>c. ccl_id c = cob_sourceClauseId x) (ct_clauses d)))
       (take 500 (filter (\<lambda>x. cob_tenantId x = cx_tenantId ctx \<and> cob_projectId x = projectId
         \<and> cob_contractPackageId x = packageId) (ct_obligations d)))))"

definition listPackageNoticeRules ::
  "string \<Rightarrow> string \<Rightarrow> (notice_rule \<times> contract_obligation option) list contracts" where
  "listPackageNoticeRules projectId packageId =
     projectAction projectId (ContractCap c_contract_package_read) (\<lambda>ctx.
     readDb (\<lambda>d. map (\<lambda>x. (x, find (\<lambda>y. cob_id y = cnr_obligationId x) (ct_obligations d)))
       (take 500 (filter (\<lambda>x. cnr_tenantId x = cx_tenantId ctx \<and> cnr_projectId x = projectId
         \<and> cnr_contractPackageId x = packageId) (ct_rules d)))))"

text \<open>The order of an enum is that of its declaration.\<close>

fun issueStatusRank :: "issue_status \<Rightarrow> nat" where
  "issueStatusRank IU_OPEN = 0"
| "issueStatusRank IU_IN_PROGRESS = 1"
| "issueStatusRank IU_RESOLVED = 2"
| "issueStatusRank IU_WAIVED = 3"
| "issueStatusRank IU_DEFERRED = 4"

definition listPackageIssues :: "string \<Rightarrow> string \<Rightarrow> configuration_issue list contracts" where
  "listPackageIssues projectId packageId =
     projectAction projectId (ContractCap c_contract_package_read) (\<lambda>ctx.
     readDb (\<lambda>d. take 500 (sort_key (\<lambda>x. issueStatusRank (cis_status x))
       (filter (\<lambda>x. cis_tenantId x = cx_tenantId ctx \<and> cis_projectId x = projectId
         \<and> cis_contractPackageId x = packageId) (rev (ct_issues d))))))"

section \<open>Revisions of the configuration\<close>

definition segregationEnabled :: "contracts_env \<Rightarrow> bool" where
  "segregationEnabled env \<longleftrightarrow> cev_sod env \<noteq> Some ''false''"

definition buildStructuredRuleForSnapshot :: "notice_rule \<Rightarrow> structured_rule" where
  "buildStructuredRuleForSnapshot r =
     (let isBusiness = cnr_durationUnit r = Some BUSINESS_DAY \<or> cnr_calendarBasis r = Some BUSINESS_DAYS;
          approved = (cnr_reviewStatus r = RV_APPROVED \<or> cnr_reviewStatus r = RV_VERIFIED)
            \<and> (cnr_ambiguityStatus r = AM_CLEAR \<or> cnr_ambiguityStatus r = AM_PARTIALLY_AMBIGUOUS)
            \<and> cnr_countingConvention r \<noteq> UNSPECIFIED
      in \<lparr>sru_durationUnit = cnr_durationUnit r, sru_durationValue = cnr_durationValue r,
          sru_counting = cnr_countingConvention r,
          sru_startDateConvention = (if truthy (cnr_startDateRule r)
              \<and> includesStr (toUpperCase (the (cnr_startDateRule r))) ''INCLUDE''
            then INCLUDE_TRIGGER_DAY else EXCLUDE_TRIGGER_DAY),
          sru_endDateConvention = END_OF_DAY,
          sru_nonWorkingAdjustment = (if isBusiness then FORWARD else NO_ADJUSTMENT),
          sru_timeBarClassification = cnr_timeBarClassification r, sru_ambiguityNotes = [],
          sru_humanApproved = approved, sru_requiredRecipientsApproved = True,
          sru_executable = (approved \<and> cnr_durationUnit r \<noteq> None)\<rparr>)"

definition packageVersions :: "string \<Rightarrow> contracts_db \<Rightarrow> string list" where
  "packageVersions packageId d =
     map cdc_documentVersionId (filter (\<lambda>x. cdc_contractPackageId x = packageId) (ct_documents d))"

definition nextRevision :: "string \<Rightarrow> contracts_db \<Rightarrow> nat" where
  "nextRevision packageId d = nextNumber (map crv_revisionNumber
     (filter (\<lambda>r. crv_contractPackageId r = packageId) (ct_revisions d)))"

definition createRevision ::
  "id_source \<Rightarrow> project_context \<Rightarrow> string \<Rightarrow> string \<Rightarrow> (string \<Rightarrow> configuration_revision) \<Rightarrow>
   configuration_revision contracts" where
  "createRevision ids ctx projectId packageId mk =
     thenH (packageGuard (cx_tenantId ctx) projectId packageId)
       (createRow ct_revisions (\<lambda>xs d. d\<lparr>ct_revisions := xs\<rparr>) (ids T_REVISION) mk)"

text \<open>A body with only a summary.\<close>

definition createAndSubmitConfigurationRevision ::
  "contracts_env \<Rightarrow> ('raw \<Rightarrow> string list + string option) \<Rightarrow> id_source \<Rightarrow> string \<Rightarrow> string \<Rightarrow> 'raw \<Rightarrow>
   configuration_revision contracts" where
  "createAndSubmitConfigurationRevision env safeParse ids projectId packageId rawInput =
     projectService projectId (ContractCap c_contract_configuration_submit) ''Invalid revision payload''
       safeParse rawInput (\<lambda>ctx summary.
     bindH (findOr notFound (findContractPackage (cx_tenantId ctx) projectId packageId)) (\<lambda>pkg.
     bindH (readDb (packageVersions packageId)) (\<lambda>versions.
     bindH (readDb (nextRevision packageId)) (\<lambda>revisionNumber.
     bindH (createRevision ids ctx projectId packageId (\<lambda>newId.
       \<lparr>crv_id = newId, crv_tenantId = cx_tenantId ctx, crv_projectId = projectId,
        crv_contractPackageId = packageId, crv_revisionNumber = revisionNumber,
        crv_status = RS_IN_REVIEW,
        crv_summary = orText summary (''Revision '' @ showNat revisionNumber),
        crv_basedOnDocumentVersions = versions, crv_isActiveApproved = False,
        crv_createdByUserId = userId ctx, crv_submittedByUserId = Some (userId ctx),
        crv_submittedAt = Some (cev_now env), crv_approvedByUserId = None, crv_approvedAt = None,
        crv_supersedesRevisionId = None\<rparr>)) (\<lambda>revision.
     thenH (auditP ctx projectId ''contract_configuration.submitted''
        ''contract_configuration_revision'' (crv_id revision))
       (returnH revision))))))"

definition findRevision ::
  "string \<Rightarrow> string \<Rightarrow> string \<Rightarrow> string \<Rightarrow> contracts_db \<Rightarrow> configuration_revision option" where
  "findRevision tenantId projectId packageId i d =
     find (\<lambda>r. crv_id r = i \<and> crv_tenantId r = tenantId \<and> crv_projectId r = projectId
       \<and> crv_contractPackageId r = packageId) (ct_revisions d)"

text \<open>The rules a revision approves, and the latest review decision of each.\<close>

definition approvableRules :: "string \<Rightarrow> string \<Rightarrow> string \<Rightarrow> contracts_db \<Rightarrow> notice_rule list" where
  "approvableRules tenantId projectId packageId d =
     filter (\<lambda>r. cnr_contractPackageId r = packageId \<and> cnr_tenantId r = tenantId
       \<and> cnr_projectId r = projectId \<and> cnr_reviewStatus r \<in> {RV_VERIFIED, RV_APPROVED}
       \<and> cnr_durationUnit r \<noteq> None) (ct_rules d)"

definition reviewDecisionOf :: "string \<Rightarrow> contracts_db \<Rightarrow> notice_rule \<Rightarrow> string option" where
  "reviewDecisionOf packageId d r = map_option crd_id
     (find (\<lambda>x. crd_contractPackageId x = packageId \<and> crd_entityType x = ''notice_rule''
       \<and> crd_entityId x = cnr_id r) (rev (ct_decisions d)))"

text \<open>A foreign key guarantees the obligation of a rule.\<close>

definition sourceClauseOf :: "contracts_db \<Rightarrow> notice_rule \<Rightarrow> string" where
  "sourceClauseOf d r = (case find (\<lambda>x. cob_id x = cnr_obligationId r) (ct_obligations d) of
     None \<Rightarrow> [] | Some x \<Rightarrow> cob_sourceClauseId x)"

definition snapshotsOf ::
  "id_source \<Rightarrow> project_context \<Rightarrow> string \<Rightarrow> string \<Rightarrow> string \<Rightarrow> contracts_db \<Rightarrow> approved_snapshot list" where
  "snapshotsOf ids ctx projectId packageId revisionId d =
     map (\<lambda>(k, r).
       \<lparr>csn_id = ids T_SNAPSHOT (length (ct_snapshots d) + k), csn_tenantId = cx_tenantId ctx,
        csn_projectId = projectId, csn_contractPackageId = packageId,
        csn_configurationRevisionId = revisionId, csn_rule = r,
        csn_sourceClauseId = sourceClauseOf d r,
        csn_structuredRule = buildStructuredRuleForSnapshot r,
        csn_reviewDecisionId = reviewDecisionOf packageId d r\<rparr>)
       (enumerate 0 (approvableRules (cx_tenantId ctx) projectId packageId d))"

definition setPackage ::
  "string \<Rightarrow> string \<Rightarrow> contract_status \<Rightarrow> string option \<Rightarrow> unit contracts" where
  "setPackage tenantId packageId st current =
     bindH (readDb (\<lambda>d. list_ex (\<lambda>p. cpk_id p = packageId \<and> cpk_tenantId p = tenantId) (ct_packages d)))
       (\<lambda>known.
     thenH (requireH known unexpectedError)
       (writeDb (\<lambda>d. d\<lparr>ct_packages := updateWhere (\<lambda>p. cpk_id p = packageId \<and> cpk_tenantId p = tenantId)
         (\<lambda>p. p\<lparr>cpk_status := st, cpk_currentRevisionId := current\<rparr>) (ct_packages d)\<rparr>)))"

text \<open>Row-level security keeps the update of the active revisions to the caller's organization.\<close>

definition supersededRevision :: "configuration_revision \<Rightarrow> configuration_revision" where
  "supersededRevision r = r\<lparr>crv_status := RS_SUPERSEDED, crv_isActiveApproved := False\<rparr>"

definition approvedConfiguration ::
  "contracts_env \<Rightarrow> project_context \<Rightarrow> configuration_revision \<Rightarrow> configuration_revision" where
  "approvedConfiguration env ctx r = r\<lparr>crv_status := RS_APPROVED, crv_isActiveApproved := True,
     crv_approvedByUserId := Some (userId ctx), crv_approvedAt := Some (cev_now env)\<rparr>"

definition approveConfigurationRevision ::
  "contracts_env \<Rightarrow> id_source \<Rightarrow> string \<Rightarrow> string \<Rightarrow> string \<Rightarrow> configuration_revision contracts" where
  "approveConfigurationRevision env ids projectId packageId revisionId =
     projectAction projectId (ContractCap c_contract_configuration_approve) (\<lambda>ctx.
     bindH (findOr notFound (findRevision (cx_tenantId ctx) projectId packageId revisionId)) (\<lambda>revision.
     thenH (requireH (crv_status revision \<in> {RS_IN_REVIEW, RS_CHANGES_REQUESTED})
       (conflict (''Revision cannot be approved from status ''
         @ revision_status_name (crv_status revision))))
     (thenH (requireH (\<not> (segregationEnabled env
          \<and> (crv_submittedByUserId revision = Some (userId ctx)
             \<or> crv_createdByUserId revision = userId ctx)))
       (forbidden ''Segregation of duties: approver must differ from submitter/creator''))
     (thenH (updateRevisions (\<lambda>r. crv_contractPackageId r = packageId
          \<and> crv_tenantId r = cx_tenantId ctx \<and> crv_isActiveApproved r) supersededRevision)
     (thenH (updateRevisions (\<lambda>r. crv_id r = crv_id revision) (approvedConfiguration env ctx))
     (bindH (findOr unexpectedError (\<lambda>d. find (\<lambda>r. crv_id r = crv_id revision) (ct_revisions d)))
       (\<lambda>approved.
     thenH (setPackage (cx_tenantId ctx) packageId CP_APPROVED (Some (crv_id approved)))
     (thenH (writeDb (\<lambda>d. d\<lparr>ct_snapshots := ct_snapshots d
        @ snapshotsOf ids ctx projectId packageId (crv_id approved) d\<rparr>))
     (thenH (createDecision ids ctx projectId packageId (Some (crv_id approved)) RD_APPROVED_RULE
        ''contract_configuration_revision'' (crv_id approved) []
        [(''status'', NT_TEXT (Some ''APPROVED'')),
         (''revisionNumber'', NT_NUMBER (crv_revisionNumber approved))] None)
     (thenH (auditP ctx projectId ''contract_configuration.approved''
        ''contract_configuration_revision'' (crv_id approved))
       (returnH approved)))))))))))"

definition findActive :: "string \<Rightarrow> string \<Rightarrow> contracts_db \<Rightarrow> configuration_revision option" where
  "findActive tenantId packageId d =
     find (\<lambda>r. crv_contractPackageId r = packageId \<and> crv_tenantId r = tenantId
       \<and> crv_isActiveApproved r \<and> crv_status r = RS_APPROVED) (ct_revisions d)"

record approved_configuration =
  apc_package :: contract_package
  apc_revision :: configuration_revision
  apc_documents :: "contract_document list"
  apc_clauses :: "contract_clause list"
  apc_obligations :: "contract_obligation list"
  apc_noticeRules :: "notice_rule list"

definition getApprovedConfiguration :: "string \<Rightarrow> string \<Rightarrow> approved_configuration contracts" where
  "getApprovedConfiguration projectId packageId =
     projectAction projectId (ContractCap c_contract_package_read) (\<lambda>ctx.
     bindH (findOr notFound (findContractPackage (cx_tenantId ctx) projectId packageId)) (\<lambda>pkg.
     bindH (findOr notFound (findActive (cx_tenantId ctx) packageId)) (\<lambda>revision.
     readDb (\<lambda>d.
       \<lparr>apc_package = pkg, apc_revision = revision,
        apc_documents = filter (\<lambda>x. cdc_contractPackageId x = packageId) (ct_documents d),
        apc_clauses = sort_key (\<lambda>x. cc_sequence (ccl_candidate x))
          (filter (\<lambda>x. ccl_contractPackageId x = packageId
            \<and> ccl_reviewStatus x \<in> {CL_VERIFIED, CL_CORRECTED}) (ct_clauses d)),
        apc_obligations = filter (\<lambda>x. cob_contractPackageId x = packageId) (ct_obligations d),
        apc_noticeRules = filter (\<lambda>x. cnr_contractPackageId x = packageId) (ct_rules d)\<rparr>))))"

definition requestConfigurationChanges ::
  "('raw \<Rightarrow> string list + string) \<Rightarrow> id_source \<Rightarrow> string \<Rightarrow> string \<Rightarrow> string \<Rightarrow> 'raw \<Rightarrow>
   configuration_revision contracts" where
  "requestConfigurationChanges safeParse ids projectId packageId revisionId rawInput =
     projectService projectId (ContractCap c_contract_configuration_approve) ''Invalid change request''
       safeParse rawInput (\<lambda>ctx rationale.
     bindH (findOr notFound (\<lambda>d. find (\<lambda>r. crv_id r = revisionId \<and> crv_tenantId r = cx_tenantId ctx
        \<and> crv_projectId r = projectId \<and> crv_contractPackageId r = packageId
        \<and> crv_status r = RS_IN_REVIEW) (ct_revisions d))) (\<lambda>revision.
     thenH (updateRevisions (\<lambda>r. crv_id r = crv_id revision) (\<lambda>r. r\<lparr>crv_status := RS_CHANGES_REQUESTED\<rparr>))
     (thenH (createDecision ids ctx projectId packageId (Some (crv_id revision)) RD_REQUESTED_CHANGES
        ''contract_configuration_revision'' (crv_id revision)
        [(''status'', NT_TEXT (Some ''IN_REVIEW''))] [(''status'', NT_TEXT (Some ''CHANGES_REQUESTED''))]
        (Some rationale))
     (thenH (auditP ctx projectId ''contract_configuration.changes_requested''
        ''contract_configuration_revision'' (crv_id revision))
       (returnH (revision\<lparr>crv_status := RS_CHANGES_REQUESTED\<rparr>))))))"

definition supersedeApprovedConfiguration ::
  "('raw \<Rightarrow> string list + string option) \<Rightarrow> id_source \<Rightarrow> string \<Rightarrow> string \<Rightarrow> 'raw \<Rightarrow>
   (configuration_revision \<times> configuration_revision) contracts" where
  "supersedeApprovedConfiguration safeParse ids projectId packageId rawInput =
     projectService projectId (ContractCap c_contract_configuration_supersede) ''Invalid supersession''
       safeParse rawInput (\<lambda>ctx summary.
     bindH (findOr notFound (findActive (cx_tenantId ctx) packageId)) (\<lambda>current.
     thenH (updateRevisions (\<lambda>r. crv_id r = crv_id current) supersededRevision)
     (bindH (readDb (nextRevision packageId)) (\<lambda>revisionNumber.
     bindH (createRevision ids ctx projectId packageId (\<lambda>newId.
       \<lparr>crv_id = newId, crv_tenantId = cx_tenantId ctx, crv_projectId = projectId,
        crv_contractPackageId = packageId, crv_revisionNumber = revisionNumber, crv_status = RS_DRAFT,
        crv_summary = orText summary (''Supersedes revision '' @ showNat (crv_revisionNumber current)),
        crv_basedOnDocumentVersions = crv_basedOnDocumentVersions current,
        crv_isActiveApproved = False, crv_createdByUserId = userId ctx,
        crv_submittedByUserId = None, crv_submittedAt = None, crv_approvedByUserId = None,
        crv_approvedAt = None, crv_supersedesRevisionId = Some (crv_id current)\<rparr>)) (\<lambda>draft.
     thenH (setPackage (cx_tenantId ctx) packageId CP_REVIEW_REQUIRED None)
     (thenH (auditP ctx projectId ''contract_configuration.superseded''
        ''contract_configuration_revision'' (crv_id current))
       (returnH (current, draft))))))))"

end
