(* ===== verification/ContractAnalysis.thy ===== *)
theory ContractAnalysis
  imports ContractService
begin

text \<open>
  The structure analysis of a contract package: \<open>startDeterministicStructureAnalysis\<close> of
  \<open>apps/web/src/server/services/contracts.ts\<close> with the analysis provider of
  \<open>apps/web/src/server/contracts/ai-provider.ts\<close>.  A failure of the provider is no
  \<open>AppError\<close>, so it is \<open>unexpectedError\<close> and undoes the whole analysis.
\<close>

section \<open>The provider\<close>

record ai_suggestion =
  ais_suggestionType :: suggestion_type
  ais_proposedData :: "(string \<times> string) list"
  ais_confidence :: "rat option"
  ais_rationale :: "string option"
  ais_evidenceSegmentId :: "string option"

record contract_ai_response =
  car_provider :: string
  car_model :: "string option"
  car_promptSchemaVersion :: string
  car_suggestions :: "ai_suggestion list"
  car_testOnly :: "bool option"

record contract_ai_provider =
  cap_name :: string
  cap_testOnly :: bool

definition fakeContractProvider :: contract_ai_provider where
  "fakeContractProvider = \<lparr>cap_name = ''fake'', cap_testOnly = True\<rparr>"

definition contractAppEnv :: "contracts_env \<Rightarrow> string" where
  "contractAppEnv env = orText (cev_appEnv env) (orText (cev_nodeEnv env) ''development'')"

definition productionLike :: "contracts_env \<Rightarrow> bool" where
  "productionLike env \<longleftrightarrow> contractAppEnv env = ''production'' \<or> contractAppEnv env = ''staging''"

definition assertProviderAllowedForEnvironment ::
  "contracts_env \<Rightarrow> contract_ai_provider \<Rightarrow> unit contracts" where
  "assertProviderAllowedForEnvironment env provider =
     requireH (\<not> (productionLike env \<and> cap_testOnly provider)) unexpectedError"

definition resolveContractAiProvider :: "contracts_env \<Rightarrow> contract_ai_provider option contracts" where
  "resolveContractAiProvider env = (let configured = map_option trim (cev_aiProvider env) in
     if \<not> truthy configured \<or> configured = Some ''none'' \<or> configured = Some ''deterministic''
     then returnH None
     else if configured = Some ''fake''
     then thenH (assertProviderAllowedForEnvironment env fakeContractProvider)
       (returnH (Some fakeContractProvider))
     else throwH unexpectedError)"

text \<open>What the fake provider answers to the texts of segments.\<close>

definition PARTY_RX :: rx where
  "PARTY_RX = altOf [textCi ''Employer'', textCi ''Contractor'', seqOf (map unitIs contractorArabic),
     seqOf (map unitIs employerArabic)]"

definition syntheticParty :: string where
  "syntheticParty = ''Synthetic Party (test-only)''"

definition fakeRationale :: string where
  "fakeRationale = utf8 (map of_char ''Fixture party candidate '' @ [8212] @ map of_char '' not approved.'')"

definition fakeAnalyzeSegments :: "(string \<times> units) list \<Rightarrow> string \<Rightarrow> contract_ai_response" where
  "fakeAnalyzeSegments segments version =
     \<lparr>car_provider = cap_name fakeContractProvider, car_model = Some ''fake-v0'',
      car_promptSchemaVersion = version,
      car_suggestions = whenl (testRx PARTY_RX (joinLines (map snd segments)))
        \<lparr>ais_suggestionType = SG_PARTY,
         ais_proposedData = [(''legalName'', syntheticParty), (''partyType'', ''OTHER''),
           (''testOnly'', ''true'')],
         ais_confidence = Some (4/10), ais_rationale = Some fakeRationale,
         ais_evidenceSegmentId = map_option fst (firstOf segments)\<rparr>,
      car_testOnly = Some True\<rparr>"

text \<open>\<open>ContractAiResponseSchema\<close> on a response of its type.\<close>

definition validAiSuggestion :: "contracts_env \<Rightarrow> ai_suggestion \<Rightarrow> bool" where
  "validAiSuggestion env x \<longleftrightarrow>
     (case ais_confidence x of None \<Rightarrow> True | Some c \<Rightarrow> 0 \<le> c \<and> c \<le> 1)
     \<and> (case ais_rationale x of None \<Rightarrow> True | Some r \<Rightarrow> length (units r) \<le> 2000)
     \<and> (case ais_evidenceSegmentId x of None \<Rightarrow> True | Some i \<Rightarrow> cev_isUuid env i)"

definition validateAiResponse ::
  "contracts_env \<Rightarrow> contract_ai_response \<Rightarrow> contract_ai_response contracts" where
  "validateAiResponse env raw =
     thenH (requireH (car_provider raw \<noteq> [] \<and> car_promptSchemaVersion raw \<noteq> []
        \<and> list_all (validAiSuggestion env) (car_suggestions raw)) unexpectedError)
     (thenH (requireH (\<not> (car_testOnly raw = Some True \<and> productionLike env)) unexpectedError)
       (returnH raw))"

section \<open>Rows of the analysis\<close>

text \<open>What the rows of one document share.\<close>

record analysis_scope =
  asc_ctx :: project_context
  asc_projectId :: string
  asc_packageId :: string
  asc_runId :: string
  asc_document :: contract_document
  asc_place :: evidence_place

definition createSuggestion ::
  "id_source \<Rightarrow> analysis_scope \<Rightarrow> suggestion_type \<Rightarrow> proposal \<Rightarrow> evidence_place \<Rightarrow> rat option \<Rightarrow>
   extraction_method \<Rightarrow> string \<Rightarrow> string option \<Rightarrow> extraction_suggestion contracts" where
  "createSuggestion ids sc suggestionType proposed place confidence how modelProvider modelName =
     createRow ct_suggestions (\<lambda>xs d. d\<lparr>ct_suggestions := xs\<rparr>) (ids T_SUGGESTION) (\<lambda>newId.
       \<lparr>csg_id = newId, csg_tenantId = cx_tenantId (asc_ctx sc), csg_projectId = asc_projectId sc,
        csg_contractPackageId = asc_packageId sc, csg_analysisRunId = asc_runId sc,
        csg_suggestionType = suggestionType, csg_proposedData = proposed, csg_place = place,
        csg_confidence = confidence, csg_extractionMethod = how, csg_modelProvider = modelProvider,
        csg_modelName = modelName, csg_status = SU_PENDING_REVIEW\<rparr>)"

definition noPlace :: evidence_place where
  "noPlace = \<lparr>epl_segmentId = None, epl_locator = None\<rparr>"

definition createIssue ::
  "id_source \<Rightarrow> analysis_scope \<Rightarrow> issue_severity \<Rightarrow> issue_category \<Rightarrow> string \<Rightarrow> string \<Rightarrow> units \<Rightarrow>
   configuration_issue contracts" where
  "createIssue ids sc severity category entityType entityId description =
     createRow ct_issues (\<lambda>xs d. d\<lparr>ct_issues := xs\<rparr>) (ids T_ISSUE) (\<lambda>newId.
       \<lparr>cis_id = newId, cis_tenantId = cx_tenantId (asc_ctx sc), cis_projectId = asc_projectId sc,
        cis_contractPackageId = asc_packageId sc, cis_severity = severity, cis_category = category,
        cis_sourceEntityType = entityType, cis_sourceEntityId = entityId,
        cis_description = description, cis_status = IU_OPEN, cis_resolution = None,
        cis_resolvedByUserId = None, cis_resolvedAt = None\<rparr>)"

definition createClause ::
  "id_source \<Rightarrow> analysis_scope \<Rightarrow> clause_candidate \<Rightarrow> contract_clause contracts" where
  "createClause ids sc candidate =
     createRow ct_clauses (\<lambda>xs d. d\<lparr>ct_clauses := xs\<rparr>) (ids T_CLAUSE) (\<lambda>newId.
       \<lparr>ccl_id = newId, ccl_tenantId = cx_tenantId (asc_ctx sc), ccl_projectId = asc_projectId sc,
        ccl_contractPackageId = asc_packageId sc,
        ccl_contractDocumentId = cdc_id (asc_document sc),
        ccl_documentVersionId = cdc_documentVersionId (asc_document sc), ccl_candidate = candidate,
        ccl_language = cdc_language (asc_document sc), ccl_normalizedText = None,
        ccl_place = asc_place sc, ccl_reviewStatus = CL_MACHINE_SUGGESTED\<rparr>)"

text \<open>\<open>/\bnotice\b|\ldots/i\<close> with the Arabic word, and the other patterns of the loop.\<close>

definition NOTICE_RX :: rx where
  "NOTICE_RX = Alt (wordRx [textCi ''notice'']) (seqOf (map unitIs [1573, 1588, 1593, 1575, 1585]))"

definition TIMING_RX :: rx where
  "TIMING_RX = altOf
     [seqOf [textCi ''within'', spacesRx1, plusRx (Cls digitUnit), spacesRx1,
        optRx (Seq (textCi ''calendar'') spacesRx1), textCi ''day'', optRx (textCi ''s'')],
      textCi ''promptly'', textCi ''immediately'', textCi ''reasonable'']"

definition PRECEDENT_RX :: rx where
  "PRECEDENT_RX = textCi ''condition precedent''"

definition TIME_BAR_RX :: rx where
  "TIME_BAR_RX = altOf [seqOf [textCi ''time'', optRx (oneOf [45, 32]), textCi ''bar''],
     textCi ''condition precedent'', textCi ''shall be deemed'']"

definition timingConfidence :: "notice_timing \<Rightarrow> rat" where
  "timingConfidence timing = (if tm_vague timing then 35/100 else 55/100)"

definition createObligation ::
  "id_source \<Rightarrow> analysis_scope \<Rightarrow> string \<Rightarrow> units \<Rightarrow> notice_timing \<Rightarrow> contract_obligation contracts" where
  "createObligation ids sc clauseId sourceText timing =
     createRow ct_obligations (\<lambda>xs d. d\<lparr>ct_obligations := xs\<rparr>) (ids T_OBLIGATION) (\<lambda>newId.
       \<lparr>cob_id = newId, cob_tenantId = cx_tenantId (asc_ctx sc), cob_projectId = asc_projectId sc,
        cob_contractPackageId = asc_packageId sc, cob_sourceClauseId = clauseId,
        cob_actionDescription = take 2000 sourceText,
        cob_timingExpression = map_option snd (matchRx TIMING_RX sourceText),
        cob_isTimeBarredCandidate = testRx TIME_BAR_RX sourceText,
        cob_isConditionPrecedentCandidate = testRx PRECEDENT_RX sourceText,
        cob_vague = tm_vague timing, cob_confidence = timingConfidence timing,
        cob_humanApprovedInterpretation = None, cob_reviewStatus = RV_MACHINE_SUGGESTED,
        cob_place = asc_place sc\<rparr>)"

text \<open>The counting convention is left to its default, as are the columns not set.\<close>

definition createNoticeRule ::
  "id_source \<Rightarrow> analysis_scope \<Rightarrow> string \<Rightarrow> notice_timing \<Rightarrow> notice_rule contracts" where
  "createNoticeRule ids sc obligationId timing =
     bindH (numericColumn (tm_durationValue timing)) (\<lambda>durationValue.
     createRow ct_rules (\<lambda>xs d. d\<lparr>ct_rules := xs\<rparr>) (ids T_RULE) (\<lambda>newId.
       \<lparr>cnr_id = newId, cnr_tenantId = cx_tenantId (asc_ctx sc), cnr_projectId = asc_projectId sc,
        cnr_contractPackageId = asc_packageId sc, cnr_obligationId = obligationId,
        cnr_noticeCategory = Some ''GENERAL_NOTICE'', cnr_triggerBasis = Some ''SOURCE_TEXT'',
        cnr_durationValue = durationValue, cnr_durationUnit = tm_durationUnit timing,
        cnr_calendarBasis = (if tm_durationUnit timing = Some CALENDAR_DAY then Some CALENDAR_DAYS
          else None),
        cnr_countingConvention = UNSPECIFIED, cnr_startDateRule = None, cnr_endDateRule = None,
        cnr_businessDayAdjustment = None, cnr_recipientRequirements = None,
        cnr_deliveryMethodRequirements = None, cnr_contentRequirements = None,
        cnr_consequenceText = None,
        cnr_timeBarClassification = (if tm_vague timing then UNCERTAIN else PROCEDURAL_DEADLINE),
        cnr_ambiguityStatus = (if tm_vague timing then AM_AMBIGUOUS else AM_PARTIALLY_AMBIGUOUS),
        cnr_reviewStatus = RV_MACHINE_SUGGESTED, cnr_place = asc_place sc\<rparr>))"

section \<open>The analysis\<close>

definition isNoticeCandidate :: "notice_timing \<Rightarrow> units \<Rightarrow> bool" where
  "isNoticeCandidate timing sourceText \<longleftrightarrow> tm_durationUnit timing = Some CALENDAR_DAY
     \<or> tm_durationUnit timing = Some PROMPT \<or> testRx NOTICE_RX sourceText"

definition vagueTiming :: units where
  "vagueTiming = units ''Vague or non-numeric timing expression detected; must remain non-executable until human classification.''"

text \<open>The notice rule of a clause: the number of suggestions made.\<close>

definition analyzeNotice ::
  "id_source \<Rightarrow> analysis_scope \<Rightarrow> units \<Rightarrow> string \<Rightarrow> string \<Rightarrow> nat contracts" where
  "analyzeNotice ids sc sourceText suggestionId clauseId =
     (let timing = probeNoticeTimingExpression sourceText in
      if isNoticeCandidate timing sourceText
      then thenH (createSuggestion ids sc SG_NOTICE_RULE
          (P_NOTICE_RULE suggestionId timing (take 500 sourceText)) noPlace
          (Some (timingConfidence timing)) EM_DETERMINISTIC ''deterministic'' None)
        (bindH (createObligation ids sc clauseId sourceText timing) (\<lambda>obligation.
         thenH (createNoticeRule ids sc (cob_id obligation) timing)
         (thenH (if tm_vague timing
            then thenH (createIssue ids sc SV_MEDIUM IS_UNCLEAR_DEADLINE ''contract_clause'' clauseId
              vagueTiming) (returnH ())
            else returnH ())
           (returnH 1))))
      else returnH 0)"

text \<open>A clause candidate: the numbers of suggestions and of clauses.\<close>

definition analyzeCandidate ::
  "id_source \<Rightarrow> analysis_scope \<Rightarrow> clause_candidate \<Rightarrow> (nat \<times> nat) contracts" where
  "analyzeCandidate ids sc candidate =
     bindH (createSuggestion ids sc SG_CLAUSE (P_CLAUSE candidate) (asc_place sc)
       (Some (cc_extractionConfidence candidate)) EM_DETERMINISTIC ''deterministic'' None) (\<lambda>suggestion.
     bindH (createClause ids sc candidate) (\<lambda>clause.
     bindH (analyzeNotice ids sc (cc_sourceText candidate) (csg_id suggestion) (ccl_id clause)) (\<lambda>n.
     returnH (1 + n, 1))))"

definition analyzeTerm :: "id_source \<Rightarrow> analysis_scope \<Rightarrow> term_candidate \<Rightarrow> (nat \<times> nat) contracts" where
  "analyzeTerm ids sc x =
     thenH (createSuggestion ids sc SG_DEFINED_TERM (P_TERM x) (asc_place sc) (Some (55/100))
       EM_DETERMINISTIC ''deterministic'' None) (returnH (1, 0))"

definition analyzeParty :: "id_source \<Rightarrow> analysis_scope \<Rightarrow> party_candidate \<Rightarrow> (nat \<times> nat) contracts" where
  "analyzeParty ids sc x =
     thenH (createSuggestion ids sc (case py_kind x of PARTY \<Rightarrow> SG_PARTY | ROLE \<Rightarrow> SG_ROLE)
       (P_PARTY x) (asc_place sc) (Some (5/10)) EM_DETERMINISTIC ''deterministic'' None)
       (returnH (1, 0))"

definition ambiguousReference :: "cross_reference \<Rightarrow> units" where
  "ambiguousReference x = units ''Ambiguous cross-reference candidate: '' @ xr_rawReferenceText x"

definition analyzeReference ::
  "id_source \<Rightarrow> analysis_scope \<Rightarrow> cross_reference \<times> rat \<Rightarrow> (nat \<times> nat) contracts" where
  "analyzeReference ids sc x =
     thenH (createSuggestion ids sc SG_CROSS_REFERENCE (P_REFERENCE (fst x) (snd x)) (asc_place sc)
       (Some (snd x)) EM_DETERMINISTIC ''deterministic'' None)
     (thenH (if xr_ambiguous (fst x)
        then thenH (createIssue ids sc SV_LOW IS_UNRESOLVED_CROSS_REFERENCE ''contract_document''
          (cdc_id (asc_document sc)) (ambiguousReference (fst x))) (returnH ())
        else returnH ())
       (returnH (1, 0)))"

definition analyzeAiSuggestion ::
  "id_source \<Rightarrow> analysis_scope \<Rightarrow> contract_ai_response \<Rightarrow> ai_suggestion \<Rightarrow> (nat \<times> nat) contracts" where
  "analyzeAiSuggestion ids sc response x =
     thenH (createSuggestion ids sc (ais_suggestionType x)
       (P_MODEL (ais_proposedData x) (ais_rationale x))
       \<lparr>epl_segmentId = orElse (ais_evidenceSegmentId x) (epl_segmentId (asc_place sc)),
        epl_locator = None\<rparr>
       (ais_confidence x) EM_AI_ASSISTED (car_provider response) (car_model response))
       (returnH (1, 0))"

definition hasContent :: "evidence_segment \<Rightarrow> bool" where
  "hasContent g \<longleftrightarrow> hasText (seg_textContent g)"

definition modelSegments :: "evidence_segment list \<Rightarrow> (string \<times> units) list" where
  "modelSegments segments =
     map (\<lambda>g. (seg_id g, the (seg_textContent g))) (take 20 (filter hasContent segments))"

definition analyzeWithModel ::
  "contracts_env \<Rightarrow> id_source \<Rightarrow> analysis_scope \<Rightarrow> evidence_segment list \<Rightarrow> (nat \<times> nat) list contracts" where
  "analyzeWithModel env ids sc segments =
     bindH (resolveContractAiProvider env) (\<lambda>provider.
     case provider of None \<Rightarrow> returnH []
     | Some p \<Rightarrow>
         bindH (validateAiResponse env (fakeAnalyzeSegments (modelSegments segments) ''contract_ai_v1''))
           (\<lambda>response. forM (car_suggestions response) (analyzeAiSuggestion ids sc response)))"

definition segmentsOf :: "string \<Rightarrow> string \<Rightarrow> string \<Rightarrow> contracts_db \<Rightarrow> evidence_segment list" where
  "segmentsOf tenantId projectId versionId d =
     take 500 (sort_key seg_ordinal (filter (\<lambda>g. seg_tenantId g = tenantId \<and> seg_projectId g = projectId
       \<and> seg_documentVersionId g = versionId) (ct_segments d)))"

definition documentText :: "evidence_segment list \<Rightarrow> units" where
  "documentText segments =
     joinLines (map (\<lambda>g. the (seg_textContent g)) (filter hasContent segments))"

definition placeOf :: "evidence_segment list \<Rightarrow> evidence_place" where
  "placeOf segments = \<lparr>epl_segmentId = map_option seg_id (firstOf segments),
     epl_locator = map_option seg_locator (firstOf segments)\<rparr>"

definition noText :: units where
  "noText = units ''No evidence segment text available for deterministic clause extraction.''"

definition analyzeText ::
  "contracts_env \<Rightarrow> id_source \<Rightarrow> analysis_scope \<Rightarrow> evidence_segment list \<Rightarrow> units \<Rightarrow>
   (nat \<times> nat) list contracts" where
  "analyzeText env ids sc segments t =
     bindH (forM (extractClauseCandidatesFromText (cev_sha env) t) (analyzeCandidate ids sc)) (\<lambda>clauses.
     bindH (forM (extractDefinedTermCandidates t) (analyzeTerm ids sc)) (\<lambda>terms.
     bindH (forM (extractPartyRoleCandidates t) (analyzeParty ids sc)) (\<lambda>parties.
     bindH (forM (extractCrossReferenceCandidates t) (analyzeReference ids sc)) (\<lambda>references.
     bindH (analyzeWithModel env ids sc segments) (\<lambda>model.
     returnH (clauses @ terms @ parties @ references @ model))))))"

definition analyzeDocument ::
  "contracts_env \<Rightarrow> id_source \<Rightarrow> project_context \<Rightarrow> string \<Rightarrow> string \<Rightarrow> string \<Rightarrow> contract_document \<Rightarrow>
   (nat \<times> nat) list contracts" where
  "analyzeDocument env ids ctx projectId packageId runId doc =
     bindH (readDb (segmentsOf (cx_tenantId ctx) projectId (cdc_documentVersionId doc))) (\<lambda>segments.
     let sc = \<lparr>asc_ctx = ctx, asc_projectId = projectId, asc_packageId = packageId,
           asc_runId = runId, asc_document = doc, asc_place = placeOf segments\<rparr>;
         t = documentText segments in
     if trimUnits t = []
     then thenH (createIssue ids sc SV_HIGH IS_UNREADABLE_CLAUSE ''contract_document'' (cdc_id doc) noText)
       (returnH [])
     else analyzeText env ids sc segments t)"

definition newRun ::
  "contracts_env \<Rightarrow> project_context \<Rightarrow> string \<Rightarrow> string \<Rightarrow> string \<Rightarrow> contract_document list \<Rightarrow> string \<Rightarrow>
   analysis_run" where
  "newRun env ctx projectId packageId correlationId docs newId =
     \<lparr>crn_id = newId, crn_tenantId = cx_tenantId ctx, crn_projectId = projectId,
      crn_contractPackageId = packageId, crn_status = RN_RUNNING,
      crn_sourceDocumentVersions = map cdc_documentVersionId docs,
      crn_correlationId = correlationId, crn_startedAt = cev_now env, crn_completedAt = None,
      crn_suggestionCount = 0\<rparr>"

text \<open>The answer: the run and the numbers of suggestions and of clauses.\<close>

definition startDeterministicStructureAnalysis ::
  "contracts_env \<Rightarrow> id_source \<Rightarrow> string \<Rightarrow> string \<Rightarrow> string \<Rightarrow> (string \<times> nat \<times> nat) contracts" where
  "startDeterministicStructureAnalysis env ids correlationId projectId packageId =
     projectAction projectId (ContractCap c_contract_structure_run) (\<lambda>ctx.
     bindH (findOr notFound (findContractPackage (cx_tenantId ctx) projectId packageId)) (\<lambda>pkg.
     bindH (readDb (\<lambda>d. filter (\<lambda>x. cdc_contractPackageId x = packageId) (ct_documents d))) (\<lambda>docs.
     thenH (requireH (length docs \<noteq> 0)
       (validationError ''Attach at least one contract document before analysis'' None))
     (bindH (createRow ct_runs (\<lambda>xs d. d\<lparr>ct_runs := xs\<rparr>) (ids T_RUN)
        (newRun env ctx projectId packageId correlationId docs)) (\<lambda>run.
     bindH (forM docs (analyzeDocument env ids ctx projectId packageId (crn_id run))) (\<lambda>counts.
     let suggestionCount = sum_list (map fst (concat counts));
         clauseCount = sum_list (map snd (concat counts)) in
     thenH (writeDb (\<lambda>d. d\<lparr>ct_runs := updateWhere (\<lambda>r. crn_id r = crn_id run)
        (\<lambda>r. r\<lparr>crn_status := RN_SUCCEEDED, crn_completedAt := Some (cev_now env),
          crn_suggestionCount := suggestionCount\<rparr>) (ct_runs d)\<rparr>))
     (thenH (writeDb (\<lambda>d. d\<lparr>ct_packages := updateWhere (\<lambda>p. cpk_id p = packageId)
        (\<lambda>p. p\<lparr>cpk_status := CP_REVIEW_REQUIRED\<rparr>) (ct_packages d)\<rparr>))
     (thenH (auditP ctx projectId ''contract_structure.analysis_started'' ''contract_analysis_run''
        (crn_id run))
       (returnH (crn_id run, suggestionCount, clauseCount))))))))))"

end
