(* ===== verification/ContractTracking.thy ===== *)
theory ContractTracking
  imports ContractAnalysis
begin

text \<open>
  What the contract service keeps.  \<open>config_step\<close> is the abstract machine of packages,
  revisions, rules and snapshots; each request of the service is one of its steps.  The structure
  analysis is followed by the relation \<open>analysisAppends\<close>, carried through its loops by the
  locale \<open>stable\<close>.
\<close>

section \<open>What the analysis writes\<close>

context stable
begin

lemma obeys_forM: "(\<And>x. obeys (f x)) \<Longrightarrow> obeys (forM xs f)"
  by (induction xs) (simp_all add: obeys_rules)

end

text \<open>A table with new rows after the old ones.\<close>

definition grows :: "('r \<Rightarrow> bool) \<Rightarrow> 'r list \<Rightarrow> 'r list \<Rightarrow> bool" where
  "grows P xs ys \<longleftrightarrow> (\<exists>zs. ys = xs @ zs \<and> list_all P zs)"

lemma grows_refl [simp]: "grows P xs xs"
  by (simp add: grows_def)

lemma grows_row [simp]: "P x \<Longrightarrow> grows P xs (xs @ [x])"
  by (simp add: grows_def)

lemma grows_trans: "grows P xs ys \<Longrightarrow> grows P ys zs \<Longrightarrow> grows P xs zs"
  by (auto simp: grows_def)

text \<open>The tables the loops of the analysis leave, and new rows that wait for a human in the others.\<close>

definition settledTables where
  "settledTables d = (ct_packages d, ct_sources d, ct_versions d, ct_segments d, ct_documents d,
     ct_runs d, ct_textRevisions d, ct_revisions d, ct_snapshots d, ct_decisions d)"

definition analysisAppends :: "contracts_db \<Rightarrow> contracts_db \<Rightarrow> bool" where
  "analysisAppends d e \<longleftrightarrow> settledTables e = settledTables d
     \<and> grows (\<lambda>x. csg_status x = SU_PENDING_REVIEW) (ct_suggestions d) (ct_suggestions e)
     \<and> grows (\<lambda>x. ccl_reviewStatus x = CL_MACHINE_SUGGESTED) (ct_clauses d) (ct_clauses e)
     \<and> grows (\<lambda>x. cob_reviewStatus x = RV_MACHINE_SUGGESTED) (ct_obligations d) (ct_obligations e)
     \<and> grows (\<lambda>x. cnr_reviewStatus x = RV_MACHINE_SUGGESTED \<and> cnr_countingConvention x = UNSPECIFIED)
         (ct_rules d) (ct_rules e)
     \<and> grows (\<lambda>x. cis_status x = IU_OPEN) (ct_issues d) (ct_issues e)"

lemma analysisAppends_refl: "analysisAppends d d"
  by (simp add: analysisAppends_def)

lemma analysisAppends_trans: "analysisAppends d e \<Longrightarrow> analysisAppends e f \<Longrightarrow> analysisAppends d f"
  unfolding analysisAppends_def by (metis (no_types, lifting) grows_trans)

interpretation an: stable
  "\<lambda>s t. ap_web t = ap_web s \<and> analysisAppends (ap_db s) (ap_db (t :: contracts_db app_state))"
  by unfold_locales (auto intro: analysisAppends_refl analysisAppends_trans)

lemma obeys_createRow:
  assumes "\<And>d i. analysisAppends d (put (get d @ [mk i]) d)"
  shows "an.obeys (createRow get put ids mk)"
  unfolding an.obeys_def using assms by (simp add: createRow_def)

lemma appends_rows:
  "csg_status x1 = SU_PENDING_REVIEW \<Longrightarrow> analysisAppends d (d\<lparr>ct_suggestions := ct_suggestions d @ [x1]\<rparr>)"
  "ccl_reviewStatus x2 = CL_MACHINE_SUGGESTED \<Longrightarrow> analysisAppends d (d\<lparr>ct_clauses := ct_clauses d @ [x2]\<rparr>)"
  "cob_reviewStatus x3 = RV_MACHINE_SUGGESTED \<Longrightarrow> analysisAppends d (d\<lparr>ct_obligations := ct_obligations d @ [x3]\<rparr>)"
  "cnr_reviewStatus x4 = RV_MACHINE_SUGGESTED \<Longrightarrow> cnr_countingConvention x4 = UNSPECIFIED \<Longrightarrow>
     analysisAppends d (d\<lparr>ct_rules := ct_rules d @ [x4]\<rparr>)"
  "cis_status x5 = IU_OPEN \<Longrightarrow> analysisAppends d (d\<lparr>ct_issues := ct_issues d @ [x5]\<rparr>)"
  by (simp_all add: analysisAppends_def settledTables_def)

lemma obeys_creations:
  "an.obeys (createSuggestion ids sc ty pr pl cf how mp mn)" "an.obeys (createClause ids sc c)"
  "an.obeys (createObligation ids sc i t tm)" "an.obeys (createIssue ids sc sv cat a b desc)"
  unfolding createSuggestion_def createClause_def createObligation_def createIssue_def
  by (rule obeys_createRow, simp add: appends_rows)+

lemma obeys_readDb: "an.obeys (readDb f)"
  by (simp add: an.obeys_def analysisAppends_refl)

lemma obeys_numeric: "an.obeys (numericColumn v)"
  by (cases v) (simp_all add: numericColumn_def an.obeys_rules)

lemma obeys_rule: "an.obeys (createNoticeRule ids sc i tm)"
  unfolding createNoticeRule_def
  by (intro an.obeys_rules obeys_numeric obeys_createRow) (simp add: appends_rows)

lemma obeys_notice: "an.obeys (analyzeNotice ids sc t i j)"
  unfolding analyzeNotice_def Let_def
  by (intro an.obeys_rules obeys_creations obeys_rule)

lemma obeys_parts:
  "an.obeys (analyzeCandidate ids sc c)" "an.obeys (analyzeTerm ids sc x)"
  "an.obeys (analyzeParty ids sc p)" "an.obeys (analyzeReference ids sc r)"
  "an.obeys (analyzeAiSuggestion ids sc re s)"
  unfolding analyzeCandidate_def analyzeTerm_def analyzeParty_def analyzeReference_def
    analyzeAiSuggestion_def
  by (intro an.obeys_rules obeys_creations obeys_notice)+

lemma obeys_model: "an.obeys (analyzeWithModel env ids sc segs)"
  unfolding analyzeWithModel_def resolveContractAiProvider_def assertProviderAllowedForEnvironment_def
    validateAiResponse_def Let_def
  by (intro an.obeys_rules an.obeys_forM obeys_parts)

lemma obeys_document: "an.obeys (analyzeDocument env ids ctx pid nid rid doc)"
  unfolding analyzeDocument_def analyzeText_def Let_def
  by (intro an.obeys_rules an.obeys_forM obeys_parts obeys_model obeys_creations obeys_readDb)

lemma analysis_loop:
  assumes "forM docs (analyzeDocument env ids ctx pid nid rid) s = (r, t)"
  shows "ap_web t = ap_web s \<and> analysisAppends (ap_db s) (ap_db t)"
  by (rule an.obeysD[OF an.obeys_forM assms]) (rule obeys_document)

section \<open>The abstract machine of the configuration\<close>

definition packageId :: "contract_package \<Rightarrow> string \<times> string \<times> string" where
  "packageId p = (cpk_id p, cpk_tenantId p, cpk_projectId p)"

definition packageIds :: "contracts_db \<Rightarrow> (string \<times> string \<times> string) list" where
  "packageIds d = map packageId (ct_packages d)"

definition revisionOwner :: "configuration_revision \<Rightarrow> string \<times> string \<times> string" where
  "revisionOwner r = (crv_contractPackageId r, crv_tenantId r, crv_projectId r)"

text \<open>No counting convention appears that was not there, but the unspecified one.\<close>

definition countingsKept :: "contracts_db \<Rightarrow> contracts_db \<Rightarrow> bool" where
  "countingsKept d e \<longleftrightarrow> cnr_countingConvention ` set (ct_rules e)
     \<subseteq> insert UNSPECIFIED (cnr_countingConvention ` set (ct_rules d))"

lemma countingsKept_same [simp]: "ct_rules e = ct_rules d \<Longrightarrow> countingsKept d e"
  by (auto simp: countingsKept_def)

text \<open>A revision as it is created.\<close>

definition freshRevision :: "contracts_db \<Rightarrow> configuration_revision \<Rightarrow> bool" where
  "freshRevision d r \<longleftrightarrow> crv_id r \<notin> crv_id ` set (ct_revisions d)
     \<and> revisionOwner r \<in> set (packageIds d) \<and> \<not> crv_isActiveApproved r
     \<and> crv_approvedByUserId r = None
     \<and> crv_revisionNumber r = nextRevision (crv_contractPackageId r) d"

inductive config_step :: "bool \<Rightarrow> contracts_db \<Rightarrow> contracts_db \<Rightarrow> bool" for sod d where
  others: "ct_revisions e = ct_revisions d \<Longrightarrow> ct_snapshots e = ct_snapshots d \<Longrightarrow>
    packageIds e = packageIds d \<Longrightarrow> countingsKept d e \<Longrightarrow> config_step sod d e"
| package: "ct_revisions e = ct_revisions d \<Longrightarrow> ct_snapshots e = ct_snapshots d \<Longrightarrow>
    packageIds e = packageIds d @ [k] \<Longrightarrow> fst k \<notin> fst ` set (packageIds d) \<Longrightarrow>
    ct_rules e = ct_rules d \<Longrightarrow> config_step sod d e"
| submit: "freshRevision d r \<Longrightarrow> crv_status r = RS_IN_REVIEW \<Longrightarrow>
    ct_revisions e = ct_revisions d @ [r] \<Longrightarrow> ct_snapshots e = ct_snapshots d \<Longrightarrow>
    packageIds e = packageIds d \<Longrightarrow> ct_rules e = ct_rules d \<Longrightarrow> config_step sod d e"
| changes: "x \<in> set (ct_revisions d) \<Longrightarrow> crv_status x = RS_IN_REVIEW \<Longrightarrow>
    ct_revisions e = updateWhere (\<lambda>r. crv_id r = crv_id x) (\<lambda>r. r\<lparr>crv_status := RS_CHANGES_REQUESTED\<rparr>)
      (ct_revisions d) \<Longrightarrow> ct_snapshots e = ct_snapshots d \<Longrightarrow>
    packageIds e = packageIds d \<Longrightarrow> ct_rules e = ct_rules d \<Longrightarrow> config_step sod d e"
| approve: "x \<in> set (ct_revisions d) \<Longrightarrow> crv_status x \<in> {RS_IN_REVIEW, RS_CHANGES_REQUESTED} \<Longrightarrow>
    cx_tenantId ctx = crv_tenantId x \<Longrightarrow>
    sod \<longrightarrow> crv_submittedByUserId x \<noteq> Some (userId ctx) \<and> crv_createdByUserId x \<noteq> userId ctx \<Longrightarrow>
    ct_revisions e = updateWhere (\<lambda>r. crv_id r = crv_id x) (approvedConfiguration env ctx)
      (updateWhere (\<lambda>r. crv_contractPackageId r = crv_contractPackageId x
         \<and> crv_tenantId r = crv_tenantId x \<and> crv_isActiveApproved r) supersededRevision (ct_revisions d)) \<Longrightarrow>
    ct_snapshots e = ct_snapshots d @ snapshotsOf ids ctx pid (crv_contractPackageId x) (crv_id x) d \<Longrightarrow>
    packageIds e = packageIds d \<Longrightarrow> ct_rules e = ct_rules d \<Longrightarrow> pid = crv_projectId x \<Longrightarrow>
    config_step sod d e"
| supersede: "x \<in> set (ct_revisions d) \<Longrightarrow> crv_isActiveApproved x \<Longrightarrow> freshRevision d r \<Longrightarrow>
    crv_status r = RS_DRAFT \<Longrightarrow> crv_contractPackageId r = crv_contractPackageId x \<Longrightarrow>
    ct_revisions e = updateWhere (\<lambda>r. crv_id r = crv_id x) supersededRevision (ct_revisions d) @ [r] \<Longrightarrow>
    ct_snapshots e = ct_snapshots d \<Longrightarrow>
    packageIds e = packageIds d \<Longrightarrow> ct_rules e = ct_rules d \<Longrightarrow> config_step sod d e"

lemma idle_config: "ap_db t = ap_db s \<Longrightarrow> config_step sod (ap_db s) (ap_db t)"
  by (rule config_step.others) simp_all

section \<open>Each request is a step\<close>

lemma packageIds_update:
  "(\<And>p. packageId (f p) = packageId p) \<Longrightarrow>
     packageIds (d\<lparr>ct_packages := updateWhere P f (ct_packages d)\<rparr>) = packageIds d"
  by (simp add: packageIds_def map_updateWhere)

lemma setPackage_Inr [ok_iff]:
  "setPackage T i st c s = (Inr x, t) \<longleftrightarrow>
     list_ex (\<lambda>p. cpk_id p = i \<and> cpk_tenantId p = T) (ct_packages (ap_db s))
     \<and> t = s\<lparr>ap_db := (ap_db s)\<lparr>ct_packages := updateWhere (\<lambda>p. cpk_id p = i \<and> cpk_tenantId p = T)
         (\<lambda>p. p\<lparr>cpk_status := st, cpk_currentRevisionId := c\<rparr>) (ct_packages (ap_db s))\<rparr>\<rparr>"
  by (auto simp: setPackage_def ok_iff)

lemma createDecision_Inr [ok_iff]:
  "createDecision ids ctx pid nid rid dt et ei b a rat s = (Inr x, t) \<longleftrightarrow>
     x = \<lparr>crd_id = ids T_DECISION (length (ct_decisions (ap_db s))), crd_tenantId = cx_tenantId ctx,
        crd_projectId = pid, crd_contractPackageId = nid, crd_configurationRevisionId = rid,
        crd_decisionType = dt, crd_actorUserId = userId ctx, crd_entityType = et,
        crd_entityId = ei, crd_beforeState = b, crd_afterState = a, crd_rationale = rat\<rparr>
     \<and> t = s\<lparr>ap_db := (ap_db s)\<lparr>ct_decisions := ct_decisions (ap_db s) @ [x]\<rparr>\<rparr>"
  by (auto simp: createDecision_def ok_iff)

lemma createRevision_Inr [ok_iff]:
  "createRevision ids ctx pid nid mk s = (Inr x, t) \<longleftrightarrow> (\<exists>p.
     find (\<lambda>p. cpk_id p = nid) (ct_packages (ap_db s)) = Some p
     \<and> cpk_tenantId p = cx_tenantId ctx \<and> cpk_projectId p = pid)
     \<and> x = mk (ids T_REVISION (length (ct_revisions (ap_db s))))
     \<and> t = s\<lparr>ap_db := (ap_db s)\<lparr>ct_revisions := ct_revisions (ap_db s) @ [x]\<rparr>\<rparr>"
  by (auto simp: createRevision_def ok_iff)

text \<open>Guards and reads before a step, without the states between.\<close>

lemma guard_runs:
  "bindH (findOr e1 q) f1 s = (Inr y1, t1) \<longleftrightarrow> (\<exists>x. q (ap_db s) = Some x \<and> f1 x s = (Inr y1, t1))"
  "bindH (readDb g) f2 s = (Inr y2, t2) \<longleftrightarrow> f2 (g (ap_db s)) s = (Inr y2, t2)"
  "thenH (requireH b e3) n s = (Inr y3, t3) \<longleftrightarrow> b \<and> n s = (Inr y3, t3)"
  by (auto simp: ok_iff)

lemma listPackages_refines:
  "listContractPackages pid s = (r1, t) \<Longrightarrow> config_step sod (ap_db s) (ap_db t)"
  "getContractPackage pid nid s = (r2, t) \<Longrightarrow> config_step sod (ap_db s) (ap_db t)"
  "listPackageClauses pid nid s = (r3, t) \<Longrightarrow> config_step sod (ap_db s) (ap_db t)"
  "listPackageObligations pid nid s = (r4, t) \<Longrightarrow> config_step sod (ap_db s) (ap_db t)"
  "listPackageNoticeRules pid nid s = (r5, t) \<Longrightarrow> config_step sod (ap_db s) (ap_db t)"
  "listPackageIssues pid nid s = (r6, t) \<Longrightarrow> config_step sod (ap_db s) (ap_db t)"
  "getApprovedConfiguration pid nid s = (r7, t) \<Longrightarrow> config_step sod (ap_db s) (ap_db t)"
  unfolding listContractPackages_def getContractPackage_def listPackageClauses_def
    listPackageObligations_def listPackageNoticeRules_def listPackageIssues_def
    getApprovedConfiguration_def
  by (erule projectAction_cases, erule idle_config, rule idle_config, auto simp: ok_iff)+

lemma createPackage_refines:
  assumes "createContractPackage sp ids pid raw s = (r, t)"
    and "ids T_PACKAGE (length (ct_packages (ap_db s))) \<notin> cpk_id ` set (ct_packages (ap_db s))"
  shows "config_step sod (ap_db s) (ap_db t)"
  using assms(1) unfolding createContractPackage_def
proof (cases rule: projectService_cases)
  case (ran ctx data x)
  then show ?thesis
    using assms(2)
    by (intro config_step.package[where k = "(ids T_PACKAGE (length (ct_packages (ap_db s))), cx_tenantId ctx, pid)"])
      (auto simp: ok_iff packageIds_def packageId_def image_image)
qed (rule idle_config)

text \<open>A request that leaves packages, rules, revisions and snapshots.\<close>

lemma config_others:
  "ct_revisions e = ct_revisions d \<Longrightarrow> ct_snapshots e = ct_snapshots d \<Longrightarrow>
   ct_packages e = ct_packages d \<Longrightarrow> ct_rules e = ct_rules d \<Longrightarrow> config_step sod d e"
  by (rule config_step.others) (simp_all add: packageIds_def)

lemma attach_refines:
  assumes "attachContractDocument sp ids pid nid raw s = (r, t)"
  shows "config_step sod (ap_db s) (ap_db t)"
  using assms unfolding attachContractDocument_def
proof (cases rule: projectService_cases)
  case (ran ctx data x)
  then show ?thesis by (intro config_others) (auto simp: ok_iff Let_def)
qed (rule idle_config)

lemma correctClause_tables:
  "correctClause ids ctx pid c txt rat s = (Inr x, t) \<Longrightarrow>
     ct_revisions (ap_db t) = ct_revisions (ap_db s) \<and> ct_snapshots (ap_db t) = ct_snapshots (ap_db s)
     \<and> ct_packages (ap_db t) = ct_packages (ap_db s) \<and> ct_rules (ap_db t) = ct_rules (ap_db s)"
  by (auto simp: correctClause_def updateClause_def ok_iff)

lemma reviewClause_refines:
  assumes "reviewClause sp ids pid nid cid raw s = (r, t)"
  shows "config_step sod (ap_db s) (ap_db t)"
proof -
  obtain a u where acc: "accessP pid (ContractCap c_contract_structure_review) s = (a, u)" by force
  have u: "ap_db u = ap_db s" by (rule accessP_db[OF acc])
  show ?thesis
  proof (cases r)
    case (Inl e)
    then have "ap_db t = ap_db s"
      using assms acc u
      by (cases a; cases "sp raw")
        (auto simp: reviewClause_def clauseReviewParse_def bindH_def thenH_def parseH_def requireH_def
          transactionH_Inl split: if_splits prod.splits sum.splits)
    then show ?thesis by (rule idle_config)
  next
    case (Inr x)
    then show ?thesis
      using assms acc u
      by (intro config_others)
        (auto simp: reviewClause_def clauseReviewParse_def updateClause_def ok_iff split: if_splits
          dest!: correctClause_tables accessP_db)
  qed
qed

lemma obligation_refines:
  assumes "reviewObligation sp ids pid nid oid raw s = (r, t)"
  shows "config_step sod (ap_db s) (ap_db t)"
  using assms unfolding reviewObligation_def
proof (cases rule: projectService_cases)
  case (ran ctx data x)
  then show ?thesis by (intro config_others) (auto simp: ok_iff)
qed (rule idle_config)

lemma issue_refines:
  assumes "resolveConfigurationIssue env sp pid nid iid raw s = (r, t)"
  shows "config_step sod (ap_db s) (ap_db t)"
  using assms unfolding resolveConfigurationIssue_def
proof (cases rule: projectService_cases)
  case (ran ctx data x)
  then show ?thesis by (intro config_others) (auto simp: ok_iff)
qed (rule idle_config)

lemma rule_refines:
  assumes "reviewNoticeRule sp ids pid nid i raw s = (r, t)"
  shows "config_step sod (ap_db s) (ap_db t)"
  using assms unfolding reviewNoticeRule_def
proof (cases rule: projectService_cases)
  case (ran ctx data x)
  then obtain q where "ct_rules (ap_db t) = updateWhere (\<lambda>x. cnr_id x = q) (reviewedRule data) (ct_rules (ap_db s))"
    "ct_revisions (ap_db t) = ct_revisions (ap_db s)" "ct_snapshots (ap_db t) = ct_snapshots (ap_db s)"
    "ct_packages (ap_db t) = ct_packages (ap_db s)"
    by (auto simp: ok_iff)
  moreover from this(1) have "countingsKept (ap_db s) (ap_db t)"
    by (auto simp: countingsKept_def set_updateWhere reviewedRule_def)
  ultimately show ?thesis by (intro config_step.others) (simp_all add: packageIds_def)
qed (rule idle_config)

lemma findContractPackage_ids: "findContractPackage T pid i d = Some p \<Longrightarrow> (i, T, pid) \<in> set (packageIds d)"
  by (force simp: findContractPackage_def packageIds_def packageId_def dest!: find_SomeD)

lemma guarded_ids:
  "find (\<lambda>p. cpk_id p = i) (ct_packages d) = Some p \<Longrightarrow>
     (i, cpk_tenantId p, cpk_projectId p) \<in> set (packageIds d)"
  by (force simp: packageIds_def packageId_def dest!: find_SomeD)

lemma submit_config_refines:
  assumes "createAndSubmitConfigurationRevision env sp ids pid nid raw s = (r, t)"
    and "ids T_REVISION (length (ct_revisions (ap_db s))) \<notin> crv_id ` set (ct_revisions (ap_db s))"
  shows "config_step sod (ap_db s) (ap_db t)"
  using assms(1) unfolding createAndSubmitConfigurationRevision_def
proof (cases rule: projectService_cases)
  case (ran ctx data x)
  then have "ct_revisions (ap_db t) = ct_revisions (ap_db s) @ [x] \<and> freshRevision (ap_db s) x
      \<and> crv_status x = RS_IN_REVIEW \<and> ct_snapshots (ap_db t) = ct_snapshots (ap_db s)
      \<and> packageIds (ap_db t) = packageIds (ap_db s) \<and> ct_rules (ap_db t) = ct_rules (ap_db s)"
    using assms(2) findContractPackage_ids[of "cx_tenantId ctx" pid nid "ap_db s"]
    by (auto simp: ok_iff freshRevision_def revisionOwner_def packageIds_def)
  then show ?thesis by (blast intro: config_step.submit)
qed (rule idle_config)

lemma changes_config_refines:
  assumes "requestConfigurationChanges sp ids pid nid rid raw s = (r, t)"
  shows "config_step sod (ap_db s) (ap_db t)"
  using assms unfolding requestConfigurationChanges_def
proof (cases rule: projectService_cases)
  case (ran ctx data y)
  then obtain x where "x \<in> set (ct_revisions (ap_db s))" "crv_status x = RS_IN_REVIEW"
    "ct_revisions (ap_db t) = updateWhere (\<lambda>r. crv_id r = crv_id x)
      (\<lambda>r. r\<lparr>crv_status := RS_CHANGES_REQUESTED\<rparr>) (ct_revisions (ap_db s))"
    "ct_snapshots (ap_db t) = ct_snapshots (ap_db s)" "ct_packages (ap_db t) = ct_packages (ap_db s)"
    "ct_rules (ap_db t) = ct_rules (ap_db s)"
    by (fastforce simp: ok_iff dest!: find_SomeD)
  then show ?thesis by (intro config_step.changes) (simp_all add: packageIds_def)
qed (rule idle_config)

text \<open>What the steps of a revision's handler leave, table by table.\<close>

definition ruleTables where
  "ruleTables d = (ct_rules d, ct_decisions d, ct_obligations d)"

lemma updateRevisions_tables:
  "updateRevisions P f s = (Inr x, t) \<Longrightarrow> ct_revisions (ap_db t) = updateWhere P f (ct_revisions (ap_db s))
     \<and> ct_snapshots (ap_db t) = ct_snapshots (ap_db s) \<and> packageIds (ap_db t) = packageIds (ap_db s)
     \<and> ruleTables (ap_db t) = ruleTables (ap_db s)"
  by (simp add: updateRevisions_Inr packageIds_def ruleTables_def)

lemma setPackage_tables:
  "setPackage T i st c s = (Inr x, t) \<Longrightarrow> ct_revisions (ap_db t) = ct_revisions (ap_db s)
     \<and> ct_snapshots (ap_db t) = ct_snapshots (ap_db s) \<and> packageIds (ap_db t) = packageIds (ap_db s)
     \<and> ruleTables (ap_db t) = ruleTables (ap_db s)"
  by (simp add: setPackage_Inr packageIds_update packageId_def ruleTables_def)

lemma decided_tables:
  "thenH (createDecision ids ctx pid nid rid dt et ei b a rat) (thenH (auditP ctx pid ac ty ei')
      (returnH z)) s = (Inr x, t) \<Longrightarrow> x = z \<and> ct_revisions (ap_db t) = ct_revisions (ap_db s)
     \<and> ct_snapshots (ap_db t) = ct_snapshots (ap_db s) \<and> packageIds (ap_db t) = packageIds (ap_db s)
     \<and> ct_rules (ap_db t) = ct_rules (ap_db s)"
  by (auto simp: ok_iff packageIds_def)

lemma snapshotsOf_same:
  "ruleTables e = ruleTables d \<Longrightarrow> ct_snapshots e = ct_snapshots d \<Longrightarrow>
   snapshotsOf ids ctx pid nid i e = snapshotsOf ids ctx pid nid i d"
  by (simp add: snapshotsOf_def approvableRules_def sourceClauseOf_def[abs_def] reviewDecisionOf_def[abs_def]
      ruleTables_def)

lemma approve_config_refines:
  assumes "approveConfigurationRevision env ids pid nid rid s = (r, t)"
  shows "config_step (segregationEnabled env) (ap_db s) (ap_db t)"
  using assms unfolding approveConfigurationRevision_def
proof (cases rule: projectAction_cases)
  case (ran ctx y)
  obtain x u1 u2 u3 u4 z1 z2 z3 z4 where x: "findRevision (cx_tenantId ctx) pid nid rid (ap_db s) = Some x"
    and guards: "crv_status x \<in> {RS_IN_REVIEW, RS_CHANGES_REQUESTED}"
      "\<not> (segregationEnabled env
         \<and> (crv_submittedByUserId x = Some (userId ctx) \<or> crv_createdByUserId x = userId ctx))"
    and u1: "updateRevisions (\<lambda>r. crv_contractPackageId r = nid \<and> crv_tenantId r = cx_tenantId ctx
        \<and> crv_isActiveApproved r) supersededRevision s = (Inr z1, u1)"
    and u2: "updateRevisions (\<lambda>r. crv_id r = crv_id x) (approvedConfiguration env ctx) u1 = (Inr z2, u2)"
    and found: "find (\<lambda>r. crv_id r = crv_id x) (ct_revisions (ap_db u2)) = Some y"
    and u3: "setPackage (cx_tenantId ctx) nid CP_APPROVED (Some (crv_id y)) u2 = (Inr z3, u3)"
    and u4: "writeDb (\<lambda>d. d\<lparr>ct_snapshots := ct_snapshots d @ snapshotsOf ids ctx pid nid (crv_id y) d\<rparr>) u3
        = (Inr z4, u4)"
    and t: "ct_revisions (ap_db t) = ct_revisions (ap_db u4)" "ct_snapshots (ap_db t) = ct_snapshots (ap_db u4)"
      "packageIds (ap_db t) = packageIds (ap_db u4)" "ct_rules (ap_db t) = ct_rules (ap_db u4)"
  proof -
    show thesis
      using ran(2) unfolding guard_runs thenH_Inr[of "updateRevisions _ _"]
        thenH_Inr[of "setPackage _ _ _ _"] thenH_Inr[of "writeDb _"]
      by - (elim exE conjE, frule decided_tables, elim conjE, hypsubst, rule that)
  qed
  have row: "x \<in> set (ct_revisions (ap_db s))" "crv_tenantId x = cx_tenantId ctx"
    "crv_contractPackageId x = nid" "crv_id y = crv_id x" "crv_projectId x = pid"
    using x found by (auto simp: findRevision_def dest!: find_SomeD)
  note tables = updateRevisions_tables[OF u1] updateRevisions_tables[OF u2] setPackage_tables[OF u3]
  have "snapshotsOf ids ctx pid nid (crv_id x) (ap_db u3) = snapshotsOf ids ctx pid nid (crv_id x) (ap_db s)"
    using tables by (intro snapshotsOf_same) simp_all
  then have after: "ct_revisions (ap_db t) = updateWhere (\<lambda>r. crv_id r = crv_id x) (approvedConfiguration env ctx)
      (updateWhere (\<lambda>r. crv_contractPackageId r = nid \<and> crv_tenantId r = cx_tenantId ctx
        \<and> crv_isActiveApproved r) supersededRevision (ct_revisions (ap_db s)))"
    "packageIds (ap_db t) = packageIds (ap_db s)" "ct_rules (ap_db t) = ct_rules (ap_db s)"
    "ct_snapshots (ap_db t) = ct_snapshots (ap_db s) @ snapshotsOf ids ctx pid nid (crv_id x) (ap_db s)"
    using tables t row(4) unfolding u4[unfolded writeDb_Inr] by (simp_all add: packageIds_def ruleTables_def)
  show ?thesis
    by (rule config_step.approve[where x = x and ctx = ctx and env = env and ids = ids and pid = pid])
      (use row guards after in auto)
qed (rule idle_config)

lemma superseded_tables:
  "bindH (readDb (nextRevision nid)) (\<lambda>k. bindH (createRevision ids ctx pid nid (mk k)) (\<lambda>n.
      thenH (setPackage T nid st c) (thenH (auditP ctx pid a ty (crv_id z)) (returnH (z, n))))) s
     = (Inr y, t) \<Longrightarrow> \<exists>n. y = (z, n) \<and> ct_revisions (ap_db t) = ct_revisions (ap_db s) @ [n]
     \<and> n = mk (nextRevision nid (ap_db s)) (ids T_REVISION (length (ct_revisions (ap_db s))))
     \<and> (nid, cx_tenantId ctx, pid) \<in> set (packageIds (ap_db s))
     \<and> ct_snapshots (ap_db t) = ct_snapshots (ap_db s) \<and> packageIds (ap_db t) = packageIds (ap_db s)
     \<and> ct_rules (ap_db t) = ct_rules (ap_db s)"
  using guarded_ids[of nid "ap_db s"]
  by (auto simp: ok_iff packageIds_def map_updateWhere packageId_def)

lemma revisions_kept:
  assumes "\<And>r. crv_contractPackageId (f r) = crv_contractPackageId r \<and> crv_revisionNumber (f r) = crv_revisionNumber r"
  shows "map crv_revisionNumber (filter (\<lambda>r. crv_contractPackageId r = nid) (updateWhere P f rs))
    = map crv_revisionNumber (filter (\<lambda>r. crv_contractPackageId r = nid) rs)"
  using assms by (induction rs) auto

lemma supersede_tables:
  assumes "supersedeApprovedConfiguration sp ids pid nid raw s = (Inr w, t)"
  shows "\<exists>T x n. w = (x, n) \<and> findActive (T) nid (ap_db s) = Some x
    \<and> ct_revisions (ap_db t)
        = updateWhere (\<lambda>r. crv_id r = crv_id x) supersededRevision (ct_revisions (ap_db s)) @ [n]
    \<and> crv_id n = ids T_REVISION (length (ct_revisions (ap_db s))) \<and> \<not> crv_isActiveApproved n
    \<and> crv_status n = RS_DRAFT \<and> revisionOwner n = (nid, T, pid)
    \<and> revisionOwner n \<in> set (packageIds (ap_db s))
    \<and> crv_revisionNumber n = nextRevision nid (ap_db s) \<and> crv_approvedByUserId n = None
    \<and> crv_supersedesRevisionId n = Some (crv_id x) \<and> packageIds (ap_db t) = packageIds (ap_db s)
    \<and> ct_rules (ap_db t) = ct_rules (ap_db s) \<and> ct_snapshots (ap_db t) = ct_snapshots (ap_db s)"
  using assms unfolding supersedeApprovedConfiguration_def
proof (cases rule: projectService_cases)
  case (ran ctx data y)
  obtain x u1 z1 where x: "findActive (cx_tenantId ctx) nid (ap_db s) = Some x"
    and u1: "updateRevisions (\<lambda>r. crv_id r = crv_id x) supersededRevision s = (Inr z1, u1)"
    and rest: "bindH (readDb (nextRevision nid)) (\<lambda>revisionNumber.
     bindH (createRevision ids ctx pid nid (\<lambda>newId.
       \<lparr>crv_id = newId, crv_tenantId = cx_tenantId ctx, crv_projectId = pid,
        crv_contractPackageId = nid, crv_revisionNumber = revisionNumber, crv_status = RS_DRAFT,
        crv_summary = orText data (''Supersedes revision '' @ showNat (crv_revisionNumber x)),
        crv_basedOnDocumentVersions = crv_basedOnDocumentVersions x,
        crv_isActiveApproved = False, crv_createdByUserId = userId ctx,
        crv_submittedByUserId = None, crv_submittedAt = None, crv_approvedByUserId = None,
        crv_approvedAt = None, crv_supersedesRevisionId = Some (crv_id x)\<rparr>)) (\<lambda>draft.
     thenH (setPackage (cx_tenantId ctx) nid CP_REVIEW_REQUIRED None)
     (thenH (auditP ctx pid ''contract_configuration.superseded''
        ''contract_configuration_revision'' (crv_id x)) (returnH (x, draft))))) u1 = (Inr y, t)"
  proof -
    show thesis
      using ran(3) unfolding guard_runs(1) thenH_Inr[of "updateRevisions _ _"]
      by - (elim exE conjE, rule that)
  qed
  note tables = updateRevisions_tables[OF u1]
  obtain n where n: "y = (x, n)" "ct_revisions (ap_db t) = ct_revisions (ap_db u1) @ [n]"
      "crv_id n = ids T_REVISION (length (ct_revisions (ap_db u1)))"
      "(nid, cx_tenantId ctx, pid) \<in> set (packageIds (ap_db u1))" "\<not> crv_isActiveApproved n"
      "crv_status n = RS_DRAFT" "revisionOwner n = (nid, cx_tenantId ctx, pid)"
      "crv_revisionNumber n = nextRevision nid (ap_db u1)" "crv_approvedByUserId n = None"
      "crv_supersedesRevisionId n = Some (crv_id x)"
      "packageIds (ap_db t) = packageIds (ap_db u1)" "ct_rules (ap_db t) = ct_rules (ap_db u1)"
      "ct_snapshots (ap_db t) = ct_snapshots (ap_db u1)"
  proof -
    show thesis
      using superseded_tables[OF rest] by - (elim exE conjE, rule that, assumption+, simp_all add: revisionOwner_def)
  qed
  have same: "length (ct_revisions (ap_db u1)) = length (ct_revisions (ap_db s))"
    "nextRevision nid (ap_db u1) = nextRevision nid (ap_db s)"
    using tables revisions_kept[of supersededRevision]
    by (simp_all add: nextRevision_def supersededRevision_def) (simp add: updateWhere_def)
  from n show ?thesis
    using x tables ran(4) same by (intro exI[of _ "cx_tenantId ctx"] exI[of _ x] exI[of _ n]) (simp add: ruleTables_def)
qed simp

lemma supersede_refines:
  assumes "supersedeApprovedConfiguration sp ids pid nid raw s = (r, t)"
    and "ids T_REVISION (length (ct_revisions (ap_db s))) \<notin> crv_id ` set (ct_revisions (ap_db s))"
  shows "config_step sod (ap_db s) (ap_db t)"
proof (cases r)
  case (Inl e)
  have "ap_db t = ap_db s"
    using assms(1) Inl unfolding supersedeApprovedConfiguration_def by (cases rule: projectService_cases) auto
  then show ?thesis by (rule idle_config)
next
  case (Inr w)
  obtain T x n where w: "w = (x, n)" "findActive (T) nid (ap_db s) = Some x"
    "ct_revisions (ap_db t)
       = updateWhere (\<lambda>r. crv_id r = crv_id x) supersededRevision (ct_revisions (ap_db s)) @ [n]"
    "crv_id n = ids T_REVISION (length (ct_revisions (ap_db s)))" "\<not> crv_isActiveApproved n"
    "crv_status n = RS_DRAFT" "revisionOwner n = (nid, T, pid)"
    "revisionOwner n \<in> set (packageIds (ap_db s))" "crv_revisionNumber n = nextRevision nid (ap_db s)"
    "crv_approvedByUserId n = None" "packageIds (ap_db t) = packageIds (ap_db s)"
    "ct_rules (ap_db t) = ct_rules (ap_db s)" "ct_snapshots (ap_db t) = ct_snapshots (ap_db s)"
    using supersede_tables[OF assms(1)[unfolded Inr]] by blast
  have row: "x \<in> set (ct_revisions (ap_db s))" "crv_isActiveApproved x" "crv_contractPackageId x = nid"
    using w(2) by (auto simp: findActive_def dest!: find_SomeD)
  have "freshRevision (ap_db s) n"
    using w assms(2) by (simp add: freshRevision_def revisionOwner_def)
  then show ?thesis
    by (rule config_step.supersede[OF row(1,2)]) (use row w in \<open>simp_all add: revisionOwner_def\<close>)
qed

text \<open>
  What an analysis of the package \<open>nid\<close> does to the tables: the status of the package, its run, and
  the rows it appends.
\<close>

definition markedForReview :: "string \<Rightarrow> contract_package list \<Rightarrow> contract_package list" where
  "markedForReview nid ps = map (\<lambda>p. if cpk_id p = nid then p\<lparr>cpk_status := CP_REVIEW_REQUIRED\<rparr> else p) ps"

definition analysed ::
  "string \<Rightarrow> analysis_run list \<Rightarrow> extraction_suggestion list \<Rightarrow> contract_clause list \<Rightarrow>
   contract_obligation list \<Rightarrow> notice_rule list \<Rightarrow> configuration_issue list \<Rightarrow> contracts_db \<Rightarrow> contracts_db" where
  "analysed nid runs sugs cls obs rls iss d = d\<lparr>ct_packages := markedForReview nid (ct_packages d),
     ct_runs := runs, ct_suggestions := ct_suggestions d @ sugs, ct_clauses := ct_clauses d @ cls,
     ct_obligations := ct_obligations d @ obs, ct_rules := ct_rules d @ rls, ct_issues := ct_issues d @ iss\<rparr>"

definition unreviewed ::
  "extraction_suggestion list \<Rightarrow> contract_clause list \<Rightarrow> contract_obligation list \<Rightarrow> notice_rule list \<Rightarrow>
   configuration_issue list \<Rightarrow> bool" where
  "unreviewed sugs cls obs rls iss \<longleftrightarrow> list_all (\<lambda>x. csg_status x = SU_PENDING_REVIEW) sugs
     \<and> list_all (\<lambda>x. ccl_reviewStatus x = CL_MACHINE_SUGGESTED) cls
     \<and> list_all (\<lambda>x. cob_reviewStatus x = RV_MACHINE_SUGGESTED) obs
     \<and> list_all (\<lambda>x. cnr_reviewStatus x = RV_MACHINE_SUGGESTED \<and> cnr_countingConvention x = UNSPECIFIED) rls
     \<and> list_all (\<lambda>x. cis_status x = IU_OPEN) iss"

text \<open>The run when it is over.\<close>

definition finishedRun :: "contracts_env \<Rightarrow> nat \<Rightarrow> analysis_run \<Rightarrow> analysis_run" where
  "finishedRun env n r = r\<lparr>crn_status := RN_SUCCEEDED, crn_completedAt := Some (cev_now env),
     crn_suggestionCount := n\<rparr>"

lemma analysisAppends_rows:
  assumes "analysisAppends d e"
  obtains sugs cls obs rls iss where "unreviewed sugs cls obs rls iss"
    "e = d\<lparr>ct_suggestions := ct_suggestions d @ sugs, ct_clauses := ct_clauses d @ cls,
      ct_obligations := ct_obligations d @ obs, ct_rules := ct_rules d @ rls, ct_issues := ct_issues d @ iss\<rparr>"
proof -
  obtain sugs cls obs rls iss where "unreviewed sugs cls obs rls iss"
    "ct_suggestions e = ct_suggestions d @ sugs" "ct_clauses e = ct_clauses d @ cls"
    "ct_obligations e = ct_obligations d @ obs" "ct_rules e = ct_rules d @ rls" "ct_issues e = ct_issues d @ iss"
    using assms by (auto simp: analysisAppends_def grows_def unreviewed_def)
  then show thesis
    using assms by (intro that[of sugs cls obs rls iss] contracts_db.equality)
      (simp_all add: analysisAppends_def settledTables_def)
qed

lemma finished_tables:
  "(let a = sum_list (map fst (concat counts)); b = sum_list (map snd (concat counts)) in
     thenH (writeDb (\<lambda>d. d\<lparr>ct_runs := updateWhere (\<lambda>r. crn_id r = i) (f a) (ct_runs d)\<rparr>))
     (thenH (writeDb (\<lambda>d. d\<lparr>ct_packages := updateWhere (\<lambda>p. cpk_id p = nid)
        (\<lambda>p. p\<lparr>cpk_status := CP_REVIEW_REQUIRED\<rparr>) (ct_packages d)\<rparr>))
     (thenH (auditP ctx pid c e i) (returnH (i, a, b))))) s = (Inr x, t) \<Longrightarrow>
   fst x = i \<and> ap_db t = (ap_db s)\<lparr>ct_runs := updateWhere (\<lambda>r. crn_id r = i) (f (fst (snd x))) (ct_runs (ap_db s)),
     ct_packages := markedForReview nid (ct_packages (ap_db s))\<rparr>"
  by (auto simp: ok_iff Let_def markedForReview_def updateWhere_def)

lemma analysis_effect:
  assumes "startDeterministicStructureAnalysis env ids cid pid nid s = (Inr y, t)"
  shows "\<exists>T run sugs cls obs rls iss. unreviewed sugs cls obs rls iss
     \<and> findContractPackage T pid nid (ap_db s) \<noteq> None
     \<and> crn_id run = fst y \<and> fst y = ids T_RUN (length (ct_runs (ap_db s))) \<and> crn_tenantId run = T
     \<and> crn_projectId run = pid \<and> crn_contractPackageId run = nid \<and> crn_correlationId run = cid
     \<and> crn_sourceDocumentVersions run = map cdc_documentVersionId
         (filter (\<lambda>x. cdc_contractPackageId x = nid) (ct_documents (ap_db s)))
     \<and> ap_db t = analysed nid (updateWhere (\<lambda>r. crn_id r = fst y) (finishedRun env (fst (snd y)))
         (ct_runs (ap_db s) @ [run])) sugs cls obs rls iss (ap_db s)"
  using assms unfolding startDeterministicStructureAnalysis_def
proof (cases rule: projectAction_cases)
  case (ran ctx z)
  let ?docs = "filter (\<lambda>x. cdc_contractPackageId x = nid) (ct_documents (ap_db s))"
  let ?run = "newRun env ctx pid nid cid ?docs (ids T_RUN (length (ct_runs (ap_db s))))"
  obtain s2 counts pkg where pkg: "findContractPackage (cx_tenantId ctx) pid nid (ap_db s) = Some pkg"
    and loop: "forM ?docs (analyzeDocument env ids ctx pid nid (crn_id ?run))
        (s\<lparr>ap_db := (ap_db s)\<lparr>ct_runs := ct_runs (ap_db s) @ [?run]\<rparr>\<rparr>) = (Inr counts, s2)"
    and t: "fst z = crn_id ?run"
      "ap_db t = (ap_db s2)\<lparr>ct_runs := updateWhere (\<lambda>r. crn_id r = crn_id ?run) (finishedRun env (fst (snd z))) (ct_runs (ap_db s2)),
         ct_packages := markedForReview nid (ct_packages (ap_db s2))\<rparr>"
  proof -
    show thesis
      using ran(2) unfolding guard_runs bindH_Inr[of "createRow _ _ _ _"] bindH_Inr[of "forM _ _"] createRow_Inr
      by - (elim exE conjE, hypsubst, frule finished_tables, elim conjE, rule that, assumption, assumption,
        assumption, simp add: finishedRun_def[abs_def])
  qed
  obtain sugs cls obs rls iss where rows: "unreviewed sugs cls obs rls iss"
    "ap_db s2 = (ap_db s)\<lparr>ct_runs := ct_runs (ap_db s) @ [?run],
      ct_suggestions := ct_suggestions (ap_db s) @ sugs, ct_clauses := ct_clauses (ap_db s) @ cls,
      ct_obligations := ct_obligations (ap_db s) @ obs, ct_rules := ct_rules (ap_db s) @ rls,
      ct_issues := ct_issues (ap_db s) @ iss\<rparr>"
    using analysis_loop[OF loop] by - (elim conjE, erule analysisAppends_rows, rule that, assumption, simp)
  show ?thesis
    by (intro exI[of _ "cx_tenantId ctx"] exI[of _ ?run] exI[of _ sugs] exI[of _ cls] exI[of _ obs] exI[of _ rls] exI[of _ iss])
      (use ran pkg t rows in \<open>simp add: newRun_def analysed_def\<close>)
qed simp

lemma analysis_refused:
  assumes "startDeterministicStructureAnalysis env ids cid pid nid s = (Inl e, t)"
  shows "ap_db t = ap_db s"
  using assms unfolding startDeterministicStructureAnalysis_def by (cases rule: projectAction_cases) simp_all

lemma packageIds_marked: "packageIds (analysed nid runs sugs cls obs rls iss d) = packageIds d"
  by (simp add: packageIds_def analysed_def markedForReview_def packageId_def)

lemma analysis_refines:
  assumes "startDeterministicStructureAnalysis env ids cid pid nid s = (r, t)"
  shows "config_step sod (ap_db s) (ap_db t)"
proof (cases r)
  case (Inl e)
  show ?thesis by (rule idle_config, rule analysis_refused) (use assms Inl in simp)
next
  case (Inr y)
  obtain runs sugs cls obs rls iss where "unreviewed sugs cls obs rls iss"
    "ap_db t = analysed nid runs sugs cls obs rls iss (ap_db s)"
    using analysis_effect[OF assms[unfolded Inr]] by blast
  then show ?thesis
    by (intro config_step.others)
      (auto simp: packageIds_marked, auto simp: analysed_def unreviewed_def countingsKept_def list_all_iff)
qed

section \<open>Any request\<close>

text \<open>
  A request of the service, at any time and with fresh ids, or a change that leaves packages,
  revisions, rules and snapshots.
\<close>

inductive contract_request ::
  "contracts_env \<Rightarrow> contracts_db app_state \<Rightarrow> contracts_db app_state \<Rightarrow> bool" for env s where
  "listContractPackages pid s = (r1, t) \<Longrightarrow> contract_request env s t"
| "createContractPackage sp ids pid (raw :: string) s = (r2, t) \<Longrightarrow>
    ids T_PACKAGE (length (ct_packages (ap_db s))) \<notin> cpk_id ` set (ct_packages (ap_db s)) \<Longrightarrow>
    contract_request env s t"
| "getContractPackage pid nid s = (r3, t) \<Longrightarrow> contract_request env s t"
| "attachContractDocument sp ids pid nid (raw :: string) s = (r4, t) \<Longrightarrow> contract_request env s t"
| "startDeterministicStructureAnalysis (env\<lparr>cev_now := n\<rparr>) ids cid pid nid s = (r5, t) \<Longrightarrow>
    contract_request env s t"
| "reviewClause sp ids pid nid i (raw :: string) s = (r6, t) \<Longrightarrow> contract_request env s t"
| "createAndSubmitConfigurationRevision (env\<lparr>cev_now := n\<rparr>) sp ids pid nid (raw :: string) s = (r7, t) \<Longrightarrow>
    ids T_REVISION (length (ct_revisions (ap_db s))) \<notin> crv_id ` set (ct_revisions (ap_db s)) \<Longrightarrow>
    contract_request env s t"
| "approveConfigurationRevision (env\<lparr>cev_now := n\<rparr>) ids pid nid i s = (r8, t) \<Longrightarrow>
    contract_request env s t"
| "getApprovedConfiguration pid nid s = (r9, t) \<Longrightarrow> contract_request env s t"
| "listPackageClauses pid nid s = (r10, t) \<Longrightarrow> contract_request env s t"
| "listPackageObligations pid nid s = (r11, t) \<Longrightarrow> contract_request env s t"
| "listPackageNoticeRules pid nid s = (r12, t) \<Longrightarrow> contract_request env s t"
| "listPackageIssues pid nid s = (r13, t) \<Longrightarrow> contract_request env s t"
| "reviewObligation sp ids pid nid i (raw :: string) s = (r14, t) \<Longrightarrow> contract_request env s t"
| "reviewNoticeRule sp ids pid nid i (raw :: string) s = (r15, t) \<Longrightarrow> contract_request env s t"
| "resolveConfigurationIssue (env\<lparr>cev_now := n\<rparr>) sp pid nid i (raw :: string) s = (r16, t) \<Longrightarrow>
    contract_request env s t"
| "requestConfigurationChanges sp ids pid nid i (raw :: string) s = (r17, t) \<Longrightarrow>
    contract_request env s t"
| "supersedeApprovedConfiguration sp ids pid nid (raw :: string) s = (r18, t) \<Longrightarrow>
    ids T_REVISION (length (ct_revisions (ap_db s))) \<notin> crv_id ` set (ct_revisions (ap_db s)) \<Longrightarrow>
    contract_request env s t"
| "ct_packages (ap_db t) = ct_packages (ap_db s) \<Longrightarrow> ct_revisions (ap_db t) = ct_revisions (ap_db s) \<Longrightarrow>
    ct_rules (ap_db t) = ct_rules (ap_db s) \<Longrightarrow> ct_snapshots (ap_db t) = ct_snapshots (ap_db s) \<Longrightarrow>
    contract_request env s t"

lemma approve_at_refines:
  "approveConfigurationRevision (env\<lparr>cev_now := n\<rparr>) ids pid nid rid s = (r, t) \<Longrightarrow>
     config_step (segregationEnabled env) (ap_db s) (ap_db t)"
  using approve_config_refines[of "env\<lparr>cev_now := n\<rparr>" ids pid nid rid s r t]
  by (simp add: segregationEnabled_def)

lemma contract_request_refines:
  "contract_request env s t \<Longrightarrow> config_step (segregationEnabled env) (ap_db s) (ap_db t)"
proof (induction rule: contract_request.induct)
qed (erule listPackages_refines createPackage_refines attach_refines analysis_refines
    reviewClause_refines submit_config_refines approve_at_refines obligation_refines rule_refines
    issue_refines changes_config_refines supersede_refines; assumption | rule config_others; assumption)+

section \<open>What every reachable state keeps\<close>

text \<open>Ids and numbers are unique and a revision is of a package.\<close>

definition revisionsOk :: "contracts_db \<Rightarrow> bool" where
  "revisionsOk d \<longleftrightarrow> distinct (map fst (packageIds d)) \<and> distinct (map crv_id (ct_revisions d))
     \<and> revisionOwner ` set (ct_revisions d) \<subseteq> set (packageIds d)
     \<and> distinct (map (\<lambda>r. (crv_contractPackageId r, crv_revisionNumber r)) (ct_revisions d))"

text \<open>The active revision of a package is its only approved one.\<close>

definition activesOk :: "configuration_revision list \<Rightarrow> bool" where
  "activesOk rs \<longleftrightarrow> (\<forall>r\<in>set rs. crv_isActiveApproved r \<longleftrightarrow> crv_status r = RS_APPROVED)
     \<and> (\<forall>r\<in>set rs. \<forall>q\<in>set rs. crv_isActiveApproved r \<longrightarrow> crv_isActiveApproved q \<longrightarrow>
         crv_contractPackageId q = crv_contractPackageId r \<longrightarrow> q = r)"

definition approverOk :: "bool \<Rightarrow> configuration_revision \<Rightarrow> bool" where
  "approverOk sod r \<longleftrightarrow> (crv_status r = RS_APPROVED \<longrightarrow> crv_approvedByUserId r \<noteq> None)
     \<and> (sod \<longrightarrow> crv_approvedByUserId r \<noteq> None \<longrightarrow>
         crv_approvedByUserId r \<noteq> Some (crv_createdByUserId r)
         \<and> crv_approvedByUserId r \<noteq> crv_submittedByUserId r)"

text \<open>A snapshot is of a revision that was approved, and a copy of a reviewed rule of its package.\<close>

definition snapshotOwner :: "approved_snapshot \<Rightarrow> string \<times> string \<times> string" where
  "snapshotOwner y = (csn_contractPackageId y, csn_tenantId y, csn_projectId y)"

definition ruleOwner :: "notice_rule \<Rightarrow> string \<times> string \<times> string" where
  "ruleOwner q = (cnr_contractPackageId q, cnr_tenantId q, cnr_projectId q)"

definition snapshotOk :: "configuration_revision list \<Rightarrow> approved_snapshot \<Rightarrow> bool" where
  "snapshotOk rs y \<longleftrightarrow> (\<exists>r\<in>set rs. crv_id r = csn_configurationRevisionId y
       \<and> revisionOwner r = snapshotOwner y
       \<and> crv_status r \<in> {RS_APPROVED, RS_SUPERSEDED} \<and> crv_approvedByUserId r \<noteq> None)
     \<and> ruleOwner (csn_rule y) = snapshotOwner y
     \<and> cnr_reviewStatus (csn_rule y) \<in> {RV_VERIFIED, RV_APPROVED} \<and> cnr_durationUnit (csn_rule y) \<noteq> None
     \<and> csn_structuredRule y = buildStructuredRuleForSnapshot (csn_rule y)"

text \<open>The snapshots that the approval of the revision \<open>x\<close> takes: of every reviewed rule of its package,
  tenant and project that has a duration unit, as the rule is now, and of no other.\<close>

definition copiesRules :: "contracts_db \<Rightarrow> configuration_revision \<Rightarrow> approved_snapshot list \<Rightarrow> bool" where
  "copiesRules d x ys \<longleftrightarrow> map csn_rule ys = filter (\<lambda>q. ruleOwner q = revisionOwner x
       \<and> (cnr_reviewStatus q = RV_VERIFIED \<or> cnr_reviewStatus q = RV_APPROVED)
       \<and> cnr_durationUnit q \<noteq> None) (ct_rules d)
     \<and> (\<forall>y\<in>set ys. csn_configurationRevisionId y = crv_id x \<and> snapshotOwner y = revisionOwner x
       \<and> sru_durationValue (csn_structuredRule y) = cnr_durationValue (csn_rule y)
       \<and> sru_durationUnit (csn_structuredRule y) = cnr_durationUnit (csn_rule y)
       \<and> sru_counting (csn_structuredRule y) = cnr_countingConvention (csn_rule y)
       \<and> sru_timeBarClassification (csn_structuredRule y) = cnr_timeBarClassification (csn_rule y)
       \<and> (sru_humanApproved (csn_structuredRule y) \<longleftrightarrow> cnr_countingConvention (csn_rule y) \<noteq> UNSPECIFIED
          \<and> cnr_ambiguityStatus (csn_rule y) \<in> {AM_CLEAR, AM_PARTIALLY_AMBIGUOUS})
       \<and> (\<forall>i. csn_reviewDecisionId y = Some i \<longrightarrow> (\<exists>q\<in>set (ct_decisions d). crd_id q = i
            \<and> crd_entityType q = ''notice_rule'' \<and> crd_entityId q = cnr_id (csn_rule y))))"

definition configOk :: "bool \<Rightarrow> contracts_db \<Rightarrow> bool" where
  "configOk sod d \<longleftrightarrow> revisionsOk d \<and> activesOk (ct_revisions d)
     \<and> list_all (approverOk sod) (ct_revisions d)
     \<and> list_all (snapshotOk (ct_revisions d)) (ct_snapshots d)"

text \<open>No rule and no snapshot has a counting convention.\<close>

definition uncounted :: "contracts_db \<Rightarrow> bool" where
  "uncounted d \<longleftrightarrow> list_all (\<lambda>r. cnr_countingConvention r = UNSPECIFIED) (ct_rules d)
     \<and> list_all (\<lambda>y. cnr_countingConvention (csn_rule y) = UNSPECIFIED) (ct_snapshots d)"

end
