(* ===== verification/ContractProperties.thy ===== *)
theory ContractProperties
  imports ContractTracking DeadlineTracking
begin

text \<open>
  What the contract service promises in every reachable state, over the abstract machine of
  \<open>ContractTracking\<close>, and what the deadline service makes of the rules it approves.
\<close>

section \<open>Revisions and their keys\<close>

lemma filter_single:
  "distinct xs \<Longrightarrow> x \<in> set xs \<Longrightarrow> (\<And>q. q \<in> set xs \<Longrightarrow> P q \<longleftrightarrow> q = x) \<Longrightarrow> filter P xs = [x]"
proof (induction xs)
  case (Cons a xs)
  then show ?case by (cases "a = x") (auto simp: filter_empty_conv)
qed simp

definition revisionKey :: "configuration_revision \<Rightarrow> string \<times> (string \<times> string \<times> string) \<times> nat" where
  "revisionKey r = (crv_id r, revisionOwner r, crv_revisionNumber r)"

lemma revisionsOk_keys:
  "revisionsOk d \<longleftrightarrow> distinct (map fst (packageIds d))
     \<and> distinct (map fst (map revisionKey (ct_revisions d)))
     \<and> (fst \<circ> snd) ` set (map revisionKey (ct_revisions d)) \<subseteq> set (packageIds d)
     \<and> distinct (map (\<lambda>k. (fst (fst (snd k)), snd (snd k))) (map revisionKey (ct_revisions d)))"
  by (simp add: revisionsOk_def revisionKey_def revisionOwner_def comp_def image_image)

lemma revisionsOk_same:
  "map revisionKey (ct_revisions e) = map revisionKey (ct_revisions d) \<Longrightarrow> packageIds e = packageIds d \<Longrightarrow>
   revisionsOk d \<Longrightarrow> revisionsOk e"
  unfolding revisionsOk_keys by simp

lemma next_above: "n \<in> set ns \<Longrightarrow> n < nextNumber ns"
proof (induction ns)
  case (Cons m ns)
  then show ?case by (auto simp: nextNumber_def)
qed simp

lemma revisionsOk_row:
  assumes "freshRevision d r" and "map revisionKey (ct_revisions e) = map revisionKey (ct_revisions d @ [r])"
    and "packageIds e = packageIds d" and "revisionsOk d"
  shows "revisionsOk e"
proof -
  have "crv_revisionNumber q < crv_revisionNumber r"
    if "q \<in> set (ct_revisions d)" "crv_contractPackageId q = crv_contractPackageId r" for q
    using that assms(1) next_above[of "crv_revisionNumber q"]
    by (simp add: freshRevision_def nextRevision_def)
  then have "(crv_contractPackageId r, crv_revisionNumber r) \<notin>
      (\<lambda>q. (crv_contractPackageId q, crv_revisionNumber q)) ` set (ct_revisions d)"
    by fastforce
  then show ?thesis
    using assms unfolding revisionsOk_keys
    by (auto simp: freshRevision_def revisionKey_def revisionOwner_def comp_def image_image)
qed

text \<open>A row among rows of distinct ids.\<close>

lemma updated_row:
  assumes "distinct (map crv_id rs)" "x \<in> set rs"
  shows "q \<in> set (updateWhere (\<lambda>r. crv_id r = crv_id x) f rs) \<longleftrightarrow>
    q = f x \<or> (q \<in> set rs \<and> crv_id q \<noteq> crv_id x)"
  using assms distinct_key_unique[of crv_id rs] by (auto simp: set_updateWhere)

lemma owner_of_package:
  assumes "revisionsOk d" "x \<in> set (ct_revisions d)" "q \<in> set (ct_revisions d)"
    and "crv_contractPackageId q = crv_contractPackageId x"
  shows "crv_tenantId q = crv_tenantId x"
proof -
  have "revisionOwner q \<in> set (packageIds d)" "revisionOwner x \<in> set (packageIds d)"
    "distinct (map fst (packageIds d))"
    using assms by (auto simp: revisionsOk_def)
  then have "revisionOwner q = revisionOwner x"
    using assms(4) distinct_key_unique[of fst "packageIds d" "revisionOwner q" "revisionOwner x"]
    by (simp add: revisionOwner_def)
  then show ?thesis by (simp add: revisionOwner_def)
qed

section \<open>The steps keep the invariant\<close>

text \<open>A snapshot stays as it should be when its revision keeps its id, package and approval.\<close>

lemma snapshotOk_kept:
  assumes "snapshotOk rs y"
    and "\<And>r. r \<in> set rs \<Longrightarrow> crv_status r \<in> {RS_APPROVED, RS_SUPERSEDED} \<Longrightarrow> \<exists>q\<in>set qs. crv_id q = crv_id r
      \<and> revisionOwner q = revisionOwner r \<and> crv_status q \<in> {RS_APPROVED, RS_SUPERSEDED}
      \<and> crv_approvedByUserId q = crv_approvedByUserId r"
  shows "snapshotOk qs y"
  using assms unfolding snapshotOk_def by metis

lemma snapshot_row:
  assumes "y \<in> set (snapshotsOf ids ctx pid nid i d)"
  shows "csn_rule y \<in> set (approvableRules (cx_tenantId ctx) pid nid d)
    \<and> csn_configurationRevisionId y = i \<and> snapshotOwner y = (nid, cx_tenantId ctx, pid)
    \<and> csn_structuredRule y = buildStructuredRuleForSnapshot (csn_rule y)
    \<and> csn_reviewDecisionId y = reviewDecisionOf nid d (csn_rule y)"
  using assms by (auto simp: snapshotsOf_def snapshotOwner_def dest!: in_set_enumerate_eq[THEN iffD1])

lemma new_snapshots:
  assumes "y \<in> set (snapshotsOf ids ctx pid nid i d)"
  shows "csn_configurationRevisionId y = i \<and> snapshotOwner y = (nid, cx_tenantId ctx, pid)
     \<and> ruleOwner (csn_rule y) = snapshotOwner y \<and> cnr_reviewStatus (csn_rule y) \<in> {RV_VERIFIED, RV_APPROVED}
     \<and> cnr_durationUnit (csn_rule y) \<noteq> None
     \<and> csn_structuredRule y = buildStructuredRuleForSnapshot (csn_rule y) \<and> csn_rule y \<in> set (ct_rules d)"
  using snapshot_row[OF assms] by (auto simp: approvableRules_def ruleOwner_def)

lemma decision_of_rule:
  "reviewDecisionOf nid d q = Some i \<Longrightarrow> \<exists>x\<in>set (ct_decisions d). crd_id x = i
     \<and> crd_entityType x = ''notice_rule'' \<and> crd_entityId x = cnr_id q"
  by (auto simp: reviewDecisionOf_def dest!: find_SomeD)

lemma structured_copy:
  assumes "cnr_reviewStatus q \<in> {RV_VERIFIED, RV_APPROVED}"
  shows "sru_durationValue (buildStructuredRuleForSnapshot q) = cnr_durationValue q
    \<and> sru_durationUnit (buildStructuredRuleForSnapshot q) = cnr_durationUnit q
    \<and> sru_counting (buildStructuredRuleForSnapshot q) = cnr_countingConvention q
    \<and> sru_timeBarClassification (buildStructuredRuleForSnapshot q) = cnr_timeBarClassification q
    \<and> (sru_humanApproved (buildStructuredRuleForSnapshot q) \<longleftrightarrow> cnr_countingConvention q \<noteq> UNSPECIFIED
       \<and> cnr_ambiguityStatus q \<in> {AM_CLEAR, AM_PARTIALLY_AMBIGUOUS})"
  using assms by (auto simp: buildStructuredRuleForSnapshot_def Let_def)

lemma snapshots_rules:
  "map csn_rule (snapshotsOf ids ctx pid nid i d) = approvableRules (cx_tenantId ctx) pid nid d"
  by (simp add: snapshotsOf_def comp_def case_prod_beta)

lemma snapshots_copy:
  assumes "cx_tenantId ctx = crv_tenantId x"
  shows "copiesRules d x (snapshotsOf ids ctx (crv_projectId x) (crv_contractPackageId x) (crv_id x) d)"
  unfolding copiesRules_def
proof (intro conjI ballI)
  show "map csn_rule (snapshotsOf ids ctx (crv_projectId x) (crv_contractPackageId x) (crv_id x) d)
      = filter (\<lambda>q. ruleOwner q = revisionOwner x
         \<and> (cnr_reviewStatus q = RV_VERIFIED \<or> cnr_reviewStatus q = RV_APPROVED)
         \<and> cnr_durationUnit q \<noteq> None) (ct_rules d)"
    unfolding snapshots_rules approvableRules_def
    by (rule filter_cong) (auto simp: ruleOwner_def revisionOwner_def assms)
next
  fix y assume y: "y \<in> set (snapshotsOf ids ctx (crv_projectId x) (crv_contractPackageId x) (crv_id x) d)"
  note row = snapshot_row[OF y] structured_copy[of "csn_rule y"] new_snapshots[OF y]
  show "\<forall>i. csn_reviewDecisionId y = Some i \<longrightarrow> (\<exists>q\<in>set (ct_decisions d). crd_id q = i
      \<and> crd_entityType q = ''notice_rule'' \<and> crd_entityId q = cnr_id (csn_rule y))"
    using row decision_of_rule by metis
qed (use assms snapshot_row structured_copy new_snapshots in \<open>auto simp: revisionOwner_def\<close>)

lemma revisionsOk_step:
  assumes "config_step sod d e" "revisionsOk d"
  shows "revisionsOk e"
  using assms(1)
proof cases
  case (package k)
  then show ?thesis using assms(2) unfolding revisionsOk_keys by auto
next
  case (supersede x r)
  have "map revisionKey (updateWhere (\<lambda>r. crv_id r = crv_id x) supersededRevision (ct_revisions d))
      = map revisionKey (ct_revisions d)"
    by (rule map_updateWhere) (simp add: revisionKey_def revisionOwner_def supersededRevision_def)
  then show ?thesis using supersede assms(2) by (intro revisionsOk_row[of d r e]) simp_all
next
  case (submit r)
  then show ?thesis using assms(2) by (intro revisionsOk_row[of d r e]) simp_all
next
  case (approve x ctx env ids pid)
  then show ?thesis
    by (intro revisionsOk_same[OF _ _ assms(2)])
      (simp_all add: map_updateWhere revisionKey_def revisionOwner_def supersededRevision_def
        approvedConfiguration_def)
next
  case (changes x)
  then show ?thesis
    by (intro revisionsOk_same[OF _ _ assms(2)])
      (simp_all add: map_updateWhere revisionKey_def revisionOwner_def)
qed (use assms(2) in \<open>simp add: revisionsOk_same\<close>)

lemma activesOk_unchanged:
  assumes "activesOk rs" "\<And>q. q \<in> set qs \<Longrightarrow> q \<in> set rs
      \<or> (\<not> crv_isActiveApproved q \<and> crv_status q \<noteq> RS_APPROVED)"
  shows "activesOk qs"
  using assms unfolding activesOk_def by metis

text \<open>The rows after an approval.\<close>

definition approvedRows where
  "approvedRows env ctx x rs = updateWhere (\<lambda>r. crv_id r = crv_id x) (approvedConfiguration env ctx)
     (updateWhere (\<lambda>r. crv_contractPackageId r = crv_contractPackageId x
        \<and> crv_tenantId r = crv_tenantId x \<and> crv_isActiveApproved r) supersededRevision rs)"

definition afterApproval :: "configuration_revision \<Rightarrow> configuration_revision \<Rightarrow> configuration_revision" where
  "afterApproval x p = (if crv_contractPackageId p = crv_contractPackageId x \<and> crv_isActiveApproved p
     then supersededRevision p else p)"

lemma superseded_simps [simp]:
  "crv_id (supersededRevision p) = crv_id p" "\<not> crv_isActiveApproved (supersededRevision p)"
  "crv_contractPackageId (supersededRevision p) = crv_contractPackageId p"
  "revisionOwner (supersededRevision p) = revisionOwner p"
  "crv_status (supersededRevision p) = RS_SUPERSEDED"
  "crv_approvedByUserId (supersededRevision p) = crv_approvedByUserId p"
  by (simp_all add: supersededRevision_def revisionOwner_def)

lemma approved_simps [simp]:
  "crv_id (approvedConfiguration env ctx p) = crv_id p"
  "crv_isActiveApproved (approvedConfiguration env ctx p)"
  "crv_contractPackageId (approvedConfiguration env ctx p) = crv_contractPackageId p"
  "revisionOwner (approvedConfiguration env ctx p) = revisionOwner p"
  "crv_status (approvedConfiguration env ctx p) = RS_APPROVED"
  "crv_approvedByUserId (approvedConfiguration env ctx p) = Some (userId ctx)"
  by (simp_all add: approvedConfiguration_def revisionOwner_def)

lemma superseded_self [dest]: "q = supersededRevision q \<Longrightarrow> \<not> crv_isActiveApproved q"
  by (metis superseded_simps(2))

lemma approvedRows_iff:
  assumes "revisionsOk d" "activesOk (ct_revisions d)" "x \<in> set (ct_revisions d)"
    "crv_status x \<in> {RS_IN_REVIEW, RS_CHANGES_REQUESTED}"
  shows "q \<in> set (approvedRows env ctx x (ct_revisions d)) \<longleftrightarrow> q = approvedConfiguration env ctx x
    \<or> (\<exists>p\<in>set (ct_revisions d). crv_id p \<noteq> crv_id x \<and> q = afterApproval x p)"
proof -
  let ?old = "updateWhere (\<lambda>r. crv_contractPackageId r = crv_contractPackageId x
       \<and> crv_tenantId r = crv_tenantId x \<and> crv_isActiveApproved r) supersededRevision (ct_revisions d)"
  have old: "?old = map (afterApproval x) (ct_revisions d)"
    using owner_of_package[OF assms(1,3)] by (auto simp: updateWhere_def afterApproval_def)
  have keep: "crv_id (afterApproval x p) = crv_id p" for p by (simp add: afterApproval_def)
  have "\<not> crv_isActiveApproved x" using assms(2-4) unfolding activesOk_def by auto
  then have x: "x \<in> set ?old" unfolding old using assms(3) by (force simp: afterApproval_def)
  have "distinct (map crv_id ?old)"
    using assms(1) by (simp add: old keep comp_def revisionsOk_def)
  from updated_row[OF this x] show ?thesis
    unfolding approvedRows_def unfolding old set_map using keep by auto
qed

lemma activesOk_approve:
  assumes "revisionsOk d" "activesOk (ct_revisions d)" "x \<in> set (ct_revisions d)"
    "crv_status x \<in> {RS_IN_REVIEW, RS_CHANGES_REQUESTED}"
  shows "activesOk (approvedRows env ctx x (ct_revisions d))"
proof -
  note active = assms(2)[unfolded activesOk_def]
  have rows: "q = approvedConfiguration env ctx x \<or> (q \<in> set (ct_revisions d)
      \<and> (crv_isActiveApproved q \<longrightarrow> crv_contractPackageId q \<noteq> crv_contractPackageId x))
      \<or> (\<not> crv_isActiveApproved q \<and> crv_status q = RS_SUPERSEDED)"
    if "q \<in> set (approvedRows env ctx x (ct_revisions d))" for q
    using that unfolding approvedRows_iff[OF assms]
    by (auto simp: afterApproval_def split: if_splits)
  show ?thesis unfolding activesOk_def
  proof (intro conjI ballI impI)
    fix r assume "r \<in> set (approvedRows env ctx x (ct_revisions d))"
    then show "crv_isActiveApproved r \<longleftrightarrow> crv_status r = RS_APPROVED"
      using rows[of r] active by auto
  next
    fix r q assume "r \<in> set (approvedRows env ctx x (ct_revisions d))"
      "q \<in> set (approvedRows env ctx x (ct_revisions d))" "crv_isActiveApproved r"
      "crv_isActiveApproved q" "crv_contractPackageId q = crv_contractPackageId r"
    then show "q = r" using rows[of r] rows[of q] active approved_simps by metis
  qed
qed

lemma activesOk_step:
  assumes "config_step sod d e" "revisionsOk d" "activesOk (ct_revisions d)"
  shows "activesOk (ct_revisions e)"
  using assms(1)
proof cases
  case (approve x ctx env ids pid)
  show ?thesis
    unfolding approve(5) by (rule activesOk_approve[unfolded approvedRows_def]) (use assms approve in auto)
next
  case (changes x)
  have "distinct (map crv_id (ct_revisions d))" using assms(2) by (simp add: revisionsOk_def)
  from updated_row[OF this changes(1)] show ?thesis
    unfolding changes(3)
    by (intro activesOk_unchanged[OF assms(3)]) (use assms(3) changes(1,2) in \<open>auto simp: activesOk_def\<close>)
next
  case (supersede x r)
  then show ?thesis
    by (intro activesOk_unchanged[OF assms(3)])
      (auto simp: set_updateWhere supersededRevision_def freshRevision_def)
next
  case (submit r)
  then show ?thesis
    by (intro activesOk_unchanged[OF assms(3)]) (auto simp: freshRevision_def)
qed (use assms(3) in simp_all)

lemma approverOk_kept:
  "approverOk sod r \<Longrightarrow> (crv_status q = RS_APPROVED \<Longrightarrow> crv_status r = RS_APPROVED) \<Longrightarrow>
   crv_approvedByUserId q = crv_approvedByUserId r \<Longrightarrow> crv_createdByUserId q = crv_createdByUserId r \<Longrightarrow>
   crv_submittedByUserId q = crv_submittedByUserId r \<Longrightarrow> approverOk sod q"
  by (simp add: approverOk_def)

lemma approvers_updateWhere:
  assumes "list_all (approverOk sod) rs" "\<And>r. approverOk sod r \<Longrightarrow> approverOk sod (f r)"
  shows "list_all (approverOk sod) (updateWhere P f rs)"
  using assms by (auto simp: list_all_iff set_updateWhere)

lemma approverOk_superseded: "approverOk sod r \<Longrightarrow> approverOk sod (supersededRevision r)"
  by (erule approverOk_kept) (simp_all add: supersededRevision_def)

lemma approvers_step:
  assumes "config_step sod d e" "list_all (approverOk sod) (ct_revisions d)"
    "revisionsOk d" "activesOk (ct_revisions d)"
  shows "list_all (approverOk sod) (ct_revisions e)"
  using assms(1)
proof cases
  case (approve x ctx env ids pid)
  have "approverOk sod (approvedConfiguration env ctx x)"
    using approve(4) by (auto simp: approverOk_def approvedConfiguration_def)
  then show ?thesis
    using assms(2) approverOk_superseded
    unfolding approve(5) approvedRows_def[symmetric] list_all_iff Ball_def
      approvedRows_iff[OF assms(3,4) approve(1,2)]
    by (auto simp: afterApproval_def)
next
  case (changes x)
  show ?thesis
    unfolding changes(3) by (rule approvers_updateWhere[OF assms(2)]) (erule approverOk_kept, simp_all)
next
  case (supersede x r)
  have "approverOk sod r" using supersede by (simp add: approverOk_def freshRevision_def)
  then show ?thesis
    using approvers_updateWhere[OF assms(2) approverOk_superseded] unfolding supersede(6) by simp
next
  case (submit r)
  then show ?thesis using assms(2) by (simp add: approverOk_def freshRevision_def)
qed (use assms(2) in simp_all)

lemma snapshots_step:
  assumes "config_step sod d e" "list_all (snapshotOk (ct_revisions d)) (ct_snapshots d)"
    "revisionsOk d" "activesOk (ct_revisions d)"
  shows "list_all (snapshotOk (ct_revisions e)) (ct_snapshots e)"
proof -
  have kept: "list_all (snapshotOk qs) (ct_snapshots d)"
    if stay: "\<And>r. r \<in> set (ct_revisions d) \<Longrightarrow> crv_status r \<in> {RS_APPROVED, RS_SUPERSEDED} \<Longrightarrow>
      r \<in> set qs \<or> supersededRevision r \<in> set qs" for qs
  proof -
    have "\<exists>q\<in>set qs. crv_id q = crv_id r \<and> revisionOwner q = revisionOwner r
        \<and> crv_status q \<in> {RS_APPROVED, RS_SUPERSEDED} \<and> crv_approvedByUserId q = crv_approvedByUserId r"
      if r: "r \<in> set (ct_revisions d)" "crv_status r \<in> {RS_APPROVED, RS_SUPERSEDED}" for r
      using stay[of r] r by (auto intro: bexI[of _ r] bexI[of _ "supersededRevision r"])
    then show ?thesis
      using assms(2) snapshotOk_kept[of "ct_revisions d" _ qs] by (simp add: list_all_iff)
  qed
  show ?thesis
    using assms(1)
  proof cases
    case (approve x ctx env ids pid)
    note rows = approvedRows_iff[OF assms(3,4) approve(1,2), of _ env ctx]
    have "list_all (snapshotOk (approvedRows env ctx x (ct_revisions d))) (ct_snapshots d)"
    proof (rule kept)
      fix r assume r: "r \<in> set (ct_revisions d)" "crv_status r \<in> {RS_APPROVED, RS_SUPERSEDED}"
      have "crv_id r \<noteq> crv_id x"
        using assms(3) r approve(1,2) distinct_key_unique[of crv_id "ct_revisions d" r x]
        by (auto simp: revisionsOk_def)
      then have "afterApproval x r \<in> set (approvedRows env ctx x (ct_revisions d))"
        using rows r(1) by blast
      then show "r \<in> set (approvedRows env ctx x (ct_revisions d))
          \<or> supersededRevision r \<in> set (approvedRows env ctx x (ct_revisions d))"
        by (auto simp: afterApproval_def split: if_splits)
    qed
    moreover have "snapshotOk (approvedRows env ctx x (ct_revisions d)) y"
      if "y \<in> set (snapshotsOf ids ctx pid (crv_contractPackageId x) (crv_id x) d)" for y
      using new_snapshots[OF that] rows[of "approvedConfiguration env ctx x"] approve(3,9)
      by (auto simp: snapshotOk_def revisionOwner_def approvedConfiguration_def intro!: bexI[of _ "approvedConfiguration env ctx x"])
    ultimately show ?thesis
      unfolding approve(5,6) approvedRows_def[symmetric] by (auto simp: list_all_iff)
  next
    case (changes x)
    have ids: "distinct (map crv_id (ct_revisions d))" using assms(3) by (simp add: revisionsOk_def)
    show ?thesis
      unfolding changes(3,4)
    proof (rule kept)
      fix r assume r: "r \<in> set (ct_revisions d)" "crv_status r \<in> {RS_APPROVED, RS_SUPERSEDED}"
      then have "crv_id r \<noteq> crv_id x" using distinct_key_unique[OF ids r(1) changes(1)] changes(2) by auto
      then show "r \<in> set (updateWhere (\<lambda>r. crv_id r = crv_id x) (\<lambda>r. r\<lparr>crv_status := RS_CHANGES_REQUESTED\<rparr>)
          (ct_revisions d)) \<or> supersededRevision r \<in> set (updateWhere (\<lambda>r. crv_id r = crv_id x)
          (\<lambda>r. r\<lparr>crv_status := RS_CHANGES_REQUESTED\<rparr>) (ct_revisions d))"
        using r(1) updated_row[OF ids changes(1)] by blast
    qed
  next
    case (supersede x r)
    show ?thesis
      unfolding supersede(6,7)
    proof (rule kept)
      fix p assume "p \<in> set (ct_revisions d)"
      from updateWhere_mem[OF this, of "\<lambda>r. crv_id r = crv_id x" supersededRevision]
      show "p \<in> set (updateWhere (\<lambda>r. crv_id r = crv_id x) supersededRevision (ct_revisions d) @ [r])
        \<or> supersededRevision p \<in> set (updateWhere (\<lambda>r. crv_id r = crv_id x) supersededRevision
            (ct_revisions d) @ [r])"
        by (auto split: if_splits)
    qed
  qed (auto intro!: kept)
qed

lemma configOk_step: "config_step sod d e \<Longrightarrow> configOk sod d \<Longrightarrow> configOk sod e"
  unfolding configOk_def using revisionsOk_step activesOk_step approvers_step snapshots_step by blast

lemma uncounted_step:
  assumes "config_step sod d e" "uncounted d"
  shows "uncounted e"
  using assms(1)
proof cases
  case others
  then show ?thesis
    using assms(2) by (auto simp: uncounted_def countingsKept_def list_all_iff)
next
  case (approve x ctx env ids pid)
  then show ?thesis
    using assms(2) new_snapshots[of _ ids ctx pid "crv_contractPackageId x" "crv_id x" d]
    by (auto simp: uncounted_def list_all_iff)
qed (use assms(2) in \<open>simp_all add: uncounted_def\<close>)

lemma contract_reachable:
  assumes "(contract_request env)\<^sup>*\<^sup>* s t"
  shows "configOk (segregationEnabled env) (ap_db s) \<Longrightarrow> configOk (segregationEnabled env) (ap_db t)"
    and "uncounted (ap_db s) \<Longrightarrow> uncounted (ap_db t)"
  using assms by (induction rule: rtranclp_induct)
    (auto dest: contract_request_refines configOk_step uncounted_step)

text \<open>A draft revision is left as it is.\<close>

lemma draft_config_step:
  assumes "config_step sod d e" "revisionsOk d" "activesOk (ct_revisions d)"
    and r: "r \<in> set (ct_revisions d)" "crv_status r = RS_DRAFT"
  shows "r \<in> set (ct_revisions e)"
proof -
  have ids: "distinct (map crv_id (ct_revisions d))" using assms(2) by (simp add: revisionsOk_def)
  have active: "\<not> crv_isActiveApproved r" using assms(3) r by (auto simp: activesOk_def)
  have other: "crv_id r \<noteq> crv_id x" if "x \<in> set (ct_revisions d)" "crv_status x \<noteq> RS_DRAFT" for x
    using distinct_key_unique[OF ids r(1) that(1)] that(2) r(2) by auto
  show ?thesis
    using assms(1)
  proof cases
    case (approve x ctx env ids pid)
    have "crv_id r \<noteq> crv_id x" using approve(1,2) by (intro other) auto
    then show ?thesis
      unfolding approve(5) approvedRows_def[symmetric] approvedRows_iff[OF assms(2,3) approve(1,2)]
      using r(1) active by (auto simp: afterApproval_def intro!: bexI[of _ r])
  next
    case (changes x)
    then show ?thesis using r(1) other[of x] updated_row[OF ids changes(1)] by auto
  next
    case (supersede x q)
    then have "crv_id r \<noteq> crv_id x" using assms(3) by (intro other) (auto simp: activesOk_def)
    then show ?thesis unfolding supersede(6) using r(1) updated_row[OF ids supersede(1)] by simp
  qed (use r(1) in simp_all)
qed

lemma snapshots_taken:
  assumes "config_step sod d e" "revisionsOk d" "activesOk (ct_revisions d)"
  shows "\<exists>ys. ct_snapshots e = ct_snapshots d @ ys \<and> (ys = [] \<or> (\<exists>x\<in>set (ct_revisions d).
    crv_status x \<in> {RS_IN_REVIEW, RS_CHANGES_REQUESTED} \<and> copiesRules d x ys
    \<and> (\<exists>q\<in>set (ct_revisions e). crv_id q = crv_id x \<and> revisionOwner q = revisionOwner x
         \<and> crv_isActiveApproved q)))"
  using assms(1)
proof cases
  case (approve x ctx env ids pid)
  have "approvedConfiguration env ctx x \<in> set (ct_revisions e)"
    unfolding approve(5) approvedRows_def[symmetric] approvedRows_iff[OF assms(2,3) approve(1,2)] by simp
  then have "\<exists>q\<in>set (ct_revisions e). crv_id q = crv_id x \<and> revisionOwner q = revisionOwner x
      \<and> crv_isActiveApproved q" by (rule bexI[rotated]) simp
  then show ?thesis
    using approve(1,2,6,9) snapshots_copy[OF approve(3), of d ids] by blast
qed simp_all

section \<open>What the service promises\<close>

text \<open>C21: In every reachable state an active configuration revision is approved, the only approved
  one of its package, in the package's tenant and project, and with segregation of duties approved
  by someone who neither created nor submitted it.\<close>

theorem one_active_configuration:
  assumes "(contract_request env)\<^sup>*\<^sup>* s t" and "configOk (segregationEnabled env) (ap_db s)"
    and r: "r \<in> set (ct_revisions (ap_db t))" "crv_isActiveApproved r"
  shows "filter (\<lambda>q. crv_contractPackageId q = crv_contractPackageId r
        \<and> (crv_isActiveApproved q \<or> crv_status q = RS_APPROVED)) (ct_revisions (ap_db t)) = [r]
    \<and> (\<exists>p\<in>set (ct_packages (ap_db t)). cpk_id p = crv_contractPackageId r
        \<and> cpk_tenantId p = crv_tenantId r \<and> cpk_projectId p = crv_projectId r)
    \<and> (\<exists>u. crv_approvedByUserId r = Some u \<and> (segregationEnabled env \<longrightarrow>
        u \<noteq> crv_createdByUserId r \<and> Some u \<noteq> crv_submittedByUserId r))"
proof -
  have ok: "revisionsOk (ap_db t)" "activesOk (ct_revisions (ap_db t))"
    "approverOk (segregationEnabled env) r"
    using contract_reachable(1)[OF assms(1,2)] r(1) by (auto simp: configOk_def list_all_iff)
  have "distinct (ct_revisions (ap_db t))" using ok(1) by (auto simp: revisionsOk_def distinct_map)
  moreover have "q = r" if "q \<in> set (ct_revisions (ap_db t))"
    "crv_contractPackageId q = crv_contractPackageId r" "crv_isActiveApproved q \<or> crv_status q = RS_APPROVED" for q
    using ok(2) that r unfolding activesOk_def by metis
  ultimately have "filter (\<lambda>q. crv_contractPackageId q = crv_contractPackageId r
      \<and> (crv_isActiveApproved q \<or> crv_status q = RS_APPROVED)) (ct_revisions (ap_db t)) = [r]"
    using r by (intro filter_single) auto
  moreover have "\<exists>p\<in>set (ct_packages (ap_db t)). cpk_id p = crv_contractPackageId r
      \<and> cpk_tenantId p = crv_tenantId r \<and> cpk_projectId p = crv_projectId r"
  proof -
    have "revisionOwner r \<in> packageId ` set (ct_packages (ap_db t))"
      using ok(1) r(1) by (auto simp: revisionsOk_def packageIds_def)
    then obtain p where "p \<in> set (ct_packages (ap_db t))" "packageId p = revisionOwner r" by auto
    then show ?thesis by (intro bexI[of _ p]) (simp_all add: packageId_def revisionOwner_def)
  qed
  ultimately show ?thesis using ok(2,3) r by (auto simp: approverOk_def activesOk_def)
qed

text \<open>C22: A request appends no snapshot, or it approves a waiting revision and appends exactly one for
  each notice rule of that revision's package, tenant and project that was reviewed and has a
  duration unit: a copy of the rule as it stands, with its duration, unit, counting convention and
  time bar in the structured rule, marked as approved by a human only where the counting convention is
  specified and the rule is not ambiguous, and with the rule's own review decision.  In every
  reachable state each snapshot is of a revision of its package, tenant and project that a human
  approved.\<close>

theorem snapshots_of_approved_rules:
  assumes "(contract_request env)\<^sup>*\<^sup>* s u" and "configOk (segregationEnabled env) (ap_db s)"
    and "contract_request env u t"
  shows "\<exists>ys. ct_snapshots (ap_db t) = ct_snapshots (ap_db u) @ ys
    \<and> (ys = [] \<or> (\<exists>x\<in>set (ct_revisions (ap_db u)). crv_status x \<in> {RS_IN_REVIEW, RS_CHANGES_REQUESTED}
         \<and> copiesRules (ap_db u) x ys
         \<and> (\<exists>q\<in>set (ct_revisions (ap_db t)). crv_id q = crv_id x \<and> revisionOwner q = revisionOwner x
              \<and> crv_isActiveApproved q)))
    \<and> list_all (\<lambda>y. \<exists>r\<in>set (ct_revisions (ap_db t)). crv_id r = csn_configurationRevisionId y
        \<and> revisionOwner r = snapshotOwner y
        \<and> crv_status r \<in> {RS_APPROVED, RS_SUPERSEDED} \<and> crv_approvedByUserId r \<noteq> None)
      (ct_snapshots (ap_db t))"
proof -
  have before: "configOk (segregationEnabled env) (ap_db u)" by (rule contract_reachable(1)[OF assms(1,2)])
  have step: "config_step (segregationEnabled env) (ap_db u) (ap_db t)"
    by (rule contract_request_refines[OF assms(3)])
  obtain ys where "ct_snapshots (ap_db t) = ct_snapshots (ap_db u) @ ys"
    "ys = [] \<or> (\<exists>x\<in>set (ct_revisions (ap_db u)). crv_status x \<in> {RS_IN_REVIEW, RS_CHANGES_REQUESTED}
         \<and> copiesRules (ap_db u) x ys
         \<and> (\<exists>q\<in>set (ct_revisions (ap_db t)). crv_id q = crv_id x \<and> revisionOwner q = revisionOwner x
              \<and> crv_isActiveApproved q))"
    using snapshots_taken[OF step] before unfolding configOk_def by blast
  moreover have "list_all (snapshotOk (ct_revisions (ap_db t))) (ct_snapshots (ap_db t))"
    using configOk_step[OF step before] by (simp add: configOk_def)
  ultimately show ?thesis
    by (intro exI[of _ ys]) (simp add: snapshotOk_def list_all_iff)
qed

text \<open>C24: The draft revision that replaces a superseded configuration stays as it is for ever: no
  request submits, changes, approves or withdraws it.\<close>

theorem replacement_draft_is_stuck:
  assumes "supersedeApprovedConfiguration safeParse ids pid nid raw s = (Inr (current, draft), u)"
    and "ids T_REVISION (length (ct_revisions (ap_db s))) \<notin> crv_id ` set (ct_revisions (ap_db s))"
    and "configOk (segregationEnabled env) (ap_db s)" and "(contract_request env)\<^sup>*\<^sup>* u t"
  shows "crv_status draft = RS_DRAFT \<and> crv_supersedesRevisionId draft = Some (crv_id current)
    \<and> draft \<in> set (ct_revisions (ap_db t))"
proof -
  let ?sod = "segregationEnabled env"
  have u: "configOk ?sod (ap_db u)"
    by (rule configOk_step[OF supersede_refines[OF assms(1,2)] assms(3)])
  have draft: "draft \<in> set (ct_revisions (ap_db u))" "crv_status draft = RS_DRAFT"
    "crv_supersedesRevisionId draft = Some (crv_id current)"
    using supersede_tables[OF assms(1)] by auto
  have "draft \<in> set (ct_revisions (ap_db t)) \<and> configOk ?sod (ap_db t)"
    using assms(4)
  proof (induction rule: rtranclp_induct)
    case (step v w)
    have "config_step ?sod (ap_db v) (ap_db w)" by (rule contract_request_refines[OF step(2)])
    then show ?case
      using step(3) draft(2) configOk_step draft_config_step by (metis configOk_def)
  qed (use draft u in simp)
  then show ?thesis using draft by simp
qed


text \<open>
  No request writes a counting convention, so every rule keeps the default of the column and no
  snapshot is one a human approved or the engine may execute.
\<close>

lemma uncounted_rule:
  "cnr_countingConvention r = UNSPECIFIED \<Longrightarrow>
     \<not> sru_humanApproved (buildStructuredRuleForSnapshot r)
     \<and> \<not> sru_executable (buildStructuredRuleForSnapshot r)"
  by (simp add: buildStructuredRuleForSnapshot_def Let_def)

text \<open>C23: A rule reviewed and approved through the contract service is never executable: where the
  notice rules start with the default counting convention, which no request changes, the deadline
  engine blocks every calculation over every snapshot that is ever made.  The schemas of the engine
  are only assumed to keep the flag \<open>humanApproved\<close>.\<close>

theorem approved_rules_never_calculate:
  assumes "(contract_request env)\<^sup>*\<^sup>* s t" and "configOk (segregationEnabled env) (ap_db s)"
    and "uncounted (ap_db s)" and y: "y \<in> set (ct_snapshots (ap_db t))"
    and reads: "\<And>g input. sc_input (en_schemas denv) g = Inr input \<Longrightarrow>
      humanApproved (rule input) = sru_humanApproved (gi_rule g)"
      "\<And>r k. sc_rule (en_schemas denv) r = Inr k \<Longrightarrow> humanApproved k = humanApproved r"
  shows "\<not> sru_executable (csn_structuredRule y)
    \<and> status (engineResult denv (csn_structuredRule y) tr cal) = BLOCKED
    \<and> contractualDeadlineAt (engineResult denv (csn_structuredRule y) tr cal) = None"
proof -
  have "snapshotOk (ct_revisions (ap_db t)) y" "cnr_countingConvention (csn_rule y) = UNSPECIFIED"
    using contract_reachable(1)[OF assms(1,2)] contract_reachable(2)[OF assms(1,3)] y
    by (auto simp: configOk_def uncounted_def list_all_iff)
  then have off: "\<not> sru_humanApproved (csn_structuredRule y)" "\<not> sru_executable (csn_structuredRule y)"
    using uncounted_rule by (simp_all add: snapshotOk_def)
  let ?g = "engineInput denv (csn_structuredRule y) tr cal"
  show ?thesis
  proof (cases rule: calculateDeadline_cases[of "en_luxon denv" "en_schemas denv" ?g])
    case (blocked reasons tz steps)
    then show ?thesis using off(2) by (simp add: engineResult_def)
  qed (use reads off(1) in \<open>auto simp: ruleReasons_Nil engineInput_def\<close>)
qed

text \<open>C25: The structure analysis only suggests.  A refused one writes nothing.  Otherwise, whatever the
  documents say and the model answers, it appends suggestions that wait for a review, machine-suggested
  clauses, obligations and notice rules, and open issues, records one run over the documents of the
  package, sets the status of this package to \<open>REVIEW_REQUIRED\<close>, and leaves everything else of every
  table as it was: no revision, snapshot, decision or document, and of the packages neither the current
  revision nor another column.\<close>

theorem analysis_only_suggests:
  assumes "startDeterministicStructureAnalysis env ids cid pid nid s = (r, t)"
    and "ids T_RUN (length (ct_runs (ap_db s))) \<notin> crn_id ` set (ct_runs (ap_db s))"
  shows "case r of Inl e \<Rightarrow> ap_db t = ap_db s
    | Inr (i, n, k) \<Rightarrow> \<exists>run sugs cls obs rls iss.
        ap_db t = (ap_db s)\<lparr>
          ct_packages := map (\<lambda>p. if cpk_id p = nid then p\<lparr>cpk_status := CP_REVIEW_REQUIRED\<rparr> else p)
            (ct_packages (ap_db s)),
          ct_runs := ct_runs (ap_db s) @ [run],
          ct_suggestions := ct_suggestions (ap_db s) @ sugs, ct_clauses := ct_clauses (ap_db s) @ cls,
          ct_obligations := ct_obligations (ap_db s) @ obs, ct_rules := ct_rules (ap_db s) @ rls,
          ct_issues := ct_issues (ap_db s) @ iss\<rparr>
        \<and> list_all (\<lambda>x. csg_status x = SU_PENDING_REVIEW) sugs
        \<and> list_all (\<lambda>x. ccl_reviewStatus x = CL_MACHINE_SUGGESTED) cls
        \<and> list_all (\<lambda>x. cob_reviewStatus x = RV_MACHINE_SUGGESTED) obs
        \<and> list_all (\<lambda>x. cnr_reviewStatus x = RV_MACHINE_SUGGESTED \<and> cnr_countingConvention x = UNSPECIFIED) rls
        \<and> list_all (\<lambda>x. cis_status x = IU_OPEN) iss
        \<and> crn_id run = i \<and> crn_contractPackageId run = nid \<and> crn_projectId run = pid
        \<and> crn_status run = RN_SUCCEEDED \<and> crn_suggestionCount run = n
        \<and> crn_sourceDocumentVersions run = map cdc_documentVersionId
            (filter (\<lambda>x. cdc_contractPackageId x = nid) (ct_documents (ap_db s)))"
proof (cases r)
  case (Inl e)
  then show ?thesis using analysis_refused[of env ids cid pid nid s e t] assms(1) by simp
next
  case (Inr y)
  obtain run sugs cls obs rls iss where rows: "unreviewed sugs cls obs rls iss"
    and run: "crn_id run = fst y" "crn_projectId run = pid" "crn_contractPackageId run = nid"
      "crn_sourceDocumentVersions run = map cdc_documentVersionId
         (filter (\<lambda>x. cdc_contractPackageId x = nid) (ct_documents (ap_db s)))"
      "fst y = ids T_RUN (length (ct_runs (ap_db s)))"
    and t: "ap_db t = analysed nid (updateWhere (\<lambda>r. crn_id r = fst y) (finishedRun env (fst (snd y)))
         (ct_runs (ap_db s) @ [run])) sugs cls obs rls iss (ap_db s)"
    using analysis_effect[OF assms(1)[unfolded Inr]] by blast
  have "map (\<lambda>r. if crn_id r = fst y then f r else r) (ct_runs (ap_db s)) = ct_runs (ap_db s)" for f
    using assms(2) run(5) by (intro map_idI) force
  then have "updateWhere (\<lambda>r. crn_id r = fst y) f (ct_runs (ap_db s) @ [run]) = ct_runs (ap_db s) @ [f run]" for f
    using run(1) by (simp add: updateWhere_def)
  then have "ap_db t = analysed nid (ct_runs (ap_db s) @ [finishedRun env (fst (snd y)) run]) sugs cls obs rls iss (ap_db s)"
    using t by simp
  then show ?thesis
    using rows run Inr unfolding analysed_def unreviewed_def markedForReview_def
    by (cases y) (auto intro!: exI[of _ "finishedRun env (fst (snd y)) run"] exI[of _ sugs] exI[of _ cls]
      exI[of _ obs] exI[of _ rls] exI[of _ iss] simp: finishedRun_def)
qed

section \<open>A package of the first project\<close>

definition demo_env_contracts :: contracts_env where
  "demo_env_contracts = \<lparr>cev_sod = None, cev_aiProvider = None, cev_appEnv = None, cev_nodeEnv = None,
     cev_now = 9, cev_sha = (\<lambda>_. ''sum''), cev_isUuid = (\<lambda>_. True)\<rparr>"

definition demo_contract :: contract_package where
  "demo_contract = \<lparr>cpk_id = ''k1'', cpk_tenantId = ''A'', cpk_projectId = ''p1'',
     cpk_input = \<lparr>ppi_name = ''Main contract'', ppi_description = None, ppi_contractReference = None,
       ppi_contractFormFamily = None, ppi_contractFormEdition = None, ppi_governingLaw = None,
       ppi_jurisdiction = None\<rparr>,
     cpk_status = CP_REVIEW_REQUIRED, cpk_currentRevisionId = None, cpk_createdByUserId = ''u7''\<rparr>"

definition demo_place :: evidence_place where
  "demo_place = \<lparr>epl_segmentId = None, epl_locator = None\<rparr>"

definition demo_notice_rule :: "string \<Rightarrow> rule_review \<Rightarrow> notice_rule" where
  "demo_notice_rule i st = \<lparr>cnr_id = i, cnr_tenantId = ''A'', cnr_projectId = ''p1'',
     cnr_contractPackageId = ''k1'', cnr_obligationId = ''o1'', cnr_noticeCategory = None,
     cnr_triggerBasis = None, cnr_durationValue = Some 28, cnr_durationUnit = Some CALENDAR_DAY,
     cnr_calendarBasis = Some CALENDAR_DAYS, cnr_countingConvention = UNSPECIFIED,
     cnr_startDateRule = None, cnr_endDateRule = None, cnr_businessDayAdjustment = None,
     cnr_recipientRequirements = None, cnr_deliveryMethodRequirements = None,
     cnr_contentRequirements = None, cnr_consequenceText = None,
     cnr_timeBarClassification = EXPRESS_TIME_BAR, cnr_ambiguityStatus = AM_CLEAR,
     cnr_reviewStatus = st, cnr_place = demo_place\<rparr>"

definition demo_config :: "string \<Rightarrow> nat \<Rightarrow> revision_status \<Rightarrow> string option \<Rightarrow> configuration_revision" where
  "demo_config i n st by = \<lparr>crv_id = i, crv_tenantId = ''A'', crv_projectId = ''p1'',
     crv_contractPackageId = ''k1'', crv_revisionNumber = n, crv_status = st, crv_summary = ''S'',
     crv_basedOnDocumentVersions = [], crv_isActiveApproved = (st = RS_APPROVED),
     crv_createdByUserId = ''u7'', crv_submittedByUserId = Some ''u7'', crv_submittedAt = Some 1,
     crv_approvedByUserId = by, crv_approvedAt = map_option (\<lambda>_. 2) by,
     crv_supersedesRevisionId = None\<rparr>"

definition demo_contracts :: contracts_db where
  "demo_contracts = \<lparr>ct_packages = [demo_contract], ct_sources = [], ct_versions = [], ct_segments = [],
     ct_documents = [], ct_runs = [], ct_suggestions = [], ct_clauses = [], ct_textRevisions = [],
     ct_obligations = [],
     ct_rules = [demo_notice_rule ''w1'' RV_VERIFIED, demo_notice_rule ''w2'' RV_MACHINE_SUGGESTED],
     ct_issues = [],
     ct_revisions = [demo_config ''g1'' 1 RS_APPROVED (Some ''u8''), demo_config ''g2'' 2 RS_IN_REVIEW None],
     ct_snapshots = [], ct_decisions = []\<rparr>"

lemma demo_configOk: "configOk sod demo_contracts" "uncounted demo_contracts"
  by (auto simp: configOk_def uncounted_def revisionsOk_def activesOk_def approverOk_def demo_contracts_def
      demo_config_def demo_contract_def packageIds_def packageId_def revisionOwner_def demo_notice_rule_def)

definition demo_ids :: id_source where
  "demo_ids t n = (case t of T_REVISION \<Rightarrow> ''g9'' | _ \<Rightarrow> ''x9'')"

text \<open>The owner approves the revision that waits for it: the active one is superseded.\<close>

lemma demo_contract_granted: "granted (demo_app d) ''p1'' (ContractCap c) demo_ctx"
proof -
  have "ContractCap c \<in> resolveCapabilities TENANT_OWNER None (Some P_ACTIVE)"
    by (cases c) (simp_all add: mem_resolve capabilitiesForTenantRole_def CAPABILITIES_def
      MUTATING_PROJECT_CAPABILITIES_def CONTRACT_MANAGE_def CONTRACT_REVIEW_def CONTRACT_APPROVE_def
      DOCUMENT_MANAGE_def DOCUMENT_CONTRIBUTE_def EVENT_DEADLINE_def DOCUMENT_READ_def)
  then show ?thesis
    by (rule demo_granted[where l = "[]"]) (simp add: demo_app_def demo_state_def)
qed

lemma demo_config_rows [simp]:
  "findRevision ''A'' ''p1'' ''k1'' ''g2'' demo_contracts = Some (demo_config ''g2'' 2 RS_IN_REVIEW None)"
  "ct_revisions demo_contracts = [demo_config ''g1'' 1 RS_APPROVED (Some ''u8''), demo_config ''g2'' 2 RS_IN_REVIEW None]"
  "crv_id (demo_config i n st by) = i" "crv_status (demo_config i n st by) = st"
  "crv_createdByUserId (demo_config i n st by) = ''u7''" "crv_tenantId (demo_config i n st by) = ''A''"
  "crv_submittedByUserId (demo_config i n st by) = Some ''u7''"
  "crv_contractPackageId (demo_config i n st by) = ''k1''" "crv_approvedByUserId (demo_config i n st by) = by"
  "crv_isActiveApproved (demo_config i n st by) \<longleftrightarrow> st = RS_APPROVED"
  by (simp_all add: findRevision_def demo_contracts_def demo_config_def)

lemma demo_parts [simp]:
  "ct_packages demo_contracts = [demo_contract]" "cpk_id demo_contract = ''k1''"
  "cpk_tenantId demo_contract = ''A''" "cpk_projectId demo_contract = ''p1''" "ct_snapshots demo_contracts = []"
  "ct_segments demo_contracts = []" "ct_issues demo_contracts = []" "ct_decisions demo_contracts = []"
  "ct_rules demo_contracts = [demo_notice_rule ''w1'' RV_VERIFIED, demo_notice_rule ''w2'' RV_MACHINE_SUGGESTED]"
  "cnr_contractPackageId (demo_notice_rule i st) = ''k1''" "cnr_tenantId (demo_notice_rule i st) = ''A''"
  "cnr_projectId (demo_notice_rule i st) = ''p1''" "cnr_reviewStatus (demo_notice_rule i st) = st"
  "cnr_durationUnit (demo_notice_rule i st) = Some CALENDAR_DAY"
  "segregationEnabled demo_env_contracts"
  by (simp_all add: demo_contracts_def demo_contract_def demo_notice_rule_def segregationEnabled_def
      demo_env_contracts_def)

lemma demo_triggers [simp]:
  "revisionTrigger (demo_config i n RS_APPROVED by) (supersededRevision (demo_config i n RS_APPROVED by))"
  "revisionTrigger (demo_config i n RS_IN_REVIEW by) (approvedConfiguration env ctx (demo_config i n RS_IN_REVIEW by))"
  by (simp_all add: revisionTrigger_def supersededRevision_def)

definition approvalsOf :: "contracts_db \<Rightarrow> (string \<times> revision_status \<times> bool \<times> string option) list" where
  "approvalsOf d = map (\<lambda>r. (crv_id r, crv_status r, crv_isActiveApproved r, crv_approvedByUserId r))
     (ct_revisions d)"

lemma demo_approval:
  "\<exists>x t. approveConfigurationRevision demo_env_contracts demo_ids ''p1'' ''k1'' ''g2'' (demo_app demo_contracts)
       = (Inr x, t)
     \<and> approvalsOf (ap_db t) = [(''g1'', RS_SUPERSEDED, False, Some ''u8''), (''g2'', RS_APPROVED, True, Some ''u1'')]
     \<and> map csn_rule (ct_snapshots (ap_db t)) = [demo_notice_rule ''w1'' RV_VERIFIED]"
  unfolding approveConfigurationRevision_def projectAction_run[OF demo_contract_granted]
  by (simp add: bindH_def thenH_def transactionH_def updateRevisions_def setPackage_def
      createDecision_def createRow_def snapshots_rules approvableRules_def approvalsOf_def del: One_nat_def)

lemma demo_approved_once:
  obtains t where "contract_request demo_env_contracts (demo_app demo_contracts) t"
    "approvalsOf (ap_db t) = [(''g1'', RS_SUPERSEDED, False, Some ''u8''), (''g2'', RS_APPROVED, True, Some ''u1'')]"
    "map csn_rule (ct_snapshots (ap_db t)) = [demo_notice_rule ''w1'' RV_VERIFIED]"
proof -
  obtain x t where run: "approveConfigurationRevision demo_env_contracts demo_ids ''p1'' ''k1'' ''g2''
      (demo_app demo_contracts) = (Inr x, t)" and t:
    "approvalsOf (ap_db t) = [(''g1'', RS_SUPERSEDED, False, Some ''u8''), (''g2'', RS_APPROVED, True, Some ''u1'')]"
    "map csn_rule (ct_snapshots (ap_db t)) = [demo_notice_rule ''w1'' RV_VERIFIED]"
    using demo_approval by - (elim exE conjE, rule that)
  have "demo_env_contracts\<lparr>cev_now := 9\<rparr> = demo_env_contracts" by (simp add: demo_env_contracts_def)
  then have "approveConfigurationRevision (demo_env_contracts\<lparr>cev_now := 9\<rparr>) demo_ids ''p1'' ''k1'' ''g2''
      (demo_app demo_contracts) = (Inr x, t)" using run by simp
  then have "contract_request demo_env_contracts (demo_app demo_contracts) t"
    by (rule contract_request.intros(8))
  then show thesis using t by (intro that[of t])
qed

lemma demo_reached:
  obtains t where "(contract_request demo_env_contracts)\<^sup>*\<^sup>* (demo_app demo_contracts) t"
    "approvalsOf (ap_db t) = [(''g1'', RS_SUPERSEDED, False, Some ''u8''), (''g2'', RS_APPROVED, True, Some ''u1'')]"
    "map csn_rule (ct_snapshots (ap_db t)) = [demo_notice_rule ''w1'' RV_VERIFIED]"
  by (rule demo_approved_once) (rule that, rule r_into_rtranclp)

lemma one_active_configuration_witness:
  "\<exists>t r. (contract_request demo_env_contracts)\<^sup>*\<^sup>* (demo_app demo_contracts) t
     \<and> crv_id r = ''g2'' \<and> crv_approvedByUserId r = Some ''u1'' \<and> crv_createdByUserId r \<noteq> ''u1''
     \<and> filter (\<lambda>q. crv_contractPackageId q = crv_contractPackageId r
        \<and> (crv_isActiveApproved q \<or> crv_status q = RS_APPROVED)) (ct_revisions (ap_db t)) = [r]"
proof -
  obtain t where t: "(contract_request demo_env_contracts)\<^sup>*\<^sup>* (demo_app demo_contracts) t"
    "approvalsOf (ap_db t) = [(''g1'', RS_SUPERSEDED, False, Some ''u8''), (''g2'', RS_APPROVED, True, Some ''u1'')]"
    by (rule demo_reached)
  then have "(''g2'', RS_APPROVED, True, Some ''u1'') \<in> set (approvalsOf (ap_db t))" by simp
  then obtain r where r: "r \<in> set (ct_revisions (ap_db t))" "crv_id r = ''g2''" "crv_isActiveApproved r"
    "crv_approvedByUserId r = Some ''u1''"
    by (auto simp: approvalsOf_def)
  then show ?thesis
    using one_active_configuration[OF t(1) _ r(1,3)] demo_configOk(1) t(1)
    by (intro exI[of _ t] exI[of _ r]) auto
qed

lemma snapshots_of_approved_rules_witness:
  "\<exists>t ys. contract_request demo_env_contracts (demo_app demo_contracts) t \<and> ct_snapshots (ap_db t) = ys
     \<and> map csn_rule ys = [demo_notice_rule ''w1'' RV_VERIFIED]
     \<and> (\<exists>x\<in>set (ct_revisions demo_contracts). copiesRules demo_contracts x ys)"
proof -
  obtain t where t: "contract_request demo_env_contracts (demo_app demo_contracts) t"
    "map csn_rule (ct_snapshots (ap_db t)) = [demo_notice_rule ''w1'' RV_VERIFIED]"
    by (rule demo_approved_once)
  from snapshots_of_approved_rules[OF rtranclp.rtrancl_refl _ t(1)] demo_configOk(1)
  have "ct_snapshots (ap_db t) = [] \<or> (\<exists>x\<in>set (ct_revisions demo_contracts). copiesRules demo_contracts x (ct_snapshots (ap_db t)))"
    by auto
  then show ?thesis using t by (intro exI[of _ t] exI[of _ "ct_snapshots (ap_db t)"]) auto
qed

text \<open>A schema record that keeps the flag: the rule of the snapshot as the engine reads it.\<close>

definition readRule :: "structured_rule \<Rightarrow> executable_rule" where
  "readRule r = demoRule\<lparr>humanApproved := sru_humanApproved r, counting := sru_counting r\<rparr>"

definition snapshot_env :: "(int, structured_rule) deadlines_env" where
  "snapshot_env = \<lparr>en_luxon = dayLuxon, en_schemas = \<lparr>sc_input = (\<lambda>g. Inr \<lparr>rule = readRule (gi_rule g),
       triggerDateIso = gi_triggerDateIso g, triggerPrecision = gi_triggerPrecision g,
       calendar = gi_calendar g, internalWarningOffsetsDays = []\<rparr>), sc_rule = Inr, sc_calendar = Inr\<rparr>,
     en_keysOf = (\<lambda>_. Some [''durationUnit'', ''counting'']), en_now = 50,
     en_parseDate = (\<lambda>x. Some (int (length x))), en_isoOf = (\<lambda>n. replicate (nat n) (CHR ''I'')),
     en_calculationSod = None, en_calendarSod = None\<rparr>"

lemma approved_rules_never_calculate_witness:
  "\<exists>t y. (contract_request demo_env_contracts)\<^sup>*\<^sup>* (demo_app demo_contracts) t \<and> ct_snapshots (ap_db t) = [y]
     \<and> csn_rule y = demo_notice_rule ''w1'' RV_VERIFIED
     \<and> status (engineResult snapshot_env (csn_structuredRule y) demo_date demo_revision) = BLOCKED"
proof -
  obtain t where t: "(contract_request demo_env_contracts)\<^sup>*\<^sup>* (demo_app demo_contracts) t"
    "map csn_rule (ct_snapshots (ap_db t)) = [demo_notice_rule ''w1'' RV_VERIFIED]"
    by (rule demo_reached)
  then obtain y where y: "ct_snapshots (ap_db t) = [y]" "csn_rule y = demo_notice_rule ''w1'' RV_VERIFIED" by auto
  have reads: "sc_input (en_schemas snapshot_env) g = Inr input \<Longrightarrow>
      humanApproved (rule input) = sru_humanApproved (gi_rule g)"
    "sc_rule (en_schemas snapshot_env) q = Inr k \<Longrightarrow> humanApproved k = humanApproved q" for g input q k
    by (auto simp: snapshot_env_def readRule_def)
  have "status (engineResult snapshot_env (csn_structuredRule y) demo_date demo_revision) = BLOCKED"
    using approved_rules_never_calculate[where denv = snapshot_env and y = y, OF t(1) _ _ _ reads]
      demo_configOk y(1) by simp
  then show ?thesis using t(1) y by blast
qed

lemma demo_supersession:
  "\<exists>c n t. supersedeApprovedConfiguration (\<lambda>x :: string. Inr None) demo_ids ''p1'' ''k1'' ''{}''
      (demo_app demo_contracts) = (Inr (c, n), t)"
  unfolding supersedeApprovedConfiguration_def
  by (subst projectService_run[OF demo_contract_granted, where data = None], simp)
    (simp add: bindH_def thenH_def transactionH_def updateRevisions_def setPackage_def findActive_def
      createRow_def createRevision_def packageGuard_def del: One_nat_def)

lemma replacement_draft_is_stuck_witness:
  "\<exists>c n t. supersedeApprovedConfiguration (\<lambda>x :: string. Inr None) demo_ids ''p1'' ''k1'' ''{}''
      (demo_app demo_contracts) = (Inr (c, n), t)
     \<and> crv_status n = RS_DRAFT \<and> n \<in> set (ct_revisions (ap_db t))"
proof -
  obtain c n t where run: "supersedeApprovedConfiguration (\<lambda>x :: string. Inr None) demo_ids ''p1'' ''k1'' ''{}''
      (demo_app demo_contracts) = (Inr (c, n), t)" using demo_supersession by blast
  have "demo_ids T_REVISION (length (ct_revisions (ap_db (demo_app demo_contracts))))
      \<notin> crv_id ` set (ct_revisions (ap_db (demo_app demo_contracts)))"
    by (simp add: demo_ids_def)
  from replacement_draft_is_stuck[where env = demo_env_contracts, OF run this _ rtranclp.rtrancl_refl] demo_configOk(1)
  show ?thesis using run by auto
qed

text \<open>The analysis of a document without text leaves an issue.\<close>

definition demo_unread :: contracts_db where
  "demo_unread = demo_contracts\<lparr>ct_documents := [\<lparr>cdc_id = ''c1'', cdc_tenantId = ''A'',
     cdc_projectId = ''p1'', cdc_contractPackageId = ''k1'', cdc_sourceDocumentId = ''s1'',
     cdc_documentVersionId = ''v1'', cdc_contractDocumentType = ''AGREEMENT'', cdc_title = ''T'',
     cdc_reference = None, cdc_language = ''EN'', cdc_precedenceRank = None,
     cdc_status = ''REVIEW_REQUIRED'', cdc_isExecuted = False, cdc_isCurrent = True\<rparr>]\<rparr>"

lemma demo_analysis:
  "\<exists>x t. startDeterministicStructureAnalysis demo_env_contracts demo_ids ''c'' ''p1'' ''k1''
       (demo_app demo_unread) = (Inr x, t)
     \<and> map cis_category (ct_issues (ap_db t)) = [IS_UNREADABLE_CLAUSE]"
  unfolding startDeterministicStructureAnalysis_def projectAction_run[OF demo_contract_granted]
  by (simp add: bindH_def thenH_def transactionH_def createRow_def findContractPackage_def Let_def
      demo_unread_def analyzeDocument_def segmentsOf_def documentText_def trimUnits_def createIssue_def
      del: One_nat_def)

lemma analysis_only_suggests_witness:
  "\<exists>i n k t. startDeterministicStructureAnalysis demo_env_contracts demo_ids ''c'' ''p1'' ''k1''
       (demo_app demo_unread) = (Inr (i, n, k), t) \<and> map cis_status (ct_issues (ap_db t)) = [IU_OPEN]
     \<and> ct_packages (ap_db t) = [demo_contract] \<and> map crn_status (ct_runs (ap_db t)) = [RN_SUCCEEDED]
     \<and> ct_revisions (ap_db t) = ct_revisions demo_contracts"
proof -
  obtain i n k t where run: "startDeterministicStructureAnalysis demo_env_contracts demo_ids ''c'' ''p1'' ''k1''
      (demo_app demo_unread) = (Inr (i, n, k), t)" and t: "map cis_category (ct_issues (ap_db t)) = [IS_UNREADABLE_CLAUSE]"
  proof -
    show thesis using demo_analysis by - (elim exE conjE, case_tac x, rule that, simp, assumption)
  qed
  have demo: "ct_runs demo_unread = []" "ct_issues demo_unread = []" "ct_packages demo_unread = [demo_contract]"
    "ct_revisions demo_unread = ct_revisions demo_contracts" "demo_contract\<lparr>cpk_status := CP_REVIEW_REQUIRED\<rparr> = demo_contract"
    by (simp_all add: demo_unread_def demo_contracts_def demo_contract_def)
  obtain run iss where "ct_issues (ap_db t) = iss" "list_all (\<lambda>x. cis_status x = IU_OPEN) iss"
    "ct_packages (ap_db t) = [demo_contract]" "ct_runs (ap_db t) = [run]" "crn_status run = RN_SUCCEEDED"
    "ct_revisions (ap_db t) = ct_revisions demo_contracts"
    using analysis_only_suggests[OF run] by (auto simp: demo)
  then show ?thesis using run t by (intro exI[of _ i] exI[of _ n] exI[of _ k] exI[of _ t]) auto
qed


section \<open>Limits of the code\<close>

text \<open>The approved configuration of a package shows its notice rules of every review status, also one
  that only the analysis suggested.\<close>

lemma approved_configuration_shows_suggestions:
  "\<exists>c. getApprovedConfiguration ''p1'' ''k1'' (demo_app demo_contracts) = (Inr c, demo_app demo_contracts)
     \<and> demo_notice_rule ''w2'' RV_MACHINE_SUGGESTED \<in> set (apc_noticeRules c)"
  unfolding getApprovedConfiguration_def projectAction_run[OF demo_contract_granted]
  by (simp add: bindH_def transactionH_def findContractPackage_def findActive_def)

text \<open>The test provider is refused in the environments \<open>production\<close> and \<open>staging\<close> only, in
  lower case: the pilot runs it.\<close>

lemma fake_model_in_pilot:
  "resolveContractAiProvider (env\<lparr>cev_aiProvider := Some ''fake'', cev_appEnv := Some ''pilot''\<rparr>) s
     = (Inr (Some fakeContractProvider), s)"
  "resolveContractAiProvider (env\<lparr>cev_aiProvider := Some ''fake'', cev_appEnv := Some ''PRODUCTION''\<rparr>) s
     = (Inr (Some fakeContractProvider), s)"
  by (simp_all add: resolveContractAiProvider_def Let_def assertProviderAllowedForEnvironment_def
      productionLike_def contractAppEnv_def orText_def trim_def isSpaceChar_def thenH_def bindH_def
      requireH_def returnH_def)

text \<open>A notice period of \<open>10^8\<close> days or more does not fit its column: the whole analysis is undone.\<close>

lemma long_period_aborts:
  assumes "tm_durationValue timing = Some n" "10 ^ 8 \<le> n"
  shows "createNoticeRule ids sc i timing s = (Inl unexpectedError, s)"
  using assms by (simp add: createNoticeRule_def numericColumn_def bindH_def thenH_def requireH_def throwH_def)

end
