(* ===== verification/DocumentRules.thy ===== *)
theory DocumentRules
  imports ContractText
begin

text \<open>
  The rules of document intake (\<open>apps/web/src/server/documents\<close>,
  \<open>packages/shared/src/ingestion.ts\<close> and the buffering of
  \<open>storage/object-storage.ts\<close>): the transitions of upload sessions and documents, safe
  file names, the check of a declared upload and of the bytes that arrive, and the storage keys.
  A file name is a list of UTF-16 code units and a file is a list of bytes.
\<close>

section \<open>Status transitions\<close>

datatype upload_status =
    UP_INITIATED | UP_UPLOAD_AUTHORIZED | UP_UPLOADED | UP_VALIDATING | UP_ACCEPTED | UP_REJECTED
    | UP_EXPIRED | UP_CANCELLED | UP_FAILED

datatype source_status =
    SC_UPLOADING | SC_RECEIVED | SC_QUARANTINED | SC_PROCESSING | SC_READY | SC_PARTIALLY_PROCESSED
    | SC_FAILED | SC_REJECTED | SC_SUPERSEDED | SC_ARCHIVED

fun UPLOAD_SESSION_TRANSITIONS :: "upload_status \<Rightarrow> upload_status list" where
  "UPLOAD_SESSION_TRANSITIONS UP_INITIATED = [UP_UPLOAD_AUTHORIZED, UP_CANCELLED, UP_FAILED, UP_EXPIRED]"
| "UPLOAD_SESSION_TRANSITIONS UP_UPLOAD_AUTHORIZED = [UP_UPLOADED, UP_CANCELLED, UP_FAILED, UP_EXPIRED]"
| "UPLOAD_SESSION_TRANSITIONS UP_UPLOADED = [UP_VALIDATING, UP_FAILED, UP_EXPIRED]"
| "UPLOAD_SESSION_TRANSITIONS UP_VALIDATING = [UP_ACCEPTED, UP_REJECTED, UP_FAILED]"
| "UPLOAD_SESSION_TRANSITIONS UP_ACCEPTED = []"
| "UPLOAD_SESSION_TRANSITIONS UP_REJECTED = []"
| "UPLOAD_SESSION_TRANSITIONS UP_EXPIRED = []"
| "UPLOAD_SESSION_TRANSITIONS UP_CANCELLED = []"
| "UPLOAD_SESSION_TRANSITIONS UP_FAILED = []"

fun SOURCE_DOCUMENT_TRANSITIONS :: "source_status \<Rightarrow> source_status list" where
  "SOURCE_DOCUMENT_TRANSITIONS SC_UPLOADING = [SC_RECEIVED, SC_QUARANTINED, SC_REJECTED, SC_FAILED]"
| "SOURCE_DOCUMENT_TRANSITIONS SC_RECEIVED = [SC_QUARANTINED, SC_PROCESSING, SC_REJECTED, SC_FAILED]"
| "SOURCE_DOCUMENT_TRANSITIONS SC_QUARANTINED = [SC_PROCESSING, SC_REJECTED, SC_FAILED]"
| "SOURCE_DOCUMENT_TRANSITIONS SC_PROCESSING = [SC_READY, SC_PARTIALLY_PROCESSED, SC_FAILED]"
| "SOURCE_DOCUMENT_TRANSITIONS SC_READY = [SC_SUPERSEDED, SC_ARCHIVED]"
| "SOURCE_DOCUMENT_TRANSITIONS SC_PARTIALLY_PROCESSED = [SC_READY, SC_PROCESSING, SC_FAILED, SC_ARCHIVED]"
| "SOURCE_DOCUMENT_TRANSITIONS SC_FAILED = [SC_PROCESSING, SC_ARCHIVED, SC_REJECTED]"
| "SOURCE_DOCUMENT_TRANSITIONS SC_REJECTED = [SC_ARCHIVED]"
| "SOURCE_DOCUMENT_TRANSITIONS SC_SUPERSEDED = [SC_ARCHIVED]"
| "SOURCE_DOCUMENT_TRANSITIONS SC_ARCHIVED = []"

definition canTransitionUploadSession :: "upload_status \<Rightarrow> upload_status \<Rightarrow> bool" where
  "canTransitionUploadSession old new \<longleftrightarrow> new \<in> set (UPLOAD_SESSION_TRANSITIONS old)"

definition canTransitionSourceDocument :: "source_status \<Rightarrow> source_status \<Rightarrow> bool" where
  "canTransitionSourceDocument old new \<longleftrightarrow> new \<in> set (SOURCE_DOCUMENT_TRANSITIONS old)"

fun upload_status_name :: "upload_status \<Rightarrow> string" where
  "upload_status_name UP_INITIATED = ''INITIATED''"
| "upload_status_name UP_UPLOAD_AUTHORIZED = ''UPLOAD_AUTHORIZED''"
| "upload_status_name UP_UPLOADED = ''UPLOADED''"
| "upload_status_name UP_VALIDATING = ''VALIDATING''"
| "upload_status_name UP_ACCEPTED = ''ACCEPTED''"
| "upload_status_name UP_REJECTED = ''REJECTED''"
| "upload_status_name UP_EXPIRED = ''EXPIRED''"
| "upload_status_name UP_CANCELLED = ''CANCELLED''"
| "upload_status_name UP_FAILED = ''FAILED''"

section \<open>File names\<close>

definition DANGEROUS_EXTENSIONS :: "string list" where
  "DANGEROUS_EXTENSIONS = [''exe'', ''bat'', ''cmd'', ''com'', ''msi'', ''scr'', ''js'', ''jar'',
     ''ps1'', ''sh'', ''dll'', ''vbs'']"

definition controlUnit :: "nat \<Rightarrow> bool" where
  "controlUnit c \<longleftrightarrow> c < 32 \<or> c = 127"

definition separatorUnit :: "nat \<Rightarrow> bool" where
  "separatorUnit c \<longleftrightarrow> c = 47 \<or> c = 92"

text \<open>\<open>replace(/\.\.+/g, '.')\<close>.\<close>

fun collapseDots :: "bool \<Rightarrow> units \<Rightarrow> units" where
  "collapseDots after [] = []"
| "collapseDots after (c # cs) =
     (if c = 46 then (if after then collapseDots True cs else 46 # collapseDots True cs)
      else c # collapseDots False cs)"

definition baseName :: "units \<Rightarrow> units" where
  "baseName t = (let parts = filter (\<lambda>p. p \<noteq> []) (splitOn separatorUnit t)
     in if parts = [] then units ''upload'' else last parts)"

definition normalizeFilename :: "units \<Rightarrow> units" where
  "normalizeFilename raw =
     (let withoutControls = trimUnits (filter (\<lambda>c. \<not> controlUnit c) raw);
        base = baseName withoutControls;
        cleaned = trimUnits (squeezeSpaces False (dropWhile (\<lambda>c. c = 46) (collapseDots False base)));
        cut = take 180 cleaned
      in if cut = [] then units ''upload'' else cut)"

text \<open>\<open>lastIndexOf('.')\<close>.\<close>

definition lastDot :: "units \<Rightarrow> nat option" where
  "lastDot t = (if 46 \<in> set t then Some (length t - 1 - length (takeWhile (\<lambda>c. c \<noteq> 46) (rev t)))
     else None)"

definition extractExtension :: "units \<Rightarrow> units" where
  "extractExtension filename =
     (let normalized = normalizeFilename filename
      in case lastDot normalized of None \<Rightarrow> []
         | Some idx \<Rightarrow> if idx = 0 \<or> idx = length normalized - 1 then []
             else lowerText (drop (idx + 1) normalized))"

definition hasDoubleDot :: "units \<Rightarrow> bool" where
  "hasDoubleDot t \<longleftrightarrow> (\<exists>i\<in>{..<length t - 1}. t ! i = 46 \<and> t ! Suc i = 46)"

definition assertSafeFilename :: "units \<Rightarrow> string + units \<times> units" where
  "assertSafeFilename raw =
     (if trimUnits raw = [] then Inl ''FILENAME_REQUIRED''
      else if 0 \<in> set raw \<or> hasDoubleDot raw then Inl ''FILENAME_UNSAFE''
      else (let normalized = normalizeFilename raw; extension = extractExtension normalized
        in if extension \<in> set (map units DANGEROUS_EXTENSIONS) then Inl ''FILENAME_EXECUTABLE_REJECTED''
           else Inr (normalized, extension)))"

section \<open>The policy on declared uploads\<close>

definition DOCX_TYPE :: string where
  "DOCX_TYPE = ''application/vnd.openxmlformats-officedocument.wordprocessingml.document''"

definition XLSX_TYPE :: string where
  "XLSX_TYPE = ''application/vnd.openxmlformats-officedocument.spreadsheetml.sheet''"

definition EXTENSION_MEDIA_TYPE :: "(string \<times> string) list" where
  "EXTENSION_MEDIA_TYPE =
    [(''pdf'', ''application/pdf''), (''docx'', DOCX_TYPE), (''xlsx'', XLSX_TYPE),
     (''csv'', ''text/csv''), (''txt'', ''text/plain''), (''eml'', ''message/rfc822''),
     (''xml'', ''application/xml''), (''xer'', ''text/plain''), (''png'', ''image/png''),
     (''jpg'', ''image/jpeg''), (''jpeg'', ''image/jpeg''), (''tif'', ''image/tiff''),
     (''tiff'', ''image/tiff'')]"

definition mediaTypeOf :: "units \<Rightarrow> string option" where
  "mediaTypeOf extension = map_of (map (\<lambda>(k, v). (units k, v)) EXTENSION_MEDIA_TYPE) extension"

text \<open>
  Indexing an object with one of these lower-case names finds a member of \<open>Object.prototype\<close>:
  \<open>expected\<close> is then no string, and \<open>expected.startsWith\<close> is no function.
\<close>

definition inheritedNames :: "string list" where
  "inheritedNames = [''constructor'', ''__proto__'']"

text \<open>A text of code units as the bytes of a message.\<close>

fun unitPoints :: "units \<Rightarrow> nat list" where
  "unitPoints [] = []"
| "unitPoints [c] = [c]"
| "unitPoints (c # d # cs) =
     (if 55296 \<le> c \<and> c < 56320 \<and> 56320 \<le> d \<and> d < 57344
      then (65536 + (c - 55296) * 1024 + (d - 56320)) # unitPoints cs
      else c # unitPoints (d # cs))"

definition unitsText :: "units \<Rightarrow> string" where
  "unitsText t = utf8 (unitPoints t)"

text \<open>The third case is an upload that passes with a media type that is no string.\<close>

datatype file_policy =
    FP_OK units units string
  | FP_NO string string
  | FP_OBJECT units units
  | FP_THROWS

definition maxUploadBytes :: int where
  "maxUploadBytes = 50 * 1024 * 1024"

definition declaredTypeOk :: "string \<Rightarrow> string \<Rightarrow> bool" where
  "declaredTypeOk expected declared \<longleftrightarrow> declared = [] \<or> declared = expected
     \<or> (expected = ''text/plain'' \<and> startsWith declared ''text/'')
     \<or> (expected = ''application/xml'' \<and> includesStr declared ''xml'')
     \<or> (startsWith expected ''image/'' \<and> declared = ''application/octet-stream'')
     \<or> declared = ''application/octet-stream''"

definition declaredType :: "units \<Rightarrow> units \<Rightarrow> string \<Rightarrow> file_policy" where
  "declaredType normalized extension declared =
     (if extension = units ''msg'' then FP_NO ''FORMAT_UNSUPPORTED''
        ''MSG files are not supported in this release. Export as EML or PDF.''
      else case mediaTypeOf extension of
        None \<Rightarrow>
          if extension \<in> set (map units inheritedNames)
          then if declared = [] then FP_OBJECT normalized extension else FP_THROWS
          else FP_NO ''FORMAT_UNSUPPORTED'' (''Extension .''
            @ (if extension = [] then ''(none)'' else unitsText extension) @ '' is not supported for upload.'')
      | Some expected \<Rightarrow>
          if declaredTypeOk expected declared then FP_OK normalized extension expected
          else FP_NO ''MEDIA_TYPE_MISMATCH'' ''Declared media type does not match file extension.'')"

definition validateDeclaredUpload :: "units \<Rightarrow> string \<Rightarrow> int \<Rightarrow> int option \<Rightarrow> file_policy" where
  "validateDeclaredUpload filename declaredMediaType declaredSizeBytes maxBytesOption =
     (let maxBytes = (case maxBytesOption of None \<Rightarrow> maxUploadBytes | Some m \<Rightarrow> m)
      in if declaredSizeBytes \<le> 0 then FP_NO ''ZERO_BYTE'' ''File size must be greater than zero.''
         else if declaredSizeBytes > maxBytes then FP_NO ''TOO_LARGE''
           (''File exceeds maximum size of '' @ showInt maxBytes @ '' bytes.'')
         else case assertSafeFilename filename of
           Inl code \<Rightarrow> FP_NO code ''Filename is not allowed.''
         | Inr (normalized, extension) \<Rightarrow> declaredType normalized extension declaredMediaType)"

section \<open>The bytes of a file\<close>

type_synonym bytes = "nat list"

definition ZIP_TYPE :: string where
  "ZIP_TYPE = ''application/zip''"

definition OCTET_TYPE :: string where
  "OCTET_TYPE = ''application/octet-stream''"

definition MAGIC :: "(string \<times> bytes) list" where
  "MAGIC = [(''application/pdf'', [37, 80, 68, 70]), (''image/png'', [137, 80, 78, 71]),
     (''image/jpeg'', [255, 216, 255]), (''image/tiff'', [73, 73, 42, 0]),
     (''image/tiff'', [77, 77, 0, 42]), (ZIP_TYPE, [80, 75, 3, 4])]"

definition signatureOf :: "bytes \<Rightarrow> string option" where
  "signatureOf bytes = map_option fst
     (find (\<lambda>(_, sig). length sig \<le> length bytes \<and> take (length sig) bytes = sig) MAGIC)"

definition TEXT_EXTENSIONS :: "string list" where
  "TEXT_EXTENSIONS = [''txt'', ''csv'', ''eml'', ''xml'', ''xer'']"

definition detectMediaTypeFromBytes :: "bytes \<Rightarrow> units \<Rightarrow> string \<times> bool" where
  "detectMediaTypeFromBytes bytes extension = (case signatureOf bytes of
     Some mediaType \<Rightarrow>
       if mediaType = ZIP_TYPE
       then (if extension = units ''docx'' then (DOCX_TYPE, True)
             else if extension = units ''xlsx'' then (XLSX_TYPE, True) else (ZIP_TYPE, True))
       else (mediaType, True)
   | None \<Rightarrow>
       if extension \<in> set (map units TEXT_EXTENSIONS)
       then (orText (mediaTypeOf extension) ''text/plain'', False)
       else (OCTET_TYPE, False))"

definition assertMagicMatchesPolicy :: "bytes \<Rightarrow> units \<Rightarrow> string \<Rightarrow> (string \<times> string) + string" where
  "assertMagicMatchesPolicy bytes extension expected =
     (let detected = detectMediaTypeFromBytes bytes extension;
        officeZip = fst detected = ZIP_TYPE
          \<and> (includesStr expected ''wordprocessingml'' \<or> includesStr expected ''spreadsheetml'')
      in if fst detected = OCTET_TYPE
         then Inl (''SIGNATURE_UNKNOWN'', ''Could not verify file content signature.'')
         else if snd detected \<and> fst detected \<noteq> expected \<and> \<not> officeZip
         then Inl (''SIGNATURE_MISMATCH'', ''File content does not match the declared format.'')
         else if \<not> snd detected \<and> fst detected \<noteq> expected \<and> extension \<noteq> units ''xer''
         then Inl (''SIGNATURE_MISMATCH'', ''File content does not match the declared format.'')
         else Inr expected)"

text \<open>\<open>getObjectBytes\<close> reads the chunks of a body until one exceeds the limit.\<close>

fun bufferChunks :: "int \<Rightarrow> bytes \<Rightarrow> bytes list \<Rightarrow> bytes option" where
  "bufferChunks maxBytes acc [] = Some acc"
| "bufferChunks maxBytes acc (chunk # chunks) =
     (if int (length acc + length chunk) > maxBytes then None
      else bufferChunks maxBytes (acc @ chunk) chunks)"

definition getObjectBytes :: "int \<Rightarrow> bytes list option \<Rightarrow> bytes option" where
  "getObjectBytes maxBytes body = (case body of None \<Rightarrow> Some []
   | Some chunks \<Rightarrow> bufferChunks maxBytes [] chunks)"

section \<open>Storage keys\<close>

definition assertNoTraversal :: "string \<Rightarrow> string option" where
  "assertNoTraversal part =
     (if part = [] \<or> includesStr part ''..'' \<or> includesStr part ''/'' \<or> includesStr part [char_of (92 :: nat)]
      then None else Some part)"

fun checkParts :: "string list \<Rightarrow> string list option" where
  "checkParts [] = Some []"
| "checkParts (p # ps) = (case assertNoTraversal p of None \<Rightarrow> None
   | Some q \<Rightarrow> map_option (\<lambda>qs. q # qs) (checkParts ps))"

text \<open>Both keys end in 32 hexadecimal digits, \<open>randomBytes(16)\<close>, a parameter here.\<close>

definition buildQuarantineObjectKey :: "string \<Rightarrow> string \<Rightarrow> string \<Rightarrow> string \<Rightarrow> string option" where
  "buildQuarantineObjectKey objectId tenantId projectId uploadSessionId =
     (case checkParts [tenantId, projectId, uploadSessionId] of None \<Rightarrow> None
      | Some ps \<Rightarrow> Some (joinWith ''/'' [''tenants'', ps ! 0, ''projects'', ps ! 1, ''quarantine'',
          ps ! 2, objectId]))"

definition buildOriginalObjectKey :: "string \<Rightarrow> string \<Rightarrow> string \<Rightarrow> string \<Rightarrow> string option" where
  "buildOriginalObjectKey objectId tenantId projectId documentVersionId =
     (case checkParts [tenantId, projectId, documentVersionId] of None \<Rightarrow> None
      | Some ps \<Rightarrow> Some (joinWith ''/'' [''tenants'', ps ! 0, ''projects'', ps ! 1, ''originals'',
          ps ! 2, objectId]))"

definition buildDerivedObjectKey ::
  "string \<Rightarrow> string \<Rightarrow> string \<Rightarrow> string \<Rightarrow> string \<Rightarrow> string option" where
  "buildDerivedObjectKey tenantId projectId documentVersionId processingRunId artifactId =
     (case checkParts [tenantId, projectId, documentVersionId, processingRunId, artifactId] of
        None \<Rightarrow> None
      | Some ps \<Rightarrow> Some (joinWith ''/'' [''tenants'', ps ! 0, ''projects'', ps ! 1, ''derived'',
          ps ! 2, ps ! 3, ps ! 4]))"

text \<open>\<open>deleteTemporaryObject\<close> refuses any other key.\<close>

definition mayDelete :: "string \<Rightarrow> bool" where
  "mayDelete key \<longleftrightarrow> includesStr key ''/quarantine/''"

section \<open>What a file name is after normalization\<close>

definition plainUnits :: "nat \<Rightarrow> nat \<Rightarrow> bool" where
  "plainUnits c d \<longleftrightarrow> \<not> (c = 46 \<and> d = 46)"

lemma hasDoubleDot_successively: "hasDoubleDot t \<longleftrightarrow> \<not> successively plainUnits t"
proof -
  have "(\<exists>i\<in>{..<length t - 1}. t ! i = 46 \<and> t ! Suc i = 46) \<longleftrightarrow>
      (\<exists>i. Suc i < length t \<and> t ! i = 46 \<and> t ! Suc i = 46)"
    by (auto simp: less_diff_conv)
  then show ?thesis by (simp add: hasDoubleDot_def successively_conv_nth plainUnits_def)
qed

lemma plain_append: "successively plainUnits (xs @ ys) \<Longrightarrow> successively plainUnits xs \<and> successively plainUnits ys"
  by (simp add: successively_append_iff)

lemma plain_rev: "successively plainUnits (rev t) = successively plainUnits t"
proof -
  have "(\<lambda>x y. plainUnits y x) = plainUnits" by (auto simp: plainUnits_def fun_eq_iff)
  then show ?thesis by (simp only: successively_rev)
qed

lemma plain_dropWhile: "successively plainUnits t \<Longrightarrow> successively plainUnits (dropWhile P t)"
  using plain_append[of "takeWhile P t" "dropWhile P t"] by simp

lemma plain_trim: "successively plainUnits t \<Longrightarrow> successively plainUnits (trimUnits t)"
  unfolding trimUnits_def by (simp only: plain_rev plain_dropWhile)

lemma plain_take: "successively plainUnits t \<Longrightarrow> successively plainUnits (take n t)"
  using plain_append[of "take n t" "drop n t"] by simp

lemma plain_collapse:
  "successively plainUnits (collapseDots after t) \<and> (after \<longrightarrow> collapseDots after t = [] \<or> hd (collapseDots after t) \<noteq> 46)"
  by (induction after t rule: collapseDots.induct) (auto simp: successively_Cons plainUnits_def)

lemma hd_squeeze: "t \<noteq> [] \<Longrightarrow> \<not> spaceUnit (hd t) \<Longrightarrow> hd (squeezeSpaces b t) = hd t"
  by (cases t) auto

lemma plain_squeeze:
  "successively plainUnits t \<Longrightarrow> successively plainUnits (squeezeSpaces b t)"
proof (induction b t rule: squeezeSpaces.induct)
  case (2 after c cs)
  have tail: "successively plainUnits cs" using 2(4) by (cases cs) (simp_all add: successively_Cons)
  show ?case
  proof (cases "spaceUnit c")
    case True
    then show ?thesis using 2 tail by (auto simp: successively_Cons plainUnits_def)
  next
    case False
    have "successively plainUnits (squeezeSpaces False cs)" using 2(3)[OF False tail] .
    moreover have "plainUnits c (hd (squeezeSpaces False cs))" if "squeezeSpaces False cs \<noteq> []"
    proof -
      have "cs \<noteq> []" using that by auto
      show ?thesis
      proof (cases "spaceUnit (hd cs)")
        case True
        then have "hd (squeezeSpaces False cs) = 32" using \<open>cs \<noteq> []\<close> by (cases cs) auto
        then show ?thesis by (simp add: plainUnits_def)
      next
        case nospace: False
        then show ?thesis using hd_squeeze[OF \<open>cs \<noteq> []\<close>] 2(4) \<open>cs \<noteq> []\<close> by (simp add: successively_Cons)
      qed
    qed
    ultimately show ?thesis using False
      by (cases "squeezeSpaces False cs = []") (simp_all add: successively_Cons)
  qed
qed simp

lemma set_trim: "set (trimUnits t) \<subseteq> set t"
  unfolding trimUnits_def set_rev by (metis set_dropWhileD set_rev subsetI)

lemma set_collapse: "set (collapseDots b t) \<subseteq> set t"
  by (induction b t rule: collapseDots.induct) auto

lemma set_squeeze: "set (squeezeSpaces b t) \<subseteq> insert 32 (set t)"
  by (induction b t rule: squeezeSpaces.induct) auto

lemma splitOn_pieces: "p \<in> set (splitOn P t) \<Longrightarrow> set p \<subseteq> set t \<and> (\<forall>c\<in>set p. \<not> P c)"
proof (induction t arbitrary: p)
  case (Cons c cs)
  show ?case
  proof (cases "P c \<or> splitOn P cs = []")
    case True
    then show ?thesis using Cons by (auto split: if_splits)
  next
    case False
    then obtain l ls where l: "splitOn P cs = l # ls" by (cases "splitOn P cs") auto
    then have "p = c # l \<or> p \<in> set ls" using Cons.prems False by simp
    then show ?thesis using Cons.IH[of l] Cons.IH[of p] l False by auto
  qed
qed simp

lemma upload_units: "units ''upload'' = [117, 112, 108, 111, 97, 100]"
  by (simp add: units_ascii)

lemma baseName_units: "c \<in> set (baseName t) \<Longrightarrow> (c \<in> set t \<or> c \<in> set (units ''upload'')) \<and> \<not> separatorUnit c"
proof -
  assume c: "c \<in> set (baseName t)"
  let ?parts = "filter (\<lambda>p. p \<noteq> []) (splitOn separatorUnit t)"
  show ?thesis
  proof (cases "?parts = []")
    case True
    then show ?thesis using c by (auto simp: baseName_def upload_units separatorUnit_def)
  next
    case False
    then have "last ?parts \<in> set (splitOn separatorUnit t)" using last_in_set[OF False] by simp
    moreover have "c \<in> set (last ?parts)" using c False by (simp add: baseName_def Let_def)
    ultimately show ?thesis using splitOn_pieces by blast
  qed
qed

text \<open>
  A normalized name is not empty, has at most 180 code units and no control character, path separator
  or pair of dots.
\<close>

lemma normalized_names_are_safe:
  "let name = normalizeFilename raw in name \<noteq> [] \<and> length name \<le> 180 \<and> \<not> hasDoubleDot name
     \<and> (\<forall>c\<in>set name. \<not> controlUnit c \<and> \<not> separatorUnit c)"
proof -
  define w where "w = trimUnits (filter (\<lambda>c. \<not> controlUnit c) raw)"
  define cleaned where "cleaned = trimUnits (squeezeSpaces False
    (dropWhile (\<lambda>c. c = 46) (collapseDots False (baseName w))))"
  have name: "normalizeFilename raw = (if take 180 cleaned = [] then units ''upload'' else take 180 cleaned)"
    by (simp add: normalizeFilename_def w_def cleaned_def Let_def)
  have "\<not> controlUnit c" if "c \<in> set w" for c
    using that set_trim[of "filter (\<lambda>c. \<not> controlUnit c) raw"] by (auto simp: w_def)
  then have base: "\<not> controlUnit c \<and> \<not> separatorUnit c" if "c \<in> set (baseName w)" for c
    using baseName_units[OF that] by (auto simp: upload_units controlUnit_def)
  have "set cleaned \<subseteq> insert 32 (set (baseName w))"
    using set_trim set_squeeze set_collapse unfolding cleaned_def
    by (smt (verit, best) insert_iff set_dropWhileD subset_eq)
  then have units_ok: "\<not> controlUnit c \<and> \<not> separatorUnit c" if "c \<in> set (take 180 cleaned)" for c
  proof -
    have "c = 32 \<or> c \<in> set (baseName w)" using in_set_takeD[OF that] \<open>set cleaned \<subseteq> _\<close> by blast
    then show ?thesis using base by (auto simp: controlUnit_def separatorUnit_def)
  qed
  have "successively plainUnits cleaned"
    unfolding cleaned_def using plain_collapse[of False "baseName w"]
    by (intro plain_trim plain_squeeze plain_dropWhile) simp
  then have "\<not> hasDoubleDot (take 180 cleaned)" by (simp add: hasDoubleDot_successively plain_take)
  moreover have "\<not> hasDoubleDot (units ''upload'')"
    by (simp add: hasDoubleDot_successively upload_units plainUnits_def)
  ultimately show ?thesis
    using units_ok by (auto simp: name Let_def upload_units controlUnit_def separatorUnit_def)
qed

end
