(* ===== verification/DocumentTables.thy ===== *)
theory DocumentTables
  imports Services DocumentRules ContractTables
begin

text \<open>
  The rows of documents and uploads, with the columns
  \<open>apps/web/src/server/services/documents.ts\<close> reads or writes, the ingestion events and
  the outbox (\<open>documents/ingestion-events.ts\<close>, \<open>queue/outbox.ts\<close>).  What the
  service asks of the environment during one request (the clock, the rate limiter, the object store,
  random ids, SHA-256) is the record \<open>document_env\<close>.  Tables are in the order of creation,
  and generated ids are taken to be new.
\<close>

section \<open>Rows\<close>

datatype version_upload = VU_PENDING | VU_UPLOADED | VU_VALIDATING | VU_ACCEPTED | VU_REJECTED

datatype malware_scan =
    MW_NOT_SCANNED | MW_QUEUED | MW_SCANNING | MW_CLEAN | MW_INFECTED | MW_ERROR
    | MW_SKIPPED_BY_APPROVED_POLICY

datatype version_processing =
    VP_NOT_STARTED | VP_QUEUED | VP_RUNNING | VP_SUCCEEDED | VP_PARTIALLY_SUCCEEDED | VP_FAILED
    | VP_CANCELLED

datatype segment_kind =
    SK_PAGE | SK_PARAGRAPH | SK_SECTION | SK_EMAIL_HEADER | SK_EMAIL_BODY | SK_ATTACHMENT
    | SK_SPREADSHEET_SHEET | SK_SPREADSHEET_RANGE | SK_SCHEDULE_ACTIVITY | SK_METADATA_FIELD
    | SK_LINE_CHUNK | SK_OTHER

text \<open>The columns of a document that \<open>updateDocumentMetadata\<close> writes.\<close>

record document_metadata =
  dmt_title :: string
  dmt_documentType :: string
  dmt_documentNumber :: "string option"
  dmt_description :: "string option"
  dmt_correspondenceDate :: "int option"
  dmt_language :: string
  dmt_confidentiality :: string

record stored_document =
  dcm_id :: string
  dcm_tenantId :: string
  dcm_projectId :: string
  dcm_metadata :: document_metadata
  dcm_status :: source_status
  dcm_currentVersionId :: "string option"
  dcm_createdByUserId :: string
  dcm_createdAt :: int

record upload_session =
  ups_id :: string
  ups_tenantId :: string
  ups_projectId :: string
  ups_initiatedByUserId :: string
  ups_sourceDocumentId :: "string option"
  ups_documentVersionId :: "string option"
  ups_intendedFilename :: units
  ups_declaredMediaType :: string
  ups_declaredSizeBytes :: int
  ups_expectedSha256 :: "string option"
  ups_storageKey :: string
  ups_storageBucket :: string
  ups_status :: upload_status
  ups_expiresAt :: int
  ups_completedAt :: "int option"
  ups_failureCode :: "string option"
  ups_failureDetailSafe :: "string option"
  ups_idempotencyKey :: "string option"
  ups_correlationId :: "string option"

record stored_version =
  stv_id :: string
  stv_tenantId :: string
  stv_projectId :: string
  stv_sourceDocumentId :: string
  stv_versionNumber :: nat
  stv_originalFilename :: units
  stv_normalizedFilename :: units
  stv_mediaType :: string
  stv_extension :: units
  stv_sizeBytes :: int
  stv_sha256 :: string
  stv_storageBucket :: string
  stv_storageKey :: string
  stv_storageEtag :: "string option"
  stv_uploadStatus :: version_upload
  stv_malwareScanStatus :: malware_scan
  stv_processingStatus :: version_processing
  stv_uploadedByUserId :: string

record processing_run =
  prn_id :: string
  prn_tenantId :: string
  prn_projectId :: string
  prn_documentVersionId :: string
  prn_processingProfile :: string
  prn_processorName :: string
  prn_processorVersion :: string
  prn_status :: string
  prn_attemptNumber :: nat
  prn_correlationId :: string

record document_relationship =
  drl_tenantId :: string
  drl_projectId :: string
  drl_fromSourceDocumentId :: string
  drl_toSourceDocumentId :: string
  drl_relationshipType :: string
  drl_createdByUserId :: string

record stored_segment =
  sgm_id :: string
  sgm_tenantId :: string
  sgm_projectId :: string
  sgm_documentVersionId :: string
  sgm_processingRunId :: string
  sgm_kind :: segment_kind
  sgm_ordinal :: nat
  sgm_textContent :: "units option"

record ingestion_event =
  ige_tenantId :: string
  ige_projectId :: string
  ige_sourceDocumentId :: "string option"
  ige_documentVersionId :: "string option"
  ige_uploadSessionId :: "string option"
  ige_processingRunId :: "string option"
  ige_eventType :: string
  ige_correlationId :: "string option"

record outbox_event =
  obx_tenantId :: string
  obx_projectId :: string
  obx_eventType :: string
  obx_aggregateType :: string
  obx_aggregateId :: string
  obx_documentVersionId :: string
  obx_status :: string
  obx_idempotencyKey :: string
  obx_correlationId :: string

text \<open>\<open>dm_deletions\<close> are the keys the service asked the object store to delete.\<close>

record documents_db =
  dm_documents :: "stored_document list"
  dm_sessions :: "upload_session list"
  dm_versions :: "stored_version list"
  dm_runs :: "processing_run list"
  dm_relationships :: "document_relationship list"
  dm_segments :: "stored_segment list"
  dm_events :: "ingestion_event list"
  dm_outbox :: "outbox_event list"
  dm_deletions :: "string list"

type_synonym 'a documents = "(documents_db, 'a) svc"

section \<open>The environment\<close>

datatype document_table = T_SOURCE_DOCUMENT | T_UPLOAD_SESSION | T_DOCUMENT_VERSION | T_PROCESSING_RUN

record object_head =
  oh_contentLength :: int
  oh_etag :: "string option"

text \<open>
  \<open>denv_head\<close> and \<open>denv_body\<close> give \<open>None\<close> when the object store throws;
  \<open>denv_body\<close> gives \<open>Some None\<close> for an answer without a body.
\<close>

record document_env =
  denv_now :: int
  denv_ids :: "document_table \<Rightarrow> nat \<Rightarrow> string"
  denv_uuid :: string
  denv_objectId :: string
  denv_sha :: "bytes \<Rightarrow> string"
  denv_initiateRate :: "string \<Rightarrow> string \<Rightarrow> bool"
  denv_completeRate :: "string \<Rightarrow> bool"
  denv_retryRate :: "string \<Rightarrow> bool"
  denv_downloadRate :: "string \<Rightarrow> bool"
  denv_head :: "string \<Rightarrow> string \<Rightarrow> object_head option"
  denv_body :: "string \<Rightarrow> string \<Rightarrow> bytes list option option"
  denv_signUpload :: "string \<Rightarrow> string \<Rightarrow> string \<Rightarrow> int \<Rightarrow> int \<Rightarrow> string option"
  denv_signDownload :: "string \<Rightarrow> string \<Rightarrow> int \<Rightarrow> string \<Rightarrow> string option"
  denv_bucket :: string
  denv_maxBytes :: int
  denv_maxActivePerUser :: nat
  denv_maxActivePerProject :: nat
  denv_sessionTtl :: int
  denv_downloadTtl :: int

definition rateLimited :: "string \<Rightarrow> app_error" where
  "rateLimited message = tooManyRequests\<lparr>app_message := message\<rparr>"

section \<open>Events and the outbox\<close>

definition writeIngestionEvent ::
  "project_context \<Rightarrow> string option \<Rightarrow> string option \<Rightarrow> string option \<Rightarrow> string option \<Rightarrow> string \<Rightarrow>
   string option \<Rightarrow> unit documents" where
  "writeIngestionEvent ctx documentId versionId sessionId runId eventType correlationId =
     writeDb (\<lambda>d. d\<lparr>dm_events := dm_events d @
       [\<lparr>ige_tenantId = cx_tenantId ctx, ige_projectId = prj_id (cx_project ctx),
         ige_sourceDocumentId = documentId, ige_documentVersionId = versionId,
         ige_uploadSessionId = sessionId, ige_processingRunId = runId, ige_eventType = eventType,
         ige_correlationId = correlationId\<rparr>]\<rparr>)"

definition outboxRow :: "project_context \<Rightarrow> string \<Rightarrow> string \<Rightarrow> string \<Rightarrow> outbox_event" where
  "outboxRow ctx runId versionId correlationId =
     \<lparr>obx_tenantId = cx_tenantId ctx, obx_projectId = prj_id (cx_project ctx),
      obx_eventType = ''process_document_version'', obx_aggregateType = ''document_processing_run'',
      obx_aggregateId = runId, obx_documentVersionId = versionId, obx_status = ''PENDING'',
      obx_idempotencyKey = ''process_document_version:'' @ runId, obx_correlationId = correlationId\<rparr>"

text \<open>The idempotency key has a unique index.\<close>

definition writeProcessDocumentOutbox ::
  "project_context \<Rightarrow> string \<Rightarrow> string \<Rightarrow> string \<Rightarrow> unit documents" where
  "writeProcessDocumentOutbox ctx runId versionId correlationId =
     (let row = outboxRow ctx runId versionId correlationId in
     bindH (readDb (\<lambda>d. list_ex (\<lambda>x. obx_idempotencyKey x = obx_idempotencyKey row) (dm_outbox d)))
       (\<lambda>known.
     thenH (requireH (\<not> known) unexpectedError)
       (writeDb (\<lambda>d. d\<lparr>dm_outbox := dm_outbox d @ [row]\<rparr>))))"

text \<open>A deletion in a \<open>try\<close> whose failure is ignored; other keys are refused.\<close>

definition deleteTemporaryObject :: "string \<Rightarrow> unit documents" where
  "deleteTemporaryObject key =
     (if mayDelete key then writeDb (\<lambda>d. d\<lparr>dm_deletions := dm_deletions d @ [key]\<rparr>) else returnH ())"

end
