(* ===== verification/DocumentService.thy ===== *)
theory DocumentService
  imports DocumentTables "HOL-Library.Char_ord" "HOL-Library.List_Lexorder"
begin

text \<open>
  The operations of \<open>apps/web/src/server/services/documents.ts\<close>: the start, completion and
  cancellation of uploads, the metadata, archive, retry and download of documents, and the lists.
  The completion commits a rejection and throws it after its transaction, as the code does.
\<close>

section \<open>Starting an upload\<close>

definition ACTIVE_UPLOAD_STATUSES :: "upload_status list" where
  "ACTIVE_UPLOAD_STATUSES = [UP_INITIATED, UP_UPLOAD_AUTHORIZED, UP_UPLOADED, UP_VALIDATING]"

record initiate_input =
  iup_projectId :: string
  iup_metadata :: document_metadata
  iup_filename :: units
  iup_declaredMediaType :: string
  iup_declaredSizeBytes :: int
  iup_expectedSha256 :: "string option"
  iup_idempotencyKey :: "string option"

record upload_started =
  ust_uploadSessionId :: string
  ust_sourceDocumentId :: "string option"
  ust_uploadUrl :: string
  ust_contentType :: string
  ust_contentLength :: int
  ust_expiresAt :: int
  ust_correlationId :: "string option"
  ust_maxBytes :: "int option"
  ust_replayed :: bool

definition activeOfUser :: "string \<Rightarrow> string \<Rightarrow> documents_db \<Rightarrow> nat" where
  "activeOfUser tenantId user d = length (filter (\<lambda>x. ups_tenantId x = tenantId
     \<and> ups_initiatedByUserId x = user \<and> ups_status x \<in> set ACTIVE_UPLOAD_STATUSES) (dm_sessions d))"

definition activeOfProject :: "string \<Rightarrow> string \<Rightarrow> documents_db \<Rightarrow> nat" where
  "activeOfProject tenantId projectId d = length (filter (\<lambda>x. ups_tenantId x = tenantId
     \<and> ups_projectId x = projectId \<and> ups_status x \<in> set ACTIVE_UPLOAD_STATUSES) (dm_sessions d))"

definition findByIdempotencyKey ::
  "string \<Rightarrow> string \<Rightarrow> string option \<Rightarrow> documents_db \<Rightarrow> upload_session option" where
  "findByIdempotencyKey tenantId user key d = find (\<lambda>x. ups_tenantId x = tenantId
     \<and> ups_initiatedByUserId x = user \<and> ups_idempotencyKey x = key) (dm_sessions d)"

definition replayable :: "document_env \<Rightarrow> upload_session \<Rightarrow> bool" where
  "replayable env uploadRow \<longleftrightarrow> ups_status uploadRow = UP_UPLOAD_AUTHORIZED
     \<and> ups_expiresAt uploadRow > denv_now env"

definition replayUpload :: "document_env \<Rightarrow> upload_session \<Rightarrow> upload_started documents" where
  "replayUpload env existing =
     bindH (someH unexpectedError (denv_signUpload env (ups_storageBucket existing)
       (ups_storageKey existing) (ups_declaredMediaType existing) (ups_declaredSizeBytes existing)
       (max 30 ((ups_expiresAt existing - denv_now env) div 1000)))) (\<lambda>url.
     returnH \<lparr>ust_uploadSessionId = ups_id existing, ust_sourceDocumentId = ups_sourceDocumentId existing,
       ust_uploadUrl = url, ust_contentType = ups_declaredMediaType existing,
       ust_contentLength = ups_declaredSizeBytes existing, ust_expiresAt = ups_expiresAt existing,
       ust_correlationId = ups_correlationId existing, ust_maxBytes = None, ust_replayed = True\<rparr>)"

definition newDocument :: "document_env \<Rightarrow> project_context \<Rightarrow> document_metadata \<Rightarrow> string \<Rightarrow> stored_document" where
  "newDocument env ctx metadata newId =
     \<lparr>dcm_id = newId, dcm_tenantId = cx_tenantId ctx, dcm_projectId = prj_id (cx_project ctx),
      dcm_metadata = metadata, dcm_status = SC_UPLOADING, dcm_currentVersionId = None,
      dcm_createdByUserId = userId ctx, dcm_createdAt = denv_now env\<rparr>"

definition newSession ::
  "document_env \<Rightarrow> project_context \<Rightarrow> initiate_input \<Rightarrow> units \<Rightarrow> string \<Rightarrow> string \<Rightarrow> string \<Rightarrow> string \<Rightarrow>
   upload_session" where
  "newSession env ctx data normalized mediaType documentId storageKey newId =
     \<lparr>ups_id = newId, ups_tenantId = cx_tenantId ctx, ups_projectId = prj_id (cx_project ctx),
      ups_initiatedByUserId = userId ctx, ups_sourceDocumentId = Some documentId,
      ups_documentVersionId = None, ups_intendedFilename = normalized,
      ups_declaredMediaType = mediaType, ups_declaredSizeBytes = iup_declaredSizeBytes data,
      ups_expectedSha256 = map_option toLowerCase (iup_expectedSha256 data),
      ups_storageKey = storageKey, ups_storageBucket = denv_bucket env,
      ups_status = UP_UPLOAD_AUTHORIZED,
      ups_expiresAt = denv_now env + denv_sessionTtl env * 1000, ups_completedAt = None,
      ups_failureCode = None, ups_failureDetailSafe = None,
      ups_idempotencyKey = iup_idempotencyKey data, ups_correlationId = Some (denv_uuid env)\<rparr>"

text \<open>
  The unique indexes on \<open>(tenantId, storageKey)\<close> and on
  \<open>(tenantId, initiatedByUserId, idempotencyKey)\<close>.
\<close>

definition sessionClash :: "upload_session \<Rightarrow> upload_session \<Rightarrow> bool" where
  "sessionClash new x \<longleftrightarrow> ups_tenantId x = ups_tenantId new
     \<and> (ups_storageKey x = ups_storageKey new
        \<or> (ups_initiatedByUserId x = ups_initiatedByUserId new \<and> ups_idempotencyKey new \<noteq> None
           \<and> ups_idempotencyKey x = ups_idempotencyKey new))"

definition createSession :: "upload_session \<Rightarrow> unit documents" where
  "createSession new =
     bindH (readDb (\<lambda>d. list_ex (sessionClash new) (dm_sessions d))) (\<lambda>clash.
     thenH (requireH (\<not> clash) unexpectedError)
       (writeDb (\<lambda>d. d\<lparr>dm_sessions := dm_sessions d @ [new]\<rparr>)))"

definition startUpload ::
  "document_env \<Rightarrow> project_context \<Rightarrow> initiate_input \<Rightarrow> units \<Rightarrow> string \<Rightarrow> upload_started documents" where
  "startUpload env ctx data normalized mediaType =
     bindH (createRow dm_documents (\<lambda>xs d. d\<lparr>dm_documents := xs\<rparr>) (denv_ids env T_SOURCE_DOCUMENT)
       (newDocument env ctx (iup_metadata data))) (\<lambda>sourceDocument.
     bindH (readDb (\<lambda>d. denv_ids env T_UPLOAD_SESSION (length (dm_sessions d)))) (\<lambda>sessionId.
     bindH (someH unexpectedError (buildQuarantineObjectKey (denv_objectId env) (cx_tenantId ctx)
        (prj_id (cx_project ctx)) sessionId)) (\<lambda>storageKey.
     let uploadRow = newSession env ctx data normalized mediaType (dcm_id sourceDocument) storageKey sessionId in
     thenH (createSession uploadRow)
     (thenH (writeIngestionEvent ctx (Some (dcm_id sourceDocument)) None (Some sessionId) None
        ''upload.initiated'' (Some (denv_uuid env)))
     (thenH (auditP ctx (prj_id (cx_project ctx)) ''document.upload.initiated'' ''upload_session'' sessionId)
     (bindH (someH unexpectedError (denv_signUpload env (denv_bucket env) storageKey mediaType
        (iup_declaredSizeBytes data) (denv_sessionTtl env))) (\<lambda>url.
     returnH \<lparr>ust_uploadSessionId = sessionId, ust_sourceDocumentId = Some (dcm_id sourceDocument),
       ust_uploadUrl = url, ust_contentType = mediaType,
       ust_contentLength = iup_declaredSizeBytes data, ust_expiresAt = ups_expiresAt uploadRow,
       ust_correlationId = Some (denv_uuid env), ust_maxBytes = Some (denv_maxBytes env),
       ust_replayed = False\<rparr>)))))))"

definition admitUpload ::
  "document_env \<Rightarrow> project_context \<Rightarrow> initiate_input \<Rightarrow> units \<Rightarrow> string \<Rightarrow> upload_started documents" where
  "admitUpload env ctx data normalized mediaType =
     bindH (readDb (activeOfUser (cx_tenantId ctx) (userId ctx))) (\<lambda>ofUser.
     thenH (requireH (ofUser < denv_maxActivePerUser env)
       (rateLimited ''Too many active uploads for this user''))
     (bindH (readDb (activeOfProject (cx_tenantId ctx) (prj_id (cx_project ctx)))) (\<lambda>ofProject.
     thenH (requireH (ofProject < denv_maxActivePerProject env)
       (rateLimited ''Too many active uploads for this project''))
     (bindH (readDb (\<lambda>d. if truthy (iup_idempotencyKey data)
        then findByIdempotencyKey (cx_tenantId ctx) (userId ctx) (iup_idempotencyKey data) d
        else None)) (\<lambda>existing. case existing of
          Some uploadRow \<Rightarrow>
            if replayable env uploadRow then replayUpload env uploadRow
            else startUpload env ctx data normalized mediaType
        | None \<Rightarrow> startUpload env ctx data normalized mediaType)))))"

text \<open>The schema wants a declared media type, so that the third case does not arise.\<close>

definition policyH :: "file_policy \<Rightarrow> (documents_db, units \<times> string) svc" where
  "policyH policy = (case policy of
     FP_OK normalized extension mediaType \<Rightarrow> returnH (normalized, mediaType)
   | FP_NO code message \<Rightarrow> throwH (validationError message (Some [code]))
   | FP_OBJECT _ _ \<Rightarrow> throwH unexpectedError
   | FP_THROWS \<Rightarrow> throwH unexpectedError)"

definition initiateDocumentUpload ::
  "('raw \<Rightarrow> string list + initiate_input) \<Rightarrow> document_env \<Rightarrow> 'raw \<Rightarrow> upload_started documents" where
  "initiateDocumentUpload safeParse env rawInput =
     bindH (parseH ''Invalid upload initiation'' safeParse rawInput) (\<lambda>data.
     bindH (accessP (iup_projectId data) (DocumentCap c_document_create)) (\<lambda>ctx.
     thenH (requireH (prj_status (cx_project ctx) \<noteq> P_ARCHIVED)
       (forbidden ''Archived projects are read-only''))
     (thenH (requireH (denv_initiateRate env (userId ctx) (prj_id (cx_project ctx)))
       (rateLimited ''Upload rate limit exceeded''))
     (bindH (policyH (validateDeclaredUpload (iup_filename data) (iup_declaredMediaType data)
        (iup_declaredSizeBytes data) (Some (denv_maxBytes env)))) (\<lambda>(normalized, mediaType).
     transactionH (admitUpload env ctx data normalized mediaType))))))"

section \<open>Completing an upload\<close>

datatype duplicate_decision = DD_CANCEL | DD_NEW_OCCURRENCE | DD_NEW_VERSION

record complete_input =
  cup_uploadSessionId :: string
  cup_clientSha256 :: "string option"
  cup_duplicateDecision :: "duplicate_decision option"

datatype completion =
    CM_REPLAYED string "string option" string
  | CM_CANCELLED string stored_version
  | CM_DUPLICATE string "string option" string stored_version
  | CM_ACCEPTED string string string string string bool

type_synonym completion_result = "app_error + completion"

definition updateSession :: "string \<Rightarrow> (upload_session \<Rightarrow> upload_session) \<Rightarrow> unit documents" where
  "updateSession i f = writeDb (\<lambda>d. d\<lparr>dm_sessions := updateWhere (\<lambda>x. ups_id x = i) f (dm_sessions d)\<rparr>)"

definition assertUploadSessionTransition :: "upload_status \<Rightarrow> upload_status \<Rightarrow> unit documents" where
  "assertUploadSessionTransition old new = requireH (canTransitionUploadSession old new) unexpectedError"

definition assertSourceDocumentTransition :: "source_status \<Rightarrow> source_status \<Rightarrow> unit documents" where
  "assertSourceDocumentTransition old new = requireH (canTransitionSourceDocument old new) unexpectedError"

text \<open>A failed check: the session is closed with the reason, and the answer is an error.\<close>

definition closeSession ::
  "string \<Rightarrow> upload_status \<Rightarrow> string \<Rightarrow> string \<Rightarrow> app_error \<Rightarrow> completion_result documents" where
  "closeSession i newStatus code detail e =
     thenH (updateSession i (\<lambda>x. x\<lparr>ups_status := newStatus, ups_failureCode := Some code,
       ups_failureDetailSafe := Some detail\<rparr>)) (returnH (Inl e))"

definition sessionExtension :: "units \<Rightarrow> units" where
  "sessionExtension name = (case lastDot name of None \<Rightarrow> []
     | Some i \<Rightarrow> if i > 0 then lowerText (drop (i + 1) name) else [])"

definition findDuplicate :: "project_context \<Rightarrow> string \<Rightarrow> documents_db \<Rightarrow> stored_version option" where
  "findDuplicate ctx digest d = find (\<lambda>x. stv_tenantId x = cx_tenantId ctx
     \<and> stv_projectId x = prj_id (cx_project ctx) \<and> stv_sha256 x = digest
     \<and> stv_uploadStatus x = VU_ACCEPTED) (dm_versions d)"

definition newVersion ::
  "document_env \<Rightarrow> project_context \<Rightarrow> upload_session \<Rightarrow> object_head \<Rightarrow> string \<Rightarrow> string \<Rightarrow> string \<Rightarrow> nat \<Rightarrow>
   string \<Rightarrow> stored_version" where
  "newVersion env ctx row head digest mediaType documentId versionNumber newId =
     \<lparr>stv_id = newId, stv_tenantId = cx_tenantId ctx, stv_projectId = prj_id (cx_project ctx),
      stv_sourceDocumentId = documentId, stv_versionNumber = versionNumber,
      stv_originalFilename = ups_intendedFilename row,
      stv_normalizedFilename = ups_intendedFilename row, stv_mediaType = mediaType,
      stv_extension = sessionExtension (ups_intendedFilename row),
      stv_sizeBytes = oh_contentLength head, stv_sha256 = digest,
      stv_storageBucket = ups_storageBucket row, stv_storageKey = ups_storageKey row,
      stv_storageEtag = oh_etag head, stv_uploadStatus = VU_VALIDATING,
      stv_malwareScanStatus = MW_QUEUED, stv_processingStatus = VP_QUEUED,
      stv_uploadedByUserId = userId ctx\<rparr>"

text \<open>
  The trigger \<open>enforce_document_version_parent\<close> and the unique index on
  \<open>(tenantId, storageKey)\<close>; the version number is the next one.
\<close>

definition createVersion :: "stored_version \<Rightarrow> unit documents" where
  "createVersion v =
     bindH (findOr unexpectedError (\<lambda>d. find (\<lambda>x. dcm_id x = stv_sourceDocumentId v) (dm_documents d)))
       (\<lambda>parent.
     thenH (requireH (dcm_tenantId parent = stv_tenantId v \<and> dcm_projectId parent = stv_projectId v)
       unexpectedError)
     (bindH (readDb (\<lambda>d. list_ex (\<lambda>x. stv_tenantId x = stv_tenantId v \<and> stv_storageKey x = stv_storageKey v)
       (dm_versions d))) (\<lambda>clash.
     thenH (requireH (\<not> clash) unexpectedError)
       (writeDb (\<lambda>d. d\<lparr>dm_versions := dm_versions d @ [v]\<rparr>)))))"

definition newProcessingRun :: "project_context \<Rightarrow> string \<Rightarrow> nat \<Rightarrow> string \<Rightarrow> string \<Rightarrow> processing_run" where
  "newProcessingRun ctx versionId attempt correlationId newId =
     \<lparr>prn_id = newId, prn_tenantId = cx_tenantId ctx, prn_projectId = prj_id (cx_project ctx),
      prn_documentVersionId = versionId, prn_processingProfile = ''basic_v1'',
      prn_processorName = ''document-intelligence'', prn_processorVersion = ''0.2.0'',
      prn_status = ''QUEUED'', prn_attemptNumber = attempt, prn_correlationId = correlationId\<rparr>"

text \<open>The trigger \<open>enforce_processing_run_parent\<close>.\<close>

definition createRun ::
  "document_env \<Rightarrow> project_context \<Rightarrow> string \<Rightarrow> nat \<Rightarrow> string \<Rightarrow> processing_run documents" where
  "createRun env ctx versionId attempt correlationId =
     bindH (findOr unexpectedError (\<lambda>d. find (\<lambda>x. stv_id x = versionId) (dm_versions d))) (\<lambda>parent.
     thenH (requireH (stv_tenantId parent = cx_tenantId ctx
         \<and> stv_projectId parent = prj_id (cx_project ctx)) unexpectedError)
       (createRow dm_runs (\<lambda>xs d. d\<lparr>dm_runs := xs\<rparr>) (denv_ids env T_PROCESSING_RUN)
         (newProcessingRun ctx versionId attempt correlationId)))"

text \<open>The relation between the new document and the one that has the same bytes; it is unique.\<close>

definition relateDuplicate :: "project_context \<Rightarrow> string \<Rightarrow> string \<Rightarrow> unit documents" where
  "relateDuplicate ctx fromId toId =
     bindH (readDb (\<lambda>d. list_ex (\<lambda>x. drl_tenantId x = cx_tenantId ctx
        \<and> drl_fromSourceDocumentId x = fromId \<and> drl_toSourceDocumentId x = toId
        \<and> drl_relationshipType x = ''DUPLICATE_CONTENT_OF'') (dm_relationships d))) (\<lambda>known.
     thenH (requireH (\<not> known) unexpectedError)
       (writeDb (\<lambda>d. d\<lparr>dm_relationships := dm_relationships d @
         [\<lparr>drl_tenantId = cx_tenantId ctx, drl_projectId = prj_id (cx_project ctx),
           drl_fromSourceDocumentId = fromId, drl_toSourceDocumentId = toId,
           drl_relationshipType = ''DUPLICATE_CONTENT_OF'', drl_createdByUserId = userId ctx\<rparr>]\<rparr>)))"

text \<open>The upload passed every check: the rows of the accepted version.\<close>

definition acceptUpload ::
  "document_env \<Rightarrow> project_context \<Rightarrow> complete_input \<Rightarrow> upload_session \<Rightarrow> object_head \<Rightarrow> string \<Rightarrow>
   string \<Rightarrow> stored_version option \<Rightarrow> completion_result documents" where
  "acceptUpload env ctx data row head digest mediaType duplicate =
     bindH (someH notFound (case ups_sourceDocumentId row of
        None \<Rightarrow> None | Some i \<Rightarrow> if i = [] then None else Some i)) (\<lambda>documentId.
     bindH (readDb (\<lambda>d. nextNumber (map stv_versionNumber
        (filter (\<lambda>x. stv_sourceDocumentId x = documentId) (dm_versions d))))) (\<lambda>versionNumber.
     bindH (readDb (\<lambda>d. denv_ids env T_DOCUMENT_VERSION (length (dm_versions d)))) (\<lambda>versionId.
     thenH (createVersion (newVersion env ctx row head digest mediaType documentId versionNumber versionId))
     (bindH (findOr notFound (\<lambda>d. find (\<lambda>x. dcm_id x = documentId) (dm_documents d))) (\<lambda>sourceDoc.
     thenH (assertSourceDocumentTransition (dcm_status sourceDoc) SC_QUARANTINED)
     (thenH (writeDb (\<lambda>d. d\<lparr>dm_documents := updateWhere (\<lambda>x. dcm_id x = dcm_id sourceDoc)
        (\<lambda>x. x\<lparr>dcm_status := SC_QUARANTINED, dcm_currentVersionId := Some versionId\<rparr>) (dm_documents d)\<rparr>))
     (thenH (case duplicate of
         Some other \<Rightarrow> if cup_duplicateDecision data = Some DD_NEW_OCCURRENCE
           then relateDuplicate ctx (dcm_id sourceDoc) (stv_sourceDocumentId other) else returnH ()
       | None \<Rightarrow> returnH ())
     (bindH (createRun env ctx versionId 1
        (case ups_correlationId row of None \<Rightarrow> denv_uuid env | Some c \<Rightarrow> c)) (\<lambda>run.
     thenH (assertUploadSessionTransition UP_VALIDATING UP_ACCEPTED)
     (thenH (updateSession (ups_id row) (\<lambda>x. x\<lparr>ups_status := UP_ACCEPTED,
        ups_completedAt := Some (denv_now env), ups_documentVersionId := Some versionId\<rparr>))
     (thenH (writeIngestionEvent ctx (Some (dcm_id sourceDoc)) (Some versionId) (Some (ups_id row))
        (Some (prn_id run)) ''upload.accepted'' (Some (prn_correlationId run)))
     (thenH (auditP ctx (prj_id (cx_project ctx)) ''document.upload.accepted'' ''document_version'' versionId)
     (thenH (writeProcessDocumentOutbox ctx (prn_id run) versionId (prn_correlationId run))
       (returnH (Inr (CM_ACCEPTED (ups_id row) (dcm_id sourceDoc) versionId (prn_id run) digest
         (duplicate \<noteq> None)))))))))))))))))"

text \<open>What becomes of verified bytes that are already there.\<close>

definition decideDuplicate ::
  "document_env \<Rightarrow> project_context \<Rightarrow> complete_input \<Rightarrow> upload_session \<Rightarrow> object_head \<Rightarrow> string \<Rightarrow>
   string \<Rightarrow> completion_result documents" where
  "decideDuplicate env ctx data row head digest mediaType =
     bindH (readDb (findDuplicate ctx digest)) (\<lambda>duplicate. case duplicate of
       None \<Rightarrow> acceptUpload env ctx data row head digest mediaType None
     | Some other \<Rightarrow> (case cup_duplicateDecision data of
         None \<Rightarrow> returnH (Inr (CM_DUPLICATE (ups_id row) (ups_sourceDocumentId row) digest other))
       | Some DD_CANCEL \<Rightarrow>
           thenH (assertUploadSessionTransition UP_VALIDATING UP_CANCELLED)
           (thenH (updateSession (ups_id row) (\<lambda>x. x\<lparr>ups_status := UP_CANCELLED,
              ups_completedAt := Some (denv_now env)\<rparr>))
           (thenH (deleteTemporaryObject (ups_storageKey row))
             (returnH (Inr (CM_CANCELLED (ups_id row) other)))))
       | Some _ \<Rightarrow> acceptUpload env ctx data row head digest mediaType (Some other)))"

definition rejectBytes :: "upload_session \<Rightarrow> string \<Rightarrow> string \<Rightarrow> completion_result documents" where
  "rejectBytes row code message =
     thenH (assertUploadSessionTransition UP_VALIDATING UP_REJECTED)
     (bindH (closeSession (ups_id row) UP_REJECTED code message
        (validationError message (Some [code]))) (\<lambda>answer.
     thenH (deleteTemporaryObject (ups_storageKey row)) (returnH answer)))"

text \<open>The bytes of the object: their checksums and their signature.\<close>

definition checkBytes ::
  "document_env \<Rightarrow> project_context \<Rightarrow> complete_input \<Rightarrow> upload_session \<Rightarrow> object_head \<Rightarrow> bytes \<Rightarrow>
   completion_result documents" where
  "checkBytes env ctx data row head file =
     (let digest = denv_sha env file in
      if truthy (ups_expectedSha256 row) \<and> ups_expectedSha256 row \<noteq> Some digest
      then closeSession (ups_id row) UP_REJECTED ''CHECKSUM_MISMATCH'' ''Checksum verification failed.''
        (validationError ''Checksum verification failed.'' None)
      else if truthy (cup_clientSha256 data)
        \<and> map_option toLowerCase (cup_clientSha256 data) \<noteq> Some digest
      then returnH (Inl (validationError
        ''Client checksum does not match server-computed checksum.'' None))
      else case assertMagicMatchesPolicy file (sessionExtension (ups_intendedFilename row))
          (ups_declaredMediaType row) of
        Inl (code, message) \<Rightarrow> rejectBytes row code message
      | Inr mediaType \<Rightarrow>
          thenH (writeIngestionEvent ctx (ups_sourceDocumentId row) None (Some (ups_id row)) None
            ''upload.checksum_verified'' (ups_correlationId row))
            (decideDuplicate env ctx data row head digest mediaType))"

definition checkObject ::
  "document_env \<Rightarrow> project_context \<Rightarrow> complete_input \<Rightarrow> upload_session \<Rightarrow> completion_result documents" where
  "checkObject env ctx data row =
     (case denv_head env (ups_storageBucket row) (ups_storageKey row) of
       None \<Rightarrow> closeSession (ups_id row) UP_FAILED ''OBJECT_MISSING''
         ''Uploaded object was not found in storage.'' (validationError
         ''Uploaded object was not found. Complete only after a successful PUT.'' None)
     | Some head \<Rightarrow>
         if oh_contentLength head \<noteq> ups_declaredSizeBytes row
         then closeSession (ups_id row) UP_REJECTED ''SIZE_MISMATCH''
           ''Stored object size does not match the declared size.''
           (validationError ''Stored object size does not match the declared size.'' None)
         else if oh_contentLength head = 0
         then returnH (Inl (validationError ''Zero-byte uploads are rejected.'' None))
         else bindH (someH unexpectedError (case denv_body env (ups_storageBucket row) (ups_storageKey row)
            of None \<Rightarrow> None | Some body \<Rightarrow> getObjectBytes (denv_maxBytes env) body)) (\<lambda>file.
          checkBytes env ctx data row head file))"

definition completeBody ::
  "document_env \<Rightarrow> complete_input \<Rightarrow> project_context \<Rightarrow> completion_result documents" where
  "completeBody env data ctx =
     bindH (findOr notFound (\<lambda>d. find (\<lambda>x. ups_id x = cup_uploadSessionId data
        \<and> ups_tenantId x = cx_tenantId ctx \<and> ups_projectId x = prj_id (cx_project ctx)) (dm_sessions d)))
       (\<lambda>row.
     if ups_status row = UP_ACCEPTED \<and> truthy (ups_documentVersionId row)
     then returnH (Inr (CM_REPLAYED (ups_id row) (ups_sourceDocumentId row) (the (ups_documentVersionId row))))
     else if ups_expiresAt row < denv_now env
     then thenH (assertUploadSessionTransition (ups_status row) UP_EXPIRED)
       (thenH (updateSession (ups_id row) (\<lambda>x. x\<lparr>ups_status := UP_EXPIRED,
          ups_failureCode := Some ''EXPIRED''\<rparr>))
         (returnH (Inl (validationError ''Upload session has expired'' None))))
     else if ups_status row \<noteq> UP_UPLOAD_AUTHORIZED \<and> ups_status row \<noteq> UP_UPLOADED
     then throwH (conflict (''Upload session cannot be completed from status ''
       @ upload_status_name (ups_status row)))
     else thenH (assertUploadSessionTransition (ups_status row) UP_UPLOADED)
       (thenH (updateSession (ups_id row) (\<lambda>x. x\<lparr>ups_status := UP_UPLOADED\<rparr>))
       (thenH (assertUploadSessionTransition UP_UPLOADED UP_VALIDATING)
       (thenH (updateSession (ups_id row) (\<lambda>x. x\<lparr>ups_status := UP_VALIDATING\<rparr>))
         (checkObject env ctx data row)))))"

text \<open>
  The session is looked up among the caller's own before the access to its project is checked.
\<close>

definition ownSessionProject :: "string \<Rightarrow> string documents" where
  "ownSessionProject i =
     bindH (onApp (requireTenantMembership None)) (\<lambda>tenantCtx.
     transactionH (bindH (findOr notFound (\<lambda>d. find (\<lambda>x. ups_id x = i
         \<and> ups_tenantId x = cx_tenantId tenantCtx
         \<and> ups_initiatedByUserId x = su_id (cx_user tenantCtx)) (dm_sessions d)))
       (\<lambda>row. returnH (ups_projectId row))))"

definition completeDocumentUpload ::
  "('raw \<Rightarrow> string list + complete_input) \<Rightarrow> document_env \<Rightarrow> 'raw \<Rightarrow> completion documents" where
  "completeDocumentUpload safeParse env rawInput =
     bindH (parseH ''Invalid upload completion'' safeParse rawInput) (\<lambda>data.
     bindH (ownSessionProject (cup_uploadSessionId data)) (\<lambda>projectId.
     bindH (accessP projectId (DocumentCap c_document_create)) (\<lambda>ctx.
     thenH (requireH (denv_completeRate env (userId ctx))
       (rateLimited ''Upload completion rate limit exceeded''))
     (bindH (transactionH (completeBody env data ctx)) (\<lambda>outcome. case outcome of
        Inl e \<Rightarrow> throwH e | Inr v \<Rightarrow> returnH v)))))"

section \<open>Cancelling an upload\<close>

definition cancelBody :: "document_env \<Rightarrow> string \<Rightarrow> project_context \<Rightarrow> (string \<times> upload_status) documents" where
  "cancelBody env i ctx =
     bindH (findOr notFound (\<lambda>d. find (\<lambda>x. ups_id x = i \<and> ups_tenantId x = cx_tenantId ctx)
       (dm_sessions d))) (\<lambda>row.
     if ups_status row \<in> {UP_ACCEPTED, UP_CANCELLED, UP_EXPIRED, UP_REJECTED}
     then returnH (ups_id row, ups_status row)
     else thenH (assertUploadSessionTransition (ups_status row) UP_CANCELLED)
       (thenH (updateSession (ups_id row) (\<lambda>x. x\<lparr>ups_status := UP_CANCELLED,
          ups_completedAt := Some (denv_now env)\<rparr>))
       (thenH (deleteTemporaryObject (ups_storageKey row))
         (returnH (ups_id row, UP_CANCELLED)))))"

definition cancelDocumentUpload ::
  "('raw \<Rightarrow> string list + string) \<Rightarrow> document_env \<Rightarrow> 'raw \<Rightarrow> (string \<times> upload_status) documents" where
  "cancelDocumentUpload safeParse env rawInput =
     bindH (parseH ''Invalid cancel request'' safeParse rawInput) (\<lambda>i.
     bindH (ownSessionProject i) (\<lambda>projectId.
     projectAction projectId (DocumentCap c_document_create) (cancelBody env i)))"

section \<open>Documents\<close>

definition findDocument :: "project_context \<Rightarrow> string \<Rightarrow> documents_db \<Rightarrow> stored_document option" where
  "findDocument ctx documentId d = find (\<lambda>x. dcm_id x = documentId \<and> dcm_tenantId x = cx_tenantId ctx
     \<and> dcm_projectId x = prj_id (cx_project ctx)) (dm_documents d)"

definition updateDocument :: "string \<Rightarrow> (stored_document \<Rightarrow> stored_document) \<Rightarrow> unit documents" where
  "updateDocument i f = writeDb (\<lambda>d. d\<lparr>dm_documents := updateWhere (\<lambda>x. dcm_id x = i) f (dm_documents d)\<rparr>)"

text \<open>An absent field keeps its column; \<open>Some None\<close> is an explicit \<open>null\<close>.\<close>

record metadata_input =
  mdi_title :: "string option"
  mdi_documentNumber :: "string option option"
  mdi_description :: "string option option"
  mdi_correspondenceDate :: "int option option"
  mdi_language :: "string option"
  mdi_confidentiality :: "string option"
  mdi_documentType :: "string option"

definition keptOr :: "'a option \<Rightarrow> 'a \<Rightarrow> 'a" where
  "keptOr new old = (case new of None \<Rightarrow> old | Some v \<Rightarrow> v)"

definition updatedMetadata :: "metadata_input \<Rightarrow> document_metadata \<Rightarrow> document_metadata" where
  "updatedMetadata data m =
     \<lparr>dmt_title = keptOr (mdi_title data) (dmt_title m),
      dmt_documentType = keptOr (mdi_documentType data) (dmt_documentType m),
      dmt_documentNumber = keptOr (mdi_documentNumber data) (dmt_documentNumber m),
      dmt_description = keptOr (mdi_description data) (dmt_description m),
      dmt_correspondenceDate = keptOr (mdi_correspondenceDate data) (dmt_correspondenceDate m),
      dmt_language = keptOr (mdi_language data) (dmt_language m),
      dmt_confidentiality = keptOr (mdi_confidentiality data) (dmt_confidentiality m)\<rparr>"

definition updateDocumentMetadata ::
  "('raw \<Rightarrow> string list + metadata_input) \<Rightarrow> string \<Rightarrow> string \<Rightarrow> 'raw \<Rightarrow> stored_document documents" where
  "updateDocumentMetadata safeParse projectId documentId rawInput =
     bindH (parseH ''Invalid metadata update'' safeParse rawInput) (\<lambda>data.
     projectAction projectId (DocumentCap c_document_update_metadata) (\<lambda>ctx.
     bindH (findOr notFound (findDocument ctx documentId)) (\<lambda>doc.
     thenH (requireH (dcm_status doc \<noteq> SC_ARCHIVED) (forbidden ''Archived documents cannot be edited''))
     (thenH (updateDocument (dcm_id doc) (\<lambda>x. x\<lparr>dcm_metadata := updatedMetadata data (dcm_metadata x)\<rparr>))
     (thenH (auditP ctx (prj_id (cx_project ctx)) ''document.metadata.updated'' ''source_document'' (dcm_id doc))
       (returnH (doc\<lparr>dcm_metadata := updatedMetadata data (dcm_metadata doc)\<rparr>)))))))"

definition archiveDocument :: "string \<Rightarrow> string \<Rightarrow> (string \<times> source_status) documents" where
  "archiveDocument projectId documentId =
     projectAction projectId (DocumentCap c_document_archive) (\<lambda>ctx.
     bindH (findOr notFound (findDocument ctx documentId)) (\<lambda>doc.
     thenH (if dcm_status doc \<noteq> SC_ARCHIVED
       then thenH (assertSourceDocumentTransition (dcm_status doc) SC_ARCHIVED)
         (updateDocument (dcm_id doc) (\<lambda>x. x\<lparr>dcm_status := SC_ARCHIVED\<rparr>))
       else returnH ())
     (thenH (auditP ctx (prj_id (cx_project ctx)) ''document.archived'' ''source_document'' (dcm_id doc))
       (returnH (dcm_id doc, SC_ARCHIVED)))))"

definition currentVersionOf :: "documents_db \<Rightarrow> stored_document \<Rightarrow> stored_version option" where
  "currentVersionOf d doc = (case dcm_currentVersionId doc of None \<Rightarrow> None
     | Some i \<Rightarrow> find (\<lambda>x. stv_id x = i) (dm_versions d))"

definition retryBody :: "document_env \<Rightarrow> string \<Rightarrow> project_context \<Rightarrow> (string \<times> nat) documents" where
  "retryBody env documentId ctx =
     bindH (findOr notFound (\<lambda>d. case findDocument ctx documentId d of None \<Rightarrow> None
        | Some doc \<Rightarrow> map_option (\<lambda>v. (doc, v)) (currentVersionOf d doc))) (\<lambda>(doc, version).
     thenH (requireH (stv_malwareScanStatus version \<noteq> MW_INFECTED)
       (forbidden ''Infected files cannot be reprocessed by ordinary retry''))
     (thenH (requireH (stv_processingStatus version \<in> {VP_FAILED, VP_PARTIALLY_SUCCEEDED})
       (conflict ''Only failed or partial processing runs can be retried''))
     (bindH (readDb (\<lambda>d. length (filter (\<lambda>r. prn_documentVersionId r = stv_id version) (dm_runs d))))
       (\<lambda>prior.
     bindH (createRun env ctx (stv_id version) (prior + 1) (denv_uuid env)) (\<lambda>run.
     thenH (writeDb (\<lambda>d. d\<lparr>dm_versions := updateWhere (\<lambda>x. stv_id x = stv_id version)
        (\<lambda>x. x\<lparr>stv_processingStatus := VP_QUEUED\<rparr>) (dm_versions d)\<rparr>))
     (thenH (assertSourceDocumentTransition (dcm_status doc) SC_PROCESSING)
     (thenH (updateDocument (dcm_id doc) (\<lambda>x. x\<lparr>dcm_status := SC_PROCESSING\<rparr>))
     (thenH (writeIngestionEvent ctx (Some (dcm_id doc)) (Some (stv_id version)) None (Some (prn_id run))
        ''processing.retry_queued'' (Some (denv_uuid env)))
     (thenH (writeProcessDocumentOutbox ctx (prn_id run) (stv_id version) (denv_uuid env))
       (returnH (prn_id run, prn_attemptNumber run)))))))))))"

definition retryDocumentProcessing ::
  "document_env \<Rightarrow> string \<Rightarrow> string \<Rightarrow> (string \<times> nat) documents" where
  "retryDocumentProcessing env projectId documentId =
     bindH (accessP projectId (DocumentCap c_document_processing_retry)) (\<lambda>ctx.
     thenH (requireH (denv_retryRate env (userId ctx)) tooManyRequests)
       (transactionH (retryBody env documentId ctx)))"

text \<open>The header names the file without its double quotes.\<close>

definition contentDisposition :: "stored_version \<Rightarrow> string" where
  "contentDisposition v = ''attachment; filename='' @ [char_of (34 :: nat)]
     @ unitsText (filter (\<lambda>c. c \<noteq> 34) (stv_normalizedFilename v)) @ [char_of (34 :: nat)]"

definition downloadBody :: "document_env \<Rightarrow> string \<Rightarrow> project_context \<Rightarrow> (string \<times> int \<times> string) documents" where
  "downloadBody env versionId ctx =
     bindH (findOr notFound (\<lambda>d. find (\<lambda>x. stv_id x = versionId \<and> stv_tenantId x = cx_tenantId ctx
        \<and> stv_projectId x = prj_id (cx_project ctx)) (dm_versions d))) (\<lambda>version.
     thenH (requireH (stv_uploadStatus version = VU_ACCEPTED \<and> stv_malwareScanStatus version = MW_CLEAN)
       (forbidden ''File is not available for download until malware scanning completes cleanly''))
     (bindH (someH unexpectedError (denv_signDownload env (stv_storageBucket version)
        (stv_storageKey version) (denv_downloadTtl env) (contentDisposition version))) (\<lambda>url.
     thenH (auditP ctx (prj_id (cx_project ctx)) ''document.download.authorized'' ''document_version''
        (stv_id version))
       (returnH (stv_id version, denv_downloadTtl env, url)))))"

definition createAuthorizedDownload ::
  "document_env \<Rightarrow> string \<Rightarrow> string \<Rightarrow> (string \<times> int \<times> string) documents" where
  "createAuthorizedDownload env projectId versionId =
     bindH (accessP projectId (DocumentCap c_document_download)) (\<lambda>ctx.
     thenH (requireH (denv_downloadRate env (userId ctx)) tooManyRequests)
       (transactionH (downloadBody env versionId ctx)))"

section \<open>Lists\<close>

text \<open>Ids are compared as texts.\<close>

record list_query =
  lqy_cursor :: "string option"
  lqy_limit :: nat

text \<open>\<open>orderBy createdAt desc, id desc\<close>.\<close>

definition newestFirst :: "stored_document list \<Rightarrow> stored_document list" where
  "newestFirst rows = rev (sort_key dcm_createdAt (sort_key dcm_id rows))"

definition listedDocuments :: "project_context \<Rightarrow> list_query \<Rightarrow> documents_db \<Rightarrow> stored_document list" where
  "listedDocuments ctx query d = take (lqy_limit query) (newestFirst (filter (\<lambda>x.
     dcm_tenantId x = cx_tenantId ctx \<and> dcm_projectId x = prj_id (cx_project ctx)
     \<and> (truthy (lqy_cursor query) \<longrightarrow> dcm_id x < the (lqy_cursor query))) (dm_documents d)))"

definition listProjectDocuments ::
  "('raw \<Rightarrow> string list + list_query) \<Rightarrow> string \<Rightarrow> 'raw \<Rightarrow>
   ((stored_document \<times> stored_version option) list \<times> string option) documents" where
  "listProjectDocuments safeParse projectId rawQuery =
     bindH (parseH ''Invalid list query'' safeParse rawQuery) (\<lambda>query.
     projectAction projectId (DocumentCap c_document_read) (\<lambda>ctx.
     readDb (\<lambda>d. let rows = listedDocuments ctx query d in
       (map (\<lambda>x. (x, currentVersionOf d x)) rows,
        if length rows = lqy_limit query then (if rows = [] then None else Some (dcm_id (last rows)))
        else None))))"

text \<open>
  A document that is quarantined or still uploading is shown to its creator and to those who may
  see the quarantine.
\<close>

definition hiddenFrom :: "project_context \<Rightarrow> stored_document \<Rightarrow> bool" where
  "hiddenFrom ctx doc \<longleftrightarrow> dcm_status doc \<in> {SC_QUARANTINED, SC_UPLOADING}
     \<and> \<not> hasCapability (cx_capabilities ctx) (DocumentCap c_document_quarantine_view)
     \<and> dcm_createdByUserId doc \<noteq> userId ctx
     \<and> dcm_status doc \<notin> {SC_READY, SC_PARTIALLY_PROCESSED, SC_FAILED, SC_ARCHIVED, SC_SUPERSEDED}"

definition getProjectDocument ::
  "string \<Rightarrow> string \<Rightarrow> (stored_document \<times> stored_version list) documents" where
  "getProjectDocument projectId documentId =
     projectAction projectId (DocumentCap c_document_read) (\<lambda>ctx.
     bindH (findOr notFound (findDocument ctx documentId)) (\<lambda>doc.
     thenH (requireH (\<not> hiddenFrom ctx doc) notFound)
       (readDb (\<lambda>d. (doc, rev (sort_key stv_versionNumber
          (filter (\<lambda>v. stv_sourceDocumentId v = dcm_id doc) (dm_versions d))))))))"

definition listDocumentVersions :: "string \<Rightarrow> string \<Rightarrow> stored_version list documents" where
  "listDocumentVersions projectId documentId =
     bindH (getProjectDocument projectId documentId) (\<lambda>doc. returnH (snd doc))"

definition getDocumentProcessing ::
  "string \<Rightarrow> string \<Rightarrow> (source_status \<times> processing_run list) documents" where
  "getDocumentProcessing projectId documentId =
     projectAction projectId (DocumentCap c_document_processing_view) (\<lambda>ctx.
     bindH (findOr notFound (findDocument ctx documentId)) (\<lambda>doc.
     readDb (\<lambda>d. (dcm_status doc, take 50 (rev (filter (\<lambda>r. prn_tenantId r = cx_tenantId ctx
       \<and> prn_projectId r = prj_id (cx_project ctx)
       \<and> list_ex (\<lambda>v. stv_id v = prn_documentVersionId r \<and> stv_sourceDocumentId v = dcm_id doc)
           (dm_versions d)) (dm_runs d)))))))"

definition kindRank :: "segment_kind \<Rightarrow> nat" where
  "kindRank k = (case k of SK_PAGE \<Rightarrow> 0 | SK_PARAGRAPH \<Rightarrow> 1 | SK_SECTION \<Rightarrow> 2 | SK_EMAIL_HEADER \<Rightarrow> 3
     | SK_EMAIL_BODY \<Rightarrow> 4 | SK_ATTACHMENT \<Rightarrow> 5 | SK_SPREADSHEET_SHEET \<Rightarrow> 6 | SK_SPREADSHEET_RANGE \<Rightarrow> 7
     | SK_SCHEDULE_ACTIVITY \<Rightarrow> 8 | SK_METADATA_FIELD \<Rightarrow> 9 | SK_LINE_CHUNK \<Rightarrow> 10 | SK_OTHER \<Rightarrow> 11)"

text \<open>\<open>orderBy kind asc, ordinal asc\<close>.\<close>

definition listEvidenceSegments :: "string \<Rightarrow> string \<Rightarrow> stored_segment list documents" where
  "listEvidenceSegments projectId documentId =
     projectAction projectId (DocumentCap c_document_processing_view) (\<lambda>ctx.
     bindH (findOr notFound (\<lambda>d. case findDocument ctx documentId d of None \<Rightarrow> None
        | Some doc \<Rightarrow> currentVersionOf d doc)) (\<lambda>version.
     thenH (requireH (stv_malwareScanStatus version = MW_CLEAN)
       (forbidden ''Evidence is not available until the file is scanned clean''))
       (readDb (\<lambda>d. take 500 (sort_key (\<lambda>x. kindRank (sgm_kind x)) (sort_key sgm_ordinal
          (filter (\<lambda>x. sgm_tenantId x = cx_tenantId ctx \<and> sgm_projectId x = prj_id (cx_project ctx)
            \<and> sgm_documentVersionId x = stv_id version) (dm_segments d))))))))"

definition listIngestionTimeline :: "string \<Rightarrow> string \<Rightarrow> ingestion_event list documents" where
  "listIngestionTimeline projectId documentId =
     projectAction projectId (DocumentCap c_document_processing_view) (\<lambda>ctx.
     bindH (findOr notFound (findDocument ctx documentId)) (\<lambda>doc.
     readDb (\<lambda>d. take 200 (filter (\<lambda>e. ige_tenantId e = cx_tenantId ctx
       \<and> ige_projectId e = prj_id (cx_project ctx) \<and> ige_sourceDocumentId e = Some (dcm_id doc))
       (dm_events d)))))"

section \<open>Evidence references\<close>

record evidence_reference =
  evr_tenantId :: string
  evr_projectId :: string
  evr_sourceDocumentId :: string
  evr_documentVersionId :: string
  evr_processingRunId :: string
  evr_evidenceSegmentId :: "string option"
  evr_selectedTextSha256 :: "string option"
  evr_quotedText :: "string option"

text \<open>
  \<open>parseEvidenceReference\<close> throws a \<open>ZodError\<close>, which is no \<open>AppError\<close>.
\<close>

definition resolveEvidenceReferenceForUser ::
  "('raw \<Rightarrow> evidence_reference option) \<Rightarrow> 'raw \<Rightarrow>
   (evidence_reference \<times> stored_version \<times> stored_segment option) documents" where
  "resolveEvidenceReferenceForUser parse rawRef =
     bindH (someH unexpectedError (parse rawRef)) (\<lambda>ref.
     bindH (accessP (evr_projectId ref) (DocumentCap c_document_read)) (\<lambda>ctx.
     thenH (requireH (cx_tenantId ctx = evr_tenantId ref) notFound) (transactionH
     (bindH (readDb (\<lambda>d. if \<not> truthy (evr_evidenceSegmentId ref) then None
        else find (\<lambda>x. Some (sgm_id x) = evr_evidenceSegmentId ref \<and> sgm_tenantId x = cx_tenantId ctx
          \<and> sgm_projectId x = prj_id (cx_project ctx)
          \<and> sgm_documentVersionId x = evr_documentVersionId ref
          \<and> sgm_processingRunId x = evr_processingRunId ref) (dm_segments d))) (\<lambda>segment.
     bindH (findOr notFound (\<lambda>d. find (\<lambda>x. stv_id x = evr_documentVersionId ref
        \<and> stv_tenantId x = cx_tenantId ctx \<and> stv_projectId x = prj_id (cx_project ctx)
        \<and> stv_sourceDocumentId x = evr_sourceDocumentId ref) (dm_versions d))) (\<lambda>version.
     thenH (requireH (stv_malwareScanStatus version = MW_CLEAN) (forbidden ''Source not available''))
       (returnH (ref, version, segment))))))))"

end
