(* ===== verification/DocumentFacts.thy ===== *)
theory DocumentFacts
  imports DocumentService
begin

text \<open>
  What the rules of document intake promise: the bytes that pass, and the keys that objects get.
\<close>

section \<open>What the bytes of a file show\<close>

definition beginsWith :: "bytes \<Rightarrow> bytes \<Rightarrow> bool" where
  "beginsWith sig content \<longleftrightarrow> take (length sig) content = sig"

text \<open>The contents a media type stands for, as far as the signatures tell.\<close>

definition contentOf :: "string \<Rightarrow> bytes \<Rightarrow> bool" where
  "contentOf mediaType content \<longleftrightarrow>
     (if mediaType = DOCX_TYPE \<or> mediaType = XLSX_TYPE then beginsWith [80, 75, 3, 4] content
      else if mediaType \<in> {''application/pdf'', ''image/png'', ''image/jpeg'', ''image/tiff''}
      then list_ex (\<lambda>(m, sig). m = mediaType \<and> beginsWith sig content) MAGIC
      else list_all (\<lambda>(_, sig). \<not> beginsWith sig content) MAGIC)"

lemma policy_type:
  assumes "validateDeclaredUpload filename declared n limit = FP_OK name extension mediaType"
  shows "mediaTypeOf extension = Some mediaType \<and> 0 < n
    \<and> (case limit of None \<Rightarrow> n \<le> maxUploadBytes | Some m \<Rightarrow> n \<le> m)
    \<and> assertSafeFilename filename = Inr (name, extension)"
  using assms
  by (auto simp: validateDeclaredUpload_def declaredType_def Let_def split: if_splits option.splits sum.splits)

lemma media_types:
  "mediaTypeOf extension = Some mediaType \<Longrightarrow>
    (extension, mediaType) \<in> set (map (\<lambda>(k, v). (units k, v)) EXTENSION_MEDIA_TYPE)"
  unfolding mediaTypeOf_def by (rule map_of_SomeD)

lemma longEnough: "length sig \<le> length content \<and> take (length sig) content = sig \<longleftrightarrow> beginsWith sig content"
  by (auto simp: beginsWith_def dest: arg_cong[of _ _ length])

lemma signatureOf_begins:
  "signatureOf content = map_option fst (find (\<lambda>(_, sig). beginsWith sig content) MAGIC)"
  by (simp add: signatureOf_def longEnough)

text \<open>The signatures exclude each other: their first bytes differ, or their second.\<close>

lemma signature_cases:
  "signatureOf content = (if beginsWith [37, 80, 68, 70] content then Some ''application/pdf''
     else if beginsWith [137, 80, 78, 71] content then Some ''image/png''
     else if beginsWith [255, 216, 255] content then Some ''image/jpeg''
     else if beginsWith [73, 73, 42, 0] content \<or> beginsWith [77, 77, 0, 42] content then Some ''image/tiff''
     else if beginsWith [80, 75, 3, 4] content then Some ZIP_TYPE else None)"
  by (simp add: signatureOf_begins MAGIC_def)

lemma begins_Cons: "beginsWith (c # cs) (b # bs) \<longleftrightarrow> b = c \<and> beginsWith cs bs"
  by (simp add: beginsWith_def)

lemma begins_Nil: "\<not> beginsWith (c # cs) []"
  by (simp add: beginsWith_def)

lemma contentOf_signature:
  "contentOf mediaType content \<longleftrightarrow>
     (if mediaType = DOCX_TYPE \<or> mediaType = XLSX_TYPE then signatureOf content = Some ZIP_TYPE
      else if mediaType \<in> {''application/pdf'', ''image/png'', ''image/jpeg'', ''image/tiff''}
      then signatureOf content = Some mediaType
      else signatureOf content = None)"
proof (cases content)
  case Nil
  then show ?thesis
    by (simp add: contentOf_def signature_cases begins_Nil MAGIC_def DOCX_TYPE_def XLSX_TYPE_def)
next
  case (Cons b bs)
  then show ?thesis
    by (simp add: contentOf_def signature_cases begins_Cons MAGIC_def DOCX_TYPE_def XLSX_TYPE_def
      ZIP_TYPE_def)
qed

lemma signature_types:
  "signatureOf content \<in> {None, Some ''application/pdf'', Some ''image/png'', Some ''image/jpeg'',
     Some ''image/tiff'', Some ZIP_TYPE}"
  by (simp add: signature_cases)

text \<open>Both the check and the contents look at the signature only.\<close>

definition detectFrom :: "string option \<Rightarrow> units \<Rightarrow> string \<times> bool" where
  "detectFrom sig extension = (case sig of
     Some mediaType \<Rightarrow>
       (if mediaType \<noteq> ZIP_TYPE then mediaType
        else if extension = units ''docx'' then DOCX_TYPE
        else if extension = units ''xlsx'' then XLSX_TYPE else ZIP_TYPE, True)
   | None \<Rightarrow> if extension \<in> set (map units TEXT_EXTENSIONS)
       then (orText (mediaTypeOf extension) ''text/plain'', False) else (OCTET_TYPE, False))"

definition passesWith :: "string \<times> bool \<Rightarrow> units \<Rightarrow> string \<Rightarrow> bool" where
  "passesWith detected extension expected \<longleftrightarrow> fst detected \<noteq> OCTET_TYPE
     \<and> (fst detected = expected
        \<or> (if snd detected then fst detected = ZIP_TYPE
              \<and> (includesStr expected ''wordprocessingml'' \<or> includesStr expected ''spreadsheetml'')
            else extension = units ''xer''))"

definition magicFrom :: "string option \<Rightarrow> units \<Rightarrow> string \<Rightarrow> bool" where
  "magicFrom sig extension expected \<longleftrightarrow> passesWith (detectFrom sig extension) extension expected"

definition contentFrom :: "string option \<Rightarrow> string \<Rightarrow> bool" where
  "contentFrom sig mediaType \<longleftrightarrow>
     (if mediaType = DOCX_TYPE \<or> mediaType = XLSX_TYPE then sig = Some ZIP_TYPE
      else if mediaType \<in> {''application/pdf'', ''image/png'', ''image/jpeg'', ''image/tiff''}
      then sig = Some mediaType else sig = None)"

lemma detect_from_signature:
  "detectMediaTypeFromBytes content extension = detectFrom (signatureOf content) extension"
  by (simp add: detectMediaTypeFromBytes_def detectFrom_def split: option.split)

lemma if_Inl_Inr: "(if b then Inl e else x) = Inr y \<longleftrightarrow> \<not> b \<and> x = Inr y"
  by simp

lemma magic_passes:
  "assertMagicMatchesPolicy content extension expected = Inr found \<longleftrightarrow>
     found = expected \<and> passesWith (detectMediaTypeFromBytes content extension) extension expected"
  unfolding assertMagicMatchesPolicy_def passesWith_def Let_def
  by (cases "snd (detectMediaTypeFromBytes content extension)";
      simp only: if_Inl_Inr sum.inject simp_thms if_True if_False; blast)

lemma magic_from_signature:
  "assertMagicMatchesPolicy content extension expected = Inr found \<longleftrightarrow>
     found = expected \<and> magicFrom (signatureOf content) extension expected"
  by (simp only: magic_passes magicFrom_def detect_from_signature)

lemmas type_texts = DOCX_TYPE_def XLSX_TYPE_def ZIP_TYPE_def OCTET_TYPE_def

lemma magic_of_image:
  assumes "m \<in> {''application/pdf'', ''image/png'', ''image/jpeg'', ''image/tiff''}"
  shows "magicFrom (Some m) extension expected = contentFrom (Some m) expected"
proof -
  have "m \<noteq> ZIP_TYPE \<and> m \<noteq> OCTET_TYPE \<and> m \<noteq> DOCX_TYPE \<and> m \<noteq> XLSX_TYPE"
    using assms by (elim insertE emptyE; simp add: type_texts)
  then show ?thesis using assms by (auto simp: magicFrom_def passesWith_def detectFrom_def contentFrom_def)
qed

lemma extension_units:
  "units ''docx'' = [100, 111, 99, 120]" "units ''xlsx'' = [120, 108, 115, 120]"
  "units ''xer'' = [120, 101, 114]" "units ''txt'' = [116, 120, 116]" "units ''csv'' = [99, 115, 118]"
  "units ''eml'' = [101, 109, 108]" "units ''xml'' = [120, 109, 108]" "units ''pdf'' = [112, 100, 102]"
  "units ''png'' = [112, 110, 103]" "units ''jpg'' = [106, 112, 103]"
  "units ''jpeg'' = [106, 112, 101, 103]" "units ''tif'' = [116, 105, 102]"
  "units ''tiff'' = [116, 105, 102, 102]"
  by (simp_all add: units_ascii)

lemma magic_of_zip:
  "list_all (\<lambda>(k, v). magicFrom (Some ZIP_TYPE) (units k) v = contentFrom (Some ZIP_TYPE) v) EXTENSION_MEDIA_TYPE"
  by (simp add: EXTENSION_MEDIA_TYPE_def magicFrom_def passesWith_def detectFrom_def contentFrom_def extension_units type_texts)

lemma magic_of_text:
  "list_all (\<lambda>(k, v). magicFrom None (units k) v = contentFrom None v) EXTENSION_MEDIA_TYPE"
  by (simp add: EXTENSION_MEDIA_TYPE_def magicFrom_def passesWith_def detectFrom_def contentFrom_def extension_units type_texts
    TEXT_EXTENSIONS_def mediaTypeOf_def orText_def)

text \<open>
  A file that was admitted by the policy on names and declared types passes the check of its bytes
  exactly when they begin with the signature of its media type, or, for a type of text, with none of
  the known signatures.
\<close>

lemma accepted_bytes_match_the_type:
  assumes "validateDeclaredUpload filename declared n limit = FP_OK name extension mediaType"
  shows "assertMagicMatchesPolicy content extension mediaType = Inr found
    \<longleftrightarrow> found = mediaType \<and> contentOf mediaType content"
proof -
  have "(extension, mediaType) \<in> set (map (\<lambda>(k, v). (units k, v)) EXTENSION_MEDIA_TYPE)"
    using policy_type[OF assms] media_types by blast
  then obtain k where "(k, mediaType) \<in> set EXTENSION_MEDIA_TYPE" "extension = units k" by auto
  then have "magicFrom (signatureOf content) extension mediaType = contentFrom (signatureOf content) mediaType"
    using magic_of_zip magic_of_text signature_types[of content] magic_of_image
    by (fastforce simp: list_all_iff)
  then show ?thesis
    by (simp add: magic_from_signature contentOf_signature contentFrom_def)
qed

section \<open>Storage keys keep organizations apart\<close>

abbreviation slash :: char where
  "slash \<equiv> CHR ''/''"

lemma assertNoTraversal_Some: "assertNoTraversal p = Some q \<Longrightarrow> q = p \<and> slash \<notin> set p"
proof -
  assume a: "assertNoTraversal p = Some q"
  then have "\<not> includesStr p ''/''" by (simp add: assertNoTraversal_def split: if_splits)
  then have "slash \<notin> set p" by (metis append_Cons append_Nil includesStr_iff split_list)
  then show ?thesis using a by (simp add: assertNoTraversal_def split: if_splits)
qed

lemma checkParts_Some: "checkParts ps = Some qs \<Longrightarrow> qs = ps \<and> (\<forall>p\<in>set ps. slash \<notin> set p)"
  by (induction ps arbitrary: qs) (auto split: option.splits dest!: assertNoTraversal_Some)

lemma split_at_slash:
  "slash \<notin> set p \<Longrightarrow> slash \<notin> set q \<Longrightarrow> p @ slash # r = q @ slash # s \<longleftrightarrow> p = q \<and> r = s"
proof (induction p arbitrary: q)
  case Nil
  then show ?case by (cases q) auto
next
  case (Cons c cs)
  then show ?case by (cases q) auto
qed

lemma quarantine_key:
  "buildQuarantineObjectKey oid tenantId projectId i = Some k \<longleftrightarrow>
     checkParts [tenantId, projectId, i] = Some [tenantId, projectId, i]
     \<and> k = ''tenants/'' @ tenantId @ ''/projects/'' @ projectId @ ''/quarantine/'' @ i @ slash # oid"
  using checkParts_Some[of "[tenantId, projectId, i]"]
  by (cases "checkParts [tenantId, projectId, i]") (auto simp: buildQuarantineObjectKey_def)

lemma original_key:
  "buildOriginalObjectKey oid tenantId projectId i = Some k \<longleftrightarrow>
     checkParts [tenantId, projectId, i] = Some [tenantId, projectId, i]
     \<and> k = ''tenants/'' @ tenantId @ ''/projects/'' @ projectId @ ''/originals/'' @ i @ slash # oid"
  using checkParts_Some[of "[tenantId, projectId, i]"]
  by (cases "checkParts [tenantId, projectId, i]") (auto simp: buildOriginalObjectKey_def)

lemma key_parts:
  assumes "slash \<notin> set t" "slash \<notin> set p" "slash \<notin> set i" "slash \<notin> set u" "slash \<notin> set q"
    "slash \<notin> set j" "slash \<notin> set a" "slash \<notin> set b"
    and "''tenants/'' @ t @ ''/projects/'' @ p @ slash # a @ slash # i @ slash # x
       = ''tenants/'' @ u @ ''/projects/'' @ q @ slash # b @ slash # j @ slash # y"
  shows "t = u \<and> p = q \<and> a = b \<and> i = j \<and> x = y"
proof -
  have "t @ slash # ''projects/'' @ p @ slash # a @ slash # i @ slash # x
      = u @ slash # ''projects/'' @ q @ slash # b @ slash # j @ slash # y" using assms(9) by simp
  then have "t = u" and "p @ slash # a @ slash # i @ slash # x = q @ slash # b @ slash # j @ slash # y"
    using assms(1,4) by (simp_all add: split_at_slash)
  then show ?thesis using assms by (simp add: split_at_slash)
qed

text \<open>
  A quarantine key names its organization, project and upload: two uploads share a key only if
  they are the same upload, and no key of an original is a key of the quarantine.
\<close>

lemma storage_keys_separate:
  assumes "buildQuarantineObjectKey oid tenantId projectId i = Some k"
  shows "(buildQuarantineObjectKey oidB tenantB projectB j = Some k \<longrightarrow>
      tenantB = tenantId \<and> projectB = projectId \<and> j = i \<and> oidB = oid)
    \<and> buildOriginalObjectKey oidB tenantB projectB j \<noteq> Some k \<and> mayDelete k"
proof -
  let ?parts = "\<lambda>t p x. checkParts [t, p, x] = Some [t, p, x]"
  have plain: "slash \<notin> set t \<and> slash \<notin> set p \<and> slash \<notin> set x" if "?parts t p x" for t p x
    using checkParts_Some[OF that] by simp
  have k: "?parts tenantId projectId i"
      "k = ''tenants/'' @ tenantId @ ''/projects/'' @ projectId @ slash # ''quarantine'' @ slash # i @ slash # oid"
    using assms by (simp_all add: quarantine_key)
  have "mayDelete k" unfolding mayDelete_def includesStr_iff k(2)
    by (rule exI[of _ "''tenants/'' @ tenantId @ ''/projects/'' @ projectId"]) simp
  moreover have "tenantB = tenantId \<and> projectB = projectId \<and> j = i \<and> oidB = oid"
    if "buildQuarantineObjectKey oidB tenantB projectB j = Some k"
    using that plain[OF k(1)] plain[of tenantB projectB j]
      key_parts[of tenantB projectB j tenantId projectId i "''quarantine''" "''quarantine''" oidB oid]
    by (simp add: quarantine_key k(2))
  moreover have "buildOriginalObjectKey oidB tenantB projectB j \<noteq> Some k"
    using plain[OF k(1)] plain[of tenantB projectB j]
      key_parts[of tenantB projectB j tenantId projectId i "''originals''" "''quarantine''" oidB oid]
    by (auto simp: original_key k(2))
  ultimately show ?thesis by blast
qed

lemma demo_storage_keys:
  "buildQuarantineObjectKey ''x'' ''A'' ''p1'' ''u1'' = Some ''tenants/A/projects/p1/quarantine/u1/x''
   \<and> mayDelete ''tenants/A/projects/p1/quarantine/u1/x''
   \<and> buildOriginalObjectKey ''x'' ''A'' ''p1'' ''u1'' \<noteq> Some ''tenants/A/projects/p1/quarantine/u1/x''"
proof -
  have k: "buildQuarantineObjectKey ''x'' ''A'' ''p1'' ''u1'' = Some ''tenants/A/projects/p1/quarantine/u1/x''"
    by code_simp
  show ?thesis using k storage_keys_separate[OF k, where oidB = "''x''" and tenantB = "''A''" and projectB = "''p1''" and j = "''u1''"] by blast
qed

lemma accepted_bytes_match_the_type_witness:
  "validateDeclaredUpload (units ''a.png'') ''image/png'' 4 None = FP_OK (units ''a.png'') (units ''png'') ''image/png''
   \<and> assertMagicMatchesPolicy [137, 80, 78, 71] (units ''png'') ''image/png'' = Inr ''image/png''
   \<and> assertMagicMatchesPolicy [37, 80, 78, 71] (units ''png'') ''image/png'' \<noteq> Inr ''image/png''"
proof -
  have name: "normalizeFilename [97, 46, 112, 110, 103] = [97, 46, 112, 110, 103]"
    by (simp add: normalizeFilename_def trimUnits_def baseName_def spaceUnit_def controlUnit_def
      separatorUnit_def)
  have extension: "extractExtension [97, 46, 112, 110, 103] = [112, 110, 103]"
    by (simp add: extractExtension_def name lastDot_def lowerText_def lowerUnit_def)
  have ok: "validateDeclaredUpload (units ''a.png'') ''image/png'' 4 None = FP_OK (units ''a.png'') (units ''png'') ''image/png''"
    by (simp add: validateDeclaredUpload_def assertSafeFilename_def units_ascii name extension
      declaredType_def mediaTypeOf_def EXTENSION_MEDIA_TYPE_def declaredTypeOk_def maxUploadBytes_def
      trimUnits_def spaceUnit_def hasDoubleDot_successively plainUnits_def Let_def DANGEROUS_EXTENSIONS_def)
  show ?thesis
    using ok accepted_bytes_match_the_type[OF ok, where found = "''image/png''"]
    by (simp add: contentOf_def DOCX_TYPE_def XLSX_TYPE_def MAGIC_def beginsWith_def)
qed

end
