(* ===== verification/DocumentTracking.thy ===== *)
theory DocumentTracking
  imports DocumentFacts
begin

text \<open>
  What the document service keeps.  \<open>upload_step\<close> is the abstract machine of upload sessions and
  of the deletions the service asks for: every request keeps them, starts one session, or settles one
  that was authorized.  \<open>document_request\<close> is any request or a change by the workers, which
  leave the sessions alone.
\<close>

section \<open>The abstract machine of uploads\<close>

text \<open>What a session keeps while its status changes.\<close>

definition settled :: "upload_status \<Rightarrow> upload_session \<Rightarrow> upload_session \<Rightarrow> bool" where
  "settled new x y \<longleftrightarrow> y = x\<lparr>ups_status := new, ups_failureCode := ups_failureCode y,
     ups_failureDetailSafe := ups_failureDetailSafe y, ups_completedAt := ups_completedAt y,
     ups_documentVersionId := ups_documentVersionId y\<rparr>"

lemma settled_keeps:
  "settled new x y \<Longrightarrow> ups_status y = new \<and> ups_id y = ups_id x \<and> ups_tenantId y = ups_tenantId x
     \<and> ups_projectId y = ups_projectId x \<and> ups_initiatedByUserId y = ups_initiatedByUserId x
     \<and> ups_storageKey y = ups_storageKey x \<and> ups_idempotencyKey y = ups_idempotencyKey x"
  unfolding settled_def by (erule ssubst) simp

text \<open>The moves of one request, the passing through \<open>UPLOADED\<close> left out.\<close>

fun sessionMove :: "upload_status \<Rightarrow> upload_status \<Rightarrow> bool" where
  "sessionMove UP_UPLOAD_AUTHORIZED new \<longleftrightarrow> new \<in> {UP_VALIDATING, UP_ACCEPTED, UP_REJECTED, UP_FAILED,
     UP_EXPIRED, UP_CANCELLED}"
| "sessionMove UP_INITIATED new \<longleftrightarrow> new \<in> {UP_EXPIRED, UP_CANCELLED}"
| "sessionMove UP_UPLOADED new \<longleftrightarrow> new = UP_EXPIRED"
| "sessionMove _ _ \<longleftrightarrow> False"

inductive upload_step :: "nat \<Rightarrow> nat \<Rightarrow> documents_db \<Rightarrow> documents_db \<Rightarrow> bool" for userMax projectMax d where
  us_keep: "dm_sessions e = dm_sessions d \<Longrightarrow> dm_deletions e = dm_deletions d \<Longrightarrow>
    upload_step userMax projectMax d e"
| us_start: "dm_sessions e = dm_sessions d @ [x] \<Longrightarrow> dm_deletions e = dm_deletions d \<Longrightarrow>
    ups_id x \<notin> ups_id ` set (dm_sessions d) \<Longrightarrow> ups_status x = UP_UPLOAD_AUTHORIZED \<Longrightarrow>
    \<not> list_ex (sessionClash x) (dm_sessions d) \<Longrightarrow>
    activeOfUser (ups_tenantId x) (ups_initiatedByUserId x) d < userMax \<Longrightarrow>
    activeOfProject (ups_tenantId x) (ups_projectId x) d < projectMax \<Longrightarrow>
    buildQuarantineObjectKey oid (ups_tenantId x) (ups_projectId x) (ups_id x) = Some (ups_storageKey x) \<Longrightarrow>
    upload_step userMax projectMax d e"
| us_settle: "row \<in> set (dm_sessions d) \<Longrightarrow> sessionMove (ups_status row) new \<Longrightarrow>
    dm_sessions e = updateWhere (\<lambda>x. ups_id x = ups_id row) f (dm_sessions d) \<Longrightarrow>
    (\<And>x. settled new x (f x)) \<Longrightarrow>
    dm_deletions e = dm_deletions d @ whenl deleted (ups_storageKey row) \<Longrightarrow>
    (deleted \<Longrightarrow> new \<in> {UP_REJECTED, UP_CANCELLED}) \<Longrightarrow>
    upload_step userMax projectMax d e"

inductive_cases upload_stepE: "upload_step userMax projectMax d e"

section \<open>What completing an upload writes\<close>

lemma updateSession_Inr [ok_iff]:
  "updateSession i f s = (Inr x, t) \<longleftrightarrow> t = s\<lparr>ap_db := (ap_db s)
     \<lparr>dm_sessions := updateWhere (\<lambda>x. ups_id x = i) f (dm_sessions (ap_db s))\<rparr>\<rparr>"
  by (auto simp: updateSession_def writeDb_Inr)

lemma updateDocument_Inr [ok_iff]:
  "updateDocument i f s = (Inr x, t) \<longleftrightarrow> t = s\<lparr>ap_db := (ap_db s)
     \<lparr>dm_documents := updateWhere (\<lambda>x. dcm_id x = i) f (dm_documents (ap_db s))\<rparr>\<rparr>"
  by (auto simp: updateDocument_def writeDb_Inr)

lemma assertTransition_Inr [ok_iff]:
  "assertUploadSessionTransition a b s = (Inr x, t) \<longleftrightarrow> canTransitionUploadSession a b \<and> t = s"
  "assertSourceDocumentTransition c g s = (Inr x, t) \<longleftrightarrow> canTransitionSourceDocument c g \<and> t = s"
  by (auto simp: assertUploadSessionTransition_def assertSourceDocumentTransition_def ok_iff)

definition eventRow ::
  "project_context \<Rightarrow> string option \<Rightarrow> string option \<Rightarrow> string option \<Rightarrow> string option \<Rightarrow> string \<Rightarrow>
   string option \<Rightarrow> ingestion_event" where
  "eventRow ctx documentId versionId sessionId runId eventType correlationId =
     \<lparr>ige_tenantId = cx_tenantId ctx, ige_projectId = prj_id (cx_project ctx),
      ige_sourceDocumentId = documentId, ige_documentVersionId = versionId,
      ige_uploadSessionId = sessionId, ige_processingRunId = runId, ige_eventType = eventType,
      ige_correlationId = correlationId\<rparr>"

lemma writeIngestionEvent_Inr [ok_iff]:
  "writeIngestionEvent ctx a b c d0 e0 g s = (Inr x, t) \<longleftrightarrow> t = s\<lparr>ap_db := (ap_db s)
     \<lparr>dm_events := dm_events (ap_db s) @ [eventRow ctx a b c d0 e0 g]\<rparr>\<rparr>"
  by (auto simp: writeIngestionEvent_def eventRow_def writeDb_Inr)

lemma deleteTemporaryObject_Inr [ok_iff]:
  "deleteTemporaryObject key s = (Inr x, t) \<longleftrightarrow> t = s\<lparr>ap_db := (ap_db s)
     \<lparr>dm_deletions := dm_deletions (ap_db s) @ whenl (mayDelete key) key\<rparr>\<rparr>"
  by (auto simp: deleteTemporaryObject_def writeDb_Inr)

lemma outbox_Inr [ok_iff]:
  "writeProcessDocumentOutbox ctx a b c s = (Inr x, t) \<longleftrightarrow>
     \<not> list_ex (\<lambda>y. obx_idempotencyKey y = ''process_document_version:'' @ a) (dm_outbox (ap_db s))
     \<and> t = s\<lparr>ap_db := (ap_db s)\<lparr>dm_outbox := dm_outbox (ap_db s) @ [outboxRow ctx a b c]\<rparr>\<rparr>"
  by (auto simp: writeProcessDocumentOutbox_def Let_def ok_iff outboxRow_def)

lemma createVersion_Inr [ok_iff]:
  "createVersion v s = (Inr x, t) \<longleftrightarrow>
     (\<exists>p. find (\<lambda>x. dcm_id x = stv_sourceDocumentId v) (dm_documents (ap_db s)) = Some p
        \<and> dcm_tenantId p = stv_tenantId v \<and> dcm_projectId p = stv_projectId v)
     \<and> \<not> list_ex (\<lambda>x. stv_tenantId x = stv_tenantId v \<and> stv_storageKey x = stv_storageKey v) (dm_versions (ap_db s))
     \<and> t = s\<lparr>ap_db := (ap_db s)\<lparr>dm_versions := dm_versions (ap_db s) @ [v]\<rparr>\<rparr>"
  by (auto simp: createVersion_def ok_iff)

lemma createRun_Inr [ok_iff]:
  "createRun env ctx versionId attempt c s = (Inr x, t) \<longleftrightarrow>
     (\<exists>p. find (\<lambda>x. stv_id x = versionId) (dm_versions (ap_db s)) = Some p
        \<and> stv_tenantId p = cx_tenantId ctx \<and> stv_projectId p = prj_id (cx_project ctx))
     \<and> x = newProcessingRun ctx versionId attempt c (denv_ids env T_PROCESSING_RUN (length (dm_runs (ap_db s))))
     \<and> t = s\<lparr>ap_db := (ap_db s)\<lparr>dm_runs := dm_runs (ap_db s) @ [x]\<rparr>\<rparr>"
  by (auto simp: createRun_def ok_iff)

lemma relateDuplicate_Inr:
  "relateDuplicate ctx a b s = (Inr x, t) \<Longrightarrow> \<exists>row. t = s\<lparr>ap_db := (ap_db s)
     \<lparr>dm_relationships := dm_relationships (ap_db s) @ [row]\<rparr>\<rparr>"
  by (auto simp: relateDuplicate_def ok_iff)

lemma closeSession_Inr [ok_iff]:
  "closeSession i new c m e0 s = (Inr x, t) \<longleftrightarrow> x = Inl e0 \<and> t = s\<lparr>ap_db := (ap_db s)
     \<lparr>dm_sessions := updateWhere (\<lambda>x. ups_id x = i) (\<lambda>x. x\<lparr>ups_status := new,
        ups_failureCode := Some c, ups_failureDetailSafe := Some m\<rparr>) (dm_sessions (ap_db s))\<rparr>\<rparr>"
  by (auto simp: closeSession_def ok_iff)

text \<open>The rows of an accepted upload.\<close>

definition acceptedRows ::
  "document_env \<Rightarrow> project_context \<Rightarrow> upload_session \<Rightarrow> object_head \<Rightarrow> string \<Rightarrow> string \<Rightarrow> string \<Rightarrow>
   string \<Rightarrow> string \<Rightarrow> documents_db \<Rightarrow> documents_db \<Rightarrow> bool" where
  "acceptedRows env ctx row head digest mediaType documentId versionId runId d e \<longleftrightarrow>
     (\<exists>c. dm_sessions e = updateWhere (\<lambda>x. ups_id x = ups_id row)
          (\<lambda>x. x\<lparr>ups_status := UP_ACCEPTED, ups_completedAt := Some (denv_now env),
             ups_documentVersionId := Some versionId\<rparr>) (dm_sessions d)
        \<and> dm_versions e = dm_versions d @ [newVersion env ctx row head digest mediaType documentId
             (nextNumber (map stv_versionNumber (filter (\<lambda>x. stv_sourceDocumentId x = documentId)
                (dm_versions d)))) versionId]
        \<and> (\<exists>doc. find (\<lambda>x. dcm_id x = documentId) (dm_documents d) = Some doc
             \<and> canTransitionSourceDocument (dcm_status doc) SC_QUARANTINED
             \<and> dcm_tenantId doc = cx_tenantId ctx \<and> dcm_projectId doc = prj_id (cx_project ctx))
        \<and> dm_documents e = updateWhere (\<lambda>x. dcm_id x = documentId)
             (\<lambda>x. x\<lparr>dcm_status := SC_QUARANTINED, dcm_currentVersionId := Some versionId\<rparr>) (dm_documents d)
        \<and> dm_runs e = dm_runs d @ [newProcessingRun ctx versionId 1 c runId]
        \<and> \<not> list_ex (\<lambda>y. obx_idempotencyKey y = ''process_document_version:'' @ runId) (dm_outbox d)
        \<and> dm_outbox e = dm_outbox d @ [outboxRow ctx runId versionId c])
     \<and> dm_deletions e = dm_deletions d"

lemma newVersion_simps [simp]:
  "stv_id (newVersion env ctx row head dg mt i n v) = v"
  "stv_tenantId (newVersion env ctx row head dg mt i n v) = cx_tenantId ctx"
  "stv_projectId (newVersion env ctx row head dg mt i n v) = prj_id (cx_project ctx)"
  "stv_sourceDocumentId (newVersion env ctx row head dg mt i n v) = i"
  "stv_storageKey (newVersion env ctx row head dg mt i n v) = ups_storageKey row"
  by (simp_all add: newVersion_def)

lemma newProcessingRun_simps [simp]:
  "prn_id (newProcessingRun ctx v n c i) = i" "prn_correlationId (newProcessingRun ctx v n c i) = c"
  "prn_attemptNumber (newProcessingRun ctx v n c i) = n"
  by (simp_all add: newProcessingRun_def)

lemma find_id: "find (\<lambda>x. k x = i) xs = Some y \<Longrightarrow> k y = i"
  by (auto dest: find_SomeD)

text \<open>The parts of an acceptance, with the state after each.\<close>

lemma returnH_Inr: "returnH x s = (Inr y, t) \<longleftrightarrow> y = x \<and> t = s"
  by auto

lemmas run_steps = bindH_Inr thenH_Inr someH_Inr readDb_Inr findOr_Inr assertTransition_Inr returnH_Inr

definition relateIfNew ::
  "project_context \<Rightarrow> complete_input \<Rightarrow> stored_version option \<Rightarrow> string \<Rightarrow> unit documents" where
  "relateIfNew ctx data dup i = (case dup of
     Some other \<Rightarrow> if cup_duplicateDecision data = Some DD_NEW_OCCURRENCE
       then relateDuplicate ctx i (stv_sourceDocumentId other) else returnH ()
   | None \<Rightarrow> returnH ())"

lemma relateIfNew_Inr:
  "relateIfNew ctx data dup i s = (Inr z, t) \<Longrightarrow>
    \<exists>rows. t = s\<lparr>ap_db := (ap_db s)\<lparr>dm_relationships := rows\<rparr>\<rparr>"
  by (cases dup) (auto simp: relateIfNew_def split: if_splits dest!: relateDuplicate_Inr
    intro: exI[of _ "dm_relationships (ap_db s)"])

lemma named_Some:
  "(case z of None \<Rightarrow> None | Some i \<Rightarrow> if i = [] then None else Some i) = Some x \<longleftrightarrow> z = Some x \<and> x \<noteq> []"
  by (cases z) auto

lemma acceptUpload_run:
  assumes "acceptUpload env ctx data row head digest mediaType dup s = (Inr out, t)"
  obtains i n vid doc c run x1 u1 u2 x3 u3 u4 x4 u5 x5 u6 x6 u7 x8 where
    "ups_sourceDocumentId row = Some i"
    "n = nextNumber (map stv_versionNumber (filter (\<lambda>x. stv_sourceDocumentId x = i) (dm_versions (ap_db s))))"
    "createVersion (newVersion env ctx row head digest mediaType i n vid) s = (Inr x1, u1)"
    "find (\<lambda>x. dcm_id x = i) (dm_documents (ap_db u1)) = Some doc"
    "canTransitionSourceDocument (dcm_status doc) SC_QUARANTINED"
    "u2 = u1\<lparr>ap_db := (ap_db u1)\<lparr>dm_documents := updateWhere (\<lambda>x. dcm_id x = dcm_id doc)
       (\<lambda>x. x\<lparr>dcm_status := SC_QUARANTINED, dcm_currentVersionId := Some vid\<rparr>) (dm_documents (ap_db u1))\<rparr>\<rparr>"
    "relateIfNew ctx data dup (dcm_id doc) u2 = (Inr x3, u3)"
    "createRun env ctx vid 1 c u3 = (Inr run, u4)"
    "updateSession (ups_id row) (\<lambda>x. x\<lparr>ups_status := UP_ACCEPTED,
        ups_completedAt := Some (denv_now env), ups_documentVersionId := Some vid\<rparr>) u4 = (Inr x4, u5)"
    "writeIngestionEvent ctx (Some (dcm_id doc)) (Some vid) (Some (ups_id row))
        (Some (prn_id run)) ''upload.accepted'' (Some (prn_correlationId run)) u5 = (Inr x5, u6)"
    "auditP ctx (prj_id (cx_project ctx)) ''document.upload.accepted'' ''document_version'' vid u6 = (Inr x6, u7)"
    "writeProcessDocumentOutbox ctx (prn_id run) vid (prn_correlationId run) u7 = (Inr x8, t)"
    "out = Inr (CM_ACCEPTED (ups_id row) (dcm_id doc) vid (prn_id run) digest (dup \<noteq> None))"
  using assms unfolding acceptUpload_def relateIfNew_def[symmetric] run_steps writeDb_Inr named_Some
  by - (elim exE conjE, hypsubst, rule that, (assumption | rule refl)+)

lemma acceptUpload_rows:
  assumes "acceptUpload env ctx data row head digest mediaType dup s = (Inr out, t)"
  shows "\<exists>i vid runId. ups_sourceDocumentId row = Some i
    \<and> out = Inr (CM_ACCEPTED (ups_id row) i vid runId digest (dup \<noteq> None))
    \<and> acceptedRows env ctx row head digest mediaType i vid runId (ap_db s) (ap_db t)"
  using assms
proof (rule acceptUpload_run)
  fix i n vid doc c run x1 u1 u2 x3 u3 u4 x4 u5 x5 u6 x6 u7 x8
  let ?v = "newVersion env ctx row head digest mediaType i n vid"
  assume source: "ups_sourceDocumentId row = Some i"
    and n: "n = nextNumber (map stv_versionNumber (filter (\<lambda>x. stv_sourceDocumentId x = i) (dm_versions (ap_db s))))"
    and v: "createVersion ?v s = (Inr x1, u1)"
    and doc: "find (\<lambda>x. dcm_id x = i) (dm_documents (ap_db u1)) = Some doc"
    and can: "canTransitionSourceDocument (dcm_status doc) SC_QUARANTINED"
    and u2: "u2 = u1\<lparr>ap_db := (ap_db u1)\<lparr>dm_documents := updateWhere (\<lambda>x. dcm_id x = dcm_id doc)
       (\<lambda>x. x\<lparr>dcm_status := SC_QUARANTINED, dcm_currentVersionId := Some vid\<rparr>) (dm_documents (ap_db u1))\<rparr>\<rparr>"
    and rel: "relateIfNew ctx data dup (dcm_id doc) u2 = (Inr x3, u3)"
    and run: "createRun env ctx vid 1 c u3 = (Inr run, u4)"
    and ses: "updateSession (ups_id row) (\<lambda>x. x\<lparr>ups_status := UP_ACCEPTED,
        ups_completedAt := Some (denv_now env), ups_documentVersionId := Some vid\<rparr>) u4 = (Inr x4, u5)"
    and ev: "writeIngestionEvent ctx (Some (dcm_id doc)) (Some vid) (Some (ups_id row))
        (Some (prn_id run)) ''upload.accepted'' (Some (prn_correlationId run)) u5 = (Inr x5, u6)"
    and au: "auditP ctx (prj_id (cx_project ctx)) ''document.upload.accepted'' ''document_version'' vid u6 = (Inr x6, u7)"
    and ob: "writeProcessDocumentOutbox ctx (prn_id run) vid (prn_correlationId run) u7 = (Inr x8, t)"
    and out: "out = Inr (CM_ACCEPTED (ups_id row) (dcm_id doc) vid (prn_id run) digest (dup \<noteq> None))"
  have i: "dcm_id doc = i" using find_id[OF doc] .
  obtain rows where u3: "u3 = u2\<lparr>ap_db := (ap_db u2)\<lparr>dm_relationships := rows\<rparr>\<rparr>"
    using relateIfNew_Inr[OF rel] by blast
  note u1 = v[unfolded createVersion_Inr newVersion_simps]
  note u4 = run[unfolded createRun_Inr]
  note late = ses[unfolded updateSession_Inr] ev[unfolded writeIngestionEvent_Inr] au[unfolded auditP_Inr]
    ob[unfolded outbox_Inr]
  obtain runId where run_is: "run = newProcessingRun ctx vid 1 c runId" using u4 by blast
  have "acceptedRows env ctx row head digest mediaType i vid (prn_id run) (ap_db s) (ap_db t)"
  proof -
    have u1d: "ap_db u1 = (ap_db s)\<lparr>dm_versions := dm_versions (ap_db s) @ [?v]\<rparr>" using u1 by simp
    have u2d: "ap_db u2 = (ap_db u1)\<lparr>dm_documents := updateWhere (\<lambda>x. dcm_id x = i)
        (\<lambda>x. x\<lparr>dcm_status := SC_QUARANTINED, dcm_currentVersionId := Some vid\<rparr>) (dm_documents (ap_db u1))\<rparr>"
      using u2 i by simp
    have u4d: "ap_db u4 = (ap_db u3)\<lparr>dm_runs := dm_runs (ap_db u3) @ [run]\<rparr>" using u4 by simp
    have u5d: "ap_db u5 = (ap_db u4)\<lparr>dm_sessions := updateWhere (\<lambda>x. ups_id x = ups_id row)
        (\<lambda>x. x\<lparr>ups_status := UP_ACCEPTED, ups_completedAt := Some (denv_now env),
           ups_documentVersionId := Some vid\<rparr>) (dm_sessions (ap_db u4))\<rparr>" using late(1) by simp
    have c: "prn_correlationId run = c" by (simp add: run_is)
    have u6d: "ap_db u6 = (ap_db u5)\<lparr>dm_events := dm_events (ap_db u5) @ [eventRow ctx (Some (dcm_id doc))
        (Some vid) (Some (ups_id row)) (Some (prn_id run)) ''upload.accepted'' (Some c)]\<rparr>"
      using late(2) c by simp
    have u7d: "ap_db u7 = ap_db u6" using late(3) by simp
    have td: "ap_db t = (ap_db u7)\<lparr>dm_outbox := dm_outbox (ap_db u7) @ [outboxRow ctx (prn_id run) vid c]\<rparr>"
      using late(4) c by simp
    have fresh: "\<not> list_ex (\<lambda>y. obx_idempotencyKey y = ''process_document_version:'' @ prn_id run)
        (dm_outbox (ap_db s))"
      using late(4) u1d u2d u3 u4d u5d u6d u7d by simp
    have parent: "find (\<lambda>x. dcm_id x = i) (dm_documents (ap_db s)) = Some doc" using doc u1d by simp
    then have org: "dcm_tenantId doc = cx_tenantId ctx \<and> dcm_projectId doc = prj_id (cx_project ctx)" using u1 by simp
    show ?thesis
      unfolding acceptedRows_def
      using parent org can fresh
      by (intro conjI exI[of _ c] exI[of _ doc])
        (simp_all add: td u7d u6d u5d u4d u3 u2d u1d n run_is)
  qed
  then show ?thesis using source out i by blast
qed

text \<open>Sessions and deletions.\<close>

text \<open>The effect of one run on the sessions and the deletions.\<close>

definition settles :: "upload_session \<Rightarrow> upload_status set \<Rightarrow> documents_db \<Rightarrow> documents_db \<Rightarrow> bool" where
  "settles row news d e \<longleftrightarrow> (\<exists>new f deleted. new \<in> news
     \<and> dm_sessions e = updateWhere (\<lambda>x. ups_id x = ups_id row) f (dm_sessions d)
     \<and> (\<forall>x. settled new x (f x))
     \<and> dm_deletions e = dm_deletions d @ whenl deleted (ups_storageKey row)
     \<and> (deleted \<longrightarrow> new \<in> {UP_REJECTED, UP_CANCELLED}))"

lemma settled_update:
  "settled new x (x\<lparr>ups_status := new\<rparr>)"
  "settled new x (x\<lparr>ups_status := new, ups_failureCode := c\<rparr>)"
  "settled new x (x\<lparr>ups_status := new, ups_failureCode := c, ups_failureDetailSafe := m\<rparr>)"
  "settled new x (x\<lparr>ups_status := new, ups_completedAt := n\<rparr>)"
  "settled new x (x\<lparr>ups_status := new, ups_completedAt := n, ups_documentVersionId := i\<rparr>)"
  by (simp_all add: settled_def)

lemma settled_trans: "settled a x y \<Longrightarrow> settled b y z \<Longrightarrow> settled b x z"
  unfolding settled_def by (erule ssubst[where t = z]) (erule ssubst[where t = y], simp)

lemma updateWhere_twice:
  assumes "\<And>x. P x \<Longrightarrow> P (f x)"
  shows "updateWhere P g (updateWhere P f xs) = updateWhere P (g \<circ> f) xs"
  using assms by (induction xs) auto

lemma settles_after:
  assumes "settles row {new} d c" "dm_deletions c = dm_deletions d" "settles row news c e"
  shows "settles row news d e"
proof -
  obtain f where f: "dm_sessions c = updateWhere (\<lambda>x. ups_id x = ups_id row) f (dm_sessions d)"
      "\<forall>x. settled new x (f x)"
    using assms(1) unfolding settles_def by blast
  obtain new2 g deleted where g: "new2 \<in> news"
      "dm_sessions e = updateWhere (\<lambda>x. ups_id x = ups_id row) g (dm_sessions c)"
      "\<forall>x. settled new2 x (g x)" "dm_deletions e = dm_deletions c @ whenl deleted (ups_storageKey row)"
      "deleted \<longrightarrow> new2 \<in> {UP_REJECTED, UP_CANCELLED}"
    using assms(3) unfolding settles_def by blast
  have "ups_id (f x) = ups_id x" for x using settled_keeps f(2) by blast
  then have "dm_sessions e = updateWhere (\<lambda>x. ups_id x = ups_id row) (g \<circ> f) (dm_sessions d)"
    unfolding g(2) f(1) by (intro updateWhere_twice) simp
  moreover have "\<forall>x. settled new2 x ((g \<circ> f) x)" using f(2) g(3) settled_trans by (metis comp_apply)
  ultimately show ?thesis unfolding settles_def using g(1,4,5) assms(2) by metis
qed

definition quiet :: "documents_db \<Rightarrow> documents_db \<Rightarrow> bool" where
  "quiet d e \<longleftrightarrow> dm_sessions e = dm_sessions d \<and> dm_deletions e = dm_deletions d"

definition ends :: "upload_session \<Rightarrow> documents_db \<Rightarrow> documents_db \<Rightarrow> bool" where
  "ends row d e \<longleftrightarrow> quiet d e \<or> settles row {UP_ACCEPTED, UP_REJECTED, UP_FAILED} d e"

lemma settles_quiet: "settles row news d c \<Longrightarrow> quiet c e \<Longrightarrow> settles row news d e"
  by (simp add: settles_def quiet_def)

lemma ends_same: "ends row d d"
  by (simp add: ends_def quiet_def)

lemma closed_settles:
  assumes "closeSession (ups_id row) new c m x s = (Inr out, t)"
    and "new \<in> {UP_ACCEPTED, UP_REJECTED, UP_FAILED}"
  shows "ends row (ap_db s) (ap_db t)"
proof -
  have "settles row {UP_ACCEPTED, UP_REJECTED, UP_FAILED} (ap_db s) (ap_db t)"
    unfolding settles_def
    using assms by (intro exI[of _ new] exI[of _ "\<lambda>x. x\<lparr>ups_status := new,
        ups_failureCode := Some c, ups_failureDetailSafe := Some m\<rparr>"] exI[of _ False])
      (simp add: closeSession_Inr settled_update)
  then show ?thesis by (simp add: ends_def)
qed

lemma accept_settles:
  assumes "acceptUpload env ctx data row head digest mediaType dup s = (Inr out, t)"
  shows "ends row (ap_db s) (ap_db t)"
proof -
  obtain i vid runId where a: "acceptedRows env ctx row head digest mediaType i vid runId (ap_db s) (ap_db t)"
    using acceptUpload_rows[OF assms] by blast
  have "settles row {UP_ACCEPTED, UP_REJECTED, UP_FAILED} (ap_db s) (ap_db t)"
    unfolding settles_def
    using a by (intro exI[of _ UP_ACCEPTED] exI[of _ "\<lambda>x. x\<lparr>ups_status := UP_ACCEPTED,
        ups_completedAt := Some (denv_now env), ups_documentVersionId := Some vid\<rparr>"] exI[of _ False])
      (auto simp: acceptedRows_def settled_update)
  then show ?thesis by (simp add: ends_def)
qed

lemma decide_settles:
  assumes "decideDuplicate env ctx data row head digest mediaType s = (Inr out, t)"
  shows "ends row (ap_db s) (ap_db t)"
proof (cases "findDuplicate ctx digest (ap_db s)")
  case None
  then show ?thesis using assms accept_settles by (simp add: decideDuplicate_def)
next
  case (Some other)
  show ?thesis
  proof (cases "cup_duplicateDecision data")
    case None
    then show ?thesis using assms Some by (auto simp: decideDuplicate_def ends_def quiet_def)
  next
    case decision: (Some c)
    show ?thesis
    proof (cases c)
      case DD_CANCEL
      then have False using assms Some decision
        by (simp add: decideDuplicate_def thenH_Inr assertTransition_Inr canTransitionUploadSession_def)
      then show ?thesis ..
    qed (use assms Some decision accept_settles in \<open>simp_all add: decideDuplicate_def\<close>)
  qed
qed

lemma reject_settles:
  assumes "rejectBytes row code m s = (Inr out, t)"
  shows "ends row (ap_db s) (ap_db t)"
proof -
  have t: "dm_sessions (ap_db t) = updateWhere (\<lambda>x. ups_id x = ups_id row) (\<lambda>x. x\<lparr>ups_status := UP_REJECTED,
        ups_failureCode := Some code, ups_failureDetailSafe := Some m\<rparr>) (dm_sessions (ap_db s))"
      "dm_deletions (ap_db t) = dm_deletions (ap_db s) @ whenl (mayDelete (ups_storageKey row)) (ups_storageKey row)"
    using assms by (auto simp: rejectBytes_def ok_iff)
  have "settles row {UP_ACCEPTED, UP_REJECTED, UP_FAILED} (ap_db s) (ap_db t)"
    unfolding settles_def t
    by (intro exI[of _ UP_REJECTED] exI[of _ "\<lambda>x. x\<lparr>ups_status := UP_REJECTED,
        ups_failureCode := Some code, ups_failureDetailSafe := Some m\<rparr>"]
        exI[of _ "mayDelete (ups_storageKey row)"]) (simp add: settled_update)
  then show ?thesis by (simp add: ends_def)
qed

lemma quiet_ends: "quiet d c \<Longrightarrow> ends row c e \<Longrightarrow> ends row d e"
  by (simp add: ends_def quiet_def settles_def)

lemma bytes_settle:
  assumes "checkBytes env ctx data row head content s = (Inr out, t)"
  shows "ends row (ap_db s) (ap_db t)"
proof -
  let ?digest = "denv_sha env content"
  let ?magic = "assertMagicMatchesPolicy content (sessionExtension (ups_intendedFilename row)) (ups_declaredMediaType row)"
  consider (sum) "closeSession (ups_id row) UP_REJECTED ''CHECKSUM_MISMATCH'' ''Checksum verification failed.''
        (validationError ''Checksum verification failed.'' None) s = (Inr out, t)"
    | (client) "t = s"
    | (magic) code m where "rejectBytes row code m s = (Inr out, t)"
    | (good) u x mediaType where "writeIngestionEvent ctx (ups_sourceDocumentId row) None (Some (ups_id row)) None
            ''upload.checksum_verified'' (ups_correlationId row) s = (Inr x, u)"
        "decideDuplicate env ctx data row head ?digest mediaType u = (Inr out, t)"
    using assms unfolding checkBytes_def Let_def
    by (cases ?magic) (auto split: if_splits prod.splits simp: thenH_Inr)
  then show ?thesis
  proof cases
    case good
    then have "quiet (ap_db s) (ap_db u)" by (simp add: writeIngestionEvent_Inr quiet_def)
    then show ?thesis using decide_settles[OF good(2)] by (rule quiet_ends)
  next
    case sum
    then show ?thesis by (rule closed_settles) simp
  next
    case client
    then show ?thesis by (simp add: ends_same)
  next
    case magic
    then show ?thesis by (rule reject_settles)
  qed
qed

lemma object_settles:
  assumes "checkObject env ctx data row s = (Inr out, t)"
  shows "ends row (ap_db s) (ap_db t)"
proof (cases "denv_head env (ups_storageBucket row) (ups_storageKey row)")
  case None
  then show ?thesis using assms closed_settles by (simp add: checkObject_def)
next
  case (Some head)
  consider (bytes) content where "checkBytes env ctx data row head content s = (Inr out, t)"
    | "\<exists>c m x. closeSession (ups_id row) UP_REJECTED c m x s = (Inr out, t)" | "t = s"
    using assms Some by (auto simp: checkObject_def bindH_Inr someH_Inr split: if_splits)
  then show ?thesis
    using bytes_settle closed_settles[of row UP_REJECTED _ _ _ s out t] ends_same by cases auto
qed

lemma complete_settles:
  assumes "completeBody env data ctx s = (Inr out, t)"
  shows "quiet (ap_db s) (ap_db t) \<or> (\<exists>row\<in>set (dm_sessions (ap_db s)). \<exists>new.
    sessionMove (ups_status row) new \<and> settles row {new} (ap_db s) (ap_db t))"
proof -
  obtain row where row: "find (\<lambda>x. ups_id x = cup_uploadSessionId data \<and> ups_tenantId x = cx_tenantId ctx
      \<and> ups_projectId x = prj_id (cx_project ctx)) (dm_sessions (ap_db s)) = Some row"
    using assms by (auto simp: completeBody_def ok_iff)
  then have member: "row \<in> set (dm_sessions (ap_db s))" by (auto dest: find_SomeD)
  define valid where "valid = s\<lparr>ap_db := (ap_db s)\<lparr>dm_sessions := updateWhere (\<lambda>x. ups_id x = ups_id row)
    (\<lambda>x. x\<lparr>ups_status := UP_VALIDATING\<rparr>) (updateWhere (\<lambda>x. ups_id x = ups_id row)
    (\<lambda>x. x\<lparr>ups_status := UP_UPLOADED\<rparr>) (dm_sessions (ap_db s)))\<rparr>\<rparr>"
  consider (replayed) "t = s"
    | (expired) x where "canTransitionUploadSession (ups_status row) UP_EXPIRED"
        "updateSession (ups_id row) (\<lambda>x. x\<lparr>ups_status := UP_EXPIRED, ups_failureCode := Some ''EXPIRED''\<rparr>) s = (Inr x, t)"
    | (checked) "canTransitionUploadSession (ups_status row) UP_UPLOADED" "checkObject env ctx data row valid = (Inr out, t)"
    using assms row
    by (auto simp: completeBody_def valid_def bindH_Inr findOr_Inr thenH_Inr assertTransition_Inr
      updateSession_Inr split: if_splits)
  then show ?thesis
  proof cases
    case replayed
    then show ?thesis by (simp add: quiet_def)
  next
    case expired
    have "sessionMove (ups_status row) UP_EXPIRED"
      using expired(1) by (cases "ups_status row") (simp_all add: canTransitionUploadSession_def)
    moreover have "settles row {UP_EXPIRED} (ap_db s) (ap_db t)"
      using expired(2) unfolding settles_def updateSession_Inr
      by (intro exI[of _ UP_EXPIRED] exI[of _ "\<lambda>x. x\<lparr>ups_status := UP_EXPIRED, ups_failureCode := Some ''EXPIRED''\<rparr>"]
        exI[of _ False]) (simp add: settled_update)
    ultimately show ?thesis using member by blast
  next
    case checked
    have authorized: "ups_status row = UP_UPLOAD_AUTHORIZED"
      using checked(1) by (cases "ups_status row") (simp_all add: canTransitionUploadSession_def)
    have valid: "settles row {UP_VALIDATING} (ap_db s) (ap_db valid)" "dm_deletions (ap_db valid) = dm_deletions (ap_db s)"
      unfolding settles_def valid_def
      by (intro exI[of _ UP_VALIDATING] exI[of _ "\<lambda>x. x\<lparr>ups_status := UP_VALIDATING\<rparr>"] exI[of _ False])
        (simp_all add: settled_update updateWhere_twice comp_def)
    have "ends row (ap_db valid) (ap_db t)" using checked(2) by (rule object_settles)
    then have "settles row {UP_VALIDATING} (ap_db s) (ap_db t)
        \<or> settles row {UP_ACCEPTED, UP_REJECTED, UP_FAILED} (ap_db s) (ap_db t)"
      unfolding ends_def using settles_after[OF valid] settles_quiet[OF valid(1)] by blast
    then obtain new where "new \<in> {UP_VALIDATING, UP_ACCEPTED, UP_REJECTED, UP_FAILED}"
        "settles row {new} (ap_db s) (ap_db t)"
      unfolding settles_def by blast
    then show ?thesis using member authorized by auto
  qed
qed

section \<open>What the other requests write\<close>

interpretation same: stable "\<lambda>s t. ap_db t = ap_db (s :: documents_db app_state)"
  by unfold_locales auto

lemma same_parts:
  "same.obeys (onApp m)" "same.obeys (accessP pid cap)" "same.obeys (parseH msg sp raw)"
  "same.obeys (readDb f)" "same.obeys (findOr e q)" "same.obeys (someH e x)" "same.obeys (auditP ctx p a b c)"
  by (auto simp: same.obeys_def onApp_def zoomH_def accessP_def parseH_def findOr_def someH_def bindH_def
    readDb_def readH_def throwH_def returnH_def auditP_def split: prod.splits sum.splits option.splits)

lemmas same_rules = same.obeys_rules same_parts

lemma obeys_own: "same.obeys (ownSessionProject i)"
  unfolding ownSessionProject_def by (intro same_rules)

lemma bindE:
  assumes "bindH m f s = (r, t)"
  obtains e where "m s = (Inl e, t)" "r = Inl e" | x u where "m s = (Inr x, u)" "f x u = (r, t)"
  using assms by (auto simp: bindH_def split: prod.splits sum.splits)

text \<open>A request goes through its checks, which leave the tables alone, or is refused by one.\<close>

lemma checked:
  assumes "bindH m f s = (r, t)" and "same.obeys m"
  obtains (refused) e where "r = Inl e" "ap_db t = ap_db s"
    | (passed) x u where "m s = (Inr x, u)" "ap_db u = ap_db s" "f x u = (r, t)"
proof -
  obtain a u where m: "m s = (a, u)" by force
  then have "ap_db u = ap_db s" using assms(2) same.obeysD by blast
  then show thesis using assms(1) m refused passed by (cases a) auto
qed

lemma completeDocumentUpload_cases:
  assumes "completeDocumentUpload sp env raw s = (r, t)"
  obtains (refused) e where "r = Inl e" "ap_db t = ap_db s"
    | (ran) data pid ctx u where "sp raw = Inr data" "ap_db u = ap_db s"
      "granted u pid (DocumentCap c_document_create) ctx" "completeBody env data ctx u = (Inr r, t)"
  using assms unfolding completeDocumentUpload_def thenH_def
  apply -
  apply (erule checked, rule same_parts, rule refused, assumption, simp)
  apply (erule checked, rule obeys_own, rule refused, assumption, simp)
  apply (erule checked, rule same_parts, rule refused, assumption, simp)
  apply (erule checked, rule same.obeys_pure, rule refused, assumption, simp)
  apply (erule bindE)
   apply (rule refused, assumption, simp add: transactionH_Inl)
  apply (frule accessP_ok)
  apply (clarsimp simp: parseH_Inr requireH_Inr transactionH_Inr)
  apply (rule ran[unfolded granted_def], assumption, assumption, assumption)
  apply (auto split: sum.splits)
  done

text \<open>Cancelling.\<close>

lemma cancel_settles:
  assumes "cancelBody env i ctx s = (Inr x, t)"
  shows "quiet (ap_db s) (ap_db t) \<or> (\<exists>row\<in>set (dm_sessions (ap_db s)).
    sessionMove (ups_status row) UP_CANCELLED \<and> settles row {UP_CANCELLED} (ap_db s) (ap_db t))"
proof -
  obtain row where row: "find (\<lambda>x. ups_id x = i \<and> ups_tenantId x = cx_tenantId ctx) (dm_sessions (ap_db s)) = Some row"
    using assms by (auto simp: cancelBody_def ok_iff)
  consider "t = s" | (cancelled) x1 u x2 where "canTransitionUploadSession (ups_status row) UP_CANCELLED"
      "updateSession (ups_id row) (\<lambda>x. x\<lparr>ups_status := UP_CANCELLED, ups_completedAt := Some (denv_now env)\<rparr>) s = (Inr x1, u)"
      "deleteTemporaryObject (ups_storageKey row) u = (Inr x2, t)"
    using assms row by (auto simp: cancelBody_def bindH_Inr findOr_Inr thenH_Inr assertTransition_Inr split: if_splits)
  then show ?thesis
  proof cases
    case cancelled
    have "sessionMove (ups_status row) UP_CANCELLED"
      using cancelled(1) by (cases "ups_status row") (simp_all add: canTransitionUploadSession_def)
    moreover have "settles row {UP_CANCELLED} (ap_db s) (ap_db t)"
      using cancelled(2,3) unfolding settles_def updateSession_Inr deleteTemporaryObject_Inr
      by (intro exI[of _ UP_CANCELLED] exI[of _ "\<lambda>x. x\<lparr>ups_status := UP_CANCELLED, ups_completedAt := Some (denv_now env)\<rparr>"]
        exI[of _ "mayDelete (ups_storageKey row)"]) (simp add: settled_update)
    ultimately show ?thesis using row by (auto dest: find_SomeD)
  qed (simp add: quiet_def)
qed

lemma cancelDocumentUpload_cases:
  assumes "cancelDocumentUpload sp env raw s = (r, t)"
  obtains (refused) "ap_db t = ap_db s"
    | (ran) i ctx x u where "ap_db u = ap_db s" "cancelBody env i ctx u = (Inr x, t)"
  using assms unfolding cancelDocumentUpload_def
  apply -
  apply (erule checked, rule same_parts, rule refused, assumption)
  apply (erule checked, rule obeys_own, rule refused, simp)
  apply (erule projectAction_cases, rule refused, simp)
  apply (rule ran[rotated], assumption, simp)
  done

section \<open>Starting an upload\<close>

lemma createSession_Inr [ok_iff]:
  "createSession new s = (Inr x, t) \<longleftrightarrow> \<not> list_ex (sessionClash new) (dm_sessions (ap_db s))
     \<and> t = s\<lparr>ap_db := (ap_db s)\<lparr>dm_sessions := dm_sessions (ap_db s) @ [new]\<rparr>\<rparr>"
  by (auto simp: createSession_def ok_iff)

lemma startUpload_run:
  assumes "startUpload env ctx data normalized mediaType s = (Inr out, t)"
  obtains doc u1 key x2 u2 x3 u3 x4 url where
    "createRow dm_documents (\<lambda>xs d. d\<lparr>dm_documents := xs\<rparr>) (denv_ids env T_SOURCE_DOCUMENT)
       (newDocument env ctx (iup_metadata data)) s = (Inr doc, u1)"
    "buildQuarantineObjectKey (denv_objectId env) (cx_tenantId ctx) (prj_id (cx_project ctx))
       (denv_ids env T_UPLOAD_SESSION (length (dm_sessions (ap_db u1)))) = Some key"
    "createSession (newSession env ctx data normalized mediaType (dcm_id doc) key
       (denv_ids env T_UPLOAD_SESSION (length (dm_sessions (ap_db u1))))) u1 = (Inr x2, u2)"
    "writeIngestionEvent ctx (Some (dcm_id doc)) None (Some (denv_ids env T_UPLOAD_SESSION (length (dm_sessions (ap_db u1)))))
       None ''upload.initiated'' (Some (denv_uuid env)) u2 = (Inr x3, u3)"
    "auditP ctx (prj_id (cx_project ctx)) ''document.upload.initiated'' ''upload_session''
       (denv_ids env T_UPLOAD_SESSION (length (dm_sessions (ap_db u1)))) u3 = (Inr x4, t)"
  using assms unfolding startUpload_def Let_def run_steps
  by - (elim exE conjE, hypsubst, rule that, (assumption | rule refl)+)

lemma newSession_simps [simp]:
  "ups_id (newSession env ctx data n mt doc key i) = i"
  "ups_tenantId (newSession env ctx data n mt doc key i) = cx_tenantId ctx"
  "ups_projectId (newSession env ctx data n mt doc key i) = prj_id (cx_project ctx)"
  "ups_initiatedByUserId (newSession env ctx data n mt doc key i) = userId ctx"
  "ups_status (newSession env ctx data n mt doc key i) = UP_UPLOAD_AUTHORIZED"
  "ups_storageKey (newSession env ctx data n mt doc key i) = key"
  by (simp_all add: newSession_def)

lemma startUpload_step:
  assumes "startUpload env ctx data normalized mediaType s = (Inr out, t)"
    and fresh: "denv_ids env T_UPLOAD_SESSION (length (dm_sessions (ap_db s))) \<notin> ups_id ` set (dm_sessions (ap_db s))"
    and "activeOfUser (cx_tenantId ctx) (userId ctx) (ap_db s) < denv_maxActivePerUser env"
    and "activeOfProject (cx_tenantId ctx) (prj_id (cx_project ctx)) (ap_db s) < denv_maxActivePerProject env"
  shows "upload_step (denv_maxActivePerUser env) (denv_maxActivePerProject env) (ap_db s) (ap_db t)"
  using assms(1)
proof (rule startUpload_run)
  fix doc :: stored_document and u1 u2 u3 :: "documents_db app_state" and key url :: string and x2 x3 x4 :: unit
  let ?i = "denv_ids env T_UPLOAD_SESSION (length (dm_sessions (ap_db u1)))"
  let ?x = "newSession env ctx data normalized mediaType (dcm_id doc) key ?i"
  assume d: "createRow dm_documents (\<lambda>xs d. d\<lparr>dm_documents := xs\<rparr>) (denv_ids env T_SOURCE_DOCUMENT)
       (newDocument env ctx (iup_metadata data)) s = (Inr doc, u1)"
    and key: "buildQuarantineObjectKey (denv_objectId env) (cx_tenantId ctx) (prj_id (cx_project ctx)) ?i = Some key"
    and x: "createSession ?x u1 = (Inr x2, u2)"
    and ev: "writeIngestionEvent ctx (Some (dcm_id doc)) None (Some ?i) None ''upload.initiated''
       (Some (denv_uuid env)) u2 = (Inr x3, u3)"
    and au: "auditP ctx (prj_id (cx_project ctx)) ''document.upload.initiated'' ''upload_session'' ?i u3 = (Inr x4, t)"
  have u1: "dm_sessions (ap_db u1) = dm_sessions (ap_db s)" "dm_deletions (ap_db u1) = dm_deletions (ap_db s)"
    using d by (simp_all add: createRow_Inr)
  have t: "dm_sessions (ap_db t) = dm_sessions (ap_db s) @ [?x]" "dm_deletions (ap_db t) = dm_deletions (ap_db s)"
    using x ev au u1 by (auto simp: createSession_Inr writeIngestionEvent_Inr auditP_Inr)
  have "\<not> list_ex (sessionClash ?x) (dm_sessions (ap_db s))" using x u1 by (simp add: createSession_Inr)
  then show ?thesis
    using fresh assms(3,4) key u1
    by (intro us_start[OF t, where oid = "denv_objectId env"]) simp_all
qed


lemma obeys_policy: "same.obeys (policyH policy)"
  by (cases policy) (simp_all add: policyH_def same.obeys_pure)

lemma policyH_state: "policyH policy s = (Inr x, t) \<Longrightarrow> t = s"
  by (cases policy) (simp_all add: policyH_def)

lemma initiateDocumentUpload_cases:
  assumes "initiateDocumentUpload sp env raw s = (r, t)"
  obtains (refused) e where "r = Inl e" "ap_db t = ap_db s"
    | (ran) data ctx normalized mediaType out where "sp raw = Inr data" "r = Inr out"
      "admitUpload env ctx data normalized mediaType s = (Inr out, t)"
      "granted s (iup_projectId data) (DocumentCap c_document_create) ctx"
  using assms unfolding initiateDocumentUpload_def thenH_def
  apply -
  apply (erule checked, rule same_parts, rule refused, assumption, assumption)
  apply (erule checked, rule same_parts, rule refused, assumption, simp)
  apply (erule checked, rule same.obeys_pure, rule refused, assumption, simp)
  apply (erule checked, rule same.obeys_pure, rule refused, assumption, simp)
  apply (erule checked, rule obeys_policy, rule refused, assumption, simp)
  apply (frule accessP_ok)
  apply (drule policyH_state)
  apply (clarsimp simp: parseH_Inr requireH_Inr)
  apply (case_tac r)
   apply (rule refused, assumption, simp add: transactionH_Inl)
  apply (simp only: transactionH_Inr)
  apply (rule ran[unfolded granted_def], assumption, assumption, assumption, assumption)
  done

lemma admit_step:
  assumes "admitUpload env ctx data normalized mediaType s = (Inr out, t)"
  shows "activeOfUser (cx_tenantId ctx) (userId ctx) (ap_db s) < denv_maxActivePerUser env
    \<and> activeOfProject (cx_tenantId ctx) (prj_id (cx_project ctx)) (ap_db s) < denv_maxActivePerProject env
    \<and> (t = s \<or> startUpload env ctx data normalized mediaType s = (Inr out, t))"
  using assms
  by (auto simp: admitUpload_def replayUpload_def ok_iff split: option.splits if_splits)

section \<open>Any request\<close>

interpretation calm: stable "\<lambda>s t. quiet (ap_db s) (ap_db (t :: documents_db app_state))"
  by unfold_locales (simp_all add: quiet_def)

lemma calm_same: "same.obeys m \<Longrightarrow> calm.obeys m"
  unfolding same.obeys_def calm.obeys_def by (simp add: quiet_def)

lemma calm_writes:
  "calm.obeys (writeIngestionEvent ctx a b c d0 e0 g)" "calm.obeys (updateDocument i f)"
  "calm.obeys (writeDb (\<lambda>d. d\<lparr>dm_versions := fv d\<rparr>))" "calm.obeys (writeDb (\<lambda>d. d\<lparr>dm_outbox := fo d\<rparr>))"
  "calm.obeys (writeDb (\<lambda>d. d\<lparr>dm_runs := fr d\<rparr>))"
  unfolding calm.obeys_def by (simp_all add: quiet_def writeIngestionEvent_def updateDocument_def writeDb_def)

lemmas calm_rules = calm.obeys_rules same_parts[THEN calm_same] calm_writes

lemma calm_project: "(\<And>ctx. calm.obeys (body ctx)) \<Longrightarrow> calm.obeys (projectAction pid cap body)"
  unfolding projectAction_def by (intro calm_rules) (simp_all add: calm_rules)

lemma calm_parts:
  "calm.obeys (assertSourceDocumentTransition a b)" "calm.obeys (writeProcessDocumentOutbox ctx i j k)"
  "calm.obeys (createRun env ctx i n c)"
  unfolding assertSourceDocumentTransition_def writeProcessDocumentOutbox_def createRun_def createRow_def Let_def
  by (intro calm_rules)+

lemma calm_requests:
  "calm.obeys (updateDocumentMetadata sp pid did raw)" "calm.obeys (archiveDocument pid did)"
  "calm.obeys (retryDocumentProcessing env pid did)" "calm.obeys (createAuthorizedDownload env pid vid)"
  "calm.obeys (listProjectDocuments sp2 pid raw2)" "calm.obeys (getProjectDocument pid did)"
  "calm.obeys (listDocumentVersions pid did)" "calm.obeys (getDocumentProcessing pid did)"
  "calm.obeys (listEvidenceSegments pid did)" "calm.obeys (listIngestionTimeline pid did)"
  "calm.obeys (resolveEvidenceReferenceForUser parse raw3)"
proof -
  show "calm.obeys (updateDocumentMetadata sp pid did raw)" "calm.obeys (archiveDocument pid did)"
    "calm.obeys (listProjectDocuments sp2 pid raw2)" "calm.obeys (getDocumentProcessing pid did)"
    "calm.obeys (listEvidenceSegments pid did)" "calm.obeys (listIngestionTimeline pid did)"
    "calm.obeys (resolveEvidenceReferenceForUser parse raw3)"
    unfolding updateDocumentMetadata_def archiveDocument_def listProjectDocuments_def getDocumentProcessing_def
      listEvidenceSegments_def listIngestionTimeline_def resolveEvidenceReferenceForUser_def
    by (intro calm_rules calm_project calm_parts)+
  show get: "calm.obeys (getProjectDocument pid did)"
    unfolding getProjectDocument_def by (intro calm_rules calm_project)
  then show "calm.obeys (listDocumentVersions pid did)"
    unfolding listDocumentVersions_def by (intro calm_rules)
  have retry: "calm.obeys (retryBody env did ctx)" for ctx
    unfolding retryBody_def case_prod_unfold by (intro calm_rules calm_parts)
  then show "calm.obeys (retryDocumentProcessing env pid did)"
    unfolding retryDocumentProcessing_def by (intro calm_rules)
  have "calm.obeys (downloadBody env vid ctx)" for ctx
    unfolding downloadBody_def by (intro calm_rules)
  then show "calm.obeys (createAuthorizedDownload env pid vid)"
    unfolding createAuthorizedDownload_def by (intro calm_rules)
qed

text \<open>
  A request of the service, with fresh ids and the configured limits, or any change of the other
  tables by the workers and the rest of the application.
\<close>

inductive document_request ::
  "nat \<Rightarrow> nat \<Rightarrow> documents_db app_state \<Rightarrow> documents_db app_state \<Rightarrow> bool" for userMax projectMax s where
  "initiateDocumentUpload sp env (raw :: string) s = (r1, t) \<Longrightarrow>
    denv_maxActivePerUser env = userMax \<Longrightarrow> denv_maxActivePerProject env = projectMax \<Longrightarrow>
    denv_ids env T_UPLOAD_SESSION (length (dm_sessions (ap_db s))) \<notin> ups_id ` set (dm_sessions (ap_db s)) \<Longrightarrow>
    document_request userMax projectMax s t"
| "completeDocumentUpload sp2 env (raw :: string) s = (r2, t) \<Longrightarrow> document_request userMax projectMax s t"
| "cancelDocumentUpload sp3 env (raw :: string) s = (r3, t) \<Longrightarrow> document_request userMax projectMax s t"
| "updateDocumentMetadata sp4 pid did (raw :: string) s = (r4, t) \<Longrightarrow> document_request userMax projectMax s t"
| "archiveDocument pid did s = (r5, t) \<Longrightarrow> document_request userMax projectMax s t"
| "retryDocumentProcessing env pid did s = (r6, t) \<Longrightarrow> document_request userMax projectMax s t"
| "createAuthorizedDownload env pid did s = (r7, t) \<Longrightarrow> document_request userMax projectMax s t"
| "dm_sessions (ap_db t) = dm_sessions (ap_db s) \<Longrightarrow> dm_deletions (ap_db t) = dm_deletions (ap_db s) \<Longrightarrow>
    document_request userMax projectMax s t"

lemma settles_step:
  assumes "row \<in> set (dm_sessions d)" "sessionMove (ups_status row) new" "settles row {new} d e"
  shows "upload_step userMax projectMax d e"
proof -
  obtain f deleted where "dm_sessions e = updateWhere (\<lambda>x. ups_id x = ups_id row) f (dm_sessions d)"
      "\<forall>x. settled new x (f x)" "dm_deletions e = dm_deletions d @ whenl deleted (ups_storageKey row)"
      "deleted \<longrightarrow> new \<in> {UP_REJECTED, UP_CANCELLED}"
    using assms(3) unfolding settles_def by blast
  then show ?thesis using us_settle[OF assms(1,2)] by blast
qed

lemma quiet_step: "quiet d e \<Longrightarrow> upload_step userMax projectMax d e"
  by (simp add: quiet_def us_keep)

lemma same_step: "ap_db t = ap_db s \<Longrightarrow> upload_step userMax projectMax (ap_db s) (ap_db t)"
  by (simp add: us_keep)

lemma calm_step: "calm.obeys m \<Longrightarrow> m s = (r, t) \<Longrightarrow> upload_step userMax projectMax (ap_db s) (ap_db t)"
  using calm.obeysD quiet_step by blast

lemma initiate_step:
  assumes "initiateDocumentUpload sp env raw s = (r, t)"
    and "denv_ids env T_UPLOAD_SESSION (length (dm_sessions (ap_db s))) \<notin> ups_id ` set (dm_sessions (ap_db s))"
  shows "upload_step (denv_maxActivePerUser env) (denv_maxActivePerProject env) (ap_db s) (ap_db t)"
  using assms(1)
proof (cases rule: initiateDocumentUpload_cases)
  case refused
  then show ?thesis by (simp add: same_step)
next
  case (ran data ctx normalized mediaType out)
  show ?thesis
    using admit_step[OF ran(3)] startUpload_step[of env ctx data normalized mediaType s out t] assms(2)
    by (auto simp: us_keep)
qed

lemma complete_step:
  assumes "completeDocumentUpload sp env raw s = (r, t)"
  shows "upload_step userMax projectMax (ap_db s) (ap_db t)"
  using assms
proof (cases rule: completeDocumentUpload_cases)
  case refused
  then show ?thesis by (simp add: same_step)
next
  case (ran data pid ctx u)
  show ?thesis using complete_settles[OF ran(4)] ran(2) settles_step quiet_step by metis
qed

lemma cancel_step:
  assumes "cancelDocumentUpload sp env raw s = (r, t)"
  shows "upload_step userMax projectMax (ap_db s) (ap_db t)"
  using assms
proof (cases rule: cancelDocumentUpload_cases)
  case refused
  then show ?thesis by (simp add: same_step)
next
  case (ran i ctx x u)
  show ?thesis using cancel_settles[OF ran(2)] ran(1) settles_step quiet_step by metis
qed

lemma document_request_refines:
  assumes "document_request userMax projectMax s t"
  shows "upload_step userMax projectMax (ap_db s) (ap_db t)"
  using assms
proof cases
  case 1
  then show ?thesis using initiate_step[OF 1(1) 1(4)] by simp
next
  case 2
  then show ?thesis by (rule complete_step)
next
  case 3
  then show ?thesis by (rule cancel_step)
next
  case 4
  then show ?thesis by (rule calm_step[OF calm_requests(1)])
next
  case 5
  then show ?thesis by (rule calm_step[OF calm_requests(2)])
next
  case 6
  then show ?thesis by (rule calm_step[OF calm_requests(3)])
next
  case 7
  then show ?thesis by (rule calm_step[OF calm_requests(4)])
next
  case 8
  then show ?thesis by (rule us_keep)
qed

end
