(* ===== verification/DocumentProperties.thy ===== *)
theory DocumentProperties
  imports DocumentTracking
begin

text \<open>
  What the document service promises: bounds on active uploads, that a session is changed by one
  request, that no accepted file is deleted, what an accepted upload has been checked for, and how
  uploads get stuck.
\<close>

section \<open>What every reachable state keeps\<close>

definition uploadsOk :: "nat \<Rightarrow> nat \<Rightarrow> documents_db \<Rightarrow> bool" where
  "uploadsOk userMax projectMax d \<longleftrightarrow> distinct (map ups_id (dm_sessions d))
     \<and> distinct (map (\<lambda>x. (ups_tenantId x, ups_storageKey x)) (dm_sessions d))
     \<and> (\<forall>x\<in>set (dm_sessions d). ups_status x \<noteq> UP_INITIATED \<and> ups_status x \<noteq> UP_UPLOADED
         \<and> (\<exists>oid. buildQuarantineObjectKey oid (ups_tenantId x) (ups_projectId x) (ups_id x) = Some (ups_storageKey x)))
     \<and> (\<forall>k\<in>set (dm_deletions d). \<exists>x\<in>set (dm_sessions d). ups_storageKey x = k
         \<and> ups_status x \<in> {UP_REJECTED, UP_CANCELLED})
     \<and> (\<forall>tenantId user. activeOfUser tenantId user d \<le> userMax)
     \<and> (\<forall>tenantId projectId. activeOfProject tenantId projectId d \<le> projectMax)"

lemma settled_rows:
  assumes "distinct (map k xs)" "row \<in> set xs"
  shows "set (updateWhere (\<lambda>x. k x = k row) f xs) = insert (f row) (set xs - {row})"
proof -
  have "x = row" if "x \<in> set xs" "k x = k row" for x
    using distinct_key_unique[OF assms(1) that(1) assms(2) that(2)] .
  then show ?thesis
    using assms(2) unfolding set_eq_iff set_updateWhere by (metis Diff_iff empty_iff insert_iff)
qed

lemma map_settled:
  assumes "\<And>x. settled new x (f x)"
  shows "map ups_id (updateWhere P f xs) = map ups_id xs"
    "map (\<lambda>x. (ups_tenantId x, ups_storageKey x)) (updateWhere P f xs)
     = map (\<lambda>x. (ups_tenantId x, ups_storageKey x)) xs"
  using settled_keeps[OF assms] by (simp_all add: map_updateWhere)

lemma count_update:
  assumes "\<And>x. x \<in> set xs \<Longrightarrow> P x \<Longrightarrow> Q (f x) \<Longrightarrow> Q x"
  shows "length (filter Q (updateWhere P f xs)) \<le> length (filter Q xs)"
  using assms by (induction xs) (auto simp: le_SucI)

lemma uploadsOk_step:
  assumes ok: "uploadsOk userMax projectMax d" and step: "upload_step userMax projectMax d e"
  shows "uploadsOk userMax projectMax e"
  using step
proof cases
  case us_keep
  then show ?thesis using ok by (simp add: uploadsOk_def activeOfUser_def activeOfProject_def)
next
  case (us_start x oid)
  have key: "(ups_tenantId x, ups_storageKey x) \<notin> (\<lambda>x. (ups_tenantId x, ups_storageKey x)) ` set (dm_sessions d)"
    using us_start(5) by (auto simp: list_ex_iff sessionClash_def)
  have user: "activeOfUser tenantId user e \<le> userMax" for tenantId user
    using ok us_start(1,6) by (auto simp: uploadsOk_def activeOfUser_def)
  have project: "activeOfProject tenantId projectId e \<le> projectMax" for tenantId projectId
    using ok us_start(1,7) by (auto simp: uploadsOk_def activeOfProject_def)
  show ?thesis
    using ok us_start key unfolding uploadsOk_def
    by (auto simp: user project)
next
  case (us_settle row new f deleted)
  have same_row: "x = row" if "x \<in> set (dm_sessions d)" "ups_id x = ups_id row" for x
    using ok us_settle(1) that distinct_key_unique unfolding uploadsOk_def by metis
  have rows: "set (dm_sessions e) = insert (f row) (set (dm_sessions d) - {row})"
    unfolding us_settle(3) using ok us_settle(1) by (intro settled_rows) (simp add: uploadsOk_def)
  have new: "new \<notin> {UP_INITIATED, UP_UPLOADED, UP_UPLOAD_AUTHORIZED}"
    using us_settle(2) by (cases "ups_status row"; cases new) auto
  have active: "ups_status row \<in> set ACTIVE_UPLOAD_STATUSES"
    using us_settle(2) by (cases "ups_status row") (simp_all add: ACTIVE_UPLOAD_STATUSES_def)
  note kept = settled_keeps[OF us_settle(4)]
  have user: "activeOfUser tenantId user e \<le> userMax" for tenantId user
  proof -
    have "activeOfUser tenantId user e \<le> activeOfUser tenantId user d"
      unfolding activeOfUser_def us_settle(3)
      by (rule count_update) (use same_row active kept in auto)
    then show ?thesis using ok order_trans unfolding uploadsOk_def by blast
  qed
  have project: "activeOfProject tenantId projectId e \<le> projectMax" for tenantId projectId
  proof -
    have "activeOfProject tenantId projectId e \<le> activeOfProject tenantId projectId d"
      unfolding activeOfProject_def us_settle(3)
      by (rule count_update) (use same_row active kept in auto)
    then show ?thesis using ok order_trans unfolding uploadsOk_def by blast
  qed
  have old: "ups_status row \<notin> {UP_REJECTED, UP_CANCELLED}"
    using us_settle(2) by (cases "ups_status row") simp_all
  have deletions: "\<exists>x\<in>set (dm_sessions e). ups_storageKey x = k \<and> ups_status x \<in> {UP_REJECTED, UP_CANCELLED}"
    if "k \<in> set (dm_deletions e)" for k
  proof (cases "k \<in> set (dm_deletions d)")
    case True
    then obtain x where "x \<in> set (dm_sessions d)" "ups_storageKey x = k" "ups_status x \<in> {UP_REJECTED, UP_CANCELLED}"
      using ok unfolding uploadsOk_def by blast
    then show ?thesis using rows old by auto
  next
    case False
    then have "deleted" "k = ups_storageKey row" using that us_settle(5) by (auto split: if_splits)
    then show ?thesis using rows us_settle(6) kept by auto
  qed
  have ids: "distinct (map ups_id (dm_sessions e))"
      "distinct (map (\<lambda>x. (ups_tenantId x, ups_storageKey x)) (dm_sessions e))"
    using ok map_settled[OF us_settle(4)] by (simp_all add: us_settle(3) uploadsOk_def)
  have "ups_status x \<noteq> UP_INITIATED \<and> ups_status x \<noteq> UP_UPLOADED \<and> (\<exists>oid.
      buildQuarantineObjectKey oid (ups_tenantId x) (ups_projectId x) (ups_id x) = Some (ups_storageKey x))"
    if "x \<in> set (dm_sessions e)" for x
    using that ok us_settle(1) kept new unfolding uploadsOk_def rows by auto
  then show ?thesis using ids deletions user project unfolding uploadsOk_def by blast
qed

lemma uploadsOk_key:
  "uploadsOk userMax projectMax d \<Longrightarrow> x \<in> set (dm_sessions d) \<Longrightarrow> \<exists>oid.
    buildQuarantineObjectKey oid (ups_tenantId x) (ups_projectId x) (ups_id x) = Some (ups_storageKey x)"
  by (simp add: uploadsOk_def)

lemma uploadsOk_empty:
  "dm_sessions d = [] \<Longrightarrow> dm_deletions d = [] \<Longrightarrow> uploadsOk userMax projectMax d"
  by (simp add: uploadsOk_def activeOfUser_def activeOfProject_def)

lemma uploadsOk_requests:
  assumes "(document_request userMax projectMax)\<^sup>*\<^sup>* s t" "uploadsOk userMax projectMax (ap_db s)"
  shows "uploadsOk userMax projectMax (ap_db t)"
  using assms
proof (induction rule: rtranclp_induct)
  case (step t u)
  then show ?case using uploadsOk_step document_request_refines by blast
qed

section \<open>Bounds, life cycle, deletions\<close>

text \<open>
  C39: Whatever the service has been asked to do, one request after another, a user never has more
  active uploads in an organization than the limit per user, and a project never more than the limit per
  project.
\<close>

theorem active_uploads_bounded:
  assumes "(document_request userMax projectMax)\<^sup>*\<^sup>* s t"
    and "dm_sessions (ap_db s) = []" and "dm_deletions (ap_db s) = []"
  shows "activeOfUser tenantId user (ap_db t) \<le> userMax
    \<and> activeOfProject tenantId projectId (ap_db t) \<le> projectMax"
  using uploadsOk_requests[OF assms(1) uploadsOk_empty[OF assms(2,3)]] by (simp add: uploadsOk_def)

definition movedTo :: "upload_session \<Rightarrow> upload_session \<Rightarrow> bool" where
  "movedTo x y \<longleftrightarrow> y = x \<or> (ups_status x = UP_UPLOAD_AUTHORIZED
     \<and> settled (ups_status y) x y \<and> sessionMove UP_UPLOAD_AUTHORIZED (ups_status y))"

lemma moved_step:
  assumes ok: "uploadsOk userMax projectMax d" and step: "upload_step userMax projectMax d e"
    and x: "x \<in> set (dm_sessions d)"
  shows "\<exists>y\<in>set (dm_sessions e). movedTo x y"
  using step
proof cases
  case (us_settle row new f deleted)
  show ?thesis
  proof (cases "ups_id x = ups_id row")
    case True
    then have "x = row" using ok x us_settle(1) distinct_key_unique unfolding uploadsOk_def by metis
    moreover have "ups_status row = UP_UPLOAD_AUTHORIZED"
      using ok us_settle(1,2) unfolding uploadsOk_def by (cases "ups_status row") auto
    moreover have "ups_status (f row) = new" using settled_keeps[OF us_settle(4)] by blast
    ultimately have "movedTo x (f row)" using us_settle(2) us_settle(4)[of row] by (simp add: movedTo_def)
    moreover have "f row \<in> set (dm_sessions e)" using us_settle(1,3) by (auto simp: set_updateWhere)
    ultimately show ?thesis by blast
  next
    case False
    then have "x \<in> set (dm_sessions e)" using x us_settle(3) by (auto simp: set_updateWhere)
    then show ?thesis by (auto simp: movedTo_def)
  qed
qed (use x in \<open>auto simp: movedTo_def\<close>)

lemma movedTo_settled: "movedTo x y \<Longrightarrow> ups_status x \<noteq> UP_UPLOAD_AUTHORIZED \<Longrightarrow> y = x"
  by (auto simp: movedTo_def)

lemma movedTo_trans: "movedTo x y \<Longrightarrow> movedTo y z \<Longrightarrow> movedTo x z"
  by (auto simp: movedTo_def)

lemma moved_requests:
  assumes "(document_request userMax projectMax)\<^sup>*\<^sup>* t u" "uploadsOk userMax projectMax (ap_db t)"
    and "x \<in> set (dm_sessions (ap_db t))"
  shows "\<exists>y\<in>set (dm_sessions (ap_db u)). movedTo x y"
  using assms(1)
proof (induction rule: rtranclp_induct)
  case base
  then show ?case using assms(3) by (auto simp: movedTo_def)
next
  case (step u v)
  then obtain y where y: "y \<in> set (dm_sessions (ap_db u))" "movedTo x y" by blast
  have "uploadsOk userMax projectMax (ap_db u)" using uploadsOk_requests[OF step(1) assms(2)] .
  then obtain z where "z \<in> set (dm_sessions (ap_db v))" "movedTo y z"
    using moved_step document_request_refines[OF step(2)] y(1) by blast
  then show ?case using movedTo_trans y(2) by blast
qed

text \<open>
  The life of an upload session ends with its first change: whatever is asked of the service, a
  session stays as it was created, authorized, or is moved once, in its status and its outcome, and
  then never changes again.  In particular a session that was left \<open>VALIDATING\<close> stays so for
  the service; only the operator's script \<open>reconcile-ingestion.ts\<close> expires it.
\<close>

lemma upload_sessions_move_once:
  assumes "dm_sessions (ap_db s) = []" and "dm_deletions (ap_db s) = []"
    and "(document_request userMax projectMax)\<^sup>*\<^sup>* s t"
    and "(document_request userMax projectMax)\<^sup>*\<^sup>* t u"
    and "x \<in> set (dm_sessions (ap_db t))"
  shows "(ups_status x \<noteq> UP_UPLOAD_AUTHORIZED \<longrightarrow> x \<in> set (dm_sessions (ap_db u)))
    \<and> (\<exists>y\<in>set (dm_sessions (ap_db u)). settled (ups_status y) x y
        \<and> (y = x \<or> ups_status x = UP_UPLOAD_AUTHORIZED \<and> sessionMove UP_UPLOAD_AUTHORIZED (ups_status y)))"
proof -
  obtain y where y: "y \<in> set (dm_sessions (ap_db u))" "movedTo x y"
    using moved_requests[OF assms(4) uploadsOk_requests[OF assms(3) uploadsOk_empty[OF assms(1,2)]] assms(5)] ..
  moreover have "settled (ups_status x) x x" by (simp add: settled_def)
  ultimately show ?thesis using movedTo_settled[OF y(2)] unfolding movedTo_def by blast
qed

text \<open>
  No file that may still be used is deleted: a key the service had the object store delete is not
  the key of an upload that was accepted, in whatever organization, nor of one that is under way.
\<close>

lemma accepted_files_never_deleted:
  assumes "dm_sessions (ap_db s) = []" and "dm_deletions (ap_db s) = []"
    and "(document_request userMax projectMax)\<^sup>*\<^sup>* s t"
    and "x \<in> set (dm_sessions (ap_db t))" and "ups_status x \<notin> {UP_REJECTED, UP_CANCELLED}"
  shows "ups_storageKey x \<notin> set (dm_deletions (ap_db t))"
proof
  assume "ups_storageKey x \<in> set (dm_deletions (ap_db t))"
  moreover have ok: "uploadsOk userMax projectMax (ap_db t)"
    using uploadsOk_requests[OF assms(3) uploadsOk_empty[OF assms(1,2)]] .
  ultimately obtain y where y: "y \<in> set (dm_sessions (ap_db t))" "ups_storageKey y = ups_storageKey x"
      "ups_status y \<in> {UP_REJECTED, UP_CANCELLED}"
    unfolding uploadsOk_def by blast
  obtain o1 where "buildQuarantineObjectKey o1 (ups_tenantId x) (ups_projectId x) (ups_id x) = Some (ups_storageKey x)"
    using uploadsOk_key[OF ok assms(4)] ..
  moreover obtain o2 where "buildQuarantineObjectKey o2 (ups_tenantId y) (ups_projectId y) (ups_id y) = Some (ups_storageKey x)"
    using uploadsOk_key[OF ok y(1)] y(2) by auto
  ultimately have "ups_id y = ups_id x" using storage_keys_separate[of o1 _ _ _ _ o2] by blast
  moreover have "distinct (map ups_id (dm_sessions (ap_db t)))" using ok unfolding uploadsOk_def by blast
  ultimately have "y = x" using distinct_key_unique y(1) assms(4) by metis
  then show False using y(3) assms(5) by simp
qed

section \<open>Uploads that get stuck\<close>

definition stuckOf :: "string \<Rightarrow> string \<Rightarrow> documents_db \<Rightarrow> nat" where
  "stuckOf tenantId user d = length (filter (\<lambda>x. ups_tenantId x = tenantId
     \<and> ups_initiatedByUserId x = user \<and> ups_status x = UP_VALIDATING) (dm_sessions d))"

lemma count_kept:
  assumes "\<And>x. x \<in> set xs \<Longrightarrow> P x \<Longrightarrow> \<not> Q x"
  shows "length (filter Q xs) \<le> length (filter Q (updateWhere P f xs))"
  using assms by (induction xs) (auto simp: le_SucI)

lemma stuck_step:
  assumes ok: "uploadsOk userMax projectMax d" and step: "upload_step userMax projectMax d e"
  shows "stuckOf tenantId user d \<le> stuckOf tenantId user e"
  using step
proof cases
  case (us_settle row new f deleted)
  have "ups_status x \<noteq> UP_VALIDATING" if "x \<in> set (dm_sessions d)" "ups_id x = ups_id row" for x
  proof -
    have "x = row" using ok us_settle(1) that distinct_key_unique unfolding uploadsOk_def by metis
    then show ?thesis using us_settle(2) by auto
  qed
  then show ?thesis unfolding stuckOf_def us_settle(3) by (intro count_kept) blast
qed (simp_all add: stuckOf_def)

lemma stuck_requests:
  assumes "(document_request userMax projectMax)\<^sup>*\<^sup>* t u" "uploadsOk userMax projectMax (ap_db t)"
  shows "stuckOf tenantId user (ap_db t) \<le> stuckOf tenantId user (ap_db u)"
  using assms(1)
proof (induction rule: rtranclp_induct)
  case (step u v)
  have "uploadsOk userMax projectMax (ap_db u)" using uploadsOk_requests[OF step(1) assms(2)] .
  then show ?case using step(3) stuck_step document_request_refines[OF step(2)] order_trans by blast
qed simp

lemma stuck_active: "stuckOf tenantId user d \<le> activeOfUser tenantId user d"
proof -
  have "stuckOf tenantId user d = length (filter (\<lambda>x. ups_status x = UP_VALIDATING) (filter (\<lambda>x.
      ups_tenantId x = tenantId \<and> ups_initiatedByUserId x = user \<and> ups_status x \<in> set ACTIVE_UPLOAD_STATUSES)
      (dm_sessions d)))"
    unfolding stuckOf_def filter_filter by (intro arg_cong[where f = length] filter_cong) (auto simp: ACTIVE_UPLOAD_STATUSES_def)
  then show ?thesis unfolding activeOfUser_def by (simp only: length_filter_le)
qed

text \<open>
  A user whose failed uploads were left \<open>VALIDATING\<close> as often as the limit on active uploads
  allows starts no other upload in that organization through the service: every later request is refused
  and changes nothing, until an operator runs the reconciliation script.
\<close>

lemma stuck_uploads_lock_out:
  assumes "dm_sessions (ap_db s) = []" and "dm_deletions (ap_db s) = []"
    and "(document_request userMax projectMax)\<^sup>*\<^sup>* s t"
    and "userMax \<le> stuckOf (cx_tenantId ctx) (userId ctx) (ap_db t)"
    and "(document_request userMax projectMax)\<^sup>*\<^sup>* t u"
    and "initiateDocumentUpload sp env raw u = (r, v)" and "denv_maxActivePerUser env = userMax"
    and "sp raw = Inr data" and "granted u (iup_projectId data) (DocumentCap c_document_create) ctx"
  shows "(\<exists>e. r = Inl e) \<and> ap_db v = ap_db u"
  using assms(6)
proof (cases rule: initiateDocumentUpload_cases)
  case refused
  then show ?thesis by simp
next
  case (ran d c normalized mediaType out)
  have "uploadsOk userMax projectMax (ap_db t)"
    using uploadsOk_requests[OF assms(3) uploadsOk_empty[OF assms(1,2)]] .
  then have "userMax \<le> activeOfUser (cx_tenantId ctx) (userId ctx) (ap_db u)"
    using stuck_requests[OF assms(5)] stuck_active assms(4) order_trans by meson
  moreover have "activeOfUser (cx_tenantId c) (userId c) (ap_db u) < userMax"
    using admit_step[OF ran(3)] assms(7) by simp
  moreover have "c = ctx" using assms(8,9) ran(1,4) by (simp add: granted_def)
  ultimately show ?thesis by simp
qed

section \<open>What an accepted upload was checked for\<close>

definition verifiedUpload ::
  "document_env \<Rightarrow> complete_input \<Rightarrow> upload_session \<Rightarrow> object_head \<Rightarrow> bytes \<Rightarrow> bool" where
  "verifiedUpload env data row head content \<longleftrightarrow> ups_status row = UP_UPLOAD_AUTHORIZED
     \<and> denv_now env \<le> ups_expiresAt row
     \<and> denv_head env (ups_storageBucket row) (ups_storageKey row) = Some head
     \<and> oh_contentLength head = ups_declaredSizeBytes row \<and> ups_declaredSizeBytes row \<noteq> 0
     \<and> (\<exists>body. denv_body env (ups_storageBucket row) (ups_storageKey row) = Some body
          \<and> getObjectBytes (denv_maxBytes env) body = Some content)
     \<and> (truthy (ups_expectedSha256 row) \<longrightarrow> ups_expectedSha256 row = Some (denv_sha env content))
     \<and> (truthy (cup_clientSha256 data) \<longrightarrow>
          map_option toLowerCase (cup_clientSha256 data) = Some (denv_sha env content))
     \<and> assertMagicMatchesPolicy content (sessionExtension (ups_intendedFilename row))
          (ups_declaredMediaType row) = Inr (ups_declaredMediaType row)"

lemma magic_declared: "assertMagicMatchesPolicy content extension expected = Inr found \<Longrightarrow> found = expected"
  by (simp add: magic_passes)

text \<open>The tables before and after, but for the sessions, the events and the deletions.\<close>

definition versionTables where
  "versionTables d = (dm_documents d, dm_versions d, dm_runs d, dm_relationships d, dm_outbox d)"

lemma decide_accepted:
  assumes "decideDuplicate env ctx data row head digest mediaType s = (Inr (Inr (CM_ACCEPTED i d v r g b)), t)"
  shows "acceptUpload env ctx data row head digest mediaType (findDuplicate ctx digest (ap_db s)) s
    = (Inr (Inr (CM_ACCEPTED i d v r g b)), t)"
  using assms
  by (auto simp: decideDuplicate_def bindH_Inr thenH_Inr split: option.splits duplicate_decision.splits)

lemma bytes_accepted:
  assumes "checkBytes env ctx data row head content s = (Inr (Inr (CM_ACCEPTED i d v r g b)), t)"
  obtains u where "versionTables (ap_db u) = versionTables (ap_db s)"
    "assertMagicMatchesPolicy content (sessionExtension (ups_intendedFilename row))
       (ups_declaredMediaType row) = Inr (ups_declaredMediaType row)"
    "truthy (ups_expectedSha256 row) \<longrightarrow> ups_expectedSha256 row = Some (denv_sha env content)"
    "truthy (cup_clientSha256 data) \<longrightarrow>
       map_option toLowerCase (cup_clientSha256 data) = Some (denv_sha env content)"
    "acceptUpload env ctx data row head (denv_sha env content) (ups_declaredMediaType row)
       (findDuplicate ctx (denv_sha env content) (ap_db u)) u = (Inr (Inr (CM_ACCEPTED i d v r g b)), t)"
proof -
  let ?magic = "assertMagicMatchesPolicy content (sessionExtension (ups_intendedFilename row)) (ups_declaredMediaType row)"
  have "\<not> (truthy (ups_expectedSha256 row) \<and> ups_expectedSha256 row \<noteq> Some (denv_sha env content))
      \<and> \<not> (truthy (cup_clientSha256 data)
          \<and> map_option toLowerCase (cup_clientSha256 data) \<noteq> Some (denv_sha env content))
      \<and> (\<exists>found x u. ?magic = Inr found
          \<and> writeIngestionEvent ctx (ups_sourceDocumentId row) None (Some (ups_id row)) None
            ''upload.checksum_verified'' (ups_correlationId row) s = (Inr x, u)
          \<and> decideDuplicate env ctx data row head (denv_sha env content) found u
            = (Inr (Inr (CM_ACCEPTED i d v r g b)), t))"
    using assms unfolding checkBytes_def Let_def
    by (cases ?magic) (auto simp: closeSession_Inr rejectBytes_def thenH_Inr bindH_Inr split: if_splits)
  then obtain found x u where *: "?magic = Inr found"
      "writeIngestionEvent ctx (ups_sourceDocumentId row) None (Some (ups_id row)) None
         ''upload.checksum_verified'' (ups_correlationId row) s = (Inr x, u)"
      "decideDuplicate env ctx data row head (denv_sha env content) found u = (Inr (Inr (CM_ACCEPTED i d v r g b)), t)"
      "truthy (ups_expectedSha256 row) \<longrightarrow> ups_expectedSha256 row = Some (denv_sha env content)"
      "truthy (cup_clientSha256 data) \<longrightarrow>
         map_option toLowerCase (cup_clientSha256 data) = Some (denv_sha env content)"
    by blast
  have "found = ups_declaredMediaType row" using *(1) by (rule magic_declared)
  moreover have "versionTables (ap_db u) = versionTables (ap_db s)"
    using *(2) by (auto simp: writeIngestionEvent_Inr versionTables_def)
  ultimately show thesis using that * decide_accepted by blast
qed

lemma object_accepted:
  assumes "checkObject env ctx data row s = (Inr (Inr (CM_ACCEPTED i d v r g b)), t)"
  obtains head content body where
    "denv_head env (ups_storageBucket row) (ups_storageKey row) = Some head"
    "oh_contentLength head = ups_declaredSizeBytes row" "ups_declaredSizeBytes row \<noteq> 0"
    "denv_body env (ups_storageBucket row) (ups_storageKey row) = Some body"
    "getObjectBytes (denv_maxBytes env) body = Some content"
    "checkBytes env ctx data row head content s = (Inr (Inr (CM_ACCEPTED i d v r g b)), t)"
  using assms unfolding checkObject_def
  by (auto simp: closeSession_Inr bindH_Inr someH_Inr split: option.splits if_splits)

lemma body_accepted:
  assumes "completeBody env data ctx s = (Inr (Inr (CM_ACCEPTED i d v r g b)), t)"
  obtains row u where "row \<in> set (dm_sessions (ap_db s))" "ups_status row = UP_UPLOAD_AUTHORIZED"
    "denv_now env \<le> ups_expiresAt row" "versionTables (ap_db u) = versionTables (ap_db s)"
    "checkObject env ctx data row u = (Inr (Inr (CM_ACCEPTED i d v r g b)), t)"
proof -
  obtain row where row: "find (\<lambda>x. ups_id x = cup_uploadSessionId data \<and> ups_tenantId x = cx_tenantId ctx
      \<and> ups_projectId x = prj_id (cx_project ctx)) (dm_sessions (ap_db s)) = Some row"
    using assms by (auto simp: completeBody_def ok_iff)
  then have "row \<in> set (dm_sessions (ap_db s))" by (auto dest: find_SomeD)
  moreover define u where "u = s\<lparr>ap_db := (ap_db s)\<lparr>dm_sessions := updateWhere (\<lambda>x. ups_id x = ups_id row)
    (\<lambda>x. x\<lparr>ups_status := UP_VALIDATING\<rparr>) (updateWhere (\<lambda>x. ups_id x = ups_id row)
    (\<lambda>x. x\<lparr>ups_status := UP_UPLOADED\<rparr>) (dm_sessions (ap_db s)))\<rparr>\<rparr>"
  have "canTransitionUploadSession (ups_status row) UP_UPLOADED \<and> denv_now env \<le> ups_expiresAt row
      \<and> checkObject env ctx data row u = (Inr (Inr (CM_ACCEPTED i d v r g b)), t)"
    using assms row unfolding u_def
    by (auto simp: completeBody_def bindH_Inr findOr_Inr thenH_Inr assertTransition_Inr updateSession_Inr
      split: if_splits)
  moreover have "versionTables (ap_db u) = versionTables (ap_db s)" by (simp add: u_def versionTables_def)
  moreover have "ups_status row = UP_UPLOAD_AUTHORIZED" if "canTransitionUploadSession (ups_status row) UP_UPLOADED"
    using that by (cases "ups_status row") (simp_all add: canTransitionUploadSession_def)
  ultimately show thesis using that by blast
qed

text \<open>
  C32: An upload is accepted only after its stored object was found with the declared size, read within
  the limit, hashed to every checksum that was given and found to be of the declared type.  Exactly
  one version is added, with that checksum, size, type and key, quarantined until its scan, and
  exactly one outbox event asks for its processing; bytes that are already accepted are reported.
\<close>

theorem accepted_upload_was_verified:
  assumes "completeDocumentUpload sp env raw s = (Inr (CM_ACCEPTED i documentId vid runId digest dup), t)"
  shows "\<exists>data row head content v ctx c. sp raw = Inr data \<and> row \<in> set (dm_sessions (ap_db s)) \<and> ups_id row = i
    \<and> verifiedUpload env data row head content \<and> digest = denv_sha env content
    \<and> dm_versions (ap_db t) = dm_versions (ap_db s) @ [v] \<and> stv_id v = vid
    \<and> stv_sourceDocumentId v = documentId \<and> stv_sha256 v = digest
    \<and> stv_sizeBytes v = ups_declaredSizeBytes row \<and> stv_mediaType v = ups_declaredMediaType row
    \<and> stv_storageKey v = ups_storageKey row \<and> stv_uploadStatus v = VU_VALIDATING
    \<and> stv_malwareScanStatus v = MW_QUEUED
    \<and> dm_outbox (ap_db t) = dm_outbox (ap_db s) @ [outboxRow ctx runId vid c]
    \<and> dm_documents (ap_db t) = updateWhere (\<lambda>x. dcm_id x = documentId)
        (\<lambda>x. x\<lparr>dcm_status := SC_QUARANTINED, dcm_currentVersionId := Some vid\<rparr>) (dm_documents (ap_db s))
    \<and> (dup \<longleftrightarrow> (\<exists>w\<in>set (dm_versions (ap_db s)). stv_tenantId w = cx_tenantId ctx
        \<and> stv_projectId w = prj_id (cx_project ctx) \<and> stv_sha256 w = digest \<and> stv_uploadStatus w = VU_ACCEPTED))"
  using assms
proof (cases rule: completeDocumentUpload_cases)
  case (ran data pid ctx s1)
  obtain row u where row: "row \<in> set (dm_sessions (ap_db s1))" "ups_status row = UP_UPLOAD_AUTHORIZED"
      "denv_now env \<le> ups_expiresAt row" "versionTables (ap_db u) = versionTables (ap_db s1)"
      "checkObject env ctx data row u = (Inr (Inr (CM_ACCEPTED i documentId vid runId digest dup)), t)"
    using body_accepted[OF ran(4)] .
  obtain head content body where object: "denv_head env (ups_storageBucket row) (ups_storageKey row) = Some head"
      "oh_contentLength head = ups_declaredSizeBytes row" "ups_declaredSizeBytes row \<noteq> 0"
      "denv_body env (ups_storageBucket row) (ups_storageKey row) = Some body"
      "getObjectBytes (denv_maxBytes env) body = Some content"
      "checkBytes env ctx data row head content u = (Inr (Inr (CM_ACCEPTED i documentId vid runId digest dup)), t)"
    using object_accepted[OF row(5)] .
  obtain w where w: "versionTables (ap_db w) = versionTables (ap_db u)"
      and bytes: "assertMagicMatchesPolicy content (sessionExtension (ups_intendedFilename row))
        (ups_declaredMediaType row) = Inr (ups_declaredMediaType row)"
      "truthy (ups_expectedSha256 row) \<longrightarrow> ups_expectedSha256 row = Some (denv_sha env content)"
      "truthy (cup_clientSha256 data) \<longrightarrow>
         map_option toLowerCase (cup_clientSha256 data) = Some (denv_sha env content)"
      and acc: "acceptUpload env ctx data row head (denv_sha env content) (ups_declaredMediaType row)
        (findDuplicate ctx (denv_sha env content) (ap_db w)) w
        = (Inr (Inr (CM_ACCEPTED i documentId vid runId digest dup)), t)"
    using bytes_accepted[OF object(6)] .
  have verified: "verifiedUpload env data row head content"
    using row(2,3) object(1-5) bytes by (auto simp: verifiedUpload_def)
  have tables: "versionTables (ap_db w) = versionTables (ap_db s)" using w row(4) ran(2) by simp
  have out: "ups_id row = i" "digest = denv_sha env content"
      "dup \<longleftrightarrow> findDuplicate ctx digest (ap_db w) \<noteq> None"
      "acceptedRows env ctx row head digest (ups_declaredMediaType row) documentId vid runId (ap_db w) (ap_db t)"
    using acceptUpload_rows[OF acc] by auto
  let ?v = "newVersion env ctx row head digest (ups_declaredMediaType row) documentId
    (nextNumber (map stv_versionNumber (filter (\<lambda>x. stv_sourceDocumentId x = documentId) (dm_versions (ap_db w))))) vid"
  obtain c where rows: "dm_versions (ap_db t) = dm_versions (ap_db w) @ [?v]"
      "dm_outbox (ap_db t) = dm_outbox (ap_db w) @ [outboxRow ctx runId vid c]"
      "dm_documents (ap_db t) = updateWhere (\<lambda>x. dcm_id x = documentId)
        (\<lambda>x. x\<lparr>dcm_status := SC_QUARANTINED, dcm_currentVersionId := Some vid\<rparr>) (dm_documents (ap_db w))"
    using out(4) unfolding acceptedRows_def by blast
  have same: "dm_versions (ap_db w) = dm_versions (ap_db s)" "dm_outbox (ap_db w) = dm_outbox (ap_db s)"
      "dm_documents (ap_db w) = dm_documents (ap_db s)"
    using tables by (simp_all add: versionTables_def)
  have known: "findDuplicate ctx digest (ap_db w) \<noteq> None \<longleftrightarrow> (\<exists>x\<in>set (dm_versions (ap_db s)).
      stv_tenantId x = cx_tenantId ctx \<and> stv_projectId x = prj_id (cx_project ctx) \<and> stv_sha256 x = digest
      \<and> stv_uploadStatus x = VU_ACCEPTED)"
    unfolding findDuplicate_def same by (auto simp: find_None_iff)
  have member: "row \<in> set (dm_sessions (ap_db s))" using row(1) ran(2) by simp
  note dup = trans[OF out(3) known]
  show ?thesis
    by (intro exI[of _ data] exI[of _ row] exI[of _ head] exI[of _ content] exI[of _ ?v] exI[of _ ctx]
        exI[of _ c] conjI ran(1) member out(1,2) verified)
      (simp_all add: rows same dup object(2) newVersion_def)
qed simp

end
