(* ===== verification/DocumentWitnesses.thy ===== *)
theory DocumentWitnesses
  imports DocumentProperties
begin

text \<open>
  Uploads that are run: one is started by the owner of the first organization, and then completed
  with its bytes, or with a checksum that is not theirs.
\<close>

section \<open>An upload of the first project\<close>

definition demo_documents :: documents_db where
  "demo_documents = \<lparr>dm_documents = [], dm_sessions = [], dm_versions = [], dm_runs = [],
     dm_relationships = [], dm_segments = [], dm_events = [], dm_outbox = [], dm_deletions = []\<rparr>"

definition demo_env_documents :: document_env where
  "demo_env_documents = \<lparr>denv_now = 0, denv_ids = (\<lambda>_ _. ''r1''), denv_uuid = ''c1'', denv_objectId = ''o1'',
     denv_sha = (\<lambda>_. ''sum''), denv_initiateRate = (\<lambda>_ _. True), denv_completeRate = (\<lambda>_. True),
     denv_retryRate = (\<lambda>_. True), denv_downloadRate = (\<lambda>_. True),
     denv_head = (\<lambda>_ _. Some \<lparr>oh_contentLength = 4, oh_etag = None\<rparr>),
     denv_body = (\<lambda>_ _. Some (Some [[137, 80, 78, 71]])),
     denv_signUpload = (\<lambda>_ _ _ _ _. Some ''url''), denv_signDownload = (\<lambda>_ _ _ _. Some ''url''),
     denv_bucket = ''b'', denv_maxBytes = 100, denv_maxActivePerUser = 1, denv_maxActivePerProject = 1,
     denv_sessionTtl = 60, denv_downloadTtl = 60\<rparr>"

definition demo_upload :: initiate_input where
  "demo_upload = \<lparr>iup_projectId = ''p1'',
     iup_metadata = \<lparr>dmt_title = ''T'', dmt_documentType = ''CONTRACT'', dmt_documentNumber = None,
       dmt_description = None, dmt_correspondenceDate = None, dmt_language = ''en'',
       dmt_confidentiality = ''INTERNAL''\<rparr>,
     iup_filename = units ''a.png'', iup_declaredMediaType = ''image/png'', iup_declaredSizeBytes = 4,
     iup_expectedSha256 = None, iup_idempotencyKey = None\<rparr>"

definition demo_session :: upload_session where
  "demo_session = \<lparr>ups_id = ''r1'', ups_tenantId = ''A'', ups_projectId = ''p1'',
     ups_initiatedByUserId = ''u1'', ups_sourceDocumentId = Some ''r1'', ups_documentVersionId = None,
     ups_intendedFilename = units ''a.png'', ups_declaredMediaType = ''image/png'', ups_declaredSizeBytes = 4,
     ups_expectedSha256 = None, ups_storageKey = ''tenants/A/projects/p1/quarantine/r1/o1'',
     ups_storageBucket = ''b'', ups_status = UP_UPLOAD_AUTHORIZED, ups_expiresAt = 60000,
     ups_completedAt = None, ups_failureCode = None, ups_failureDetailSafe = None,
     ups_idempotencyKey = None, ups_correlationId = Some ''c1''\<rparr>"

lemma demo_document_granted:
  assumes "ap_web s = demo_state\<lparr>audit_log := l\<rparr>"
  shows "granted s ''p1'' (DocumentCap c_document_create) demo_ctx"
proof -
  have "DocumentCap c_document_create \<in> resolveCapabilities TENANT_OWNER None (Some P_ACTIVE)"
    by (simp add: mem_resolve capabilitiesForTenantRole_def CAPABILITIES_def
      MUTATING_PROJECT_CAPABILITIES_def DOCUMENT_MANAGE_def DOCUMENT_CONTRIBUTE_def DOCUMENT_READ_def)
  then show ?thesis using assms by (rule demo_granted)
qed

lemma demo_policy:
  "validateDeclaredUpload (units ''a.png'') ''image/png'' 4 (Some 100)
   = FP_OK (units ''a.png'') (units ''png'') ''image/png''"
proof -
  have name: "normalizeFilename [97, 46, 112, 110, 103] = [97, 46, 112, 110, 103]"
    by (simp add: normalizeFilename_def trimUnits_def baseName_def spaceUnit_def controlUnit_def
      separatorUnit_def)
  have extension: "extractExtension [97, 46, 112, 110, 103] = [112, 110, 103]"
    by (simp add: extractExtension_def name lastDot_def lowerText_def lowerUnit_def)
  show ?thesis
    by (simp add: validateDeclaredUpload_def assertSafeFilename_def units_ascii name extension
      declaredType_def mediaTypeOf_def EXTENSION_MEDIA_TYPE_def declaredTypeOk_def maxUploadBytes_def
      trimUnits_def spaceUnit_def hasDoubleDot_successively plainUnits_def Let_def DANGEROUS_EXTENSIONS_def)
qed

lemma demo_key:
  "buildQuarantineObjectKey ''o1'' ''A'' ''p1'' ''r1'' = Some ''tenants/A/projects/p1/quarantine/r1/o1''"
  by code_simp

lemma demo_document_rows [simp]:
  "dm_sessions demo_documents = []" "dm_deletions demo_documents = []" "dm_documents demo_documents = []"
  "dm_versions demo_documents = []" "dm_runs demo_documents = []" "dm_outbox demo_documents = []"
  "prj_id (cx_project demo_ctx) = ''p1''" "prj_status (cx_project demo_ctx) = P_ACTIVE"
  by (simp_all add: demo_documents_def demo_context_def demo_project_def)

lemma demo_app_parts [simp]: "ap_web (demo_app d) = demo_state" "ap_db (demo_app d) = d"
  by (simp_all add: demo_app_def)

lemma demo_new_session:
  "newSession demo_env_documents demo_ctx demo_upload (units ''a.png'') ''image/png'' ''r1''
     ''tenants/A/projects/p1/quarantine/r1/o1'' ''r1'' = demo_session"
  by (simp add: newSession_def demo_env_documents_def demo_upload_def demo_session_def)

lemma demo_initiate:
  "\<exists>x t. initiateDocumentUpload (\<lambda>_. Inr demo_upload) demo_env_documents raw (demo_app demo_documents) = (Inr x, t)
     \<and> ap_web t = demo_state\<lparr>audit_log := audit_log (ap_web t)\<rparr> \<and> dm_sessions (ap_db t) = [demo_session]
     \<and> dm_documents (ap_db t) = [newDocument demo_env_documents demo_ctx (iup_metadata demo_upload) ''r1'']
     \<and> dm_versions (ap_db t) = [] \<and> dm_runs (ap_db t) = [] \<and> dm_outbox (ap_db t) = []
     \<and> dm_deletions (ap_db t) = []"
proof -
  have "granted (demo_app demo_documents) ''p1'' (DocumentCap c_document_create) demo_ctx"
    by (rule demo_document_granted[where l = "[]"]) (simp add: demo_app_def demo_state_def)
  then have access: "accessP ''p1'' (DocumentCap c_document_create) (demo_app demo_documents)
      = (Inr demo_ctx, demo_app demo_documents)" by (simp add: granted_def)
  have input [simp]: "iup_projectId demo_upload = ''p1''" "iup_filename demo_upload = units ''a.png''"
      "iup_declaredMediaType demo_upload = ''image/png''" "iup_declaredSizeBytes demo_upload = 4"
      "iup_idempotencyKey demo_upload = None"
    by (simp_all add: demo_upload_def)
  have env [simp]: "denv_initiateRate demo_env_documents a b" "denv_maxBytes demo_env_documents = 100"
      "denv_maxActivePerUser demo_env_documents = 1" "denv_maxActivePerProject demo_env_documents = 1"
      "denv_ids demo_env_documents k n = ''r1''" "denv_objectId demo_env_documents = ''o1''"
      "denv_signUpload demo_env_documents c1 c2 c3 c4 c5 = Some ''url''" for a b k n c1 c2 c3 c4 c5
    by (simp_all add: demo_env_documents_def)
  show ?thesis
    by (simp add: initiateDocumentUpload_def parseH_def bindH_def thenH_def access policyH_def demo_policy
      transactionH_def admitUpload_def activeOfUser_def activeOfProject_def startUpload_def createRow_def
      someH_def demo_key demo_new_session createSession_def Let_def writeIngestionEvent_def newDocument_def)
qed

section \<open>Its completion\<close>

lemma demo_membership:
  assumes "ap_web s = demo_state\<lparr>audit_log := l\<rparr>"
  shows "\<exists>c. onApp (requireTenantMembership None) s = (Inr c, s) \<and> cx_tenantId c = ''A''
    \<and> su_id (cx_user c) = ''u1''"
  by (simp add: onApp_def zoomH_def assms requireTenantMembership_def bindH_def requireAuthenticatedUser_def
    resolveMembership_def findTenantMembership_def Let_def demo_defs)

definition demo_authorizedUpload :: "documents_db app_state \<Rightarrow> bool" where
  "demo_authorizedUpload s \<longleftrightarrow> ap_web s = demo_state\<lparr>audit_log := audit_log (ap_web s)\<rparr>
     \<and> dm_sessions (ap_db s) = [demo_session]
     \<and> dm_documents (ap_db s) = [newDocument demo_env_documents demo_ctx (iup_metadata demo_upload) ''r1'']
     \<and> dm_versions (ap_db s) = [] \<and> dm_runs (ap_db s) = [] \<and> dm_outbox (ap_db s) = []
     \<and> dm_deletions (ap_db s) = []"

lemma demo_session_simps [simp]:
  "ups_id demo_session = ''r1''" "ups_tenantId demo_session = ''A''" "ups_projectId demo_session = ''p1''"
  "ups_initiatedByUserId demo_session = ''u1''" "ups_status demo_session = UP_UPLOAD_AUTHORIZED"
  "ups_sourceDocumentId demo_session = Some ''r1''" "ups_expiresAt demo_session = 60000"
  "ups_declaredSizeBytes demo_session = 4" "ups_declaredMediaType demo_session = ''image/png''"
  "ups_expectedSha256 demo_session = None" "ups_intendedFilename demo_session = units ''a.png''"
  "ups_documentVersionId demo_session = None" "ups_correlationId demo_session = Some ''c1''"
  by (simp_all add: demo_session_def)

lemma demo_env_simps [simp]:
  "denv_now demo_env_documents = 0" "denv_head demo_env_documents a b = Some \<lparr>oh_contentLength = 4, oh_etag = None\<rparr>"
  "denv_body demo_env_documents a b = Some (Some [[137, 80, 78, 71]])" "denv_maxBytes demo_env_documents = 100"
  "denv_sha demo_env_documents x = ''sum''" "denv_completeRate demo_env_documents u"
  "denv_ids demo_env_documents k n = ''r1''"
  by (simp_all add: demo_env_documents_def)

lemma demo_completion:
  assumes "demo_authorizedUpload s"
  shows "completeDocumentUpload (\<lambda>_. Inr data) demo_env_documents raw s =
    (if cup_uploadSessionId data = ''r1'' then
       bindH (transactionH (completeBody demo_env_documents data demo_ctx)) (\<lambda>outcome. case outcome of
         Inl e \<Rightarrow> throwH e | Inr v \<Rightarrow> returnH v) s
     else (Inl notFound, s))"
proof -
  note web = assms[unfolded demo_authorizedUpload_def, THEN conjunct1]
  obtain c where c: "onApp (requireTenantMembership None) s = (Inr c, s)" "cx_tenantId c = ''A''"
      "su_id (cx_user c) = ''u1''"
    using demo_membership[OF web] by blast
  have "accessP ''p1'' (DocumentCap c_document_create) s = (Inr demo_ctx, s)"
    using demo_document_granted[OF web] by (simp add: granted_def)
  moreover have "dm_sessions (ap_db s) = [demo_session]" using assms by (simp add: demo_authorizedUpload_def)
  ultimately show ?thesis
    by (simp add: completeDocumentUpload_def parseH_def bindH_def thenH_def ownSessionProject_def c
      transactionH_def findOr_def)
qed

lemma demo_wrong_checksum:
  assumes "demo_authorizedUpload s"
  shows "\<exists>e t. completeDocumentUpload (\<lambda>_. Inr \<lparr>cup_uploadSessionId = ''r1'', cup_clientSha256 = Some ''x'',
      cup_duplicateDecision = None\<rparr>) demo_env_documents raw s = (Inl e, t)
    \<and> ap_web t = demo_state\<lparr>audit_log := audit_log (ap_web t)\<rparr>
    \<and> dm_sessions (ap_db t) = [demo_session\<lparr>ups_status := UP_VALIDATING\<rparr>]"
proof -
  have "toLowerCase ''x'' = ''x''" by code_simp
  then show ?thesis
    using assms
    by (simp add: demo_completion completeBody_def bindH_def thenH_def findOr_def demo_authorizedUpload_def
      assertUploadSessionTransition_def canTransitionUploadSession_def updateSession_def checkObject_def
      someH_def getObjectBytes_def checkBytes_def truthy_def transactionH_def)
qed

lemma demo_content:
  "sessionExtension (units ''a.png'') = units ''png''"
  "assertMagicMatchesPolicy [137, 80, 78, 71] (units ''png'') ''image/png'' = Inr ''image/png''"
proof -
  show "sessionExtension (units ''a.png'') = units ''png''"
    by (simp add: sessionExtension_def units_ascii lastDot_def lowerText_def lowerUnit_def)
  show "assertMagicMatchesPolicy [137, 80, 78, 71] (units ''png'') ''image/png'' = Inr ''image/png''"
    by (simp add: magic_from_signature magic_of_image contentFrom_def signature_cases beginsWith_def
      DOCX_TYPE_def XLSX_TYPE_def)
qed

definition demo_completed :: complete_input where
  "demo_completed = \<lparr>cup_uploadSessionId = ''r1'', cup_clientSha256 = None, cup_duplicateDecision = None\<rparr>"

lemma demo_accepted:
  assumes "demo_authorizedUpload s"
  shows "\<exists>t. completeDocumentUpload (\<lambda>_. Inr demo_completed) demo_env_documents raw s
      = (Inr (CM_ACCEPTED ''r1'' ''r1'' ''r1'' ''r1'' ''sum'' False), t)
    \<and> dm_deletions (ap_db t) = []
    \<and> dm_sessions (ap_db t) = [demo_session\<lparr>ups_status := UP_ACCEPTED, ups_completedAt := Some 0,
         ups_documentVersionId := Some ''r1''\<rparr>]"
  using assms
  by (simp add: demo_completion demo_completed_def completeBody_def bindH_def thenH_def findOr_def demo_authorizedUpload_def
      assertUploadSessionTransition_def canTransitionUploadSession_def updateSession_def checkObject_def
      someH_def getObjectBytes_def checkBytes_def truthy_def transactionH_def demo_content
      writeIngestionEvent_def decideDuplicate_def findDuplicate_def acceptUpload_def createVersion_def newVersion_def
      newDocument_def assertSourceDocumentTransition_def canTransitionSourceDocument_def createRun_def createRow_def
      newProcessingRun_def writeProcessDocumentOutbox_def nextNumber_def Let_def)

section \<open>The properties at these uploads\<close>

text \<open>The state once the upload is authorized, and a completion that leaves it \<open>VALIDATING\<close>.\<close>

lemma demo_initiated:
  obtains t where "document_request 1 1 (demo_app demo_documents) t" "demo_authorizedUpload t"
proof -
  obtain x t where run: "initiateDocumentUpload (\<lambda>_. Inr demo_upload) demo_env_documents ''{}'' (demo_app demo_documents)
      = (Inr x, t)" and t: "demo_authorizedUpload t"
    using demo_initiate[of "''{}''"] unfolding demo_authorizedUpload_def by blast
  have "document_request 1 1 (demo_app demo_documents) t"
    by (rule document_request.intros(1)[OF run]) (simp_all add: demo_env_documents_def)
  then show thesis using t by (rule that)
qed

lemma active_uploads_bounded_witness:
  "\<exists>t. (document_request 1 1)\<^sup>*\<^sup>* (demo_app demo_documents) t \<and> dm_sessions (ap_db t) = [demo_session]
     \<and> activeOfUser ''A'' ''u1'' (ap_db t) = 1"
proof -
  obtain t where t: "document_request 1 1 (demo_app demo_documents) t" "demo_authorizedUpload t"
    by (rule demo_initiated)
  have reach: "(document_request 1 1)\<^sup>*\<^sup>* (demo_app demo_documents) t" using t(1) by (rule r_into_rtranclp)
  have rows: "dm_sessions (ap_db t) = [demo_session]" using t(2) by (simp add: demo_authorizedUpload_def)
  have "activeOfUser ''A'' ''u1'' (ap_db t) \<le> 1"
    using active_uploads_bounded[OF reach, of "''A''" "''u1''"] by simp
  moreover have "1 \<le> activeOfUser ''A'' ''u1'' (ap_db t)"
    by (simp add: activeOfUser_def rows ACTIVE_UPLOAD_STATUSES_def)
  ultimately show ?thesis using reach rows by (intro exI[of _ t]) simp
qed

lemma accepted_upload_was_verified_witness:
  "\<exists>s t v. completeDocumentUpload (\<lambda>_. Inr demo_completed) demo_env_documents ''{}'' s
       = (Inr (CM_ACCEPTED ''r1'' ''r1'' ''r1'' ''r1'' ''sum'' False), t)
     \<and> dm_versions (ap_db t) = dm_versions (ap_db s) @ [v] \<and> stv_sha256 v = ''sum''
     \<and> stv_malwareScanStatus v = MW_QUEUED"
proof -
  obtain s where s: "demo_authorizedUpload s" by (rule demo_initiated)
  obtain t where run: "completeDocumentUpload (\<lambda>_. Inr demo_completed) demo_env_documents ''{}'' s
       = (Inr (CM_ACCEPTED ''r1'' ''r1'' ''r1'' ''r1'' ''sum'' False), t)"
    using demo_accepted[OF s, of "''{}''"] by blast
  show ?thesis using accepted_upload_was_verified[OF run] run by blast
qed

lemma stuck_uploads_lock_out_witness:
  "\<exists>t v e. (document_request 1 1)\<^sup>*\<^sup>* (demo_app demo_documents) t
     \<and> initiateDocumentUpload (\<lambda>_. Inr demo_upload) demo_env_documents ''{}'' t = (Inl e, v)"
proof -
  obtain s where s: "document_request 1 1 (demo_app demo_documents) s" "demo_authorizedUpload s"
    by (rule demo_initiated)
  obtain e t where run: "completeDocumentUpload (\<lambda>_. Inr \<lparr>cup_uploadSessionId = ''r1'', cup_clientSha256 = Some ''x'',
      cup_duplicateDecision = None\<rparr>) demo_env_documents ''{}'' s = (Inl e, t)"
    and t: "ap_web t = demo_state\<lparr>audit_log := audit_log (ap_web t)\<rparr>"
      "dm_sessions (ap_db t) = [demo_session\<lparr>ups_status := UP_VALIDATING\<rparr>]"
    using demo_wrong_checksum[OF s(2), of "''{}''"] by blast
  have reach: "(document_request 1 1)\<^sup>*\<^sup>* (demo_app demo_documents) t"
    using s(1) document_request.intros(2)[OF run] by (meson rtranclp.rtrancl_into_rtrancl r_into_rtranclp)
  have stuck: "1 \<le> stuckOf (cx_tenantId demo_ctx) (userId demo_ctx) (ap_db t)"
    by (simp add: stuckOf_def t(2) demo_context_def demo_defs userId_def)
  have access: "granted t (iup_projectId demo_upload) (DocumentCap c_document_create) demo_ctx"
    using demo_document_granted[OF t(1)] by (simp add: demo_upload_def)
  obtain r v where again: "initiateDocumentUpload (\<lambda>_. Inr demo_upload) demo_env_documents ''{}'' t = (r, v)"
    by force
  have "\<exists>e. r = Inl e"
    using stuck_uploads_lock_out[OF _ _ reach stuck rtranclp.rtrancl_refl again _ refl access]
    by (simp add: demo_env_documents_def)
  then show ?thesis using reach again by blast
qed

end
