(* ===== verification/Spec2Isabelle.thy ===== *)
theory Spec2Isabelle
  imports PlatformAdmin PlatformRelease DispatchProperties NoticeWitnesses ContractProperties DocumentWitnesses
begin

text \<open>
  ContractRadar is a multi-tenant web application for construction contracts: it holds the documents
  of a project, a human approves the notice rules found in them, a deterministic engine computes
  notice deadlines from confirmed events, and notices are drafted, approved and dispatched under
  segregation of duties.  This library models its core in Isabelle/HOL, translated from the
  TypeScript under \<open>src/\<close>, and proves what the code guarantees and where it does not keep
  its promises.

  \<^bold>\<open>How the program hangs together.\<close>  A route of \<open>apps/web/src/app\<close> calls one
  function of \<open>apps/web/src/server/services\<close>.  The function asks \<open>server/authz\<close> for a
  context (session user, membership, project, capabilities; a denial is audited), parses the body
  with a zod schema, and runs one database transaction that reads rows, checks its guards, writes
  rows and an audit entry.  A guard throws an \<open>AppError\<close>; the throw undoes the transaction.
  The rules themselves are pure functions of \<open>packages\<close>, which the services call.

  \<^bold>\<open>How it is modelled.\<close>  A service function is a handler, a function from the state to an
  error or value and the state it leaves (\<open>Handler\<close>: \<open>bindH\<close>, \<open>throwH\<close>,
  \<open>transactionH\<close>).  A table is a list of records in the order of creation; a row has the
  columns its service reads or writes.  An id, a time, a parsed body, a digest and the text of a JSON
  value or a date come from outside, so they are parameters: generated ids are arguments (the step
  relations demand that they are fresh), the clock and \<open>Date.parse\<close> are fields of an
  environment record, zod schemas are functions from the raw body to issues or a record, SHA-256 and
  \<open>JSON.stringify\<close> are functions, and Luxon's \<open>DateTime\<close> is the record \<open>luxon\<close>.
  No law of a parameter is assumed unless a theorem names it.  An exception that is no
  \<open>AppError\<close> (a Prisma error, a missing row of \<open>findFirstOrThrow\<close>) is
  \<open>unexpectedError\<close>, what the route answers for it.

  \<^bold>\<open>The theories.\<close>
  \<^item> \<open>Prelude\<close>: results, tables as lists (\<open>updateWhere\<close>), strings, the collection
    \<open>ok_iff\<close> that turns a successful run into the guards it passed.
  \<^item> \<open>Handler\<close>: \<open>errors.ts\<close>, \<open>db/tenant-context.ts\<close>, composition, and the
    locale \<open>stable\<close> that carries a relation through every composition.
  \<^item> \<open>Authz\<close>: \<open>packages/authz\<close>, roles, capabilities and their resolution.
  \<^item> \<open>AccessControl\<close>, \<open>ProjectService\<close>: \<open>authz/context.ts\<close>,
    \<open>services/projects.ts\<close> and \<open>services/tenants.ts\<close>; tenant isolation as
    non-interference (\<open>agreeOn\<close> relates states that one organization cannot tell apart),
    well-formed tables, archived projects, member assignment.
  \<^item> \<open>PlatformDomain\<close>, \<open>PlatformRelease\<close>, \<open>PlatformAdmin\<close>:
    \<open>packages/platform\<close> and \<open>services/platform.ts\<close>; release gates, redaction, alert
    deduplication, invitations, support access, limits, pilot readiness.
  \<^item> \<open>DeadlineEngine\<close>, \<open>DeadlineProperties\<close>:
    \<open>packages/contract-rules/src/deadline-engine.ts\<close>; the whole calculation with its trace, the
    day its loops stop on, and the calculation against a description of its result
    (\<open>calculable\<close>, \<open>finalDay\<close>) that names no step of the code.
  \<^item> \<open>Services\<close>: the frame of a project service (capability, body, transaction) over the
    service's own tables, and the locale \<open>tables_relation\<close> for what its requests keep.
  \<^item> \<open>DeadlineService\<close>, \<open>DeadlineTracking\<close>: \<open>services/deadlines.ts\<close>.  The
    abstract machine \<open>table_step\<close> is refined by every request (\<open>deadline_request\<close>);
    its invariants say that stored calculations can be repeated, that verification is by another
    person, that a calendar has one approved revision and a calculation one live deadline.
  \<^item> \<open>NoticeDelivery\<close>: \<open>packages/notice-delivery\<close>; statuses, keys and checksums, the
    HTML sanitizer, delivery risk, deemed receipt, the providers.
  \<^item> \<open>DeliveryService\<close>, \<open>DispatchProperties\<close>: \<open>services/notice-delivery.ts\<close>.
    The abstract machine \<open>gate_step\<close> of snapshots, authorizations, attempts and receipts is
    refined by every request (\<open>delivery_step\<close>); each request has a clock and an environment of its
    own, with one switch for the segregation of duties, and each notice package a switch besides.
  \<^item> \<open>JsText\<close>: UTF-8 bytes as UTF-16 code units and regular expressions with a matcher that
    is proved equal to the relation \<open>rxMatch\<close>.
  \<^item> \<open>NoticeRules\<close>, \<open>NoticeExport\<close>, \<open>NoticeDrafting\<close>:
    \<open>packages/notice-drafting\<close>; the evidence assessment, the draft in both languages, its
    validation, the checks on a model's draft, and the PDF, DOCX and ZIP files byte for byte, with a
    reader that gets the files of an archive back.
  \<^item> \<open>NoticeTables\<close>, \<open>NoticeService\<close>: \<open>services/notices.ts\<close> and
    \<open>notices/ai-provider.ts\<close> with the triggers on approved revisions.
  \<^item> \<open>NoticeTracking\<close>, \<open>NoticeProperties\<close>, \<open>NoticeWitnesses\<close>: the
    abstract machine \<open>package_step\<close> of packages, revisions, sections and decisions, refined by
    every request (\<open>notice_request\<close>), its invariant \<open>noticeInv\<close>, what the service
    promises, and an organization where it all happens.
  \<^item> \<open>ContractText\<close>: \<open>packages/contract-rules/src/index.ts\<close> and
    \<open>contracts/structure-extract.ts\<close>; durations, clause numbers, cross-references, and the
    extraction of clauses, timing, terms and parties, with what a match of their patterns takes.
  \<^item> \<open>ContractTables\<close>, \<open>ContractService\<close>, \<open>ContractAnalysis\<close>:
    \<open>services/contracts.ts\<close> and \<open>contracts/ai-provider.ts\<close> with the triggers on
    configuration revisions; the structure analysis is a handler over the extraction.
  \<^item> \<open>ContractTracking\<close>, \<open>ContractProperties\<close>: the abstract machine
    \<open>config_step\<close> of packages, revisions, notice rules and snapshots, refined by every request
    (\<open>contract_request\<close>), its invariant \<open>configOk\<close>, and what the deadline engine makes
    of the rules that were approved.
  \<^item> \<open>DocumentRules\<close>: \<open>server/documents\<close>; status transitions, file names, the
    policy on declared uploads, signatures, storage keys.
  \<^item> \<open>DocumentTables\<close>, \<open>DocumentService\<close>: \<open>services/documents.ts\<close> with
    the ingestion events and the outbox; what the object store, the rate limiter and the clock answer
    during a request is the record \<open>document_env\<close>.
  \<^item> \<open>DocumentFacts\<close>, \<open>DocumentTracking\<close>, \<open>DocumentProperties\<close>,
    \<open>DocumentWitnesses\<close>: which bytes pass as which type and which keys may be deleted; the abstract
    machine \<open>upload_step\<close> of upload sessions and deletions, refined by every request
    (\<open>document_request\<close>); the bounds on active uploads, what an accepted upload was checked for, that
    accepted files are not deleted, and how uploads get stuck.  The operator's script
    \<open>reconcile-ingestion.ts\<close>, which expires sessions, is no request of the service.

  \<^bold>\<open>Bounds.\<close>  The loops of the program carry guards of their own, which are the fuel of the
  model: 5000 steps of \<open>addBusinessDays\<close>, 370 of \<open>adjustNonWorking\<close>, 14 of the search for
  the next working day.  What happens when a guard runs out is part of the properties.  Numbers are
  unbounded integers or rationals: the program adds and compares counts, days and milliseconds far
  below \<open>2^53\<close>.  Characters beyond ASCII are their UTF-8 bytes, and case conversion and
  \<open>trim\<close> are those of ASCII; where lengths and regular expressions count code units
  (\<open>NoticeExport\<close>, \<open>NoticeRules\<close>) the texts are decoded first.  The CRC-32 is
  computed on 32-bit words.  A notice period must fit the column \<open>numeric(12,4)\<close>.

  \<^bold>\<open>Not modelled.\<close>  Row-level security of the database, save where a model says that an
  update sees the rows of the organization only; the metadata of audit entries; the counts and
  included rows of queries that only go to a page; \<open>assertNoAutonomousResend\<close>, which passes;
  better-auth and the rate limiter (the session is a field of the state); routes, pages, queue, object
  storage (but for the buffering of an object), health checks and workers.  The services for
  detections, connectors and operations with the packages they call are outside this library: they
  are synchronisation and reporting around the core that is modelled, and no property stated here
  depends on them beyond the rows they write, which the step relations admit as changes of other
  tables.
\<close>

end
